(* ===== verification/NetText.thy ===== *)
theory NetText
  imports NetIP
begin

text \<open>
  The text forms of \<^verbatim>\<open>net/netip\<close> (standard library): \<^verbatim>\<open>ParseAddr\<close>,
  \<^verbatim>\<open>ParsePrefix\<close>, \<^verbatim>\<open>Addr.String\<close> and \<^verbatim>\<open>Prefix.String\<close>, written after the
  library's own loops (dotted quads without leading zeros, hexadecimal groups
  with one ellipsis and an optional embedded quad, zones, no sign or leading zero
  in the prefix length).  The parser reads back what the printer writes, for
  every valid prefix of either family.
\<close>

section \<open>IPv4\<close>

definition parse_octet :: "string \<Rightarrow> nat option" where
  "parse_octet s =
     (if s = [] \<or> \<not> list_all is_digit s then None
      else if 1 < length s \<and> hd s = CHR ''0'' then None
      else if 255 < dec_val s then None
      else Some (dec_val s))"

definition parse_quad :: "string \<Rightarrow> nat list option" where
  "parse_quad s =
     (let os = map parse_octet (split_on CHR ''.'' s)
      in if length os = 4 \<and> None \<notin> set os then Some (map the os) else None)"

definition quad_val :: "nat list \<Rightarrow> nat" where
  "quad_val os = foldl (\<lambda>acc b. acc * 256 + b) 0 os"

definition quad_string :: "nat \<Rightarrow> string" where
  "quad_string v =
     join_with CHR ''.''
       (map dec [v div 2 ^ 24 mod 256, v div 2 ^ 16 mod 256, v div 2 ^ 8 mod 256, v mod 256])"

lemma parse_octet_dec [simp]: "n < 256 \<Longrightarrow> parse_octet (dec n) = Some n"
proof -
  assume n: "n < 256"
  have "\<not> (1 < length (dec n) \<and> hd (dec n) = CHR ''0'')"
  proof
    assume a: "1 < length (dec n) \<and> hd (dec n) = CHR ''0''"
    then have "n < 10" by (simp add: dec_hd_zero)
    then have "dec n = [digit_char n]" by (subst dec.simps) simp
    with a show False by simp
  qed
  then show ?thesis using n by (simp add: parse_octet_def)
qed

lemma parse_quad_join:
  "\<lbrakk>a < 256; b < 256; c < 256; d < 256\<rbrakk> \<Longrightarrow>
   parse_quad (join_with CHR ''.'' (map dec [a, b, c, d])) = Some [a, b, c, d]"
  unfolding parse_quad_def by (subst split_on_join) simp_all

lemma parse_quad_string:
  "parse_quad (quad_string v)
     = Some [v div 2 ^ 24 mod 256, v div 2 ^ 16 mod 256, v div 2 ^ 8 mod 256, v mod 256]"
  unfolding quad_string_def by (rule parse_quad_join) simp_all

lemma base_step: "(v::nat) div (k * b) * b + v div k mod b = v div k"
  by (simp add: div_mult2_eq)

lemma quad_val_bytes:
  "v < 2 ^ 32 \<Longrightarrow>
   quad_val [v div 2 ^ 24 mod 256, v div 2 ^ 16 mod 256, v div 2 ^ 8 mod 256, v mod 256] = v"
  using base_step[of v "2 ^ 16" 256] base_step[of v "2 ^ 8" 256] base_step[of v 1 256]
  by (simp add: quad_val_def)

section \<open>IPv6\<close>

definition is_hex :: "char \<Rightarrow> bool" where
  "is_hex c \<longleftrightarrow> is_digit c \<or> (CHR ''a'' \<le> c \<and> c \<le> CHR ''f'') \<or> (CHR ''A'' \<le> c \<and> c \<le> CHR ''F'')"

definition hex_digit_val :: "char \<Rightarrow> nat" where
  "hex_digit_val c =
     (if is_digit c then digit_val c
      else if CHR ''a'' \<le> c then of_char c - 97 + 10 else of_char c - 65 + 10)"

definition hex_val :: "string \<Rightarrow> nat" where
  "hex_val s = foldl (\<lambda>acc c. acc * 16 + hex_digit_val c) 0 s"

definition hex_char :: "nat \<Rightarrow> char" where
  "hex_char d = (if d < 10 then digit_char d else char_of (d + 87))"

fun hexs :: "nat \<Rightarrow> string" where
  "hexs n = (if n < 16 then [hex_char n] else hexs (n div 16) @ [hex_char (n mod 16)])"

declare hexs.simps [simp del]

text \<open>
  The loop of \<^verbatim>\<open>parseIPv6\<close>: \<open>acc\<close> are the groups read, \<open>ell\<close> the position of the
  ellipsis among them.
\<close>

function parse_groups :: "string \<Rightarrow> nat list \<Rightarrow> nat option \<Rightarrow> (nat list \<times> nat option) option" where
  "parse_groups s acc ell =
     (if 8 \<le> length acc then (if s = [] then Some (acc, ell) else None)
      else let h = takeWhile is_hex s; r = dropWhile is_hex s in
        if h = [] \<or> 4 < length h then None
        else if r \<noteq> [] \<and> hd r = CHR ''.'' then
          (if (ell = None \<and> length acc \<noteq> 6) \<or> 8 < length acc + 2 then None
           else (case parse_quad s of
                   None \<Rightarrow> None
                 | Some q \<Rightarrow>
                     Some (acc @ [q ! 0 * 256 + q ! 1, q ! 2 * 256 + q ! 3], ell)))
        else let acc' = acc @ [hex_val h] in
          (case r of
             [] \<Rightarrow> Some (acc', ell)
           | c # r' \<Rightarrow>
               if c \<noteq> CHR '':'' \<or> r' = [] then None
               else if hd r' = CHR '':'' then
                 (if ell \<noteq> None then None
                  else if tl r' = [] then Some (acc', Some (length acc'))
                  else parse_groups (tl r') acc' (Some (length acc')))
               else parse_groups r' acc' ell))"
  by pat_completeness auto
termination by (relation "measure (\<lambda>(s, acc, ell). 8 - length acc)") auto

declare parse_groups.simps [simp del]

definition groups_val :: "nat list \<Rightarrow> nat" where
  "groups_val gs = foldl (\<lambda>acc g. acc * 65536 + g) 0 gs"

definition expand_groups :: "nat list \<times> nat option \<Rightarrow> nat list option" where
  "expand_groups r =
     (case r of
        (gs, None) \<Rightarrow> (if length gs < 8 then None else Some gs)
      | (gs, Some e) \<Rightarrow>
          (if length gs < 8 then Some (take e gs @ replicate (8 - length gs) 0 @ drop e gs)
           else None))"

definition parse_v6_groups :: "string \<Rightarrow> nat list option" where
  "parse_v6_groups s =
     (if has_prefix s ''::'' then
        (if drop 2 s = [] then Some (replicate 8 0)
         else Option.bind (parse_groups (drop 2 s) [] (Some 0)) expand_groups)
      else Option.bind (parse_groups s [] None) expand_groups)"

definition parse_v6 :: "string \<Rightarrow> addr option" where
  "parse_v6 s =
     (let body = takeWhile (\<lambda>c. c \<noteq> CHR ''%'') s;
          z = tl (dropWhile (\<lambda>c. c \<noteq> CHR ''%'') s)
      in if CHR ''%'' \<in> set s \<and> z = [] then None
         else map_option (\<lambda>gs. \<lparr>fam = V6, val = groups_val gs, zone = z\<rparr>)
                (parse_v6_groups body))"

text \<open>\<^verbatim>\<open>ParseAddr\<close> looks for the first separator.\<close>

definition ParseAddr :: "string \<Rightarrow> addr option" where
  "ParseAddr s =
     (case dropWhile (\<lambda>c. c \<noteq> CHR ''.'' \<and> c \<noteq> CHR '':'' \<and> c \<noteq> CHR ''%'') s of
        [] \<Rightarrow> None
      | c # _ \<Rightarrow>
          if c = CHR ''.'' then map_option (\<lambda>q. mk_addr V4 (quad_val q)) (parse_quad s)
          else if c = CHR '':'' then parse_v6 s
          else None)"

definition parse_bits :: "string \<Rightarrow> nat option" where
  "parse_bits s =
     (if s = [] \<or> \<not> list_all is_digit s then None
      else if 1 < length s \<and> hd s = CHR ''0'' then None
      else Some (dec_val s))"

text \<open>\<^verbatim>\<open>ParsePrefix\<close>: the text after the last slash is the length.\<close>

definition ParsePrefix :: "string \<Rightarrow> prefix option" where
  "ParsePrefix s =
     (if CHR ''/'' \<notin> set s then None
      else let b = rev (takeWhile (\<lambda>c. c \<noteq> CHR ''/'') (rev s));
               a = take (length s - Suc (length b)) s
        in case (ParseAddr a, parse_bits b) of
             (Some ip, Some n) \<Rightarrow>
               if zone ip \<noteq> [] \<or> BitLen ip < n then None else Some (PrefixFrom ip n)
           | _ \<Rightarrow> None)"

definition groups_of :: "nat \<Rightarrow> nat list" where
  "groups_of v = map (\<lambda>i. v div 65536 ^ (7 - i) mod 65536) [0..<8]"

text \<open>The first longest run of at least two zero groups, as \<^verbatim>\<open>appendTo6\<close> finds it.\<close>

definition zeros_from :: "nat list \<Rightarrow> nat \<Rightarrow> nat" where
  "zeros_from gs i = length (takeWhile (\<lambda>g. g = 0) (drop i gs))"

definition zero_step :: "nat list \<Rightarrow> (nat \<times> nat) option \<Rightarrow> nat \<Rightarrow> (nat \<times> nat) option" where
  "zero_step gs best i =
     (let l = zeros_from gs i; cur = (case best of None \<Rightarrow> 0 | Some (a, b) \<Rightarrow> b - a)
      in if 2 \<le> l \<and> cur < l then Some (i, i + l) else best)"

definition zero_run :: "nat list \<Rightarrow> (nat \<times> nat) option" where
  "zero_run gs = foldl (zero_step gs) None [0..<8]"

definition groups_string :: "nat list \<Rightarrow> string" where
  "groups_string gs =
     (case zero_run gs of
        None \<Rightarrow> join_with CHR '':'' (map hexs gs)
      | Some (a, b) \<Rightarrow>
          join_with CHR '':'' (map hexs (take a gs)) @ ''::''
            @ join_with CHR '':'' (map hexs (drop b gs)))"

definition Is4In6 :: "nat \<Rightarrow> bool" where
  "Is4In6 v \<longleftrightarrow> v div 2 ^ 32 = 65535"

definition addr_string :: "addr \<Rightarrow> string" where
  "addr_string a =
     (case fam a of
        V4 \<Rightarrow> quad_string (val a)
      | V6 \<Rightarrow>
          (if Is4In6 (val a) then ''::ffff:'' @ quad_string (val a mod 2 ^ 32)
           else groups_string (groups_of (val a)))
          @ (if zone a = [] then [] else CHR ''%'' # zone a))"

definition prefix_string :: "prefix \<Rightarrow> string" where
  "prefix_string p = addr_string (paddr p) @ CHR ''/'' # dec (plen p)"

section \<open>The parser inverts the printer\<close>

lemma hex_char_simps [simp]:
  "d < 16 \<Longrightarrow> is_hex (hex_char d)"
  "d < 16 \<Longrightarrow> hex_digit_val (hex_char d) = d"
proof -
  assume d: "d < 16"
  have "\<forall>d\<in>set [0..<16]. is_hex (hex_char d) \<and> hex_digit_val (hex_char d) = d"
    by code_simp
  with d show "is_hex (hex_char d)" "hex_digit_val (hex_char d) = d"
    by (simp_all add: Ball_def)
qed

lemma hexs_not_Nil [simp]: "hexs n \<noteq> []"
  by (subst hexs.simps) simp

lemma hexs_hex: "c \<in> set (hexs n) \<Longrightarrow> is_hex c"
proof (induction n rule: hexs.induct)
  case (1 n)
  then show ?case by (subst (asm) (2) hexs.simps) (auto split: if_splits)
qed

lemma hex_val_snoc [simp]: "hex_val (s @ [c]) = hex_val s * 16 + hex_digit_val c"
  by (simp add: hex_val_def)

lemma hex_val_hexs [simp]: "hex_val (hexs n) = n"
proof (induction n rule: hexs.induct)
  case (1 n)
  show ?case
  proof (cases "n < 16")
    case True
    then show ?thesis by (subst hexs.simps) (simp add: hex_val_def)
  next
    case False
    then have "hexs n = hexs (n div 16) @ [hex_char (n mod 16)]"
      by (subst hexs.simps) simp
    then show ?thesis using 1 False by simp
  qed
qed

lemma length_hexs: "n < 16 ^ Suc k \<Longrightarrow> length (hexs n) \<le> Suc k"
proof (induction k arbitrary: n)
  case 0
  then show ?case by (subst hexs.simps) simp
next
  case (Suc k)
  show ?case
  proof (cases "n < 16")
    case True
    then show ?thesis by (subst hexs.simps) simp
  next
    case False
    then have d: "hexs n = hexs (n div 16) @ [hex_char (n mod 16)]"
      by (subst hexs.simps) simp
    have "n div 16 < 16 ^ Suc k"
      using Suc.prems by (simp add: div_less_iff_less_mult)
    then show ?thesis using Suc.IH d by simp
  qed
qed

lemma length_hexs4: "n < 65536 \<Longrightarrow> length (hexs n) \<le> 4"
  using length_hexs[of n 3] by simp

lemma not_hex [simp]: "\<not> is_hex CHR '':''" "\<not> is_hex CHR ''.''" "\<not> is_hex CHR ''/''"
    "\<not> is_hex CHR ''%''"
  by code_simp+

lemma takeWhile_hexs [simp]:
  "takeWhile is_hex (hexs n) = hexs n" "dropWhile is_hex (hexs n) = []"
  "\<not> is_hex c \<Longrightarrow> takeWhile is_hex (hexs n @ c # s) = hexs n"
  "\<not> is_hex c \<Longrightarrow> dropWhile is_hex (hexs n @ c # s) = c # s"
proof -
  have "\<forall>c\<in>set (hexs n). is_hex c" using hexs_hex by blast
  then show "takeWhile is_hex (hexs n) = hexs n" "dropWhile is_hex (hexs n) = []"
    "\<not> is_hex c \<Longrightarrow> takeWhile is_hex (hexs n @ c # s) = hexs n"
    "\<not> is_hex c \<Longrightarrow> dropWhile is_hex (hexs n @ c # s) = c # s"
    by (simp_all add: takeWhile_eq_all_conv dropWhile_eq_Nil_conv takeWhile_append dropWhile_append)
qed

text \<open>One turn of the loop on a printed group, by what follows it.\<close>

lemma parse_group_last:
  "\<lbrakk>g < 65536; length acc < 8\<rbrakk> \<Longrightarrow> parse_groups (hexs g) acc ell = Some (acc @ [g], ell)"
  using length_hexs4[of g] by (subst parse_groups.simps) simp

lemma parse_group_next:
  "\<lbrakk>g < 65536; length acc < 8; s \<noteq> []; hd s \<noteq> CHR '':''\<rbrakk> \<Longrightarrow>
   parse_groups (hexs g @ CHR '':'' # s) acc ell = parse_groups s (acc @ [g]) ell"
  using length_hexs4[of g] by (subst parse_groups.simps) (cases s; simp)

lemma parse_group_ellipsis:
  "\<lbrakk>g < 65536; length acc < 8\<rbrakk> \<Longrightarrow>
   parse_groups (hexs g @ CHR '':'' # CHR '':'' # s) acc None =
     (if s = [] then Some (acc @ [g], Some (Suc (length acc)))
      else parse_groups s (acc @ [g]) (Some (Suc (length acc))))"
  using length_hexs4[of g] by (subst parse_groups.simps) simp

lemma hexs_hd [simp]: "hd (hexs n) \<noteq> CHR '':''"
  by (metis hexs_hex hexs_not_Nil hd_in_set not_hex(1))

lemma join_hexs_hd:
  "gs \<noteq> [] \<Longrightarrow> hd (join_with CHR '':'' (map hexs gs) @ t) \<noteq> CHR '':''
     \<and> join_with CHR '':'' (map hexs gs) \<noteq> []"
  by (cases gs; cases "tl gs") auto

lemma parse_groups_join:
  assumes "gs \<noteq> []" "\<forall>g\<in>set gs. g < 65536" "length acc + length gs \<le> 8"
  shows "parse_groups (join_with CHR '':'' (map hexs gs)) acc ell = Some (acc @ gs, ell)"
  using assms
proof (induction gs arbitrary: acc)
  case (Cons g gs)
  show ?case
  proof (cases gs)
    case Nil
    then show ?thesis using Cons.prems by (simp add: parse_group_last)
  next
    case (Cons g' gs')
    then have "hd (join_with CHR '':'' (map hexs gs)) \<noteq> CHR '':''"
      "join_with CHR '':'' (map hexs gs) \<noteq> []"
      using join_hexs_hd[of gs "[]"] by simp_all
    then show ?thesis
      using Cons.IH[of "acc @ [g]"] Cons.prems Cons
      by (simp add: parse_group_next)
  qed
qed simp

lemma parse_groups_ellipsis:
  assumes "gs \<noteq> []" "\<forall>g\<in>set gs. g < 65536" "length acc + length gs \<le> 8"
  shows "parse_groups (join_with CHR '':'' (map hexs gs) @ ''::'' @ t) acc None =
     (if t = [] then Some (acc @ gs, Some (length acc + length gs))
      else parse_groups t (acc @ gs) (Some (length acc + length gs)))"
  using assms
proof (induction gs arbitrary: acc)
  case (Cons g gs)
  show ?case
  proof (cases gs)
    case Nil
    then show ?thesis using Cons.prems by (simp add: parse_group_ellipsis)
  next
    case (Cons g' gs')
    then have "hd (join_with CHR '':'' (map hexs gs) @ ''::'' @ t) \<noteq> CHR '':''"
      "join_with CHR '':'' (map hexs gs) \<noteq> []"
      using join_hexs_hd[of gs "''::'' @ t"] by blast+
    then show ?thesis
      using Cons.IH[of "acc @ [g]"] Cons.prems Cons
      by (simp add: parse_group_next)
  qed
qed simp

definition run_ok :: "nat list \<Rightarrow> (nat \<times> nat) option \<Rightarrow> bool" where
  "run_ok gs r \<longleftrightarrow>
     r = None \<or> (\<exists>i<8. 2 \<le> zeros_from gs i \<and> r = Some (i, i + zeros_from gs i))"

lemma zero_step_cases:
  "(2 \<le> zeros_from gs i \<and> zero_step gs r i = Some (i, i + zeros_from gs i))
     \<or> zero_step gs r i = r"
  by (simp add: zero_step_def Let_def)

lemma run_ok_step: "run_ok gs r \<Longrightarrow> i < 8 \<Longrightarrow> run_ok gs (zero_step gs r i)"
  using zero_step_cases[of gs i r] unfolding run_ok_def by metis

lemma run_ok_foldl:
  "run_ok gs r \<Longrightarrow> \<forall>i\<in>set xs. i < 8 \<Longrightarrow> run_ok gs (foldl (zero_step gs) r xs)"
  by (induction xs arbitrary: r) (simp_all add: run_ok_step)

lemma zero_run_invariant:
  assumes "zero_run gs = Some (a, b)"
  shows "a < 8 \<and> a + 2 \<le> b \<and> b = a + zeros_from gs a"
proof -
  have "\<forall>i\<in>set [0..<8]. i < (8::nat)" unfolding set_upt by simp
  then have "run_ok gs (zero_run gs)"
    unfolding zero_run_def by (intro run_ok_foldl) (simp add: run_ok_def)
  then show ?thesis using assms by (auto simp: run_ok_def)
qed

lemma zeros_from_slice:
  "drop i gs = replicate (zeros_from gs i) 0 @ drop (i + zeros_from gs i) gs"
proof -
  have "takeWhile (\<lambda>g. g = 0) xs = replicate (length (takeWhile (\<lambda>g. g = 0) xs)) (0::nat)" for xs
    by (induction xs) auto
  moreover have "drop (i + zeros_from gs i) gs = dropWhile (\<lambda>g. g = 0) (drop i gs)"
    unfolding zeros_from_def by (metis add.commute drop_drop dropWhile_eq_drop)
  ultimately show ?thesis
    unfolding zeros_from_def by (metis takeWhile_dropWhile_id)
qed

lemma zero_run_slice:
  assumes "zero_run gs = Some (a, b)" "length gs = 8"
  shows "a + 2 \<le> b \<and> b \<le> 8 \<and> gs = take a gs @ replicate (b - a) 0 @ drop b gs"
proof -
  from zero_run_invariant[OF assms(1)] have ab: "a + 2 \<le> b" "a < 8" "b = a + zeros_from gs a"
    by auto
  have "zeros_from gs a \<le> 8 - a"
    unfolding zeros_from_def using assms(2) by (metis length_drop length_takeWhile_le)
  moreover have "gs = take a gs @ drop a gs" by simp
  ultimately show ?thesis
    using ab zeros_from_slice[of a gs] by simp
qed

lemma groups_string_no_ellipsis:
  assumes "length gs = 8" "\<forall>g\<in>set gs. g < 65536"
  shows "\<not> has_prefix (join_with CHR '':'' (map hexs gs)) ''::''"
    "parse_v6_groups (join_with CHR '':'' (map hexs gs)) = Some gs"
proof -
  have ne: "gs \<noteq> []" using assms(1) by auto
  show np: "\<not> has_prefix (join_with CHR '':'' (map hexs gs)) ''::''"
    using join_hexs_hd[OF ne, of "[]"] by (auto simp: has_prefix_iff)
  show "parse_v6_groups (join_with CHR '':'' (map hexs gs)) = Some gs"
    using np parse_groups_join[of gs "[]" None] ne assms
    by (simp add: parse_v6_groups_def expand_groups_def)
qed

lemma parse_groups_string:
  assumes len: "length gs = 8" and small: "\<forall>g\<in>set gs. g < 65536"
  shows "parse_v6_groups (groups_string gs) = Some gs"
proof (cases "zero_run gs")
  case None
  then show ?thesis
    using groups_string_no_ellipsis[OF assms] by (simp add: groups_string_def)
next
  case (Some ab)
  then obtain a b where ab: "zero_run gs = Some (a, b)" by (cases ab) auto
  from zero_run_slice[OF ab len] have le: "a + 2 \<le> b" "b \<le> 8"
    and gs: "gs = take a gs @ replicate (b - a) 0 @ drop b gs" by auto
  let ?A = "take a gs" and ?B = "drop b gs"
  have la: "length ?A = a" "length ?B = 8 - b" using le len by auto
  have smallAB: "\<forall>g\<in>set ?A. g < 65536" "\<forall>g\<in>set ?B. g < 65536"
    using small by (auto dest: in_set_takeD in_set_dropD)
  have s: "groups_string gs = join_with CHR '':'' (map hexs ?A) @ ''::''
      @ join_with CHR '':'' (map hexs ?B)"
    by (simp add: groups_string_def ab)
  have ex: "expand_groups (?A @ ?B, Some a) = Some gs"
  proof -
    have "8 - (a + (8 - b)) = b - a" using le by simp
    then show ?thesis
      using le la gs by (simp add: expand_groups_def)
  qed
  have B: "join_with CHR '':'' (map hexs ?B) = [] \<longleftrightarrow> ?B = []"
    using join_hexs_hd[of ?B "[]"] by (cases "?B = []") auto
  show ?thesis
  proof (cases "?A = []")
    case A: True
    then have a0: "a = 0" using la(1) len by auto
    show ?thesis
    proof (cases "?B = []")
      case True
      then have "gs = replicate 8 0" using gs A a0 le la by simp
      then show ?thesis
        unfolding s using A True by (simp add: parse_v6_groups_def has_prefix_def)
    next
      case False
      then show ?thesis
        unfolding s using A B a0 smallAB la le ex parse_groups_join[of ?B "[]" "Some 0"]
        by (simp add: parse_v6_groups_def has_prefix_def)
    qed
  next
    case A: False
    have np: "\<not> has_prefix (groups_string gs) ''::''"
      unfolding s using join_hexs_hd[OF A, of "''::'' @ join_with CHR '':'' (map hexs ?B)"]
      by (auto simp: has_prefix_iff)
    have "parse_groups (groups_string gs) [] None = Some (?A @ ?B, Some a)"
      unfolding s using parse_groups_ellipsis[OF A smallAB(1), of "[]"] la le B
        parse_groups_join[of ?B ?A "Some a"] smallAB(2)
      by (cases "?B = []") auto
    then show ?thesis using np ex by (simp add: parse_v6_groups_def)
  qed
qed

lemma set_join_with: "c \<in> set (join_with d fs) \<Longrightarrow> c = d \<or> (\<exists>f\<in>set fs. c \<in> set f)"
  by (induction d fs rule: join_with.induct) auto

lemma join_with_sep: "2 \<le> length fs \<Longrightarrow> c \<in> set (join_with c fs)"
  by (induction c fs rule: join_with.induct) auto

lemma groups_string_chars: "c \<in> set (groups_string gs) \<Longrightarrow> c = CHR '':'' \<or> is_hex c"
  unfolding groups_string_def
  by (auto split: option.splits dest!: set_join_with hexs_hex)

lemma groups_string_colon: "length gs = 8 \<Longrightarrow> CHR '':'' \<in> set (groups_string gs)"
  unfolding groups_string_def by (auto split: option.splits intro!: join_with_sep)

lemma parse_v6_plain:
  "CHR ''%'' \<notin> set s \<Longrightarrow>
   parse_v6 s = map_option (\<lambda>gs. \<lparr>fam = V6, val = groups_val gs, zone = []\<rparr>) (parse_v6_groups s)"
proof -
  assume n: "CHR ''%'' \<notin> set s"
  have tw: "takeWhile (\<lambda>c. c \<noteq> CHR ''%'') s = s" and dw: "dropWhile (\<lambda>c. c \<noteq> CHR ''%'') s = []"
    using n by (induction s) auto
  show ?thesis unfolding parse_v6_def Let_def tw dw using n by simp
qed

lemma ParseAddr_groups:
  assumes "length gs = 8" "\<forall>g\<in>set gs. g < 65536"
  shows "ParseAddr (groups_string gs) = Some (mk_addr V6 (groups_val gs))"
proof -
  let ?s = "groups_string gs" and ?sep = "\<lambda>c. c \<noteq> CHR ''.'' \<and> c \<noteq> CHR '':'' \<and> c \<noteq> CHR ''%''"
  have chars: "\<forall>c\<in>set ?s. c \<noteq> CHR ''.'' \<and> c \<noteq> CHR ''%''"
    using groups_string_chars not_hex by blast
  have "CHR '':'' \<in> set ?s" by (rule groups_string_colon[OF assms(1)])
  then have "dropWhile ?sep ?s \<noteq> []" by (auto simp: dropWhile_eq_Nil_conv)
  then obtain c t where ct: "dropWhile ?sep ?s = c # t" by (cases "dropWhile ?sep ?s") auto
  then have "\<not> ?sep c" using hd_dropWhile[of ?sep ?s] by simp
  moreover have "c \<in> set ?s" using ct by (metis list.set_intros(1) set_dropWhileD)
  ultimately have c: "c = CHR '':''" using chars by blast
  have "CHR ''%'' \<notin> set ?s" using chars by blast
  then have "parse_v6 ?s = Some (mk_addr V6 (groups_val gs))"
    using parse_groups_string[OF assms] parse_v6_plain by (simp add: mk_addr_def)
  then show ?thesis unfolding ParseAddr_def ct c by simp
qed

lemma groups_of_simp:
  "groups_of v = [v div 65536 ^ 7 mod 65536, v div 65536 ^ 6 mod 65536, v div 65536 ^ 5 mod 65536,
     v div 65536 ^ 4 mod 65536, v div 65536 ^ 3 mod 65536, v div 65536 ^ 2 mod 65536,
     v div 65536 mod 65536, v mod 65536]"
  unfolding groups_of_def by (simp add: upt_rec)

lemma digits_fold:
  fixes B v :: nat
  assumes "m \<le> k"
  shows "foldl (\<lambda>acc g. acc * B + g) 0 (map (\<lambda>i. v div B ^ (k - i) mod B) [0..<Suc m])
     = v div B ^ (k - m) mod B ^ Suc m"
  using assms
proof (induction m)
  case (Suc m)
  define x where "x = v div B ^ (k - Suc m)"
  have "k - m = Suc (k - Suc m)" using Suc.prems by simp
  then have "v div B ^ (k - m) = x div B"
    unfolding x_def by (metis div_mult2_eq power_Suc2)
  moreover have "x mod (B * B ^ Suc m) = B * (x div B mod B ^ Suc m) + x mod B"
    by (rule mod_mult2_eq)
  ultimately show ?case
    using Suc by (simp add: x_def mult.commute)
qed simp

lemma groups_val_of: "v < 2 ^ 128 \<Longrightarrow> groups_val (groups_of v) = v"
  using digits_fold[of 7 7 65536 v] unfolding groups_val_def groups_of_def by simp

lemma groups_of_ok: "length (groups_of v) = 8" "\<forall>g\<in>set (groups_of v). g < 65536"
  unfolding groups_of_simp by simp_all

lemma dec_sep_step [simp]:
  "dropWhile (\<lambda>c. c \<noteq> CHR ''.'' \<and> c \<noteq> CHR '':'' \<and> c \<noteq> CHR ''%'') (dec n @ CHR ''.'' # s)
     = CHR ''.'' # s"
proof -
  have "\<forall>c\<in>set (dec n). c \<noteq> CHR ''.'' \<and> c \<noteq> CHR '':'' \<and> c \<noteq> CHR ''%''"
    using dec_digits is_digit_neq by blast
  then show ?thesis by (simp add: dropWhile_append2)
qed

lemma ParseAddr_quad:
  "v < 2 ^ 32 \<Longrightarrow> ParseAddr (quad_string v) = Some (mk_addr V4 v)"
proof -
  assume v: "v < 2 ^ 32"
  let ?sep = "\<lambda>c. c \<noteq> CHR ''.'' \<and> c \<noteq> CHR '':'' \<and> c \<noteq> CHR ''%''"
  obtain n t where "quad_string v = dec n @ CHR ''.'' # t"
    unfolding quad_string_def by simp
  then have "dropWhile ?sep (quad_string v) = CHR ''.'' # t" by simp
  then show ?thesis
    using quad_val_bytes[OF v] by (simp add: ParseAddr_def parse_quad_string)
qed

lemma quad_string_chars: "c \<in> set (quad_string v) \<Longrightarrow> c = CHR ''.'' \<or> is_digit c"
  unfolding quad_string_def by (auto dest!: set_join_with dec_digits)

lemma parse_groups_embedded:
  assumes "length acc + 2 \<le> 8" "parse_quad (dec n @ CHR ''.'' # t) = Some [a, b, c, d]"
  shows "n < 256 \<Longrightarrow> parse_groups (dec n @ CHR ''.'' # t) acc (Some e)
     = Some (acc @ [a * 256 + b, c * 256 + d], Some e)"
proof -
  assume n: "n < 256"
  have "\<forall>c\<in>set (dec n). is_hex c" using dec_digits by (auto simp: is_hex_def)
  then have h: "takeWhile is_hex (dec n @ CHR ''.'' # t) = dec n"
    "dropWhile is_hex (dec n @ CHR ''.'' # t) = CHR ''.'' # t"
    by (simp_all add: takeWhile_append2 dropWhile_append2)
  have "n < 10 ^ Suc 2" using n by simp
  then have "length (dec n) \<le> 4"
    by (subst dec.simps; subst dec.simps; subst dec.simps) simp
  then show ?thesis
    using assms h by (subst parse_groups.simps) simp
qed

lemma quad_regroup:
  "(((0 * 256 + a) * 256 + b) * 256 + c) * 256 + d = (a * 256 + b) * 65536 + (c * 256 + d)"
  for a b c d :: nat
  by simp

lemma groups_val_mapped:
  "groups_val [0, 0, 0, 0, 0, 65535, x, y] = 65535 * 2 ^ 32 + (x * 65536 + y)"
  by (simp add: groups_val_def)

lemma ParseAddr_4in6:
  assumes "v < 2 ^ 32"
  shows "ParseAddr (''::ffff:'' @ quad_string v) = Some (mk_addr V6 (65535 * 2 ^ 32 + v))"
proof -
  let ?q = "quad_string v"
  let ?b = "\<lambda>i. v div 2 ^ i mod 256"
  obtain t where qs: "?q = dec (?b 24) @ CHR ''.'' # t"
    unfolding quad_string_def by simp
  have pq: "parse_quad ?q = Some [?b 24, ?b 16, ?b 8, v mod 256]"
    by (rule parse_quad_string)
  have "hd (dec (?b 24)) \<noteq> CHR '':''"
    using dec_no_sep(2)[of "?b 24"] hd_in_set[of "dec (?b 24)"] by (metis dec_not_Nil)
  then have hd_q: "?q \<noteq> []" "hd ?q \<noteq> CHR '':''"
    unfolding qs by (auto simp: hd_append)
  have ffff: "hexs 65535 = ''ffff''" by code_simp
  have "parse_groups (''ffff:'' @ ?q) [] (Some 0) = parse_groups ?q [65535] (Some 0)"
    using parse_group_next[of 65535 "[]" ?q "Some 0"] hd_q by (simp add: ffff)
  also have "\<dots> = Some ([65535, ?b 24 * 256 + ?b 16, ?b 8 * 256 + v mod 256], Some 0)"
    using parse_groups_embedded[of "[65535]" "?b 24" t] pq unfolding qs by simp
  finally have "parse_groups (''ffff:'' @ ?q) [] (Some 0)
      = Some ([65535, ?b 24 * 256 + ?b 16, ?b 8 * 256 + v mod 256], Some 0)" .
  moreover have five: "replicate 5 (0::nat) = [0, 0, 0, 0, 0]"
    by (simp add: numeral_eq_Suc)
  ultimately have g: "parse_v6_groups (''::ffff:'' @ ?q)
      = Some [0, 0, 0, 0, 0, 65535, ?b 24 * 256 + ?b 16, ?b 8 * 256 + v mod 256]"
    by (simp add: parse_v6_groups_def has_prefix_def expand_groups_def five)
  have "(?b 24 * 256 + ?b 16) * 65536 + (?b 8 * 256 + v mod 256) = v"
    using quad_val_bytes[OF assms] by (simp only: quad_val_def foldl.simps quad_regroup)
  then have val: "groups_val [0, 0, 0, 0, 0, 65535, ?b 24 * 256 + ?b 16, ?b 8 * 256 + v mod 256]
      = 65535 * 2 ^ 32 + v"
    by (simp only: groups_val_mapped)
  have "CHR ''%'' \<notin> set ?q" using quad_string_chars[of _ v] is_digit_neq by blast
  then have "CHR ''%'' \<notin> set (''::ffff:'' @ ?q)" by simp
  then have "parse_v6 (''::ffff:'' @ ?q) = Some (mk_addr V6 (65535 * 2 ^ 32 + v))"
    using g val parse_v6_plain by (simp add: mk_addr_def)
  then show ?thesis by (simp add: ParseAddr_def)
qed

theorem ParseAddr_addr_string:
  assumes "valid_addr a" "zone a = []"
  shows "ParseAddr (addr_string a) = Some a"
proof -
  have a: "a = mk_addr (fam a) (val a)" using assms(2) by (simp add: mk_addr_def)
  show ?thesis
  proof (cases "fam a")
    case V4
    then have "val a < 2 ^ 32" using assms by (simp add: valid_addr_def BitLen_def bit_len_def)
    then show ?thesis using V4 a by (metis addr_string_def ParseAddr_quad family.case(1))
  next
    case V6
    then have v: "val a < 2 ^ 128" using assms by (simp add: valid_addr_def BitLen_def bit_len_def)
    show ?thesis
    proof (cases "Is4In6 (val a)")
      case True
      have "65535 * 2 ^ 32 + val a mod 2 ^ 32 = val a"
        using True unfolding Is4In6_def by (metis div_mult_mod_eq)
      then show ?thesis
        using V6 True a assms(2) ParseAddr_4in6[of "val a mod 2 ^ 32"]
        unfolding addr_string_def by simp
    next
      case False
      then show ?thesis
        using V6 a assms(2) ParseAddr_groups[OF groups_of_ok] groups_val_of[OF v]
        unfolding addr_string_def by simp
    qed
  qed
qed

lemma addr_string_no_slash:
  assumes "zone a = []"
  shows "CHR ''/'' \<notin> set (addr_string a)"
proof -
  have "CHR ''/'' \<notin> set (quad_string v)" "CHR ''/'' \<notin> set (groups_string gs)" for v gs
    using quad_string_chars[of _ v] groups_string_chars[of _ gs] not_hex(3) is_digit_neq by blast+
  then show ?thesis
    using assms unfolding addr_string_def by (cases "fam a") auto
qed

lemma parse_bits_dec [simp]: "parse_bits (dec n) = Some n"
proof -
  have "\<not> (1 < length (dec n) \<and> hd (dec n) = CHR ''0'')"
  proof
    assume a: "1 < length (dec n) \<and> hd (dec n) = CHR ''0''"
    then have "n < 10" by (simp add: dec_hd_zero)
    then have "dec n = [digit_char n]" by (subst dec.simps) simp
    with a show False by simp
  qed
  then show ?thesis by (simp add: parse_bits_def)
qed

theorem ParsePrefix_prefix_string:
  assumes "valid_prefix p"
  shows "ParsePrefix (prefix_string p) = Some p"
proof -
  let ?a = "addr_string (paddr p)" and ?b = "dec (plen p)"
  have v: "valid_addr (paddr p)" "zone (paddr p) = []" "plen p \<le> BitLen (paddr p)"
    using assms by (simp_all add: valid_prefix_def BitLen_def pfam_def)
  have "takeWhile (\<lambda>c. c \<noteq> CHR ''/'') (rev ?b @ CHR ''/'' # rev ?a) = rev ?b"
    by (rule takeWhile_sep) simp
  then have "takeWhile (\<lambda>c. c \<noteq> CHR ''/'') (rev (prefix_string p)) = rev ?b"
    by (simp add: prefix_string_def)
  moreover have "take (length (prefix_string p) - Suc (length ?b)) (prefix_string p) = ?a"
    by (simp add: prefix_string_def)
  moreover have "CHR ''/'' \<in> set (prefix_string p)" by (simp add: prefix_string_def)
  moreover have "PrefixFrom (paddr p) (plen p) = p"
    using v(2) by (simp add: PrefixFrom_def)
  ultimately show ?thesis
    using v ParseAddr_addr_string[OF v(1,2)] by (simp add: ParsePrefix_def)
qed

end
