(* ===== verification/Carve.thy ===== *)
theory Carve
  imports NetText
begin

text \<open>
  The two CIDR carvers: \<^verbatim>\<open>findFirstFreePrefix\<close> of \<^verbatim>\<open>internal/lir/carve.go\<close>, which
  the allocation engine calls, and \<^verbatim>\<open>findFreePrefixesInSupernet\<close> of
  \<^verbatim>\<open>internal/ipam/carve.go\<close>, which the free-space endpoint calls.  Both walk the
  sub-prefixes of a parent in address order, at most \<open>carveScanCap\<close> of them,
  and keep those that overlap no occupied prefix of the same family.
  \<^verbatim>\<open>big.Int\<close> values are naturals; the test that a candidate still fits the
  family's bytes is written out.  The lemmas reduce both loops to a search of the
  list of sub-prefixes and from there show that what is returned is free, inside
  the parent and lowest, and that nothing free is missed below the cap.
\<close>

named_theorems carve_simps "what the carving proofs unfold"

definition carveScanCap :: nat where
  "carveScanCap = 2 ^ 20"

section \<open>The code\<close>

text \<open>\<^verbatim>\<open>prefixesOverlap\<close>, the same function in both packages.\<close>

definition prefixesOverlap :: "prefix \<Rightarrow> prefix \<Rightarrow> bool" where
  "prefixesOverlap a b \<longleftrightarrow> Contains a (paddr b) \<or> Contains b (paddr a)"

definition ipam_prefixesOverlap :: "prefix \<Rightarrow> prefix \<Rightarrow> bool" where
  "ipam_prefixesOverlap a b \<longleftrightarrow> Contains a (paddr b) \<or> Contains b (paddr a)"

text \<open>
  The number of candidates, \<^verbatim>\<open>maxCount\<close>: the number of sub-prefixes when it can be
  computed in 63 bits and is below the cap, and the cap otherwise.
\<close>

definition maxCount :: "nat \<Rightarrow> nat" where
  "maxCount totalShift =
     (if totalShift < 63 then min (2 ^ totalShift) carveScanCap else carveScanCap)"

text \<open>The candidate of one turn, or the \<^verbatim>\<open>break\<close> when it has left the family's bytes.\<close>

definition candidate :: "prefix \<Rightarrow> nat \<Rightarrow> nat \<Rightarrow> prefix option" where
  "candidate parent sz idx =
     (let step = 2 ^ (BitLen (paddr parent) - sz);
          cand = idx * step + pval parent
      in if 2 ^ BitLen (paddr parent) \<le> cand then None
         else Some (PrefixFrom (mk_addr (pfam parent) cand) sz))"

function lir_scan :: "prefix \<Rightarrow> nat \<Rightarrow> prefix list \<Rightarrow> nat \<Rightarrow> nat \<Rightarrow> prefix option" where
  "lir_scan parent sz occupied cnt idx =
     (if idx < cnt then
        (case candidate parent sz idx of
           None \<Rightarrow> None
         | Some p \<Rightarrow>
             if list_ex (prefixesOverlap p) occupied
             then lir_scan parent sz occupied cnt (idx + 1)
             else Some p)
      else None)"
  by pat_completeness auto
termination by (relation "measure (\<lambda>(parent, sz, occupied, cnt, idx). cnt - idx)") auto

declare lir_scan.simps [simp del]

definition first_free_prefix :: "prefix \<Rightarrow> int \<Rightarrow> prefix list \<Rightarrow> prefix option" where
  "first_free_prefix parent sz allocated =
     (if sz \<le> int (plen parent) then None
      else if int (BitLen (paddr parent)) < sz then None
      else let occupied = filter (\<lambda>a. Is4 (paddr a) = Is4 (paddr parent)) allocated
           in lir_scan parent (nat sz) occupied (maxCount (nat sz - plen parent)) 0)"

definition findFirstFreePrefix :: "prefix \<Rightarrow> int \<Rightarrow> prefix list \<Rightarrow> string option" where
  "findFirstFreePrefix parent sz allocated =
     map_option prefix_string (first_free_prefix parent sz allocated)"

function ipam_scan ::
    "prefix \<Rightarrow> nat \<Rightarrow> prefix list \<Rightarrow> nat \<Rightarrow> nat \<Rightarrow> nat \<Rightarrow> prefix list \<Rightarrow> prefix list" where
  "ipam_scan parent sz occupied limit cnt idx out =
     (if idx < cnt then
        (case candidate parent sz idx of
           None \<Rightarrow> out
         | Some p \<Rightarrow>
             if list_ex (ipam_prefixesOverlap p) occupied
             then ipam_scan parent sz occupied limit cnt (idx + 1) out
             else if limit \<le> length (out @ [p]) then out @ [p]
             else ipam_scan parent sz occupied limit cnt (idx + 1) (out @ [p]))
      else out)"
  by pat_completeness auto
termination
  by (relation "measure (\<lambda>(parent, sz, occupied, limit, cnt, idx, out). cnt - idx)") auto

declare ipam_scan.simps [simp del]

text \<open>\<open>None\<close> is the \<^verbatim>\<open>nil\<close> of a malformed size.\<close>

definition free_prefixes :: "prefix \<Rightarrow> int \<Rightarrow> prefix list \<Rightarrow> nat \<Rightarrow> prefix list option" where
  "free_prefixes parent sz allocated limit =
     (if sz \<le> int (plen parent) then None
      else if int (BitLen (paddr parent)) < sz then None
      else let occupied = filter (\<lambda>a. Is4 (paddr a) = Is4 (paddr parent)) allocated
           in Some (ipam_scan parent (nat sz) occupied limit
                      (maxCount (nat sz - plen parent)) 0 []))"

definition findFreePrefixesInSupernet ::
    "prefix \<Rightarrow> int \<Rightarrow> prefix list \<Rightarrow> nat \<Rightarrow> string list option" where
  "findFreePrefixesInSupernet parent sz allocated limit =
     map_option (map prefix_string) (free_prefixes parent sz allocated limit)"

section \<open>The loops as searches of a list\<close>

definition sub_prefix :: "prefix \<Rightarrow> nat \<Rightarrow> nat \<Rightarrow> prefix" where
  "sub_prefix parent sz i =
     PrefixFrom (mk_addr (pfam parent) (i * 2 ^ (bit_len (pfam parent) - sz) + pval parent)) sz"

definition free_of :: "prefix list \<Rightarrow> prefix \<Rightarrow> bool" where
  "free_of allocated p \<longleftrightarrow>
     (\<forall>a\<in>set allocated. pfam a = pfam p \<longrightarrow> pfx_range a \<inter> pfx_range p = {})"

definition good_size :: "prefix \<Rightarrow> int \<Rightarrow> bool" where
  "good_size parent sz \<longleftrightarrow> int (plen parent) < sz \<and> sz \<le> int (bit_len (pfam parent))"

definition zone_free :: "prefix list \<Rightarrow> bool" where
  "zone_free ps \<longleftrightarrow> (\<forall>p\<in>set ps. zone (paddr p) = [])"

lemma sub_prefix_simps [simp, carve_simps]:
  "pfam (sub_prefix parent sz i) = pfam parent"
  "plen (sub_prefix parent sz i) = sz"
  "zone (paddr (sub_prefix parent sz i)) = []"
  "pval (sub_prefix parent sz i) = i * 2 ^ (bit_len (pfam parent) - sz) + pval parent"
  "host_bits (sub_prefix parent sz i) = bit_len (pfam parent) - sz"
  by (simp_all add: sub_prefix_def)

lemma overlap_iff_ranges:
  assumes "zone (paddr a) = []" "zone (paddr b) = []"
  shows "prefixesOverlap a b \<longleftrightarrow> pfam a = pfam b \<and> pfx_range a \<inter> pfx_range b \<noteq> {}"
  using assms pfx_overlap_iff[of a b]
  unfolding prefixesOverlap_def Contains_iff_range pfam_def pval_def by auto

lemma ipam_overlap_eq: "ipam_prefixesOverlap = prefixesOverlap"
  by (simp add: fun_eq_iff ipam_prefixesOverlap_def prefixesOverlap_def)

lemma sub_prefix_inside:
  assumes p: "canonical parent" and s: "plen parent \<le> sz" "sz \<le> bit_len (pfam parent)"
    and i: "i < 2 ^ (sz - plen parent)"
  shows "canonical (sub_prefix parent sz i)"
    and "pfx_range (sub_prefix parent sz i) \<subseteq> pfx_range parent"
    and "candidate parent sz i = Some (sub_prefix parent sz i)"
proof -
  let ?w = "bit_len (pfam parent)"
  let ?h = "?w - sz" and ?k = "sz - plen parent" and ?q = "sub_prefix parent sz i"
  have H: "host_bits parent = ?k + ?h"
    using s by (simp add: host_bits_def)
  obtain m where m: "pval parent = m * 2 ^ host_bits parent"
    using canonical_dvd[OF p] by (metis dvd_div_mult_self)
  have val: "pval ?q = (i + m * 2 ^ ?k) * 2 ^ ?h"
    unfolding sub_prefix_simps m H power_add by (simp add: algebra_simps)
  have lo: "pfx_lo ?q = pval ?q"
    unfolding pfx_lo_def sub_prefix_simps(5) val by simp
  have "(i + 1) * 2 ^ ?h \<le> 2 ^ ?k * 2 ^ ?h"
    using i by (intro mult_right_mono) auto
  then have up: "pval ?q + 2 ^ ?h \<le> pval parent + 2 ^ host_bits parent"
    unfolding sub_prefix_simps H power_add by (simp add: algebra_simps)
  have lo_parent: "pfx_lo parent = pval parent" by (rule canonical_lo[OF p])
  show sub: "pfx_range ?q \<subseteq> pfx_range parent"
    unfolding pfx_range_def lo lo_parent using up by auto
  have "pval ?q < pval ?q + 2 ^ ?h" by simp
  also have "\<dots> \<le> pval parent + 2 ^ host_bits parent" by (rule up)
  also have "\<dots> \<le> 2 ^ ?w"
    using pfx_range_bound[of parent] p lo_parent by (simp add: canonical_def)
  finally have bound: "pval ?q < 2 ^ ?w" .
  have wf: "valid_prefix ?q"
    using bound s sub_prefix_simps(1)[of parent sz i]
    unfolding valid_prefix_def valid_addr_def BitLen_def pfam_def pval_def by simp
  have "Masked ?q = ?q"
    using lo unfolding Masked_def PrefixFrom_def pfx_lo_def
    by (simp add: pval_def sub_prefix_def PrefixFrom_def mk_addr_def)
  then show "canonical ?q" using wf by (simp add: canonical_def)
  show "candidate parent sz i = Some ?q"
    using bound unfolding candidate_def Let_def BitLen_def sub_prefix_def
    by (simp add: pfam_def)
qed

lemma lir_scan_find:
  assumes "\<forall>i<cnt. candidate parent sz i = Some (sub_prefix parent sz i)"
  shows "lir_scan parent sz occ cnt idx =
     find (\<lambda>p. \<not> list_ex (prefixesOverlap p) occ) (map (sub_prefix parent sz) [idx..<cnt])"
  using assms
proof (induction parent sz occ cnt idx rule: lir_scan.induct)
  case (1 parent sz occ cnt idx)
  show ?case
  proof (cases "idx < cnt")
    case True
    then have "[idx..<cnt] = idx # [Suc idx..<cnt]" by (simp add: upt_conv_Cons)
    then show ?thesis
      using 1 True by (subst lir_scan.simps) simp
  next
    case False
    then show ?thesis by (subst lir_scan.simps) simp
  qed
qed

lemma ipam_scan_filter:
  assumes "\<forall>i<cnt. candidate parent sz i = Some (sub_prefix parent sz i)"
    and "out = [] \<or> length out < limit"
  shows "ipam_scan parent sz occ limit cnt idx out =
     out @ take (max 1 limit - length out)
       (filter (\<lambda>p. \<not> list_ex (prefixesOverlap p) occ) (map (sub_prefix parent sz) [idx..<cnt]))"
  using assms
proof (induction parent sz occ limit cnt idx out rule: ipam_scan.induct)
  case (1 parent sz occ limit cnt idx out)
  note [simp] = ipam_overlap_eq
  show ?case
  proof (cases "idx < cnt")
    case True
    then have u: "[idx..<cnt] = idx # [Suc idx..<cnt]" by (simp add: upt_conv_Cons)
    show ?thesis
    proof (cases "list_ex (prefixesOverlap (sub_prefix parent sz idx)) occ")
      case True
      then show ?thesis
        using 1 u \<open>idx < cnt\<close> by (subst ipam_scan.simps) simp
    next
      case False
      show ?thesis
      proof (cases "limit \<le> length out + 1")
        case limit: True
        then have "max 1 limit - length out = 1" using 1(4) by auto
        then show ?thesis
          using 1 u False limit \<open>idx < cnt\<close> by (subst ipam_scan.simps) simp
      next
        case limit: False
        then have "max 1 limit - length out = Suc (max 1 limit - Suc (length out))" by auto
        then show ?thesis
          using 1 u False limit \<open>idx < cnt\<close> by (subst ipam_scan.simps) simp
      qed
    qed
  next
    case False
    then show ?thesis by (subst ipam_scan.simps) simp
  qed
qed

lemma list_ex_filter_family:
  "list_ex P (filter Q xs) \<longleftrightarrow> (\<exists>x\<in>set xs. Q x \<and> P x)"
  by (auto simp: list_ex_iff)

lemma Is4_eq_iff: "Is4 a = Is4 b \<longleftrightarrow> fam a = fam b"
  by (cases "fam a"; cases "fam b") (simp_all add: Is4_def)

lemma not_overlapping_iff_free:
  assumes "zone_free allocated" "pfam p = pfam parent" "zone (paddr p) = []"
  shows "\<not> list_ex (prefixesOverlap p)
      (filter (\<lambda>a. Is4 (paddr a) = Is4 (paddr parent)) allocated) \<longleftrightarrow> free_of allocated p"
  using assms overlap_iff_ranges[of p]
  unfolding list_ex_filter_family free_of_def zone_free_def Is4_eq_iff
  by (auto simp: pfam_def Int_commute)

lemma maxCount_le: "maxCount k \<le> 2 ^ k"
proof (cases "k < 63")
  case False
  then have "(2::nat) ^ 20 \<le> 2 ^ k" by (intro power_increasing) auto
  then show ?thesis using False by (simp add: maxCount_def carveScanCap_def)
qed (simp add: maxCount_def)

lemma maxCount_small: "k \<le> 20 \<Longrightarrow> maxCount k = 2 ^ k"
  unfolding maxCount_def carveScanCap_def
  by (simp add: min_absorb1 power_increasing del: numeral_power_eq_of_nat_cancel_iff
      power_numeral)

text \<open>Both carvers as a search of the list of sub-prefixes.\<close>

definition sub_prefixes :: "prefix \<Rightarrow> nat \<Rightarrow> prefix list" where
  "sub_prefixes parent sz = map (sub_prefix parent sz) [0..<maxCount (sz - plen parent)]"

lemma candidates_ok:
  assumes "canonical parent" "good_size parent sz"
  shows "\<forall>i<maxCount (nat sz - plen parent).
     candidate parent (nat sz) i = Some (sub_prefix parent (nat sz) i)"
  using assms sub_prefix_inside(3)[OF assms(1), of "nat sz"] maxCount_le[of "nat sz - plen parent"]
  by (auto simp: good_size_def)

lemma first_free_prefix_find:
  assumes "canonical parent" "good_size parent sz" "zone_free allocated"
  shows "first_free_prefix parent sz allocated =
     find (free_of allocated) (sub_prefixes parent (nat sz))"
proof -
  have "find (\<lambda>p. \<not> list_ex (prefixesOverlap p)
       (filter (\<lambda>a. Is4 (paddr a) = Is4 (paddr parent)) allocated)) (map (sub_prefix parent n) xs)
     = find (free_of allocated) (map (sub_prefix parent n) xs)" for n xs
    by (induction xs) (simp_all add: not_overlapping_iff_free[OF assms(3)])
  then show ?thesis
    using assms lir_scan_find[OF candidates_ok[OF assms(1,2)]]
    by (simp add: first_free_prefix_def good_size_def BitLen_def pfam_def sub_prefixes_def)
qed

lemma free_prefixes_filter:
  assumes "canonical parent" "good_size parent sz" "zone_free allocated"
  shows "free_prefixes parent sz allocated limit =
     Some (take (max 1 limit) (filter (free_of allocated) (sub_prefixes parent (nat sz))))"
proof -
  have "filter (\<lambda>p. \<not> list_ex (prefixesOverlap p)
       (filter (\<lambda>a. Is4 (paddr a) = Is4 (paddr parent)) allocated)) (map (sub_prefix parent n) xs)
     = filter (free_of allocated) (map (sub_prefix parent n) xs)" for n xs
    by (induction xs) (simp_all add: not_overlapping_iff_free[OF assms(3)])
  then show ?thesis
    using assms ipam_scan_filter[OF candidates_ok[OF assms(1,2)], of "[]"]
    by (simp add: free_prefixes_def good_size_def BitLen_def pfam_def sub_prefixes_def)
qed

lemma set_sub_prefixes:
  assumes "canonical parent" "good_size parent sz" "p \<in> set (sub_prefixes parent (nat sz))"
  shows "canonical p \<and> int (plen p) = sz \<and> pfam p = pfam parent \<and> pfx_range p \<subseteq> pfx_range parent"
proof -
  obtain i where i: "i < maxCount (nat sz - plen parent)" "p = sub_prefix parent (nat sz) i"
    using assms(3) by (auto simp: sub_prefixes_def)
  have s: "plen parent \<le> nat sz" "nat sz \<le> bit_len (pfam parent)" "int (nat sz) = sz"
    using assms(2) by (auto simp: good_size_def)
  have "i < 2 ^ (nat sz - plen parent)"
    using i(1) maxCount_le by (rule less_le_trans)
  from sub_prefix_inside(1,2)[OF assms(1) s(1,2) this] show ?thesis
    using i(2) s(3) by simp
qed

text \<open>Every aligned block of the wanted size inside the parent is one of the sub-prefixes.\<close>

lemma inside_is_sub_prefix:
  assumes p: "canonical parent" and q: "canonical q" "pfam q = pfam parent"
    "plen parent \<le> plen q" "pfx_range q \<subseteq> pfx_range parent"
  shows "\<exists>i < 2 ^ (plen q - plen parent). q = sub_prefix parent (plen q) i"
proof -
  let ?h = "host_bits q" and ?k = "plen q - plen parent"
  have len: "plen q \<le> bit_len (pfam parent)"
    using q by (simp add: canonical_def valid_prefix_def)
  have H: "host_bits parent = ?k + ?h"
    using len q by (simp add: host_bits_def)
  obtain a where a: "pval q = a * 2 ^ ?h"
    using canonical_dvd[OF q(1)] by (metis dvd_div_mult_self)
  obtain b where b: "pval parent = b * 2 ^ (?k + ?h)"
    using canonical_dvd[OF p] H by (metis dvd_div_mult_self)
  have "pval q \<in> pfx_range parent" using q(4) pval_in_range by blast
  then have "pval q div 2 ^ (?k + ?h) = b"
    unfolding mem_pfx_range H b by simp
  then have "b * 2 ^ (?k + ?h) \<le> pval q" "pval q < b * 2 ^ (?k + ?h) + 2 ^ (?k + ?h)"
    using div_eq_iff_interval[of "2 ^ (?k + ?h)" "pval q" b] by auto
  then have "b * 2 ^ ?k * 2 ^ ?h \<le> a * 2 ^ ?h" "a * 2 ^ ?h < (b * 2 ^ ?k + 2 ^ ?k) * 2 ^ ?h"
    unfolding a power_add by (simp_all add: algebra_simps)
  then have i: "b * 2 ^ ?k \<le> a" "a - b * 2 ^ ?k < 2 ^ ?k" by auto
  have "pval q = (a - b * 2 ^ ?k) * 2 ^ ?h + pval parent"
    using i(1) unfolding a b power_add by (simp add: diff_mult_distrib)
  moreover have "q = PrefixFrom (mk_addr (pfam q) (pval q)) (plen q)"
    using q(1) by (simp add: canonical_def valid_prefix_def PrefixFrom_def mk_addr_def
        pfam_def pval_def)
  ultimately have "q = sub_prefix parent (plen q) (a - b * 2 ^ ?k)"
    unfolding sub_prefix_def using q(2) len by (simp add: host_bits_def)
  then show ?thesis using i(2) by blast
qed

lemma sub_prefix_disjoint:
  assumes p: "canonical parent" and g: "good_size parent sz"
    and ij: "i < j" "j < maxCount (nat sz - plen parent)"
  shows "pval (sub_prefix parent (nat sz) i) < pval (sub_prefix parent (nat sz) j)
    \<and> pfx_range (sub_prefix parent (nat sz) i) \<inter> pfx_range (sub_prefix parent (nat sz) j) = {}"
proof -
  let ?p = "sub_prefix parent (nat sz)" and ?h = "bit_len (pfam parent) - nat sz"
  have "i < 2 ^ (nat sz - plen parent)" "j < 2 ^ (nat sz - plen parent)"
    using ij maxCount_le[of "nat sz - plen parent"] by simp_all
  then have "pfx_lo (?p i) = pval (?p i)" "pfx_lo (?p j) = pval (?p j)"
    using sub_prefix_inside(1)[OF p] g canonical_lo by (auto simp: good_size_def)
  moreover have "(i + 1) * 2 ^ ?h \<le> j * 2 ^ ?h"
    using ij by (intro mult_right_mono) auto
  then have "pval (?p i) + 2 ^ ?h \<le> pval (?p j)" by simp
  moreover from this have "pval (?p i) < pval (?p j)"
    by (rule less_le_trans[rotated]) (simp del: sub_prefix_simps(4))
  ultimately show ?thesis
    unfolding pfx_range_def sub_prefix_simps(5) by auto
qed

lemma find_upt:
  "find P (map f [m..<n]) = Some y \<Longrightarrow> \<exists>i. m \<le> i \<and> i < n \<and> y = f i \<and> P y \<and> (\<forall>j. m \<le> j \<and> j < i \<longrightarrow> \<not> P (f j))"
proof (induction "n - m" arbitrary: m)
  case (Suc d)
  then have u: "[m..<n] = m # [Suc m..<n]" by (simp add: upt_conv_Cons)
  show ?case
  proof (cases "P (f m)")
    case True
    then show ?thesis using Suc u by auto
  next
    case False
    moreover have "d = n - Suc m" using Suc.hyps(2) by simp
    ultimately obtain i where "Suc m \<le> i" "i < n" "y = f i" "P y"
        "\<forall>j. Suc m \<le> j \<and> j < i \<longrightarrow> \<not> P (f j)"
      using Suc.hyps(1)[of "Suc m"] Suc.prems u by auto
    then show ?thesis using False by (metis Suc_leD le_antisym not_less_eq_eq)
  qed
qed simp

lemma first_free_prefix_sound:
  assumes "canonical parent" "zone_free allocated" "first_free_prefix parent sz allocated = Some p"
  shows "canonical p \<and> int (plen p) = sz \<and> pfam p = pfam parent \<and> pfx_range p \<subseteq> pfx_range parent
    \<and> free_of allocated p"
proof -
  have "good_size parent sz"
    using assms(3) by (auto simp: first_free_prefix_def good_size_def BitLen_def pfam_def
        split: if_splits)
  moreover from this have "find (free_of allocated) (sub_prefixes parent (nat sz)) = Some p"
    using assms first_free_prefix_find by metis
  then have "p \<in> set (sub_prefixes parent (nat sz)) \<and> free_of allocated p"
    by (auto simp: find_Some_iff)
  ultimately show ?thesis using set_sub_prefixes[OF assms(1)] by blast
qed

lemma first_free_prefix_lowest:
  assumes "canonical parent" "zone_free allocated" "first_free_prefix parent sz allocated = Some p"
    and q: "canonical q" "pfam q = pfam parent" "int (plen q) = sz" "pfx_range q \<subseteq> pfx_range parent"
      "free_of allocated q"
  shows "pval p \<le> pval q"
proof -
  have g: "good_size parent sz"
    using assms(3) by (auto simp: first_free_prefix_def good_size_def BitLen_def pfam_def
        split: if_splits)
  then have "find (free_of allocated) (sub_prefixes parent (nat sz)) = Some p"
    using assms first_free_prefix_find by metis
  then obtain i where i: "p = sub_prefix parent (nat sz) i"
      "\<forall>j<i. \<not> free_of allocated (sub_prefix parent (nat sz) j)"
    unfolding sub_prefixes_def by (auto dest!: find_upt)
  obtain j where j: "q = sub_prefix parent (nat sz) j"
    using inside_is_sub_prefix[OF assms(1) q(1,2)] q g by (auto simp: good_size_def)
  then have "i \<le> j" using i(2) q(5) by (metis not_less)
  then show ?thesis using i j by simp
qed

lemma first_free_prefix_complete:
  assumes "canonical parent" "zone_free allocated" "good_size parent sz"
    and "nat sz - plen parent \<le> 20"
    and q: "canonical q" "pfam q = pfam parent" "int (plen q) = sz" "pfx_range q \<subseteq> pfx_range parent"
      "free_of allocated q"
  shows "first_free_prefix parent sz allocated \<noteq> None"
proof -
  obtain j where "j < 2 ^ (nat sz - plen parent)" "q = sub_prefix parent (nat sz) j"
    using inside_is_sub_prefix[OF assms(1) q(1,2)] q assms(3) by (auto simp: good_size_def)
  then have "q \<in> set (sub_prefixes parent (nat sz))"
    using maxCount_small[OF assms(4)] by (auto simp: sub_prefixes_def)
  then show ?thesis
    using first_free_prefix_find[OF assms(1,3,2)] q(5) by (auto simp: find_None_iff)
qed

lemma ipam_scan_extends:
  "\<exists>r. ipam_scan parent sz occ limit cnt idx out = out @ r"
proof (induction parent sz occ limit cnt idx out rule: ipam_scan.induct)
  case (1 parent sz occ limit cnt idx out)
  then show ?case
    by (subst ipam_scan.simps) (fastforce split: option.splits)
qed

lemma ipam_scan_head:
  "(case ipam_scan parent sz occ limit cnt idx [] of [] \<Rightarrow> None | p # _ \<Rightarrow> Some p)
     = lir_scan parent sz occ cnt idx"
proof (induction "cnt - idx" arbitrary: idx)
  case 0
  then show ?case by (subst ipam_scan.simps, subst lir_scan.simps) simp
next
  case (Suc d)
  then have lt: "idx < cnt" and IH: "(case ipam_scan parent sz occ limit cnt (idx + 1) [] of
      [] \<Rightarrow> None | p # _ \<Rightarrow> Some p) = lir_scan parent sz occ cnt (idx + 1)" by auto
  show ?case
  proof (cases "candidate parent sz idx")
    case None
    then show ?thesis using lt by (subst ipam_scan.simps, subst lir_scan.simps) simp
  next
    case (Some p)
    obtain r where "ipam_scan parent sz occ limit cnt (idx + 1) [p] = p # r"
      using ipam_scan_extends[of parent sz occ limit cnt "idx + 1" "[p]"] by auto
    then show ?thesis
      using Some lt IH ipam_overlap_eq by (subst ipam_scan.simps, subst lir_scan.simps) simp
  qed
qed

section \<open>Properties\<close>

text \<open>C1. What the LIR carver returns parses back to a prefix of the requested length that lies
  inside the parent, shares no address with any allocated prefix of its family, and is the lowest
  such prefix of the parent.\<close>

theorem findFirstFreePrefix_first_fit:
  assumes "canonical parent" "zone_free allocated"
    and "findFirstFreePrefix parent sz allocated = Some s"
  shows "\<exists>p. ParsePrefix s = Some p \<and> canonical p \<and> int (plen p) = sz
     \<and> pfam p = pfam parent \<and> pfx_range p \<subseteq> pfx_range parent \<and> free_of allocated p
     \<and> (\<forall>q. canonical q \<and> pfam q = pfam parent \<and> int (plen q) = sz
           \<and> pfx_range q \<subseteq> pfx_range parent \<and> free_of allocated q \<longrightarrow> pval p \<le> pval q)"
proof -
  obtain p where p: "first_free_prefix parent sz allocated = Some p" "s = prefix_string p"
    using assms(3) by (auto simp: findFirstFreePrefix_def)
  note sound = first_free_prefix_sound[OF assms(1,2) p(1)]
  then have "ParsePrefix s = Some p"
    using p(2) by (simp add: canonical_def ParsePrefix_prefix_string)
  then show ?thesis
    using sound first_free_prefix_lowest[OF assms(1,2) p(1)] by blast
qed

lemma findFirstFreePrefix_first_fit_witness:
  "let parent = PrefixFrom (mk_addr V4 167772160) 24; taken = [PrefixFrom (mk_addr V4 167772160) 26]
   in \<exists>p. ParsePrefix ''10.0.0.64/26'' = Some p \<and> pfx_range p \<subseteq> pfx_range parent \<and> free_of taken p"
proof -
  let ?parent = "PrefixFrom (mk_addr V4 167772160) 24"
  let ?taken = "[PrefixFrom (mk_addr V4 167772160) 26]"
  have "canonical ?parent" "zone_free ?taken"
    "findFirstFreePrefix ?parent 26 ?taken = Some ''10.0.0.64/26''"
    by code_simp+
  from findFirstFreePrefix_first_fit[OF this] show ?thesis by (auto simp: Let_def)
qed

text \<open>C2. The LIR carver misses nothing: with at most \<open>2 ^ 20\<close> sub-prefixes to look at it
  answers "none" exactly when every sub-prefix of the parent of the requested length shares an
  address with an allocated prefix.\<close>

theorem findFirstFreePrefix_None_iff_full:
  assumes "canonical parent" "zone_free allocated" "good_size parent sz"
    and "nat sz - plen parent \<le> 20"
  shows "findFirstFreePrefix parent sz allocated = None \<longleftrightarrow>
     (\<forall>q. canonical q \<and> pfam q = pfam parent \<and> int (plen q) = sz
        \<and> pfx_range q \<subseteq> pfx_range parent \<longrightarrow> \<not> free_of allocated q)"
  using first_free_prefix_complete[OF assms]
    first_free_prefix_sound[OF assms(1,2), of sz]
  by (cases "first_free_prefix parent sz allocated") (auto simp: findFirstFreePrefix_def)

lemma findFirstFreePrefix_None_iff_full_witness:
  "let parent = PrefixFrom (mk_addr V4 167772160) 24;
       taken = [PrefixFrom (mk_addr V4 167772160) 25, PrefixFrom (mk_addr V4 167772288) 25]
   in \<forall>q. canonical q \<and> pfam q = V4 \<and> int (plen q) = 26 \<and> pfx_range q \<subseteq> pfx_range parent
        \<longrightarrow> \<not> free_of taken q"
proof -
  let ?parent = "PrefixFrom (mk_addr V4 167772160) 24"
  let ?taken = "[PrefixFrom (mk_addr V4 167772160) 25, PrefixFrom (mk_addr V4 167772288) 25]"
  have "canonical ?parent" "zone_free ?taken" "good_size ?parent 26" "nat 26 - plen ?parent \<le> 20"
    "findFirstFreePrefix ?parent 26 ?taken = None"
    by code_simp+
  with findFirstFreePrefix_None_iff_full[of ?parent ?taken 26] show ?thesis
    by (simp add: Let_def)
qed

text \<open>C3. The two copies of the carver agree: whatever the parent, the size, the allocated
  prefixes and the limit, the LIR answer is the first prefix of the free-space answer.\<close>

theorem carvers_agree:
  "findFirstFreePrefix parent sz allocated =
     (case findFreePrefixesInSupernet parent sz allocated limit of
        Some (s # _) \<Rightarrow> Some s | _ \<Rightarrow> None)"
proof -
  have "first_free_prefix parent sz allocated =
     (case free_prefixes parent sz allocated limit of Some (p # _) \<Rightarrow> Some p | _ \<Rightarrow> None)"
    unfolding first_free_prefix_def free_prefixes_def
    using ipam_scan_head[symmetric] by (auto split: list.splits)
  then show ?thesis
    by (auto simp: findFirstFreePrefix_def findFreePrefixesInSupernet_def
        split: option.splits list.splits)
qed

text \<open>The free-space carver returns the lowest \<open>limit\<close> free sub-prefixes in ascending
  order, pairwise disjoint and none of them sharing an address with an allocated prefix.\<close>

theorem free_prefixes_sorted_disjoint:
  assumes "canonical parent" "zone_free allocated"
    and "free_prefixes parent sz allocated limit = Some ps"
  shows "length ps \<le> max 1 limit
     \<and> sorted_wrt (\<lambda>p q. pval p < pval q \<and> pfx_range p \<inter> pfx_range q = {}) ps
     \<and> (\<forall>p\<in>set ps. int (plen p) = sz \<and> pfx_range p \<subseteq> pfx_range parent \<and> free_of allocated p)"
proof -
  have g: "good_size parent sz"
    using assms(3) by (auto simp: free_prefixes_def good_size_def BitLen_def pfam_def
        split: if_splits)
  then have ps: "ps = take (max 1 limit) (filter (free_of allocated) (sub_prefixes parent (nat sz)))"
    using assms free_prefixes_filter by (metis option.inject)
  have "sorted_wrt (\<lambda>p q. pval p < pval q \<and> pfx_range p \<inter> pfx_range q = {})
      (sub_prefixes parent (nat sz))"
    unfolding sub_prefixes_def sorted_wrt_map
    by (rule sorted_wrt_mono_rel[OF _ sorted_wrt_upt]) (use sub_prefix_disjoint[OF assms(1) g] in auto)
  then have "sorted_wrt (\<lambda>p q. pval p < pval q \<and> pfx_range p \<inter> pfx_range q = {}) ps"
    unfolding ps by (intro sorted_wrt_take sorted_wrt_filter)
  moreover have "set ps \<subseteq> {p \<in> set (sub_prefixes parent (nat sz)). free_of allocated p}"
    unfolding ps using set_take_subset by fastforce
  ultimately show ?thesis
    using set_sub_prefixes[OF assms(1) g] ps by auto
qed

lemma free_prefixes_sorted_disjoint_witness:
  "let parent = PrefixFrom (mk_addr V4 167772160) 24; taken = [PrefixFrom (mk_addr V4 167772160) 26]
   in \<exists>p q. free_prefixes parent 26 taken 2 = Some [p, q] \<and> pfx_range p \<inter> pfx_range q = {}"
proof -
  let ?parent = "PrefixFrom (mk_addr V4 167772160) 24"
  let ?taken = "[PrefixFrom (mk_addr V4 167772160) 26]"
  let ?p = "PrefixFrom (mk_addr V4 167772224) 26" and ?q = "PrefixFrom (mk_addr V4 167772288) 26"
  have h: "canonical ?parent" "zone_free ?taken" "free_prefixes ?parent 26 ?taken 2 = Some [?p, ?q]"
    by code_simp+
  from free_prefixes_sorted_disjoint[OF this] have "pfx_range ?p \<inter> pfx_range ?q = {}"
    by simp
  with h(3) show ?thesis by (auto simp: Let_def)
qed

end
