(* ===== verification/Httpx.thy ===== *)
theory Httpx
  imports Prelude
begin

text \<open>
  \<^verbatim>\<open>internal/httpx\<close>: what a handler can answer, the errors a query returns and
  their translation to a status (\<^verbatim>\<open>Mapped\<close>), and the parsing of page bounds.  A
  query string is a function from parameter names to values, the empty string
  when absent (\<^verbatim>\<open>url.Values.Get\<close>); a handler is a function to \<open>resp\<close>, so every
  early return is a branch of it.
\<close>

datatype dberr =
    NoRows
  | OutsideScope
  | FKViolation string
  | UniqueViolation string
  | DbOther string

datatype 'a resp = HttpError nat string | HttpJSON nat 'a | HttpNoContent

type_synonym query_values = "string \<Rightarrow> string"

definition Mapped :: "dberr \<Rightarrow> nat \<times> string" where
  "Mapped e =
     (case e of
        NoRows \<Rightarrow> (404, ''not found'')
      | OutsideScope \<Rightarrow> (403, ''resource is outside your scope'')
      | FKViolation m \<Rightarrow> (409, m)
      | UniqueViolation m \<Rightarrow> (409, m)
      | DbOther m \<Rightarrow> (500, ''internal error''))"

definition WriteMapped :: "dberr \<Rightarrow> 'a resp" where
  "WriteMapped e = HttpError (fst (Mapped e)) (snd (Mapped e))"

text \<open>\<^verbatim>\<open>int32(n)\<close>: the low 32 bits, read as a signed number.\<close>

definition int32 :: "int \<Rightarrow> int" where
  "int32 n = signed_take_bit 31 n"

definition parseBoundedInt32 :: "string \<Rightarrow> int \<Rightarrow> int \<Rightarrow> int \<Rightarrow> int" where
  "parseBoundedInt32 s dflt lo hi =
     (if s = [] then dflt
      else case atoi s of
             None \<Rightarrow> dflt
           | Some n \<Rightarrow>
               let v = int32 n in if v < lo then lo else if hi < v then hi else v)"

definition firstNonEmpty :: "string \<Rightarrow> string \<Rightarrow> string" where
  "firstNonEmpty a b = (if a \<noteq> [] then a else b)"

definition PageBounds :: "query_values \<Rightarrow> int \<times> int" where
  "PageBounds q =
     (let limit = parseBoundedInt32 (firstNonEmpty (q ''limit'') (q ''page_size'')) 50 1 500
      in if q ''offset'' \<noteq> [] then (limit, parseBoundedInt32 (q ''offset'') 0 0 1000000)
         else if q ''page'' \<noteq> [] then
           (let page = parseBoundedInt32 (q ''page'') 1 1 1000000
            in (limit, int32 (int32 (page - 1) * limit)))
         else (limit, 0))"

record 'a Page =
  Items :: "'a list"
  Total :: int
  Limit :: int
  Offset :: int

definition EmptyPage :: "int \<Rightarrow> int \<Rightarrow> 'a Page" where
  "EmptyPage limit offset = \<lparr>Items = [], Total = 0, Limit = limit, Offset = offset\<rparr>"

definition status_of :: "'a resp \<Rightarrow> nat" where
  "status_of r = (case r of HttpError c _ \<Rightarrow> c | HttpJSON c _ \<Rightarrow> c | HttpNoContent \<Rightarrow> 204)"

text \<open>How witnesses take apart the evaluated answer of a handler.\<close>

lemma HttpJSON_obtain:
  "(case h of HttpJSON c r \<Rightarrow> c = 200 \<and> P r | _ \<Rightarrow> False) \<Longrightarrow> \<exists>r. h = HttpJSON 200 r \<and> P r"
  by (cases h) auto

lemma parseBoundedInt32_range:
  "\<lbrakk>lo \<le> dflt; dflt \<le> hi\<rbrakk> \<Longrightarrow>
   lo \<le> parseBoundedInt32 s dflt lo hi \<and> parseBoundedInt32 s dflt lo hi \<le> hi"
  by (auto simp: parseBoundedInt32_def Let_def split: option.split)

lemma int32_id: "\<lbrakk>- (2 ^ 31) \<le> n; n < 2 ^ 31\<rbrakk> \<Longrightarrow> int32 n = n"
  unfolding int32_def by (rule signed_take_bit_int_eq_self) simp_all

text \<open>Whatever a client puts in the query string, a list handler gets a limit between 1 and
  500 and a non-negative offset below 500 million, so the 32-bit multiplication of page number and
  limit cannot wrap around.\<close>

theorem PageBounds_bounded:
  "PageBounds q = (limit, offset) \<Longrightarrow>
   1 \<le> limit \<and> limit \<le> 500 \<and> 0 \<le> offset \<and> offset < 500000000"
proof -
  assume pb: "PageBounds q = (limit, offset)"
  let ?l = "parseBoundedInt32 (firstNonEmpty (q ''limit'') (q ''page_size'')) 50 1 500"
  let ?p = "parseBoundedInt32 (q ''page'') 1 1 1000000"
  have l: "1 \<le> ?l" "?l \<le> 500" and p: "1 \<le> ?p" "?p \<le> 1000000"
    using parseBoundedInt32_range by auto
  have "(?p - 1) * ?l \<le> 999999 * 500"
    using l p by (intro mult_mono) auto
  moreover have "0 \<le> (?p - 1) * ?l"
    using l p by (intro mult_nonneg_nonneg) auto
  ultimately have m: "(?p - 1) * ?l \<le> 499999500" "0 \<le> (?p - 1) * ?l" by simp_all
  then have "int32 (int32 (?p - 1) * ?l) = (?p - 1) * ?l"
    using p by (simp add: int32_id)
  then show ?thesis
    using pb l p m
      parseBoundedInt32_range[of 0 0 1000000 "q ''offset''"]
    by (auto simp: PageBounds_def Let_def split: if_splits)
qed

lemma PageBounds_bounded_witness:
  "let (l, off) = PageBounds (\<lambda>k. if k = ''page'' then ''4294967297'' else if k = ''page_size'' then ''900'' else [])
   in l = 500 \<and> 0 \<le> off"
proof -
  have "PageBounds (\<lambda>k. if k = ''page'' then ''4294967297''
      else if k = ''page_size'' then ''900'' else []) = (500, 0)"
    by code_simp
  with PageBounds_bounded[OF this] show ?thesis by (simp del: list.inject)
qed

end
