(* ===== verification/Utilization.thy ===== *)
theory Utilization
  imports NetText Httpx Carve
begin

text \<open>
  \<^verbatim>\<open>internal/ipam/utilization.go\<close> and \<^verbatim>\<open>internal/ipam/free_space.go\<close>: host
  capacity of a prefix, the next free address, and the four read handlers built
  on them.  A handler takes the results of its queries as arguments (\<open>Inl\<close> is the
  error the query returned), the parser of \<^verbatim>\<open>google/uuid\<close>, and \<open>pct\<close>, the IEEE
  double computation \<^verbatim>\<open>math.Round(10000.0*float64(a)/float64(c)) / 100.0\<close>, on which
  nothing here depends.
\<close>

definition int64Max :: int where
  "int64Max = 2 ^ 63 - 1"

lemma is_digit_not_space: "is_digit c \<Longrightarrow> \<not> is_space c"
  by (auto simp: is_digit_def is_space_def)

lemma trim_space_id:
  "\<forall>c\<in>set s. \<not> is_space c \<Longrightarrow> trim_space s = s"
  unfolding trim_space_def by (metis dropWhile_eq_self_iff hd_in_set rev_rev_ident set_rev)

lemma prefix_string_no_space:
  assumes "zone (paddr p) = []"
  shows "\<forall>c\<in>set (prefix_string p). \<not> is_space c"
proof -
  have sep: "\<not> is_space CHR ''.''" "\<not> is_space CHR '':''" "\<not> is_space CHR ''/''"
      "\<not> is_space CHR ''f''"
    by (simp_all add: is_space_def)
  have hex: "is_hex c \<Longrightarrow> \<not> is_space c" for c
    by (auto simp: is_hex_def is_space_def is_digit_def)
  have q: "\<forall>c\<in>set (quad_string v). \<not> is_space c" for v
    using quad_string_chars[of _ v] sep is_digit_not_space by blast
  have g: "\<forall>c\<in>set (groups_string gs). \<not> is_space c" for gs
    using groups_string_chars[of _ gs] sep hex by blast
  have d: "\<forall>c\<in>set (dec n). \<not> is_space c" for n
    using dec_digits[of _ n] is_digit_not_space by blast
  have "\<forall>c\<in>set (addr_string (paddr p)). \<not> is_space c"
    using assms q g sep unfolding addr_string_def by (cases "fam (paddr p)") auto
  then show ?thesis using d sep unfolding prefix_string_def by auto
qed

lemma trim_prefix_string:
  "valid_prefix p \<Longrightarrow> trim_space (prefix_string p) = prefix_string p"
  using trim_space_id[OF prefix_string_no_space] by (simp add: valid_prefix_def)

section \<open>Capacity and the next free address\<close>

text \<open>Is the prefix a point-to-point link or a host route?\<close>

definition isPtPOrHost :: "prefix \<Rightarrow> bool" where
  "isPtPOrHost p \<longleftrightarrow>
     (Is4 (paddr p) \<and> 31 \<le> plen p) \<or> (\<not> Is4 (paddr p) \<and> 127 \<le> plen p)"

definition prefix_capacity :: "prefix \<Rightarrow> int" where
  "prefix_capacity p =
     (let hostBits = BitLen (paddr p) - plen p
      in if isPtPOrHost p then (if 63 \<le> hostBits then int64Max else 2 ^ hostBits)
         else if 63 \<le> hostBits then int64Max
         else let n = 2 ^ hostBits - 2 in if n < 0 then 0 else n)"

definition networkCapacity :: "string \<Rightarrow> int option" where
  "networkCapacity s = map_option prefix_capacity (ParsePrefix (trim_space s))"

text \<open>The probing loop; the last argument counts the probes that are left.\<close>

fun probe :: "addr list \<Rightarrow> addr \<Rightarrow> nat \<Rightarrow> addr option" where
  "probe used cand 0 = None"
| "probe used cand (Suc n) =
     (if cand \<notin> set used then Some cand
      else case Next cand of None \<Rightarrow> None | Some cand' \<Rightarrow> probe used cand' n)"

definition parse_used :: "string list \<Rightarrow> addr list" where
  "parse_used used = List.map_filter (\<lambda>u. ParseAddr (trim_space u)) used"

definition next_free :: "prefix \<Rightarrow> string list \<Rightarrow> addr option" where
  "next_free p used =
     (let cap = prefix_capacity p;
          maxProbes = min (int (length used) + 1) cap
      in if cap \<le> 0 then None
         else if isPtPOrHost p then probe (parse_used used) (paddr p) (nat maxProbes)
         else case Next (paddr p) of
                None \<Rightarrow> None
              | Some cand \<Rightarrow> probe (parse_used used) cand (nat maxProbes))"

text \<open>
  The first candidate is \<^verbatim>\<open>addr.Next()\<close>; when the prefix text names the very last
  address of the family that is the zero address, which is in no used set and
  prints as "invalid IP".
\<close>

definition nextFreeAddress :: "string \<Rightarrow> string list \<Rightarrow> string option" where
  "nextFreeAddress s used =
     (case ParsePrefix (trim_space s) of
        None \<Rightarrow> None
      | Some p \<Rightarrow>
          if 0 < prefix_capacity p \<and> \<not> isPtPOrHost p \<and> Next (paddr p) = None
          then Some ''invalid IP''
          else map_option addr_string (next_free p used))"

text \<open>The addresses a host may take: all of a point-to-point prefix, otherwise all but the ends.\<close>

definition host_range :: "prefix \<Rightarrow> nat set" where
  "host_range p =
     (if isPtPOrHost p then pfx_range p
      else pfx_range p - {pfx_lo p, pfx_lo p + 2 ^ host_bits p - 1})"

definition first_host :: "prefix \<Rightarrow> nat" where
  "first_host p = (if isPtPOrHost p then pfx_lo p else pfx_lo p + 1)"

definition host_count :: "prefix \<Rightarrow> nat" where
  "host_count p = (if isPtPOrHost p then 2 ^ host_bits p else 2 ^ host_bits p - 2)"

lemma wide_host_bits:
  assumes "valid_prefix p" "\<not> isPtPOrHost p"
  shows "2 \<le> host_bits p" "(4::nat) \<le> 2 ^ host_bits p"
proof -
  show h: "2 \<le> host_bits p"
    using assms unfolding valid_prefix_def isPtPOrHost_def host_bits_def Is4_def pfam_def
    by (cases "fam (paddr p)") (auto simp: bit_len_def)
  have "(2::nat) ^ 2 \<le> 2 ^ host_bits p" using h by (intro power_increasing) auto
  then show "(4::nat) \<le> 2 ^ host_bits p" by simp
qed

lemma host_range_interval:
  assumes "valid_prefix p"
  shows "host_range p = {first_host p ..< first_host p + host_count p}"
proof (cases "isPtPOrHost p")
  case False
  from wide_host_bits(2)[OF assms False] have four: "(4::nat) \<le> 2 ^ host_bits p" .
  show ?thesis
    unfolding host_range_def first_host_def host_count_def pfx_range_def
    using four False by auto
qed (simp add: host_range_def first_host_def host_count_def pfx_range_def)

lemma ptp_host_bits: "valid_prefix p \<Longrightarrow> isPtPOrHost p \<Longrightarrow> host_bits p \<le> 1"
  unfolding valid_prefix_def isPtPOrHost_def host_bits_def Is4_def pfam_def
  by (cases "fam (paddr p)") (auto simp: bit_len_def)

text \<open>
  The capacity is the number of host addresses, or the largest signed 64-bit
  number once there are 63 host bits.
\<close>

lemma prefix_capacity_eq:
  assumes "valid_prefix p"
  shows "prefix_capacity p = (if host_bits p < 63 then int (host_count p) else int64Max)"
proof (cases "isPtPOrHost p")
  case True
  then show ?thesis
    using ptp_host_bits[OF assms True]
    by (simp add: prefix_capacity_def host_bits_def pfam_def BitLen_def host_count_def)
next
  case False
  have "(2::int) ^ host_bits p - 2 = int (2 ^ host_bits p - 2)"
    using wide_host_bits(2)[OF assms False] by (simp add: of_nat_diff)
  then show ?thesis
    using False
    by (simp add: prefix_capacity_def host_bits_def pfam_def BitLen_def host_count_def Let_def)
qed

lemma host_count_pos: "valid_prefix p \<Longrightarrow> 0 < host_count p"
  using wide_host_bits(2)[of p] by (cases "isPtPOrHost p") (auto simp: host_count_def)

lemma prefix_capacity_pos: "valid_prefix p \<Longrightarrow> 0 < prefix_capacity p"
  using host_count_pos[of p] by (simp add: prefix_capacity_eq int64Max_def)

lemma prefix_capacity_nonneg: "0 \<le> prefix_capacity p"
  by (simp add: prefix_capacity_def Let_def int64Max_def)

lemma prefix_capacity_le: "prefix_capacity p \<le> int64Max"
proof -
  let ?h = "BitLen (paddr p) - plen p"
  have "\<not> 63 \<le> ?h \<Longrightarrow> (2::int) ^ ?h \<le> 2 ^ 62" by (intro power_increasing) auto
  then have "\<not> 63 \<le> ?h \<Longrightarrow> (2::int) ^ ?h \<le> int64Max" by (simp add: int64Max_def)
  moreover have "0 \<le> int64Max" by (simp add: int64Max_def)
  ultimately show ?thesis
    unfolding prefix_capacity_def Let_def by (auto split: if_split)
qed

lemma Next_simps:
  "Suc (val a) < 2 ^ BitLen a \<Longrightarrow> Next a = Some (a\<lparr>val := Suc (val a)\<rparr>)"
  by (simp add: Next_def)

text \<open>The loop finds the first free address of the block it walks.\<close>

lemma probe_eq_find:
  assumes "v + n \<le> 2 ^ bit_len f"
  shows "probe used (mk_addr f v) n = find (\<lambda>a. a \<notin> set used) (map (mk_addr f) [v..<v + n])"
  using assms
proof (induction n arbitrary: v)
  case (Suc n)
  have u: "[v..<v + Suc n] = v # [Suc v..<Suc v + n]" by (simp add: upt_conv_Cons del: upt_Suc)
  show ?case
  proof (cases "mk_addr f v \<in> set used")
    case True
    show ?thesis
    proof (cases n)
      case 0
      then show ?thesis using True by (simp add: Next_def)
    next
      case (Suc k)
      then have "Next (mk_addr f v) = Some (mk_addr f (Suc v))"
        using Suc.prems by (simp add: Next_def BitLen_def mk_addr_def)
      then show ?thesis using True Suc.IH[of "Suc v"] Suc.prems u by (simp del: upt_Suc)
    qed
  next
    case False
    then show ?thesis using u by (simp del: upt_Suc)
  qed
qed simp

lemma canonical_paddr: "canonical p \<Longrightarrow> paddr p = mk_addr (pfam p) (pfx_lo p)"
  using canonical_lo[of p]
  by (simp add: canonical_def valid_prefix_def mk_addr_def pfam_def pval_def)

text \<open>\<open>next_free\<close> as a search of the first hosts of the prefix.\<close>

definition probes :: "prefix \<Rightarrow> string list \<Rightarrow> nat" where
  "probes p used = nat (min (int (length used) + 1) (prefix_capacity p))"

lemma probes_le_hosts:
  assumes "canonical p" "length used < 2 ^ 63 - 2"
  shows "probes p used \<le> host_count p" "0 < probes p used"
    "probes p used < host_count p \<Longrightarrow> probes p used = Suc (length used)"
proof -
  have v: "valid_prefix p" using assms(1) by (simp add: canonical_def)
  have big: "2 ^ 63 - 2 \<le> host_count p" if "\<not> host_bits p < 63"
  proof -
    have "(2::nat) ^ 63 \<le> 2 ^ host_bits p" using that by (intro power_increasing) auto
    then show ?thesis unfolding host_count_def by (cases "isPtPOrHost p"; simp; linarith?)
  qed
  show "probes p used \<le> host_count p"
    using big assms(2) by (cases "host_bits p < 63") (auto simp: probes_def prefix_capacity_eq[OF v])
  show "0 < probes p used" using prefix_capacity_pos[OF v] by (simp add: probes_def)
  show "probes p used < host_count p \<Longrightarrow> probes p used = Suc (length used)"
    using assms(2) big
    by (cases "host_bits p < 63") (auto simp: probes_def prefix_capacity_eq[OF v] int64Max_def)
qed

lemma hosts_bound:
  assumes "canonical p"
  shows "first_host p + host_count p \<le> 2 ^ bit_len (pfam p)"
    "\<not> isPtPOrHost p \<Longrightarrow> Suc (pfx_lo p) < 2 ^ bit_len (pfam p)"
proof -
  have v: "valid_prefix p" using assms(1) by (simp add: canonical_def)
  note b = pfx_range_bound[OF v]
  show "first_host p + host_count p \<le> 2 ^ bit_len (pfam p)"
    using b wide_host_bits(2)[OF v] by (auto simp: first_host_def host_count_def)
  show "\<not> isPtPOrHost p \<Longrightarrow> Suc (pfx_lo p) < 2 ^ bit_len (pfam p)"
    using b wide_host_bits(2)[OF v] by linarith
qed

lemma nextFreeAddress_canonical:
  assumes "canonical p"
  shows "nextFreeAddress (prefix_string p) used = map_option addr_string (next_free p used)"
proof -
  have v: "valid_prefix p" using assms by (simp add: canonical_def)
  have "Next (paddr p) \<noteq> None" if "\<not> isPtPOrHost p"
    using hosts_bound(2)[OF assms that] canonical_paddr[OF assms] by (simp add: Next_def BitLen_def)
  then show ?thesis
    using ParsePrefix_prefix_string[OF v] trim_prefix_string[OF v]
    by (auto simp: nextFreeAddress_def)
qed

lemma next_free_find:
  assumes "canonical p" "length used < 2 ^ 63 - 2"
  shows "next_free p used = find (\<lambda>a. a \<notin> set (parse_used used))
     (map (mk_addr (pfam p)) [first_host p ..< first_host p + probes p used])"
proof -
  have v: "valid_prefix p" using assms(1) by (simp add: canonical_def)
  have bound: "first_host p + probes p used \<le> 2 ^ bit_len (pfam p)"
    using hosts_bound(1)[OF assms(1)] probes_le_hosts(1)[OF assms] by linarith
  note ca = canonical_paddr[OF assms(1)]
  show ?thesis
  proof (cases "isPtPOrHost p")
    case True
    then have "next_free p used = probe (parse_used used) (mk_addr (pfam p) (first_host p)) (probes p used)"
      using prefix_capacity_pos[OF v] ca by (simp add: next_free_def probes_def first_host_def)
    then show ?thesis using probe_eq_find[OF bound] by simp
  next
    case False
    then have "Next (paddr p) = Some (mk_addr (pfam p) (first_host p))"
      using hosts_bound(2)[OF assms(1)] unfolding ca
      by (simp add: Next_def BitLen_def first_host_def mk_addr_def)
    then have "next_free p used = probe (parse_used used) (mk_addr (pfam p) (first_host p)) (probes p used)"
      using False prefix_capacity_pos[OF v] by (simp add: next_free_def probes_def)
    then show ?thesis using probe_eq_find[OF bound] by simp
  qed
qed

lemma length_parse_used: "length (parse_used used) \<le> length used"
  unfolding parse_used_def by (induction used) (auto simp: List.map_filter_simps split: option.splits)

text \<open>Pigeonhole: one more probe than there are used addresses finds a free one.\<close>

lemma probes_all_used:
  assumes "\<forall>i\<in>{a ..< a + n}. mk_addr f i \<in> set xs"
  shows "n \<le> length xs"
proof -
  have "mk_addr f ` {a ..< a + n} \<subseteq> set xs" using assms by auto
  then have "card (mk_addr f ` {a ..< a + n}) \<le> card (set xs)"
    by (rule card_mono[rotated]) simp
  moreover have "inj_on (mk_addr f) {a ..< a + n}" by (auto intro!: inj_onI simp: mk_addr_def)
  then have "card (mk_addr f ` {a ..< a + n}) = n" by (simp add: card_image)
  ultimately have "n \<le> card (set xs)" by simp
  then show ?thesis using card_length[of xs] by linarith
qed

section \<open>The utilization handlers\<close>

record subnet_row =
  sn_id :: uuid
  sn_prefix :: string
  sn_name :: "string option"
  sn_site :: "uuid option"
  sn_fabric :: uuid
  sn_vrf :: uuid
  sn_purpose :: "string option"

record 'f utilization =
  u_id :: uuid
  u_prefix :: string
  u_capacity :: int
  u_allocated :: int
  u_free :: int
  u_percent :: 'f
  u_next :: "string option"
  u_count :: nat

definition free_of_capacity :: "int \<Rightarrow> int \<Rightarrow> int" where
  "free_of_capacity capacity allocated =
     (if capacity - allocated < 0 then 0 else capacity - allocated)"

definition getSubnetUtilization ::
    "(string \<Rightarrow> uuid option) \<Rightarrow> (int \<Rightarrow> int \<Rightarrow> 'f::zero) \<Rightarrow> (uuid \<Rightarrow> dberr + subnet_row)
     \<Rightarrow> (uuid \<Rightarrow> dberr + string list) \<Rightarrow> string \<Rightarrow> 'f utilization resp" where
  "getSubnetUtilization parse_uuid pct GetSubnet ListAddressStringsInSubnet raw_id =
     (case parse_uuid raw_id of
        None \<Rightarrow> HttpError 400 ''id is not a uuid''
      | Some i \<Rightarrow>
       (case GetSubnet i of
          Inl NoRows \<Rightarrow> HttpError 404 ''subnet not found''
        | Inl e \<Rightarrow> WriteMapped e
        | Inr sn \<Rightarrow>
         (case ListAddressStringsInSubnet i of
            Inl e \<Rightarrow> WriteMapped e
          | Inr used \<Rightarrow>
           (case networkCapacity (sn_prefix sn) of
              None \<Rightarrow> HttpError 500 ''subnet prefix unparseable''
            | Some capacity \<Rightarrow>
                let allocated = int (length used) in
                HttpJSON 200
                  \<lparr>u_id = i, u_prefix = sn_prefix sn, u_capacity = capacity,
                   u_allocated = allocated, u_free = free_of_capacity capacity allocated,
                   u_percent = (if 0 < capacity then pct allocated capacity else 0),
                   u_next = nextFreeAddress (sn_prefix sn) used, u_count = 0\<rparr>))))"

text \<open>The saturating sum over the subnet prefixes; unparseable rows are skipped.\<close>

fun allocated_sum :: "int \<Rightarrow> string list \<Rightarrow> int" where
  "allocated_sum allocated [] = allocated"
| "allocated_sum allocated (s # ss) =
     (case networkCapacity s of
        None \<Rightarrow> allocated_sum allocated ss
      | Some c \<Rightarrow>
          if int64Max - c < allocated then int64Max else allocated_sum (allocated + c) ss)"

definition getSupernetUtilization ::
    "(string \<Rightarrow> uuid option) \<Rightarrow> (int \<Rightarrow> int \<Rightarrow> 'f::zero) \<Rightarrow> (uuid \<Rightarrow> dberr + string)
     \<Rightarrow> (uuid \<Rightarrow> dberr + string list) \<Rightarrow> string \<Rightarrow> 'f utilization resp" where
  "getSupernetUtilization parse_uuid pct GetSupernet ListSubnetPrefixesBySupernet raw_id =
     (case parse_uuid raw_id of
        None \<Rightarrow> HttpError 400 ''id is not a uuid''
      | Some i \<Rightarrow>
       (case GetSupernet i of
          Inl NoRows \<Rightarrow> HttpError 404 ''supernet not found''
        | Inl e \<Rightarrow> WriteMapped e
        | Inr sn_pfx \<Rightarrow>
         (case ListSubnetPrefixesBySupernet i of
            Inl e \<Rightarrow> WriteMapped e
          | Inr prefixes \<Rightarrow>
           (case networkCapacity sn_pfx of
              None \<Rightarrow> HttpError 500 ''supernet prefix unparseable''
            | Some capacity \<Rightarrow>
                let allocated = allocated_sum 0 prefixes in
                HttpJSON 200
                  \<lparr>u_id = i, u_prefix = sn_pfx, u_capacity = capacity,
                   u_allocated = allocated, u_free = free_of_capacity capacity allocated,
                   u_percent = (if 0 < capacity then pct allocated capacity else 0),
                   u_next = None, u_count = length prefixes\<rparr>))))"

lemma networkCapacity_bounds: "networkCapacity s = Some c \<Longrightarrow> 0 \<le> c \<and> c \<le> int64Max"
  using prefix_capacity_nonneg prefix_capacity_le by (auto simp: networkCapacity_def)

text \<open>The sum is the exact one, capped; no 64-bit addition in it overflows.\<close>

lemma allocated_sum_eq:
  assumes "0 \<le> a" "a \<le> int64Max"
  shows "allocated_sum a ss = min int64Max (a + sum_list (List.map_filter networkCapacity ss))"
  using assms
proof (induction a ss rule: allocated_sum.induct)
  case (2 a s ss)
  have nonneg: "0 \<le> sum_list (List.map_filter networkCapacity ss)"
    by (intro sum_list_nonneg) (auto simp: map_filter_def dest: networkCapacity_bounds)
  show ?case
  proof (cases "networkCapacity s")
    case None
    then show ?thesis using 2 by (simp add: map_filter_simps)
  next
    case (Some c)
    then show ?thesis
      using 2 nonneg networkCapacity_bounds[OF Some] by (auto simp: map_filter_simps)
  qed
qed (simp add: map_filter_simps)

section \<open>Properties\<close>

text \<open>A returned next-available address is a host address of the subnet (never the network or
  broadcast address of a prefix wider than a point-to-point link), is not among the used
  addresses, and is the lowest such host.\<close>

theorem nextFreeAddress_lowest_free_host:
  assumes "canonical p" "length used < 2 ^ 63 - 2"
    and "nextFreeAddress (prefix_string p) used = Some s"
  shows "\<exists>a. ParseAddr s = Some a \<and> fam a = pfam p \<and> val a \<in> host_range p
     \<and> a \<notin> set (parse_used used)
     \<and> (\<forall>v\<in>host_range p. v < val a \<longrightarrow> mk_addr (pfam p) v \<in> set (parse_used used))"
proof -
  have v: "valid_prefix p" using assms(1) by (simp add: canonical_def)
  obtain a where a: "next_free p used = Some a" "s = addr_string a"
    using assms(3) by (auto simp: nextFreeAddress_canonical[OF assms(1)])
  obtain i where i: "first_host p \<le> i" "i < first_host p + probes p used" "a = mk_addr (pfam p) i"
      "a \<notin> set (parse_used used)"
      "\<forall>j. first_host p \<le> j \<and> j < i \<longrightarrow> mk_addr (pfam p) j \<in> set (parse_used used)"
    using find_upt[OF a(1)[unfolded next_free_find[OF assms(1,2)]]] by blast
  have "i < first_host p + host_count p"
    using i(2) probes_le_hosts(1)[OF assms(1,2)] by linarith
  moreover from this have "i < 2 ^ bit_len (pfam p)"
    using hosts_bound(1)[OF assms(1)] by linarith
  then have "ParseAddr s = Some a"
    using ParseAddr_addr_string[of a] i(3) a(2) by (simp add: valid_addr_def BitLen_def)
  ultimately show ?thesis
    using i host_range_interval[OF v] by auto
qed

lemma nextFreeAddress_lowest_free_host_witness:
  "let p = PrefixFrom (mk_addr V4 167772160) 29
   in \<exists>a. ParseAddr ''10.0.0.2'' = Some a \<and> val a \<in> host_range p
        \<and> mk_addr V4 167772161 \<in> set (parse_used [''10.0.0.1'', ''10.0.0.3''])
        \<and> a \<notin> set (parse_used [''10.0.0.1'', ''10.0.0.3''])"
proof -
  let ?p = "PrefixFrom (mk_addr V4 167772160) 29" and ?u = "[''10.0.0.1'', ''10.0.0.3'']"
  have "canonical ?p" "length ?u < 2 ^ 63 - 2"
    "nextFreeAddress (prefix_string ?p) ?u = Some ''10.0.0.2''"
    by code_simp+
  from nextFreeAddress_lowest_free_host[OF this] obtain a where
    "ParseAddr ''10.0.0.2'' = Some a" "val a \<in> host_range ?p" "a \<notin> set (parse_used ?u)"
    by blast
  moreover have "mk_addr V4 167772161 \<in> set (parse_used ?u)" by code_simp
  ultimately show ?thesis unfolding Let_def by blast
qed

text \<open>A subnet is reported full (no next-available address) exactly when every host address
  of it is used: the bound of one probe more than there are used addresses never gives up early.\<close>

theorem nextFreeAddress_None_iff_full:
  assumes "canonical p" "length used < 2 ^ 63 - 2"
  shows "nextFreeAddress (prefix_string p) used = None \<longleftrightarrow>
     (\<forall>v\<in>host_range p. mk_addr (pfam p) v \<in> set (parse_used used))"
proof -
  have v: "valid_prefix p" using assms(1) by (simp add: canonical_def)
  let ?taken = "\<lambda>i. mk_addr (pfam p) i \<in> set (parse_used used)"
  let ?n = "probes p used" and ?a = "first_host p"
  have "nextFreeAddress (prefix_string p) used = None \<longleftrightarrow> next_free p used = None"
    by (simp add: nextFreeAddress_canonical[OF assms(1)])
  also have "\<dots> \<longleftrightarrow> (\<forall>i\<in>{?a ..< ?a + ?n}. ?taken i)"
    unfolding next_free_find[OF assms] by (auto simp: find_None_iff)
  also have "\<dots> \<longleftrightarrow> (\<forall>i\<in>{?a ..< ?a + host_count p}. ?taken i)"
  proof
    assume all: "\<forall>i\<in>{?a ..< ?a + ?n}. ?taken i"
    then have "?n \<le> length used"
      using probes_all_used length_parse_used le_trans by blast
    then have "?n = host_count p"
      using probes_le_hosts[OF assms] by linarith
    with all show "\<forall>i\<in>{?a ..< ?a + host_count p}. ?taken i" by simp
  qed (use probes_le_hosts(1)[OF assms] in auto)
  finally show ?thesis using host_range_interval[OF v] by simp
qed

lemma nextFreeAddress_None_iff_full_witness:
  "let p = PrefixFrom (mk_addr V4 167772160) 30
   in \<forall>v\<in>host_range p. mk_addr V4 v \<in> set (parse_used [''10.0.0.2'', ''10.0.0.1''])"
proof -
  let ?p = "PrefixFrom (mk_addr V4 167772160) 30" and ?u = "[''10.0.0.2'', ''10.0.0.1'']"
  have "canonical ?p" "length ?u < 2 ^ 63 - 2" "nextFreeAddress (prefix_string ?p) ?u = None"
    by code_simp+
  with nextFreeAddress_None_iff_full[of ?p ?u] show ?thesis by (simp add: Let_def)
qed

text \<open>The supernet utilization answer is arithmetically sound for every database content: the
  allocated figure is the sum of the capacities of the parseable child prefixes, capped at the
  largest 64-bit number, and the free figure lies between 0 and the capacity.\<close>

theorem getSupernetUtilization_sound:
  assumes "getSupernetUtilization parse_uuid pct GetSupernet ListPrefixes raw = HttpJSON c u"
  shows "c = 200 \<and> parse_uuid raw = Some (u_id u)
     \<and> GetSupernet (u_id u) = Inr (u_prefix u)
     \<and> (\<exists>ps. ListPrefixes (u_id u) = Inr ps
          \<and> u_allocated u = min int64Max (sum_list (List.map_filter networkCapacity ps)))
     \<and> networkCapacity (u_prefix u) = Some (u_capacity u)
     \<and> 0 \<le> u_free u \<and> u_free u \<le> u_capacity u
     \<and> u_free u = max 0 (u_capacity u - u_allocated u)"
proof -
  obtain i sn ps cap where *: "parse_uuid raw = Some i" "GetSupernet i = Inr sn"
      "ListPrefixes i = Inr ps" "networkCapacity sn = Some cap"
    using assms
    by (auto simp: getSupernetUtilization_def WriteMapped_def split: option.splits sum.splits dberr.splits)
  have sum: "allocated_sum 0 ps = min int64Max (sum_list (List.map_filter networkCapacity ps))"
    using allocated_sum_eq[of 0 ps] by (simp add: int64Max_def)
  have "0 \<le> sum_list (List.map_filter networkCapacity ps)"
    by (intro sum_list_nonneg) (auto simp: map_filter_def dest: networkCapacity_bounds)
  then have "0 \<le> allocated_sum 0 ps" unfolding sum by (simp add: int64Max_def)
  then show ?thesis
    using assms * sum networkCapacity_bounds[OF *(4)]
    by (auto simp: getSupernetUtilization_def free_of_capacity_def Let_def)
qed

lemma getSupernetUtilization_sound_witness:
  "\<exists>u. getSupernetUtilization (\<lambda>_. Some 7) (\<lambda>a c. a) (\<lambda>_. Inr ''2001:db8::/32'')
        (\<lambda>_. Inr [''2001:db8::/48'', ''bogus'', ''2001:db8:1::/48'']) ''id'' = HttpJSON 200 u
     \<and> u_free u = 0 \<and> u_allocated u = int64Max"
proof -
  let ?h = "getSupernetUtilization (\<lambda>_. Some 7) (\<lambda>a c. a) (\<lambda>_. Inr ''2001:db8::/32'')
        (\<lambda>_. Inr [''2001:db8::/48'', ''bogus'', ''2001:db8:1::/48'']) ''id'' :: int utilization resp"
  let ?u = "\<lparr>u_id = 7, u_prefix = ''2001:db8::/32'', u_capacity = int64Max, u_allocated = int64Max,
      u_free = 0, u_percent = int64Max, u_next = None, u_count = 3\<rparr>"
  have h: "?h = HttpJSON 200 ?u" by code_simp
  from getSupernetUtilization_sound[OF h] have "u_free ?u = max 0 (u_capacity ?u - u_allocated ?u)"
    by blast
  with h show ?thesis by (intro exI[of _ ?u]) simp
qed

end
