(* ===== verification/FreeSpace.thy ===== *)
theory FreeSpace
  imports Utilization Carve
begin

text \<open>
  \<^verbatim>\<open>internal/ipam/free_space.go\<close>: the two capacity-planning endpoints.  The query
  string is \<open>query_values\<close>; the three queries each handler makes are arguments.
  UUIDs in a response are kept as such, their text belongs to \<^verbatim>\<open>google/uuid\<close>.
\<close>

definition familyMatches :: "string \<Rightarrow> string \<Rightarrow> bool" where
  "familyMatches prfx family =
     (if family = [] then True
      else let isV4 = CHR '':'' \<notin> set prfx in
        if family = ''v4'' then isV4
        else if family = ''v6'' then \<not> isV4
        else True)"

definition optStr :: "string \<Rightarrow> string option" where
  "optStr s = (if s = [] then None else Some s)"

text \<open>An optional UUID parameter: absent, malformed or parsed.\<close>

definition uuid_param :: "(string \<Rightarrow> uuid option) \<Rightarrow> string \<Rightarrow> string \<Rightarrow> string + uuid option" where
  "uuid_param parse_uuid name v =
     (if v = [] then Inr None
      else case parse_uuid v of
             None \<Rightarrow> Inl (name @ '' is not a uuid'')
           | Some i \<Rightarrow> Inr (Some i))"

record free_row =
  fr_subnet :: uuid
  fr_prefix :: string
  fr_name :: "string option"
  fr_site :: "uuid option"
  fr_fabric :: uuid
  fr_vrf :: uuid
  fr_purpose :: "string option"
  fr_capacity :: int
  fr_allocated :: int
  fr_free :: int
  fr_next :: "string option"

record free_space_query =
  fq_fabric :: "uuid option"
  fq_vrf :: "uuid option"
  fq_family :: "string option"
  fq_min_free :: int

record free_space_response =
  fs_query :: free_space_query
  fs_subnets :: "free_row list"
  fs_count :: nat

text \<open>The bucket of a subnet, in row order (\<^verbatim>\<open>used[a.SubnetID] = append(...)\<close>).\<close>

definition bucket :: "(uuid \<times> string) list \<Rightarrow> uuid \<Rightarrow> string list" where
  "bucket rows i = map snd (filter (\<lambda>r. fst r = i) rows)"

definition free_subnet_row :: "int \<Rightarrow> (uuid \<times> string) list \<Rightarrow> subnet_row \<Rightarrow> free_row option" where
  "free_subnet_row minFree addrs s =
     (case networkCapacity (sn_prefix s) of
        None \<Rightarrow> None
      | Some capacity \<Rightarrow>
          let u = bucket addrs (sn_id s);
              free = free_of_capacity capacity (int (length u))
          in if free < minFree then None
             else Some \<lparr>fr_subnet = sn_id s, fr_prefix = sn_prefix s, fr_name = sn_name s,
                        fr_site = sn_site s, fr_fabric = sn_fabric s, fr_vrf = sn_vrf s,
                        fr_purpose = sn_purpose s, fr_capacity = capacity,
                        fr_allocated = int (length u), fr_free = free,
                        fr_next = nextFreeAddress (sn_prefix s) u\<rparr>)"

text \<open>The stable descending sort on the free count and the cut at the limit.\<close>

definition top_rows :: "int \<Rightarrow> free_row list \<Rightarrow> free_row list" where
  "top_rows limit rows =
     (let out = sort_key (\<lambda>r. - fr_free r) rows
      in if nat limit < length out then take (nat limit) out else out)"

definition free_space_answer ::
    "uuid option \<Rightarrow> uuid option \<Rightarrow> string \<Rightarrow> int \<Rightarrow> free_row list \<Rightarrow> free_space_response" where
  "free_space_answer fabric vrf family minFree out =
     \<lparr>fs_query = \<lparr>fq_fabric = fabric, fq_vrf = vrf, fq_family = optStr family,
                  fq_min_free = minFree\<rparr>,
      fs_subnets = out, fs_count = length out\<rparr>"

definition getFreeSpaceInSubnets ::
    "(string \<Rightarrow> uuid option)
     \<Rightarrow> (uuid option \<Rightarrow> uuid option \<Rightarrow> dberr + subnet_row list)
     \<Rightarrow> (uuid list \<Rightarrow> dberr + (uuid \<times> string) list)
     \<Rightarrow> query_values \<Rightarrow> free_space_response resp" where
  "getFreeSpaceInSubnets parse_uuid ListSubnetsForFreeSpace ListAddressesInSubnets q =
     (case uuid_param parse_uuid ''fabric_id'' (q ''fabric_id'') of
        Inl m \<Rightarrow> HttpError 400 m
      | Inr fabric \<Rightarrow>
     (case uuid_param parse_uuid ''vrf_id'' (q ''vrf_id'') of
        Inl m \<Rightarrow> HttpError 400 m
      | Inr vrf \<Rightarrow>
        let family = q ''family'' in
        if family \<noteq> [] \<and> family \<noteq> ''v4'' \<and> family \<noteq> ''v6''
        then HttpError 400 ''family must be v4 or v6''
        else
          let minFree = parseBoundedInt32 (q ''min_free'') 1 1 1000000000;
              limit = parseBoundedInt32 (q ''limit'') 50 1 500 in
          (case ListSubnetsForFreeSpace fabric vrf of
             Inl e \<Rightarrow> WriteMapped e
           | Inr subnets \<Rightarrow>
               let filtered = filter (\<lambda>s. familyMatches (sn_prefix s) family) subnets in
               (case ListAddressesInSubnets (map sn_id filtered) of
                  Inl e \<Rightarrow> WriteMapped e
                | Inr addrs \<Rightarrow>
                    HttpJSON 200
                      (free_space_answer fabric vrf family minFree
                        (top_rows limit
                          (List.map_filter (free_subnet_row minFree addrs) filtered)))))))"

section \<open>Candidate prefixes\<close>

record carve_candidate =
  cc_supernet :: uuid
  cc_prefix :: string
  cc_name :: "string option"
  cc_fabric :: uuid
  cc_vrf :: uuid
  cc_purpose :: "string option"
  cc_candidates :: "string list"
  cc_count :: nat

record prefix_query =
  pq_size :: int
  pq_fabric :: "uuid option"
  pq_vrf :: "uuid option"
  pq_supernet :: "uuid option"
  pq_family :: "string option"

record prefix_response =
  pr_query :: prefix_query
  pr_supernets :: "carve_candidate list"

definition carve_row :: "int \<Rightarrow> int \<Rightarrow> (uuid \<times> string) list \<Rightarrow> subnet_row \<Rightarrow> carve_candidate option" where
  "carve_row prefixSize limitPerSupernet allocRows sn =
     (case ParsePrefix (sn_prefix sn) of
        None \<Rightarrow> None
      | Some parent \<Rightarrow>
          let maxSize = (if \<not> Is4 (paddr parent) then 128 else 32) in
          if maxSize < prefixSize then None
          else
            let occupied = List.map_filter ParsePrefix (bucket allocRows (sn_id sn));
                cands = (case findFreePrefixesInSupernet parent prefixSize occupied
                                (nat limitPerSupernet) of
                           None \<Rightarrow> [] | Some cs \<Rightarrow> cs)
            in if cands = [] then None
               else Some \<lparr>cc_supernet = sn_id sn, cc_prefix = sn_prefix sn, cc_name = sn_name sn,
                          cc_fabric = sn_fabric sn, cc_vrf = sn_vrf sn, cc_purpose = sn_purpose sn,
                          cc_candidates = cands, cc_count = length cands\<rparr>)"

definition getFreeSpacePrefixes ::
    "(string \<Rightarrow> uuid option)
     \<Rightarrow> (uuid option \<Rightarrow> uuid option \<Rightarrow> uuid option \<Rightarrow> dberr + subnet_row list)
     \<Rightarrow> (uuid list \<Rightarrow> dberr + (uuid \<times> string) list)
     \<Rightarrow> query_values \<Rightarrow> prefix_response resp" where
  "getFreeSpacePrefixes parse_uuid ListSupernetsForCarver ListSubnetPrefixesBySupernets q =
     (if q ''prefix_size'' = [] then HttpError 400 ''prefix_size is required''
      else let prefixSize = parseBoundedInt32 (q ''prefix_size'') 0 1 128 in
      if prefixSize < 1 \<or> 128 < prefixSize
      then HttpError 400 ''prefix_size must be between 1 and 128''
      else
     (case uuid_param parse_uuid ''fabric_id'' (q ''fabric_id'') of
        Inl m \<Rightarrow> HttpError 400 m
      | Inr fabric \<Rightarrow>
     (case uuid_param parse_uuid ''vrf_id'' (q ''vrf_id'') of
        Inl m \<Rightarrow> HttpError 400 m
      | Inr vrf \<Rightarrow>
     (case uuid_param parse_uuid ''supernet_id'' (q ''supernet_id'') of
        Inl m \<Rightarrow> HttpError 400 m
      | Inr supernet \<Rightarrow>
        let family = q ''family'' in
        if family \<noteq> [] \<and> family \<noteq> ''v4'' \<and> family \<noteq> ''v6''
        then HttpError 400 ''family must be v4 or v6''
        else
          let limitPerSupernet = parseBoundedInt32 (q ''limit_per_supernet'') 20 1 200 in
          (case ListSupernetsForCarver fabric vrf supernet of
             Inl e \<Rightarrow> WriteMapped e
           | Inr supernets \<Rightarrow>
               let keep = filter (\<lambda>s. familyMatches (sn_prefix s) family) supernets in
               (case ListSubnetPrefixesBySupernets (map sn_id keep) of
                  Inl e \<Rightarrow> WriteMapped e
                | Inr allocRows \<Rightarrow>
                    HttpJSON 200
                      \<lparr>pr_query = \<lparr>pq_size = prefixSize, pq_fabric = fabric, pq_vrf = vrf,
                                  pq_supernet = supernet, pq_family = optStr family\<rparr>,
                       pr_supernets =
                         List.map_filter (carve_row prefixSize limitPerSupernet allocRows) keep\<rparr>))))))"

section \<open>Properties\<close>

lemma sort_key_split_take:
  assumes "x \<in> set (take n (sort_key f xs))" "y \<in> set (drop n (sort_key f xs))"
  shows "f x \<le> f y"
proof -
  have "sorted (map f (take n (sort_key f xs) @ drop n (sort_key f xs)))" by simp
  then show ?thesis using assms unfolding map_append sorted_append by auto
qed

lemma free_subnet_row_Some:
  "free_subnet_row minFree addrs s = Some r \<Longrightarrow>
     fr_subnet r = sn_id s \<and> minFree \<le> fr_free r
     \<and> networkCapacity (sn_prefix s) = Some (fr_capacity r)
     \<and> fr_free r = max 0 (fr_capacity r - fr_allocated r)
     \<and> fr_allocated r = int (length (bucket addrs (sn_id s)))"
  by (auto simp: free_subnet_row_def free_of_capacity_def Let_def split: option.splits if_splits)

text \<open>The "where can I place N more hosts" answer lists, in descending order of free addresses,
  subnets of the requested family with at least the requested number free, at most as many as
  asked for; and a qualifying subnet that was cut off has no more free addresses than any listed
  one.\<close>

theorem getFreeSpaceInSubnets_best_first:
  assumes "getFreeSpaceInSubnets parse_uuid ListSubnets ListAddrs q = HttpJSON c r"
  shows "\<exists>subnets addrs. ListSubnets (fq_fabric (fs_query r)) (fq_vrf (fs_query r)) = Inr subnets
     \<and> (let rows = List.map_filter (free_subnet_row (fq_min_free (fs_query r)) addrs)
                     (filter (\<lambda>s. familyMatches (sn_prefix s) (q ''family'')) subnets)
        in sorted (map (\<lambda>x. - fr_free x) (fs_subnets r))
          \<and> set (fs_subnets r) \<subseteq> set rows
          \<and> length (fs_subnets r) \<le> 500 \<and> fs_count r = length (fs_subnets r)
          \<and> (\<forall>x\<in>set (fs_subnets r). fq_min_free (fs_query r) \<le> fr_free x)
          \<and> (\<forall>y\<in>set rows. y \<in> set (fs_subnets r)
               \<or> (\<forall>x\<in>set (fs_subnets r). fr_free y \<le> fr_free x)))"
proof -
  let ?limit = "parseBoundedInt32 (q ''limit'') 50 1 500"
  let ?min = "parseBoundedInt32 (q ''min_free'') 1 1 1000000000"
  let ?key = "\<lambda>x. - fr_free x"
  obtain fabric vrf subnets addrs where ok: "ListSubnets fabric vrf = Inr subnets"
    "r = free_space_answer fabric vrf (q ''family'') ?min (top_rows ?limit
          (List.map_filter (free_subnet_row ?min addrs)
            (filter (\<lambda>s. familyMatches (sn_prefix s) (q ''family'')) subnets)))"
    using assms unfolding getFreeSpaceInSubnets_def Let_def WriteMapped_def
    by (simp split: sum.split_asm if_split_asm) blast+
  define rows where "rows = List.map_filter (free_subnet_row ?min addrs)
      (filter (\<lambda>s. familyMatches (sn_prefix s) (q ''family'')) subnets)"
  have r: "fs_subnets r = take (nat ?limit) (sort_key ?key rows)"
    "fq_min_free (fs_query r) = ?min"
    "fq_fabric (fs_query r) = fabric" "fq_vrf (fs_query r) = vrf"
    "fs_count r = length (fs_subnets r)"
    using ok(2) by (simp_all add: free_space_answer_def top_rows_def Let_def rows_def)
  have "?limit \<le> 500" using parseBoundedInt32_range[of 1 50 500] by simp
  then have lim: "nat ?limit \<le> 500" by linarith
  have sub: "set (fs_subnets r) \<subseteq> set rows"
    unfolding r using set_take_subset[of _ "sort_key ?key rows"] by simp
  have "y \<in> set (fs_subnets r) \<or> (\<forall>x\<in>set (fs_subnets r). fr_free y \<le> fr_free x)"
    if "y \<in> set rows" for y
  proof -
    have "y \<in> set (take (nat ?limit) (sort_key ?key rows)) \<or> y \<in> set (drop (nat ?limit) (sort_key ?key rows))"
      using that by (metis UnE append_take_drop_id set_append set_sort)
    moreover have "\<forall>x\<in>set (take (nat ?limit) (sort_key ?key rows)). fr_free y \<le> fr_free x"
      if "y \<in> set (drop (nat ?limit) (sort_key ?key rows))"
      using sort_key_split_take[OF _ that] by simp
    ultimately show ?thesis unfolding r by auto
  qed
  moreover have "\<forall>x\<in>set rows. fq_min_free (fs_query r) \<le> fr_free x"
    unfolding rows_def r by (auto simp: map_filter_def dest: free_subnet_row_Some)
  moreover have "sorted (map ?key (fs_subnets r))"
    unfolding r take_map[symmetric] by (intro sorted_wrt_take) simp
  ultimately show ?thesis
    using ok(1) sub lim r rows_def by (intro exI[of _ subnets] exI[of _ addrs]) (auto simp: Let_def)
qed

definition example_subnets :: "subnet_row list" where
  "example_subnets =
     [\<lparr>sn_id = 1, sn_prefix = ''10.0.0.0/30'', sn_name = None, sn_site = None,
       sn_fabric = 5, sn_vrf = 6, sn_purpose = None\<rparr>,
      \<lparr>sn_id = 2, sn_prefix = ''10.0.1.0/29'', sn_name = None, sn_site = None,
       sn_fabric = 5, sn_vrf = 6, sn_purpose = None\<rparr>]"

definition example_answer :: "free_space_response resp" where
  "example_answer = getFreeSpaceInSubnets (\<lambda>_. None) (\<lambda>_ _. Inr example_subnets)
     (\<lambda>_. Inr [(1, ''10.0.0.1'')]) (\<lambda>_. [])"

lemma getFreeSpaceInSubnets_best_first_witness:
  "\<exists>r. example_answer = HttpJSON 200 r
     \<and> sorted (map (\<lambda>x. - fr_free x) (fs_subnets r)) \<and> map fr_subnet (fs_subnets r) = [2, 1]"
proof -
  have "case example_answer of HttpJSON c r \<Rightarrow> c = 200 \<and> map fr_subnet (fs_subnets r) = [2, 1]
      | _ \<Rightarrow> False"
    by code_simp
  from HttpJSON_obtain[OF this] obtain r
    where h: "example_answer = HttpJSON 200 r" and ids: "map fr_subnet (fs_subnets r) = [2, 1]"
    by (elim exE conjE)
  from getFreeSpaceInSubnets_best_first[OF h[unfolded example_answer_def]]
  have "sorted (map (\<lambda>x. - fr_free x) (fs_subnets r))"
    unfolding Let_def by (elim exE conjE)
  with h ids show ?thesis by (intro exI[of _ r] conjI)
qed

lemma carve_row_Some:
  assumes "carve_row sz limit allocRows sn = Some c" "sn_prefix sn = prefix_string parent"
    "canonical parent" "\<forall>t\<in>set (bucket allocRows (sn_id sn)). \<exists>p. t = prefix_string p \<and> valid_prefix p"
    "t \<in> set (cc_candidates c)" "0 \<le> sz"
  shows "\<exists>q. ParsePrefix t = Some q \<and> canonical q \<and> int (plen q) = sz \<and> pfx_range q \<subseteq> pfx_range parent
    \<and> (\<forall>p. prefix_string p \<in> set (bucket allocRows (sn_id sn)) \<and> valid_prefix p \<and> pfam p = pfam q
          \<longrightarrow> pfx_range p \<inter> pfx_range q = {})"
proof -
  let ?occ = "List.map_filter ParsePrefix (bucket allocRows (sn_id sn))"
  have pp: "ParsePrefix (prefix_string parent) = Some parent"
    using assms(3) by (simp add: canonical_def ParsePrefix_prefix_string)
  have "\<forall>p\<in>set ?occ. zone (paddr p) = []"
    using assms(4) ParsePrefix_prefix_string by (fastforce simp: map_filter_def valid_prefix_def)
  then have zf: "zone_free ?occ" by (simp add: zone_free_def)
  obtain ps where ps: "free_prefixes parent sz ?occ (nat limit) = Some ps"
      "t \<in> set (map prefix_string ps)"
    using assms(1,2,5) pp
    by (auto simp: carve_row_def Let_def findFreePrefixesInSupernet_def split: if_splits option.splits)
  then have g: "good_size parent sz"
    by (auto simp: free_prefixes_def good_size_def BitLen_def pfam_def split: if_splits)
  have "ps = take (max 1 (nat limit)) (filter (free_of ?occ) (sub_prefixes parent (nat sz)))"
    using free_prefixes_filter[OF assms(3) g zf] ps(1) by simp
  then have "set ps \<subseteq> set (filter (free_of ?occ) (sub_prefixes parent (nat sz)))"
    using set_take_subset by metis
  then obtain q where q: "t = prefix_string q" "q \<in> set (sub_prefixes parent (nat sz))" "free_of ?occ q"
    using ps(2) by auto
  note qs = set_sub_prefixes[OF assms(3) g q(2)]
  then have "ParsePrefix t = Some q" using q(1) by (simp add: canonical_def ParsePrefix_prefix_string)
  moreover have "pfx_range p \<inter> pfx_range q = {}"
    if "prefix_string p \<in> set (bucket allocRows (sn_id sn))" "valid_prefix p" "pfam p = pfam q" for p
  proof -
    have "p \<in> set ?occ" using that ParsePrefix_prefix_string[OF that(2)]
      by (force simp: map_filter_def)
    then show ?thesis using q(3) that(3) by (auto simp: free_of_def)
  qed
  ultimately show ?thesis using qs by blast
qed

text \<open>Every prefix the "find me a /N" endpoint proposes parses to a prefix of the requested
  length inside the supernet it is listed under, and overlaps none of that supernet's subnets.\<close>

theorem getFreeSpacePrefixes_candidates_free:
  assumes "getFreeSpacePrefixes parse_uuid ListSupernets ListPrefixes q = HttpJSON c r"
    and "\<forall>f v s rows. ListSupernets f v s = Inr rows \<longrightarrow>
           (\<forall>sn\<in>set rows. \<exists>p. sn_prefix sn = prefix_string p \<and> canonical p)"
    and "\<forall>ids rows. ListPrefixes ids = Inr rows \<longrightarrow>
           (\<forall>row\<in>set rows. \<exists>p. snd row = prefix_string p \<and> valid_prefix p)"
    and "cc \<in> set (pr_supernets r)" and "t \<in> set (cc_candidates cc)"
  shows "\<exists>parent x rows ids. ParsePrefix (cc_prefix cc) = Some parent \<and> ParsePrefix t = Some x
     \<and> int (plen x) = pq_size (pr_query r) \<and> pfx_range x \<subseteq> pfx_range parent
     \<and> ListPrefixes ids = Inr rows \<and> cc_supernet cc \<in> set ids
     \<and> (\<forall>p. prefix_string p \<in> set (bucket rows (cc_supernet cc)) \<and> valid_prefix p \<and> pfam p = pfam x
           \<longrightarrow> pfx_range p \<inter> pfx_range x = {})"
proof -
  let ?sz = "parseBoundedInt32 (q ''prefix_size'') 0 1 128"
  let ?lim = "parseBoundedInt32 (q ''limit_per_supernet'') 20 1 200"
  obtain fabric vrf supernet supernets rows where ok:
    "ListSupernets fabric vrf supernet = Inr supernets"
    "ListPrefixes (map sn_id (filter (\<lambda>s. familyMatches (sn_prefix s) (q ''family'')) supernets)) = Inr rows"
    "pr_supernets r = List.map_filter (carve_row ?sz ?lim rows)
        (filter (\<lambda>s. familyMatches (sn_prefix s) (q ''family'')) supernets)"
    "pq_size (pr_query r) = ?sz" "1 \<le> ?sz"
    using assms(1) unfolding getFreeSpacePrefixes_def Let_def WriteMapped_def
    by (simp split: sum.split_asm if_split_asm) (auto simp: linorder_not_less)+
  obtain sn where sn: "sn \<in> set supernets" "familyMatches (sn_prefix sn) (q ''family'')"
      "carve_row ?sz ?lim rows sn = Some cc"
    using assms(4) unfolding ok(3) by (auto simp: map_filter_def)
  obtain parent where parent: "sn_prefix sn = prefix_string parent" "canonical parent"
    using assms(2) ok(1) sn(1) by blast
  have "cc_supernet cc = sn_id sn" "cc_prefix cc = sn_prefix sn"
    using sn(3) by (auto simp: carve_row_def Let_def split: option.splits if_splits)
  moreover have "\<forall>t\<in>set (bucket rows (sn_id sn)). \<exists>p. t = prefix_string p \<and> valid_prefix p"
    using assms(3) ok(2) by (fastforce simp: bucket_def)
  moreover have "0 \<le> ?sz" using ok(5) by simp
  moreover have "ParsePrefix (sn_prefix sn) = Some parent"
    using parent by (simp add: canonical_def ParsePrefix_prefix_string)
  moreover have "sn_id sn \<in> set (map sn_id
      (filter (\<lambda>s. familyMatches (sn_prefix s) (q ''family'')) supernets))"
    using sn by simp
  ultimately show ?thesis
    using carve_row_Some[OF sn(3) parent _ assms(5)] ok(2,4) by metis
qed

definition example_supernet :: subnet_row where
  "example_supernet = \<lparr>sn_id = 1, sn_prefix = ''10.0.0.0/24'', sn_name = None, sn_site = None,
     sn_fabric = 5, sn_vrf = 6, sn_purpose = None\<rparr>"

definition example_carving :: "prefix_response resp" where
  "example_carving = getFreeSpacePrefixes (\<lambda>_. None) (\<lambda>_ _ _. Inr [example_supernet])
     (\<lambda>_. Inr [(1, ''10.0.0.0/26'')])
     (\<lambda>k. if k = ''prefix_size'' then ''26'' else if k = ''limit_per_supernet'' then ''2'' else [])"

lemma getFreeSpacePrefixes_candidates_free_witness:
  "\<exists>r cc x. example_carving = HttpJSON 200 r \<and> pr_supernets r = [cc]
     \<and> cc_candidates cc = [''10.0.0.64/26'', ''10.0.0.128/26'']
     \<and> ParsePrefix ''10.0.0.128/26'' = Some x \<and> int (plen x) = pq_size (pr_query r)"
proof -
  have net: "''10.0.0.0/24'' = prefix_string (PrefixFrom (mk_addr V4 167772160) 24)"
    "canonical (PrefixFrom (mk_addr V4 167772160) 24)"
    "''10.0.0.0/26'' = prefix_string (PrefixFrom (mk_addr V4 167772160) 26)"
    "valid_prefix (PrefixFrom (mk_addr V4 167772160) 26)"
    by code_simp+
  have "case example_carving of HttpJSON c r \<Rightarrow> c = 200 \<and>
      map cc_candidates (pr_supernets r) = [[''10.0.0.64/26'', ''10.0.0.128/26'']] | _ \<Rightarrow> False"
    by code_simp
  from HttpJSON_obtain[OF this] obtain r where h: "example_carving = HttpJSON 200 r"
    and m: "map cc_candidates (pr_supernets r) = [[''10.0.0.64/26'', ''10.0.0.128/26'']]"
    by (elim exE conjE)
  from m obtain cc where cc: "pr_supernets r = [cc]"
    "cc_candidates cc = [''10.0.0.64/26'', ''10.0.0.128/26'']"
    by (auto simp: map_eq_Cons_conv)
  have sup: "\<forall>f v s rows. (Inr [example_supernet] :: dberr + subnet_row list) = Inr rows \<longrightarrow>
      (\<forall>sn\<in>set rows. \<exists>p. sn_prefix sn = prefix_string p \<and> canonical p)"
    using net(1,2) by (auto simp: example_supernet_def simp del: list.inject)
  have subs: "\<forall>ids rows. (Inr [(1, ''10.0.0.0/26'')] :: dberr + (uuid \<times> string) list) = Inr rows \<longrightarrow>
      (\<forall>row\<in>set rows. \<exists>p. snd row = prefix_string p \<and> valid_prefix p)"
    using net(3,4) by (auto simp del: list.inject)
  have "cc \<in> set (pr_supernets r)" "''10.0.0.128/26'' \<in> set (cc_candidates cc)"
    using cc by simp_all
  from getFreeSpacePrefixes_candidates_free[OF h[unfolded example_carving_def] sup subs this]
  obtain x where "ParsePrefix ''10.0.0.128/26'' = Some x" "int (plen x) = pq_size (pr_query r)"
    by (elim exE conjE)
  with h cc show ?thesis by (intro exI[of _ r] exI[of _ cc] exI[of _ x] conjI)
qed

end
