(* ===== verification/Validators.thy ===== *)
theory Validators
  imports Carve Httpx
begin

text \<open>
  \<^verbatim>\<open>internal/ipam/validators.go\<close>: the checks the IPAM handlers run before they
  write.  An error is a value of \<open>verror\<close>, one constructor per message; the
  checks that read a row take the row, \<open>None\<close> when the query failed.
\<close>

datatype verror =
    BadSlug
  | BadCIDR string
  | BadAddress string
  | VniOutOfRange
  | L3WithoutVrf
  | L3WithVlan
  | PurposeMismatch string string
  | ParentNotFound uuid
  | ParentElsewhere
  | NotContained string

section \<open>The code\<close>

definition slug_char :: "char \<Rightarrow> bool" where
  "slug_char c \<longleftrightarrow> is_digit c \<or> (CHR ''a'' \<le> c \<and> c \<le> CHR ''z'')"

text \<open>The regular expression \<^verbatim>\<open>^[a-z0-9][a-z0-9-]*[a-z0-9]$|^[a-z0-9]$\<close>, alternative by alternative.\<close>

definition slug_matches :: "string \<Rightarrow> bool" where
  "slug_matches s \<longleftrightarrow>
     (2 \<le> length s \<and> slug_char (hd s) \<and> slug_char (last s)
        \<and> list_all (\<lambda>c. slug_char c \<or> c = CHR ''-'') (butlast (tl s)))
     \<or> (length s = 1 \<and> slug_char (hd s))"

definition validateSlug :: "string \<Rightarrow> verror option" where
  "validateSlug s = (if \<not> slug_matches s then Some BadSlug else None)"

definition parseCIDR :: "string \<Rightarrow> verror + prefix" where
  "parseCIDR s = (case ParsePrefix s of None \<Rightarrow> Inl (BadCIDR s) | Some p \<Rightarrow> Inr (Masked p))"

definition parseAddr :: "string \<Rightarrow> verror + addr" where
  "parseAddr s =
     (case ParsePrefix s of
        Some p \<Rightarrow> Inr (paddr p)
      | None \<Rightarrow> (case ParseAddr s of None \<Rightarrow> Inl (BadAddress s) | Some a \<Rightarrow> Inr a))"

definition cidrsOverlap :: "prefix \<Rightarrow> prefix \<Rightarrow> bool" where
  "cidrsOverlap a b \<longleftrightarrow> Contains a (paddr b) \<or> Contains b (paddr a)"

definition cidrContains :: "prefix \<Rightarrow> prefix \<Rightarrow> bool" where
  "cidrContains parent child =
     (if plen child < plen parent then False else Contains parent (paddr child))"

definition addressInNetwork :: "addr \<Rightarrow> prefix \<Rightarrow> bool" where
  "addressInNetwork a p = Contains p a"

definition vniMin :: int where "vniMin = 1"

definition vniMax :: int where "vniMax = push_bit 24 1 - 2"

definition validateVni :: "int \<Rightarrow> verror option" where
  "validateVni v = (if v < vniMin \<or> vniMax < v then Some VniOutOfRange else None)"

definition validateVniKind :: "string \<Rightarrow> int option \<Rightarrow> uuid option \<Rightarrow> verror option" where
  "validateVniKind kind vlanID vrfID =
     (if kind = ''l3'' then
        (if vrfID = None then Some L3WithoutVrf
         else if vlanID \<noteq> None then Some L3WithVlan
         else None)
      else None)"

definition validatePurposeCompatible :: "string option \<Rightarrow> string option \<Rightarrow> verror option" where
  "validatePurposeCompatible supernetPurpose subnetPurpose =
     (case (supernetPurpose, subnetPurpose) of
        (Some a, Some b) \<Rightarrow>
          if a = [] \<or> b = [] then None
          else if a \<noteq> b then Some (PurposeMismatch b a)
          else None
      | _ \<Rightarrow> None)"

record supernet_row =
  sp_id :: uuid
  sp_fabric :: uuid
  sp_vrf :: uuid
  sp_prefix :: string
  sp_purpose :: "string option"

definition assertSupernetInsideParent ::
    "(uuid \<Rightarrow> dberr + supernet_row) \<Rightarrow> uuid \<Rightarrow> prefix \<Rightarrow> uuid \<Rightarrow> uuid \<Rightarrow> verror + supernet_row" where
  "assertSupernetInsideParent GetSupernet parentID p fabricID vrfID =
     (case GetSupernet parentID of
        Inl _ \<Rightarrow> Inl (ParentNotFound parentID)
      | Inr parent \<Rightarrow>
          if sp_fabric parent \<noteq> fabricID \<or> sp_vrf parent \<noteq> vrfID then Inl ParentElsewhere
          else (case parseCIDR (sp_prefix parent) of
                  Inl e \<Rightarrow> Inl e
                | Inr parentPrefix \<Rightarrow>
                    if \<not> cidrContains parentPrefix p then Inl (NotContained (sp_prefix parent))
                    else Inr parent))"

definition assertSubnetInsideSupernet ::
    "(uuid \<Rightarrow> dberr + supernet_row) \<Rightarrow> uuid \<Rightarrow> prefix \<Rightarrow> verror + supernet_row" where
  "assertSubnetInsideSupernet GetSupernet supernetID p =
     (case GetSupernet supernetID of
        Inl _ \<Rightarrow> Inl (ParentNotFound supernetID)
      | Inr parent \<Rightarrow>
          (case parseCIDR (sp_prefix parent) of
             Inl e \<Rightarrow> Inl e
           | Inr parentPrefix \<Rightarrow>
               if \<not> cidrContains parentPrefix p then Inl (NotContained (sp_prefix parent))
               else Inr parent))"

definition assertAddressInSubnet ::
    "(uuid \<Rightarrow> dberr + string) \<Rightarrow> uuid \<Rightarrow> addr \<Rightarrow> verror + string" where
  "assertAddressInSubnet GetSubnetPrefix subnetID a =
     (case GetSubnetPrefix subnetID of
        Inl _ \<Rightarrow> Inl (ParentNotFound subnetID)
      | Inr pfx_text \<Rightarrow>
          (case parseCIDR pfx_text of
             Inl e \<Rightarrow> Inl e
           | Inr subnetPrefix \<Rightarrow>
               if \<not> addressInNetwork a subnetPrefix then Inl (NotContained pfx_text)
               else Inr pfx_text))"

section \<open>Properties\<close>

lemma ParsePrefix_valid:
  assumes "ParsePrefix s = Some p"
  shows "plen p \<le> bit_len (pfam p)" "zone (paddr p) = []"
proof -
  show "plen p \<le> bit_len (pfam p)"
    using assms by (auto simp: ParsePrefix_def BitLen_def Let_def split: if_splits option.splits)
  show "zone (paddr p) = []"
    using assms by (auto simp: ParsePrefix_def Let_def split: if_splits option.splits)
qed

lemma cidrContains_iff_subset:
  assumes "zone (paddr child) = []" "plen child \<le> bit_len (pfam child)"
    and "plen parent \<le> bit_len (pfam parent)"
  shows "cidrContains parent child \<longleftrightarrow>
     plen parent \<le> plen child \<and> pfam child = pfam parent \<and> pfx_range child \<subseteq> pfx_range parent"
proof (cases "plen parent \<le> plen child \<and> pfam child = pfam parent")
  case True
  then have "host_bits child \<le> host_bits parent" by (simp add: host_bits_def diff_le_mono2)
  from pfx_range_subset_iff_contains[OF this] show ?thesis
    using True assms by (auto simp: cidrContains_def Contains_iff_range pfam_def pval_def)
qed (use assms in \<open>auto simp: cidrContains_def Contains_iff_range pfam_def\<close>)

text \<open>A supernet row only passes the parent check when the parent lies in the same fabric and
  VRF, the child's prefix is at least as long as the parent's, and every address of the child
  belongs to the parent.\<close>

theorem assertSupernetInsideParent_subset:
  assumes "assertSupernetInsideParent GetSupernet parentID p fabricID vrfID = Inr row"
    and "valid_prefix p"
  shows "GetSupernet parentID = Inr row \<and> sp_fabric row = fabricID \<and> sp_vrf row = vrfID
     \<and> (\<exists>parent. ParsePrefix (sp_prefix row) = Some parent \<and> plen parent \<le> plen p
          \<and> pfam parent = pfam p \<and> pfx_range p \<subseteq> pfx_range parent)"
proof -
  obtain parent where *: "GetSupernet parentID = Inr row" "sp_fabric row = fabricID"
      "sp_vrf row = vrfID" "ParsePrefix (sp_prefix row) = Some parent" "cidrContains (Masked parent) p"
    using assms(1)
    by (auto simp: assertSupernetInsideParent_def parseCIDR_def split: sum.splits option.splits if_splits)
  have "plen (Masked parent) \<le> plen p \<and> pfam p = pfam (Masked parent)
      \<and> pfx_range p \<subseteq> pfx_range (Masked parent)"
    using *(5) cidrContains_iff_subset[of p "Masked parent"] ParsePrefix_valid[OF *(4)] assms(2)
    by (simp add: valid_prefix_def)
  then show ?thesis using * by auto
qed

lemma assertSupernetInsideParent_subset_witness:
  "let row = \<lparr>sp_id = 1, sp_fabric = 2, sp_vrf = 3, sp_prefix = ''10.0.0.0/8'', sp_purpose = None\<rparr>
   in \<exists>parent. ParsePrefix (sp_prefix row) = Some parent
        \<and> pfx_range (PrefixFrom (mk_addr V4 167837696) 16) \<subseteq> pfx_range parent"
proof -
  let ?row = "\<lparr>sp_id = 1, sp_fabric = 2, sp_vrf = 3, sp_prefix = ''10.0.0.0/8'', sp_purpose = None\<rparr>"
  let ?p = "PrefixFrom (mk_addr V4 167837696) 16"
  have "assertSupernetInsideParent (\<lambda>_. Inr ?row) 1 ?p 2 3 = Inr ?row" "valid_prefix ?p"
    by code_simp+
  from assertSupernetInsideParent_subset[OF this] show ?thesis unfolding Let_def by (elim conjE exE) blast
qed

lemma slug_matches_alphabet:
  "slug_matches s \<Longrightarrow> s \<noteq> [] \<and> (\<forall>c\<in>set s. slug_char c \<or> c = CHR ''-'')
     \<and> slug_char (hd s) \<and> slug_char (last s)"
proof -
  assume s: "slug_matches s"
  show ?thesis
  proof (cases "length s = 1")
    case True
    then obtain c where "s = [c]" by (auto simp: length_Suc_conv)
    then show ?thesis using s by (auto simp: slug_matches_def)
  next
    case False
    then have l: "2 \<le> length s" "slug_char (hd s)" "slug_char (last s)"
        "\<forall>c\<in>set (butlast (tl s)). slug_char c \<or> c = CHR ''-''"
      using s by (auto simp: slug_matches_def list_all_iff)
    then have "s = hd s # butlast (tl s) @ [last s]"
      by (cases s) (auto simp: append_butlast_last_id)
    then have "set s = {hd s, last s} \<union> set (butlast (tl s))"
      by (metis Un_commute Un_insert_left insert_is_Un list.simps(15) set_append empty_set sup_bot.right_neutral)
    then show ?thesis using l by (cases s) auto
  qed
qed

text \<open>An accepted slug is not empty, starts and ends with a letter or digit and uses only
  lower-case letters, digits and hyphens; everything of that shape is accepted.\<close>

theorem validateSlug_iff:
  "validateSlug s = None \<longleftrightarrow>
     s \<noteq> [] \<and> (\<forall>c\<in>set s. slug_char c \<or> c = CHR ''-'') \<and> slug_char (hd s) \<and> slug_char (last s)"
proof
  assume "validateSlug s = None"
  then show "s \<noteq> [] \<and> (\<forall>c\<in>set s. slug_char c \<or> c = CHR ''-'') \<and> slug_char (hd s) \<and> slug_char (last s)"
    using slug_matches_alphabet by (simp add: validateSlug_def split: if_splits)
next
  assume s: "s \<noteq> [] \<and> (\<forall>c\<in>set s. slug_char c \<or> c = CHR ''-'') \<and> slug_char (hd s) \<and> slug_char (last s)"
  have "set (butlast (tl s)) \<subseteq> set s" using s by (cases s) (auto dest: in_set_butlastD)
  then have "slug_matches s"
    using s unfolding slug_matches_def list_all_iff by (cases s; cases "tl s") auto
  then show "validateSlug s = None" by (simp add: validateSlug_def)
qed

lemma validateSlug_iff_witness:
  "validateSlug ''lan-2'' = None \<and> validateSlug ''lan-'' \<noteq> None"
proof -
  have "\<forall>c\<in>set ''lan-2''. slug_char c \<or> c = CHR ''-''" "slug_char (hd ''lan-2'')"
    "slug_char (last ''lan-2'')" "\<not> slug_char (last ''lan-'')"
    by code_simp+
  then show ?thesis
    using validateSlug_iff[of "''lan-2''"] validateSlug_iff[of "''lan-''"] by blast
qed

end
