(* ===== verification/Scope.thy ===== *)
theory Scope
  imports Httpx "HOL-Library.AList" "HOL-Library.Multiset"
begin

text \<open>
  \<^verbatim>\<open>internal/auth\<close>: capability codes with segment wildcards
  (\<^verbatim>\<open>capabilities.go\<close>), the principal of a request, and the scope algebra and
  enforcement of \<^verbatim>\<open>scope.go\<close>.  A Go set (a map to empty structs) is a set; the
  scopes of a principal, a Go map, are an association list whose order stands for
  the iteration order Go leaves open, \<open>None\<close> for the nil map.  The queries the
  enforcers make are the fields of \<open>scope_querier\<close>.
\<close>

named_theorems scope_simps "what the scope proofs unfold"

section \<open>Capability codes\<close>

text \<open>The segment-wise comparison both matchers run: equal counts, each segment equal or \<^verbatim>\<open>*\<close>.\<close>

fun segments_match :: "string list \<Rightarrow> string list \<Rightarrow> bool" where
  "segments_match [] [] = True"
| "segments_match (p # ps) (t # ts) =
     (if p \<noteq> ''*'' \<and> p \<noteq> t then False else segments_match ps ts)"
| "segments_match _ _ = False"

definition pattern_matches :: "string \<Rightarrow> string list \<Rightarrow> bool" where
  "pattern_matches pat target =
     (if pat = ''*'' then True
      else let parts = split_on CHR '':'' pat in
        if length parts \<noteq> length target then False else segments_match parts target)"

fun held_match :: "string list \<Rightarrow> string list \<Rightarrow> bool" where
  "held_match [] target = False"
| "held_match (pat # held) target =
     (if pat = ''*'' then True
      else let parts = split_on CHR '':'' pat in
        if length parts \<noteq> length target then held_match held target
        else if segments_match parts target then True
        else held_match held target)"

definition HasCapability :: "string list \<Rightarrow> string \<Rightarrow> bool" where
  "HasCapability held code =
     (if list_ex (\<lambda>c. c = code \<or> c = ''*'') held then True
      else held_match held (split_on CHR '':'' code))"

lemma segments_match_iff:
  "segments_match ps ts \<longleftrightarrow> list_all2 (\<lambda>p t. p = ''*'' \<or> p = t) ps ts"
  by (induction ps ts rule: segments_match.induct) auto

lemma segments_match_refl [simp]: "segments_match ts ts"
  by (simp add: segments_match_iff list_all2_same)

lemma segments_match_trans:
  "segments_match ps qs \<Longrightarrow> segments_match qs ts \<Longrightarrow> segments_match ps ts"
  unfolding segments_match_iff by (erule (1) list_all2_trans[rotated]) auto

lemma pattern_matches_iff [scope_simps]:
  "pattern_matches pat target \<longleftrightarrow> pat = ''*'' \<or> segments_match (split_on CHR '':'' pat) target"
  by (auto simp: pattern_matches_def Let_def segments_match_iff dest: list_all2_lengthD)

lemma held_match_iff: "held_match held target \<longleftrightarrow> (\<exists>p\<in>set held. pattern_matches p target)"
  by (induction held) (auto simp: Let_def pattern_matches_def)

text \<open>Both loops of \<^verbatim>\<open>HasCapability\<close> as one: some held pattern matches the code.\<close>

lemma HasCapability_iff [scope_simps]:
  "HasCapability held code \<longleftrightarrow> (\<exists>p\<in>set held. pattern_matches p (split_on CHR '':'' code))"
proof (cases "list_ex (\<lambda>c. c = code \<or> c = ''*'') held")
  case True
  then obtain c where "c \<in> set held" "c = code \<or> c = ''*''" by (auto simp: list_ex_iff)
  then have "pattern_matches c (split_on CHR '':'' code)" by (auto simp only: pattern_matches_iff segments_match_refl)
  with \<open>c \<in> set held\<close> True show ?thesis by (auto simp add: HasCapability_def)
qed (simp add: HasCapability_def held_match_iff)

lemma split_star [simp]: "split_on CHR '':'' ''*'' = [''*'']"
  by simp

lemma only_star_matches_star: "pattern_matches p (split_on CHR '':'' ''*'') \<Longrightarrow> p = ''*''"
  using split_on_inj[of "CHR '':''" p "''*''"]
  by (cases "split_on CHR '':'' p") (auto simp: pattern_matches_iff segments_match_iff)

text \<open>Granting is transitive: what a granted code grants was granted already.\<close>

lemma pattern_matches_trans:
  assumes "pattern_matches p (split_on CHR '':'' q)" "pattern_matches q target"
  shows "pattern_matches p target"
proof (cases "q = ''*''")
  case True
  then show ?thesis using assms(1) only_star_matches_star by (simp add: pattern_matches_iff)
next
  case False
  then show ?thesis
    using assms(1,2) segments_match_trans by (auto simp: pattern_matches_iff)
qed

section \<open>The scope algebra\<close>

record scope =
  IsGlobal :: bool
  RegionIDs :: "uuid set"
  SiteIDs :: "uuid set"
  SiteGroupIDs :: "uuid set"
  Enclaves :: "string set"
  Organizations :: "string set"
  OrganizationIDs :: "uuid set"
  Classifications :: "string set"
  FabricIDs :: "uuid set"

definition zero_scope :: scope where
  "zero_scope = \<lparr>IsGlobal = False, RegionIDs = {}, SiteIDs = {}, SiteGroupIDs = {}, Enclaves = {},
     Organizations = {}, OrganizationIDs = {}, Classifications = {}, FabricIDs = {}\<rparr>"

definition GlobalScope :: scope where
  "GlobalScope = zero_scope\<lparr>IsGlobal := True\<rparr>"

text \<open>\<^verbatim>\<open>mergeUUIDSet\<close> and \<^verbatim>\<open>mergeStrSet\<close> are union: a nil map and an empty one are the empty set.\<close>

definition Union_scope :: "scope \<Rightarrow> scope \<Rightarrow> scope" where
  "Union_scope s other =
     \<lparr>IsGlobal = (IsGlobal s \<or> IsGlobal other),
      RegionIDs = RegionIDs s \<union> RegionIDs other,
      SiteIDs = SiteIDs s \<union> SiteIDs other,
      SiteGroupIDs = SiteGroupIDs s \<union> SiteGroupIDs other,
      Enclaves = Enclaves s \<union> Enclaves other,
      Organizations = Organizations s \<union> Organizations other,
      OrganizationIDs = OrganizationIDs s \<union> OrganizationIDs other,
      Classifications = Classifications s \<union> Classifications other,
      FabricIDs = FabricIDs s \<union> FabricIDs other\<rparr>"

definition FabricMatches :: "scope \<Rightarrow> uuid \<Rightarrow> bool" where
  "FabricMatches s fabricID = (if IsGlobal s then True else fabricID \<in> FabricIDs s)"

definition EnclaveMatches :: "scope \<Rightarrow> string \<Rightarrow> bool" where
  "EnclaveMatches s enclave = (if IsGlobal s then True else enclave \<in> Enclaves s)"

definition ClassificationMatches :: "scope \<Rightarrow> string \<Rightarrow> bool" where
  "ClassificationMatches s c = (if IsGlobal s then True else c \<in> Classifications s)"

definition OrganizationMatches :: "scope \<Rightarrow> uuid \<Rightarrow> bool" where
  "OrganizationMatches s orgID = (if IsGlobal s then True else orgID \<in> OrganizationIDs s)"

text \<open>\<open>None\<close> is the nil map; a Go nil \<^verbatim>\<open>FabricIDs\<close> set and the "no filter" answer are both nil.\<close>

definition FabricIDsInScope :: "scope \<Rightarrow> uuid set option" where
  "FabricIDsInScope s =
     (if IsGlobal s then None else if FabricIDs s = {} then None else Some (FabricIDs s))"

lemma Union_scope_assoc: "Union_scope (Union_scope a b) c = Union_scope a (Union_scope b c)"
  by (simp add: Union_scope_def Un_assoc)

lemma Union_scope_commute: "Union_scope a b = Union_scope b a"
  by (simp add: Union_scope_def Un_commute disj_commute)

lemma Union_scope_left_commute: "Union_scope a (Union_scope b c) = Union_scope b (Union_scope a c)"
  by (metis Union_scope_assoc Union_scope_commute)

lemma Union_scope_zero [simp]: "Union_scope zero_scope s = s" "Union_scope s zero_scope = s"
  by (simp_all add: Union_scope_def zero_scope_def)

lemma Union_scope_idem [simp]: "Union_scope s s = s"
  by (simp add: Union_scope_def)

lemmas Union_scope_ac = Union_scope_assoc Union_scope_commute Union_scope_left_commute

section \<open>Principals and scope lookup\<close>

record principal =
  Subject :: uuid
  Capabilities :: "string list"
  Scopes :: "(string \<times> scope) list option"
  MFA :: bool
  Label :: string

fun match_scopes :: "string list \<Rightarrow> (string \<times> scope) list \<Rightarrow> scope option \<Rightarrow> scope option" where
  "match_scopes target [] matched = matched"
| "match_scopes target ((pat, sc) # rest) matched =
     (if \<not> pattern_matches pat target then match_scopes target rest matched
      else case matched of
             None \<Rightarrow> match_scopes target rest (Some sc)
           | Some m \<Rightarrow> match_scopes target rest (Some (Union_scope m sc)))"

definition FindScope :: "principal \<Rightarrow> string \<Rightarrow> scope option" where
  "FindScope p code =
     (if \<not> HasCapability (Capabilities p) code then None
      else case Scopes p of
        None \<Rightarrow> Some GlobalScope
      | Some scopes \<Rightarrow>
         (case map_of scopes code of
            Some s \<Rightarrow> Some s
          | None \<Rightarrow>
             (case map_of scopes ''*'' of
                Some s \<Rightarrow> Some s
              | None \<Rightarrow>
                 (case match_scopes (split_on CHR '':'' code) scopes None of
                    Some m \<Rightarrow> Some m
                  | None \<Rightarrow> Some GlobalScope))))"

text \<open>The union of the scopes of the matching patterns, in any order.\<close>

definition scope_sum :: "scope multiset \<Rightarrow> scope" where
  "scope_sum M = fold_mset Union_scope zero_scope M"

interpretation scope_union: comp_fun_commute Union_scope
  by unfold_locales (simp add: fun_eq_iff Union_scope_left_commute)

lemma scope_sum_simps [simp]:
  "scope_sum {#} = zero_scope" "scope_sum (add_mset s M) = Union_scope s (scope_sum M)"
  by (simp_all add: scope_sum_def)

definition matching_scopes :: "string list \<Rightarrow> (string \<times> scope) list \<Rightarrow> scope multiset" where
  "matching_scopes target scopes =
     mset (map snd (filter (\<lambda>e. pattern_matches (fst e) target) scopes))"

lemma matching_scopes_simps [simp]:
  "matching_scopes target [] = {#}"
  "matching_scopes target (e # es) =
     (if pattern_matches (fst e) target then add_mset (snd e) (matching_scopes target es)
      else matching_scopes target es)"
  by (simp_all add: matching_scopes_def)

lemma match_scopes_Some:
  "match_scopes target scopes (Some m) = Some (Union_scope m (scope_sum (matching_scopes target scopes)))"
  by (induction target scopes "Some m" arbitrary: m rule: match_scopes.induct)
    (simp_all add: Union_scope_assoc)

lemma match_scopes_None:
  "match_scopes target scopes None =
     (if matching_scopes target scopes = {#} then None
      else Some (scope_sum (matching_scopes target scopes)))"
  by (induction scopes) (auto simp: match_scopes_Some)

text \<open>The scope a principal holds for a code does not depend on the order in which Go iterates
  over the scope map: any two orders of the same map give the same answer.\<close>

theorem FindScope_order_independent:
  assumes "Scopes p = Some scopes" "distinct (map fst scopes)" "mset scopes' = mset scopes"
  shows "FindScope (p\<lparr>Scopes := Some scopes'\<rparr>) code = FindScope p code"
proof -
  have "distinct (map fst scopes')"
    using assms(2,3) by (metis mset_eq_imp_distinct_iff mset_map)
  then have "map_of scopes' = map_of scopes"
    using assms(2,3) by (intro map_of_eqI) (auto dest: mset_eq_setD simp: map_of_eq_Some_iff)
  moreover have "matching_scopes t scopes' = matching_scopes t scopes" for t
    unfolding matching_scopes_def mset_map mset_filter assms(3) ..
  ultimately show ?thesis
    using assms(1) by (simp add: FindScope_def match_scopes_None cong: option.case_cong)
qed

lemma FindScope_order_independent_witness:
  "let a = (''audit:*'', zero_scope\<lparr>SiteIDs := {7}\<rparr>); b = (''*:events'', zero_scope\<lparr>SiteIDs := {9}\<rparr>);
       p = \<lparr>Subject = 1, Capabilities = [''audit:*''], Scopes = Some [a, b], MFA = False, Label = []\<rparr>
   in FindScope (p\<lparr>Scopes := Some [b, a]\<rparr>) ''audit:events'' = Some (zero_scope\<lparr>SiteIDs := {7, 9}\<rparr>)"
proof -
  let ?a = "(''audit:*'', zero_scope\<lparr>SiteIDs := {7}\<rparr>)" and ?b = "(''*:events'', zero_scope\<lparr>SiteIDs := {9}\<rparr>)"
  let ?p = "\<lparr>Subject = 1, Capabilities = [''audit:*''], Scopes = Some [?a, ?b], MFA = False, Label = []\<rparr>"
  have "FindScope (?p\<lparr>Scopes := Some [?b, ?a]\<rparr>) ''audit:events'' = FindScope ?p ''audit:events''"
    by (rule FindScope_order_independent) auto
  moreover have "FindScope ?p ''audit:events'' = Some (zero_scope\<lparr>SiteIDs := {7, 9}\<rparr>)"
    by code_simp
  ultimately show ?thesis unfolding Let_def by simp
qed

section \<open>Site and region filters\<close>

record site_dims =
  DirectSiteIds :: "uuid set option"
  RegionIds :: "uuid set option"
  GroupIds :: "uuid set option"
  OrganizationIds :: "uuid set option"

record scope_querier =
  GetSiteRegionID :: "uuid \<Rightarrow> dberr + uuid"
  ListSiteGroupIDsForSite :: "uuid \<Rightarrow> dberr + uuid list"
  GetSiteOrganizationID :: "uuid \<Rightarrow> dberr + uuid option"
  ListSiteIDsForExpansion :: "site_dims \<Rightarrow> dberr + uuid list"
  ListRegionIDsForSiteIDs :: "uuid set \<Rightarrow> dberr + uuid list"

text \<open>\<^verbatim>\<open>uuidKeys\<close>: a nil slice for an empty set; the order of a slice is left open by Go.\<close>

definition uuidKeys :: "uuid set \<Rightarrow> uuid set option" where
  "uuidKeys m = (if m = {} then None else Some m)"

text \<open>
  A site filter is \<open>None\<close> (not scoped) or the set of ids to restrict to.  The error
  cases return \<^verbatim>\<open>(nil, true, err)\<close>.
\<close>

definition computeScopedSiteFilter ::
    "scope_querier \<Rightarrow> principal \<Rightarrow> string \<Rightarrow> dberr + uuid set option" where
  "computeScopedSiteFilter q p capCode =
     (case FindScope p capCode of
        None \<Rightarrow> Inr None
      | Some s \<Rightarrow>
          if IsGlobal s then Inr None
          else
            let directs = uuidKeys (SiteIDs s); regions = uuidKeys (RegionIDs s);
                groups = uuidKeys (SiteGroupIDs s); orgs = uuidKeys (OrganizationIDs s)
            in if directs = None \<and> regions = None \<and> groups = None \<and> orgs = None
               then Inr (Some {})
               else case ListSiteIDsForExpansion q
                           \<lparr>DirectSiteIds = directs, RegionIds = regions, GroupIds = groups,
                            OrganizationIds = orgs\<rparr> of
                      Inl e \<Rightarrow> Inl e
                    | Inr ids \<Rightarrow> Inr (Some (set ids)))"

type_synonym filter_cache = "(string \<rightharpoonup> uuid set option) option"

text \<open>The memo lives on the request context; it is returned updated.\<close>

definition ScopedSiteFilter ::
    "scope_querier \<Rightarrow> filter_cache \<Rightarrow> principal \<Rightarrow> string
     \<Rightarrow> (dberr + uuid set option) \<times> filter_cache" where
  "ScopedSiteFilter q cache p capCode =
     (case Option.bind cache (\<lambda>m. m capCode) of
        Some cached \<Rightarrow> (Inr cached, cache)
      | None \<Rightarrow>
         (case computeScopedSiteFilter q p capCode of
            Inl e \<Rightarrow> (Inl e, cache)
          | Inr r \<Rightarrow> (Inr r, map_option (\<lambda>m. m(capCode \<mapsto> r)) cache)))"

definition ScopedRegionFilter ::
    "scope_querier \<Rightarrow> filter_cache \<Rightarrow> principal \<Rightarrow> string
     \<Rightarrow> (dberr + uuid set option) \<times> filter_cache" where
  "ScopedRegionFilter q cache p capCode =
     (case FindScope p capCode of
        None \<Rightarrow> (Inr None, cache)
      | Some s \<Rightarrow>
          if IsGlobal s then (Inr None, cache)
          else if SiteIDs s \<noteq> {} \<or> SiteGroupIDs s \<noteq> {} \<or> OrganizationIDs s \<noteq> {} then
            (case ScopedSiteFilter q cache p capCode of
               (Inl e, cache') \<Rightarrow> (Inl e, cache')
             | (Inr None, cache') \<Rightarrow> (Inr (Some (RegionIDs s)), cache')
             | (Inr (Some siteIDs), cache') \<Rightarrow>
                 if siteIDs = {} then (Inr (Some (RegionIDs s)), cache')
                 else (case ListRegionIDsForSiteIDs q siteIDs of
                         Inl e \<Rightarrow> (Inl e, cache')
                       | Inr regionIDs \<Rightarrow> (Inr (Some (RegionIDs s \<union> set regionIDs)), cache')))
          else (Inr (Some (RegionIDs s)), cache))"

definition EnforceRegionScope ::
    "scope_querier \<Rightarrow> filter_cache \<Rightarrow> principal \<Rightarrow> uuid \<Rightarrow> string
     \<Rightarrow> dberr option \<times> filter_cache" where
  "EnforceRegionScope q cache p regionID capCode =
     (case FindScope p capCode of
        None \<Rightarrow> (None, cache)
      | Some s \<Rightarrow>
          if IsGlobal s then (None, cache)
          else if regionID \<in> RegionIDs s then (None, cache)
          else (case ScopedRegionFilter q cache p capCode of
                  (Inl e, cache') \<Rightarrow> (Some e, cache')
                | (Inr None, cache') \<Rightarrow> (None, cache')
                | (Inr (Some ids), cache') \<Rightarrow>
                    if regionID \<in> ids then (None, cache') else (Some OutsideScope, cache')))"

definition ScopedFabricFilter :: "principal \<Rightarrow> string \<Rightarrow> uuid set option" where
  "ScopedFabricFilter p capCode =
     (case FindScope p capCode of
        None \<Rightarrow> None
      | Some s \<Rightarrow> if IsGlobal s then None else Some (FabricIDs s))"

text \<open>\<^verbatim>\<open>SiteMatches\<close> never returns an error: a failed lookup is a dimension that does not match.\<close>

definition SiteMatches :: "scope_querier \<Rightarrow> scope \<Rightarrow> uuid \<Rightarrow> bool" where
  "SiteMatches q s siteID =
     (if IsGlobal s then True
      else if siteID \<in> SiteIDs s then True
      else if RegionIDs s \<noteq> {}
              \<and> (case GetSiteRegionID q siteID of Inr rid \<Rightarrow> rid \<in> RegionIDs s | Inl _ \<Rightarrow> False)
           then True
      else if SiteGroupIDs s \<noteq> {}
              \<and> (case ListSiteGroupIDsForSite q siteID of
                   Inr groups \<Rightarrow> list_ex (\<lambda>g. g \<in> SiteGroupIDs s) groups | Inl _ \<Rightarrow> False)
           then True
      else if OrganizationIDs s \<noteq> {}
              \<and> (case GetSiteOrganizationID q siteID of
                   Inr (Some orgID) \<Rightarrow> orgID \<in> OrganizationIDs s | _ \<Rightarrow> False)
           then True
      else False)"

definition EnforceFabricScope :: "principal \<Rightarrow> uuid \<Rightarrow> string \<Rightarrow> dberr option" where
  "EnforceFabricScope p fabricID capCode =
     (if fabricID = uuid_nil then None
      else case FindScope p capCode of
             None \<Rightarrow> None
           | Some s \<Rightarrow>
               if IsGlobal s then None
               else if \<not> FabricMatches s fabricID then Some OutsideScope
               else None)"

definition EnforceSiteScope :: "scope_querier \<Rightarrow> principal \<Rightarrow> uuid \<Rightarrow> string \<Rightarrow> dberr option" where
  "EnforceSiteScope q p siteID capCode =
     (if siteID = uuid_nil then None
      else case FindScope p capCode of
             None \<Rightarrow> None
           | Some s \<Rightarrow>
               if IsGlobal s then None
               else if \<not> SiteMatches q s siteID then Some OutsideScope
               else None)"

definition EnforceEnclave :: "principal \<Rightarrow> string option \<Rightarrow> string \<Rightarrow> dberr option" where
  "EnforceEnclave p enclave capCode =
     (case FindScope p capCode of
        None \<Rightarrow> None
      | Some s \<Rightarrow>
          if IsGlobal s then None
          else (case enclave of
                  None \<Rightarrow> Some OutsideScope
                | Some e \<Rightarrow>
                    if e = [] then Some OutsideScope
                    else if \<not> EnclaveMatches s e then Some OutsideScope
                    else None))"

definition EnforceClassification :: "principal \<Rightarrow> string option \<Rightarrow> string \<Rightarrow> dberr option" where
  "EnforceClassification p classification capCode =
     (case FindScope p capCode of
        None \<Rightarrow> None
      | Some s \<Rightarrow>
          if IsGlobal s then None
          else (case classification of
                  None \<Rightarrow> Some OutsideScope
                | Some c \<Rightarrow>
                    if c = [] then Some OutsideScope
                    else if \<not> ClassificationMatches s c then Some OutsideScope
                    else None))"

section \<open>The site catalogue as an interface\<close>

text \<open>
  What the enforcers rely on: the point lookups and the expansion queries answer
  from one and the same set of sites.
\<close>

definition reaches :: "site_dims \<Rightarrow> uuid \<Rightarrow> uuid \<Rightarrow> uuid set \<Rightarrow> uuid option \<Rightarrow> bool" where
  "reaches d s region groups org \<longleftrightarrow>
     (\<exists>A. DirectSiteIds d = Some A \<and> s \<in> A) \<or> (\<exists>A. RegionIds d = Some A \<and> region \<in> A)
     \<or> (\<exists>A. GroupIds d = Some A \<and> groups \<inter> A \<noteq> {})
     \<or> (\<exists>A r. OrganizationIds d = Some A \<and> org = Some r \<and> r \<in> A)"

definition site_reachable :: "scope \<Rightarrow> uuid \<Rightarrow> uuid \<Rightarrow> uuid set \<Rightarrow> uuid option \<Rightarrow> bool" where
  "site_reachable sc s region groups org \<longleftrightarrow>
     IsGlobal sc \<or> s \<in> SiteIDs sc \<or> region \<in> RegionIDs sc \<or> groups \<inter> SiteGroupIDs sc \<noteq> {}
     \<or> (\<exists>r. org = Some r \<and> r \<in> OrganizationIDs sc)"

definition dims_of :: "scope \<Rightarrow> site_dims" where
  "dims_of s = \<lparr>DirectSiteIds = uuidKeys (SiteIDs s), RegionIds = uuidKeys (RegionIDs s),
     GroupIds = uuidKeys (SiteGroupIDs s), OrganizationIds = uuidKeys (OrganizationIDs s)\<rparr>"

lemma reaches_dims_of:
  "\<not> IsGlobal sc \<Longrightarrow> reaches (dims_of sc) s region groups org = site_reachable sc s region groups org"
  by (auto simp: reaches_def site_reachable_def dims_of_def uuidKeys_def)

lemma no_dims_unreachable:
  "\<lbrakk>\<not> IsGlobal sc; SiteIDs sc = {}; RegionIDs sc = {}; SiteGroupIDs sc = {}; OrganizationIDs sc = {}\<rbrakk>
   \<Longrightarrow> \<not> site_reachable sc s region groups org"
  by (simp add: site_reachable_def)

locale site_catalog =
  fixes q :: scope_querier
    and sites :: "uuid set"
    and region_of :: "uuid \<Rightarrow> uuid"
    and groups_of :: "uuid \<Rightarrow> uuid set"
    and org_of :: "uuid \<Rightarrow> uuid option"
  assumes region: "s \<in> sites \<Longrightarrow> GetSiteRegionID q s = Inr (region_of s)"
    and groups: "s \<in> sites \<Longrightarrow> \<exists>gs. ListSiteGroupIDsForSite q s = Inr gs \<and> set gs = groups_of s"
    and org: "s \<in> sites \<Longrightarrow> GetSiteOrganizationID q s = Inr (org_of s)"
    and expansion: "\<exists>ids. ListSiteIDsForExpansion q d = Inr ids
       \<and> set ids = {s \<in> sites. reaches d s (region_of s) (groups_of s) (org_of s)}"
    and regions: "\<exists>rs. ListRegionIDsForSiteIDs q S = Inr rs \<and> set rs = region_of ` (S \<inter> sites)"
begin

abbreviation reach :: "scope \<Rightarrow> uuid \<Rightarrow> bool" where
  "reach sc s \<equiv> site_reachable sc s (region_of s) (groups_of s) (org_of s)"

lemma SiteMatches_iff: "s \<in> sites \<Longrightarrow> SiteMatches q sc s \<longleftrightarrow> reach sc s"
  using groups[of s] by (auto simp: SiteMatches_def site_reachable_def region org list_ex_iff
      split: option.splits)

lemma compute_filter:
  "computeScopedSiteFilter q p c =
     (case FindScope p c of
        None \<Rightarrow> Inr None
      | Some sc \<Rightarrow> if IsGlobal sc then Inr None else Inr (Some {s \<in> sites. reach sc s}))"
proof (cases "FindScope p c")
  case (Some sc)
  obtain ids where ids: "ListSiteIDsForExpansion q (dims_of sc) = Inr ids"
      "set ids = {s \<in> sites. reaches (dims_of sc) s (region_of s) (groups_of s) (org_of s)}"
    using expansion by blast
  show ?thesis
    using Some ids no_dims_unreachable[of sc] reaches_dims_of[of sc]
    by (auto simp: computeScopedSiteFilter_def dims_of_def uuidKeys_def Let_def)
qed (simp add: computeScopedSiteFilter_def)

lemma site_scope_iff_filter:
  assumes "s \<in> sites" "s \<noteq> uuid_nil"
  shows "EnforceSiteScope q p s c = None \<longleftrightarrow>
     (\<exists>r. computeScopedSiteFilter q p c = Inr r \<and> (case r of None \<Rightarrow> True | Some ids \<Rightarrow> s \<in> ids))"
  using assms SiteMatches_iff[OF assms(1)]
  by (auto simp: EnforceSiteScope_def compute_filter split: option.splits)

lemma region_scope_iff:
  "fst (EnforceRegionScope q None p g c) = None \<longleftrightarrow>
     (case FindScope p c of
        None \<Rightarrow> True
      | Some sc \<Rightarrow> IsGlobal sc \<or> g \<in> RegionIDs sc
          \<or> (\<exists>s\<in>sites. region_of s = g \<and> reach sc s))"
proof (cases "FindScope p c")
  case (Some sc)
  let ?S = "{s \<in> sites. reach sc s}"
  obtain rs where rs: "ListRegionIDsForSiteIDs q ?S = Inr rs" "set rs = region_of ` (?S \<inter> sites)"
    using regions by blast
  have none: "reach sc s \<Longrightarrow> region_of s = g \<Longrightarrow> g \<in> RegionIDs sc"
    if "\<not> IsGlobal sc" "SiteIDs sc = {}" "SiteGroupIDs sc = {}" "OrganizationIDs sc = {}" for s
    using that by (auto simp: site_reachable_def)
  show ?thesis
    using Some rs none
    by (auto simp: EnforceRegionScope_def ScopedRegionFilter_def ScopedSiteFilter_def compute_filter)
qed (simp add: EnforceRegionScope_def)

end

text \<open>
  The queries of \<^verbatim>\<open>db/queries/abac.sql\<close> and \<^verbatim>\<open>regions.sql\<close> over the tables: sites by
  primary key, and site-group memberships.
\<close>

record site_rec =
  s_region :: uuid
  s_org :: "uuid option"

record geo_db =
  site_table :: "(uuid \<times> site_rec) list"
  memberships :: "(uuid \<times> uuid) list"

definition site_rows :: "geo_db \<Rightarrow> (uuid \<times> site_rec) list" where
  "site_rows db = AList.clearjunk (site_table db)"

definition group_ids :: "geo_db \<Rightarrow> uuid \<Rightarrow> uuid list" where
  "group_ids db s = map fst (filter (\<lambda>m. snd m = s) (memberships db))"

text \<open>The \<^verbatim>\<open>WHERE\<close> clause of \<^verbatim>\<open>ListSiteIDsForExpansion\<close> on one row.\<close>

definition row_selected :: "geo_db \<Rightarrow> site_dims \<Rightarrow> uuid \<Rightarrow> site_rec \<Rightarrow> bool" where
  "row_selected db d s r \<longleftrightarrow>
     (case DirectSiteIds d of Some A \<Rightarrow> s \<in> A | None \<Rightarrow> False)
     \<or> (case RegionIds d of Some A \<Rightarrow> s_region r \<in> A | None \<Rightarrow> False)
     \<or> (case GroupIds d of Some A \<Rightarrow> list_ex (\<lambda>g. g \<in> A) (group_ids db s) | None \<Rightarrow> False)
     \<or> (case OrganizationIds d of
          Some A \<Rightarrow> (case s_org r of Some org \<Rightarrow> org \<in> A | None \<Rightarrow> False) | None \<Rightarrow> False)"

definition sql_querier :: "geo_db \<Rightarrow> scope_querier" where
  "sql_querier db =
     \<lparr>GetSiteRegionID = (\<lambda>s. case map_of (site_rows db) s of
                           None \<Rightarrow> Inl NoRows | Some r \<Rightarrow> Inr (s_region r)),
      ListSiteGroupIDsForSite = (\<lambda>s. Inr (group_ids db s)),
      GetSiteOrganizationID = (\<lambda>s. case map_of (site_rows db) s of
                                 None \<Rightarrow> Inl NoRows | Some r \<Rightarrow> Inr (s_org r)),
      ListSiteIDsForExpansion = (\<lambda>d. Inr (map fst
         (filter (\<lambda>(s, r). row_selected db d s r) (site_rows db)))),
      ListRegionIDsForSiteIDs = (\<lambda>S. Inr (remdups (map (\<lambda>(s, r). s_region r)
          (filter (\<lambda>(s, r). s \<in> S) (site_rows db)))))\<rparr>"

definition site_ids :: "geo_db \<Rightarrow> uuid set" where
  "site_ids db = set (map fst (site_rows db))"

definition region_in :: "geo_db \<Rightarrow> uuid \<Rightarrow> uuid" where
  "region_in db s = (case map_of (site_rows db) s of Some r \<Rightarrow> s_region r | None \<Rightarrow> uuid_nil)"

definition org_in :: "geo_db \<Rightarrow> uuid \<Rightarrow> uuid option" where
  "org_in db s = Option.bind (map_of (site_rows db) s) s_org"

lemma site_rows_iff: "(s, r) \<in> set (site_rows db) \<longleftrightarrow> map_of (site_rows db) s = Some r"
  by (simp add: site_rows_def)

lemma site_ids_iff: "s \<in> site_ids db \<longleftrightarrow> (\<exists>r. map_of (site_rows db) s = Some r)"
  by (force simp: site_ids_def simp flip: site_rows_iff)

lemma row_selected_iff:
  "row_selected db d s r \<longleftrightarrow> reaches d s (s_region r) (set (group_ids db s)) (s_org r)"
proof -
  have "(case DirectSiteIds d of Some A \<Rightarrow> s \<in> A | None \<Rightarrow> False)
      \<longleftrightarrow> (\<exists>A. DirectSiteIds d = Some A \<and> s \<in> A)"
    by (cases "DirectSiteIds d") auto
  moreover have "(case RegionIds d of Some A \<Rightarrow> s_region r \<in> A | None \<Rightarrow> False)
      \<longleftrightarrow> (\<exists>A. RegionIds d = Some A \<and> s_region r \<in> A)"
    by (cases "RegionIds d") auto
  moreover have "(case GroupIds d of Some A \<Rightarrow> list_ex (\<lambda>g. g \<in> A) (group_ids db s) | None \<Rightarrow> False)
      \<longleftrightarrow> (\<exists>A. GroupIds d = Some A \<and> set (group_ids db s) \<inter> A \<noteq> {})"
    by (cases "GroupIds d") (auto simp: list_ex_iff)
  moreover have "(case OrganizationIds d of
        Some A \<Rightarrow> (case s_org r of Some org \<Rightarrow> org \<in> A | None \<Rightarrow> False) | None \<Rightarrow> False)
      \<longleftrightarrow> (\<exists>A org. OrganizationIds d = Some A \<and> s_org r = Some org \<and> org \<in> A)"
    by (cases "OrganizationIds d"; cases "s_org r") auto
  ultimately show ?thesis unfolding row_selected_def reaches_def by blast
qed

interpretation sql: site_catalog "sql_querier db" "site_ids db" "region_in db"
    "\<lambda>s. set (group_ids db s)" "org_in db" for db
proof unfold_locales
  fix d
  have "set (map fst (filter (\<lambda>(s, r). row_selected db d s r) (site_rows db)))
      = {s \<in> site_ids db. reaches d s (region_in db s) (set (group_ids db s)) (org_in db s)}"
    by (force simp: row_selected_iff site_ids_iff site_rows_iff region_in_def org_in_def)
  then show "\<exists>ids. ListSiteIDsForExpansion (sql_querier db) d = Inr ids
     \<and> set ids = {s \<in> site_ids db. reaches d s (region_in db s) (set (group_ids db s)) (org_in db s)}"
    by (simp add: sql_querier_def)
next
  fix S
  show "\<exists>rs. ListRegionIDsForSiteIDs (sql_querier db) S = Inr rs
     \<and> set rs = region_in db ` (S \<inter> site_ids db)"
    by (force simp: sql_querier_def site_ids_iff site_rows_iff region_in_def)
qed (auto simp: sql_querier_def site_ids_iff region_in_def org_in_def)

section \<open>The resolver\<close>

record scope_row =
  Code :: string
  ScopeType :: "string option"
  TargetID :: "string option"

definition scopeRowToDimension ::
    "(string \<Rightarrow> uuid option) \<Rightarrow> string option \<Rightarrow> string option \<Rightarrow> scope" where
  "scopeRowToDimension parse_uuid scopeType targetID =
     (case scopeType of
        None \<Rightarrow> GlobalScope
      | Some ty \<Rightarrow>
          if ty = [] \<or> ty = ''global'' then GlobalScope
          else case targetID of
                 None \<Rightarrow> GlobalScope
               | Some t \<Rightarrow>
                   if t = [] then GlobalScope
                   else if ty = ''region'' then
                     (case parse_uuid t of Some i \<Rightarrow> zero_scope\<lparr>RegionIDs := {i}\<rparr> | None \<Rightarrow> zero_scope)
                   else if ty = ''site'' then
                     (case parse_uuid t of Some i \<Rightarrow> zero_scope\<lparr>SiteIDs := {i}\<rparr> | None \<Rightarrow> zero_scope)
                   else if ty = ''site_group'' then
                     (case parse_uuid t of Some i \<Rightarrow> zero_scope\<lparr>SiteGroupIDs := {i}\<rparr> | None \<Rightarrow> zero_scope)
                   else if ty = ''enclave'' then zero_scope\<lparr>Enclaves := {t}\<rparr>
                   else if ty = ''organization'' then
                     (case parse_uuid t of
                        Some i \<Rightarrow> zero_scope\<lparr>OrganizationIDs := {i}\<rparr>
                      | None \<Rightarrow> zero_scope\<lparr>Organizations := {t}\<rparr>)
                   else if ty = ''classification'' then zero_scope\<lparr>Classifications := {t}\<rparr>
                   else if ty = ''fabric'' then
                     (case parse_uuid t of Some i \<Rightarrow> zero_scope\<lparr>FabricIDs := {i}\<rparr> | None \<Rightarrow> zero_scope)
                   else zero_scope)"

fun fold_scope_rows ::
    "(string \<Rightarrow> uuid option) \<Rightarrow> scope_row list \<Rightarrow> (string \<times> scope) list \<Rightarrow> (string \<times> scope) list" where
  "fold_scope_rows parse_uuid [] out = out"
| "fold_scope_rows parse_uuid (r # rows) out =
     (let s = (case map_of out (Code r) of None \<Rightarrow> zero_scope | Some s \<Rightarrow> s);
          add = scopeRowToDimension parse_uuid (ScopeType r) (TargetID r)
      in fold_scope_rows parse_uuid rows (AList.update (Code r) (Union_scope s add) out))"

definition resolveUserScopes ::
    "(string \<Rightarrow> uuid option) \<Rightarrow> scope_row list \<Rightarrow> (string \<times> scope) list option" where
  "resolveUserScopes parse_uuid rows =
     (if rows = [] then None else Some (fold_scope_rows parse_uuid rows []))"

text \<open>The union of the dimensions the rows of one code contribute.\<close>

definition granted_scope :: "(string \<Rightarrow> uuid option) \<Rightarrow> scope_row list \<Rightarrow> string \<Rightarrow> scope" where
  "granted_scope parse_uuid rows code =
     scope_sum (mset (map (\<lambda>r. scopeRowToDimension parse_uuid (ScopeType r) (TargetID r))
       (filter (\<lambda>r. Code r = code) rows)))"

lemma granted_scope_simps [simp]:
  "granted_scope parse_uuid [] code = zero_scope"
  "granted_scope parse_uuid (r # rows) code =
     (if Code r = code
      then Union_scope (scopeRowToDimension parse_uuid (ScopeType r) (TargetID r))
             (granted_scope parse_uuid rows code)
      else granted_scope parse_uuid rows code)"
  by (simp_all add: granted_scope_def)

lemma fold_scope_rows_distinct:
  "distinct (map fst out) \<Longrightarrow> distinct (map fst (fold_scope_rows parse_uuid rows out))"
  by (induction parse_uuid rows out rule: fold_scope_rows.induct) (simp_all add: Let_def distinct_update)

lemma fold_scope_rows_lookup:
  "map_of (fold_scope_rows parse_uuid rows out) code =
     (if code \<in> Code ` set rows
      then Some (Union_scope (case map_of out code of None \<Rightarrow> zero_scope | Some s \<Rightarrow> s)
                   (granted_scope parse_uuid rows code))
      else map_of out code)"
proof (induction rows arbitrary: out)
  case (Cons r rows)
  have no: "code \<notin> Code ` set rows \<Longrightarrow> granted_scope parse_uuid rows code = zero_scope"
    by (induction rows) auto
  show ?case
    using Cons.IH no
    by (auto simp: Let_def update_conv' Union_scope_assoc split: option.splits)
qed simp

lemma resolve_lookup:
  assumes "code \<in> Code ` set rows"
  shows "resolveUserScopes parse_uuid rows = Some (fold_scope_rows parse_uuid rows [])"
    "map_of (fold_scope_rows parse_uuid rows []) code = Some (granted_scope parse_uuid rows code)"
  using assms fold_scope_rows_lookup[of parse_uuid rows "[]" code]
  by (auto simp: resolveUserScopes_def)

lemma scope_sum_FabricMatches:
  "FabricMatches (scope_sum M) f \<longleftrightarrow> (\<exists>s\<in>#M. FabricMatches s f)"
proof (induction M)
  case empty
  then show ?case by (simp add: FabricMatches_def zero_scope_def)
next
  case (add s M)
  then show ?case by (auto simp: FabricMatches_def Union_scope_def)
qed

section \<open>Properties\<close>

text \<open>C37. The list filter and the point check agree: for every database, principal and code, a
  site is let through by \<^verbatim>\<open>EnforceSiteScope\<close> exactly when the site filter of the list
  endpoints does not apply or contains it.\<close>

theorem EnforceSiteScope_iff_listed:
  assumes "s \<in> site_ids db" "s \<noteq> uuid_nil"
  shows "EnforceSiteScope (sql_querier db) p s code = None \<longleftrightarrow>
     (\<exists>r. computeScopedSiteFilter (sql_querier db) p code = Inr r
        \<and> (case r of None \<Rightarrow> True | Some ids \<Rightarrow> s \<in> ids))"
  by (rule sql.site_scope_iff_filter[OF assms])

lemma EnforceSiteScope_iff_listed_witness:
  "let db = \<lparr>site_table = [(7, \<lparr>s_region = 3, s_org = None\<rparr>)], memberships = []\<rparr>;
       p = \<lparr>Subject = 1, Capabilities = [''sites:read''],
            Scopes = Some [(''sites:read'', zero_scope\<lparr>RegionIDs := {3}\<rparr>)], MFA = False, Label = []\<rparr>
   in \<exists>r. computeScopedSiteFilter (sql_querier db) p ''sites:read'' = Inr r
        \<and> (case r of None \<Rightarrow> True | Some ids \<Rightarrow> 7 \<in> ids)"
proof -
  let ?db = "\<lparr>site_table = [(7, \<lparr>s_region = 3, s_org = None\<rparr>)], memberships = []\<rparr>"
  let ?p = "\<lparr>Subject = 1, Capabilities = [''sites:read''],
            Scopes = Some [(''sites:read'', zero_scope\<lparr>RegionIDs := {3}\<rparr>)], MFA = False, Label = []\<rparr>"
  have "7 \<in> site_ids ?db" "(7::uuid) \<noteq> uuid_nil" by code_simp+
  moreover have "EnforceSiteScope (sql_querier ?db) ?p 7 ''sites:read'' = None" by code_simp
  ultimately show ?thesis
    using EnforceSiteScope_iff_listed[of 7 ?db ?p "''sites:read''"] unfolding Let_def by blast
qed

text \<open>A region is let through exactly when the principal's scope is global, names the region,
  or reaches some site that lies in it.\<close>

theorem EnforceRegionScope_iff:
  "fst (EnforceRegionScope (sql_querier db) None p g code) = None \<longleftrightarrow>
     (case FindScope p code of
        None \<Rightarrow> True
      | Some sc \<Rightarrow> IsGlobal sc \<or> g \<in> RegionIDs sc
          \<or> (\<exists>s\<in>site_ids db. region_in db s = g
               \<and> site_reachable sc s (region_in db s) (set (group_ids db s)) (org_in db s)))"
  by (rule sql.region_scope_iff)

text \<open>A memo is coherent when each entry is what the computation would return.\<close>

definition coherent :: "scope_querier \<Rightarrow> principal \<Rightarrow> filter_cache \<Rightarrow> bool" where
  "coherent q p cache \<longleftrightarrow>
     (\<forall>m code r. cache = Some m \<and> m code = Some r \<longrightarrow> computeScopedSiteFilter q p code = Inr r)"

lemma ScopedSiteFilter_coherent:
  assumes "coherent q p cache"
  shows "fst (ScopedSiteFilter q cache p code) = computeScopedSiteFilter q p code"
    "coherent q p (snd (ScopedSiteFilter q cache p code))"
proof -
  show "fst (ScopedSiteFilter q cache p code) = computeScopedSiteFilter q p code"
    using assms by (cases "Option.bind cache (\<lambda>m. m code)"; cases "computeScopedSiteFilter q p code")
      (auto simp: ScopedSiteFilter_def coherent_def bind_eq_Some_conv)
  show "coherent q p (snd (ScopedSiteFilter q cache p code))"
    using assms by (cases "Option.bind cache (\<lambda>m. m code)"; cases "computeScopedSiteFilter q p code")
      (auto simp: ScopedSiteFilter_def coherent_def bind_eq_Some_conv split: if_splits)
qed

text \<open>The per-request memo is invisible: starting from the empty memo of a request (or none),
  any sequence of earlier site-filter calls leaves a memo with which the next call answers what
  the uncached computation answers.\<close>

theorem site_filter_cache_transparent:
  "fst (ScopedSiteFilter q
         (foldl (\<lambda>c code. snd (ScopedSiteFilter q c p code)) (Some (\<lambda>_. None)) earlier) p code)
     = computeScopedSiteFilter q p code"
proof -
  have "coherent q p c \<Longrightarrow>
      coherent q p (foldl (\<lambda>c code. snd (ScopedSiteFilter q c p code)) c earlier)" for c
    by (induction earlier arbitrary: c) (simp_all add: ScopedSiteFilter_coherent)
  moreover have "coherent q p (Some (\<lambda>_. None))" by (simp add: coherent_def)
  ultimately show ?thesis by (simp add: ScopedSiteFilter_coherent)
qed

text \<open>The fabric check of a user whose role assignments name a capability code grants exactly
  what some assignment row of that code grants: a fabric is let through if and only if one of the
  rows for the code is unrestricted or binds that fabric.\<close>

theorem fabric_scope_of_rows:
  assumes "code \<in> Code ` set rows" "HasCapability (Capabilities p) code" "f \<noteq> uuid_nil"
  shows "EnforceFabricScope (p\<lparr>Scopes := resolveUserScopes parse_uuid rows\<rparr>) f code = None \<longleftrightarrow>
     (\<exists>r\<in>set rows. Code r = code
        \<and> FabricMatches (scopeRowToDimension parse_uuid (ScopeType r) (TargetID r)) f)"
proof -
  let ?g = "granted_scope parse_uuid rows code"
  have "FindScope (p\<lparr>Scopes := resolveUserScopes parse_uuid rows\<rparr>) code = Some ?g"
    using resolve_lookup[OF assms(1)] assms(2) by (simp add: FindScope_def)
  then have "EnforceFabricScope (p\<lparr>Scopes := resolveUserScopes parse_uuid rows\<rparr>) f code = None
      \<longleftrightarrow> FabricMatches ?g f"
    using assms(3) by (auto simp: EnforceFabricScope_def FabricMatches_def)
  also have "\<dots> \<longleftrightarrow> (\<exists>r\<in>set rows. Code r = code
        \<and> FabricMatches (scopeRowToDimension parse_uuid (ScopeType r) (TargetID r)) f)"
    unfolding granted_scope_def scope_sum_FabricMatches by auto
  finally show ?thesis .
qed

lemma fabric_scope_of_rows_witness:
  "let rows = [\<lparr>Code = ''ipam:x:read'', ScopeType = Some ''fabric'', TargetID = Some ''f9''\<rparr>];
       p = \<lparr>Subject = 1, Capabilities = [''ipam:x:read''], Scopes = None, MFA = False, Label = []\<rparr>;
       parse = (\<lambda>t. if t = ''f9'' then Some 9 else None)
   in EnforceFabricScope (p\<lparr>Scopes := resolveUserScopes parse rows\<rparr>) 9 ''ipam:x:read'' = None
      \<and> EnforceFabricScope (p\<lparr>Scopes := resolveUserScopes parse rows\<rparr>) 8 ''ipam:x:read'' \<noteq> None"
proof -
  let ?rows = "[\<lparr>Code = ''ipam:x:read'', ScopeType = Some ''fabric'', TargetID = Some ''f9''\<rparr>]"
  let ?p = "\<lparr>Subject = 1, Capabilities = [''ipam:x:read''], Scopes = None, MFA = False, Label = []\<rparr>"
  let ?parse = "\<lambda>t. if t = ''f9'' then Some (9::uuid) else None"
  have "''ipam:x:read'' \<in> Code ` set ?rows" "HasCapability (Capabilities ?p) ''ipam:x:read''"
    "(9::uuid) \<noteq> uuid_nil" "(8::uuid) \<noteq> uuid_nil"
    by code_simp+
  note iff = fabric_scope_of_rows[OF this(1,2), of _ ?parse]
  have m: "FabricMatches (scopeRowToDimension ?parse (Some ''fabric'') (Some ''f9'')) 9"
    "\<not> FabricMatches (scopeRowToDimension ?parse (Some ''fabric'') (Some ''f9'')) 8"
    by code_simp+
  show ?thesis
    unfolding Let_def using iff[OF \<open>9 \<noteq> uuid_nil\<close>] iff[OF \<open>8 \<noteq> uuid_nil\<close>] m by simp
qed

end
