(* ===== verification/Authn.thy ===== *)
theory Authn
  imports Scope
begin

text \<open>
  \<^verbatim>\<open>internal/auth\<close>: who a request is.  The bearer token, API tokens
  (\<^verbatim>\<open>api_token.go\<close>), session tokens (\<^verbatim>\<open>jwt.go\<close>), the verifying middleware and
  the capability gate (\<^verbatim>\<open>middleware.go\<close>).  The signature check of
  \<^verbatim>\<open>golang-jwt\<close>, SHA-256, the parser of \<^verbatim>\<open>google/uuid\<close> and the queries are
  fields of \<open>auth_env\<close>; a middleware answers with a status and message or hands
  the principal to the next handler.
\<close>

record raw_claims =
  rc_sub :: string
  rc_jti :: string
  rc_idp_roles :: "string list"
  rc_mfa :: bool

record session_claims =
  c_subject :: uuid
  c_jti :: string
  c_idp_roles :: "string list"
  c_mfa :: bool

record api_token =
  tok_id :: uuid
  OwnerUserID :: uuid
  Revoked :: bool
  ExpiresAt :: "int option"
  PermissionCodes :: "string list option"

record user =
  user_id :: uuid
  IsActive :: bool

text \<open>\<open>PermissionCodes\<close> is the decoded JSON column, \<open>None\<close> when it does not decode.\<close>

record auth_env =
  now :: int
  parse_uuid :: "string \<Rightarrow> uuid option"
  uuid_string :: "uuid \<Rightarrow> string"
  hashAPIToken :: "string \<Rightarrow> string"
  parse_jwt :: "string \<Rightarrow> string \<Rightarrow> raw_claims option"
  GetUserCapabilities :: "uuid \<Rightarrow> dberr + string list"
  GetCapabilitiesForIdpRoles :: "string list \<Rightarrow> dberr + string list"
  GetUserScopedCapabilities :: "uuid \<Rightarrow> dberr + scope_row list"
  IsJtiRevoked :: "string \<Rightarrow> dberr + bool"
  GetUser :: "uuid \<Rightarrow> dberr + user"
  GetApiTokenByHash :: "string \<Rightarrow> dberr + api_token"

record verifier_config =
  PrimarySecret :: string
  OldSecrets :: "string list"

section \<open>Session tokens\<close>

definition finalize_claims :: "auth_env \<Rightarrow> raw_claims \<Rightarrow> session_claims option" where
  "finalize_claims E c =
     (if rc_sub c = [] then None
      else case parse_uuid E (rc_sub c) of
             None \<Rightarrow> None
           | Some sub \<Rightarrow>
               if rc_jti c = [] then None
               else Some \<lparr>c_subject = sub, c_jti = rc_jti c, c_idp_roles = rc_idp_roles c,
                          c_mfa = rc_mfa c\<rparr>)"

fun verify_old :: "auth_env \<Rightarrow> string \<Rightarrow> string list \<Rightarrow> session_claims option" where
  "verify_old E tok [] = None"
| "verify_old E tok (old # olds) =
     (case parse_jwt E old tok of
        Some c \<Rightarrow> finalize_claims E c
      | None \<Rightarrow> verify_old E tok olds)"

definition Verify :: "auth_env \<Rightarrow> verifier_config \<Rightarrow> string \<Rightarrow> session_claims option" where
  "Verify E cfg tok =
     (case parse_jwt E (PrimarySecret cfg) tok of
        Some c \<Rightarrow> finalize_claims E c
      | None \<Rightarrow> verify_old E tok (OldSecrets cfg))"

section \<open>API tokens\<close>

text \<open>
  The principal of an API token, and the ids whose last-used stamp is touched.
\<close>

definition apiTokenPrincipal :: "auth_env \<Rightarrow> string \<Rightarrow> principal option \<times> uuid list" where
  "apiTokenPrincipal E raw =
     (if \<not> has_prefix raw ''dcim_'' then (None, [])
      else case GetApiTokenByHash E (hashAPIToken E raw) of
        Inl _ \<Rightarrow> (None, [])
      | Inr tok \<Rightarrow>
         if Revoked tok then (None, [])
         else if (case ExpiresAt tok of None \<Rightarrow> False | Some t \<Rightarrow> t < now E) then (None, [])
         else case GetUser E (OwnerUserID tok) of
           Inl _ \<Rightarrow> (None, [])
         | Inr owner \<Rightarrow>
            if \<not> IsActive owner then (None, [])
            else case PermissionCodes tok of
              None \<Rightarrow> (None, [])
            | Some requested \<Rightarrow>
               (case GetUserCapabilities E (user_id owner) of
                  Inl _ \<Rightarrow> (None, [])
                | Inr ownerCaps \<Rightarrow>
                    (Some \<lparr>Subject = OwnerUserID tok,
                           Capabilities = filter (HasCapability ownerCaps) requested,
                           Scopes = None, MFA = False,
                           Label = ''token:'' @ uuid_string E (tok_id tok)\<rparr>,
                     [tok_id tok])))"

section \<open>The middleware\<close>

definition bearerToken :: "string \<Rightarrow> string option" where
  "bearerToken h =
     (if \<not> has_prefix h ''Bearer '' then None
      else let raw = trim_prefix h ''Bearer '' in if raw = [] then None else Some raw)"

text \<open>The union of the two capability lists; Go's map leaves the order open.\<close>

definition resolveCaps :: "auth_env \<Rightarrow> session_claims \<Rightarrow> dberr + string list" where
  "resolveCaps E c =
     (case GetUserCapabilities E (c_subject c) of
        Inl e \<Rightarrow> Inl e
      | Inr userCaps \<Rightarrow>
          if c_idp_roles c = [] then Inr (remdups userCaps)
          else case GetCapabilitiesForIdpRoles E (c_idp_roles c) of
                 Inl e \<Rightarrow> Inl e
               | Inr idpCaps \<Rightarrow> Inr (remdups (userCaps @ idpCaps)))"

datatype 'a gate = Refuse nat string | Pass 'a

definition Verifying :: "auth_env \<Rightarrow> verifier_config \<Rightarrow> string \<Rightarrow> principal gate" where
  "Verifying E cfg header =
     (case bearerToken header of
        None \<Rightarrow> Refuse 401 ''missing bearer token''
      | Some raw \<Rightarrow>
         if has_prefix raw ''dcim_'' then
           (case fst (apiTokenPrincipal E raw) of
              None \<Rightarrow> Refuse 401 ''invalid api token''
            | Some p \<Rightarrow> Pass p)
         else
          (case Verify E cfg raw of
             None \<Rightarrow> Refuse 401 ''invalid bearer token''
           | Some claims \<Rightarrow>
            (case IsJtiRevoked E (c_jti claims) of
               Inl _ \<Rightarrow> Refuse 500 ''auth backend unavailable''
             | Inr revoked \<Rightarrow>
                 if revoked then Refuse 401 ''session revoked''
                 else case resolveCaps E claims of
                   Inl _ \<Rightarrow> Refuse 500 ''auth backend unavailable''
                 | Inr caps \<Rightarrow>
                     let scopeRows = (case GetUserScopedCapabilities E (c_subject claims) of
                                        Inl _ \<Rightarrow> [] | Inr rows \<Rightarrow> rows)
                     in Pass \<lparr>Subject = c_subject claims, Capabilities = caps,
                              Scopes = resolveUserScopes (parse_uuid E) scopeRows,
                              MFA = c_mfa claims,
                              Label = ''user:'' @ uuid_string E (c_subject claims)\<rparr>)))"

definition RequireCapability :: "string \<Rightarrow> principal option \<Rightarrow> unit gate" where
  "RequireCapability code p =
     (case p of
        None \<Rightarrow> Refuse 500 ''missing principal''
      | Some p \<Rightarrow>
          if \<not> HasCapability (Capabilities p) code then Refuse 403 code else Pass ())"

definition envTruthy :: "string \<Rightarrow> bool" where
  "envTruthy v \<longleftrightarrow> to_lower v \<in> {''1'', ''true'', ''yes'', ''on''}"

definition stubMiddleware :: "string \<Rightarrow> principal gate" where
  "stubMiddleware header =
     (case bearerToken header of
        None \<Rightarrow> Refuse 401 ''missing bearer token''
      | Some _ \<Rightarrow> Pass \<lparr>Subject = uuid_nil, Capabilities = [''*''], Scopes = None, MFA = False,
                       Label = ''stub''\<rparr>)"

section \<open>Properties\<close>

lemma apiTokenPrincipal_Some:
  assumes "apiTokenPrincipal E raw = (Some p, touched)"
  obtains tok owner requested ownerCaps where
    "has_prefix raw ''dcim_''"
    "GetApiTokenByHash E (hashAPIToken E raw) = Inr tok" "\<not> Revoked tok"
    "\<forall>t. ExpiresAt tok = Some t \<longrightarrow> now E \<le> t"
    "GetUser E (OwnerUserID tok) = Inr owner" "IsActive owner"
    "PermissionCodes tok = Some requested" "GetUserCapabilities E (user_id owner) = Inr ownerCaps"
    "Capabilities p = filter (HasCapability ownerCaps) requested" "Scopes p = None"
    "Subject p = OwnerUserID tok"
  using assms unfolding apiTokenPrincipal_def
  by (auto split: if_splits sum.splits option.splits simp: linorder_not_less)

lemma bearerToken_Some:
  assumes "bearerToken h = Some raw"
  shows "h = ''Bearer '' @ raw \<and> raw \<noteq> []"
proof -
  have "has_prefix h ''Bearer ''" using assms by (auto simp: bearerToken_def split: if_splits)
  then obtain t where t: "h = ''Bearer '' @ t" by (auto simp only: has_prefix_iff)
  then have "trim_prefix h ''Bearer '' = t" by (simp only: trim_prefix_append)
  then show ?thesis
    using assms t \<open>has_prefix h ''Bearer ''\<close> by (simp add: bearerToken_def Let_def split: if_splits)
qed

lemma HasCapability_mono_trans:
  assumes "\<forall>c\<in>set eff. HasCapability held c" "HasCapability eff code"
  shows "HasCapability held code"
  using assms pattern_matches_trans unfolding HasCapability_iff by blast

text \<open>C38. An API token never escalates a capability: it authenticates only while it is not revoked
  and not expired and its owner is active, and every capability code its principal passes a gate
  with, wildcards included, is one the owner's current roles grant too.\<close>

theorem apiToken_no_capability_escalation:
  assumes "apiTokenPrincipal E raw = (Some p, touched)"
  shows "\<exists>tok owner ownerCaps.
     GetApiTokenByHash E (hashAPIToken E raw) = Inr tok \<and> \<not> Revoked tok
     \<and> (\<forall>t. ExpiresAt tok = Some t \<longrightarrow> now E \<le> t)
     \<and> GetUser E (OwnerUserID tok) = Inr owner \<and> IsActive owner
     \<and> GetUserCapabilities E (user_id owner) = Inr ownerCaps
     \<and> (\<forall>code. RequireCapability code (Some p) = Pass () \<longrightarrow> HasCapability ownerCaps code)"
proof -
  obtain tok owner requested ownerCaps where *:
    "GetApiTokenByHash E (hashAPIToken E raw) = Inr tok" "\<not> Revoked tok"
    "\<forall>t. ExpiresAt tok = Some t \<longrightarrow> now E \<le> t"
    "GetUser E (OwnerUserID tok) = Inr owner" "IsActive owner"
    "GetUserCapabilities E (user_id owner) = Inr ownerCaps"
    "Capabilities p = filter (HasCapability ownerCaps) requested"
    using assms by (rule apiTokenPrincipal_Some)
  have "HasCapability ownerCaps code" if "RequireCapability code (Some p) = Pass ()" for code
    using that * HasCapability_mono_trans[of "Capabilities p" ownerCaps code]
    by (auto simp: RequireCapability_def split: if_splits)
  with * show ?thesis by blast
qed

text \<open>An API token drops the scope of its owner: whatever sites, regions or fabrics the owner's
  role assignments are bound to, the principal of the token is unrestricted for every code it
  holds, so every fabric check lets it through.\<close>

theorem apiToken_is_global:
  assumes "apiTokenPrincipal E raw = (Some p, touched)"
  shows "FindScope p code = (if HasCapability (Capabilities p) code then Some GlobalScope else None)
     \<and> EnforceFabricScope p f code = None \<and> ScopedFabricFilter p code = None"
proof -
  have "Scopes p = None" using assms by (rule apiTokenPrincipal_Some) auto
  then show ?thesis
    by (auto simp: FindScope_def EnforceFabricScope_def ScopedFabricFilter_def GlobalScope_def)
qed

text \<open>C39. A request reaches a handler only with a live credential: either an API token that
  resolves to the principal, or a session token whose signature one of the configured keys
  accepts, that carries a parseable subject and a token id, and whose id is not on the revocation
  list; the principal's capabilities are then exactly the role and identity-provider ones.\<close>

theorem Verifying_sound:
  assumes "Verifying E cfg header = Pass p"
  shows "\<exists>raw. header = ''Bearer '' @ raw \<and> raw \<noteq> [] \<and>
     ((has_prefix raw ''dcim_'' \<and> fst (apiTokenPrincipal E raw) = Some p)
      \<or> (\<not> has_prefix raw ''dcim_'' \<and>
         (\<exists>key\<in>set (PrimarySecret cfg # OldSecrets cfg). \<exists>rc.
            parse_jwt E key raw = Some rc \<and> parse_uuid E (rc_sub rc) = Some (Subject p)
            \<and> rc_jti rc \<noteq> [] \<and> IsJtiRevoked E (rc_jti rc) = Inr False \<and> MFA p = rc_mfa rc
            \<and> (\<exists>userCaps. GetUserCapabilities E (Subject p) = Inr userCaps
                 \<and> set userCaps \<subseteq> set (Capabilities p)
                 \<and> (rc_idp_roles rc = [] \<longrightarrow> set (Capabilities p) = set userCaps)))))"
proof -
  obtain raw where raw: "bearerToken header = Some raw"
    using assms by (auto simp: Verifying_def split: option.splits)
  then have h: "header = ''Bearer '' @ raw \<and> raw \<noteq> []" by (rule bearerToken_Some)
  show ?thesis
  proof (cases "has_prefix raw ''dcim_''")
    case True
    then show ?thesis using assms raw h by (auto simp: Verifying_def split: option.splits)
  next
    case False
    then obtain cl caps where cl: "Verify E cfg raw = Some cl" "IsJtiRevoked E (c_jti cl) = Inr False"
        "resolveCaps E cl = Inr caps" "Capabilities p = caps" "Subject p = c_subject cl" "MFA p = c_mfa cl"
      using assms raw
      by (auto simp: Verifying_def Let_def split: option.splits sum.splits if_splits)
    have old: "verify_old E raw olds = Some cl \<Longrightarrow>
        \<exists>key\<in>set olds. \<exists>rc. parse_jwt E key raw = Some rc \<and> finalize_claims E rc = Some cl" for olds
      by (induction olds) (auto split: option.splits)
    obtain key rc where key: "key \<in> set (PrimarySecret cfg # OldSecrets cfg)"
        "parse_jwt E key raw = Some rc" "finalize_claims E rc = Some cl"
      using cl(1) old by (fastforce simp: Verify_def split: option.splits)
    have "\<exists>userCaps. GetUserCapabilities E (c_subject cl) = Inr userCaps \<and> set userCaps \<subseteq> set caps
        \<and> (c_idp_roles cl = [] \<longrightarrow> set caps = set userCaps)"
      using cl(3) by (auto simp: resolveCaps_def split: sum.splits if_splits)
    moreover have "parse_uuid E (rc_sub rc) = Some (c_subject cl)" "rc_jti rc \<noteq> []"
        "c_jti cl = rc_jti rc" "c_idp_roles cl = rc_idp_roles rc" "c_mfa cl = rc_mfa rc"
      using key(3) by (auto simp: finalize_claims_def split: if_splits option.splits)
    ultimately have "\<exists>key\<in>set (PrimarySecret cfg # OldSecrets cfg). \<exists>rc.
            parse_jwt E key raw = Some rc \<and> parse_uuid E (rc_sub rc) = Some (Subject p)
            \<and> rc_jti rc \<noteq> [] \<and> IsJtiRevoked E (rc_jti rc) = Inr False \<and> MFA p = rc_mfa rc
            \<and> (\<exists>userCaps. GetUserCapabilities E (Subject p) = Inr userCaps
                 \<and> set userCaps \<subseteq> set (Capabilities p)
                 \<and> (rc_idp_roles rc = [] \<longrightarrow> set (Capabilities p) = set userCaps))"
      using key(1,2) cl(2,4,5,6) by (intro bexI[OF _ key(1)] exI[of _ rc]) simp
    then show ?thesis using h False by blast
  qed
qed

section \<open>Witnesses\<close>

definition example_env :: auth_env where
  "example_env = \<lparr>now = 100, parse_uuid = (\<lambda>s. if s = ''u1'' then Some 1 else None),
     uuid_string = dec, hashAPIToken = rev,
     parse_jwt = (\<lambda>k t. if k = ''old'' \<and> t = ''jwt''
        then Some \<lparr>rc_sub = ''u1'', rc_jti = ''j'', rc_idp_roles = [], rc_mfa = True\<rparr> else None),
     GetUserCapabilities = (\<lambda>_. Inr [''sites:*'']),
     GetCapabilitiesForIdpRoles = (\<lambda>_. Inr []),
     GetUserScopedCapabilities = (\<lambda>_. Inr [\<lparr>Code = ''sites:*'', ScopeType = Some ''fabric'',
        TargetID = Some ''u1''\<rparr>]),
     IsJtiRevoked = (\<lambda>_. Inr False), GetUser = (\<lambda>_. Inr \<lparr>user_id = 1, IsActive = True\<rparr>),
     GetApiTokenByHash = (\<lambda>h. if h = ''x_micd'' then Inr \<lparr>tok_id = 5, OwnerUserID = 1,
        Revoked = False, ExpiresAt = Some 200, PermissionCodes = Some [''sites:read'', ''*'']\<rparr>
        else Inl NoRows)\<rparr>"

definition example_token_principal :: principal where
  "example_token_principal = \<lparr>Subject = 1, Capabilities = [''sites:read''], Scopes = None,
     MFA = False, Label = ''token:5''\<rparr>"

lemma example_token: "apiTokenPrincipal example_env ''dcim_x'' = (Some example_token_principal, [5])"
  by code_simp

lemma apiToken_no_capability_escalation_witness:
  "\<exists>tok ownerCaps. GetApiTokenByHash example_env (hashAPIToken example_env ''dcim_x'') = Inr tok
     \<and> GetUserCapabilities example_env (OwnerUserID tok) = Inr ownerCaps
     \<and> HasCapability ownerCaps ''sites:read''"
proof -
  have gate: "RequireCapability ''sites:read'' (Some example_token_principal) = Pass ()" by code_simp
  from apiToken_no_capability_escalation[OF example_token]
  obtain tok :: api_token and owner :: user and ownerCaps where *:
    "GetApiTokenByHash example_env (hashAPIToken example_env ''dcim_x'') = Inr tok"
    "GetUserCapabilities example_env (user_id owner) = Inr ownerCaps"
    "\<forall>code. RequireCapability code (Some example_token_principal) = Pass () \<longrightarrow> HasCapability ownerCaps code"
    by (elim exE conjE) (rule that)
  have "GetUserCapabilities example_env i = GetUserCapabilities example_env j" for i j
    by (simp add: example_env_def)
  then show ?thesis using * gate by metis
qed

lemma apiToken_is_global_witness:
  "EnforceFabricScope example_token_principal 77 ''sites:read'' = None
     \<and> FindScope example_token_principal ''sites:read'' = Some GlobalScope"
proof -
  have "HasCapability (Capabilities example_token_principal) ''sites:read''" by code_simp
  with apiToken_is_global[OF example_token, of "''sites:read''" 77] show ?thesis by simp
qed

definition example_session_principal :: principal where
  "example_session_principal = \<lparr>Subject = 1, Capabilities = [''sites:*''],
     Scopes = Some [(''sites:*'', zero_scope\<lparr>FabricIDs := {1}\<rparr>)], MFA = True, Label = ''user:1''\<rparr>"

lemma Verifying_sound_witness:
  "\<exists>key\<in>{''new'', ''old''}. \<exists>rc. parse_jwt example_env key ''jwt'' = Some rc
     \<and> IsJtiRevoked example_env (rc_jti rc) = Inr False"
proof -
  have p: "Verifying example_env \<lparr>PrimarySecret = ''new'', OldSecrets = [''old'']\<rparr> ''Bearer jwt''
      = Pass example_session_principal"
    by code_simp
  obtain raw where raw: "''Bearer jwt'' = ''Bearer '' @ raw" and
    "has_prefix raw ''dcim_'' \<and> fst (apiTokenPrincipal example_env raw) = Some example_session_principal
      \<or> (\<exists>key\<in>set [''new'', ''old'']. \<exists>rc. parse_jwt example_env key raw = Some rc
            \<and> IsJtiRevoked example_env (rc_jti rc) = Inr False)"
    using Verifying_sound[OF p] by auto
  moreover have "raw = ''jwt''" using raw by simp
  moreover have "\<not> has_prefix ''jwt'' ''dcim_''" by (simp add: has_prefix_def)
  ultimately show ?thesis by auto
qed

end
