(* ===== verification/Handler.thy ===== *)
theory Handler
  imports Httpx
begin

text \<open>
  HTTP handlers as state transformers with early answers: a step is a function of
  the state that either goes on with a value or has written the answer and returned
  (\<^verbatim>\<open>httpx.Error(w, ...); return\<close>).  The registry and the address plan instantiate the
  state with their tables.  The locale says what a relation between states needs so
  that it can be shown of a whole handler statement by statement.
\<close>

text \<open>\<open>Inl r\<close>: the answer \<open>r\<close> has been written and the handler has returned.\<close>

type_synonym ('s, 'r, 'a) web = "'s \<Rightarrow> ('r resp + 'a) \<times> 's"

definition hreturn :: "'a \<Rightarrow> ('s, 'r, 'a) web" where
  "hreturn a db = (Inr a, db)"

definition hanswer :: "'r resp \<Rightarrow> ('s, 'r, 'a) web" where
  "hanswer r db = (Inl r, db)"

definition hbind :: "('s, 'r, 'a) web \<Rightarrow> ('a \<Rightarrow> ('s, 'r, 'b) web) \<Rightarrow> ('s, 'r, 'b) web" where
  "hbind m f db = (case m db of (Inl r, db') \<Rightarrow> (Inl r, db') | (Inr a, db') \<Rightarrow> f a db')"

definition reject_if :: "bool \<Rightarrow> nat \<Rightarrow> string \<Rightarrow> ('s, 'r, unit) web" where
  "reject_if b code msg = (if b then hanswer (HttpError code msg) else hreturn ())"

definition run :: "('s, 'r, 'r resp) web \<Rightarrow> 's \<Rightarrow> 'r resp \<times> 's" where
  "run m db = (case m db of (Inl r, db') \<Rightarrow> (r, db') | (Inr r, db') \<Rightarrow> (r, db'))"

text \<open>A query that only reads.\<close>

definition reading :: "('s \<Rightarrow> dberr + 'a) \<Rightarrow> 's \<Rightarrow> (dberr + 'a) \<times> 's" where
  "reading f db = (f db, db)"

definition one_row :: "'a option \<Rightarrow> dberr + 'a" where
  "one_row r = (case r of None \<Rightarrow> Inl NoRows | Some x \<Rightarrow> Inr x)"

section \<open>The effect of a handler\<close>

text \<open>A handler whose every path changes the state only as \<open>R\<close> allows.\<close>

definition only :: "('s \<Rightarrow> 's \<Rightarrow> bool) \<Rightarrow> ('s, 'r, 'a) web \<Rightarrow> bool" where
  "only R m \<longleftrightarrow> (\<forall>db. R db (snd (m db)))"

text \<open>Any relation that contains doing nothing and that composes can be shown of a handler
  statement by statement.\<close>

locale state_effect =
  fixes R :: "'s \<Rightarrow> 's \<Rightarrow> bool"
  assumes R_refl: "R db db"
    and R_trans: "R x y \<Longrightarrow> R y z \<Longrightarrow> R x z"
begin

lemma only_return: "only R (hreturn a)"
  by (simp add: only_def hreturn_def R_refl)

lemma only_answer: "only R (hanswer r)"
  by (simp add: only_def hanswer_def R_refl)

lemma only_reject: "only R (reject_if b c m)"
  by (simp add: reject_if_def only_return only_answer)

lemma only_bind:
  assumes "only R m" "\<And>a. only R (f a)"
  shows "only R (hbind m f)"
  unfolding only_def
proof
  fix db
  have m: "R db (snd (m db))" using assms(1) by (simp add: only_def)
  show "R db (snd (hbind m f db))"
  proof (cases "m db")
    case (Pair v db')
    then have "\<And>a. R db (snd (f a db'))"
      using m assms(2) by (auto simp: only_def intro: R_trans)
    then show ?thesis using Pair m by (cases v) (simp_all add: hbind_def)
  qed
qed

lemma only_reading: "R db (snd (reading f db))"
  by (simp add: reading_def R_refl)

lemma only_case_option:
  "\<lbrakk>only R a; \<And>x. only R (f x)\<rbrakk> \<Longrightarrow> only R (case v of None \<Rightarrow> a | Some x \<Rightarrow> f x)"
  by (cases v) auto

lemma only_case_prod: "(\<And>x y. only R (f x y)) \<Longrightarrow> only R (case v of (x, y) \<Rightarrow> f x y)"
  by (cases v) auto

lemma only_case_sum:
  "\<lbrakk>\<And>x. only R (f x); \<And>x. only R (g x)\<rbrakk> \<Longrightarrow> only R (case v of Inl x \<Rightarrow> f x | Inr x \<Rightarrow> g x)"
  by (cases v) auto

lemma only_let: "only R (f v) \<Longrightarrow> only R (let x = v in f x)"
  by simp

lemma only_if: "\<lbrakk>only R a; only R b\<rbrakk> \<Longrightarrow> only R (if c then a else b)"
  by simp

lemmas only_basic = only_return only_answer only_reject only_bind only_reading only_case_option
  only_case_prod only_case_sum only_let only_if

lemma only_run: "only R m \<Longrightarrow> R db (snd (run m db))"
  unfolding only_def run_def by (auto split: prod.split sum.split) (metis snd_conv)+

end

section \<open>What holds throughout a handler\<close>

text \<open>Every path keeps \<open>P\<close> of the state, and a step (or a query) that goes on does so with a
  value that satisfies \<open>q\<close>.\<close>

definition keeps :: "('s \<Rightarrow> bool) \<Rightarrow> ('s \<Rightarrow> ('e + 'a) \<times> 's) \<Rightarrow> ('a \<Rightarrow> bool) \<Rightarrow> bool" where
  "keeps P m q \<longleftrightarrow> (\<forall>db. P db \<longrightarrow> P (snd (m db)) \<and> (\<forall>a. fst (m db) = Inr a \<longrightarrow> q a))"

lemma keeps_return: "q a \<Longrightarrow> keeps P (hreturn a) q"
  by (simp add: keeps_def hreturn_def)

lemma keeps_answer: "keeps P (hanswer r) q"
  by (simp add: keeps_def hanswer_def)

lemma keeps_reject: "(\<not> b \<Longrightarrow> q ()) \<Longrightarrow> keeps P (reject_if b c msg) q"
  by (auto simp: reject_if_def intro: keeps_return keeps_answer)

lemma keeps_reject_if: "keeps P (reject_if b c msg) (\<lambda>_. \<not> b)"
  by (rule keeps_reject)

lemma keeps_done: "keeps P (hreturn a) (\<lambda>_. True)"
  by (simp add: keeps_def hreturn_def)

lemma keeps_reading: "(\<And>db x. P db \<Longrightarrow> f db = Inr x \<Longrightarrow> q x) \<Longrightarrow> keeps P (reading f) q"
  by (auto simp: keeps_def reading_def)

lemma keeps_weaken: "\<lbrakk>keeps P m q; \<And>a. q a \<Longrightarrow> q' a\<rbrakk> \<Longrightarrow> keeps P m q'"
  by (auto simp: keeps_def)

text \<open>From a state with \<open>A\<close>, every path ends with \<open>P\<close>: what a step has just read may be relied on
  by the next one.\<close>

definition from_to :: "('s \<Rightarrow> bool) \<Rightarrow> ('s \<Rightarrow> bool) \<Rightarrow> ('s \<Rightarrow> ('e + 'a) \<times> 's) \<Rightarrow> ('a \<Rightarrow> bool) \<Rightarrow> bool" where
  "from_to A P m q \<longleftrightarrow> (\<forall>db. A db \<longrightarrow> P (snd (m db)) \<and> (\<forall>a. fst (m db) = Inr a \<longrightarrow> q a))"

lemma keeps_from_to: "keeps P m q = from_to P P m q"
  by (simp add: keeps_def from_to_def)

lemma from_to_bind:
  assumes m: "\<And>db. A db \<Longrightarrow> P (snd (m db)) \<and> (\<forall>a. fst (m db) = Inr a \<longrightarrow> q a \<and> B a (snd (m db)))"
    and f: "\<And>a. q a \<Longrightarrow> from_to (B a) P (f a) q'"
  shows "from_to A P (hbind m f) q'"
  unfolding from_to_def
proof (intro allI impI)
  fix db assume A: "A db"
  show "P (snd (hbind m f db)) \<and> (\<forall>a. fst (hbind m f db) = Inr a \<longrightarrow> q' a)"
  proof (cases "m db")
    case (Pair v db')
    show ?thesis
    proof (cases v)
      case (Inr a)
      then have "q a" "B a db'" using m[OF A] Pair by auto
      then show ?thesis using f[of a] Pair Inr by (auto simp: hbind_def from_to_def)
    qed (use m[OF A] Pair in \<open>simp add: hbind_def\<close>)
  qed
qed

text \<open>A step that leaves the state alone.\<close>

lemma from_to_look:
  assumes "\<And>db. snd (m db) = db" "\<And>db a. fst (m db) = Inr a \<Longrightarrow> q a" "\<And>db. A db \<Longrightarrow> P db"
    and "\<And>a. q a \<Longrightarrow> from_to A P (f a) q'"
  shows "from_to A P (hbind m f) q'"
  by (rule from_to_bind[where q = q and B = "\<lambda>_. A"]) (use assms in auto)

lemma from_to_then: "\<lbrakk>from_to A P m q; \<And>a. q a \<Longrightarrow> keeps P (f a) q'\<rbrakk> \<Longrightarrow> from_to A P (hbind m f) q'"
  by (rule from_to_bind[where B = "\<lambda>_. P" and q = q]) (auto simp: keeps_from_to from_to_def)

lemma keeps_bind: "\<lbrakk>keeps P m q; \<And>a. q a \<Longrightarrow> keeps P (f a) q'\<rbrakk> \<Longrightarrow> keeps P (hbind m f) q'"
  unfolding keeps_from_to[of P "hbind m f"]
  by (rule from_to_bind[where B = "\<lambda>_. P" and q = q]) (simp_all add: keeps_def from_to_def)

lemma keeps_run: "\<lbrakk>keeps P m q; P db\<rbrakk> \<Longrightarrow> P (snd (run m db))"
  unfolding keeps_def run_def by (auto split: prod.split sum.split)

end
