(* ===== verification/LirStore.thy ===== *)
theory LirStore
  imports Carve Scope Handler "HOL-Library.Product_Lexorder"
begin

text \<open>
  The tables of the Local Internet Registry (migration \<^verbatim>\<open>00064_lir_module.sql\<close>)
  and the queries of \<^verbatim>\<open>db/queries/lir*.sql\<close> on them.  A table is the list of its
  rows; a query is a function of the database that returns an error or a result
  and the database after it, with the \<^verbatim>\<open>CHECK\<close>, \<^verbatim>\<open>UNIQUE\<close> and foreign-key
  constraints between these tables as errors.  References to organizations, users
  and sites lead outside the model: their violations, like lost connections, are
  the \<open>fault\<close> field of the environment, and \<open>interfere\<close> is what other transactions
  commit before a query runs.  Postgres' own reading and writing of the \<^verbatim>\<open>cidr\<close>
  type are \<open>cidr_in\<close> and \<open>cidr_text\<close>.
\<close>

section \<open>Rows\<close>

datatype req_status = PendingApproval | Approved | Rejected | Cancelled | FailedReq

datatype alloc_status = Active | ReturnRequested | Returned

datatype arin_state = ArinNone | ArinPending | ArinRegistered | ArinFailed | ArinRemoving | ArinRemoved

record lir_pool =
  pool_id :: uuid
  pool_name :: string
  pool_slug :: string
  pool_description :: "string option"
  pool_family :: int
  pool_fabric :: "uuid option"
  pool_classification :: "string option"
  min_prefix_length :: int
  max_prefix_length :: int
  default_supernet_purpose :: "string option"
  arin_parent_net_handle :: "string option"
  pool_enabled :: bool

record lir_request =
  rq_id :: uuid
  rq_org :: uuid
  rq_requester :: uuid
  rq_pool :: "uuid option"
  rq_site :: "uuid option"
  rq_family :: int
  rq_prefix_length :: int
  rq_purpose :: "string option"
  rq_classification :: "string option"
  rq_justification :: string
  rq_status :: req_status
  submitted_at :: int
  decided_at :: "int option"
  decided_by :: "uuid option"
  decision_notes :: "string option"
  approved_pool :: "uuid option"

record lir_allocation =
  al_id :: uuid
  al_request :: uuid
  al_org :: uuid
  al_pool :: uuid
  al_pool_supernet :: uuid
  al_tenant_supernet :: uuid
  al_prefix :: prefix
  allocated_at :: int
  allocated_by :: uuid
  al_status :: alloc_status
  return_requested_at :: "int option"
  return_requested_by :: "uuid option"
  return_reason :: "string option"
  returned_at :: "int option"
  returned_by :: "uuid option"
  arin_status :: arin_state
  arin_net_handle :: "string option"
  arin_last_attempt_at :: "int option"
  arin_last_error :: "string option"
  arin_attempts :: nat

record supernet =
  su_id :: uuid
  su_fabric :: uuid
  su_vrf :: uuid
  su_prefix :: prefix
  su_purpose :: "string option"
  su_pool :: "uuid option"
  su_owner :: "uuid option"

record audit_event =
  ev_action :: string
  ev_target :: uuid

record lir_db =
  pools :: "lir_pool list"
  requests :: "lir_request list"
  allocations :: "lir_allocation list"
  supernets :: "supernet list"
  landing :: "(uuid \<times> uuid) option"
  audit_log :: "audit_event list"

datatype query =
    QGetLirPool | QListLirPools | QCountLirPools | QCreateLirPool | QUpdateLirPool | QDeleteLirPool
  | QCountAllocationsForPool
  | QListPoolSourceSupernets | QCountPoolSourceSupernets | QGetSupernetForLirAttach
  | QAttachSupernet | QDetachSupernet | QDetachAll | QCountAllocationsForPoolSupernet
  | QCreateLirRequest | QGetLirRequest | QListLirRequests | QCountLirRequests | QCancelLirRequest
  | QGetLandingFabric | QListPoolSupernetsForCarve | QListAllocatedPrefixesInPool
  | QApproveLirRequest | QRejectLirRequest
  | QGetLirAllocation | QListLirAllocations | QCountLirAllocations | QResetArinJob
  | QRequestReturn | QConfirmReturn
  | QClaimSubmit | QClaimRemove | QMarkRegistered | QMarkFailed | QMarkRemoved

text \<open>
  The environment of one HTTP request or worker turn: the clock, the ids
  \<^verbatim>\<open>gen_random_uuid()\<close> will answer (as functions of the database), the parser of
  \<^verbatim>\<open>google/uuid\<close>, Postgres' \<^verbatim>\<open>cidr\<close> conversions, injected faults, and the commits
  of others before each query.
\<close>

record env =
  clock :: int
  new_pool_id :: "lir_db \<Rightarrow> uuid"
  new_request_id :: "lir_db \<Rightarrow> uuid"
  new_supernet_id :: "lir_db \<Rightarrow> uuid"
  new_alloc_id :: "lir_db \<Rightarrow> uuid"
  uuid_parse :: "string \<Rightarrow> uuid option"
  cidr_text :: "prefix \<Rightarrow> string"
  cidr_in :: "string \<Rightarrow> prefix option"
  fault :: "query \<Rightarrow> dberr option"
  interfere :: "query \<Rightarrow> lir_db \<Rightarrow> lir_db"

section \<open>Handlers as state transformers with early answers\<close>

type_synonym ('r, 'a) handler = "(lir_db, 'r, 'a) web"

text \<open>A query on the database as the others have left it, or the error it fails with.\<close>

definition exec :: "env \<Rightarrow> query \<Rightarrow> (lir_db \<Rightarrow> (dberr + 'a) \<times> lir_db) \<Rightarrow> lir_db \<Rightarrow> (dberr + 'a) \<times> lir_db" where
  "exec E Q f db =
     (let db' = interfere E Q db
      in case fault E Q of Some e \<Rightarrow> (Inl e, db') | None \<Rightarrow> f db')"

text \<open>A query in a handler: \<open>onerr\<close> is the answer its error is mapped to.\<close>

definition hquery ::
    "env \<Rightarrow> query \<Rightarrow> (lir_db \<Rightarrow> (dberr + 'a) \<times> lir_db) \<Rightarrow> (dberr \<Rightarrow> 'r resp) \<Rightarrow> ('r, 'a) handler" where
  "hquery E Q f onerr db =
     (case exec E Q f db of
        (Inl e, db') \<Rightarrow> (Inl (onerr e), db')
      | (Inr a, db') \<Rightarrow> (Inr a, db'))"

definition record_event :: "string \<Rightarrow> uuid \<Rightarrow> ('r, unit) handler" where
  "record_event action target db =
     (Inr (), db\<lparr>audit_log := audit_log db @ [\<lparr>ev_action = action, ev_target = target\<rparr>]\<rparr>)"

section \<open>Queries\<close>

definition find_pool :: "uuid \<Rightarrow> lir_db \<Rightarrow> lir_pool option" where
  "find_pool i db = find (\<lambda>p. pool_id p = i) (pools db)"

definition find_request :: "uuid \<Rightarrow> lir_db \<Rightarrow> lir_request option" where
  "find_request i db = find (\<lambda>r. rq_id r = i) (requests db)"

definition find_alloc :: "uuid \<Rightarrow> lir_db \<Rightarrow> lir_allocation option" where
  "find_alloc i db = find (\<lambda>a. al_id a = i) (allocations db)"

definition find_supernet :: "uuid \<Rightarrow> lir_db \<Rightarrow> supernet option" where
  "find_supernet i db = find (\<lambda>s. su_id s = i) (supernets db)"

definition GetLirPool :: "uuid \<Rightarrow> lir_db \<Rightarrow> (dberr + lir_pool) \<times> lir_db" where
  "GetLirPool i = reading (\<lambda>db. one_row (find_pool i db))"

definition GetLirRequest :: "uuid \<Rightarrow> lir_db \<Rightarrow> (dberr + lir_request) \<times> lir_db" where
  "GetLirRequest i = reading (\<lambda>db. one_row (find_request i db))"

definition GetLirAllocation :: "uuid \<Rightarrow> lir_db \<Rightarrow> (dberr + lir_allocation) \<times> lir_db" where
  "GetLirAllocation i = reading (\<lambda>db. one_row (find_alloc i db))"

definition GetSupernetForLirAttach :: "uuid \<Rightarrow> lir_db \<Rightarrow> (dberr + supernet) \<times> lir_db" where
  "GetSupernetForLirAttach i = reading (\<lambda>db. one_row (find_supernet i db))"

definition GetLandingFabric :: "lir_db \<Rightarrow> (dberr + uuid \<times> uuid) \<times> lir_db" where
  "GetLandingFabric = reading (\<lambda>db. one_row (landing db))"

text \<open>\<^verbatim>\<open>ORDER BY prefix\<close>: family, then address, then length.\<close>

instantiation family :: linorder
begin

definition less_eq_family :: "family \<Rightarrow> family \<Rightarrow> bool" where
  "less_eq_family a b \<longleftrightarrow> a = V4 \<or> b = V6"

definition less_family :: "family \<Rightarrow> family \<Rightarrow> bool" where
  "less_family a b \<longleftrightarrow> a = V4 \<and> b = V6"

instance
proof
  fix a b c :: family
  show "(a < b) = (a \<le> b \<and> \<not> b \<le> a)"
    by (cases a; cases b) (simp_all add: less_eq_family_def less_family_def)
  show "a \<le> a" by (cases a) (simp_all add: less_eq_family_def)
  show "a \<le> b \<Longrightarrow> b \<le> c \<Longrightarrow> a \<le> c"
    by (cases a; cases b; cases c) (simp_all add: less_eq_family_def)
  show "a \<le> b \<Longrightarrow> b \<le> a \<Longrightarrow> a = b"
    by (cases a; cases b) (simp_all add: less_eq_family_def)
  show "a \<le> b \<or> b \<le> a" by (cases a; cases b) (simp_all add: less_eq_family_def)
qed

end

definition prefix_order :: "prefix \<Rightarrow> family \<times> nat \<times> nat" where
  "prefix_order p = (pfam p, pval p, plen p)"

definition pool_supernets :: "uuid \<Rightarrow> lir_db \<Rightarrow> supernet list" where
  "pool_supernets pool db =
     sort_key (\<lambda>s. prefix_order (su_prefix s)) (filter (\<lambda>s. su_pool s = Some pool) (supernets db))"

definition ListPoolSupernetsForCarve ::
    "env \<Rightarrow> uuid \<Rightarrow> lir_db \<Rightarrow> (dberr + (uuid \<times> string) list) \<times> lir_db" where
  "ListPoolSupernetsForCarve E pool =
     reading (\<lambda>db. Inr (map (\<lambda>s. (su_id s, cidr_text E (su_prefix s))) (pool_supernets pool db)))"

definition live :: "lir_allocation \<Rightarrow> bool" where
  "live a \<longleftrightarrow> al_status a \<noteq> Returned"

definition ListAllocatedPrefixesInPool ::
    "env \<Rightarrow> uuid \<Rightarrow> lir_db \<Rightarrow> (dberr + (uuid \<times> string) list) \<times> lir_db" where
  "ListAllocatedPrefixesInPool E pool =
     reading (\<lambda>db. Inr (map (\<lambda>a. (al_pool_supernet a, cidr_text E (al_prefix a)))
       (filter (\<lambda>a. al_pool a = pool \<and> live a) (allocations db))))"

definition CountAllocationsForPool :: "uuid \<Rightarrow> lir_db \<Rightarrow> (dberr + nat) \<times> lir_db" where
  "CountAllocationsForPool pool =
     reading (\<lambda>db. Inr (length (filter (\<lambda>a. al_pool a = pool) (allocations db))))"

definition CountAllocationsForPoolSupernet :: "uuid \<Rightarrow> lir_db \<Rightarrow> (dberr + nat) \<times> lir_db" where
  "CountAllocationsForPoolSupernet s =
     reading (\<lambda>db. Inr (length (filter (\<lambda>a. al_pool_supernet a = s \<and> live a) (allocations db))))"

section \<open>Queries that write\<close>

text \<open>The \<^verbatim>\<open>CHECK\<close> constraints of \<^verbatim>\<open>lir_pools\<close> and \<^verbatim>\<open>lir_requests\<close>.\<close>

definition bits_ok :: "int \<Rightarrow> int \<Rightarrow> bool" where
  "bits_ok family len \<longleftrightarrow> (family = 4 \<and> len \<le> 32) \<or> (family = 6 \<and> len \<le> 128)"

definition pool_check :: "lir_pool \<Rightarrow> bool" where
  "pool_check p \<longleftrightarrow>
     pool_family p \<in> {4, 6} \<and> 0 \<le> min_prefix_length p
     \<and> min_prefix_length p \<le> max_prefix_length p \<and> bits_ok (pool_family p) (max_prefix_length p)"

definition request_check :: "lir_request \<Rightarrow> bool" where
  "request_check r \<longleftrightarrow>
     rq_family r \<in> {4, 6} \<and> 0 \<le> rq_prefix_length r \<and> bits_ok (rq_family r) (rq_prefix_length r)"

definition pool_unique :: "lir_pool \<Rightarrow> lir_pool list \<Rightarrow> bool" where
  "pool_unique p ps \<longleftrightarrow> (\<forall>q\<in>set ps. pool_name q \<noteq> pool_name p \<and> pool_slug q \<noteq> pool_slug p)"

definition check_violation :: dberr where
  "check_violation = DbOther ''check constraint''"

definition CreateLirPool :: "lir_pool \<Rightarrow> lir_db \<Rightarrow> (dberr + lir_pool) \<times> lir_db" where
  "CreateLirPool p db =
     (if \<not> pool_check p then (Inl check_violation, db)
      else if \<not> pool_unique p (pools db) then (Inl (UniqueViolation ''duplicate key''), db)
      else (Inr p, db\<lparr>pools := pools db @ [p]\<rparr>))"

text \<open>The row after \<^verbatim>\<open>UpdateLirPool\<close>: \<open>None\<close> keeps a required column, the \<open>_set\<close> flags replace a
  nullable one.\<close>

record pool_patch =
  pt_name :: "string option"
  pt_slug :: "string option"
  description_set :: bool
  pt_description :: "string option"
  fabric_set :: bool
  pt_fabric :: "uuid option"
  classification_set :: bool
  pt_classification :: "string option"
  pt_min :: "int option"
  pt_max :: "int option"
  purpose_set :: bool
  pt_purpose :: "string option"
  arin_set :: bool
  pt_arin :: "string option"
  pt_enabled :: "bool option"

definition coalesce :: "'a option \<Rightarrow> 'a \<Rightarrow> 'a" where
  "coalesce v old = (case v of None \<Rightarrow> old | Some x \<Rightarrow> x)"

definition patch_pool :: "pool_patch \<Rightarrow> lir_pool \<Rightarrow> lir_pool" where
  "patch_pool u p =
     p\<lparr>pool_name := coalesce (pt_name u) (pool_name p),
       pool_slug := coalesce (pt_slug u) (pool_slug p),
       pool_description := (if description_set u then pt_description u else pool_description p),
       pool_fabric := (if fabric_set u then pt_fabric u else pool_fabric p),
       pool_classification :=
         (if classification_set u then pt_classification u else pool_classification p),
       min_prefix_length := coalesce (pt_min u) (min_prefix_length p),
       max_prefix_length := coalesce (pt_max u) (max_prefix_length p),
       default_supernet_purpose :=
         (if purpose_set u then pt_purpose u else default_supernet_purpose p),
       arin_parent_net_handle := (if arin_set u then pt_arin u else arin_parent_net_handle p),
       pool_enabled := coalesce (pt_enabled u) (pool_enabled p)\<rparr>"

definition UpdateLirPool :: "uuid \<Rightarrow> pool_patch \<Rightarrow> lir_db \<Rightarrow> (dberr + lir_pool) \<times> lir_db" where
  "UpdateLirPool i u db =
     (case find_pool i db of
        None \<Rightarrow> (Inl NoRows, db)
      | Some p \<Rightarrow>
          let p' = patch_pool u p in
          if \<not> pool_check p' then (Inl check_violation, db)
          else if \<not> pool_unique p' (filter (\<lambda>q. pool_id q \<noteq> i) (pools db))
          then (Inl (UniqueViolation ''duplicate key''), db)
          else (Inr p', db\<lparr>pools := map (\<lambda>q. if pool_id q = i then patch_pool u q else q) (pools db)\<rparr>))"

text \<open>\<^verbatim>\<open>DELETE FROM lir_pools\<close>: requests and allocations hold foreign keys; supernets are set null.\<close>

definition pool_referenced :: "uuid \<Rightarrow> lir_db \<Rightarrow> bool" where
  "pool_referenced i db \<longleftrightarrow>
     (\<exists>r\<in>set (requests db). rq_pool r = Some i \<or> approved_pool r = Some i)
     \<or> (\<exists>a\<in>set (allocations db). al_pool a = i)"

definition detach_all :: "uuid \<Rightarrow> lir_db \<Rightarrow> lir_db" where
  "detach_all pool db =
     db\<lparr>supernets := map (\<lambda>s. if su_pool s = Some pool then s\<lparr>su_pool := None\<rparr> else s) (supernets db)\<rparr>"

definition DeleteLirPool :: "uuid \<Rightarrow> lir_db \<Rightarrow> (dberr + unit) \<times> lir_db" where
  "DeleteLirPool i db =
     (if find_pool i db \<noteq> None \<and> pool_referenced i db
      then (Inl (FKViolation ''resource has dependent rows''), db)
      else (Inr (), (detach_all i db)\<lparr>pools := filter (\<lambda>p. pool_id p \<noteq> i) (pools db)\<rparr>))"

definition DetachAllPoolSupernets :: "uuid \<Rightarrow> lir_db \<Rightarrow> (dberr + unit) \<times> lir_db" where
  "DetachAllPoolSupernets pool db = (Inr (), detach_all pool db)"

definition AttachSupernetToPool :: "uuid \<Rightarrow> uuid \<Rightarrow> lir_db \<Rightarrow> (dberr + unit) \<times> lir_db" where
  "AttachSupernetToPool i pool db =
     (if \<exists>s\<in>set (supernets db). su_id s = i \<and> su_owner s \<noteq> None then (Inl check_violation, db)
      else if find_supernet i db \<noteq> None \<and> find_pool pool db = None
      then (Inl (FKViolation ''lir_pool_id''), db)
      else (Inr (), db\<lparr>supernets :=
              map (\<lambda>s. if su_id s = i then s\<lparr>su_pool := Some pool\<rparr> else s) (supernets db)\<rparr>))"

definition DetachSupernetFromPool :: "uuid \<Rightarrow> uuid \<Rightarrow> lir_db \<Rightarrow> (dberr + unit) \<times> lir_db" where
  "DetachSupernetFromPool i pool db =
     (Inr (), db\<lparr>supernets :=
        map (\<lambda>s. if su_id s = i \<and> su_pool s = Some pool then s\<lparr>su_pool := None\<rparr> else s)
          (supernets db)\<rparr>)"

definition CreateLirRequest :: "lir_request \<Rightarrow> lir_db \<Rightarrow> (dberr + lir_request) \<times> lir_db" where
  "CreateLirRequest r db =
     (if \<not> request_check r then (Inl check_violation, db)
      else if (case rq_pool r of None \<Rightarrow> False | Some p \<Rightarrow> find_pool p db = None)
      then (Inl (FKViolation ''pool_id''), db)
      else (Inr r, db\<lparr>requests := requests db @ [r]\<rparr>))"

text \<open>The compare-and-set updates: \<open>f\<close> applies to the row with this id in this state, and no row
  in it is \<^verbatim>\<open>ErrNoRows\<close>.\<close>

definition update_request ::
    "uuid \<Rightarrow> req_status \<Rightarrow> (lir_request \<Rightarrow> lir_request) \<Rightarrow> lir_db \<Rightarrow> (dberr + lir_request) \<times> lir_db" where
  "update_request i st f db =
     (case find (\<lambda>r. rq_id r = i \<and> rq_status r = st) (requests db) of
        None \<Rightarrow> (Inl NoRows, db)
      | Some r \<Rightarrow>
          (Inr (f r), db\<lparr>requests :=
             map (\<lambda>r. if rq_id r = i \<and> rq_status r = st then f r else r) (requests db)\<rparr>))"

definition CancelLirRequest :: "uuid \<Rightarrow> string option \<Rightarrow> lir_db \<Rightarrow> (dberr + lir_request) \<times> lir_db" where
  "CancelLirRequest i notes =
     update_request i PendingApproval (\<lambda>r. r\<lparr>rq_status := Cancelled, decision_notes := notes\<rparr>)"

definition RejectLirRequest ::
    "int \<Rightarrow> uuid \<Rightarrow> uuid \<Rightarrow> string \<Rightarrow> lir_db \<Rightarrow> (dberr + lir_request) \<times> lir_db" where
  "RejectLirRequest now i by reason =
     update_request i PendingApproval
       (\<lambda>r. r\<lparr>rq_status := Rejected, decided_at := Some now, decided_by := Some by,
              decision_notes := Some reason\<rparr>)"

definition update_alloc ::
    "uuid \<Rightarrow> alloc_status \<Rightarrow> (lir_allocation \<Rightarrow> lir_allocation) \<Rightarrow> lir_db
     \<Rightarrow> (dberr + lir_allocation) \<times> lir_db" where
  "update_alloc i st f db =
     (case find (\<lambda>a. al_id a = i \<and> al_status a = st) (allocations db) of
        None \<Rightarrow> (Inl NoRows, db)
      | Some a \<Rightarrow>
          (Inr (f a), db\<lparr>allocations :=
             map (\<lambda>a. if al_id a = i \<and> al_status a = st then f a else a) (allocations db)\<rparr>))"

definition RequestReturnLirAllocation ::
    "int \<Rightarrow> uuid \<Rightarrow> uuid \<Rightarrow> string \<Rightarrow> lir_db \<Rightarrow> (dberr + lir_allocation) \<times> lir_db" where
  "RequestReturnLirAllocation now i by reason =
     update_alloc i Active
       (\<lambda>a. a\<lparr>al_status := ReturnRequested, return_requested_at := Some now,
              return_requested_by := Some by, return_reason := Some reason\<rparr>)"

definition ConfirmReturnLirAllocation ::
    "int \<Rightarrow> uuid \<Rightarrow> uuid \<Rightarrow> lir_db \<Rightarrow> (dberr + lir_allocation) \<times> lir_db" where
  "ConfirmReturnLirAllocation now i by =
     update_alloc i ReturnRequested
       (\<lambda>a. let a' = a\<lparr>al_status := Returned, returned_at := Some now, returned_by := Some by\<rparr>
            in if arin_status a = ArinRegistered
               then a'\<lparr>arin_status := ArinRemoving, arin_attempts := 0, arin_last_attempt_at := None,
                       arin_last_error := None\<rparr>
               else a')"

text \<open>Always an \<^verbatim>\<open>UPDATE\<close> without a returned row: no match is no error.\<close>

definition ResetArinJobForRetry :: "uuid \<Rightarrow> lir_db \<Rightarrow> (dberr + unit) \<times> lir_db" where
  "ResetArinJobForRetry i db =
     (Inr (), db\<lparr>allocations :=
        map (\<lambda>a. if al_id a = i \<and> arin_status a \<in> {ArinFailed, ArinNone}
                 then a\<lparr>arin_status := (if arin_net_handle a = None then ArinPending else ArinRemoving),
                        arin_attempts := 0, arin_last_attempt_at := None, arin_last_error := None\<rparr>
                 else a) (allocations db)\<rparr>)"

text \<open>
  \<^verbatim>\<open>ApproveLirRequest\<close>, one statement: the flip of the request, and chained off the
  flipped row the tenant supernet and the allocation; any violated constraint
  leaves nothing behind.
\<close>

record approval =
  ap_request :: uuid
  ap_by :: uuid
  ap_notes :: "string option"
  ap_pool :: uuid
  ap_pool_supernet :: uuid
  ap_org :: uuid
  ap_prefix :: string
  ap_fabric :: uuid
  ap_vrf :: uuid
  ap_purpose :: "string option"
  ap_arin :: arin_state

definition new_supernet_row :: "env \<Rightarrow> approval \<Rightarrow> lir_db \<Rightarrow> prefix \<Rightarrow> supernet" where
  "new_supernet_row E ap db p =
     \<lparr>su_id = new_supernet_id E db, su_fabric = ap_fabric ap, su_vrf = ap_vrf ap, su_prefix = p,
      su_purpose = ap_purpose ap, su_pool = None, su_owner = Some (ap_org ap)\<rparr>"

definition new_alloc_row :: "env \<Rightarrow> approval \<Rightarrow> lir_db \<Rightarrow> prefix \<Rightarrow> lir_allocation" where
  "new_alloc_row E ap db p =
     \<lparr>al_id = new_alloc_id E db, al_request = ap_request ap, al_org = ap_org ap, al_pool = ap_pool ap,
      al_pool_supernet = ap_pool_supernet ap, al_tenant_supernet = new_supernet_id E db,
      al_prefix = p, allocated_at = clock E, allocated_by = ap_by ap, al_status = Active,
      return_requested_at = None, return_requested_by = None, return_reason = None,
      returned_at = None, returned_by = None, arin_status = ap_arin ap, arin_net_handle = None,
      arin_last_attempt_at = None, arin_last_error = None, arin_attempts = 0\<rparr>"

definition approve_row :: "env \<Rightarrow> approval \<Rightarrow> lir_request \<Rightarrow> lir_request" where
  "approve_row E ap r =
     r\<lparr>rq_status := Approved, decided_at := Some (clock E), decided_by := Some (ap_by ap),
       decision_notes := ap_notes ap, approved_pool := Some (ap_pool ap)\<rparr>"

definition ApproveLirRequest ::
    "env \<Rightarrow> approval \<Rightarrow> lir_db \<Rightarrow> (dberr + lir_request \<times> lir_allocation) \<times> lir_db" where
  "ApproveLirRequest E ap db =
     (case find (\<lambda>r. rq_id r = ap_request ap \<and> rq_status r = PendingApproval) (requests db) of
        None \<Rightarrow> (Inl NoRows, db)
      | Some r \<Rightarrow>
         (case cidr_in E (ap_prefix ap) of
            None \<Rightarrow> (Inl (DbOther ''invalid cidr''), db)
          | Some p \<Rightarrow>
              if \<exists>a\<in>set (allocations db). al_request a = ap_request ap
              then (Inl (UniqueViolation ''uq_lir_allocation_request''), db)
              else if find_pool (ap_pool ap) db = None \<or> find_supernet (ap_pool_supernet ap) db = None
              then (Inl (FKViolation ''lir_allocations''), db)
              else
                (Inr (approve_row E ap r, new_alloc_row E ap db p),
                 db\<lparr>requests := map (\<lambda>r. if rq_id r = ap_request ap \<and> rq_status r = PendingApproval
                                        then approve_row E ap r else r) (requests db),
                    supernets := supernets db @ [new_supernet_row E ap db p],
                    allocations := allocations db @ [new_alloc_row E ap db p]\<rparr>)))"


section \<open>The worker's updates\<close>

text \<open>\<^verbatim>\<open>lir_arin.sql\<close>, \<^verbatim>\<open>lir_returns.sql\<close>: updates by id, no row matched is no error.\<close>

definition mark_alloc :: "uuid \<Rightarrow> (lir_allocation \<Rightarrow> lir_allocation) \<Rightarrow> lir_db \<Rightarrow> (dberr + unit) \<times> lir_db" where
  "mark_alloc i f db =
     (Inr (), db\<lparr>allocations := map (\<lambda>a. if al_id a = i then f a else a) (allocations db)\<rparr>)"

definition MarkArinRegistered :: "int \<Rightarrow> uuid \<Rightarrow> string \<Rightarrow> lir_db \<Rightarrow> (dberr + unit) \<times> lir_db" where
  "MarkArinRegistered now i handle =
     mark_alloc i (\<lambda>a. a\<lparr>arin_status := ArinRegistered, arin_net_handle := Some handle,
       arin_attempts := arin_attempts a + 1, arin_last_attempt_at := Some now, arin_last_error := None\<rparr>)"

definition MarkArinFailed :: "int \<Rightarrow> uuid \<Rightarrow> string \<Rightarrow> lir_db \<Rightarrow> (dberr + unit) \<times> lir_db" where
  "MarkArinFailed now i err =
     mark_alloc i (\<lambda>a. a\<lparr>arin_status := ArinFailed,
       arin_attempts := arin_attempts a + 1, arin_last_attempt_at := Some now, arin_last_error := Some err\<rparr>)"

definition MarkArinRemoved :: "int \<Rightarrow> uuid \<Rightarrow> lir_db \<Rightarrow> (dberr + unit) \<times> lir_db" where
  "MarkArinRemoved now i =
     mark_alloc i (\<lambda>a. a\<lparr>arin_status := ArinRemoved,
       arin_attempts := arin_attempts a + 1, arin_last_attempt_at := Some now, arin_last_error := None\<rparr>)"

end
