(* ===== verification/LirHandlers.thy ===== *)
theory LirHandlers
  imports LirStore "HOL-Library.List_Lexorder"
begin

text \<open>
  The handlers of \<^verbatim>\<open>internal/lir\<close>: pools (\<^verbatim>\<open>mutations.go\<close>), their source supernets
  (\<^verbatim>\<open>pool_supernets.go\<close>), requests (\<^verbatim>\<open>requests.go\<close>), the approval engine
  (\<^verbatim>\<open>approval.go\<close>), allocations and the manual ARIN retry (\<^verbatim>\<open>allocations.go\<close>) and
  the return lifecycle (\<^verbatim>\<open>returns.go\<close>).  Each is a state transformer over the
  database; \<open>hbind\<close> is the \<^verbatim>\<open>if !ok { return }\<close> of the source.  A request body is the
  decoded record, \<open>None\<close> when it does not decode.
\<close>

section \<open>Shared helpers\<close>

definition mapErr :: "string \<Rightarrow> dberr \<Rightarrow> 'r resp" where
  "mapErr notFoundMsg e =
     (case e of NoRows \<Rightarrow> HttpError 404 notFoundMsg | _ \<Rightarrow> WriteMapped e)"

text \<open>The compare-and-set handlers: no row means that a racer was first.\<close>

definition raceErr :: "string \<Rightarrow> dberr \<Rightarrow> 'r resp" where
  "raceErr msg e =
     (if fst (Mapped e) = 404 then HttpError 409 msg else WriteMapped e)"

definition parseUUIDParam :: "env \<Rightarrow> string \<Rightarrow> string \<Rightarrow> ('r, uuid) handler" where
  "parseUUIDParam E key raw =
     (case uuid_parse E raw of
        None \<Rightarrow> hanswer (HttpError 400 (key @ '' is not a uuid''))
      | Some i \<Rightarrow> hreturn i)"

definition parseOptionalUUID :: "env \<Rightarrow> string option \<Rightarrow> string \<Rightarrow> ('r, uuid option) handler" where
  "parseOptionalUUID E raw field =
     (case raw of
        None \<Rightarrow> hreturn None
      | Some s \<Rightarrow>
          if s = [] then hreturn None
          else case uuid_parse E s of
                 None \<Rightarrow> hanswer (HttpError 400 (field @ '' is not a uuid''))
               | Some i \<Rightarrow> hreturn (Some i))"

definition validateFamilyPrefix :: "int \<Rightarrow> int \<Rightarrow> string option" where
  "validateFamilyPrefix family prefixLen =
     (if family \<noteq> 4 \<and> family \<noteq> 6 then Some ''ip_family must be 4 or 6''
      else if prefixLen < 0 then Some ''prefix length must be non-negative''
      else let cap = (if family = 6 then 128 else 32) in
        if cap < prefixLen then Some ''prefix length exceeds family cap'' else None)"

definition check_family_prefix :: "int \<Rightarrow> int \<Rightarrow> ('r, unit) handler" where
  "check_family_prefix family len =
     (case validateFamilyPrefix family len of
        None \<Rightarrow> hreturn () | Some msg \<Rightarrow> hanswer (HttpError 422 msg))"

definition decodeBody :: "'b option \<Rightarrow> ('r, 'b) handler" where
  "decodeBody body =
     (case body of None \<Rightarrow> hanswer (HttpError 400 ''bad request body'') | Some b \<Rightarrow> hreturn b)"

text \<open>An optional body: decoded only when \<^verbatim>\<open>ContentLength > 0\<close>; \<open>Inl ()\<close> is no body.\<close>

definition decodeOptional :: "(unit + 'b option) \<Rightarrow> 'b \<Rightarrow> ('r, 'b) handler" where
  "decodeOptional body zero = (case body of Inl _ \<Rightarrow> hreturn zero | Inr b \<Rightarrow> decodeBody b)"

text \<open>\<^verbatim>\<open>scope != nil && !scope.OrganizationMatches(org)\<close>\<close>

definition outside_scope :: "principal \<Rightarrow> string \<Rightarrow> uuid \<Rightarrow> bool" where
  "outside_scope p cap org =
     (case FindScope p cap of None \<Rightarrow> False | Some s \<Rightarrow> \<not> OrganizationMatches s org)"

definition scopedOrgIDs :: "principal \<Rightarrow> string \<Rightarrow> uuid set option" where
  "scopedOrgIDs p capCode =
     (case FindScope p capCode of
        None \<Rightarrow> None
      | Some s \<Rightarrow> if IsGlobal s then None else Some (OrganizationIDs s))"

section \<open>Pools\<close>

record create_pool_req =
  cp_name :: string
  cp_slug :: string
  cp_description :: "string option"
  cp_family :: int
  cp_fabric :: "string option"
  cp_classification :: "string option"
  cp_min :: int
  cp_max :: int
  cp_purpose :: "string option"
  cp_arin :: "string option"
  cp_enabled :: "bool option"

definition createPool :: "env \<Rightarrow> create_pool_req option \<Rightarrow> lir_db \<Rightarrow> lir_pool resp \<times> lir_db" where
  "createPool E body = run
     (hbind (decodeBody body) (\<lambda>req.
      hbind (reject_if (cp_name req = [] \<or> cp_slug req = []) 422 ''name and slug are required'') (\<lambda>_.
      hbind (reject_if (cp_max req < cp_min req) 422
               ''min_prefix_length must be <= max_prefix_length'') (\<lambda>_.
      hbind (check_family_prefix (cp_family req) (cp_max req)) (\<lambda>_.
      hbind (check_family_prefix (cp_family req) (cp_min req)) (\<lambda>_.
      hbind (parseOptionalUUID E (cp_fabric req) ''fabric_id'') (\<lambda>fabricID.
      hbind (hquery E QCreateLirPool
               (\<lambda>db. CreateLirPool
                  \<lparr>pool_id = new_pool_id E db, pool_name = cp_name req, pool_slug = cp_slug req,
                   pool_description = cp_description req, pool_family = cp_family req,
                   pool_fabric = fabricID, pool_classification = cp_classification req,
                   min_prefix_length = cp_min req, max_prefix_length = cp_max req,
                   default_supernet_purpose = cp_purpose req,
                   arin_parent_net_handle = cp_arin req,
                   pool_enabled = coalesce (cp_enabled req) True\<rparr> db)
               (mapErr [])) (\<lambda>out.
      hbind (record_event ''lir.pool.create'' (pool_id out)) (\<lambda>_.
      hreturn (HttpJSON 201 out))))))))))"

text \<open>The decoded patch: the flags say which nullable keys were present.\<close>

record update_pool_req =
  up_patch :: pool_patch
  up_fabric_raw :: "string option"

definition updatePool ::
    "env \<Rightarrow> string \<Rightarrow> update_pool_req option \<Rightarrow> lir_db \<Rightarrow> lir_pool resp \<times> lir_db" where
  "updatePool E raw_id body = run
     (hbind (parseUUIDParam E ''id'' raw_id) (\<lambda>i.
      hbind (decodeBody body) (\<lambda>req.
      hbind (hquery E QGetLirPool (GetLirPool i) (mapErr ''lir pool not found'')) (\<lambda>cur.
      let newMin = coalesce (pt_min (up_patch req)) (min_prefix_length cur);
          newMax = coalesce (pt_max (up_patch req)) (max_prefix_length cur) in
      hbind (reject_if (newMax < newMin) 422 ''min_prefix_length must be <= max_prefix_length'') (\<lambda>_.
      hbind (check_family_prefix (pool_family cur) newMax) (\<lambda>_.
      hbind (check_family_prefix (pool_family cur) newMin) (\<lambda>_.
      hbind (parseOptionalUUID E (up_fabric_raw req) ''fabric_id'') (\<lambda>fabricID.
      hbind (hquery E QUpdateLirPool (UpdateLirPool i ((up_patch req)\<lparr>pt_fabric := fabricID\<rparr>))
               (mapErr ''lir pool not found'')) (\<lambda>out.
      hbind (record_event ''lir.pool.update'' i) (\<lambda>_.
      hreturn (HttpJSON 200 out)))))))))))"

definition deletePool :: "env \<Rightarrow> string \<Rightarrow> lir_db \<Rightarrow> unit resp \<times> lir_db" where
  "deletePool E raw_id = run
     (hbind (parseUUIDParam E ''id'' raw_id) (\<lambda>i.
      hbind (hquery E QGetLirPool (GetLirPool i) (mapErr ''lir pool not found'')) (\<lambda>_.
      hbind (hquery E QCountAllocationsForPool (CountAllocationsForPool i) (mapErr [])) (\<lambda>n.
      hbind (reject_if (0 < n) 409 ''pool still has allocations; return or detach them first'') (\<lambda>_.
      hbind (hquery E QDetachAll (DetachAllPoolSupernets i) (mapErr [])) (\<lambda>_.
      hbind (hquery E QDeleteLirPool (DeleteLirPool i) (mapErr ''lir pool not found'')) (\<lambda>_.
      hbind (record_event ''lir.pool.delete'' i) (\<lambda>_.
      hreturn HttpNoContent))))))))"

section \<open>Pool source supernets\<close>

definition supernetFamily :: "string \<Rightarrow> int" where
  "supernetFamily prfx = (if CHR '':'' \<in> set prfx then 6 else 4)"

definition validateAttachCandidate :: "env \<Rightarrow> lir_pool \<Rightarrow> supernet \<Rightarrow> (nat \<times> string) option" where
  "validateAttachCandidate E pool cand =
     (if su_pool cand \<noteq> None then Some (409, ''supernet is already attached to a pool'')
      else if su_owner cand \<noteq> None
      then Some (409, ''tenant-owned supernet cannot be a pool source'')
      else if supernetFamily (cidr_text E (su_prefix cand)) \<noteq> pool_family pool
      then Some (422, ''supernet family doesn't match pool family'')
      else None)"

definition attachPoolSupernet ::
    "env \<Rightarrow> string \<Rightarrow> string option \<Rightarrow> lir_db \<Rightarrow> unit resp \<times> lir_db" where
  "attachPoolSupernet E raw_id body = run
     (hbind (parseUUIDParam E ''id'' raw_id) (\<lambda>pool_i.
      hbind (hquery E QGetLirPool (GetLirPool pool_i) (mapErr ''lir pool not found'')) (\<lambda>pool.
      hbind (decodeBody body) (\<lambda>raw_supernet.
      hbind (parseOptionalUUID E (Some raw_supernet) ''supernet_id'') (\<lambda>supernetIDPtr.
      (case supernetIDPtr of
         None \<Rightarrow> hanswer (HttpError 400 ''supernet_id is required'')
       | Some supernetID \<Rightarrow>
      hbind (hquery E QGetSupernetForLirAttach (GetSupernetForLirAttach supernetID)
               (mapErr ''supernet not found'')) (\<lambda>cand.
      (case validateAttachCandidate E pool cand of
         Some (status, msg) \<Rightarrow> hanswer (HttpError status msg)
       | None \<Rightarrow>
      hbind (hquery E QAttachSupernet (AttachSupernetToPool supernetID pool_i) (mapErr [])) (\<lambda>_.
      hbind (record_event ''lir.pool.attach_supernet'' pool_i) (\<lambda>_.
      hreturn HttpNoContent))))))))))"

definition detachPoolSupernet ::
    "env \<Rightarrow> string \<Rightarrow> string \<Rightarrow> lir_db \<Rightarrow> unit resp \<times> lir_db" where
  "detachPoolSupernet E raw_pool raw_supernet = run
     (hbind (parseUUIDParam E ''id'' raw_pool) (\<lambda>pool_i.
      hbind (parseUUIDParam E ''supernet_id'' raw_supernet) (\<lambda>supernetID.
      hbind (hquery E QGetSupernetForLirAttach (GetSupernetForLirAttach supernetID)
               (mapErr ''supernet not found'')) (\<lambda>cand.
      hbind (reject_if (su_pool cand \<noteq> Some pool_i) 404
               ''supernet is not attached to this pool'') (\<lambda>_.
      hbind (hquery E QCountAllocationsForPoolSupernet (CountAllocationsForPoolSupernet supernetID)
               (mapErr [])) (\<lambda>n.
      hbind (reject_if (0 < n) 409
               ''supernet has live allocations carved from it; return them first'') (\<lambda>_.
      hbind (hquery E QDetachSupernet (DetachSupernetFromPool supernetID pool_i) (mapErr [])) (\<lambda>_.
      hbind (record_event ''lir.pool.detach_supernet'' pool_i) (\<lambda>_.
      hreturn HttpNoContent)))))))))"

section \<open>Requests\<close>

record submit_req =
  sr_org :: string
  sr_pool :: "string option"
  sr_site :: "string option"
  sr_family :: int
  sr_prefix_length :: int
  sr_purpose :: "string option"
  sr_classification :: "string option"
  sr_justification :: string

definition submitRequest ::
    "env \<Rightarrow> principal option \<Rightarrow> submit_req option \<Rightarrow> lir_db \<Rightarrow> lir_request resp \<times> lir_db" where
  "submitRequest E caller body = run
     (case caller of
        None \<Rightarrow> hanswer (HttpError 401 ''missing principal'')
      | Some p \<Rightarrow>
      hbind (decodeBody body) (\<lambda>req.
      hbind (reject_if (sr_justification req = []) 422 ''justification is required'') (\<lambda>_.
      hbind (check_family_prefix (sr_family req) (sr_prefix_length req)) (\<lambda>_.
      hbind (parseOptionalUUID E (Some (sr_org req)) ''organization_id'') (\<lambda>orgIDPtr.
      (case orgIDPtr of
         None \<Rightarrow> hanswer (HttpError 400 ''organization_id is required'')
       | Some orgID \<Rightarrow>
      hbind (reject_if (outside_scope p ''lir:requests:create'' orgID) 403
               ''organization is outside your lir:requests:create scope'') (\<lambda>_.
      hbind (parseOptionalUUID E (sr_pool req) ''pool_id'') (\<lambda>poolIDPtr.
      hbind (parseOptionalUUID E (sr_site req) ''site_id'') (\<lambda>siteIDPtr.
      hbind (hquery E QCreateLirRequest
               (\<lambda>db. CreateLirRequest
                  \<lparr>rq_id = new_request_id E db, rq_org = orgID, rq_requester = Subject p,
                   rq_pool = poolIDPtr, rq_site = siteIDPtr, rq_family = sr_family req,
                   rq_prefix_length = sr_prefix_length req, rq_purpose = sr_purpose req,
                   rq_classification = sr_classification req,
                   rq_justification = sr_justification req, rq_status = PendingApproval,
                   submitted_at = clock E, decided_at = None, decided_by = None,
                   decision_notes = None, approved_pool = None\<rparr> db)
               (mapErr [])) (\<lambda>out.
      hbind (record_event ''lir.request.submit'' (rq_id out)) (\<lambda>_.
      hreturn (HttpJSON 201 out))))))))))))"

definition getRequest ::
    "env \<Rightarrow> principal \<Rightarrow> string \<Rightarrow> lir_db \<Rightarrow> lir_request resp \<times> lir_db" where
  "getRequest E p raw_id = run
     (hbind (parseUUIDParam E ''id'' raw_id) (\<lambda>i.
      hbind (hquery E QGetLirRequest (GetLirRequest i) (mapErr ''lir request not found'')) (\<lambda>req.
      hbind (reject_if (outside_scope p ''lir:requests:read'' (rq_org req)) 404
               ''lir request not found'') (\<lambda>_.
      hreturn (HttpJSON 200 req)))))"

definition cancelRequest ::
    "env \<Rightarrow> principal \<Rightarrow> string \<Rightarrow> unit + string option option \<Rightarrow> lir_db \<Rightarrow> lir_request resp \<times> lir_db" where
  "cancelRequest E p raw_id body = run
     (hbind (parseUUIDParam E ''id'' raw_id) (\<lambda>i.
      hbind (hquery E QGetLirRequest (GetLirRequest i) (mapErr ''lir request not found'')) (\<lambda>existing.
      hbind (reject_if (outside_scope p ''lir:requests:cancel'' (rq_org existing)) 404
               ''lir request not found'') (\<lambda>_.
      hbind (reject_if (rq_status existing \<noteq> PendingApproval) 409
               ''request is not in pending_approval; cannot cancel'') (\<lambda>_.
      hbind (decodeOptional body None) (\<lambda>notes.
      hbind (hquery E QCancelLirRequest (CancelLirRequest i notes)
               (\<lambda>e. if e = NoRows then HttpError 409 ''request is not in pending_approval; cannot cancel''
                    else mapErr ''lir request not found'' e)) (\<lambda>out.
      hbind (record_event ''lir.request.cancel'' (rq_id out)) (\<lambda>_.
      hreturn (HttpJSON 200 out)))))))))"


definition rejectRequest ::
    "env \<Rightarrow> principal \<Rightarrow> string \<Rightarrow> string option \<Rightarrow> lir_db \<Rightarrow> lir_request resp \<times> lir_db" where
  "rejectRequest E p raw_id body = run
     (hbind (parseUUIDParam E ''id'' raw_id) (\<lambda>i.
      hbind (decodeBody body) (\<lambda>reason.
      hbind (reject_if (reason = []) 422 ''reason is required'') (\<lambda>_.
      hbind (hquery E QGetLirRequest (GetLirRequest i) (mapErr ''lir request not found'')) (\<lambda>existing.
      hbind (reject_if (outside_scope p ''lir:requests:reject'' (rq_org existing)) 404
               ''lir request not found'') (\<lambda>_.
      hbind (reject_if (rq_status existing \<noteq> PendingApproval) 409
               ''request is not in pending_approval; cannot reject'') (\<lambda>_.
      hbind (hquery E QRejectLirRequest (RejectLirRequest (clock E) i (Subject p) reason)
               (raceErr ''request raced out of pending_approval; re-fetch and retry'')) (\<lambda>out.
      hbind (record_event ''lir.request.reject'' i) (\<lambda>_.
      hreturn (HttpJSON 200 out))))))))))"

section \<open>The approval engine\<close>

record approve_req =
  ApprovedPoolID :: "string option"
  ApproveNotes :: "string option"

record approve_response =
  resp_request :: lir_request
  resp_allocation :: lir_allocation

definition loadApprovableRequest ::
    "env \<Rightarrow> principal \<Rightarrow> uuid \<Rightarrow> ('r, lir_request) handler" where
  "loadApprovableRequest E p i =
     hbind (hquery E QGetLirRequest (GetLirRequest i) (mapErr ''lir request not found'')) (\<lambda>existing.
     hbind (reject_if (outside_scope p ''lir:requests:approve'' (rq_org existing)) 404
              ''lir request not found'') (\<lambda>_.
     hbind (reject_if (rq_status existing \<noteq> PendingApproval) 409
              ''request is not in pending_approval; cannot approve'') (\<lambda>_.
     hreturn existing)))"

definition resolveApprovedPoolID ::
    "env \<Rightarrow> string option \<Rightarrow> uuid option \<Rightarrow> ('r, uuid) handler" where
  "resolveApprovedPoolID E override preference =
     hbind (parseOptionalUUID E override ''approved_pool_id'') (\<lambda>i.
       case i of
         Some pool \<Rightarrow> hreturn pool
       | None \<Rightarrow>
           (case preference of
              Some pool \<Rightarrow> hreturn pool
            | None \<Rightarrow> hanswer (HttpError 422
                ''no pool to approve into: request had no pool_id and body had no override'')))"

definition validatePoolForApproval ::
    "env \<Rightarrow> uuid \<Rightarrow> lir_request \<Rightarrow> ('r, lir_pool) handler" where
  "validatePoolForApproval E pool_i existing =
     hbind (hquery E QGetLirPool (GetLirPool pool_i) (mapErr ''lir pool not found'')) (\<lambda>pool.
     hbind (reject_if (\<not> pool_enabled pool) 409
              ''approved pool is disabled; enable it or pick another'') (\<lambda>_.
     hbind (reject_if (pool_family pool \<noteq> rq_family existing) 422
              ''pool family doesn't match request family'') (\<lambda>_.
     hbind (reject_if (rq_prefix_length existing < min_prefix_length pool
                       \<or> max_prefix_length pool < rq_prefix_length existing) 422
              ''requested prefix length is outside the pool's bounds'') (\<lambda>_.
     hreturn pool))))"

text \<open>The buckets: the parsed prefixes of the allocations, by pool supernet, in row order.\<close>

definition occupied_by :: "(uuid \<times> string) list \<Rightarrow> uuid \<Rightarrow> prefix list" where
  "occupied_by allocated =
     fold (\<lambda>(s, t) m. case ParsePrefix t of None \<Rightarrow> m | Some p \<Rightarrow> m(s := m s @ [p]))
       allocated (\<lambda>_. [])"

text \<open>The walk over the source supernets; an unparsable one is skipped.\<close>

fun carve_sources ::
    "(uuid \<Rightarrow> prefix list) \<Rightarrow> int \<Rightarrow> (uuid \<times> string) list \<Rightarrow> (uuid \<times> string) option" where
  "carve_sources occupied prefixLen [] = None"
| "carve_sources occupied prefixLen ((i, t) # src) =
     (case ParsePrefix t of
        None \<Rightarrow> carve_sources occupied prefixLen src
      | Some parent \<Rightarrow>
          (case findFirstFreePrefix parent prefixLen (occupied i) of
             Some got \<Rightarrow> Some (i, got)
           | None \<Rightarrow> carve_sources occupied prefixLen src))"

definition carveForApproval :: "env \<Rightarrow> uuid \<Rightarrow> int \<Rightarrow> ('r, uuid \<times> string) handler" where
  "carveForApproval E pool_i prefixLen =
     hbind (hquery E QListPoolSupernetsForCarve (ListPoolSupernetsForCarve E pool_i) (mapErr [])) (\<lambda>source.
     hbind (reject_if (source = []) 409
              ''pool has no source supernets; attach one before approving'') (\<lambda>_.
     hbind (hquery E QListAllocatedPrefixesInPool (ListAllocatedPrefixesInPool E pool_i) (mapErr [])) (\<lambda>allocated.
     case carve_sources (occupied_by allocated) prefixLen source of
       Some got \<Rightarrow> hreturn got
     | None \<Rightarrow> hanswer (HttpError 409
         ''pool exhausted: no free range at the requested prefix length''))))"

definition approveRequest ::
    "env \<Rightarrow> principal \<Rightarrow> string \<Rightarrow> unit + approve_req option \<Rightarrow> lir_db
     \<Rightarrow> approve_response resp \<times> lir_db" where
  "approveRequest E p raw_id body = run
     (hbind (parseUUIDParam E ''id'' raw_id) (\<lambda>requestID.
      hbind (decodeOptional body \<lparr>ApprovedPoolID = None, ApproveNotes = None\<rparr>) (\<lambda>b.
      hbind (loadApprovableRequest E p requestID) (\<lambda>existing.
      hbind (resolveApprovedPoolID E (ApprovedPoolID b) (rq_pool existing)) (\<lambda>poolID.
      hbind (validatePoolForApproval E poolID existing) (\<lambda>pool.
      hbind (carveForApproval E poolID (rq_prefix_length existing)) (\<lambda>(chosenSupernetID, chosenPrefix).
      hbind (hquery E QGetLandingFabric GetLandingFabric
               (\<lambda>_. HttpError 500
                  ''landing fabric not found; deployment is missing migration 0065 seed'')) (\<lambda>(fabric, vrf).
      let arinInit = (case arin_parent_net_handle pool of
                        None \<Rightarrow> ArinNone | Some h \<Rightarrow> if h = [] then ArinNone else ArinPending);
          purpose = (case rq_purpose existing of
                       None \<Rightarrow> default_supernet_purpose pool | Some s \<Rightarrow> Some s) in
      hbind (hquery E QApproveLirRequest
               (ApproveLirRequest E
                  \<lparr>ap_request = requestID, ap_by = Subject p, ap_notes = ApproveNotes b,
                   ap_pool = poolID, ap_pool_supernet = chosenSupernetID, ap_org = rq_org existing,
                   ap_prefix = chosenPrefix, ap_fabric = fabric, ap_vrf = vrf,
                   ap_purpose = purpose, ap_arin = arinInit\<rparr>)
               (raceErr ''request raced out of pending_approval; re-fetch and retry'')) (\<lambda>(req, alloc).
      hbind (record_event ''lir.request.approve'' requestID) (\<lambda>_.
      hreturn (HttpJSON 200 \<lparr>resp_request = req, resp_allocation = alloc\<rparr>)))))))))))"

section \<open>Allocations and their return\<close>

definition getAllocation ::
    "env \<Rightarrow> principal \<Rightarrow> string \<Rightarrow> lir_db \<Rightarrow> lir_allocation resp \<times> lir_db" where
  "getAllocation E p raw_id = run
     (hbind (parseUUIDParam E ''id'' raw_id) (\<lambda>i.
      hbind (hquery E QGetLirAllocation (GetLirAllocation i) (mapErr ''lir allocation not found'')) (\<lambda>alloc.
      hbind (reject_if (outside_scope p ''lir:allocations:read'' (al_org alloc)) 404
               ''lir allocation not found'') (\<lambda>_.
      hreturn (HttpJSON 200 alloc)))))"

definition retryAllocationArin ::
    "env \<Rightarrow> principal \<Rightarrow> string \<Rightarrow> lir_db \<Rightarrow> lir_allocation resp \<times> lir_db" where
  "retryAllocationArin E p raw_id = run
     (hbind (parseUUIDParam E ''id'' raw_id) (\<lambda>i.
      hbind (hquery E QGetLirAllocation (GetLirAllocation i) (mapErr ''lir allocation not found'')) (\<lambda>alloc.
      hbind (reject_if (outside_scope p ''lir:allocations:arin-retry'' (al_org alloc)) 404
               ''lir allocation not found'') (\<lambda>_.
      hbind (reject_if (arin_status alloc \<noteq> ArinFailed \<and> arin_status alloc \<noteq> ArinNone) 409
               ''allocation arin_status must be 'failed' or 'none' to retry'') (\<lambda>_.
      hbind (hquery E QResetArinJob (ResetArinJobForRetry i) (mapErr [])) (\<lambda>_.
      hbind (record_event ''lir.allocation.arin.retry'' i) (\<lambda>_.
      hbind (hquery E QGetLirAllocation (GetLirAllocation i) (mapErr ''lir allocation not found'')) (\<lambda>refreshed.
      hreturn (HttpJSON 200 refreshed)))))))))"

definition requestReturnAllocation ::
    "env \<Rightarrow> principal \<Rightarrow> string \<Rightarrow> string option \<Rightarrow> lir_db \<Rightarrow> lir_allocation resp \<times> lir_db" where
  "requestReturnAllocation E p raw_id body = run
     (hbind (parseUUIDParam E ''id'' raw_id) (\<lambda>i.
      hbind (decodeBody body) (\<lambda>reason.
      hbind (reject_if (reason = []) 422 ''reason is required'') (\<lambda>_.
      hbind (hquery E QGetLirAllocation (GetLirAllocation i) (mapErr ''lir allocation not found'')) (\<lambda>existing.
      hbind (reject_if (outside_scope p ''lir:allocations:return-request'' (al_org existing)) 404
               ''lir allocation not found'') (\<lambda>_.
      hbind (reject_if (al_status existing \<noteq> Active) 409
               ''allocation must be 'active' to request return'') (\<lambda>_.
      hbind (hquery E QRequestReturn (RequestReturnLirAllocation (clock E) i (Subject p) reason)
               (raceErr ''allocation raced out of 'active' state; re-fetch and retry'')) (\<lambda>out.
      hbind (record_event ''lir.allocation.return-request'' i) (\<lambda>_.
      hreturn (HttpJSON 200 out))))))))))"

definition confirmReturnAllocation ::
    "env \<Rightarrow> principal \<Rightarrow> string \<Rightarrow> unit + string option option \<Rightarrow> lir_db \<Rightarrow> lir_allocation resp \<times> lir_db" where
  "confirmReturnAllocation E p raw_id body = run
     (hbind (parseUUIDParam E ''id'' raw_id) (\<lambda>i.
      hbind (decodeOptional body None) (\<lambda>notes.
      hbind (hquery E QGetLirAllocation (GetLirAllocation i) (mapErr ''lir allocation not found'')) (\<lambda>existing.
      hbind (reject_if (outside_scope p ''lir:allocations:return-confirm'' (al_org existing)) 404
               ''lir allocation not found'') (\<lambda>_.
      hbind (reject_if (al_status existing \<noteq> ReturnRequested) 409
               ''allocation must be 'return_requested' to confirm return'') (\<lambda>_.
      hbind (hquery E QConfirmReturn (ConfirmReturnLirAllocation (clock E) i (Subject p))
               (raceErr ''allocation raced out of 'return_requested'; re-fetch and retry'')) (\<lambda>out.
      hbind (record_event ''lir.allocation.return-confirm'' i) (\<lambda>_.
      hreturn (HttpJSON 200 out)))))))))"

section \<open>Lists\<close>

definition limit_offset :: "int \<Rightarrow> int \<Rightarrow> 'a list \<Rightarrow> 'a list" where
  "limit_offset limit offset xs = take (nat limit) (drop (nat offset) xs)"

definition req_status_text :: "req_status \<Rightarrow> string" where
  "req_status_text s =
     (case s of PendingApproval \<Rightarrow> ''pending_approval'' | Approved \<Rightarrow> ''approved''
      | Rejected \<Rightarrow> ''rejected'' | Cancelled \<Rightarrow> ''cancelled'' | FailedReq \<Rightarrow> ''failed'')"

definition alloc_status_text :: "alloc_status \<Rightarrow> string" where
  "alloc_status_text s =
     (case s of Active \<Rightarrow> ''active'' | ReturnRequested \<Rightarrow> ''return_requested''
      | Returned \<Rightarrow> ''returned'')"

definition in_filter :: "uuid set option \<Rightarrow> string option \<Rightarrow> uuid \<Rightarrow> string \<Rightarrow> bool" where
  "in_filter orgs status org st \<longleftrightarrow>
     (case orgs of None \<Rightarrow> True | Some ids \<Rightarrow> org \<in> ids)
     \<and> (case status of None \<Rightarrow> True | Some s \<Rightarrow> st = s)"

definition requests_where :: "uuid set option \<Rightarrow> string option \<Rightarrow> lir_db \<Rightarrow> lir_request list" where
  "requests_where orgs st db =
     filter (\<lambda>r. in_filter orgs st (rq_org r) (req_status_text (rq_status r))) (requests db)"

definition allocations_where :: "uuid set option \<Rightarrow> string option \<Rightarrow> lir_db \<Rightarrow> lir_allocation list" where
  "allocations_where orgs st db =
     filter (\<lambda>a. in_filter orgs st (al_org a) (alloc_status_text (al_status a))) (allocations db)"

text \<open>\<^verbatim>\<open>ORDER BY ... DESC LIMIT OFFSET\<close>; rows with equal times stay in table order.\<close>

definition ListLirRequests ::
    "int \<Rightarrow> int \<Rightarrow> uuid set option \<Rightarrow> string option \<Rightarrow> lir_db \<Rightarrow> (dberr + lir_request list) \<times> lir_db" where
  "ListLirRequests limit offset orgs st = reading (\<lambda>db. Inr (limit_offset limit offset
     (sort_key (\<lambda>r. - submitted_at r) (requests_where orgs st db))))"

definition ListLirAllocations ::
    "int \<Rightarrow> int \<Rightarrow> uuid set option \<Rightarrow> string option \<Rightarrow> lir_db \<Rightarrow> (dberr + lir_allocation list) \<times> lir_db" where
  "ListLirAllocations limit offset orgs st = reading (\<lambda>db. Inr (limit_offset limit offset
     (sort_key (\<lambda>a. - allocated_at a) (allocations_where orgs st db))))"

definition CountLirRequests :: "uuid set option \<Rightarrow> string option \<Rightarrow> lir_db \<Rightarrow> (dberr + nat) \<times> lir_db" where
  "CountLirRequests orgs st = reading (\<lambda>db. Inr (length (requests_where orgs st db)))"

definition CountLirAllocations :: "uuid set option \<Rightarrow> string option \<Rightarrow> lir_db \<Rightarrow> (dberr + nat) \<times> lir_db" where
  "CountLirAllocations orgs st = reading (\<lambda>db. Inr (length (allocations_where orgs st db)))"

definition ListLirPools :: "int \<Rightarrow> int \<Rightarrow> lir_db \<Rightarrow> (dberr + lir_pool list) \<times> lir_db" where
  "ListLirPools limit offset = reading (\<lambda>db. Inr (limit_offset limit offset
     (sort_key (\<lambda>p. map of_char (pool_name p) :: nat list) (pools db))))"

definition CountLirPools :: "lir_db \<Rightarrow> (dberr + nat) \<times> lir_db" where
  "CountLirPools = reading (\<lambda>db. Inr (length (pools db)))"

definition ListPoolSourceSupernets ::
    "uuid \<Rightarrow> int \<Rightarrow> int \<Rightarrow> lir_db \<Rightarrow> (dberr + supernet list) \<times> lir_db" where
  "ListPoolSourceSupernets pool limit offset =
     reading (\<lambda>db. Inr (limit_offset limit offset (pool_supernets pool db)))"

definition CountPoolSourceSupernets :: "uuid \<Rightarrow> lir_db \<Rightarrow> (dberr + nat) \<times> lir_db" where
  "CountPoolSourceSupernets pool = reading (\<lambda>db. Inr (length (pool_supernets pool db)))"

definition statusFilter :: "query_values \<Rightarrow> string option" where
  "statusFilter q = (let v = q ''status'' in if v = [] then None else Some v)"

definition listRequests ::
    "env \<Rightarrow> principal \<Rightarrow> query_values \<Rightarrow> lir_db \<Rightarrow> lir_request Page resp \<times> lir_db" where
  "listRequests E p q =
     (let (limit, offset) = PageBounds q;
          st = statusFilter q;
          orgs = scopedOrgIDs p ''lir:requests:read'' in
      run (if orgs = Some {} then hreturn (HttpJSON 200 (EmptyPage limit offset))
           else
      hbind (hquery E QListLirRequests (ListLirRequests limit offset orgs st) (mapErr [])) (\<lambda>items.
      hbind (hquery E QCountLirRequests (CountLirRequests orgs st) (mapErr [])) (\<lambda>total.
      hreturn (HttpJSON 200 \<lparr>Items = items, Total = int total, Limit = limit, Offset = offset\<rparr>)))))"

definition listAllocations ::
    "env \<Rightarrow> principal \<Rightarrow> query_values \<Rightarrow> lir_db \<Rightarrow> lir_allocation Page resp \<times> lir_db" where
  "listAllocations E p q =
     (let (limit, offset) = PageBounds q;
          st = statusFilter q;
          orgs = scopedOrgIDs p ''lir:allocations:read'' in
      run (if orgs = Some {} then hreturn (HttpJSON 200 (EmptyPage limit offset))
           else
      hbind (hquery E QListLirAllocations (ListLirAllocations limit offset orgs st) (mapErr [])) (\<lambda>items.
      hbind (hquery E QCountLirAllocations (CountLirAllocations orgs st) (mapErr [])) (\<lambda>total.
      hreturn (HttpJSON 200 \<lparr>Items = items, Total = int total, Limit = limit, Offset = offset\<rparr>)))))"

definition getPool :: "env \<Rightarrow> string \<Rightarrow> lir_db \<Rightarrow> lir_pool resp \<times> lir_db" where
  "getPool E raw_id = run
     (hbind (parseUUIDParam E ''id'' raw_id) (\<lambda>i.
      hbind (hquery E QGetLirPool (GetLirPool i) (mapErr ''lir pool not found'')) (\<lambda>pool.
      hreturn (HttpJSON 200 pool))))"

definition listPools :: "env \<Rightarrow> query_values \<Rightarrow> lir_db \<Rightarrow> lir_pool Page resp \<times> lir_db" where
  "listPools E q =
     (let (limit, offset) = PageBounds q in run
      (hbind (hquery E QListLirPools (ListLirPools limit offset) (mapErr [])) (\<lambda>items.
       hbind (hquery E QCountLirPools CountLirPools (mapErr [])) (\<lambda>total.
       hreturn (HttpJSON 200 \<lparr>Items = items, Total = int total, Limit = limit, Offset = offset\<rparr>)))))"

definition listPoolSupernets ::
    "env \<Rightarrow> string \<Rightarrow> query_values \<Rightarrow> lir_db \<Rightarrow> supernet Page resp \<times> lir_db" where
  "listPoolSupernets E raw_id q =
     (let (limit, offset) = PageBounds q in run
      (hbind (parseUUIDParam E ''id'' raw_id) (\<lambda>pool_i.
       hbind (hquery E QGetLirPool (GetLirPool pool_i) (mapErr ''lir pool not found'')) (\<lambda>_.
       hbind (hquery E QListPoolSourceSupernets (ListPoolSourceSupernets pool_i limit offset) (mapErr [])) (\<lambda>items.
       hbind (hquery E QCountPoolSourceSupernets (CountPoolSourceSupernets pool_i) (mapErr [])) (\<lambda>total.
       hreturn (HttpJSON 200 \<lparr>Items = items, Total = int total, Limit = limit, Offset = offset\<rparr>)))))))"

end
