(* ===== verification/LirSystem.thy ===== *)
theory LirSystem
  imports LirHandlers Authn
begin

text \<open>
  The routes of \<^verbatim>\<open>internal/lir/handler.go\<close> and what any mix of them can do to the
  tables.  \<open>commit\<close> is one committed statement, with arbitrary arguments; \<open>serve\<close> is one
  HTTP request.  A request whose environment lets other statements commit between
  its own is again a sequence of commits (\<open>serve_commits\<close>), so what \<open>commit\<close> keeps
  holds under every interleaving.
\<close>

section \<open>Routes\<close>

datatype call =
    CListPools query_values
  | CCreatePool "create_pool_req option"
  | CGetPool string
  | CUpdatePool string "update_pool_req option"
  | CDeletePool string
  | CListPoolSupernets string query_values
  | CAttach string "string option"
  | CDetach string string
  | CListRequests query_values
  | CSubmit "submit_req option"
  | CGetRequest string
  | CCancel string "unit + string option option"
  | CApprove string "unit + approve_req option"
  | CReject string "string option"
  | CListAllocations query_values
  | CGetAllocation string
  | CArinRetry string
  | CReturnRequest string "string option"
  | CReturnConfirm string "unit + string option option"

fun route_capability :: "call \<Rightarrow> string" where
  "route_capability (CListPools _) = ''lir:pools:read''"
| "route_capability (CCreatePool _) = ''lir:pools:create''"
| "route_capability (CGetPool _) = ''lir:pools:read''"
| "route_capability (CUpdatePool _ _) = ''lir:pools:update''"
| "route_capability (CDeletePool _) = ''lir:pools:delete''"
| "route_capability (CListPoolSupernets _ _) = ''lir:pools:read''"
| "route_capability (CAttach _ _) = ''lir:pools:update''"
| "route_capability (CDetach _ _) = ''lir:pools:update''"
| "route_capability (CListRequests _) = ''lir:requests:read''"
| "route_capability (CSubmit _) = ''lir:requests:create''"
| "route_capability (CGetRequest _) = ''lir:requests:read''"
| "route_capability (CCancel _ _) = ''lir:requests:cancel''"
| "route_capability (CApprove _ _) = ''lir:requests:approve''"
| "route_capability (CReject _ _) = ''lir:requests:reject''"
| "route_capability (CListAllocations _) = ''lir:allocations:read''"
| "route_capability (CGetAllocation _) = ''lir:allocations:read''"
| "route_capability (CArinRetry _) = ''lir:allocations:arin-retry''"
| "route_capability (CReturnRequest _ _) = ''lir:allocations:return-request''"
| "route_capability (CReturnConfirm _ _) = ''lir:allocations:return-confirm''"

text \<open>Of the answer, what all routes share: the status, and the message of an error.\<close>

definition error_text :: "'r resp \<Rightarrow> string" where
  "error_text r = (case r of HttpError _ m \<Rightarrow> m | _ \<Rightarrow> [])"

definition answer :: "'r resp \<times> lir_db \<Rightarrow> (nat \<times> string) \<times> lir_db" where
  "answer r = ((status_of (fst r), error_text (fst r)), snd r)"

fun handle :: "env \<Rightarrow> principal \<Rightarrow> call \<Rightarrow> lir_db \<Rightarrow> (nat \<times> string) \<times> lir_db" where
  "handle E p (CListPools q) db = answer (listPools E q db)"
| "handle E p (CCreatePool b) db = answer (createPool E b db)"
| "handle E p (CGetPool i) db = answer (getPool E i db)"
| "handle E p (CUpdatePool i b) db = answer (updatePool E i b db)"
| "handle E p (CDeletePool i) db = answer (deletePool E i db)"
| "handle E p (CListPoolSupernets i q) db = answer (listPoolSupernets E i q db)"
| "handle E p (CAttach i b) db = answer (attachPoolSupernet E i b db)"
| "handle E p (CDetach i s) db = answer (detachPoolSupernet E i s db)"
| "handle E p (CListRequests q) db = answer (listRequests E p q db)"
| "handle E p (CSubmit b) db = answer (submitRequest E (Some p) b db)"
| "handle E p (CGetRequest i) db = answer (getRequest E p i db)"
| "handle E p (CCancel i b) db = answer (cancelRequest E p i b db)"
| "handle E p (CApprove i b) db = answer (approveRequest E p i b db)"
| "handle E p (CReject i b) db = answer (rejectRequest E p i b db)"
| "handle E p (CListAllocations q) db = answer (listAllocations E p q db)"
| "handle E p (CGetAllocation i) db = answer (getAllocation E p i db)"
| "handle E p (CArinRetry i) db = answer (retryAllocationArin E p i db)"
| "handle E p (CReturnRequest i b) db = answer (requestReturnAllocation E p i b db)"
| "handle E p (CReturnConfirm i b) db = answer (confirmReturnAllocation E p i b db)"

text \<open>\<^verbatim>\<open>r.With(auth.RequireCapability(cap))\<close> before the handler.\<close>

definition serve :: "env \<Rightarrow> principal option \<Rightarrow> call \<Rightarrow> lir_db \<Rightarrow> (nat \<times> string) \<times> lir_db" where
  "serve E caller c db =
     (case caller of
        None \<Rightarrow> ((500, ''missing principal''), db)
      | Some p \<Rightarrow>
          (case RequireCapability (route_capability c) caller of
             Refuse code msg \<Rightarrow> ((code, msg), db)
           | Pass _ \<Rightarrow> handle E p c db))"

section \<open>Commits\<close>

inductive commit :: "lir_db \<Rightarrow> lir_db \<Rightarrow> bool" where
  audit: "commit db (db\<lparr>audit_log := audit_log db @ [e]\<rparr>)"
| create_pool: "pool_id p \<notin> pool_id ` set (pools db) \<Longrightarrow> commit db (snd (CreateLirPool p db))"
| update_pool: "commit db (snd (UpdateLirPool i u db))"
| delete_pool: "commit db (snd (DeleteLirPool i db))"
| attach: "commit db (snd (AttachSupernetToPool i pool db))"
| detach: "commit db (snd (DetachSupernetFromPool i pool db))"
| detach_all: "commit db (snd (DetachAllPoolSupernets pool db))"
| submit: "rq_id r \<notin> rq_id ` set (requests db) \<Longrightarrow> rq_status r = PendingApproval \<Longrightarrow>
           approved_pool r = None \<Longrightarrow> commit db (snd (CreateLirRequest r db))"
| cancel: "commit db (snd (CancelLirRequest i notes db))"
| reject: "commit db (snd (RejectLirRequest at i by why db))"
| approve: "new_supernet_id E db \<notin> su_id ` set (supernets db) \<Longrightarrow>
            new_alloc_id E db \<notin> al_id ` set (allocations db) \<Longrightarrow>
            ap_arin ap \<in> {ArinNone, ArinPending} \<Longrightarrow>
            commit db (snd (ApproveLirRequest E ap db))"
| request_return: "commit db (snd (RequestReturnLirAllocation at i by why db))"
| confirm_return: "commit db (snd (ConfirmReturnLirAllocation at i by db))"
| arin_reset: "commit db (snd (ResetArinJobForRetry i db))"
| arin_registered: "\<forall>a\<in>set (allocations db). al_id a = i \<longrightarrow> arin_net_handle a = None \<Longrightarrow>
                    commit db (snd (MarkArinRegistered at i h db))"
| arin_failed: "\<forall>a\<in>set (allocations db). al_id a = i \<longrightarrow> arin_status a \<noteq> ArinNone \<Longrightarrow>
                commit db (snd (MarkArinFailed at i why db))"
| arin_removed: "\<forall>a\<in>set (allocations db). al_id a = i \<longrightarrow> arin_net_handle a \<noteq> None \<Longrightarrow>
                 commit db (snd (MarkArinRemoved at i db))"

abbreviation commits :: "lir_db \<Rightarrow> lir_db \<Rightarrow> bool" where
  "commits \<equiv> commit\<^sup>*\<^sup>*"

text \<open>\<^verbatim>\<open>gen_random_uuid()\<close> does not answer an id in use.\<close>

definition uuids_fresh :: "env \<Rightarrow> bool" where
  "uuids_fresh E \<longleftrightarrow>
     (\<forall>db. new_pool_id E db \<notin> pool_id ` set (pools db)
         \<and> new_request_id E db \<notin> rq_id ` set (requests db)
         \<and> new_supernet_id E db \<notin> su_id ` set (supernets db)
         \<and> new_alloc_id E db \<notin> al_id ` set (allocations db))"

text \<open>Between the statements of a handler, others commit whatever the same code commits.\<close>

definition others_commit :: "env \<Rightarrow> bool" where
  "others_commit E \<longleftrightarrow> (\<forall>Q db. commits db (interfere E Q db))"

section \<open>The effect of a handler\<close>

text \<open>A relation that also allows writing to the audit log.\<close>

locale effect = state_effect R for R :: "lir_db \<Rightarrow> lir_db \<Rightarrow> bool" +
  assumes R_audit: "R db (db\<lparr>audit_log := audit_log db @ [e]\<rparr>)"
begin

lemma only_query:
  assumes "\<And>Q db. R db (interfere E Q db)" "\<And>db. R db (snd (f db))"
  shows "only R (hquery E Q f onerr)"
proof -
  have "R db (snd (exec E Q f db))" for db
    using assms unfolding exec_def
    by (auto simp: Let_def split: option.splits intro: R_trans)
  then show ?thesis
    unfolding only_def hquery_def
    by (auto split: prod.split sum.split) (metis snd_conv)+
qed

lemma only_audit: "only R (record_event a t)"
  by (simp add: only_def record_event_def R_audit)

lemma only_parse: "only R (parseUUIDParam E k raw)"
  by (auto simp: parseUUIDParam_def only_return only_answer split: option.split)

lemma only_parse_opt: "only R (parseOptionalUUID E raw k)"
  by (auto simp: parseOptionalUUID_def only_return only_answer split: option.split)

lemma only_family: "only R (check_family_prefix f l)"
  by (auto simp: check_family_prefix_def only_return only_answer split: option.split)

lemma only_body: "only R (decodeBody b)"
  by (auto simp: decodeBody_def only_return only_answer split: option.split)

lemma only_body_opt: "only R (decodeOptional b z)"
  by (auto simp: decodeOptional_def only_return only_body split: sum.split)

lemmas only_intros = only_basic only_audit only_parse only_parse_opt only_family only_body
  only_body_opt

end

section \<open>A handler is a sequence of commits\<close>

interpretation committed: effect commits
  by unfold_locales (auto intro: rtranclp_trans audit)

lemma one_commit: "commit db db' \<Longrightarrow> commits db db'" by blast

lemma oc_query:
  "\<lbrakk>others_commit E; \<And>db. commits db (snd (f db))\<rbrakk> \<Longrightarrow> only commits (hquery E Q f onerr)"
  by (rule committed.only_query) (simp_all add: others_commit_def)

lemmas oc_intros = committed.only_intros oc_query
lemmas oc_run = committed.only_run

lemmas query_reads = GetLirPool_def GetLirRequest_def GetLirAllocation_def GetSupernetForLirAttach_def
  GetLandingFabric_def ListPoolSupernetsForCarve_def ListAllocatedPrefixesInPool_def
  CountAllocationsForPool_def CountAllocationsForPoolSupernet_def ListLirRequests_def
  ListLirAllocations_def CountLirRequests_def CountLirAllocations_def ListLirPools_def
  CountLirPools_def ListPoolSourceSupernets_def CountPoolSourceSupernets_def

lemma oc_approve_query:
  assumes "others_commit E" "uuids_fresh E" "ap_arin ap \<in> {ArinNone, ArinPending}"
  shows "only commits (hquery E Q (ApproveLirRequest E ap) onerr)"
  using assms by (intro oc_query one_commit approve) (simp_all add: uuids_fresh_def)

lemma createPool_commits:
  assumes "others_commit E" "uuids_fresh E"
  shows "commits db (snd (createPool E b db))"
  unfolding createPool_def
  by (intro oc_run oc_intros assms(1) one_commit create_pool)
     (use assms(2) in \<open>simp add: uuids_fresh_def\<close>)

lemma submitRequest_commits:
  assumes "others_commit E" "uuids_fresh E"
  shows "commits db (snd (submitRequest E p b db))"
  unfolding submitRequest_def
  by (intro oc_run oc_intros assms(1) one_commit submit)
     (use assms(2) in \<open>simp_all add: uuids_fresh_def\<close>)

lemma approveRequest_commits:
  assumes "others_commit E" "uuids_fresh E"
  shows "commits db (snd (approveRequest E p i b db))"
  unfolding approveRequest_def loadApprovableRequest_def resolveApprovedPoolID_def
    validatePoolForApproval_def carveForApproval_def query_reads
  by (intro oc_run oc_intros oc_approve_query assms(1,2)) (auto split: option.splits)

lemma updatePool_commits: "others_commit E \<Longrightarrow> commits db (snd (updatePool E i b db))"
  unfolding updatePool_def query_reads by (intro oc_run oc_intros one_commit update_pool)

lemma deletePool_commits: "others_commit E \<Longrightarrow> commits db (snd (deletePool E i db))"
  unfolding deletePool_def query_reads by (intro oc_run oc_intros one_commit delete_pool detach_all)

lemma attachPoolSupernet_commits: "others_commit E \<Longrightarrow> commits db (snd (attachPoolSupernet E i b db))"
  unfolding attachPoolSupernet_def query_reads by (intro oc_run oc_intros one_commit attach)

lemma detachPoolSupernet_commits: "others_commit E \<Longrightarrow> commits db (snd (detachPoolSupernet E i s db))"
  unfolding detachPoolSupernet_def query_reads by (intro oc_run oc_intros one_commit detach)

lemma getRequest_commits: "others_commit E \<Longrightarrow> commits db (snd (getRequest E p i db))"
  unfolding getRequest_def query_reads by (intro oc_run oc_intros)

lemma cancelRequest_commits: "others_commit E \<Longrightarrow> commits db (snd (cancelRequest E p i b db))"
  unfolding cancelRequest_def query_reads by (intro oc_run oc_intros one_commit cancel)

lemma rejectRequest_commits: "others_commit E \<Longrightarrow> commits db (snd (rejectRequest E p i b db))"
  unfolding rejectRequest_def query_reads by (intro oc_run oc_intros one_commit reject)

lemma getAllocation_commits: "others_commit E \<Longrightarrow> commits db (snd (getAllocation E p i db))"
  unfolding getAllocation_def query_reads by (intro oc_run oc_intros)

lemma retryAllocationArin_commits: "others_commit E \<Longrightarrow> commits db (snd (retryAllocationArin E p i db))"
  unfolding retryAllocationArin_def query_reads by (intro oc_run oc_intros one_commit arin_reset)

lemma requestReturnAllocation_commits: "others_commit E \<Longrightarrow> commits db (snd (requestReturnAllocation E p i b db))"
  unfolding requestReturnAllocation_def query_reads by (intro oc_run oc_intros one_commit request_return)

lemma confirmReturnAllocation_commits: "others_commit E \<Longrightarrow> commits db (snd (confirmReturnAllocation E p i b db))"
  unfolding confirmReturnAllocation_def query_reads by (intro oc_run oc_intros one_commit confirm_return)

lemma getPool_commits: "others_commit E \<Longrightarrow> commits db (snd (getPool E i db))"
  unfolding getPool_def query_reads by (intro oc_run oc_intros)

lemma listPools_commits: "others_commit E \<Longrightarrow> commits db (snd (listPools E q db))"
  unfolding listPools_def query_reads Let_def case_prod_unfold by (intro oc_run oc_intros)

lemma listPoolSupernets_commits: "others_commit E \<Longrightarrow> commits db (snd (listPoolSupernets E i q db))"
  unfolding listPoolSupernets_def query_reads Let_def case_prod_unfold by (intro oc_run oc_intros)

lemma listRequests_commits: "others_commit E \<Longrightarrow> commits db (snd (listRequests E p q db))"
  unfolding listRequests_def query_reads Let_def case_prod_unfold by (intro oc_run oc_intros)

lemma listAllocations_commits: "others_commit E \<Longrightarrow> commits db (snd (listAllocations E p q db))"
  unfolding listAllocations_def query_reads Let_def case_prod_unfold by (intro oc_run oc_intros)

lemmas handlers_commit = createPool_commits updatePool_commits deletePool_commits
  attachPoolSupernet_commits detachPoolSupernet_commits submitRequest_commits getRequest_commits
  cancelRequest_commits rejectRequest_commits approveRequest_commits getAllocation_commits
  retryAllocationArin_commits requestReturnAllocation_commits confirmReturnAllocation_commits
  getPool_commits listPools_commits listPoolSupernets_commits listRequests_commits
  listAllocations_commits

lemma handle_commits:
  "\<lbrakk>others_commit E; uuids_fresh E\<rbrakk> \<Longrightarrow> commits db (snd (handle E p c db))"
  by (cases c) (simp_all add: answer_def handlers_commit)

end
