(* ===== verification/LirSafety.thy ===== *)
theory LirSafety
  imports LirSystem
begin

text \<open>
  What the registry keeps under every interleaving of its statements: at most one
  grant per request, exactly for the approved ones; decisions that are final;
  allocations that never go back; references that stay resolved.
\<close>

section \<open>Rows\<close>

definition request_ok :: "lir_request \<Rightarrow> bool" where
  "request_ok r \<longleftrightarrow>
     request_check r
     \<and> (rq_status r \<in> {Approved, Rejected} \<longrightarrow> decided_at r \<noteq> None \<and> decided_by r \<noteq> None)
     \<and> (approved_pool r \<noteq> None \<longleftrightarrow> rq_status r = Approved)"

definition alloc_ok :: "lir_allocation \<Rightarrow> bool" where
  "alloc_ok a \<longleftrightarrow>
     (al_status a \<noteq> Active \<longrightarrow> return_requested_at a \<noteq> None)
     \<and> (al_status a = Returned \<longleftrightarrow> returned_at a \<noteq> None)
     \<and> (arin_status a \<in> {ArinRegistered, ArinRemoving, ArinRemoved} \<longrightarrow> arin_net_handle a \<noteq> None)
     \<and> (arin_status a \<in> {ArinNone, ArinPending} \<longrightarrow> arin_net_handle a = None)"

definition supernet_ok :: "supernet \<Rightarrow> bool" where
  "supernet_ok s \<longleftrightarrow> su_pool s = None \<or> su_owner s = None"

section \<open>Tables\<close>

definition rows_ok :: "lir_db \<Rightarrow> bool" where
  "rows_ok db \<longleftrightarrow>
     (\<forall>r\<in>set (requests db). request_ok r) \<and> (\<forall>a\<in>set (allocations db). alloc_ok a)
     \<and> (\<forall>s\<in>set (supernets db). supernet_ok s) \<and> (\<forall>p\<in>set (pools db). pool_check p)"

definition keys_ok :: "lir_db \<Rightarrow> bool" where
  "keys_ok db \<longleftrightarrow>
     distinct (map pool_id (pools db)) \<and> distinct (map rq_id (requests db))
     \<and> distinct (map su_id (supernets db)) \<and> distinct (map al_id (allocations db))"

definition grants_ok :: "lir_db \<Rightarrow> bool" where
  "grants_ok db \<longleftrightarrow>
     distinct (map al_request (allocations db))
     \<and> al_request ` set (allocations db) = rq_id ` {r\<in>set (requests db). rq_status r = Approved}"

definition refs_ok :: "lir_db \<Rightarrow> bool" where
  "refs_ok db \<longleftrightarrow>
     (\<forall>a\<in>set (allocations db). al_pool a \<in> pool_id ` set (pools db)
        \<and> al_pool_supernet a \<in> su_id ` set (supernets db)
        \<and> al_tenant_supernet a \<in> su_id ` set (supernets db))
     \<and> (\<forall>s\<in>set (supernets db). set_option (su_pool s) \<subseteq> pool_id ` set (pools db))
     \<and> (\<forall>r\<in>set (requests db). set_option (rq_pool r) \<subseteq> pool_id ` set (pools db)
        \<and> set_option (approved_pool r) \<subseteq> pool_id ` set (pools db))"

definition lir_inv :: "lir_db \<Rightarrow> bool" where
  "lir_inv db \<longleftrightarrow> rows_ok db \<and> keys_ok db \<and> grants_ok db \<and> refs_ok db"

section \<open>Updates of rows in place\<close>

lemma map_key_update [simp]:
  "(\<And>x. g (f x) = g x) \<Longrightarrow> map g (map (\<lambda>x. if P x then f x else x) xs) = map g xs"
  by simp

lemma comp_key_update [simp]:
  "(\<And>x. g (f x) = g x) \<Longrightarrow> g \<circ> (\<lambda>x. if P x then f x else x) = g"
  by (simp add: fun_eq_iff)

lemma image_key_update:
  "(\<And>x. g (f x) = g x) \<Longrightarrow> g ` set (map (\<lambda>x. if P x then f x else x) xs) = g ` set xs"
  unfolding set_map image_image by (rule image_cong) auto

lemma find_Some_mem: "find P xs = Some x \<Longrightarrow> x \<in> set xs \<and> P x"
  by (induction xs) (auto split: if_splits)

lemma find_pool_Some: "find_pool i db \<noteq> None \<longleftrightarrow> i \<in> pool_id ` set (pools db)"
  unfolding find_pool_def by (auto simp: find_None_iff)

lemma find_supernet_Some: "find_supernet i db \<noteq> None \<longleftrightarrow> i \<in> su_id ` set (supernets db)"
  unfolding find_supernet_def by (auto simp: find_None_iff)

lemma snd_update_request:
  "snd (update_request i st f db) =
     db\<lparr>requests := map (\<lambda>r. if rq_id r = i \<and> rq_status r = st then f r else r) (requests db)\<rparr>"
proof (cases "find (\<lambda>r. rq_id r = i \<and> rq_status r = st) (requests db)")
  case None
  then have "map (\<lambda>r. if rq_id r = i \<and> rq_status r = st then f r else r) (requests db) = requests db"
    by (intro map_idI) (auto simp: find_None_iff)
  then show ?thesis using None by (simp add: update_request_def)
qed (simp add: update_request_def)

lemma snd_update_alloc:
  "snd (update_alloc i st f db) =
     db\<lparr>allocations := map (\<lambda>a. if al_id a = i \<and> al_status a = st then f a else a) (allocations db)\<rparr>"
proof (cases "find (\<lambda>a. al_id a = i \<and> al_status a = st) (allocations db)")
  case None
  then have "map (\<lambda>a. if al_id a = i \<and> al_status a = st then f a else a) (allocations db) = allocations db"
    by (intro map_idI) (auto simp: find_None_iff)
  then show ?thesis using None by (simp add: update_alloc_def)
qed (simp add: update_alloc_def)

lemmas row_updates = CancelLirRequest_def RejectLirRequest_def RequestReturnLirAllocation_def
  ConfirmReturnLirAllocation_def snd_update_request snd_update_alloc ResetArinJobForRetry_def
  MarkArinRegistered_def MarkArinFailed_def MarkArinRemoved_def mark_alloc_def
  DetachAllPoolSupernets_def detach_all_def DetachSupernetFromPool_def

section \<open>What each commit does\<close>

text \<open>Every commit, as a change of the tables; the guards are those the statement checks.\<close>

lemma snd_CreateLirPool:
  "snd (CreateLirPool p db) =
     (if pool_check p \<and> pool_unique p (pools db) then db\<lparr>pools := pools db @ [p]\<rparr> else db)"
  by (simp add: CreateLirPool_def)

lemma snd_DeleteLirPool:
  "snd (DeleteLirPool i db) =
     (if find_pool i db \<noteq> None \<and> pool_referenced i db then db
      else (detach_all i db)\<lparr>pools := filter (\<lambda>p. pool_id p \<noteq> i) (pools db)\<rparr>)"
  by (simp add: DeleteLirPool_def)

lemma if_or: "(if a then x else if b then x else y) = (if a \<or> b then x else y)"
  by simp

lemma snd_AttachSupernet:
  "snd (AttachSupernetToPool i pool db) =
     (if (\<exists>s\<in>set (supernets db). su_id s = i \<and> su_owner s \<noteq> None)
         \<or> (find_supernet i db \<noteq> None \<and> find_pool pool db = None) then db
      else db\<lparr>supernets := map (\<lambda>s. if su_id s = i then s\<lparr>su_pool := Some pool\<rparr> else s) (supernets db)\<rparr>)"
  unfolding AttachSupernetToPool_def by (simp only: if_distrib[of snd] snd_conv if_or)

lemma snd_CreateLirRequest:
  "snd (CreateLirRequest r db) =
     (if request_check r \<and> set_option (rq_pool r) \<subseteq> pool_id ` set (pools db)
      then db\<lparr>requests := requests db @ [r]\<rparr> else db)"
proof -
  have "(case rq_pool r of None \<Rightarrow> False | Some p \<Rightarrow> find_pool p db = None)
      \<longleftrightarrow> \<not> set_option (rq_pool r) \<subseteq> pool_id ` set (pools db)"
    using find_pool_Some[of "the (rq_pool r)" db] by (cases "rq_pool r") (simp, cases "find_pool (the (rq_pool r)) db", simp_all)
  then show ?thesis by (simp add: CreateLirRequest_def)
qed

lemma if_refuse:
  "a \<or> b \<Longrightarrow> (if a then (Inl u, d) else if b then (Inl v, d) else y) = (Inl (if a then u else v), d)"
  by auto

lemma ApproveLirRequest_cases:
  obtains
    (refused) e where "ApproveLirRequest E ap db = (Inl e, db)"
  | (granted) r p where
      "r \<in> set (requests db)" "rq_id r = ap_request ap" "rq_status r = PendingApproval"
      "cidr_in E (ap_prefix ap) = Some p"
      "ap_request ap \<notin> al_request ` set (allocations db)"
      "ap_pool ap \<in> pool_id ` set (pools db)" "ap_pool_supernet ap \<in> su_id ` set (supernets db)"
      "ApproveLirRequest E ap db =
         (Inr (approve_row E ap r, new_alloc_row E ap db p),
          db\<lparr>requests := map (\<lambda>r. if rq_id r = ap_request ap \<and> rq_status r = PendingApproval
                                 then approve_row E ap r else r) (requests db),
             supernets := supernets db @ [new_supernet_row E ap db p],
             allocations := allocations db @ [new_alloc_row E ap db p]\<rparr>)"
proof (cases "find (\<lambda>r. rq_id r = ap_request ap \<and> rq_status r = PendingApproval) (requests db)")
  case None
  then show ?thesis using refused by (simp add: ApproveLirRequest_def)
next
  case (Some r)
  then have r: "r \<in> set (requests db)" "rq_id r = ap_request ap" "rq_status r = PendingApproval"
    by (auto dest: find_Some_mem)
  show ?thesis
  proof (cases "cidr_in E (ap_prefix ap)")
    case None
    then show ?thesis using Some refused by (simp add: ApproveLirRequest_def)
  next
    case (Some p)
    show ?thesis
    proof (cases "(\<exists>a\<in>set (allocations db). al_request a = ap_request ap)
        \<or> find_pool (ap_pool ap) db = None \<or> find_supernet (ap_pool_supernet ap) db = None")
      case True
      note c = \<open>find _ _ = Some r\<close> Some
      have "ApproveLirRequest E ap db =
          (Inl (if \<exists>a\<in>set (allocations db). al_request a = ap_request ap
                then UniqueViolation ''uq_lir_allocation_request'' else FKViolation ''lir_allocations''), db)"
        unfolding ApproveLirRequest_def c option.case 
        by (rule if_refuse[OF True])
      then show ?thesis by (rule refused)
    next
      case False
      then have f: "\<not> (\<exists>a\<in>set (allocations db). al_request a = ap_request ap)"
        "find_pool (ap_pool ap) db \<noteq> None" "find_supernet (ap_pool_supernet ap) db \<noteq> None" by simp_all
      show ?thesis
      proof (rule granted[OF r Some])
        show "ap_request ap \<notin> al_request ` set (allocations db)" using f(1) by force
        show "ap_pool ap \<in> pool_id ` set (pools db)" using f(2) by (simp only: find_pool_Some)
        show "ap_pool_supernet ap \<in> su_id ` set (supernets db)" using f(3) by (simp only: find_supernet_Some)
      qed (use Some f \<open>find _ _ = Some r\<close> in \<open>simp add: ApproveLirRequest_def\<close>)
    qed
  qed
qed


section \<open>The invariants\<close>

lemma ball_map_update:
  "\<lbrakk>\<forall>x\<in>set xs. R x; \<And>x. \<lbrakk>x \<in> set xs; P x; R x\<rbrakk> \<Longrightarrow> R (f x)\<rbrakk>
   \<Longrightarrow> \<forall>x\<in>set (map (\<lambda>x. if P x then f x else x) xs). R x"
  by auto

lemma find_key:
  assumes "distinct (map k xs)" "x \<in> set xs" "k x = i"
  shows "find (\<lambda>y. k y = i) xs = Some x"
  using assms by (induction xs) auto

lemma request_ok_steps:
  assumes "request_ok r" "rq_status r = PendingApproval"
  shows "request_ok (r\<lparr>rq_status := Cancelled, decision_notes := notes\<rparr>)"
    "request_ok (r\<lparr>rq_status := Rejected, decided_at := Some t, decided_by := Some by,
       decision_notes := Some why\<rparr>)"
    "request_ok (approve_row E ap r)"
  using assms by (auto simp: request_ok_def request_check_def approve_row_def)

lemma rows_ok_updates:
  assumes "rows_ok db"
  shows "(\<And>r. \<lbrakk>P r; request_ok r\<rbrakk> \<Longrightarrow> request_ok (f r)) \<Longrightarrow>
      rows_ok (db\<lparr>requests := map (\<lambda>r. if P r then f r else r) (requests db)\<rparr>)"
    and "(\<And>a. \<lbrakk>a \<in> set (allocations db); Q a; alloc_ok a\<rbrakk> \<Longrightarrow> alloc_ok (g a)) \<Longrightarrow>
      rows_ok (db\<lparr>allocations := map (\<lambda>a. if Q a then g a else a) (allocations db)\<rparr>)"
    and "(\<And>x. \<lbrakk>x \<in> set (supernets db); R x; supernet_ok x\<rbrakk> \<Longrightarrow> supernet_ok (h x)) \<Longrightarrow>
      rows_ok (db\<lparr>supernets := map (\<lambda>x. if R x then h x else x) (supernets db)\<rparr>)"
  using assms by (auto simp: rows_ok_def)

lemma rows_kept:
  assumes "commit db db'" "keys_ok db" "rows_ok db"
  shows "rows_ok db'"
  using assms
proof (cases rule: commit.cases)
  case (update_pool i u)
  show ?thesis
  proof (cases "find_pool i db")
    case None
    then show ?thesis using update_pool assms by (simp add: UpdateLirPool_def)
  next
    case (Some p)
    then have "\<forall>q\<in>set (pools db). pool_id q = i \<longrightarrow> q = p"
      using assms(2) find_key[of pool_id "pools db"] by (auto simp: keys_ok_def find_pool_def)
    then show ?thesis using update_pool assms Some
      by (auto simp: UpdateLirPool_def rows_ok_def Let_def)
  qed
next
  case (approve E ap)
  show ?thesis
  proof (cases rule: ApproveLirRequest_cases[of E ap db])
    case (refused e)
    then show ?thesis using approve assms by simp
  next
    case (granted r p)
    have "\<forall>r\<in>set (map (\<lambda>r. if rq_id r = ap_request ap \<and> rq_status r = PendingApproval
        then approve_row E ap r else r) (requests db)). request_ok r"
      by (rule ball_map_update) (use assms(3) request_ok_steps in \<open>auto simp: rows_ok_def\<close>)
    moreover have "alloc_ok (new_alloc_row E ap db p)" "supernet_ok (new_supernet_row E ap db p)"
      using approve(4) by (auto simp: alloc_ok_def supernet_ok_def new_alloc_row_def new_supernet_row_def)
    ultimately show ?thesis using approve assms granted
      by (auto simp: rows_ok_def)
  qed
next
  case (cancel i n)
  then show ?thesis
    by (simp only: row_updates) (rule rows_ok_updates(1)[OF assms(3)], rule request_ok_steps(1), simp_all)
next
  case (reject t i u w)
  then show ?thesis
    by (simp only: row_updates) (rule rows_ok_updates(1)[OF assms(3)], rule request_ok_steps(2), simp_all)
next
  case (request_return t i u w)
  then show ?thesis by (simp only: row_updates) (rule rows_ok_updates(2)[OF assms(3)], simp add: alloc_ok_def)
next
  case (confirm_return t i u)
  then show ?thesis
    by (simp only: row_updates) (rule rows_ok_updates(2)[OF assms(3)], auto simp: alloc_ok_def Let_def)
next
  case (arin_reset i)
  then show ?thesis
    by (simp only: row_updates snd_conv) (rule rows_ok_updates(2)[OF assms(3)], auto simp: alloc_ok_def)
next
  case (arin_registered i t h)
  then show ?thesis
    by (simp only: row_updates snd_conv) (rule rows_ok_updates(2)[OF assms(3)], auto simp: alloc_ok_def)
next
  case (arin_failed i t w)
  then show ?thesis
    by (simp only: row_updates snd_conv) (rule rows_ok_updates(2)[OF assms(3)], auto simp: alloc_ok_def)
next
  case (arin_removed i t)
  then show ?thesis
    by (simp only: row_updates snd_conv) (rule rows_ok_updates(2)[OF assms(3)], auto simp: alloc_ok_def)
next
  case (attach i pool)
  then show ?thesis
    using rows_ok_updates(3)[OF assms(3), of "\<lambda>s. su_id s = i" "\<lambda>s. s\<lparr>su_pool := Some pool\<rparr>"] assms(3)
    by (auto simp: snd_AttachSupernet supernet_ok_def)
next
  case (detach i pool)
  then show ?thesis
    by (simp only: row_updates snd_conv) (rule rows_ok_updates(3)[OF assms(3)], auto simp: supernet_ok_def)
next
  case (detach_all pool)
  then show ?thesis
    by (simp only: row_updates snd_conv) (rule rows_ok_updates(3)[OF assms(3)], auto simp: supernet_ok_def)
next
  case (delete_pool i)
  have "rows_ok (LirStore.detach_all i db)"
    unfolding detach_all_def by (rule rows_ok_updates(3)[OF assms(3)]) (auto simp: supernet_ok_def)
  then show ?thesis using delete_pool assms(3)
    by (auto simp: snd_DeleteLirPool rows_ok_def)
next
  case (submit r)
  then show ?thesis using assms(3) by (auto simp: snd_CreateLirRequest rows_ok_def request_ok_def)
qed (use assms(3) in \<open>auto simp: rows_ok_def snd_CreateLirPool\<close>)


text \<open>The columns an in-place update of this model leaves alone.\<close>

lemma pool_id_patch [simp]: "pool_id (patch_pool u p) = pool_id p"
  by (simp add: patch_pool_def)

lemma approve_row_columns [simp]:
  "rq_id (approve_row E ap r) = rq_id r" "rq_pool (approve_row E ap r) = rq_pool r"
  "rq_status (approve_row E ap r) = Approved" "approved_pool (approve_row E ap r) = Some (ap_pool ap)"
  by (simp_all add: approve_row_def)

lemma new_alloc_columns [simp]:
  "al_id (new_alloc_row E ap db p) = new_alloc_id E db"
  "al_request (new_alloc_row E ap db p) = ap_request ap"
  "al_pool (new_alloc_row E ap db p) = ap_pool ap"
  "al_pool_supernet (new_alloc_row E ap db p) = ap_pool_supernet ap"
  "al_tenant_supernet (new_alloc_row E ap db p) = new_supernet_id E db"
  "al_prefix (new_alloc_row E ap db p) = p" "al_status (new_alloc_row E ap db p) = Active"
  by (simp_all add: new_alloc_row_def)

lemma new_supernet_columns [simp]:
  "su_id (new_supernet_row E ap db p) = new_supernet_id E db"
  "su_pool (new_supernet_row E ap db p) = None" "su_prefix (new_supernet_row E ap db p) = p"
  by (simp_all add: new_supernet_row_def)

lemma snd_UpdateLirPool:
  "snd (UpdateLirPool i u db) = db \<or>
   snd (UpdateLirPool i u db) =
     db\<lparr>pools := map (\<lambda>q. if pool_id q = i then patch_pool u q else q) (pools db)\<rparr>"
  by (simp add: UpdateLirPool_def Let_def split: option.split)

lemma keys_kept:
  assumes "commit db db'" "keys_ok db"
  shows "keys_ok db'"
  using assms
proof (cases rule: commit.cases)
  case (update_pool i u)
  then show ?thesis using assms(2) snd_UpdateLirPool[of i u db]
    by (elim disjE) (simp_all add: keys_ok_def)
next
  case (approve E ap)
  then show ?thesis using assms(2)
    by (cases rule: ApproveLirRequest_cases[of E ap db]) (auto simp: keys_ok_def)
next
  case (confirm_return t i u)
  then show ?thesis using assms(2) by (simp only: row_updates keys_ok_def) (simp add: Let_def)
qed (use assms(2) in \<open>simp_all add: keys_ok_def row_updates snd_CreateLirPool snd_DeleteLirPool
       snd_AttachSupernet snd_CreateLirRequest distinct_map_filter\<close>)

lemma approved_ids_update:
  assumes "\<And>r. P r \<Longrightarrow> rq_status r = PendingApproval \<and> rq_status (f r) \<noteq> Approved"
  shows "{r \<in> set (map (\<lambda>r. if P r then f r else r) rs). rq_status r = Approved}
       = {r \<in> set rs. rq_status r = Approved}"
  using assms by (auto simp: image_iff split: if_splits)

lemma grants_ok_update:
  assumes "grants_ok db" "\<And>r. P r \<Longrightarrow> rq_status r = PendingApproval \<and> rq_status (f r) \<noteq> Approved"
  shows "grants_ok (db\<lparr>requests := map (\<lambda>r. if P r then f r else r) (requests db)\<rparr>)"
  using assms(1) approved_ids_update[of P f "requests db", OF assms(2)]
  by (simp del: set_map add: grants_ok_def)

lemma grants_kept:
  assumes "commit db db'" "grants_ok db"
  shows "grants_ok db'"
  using assms
proof (cases rule: commit.cases)
  case (update_pool i u)
  then show ?thesis using assms(2) snd_UpdateLirPool[of i u db]
    by (elim disjE) (simp_all add: grants_ok_def)
next
  case (submit r)
  then show ?thesis using assms(2)
    by (auto simp: grants_ok_def snd_CreateLirRequest Collect_conj_eq)
next
  case (cancel i n)
  show ?thesis unfolding cancel row_updates
    by (rule grants_ok_update[OF assms(2)]) simp_all
next
  case (reject t i u w)
  show ?thesis unfolding reject row_updates
    by (rule grants_ok_update[OF assms(2)]) simp_all
next
  case (approve E ap)
  show ?thesis
  proof (cases rule: ApproveLirRequest_cases[of E ap db])
    case (granted r p)
    let ?f = "\<lambda>r. if rq_id r = ap_request ap \<and> rq_status r = PendingApproval then approve_row E ap r else r"
    have "rq_id ` {r \<in> set (map ?f (requests db)). rq_status r = Approved}
        = insert (ap_request ap) (rq_id ` {r \<in> set (requests db). rq_status r = Approved})"
      (is "?A = ?B")
    proof
      show "?A \<subseteq> ?B" by (auto split: if_splits)
      have "?f r \<in> {r \<in> set (map ?f (requests db)). rq_status r = Approved}"
        using granted(1-3) by auto
      from imageI[OF this, of rq_id] have "ap_request ap \<in> ?A" using granted(2,3) by simp
      moreover have "rq_id ` {r \<in> set (requests db). rq_status r = Approved} \<subseteq> ?A"
        by (rule image_mono) (auto simp: image_iff intro!: bexI)
      ultimately show "?B \<subseteq> ?A" by simp
    qed
    moreover have "ap_request ap \<notin> set (map al_request (allocations db))" using granted(5) by simp
    ultimately show ?thesis using approve(1) granted assms(2)
      by (simp del: set_map add: grants_ok_def)
  qed (use approve assms in simp)
qed (use assms(2) in \<open>simp_all add: grants_ok_def row_updates snd_CreateLirPool snd_DeleteLirPool
       snd_AttachSupernet image_key_update Let_def del: set_map\<close>)


text \<open>Updates that leave the columns of the references alone keep them.\<close>

lemma refs_ok_allocs:
  assumes "refs_ok db"
    "\<And>a. al_pool (f a) = al_pool a" "\<And>a. al_pool_supernet (f a) = al_pool_supernet a"
    "\<And>a. al_tenant_supernet (f a) = al_tenant_supernet a"
  shows "refs_ok (db\<lparr>allocations := map (\<lambda>a. if P a then f a else a) (allocations db)\<rparr>)"
  using assms by (auto simp: refs_ok_def)

lemma refs_ok_requests:
  assumes "refs_ok db" "\<And>r. rq_pool (f r) = rq_pool r"
    "\<And>r. \<lbrakk>P r; set_option (approved_pool r) \<subseteq> pool_id ` set (pools db)\<rbrakk>
       \<Longrightarrow> set_option (approved_pool (f r)) \<subseteq> pool_id ` set (pools db)"
  shows "refs_ok (db\<lparr>requests := map (\<lambda>r. if P r then f r else r) (requests db)\<rparr>)"
proof -
  have "\<forall>r\<in>set (map (\<lambda>r. if P r then f r else r) (requests db)).
      set_option (rq_pool r) \<subseteq> pool_id ` set (pools db)
      \<and> set_option (approved_pool r) \<subseteq> pool_id ` set (pools db)"
    by (rule ball_map_update) (use assms in \<open>simp_all add: refs_ok_def\<close>)
  then show ?thesis using assms(1) by (simp del: set_map add: refs_ok_def)
qed

lemma refs_ok_supernets:
  assumes "refs_ok db" "\<And>s. su_id (f s) = su_id s"
    "\<And>s. \<lbrakk>s \<in> set (supernets db); P s\<rbrakk> \<Longrightarrow> set_option (su_pool (f s)) \<subseteq> pool_id ` set (pools db)"
  shows "refs_ok (db\<lparr>supernets := map (\<lambda>s. if P s then f s else s) (supernets db)\<rparr>)"
  using assms image_key_update[of su_id f P "supernets db"]
  by (simp del: set_map add: refs_ok_def) auto

lemma refs_ok_drop_pool:
  assumes "refs_ok db" "\<And>a. a \<in> set (allocations db) \<Longrightarrow> al_pool a \<noteq> i"
    "\<And>r. r \<in> set (requests db) \<Longrightarrow> rq_pool r \<noteq> Some i \<and> approved_pool r \<noteq> Some i"
    "\<And>s. s \<in> set (supernets db) \<Longrightarrow> su_pool s \<noteq> Some i"
  shows "refs_ok (db\<lparr>pools := filter (\<lambda>p. pool_id p \<noteq> i) (pools db)\<rparr>)"
proof -
  have keep: "pool_id ` set (filter (\<lambda>p. pool_id p \<noteq> i) (pools db)) = pool_id ` set (pools db) - {i}"
    by auto
  have opt: "set_option v \<subseteq> A - {i} \<longleftrightarrow> set_option v \<subseteq> A \<and> v \<noteq> Some i" for v :: "uuid option" and A
    by (cases v) auto
  show ?thesis using assms by (simp add: refs_ok_def keep opt del: set_filter)
qed

lemma detached_no_pool:
  "s \<in> set (supernets (LirStore.detach_all i db)) \<Longrightarrow> su_pool s \<noteq> Some i"
  by (auto simp: detach_all_def)

lemma refs_kept:
  assumes "commit db db'" "refs_ok db"
  shows "refs_ok db'"
  using assms
proof (cases rule: commit.cases)
  case (update_pool i u)
  have "pool_id ` set (map (\<lambda>q. if pool_id q = i then patch_pool u q else q) (pools db))
      = pool_id ` set (pools db)"
    by (rule image_key_update) simp
  then show ?thesis using update_pool assms(2) snd_UpdateLirPool[of i u db]
    by (elim disjE) (simp_all add: refs_ok_def del: set_map)
next
  case (delete_pool i)
  show ?thesis
  proof (cases "find_pool i db \<noteq> None \<and> pool_referenced i db")
    case True
    then show ?thesis using delete_pool assms by (simp add: snd_DeleteLirPool)
  next
    case False
    have d: "refs_ok (LirStore.detach_all i db)"
      unfolding detach_all_def by (rule refs_ok_supernets[OF assms(2)]) simp_all
    show ?thesis
    proof (cases "i \<in> pool_id ` set (pools db)")
      case False
      then have "filter (\<lambda>p. pool_id p \<noteq> i) (pools db) = pools db"
        by (intro filter_True) auto
      moreover have "pools (LirStore.detach_all i db) = pools db" by (simp add: detach_all_def)
      ultimately have "db' = LirStore.detach_all i db"
        using delete_pool False find_pool_Some[of i db]
        by (simp add: snd_DeleteLirPool)
      then show ?thesis using d by simp
    next
      case True
      then have "\<not> pool_referenced i db" using False find_pool_Some[of i db] by auto
      then have nr: "\<And>a. a \<in> set (allocations db) \<Longrightarrow> al_pool a \<noteq> i"
        "\<And>r. r \<in> set (requests db) \<Longrightarrow> rq_pool r \<noteq> Some i \<and> approved_pool r \<noteq> Some i"
        by (auto simp: pool_referenced_def)
      have same: "allocations (LirStore.detach_all i db) = allocations db"
        "requests (LirStore.detach_all i db) = requests db" "pools (LirStore.detach_all i db) = pools db"
        by (simp_all add: detach_all_def)
      have "refs_ok ((LirStore.detach_all i db)\<lparr>pools :=
          filter (\<lambda>p. pool_id p \<noteq> i) (pools (LirStore.detach_all i db))\<rparr>)"
        by (rule refs_ok_drop_pool[OF d]) (simp_all add: same nr detached_no_pool)
      then show ?thesis unfolding delete_pool snd_DeleteLirPool
        using \<open>\<not> pool_referenced i db\<close> by (simp add: same)
    qed
  qed
next
  case (attach i pool)
  show ?thesis
  proof (cases "find_supernet i db = None")
    case True
    then have "\<And>s. s \<in> set (supernets db) \<Longrightarrow> su_id s \<noteq> i"
      by (auto simp: find_supernet_def find_None_iff)
    then show ?thesis unfolding attach snd_AttachSupernet using assms(2)
      by (auto intro!: refs_ok_supernets)
  next
    case False
    then show ?thesis unfolding attach snd_AttachSupernet using assms(2) find_pool_Some[of pool db]
      by (auto intro!: refs_ok_supernets)
  qed
next
  case (detach i pool)
  then show ?thesis by (simp only: row_updates snd_conv) (rule refs_ok_supernets[OF assms(2)], simp_all)
next
  case (detach_all pool)
  then show ?thesis by (simp only: row_updates snd_conv) (rule refs_ok_supernets[OF assms(2)], simp_all)
next
  case (submit r)
  then show ?thesis using assms(2) by (auto simp: snd_CreateLirRequest refs_ok_def)
next
  case (cancel i n)
  then show ?thesis by (simp only: row_updates snd_conv) (rule refs_ok_requests[OF assms(2)], simp_all)
next
  case (reject t i u w)
  then show ?thesis by (simp only: row_updates snd_conv) (rule refs_ok_requests[OF assms(2)], simp_all)
next
  case (approve E ap)
  show ?thesis
  proof (cases rule: ApproveLirRequest_cases[of E ap db])
    case (granted r p)
    have "refs_ok (db\<lparr>requests := map (\<lambda>r. if rq_id r = ap_request ap \<and> rq_status r = PendingApproval
        then approve_row E ap r else r) (requests db)\<rparr>)"
      by (rule refs_ok_requests[OF assms(2)]) (simp_all add: granted(6))
    then show ?thesis using approve(1) granted(6-8) by (simp add: refs_ok_def del: set_map)
  qed (use approve assms in simp)
next
  case (create_pool p)
  then show ?thesis using assms(2) by (auto simp: snd_CreateLirPool refs_ok_def)
next
  case (audit e)
  then show ?thesis using assms(2) by (simp add: refs_ok_def)
qed (simp only: row_updates snd_conv, rule refs_ok_allocs[OF assms(2)], simp_all add: Let_def)+

interpretation lir: kept_by_steps commit lir_inv
  by unfold_locales (auto simp: lir_inv_def intro: rows_kept keys_kept grants_kept refs_kept)


section \<open>History\<close>

fun stage :: "alloc_status \<Rightarrow> nat" where
  "stage Active = 0"
| "stage ReturnRequested = 1"
| "stage Returned = 2"

text \<open>An allocation as it ages: what was granted stays, the status moves forward only, a net handle
  is never replaced.\<close>

definition alloc_evolves :: "lir_allocation \<Rightarrow> lir_allocation \<Rightarrow> bool" where
  "alloc_evolves a b \<longleftrightarrow>
     al_id b = al_id a \<and> al_request b = al_request a \<and> al_org b = al_org a \<and> al_pool b = al_pool a
     \<and> al_pool_supernet b = al_pool_supernet a \<and> al_tenant_supernet b = al_tenant_supernet a
     \<and> al_prefix b = al_prefix a \<and> allocated_at b = allocated_at a \<and> allocated_by b = allocated_by a
     \<and> stage (al_status a) \<le> stage (al_status b)
     \<and> (arin_net_handle a \<noteq> None \<longrightarrow> arin_net_handle b = arin_net_handle a)"

text \<open>A request keeps what was asked for; once decided or cancelled it is never touched again.\<close>

definition request_evolves :: "lir_request \<Rightarrow> lir_request \<Rightarrow> bool" where
  "request_evolves r s \<longleftrightarrow>
     rq_id s = rq_id r \<and> rq_org s = rq_org r \<and> rq_requester s = rq_requester r
     \<and> rq_family s = rq_family r \<and> rq_prefix_length s = rq_prefix_length r
     \<and> rq_justification s = rq_justification r
     \<and> (rq_status r \<noteq> PendingApproval \<longrightarrow> s = r)"

definition history :: "lir_db \<Rightarrow> lir_db \<Rightarrow> bool" where
  "history db db' \<longleftrightarrow>
     (\<forall>a\<in>set (allocations db). \<exists>b\<in>set (allocations db'). alloc_evolves a b)
     \<and> (\<forall>r\<in>set (requests db). \<exists>s\<in>set (requests db'). request_evolves r s)"

lemma alloc_evolves_refl: "alloc_evolves a a"
  by (simp add: alloc_evolves_def)

lemma alloc_evolves_trans: "\<lbrakk>alloc_evolves a b; alloc_evolves b c\<rbrakk> \<Longrightarrow> alloc_evolves a c"
  unfolding alloc_evolves_def by auto

lemma request_evolves_refl: "request_evolves r r"
  by (simp add: request_evolves_def)

lemma request_evolves_trans: "\<lbrakk>request_evolves r s; request_evolves s t\<rbrakk> \<Longrightarrow> request_evolves r t"
  unfolding request_evolves_def by metis

lemma history_refl: "history db db"
  by (auto simp: history_def intro: alloc_evolves_refl request_evolves_refl)

lemma history_trans: "\<lbrakk>history x y; history y z\<rbrakk> \<Longrightarrow> history x z"
  unfolding history_def by (meson alloc_evolves_trans request_evolves_trans)

lemma history_same:
  "\<lbrakk>allocations db' = allocations db; requests db' = requests db\<rbrakk> \<Longrightarrow> history db db'"
  using history_refl[of db] by (simp add: history_def)

lemma history_allocs:
  assumes "\<And>a. \<lbrakk>a \<in> set (allocations db); P a\<rbrakk> \<Longrightarrow> alloc_evolves a (f a)"
  shows "history db (db\<lparr>allocations := map (\<lambda>a. if P a then f a else a) (allocations db)\<rparr>)"
proof -
  have "\<exists>b\<in>set (map (\<lambda>a. if P a then f a else a) (allocations db)). alloc_evolves a b"
    if "a \<in> set (allocations db)" for a
    using that assms[OF that] by (intro bexI[of _ "if P a then f a else a"]) (auto simp: alloc_evolves_refl)
  then show ?thesis using request_evolves_refl by (auto simp: history_def simp del: set_map)
qed

lemma history_requests:
  assumes "\<And>r. P r \<Longrightarrow> request_evolves r (f r)"
  shows "history db (db\<lparr>requests := map (\<lambda>r. if P r then f r else r) (requests db)\<rparr>)"
proof -
  have "\<exists>b\<in>set (map (\<lambda>r. if P r then f r else r) (requests db)). request_evolves r b"
    if "r \<in> set (requests db)" for r
    using that assms[of r] by (intro bexI[of _ "if P r then f r else r"]) (auto simp: request_evolves_refl)
  then show ?thesis using alloc_evolves_refl by (auto simp: history_def simp del: set_map)
qed

lemma history_grow:
  "history db db' \<Longrightarrow> set (allocations db') \<subseteq> set (allocations db'') \<Longrightarrow>
   set (requests db') \<subseteq> set (requests db'') \<Longrightarrow> history db db''"
  unfolding history_def by blast

lemma commit_history:
  assumes "commit db db'"
  shows "history db db'"
  using assms
proof (cases rule: commit.cases)
  case (update_pool i u)
  then show ?thesis using snd_UpdateLirPool[of i u db] history_refl[of db]
    by (elim disjE) (simp_all add: history_same)
next
  case (cancel i n)
  show ?thesis unfolding cancel row_updates
    by (rule history_requests) (simp add: request_evolves_def)
next
  case (reject t i u w)
  show ?thesis unfolding reject row_updates
    by (rule history_requests) (simp add: request_evolves_def)
next
  case (approve E ap)
  show ?thesis
  proof (cases rule: ApproveLirRequest_cases[of E ap db])
    case (granted r p)
    have "history db (db\<lparr>requests := map (\<lambda>r. if rq_id r = ap_request ap \<and> rq_status r = PendingApproval
        then approve_row E ap r else r) (requests db)\<rparr>)"
      by (rule history_requests) (simp add: request_evolves_def approve_row_def)
    then show ?thesis by (rule history_grow) (use approve(1) granted in auto)
  qed (use approve history_refl in simp)
next
  case (request_return t i u w)
  then show ?thesis
    by (simp only: row_updates) (rule history_allocs, simp add: alloc_evolves_def)
next
  case (confirm_return t i u)
  then show ?thesis
    by (simp only: row_updates) (rule history_allocs, simp add: alloc_evolves_def Let_def)
next
  case (arin_reset i)
  then show ?thesis
    by (simp only: row_updates snd_conv) (rule history_allocs, simp add: alloc_evolves_def)
next
  case (arin_registered i t h)
  then show ?thesis
    by (simp only: row_updates snd_conv) (rule history_allocs, simp add: alloc_evolves_def)
next
  case (arin_failed i t w)
  then show ?thesis
    by (simp only: row_updates snd_conv) (rule history_allocs, simp add: alloc_evolves_def)
next
  case (arin_removed i t)
  then show ?thesis
    by (simp only: row_updates snd_conv) (rule history_allocs, simp add: alloc_evolves_def)
next
  case (submit r)
  then show ?thesis by (auto simp: snd_CreateLirRequest intro: history_refl history_grow)
qed (auto simp: snd_CreateLirPool snd_DeleteLirPool snd_AttachSupernet row_updates
       intro: history_refl history_same)

interpretation lir_past: monotone_steps commit history
  by unfold_locales (auto intro: history_refl history_trans commit_history)

end
