(* ===== verification/LirProps.thy ===== *)
theory LirProps
  imports LirSafety
begin

text \<open>
  The registry's promises, handler by handler: what an approval grants, that a
  refused request leaves no trace, that another tenant's rows are invisible, and
  what is not promised (two approvals in flight at once).
\<close>

section \<open>Reading a handler backwards from its answer\<close>

definition is_error :: "'r resp \<Rightarrow> bool" where
  "is_error r \<longleftrightarrow> 400 \<le> status_of r"

definition errs_only :: "('r, 'a) handler \<Rightarrow> bool" where
  "errs_only m \<longleftrightarrow> (\<forall>db r db'. m db = (Inl r, db') \<longrightarrow> is_error r)"

named_theorems backwards "reading a handler backwards"

lemma is_error_simps [simp]:
  "is_error (HttpError c m) \<longleftrightarrow> 400 \<le> c" "is_error (HttpJSON c x) \<longleftrightarrow> 400 \<le> c" "\<not> is_error HttpNoContent"
  by (simp_all add: is_error_def status_of_def)

lemma Mapped_errors [simp]: "is_error (WriteMapped e)" "is_error (mapErr m e)" "is_error (raceErr m e)"
  by (auto simp: WriteMapped_def mapErr_def raceErr_def Mapped_def split: dberr.split)

lemma eo_primitives [backwards]:
  "errs_only (hreturn a)" "400 \<le> c \<Longrightarrow> errs_only (reject_if b c m)" "errs_only (parseUUIDParam E k raw)"
  "errs_only (parseOptionalUUID E v k)" "errs_only (check_family_prefix f l)"
  "errs_only (decodeBody bd)" "errs_only (decodeOptional ob z)" "errs_only (record_event act t)"
  by (auto simp: errs_only_def hreturn_def reject_if_def hanswer_def parseUUIDParam_def
      parseOptionalUUID_def check_family_prefix_def decodeBody_def decodeOptional_def record_event_def
      split: option.splits if_splits sum.splits)

lemma eo_query [backwards]: "(\<And>e. is_error (onerr e)) \<Longrightarrow> errs_only (hquery E Q f onerr)"
  by (auto simp: errs_only_def hquery_def split: sum.splits prod.splits)

lemma eo_bind [backwards]: "\<lbrakk>errs_only m; \<And>a. errs_only (f a)\<rbrakk> \<Longrightarrow> errs_only (hbind m f)"
  unfolding errs_only_def hbind_def by (auto split: prod.splits sum.splits)

lemma eo_answer [backwards]: "is_error r \<Longrightarrow> errs_only (hanswer r)"
  by (simp add: errs_only_def hanswer_def)

lemma run_bind_ok [backwards]:
  assumes "errs_only m" "\<not> is_error r"
  shows "run (hbind m f) db = (r, db') \<longleftrightarrow> (\<exists>a db1. m db = (Inr a, db1) \<and> run (f a) db1 = (r, db'))"
proof (cases "m db")
  case (Pair v db1)
  show ?thesis using assms Pair
    by (cases v) (auto simp: run_def hbind_def errs_only_def split: prod.splits)
qed

lemma bind_Inr [backwards]:
  "hbind m f db = (Inr v, db') \<longleftrightarrow> (\<exists>a db1. m db = (Inr a, db1) \<and> f a db1 = (Inr v, db'))"
  by (auto simp: hbind_def split: prod.splits sum.splits)

lemma Inr_primitives [backwards]:
  "hreturn v db = (Inr x, db') \<longleftrightarrow> x = v \<and> db' = db"
  "hanswer r db = (Inr x, db') \<longleftrightarrow> False"
  "reject_if b c m db = (Inr u, db') \<longleftrightarrow> \<not> b \<and> db' = db"
  "parseUUIDParam E k raw db = (Inr i, db') \<longleftrightarrow> uuid_parse E raw = Some i \<and> db' = db"
  "record_event a t db = (Inr u, db') \<longleftrightarrow>
     db' = db\<lparr>audit_log := audit_log db @ [\<lparr>ev_action = a, ev_target = t\<rparr>]\<rparr>"
  "hquery E Q f onerr db = (Inr x, db') \<longleftrightarrow> fault E Q = None \<and> f (interfere E Q db) = (Inr x, db')"
  "reading g db = (Inr x, db') \<longleftrightarrow> g db = Inr x \<and> db' = db"
  "one_row ov = Inr y \<longleftrightarrow> ov = Some y"
  "run (hreturn r) db = (r', db') \<longleftrightarrow> r' = r \<and> db' = db"
  by (auto simp: hreturn_def hanswer_def reject_if_def parseUUIDParam_def record_event_def hquery_def
      exec_def Let_def reading_def one_row_def run_def split: option.splits sum.splits prod.splits)

section \<open>An approval that is answered\<close>

definition initial_arin :: "lir_pool \<Rightarrow> arin_state" where
  "initial_arin pool =
     (case arin_parent_net_handle pool of
        None \<Rightarrow> ArinNone | Some h \<Rightarrow> if h = [] then ArinNone else ArinPending)"

text \<open>The states between the statements of one approval.\<close>

definition at_pool :: "env \<Rightarrow> lir_db \<Rightarrow> lir_db" where
  "at_pool E db = interfere E QGetLirPool (interfere E QGetLirRequest db)"

definition at_sources :: "env \<Rightarrow> lir_db \<Rightarrow> lir_db" where
  "at_sources E db = interfere E QListPoolSupernetsForCarve (at_pool E db)"

definition at_allocated :: "env \<Rightarrow> lir_db \<Rightarrow> lir_db" where
  "at_allocated E db = interfere E QListAllocatedPrefixesInPool (at_sources E db)"

definition at_approve :: "env \<Rightarrow> lir_db \<Rightarrow> lir_db" where
  "at_approve E db = interfere E QApproveLirRequest (interfere E QGetLandingFabric (at_allocated E db))"

definition sources_seen :: "env \<Rightarrow> uuid \<Rightarrow> lir_db \<Rightarrow> (uuid \<times> string) list" where
  "sources_seen E pool db = map (\<lambda>s. (su_id s, cidr_text E (su_prefix s))) (pool_supernets pool (at_sources E db))"

definition allocated_seen :: "env \<Rightarrow> uuid \<Rightarrow> lir_db \<Rightarrow> (uuid \<times> string) list" where
  "allocated_seen E pool db =
     map (\<lambda>a. (al_pool_supernet a, cidr_text E (al_prefix a)))
       (filter (\<lambda>a. al_pool a = pool \<and> live a) (allocations (at_allocated E db)))"

lemma load_Inr [backwards]:
  "loadApprovableRequest E p i db = (Inr x, db') \<longleftrightarrow>
     fault E QGetLirRequest = None \<and> db' = interfere E QGetLirRequest db
     \<and> find_request i db' = Some x \<and> \<not> outside_scope p ''lir:requests:approve'' (rq_org x)
     \<and> rq_status x = PendingApproval"
  unfolding loadApprovableRequest_def GetLirRequest_def by (auto simp: backwards)

lemma resolve_Inr [backwards]:
  "resolveApprovedPoolID E ov pref db = (Inr x, db') \<Longrightarrow> db' = db"
  unfolding resolveApprovedPoolID_def parseOptionalUUID_def
  by (auto simp: backwards split: option.splits if_splits)

lemma validate_Inr [backwards]:
  "validatePoolForApproval E i r db = (Inr x, db') \<longleftrightarrow>
     fault E QGetLirPool = None \<and> db' = interfere E QGetLirPool db \<and> find_pool i db' = Some x
     \<and> pool_enabled x \<and> pool_family x = rq_family r
     \<and> min_prefix_length x \<le> rq_prefix_length r \<and> rq_prefix_length r \<le> max_prefix_length x"
  unfolding validatePoolForApproval_def GetLirPool_def by (auto simp: backwards)

lemma carve_Inr [backwards]:
  "carveForApproval E i len db = (Inr x, db') \<longleftrightarrow>
     fault E QListPoolSupernetsForCarve = None \<and> fault E QListAllocatedPrefixesInPool = None
     \<and> db' = interfere E QListAllocatedPrefixesInPool (interfere E QListPoolSupernetsForCarve db)
     \<and> carve_sources
         (occupied_by (map (\<lambda>a. (al_pool_supernet a, cidr_text E (al_prefix a)))
            (filter (\<lambda>a. al_pool a = i \<and> live a) (allocations db')))) len
         (map (\<lambda>s. (su_id s, cidr_text E (su_prefix s)))
            (pool_supernets i (interfere E QListPoolSupernetsForCarve db))) = Some x"
  unfolding carveForApproval_def ListPoolSupernetsForCarve_def ListAllocatedPrefixesInPool_def
  by (auto simp: backwards split: option.splits)

lemma eo_option [backwards]:
  "\<lbrakk>errs_only m; \<And>x. errs_only (f x)\<rbrakk> \<Longrightarrow> errs_only (case v of None \<Rightarrow> m | Some x \<Rightarrow> f x)"
  by (cases v) auto

lemma eo_helpers [backwards]:
  "errs_only (loadApprovableRequest E p i)" "errs_only (resolveApprovedPoolID E ov pref)"
  "errs_only (validatePoolForApproval E i r)" "errs_only (carveForApproval E i len)"
  by (simp_all add: loadApprovableRequest_def resolveApprovedPoolID_def validatePoolForApproval_def
      carveForApproval_def backwards)

lemma decodeOptional_Inr [backwards]: "decodeOptional b z db = (Inr x, db') \<Longrightarrow> db' = db"
  by (auto simp: decodeOptional_def decodeBody_def backwards split: sum.splits option.splits)

lemma approveRequest_ok:
  assumes "approveRequest E p raw body db = (r, db')" "\<not> is_error r"
  obtains i existing pool s prfx ap req alloc db2 where
    "uuid_parse E raw = Some i"
    "find_request i (interfere E QGetLirRequest db) = Some existing"
    "\<not> outside_scope p ''lir:requests:approve'' (rq_org existing)"
    "rq_status existing = PendingApproval"
    "find_pool (ap_pool ap) (at_pool E db) = Some pool"
    "pool_enabled pool" "pool_family pool = rq_family existing"
    "min_prefix_length pool \<le> rq_prefix_length existing"
    "rq_prefix_length existing \<le> max_prefix_length pool"
    "carve_sources (occupied_by (allocated_seen E (ap_pool ap) db)) (rq_prefix_length existing)
       (sources_seen E (ap_pool ap) db) = Some (s, prfx)"
    "ap_request ap = i" "ap_by ap = Subject p" "ap_org ap = rq_org existing"
    "ap_pool_supernet ap = s" "ap_prefix ap = prfx" "ap_arin ap = initial_arin pool"
    "ApproveLirRequest E ap (at_approve E db) = (Inr (req, alloc), db2)"
    "db' = db2\<lparr>audit_log := audit_log db2 @ [\<lparr>ev_action = ''lir.request.approve'', ev_target = i\<rparr>]\<rparr>"
    "r = HttpJSON 200 \<lparr>resp_request = req, resp_allocation = alloc\<rparr>"
proof -
  from assms show ?thesis
  proof (simp add: approveRequest_def Let_def case_prod_unfold GetLandingFabric_def backwards,
      elim exE conjE, goal_cases)
    case (1 i b db1 existing pool_i db2 pool s prfx fabric vrf req alloc db3)
    have db1: "db1 = db" by (rule decodeOptional_Inr) (rule 1)
    have db2: "db2 = interfere E QGetLirRequest db1" by (rule resolve_Inr) (rule 1)
    show ?thesis
      by (rule that[of i existing
          "\<lparr>ap_request = i, ap_by = Subject p, ap_notes = ApproveNotes b, ap_pool = pool_i,
            ap_pool_supernet = s, ap_org = rq_org existing, ap_prefix = prfx, ap_fabric = fabric,
            ap_vrf = vrf, ap_purpose = (case rq_purpose existing of
               None \<Rightarrow> default_supernet_purpose pool | Some x \<Rightarrow> Some x),
            ap_arin = initial_arin pool\<rparr>" pool s prfx req alloc db3])
        (use 1 in \<open>simp_all add: db1 db2 at_pool_def at_sources_def at_allocated_def at_approve_def
           sources_seen_def allocated_seen_def initial_arin_def\<close>)
  qed
qed


section \<open>Requests handled one at a time\<close>

definition alone :: "env \<Rightarrow> bool" where
  "alone E \<longleftrightarrow> (\<forall>Q db. interfere E Q db = db)"

lemma alone_others: "alone E \<Longrightarrow> others_commit E"
  by (simp add: alone_def others_commit_def)

lemma alone_states:
  assumes "alone E"
  shows "at_pool E db = db" "at_sources E db = db" "at_allocated E db = db" "at_approve E db = db"
  using assms by (simp_all add: alone_def at_pool_def at_sources_def at_allocated_def at_approve_def)

definition pure :: "('r, 'a) handler \<Rightarrow> bool" where
  "pure m \<longleftrightarrow> (\<forall>db. snd (m db) = db)"

definition clean :: "('r, 'a) handler \<Rightarrow> bool" where
  "clean m \<longleftrightarrow> (\<forall>db r db'. m db = (Inl r, db') \<longrightarrow> db' = db)"

text \<open>Either the handler stops early and has written nothing, or it answers a success.\<close>

definition settles :: "('r, 'r resp) handler \<Rightarrow> bool" where
  "settles m \<longleftrightarrow>
     (\<forall>db r db'. (m db = (Inl r, db') \<longrightarrow> db' = db) \<and> (m db = (Inr r, db') \<longrightarrow> \<not> is_error r))"

named_theorems settling "showing that a refused request leaves no trace"

lemma pure_primitives [settling]:
  "pure (hreturn x)" "pure (hanswer r)" "pure (reject_if b c m)" "pure (parseUUIDParam E k raw)"
  "pure (parseOptionalUUID E v k)" "pure (check_family_prefix f l)"
  "pure (decodeBody bd)" "pure (decodeOptional ob z)"
  by (auto simp: pure_def hreturn_def reject_if_def hanswer_def parseUUIDParam_def
      parseOptionalUUID_def check_family_prefix_def decodeBody_def decodeOptional_def
      split: option.splits sum.splits)

lemma pure_read [settling]: "alone E \<Longrightarrow> pure (hquery E Q (reading g) onerr)"
  by (auto simp: pure_def hquery_def exec_def alone_def reading_def split: option.splits sum.splits prod.splits)

lemma pure_bind [settling]: "\<lbrakk>pure m; \<And>a. pure (f a)\<rbrakk> \<Longrightarrow> pure (hbind m f)"
  unfolding pure_def hbind_def by (auto split: prod.splits sum.splits) (metis snd_conv)+

lemma pure_option [settling]:
  "\<lbrakk>pure m; \<And>x. pure (f x)\<rbrakk> \<Longrightarrow> pure (case v of None \<Rightarrow> m | Some x \<Rightarrow> f x)"
  by (cases v) auto

lemma pure_helpers [settling]:
  assumes "alone E"
  shows "pure (loadApprovableRequest E p i)" "pure (resolveApprovedPoolID E ov pref)"
    "pure (validatePoolForApproval E i r)" "pure (carveForApproval E i len)"
  using assms unfolding loadApprovableRequest_def resolveApprovedPoolID_def validatePoolForApproval_def
    carveForApproval_def query_reads
  by (intro settling; assumption?)+

lemma clean_query [settling]:
  assumes "alone E" "\<And>e db db'. f db = (Inl e, db') \<Longrightarrow> db' = db"
  shows "clean (hquery E Q f onerr)"
  using assms by (auto simp: clean_def hquery_def exec_def alone_def Let_def
      split: option.splits sum.splits prod.splits)

lemma settles_answer [settling]: "settles (hanswer r)" "\<not> is_error r \<Longrightarrow> settles (hreturn r)"
  by (auto simp: settles_def hanswer_def hreturn_def)

lemma settles_bind [settling]: "\<lbrakk>pure m; \<And>a. settles (f a)\<rbrakk> \<Longrightarrow> settles (hbind m f)"
  unfolding settles_def pure_def hbind_def by (auto split: prod.splits sum.splits) (metis snd_conv)+

lemma settles_write [settling]:
  assumes "clean m" "\<And>x. \<not> is_error (R x)"
  shows "settles (hbind m (\<lambda>x. hbind (record_event (A x) (T x)) (\<lambda>_. hreturn (R x))))"
  using assms unfolding settles_def clean_def hbind_def record_event_def hreturn_def
  by (auto split: prod.splits sum.splits)

lemma settles_run:
  "\<lbrakk>settles m; run m db = (r, db'); is_error r\<rbrakk> \<Longrightarrow> db' = db"
  unfolding settles_def run_def by (auto split: prod.splits sum.splits)

text \<open>No write query changes anything when it fails.\<close>

lemma writes_clean:
  "CreateLirPool p db = (Inl e, db') \<Longrightarrow> db' = db"
  "UpdateLirPool i u db = (Inl e, db') \<Longrightarrow> db' = db"
  "AttachSupernetToPool i pl db = (Inl e, db') \<Longrightarrow> db' = db"
  "DetachSupernetFromPool i pl db = (Inl e, db') \<Longrightarrow> db' = db"
  "CreateLirRequest r db = (Inl e, db') \<Longrightarrow> db' = db"
  "update_request i st f db = (Inl e, db') \<Longrightarrow> db' = db"
  "update_alloc i ast g db = (Inl e, db') \<Longrightarrow> db' = db"
  by (auto simp: CreateLirPool_def UpdateLirPool_def AttachSupernetToPool_def
      DetachSupernetFromPool_def CreateLirRequest_def update_request_def update_alloc_def Let_def
      split: if_splits option.splits)

lemma approve_clean: "ApproveLirRequest E ap db = (Inl e, db') \<Longrightarrow> db' = db"
  by (cases rule: ApproveLirRequest_cases[of E ap db]) auto

lemma settles_option [settling]:
  "\<lbrakk>settles m; \<And>x. settles (f x)\<rbrakk> \<Longrightarrow> settles (case v of None \<Rightarrow> m | Some x \<Rightarrow> f x)"
  by (cases v) auto

lemma settles_if [settling]: "\<lbrakk>settles m; settles n\<rbrakk> \<Longrightarrow> settles (if b then m else n)"
  by simp

lemma createPool_settles:
  "\<lbrakk>alone E; createPool E b db = (r, db'); is_error r\<rbrakk> \<Longrightarrow> db' = db"
  unfolding createPool_def
  by (erule settles_run[rotated]; (intro settling)?; (assumption | erule writes_clean approve_clean | simp)?)

lemma updatePool_settles:
  "\<lbrakk>alone E; updatePool E i b db = (r, db'); is_error r\<rbrakk> \<Longrightarrow> db' = db"
  unfolding updatePool_def query_reads Let_def
  by (erule settles_run[rotated]; (intro settling)?; (assumption | erule writes_clean approve_clean | simp)?)

lemma attachPoolSupernet_settles:
  "\<lbrakk>alone E; attachPoolSupernet E i b db = (r, db'); is_error r\<rbrakk> \<Longrightarrow> db' = db"
  unfolding attachPoolSupernet_def query_reads case_prod_unfold
  by (erule settles_run[rotated]; (intro settling)?; (assumption | erule writes_clean approve_clean | simp)?)

lemma detachPoolSupernet_settles:
  "\<lbrakk>alone E; detachPoolSupernet E i s db = (r, db'); is_error r\<rbrakk> \<Longrightarrow> db' = db"
  unfolding detachPoolSupernet_def query_reads
  by (erule settles_run[rotated]; (intro settling)?; (assumption | erule writes_clean approve_clean | simp)?)

lemma submitRequest_settles:
  "\<lbrakk>alone E; submitRequest E p b db = (r, db'); is_error r\<rbrakk> \<Longrightarrow> db' = db"
  unfolding submitRequest_def
  by (erule settles_run[rotated]; (intro settling)?; (assumption | erule writes_clean approve_clean | simp)?)

lemma getRequest_settles:
  "\<lbrakk>alone E; getRequest E p i db = (r, db'); is_error r\<rbrakk> \<Longrightarrow> db' = db"
  unfolding getRequest_def query_reads
  by (erule settles_run[rotated]; (intro settling)?; (assumption | erule writes_clean approve_clean | simp)?)

lemma cancelRequest_settles:
  "\<lbrakk>alone E; cancelRequest E p i b db = (r, db'); is_error r\<rbrakk> \<Longrightarrow> db' = db"
  unfolding cancelRequest_def query_reads CancelLirRequest_def
  by (erule settles_run[rotated]; (intro settling)?; (assumption | erule writes_clean approve_clean | simp)?)

lemma rejectRequest_settles:
  "\<lbrakk>alone E; rejectRequest E p i b db = (r, db'); is_error r\<rbrakk> \<Longrightarrow> db' = db"
  unfolding rejectRequest_def query_reads RejectLirRequest_def
  by (erule settles_run[rotated]; (intro settling)?; (assumption | erule writes_clean approve_clean | simp)?)

lemma approveRequest_settles:
  "\<lbrakk>alone E; approveRequest E p i b db = (r, db'); is_error r\<rbrakk> \<Longrightarrow> db' = db"
  unfolding approveRequest_def query_reads case_prod_unfold Let_def
  by (erule settles_run[rotated]; (intro settling)?; (assumption | erule writes_clean approve_clean | simp)?)

lemma getAllocation_settles:
  "\<lbrakk>alone E; getAllocation E p i db = (r, db'); is_error r\<rbrakk> \<Longrightarrow> db' = db"
  unfolding getAllocation_def query_reads
  by (erule settles_run[rotated]; (intro settling)?; (assumption | erule writes_clean approve_clean | simp)?)

lemma requestReturnAllocation_settles:
  "\<lbrakk>alone E; requestReturnAllocation E p i b db = (r, db'); is_error r\<rbrakk> \<Longrightarrow> db' = db"
  unfolding requestReturnAllocation_def query_reads RequestReturnLirAllocation_def
  by (erule settles_run[rotated]; (intro settling)?; (assumption | erule writes_clean approve_clean | simp)?)

lemma confirmReturnAllocation_settles:
  "\<lbrakk>alone E; confirmReturnAllocation E p i b db = (r, db'); is_error r\<rbrakk> \<Longrightarrow> db' = db"
  unfolding confirmReturnAllocation_def query_reads ConfirmReturnLirAllocation_def
  by (erule settles_run[rotated]; (intro settling)?; (assumption | erule writes_clean approve_clean | simp)?)

lemma getPool_settles:
  "\<lbrakk>alone E; getPool E i db = (r, db'); is_error r\<rbrakk> \<Longrightarrow> db' = db"
  unfolding getPool_def query_reads
  by (erule settles_run[rotated]; (intro settling)?; (assumption | erule writes_clean approve_clean | simp)?)

lemma listPools_settles:
  "\<lbrakk>alone E; listPools E q db = (r, db'); is_error r\<rbrakk> \<Longrightarrow> db' = db"
  unfolding listPools_def query_reads case_prod_unfold Let_def
  by (erule settles_run[rotated]; (intro settling)?; (assumption | erule writes_clean approve_clean | simp)?)

lemma listPoolSupernets_settles:
  "\<lbrakk>alone E; listPoolSupernets E i q db = (r, db'); is_error r\<rbrakk> \<Longrightarrow> db' = db"
  unfolding listPoolSupernets_def query_reads case_prod_unfold Let_def
  by (erule settles_run[rotated]; (intro settling)?; (assumption | erule writes_clean approve_clean | simp)?)

lemma listRequests_settles:
  "\<lbrakk>alone E; listRequests E p q db = (r, db'); is_error r\<rbrakk> \<Longrightarrow> db' = db"
  unfolding listRequests_def query_reads case_prod_unfold Let_def
  by (erule settles_run[rotated]; (intro settling)?; (assumption | erule writes_clean approve_clean | simp)?)

lemma listAllocations_settles:
  "\<lbrakk>alone E; listAllocations E p q db = (r, db'); is_error r\<rbrakk> \<Longrightarrow> db' = db"
  unfolding listAllocations_def query_reads case_prod_unfold Let_def
  by (erule settles_run[rotated]; (intro settling)?; (assumption | erule writes_clean approve_clean | simp)?)


section \<open>An example registry\<close>

definition fresh_id :: "uuid list \<Rightarrow> uuid" where
  "fresh_id xs = Suc (sum_list xs)"

lemma fresh_id_notin: "fresh_id xs \<notin> set xs"
  unfolding fresh_id_def using member_le_sum_list[of _ xs] by fastforce

lemma fresh_id_notin_map: "fresh_id (map f xs) \<notin> f ` set xs"
  using fresh_id_notin[of "map f xs"] by (simp only: set_map not_False_eq_True)

definition quiet_env :: env where
  "quiet_env =
     \<lparr>clock = 1000, new_pool_id = (\<lambda>db. fresh_id (map pool_id (pools db))),
      new_request_id = (\<lambda>db. fresh_id (map rq_id (requests db))),
      new_supernet_id = (\<lambda>db. fresh_id (map su_id (supernets db))),
      new_alloc_id = (\<lambda>db. fresh_id (map al_id (allocations db))),
      uuid_parse = (\<lambda>s. map_option nat (atoi s)), cidr_text = prefix_string, cidr_in = ParsePrefix,
      fault = (\<lambda>_. None), interfere = (\<lambda>_ db. db)\<rparr>"

definition nic :: principal where
  "nic = \<lparr>Subject = 99, Capabilities = [''*''], Scopes = None, MFA = False, Label = []\<rparr>"

definition example_request :: "uuid \<Rightarrow> lir_request" where
  "example_request i =
     \<lparr>rq_id = i, rq_org = 5, rq_requester = 6, rq_pool = Some 1, rq_site = None, rq_family = 4,
      rq_prefix_length = 26, rq_purpose = None, rq_classification = None, rq_justification = ''lab'',
      rq_status = PendingApproval, submitted_at = 900, decided_at = None, decided_by = None,
      decision_notes = None, approved_pool = None\<rparr>"

definition example_supernet :: supernet where
  "example_supernet =
     \<lparr>su_id = 10, su_fabric = 2, su_vrf = 3, su_prefix = PrefixFrom (mk_addr V4 167772160) 24,
      su_purpose = None, su_pool = Some 1, su_owner = None\<rparr>"

definition example_pool :: lir_pool where
  "example_pool =
     \<lparr>pool_id = 1, pool_name = ''p'', pool_slug = ''p'', pool_description = None, pool_family = 4,
      pool_fabric = None, pool_classification = None, min_prefix_length = 24, max_prefix_length = 28,
      default_supernet_purpose = None, arin_parent_net_handle = Some ''NET-10'', pool_enabled = True\<rparr>"

definition example_db :: lir_db where
  "example_db =
     \<lparr>pools = [example_pool], requests = [example_request 7, example_request 8], allocations = [],
      supernets = [example_supernet], landing = Some (2, 3), audit_log = []\<rparr>"

lemma quiet_env_ok: "uuids_fresh quiet_env" "alone quiet_env"
  by (simp_all add: fresh_id_notin_map uuids_fresh_def quiet_env_def alone_def)

lemma example_db_ok: "lir_inv example_db"
  by code_simp


text \<open>Others finishing an approval of request 8 just before ours commits.\<close>

definition racing_env :: env where
  "racing_env = quiet_env\<lparr>interfere := (\<lambda>Q db.
     if Q = QApproveLirRequest then snd (serve quiet_env (Some nic) (CApprove ''8'' (Inl ())) db) else db)\<rparr>"

lemma serve_commits:
  assumes "others_commit E" "uuids_fresh E"
  shows "commits db (snd (serve E caller c db))"
  using handle_commits[OF assms] by (auto simp: serve_def split: option.split gate.split)

lemma racing_env_ok: "uuids_fresh racing_env" "others_commit racing_env"
  using quiet_env_ok serve_commits[OF alone_others]
  by (auto simp: racing_env_def uuids_fresh_def others_commit_def)

section \<open>Properties\<close>

text \<open>C4. Whatever requests are served, in whatever order and with whatever statements of other
  requests committed between their own, the registry stays consistent: keys are unique, references
  resolve, the ARIN state fits the net handle, and a request is approved exactly if one allocation
  was granted for it, and never two.\<close>

theorem registry_invariant:
  assumes "uuids_fresh E" "others_commit E" "lir_inv db"
  shows "lir_inv (snd (serve E caller c db))"
  using lir.run_keeps[OF serve_commits[OF assms(2,1)] assms(3)] .

lemma registry_invariant_witness:
  "lir_inv (snd (serve racing_env (Some nic) (CApprove ''7'' (Inl ())) example_db))"
  by (rule registry_invariant[OF racing_env_ok example_db_ok])

text \<open>C8. No request, served under any interleaving, rewrites history: every allocation keeps its
  prefix, its holder and its source and only moves forward from active over return_requested to
  returned, its net handle is never replaced, and a request that was decided or cancelled is never
  touched again.\<close>

theorem registry_history:
  assumes "uuids_fresh E" "others_commit E"
  shows "history db (snd (serve E caller c db))"
  using lir_past.run_rel[OF serve_commits[OF assms(2,1)]] .

lemma registry_history_witness:
  "history example_db (snd (serve racing_env (Some nic) (CApprove ''7'' (Inl ())) example_db))"
  by (rule registry_history[OF racing_env_ok])


lemma others_commits:
  "others_commit E \<Longrightarrow> commits x y \<Longrightarrow> commits x (interfere E Q y)"
  unfolding others_commit_def by (meson rtranclp_trans)

lemma at_approve_commits:
  "others_commit E \<Longrightarrow> commits (interfere E QGetLirRequest db) (at_approve E db)"
  unfolding at_approve_def at_allocated_def at_sources_def at_pool_def
  by (assumption | rule rtranclp.rtrancl_refl | rule others_commits)+

lemma find_request_mem: "find_request i db = Some r \<Longrightarrow> r \<in> set (requests db) \<and> rq_id r = i"
  by (auto simp: find_request_def dest: find_Some_mem)

lemma key_unique:
  "\<lbrakk>distinct (map k xs); x \<in> set xs; y \<in> set xs; k x = k y\<rbrakk> \<Longrightarrow> x = y"
  by (metis inj_onD distinct_map)

text \<open>C6. An approval that answers 200 granted exactly one allocation: the request was still
  pending when the statement committed, it is now approved by the caller, the allocation of the
  answer is the only one of this request, active, for the request's own organization and from the
  pool recorded on the request.\<close>

theorem approve_grants_once:
  assumes "uuids_fresh E" "others_commit E" "lir_inv db"
    and ok: "approveRequest E p raw body db = (HttpJSON 200 ans, db')"
  shows "resp_request ans \<in> set (requests db') \<and> rq_status (resp_request ans) = Approved
     \<and> decided_by (resp_request ans) = Some (Subject p)
     \<and> {a \<in> set (allocations db'). al_request a = rq_id (resp_request ans)} = {resp_allocation ans}
     \<and> al_status (resp_allocation ans) = Active
     \<and> al_org (resp_allocation ans) = rq_org (resp_request ans)
     \<and> Some (al_pool (resp_allocation ans)) = approved_pool (resp_request ans)
     \<and> (\<exists>r\<in>set (requests (at_approve E db)). rq_id r = rq_id (resp_request ans)
          \<and> rq_status r = PendingApproval)"
proof -
  obtain i existing pool s prfx ap req alloc db2 where
    f: "find_request i (interfere E QGetLirRequest db) = Some existing"
    and ap: "ap_request ap = i" "ap_by ap = Subject p" "ap_org ap = rq_org existing"
    and q: "ApproveLirRequest E ap (at_approve E db) = (Inr (req, alloc), db2)"
    and db': "db' = db2\<lparr>audit_log := audit_log db2 @ [\<lparr>ev_action = ''lir.request.approve'', ev_target = i\<rparr>]\<rparr>"
    and an: "HttpJSON 200 ans = HttpJSON 200 \<lparr>resp_request = req, resp_allocation = alloc\<rparr>"
    by (rule approveRequest_ok[OF ok]) auto
  let ?db = "at_approve E db"
  obtain r pr where g: "r \<in> set (requests ?db)" "rq_id r = i" "rq_status r = PendingApproval"
      "i \<notin> al_request ` set (allocations ?db)"
      "req = approve_row E ap r" "alloc = new_alloc_row E ap ?db pr"
      "requests db2 = map (\<lambda>r. if rq_id r = i \<and> rq_status r = PendingApproval
                               then approve_row E ap r else r) (requests ?db)"
      "allocations db2 = allocations ?db @ [alloc]"
    using q ap(1) by (cases rule: ApproveLirRequest_cases[of E ap ?db]) auto
  have c: "commits db ?db"
    using at_approve_commits[OF assms(2)] assms(2) unfolding others_commit_def
    by (meson rtranclp_trans)
  have "distinct (map rq_id (requests ?db))"
    using lir.run_keeps[OF c assms(3)] by (simp add: lir_inv_def keys_ok_def)
  moreover obtain r' where "r' \<in> set (requests ?db)" "request_evolves existing r'"
    using lir_past.run_rel[OF at_approve_commits[OF assms(2)]] find_request_mem[OF f]
    unfolding history_def by blast
  ultimately have "rq_org r = rq_org existing"
    using g(1,2) find_request_mem[OF f] key_unique[of rq_id "requests ?db" r r']
    by (auto simp: request_evolves_def)
  moreover have "approve_row E ap r \<in> set (requests db2)"
    unfolding g(7) using g(1-3) by (auto simp: image_iff)
  moreover have "{a \<in> set (allocations db'). al_request a = i} = {alloc}"
  proof -
    have "al_request x \<noteq> i" if "x \<in> set (allocations ?db)" for x using that g(4) by blast
    then show ?thesis using g(6,8) db' ap(1) by auto
  qed
  moreover have "ans = \<lparr>resp_request = req, resp_allocation = alloc\<rparr>" using an by simp
  moreover have "rq_id req = i" "rq_status req = Approved" "decided_by req = Some (Subject p)"
    "rq_org req = rq_org r" "approved_pool req = Some (ap_pool ap)"
    using g(2,5) ap by (simp_all add: approve_row_def)
  moreover have "al_status alloc = Active" "al_org alloc = rq_org existing" "al_pool alloc = ap_pool ap"
    using g(6) ap by (simp_all add: new_alloc_row_def)
  ultimately show ?thesis using g(1-3,5) db' by auto
qed

lemma approve_grants_once_witness:
  "\<exists>ans :: approve_response. {a \<in> set (allocations (snd (approveRequest racing_env nic ''7'' (Inl ()) example_db))).
      al_request a = rq_id (resp_request ans)} = {resp_allocation ans}"
proof -
  have "case fst (approveRequest racing_env nic ''7'' (Inl ()) example_db) of
      HttpJSON c r \<Rightarrow> c = 200 \<and> True | _ \<Rightarrow> False"
    by code_simp
  from HttpJSON_obtain[OF this] obtain ans where
    "approveRequest racing_env nic ''7'' (Inl ()) example_db =
       (HttpJSON 200 ans, snd (approveRequest racing_env nic ''7'' (Inl ()) example_db))"
    by (metis prod.collapse)
  from approve_grants_once[OF racing_env_ok example_db_ok this] show ?thesis
    by blast
qed

lemma answer_eq:
  "answer x = ((code, msg), db') \<longleftrightarrow> (\<exists>r. x = (r, db') \<and> status_of r = code \<and> error_text r = msg)"
  by (cases x) (auto simp: answer_def)

lemmas handlers_settle = createPool_settles updatePool_settles attachPoolSupernet_settles
  detachPoolSupernet_settles submitRequest_settles getRequest_settles cancelRequest_settles
  rejectRequest_settles approveRequest_settles getAllocation_settles
  requestReturnAllocation_settles confirmReturnAllocation_settles getPool_settles listPools_settles
  listPoolSupernets_settles listRequests_settles listAllocations_settles

lemma handle_settles:
  assumes "alone E" "handle E p c db = ((code, msg), db')" "400 \<le> code"
    and "\<And>i. c \<noteq> CDeletePool i" "\<And>i. c \<noteq> CArinRetry i"
  shows "db' = db"
  using assms(2-) by (cases c) (auto simp: answer_eq is_error_def dest: handlers_settle[OF assms(1)])

text \<open>C9. A refused request leaves no trace: with requests handled one at a time, every call of
  the registry that answers an error has changed nothing, not even the audit log, whatever query
  failed; deleting a pool and retrying ARIN are the two exceptions.\<close>

theorem refused_calls_leave_no_trace:
  assumes "alone E" "serve E caller c db = ((code, msg), db')" "400 \<le> code"
    and "\<forall>i. c \<noteq> CDeletePool i \<and> c \<noteq> CArinRetry i"
  shows "db' = db"
  using assms handle_settles[OF assms(1)]
  by (auto simp: serve_def split: option.splits gate.splits)

lemma refused_calls_leave_no_trace_witness:
  "snd (serve (quiet_env\<lparr>fault := (\<lambda>Q. if Q = QApproveLirRequest then Some (DbOther []) else None)\<rparr>)
      (Some nic) (CApprove ''7'' (Inl ())) example_db) = example_db"
proof -
  let ?E = "quiet_env\<lparr>fault := (\<lambda>Q. if Q = QApproveLirRequest then Some (DbOther []) else None)\<rparr>"
  let ?r = "serve ?E (Some nic) (CApprove ''7'' (Inl ())) example_db"
  have "alone ?E" using quiet_env_ok(2) by (simp add: alone_def)
  moreover have "fst ?r = (500, ''internal error'')" by code_simp
  then have "?r = ((500, ''internal error''), snd ?r)" by (metis prod.collapse)
  ultimately show ?thesis by (rule refused_calls_leave_no_trace) simp_all
qed


section \<open>Another tenant's rows\<close>

definition hide_request :: "uuid \<Rightarrow> lir_db \<Rightarrow> lir_db" where
  "hide_request i db = db\<lparr>requests := filter (\<lambda>r. rq_id r \<noteq> i) (requests db)\<rparr>"

definition hide_alloc :: "uuid \<Rightarrow> lir_db \<Rightarrow> lir_db" where
  "hide_alloc i db = db\<lparr>allocations := filter (\<lambda>a. al_id a \<noteq> i) (allocations db)\<rparr>"

lemma find_hidden [simp]: "find_request i (hide_request i db) = None" "find_alloc i (hide_alloc i db) = None"
  by (auto simp: find_request_def find_alloc_def hide_request_def hide_alloc_def find_None_iff)

definition not_found :: "env \<Rightarrow> query \<Rightarrow> string \<Rightarrow> 'r resp" where
  "not_found E Q msg = (case fault E Q of Some e \<Rightarrow> mapErr msg e | None \<Rightarrow> HttpError 404 msg)"

lemma request_lookup_hidden:
  assumes "alone E" "\<And>r. find_request i db = Some r \<Longrightarrow> outside_scope p cap (rq_org r)"
  shows "hbind (hquery E QGetLirRequest (GetLirRequest i) (mapErr msg))
      (\<lambda>x. hbind (reject_if (outside_scope p cap (rq_org x)) 404 msg) (k x)) db
    = (Inl (not_found E QGetLirRequest msg), db)"
  using assms by (cases "find_request i db")
    (auto simp: hbind_def hquery_def exec_def alone_def GetLirRequest_def reading_def one_row_def
      not_found_def mapErr_def reject_if_def hanswer_def split: option.splits)

lemma alloc_lookup_hidden:
  assumes "alone E" "\<And>a. find_alloc i db = Some a \<Longrightarrow> outside_scope p cap (al_org a)"
  shows "hbind (hquery E QGetLirAllocation (GetLirAllocation i) (mapErr msg))
      (\<lambda>x. hbind (reject_if (outside_scope p cap (al_org x)) 404 msg) (k x)) db
    = (Inl (not_found E QGetLirAllocation msg), db)"
  using assms by (cases "find_alloc i db")
    (auto simp: hbind_def hquery_def exec_def alone_def GetLirAllocation_def reading_def one_row_def
      not_found_def mapErr_def reject_if_def hanswer_def split: option.splits)

lemma find_alloc_mem: "find_alloc i db = Some a \<Longrightarrow> a \<in> set (allocations db) \<and> al_id a = i"
  by (auto simp: find_alloc_def dest: find_Some_mem)

text \<open>Both runs do the same up to and including the lookup.\<close>

definition blind :: "lir_db \<Rightarrow> lir_db \<Rightarrow> ('r, 'a) handler \<Rightarrow> bool" where
  "blind db db' m \<longleftrightarrow> (\<exists>v. m db = (v, db) \<and> m db' = (v, db'))"

definition blind_stop :: "lir_db \<Rightarrow> lir_db \<Rightarrow> ('r, 'a) handler \<Rightarrow> bool" where
  "blind_stop db db' m \<longleftrightarrow> (\<exists>r. m db = (Inl r, db) \<and> m db' = (Inl r, db'))"

named_theorems blindness "handlers that cannot tell two databases apart"

lemma blind_inputs [blindness]:
  "blind db db' (parseUUIDParam E k raw)" "blind db db' (decodeBody b)"
  "blind db db' (decodeOptional ob z)" "blind db db' (reject_if c n m)"
  by (auto simp: blind_def parseUUIDParam_def decodeBody_def decodeOptional_def reject_if_def hreturn_def
      hanswer_def split: option.splits sum.splits)

lemma blind_bind [blindness]:
  "\<lbrakk>blind db db' m; \<And>a. blind_stop db db' (f a)\<rbrakk> \<Longrightarrow> blind_stop db db' (hbind m f)"
  unfolding blind_def blind_stop_def hbind_def by (auto split: sum.split)

lemma blind_stop_bind: "blind_stop db db' m \<Longrightarrow> blind_stop db db' (hbind m f)"
  by (auto simp: blind_stop_def hbind_def)

lemma blind_run:
  "blind_stop db db' m \<Longrightarrow> answer (run m db) = (fst (answer (run m db')), db)"
  by (auto simp: blind_stop_def run_def answer_def)


lemma parse_known:
  "uuid_parse E raw = Some i \<Longrightarrow> hbind (parseUUIDParam E k raw) f = f i"
  by (simp add: fun_eq_iff hbind_def parseUUIDParam_def hreturn_def)

lemma blind_request [blindness]:
  assumes "alone E" "\<forall>r\<in>set (requests db). rq_id r = i \<longrightarrow> outside_scope p cap (rq_org r)"
  shows "blind_stop db (hide_request i db)
      (hbind (hquery E QGetLirRequest (GetLirRequest i) (mapErr msg))
        (\<lambda>x. hbind (reject_if (outside_scope p cap (rq_org x)) 404 msg) (k x)))"
    (is "blind_stop _ _ (hbind ?m ?f)")
  unfolding blind_stop_def
proof (intro exI conjI)
  show "hbind ?m ?f db = (Inl (not_found E QGetLirRequest msg), db)"
    using assms(2) by (intro request_lookup_hidden[OF assms(1)]) (auto dest: find_request_mem)
qed (intro request_lookup_hidden[OF assms(1)], simp)

lemma blind_alloc [blindness]:
  assumes "alone E" "\<forall>a\<in>set (allocations db). al_id a = i \<longrightarrow> outside_scope p cap (al_org a)"
  shows "blind_stop db (hide_alloc i db)
      (hbind (hquery E QGetLirAllocation (GetLirAllocation i) (mapErr msg))
        (\<lambda>x. hbind (reject_if (outside_scope p cap (al_org x)) 404 msg) (k x)))"
    (is "blind_stop _ _ (hbind ?m ?f)")
  unfolding blind_stop_def
proof (intro exI conjI)
  show "hbind ?m ?f db = (Inl (not_found E QGetLirAllocation msg), db)"
    using assms(2) by (intro alloc_lookup_hidden[OF assms(1)]) (auto dest: find_alloc_mem)
qed (intro alloc_lookup_hidden[OF assms(1)], simp)

lemma blind_serve:
  assumes "\<And>d. handle E p c d = answer (run m d)" "blind_stop db db' m"
  shows "serve E (Some p) c db = (fst (serve E (Some p) c db'), db)"
  using blind_run[OF assms(2)] assms(1) by (auto simp: serve_def split: gate.split)

text \<open>A tenant cannot tell another tenant's request from one that does not exist: reading,
  cancelling, approving or rejecting it answers, with the same status and message, what it would
  answer if the row were not there, and changes nothing.\<close>

theorem foreign_requests_look_absent:
  assumes "alone E" "uuid_parse E raw = Some i"
    and "\<forall>r\<in>set (requests db). rq_id r = i \<longrightarrow> outside_scope p (route_capability c) (rq_org r)"
    and "c \<in> {CGetRequest raw, CCancel raw why, CApprove raw body, CReject raw reason}"
  shows "serve E (Some p) c db = (fst (serve E (Some p) c (hide_request i db)), db)"
proof -
  note defs = getRequest_def cancelRequest_def approveRequest_def rejectRequest_def
    loadApprovableRequest_def parse_known[where E = E and raw = raw, OF assms(2)]
  consider "c = CGetRequest raw" | "c = CCancel raw why" | "c = CApprove raw body" | "c = CReject raw reason"
    using assms(4) by auto
  then show ?thesis
  proof cases
    case 1
    then show ?thesis using assms(1,3)
      by (intro blind_serve) (simp only: handle.simps defs, intro blindness, simp_all)
  next
    case 2
    then show ?thesis using assms(1,3)
      by (intro blind_serve) (simp only: handle.simps defs, intro blindness, simp_all)
  next
    case 3
    then show ?thesis using assms(1,3)
      by (intro blind_serve) (simp only: handle.simps defs, intro blindness blind_stop_bind, simp_all)
  next
    case 4
    then show ?thesis using assms(1,3)
      by (intro blind_serve) (simp only: handle.simps defs, intro blindness, simp_all)
  qed
qed


definition tenant :: principal where
  "tenant = \<lparr>Subject = 6, Capabilities = [''*''],
     Scopes = Some [(''*'', zero_scope\<lparr>OrganizationIDs := {77}\<rparr>)], MFA = False, Label = []\<rparr>"

lemma foreign_requests_look_absent_witness:
  "serve quiet_env (Some tenant) (CCancel ''7'' (Inl ())) example_db
     = (fst (serve quiet_env (Some tenant) (CCancel ''7'' (Inl ())) (hide_request 7 example_db)), example_db)"
proof (rule foreign_requests_look_absent[OF quiet_env_ok(2), where raw = "''7''" and why = "Inl ()"])
  show "uuid_parse quiet_env ''7'' = Some 7"
    "\<forall>r\<in>set (requests example_db). rq_id r = 7 \<longrightarrow>
       outside_scope tenant (route_capability (CCancel ''7'' (Inl ()))) (rq_org r)"
    by code_simp+
qed simp

text \<open>The same for allocations: reading one, retrying its ARIN job, requesting or confirming
  its return look, for a caller outside the holder's organization, as if it did not exist.\<close>

theorem foreign_allocations_look_absent:
  assumes "alone E" "uuid_parse E raw = Some i"
    and "\<forall>a\<in>set (allocations db). al_id a = i \<longrightarrow> outside_scope p (route_capability c) (al_org a)"
    and "c \<in> {CGetAllocation raw, CArinRetry raw, CReturnRequest raw reason, CReturnConfirm raw why}"
  shows "serve E (Some p) c db = (fst (serve E (Some p) c (hide_alloc i db)), db)"
proof -
  note defs = getAllocation_def retryAllocationArin_def requestReturnAllocation_def
    confirmReturnAllocation_def parse_known[where E = E and raw = raw, OF assms(2)]
  consider "c = CGetAllocation raw" | "c = CArinRetry raw" | "c = CReturnRequest raw reason"
    | "c = CReturnConfirm raw why"
    using assms(4) by auto
  then show ?thesis
    by cases (use assms(1,3) in \<open>(intro blind_serve; simp only: handle.simps defs; intro blindness; simp)+\<close>)
qed

lemma foreign_allocations_look_absent_witness:
  "let db = snd (serve quiet_env (Some nic) (CApprove ''7'' (Inl ())) example_db)
   in serve quiet_env (Some tenant) (CGetAllocation ''1'') db
     = (fst (serve quiet_env (Some tenant) (CGetAllocation ''1'') (hide_alloc 1 db)), db)"
  unfolding Let_def
proof (rule foreign_allocations_look_absent[OF quiet_env_ok(2), where raw = "''1''"])
  show "uuid_parse quiet_env ''1'' = Some 1"
    "\<forall>a\<in>set (allocations (snd (serve quiet_env (Some nic) (CApprove ''7'' (Inl ())) example_db))).
       al_id a = 1 \<longrightarrow> outside_scope tenant (route_capability (CGetAllocation ''1'')) (al_org a)"
    by code_simp+
qed simp

text \<open>Deleting a pool that no allocation but some request still names is refused with 409, yet
  all its source supernets have been detached by then: the two statements are not one
  transaction.\<close>

theorem deletePool_detaches_then_fails:
  assumes "alone E" "\<forall>Q. fault E Q = None" "uuid_parse E raw = Some i" "find_pool i db \<noteq> None"
    and "\<forall>a\<in>set (allocations db). al_pool a \<noteq> i" "\<exists>r\<in>set (requests db). rq_pool r = Some i"
  shows "deletePool E raw db = (HttpError 409 ''resource has dependent rows'', detach_all i db)"
proof -
  have "find_pool i (detach_all i db) \<noteq> None \<and> pool_referenced i (detach_all i db)"
    using assms(4,6) by (auto simp: detach_all_def find_pool_def pool_referenced_def)
  moreover have "[a\<leftarrow>allocations db. al_pool a = i] = []"
    using assms(5) by (simp add: filter_empty_conv)
  ultimately show ?thesis using assms(1-4)
    by (auto simp: deletePool_def run_def hbind_def parseUUIDParam_def hreturn_def hquery_def exec_def
        alone_def GetLirPool_def reading_def one_row_def CountAllocationsForPool_def reject_if_def
        DetachAllPoolSupernets_def DeleteLirPool_def mapErr_def WriteMapped_def Mapped_def)
qed

lemma deletePool_detaches_then_fails_witness:
  "deletePool quiet_env ''1'' example_db = (HttpError 409 ''resource has dependent rows'', detach_all 1 example_db)
   \<and> su_pool (hd (supernets (detach_all 1 example_db))) = None"
proof
  have "uuid_parse quiet_env ''1'' = Some 1" "find_pool 1 example_db \<noteq> None"
    "\<forall>a\<in>set (allocations example_db). al_pool a \<noteq> 1"
    "\<exists>r\<in>set (requests example_db). rq_pool r = Some 1"
    by code_simp+
  moreover have "\<forall>Q. fault quiet_env Q = None" by (simp add: quiet_env_def)
  ultimately show "deletePool quiet_env ''1'' example_db =
      (HttpError 409 ''resource has dependent rows'', detach_all 1 example_db)"
    by (intro deletePool_detaches_then_fails quiet_env_ok(2))
  show "su_pool (hd (supernets (detach_all 1 example_db))) = None" by code_simp
qed

end
