(* ===== verification/LirCarving.thy ===== *)
theory LirCarving
  imports LirProps
begin

text \<open>
  Address space: live allocations lie inside the supernet they were carved from and
  do not overlap, as long as approvals do not run concurrently; a concurrent pair
  can be granted the same range.
\<close>

section \<open>The text between the database and the carver\<close>

text \<open>What the carver relies on in the database's \<^verbatim>\<open>host(prefix) || '/' || masklen(prefix)\<close> and
  \<^verbatim>\<open>::cidr\<close>.\<close>

locale cidr_codec =
  fixes text_of :: "prefix \<Rightarrow> string" and read :: "string \<Rightarrow> prefix option"
  assumes parse_text: "canonical p \<Longrightarrow> ParsePrefix (text_of p) = Some p"
    and read_string: "canonical p \<Longrightarrow> read (prefix_string p) = Some p"
begin

lemma occupied_texts:
  assumes "\<forall>a\<in>set as. canonical (al_prefix a)"
  shows "occupied_by (map (\<lambda>a. (al_pool_supernet a, text_of (al_prefix a))) as) s
       = map al_prefix (filter (\<lambda>a. al_pool_supernet a = s) as)"
proof -
  have "fold (\<lambda>(s, t) m. case ParsePrefix t of None \<Rightarrow> m | Some p \<Rightarrow> m(s := m s @ [p]))
      (map (\<lambda>a. (al_pool_supernet a, text_of (al_prefix a))) as) m s
    = m s @ map al_prefix (filter (\<lambda>a. al_pool_supernet a = s) as)" for m
    using assms by (induction as arbitrary: m) (simp_all add: parse_text)
  then show ?thesis by (simp add: occupied_by_def)
qed

text \<open>The walk returns the first source with room.\<close>

lemma carve_sources_Some:
  assumes "\<forall>x\<in>set ss. canonical (su_prefix x)"
    and "carve_sources occ len (map (\<lambda>x. (su_id x, text_of (su_prefix x))) ss) = Some (i, got)"
  obtains x p where "x \<in> set ss" "su_id x = i"
    "first_free_prefix (su_prefix x) len (occ i) = Some p" "got = prefix_string p"
  using assms
proof (induction ss arbitrary: thesis)
  case (Cons y ss)
  have y: "ParsePrefix (text_of (su_prefix y)) = Some (su_prefix y)" using Cons.prems(2) by (simp add: parse_text)
  show ?case
  proof (cases "first_free_prefix (su_prefix y) len (occ (su_id y))")
    case None
    then have "carve_sources occ len (map (\<lambda>x. (su_id x, text_of (su_prefix x))) ss) = Some (i, got)"
      using Cons.prems(3) y by (simp add: findFirstFreePrefix_def)
    from Cons.IH[OF _ _ this] Cons.prems(1,2) show ?thesis by auto
  next
    case (Some p)
    then show ?thesis using Cons.prems(1)[of y p] Cons.prems(3) y by (simp add: findFirstFreePrefix_def)
  qed
qed simp

lemma carve_sources_None:
  assumes "\<forall>x\<in>set ss. canonical (su_prefix x)"
  shows "carve_sources occ len (map (\<lambda>x. (su_id x, text_of (su_prefix x))) ss) = None \<longleftrightarrow>
     (\<forall>x\<in>set ss. first_free_prefix (su_prefix x) len (occ (su_id x)) = None)"
  using assms by (induction ss) (auto simp: parse_text findFirstFreePrefix_def split: option.splits)

end

interpretation go_cidr: cidr_codec prefix_string ParsePrefix
  by unfold_locales (simp_all add: canonical_def ParsePrefix_prefix_string)

section \<open>The address-space invariant\<close>

definition disjoint_prefixes :: "prefix \<Rightarrow> prefix \<Rightarrow> bool" where
  "disjoint_prefixes p q \<longleftrightarrow> pfam p \<noteq> pfam q \<or> pfx_range p \<inter> pfx_range q = {}"

definition inside :: "prefix \<Rightarrow> prefix \<Rightarrow> bool" where
  "inside p q \<longleftrightarrow> canonical p \<and> pfam p = pfam q \<and> pfx_range p \<subseteq> pfx_range q"

definition carved :: "lir_db \<Rightarrow> bool" where
  "carved db \<longleftrightarrow>
     (\<forall>s\<in>set (supernets db). canonical (su_prefix s))
     \<and> (\<forall>a\<in>set (allocations db). live a \<longrightarrow>
         (\<exists>s\<in>set (supernets db). su_id s = al_pool_supernet a \<and> su_pool s = Some (al_pool a)
            \<and> inside (al_prefix a) (su_prefix s)))
     \<and> (\<forall>a\<in>set (allocations db). \<forall>b\<in>set (allocations db).
         live a \<and> live b \<and> al_pool_supernet a = al_pool_supernet b \<and> al_id a \<noteq> al_id b
         \<longrightarrow> disjoint_prefixes (al_prefix a) (al_prefix b))"

text \<open>Changes that neither move address space nor bring back a returned allocation.\<close>

definition quiet :: "lir_db \<Rightarrow> lir_db \<Rightarrow> bool" where
  "quiet db db' \<longleftrightarrow> supernets db' = supernets db \<and>
     (\<exists>g. allocations db' = map g (allocations db)
        \<and> (\<forall>a. al_id (g a) = al_id a \<and> al_pool (g a) = al_pool a
             \<and> al_pool_supernet (g a) = al_pool_supernet a \<and> al_prefix (g a) = al_prefix a
             \<and> (live (g a) \<longrightarrow> live a)))"

lemma quietI:
  "\<lbrakk>supernets db' = supernets db; allocations db' = allocations db\<rbrakk> \<Longrightarrow> quiet db db'"
  unfolding quiet_def by (intro conjI exI[of _ id]) simp_all

lemma quiet_trans: "quiet x y \<Longrightarrow> quiet y z \<Longrightarrow> quiet x z"
proof -
  assume xy: "quiet x y" and yz: "quiet y z"
  obtain g where g1: "supernets y = supernets x" "allocations y = map g (allocations x)"
    and g: "\<And>a. al_id (g a) = al_id a \<and> al_pool (g a) = al_pool a
      \<and> al_pool_supernet (g a) = al_pool_supernet a \<and> al_prefix (g a) = al_prefix a \<and> (live (g a) \<longrightarrow> live a)"
    using xy unfolding quiet_def by (elim conjE exE) metis
  obtain h where h1: "supernets z = supernets y" "allocations z = map h (allocations y)"
    and h: "\<And>a. al_id (h a) = al_id a \<and> al_pool (h a) = al_pool a
      \<and> al_pool_supernet (h a) = al_pool_supernet a \<and> al_prefix (h a) = al_prefix a \<and> (live (h a) \<longrightarrow> live a)"
    using yz unfolding quiet_def by (elim conjE exE) metis
  have "supernets z = supernets x" "allocations z = map (h \<circ> g) (allocations x)"
    using g1 h1 by simp_all
  moreover have "al_id ((h \<circ> g) a) = al_id a \<and> al_pool ((h \<circ> g) a) = al_pool a
      \<and> al_pool_supernet ((h \<circ> g) a) = al_pool_supernet a \<and> al_prefix ((h \<circ> g) a) = al_prefix a
      \<and> (live ((h \<circ> g) a) \<longrightarrow> live a)" for a
    using g[of a] h[of "g a"] by simp
  ultimately show "quiet x z" unfolding quiet_def by blast
qed

lemma quiet_allocs:
  assumes "\<And>a. al_id (f a) = al_id a \<and> al_pool (f a) = al_pool a
      \<and> al_pool_supernet (f a) = al_pool_supernet a \<and> al_prefix (f a) = al_prefix a
      \<and> (P a \<longrightarrow> live (f a) \<longrightarrow> live a)"
  shows "quiet db (db\<lparr>allocations := map (\<lambda>a. if P a then f a else a) (allocations db)\<rparr>)"
  unfolding quiet_def using assms by (intro conjI exI[of _ "\<lambda>a. if P a then f a else a"]) simp_all

lemma carved_quiet: "quiet db db' \<Longrightarrow> carved db \<Longrightarrow> carved db'"
proof -
  assume q: "quiet db db'" and c: "carved db"
  obtain g where s: "supernets db' = supernets db" "allocations db' = map g (allocations db)"
    and g: "\<And>a. al_id (g a) = al_id a" "\<And>a. al_pool (g a) = al_pool a"
      "\<And>a. al_pool_supernet (g a) = al_pool_supernet a" "\<And>a. al_prefix (g a) = al_prefix a"
      "\<And>a. live (g a) \<Longrightarrow> live a"
    using q unfolding quiet_def by auto
  show "carved db'"
    using c unfolding carved_def by (simp add: s g)
qed

interpretation quiet: effect quiet
  by unfold_locales (auto intro: quietI quiet_trans)

lemma quiet_query:
  "\<lbrakk>alone E; \<And>db. quiet db (snd (f db))\<rbrakk> \<Longrightarrow> only quiet (hquery E Q f onerr)"
  by (rule quiet.only_query) (simp_all add: alone_def quietI)

lemma quiet_writes:
  "quiet db (snd (CreateLirPool p db))" "quiet db (snd (UpdateLirPool i u db))"
  "quiet db (snd (CreateLirRequest r db))" "quiet db (snd (CancelLirRequest i n db))"
  "quiet db (snd (RejectLirRequest t i w y db))"
  "quiet db (snd (RequestReturnLirAllocation t i w y db))"
  "quiet db (snd (ConfirmReturnLirAllocation t i w db))"
  "quiet db (snd (ResetArinJobForRetry i db))"
proof -
  show "quiet db (snd (UpdateLirPool i u db))"
    using snd_UpdateLirPool[of i u db] by (auto intro: quietI)
  show "quiet db (snd (RequestReturnLirAllocation t i w y db))"
    "quiet db (snd (ConfirmReturnLirAllocation t i w db))" "quiet db (snd (ResetArinJobForRetry i db))"
    unfolding row_updates snd_conv by (rule quiet_allocs; simp add: live_def Let_def)+
qed (auto simp: snd_CreateLirPool snd_CreateLirRequest row_updates intro: quietI)

lemmas quiet_intros = quiet.only_run quiet.only_intros quiet_query quiet_writes

lemma quiet_handlers:
  assumes "alone E"
  shows
    "quiet db (snd (createPool E b1 db))"
    "quiet db (snd (updatePool E i b2 db))"
    "quiet db (snd (submitRequest E op b3 db))"
    "quiet db (snd (getRequest E p i db))"
    "quiet db (snd (cancelRequest E p i b4 db))"
    "quiet db (snd (rejectRequest E p i b5 db))"
    "quiet db (snd (getAllocation E p i db))"
    "quiet db (snd (retryAllocationArin E p i db))"
    "quiet db (snd (requestReturnAllocation E p i b6 db))"
    "quiet db (snd (confirmReturnAllocation E p i b7 db))"
    "quiet db (snd (getPool E i db))"
    "quiet db (snd (listPools E q db))"
    "quiet db (snd (listPoolSupernets E i q db))"
    "quiet db (snd (listRequests E p q db))"
    "quiet db (snd (listAllocations E p q db))"
  unfolding createPool_def updatePool_def submitRequest_def getRequest_def cancelRequest_def rejectRequest_def getAllocation_def retryAllocationArin_def requestReturnAllocation_def confirmReturnAllocation_def getPool_def listPools_def listPoolSupernets_def listRequests_def listAllocations_def query_reads Let_def
    case_prod_unfold
  by (intro quiet_intros assms)+

section \<open>The statements that move address space\<close>

lemma carved_shrink:
  assumes "carved db" "allocations db' = allocations db"
    and "\<And>s. s \<in> set (supernets db') \<Longrightarrow> canonical (su_prefix s)"
    and "\<And>a s. \<lbrakk>a \<in> set (allocations db); live a; s \<in> set (supernets db);
        su_id s = al_pool_supernet a; su_pool s = Some (al_pool a)\<rbrakk> \<Longrightarrow> s \<in> set (supernets db')"
  shows "carved db'"
  using assms unfolding carved_def by (simp, meson)

lemma run_bind_both:
  assumes "\<And>r db1. m db = (Inl r, db1) \<Longrightarrow> carved db1"
    and "\<And>a db1. m db = (Inr a, db1) \<Longrightarrow> carved (snd (run (f a) db1))"
  shows "carved (snd (run (hbind m f) db))"
proof (cases "m db")
  case (Pair v db1)
  then show ?thesis using assms by (cases v) (simp_all add: run_def hbind_def)
qed

lemma run_bind_pure:
  assumes "pure m" "carved db" "\<And>a. m db = (Inr a, db) \<Longrightarrow> carved (snd (run (f a) db))"
  shows "carved (snd (run (hbind m f) db))"
  by (rule run_bind_both) (use assms in \<open>(metis pure_def snd_conv)+\<close>)

lemma carved_audit [simp]: "carved (db\<lparr>audit_log := l\<rparr>) = carved db"
  by (simp add: carved_def)

lemma run_write_carved:
  assumes "alone E" "carved db" "carved (snd (W db))"
  shows "carved (snd (run (hbind (hquery E Q W onerr)
    (\<lambda>x. hbind (record_event (A x) (T x)) (\<lambda>_. hreturn (R x)))) db))"
proof (rule run_bind_both)
  fix r db1
  assume "hquery E Q W onerr db = (Inl r, db1)"
  then show "carved db1"
    using assms by (auto simp: hquery_def exec_def alone_def split: option.splits sum.splits prod.splits)
next
  fix x db1
  assume "hquery E Q W onerr db = (Inr x, db1)"
  then have "W db = (Inr x, db1)" using assms(1) by (simp add: backwards alone_def)
  then show "carved (snd (run (hbind (record_event (A x) (T x)) (\<lambda>_. hreturn (R x))) db1))"
    using assms(3) by (simp add: run_def hbind_def record_event_def hreturn_def)
qed

lemma read_Inr:
  "alone E \<Longrightarrow> hquery E Q (reading g) onerr db = (Inr x, db') \<Longrightarrow> g db = Inr x"
  by (simp add: backwards alone_def)

lemma no_pool_no_live:
  assumes "keys_ok db" "carved db" "find_supernet i db = Some c" "su_pool c = None"
    and "s \<in> set (supernets db)" "su_id s = i"
  shows "su_pool s = None"
  using assms find_Some_mem[OF assms(3)[unfolded find_supernet_def]]
    key_unique[of su_id "supernets db" s c]
  by (simp add: keys_ok_def)

lemma attach_carved:
  assumes "alone E" "keys_ok db" "carved db"
  shows "carved (snd (attachPoolSupernet E raw body db))"
  unfolding attachPoolSupernet_def query_reads
  apply (rule run_bind_pure[OF pure_primitives(4) assms(3)])
  apply (rule run_bind_pure[OF pure_read[OF assms(1)] assms(3)])
  apply (rule run_bind_pure[OF pure_primitives(7) assms(3)])
  apply (rule run_bind_pure[OF pure_primitives(5) assms(3)])
  subgoal for pool_i pool raw_s sid
  proof (cases sid)
    case (Some i)
    show ?thesis unfolding Some option.case
    proof (rule run_bind_pure[OF pure_read[OF assms(1)] assms(3)])
      fix c
      assume "hquery E QGetSupernetForLirAttach (reading (\<lambda>db. one_row (find_supernet i db)))
        (mapErr ''supernet not found'') db = (Inr c, db)"
      then have c: "find_supernet i db = Some c" by (simp add: backwards assms(1)[unfolded alone_def])
      show "carved (snd (run (case validateAttachCandidate E pool c of
           None \<Rightarrow> hbind (hquery E QAttachSupernet (AttachSupernetToPool i pool_i) (mapErr []))
             (\<lambda>_. hbind (record_event ''lir.pool.attach_supernet'' pool_i) (\<lambda>_. hreturn HttpNoContent))
         | Some (status, msg) \<Rightarrow> hanswer (HttpError status msg)) db))"
      proof (cases "validateAttachCandidate E pool c")
        case None
        then have "su_pool c = None" by (simp add: validateAttachCandidate_def split: if_splits)
        note free = no_pool_no_live[OF assms(2,3) c this]
        have "carved (snd (AttachSupernetToPool i pool_i db))"
          by (rule carved_shrink[OF assms(3)])
            (use assms(3) free in \<open>auto simp: snd_AttachSupernet carved_def image_iff split: if_splits\<close>)
        then show ?thesis unfolding None option.case by (rule run_write_carved[OF assms(1,3)])
      qed (use assms(3) in \<open>auto simp: run_def hanswer_def\<close>)
    qed
  qed (use assms(3) in \<open>simp add: run_def hanswer_def\<close>)
  done

lemma detach_carved:
  assumes "alone E" "carved db"
  shows "carved (snd (detachPoolSupernet E raw sid db))"
  unfolding detachPoolSupernet_def query_reads
  apply (rule run_bind_pure[OF pure_primitives(4) assms(2)])
  apply (rule run_bind_pure[OF pure_primitives(4) assms(2)])
  apply (rule run_bind_pure[OF pure_read[OF assms(1)] assms(2)])
  apply (rule run_bind_pure[OF pure_primitives(3) assms(2)])
  apply (rule run_bind_pure[OF pure_read[OF assms(1)] assms(2)])
  apply (rule run_bind_pure[OF pure_primitives(3) assms(2)])
  subgoal for pool i c u n v
  proof (rule run_write_carved[OF assms])
    assume "hquery E QCountAllocationsForPoolSupernet
        (reading (\<lambda>db. Inr (length (filter (\<lambda>a. al_pool_supernet a = i \<and> live a) (allocations db)))))
        (mapErr []) db = (Inr n, db)"
      and "reject_if (0 < n) 409 ''supernet has live allocations carved from it; return them first'' db = (Inr v, db)"
    then have "\<forall>a\<in>set (allocations db). al_pool_supernet a = i \<longrightarrow> \<not> live a"
      using assms(1) by (auto simp: backwards alone_def filter_empty_conv)
    then show "carved (snd (DetachSupernetFromPool i pool db))"
      by (intro carved_shrink[OF assms(2)])
        (use assms(2) in \<open>auto simp: DetachSupernetFromPool_def carved_def image_iff split: if_splits\<close>)
  qed
  done

lemma deletePool_carved:
  assumes "alone E" "carved db"
  shows "carved (snd (deletePool E raw db))"
  unfolding deletePool_def query_reads
  apply (rule run_bind_pure[OF pure_primitives(4) assms(2)])
  apply (rule run_bind_pure[OF pure_read[OF assms(1)] assms(2)])
  apply (rule run_bind_pure[OF pure_read[OF assms(1)] assms(2)])
  apply (rule run_bind_pure[OF pure_primitives(3) assms(2)])
  subgoal for i p n u
  proof -
    assume "hquery E QCountAllocationsForPool
        (reading (\<lambda>db. Inr (length (filter (\<lambda>a. al_pool a = i) (allocations db))))) (mapErr []) db = (Inr n, db)"
      and "reject_if (0 < n) 409 ''pool still has allocations; return or detach them first'' db = (Inr u, db)"
    then have none: "\<And>a. a \<in> set (allocations db) \<Longrightarrow> al_pool a \<noteq> i"
      using assms(1) by (auto simp: backwards alone_def filter_empty_conv)
    have d: "carved (detach_all i db)"
      by (rule carved_shrink[OF assms(2)])
        (use assms(2) none in \<open>auto simp: carved_def detach_all_def image_iff split: if_splits\<close>)
    have dd: "carved (snd (DeleteLirPool i (detach_all i db)))"
    proof -
      have "detach_all i (detach_all i db) = detach_all i db"
        by (simp add: detach_all_def cong: if_cong)
      then show ?thesis using d by (simp add: snd_DeleteLirPool carved_def)
    qed
    show ?thesis
    proof (rule run_bind_both)
      fix x db1
      assume "hquery E QDetachAll (DetachAllPoolSupernets i) (mapErr []) db = (Inr x, db1)"
      then have e: "db1 = detach_all i db" using assms(1) by (simp add: backwards alone_def DetachAllPoolSupernets_def)
      show "carved (snd (run (hbind (hquery E QDeleteLirPool (DeleteLirPool i) (mapErr ''lir pool not found''))
          (\<lambda>_. hbind (record_event ''lir.pool.delete'' i) (\<lambda>_. hreturn HttpNoContent))) db1))"
        unfolding e by (rule run_write_carved[OF assms(1) d]) (rule dd)
    qed (use assms in \<open>auto simp: hquery_def exec_def alone_def DetachAllPoolSupernets_def split: option.splits\<close>)
  qed
  done


section \<open>Approvals\<close>

lemma set_pool_supernets: "set (pool_supernets pool db) = {s \<in> set (supernets db). su_pool s = Some pool}"
  by (auto simp: pool_supernets_def)

lemma free_of_live:
  "free_of (map al_prefix as) p \<longleftrightarrow> (\<forall>a\<in>set as. disjoint_prefixes (al_prefix a) p)"
  by (auto simp: free_of_def disjoint_prefixes_def)

lemma canonical_zone: "canonical p \<Longrightarrow> zone (paddr p) = []"
  by (simp add: canonical_def valid_prefix_def valid_addr_def)

text \<open>What the carver sees of a pool, one supernet at a time.\<close>

lemma occupied_live:
  assumes "cidr_codec (cidr_text E) (cidr_in E)" "alone E" "carved db"
  shows "occupied_by (allocated_seen E pool db) s =
     map al_prefix (filter (\<lambda>a. al_pool a = pool \<and> live a \<and> al_pool_supernet a = s) (allocations db))"
proof -
  have "\<forall>a\<in>set (filter (\<lambda>a. al_pool a = pool \<and> live a) (allocations db)). canonical (al_prefix a)"
    using assms(3) by (auto simp: carved_def inside_def)
  from cidr_codec.occupied_texts[OF assms(1) this] show ?thesis
    by (simp add: allocated_seen_def alone_states[OF assms(2)] conj_ac)
qed

lemma live_from_supernet:
  assumes "carved db" "keys_ok db" "x \<in> set (supernets db)" "su_pool x = Some pool"
    and "a \<in> set (allocations db)" "live a" "al_pool_supernet a = su_id x"
  shows "al_pool a = pool"
proof -
  obtain y where "y \<in> set (supernets db)" "su_id y = su_id x" "su_pool y = Some (al_pool a)"
    using assms(1,5-7) unfolding carved_def by metis
  then show ?thesis using assms(2-4) key_unique[of su_id "supernets db" y x] by (simp add: keys_ok_def)
qed

text \<open>An approval that is answered, in terms of address space.\<close>

lemma approve_carves:
  assumes "cidr_codec (cidr_text E) (cidr_in E)" "alone E" "carved db" "keys_ok db"
    and ok: "approveRequest E p raw body db = (r, db')" "\<not> is_error r"
  obtains existing :: lir_request and x q and ap :: approval where
    "r = HttpJSON 200 \<lparr>resp_request = existing, resp_allocation = new_alloc_row E ap db q\<rparr>"
    "x \<in> set (supernets db)" "su_id x = ap_pool_supernet ap" "su_pool x = Some (ap_pool ap)"
    "first_free_prefix (su_prefix x) (rq_prefix_length existing)
       (map al_prefix (filter (\<lambda>a. live a \<and> al_pool_supernet a = su_id x) (allocations db))) = Some q"
    "allocations db' = allocations db @ [new_alloc_row E ap db q]"
    "supernets db' = supernets db @ [new_supernet_row E ap db q]"
proof -
  note st = alone_states[OF assms(2)]
  obtain i existing pool s prfx ap req alloc db2 where
    f: "find_request i (interfere E QGetLirRequest db) = Some existing"
    and carve: "carve_sources (occupied_by (allocated_seen E (ap_pool ap) db)) (rq_prefix_length existing)
       (sources_seen E (ap_pool ap) db) = Some (s, prfx)"
    and ap: "ap_request ap = i" "ap_pool_supernet ap = s" "ap_prefix ap = prfx"
    and q: "ApproveLirRequest E ap (at_approve E db) = (Inr (req, alloc), db2)"
    and db': "db' = db2\<lparr>audit_log := audit_log db2 @ [\<lparr>ev_action = ''lir.request.approve'', ev_target = i\<rparr>]\<rparr>"
    and r: "r = HttpJSON 200 \<lparr>resp_request = req, resp_allocation = alloc\<rparr>"
    by (rule approveRequest_ok[OF ok]) auto
  have canon: "\<forall>x\<in>set (pool_supernets (ap_pool ap) db). canonical (su_prefix x)"
    using assms(3) by (auto simp: set_pool_supernets carved_def)
  obtain x p' where x: "x \<in> set (pool_supernets (ap_pool ap) db)" "su_id x = s"
    "first_free_prefix (su_prefix x) (rq_prefix_length existing)
       (occupied_by (allocated_seen E (ap_pool ap) db) s) = Some p'" "prfx = prefix_string p'"
    by (rule cidr_codec.carve_sources_Some[OF assms(1) canon carve[unfolded sources_seen_def st]])
  have xs: "x \<in> set (supernets db)" "su_pool x = Some (ap_pool ap)"
    using x(1) by (auto simp: set_pool_supernets)
  have live_pool: "\<And>a. a \<in> set (allocations db) \<Longrightarrow> live a \<Longrightarrow> al_pool_supernet a = s \<Longrightarrow> al_pool a = ap_pool ap"
    using live_from_supernet[OF assms(3,4) xs] x(2) by simp
  have occ: "occupied_by (allocated_seen E (ap_pool ap) db) s
      = map al_prefix (filter (\<lambda>a. live a \<and> al_pool_supernet a = s) (allocations db))"
    unfolding occupied_live[OF assms(1-3)] using live_pool
    by (intro arg_cong[of _ _ "map al_prefix"] filter_cong) auto
  have "zone_free (map al_prefix (filter (\<lambda>a. live a \<and> al_pool_supernet a = s) (allocations db)))"
    using assms(3) canonical_zone by (auto simp: zone_free_def carved_def inside_def)
  then have "canonical p'"
    using first_free_prefix_sound[OF _ _ x(3)[unfolded occ]] assms(3) xs(1) by (auto simp: carved_def)
  then have rd: "cidr_in E prfx = Some p'"
    unfolding x(4) by (rule cidr_codec.read_string[OF assms(1)])
  obtain row where g: "row \<in> set (requests db)" "rq_id row = i" "req = approve_row E ap row"
      "alloc = new_alloc_row E ap db p'" "allocations db2 = allocations db @ [alloc]"
      "supernets db2 = supernets db @ [new_supernet_row E ap db p']"
    using q[unfolded st] ap rd by (cases rule: ApproveLirRequest_cases[of E ap db]) auto
  have "row = existing"
    using g(1,2) find_request_mem[OF f] assms(2,4) key_unique[of rq_id "requests db" row existing]
    by (simp add: alone_def keys_ok_def)
  then have "rq_prefix_length req = rq_prefix_length existing" by (simp add: g(3) approve_row_def)
  then show ?thesis using that[of req ap p' x] r g(4-6) xs x(2,3) ap(2) db' by (simp add: occ)
qed

lemma approve_carved:
  assumes "cidr_codec (cidr_text E) (cidr_in E)" "alone E" "carved db" "keys_ok db"
  shows "carved (snd (approveRequest E p raw body db))"
proof (cases "approveRequest E p raw body db")
  case (Pair r db')
  show ?thesis
  proof (cases "is_error r")
    case True
    then show ?thesis using approveRequest_settles[OF assms(2) Pair] assms(3) Pair by simp
  next
    case False
    obtain req :: lir_request and x q and ap :: approval where
      x: "x \<in> set (supernets db)" "su_id x = ap_pool_supernet ap" "su_pool x = Some (ap_pool ap)"
      and free: "first_free_prefix (su_prefix x) (rq_prefix_length req)
        (map al_prefix (filter (\<lambda>a. live a \<and> al_pool_supernet a = su_id x) (allocations db))) = Some q"
      and new: "allocations db' = allocations db @ [new_alloc_row E ap db q]"
        "supernets db' = supernets db @ [new_supernet_row E ap db q]"
      by (rule approve_carves[OF assms Pair False]) (rule that)
    have cx: "canonical (su_prefix x)" using assms(3) x(1) by (simp add: carved_def)
    have zf: "zone_free (map al_prefix (filter (\<lambda>a. live a \<and> al_pool_supernet a = su_id x) (allocations db)))"
      using assms(3) canonical_zone by (auto simp: zone_free_def carved_def inside_def)
    note sound = first_free_prefix_sound[OF cx zf free]
    have fresh: "\<And>a. \<lbrakk>a \<in> set (allocations db); live a; al_pool_supernet a = ap_pool_supernet ap\<rbrakk>
        \<Longrightarrow> disjoint_prefixes (al_prefix a) q"
      using sound x(2) by (simp add: free_of_live)
    have sym: "\<And>a b. disjoint_prefixes a b \<Longrightarrow> disjoint_prefixes b a"
      by (auto simp: disjoint_prefixes_def)
    have "\<exists>s\<in>set (supernets db'). su_id s = al_pool_supernet a \<and> su_pool s = Some (al_pool a)
        \<and> inside (al_prefix a) (su_prefix s)" if "a \<in> set (allocations db')" "live a" for a
      using that assms(3) x sound unfolding carved_def by (auto simp: new inside_def)
    moreover have "disjoint_prefixes (al_prefix a) (al_prefix b)"
      if "a \<in> set (allocations db')" "b \<in> set (allocations db')" "live a" "live b"
        "al_pool_supernet a = al_pool_supernet b" "al_id a \<noteq> al_id b" for a b
      using that assms(3) fresh sym unfolding carved_def by (auto simp: new)
    ultimately show ?thesis using assms(3) sound unfolding Pair snd_conv carved_def
      by (simp add: new)
  qed
qed

lemma handle_carved:
  assumes "cidr_codec (cidr_text E) (cidr_in E)" "alone E" "keys_ok db" "carved db"
  shows "carved (snd (handle E p c db))"
  using assms
  by (cases c) (simp_all add: answer_def attach_carved detach_carved deletePool_carved approve_carved
      carved_quiet[OF quiet_handlers(1)] carved_quiet[OF quiet_handlers(2)]
      carved_quiet[OF quiet_handlers(3)] carved_quiet[OF quiet_handlers(4)]
      carved_quiet[OF quiet_handlers(5)] carved_quiet[OF quiet_handlers(6)]
      carved_quiet[OF quiet_handlers(7)] carved_quiet[OF quiet_handlers(8)]
      carved_quiet[OF quiet_handlers(9)] carved_quiet[OF quiet_handlers(10)]
      carved_quiet[OF quiet_handlers(11)] carved_quiet[OF quiet_handlers(12)]
      carved_quiet[OF quiet_handlers(13)] carved_quiet[OF quiet_handlers(14)]
      carved_quiet[OF quiet_handlers(15)])


section \<open>Properties\<close>

lemma quiet_env_cidr: "cidr_codec (cidr_text quiet_env) (cidr_in quiet_env)"
  using go_cidr.cidr_codec_axioms by (simp add: quiet_env_def)

lemma example_db_carved: "keys_ok example_db" "carved example_db"
proof -
  show "keys_ok example_db" using example_db_ok by (simp add: lir_inv_def)
  have "canonical (PrefixFrom (mk_addr V4 167772160) 24)" by code_simp
  then show "carved example_db"
    by (simp add: carved_def example_db_def example_supernet_def)
qed

lemma serve_carved:
  assumes "cidr_codec (cidr_text E) (cidr_in E)" "alone E" "keys_ok db" "carved db"
  shows "carved (snd (serve E caller c db))"
  using handle_carved[OF assms] assms(4) by (auto simp: serve_def split: option.split gate.split)

lemma inside_overlap:
  assumes "inside p s" "inside q t" "\<not> disjoint_prefixes p q"
  shows "\<not> disjoint_prefixes s t"
  using assms by (auto simp: inside_def disjoint_prefixes_def)

text \<open>C5. With calls handled one at a time, whatever is requested, approved, returned, attached,
  detached or deleted: every live allocation lies inside the supernet it was carved from, which is
  still attached to the allocation's pool, and two live allocations of one source supernet share no
  address.  Live allocations that do share an address come from two source supernets that overlap
  themselves (nothing keeps a nested supernet from being attached).\<close>

theorem live_allocations_disjoint:
  assumes "cidr_codec (cidr_text E) (cidr_in E)" "alone E" "keys_ok db" "carved db"
    and after: "db' = snd (serve E caller c db)"
  shows "carved db'
     \<and> (\<forall>a\<in>set (allocations db'). \<forall>b\<in>set (allocations db').
          live a \<and> live b \<and> al_id a \<noteq> al_id b \<and> \<not> disjoint_prefixes (al_prefix a) (al_prefix b) \<longrightarrow>
          (\<exists>s\<in>set (supernets db'). \<exists>t\<in>set (supernets db').
             su_id s = al_pool_supernet a \<and> su_id t = al_pool_supernet b \<and> su_id s \<noteq> su_id t
             \<and> \<not> disjoint_prefixes (su_prefix s) (su_prefix t)))"
proof -
  have c: "carved db'" unfolding after by (rule serve_carved[OF assms(1-4)])
  have "\<exists>s\<in>set (supernets db'). \<exists>t\<in>set (supernets db').
      su_id s = al_pool_supernet a \<and> su_id t = al_pool_supernet b \<and> su_id s \<noteq> su_id t
      \<and> \<not> disjoint_prefixes (su_prefix s) (su_prefix t)"
    if ab: "a \<in> set (allocations db')" "b \<in> set (allocations db')" "live a" "live b" "al_id a \<noteq> al_id b"
      "\<not> disjoint_prefixes (al_prefix a) (al_prefix b)" for a b
  proof -
    obtain s t where s: "s \<in> set (supernets db')" "su_id s = al_pool_supernet a" "inside (al_prefix a) (su_prefix s)"
      and t: "t \<in> set (supernets db')" "su_id t = al_pool_supernet b" "inside (al_prefix b) (su_prefix t)"
      using c ab(1-4) unfolding carved_def by meson
    have "al_pool_supernet a \<noteq> al_pool_supernet b" using c ab unfolding carved_def by blast
    then show ?thesis using s(2) t(2) inside_overlap[OF s(3) t(3) ab(6)]
      by (intro bexI[OF _ s(1)] bexI[OF _ t(1)]) simp
  qed
  then show ?thesis using c by blast
qed

lemma live_allocations_disjoint_witness:
  "carved (snd (serve quiet_env (Some nic) (CApprove ''7'' (Inl ())) example_db))"
  using live_allocations_disjoint[OF quiet_env_cidr quiet_env_ok(2) example_db_carved refl] by blast

text \<open>C7. "Pool exhausted" is the truth.  With calls handled one at a time and no failing statement, take
  a pool with sources, none of which holds more than \<open>2 ^ 20\<close> prefixes of the requested length.  The
  carver refuses for want of space exactly when in every source larger than the requested range each
  aligned prefix of that length meets a live allocation of the source.  (A source that is itself of the
  requested length is never granted whole.)\<close>

theorem pool_exhausted_iff_full:
  assumes "cidr_codec (cidr_text E) (cidr_in E)" "alone E" "\<forall>Q. fault E Q = None"
    and "keys_ok db" "carved db" "pool_supernets pool db \<noteq> []"
    and "\<forall>x\<in>set (supernets db). su_pool x = Some pool \<longrightarrow> nat len - plen (su_prefix x) \<le> 20"
  shows "fst (carveForApproval E pool len db)
       = Inl (HttpError 409 ''pool exhausted: no free range at the requested prefix length'')
     \<longleftrightarrow> (\<forall>x\<in>set (supernets db). su_pool x = Some pool \<longrightarrow>
         (\<forall>q. canonical q \<and> pfam q = pfam (su_prefix x) \<and> int (plen q) = len \<and> int (plen (su_prefix x)) < len
            \<and> pfx_range q \<subseteq> pfx_range (su_prefix x) \<longrightarrow>
            (\<exists>a\<in>set (allocations db). live a \<and> al_pool_supernet a = su_id x
               \<and> \<not> disjoint_prefixes (al_prefix a) q)))"
proof -
  let ?occ = "\<lambda>x. map al_prefix (filter (\<lambda>a. live a \<and> al_pool_supernet a = su_id x) (allocations db))"
  let ?src = "map (\<lambda>x. (su_id x, cidr_text E (su_prefix x))) (pool_supernets pool db)"
  let ?taken = "occupied_by (allocated_seen E pool db)"
  have canon: "\<forall>x\<in>set (pool_supernets pool db). canonical (su_prefix x)"
    using assms(5) by (auto simp: set_pool_supernets carved_def)
  have occ: "?taken (su_id x) = ?occ x" if "x \<in> set (pool_supernets pool db)" for x
    unfolding occupied_live[OF assms(1,2,5)]
    using that live_from_supernet[OF assms(5,4), of x pool] by (auto simp: set_pool_supernets intro!: arg_cong[of _ _ "map al_prefix"] filter_cong)
  have "fst (carveForApproval E pool len db)
       = Inl (HttpError 409 ''pool exhausted: no free range at the requested prefix length'')
     \<longleftrightarrow> carve_sources ?taken len ?src = None"
    using assms(2,3,6)
    by (auto simp: carveForApproval_def hbind_def hquery_def exec_def alone_def reject_if_def hreturn_def
        hanswer_def ListPoolSupernetsForCarve_def ListAllocatedPrefixesInPool_def reading_def
        allocated_seen_def alone_states split: option.split)
  also have "\<dots> \<longleftrightarrow> (\<forall>x\<in>set (pool_supernets pool db). first_free_prefix (su_prefix x) len (?occ x) = None)"
    unfolding cidr_codec.carve_sources_None[OF assms(1) canon] using occ by auto
  also have "\<dots> \<longleftrightarrow> (\<forall>x\<in>set (pool_supernets pool db). \<forall>q. canonical q \<and> pfam q = pfam (su_prefix x)
      \<and> int (plen q) = len \<and> int (plen (su_prefix x)) < len \<and> pfx_range q \<subseteq> pfx_range (su_prefix x)
      \<longrightarrow> \<not> free_of (?occ x) q)"
  proof (rule ball_cong[OF refl])
    fix x assume x: "x \<in> set (pool_supernets pool db)"
    have c: "canonical (su_prefix x)" using canon x by blast
    have z: "zone_free (?occ x)"
      using assms(5) canonical_zone by (auto simp: zone_free_def carved_def inside_def)
    have few: "nat len - plen (su_prefix x) \<le> 20" using assms(7) x by (auto simp: set_pool_supernets)
    show "(first_free_prefix (su_prefix x) len (?occ x) = None) =
      (\<forall>q. canonical q \<and> pfam q = pfam (su_prefix x) \<and> int (plen q) = len \<and> int (plen (su_prefix x)) < len
         \<and> pfx_range q \<subseteq> pfx_range (su_prefix x) \<longrightarrow> \<not> free_of (?occ x) q)"
    proof (cases "good_size (su_prefix x) len")
      case True
      then show ?thesis
        using first_free_prefix_complete[OF c z True few] first_free_prefix_sound[OF c z, of len]
        by (cases "first_free_prefix (su_prefix x) len (?occ x)") (auto simp: good_size_def)
    next
      case False
      have "\<not> (canonical q \<and> pfam q = pfam (su_prefix x) \<and> int (plen q) = len \<and> int (plen (su_prefix x)) < len)" for q
      proof
        assume q: "canonical q \<and> pfam q = pfam (su_prefix x) \<and> int (plen q) = len \<and> int (plen (su_prefix x)) < len"
        then have "plen q \<le> bit_len (pfam (su_prefix x))" unfolding canonical_def valid_prefix_def by metis
        then show False using False q by (auto simp: good_size_def)
      qed
      moreover have "first_free_prefix (su_prefix x) len (?occ x) = None"
        using False by (auto simp: first_free_prefix_def good_size_def BitLen_def pfam_def)
      ultimately show ?thesis by blast
    qed
  qed
  finally show ?thesis
    by (simp add: set_pool_supernets free_of_live Ball_def Bex_def imp_conjL conj_assoc)
qed


definition full_db :: lir_db where
  "full_db = snd (serve quiet_env (Some nic) (CApprove ''8'' (Inl ()))
     (snd (serve quiet_env (Some nic) (CApprove ''7'' (Inl ()))
       (example_db\<lparr>supernets := [example_supernet\<lparr>su_prefix := PrefixFrom (mk_addr V4 167772160) 25\<rparr>]\<rparr>))))"

lemma pool_exhausted_iff_full_witness:
  "\<exists>a\<in>set (allocations full_db). live a
     \<and> \<not> disjoint_prefixes (al_prefix a) (PrefixFrom (mk_addr V4 167772224) 26)"
proof -
  let ?p = "PrefixFrom (mk_addr V4 167772160) 25"
  let ?db = "example_db\<lparr>supernets := [example_supernet\<lparr>su_prefix := ?p\<rparr>]\<rparr>"
  have "canonical ?p" by code_simp
  then have "keys_ok ?db" "carved ?db"
    by (simp_all add: keys_ok_def carved_def example_db_def example_supernet_def example_request_def example_pool_def)
  moreover have fresh: "others_commit quiet_env" "uuids_fresh quiet_env"
    using quiet_env_ok alone_others by blast+
  moreover have "keys_ok d \<Longrightarrow> keys_ok (snd (serve quiet_env (Some nic) c d))" for c d
  proof -
    assume k: "keys_ok d"
    have "keys_ok x \<Longrightarrow> commits x y \<Longrightarrow> keys_ok y" for x y
      by (rotate_tac 1, induction rule: rtranclp_induct) (auto intro: keys_kept)
    then show ?thesis using k serve_commits[OF fresh] by blast
  qed
  ultimately have ok: "keys_ok full_db" "carved full_db"
    unfolding full_db_def
    by (auto intro!: serve_carved quiet_env_cidr quiet_env_ok)
  have sup: "pool_supernets 1 full_db \<noteq> []"
    "\<forall>x\<in>set (supernets full_db). su_pool x = Some 1 \<longrightarrow>
       nat 26 - plen (su_prefix x) \<le> 20"
    "\<exists>x\<in>set (supernets full_db). su_pool x = Some 1 \<and> su_prefix x = ?p"
    "fst (carveForApproval quiet_env 1 26 full_db) =
       (Inl (HttpError 409 ''pool exhausted: no free range at the requested prefix length'') :: unit resp + uuid \<times> string)"
    by code_simp+
  have "\<forall>Q. fault quiet_env Q = None" by (simp add: quiet_env_def)
  from pool_exhausted_iff_full[OF quiet_env_cidr quiet_env_ok(2) this ok sup(1,2)] sup(3,4)
  have full: "\<forall>q. canonical q \<and> pfam q = pfam ?p \<and> int (plen q) = 26 \<and> pfx_range q \<subseteq> pfx_range ?p \<longrightarrow>
      (\<exists>a\<in>set (allocations full_db). live a \<and> \<not> disjoint_prefixes (al_prefix a) q)"
    by fastforce
  let ?q = "PrefixFrom (mk_addr V4 167772224) 26"
  have "canonical ?q \<and> pfam ?q = pfam ?p \<and> int (plen ?q) = 26 \<and> pfx_lo ?p \<le> pfx_lo ?q
      \<and> pfx_lo ?q + 2 ^ host_bits ?q \<le> pfx_lo ?p + 2 ^ host_bits ?p"
    by code_simp
  then have "canonical ?q \<and> pfam ?q = pfam ?p \<and> int (plen ?q) = 26 \<and> pfx_range ?q \<subseteq> pfx_range ?p"
    unfolding pfx_range_def by (elim conjE, intro conjI) auto
  with full show ?thesis by blast
qed

text \<open>Two approvals in flight at once can be granted the same range: if another request of the
  same pool is approved between the carver's reads and the insert of the first, no statement and
  no constraint notices, both answer 200, and two live allocations of one supernet overlap.\<close>

theorem concurrent_approvals_overlap:
  "uuids_fresh racing_env \<and> others_commit racing_env \<and> lir_inv example_db \<and> carved example_db
   \<and> fst (serve racing_env (Some nic) (CApprove ''7'' (Inl ())) example_db) = (200, [])
   \<and> map (\<lambda>a. (al_request a, al_pool_supernet a, al_prefix a, al_status a))
       (allocations (snd (serve racing_env (Some nic) (CApprove ''7'' (Inl ())) example_db)))
     = [(8, 10, PrefixFrom (mk_addr V4 167772160) 26, Active),
        (7, 10, PrefixFrom (mk_addr V4 167772160) 26, Active)]"
proof (intro conjI racing_env_ok example_db_ok example_db_carved)
  show "fst (serve racing_env (Some nic) (CApprove ''7'' (Inl ())) example_db) = (200, [])"
    by code_simp
  show "map (\<lambda>a. (al_request a, al_pool_supernet a, al_prefix a, al_status a))
       (allocations (snd (serve racing_env (Some nic) (CApprove ''7'' (Inl ())) example_db)))
     = [(8, 10, PrefixFrom (mk_addr V4 167772160) 26, Active),
        (7, 10, PrefixFrom (mk_addr V4 167772160) 26, Active)]"
    by code_simp
qed

definition nested_db :: lir_db where
  "nested_db = example_db\<lparr>
     pools := [example_pool, example_pool\<lparr>pool_id := 2, pool_name := ''q'', pool_slug := ''q''\<rparr>],
     supernets := [example_supernet, example_supernet\<lparr>su_id := 11, su_pool := None,
       su_prefix := PrefixFrom (mk_addr V4 167772160) 25\<rparr>]\<rparr>"

text \<open>Attaching does not look at the other sources: a supernet inside one that feeds another
  pool is accepted, and approvals from the two pools are then granted the same addresses, even one
  after the other.\<close>

theorem nested_sources_double_grant:
  "let att = serve quiet_env (Some nic) (CAttach ''2'' (Some ''11'')) nested_db;
       ap7 = serve quiet_env (Some nic) (CApprove ''7'' (Inl ())) (snd att);
       ap8 = serve quiet_env (Some nic)
         (CApprove ''8'' (Inr (Some \<lparr>ApprovedPoolID = Some ''2'', ApproveNotes = None\<rparr>))) (snd ap7)
   in fst att = (204, []) \<and> fst ap7 = (200, []) \<and> fst ap8 = (200, [])
      \<and> map (\<lambda>a. (al_request a, al_pool a, al_prefix a)) (filter live (allocations (snd ap8)))
        = [(7, 1, PrefixFrom (mk_addr V4 167772160) 26), (8, 2, PrefixFrom (mk_addr V4 167772160) 26)]"
  by code_simp

end
