(* ===== verification/ArinClient.thy ===== *)
theory ArinClient
  imports LirStore
begin

text \<open>
  The ARIN Reg-RWS side of the registry, \<^verbatim>\<open>internal/lir/arin\<close>: the retry schedule
  (\<^verbatim>\<open>backoff.go\<close>), the settings (\<^verbatim>\<open>settings.go\<close>) and the HTTP client (\<^verbatim>\<open>client.go\<close>).
  The transport, URL escaping and XML coding of Go's library are the fields of
  \<open>http_lib\<close>; times are in seconds.
\<close>

section \<open>Backoff\<close>

definition MaxAttempts :: nat where
  "MaxAttempts = 5"

definition BackoffAfterAttempt :: "nat \<Rightarrow> int" where
  "BackoffAfterAttempt attempts =
     (if attempts = 1 then 60 else if attempts = 2 then 5 * 60
      else if attempts = 3 then 30 * 60 else if attempts = 4 then 2 * 60 * 60 else 0)"

definition ShouldRetry :: "nat \<Rightarrow> bool" where
  "ShouldRetry attempts \<longleftrightarrow> attempts < MaxAttempts"

section \<open>Settings\<close>

record arin_config =
  Endpoint :: string
  APIKey :: string
  CfgEnabled :: bool

definition EndpointOTE :: string where
  "EndpointOTE = ''https://reg.ote.arin.net''"

text \<open>\<^verbatim>\<open>json.Unmarshal\<close> into a string or a bool; \<open>None\<close> is an error, which leaves the zero value.\<close>

record 'j json_lib =
  json_string :: "'j \<Rightarrow> string option"
  json_bool :: "'j \<Rightarrow> bool option"

definition LoadConfig :: "'j json_lib \<Rightarrow> dberr + (string \<times> 'j) list \<Rightarrow> arin_config" where
  "LoadConfig J result =
     (let cfg = \<lparr>Endpoint = EndpointOTE, APIKey = [], CfgEnabled = False\<rparr> in
      case result of
        Inl _ \<Rightarrow> cfg
      | Inr rows \<Rightarrow>
          let byKey = map_of (rev rows);
              cfg1 = (case byKey ''arin.regrws.endpoint'' of
                        None \<Rightarrow> cfg
                      | Some v \<Rightarrow> (case json_string J v of
                            None \<Rightarrow> cfg
                          | Some s \<Rightarrow> if s \<noteq> [] then cfg\<lparr>Endpoint := s\<rparr> else cfg));
              cfg2 = (case byKey ''arin.regrws.api_key'' of
                        None \<Rightarrow> cfg1
                      | Some v \<Rightarrow> cfg1\<lparr>APIKey := (case json_string J v of None \<Rightarrow> [] | Some s \<Rightarrow> s)\<rparr>)
          in case byKey ''arin.regrws.enabled'' of
               None \<Rightarrow> cfg2
             | Some v \<Rightarrow> cfg2\<lparr>CfgEnabled := (case json_bool J v of None \<Rightarrow> False | Some b \<Rightarrow> b)\<rparr>)"

section \<open>Payload\<close>

record poc =
  poc_name :: string
  poc_email :: string
  poc_phone :: string

record org_row =
  org_id :: uuid
  org_name :: string
  address_line1 :: string
  city :: string
  state_province :: "string option"
  postal_code :: "string option"
  country :: string
  admin_poc :: poc
  tech_poc :: poc
  abuse_poc :: poc

record submit_job =
  job_allocation :: uuid
  job_status :: arin_state
  job_attempts :: nat
  job_prefix :: string
  job_parent_handle :: string
  job_org :: org_row

record net_detailed =
  StartAddress :: string
  EndAddress :: string
  BlockType :: string
  CidrLength :: nat
  CustomerName :: string
  OrgName :: string
  OrgAddress :: string
  OrgCity :: string
  OrgState :: string
  OrgPostCode :: string
  OrgCountry :: string
  AdminPOC :: poc
  TechPOC :: poc
  AbusePOC :: poc

definition strDeref :: "string option \<Rightarrow> string" where
  "strDeref s = (case s of None \<Rightarrow> [] | Some t \<Rightarrow> t)"

text \<open>The loop that sets the host bits, from the rightmost: bit \<open>i mod 8\<close> of byte \<open>i div 8\<close> from the
  end is bit \<open>i\<close> of the address.\<close>

definition broadcastAddr :: "prefix \<Rightarrow> addr" where
  "broadcastAddr p =
     (let masked = Masked p
      in mk_addr (pfam p)
           (fold (\<lambda>i v. set_bit i v) [0..<BitLen (paddr masked) - plen masked] (pval masked)))"

definition parsePrefixRange :: "string \<Rightarrow> string + string \<times> string \<times> nat" where
  "parsePrefixRange prfx =
     (case ParsePrefix prfx of
        None \<Rightarrow> Inl (''not a cidr: '' @ prfx)
      | Some p \<Rightarrow> Inr (addr_string (paddr (Masked p)), addr_string (broadcastAddr p), plen p))"

definition reassign_payload :: "submit_job \<Rightarrow> string + net_detailed" where
  "reassign_payload job =
     (case parsePrefixRange (job_prefix job) of
        Inl e \<Rightarrow> Inl e
      | Inr (start, stop, cidr) \<Rightarrow>
          let o' = job_org job in
          Inr \<lparr>StartAddress = start, EndAddress = stop, BlockType = ''AR'', CidrLength = cidr,
               CustomerName = org_name o', OrgName = org_name o', OrgAddress = address_line1 o',
               OrgCity = city o', OrgState = strDeref (state_province o'),
               OrgPostCode = strDeref (postal_code o'), OrgCountry = country o',
               AdminPOC = admin_poc o', TechPOC = tech_poc o', AbusePOC = abuse_poc o'\<rparr>)"

section \<open>Client\<close>

datatype arin_error = Transient string | Permanent string

datatype http_method = POST | DELETE

text \<open>\<^verbatim>\<open>request\<close> is \<^verbatim>\<open>http.NewRequestWithContext\<close> (an unusable URL), \<^verbatim>\<open>do\<close> the round trip: an error, or a
  status and a body.\<close>

record http_lib =
  request :: "string \<Rightarrow> string option"
  do_http :: "http_method \<Rightarrow> string \<Rightarrow> string \<Rightarrow> string + nat \<times> string"
  path_escape :: "string \<Rightarrow> string"
  query_escape :: "string \<Rightarrow> string"
  marshal :: "net_detailed \<Rightarrow> string + string"
  xml_handle :: "string \<Rightarrow> string option"

definition truncateBody :: "string \<Rightarrow> string" where
  "truncateBody b = (if 1024 < length b then take 1024 b @ ''...[truncated]'' else b)"

definition http_err :: "nat \<Rightarrow> string \<Rightarrow> string" where
  "http_err status body = ''arin http '' @ dec status @ '': '' @ truncateBody body"

definition classifyRemoveResponse :: "nat \<Rightarrow> string \<Rightarrow> arin_error option" where
  "classifyRemoveResponse status body =
     (if 200 \<le> status \<and> status < 300 then None
      else if status = 404 then None
      else if status = 429 \<or> 500 \<le> status then Some (Transient (http_err status body))
      else Some (Permanent (http_err status body)))"

definition parseNetHandle :: "http_lib \<Rightarrow> string \<Rightarrow> string + string" where
  "parseNetHandle L raw =
     (let body = trim_space raw in
      if body = [] then Inl ''empty response body''
      else case xml_handle L body of
             None \<Rightarrow> Inl ''parse net handle''
           | Some h \<Rightarrow> if trim_space h = [] then Inl ''response missing net handle'' else Inr h)"

definition classifyResponse :: "http_lib \<Rightarrow> nat \<Rightarrow> string \<Rightarrow> arin_error + string" where
  "classifyResponse L status body =
     (if 200 \<le> status \<and> status < 300 then
        (case parseNetHandle L body of
           Inl e \<Rightarrow> Inl (Transient (''unparseable success body: '' @ e))
         | Inr h \<Rightarrow> Inr h)
      else if status = 429 \<or> 500 \<le> status then Inl (Transient (http_err status body))
      else Inl (Permanent (http_err status body)))"

definition trim_right_slashes :: "string \<Rightarrow> string" where
  "trim_right_slashes s = rev (dropWhile (\<lambda>c. c = CHR ''/'') (rev s))"

definition base_url :: "arin_config \<Rightarrow> string" where
  "base_url cfg =
     (let endpoint = trim_right_slashes (Endpoint cfg)
      in if endpoint = [] then EndpointOTE else endpoint)"

definition RemoveReassignment ::
    "http_lib \<Rightarrow> arin_config \<Rightarrow> string \<Rightarrow> string \<Rightarrow> arin_error option" where
  "RemoveReassignment L cfg parentNetHandle netHandle =
     (if \<not> CfgEnabled cfg then Some (Permanent ''arin integration disabled'')
      else if trim_space (APIKey cfg) = [] then Some (Permanent ''arin api key not configured'')
      else if trim_space netHandle = [] then Some (Permanent ''allocation has no arin_net_handle'')
      else let target = base_url cfg @ ''/rest/net/'' @ path_escape L netHandle
             @ ''?apikey='' @ query_escape L (APIKey cfg) in
        case request L target of
          Some e \<Rightarrow> Some (Permanent (''build request: '' @ e))
        | None \<Rightarrow>
            (case do_http L DELETE target [] of
               Inl e \<Rightarrow> Some (Transient (''http: '' @ e))
             | Inr (status, body) \<Rightarrow> classifyRemoveResponse status body))"

definition SubmitReassignDetailed ::
    "http_lib \<Rightarrow> arin_config \<Rightarrow> submit_job \<Rightarrow> arin_error + string" where
  "SubmitReassignDetailed L cfg job =
     (if \<not> CfgEnabled cfg then Inl (Permanent ''arin integration disabled'')
      else if trim_space (APIKey cfg) = [] then Inl (Permanent ''arin api key not configured'')
      else case reassign_payload job of
             Inl e \<Rightarrow> Inl (Permanent (''build payload: '' @ e))
           | Inr doc \<Rightarrow>
        (case marshal L doc of
           Inl e \<Rightarrow> Inl (Permanent (''build payload: '' @ e))
         | Inr payload \<Rightarrow>
        let target = base_url cfg @ ''/rest/net/'' @ path_escape L (job_parent_handle job)
             @ ''/reassign/detailed?apikey='' @ query_escape L (APIKey cfg) in
        (case request L target of
           Some e \<Rightarrow> Inl (Permanent (''build request: '' @ e))
         | None \<Rightarrow>
            (case do_http L POST target payload of
               Inl e \<Rightarrow> Inl (Transient (''http: '' @ e))
             | Inr (status, body) \<Rightarrow> classifyResponse L status body))))"

definition error_string :: "arin_error \<Rightarrow> string" where
  "error_string e =
     (case e of Transient m \<Rightarrow> ''arin transient error: '' @ m
      | Permanent m \<Rightarrow> ''arin permanent error: '' @ m)"

section \<open>The end of a range\<close>

lemma set_low_bits: "2 ^ h dvd (v :: nat) \<Longrightarrow> fold set_bit [0..<h] v = v + (2 ^ h - 1)"
proof (induction h arbitrary: v)
  case (Suc h)
  have "fold set_bit [0..<h] v = v + (2 ^ h - 1)"
    using Suc.IH[of v] Suc.prems by (meson dvd_power_le le_imp_power_dvd dvd_trans le_SucI order_refl)
  moreover have "\<not> bit (v + (2 ^ h - 1)) h"
  proof -
    obtain k where k: "v = 2 ^ Suc h * k" using Suc.prems by blast
    have "v + (2 ^ h - 1) = (2 ^ h - 1) + 2 ^ h * (2 * k)" by (simp add: k)
    moreover have "((2 ^ h - 1) + 2 ^ h * (2 * k)) div 2 ^ h = 2 * k + (2 ^ h - 1) div 2 ^ h"
      by (rule div_mult_self2) simp
    moreover have "(2 ^ h - 1 :: nat) div 2 ^ h = 0" by simp
    ultimately have "(v + (2 ^ h - 1)) div 2 ^ h = 2 * k" by presburger
    then show ?thesis by (simp add: bit_iff_odd)
  qed
  ultimately have "fold set_bit [0..<Suc h] v = v + (2 ^ h - 1) + 2 ^ h"
    by (simp add: set_bit_eq)
  then show ?case by simp
qed simp

lemma broadcastAddr_val:
  "val (broadcastAddr p) = pfx_lo p + (2 ^ host_bits p - 1)" "fam (broadcastAddr p) = pfam p"
proof -
  have "BitLen (paddr (Masked p)) - plen (Masked p) = host_bits p" "pval (Masked p) = pfx_lo p"
    by (simp_all add: Masked_def PrefixFrom_def BitLen_def host_bits_def pfam_def pval_def pfx_lo_def)
  moreover have "2 ^ host_bits p dvd pfx_lo p" by (simp add: pfx_lo_def)
  ultimately show "val (broadcastAddr p) = pfx_lo p + (2 ^ host_bits p - 1)"
    by (simp add: broadcastAddr_def Let_def set_low_bits)
qed (simp add: broadcastAddr_def)

end
