(* ===== verification/ArinWorker.thy ===== *)
theory ArinWorker
  imports ArinClient LirProps
begin

text \<open>
  The worker of \<^verbatim>\<open>internal/lir/arin/worker.go\<close> over the tables of the registry: the
  two claim queries, one job per transaction, and the tick that drains both queues
  within its budget.  A transaction is one step: the claimed row stays locked until
  it ends, so nothing else commits to it in between.
\<close>

section \<open>Claims\<close>

definition arin_state_text :: "arin_state \<Rightarrow> string" where
  "arin_state_text s =
     (case s of ArinNone \<Rightarrow> ''none'' | ArinPending \<Rightarrow> ''pending'' | ArinRegistered \<Rightarrow> ''registered''
      | ArinFailed \<Rightarrow> ''failed'' | ArinRemoving \<Rightarrow> ''removing'' | ArinRemoved \<Rightarrow> ''removed'')"

text \<open>The intervals of the \<^verbatim>\<open>CASE\<close> in both claims.\<close>

definition sql_backoff :: "nat \<Rightarrow> int" where
  "sql_backoff attempts =
     (if attempts = 1 then 60 else if attempts = 2 then 300 else if attempts = 3 then 1800 else 7200)"

definition retry_due :: "int \<Rightarrow> nat \<Rightarrow> lir_allocation \<Rightarrow> bool" where
  "retry_due t max_attempts a \<longleftrightarrow>
     arin_status a = ArinFailed \<and> arin_attempts a < max_attempts
     \<and> (case arin_last_attempt_at a of None \<Rightarrow> True
        | Some l \<Rightarrow> l + sql_backoff (arin_attempts a) < t)"

definition upstream :: "lir_db \<Rightarrow> lir_allocation \<Rightarrow> string option" where
  "upstream db a = Option.bind (find_pool (al_pool a) db) arin_parent_net_handle"

definition submit_eligible :: "int \<Rightarrow> nat \<Rightarrow> lir_db \<Rightarrow> lir_allocation \<Rightarrow> bool" where
  "submit_eligible t max_attempts db a \<longleftrightarrow>
     upstream db a \<noteq> None \<and> arin_net_handle a = None
     \<and> (arin_status a = ArinPending \<or> retry_due t max_attempts a)"

definition remove_eligible :: "int \<Rightarrow> nat \<Rightarrow> lir_db \<Rightarrow> lir_allocation \<Rightarrow> bool" where
  "remove_eligible t max_attempts db a \<longleftrightarrow>
     upstream db a \<noteq> None \<and> arin_net_handle a \<noteq> None
     \<and> (arin_status a = ArinRemoving \<or> retry_due t max_attempts a)"

text \<open>One turn of the worker: the environment of its statements, failures of \<^verbatim>\<open>BEGIN\<close> and
  \<^verbatim>\<open>COMMIT\<close>, the rows others hold locked, and the organizations joined to the claim.\<close>

record turn =
  t_env :: env
  begin_fault :: "dberr option"
  commit_fault :: "dberr option"
  locked :: "uuid \<Rightarrow> bool"
  org_of :: "uuid \<Rightarrow> org_row"

definition first_by :: "('a \<Rightarrow> 'k :: linorder) \<Rightarrow> ('a \<Rightarrow> bool) \<Rightarrow> 'a list \<Rightarrow> 'a option" where
  "first_by k P xs = (case sort_key k (filter P xs) of [] \<Rightarrow> None | x # _ \<Rightarrow> Some x)"

definition ClaimNextArinSubmitJob :: "turn \<Rightarrow> nat \<Rightarrow> lir_db \<Rightarrow> (dberr + submit_job) \<times> lir_db" where
  "ClaimNextArinSubmitJob T max_attempts = reading (\<lambda>db.
     case first_by (\<lambda>a. (map of_char (arin_state_text (arin_status a)) :: nat list, allocated_at a))
            (\<lambda>a. submit_eligible (clock (t_env T)) max_attempts db a \<and> \<not> locked T (al_id a))
            (allocations db) of
       None \<Rightarrow> Inl NoRows
     | Some a \<Rightarrow> Inr \<lparr>job_allocation = al_id a, job_status = arin_status a,
                   job_attempts = arin_attempts a, job_prefix = cidr_text (t_env T) (al_prefix a),
                   job_parent_handle = strDeref (upstream db a), job_org = org_of T (al_org a)\<rparr>)"

record remove_job =
  rm_allocation :: uuid
  rm_attempts :: nat
  rm_net_handle :: string
  rm_parent_handle :: string

definition ClaimNextArinRemoveJob :: "turn \<Rightarrow> nat \<Rightarrow> lir_db \<Rightarrow> (dberr + remove_job) \<times> lir_db" where
  "ClaimNextArinRemoveJob T max_attempts = reading (\<lambda>db.
     case first_by (\<lambda>a. (map of_char (arin_state_text (arin_status a)) :: nat list,
              returned_at a = None, (case returned_at a of None \<Rightarrow> 0 | Some r \<Rightarrow> r), allocated_at a))
            (\<lambda>a. remove_eligible (clock (t_env T)) max_attempts db a \<and> \<not> locked T (al_id a))
            (allocations db) of
       None \<Rightarrow> Inl NoRows
     | Some a \<Rightarrow> Inr \<lparr>rm_allocation = al_id a, rm_attempts = arin_attempts a,
                   rm_net_handle = strDeref (arin_net_handle a),
                   rm_parent_handle = strDeref (upstream db a)\<rparr>)"

section \<open>One job\<close>

text \<open>The result of a turn: the allocations handed to the client, which calls ARIN for them unless the
  API key is empty or the payload cannot be built, \<^verbatim>\<open>more\<close>, and the error.\<close>

type_synonym turn_result = "uuid list \<times> bool \<times> dberr option"

definition in_txn :: "turn \<Rightarrow> query \<Rightarrow> (lir_db \<Rightarrow> (dberr + 'a) \<times> lir_db) \<Rightarrow> lir_db \<Rightarrow> (dberr + 'a) \<times> lir_db" where
  "in_txn T Q f db = (case fault (t_env T) Q of Some e \<Rightarrow> (Inl e, db) | None \<Rightarrow> f db)"

definition marked :: "uuid \<Rightarrow> (dberr + unit) \<times> lir_db \<Rightarrow> turn_result \<times> lir_db" where
  "marked i r =
     (case r of (Inl e, db) \<Rightarrow> (([i], True, Some e), db) | (Inr _, db) \<Rightarrow> (([i], True, None), db))"

definition ProcessOne ::
    "turn \<Rightarrow> (submit_job \<Rightarrow> arin_error + string) \<Rightarrow> lir_db \<Rightarrow> turn_result \<times> lir_db" where
  "ProcessOne T submit db =
     (case in_txn T QClaimSubmit (ClaimNextArinSubmitJob T MaxAttempts) db of
        (Inl e, db1) \<Rightarrow> (([], False, if e = NoRows then None else Some e), db1)
      | (Inr job, db1) \<Rightarrow>
          let i = job_allocation job; t = clock (t_env T) in
          marked i
            (case submit job of
               Inl err \<Rightarrow> in_txn T QMarkFailed (MarkArinFailed t i (error_string err)) db1
             | Inr h \<Rightarrow> in_txn T QMarkRegistered (MarkArinRegistered t i h) db1))"

definition ProcessOneRemove ::
    "turn \<Rightarrow> (string \<Rightarrow> string \<Rightarrow> arin_error option) \<Rightarrow> lir_db \<Rightarrow> turn_result \<times> lir_db" where
  "ProcessOneRemove T remove db =
     (case in_txn T QClaimRemove (ClaimNextArinRemoveJob T MaxAttempts) db of
        (Inl e, db1) \<Rightarrow> (([], False, if e = NoRows then None else Some e), db1)
      | (Inr job, db1) \<Rightarrow>
          let i = rm_allocation job; t = clock (t_env T) in
          marked i
            (case remove (rm_parent_handle job) (rm_net_handle job) of
               Some err \<Rightarrow> in_txn T QMarkFailed (MarkArinFailed t i (error_string err)) db1
             | None \<Rightarrow> in_txn T QMarkRemoved (MarkArinRemoved t i) db1))"

text \<open>\<^verbatim>\<open>processOneTxWrapped\<close>: an error of the job or of \<^verbatim>\<open>COMMIT\<close> rolls back; the call to ARIN stays
  made.\<close>

definition tx_wrapped :: "turn \<Rightarrow> (lir_db \<Rightarrow> turn_result \<times> lir_db) \<Rightarrow> lir_db \<Rightarrow> turn_result \<times> lir_db" where
  "tx_wrapped T body db =
     (case begin_fault T of
        Some e \<Rightarrow> (([], False, Some e), db)
      | None \<Rightarrow>
          (case body db of
             ((calls, again, Some e), db1) \<Rightarrow> ((calls, again, Some e), db)
           | ((calls, again, None), db1) \<Rightarrow>
               (case commit_fault T of
                  Some e \<Rightarrow> ((calls, again, Some e), db)
                | None \<Rightarrow> ((calls, again, None), db1))))"

section \<open>The tick\<close>

text \<open>\<open>drain step b n\<close>: the loop with \<open>b\<close> of the budget left, from turn \<open>n\<close>; answers the calls,
  the rest of the budget, the next turn and the error that stops the tick.\<close>

fun drain ::
    "(nat \<Rightarrow> lir_db \<Rightarrow> turn_result \<times> lir_db) \<Rightarrow> nat \<Rightarrow> nat \<Rightarrow> lir_db
     \<Rightarrow> (uuid list \<times> nat \<times> nat \<times> dberr option) \<times> lir_db" where
  "drain step 0 n db = (([], 0, n, None), db)"
| "drain step (Suc b) n db =
     (case step n db of
        ((calls, again, Some e), db1) \<Rightarrow> ((calls, Suc b, Suc n, Some e), db1)
      | ((calls, False, None), db1) \<Rightarrow> ((calls, Suc b, Suc n, None), db1)
      | ((calls, True, None), db1) \<Rightarrow>
          (case drain step b (Suc n) db1 of
             ((calls', b', n', e), db2) \<Rightarrow> ((calls @ calls', b', n', e), db2)))"

definition submit_turn ::
    "(nat \<Rightarrow> turn) \<Rightarrow> (submit_job \<Rightarrow> arin_error + string) \<Rightarrow> nat \<Rightarrow> lir_db \<Rightarrow> turn_result \<times> lir_db" where
  "submit_turn Ts submit n = tx_wrapped (Ts n) (ProcessOne (Ts n) submit)"

definition remove_turn ::
    "(nat \<Rightarrow> turn) \<Rightarrow> (string \<Rightarrow> string \<Rightarrow> arin_error option) \<Rightarrow> nat \<Rightarrow> lir_db \<Rightarrow> turn_result \<times> lir_db" where
  "remove_turn Ts remove n = tx_wrapped (Ts n) (ProcessOneRemove (Ts n) remove)"

text \<open>The allocations handed to the client in a tick, and the database after it.\<close>

definition tick ::
    "nat \<Rightarrow> (nat \<Rightarrow> turn) \<Rightarrow> http_lib \<Rightarrow> arin_config \<Rightarrow> lir_db \<Rightarrow> uuid list \<times> lir_db" where
  "tick MaxPerTick Ts L cfg db =
     (if \<not> CfgEnabled cfg then ([], db)
      else case drain (submit_turn Ts (SubmitReassignDetailed L cfg)) MaxPerTick 0 db of
             ((calls, b, n, Some e), db1) \<Rightarrow> (calls, db1)
           | ((calls, b, n, None), db1) \<Rightarrow>
               (case drain (remove_turn Ts (RemoveReassignment L cfg)) b n db1 of
                  ((calls', _, _, _), db2) \<Rightarrow> (calls @ calls', db2)))"

text \<open>\<^verbatim>\<open>Run\<close> until it is cancelled: the first tick at once, then one per fire of the ticker; each
  loads the settings afresh.\<close>

definition Run ::
    "nat \<Rightarrow> http_lib \<Rightarrow> 'j json_lib \<Rightarrow> ((dberr + (string \<times> 'j) list) \<times> (nat \<Rightarrow> turn)) list
     \<Rightarrow> lir_db \<Rightarrow> uuid list list \<times> lir_db" where
  "Run MaxPerTick L J fires db =
     fold (\<lambda>(settings, Ts) (log, d).
        case tick MaxPerTick Ts L (LoadConfig J settings) d of (calls, d') \<Rightarrow> (log @ [calls], d'))
       fires ([], db)"


section \<open>What one turn does\<close>

lemma first_by_Some: "first_by k P xs = Some x \<Longrightarrow> x \<in> set xs \<and> P x"
proof -
  assume "first_by k P xs = Some x"
  then have "x \<in> set (sort_key k (filter P xs))"
    unfolding first_by_def by (cases "sort_key k (filter P xs)") simp_all
  then show ?thesis by simp
qed

lemma first_by_None: "first_by k P xs = None \<longleftrightarrow> (\<forall>x\<in>set xs. \<not> P x)"
proof -
  have "first_by k P xs = None \<longleftrightarrow> sort_key k (filter P xs) = []"
    by (auto simp: first_by_def split: list.splits)
  also have "\<dots> \<longleftrightarrow> filter P xs = []" by (metis length_0_conv length_sort)
  finally show ?thesis by (simp add: filter_empty_conv)
qed

text \<open>The row of a claim, and the mark it gets.\<close>

definition marks :: "int \<Rightarrow> lir_allocation \<Rightarrow> lir_db \<Rightarrow> lir_db \<Rightarrow> bool" where
  "marks t a db db' \<longleftrightarrow>
     (\<exists>m. db' = snd (MarkArinFailed t (al_id a) m db))
     \<or> (arin_net_handle a = None \<and> (\<exists>h. db' = snd (MarkArinRegistered t (al_id a) h db)))
     \<or> (arin_net_handle a \<noteq> None \<and> db' = snd (MarkArinRemoved t (al_id a) db))"

definition turn_does ::
    "turn \<Rightarrow> (lir_db \<Rightarrow> lir_allocation \<Rightarrow> bool) \<Rightarrow> lir_db \<Rightarrow> turn_result \<times> lir_db \<Rightarrow> bool" where
  "turn_does T elig db r \<longleftrightarrow>
     (case r of ((calls, again, err), db') \<Rightarrow>
        (calls = [] \<and> \<not> again \<and> db' = db
          \<and> (err = None \<longrightarrow> fault (t_env T) QClaimSubmit \<noteq> None \<or> fault (t_env T) QClaimRemove \<noteq> None
               \<or> (\<forall>a\<in>set (allocations db). elig db a \<longrightarrow> locked T (al_id a))))
        \<or> (\<exists>a\<in>set (allocations db). elig db a \<and> \<not> locked T (al_id a) \<and> calls = [al_id a] \<and> again
              \<and> (if err = None then marks (clock (t_env T)) a db db' else db' = db)))"

lemma tx_turn: "turn_does T elig db (body db) \<Longrightarrow> turn_does T elig db (tx_wrapped T body db)"
  unfolding tx_wrapped_def
  by (cases "body db") (auto simp: turn_does_def split: option.splits if_splits)

lemma turn_idle:
  assumes "err = None \<longrightarrow> fault (t_env T) QClaimSubmit \<noteq> None \<or> fault (t_env T) QClaimRemove \<noteq> None
      \<or> (\<forall>a\<in>set (allocations db). elig db a \<longrightarrow> locked T (al_id a))"
  shows "turn_does T elig db (([], False, err), db)"
  using assms by (simp add: turn_does_def)

lemma turn_marked:
  assumes "a \<in> set (allocations db)" "elig db a" "\<not> locked T (al_id a)"
    and "marks (clock (t_env T)) a db (snd (mark_alloc (al_id a) f db))"
  shows "turn_does T elig db (marked (al_id a) (in_txn T Q (mark_alloc (al_id a) f) db))"
  using assms by (auto simp: turn_does_def marked_def in_txn_def mark_alloc_def split: option.split)

lemma submit_turn_does:
  "turn_does (Ts n) (submit_eligible (clock (t_env (Ts n))) MaxAttempts) db (submit_turn Ts submit n db)"
proof -
  let ?T = "Ts n" and ?t = "clock (t_env (Ts n))"
  let ?elig = "submit_eligible ?t MaxAttempts"
  let ?pick = "first_by (\<lambda>a. (map of_char (arin_state_text (arin_status a)) :: nat list, allocated_at a))
    (\<lambda>a. ?elig db a \<and> \<not> locked ?T (al_id a)) (allocations db)"
  have "turn_does ?T ?elig db (ProcessOne ?T submit db)"
  proof (cases "fault (t_env ?T) QClaimSubmit")
    case (Some e)
    have "ProcessOne ?T submit db = (([], False, if e = NoRows then None else Some e), db)"
      by (simp add: ProcessOne_def in_txn_def Some)
    then show ?thesis using Some by (simp add: turn_idle)
  next
    case ok: None
    show ?thesis
    proof (cases ?pick)
      case None
      have "ProcessOne ?T submit db = (([], False, None), db)"
        by (simp add: ProcessOne_def in_txn_def ok ClaimNextArinSubmitJob_def reading_def None)
      moreover have "\<forall>a\<in>set (allocations db). ?elig db a \<longrightarrow> locked ?T (al_id a)"
        using None[unfolded first_by_None] by blast
      ultimately show ?thesis by (simp add: turn_idle)
    next
      case (Some a)
      note a = first_by_Some[OF Some]
      then have h: "arin_net_handle a = None" by (simp add: submit_eligible_def)
      obtain job :: submit_job where "ProcessOne ?T submit db = marked (al_id a) (case submit job of
            Inl err \<Rightarrow> in_txn ?T QMarkFailed (MarkArinFailed ?t (al_id a) (error_string err)) db
          | Inr h \<Rightarrow> in_txn ?T QMarkRegistered (MarkArinRegistered ?t (al_id a) h) db)"
        by (simp add: ProcessOne_def in_txn_def[of ?T QClaimSubmit] ok ClaimNextArinSubmitJob_def
            reading_def Some Let_def)
      moreover have "turn_does ?T ?elig db (marked (al_id a)
          (in_txn ?T QMarkFailed (MarkArinFailed ?t (al_id a) m) db))" for m
        unfolding MarkArinFailed_def using a
        by (intro turn_marked) (auto simp: marks_def MarkArinFailed_def)
      moreover have "turn_does ?T ?elig db (marked (al_id a)
          (in_txn ?T QMarkRegistered (MarkArinRegistered ?t (al_id a) g) db))" for g
        unfolding MarkArinRegistered_def using a h
        by (intro turn_marked) (auto simp: marks_def MarkArinRegistered_def)
      ultimately show ?thesis by (simp split: sum.split)
    qed
  qed
  then show ?thesis unfolding submit_turn_def by (rule tx_turn)
qed

lemma remove_turn_does:
  "turn_does (Ts n) (remove_eligible (clock (t_env (Ts n))) MaxAttempts) db (remove_turn Ts remove n db)"
proof -
  let ?T = "Ts n" and ?t = "clock (t_env (Ts n))"
  let ?elig = "remove_eligible ?t MaxAttempts"
  let ?pick = "first_by (\<lambda>a. (map of_char (arin_state_text (arin_status a)) :: nat list,
      returned_at a = None, (case returned_at a of None \<Rightarrow> 0 | Some r \<Rightarrow> r), allocated_at a))
    (\<lambda>a. ?elig db a \<and> \<not> locked ?T (al_id a)) (allocations db)"
  have "turn_does ?T ?elig db (ProcessOneRemove ?T remove db)"
  proof (cases "fault (t_env ?T) QClaimRemove")
    case (Some e)
    have "ProcessOneRemove ?T remove db = (([], False, if e = NoRows then None else Some e), db)"
      by (simp add: ProcessOneRemove_def in_txn_def Some)
    then show ?thesis using Some by (simp add: turn_idle)
  next
    case ok: None
    show ?thesis
    proof (cases ?pick)
      case None
      have "ProcessOneRemove ?T remove db = (([], False, None), db)"
        by (simp add: ProcessOneRemove_def in_txn_def ok ClaimNextArinRemoveJob_def reading_def None)
      moreover have "\<forall>a\<in>set (allocations db). ?elig db a \<longrightarrow> locked ?T (al_id a)"
        using None[unfolded first_by_None] by blast
      ultimately show ?thesis by (simp add: turn_idle)
    next
      case (Some a)
      note a = first_by_Some[OF Some]
      then have h: "arin_net_handle a \<noteq> None" by (simp add: remove_eligible_def)
      obtain ph nh where "ProcessOneRemove ?T remove db = marked (al_id a) (case remove ph nh of
            Some err \<Rightarrow> in_txn ?T QMarkFailed (MarkArinFailed ?t (al_id a) (error_string err)) db
          | None \<Rightarrow> in_txn ?T QMarkRemoved (MarkArinRemoved ?t (al_id a)) db)"
        by (simp add: ProcessOneRemove_def in_txn_def[of ?T QClaimRemove] ok ClaimNextArinRemoveJob_def
            reading_def Some Let_def)
      moreover have "turn_does ?T ?elig db (marked (al_id a)
          (in_txn ?T QMarkFailed (MarkArinFailed ?t (al_id a) m) db))" for m
        unfolding MarkArinFailed_def using a
        by (intro turn_marked) (auto simp: marks_def MarkArinFailed_def)
      moreover have "turn_does ?T ?elig db (marked (al_id a)
          (in_txn ?T QMarkRemoved (MarkArinRemoved ?t (al_id a)) db))"
        unfolding MarkArinRemoved_def using a h
        by (intro turn_marked) (auto simp: marks_def MarkArinRemoved_def)
      ultimately show ?thesis by (simp split: option.split)
    qed
  qed
  then show ?thesis unfolding remove_turn_def by (rule tx_turn)
qed


section \<open>The loops\<close>

lemma eligible_status:
  "submit_eligible t m db a \<Longrightarrow> arin_status a \<noteq> ArinNone"
  "remove_eligible t m db a \<Longrightarrow> arin_status a \<noteq> ArinNone"
  by (auto simp: submit_eligible_def remove_eligible_def retry_due_def)

lemma turn_commits:
  assumes "turn_does T elig db r" "lir_inv db" "\<And>a. elig db a \<Longrightarrow> arin_status a \<noteq> ArinNone"
  shows "commits db (snd r)"
proof -
  have id: "b = a" if "a \<in> set (allocations db)" "b \<in> set (allocations db)" "al_id b = al_id a" for a b
    using assms(2) that key_unique[of al_id "allocations db" b a] by (simp add: lir_inv_def keys_ok_def)
  have "commit db db'" if "a \<in> set (allocations db)" "elig db a" "marks t a db db'" for a t db'
    using that(3) unfolding marks_def
  proof (elim disjE conjE exE)
    fix m assume "db' = snd (MarkArinFailed t (al_id a) m db)"
    moreover have "\<forall>b\<in>set (allocations db). al_id b = al_id a \<longrightarrow> arin_status b \<noteq> ArinNone"
      using id[OF that(1)] assms(3)[OF that(2)] by blast
    ultimately show ?thesis by (simp add: commit.arin_failed)
  next
    fix h assume "arin_net_handle a = None" "db' = snd (MarkArinRegistered t (al_id a) h db)"
    moreover from this have "\<forall>b\<in>set (allocations db). al_id b = al_id a \<longrightarrow> arin_net_handle b = None"
      using id[OF that(1)] by blast
    ultimately show ?thesis by (simp add: commit.arin_registered)
  next
    assume "arin_net_handle a \<noteq> None" "db' = snd (MarkArinRemoved t (al_id a) db)"
    moreover from this have "\<forall>b\<in>set (allocations db). al_id b = al_id a \<longrightarrow> arin_net_handle b \<noteq> None"
      using id[OF that(1)] by blast
    ultimately show ?thesis by (simp add: commit.arin_removed)
  qed
  then show ?thesis using assms(1)
    by (auto simp: turn_does_def split: prod.splits if_splits)
qed

lemma drain_run:
  assumes "\<And>n db. I db \<Longrightarrow> R\<^sup>*\<^sup>* db (snd (step n db))" "\<And>x y. R\<^sup>*\<^sup>* x y \<Longrightarrow> I x \<Longrightarrow> I y" "I db"
  shows "R\<^sup>*\<^sup>* db (snd (drain step b n db))"
  using assms(3)
proof (induction b arbitrary: n db)
  case (Suc b)
  obtain calls again err db1 where st: "step n db = ((calls, again, err), db1)"
    by (cases "step n db") auto
  then have db1: "R\<^sup>*\<^sup>* db db1" using assms(1)[OF Suc.prems, of n] by simp
  with assms(2) Suc.prems have "R\<^sup>*\<^sup>* db1 (snd (drain step b (Suc n) db1))" by (intro Suc.IH) blast
  with db1 have "R\<^sup>*\<^sup>* db (snd (drain step b (Suc n) db1))" by (rule rtranclp_trans)
  then show ?case using db1
    by (cases err; cases again) (auto simp: st split: prod.split)
qed simp

lemma drain_budget:
  assumes "\<forall>n db c m e d. step n db = ((c, m, e), d) \<longrightarrow> length c \<le> (if m then 1 else 0)"
  shows "drain step b n db = ((calls, b', n', e), db') \<Longrightarrow>
     length calls + b' \<le> b + (if e = None then 0 else 1) \<and> (e \<noteq> None \<longrightarrow> 0 < b')"
proof (induction b arbitrary: n db calls b' n' e db')
  case (Suc b)
  obtain c again err db1 where st: "step n db = ((c, again, err), db1)"
    by (cases "step n db") auto
  have len: "length c \<le> (if again then 1 else 0)" using assms st by blast
  show ?case
  proof (cases err)
    case None
    show ?thesis
    proof (cases again)
      case True
      obtain c2 b2 n2 e2 db2 where d: "drain step b (Suc n) db1 = ((c2, b2, n2, e2), db2)"
        by (cases "drain step b (Suc n) db1") auto
      then show ?thesis using Suc.IH[OF d] Suc.prems len True None by (auto simp: st)
    qed (use Suc.prems len None st in auto)
  next
    case (Some x)
    then show ?thesis using Suc.prems len by (auto simp: st split: if_splits)
  qed
qed simp

lemma turn_length:
  "turn_does T elig db ((c, m, e), d) \<Longrightarrow> length c \<le> (if m then 1 else 0)"
  by (auto simp: turn_does_def)

lemma commits_keep: "commits x y \<Longrightarrow> lir_inv x \<Longrightarrow> lir_inv y"
  by (rule lir.run_keeps)

lemma tick_commits:
  assumes "lir_inv db"
  shows "commits db (snd (tick MaxPerTick Ts L cfg db))"
proof -
  let ?s = "submit_turn Ts (SubmitReassignDetailed L cfg)" and ?r = "remove_turn Ts (RemoveReassignment L cfg)"
  have s: "commits d (snd (?s n d))" if "lir_inv d" for n d
    by (rule turn_commits[OF submit_turn_does that]) (rule eligible_status(1))
  have r: "commits d (snd (?r n d))" if "lir_inv d" for n d
    by (rule turn_commits[OF remove_turn_does that]) (rule eligible_status(2))
  obtain calls b n e db1 where d: "drain ?s MaxPerTick 0 db = ((calls, b, n, e), db1)"
    by (cases "drain ?s MaxPerTick 0 db") auto
  have 1: "commits db db1"
    using drain_run[of lir_inv commit ?s db MaxPerTick 0, OF s commits_keep assms] by (simp add: d)
  have "commits db1 (snd (drain ?r b n db1))"
    by (rule drain_run[of lir_inv commit ?r, OF r commits_keep commits_keep[OF 1 assms]])
  then show ?thesis using 1
    by (auto simp: tick_def d split: option.split prod.split)
qed

section \<open>Draining the submit queue\<close>

lemma sql_backoff_min: "60 \<le> sql_backoff n"
  by (simp add: sql_backoff_def)

lemma submit_eligible_mono: "submit_eligible t m db a \<Longrightarrow> t \<le> t' \<Longrightarrow> submit_eligible t' m db a"
  by (auto simp: submit_eligible_def retry_due_def split: option.splits)

lemma marked_upstream: "upstream (db\<lparr>allocations := as\<rparr>) a = upstream db a"
  by (simp add: upstream_def find_pool_def)

text \<open>A turn without faults or locks, within a minute of \<open>t\<close>.\<close>

definition smooth :: "int \<Rightarrow> turn \<Rightarrow> bool" where
  "smooth t T \<longleftrightarrow> t \<le> clock (t_env T) \<and> clock (t_env T) \<le> t + 60
     \<and> (\<forall>Q. fault (t_env T) Q = None) \<and> begin_fault T = None \<and> commit_fault T = None
     \<and> (\<forall>i. \<not> locked T i)"

text \<open>The job an allocation is claimed as, and the row once the client has answered it.\<close>

definition job_of :: "turn \<Rightarrow> lir_db \<Rightarrow> lir_allocation \<Rightarrow> submit_job" where
  "job_of T db a =
     \<lparr>job_allocation = al_id a, job_status = arin_status a, job_attempts = arin_attempts a,
      job_prefix = cidr_text (t_env T) (al_prefix a), job_parent_handle = strDeref (upstream db a),
      job_org = org_of T (al_org a)\<rparr>"

definition answered :: "int \<Rightarrow> arin_error + string \<Rightarrow> lir_allocation \<Rightarrow> lir_allocation" where
  "answered t r a =
     (case r of
        Inl err \<Rightarrow> a\<lparr>arin_status := ArinFailed, arin_attempts := arin_attempts a + 1,
                     arin_last_attempt_at := Some t, arin_last_error := Some (error_string err)\<rparr>
      | Inr h \<Rightarrow> a\<lparr>arin_status := ArinRegistered, arin_net_handle := Some h, arin_attempts := arin_attempts a + 1,
                   arin_last_attempt_at := Some t, arin_last_error := None\<rparr>)"

definition set_row :: "uuid \<Rightarrow> lir_allocation \<Rightarrow> lir_db \<Rightarrow> lir_db" where
  "set_row i a db = db\<lparr>allocations := map (\<lambda>x. if al_id x = i then a else x) (allocations db)\<rparr>"

lemma answered_id [simp]: "al_id (answered t r a) = al_id a"
  by (simp add: answered_def split: sum.split)

lemma set_row_job: "job_of T (set_row i a db) x = job_of T db x"
  by (simp add: job_of_def set_row_def marked_upstream)

lemma smooth_submit:
  assumes "smooth t (Ts n)" "distinct (map al_id (allocations db))"
  shows "submit_turn Ts submit n db = (([], False, None), db)
       \<and> (\<forall>a\<in>set (allocations db). \<not> submit_eligible (clock (t_env (Ts n))) MaxAttempts db a)
     \<or> (\<exists>a\<in>set (allocations db). submit_eligible (clock (t_env (Ts n))) MaxAttempts db a
          \<and> submit_turn Ts submit n db = (([al_id a], True, None),
              set_row (al_id a) (answered (clock (t_env (Ts n))) (submit (job_of (Ts n) db a)) a) db))"
proof -
  let ?T = "Ts n" and ?t = "clock (t_env (Ts n))"
  let ?pick = "first_by (\<lambda>a. (map of_char (arin_state_text (arin_status a)) :: nat list, allocated_at a))
    (\<lambda>a. submit_eligible ?t MaxAttempts db a \<and> \<not> locked ?T (al_id a)) (allocations db)"
  have quiet: "fault (t_env ?T) Q = None" "\<not> locked ?T i" "begin_fault ?T = None" "commit_fault ?T = None" for Q i
    using assms(1) by (auto simp: smooth_def)
  show ?thesis
  proof (cases ?pick)
    case None
    then have "submit_turn Ts submit n db = (([], False, None), db)"
      by (simp add: submit_turn_def tx_wrapped_def ProcessOne_def in_txn_def quiet ClaimNextArinSubmitJob_def reading_def)
    then show ?thesis using None[unfolded first_by_None] quiet(2) by blast
  next
    case (Some a)
    note a = first_by_Some[OF Some]
    have key: "x = a" if "x \<in> set (allocations db)" "al_id x = al_id a" for x
      using key_unique[OF assms(2) that(1), of a] a that(2) by auto
    have m: "mark_alloc (al_id a) f db = (Inr (), set_row (al_id a) (f a) db)" for f
    proof -
      have "map (\<lambda>x. if al_id x = al_id a then f x else x) (allocations db)
          = map (\<lambda>x. if al_id x = al_id a then f a else x) (allocations db)"
        by (rule map_cong[OF refl]) (use key in auto)
      then show ?thesis by (simp add: mark_alloc_def set_row_def)
    qed
    have job: "ClaimNextArinSubmitJob ?T MaxAttempts db = (Inr (job_of ?T db a), db)"
      using Some by (simp add: ClaimNextArinSubmitJob_def reading_def job_of_def)
    have "submit_turn Ts submit n db = (([al_id a], True, None),
        set_row (al_id a) (answered ?t (submit (job_of ?T db a)) a) db)"
      by (cases "submit (job_of ?T db a)")
        (simp_all add: submit_turn_def tx_wrapped_def ProcessOne_def in_txn_def quiet job Let_def marked_def
          MarkArinFailed_def MarkArinRegistered_def m answered_def, simp_all add: job_of_def m)
    then show ?thesis using a by blast
  qed
qed

lemma answered_not_again:
  "s \<le> t + 60 \<Longrightarrow> \<not> submit_eligible s m db (answered t r a)"
proof -
  have "t + sql_backoff k < s \<Longrightarrow> s \<le> t + 60 \<Longrightarrow> False" for k using sql_backoff_min[of k] by linarith
  then show "s \<le> t + 60 \<Longrightarrow> \<not> submit_eligible s m db (answered t r a)"
    by (auto simp: answered_def submit_eligible_def retry_due_def split: sum.splits)
qed

lemma set_row_fewer:
  assumes "a \<in> set (allocations db)" "P a" "\<not> P b" "distinct (map al_id (allocations db))"
  shows "length (filter P (allocations (set_row (al_id a) b db))) < length (filter P (allocations db))"
proof -
  obtain xs ys where s: "allocations db = xs @ a # ys" using assms(1) by (meson split_list)
  then have "al_id a \<notin> al_id ` (set xs \<union> set ys)" using assms(4) by auto
  then have "x \<in> set xs \<union> set ys \<Longrightarrow> al_id x \<noteq> al_id a" for x by (metis imageI)
  then have "map (\<lambda>x. if al_id x = al_id a then b else x) xs = xs" "map (\<lambda>x. if al_id x = al_id a then b else x) ys = ys"
    by (auto intro!: map_idI)
  then show ?thesis using assms(2,3) by (simp add: set_row_def s)
qed

lemma set_row_ids: "al_id b = i \<Longrightarrow> map al_id (allocations (set_row i b db)) = map al_id (allocations db)"
  by (auto simp: set_row_def)

lemma set_row_mem:
  "a \<in> set (allocations db) \<Longrightarrow> b \<in> set (allocations (set_row (al_id a) b db))"
  "x \<in> set (allocations db) \<Longrightarrow> al_id x \<noteq> i \<Longrightarrow> x \<in> set (allocations (set_row i b db))"
  by (auto simp: set_row_def image_iff intro: rev_bexI)

text \<open>The submit half of a tick: every eligible row is answered once, the others stay.\<close>

lemma drain_submits:
  assumes "\<And>n. smooth t (Ts n)"
  shows "\<lbrakk>distinct (map al_id (allocations db));
     length (filter (submit_eligible (t + 60) MaxAttempts db) (allocations db)) \<le> b;
     drain (submit_turn Ts submit) b n db = ((calls, b', n', e), db')\<rbrakk>
   \<Longrightarrow> e = None
     \<and> (\<forall>a\<in>set (allocations db). submit_eligible t MaxAttempts db a \<longrightarrow>
          (\<exists>k. answered (clock (t_env (Ts k))) (submit (job_of (Ts k) db a)) a \<in> set (allocations db')))
     \<and> (\<forall>a\<in>set (allocations db). \<not> submit_eligible (t + 60) MaxAttempts db a \<longrightarrow> a \<in> set (allocations db'))"
proof (induction b arbitrary: n db calls b' n' e db')
  case 0
  then show ?case using submit_eligible_mono[of t MaxAttempts _ _ "t + 60"]
    by (auto simp: filter_empty_conv)
next
  case (Suc b)
  let ?P = "\<lambda>s. submit_eligible s MaxAttempts" and ?c = "clock (t_env (Ts n))"
  have clk: "t \<le> ?c" "?c \<le> t + 60" using assms[of n] by (auto simp: smooth_def)
  have sm: "smooth t (Ts n)" by (rule assms)
  from smooth_submit[of t Ts n db submit, OF sm Suc.prems(1)] show ?case
  proof (elim disjE conjE bexE)
    assume st: "submit_turn Ts submit n db = (([], False, None), db)" and none: "\<forall>a\<in>set (allocations db). \<not> ?P ?c db a"
    then have "\<forall>a\<in>set (allocations db). \<not> ?P t db a" using submit_eligible_mono clk(1) by blast
    then show ?thesis using Suc.prems(3) by (simp add: st)
  next
    fix a assume a: "a \<in> set (allocations db)" "?P ?c db a"
    let ?b = "answered ?c (submit (job_of (Ts n) db a)) a" 
    let ?db1 = "set_row (al_id a) ?b db"
    assume st: "submit_turn Ts submit n db = (([al_id a], True, None), ?db1)"
    obtain c2 where d: "drain (submit_turn Ts submit) b (Suc n) ?db1 = ((c2, b', n', e), db')"
      using Suc.prems(3) by (auto simp: st split: prod.splits)
    have same: "?P s ?db1 x = ?P s db x" for s x by (simp add: set_row_def submit_eligible_def marked_upstream)
    have out: "\<not> ?P (t + 60) db ?b" using answered_not_again clk(1) by simp
    have len: "length (filter (?P (t + 60) ?db1) (allocations ?db1)) \<le> b"
      using set_row_fewer[where P = "?P (t + 60) db", OF a(1) submit_eligible_mono[OF a(2) clk(2)] out Suc.prems(1)] Suc.prems(2)
      by (simp add: same[abs_def])
    have ids: "distinct (map al_id (allocations ?db1))" using set_row_ids[of ?b "al_id a" db] Suc.prems(1) by simp
    note all = Suc.IH[OF ids len d, unfolded same set_row_job]
    note IH = conjunct1[OF all] conjunct1[OF conjunct2[OF all]] conjunct2[OF conjunct2[OF all]]
    have other: "x \<in> set (allocations ?db1)" if "x \<in> set (allocations db)" "x \<noteq> a" for x
      using set_row_mem(2)[OF that(1)] key_unique[OF Suc.prems(1) that(1) a(1)] that(2) by blast
    have "?b \<in> set (allocations db')" using IH(3) out set_row_mem(1)[OF a(1)] by blast
    then have "\<forall>x\<in>set (allocations db). ?P t db x \<longrightarrow>
        (\<exists>k. answered (clock (t_env (Ts k))) (submit (job_of (Ts k) db x)) x \<in> set (allocations db'))"
      using IH(2) other by blast
    moreover have "\<forall>x\<in>set (allocations db). \<not> ?P (t + 60) db x \<longrightarrow> x \<in> set (allocations db')"
      using IH(3) other submit_eligible_mono[OF a(2) clk(2)] by blast
    ultimately show ?thesis using IH(1) by blast
  qed
qed

text \<open>The remove half leaves a row alone that it does not claim.\<close>

lemma drain_keeps: "\<lbrakk>\<And>n db. I db \<Longrightarrow> I (snd (step n db)); I db\<rbrakk> \<Longrightarrow> I (snd (drain step b n db))"
proof (induction b arbitrary: n db)
  case (Suc b)
  obtain calls again err db1 where st: "step n db = ((calls, again, err), db1)" by (cases "step n db") auto
  then have "I db1" using Suc.prems(1)[OF Suc.prems(2), of n] by simp
  moreover from this have "I (snd (drain step b (Suc n) db1))" using Suc.IH Suc.prems(1) by blast
  ultimately show ?case by (cases err; cases again) (auto simp: st split: prod.split)
qed simp

lemma marks_other:
  assumes "marks t a db db'" "x \<in> set (allocations db)" "al_id x \<noteq> al_id a"
  shows "x \<in> set (allocations db')"
  using assms by (auto simp: marks_def MarkArinFailed_def MarkArinRegistered_def MarkArinRemoved_def mark_alloc_def image_iff
      intro!: bexI[of _ x])

lemma turn_spares:
  assumes "turn_does T elig db r" "x \<in> set (allocations db)" "\<not> elig db x" "distinct (map al_id (allocations db))"
  shows "x \<in> set (allocations (snd r))"
proof -
  have "al_id x \<noteq> al_id a" if "a \<in> set (allocations db)" "elig db a" for a
    using that assms(3) key_unique[OF assms(4,2) that(1)] by blast
  then show ?thesis using assms(1,2) marks_other
    by (auto simp: turn_does_def split: prod.splits if_splits)
qed

lemma answered_not_removed: "arin_net_handle a = None \<Longrightarrow> \<not> remove_eligible s m db (answered t r a)"
  by (auto simp: answered_def remove_eligible_def retry_due_def split: sum.splits)

lemma drain_removes_spares:
  assumes "lir_inv db" "x \<in> set (allocations db)" "\<And>s db. \<not> remove_eligible s MaxAttempts db x"
  shows "x \<in> set (allocations (snd (drain (remove_turn Ts remove) b n db)))"
proof -
  have "lir_inv (snd (drain (remove_turn Ts remove) b n db)) \<and> x \<in> set (allocations (snd (drain (remove_turn Ts remove) b n db)))"
  proof (rule drain_keeps[where I = "\<lambda>d. lir_inv d \<and> x \<in> set (allocations d)"])
    fix n d assume d: "lir_inv d \<and> x \<in> set (allocations d)"
    then have "commits d (snd (remove_turn Ts remove n d))"
      by (intro turn_commits[OF remove_turn_does] eligible_status(2)) simp_all
    moreover have "distinct (map al_id (allocations d))" using d by (simp add: lir_inv_def keys_ok_def)
    ultimately show "lir_inv (snd (remove_turn Ts remove n d)) \<and> x \<in> set (allocations (snd (remove_turn Ts remove n d)))"
      using d commits_keep turn_spares[OF remove_turn_does] assms(3) by blast
  qed (use assms in simp)
  then show ?thesis by simp
qed

section \<open>An example run\<close>

definition example_org :: org_row where
  "example_org =
     (let c = \<lparr>poc_name = ''N'', poc_email = ''n@x'', poc_phone = ''1''\<rparr> in
      \<lparr>org_id = 5, org_name = ''Lab'', address_line1 = ''1 St'', city = ''C'', state_province = None,
       postal_code = Some ''1'', country = ''US'', admin_poc = c, tech_poc = c, abuse_poc = c\<rparr>)"

definition example_turn :: "int \<Rightarrow> nat \<Rightarrow> turn" where
  "example_turn t n =
     \<lparr>t_env = quiet_env\<lparr>clock := t\<rparr>, begin_fault = None, commit_fault = None,
      locked = (\<lambda>_. False), org_of = (\<lambda>_. example_org)\<rparr>"

definition example_cfg :: arin_config where
  "example_cfg = \<lparr>Endpoint = ''https://a/'', APIKey = ''KEY'', CfgEnabled = True\<rparr>"

text \<open>A transport on which every round trip has the given outcome.\<close>

definition transport :: "(string \<Rightarrow> string + nat \<times> string) \<Rightarrow> http_lib" where
  "transport out =
     \<lparr>request = (\<lambda>_. None), do_http = (\<lambda>m target p. out target), path_escape = (\<lambda>s. s),
      query_escape = (\<lambda>s. s), marshal = (\<lambda>d. Inr (StartAddress d)), xml_handle = Some\<rparr>"

definition granted_db :: lir_db where
  "granted_db = snd (serve quiet_env (Some nic) (CApprove ''7'' (Inl ())) example_db)"

lemma granted_db_ok: "lir_inv granted_db"
  unfolding granted_db_def
  by (rule commits_keep[OF serve_commits[OF alone_others[OF quiet_env_ok(2)] quiet_env_ok(1)] example_db_ok])

lemma example_smooth: "smooth t (example_turn t n)"
  by (simp add: smooth_def example_turn_def quiet_env_def)

section \<open>Properties\<close>

text \<open>C10. The worker keeps the registry consistent: whatever ARIN answers and whichever statement,
  begin or commit fails, a tick leaves every invariant of the registry in place, never calls ARIN
  for more than its budget of jobs, and rewrites no history.\<close>

theorem tick_keeps_registry:
  assumes "lir_inv db" "tick MaxPerTick Ts L cfg db = (calls, db')"
  shows "lir_inv db' \<and> history db db' \<and> length calls \<le> MaxPerTick"
proof -
  have c: "commits db db'" using tick_commits[OF assms(1), of MaxPerTick Ts L cfg] assms(2) by simp
  let ?s = "submit_turn Ts (SubmitReassignDetailed L cfg)" and ?r = "remove_turn Ts (RemoveReassignment L cfg)"
  have s: "\<forall>n d k m e x. ?s n d = ((k, m, e), x) \<longrightarrow> length k \<le> (if m then 1 else 0)"
    using submit_turn_does[of Ts _ _ "SubmitReassignDetailed L cfg"] turn_length by metis
  have r: "\<forall>n d k m e x. ?r n d = ((k, m, e), x) \<longrightarrow> length k \<le> (if m then 1 else 0)"
    using remove_turn_does[of Ts _ _ "RemoveReassignment L cfg"] turn_length by metis
  obtain k b n e db1 where d: "drain ?s MaxPerTick 0 db = ((k, b, n, e), db1)"
    by (cases "drain ?s MaxPerTick 0 db") auto
  obtain k2 b2 n2 e2 db2 where d2: "drain ?r b n db1 = ((k2, b2, n2, e2), db2)"
    by (cases "drain ?r b n db1") auto
  have "length calls \<le> MaxPerTick"
    using assms(2) drain_budget[of ?s, OF s d] drain_budget[of ?r, OF r d2] d d2
    by (auto simp: tick_def split: if_splits option.splits)
  then show ?thesis using c commits_keep[OF c assms(1)] lir_past.run_rel[OF c] by simp
qed

lemma tick_keeps_registry_witness:
  "lir_inv (snd (tick 3 (example_turn 2000) (transport (\<lambda>_. Inr (200, ''NET-1''))) example_cfg granted_db))"
proof -
  let ?r = "tick 3 (example_turn 2000) (transport (\<lambda>_. Inr (200, ''NET-1''))) example_cfg granted_db"
  have "?r = (fst ?r, snd ?r)" by simp
  from tick_keeps_registry[OF granted_db_ok this] show ?thesis by blast
qed

text \<open>The claim keeps to the schedule of \<^verbatim>\<open>backoff.go\<close>: a claimed job belongs to an allocation
  without a net handle whose pool has an upstream handle, and one that has failed before is claimed
  only while \<^verbatim>\<open>ShouldRetry\<close> says so and after the wait of \<^verbatim>\<open>BackoffAfterAttempt\<close>.\<close>

theorem claim_respects_backoff:
  assumes "fst (ClaimNextArinSubmitJob T MaxAttempts db) = Inr job"
  shows "\<exists>a\<in>set (allocations db). al_id a = job_allocation job \<and> arin_net_handle a = None
     \<and> upstream db a \<noteq> None \<and> \<not> locked T (al_id a)
     \<and> (arin_status a = ArinPending
        \<or> arin_status a = ArinFailed \<and> ShouldRetry (arin_attempts a)
          \<and> (\<forall>l. arin_last_attempt_at a = Some l \<and> 0 < arin_attempts a \<longrightarrow>
                l + BackoffAfterAttempt (arin_attempts a) < clock (t_env T)))"
proof -
  let ?pick = "first_by (\<lambda>a. (map of_char (arin_state_text (arin_status a)) :: nat list, allocated_at a))
    (\<lambda>a. submit_eligible (clock (t_env T)) MaxAttempts db a \<and> \<not> locked T (al_id a)) (allocations db)"
  obtain a where a: "?pick = Some a" "job_allocation job = al_id a"
    using assms by (auto simp: ClaimNextArinSubmitJob_def reading_def split: option.splits)
  have "sql_backoff n = BackoffAfterAttempt n" if "0 < n" "n < 5" for n
    using that by (auto simp: sql_backoff_def BackoffAfterAttempt_def)
  then show ?thesis using first_by_Some[OF a(1)] a(2)
    by (intro bexI[of _ a]) (auto simp: submit_eligible_def retry_due_def ShouldRetry_def MaxAttempts_def)
qed


lemma claim_respects_backoff_witness:
  "\<exists>a\<in>set (allocations granted_db). al_id a = 1 \<and> arin_net_handle a = None"
proof -
  have "(case fst (ClaimNextArinSubmitJob (example_turn 2000 0) MaxAttempts granted_db) of
      Inr j \<Rightarrow> job_allocation j = 1 | Inl _ \<Rightarrow> False)"
    by code_simp
  then obtain j where "fst (ClaimNextArinSubmitJob (example_turn 2000 0) MaxAttempts granted_db) = Inr j"
      "job_allocation j = 1"
    by (auto split: sum.splits)
  with claim_respects_backoff[OF this(1)] show ?thesis by metis
qed

text \<open>C11. The submit queue does not starve.  Take a tick with the integration enabled, without faults
  or locked rows, all of whose turns fall within a minute and whose budget covers the allocations that
  become eligible within that minute.  Every allocation that was eligible when the tick began is
  claimed exactly once, and what the client answered for it is recorded: the net handle of a
  registration, or the error (also that of a missing API key, for which no request is made).\<close>

theorem tick_drains_submit_queue:
  assumes "lir_inv db" "CfgEnabled cfg" "\<forall>n. smooth t (Ts n)"
    and "length (filter (submit_eligible (t + 60) MaxAttempts db) (allocations db)) \<le> MaxPerTick"
    and "a \<in> set (allocations db)" "submit_eligible t MaxAttempts db a"
  shows "\<exists>a'\<in>set (allocations (snd (tick MaxPerTick Ts L cfg db))). \<exists>k.
    al_id a' = al_id a \<and> arin_attempts a' = arin_attempts a + 1
    \<and> arin_last_attempt_at a' = Some (clock (t_env (Ts k)))
    \<and> (case SubmitReassignDetailed L cfg (job_of (Ts k) db a) of
         Inl err \<Rightarrow> arin_status a' = ArinFailed \<and> arin_net_handle a' = None
           \<and> arin_last_error a' = Some (error_string err)
       | Inr h \<Rightarrow> arin_status a' = ArinRegistered \<and> arin_net_handle a' = Some h \<and> arin_last_error a' = None)"
proof -
  let ?s = "submit_turn Ts (SubmitReassignDetailed L cfg)"
  obtain calls b n e db1 where d: "drain ?s MaxPerTick 0 db = ((calls, b, n, e), db1)"
    by (cases "drain ?s MaxPerTick 0 db") auto
  have ids: "distinct (map al_id (allocations db))" using assms(1) by (simp add: lir_inv_def keys_ok_def)
  obtain k where e: "e = None"
    and k: "answered (clock (t_env (Ts k))) (SubmitReassignDetailed L cfg (job_of (Ts k) db a)) a \<in> set (allocations db1)"
    using drain_submits[OF _ ids assms(4) d] assms(3,5,6) by blast
  have h: "arin_net_handle a = None" using assms(6) by (simp add: submit_eligible_def)
  have "commits x (snd (?s m x))" if "lir_inv x" for m x
    by (rule turn_commits[OF submit_turn_does that]) (rule eligible_status(1))
  then have "lir_inv db1"
    using drain_keeps[of lir_inv ?s db MaxPerTick 0] commits_keep assms(1) d by (metis snd_conv)
  from drain_removes_spares[OF this k answered_not_removed[OF h]]
  have "answered (clock (t_env (Ts k))) (SubmitReassignDetailed L cfg (job_of (Ts k) db a)) a
      \<in> set (allocations (snd (tick MaxPerTick Ts L cfg db)))"
    using assms(2) by (simp add: tick_def d e split: prod.split) (metis snd_conv)
  then show ?thesis
    by (rule rev_bexI) (intro exI[of _ k], auto simp: answered_def h split: sum.split)
qed

lemma tick_drains_submit_queue_witness:
  "\<exists>a'\<in>set (allocations (snd (tick 1 (example_turn 2000) (transport (\<lambda>_. Inr (503, []))) example_cfg granted_db))).
     al_id a' = 1 \<and> arin_attempts a' = 1"
proof -
  have "\<exists>a\<in>set (allocations granted_db). al_id a = 1 \<and> arin_attempts a = 0 \<and> submit_eligible 2000 MaxAttempts granted_db a"
    "length (filter (submit_eligible (2000 + 60) MaxAttempts granted_db) (allocations granted_db)) \<le> 1"
    by code_simp+
  then obtain a where a: "a \<in> set (allocations granted_db)" "al_id a = 1" "arin_attempts a = 0"
      "submit_eligible 2000 MaxAttempts granted_db a"
      and few: "length (filter (submit_eligible (2000 + 60) MaxAttempts granted_db) (allocations granted_db)) \<le> 1"
    by blast
  have "CfgEnabled example_cfg" by (simp add: example_cfg_def)
  from tick_drains_submit_queue[OF granted_db_ok this _ few a(1,4), of "example_turn 2000" "transport (\<lambda>_. Inr (503, []))"]
  show ?thesis using example_smooth a(2,3) by fastforce
qed

text \<open>Every failed submission comes back: whether the client called the error transient or
  permanent, the allocation is failed with one attempt more and is claimed again as soon as its wait
  is over, until the fifth attempt.\<close>

theorem failed_submission_is_retried:
  assumes "lir_inv db" "submit_turn Ts submit n db = ((i # calls, again, None), db')"
    and "\<forall>job. \<exists>m. submit job = Inl (Permanent m) \<or> submit job = Inl (Transient m)"
  shows "\<exists>a\<in>set (allocations db'). al_id a = i \<and> arin_status a = ArinFailed \<and> 0 < arin_attempts a
     \<and> (\<forall>t. submit_eligible t MaxAttempts db' a \<longleftrightarrow> ShouldRetry (arin_attempts a)
          \<and> clock (t_env (Ts n)) + BackoffAfterAttempt (arin_attempts a) < t)"
proof -
  let ?T = "Ts n" and ?t = "clock (t_env (Ts n))"
  let ?elig = "submit_eligible ?t MaxAttempts"
  let ?pick = "first_by (\<lambda>a. (map of_char (arin_state_text (arin_status a)) :: nat list, allocated_at a))
    (\<lambda>a. ?elig db a \<and> \<not> locked ?T (al_id a)) (allocations db)"
  have turn: "ProcessOne ?T submit db = ((i # calls, again, None), db')"
    using assms(2) by (auto simp: submit_turn_def tx_wrapped_def split: option.splits prod.splits)
  then obtain a where pick: "?pick = Some a"
    by (cases ?pick) (auto simp: ProcessOne_def in_txn_def ClaimNextArinSubmitJob_def reading_def
        split: option.splits)
  note a = first_by_Some[OF pick]
  have no: "submit job \<noteq> Inr h" for job h using assms(3) by (metis sum.distinct(1))
  obtain m where "i = al_id a" and db': "db' = snd (MarkArinFailed ?t (al_id a) m db)"
    using turn
    by (auto simp: ProcessOne_def in_txn_def ClaimNextArinSubmitJob_def reading_def pick Let_def marked_def
        MarkArinFailed_def mark_alloc_def no split: option.splits sum.splits)
  let ?a = "a\<lparr>arin_status := ArinFailed, arin_attempts := arin_attempts a + 1,
     arin_last_attempt_at := Some ?t, arin_last_error := Some m\<rparr>"
  have backoff: "sql_backoff k = BackoffAfterAttempt k" if "0 < k" "k < 5" for k
    using that by (auto simp: sql_backoff_def BackoffAfterAttempt_def)
  have "?a \<in> set (allocations db')"
    using a by (auto simp: db' MarkArinFailed_def mark_alloc_def image_iff)
  moreover have "submit_eligible t MaxAttempts db' ?a \<longleftrightarrow> ShouldRetry (arin_attempts ?a)
      \<and> ?t + BackoffAfterAttempt (arin_attempts ?a) < t" for t
    using a backoff by (auto simp: db' MarkArinFailed_def mark_alloc_def submit_eligible_def retry_due_def
        ShouldRetry_def MaxAttempts_def upstream_def find_pool_def)
  ultimately show ?thesis using \<open>i = al_id a\<close> by (intro bexI[of _ ?a]) auto
qed

lemma failed_submission_is_retried_witness:
  "\<exists>a\<in>set (allocations (snd (submit_turn (example_turn 2000)
       (SubmitReassignDetailed (transport (\<lambda>_. Inr (400, ''bad''))) example_cfg) 0 granted_db))).
     al_id a = 1 \<and> arin_status a = ArinFailed"
proof -
  let ?s = "\<lambda>job :: submit_job. Inl (Permanent (''arin http 400: bad'')) :: arin_error + string"
  let ?L = "SubmitReassignDetailed (transport (\<lambda>_. Inr (400, ''bad''))) example_cfg"
  let ?r = "submit_turn (example_turn 2000) ?L 0 granted_db"
  have "fst ?r = ([1], True, None)" by code_simp
  then have r: "?r = ((1 # [], True, None), snd ?r)" by (metis prod.collapse)
  have "\<forall>job. \<exists>m. ?L job = Inl (Permanent m) \<or> ?L job = Inl (Transient m)"
    by (simp add: SubmitReassignDetailed_def classifyResponse_def transport_def Let_def split: sum.split)
  from failed_submission_is_retried[OF granted_db_ok r this] show ?thesis by blast
qed


text \<open>An allocation that was returned before the worker reached it is registered all the same:
  confirming a return leaves the state pending, the claim does not look at the status of the
  allocation, and nothing removes the registration again.\<close>

theorem returned_allocation_gets_registered:
  "let L = transport (\<lambda>_. Inr (200, ''NET-1''));
       db1 = snd (serve quiet_env (Some nic) (CReturnRequest ''1'' (Some ''moved'')) granted_db);
       db2 = snd (serve quiet_env (Some nic) (CReturnConfirm ''1'' (Inl ())) db1);
       r = tick 5 (example_turn 2000) L example_cfg db2;
       r' = tick 5 (example_turn 900000) L example_cfg (snd r)
   in map al_status (allocations db2) = [Returned] \<and> fst r = [1]
      \<and> map (\<lambda>a. (al_status a, arin_status a, arin_net_handle a)) (allocations (snd r))
          = [(Returned, ArinRegistered, Some ''NET-1'')]
      \<and> r' = ([], snd r)"
  by code_simp

text \<open>C12. The range filed with ARIN is the allocation: for a valid prefix the start and end address
  of the payload parse back, and an address of the family lies between them exactly when the prefix
  contains it.\<close>

theorem reassign_range_exact:
  assumes "valid_prefix p"
  shows "\<exists>start stop lo hi. parsePrefixRange (prefix_string p) = Inr (start, stop, plen p)
     \<and> ParseAddr start = Some lo \<and> ParseAddr stop = Some hi \<and> fam lo = pfam p \<and> fam hi = pfam p
     \<and> (\<forall>a. fam a = pfam p \<and> zone a = [] \<longrightarrow> (Contains p a \<longleftrightarrow> val lo \<le> val a \<and> val a \<le> val hi))"
proof -
  let ?lo = "paddr (Masked p)" and ?hi = "broadcastAddr p"
  have lo: "val ?lo = pfx_lo p" "fam ?lo = pfam p"
    by (simp_all add: Masked_def PrefixFrom_def pfam_def pval_def pfx_lo_def host_bits_def BitLen_def)
  note hi = broadcastAddr_val[of p]
  have range: "v \<in> pfx_range p \<longleftrightarrow> pfx_lo p \<le> v \<and> v \<le> pfx_lo p + (2 ^ host_bits p - 1)" for v
    by (cases "2 ^ host_bits p :: nat") (auto simp: pfx_range_def)
  obtain k where "(2 :: nat) ^ host_bits p = Suc k" by (cases "2 ^ host_bits p :: nat") auto
  with pfx_range_bound[OF assms] have "valid_addr ?lo" "valid_addr ?hi"
    using lo hi by (simp_all add: valid_addr_def BitLen_def)
  moreover have "zone ?lo = []" "zone ?hi = []"
    using assms by (simp_all add: valid_prefix_def Masked_def PrefixFrom_def broadcastAddr_def)
  ultimately have "ParseAddr (addr_string ?lo) = Some ?lo" "ParseAddr (addr_string ?hi) = Some ?hi"
    by (simp_all add: ParseAddr_addr_string)
  moreover have "Contains p a \<longleftrightarrow> val ?lo \<le> val a \<and> val a \<le> val ?hi" if "fam a = pfam p \<and> zone a = []" for a
    using that range[of "val a"] unfolding Contains_iff_range lo(1) hi(1) by blast
  moreover have "parsePrefixRange (prefix_string p) = Inr (addr_string ?lo, addr_string ?hi, plen p)"
    by (simp add: parsePrefixRange_def ParsePrefix_prefix_string[OF assms])
  ultimately show ?thesis using lo(2) hi(2) by blast
qed

lemma reassign_range_exact_witness:
  "parsePrefixRange ''10.1.2.64/26'' = Inr (''10.1.2.64'', ''10.1.2.127'', 26)
   \<and> (\<exists>lo hi. ParseAddr ''10.1.2.64'' = Some lo \<and> ParseAddr ''10.1.2.127'' = Some hi
        \<and> fam lo = V4 \<and> fam hi = V4)"
proof -
  let ?p = "PrefixFrom (mk_addr V4 167838272) 26"
  have "valid_prefix ?p" "prefix_string ?p = ''10.1.2.64/26''" "plen ?p = 26" "pfam ?p = V4"
    "parsePrefixRange ''10.1.2.64/26'' = Inr (''10.1.2.64'', ''10.1.2.127'', 26)"
    by code_simp+
  with reassign_range_exact[of ?p] show ?thesis by auto
qed

text \<open>A transport error writes the API key into the registry: errors of Go's HTTP client quote
  the URL, the key is a query parameter of it, and the worker stores the text of the error as the
  last error of the allocation, which the API answers.\<close>

theorem transport_error_stores_api_key:
  assumes "CfgEnabled cfg" "trim_space (APIKey cfg) \<noteq> []" "\<forall>target. request L target = None"
    and quotes: "\<forall>m target p. \<exists>pre post. do_http L m target p = Inl (pre @ target @ post)"
    and "fst (ClaimNextArinSubmitJob T MaxAttempts db) = Inr job" "\<forall>Q. fault (t_env T) Q = None"
    and "reassign_payload job = Inr doc" "marshal L doc = Inr x"
  shows "\<exists>a\<in>set (allocations (snd (ProcessOne T (SubmitReassignDetailed L cfg) db))).
     al_id a = job_allocation job
     \<and> (\<exists>pre post. arin_last_error a = Some (pre @ query_escape L (APIKey cfg) @ post))"
proof -
  let ?url = "base_url cfg @ ''/rest/net/'' @ path_escape L (job_parent_handle job)
      @ ''/reassign/detailed?apikey='' @ query_escape L (APIKey cfg)"
  obtain pre post where "do_http L POST ?url x = Inl (pre @ ?url @ post)" using quotes by blast
  then have "SubmitReassignDetailed L cfg job = Inl (Transient (''http: '' @ pre @ ?url @ post))"
    using assms(1-3,7,8) by (simp add: SubmitReassignDetailed_def Let_def)
  moreover have "\<exists>l r. error_string (Transient (''http: '' @ pre @ ?url @ post))
      = l @ query_escape L (APIKey cfg) @ r"
    by (intro exI[of _ "''arin transient error: '' @ ''http: '' @ pre @ base_url cfg @ ''/rest/net/''
        @ path_escape L (job_parent_handle job) @ ''/reassign/detailed?apikey=''"] exI[of _ post])
       (simp add: error_string_def)
  ultimately obtain err where submit: "SubmitReassignDetailed L cfg job = Inl err"
    and key: "\<exists>l r. error_string err = l @ query_escape L (APIKey cfg) @ r" by blast
  obtain a where a: "a \<in> set (allocations db)" "job_allocation job = al_id a"
    using assms(5) first_by_Some by (fastforce simp: ClaimNextArinSubmitJob_def reading_def split: option.splits)
  let ?a = "a\<lparr>arin_status := ArinFailed, arin_attempts := arin_attempts a + 1,
     arin_last_attempt_at := Some (clock (t_env T)), arin_last_error := Some (error_string err)\<rparr>"
  have "ClaimNextArinSubmitJob T MaxAttempts db = (Inr job, db)"
    using assms(5) by (simp add: ClaimNextArinSubmitJob_def reading_def)
  then have "snd (ProcessOne T (SubmitReassignDetailed L cfg) db)
      = snd (MarkArinFailed (clock (t_env T)) (al_id a) (error_string err) db)"
    using assms(6) a(2) submit
    by (simp add: ProcessOne_def in_txn_def marked_def MarkArinFailed_def mark_alloc_def Let_def)
  then have "?a \<in> set (allocations (snd (ProcessOne T (SubmitReassignDetailed L cfg) db)))"
    using a by (auto simp: MarkArinFailed_def mark_alloc_def image_iff)
  then show ?thesis using a(2) key by (intro bexI[of _ ?a]) auto
qed

lemma transport_error_stores_api_key_witness:
  "\<exists>a\<in>set (allocations (snd (ProcessOne (example_turn 2000 0)
       (SubmitReassignDetailed (transport Inl) example_cfg) granted_db))).
     al_id a = 1 \<and> (\<exists>pre post. arin_last_error a = Some (pre @ ''KEY'' @ post))"
proof -
  let ?L = "transport Inl" and ?T = "example_turn 2000 0"
  have "(case fst (ClaimNextArinSubmitJob ?T MaxAttempts granted_db) of
      Inr j \<Rightarrow> job_allocation j = 1 \<and> (case reassign_payload j of Inr d \<Rightarrow> True | Inl _ \<Rightarrow> False)
    | Inl _ \<Rightarrow> False)"
    by code_simp
  then obtain j d where "fst (ClaimNextArinSubmitJob ?T MaxAttempts granted_db) = Inr j"
      "job_allocation j = 1" "reassign_payload j = Inr d"
    by (auto split: sum.splits)
  moreover have "CfgEnabled example_cfg" "trim_space (APIKey example_cfg) \<noteq> []"
    by code_simp+
  moreover have "\<forall>m target p. \<exists>pre post. do_http ?L m target p = Inl (pre @ target @ post)"
    by (auto simp: transport_def intro!: exI[of _ "[]"])
  ultimately show ?thesis
    using transport_error_stores_api_key[of example_cfg ?L ?T granted_db j d "StartAddress d"]
    by (simp add: transport_def example_turn_def quiet_env_def example_cfg_def)
qed

end
