(* ===== verification/Nsec3Chain.thy ===== *)
theory Nsec3Chain
  imports Prelude "HOL-Library.List_Lexorder"
begin

text \<open>
  The NSEC3 chain of the signing plugin
  (\<^verbatim>\<open>packages/wolf/coredns-nsec3sign/nsec3sign/chain.go\<close>): the hashes of the owner names
  of a zone, sorted and read as a ring, with the lookups by binary search.  Hashing
  and the syntax of domain names belong to \<^verbatim>\<open>miekg/dns\<close> and are the fields of \<open>dns_lib\<close>;
  strings are compared byte by byte, as in Go.
\<close>

section \<open>Binary search\<close>

text \<open>\<^verbatim>\<open>sort.Search\<close>.\<close>

function search_loop :: "(nat \<Rightarrow> bool) \<Rightarrow> nat \<Rightarrow> nat \<Rightarrow> nat" where
  "search_loop f i j =
     (if i < j then let h = (i + j) div 2 in
        if f h then search_loop f i h else search_loop f (Suc h) j
      else i)"
  by pat_completeness auto
termination
  by (relation "measure (\<lambda>(f, i, j). j - i)") auto

declare search_loop.simps [simp del]

definition Search :: "nat \<Rightarrow> (nat \<Rightarrow> bool) \<Rightarrow> nat" where
  "Search n f = search_loop f 0 n"

text \<open>Everything below \<open>i\<close> fails, everything from \<open>i\<close> up to \<open>n\<close> holds.\<close>

definition splits_at :: "nat \<Rightarrow> (nat \<Rightarrow> bool) \<Rightarrow> nat \<Rightarrow> bool" where
  "splits_at n f i \<longleftrightarrow> i \<le> n \<and> (\<forall>k<i. \<not> f k) \<and> (\<forall>k<n. i \<le> k \<longrightarrow> f k)"

lemma search_loop_splits:
  "\<lbrakk>i \<le> j; j \<le> n; \<forall>k<i. \<not> f k; \<forall>k<n. j \<le> k \<longrightarrow> f k; \<forall>x y. x \<le> y \<and> y < n \<and> f x \<longrightarrow> f y\<rbrakk>
   \<Longrightarrow> splits_at n f (search_loop f i j)"
proof (induction f i j rule: search_loop.induct)
  case (1 f i j)
  show ?case
  proof (cases "i < j")
    case False
    then show ?thesis using 1(3-7) by (subst search_loop.simps) (auto simp: splits_at_def)
  next
    case True
    let ?h = "(i + j) div 2"
    have h: "i \<le> ?h" "?h < j" using True by auto
    show ?thesis
    proof (cases "f ?h")
      case yes: True
      have "\<forall>k<n. ?h \<le> k \<longrightarrow> f k" using 1(7) yes by blast
      then have "splits_at n f (search_loop f i ?h)"
        using h 1(4,5,7) by (intro 1(1)[OF True refl yes]) auto
      then show ?thesis using True yes by (subst search_loop.simps) (simp add: Let_def)
    next
      case no: False
      have "\<not> f k" if "k < Suc ?h" for k
      proof
        assume "f k"
        moreover have "k \<le> ?h" "?h < n" using that h 1(4) by auto
        ultimately show False using 1(7) no by blast
      qed
      then have "splits_at n f (search_loop f (Suc ?h) j)"
        using h 1(4,6,7) by (intro 1(2)[OF True refl no]) auto
      then show ?thesis using True no by (subst search_loop.simps) (simp add: Let_def)
    qed
  qed
qed

lemma Search_splits:
  "\<forall>x y. x \<le> y \<and> y < n \<and> f x \<longrightarrow> f y \<Longrightarrow> splits_at n f (Search n f)"
  unfolding Search_def by (rule search_loop_splits) auto

section \<open>Names\<close>

record dns_lib =
  CanonicalName :: "string \<Rightarrow> string"
  SplitDomainName :: "string \<Rightarrow> string list"
  HashName :: "string \<Rightarrow> nat \<Rightarrow> string \<Rightarrow> string"

definition joinDomainLabels :: "string list \<Rightarrow> string" where
  "joinDomainLabels labels = (if labels = [] then ''.'' else join_with CHR ''.'' labels @ ''.'')"

definition nsec3Hash :: "dns_lib \<Rightarrow> string \<Rightarrow> string \<Rightarrow> nat \<Rightarrow> string" where
  "nsec3Hash D nm salt iterations = to_lower (HashName D nm iterations salt)"

section \<open>The chain\<close>

record nsec3Node =
  Hash :: string
  OwnerName :: string
  Types :: "nat list"
  OptedOut :: bool

record nameInfo =
  Name :: string
  name_types :: "nat list"
  name_opted_out :: bool

record chain =
  Apex :: string
  Salt :: string
  Iterations :: nat
  OptOut :: bool
  nodes :: "nsec3Node list"

definition sortedTypes :: "nat list \<Rightarrow> nat list" where
  "sortedTypes ts = sort ts"

definition chain_node :: "dns_lib \<Rightarrow> string \<Rightarrow> nat \<Rightarrow> nameInfo \<Rightarrow> nsec3Node" where
  "chain_node D salt iterations n =
     \<lparr>Hash = nsec3Hash D (Name n) salt iterations, OwnerName = CanonicalName D (Name n),
      Types = sortedTypes (name_types n), OptedOut = name_opted_out n\<rparr>"

definition buildChain :: "dns_lib \<Rightarrow> string \<Rightarrow> string \<Rightarrow> nat \<Rightarrow> bool \<Rightarrow> nameInfo list \<Rightarrow> chain" where
  "buildChain D apex salt iterations optOut names =
     \<lparr>Apex = CanonicalName D apex, Salt = salt, Iterations = iterations, OptOut = optOut,
      nodes = sort_key Hash (map (chain_node D salt iterations)
                (filter (\<lambda>n. \<not> (optOut \<and> name_opted_out n)) names))\<rparr>"

definition hashName :: "dns_lib \<Rightarrow> chain \<Rightarrow> string \<Rightarrow> string" where
  "hashName D c nm = nsec3Hash D nm (Salt c) (Iterations c)"

definition ownerForNode :: "chain \<Rightarrow> nsec3Node \<Rightarrow> string" where
  "ownerForNode c n = Hash n @ ''.'' @ Apex c"

definition hash_index :: "chain \<Rightarrow> string \<Rightarrow> nat" where
  "hash_index c h = Search (length (nodes c)) (\<lambda>i. h \<le> Hash (nodes c ! i))"

definition matchingNSEC3 :: "dns_lib \<Rightarrow> chain \<Rightarrow> string \<Rightarrow> nsec3Node option" where
  "matchingNSEC3 D c qname =
     (if nodes c = [] then None
      else let h = hashName D c qname; i = hash_index c h in
        if i < length (nodes c) \<and> Hash (nodes c ! i) = h then Some (nodes c ! i) else None)"

definition coveringNSEC3 :: "dns_lib \<Rightarrow> chain \<Rightarrow> string \<Rightarrow> nsec3Node option" where
  "coveringNSEC3 D c qname =
     (if nodes c = [] then None
      else let h = hashName D c qname; i = hash_index c h in
        if i = 0 \<or> i = length (nodes c) then Some (nodes c ! (length (nodes c) - 1))
        else Some (nodes c ! (i - 1)))"

definition nextHashedOwner :: "chain \<Rightarrow> nsec3Node \<Rightarrow> string" where
  "nextHashedOwner c n =
     (if nodes c = [] then []
      else let i = hash_index c (Hash n) in
        if i = length (nodes c) \<or> Hash (nodes c ! i) \<noteq> Hash n then Hash (nodes c ! 0)
        else Hash (nodes c ! (Suc i mod length (nodes c))))"

section \<open>The ring\<close>

text \<open>\<open>x\<close> lies strictly between \<open>a\<close> and its successor \<open>b\<close> on a ring.\<close>

definition gap :: "'a :: linorder \<Rightarrow> 'a \<Rightarrow> 'a \<Rightarrow> bool" where
  "gap a x b \<longleftrightarrow> (if a < b then a < x \<and> x < b else a < x \<or> x < b)"

definition ring :: "chain \<Rightarrow> bool" where
  "ring c \<longleftrightarrow> sorted_wrt (<) (map Hash (nodes c))"

lemma ring_less: "ring c \<Longrightarrow> i < j \<Longrightarrow> j < length (nodes c) \<Longrightarrow> Hash (nodes c ! i) < Hash (nodes c ! j)"
  unfolding ring_def by (auto simp: sorted_wrt_iff_nth_less)

lemma ring_less_iff:
  "ring c \<Longrightarrow> i < length (nodes c) \<Longrightarrow> j < length (nodes c) \<Longrightarrow>
   Hash (nodes c ! i) < Hash (nodes c ! j) \<longleftrightarrow> i < j"
  using ring_less[of c i j] ring_less[of c j i] by (metis less_asym linorder_neqE_nat order_less_irrefl)

lemma ring_eq_iff:
  "ring c \<Longrightarrow> i < length (nodes c) \<Longrightarrow> j < length (nodes c) \<Longrightarrow>
   Hash (nodes c ! i) = Hash (nodes c ! j) \<longleftrightarrow> i = j"
  using ring_less_iff[of c i j] ring_less_iff[of c j i] by auto

lemma buildChain_sorted: "sorted (map Hash (nodes (buildChain D apex salt it oo names)))"
  by (simp add: buildChain_def)

lemma strict_sorted: "sorted xs \<Longrightarrow> distinct xs \<Longrightarrow> sorted_wrt (<) (xs :: 'a :: linorder list)"
  by (induction xs) (auto simp: order.strict_iff_order)

lemma hash_index_splits:
  assumes "sorted (map Hash (nodes c))"
  shows "splits_at (length (nodes c)) (\<lambda>i. h \<le> Hash (nodes c ! i)) (hash_index c h)"
  unfolding hash_index_def
proof (rule Search_splits, intro allI impI, elim conjE)
  fix x y assume "x \<le> y" "y < length (nodes c)" "h \<le> Hash (nodes c ! x)"
  then show "h \<le> Hash (nodes c ! y)"
    using sorted_nth_mono[OF assms, of x y] by simp
qed

lemma hash_index_node:
  assumes "ring c" "i < length (nodes c)"
  shows "hash_index c (Hash (nodes c ! i)) = i"
proof -
  have "sorted (map Hash (nodes c))" using assms(1) by (simp add: ring_def strict_sorted_imp_sorted)
  from hash_index_splits[OF this, of "Hash (nodes c ! i)"]
  have s: "hash_index c (Hash (nodes c ! i)) \<le> length (nodes c)"
    "\<And>k. k < hash_index c (Hash (nodes c ! i)) \<Longrightarrow> \<not> Hash (nodes c ! i) \<le> Hash (nodes c ! k)"
    "\<And>k. k < length (nodes c) \<Longrightarrow> hash_index c (Hash (nodes c ! i)) \<le> k \<Longrightarrow> Hash (nodes c ! i) \<le> Hash (nodes c ! k)"
    by (auto simp: splits_at_def)
  let ?j = "hash_index c (Hash (nodes c ! i))"
  have "\<not> i < ?j" using s(2) by blast
  moreover have "\<not> ?j < i"
  proof
    assume "?j < i"
    then have "Hash (nodes c ! ?j) < Hash (nodes c ! i)" using ring_less assms by blast
    moreover have "Hash (nodes c ! i) \<le> Hash (nodes c ! ?j)" using s(3)[of ?j] \<open>?j < i\<close> assms(2) by simp
    ultimately show False by simp
  qed
  ultimately show ?thesis by simp
qed

lemma nextHashedOwner_nth:
  "ring c \<Longrightarrow> i < length (nodes c) \<Longrightarrow>
   nextHashedOwner c (nodes c ! i) = Hash (nodes c ! (Suc i mod length (nodes c)))"
  by (auto simp: nextHashedOwner_def hash_index_node)

lemma node_index: "n \<in> set (nodes c) \<Longrightarrow> \<exists>i<length (nodes c). n = nodes c ! i"
  by (metis in_set_conv_nth)

lemma gap_around:
  assumes "ring c" "i < length (nodes c)" "\<forall>k<length (nodes c). Hash (nodes c ! k) \<noteq> h"
    and "if i = length (nodes c) - 1 then Hash (nodes c ! i) < h \<or> h < Hash (nodes c ! 0)
         else Hash (nodes c ! i) < h \<and> h < Hash (nodes c ! Suc i)"
  shows "gap (Hash (nodes c ! i)) h (nextHashedOwner c (nodes c ! i))"
proof (cases "i = length (nodes c) - 1")
  case True
  then have "Suc i mod length (nodes c) = 0" using assms(2) by (metis Suc_diff_1 mod_self not_less_zero zero_less_iff_neq_zero gr0I)
  moreover have "\<not> Hash (nodes c ! i) < Hash (nodes c ! 0)"
    using ring_less_iff[OF assms(1,2), of 0] assms(2) by (metis not_less_zero gr0I)
  ultimately show ?thesis using assms(4) True
    unfolding gap_def nextHashedOwner_nth[OF assms(1,2)] by simp
next
  case False
  then have "Suc i < length (nodes c)" using assms(2) by simp
  then show ?thesis using assms(4) False ring_less[OF assms(1), of i "Suc i"]
    unfolding gap_def nextHashedOwner_nth[OF assms(1,2)] by simp
qed

lemma coveringNSEC3_gap:
  assumes "ring c" "nodes c \<noteq> []" "hashName D c q \<notin> Hash ` set (nodes c)"
  shows "\<exists>n\<in>set (nodes c). coveringNSEC3 D c q = Some n \<and> gap (Hash n) (hashName D c q) (nextHashedOwner c n)"
proof -
  let ?h = "hashName D c q" and ?l = "length (nodes c)"
  let ?i = "hash_index c ?h"
  have no: "Hash (nodes c ! k) \<noteq> ?h" if "k < ?l" for k
    using assms(3) that by (metis imageI nth_mem)
  have "sorted (map Hash (nodes c))" using assms(1) by (simp add: ring_def strict_sorted_imp_sorted)
  from hash_index_splits[OF this, of ?h]
  have s: "?i \<le> ?l" "\<And>k. k < ?i \<Longrightarrow> Hash (nodes c ! k) < ?h"
    and "\<And>k. k < ?l \<Longrightarrow> ?i \<le> k \<Longrightarrow> ?h \<le> Hash (nodes c ! k)"
    by (auto simp: splits_at_def not_le)
  then have s3: "\<And>k. k < ?l \<Longrightarrow> ?i \<le> k \<Longrightarrow> ?h < Hash (nodes c ! k)"
    using no by (metis order.not_eq_order_implies_strict)
  have l: "?l - 1 < ?l" "0 < ?l" using assms(2) by simp_all
  let ?j = "if ?i = 0 \<or> ?i = ?l then ?l - 1 else ?i - 1"
  have j: "?j < ?l" using l s(1) by auto
  have "gap (Hash (nodes c ! ?j)) ?h (nextHashedOwner c (nodes c ! ?j))"
  proof (rule gap_around[OF assms(1) j])
    show "if ?j = ?l - 1 then Hash (nodes c ! ?j) < ?h \<or> ?h < Hash (nodes c ! 0)
          else Hash (nodes c ! ?j) < ?h \<and> ?h < Hash (nodes c ! Suc ?j)"
      using s(2)[of ?j] s3[of 0] s3[of "Suc ?j"] s(1) l
      by (cases "?i = 0"; cases "?i = ?l") (simp_all, linarith)
  qed (use no in blast)
  moreover have "coveringNSEC3 D c q = Some (nodes c ! ?j)"
    using assms(2) by (simp add: coveringNSEC3_def Let_def)
  ultimately show ?thesis using j nth_mem by blast
qed

lemma gap_excludes_nodes:
  assumes "ring c" "n \<in> set (nodes c)" "m \<in> set (nodes c)"
  shows "\<not> gap (Hash n) (Hash m) (nextHashedOwner c n)"
proof -
  obtain i k where i: "i < length (nodes c)" "n = nodes c ! i" and k: "k < length (nodes c)" "m = nodes c ! k"
    using node_index assms(2,3) by metis
  have next': "nextHashedOwner c n = Hash (nodes c ! (Suc i mod length (nodes c)))"
    using nextHashedOwner_nth[OF assms(1) i(1)] i(2) by simp
  show ?thesis
  proof (cases "Suc i = length (nodes c)")
    case True
    then have "nextHashedOwner c n = Hash (nodes c ! 0)" "0 < length (nodes c)"
      using i(1) by (simp add: next', linarith)
    then show ?thesis
      using i k True ring_less_iff[OF assms(1) i(1), of 0] ring_less_iff[OF assms(1) i(1) k(1)]
        ring_less_iff[OF assms(1) k(1), of 0]
      by (simp add: gap_def)
  next
    case False
    then have "Suc i < length (nodes c)" "nextHashedOwner c n = Hash (nodes c ! Suc i)"
      using i(1) by (simp_all add: next')
    then show ?thesis
      using i k ring_less_iff[OF assms(1) i(1) k(1)] ring_less_iff[OF assms(1) k(1), of "Suc i"]
        ring_less_iff[OF assms(1) i(1), of "Suc i"]
      by (simp add: gap_def)
  qed
qed

lemma matchingNSEC3_iff:
  assumes "ring c"
  shows "matchingNSEC3 D c q = Some n \<longleftrightarrow> n \<in> set (nodes c) \<and> Hash n = hashName D c q"
proof
  assume "matchingNSEC3 D c q = Some n"
  then show "n \<in> set (nodes c) \<and> Hash n = hashName D c q"
    by (auto simp: matchingNSEC3_def Let_def split: if_splits)
next
  assume n: "n \<in> set (nodes c) \<and> Hash n = hashName D c q"
  then obtain i where "i < length (nodes c)" "n = nodes c ! i" using node_index by blast
  then show "matchingNSEC3 D c q = Some n"
    using n hash_index_node[OF assms, of i] by (auto simp: matchingNSEC3_def Let_def)
qed

lemma matchingNSEC3_None:
  "ring c \<Longrightarrow> matchingNSEC3 D c q = None \<longleftrightarrow> hashName D c q \<notin> Hash ` set (nodes c)"
  using matchingNSEC3_iff[of c D q] by (metis imageE imageI not_None_eq)

end
