(* ===== verification/Nsec3Denial.thy ===== *)
theory Nsec3Denial
  imports Nsec3Chain
begin

text \<open>
  From a zone to its denials (\<^verbatim>\<open>zone.go\<close>, \<^verbatim>\<open>denial.go\<close> of the signing plugin): the owner
  names collected from a zone file, the empty non-terminals added to them, and the
  NSEC3 records that are put into a negative, wildcard or referral response.  Parsing
  the file and classifying a response (\<^verbatim>\<open>response.Typify\<close>) belong to libraries and are
  parameters; Go's map iteration is an order the definitions are given.
\<close>

section \<open>Records\<close>

record nsec3_rdata =
  n3_algorithm :: nat
  n3_flags :: nat
  n3_iterations :: nat
  n3_salt_length :: nat
  n3_salt :: string
  n3_hash_length :: nat
  NextDomain :: string
  TypeBitMap :: "nat list"

record rrsig_rdata =
  TypeCovered :: nat
  Algorithm :: nat
  Labels :: nat
  OrigTtl :: nat
  Expiration :: nat
  Inception :: nat
  SigKeyTag :: nat
  SignerName :: string
  Signature :: string

datatype rdata = SOA nat | NSEC3 nsec3_rdata | RRSIG rrsig_rdata | Rdata string

record rr =
  rr_name :: string
  Rrtype :: nat
  Class :: nat
  Ttl :: nat
  rr_data :: rdata

record msg =
  Answer :: "rr list"
  Ns :: "rr list"
  Extra :: "rr list"
  Rcode :: nat

definition TypeNS :: nat where "TypeNS = 2"
definition TypeSOA :: nat where "TypeSOA = 6"
definition TypeOPT :: nat where "TypeOPT = 41"
definition TypeDS :: nat where "TypeDS = 43"
definition TypeRRSIG :: nat where "TypeRRSIG = 46"
definition TypeDNSKEY :: nat where "TypeDNSKEY = 48"
definition TypeNSEC3 :: nat where "TypeNSEC3 = 50"

lemmas rr_types = TypeNS_def TypeSOA_def TypeOPT_def TypeDS_def TypeRRSIG_def TypeDNSKEY_def TypeNSEC3_def

section \<open>Zone file\<close>

record ownerState =
  os_types :: "nat list"
  hasNS :: bool
  hasDS :: bool

type_synonym owner_map = "string \<Rightarrow> ownerState option"

definition collect_rr :: "dns_lib \<Rightarrow> rr \<Rightarrow> owner_map \<times> string \<Rightarrow> owner_map \<times> string" where
  "collect_rr D r st =
     (let (owners, apex) = st; owner = CanonicalName D (rr_name r);
          apex' = (if Rrtype r = TypeSOA \<and> apex = [] then owner else apex);
          os = (case owners owner of None \<Rightarrow> \<lparr>os_types = [], hasNS = False, hasDS = False\<rparr> | Some os \<Rightarrow> os);
          os1 = os\<lparr>os_types := List.insert (Rrtype r) (os_types os)\<rparr>;
          os2 = (if Rrtype r = TypeNS then os1\<lparr>hasNS := True\<rparr>
                 else if Rrtype r = TypeDS then os1\<lparr>hasDS := True\<rparr> else os1)
      in (owners(owner \<mapsto> os2), apex'))"

definition collectOwners :: "dns_lib \<Rightarrow> rr list \<Rightarrow> owner_map \<times> string" where
  "collectOwners D rrs = fold (collect_rr D) rrs (Map.empty, [])"

definition ent_step :: "string \<Rightarrow> string set \<times> string list \<Rightarrow> string set \<times> string list" where
  "ent_step parent st =
     (let (seen, ents) = st in if parent \<in> seen then (seen, ents) else (insert parent seen, ents @ [parent]))"

definition ent_parents :: "dns_lib \<Rightarrow> string \<Rightarrow> string \<Rightarrow> string list" where
  "ent_parents D apex owner =
     (let ownerLabels = SplitDomainName D owner; apexLabels = SplitDomainName D apex in
      map (\<lambda>i. join_with CHR ''.'' (drop i ownerLabels) @ ''.'')
        [1..<length ownerLabels - length apexLabels])"

text \<open>\<open>ord\<close> is the order in which the map of owners is walked.\<close>

definition synthesizeENTs :: "dns_lib \<Rightarrow> string list \<Rightarrow> string \<Rightarrow> string set \<Rightarrow> string list" where
  "synthesizeENTs D ord apex seen =
     snd (fold (\<lambda>owner. fold ent_step (ent_parents D apex owner)) ord (seen, []))"

definition ownersToNameInfo :: "dns_lib \<Rightarrow> string list \<Rightarrow> string list \<Rightarrow> owner_map \<Rightarrow> string \<Rightarrow> nameInfo list" where
  "ownersToNameInfo D ord ord' owners apex =
     map (\<lambda>owner. case owners owner of
            Some os \<Rightarrow> \<lparr>Name = owner, name_types = os_types os @ [TypeRRSIG],
                         name_opted_out = hasNS os \<and> \<not> hasDS os \<and> owner \<noteq> apex\<rparr>
          | None \<Rightarrow> \<lparr>Name = owner, name_types = [], name_opted_out = False\<rparr>) ord
     @ map (\<lambda>nm. \<lparr>Name = nm, name_types = [], name_opted_out = False\<rparr>)
         (synthesizeENTs D ord' apex (set ord))"

text \<open>The parser of the file answers its records and, after the last one, an error or none.\<close>

definition parseZoneFile ::
    "dns_lib \<Rightarrow> (owner_map \<Rightarrow> string list) \<Rightarrow> (owner_map \<Rightarrow> string list)
     \<Rightarrow> rr list \<times> string option \<Rightarrow> string + nameInfo list \<times> string" where
  "parseZoneFile D ord ord' parsed =
     (let (rrs, err) = parsed; (owners, apex) = collectOwners D rrs in
      case err of
        Some e \<Rightarrow> Inl (''parse: '' @ e)
      | None \<Rightarrow> if apex = [] then Inl ''no SOA record found''
                else Inr (ownersToNameInfo D (ord owners) (ord' owners) owners apex, apex))"

text \<open>\<open>zone_files\<close> opens and parses a file; no file means no chain.\<close>

definition loadChain ::
    "dns_lib \<Rightarrow> (owner_map \<Rightarrow> string list) \<Rightarrow> (owner_map \<Rightarrow> string list)
     \<Rightarrow> (string \<Rightarrow> string + rr list \<times> string option) \<Rightarrow> string \<Rightarrow> string \<Rightarrow> nat \<Rightarrow> bool \<Rightarrow> string + chain option" where
  "loadChain D ord ord' zone_files ZoneFile salt iterations optOut =
     (if ZoneFile = [] then Inr None
      else case zone_files ZoneFile of
             Inl e \<Rightarrow> Inl (''nsec3sign: zone file '' @ ZoneFile @ '': open: '' @ e)
           | Inr parsed \<Rightarrow>
               (case parseZoneFile D ord ord' parsed of
                  Inl e \<Rightarrow> Inl (''nsec3sign: zone file '' @ ZoneFile @ '': '' @ e)
                | Inr (names, apex) \<Rightarrow> Inr (Some (buildChain D apex salt iterations optOut names))))"

section \<open>Proofs\<close>

definition defaultDenialTTL :: nat where
  "defaultDenialTTL = 3600"

definition readDenialTTL :: "msg \<Rightarrow> nat" where
  "readDenialTTL m =
     (case [t. r \<leftarrow> Ns m, t \<leftarrow> (case rr_data r of SOA t \<Rightarrow> [t] | _ \<Rightarrow> [])] of
        [] \<Rightarrow> defaultDenialTTL | t # _ \<Rightarrow> t)"

text \<open>\<^verbatim>\<open>uint8(len(c.Salt) / 2)\<close> wraps at 256.\<close>

definition renderNSEC3 :: "chain \<Rightarrow> nat \<Rightarrow> nsec3Node \<Rightarrow> rr" where
  "renderNSEC3 c ttl n =
     \<lparr>rr_name = ownerForNode c n, Rrtype = TypeNSEC3, Class = 1, Ttl = ttl,
      rr_data = NSEC3 \<lparr>n3_algorithm = 1, n3_flags = (if OptOut c then 1 else 0),
        n3_iterations = Iterations c, n3_salt_length = (length (Salt c) div 2) mod 256,
        n3_salt = Salt c, n3_hash_length = 20, NextDomain = nextHashedOwner c n,
        TypeBitMap = Types n\<rparr>\<rparr>"

fun dedup_nodes :: "string set \<Rightarrow> nsec3Node option list \<Rightarrow> nsec3Node list" where
  "dedup_nodes seen [] = []"
| "dedup_nodes seen (None # ns) = dedup_nodes seen ns"
| "dedup_nodes seen (Some n # ns) =
     (if Hash n \<in> seen then dedup_nodes seen ns else n # dedup_nodes (insert (Hash n) seen) ns)"

definition dedupedNSEC3 :: "chain \<Rightarrow> nsec3Node option list \<Rightarrow> nat \<Rightarrow> rr list" where
  "dedupedNSEC3 c ns ttl = map (renderNSEC3 c ttl) (dedup_nodes {} ns)"

definition findClosestEncloser :: "dns_lib \<Rightarrow> chain \<Rightarrow> string \<Rightarrow> string \<times> string" where
  "findClosestEncloser D c q =
     (let qname = CanonicalName D q; ql = SplitDomainName D qname; al = SplitDomainName D (Apex c) in
      case List.find (\<lambda>i. matchingNSEC3 D c (joinDomainLabels (drop i ql)) \<noteq> None)
             [0..<Suc (length ql) - length al] of
        Some i \<Rightarrow> (joinDomainLabels (drop i ql),
                    if i = 0 then qname else joinDomainLabels (drop (i - 1) ql))
      | None \<Rightarrow> (Apex c,
                  if length al < length ql then joinDomainLabels (drop (length ql - length al - 1) ql)
                  else qname))"

definition proofForNXDOMAIN :: "dns_lib \<Rightarrow> chain \<Rightarrow> string \<Rightarrow> nat \<Rightarrow> rr list" where
  "proofForNXDOMAIN D c qname ttl =
     (if nodes c = [] then []
      else let (encloser, nextCloser) = findClosestEncloser D c qname in
        dedupedNSEC3 c [matchingNSEC3 D c encloser, coveringNSEC3 D c nextCloser,
                        coveringNSEC3 D c (''*.'' @ encloser)] ttl)"

definition proofForNODATA :: "dns_lib \<Rightarrow> chain \<Rightarrow> string \<Rightarrow> nat \<Rightarrow> rr list" where
  "proofForNODATA D c qname ttl =
     (if nodes c = [] then []
      else case matchingNSEC3 D c qname of
             Some n \<Rightarrow> dedupedNSEC3 c [Some n] ttl
           | None \<Rightarrow> proofForNXDOMAIN D c qname ttl)"

definition proofForDelegation :: "dns_lib \<Rightarrow> chain \<Rightarrow> string \<Rightarrow> nat \<Rightarrow> rr list" where
  "proofForDelegation D c delOwner ttl =
     (if nodes c = [] then []
      else case matchingNSEC3 D c delOwner of
             Some n \<Rightarrow> dedupedNSEC3 c [Some n] ttl
           | None \<Rightarrow>
               if OptOut c then
                 (case coveringNSEC3 D c delOwner of
                    Some n \<Rightarrow> dedupedNSEC3 c [Some n] ttl
                  | None \<Rightarrow> [])
               else [])"

definition wildcardSource :: "dns_lib \<Rightarrow> chain \<Rightarrow> string \<Rightarrow> string" where
  "wildcardSource D c owner =
     (if matchingNSEC3 D c owner \<noteq> None then []
      else let candidate = ''*.'' @ fst (findClosestEncloser D c owner) in
        if matchingNSEC3 D c candidate \<noteq> None then candidate else [])"

section \<open>Responses\<close>

datatype response_type = NameError | NoData | Delegation | OtherResponse

definition delegationOwner :: "dns_lib \<Rightarrow> rr list \<Rightarrow> string" where
  "delegationOwner D ns =
     (case List.find (\<lambda>r. Rrtype r = TypeNS) ns of
        None \<Rightarrow> [] | Some r \<Rightarrow> CanonicalName D (rr_name r))"

definition attachDenialProof ::
    "dns_lib \<Rightarrow> (msg \<Rightarrow> int \<Rightarrow> response_type) \<Rightarrow> chain option \<Rightarrow> string \<Rightarrow> int \<Rightarrow> msg \<Rightarrow> msg" where
  "attachDenialProof D Typify chn qname t m =
     (case chn of
        None \<Rightarrow> m
      | Some c \<Rightarrow>
          if nodes c = [] then m
          else let ttl = readDenialTTL m in
            (case Typify m t of
               NameError \<Rightarrow> m\<lparr>Ns := Ns m @ proofForNXDOMAIN D c qname ttl\<rparr>
             | NoData \<Rightarrow> m\<lparr>Ns := Ns m @ proofForNODATA D c qname ttl\<rparr>
             | Delegation \<Rightarrow>
                 let delOwner = delegationOwner D (Ns m) in
                 if delOwner \<noteq> [] then m\<lparr>Ns := Ns m @ proofForDelegation D c delOwner ttl\<rparr> else m
             | OtherResponse \<Rightarrow> m))"

definition wildcard_step ::
    "dns_lib \<Rightarrow> chain \<Rightarrow> nat \<Rightarrow> rr \<Rightarrow> string set \<times> string set \<times> rr list \<Rightarrow> string set \<times> string set \<times> rr list" where
  "wildcard_step D c ttl r st =
     (let (seenOwner, covered, out) = st; owner = CanonicalName D (rr_name r) in
      if Rrtype r = TypeRRSIG \<or> owner \<in> seenOwner then st
      else if wildcardSource D c owner = [] then (insert owner seenOwner, covered, out)
      else case coveringNSEC3 D c (snd (findClosestEncloser D c owner)) of
             None \<Rightarrow> (insert owner seenOwner, covered, out)
           | Some n \<Rightarrow>
               if Hash n \<in> covered then (insert owner seenOwner, covered, out)
               else (insert owner seenOwner, insert (Hash n) covered, out @ [renderNSEC3 c ttl n]))"

definition attachWildcardProof :: "dns_lib \<Rightarrow> chain option \<Rightarrow> msg \<Rightarrow> msg" where
  "attachWildcardProof D chn m =
     (case chn of
        None \<Rightarrow> m
      | Some c \<Rightarrow>
          if nodes c = [] \<or> Answer m = [] then m
          else m\<lparr>Ns := Ns m @ snd (snd (fold (wildcard_step D c (readDenialTTL m)) (Answer m) ({}, {}, [])))\<rparr>)"

end
