(* ===== verification/Nsec3Sign.thy ===== *)
theory Nsec3Sign
  imports Nsec3Denial "HOL-Library.Word"
begin

unbundle bit_operations_syntax

text \<open>
  The signing half of the plugin: keys (\<^verbatim>\<open>keys.go\<close>), signatures and their cache
  (\<^verbatim>\<open>signer.go\<close>, \<^verbatim>\<open>sigcache.go\<close>), the configuration (\<^verbatim>\<open>setup.go\<close>) and the handler
  (\<^verbatim>\<open>nsec3sign.go\<close>).  Key files, signature arithmetic, the text form of a record and the
  eviction of the cache are the fields of \<open>sign_lib\<close>; times are in seconds.
\<close>

section \<open>Keys\<close>

record dnskey =
  Flags :: nat
  dk_algorithm :: nat
  dk_tag :: nat

record signingKey =
  KeyTag :: nat
  IsKSK :: bool
  Public :: dnskey
  Private :: string
  is_signer :: bool

text \<open>\<^verbatim>\<open>Sign\<close> completes a template over the records of a set; \<^verbatim>\<open>evicts\<close> are the entries a full cache
  drops when a key is added.\<close>

type_synonym sig_cache = "64 word \<Rightarrow> rr list option"

record sign_lib =
  read_dnskey :: "string \<Rightarrow> string + dnskey"
  read_private :: "dnskey \<Rightarrow> string \<Rightarrow> string + string \<times> bool"
  Sign :: "signingKey \<Rightarrow> rr \<Rightarrow> rr list \<Rightarrow> string + rr"
  ValidityPeriod :: "rr \<Rightarrow> int \<Rightarrow> bool"
  rr_text :: "rr \<Rightarrow> string"
  evicts :: "sig_cache \<Rightarrow> 64 word \<Rightarrow> 64 word set"

definition loadKey :: "sign_lib \<Rightarrow> string \<Rightarrow> string + signingKey" where
  "loadKey L basename =
     (case read_dnskey L (basename @ ''.key'') of
        Inl e \<Rightarrow> Inl e
      | Inr dk \<Rightarrow>
          (case read_private L dk (basename @ ''.private'') of
             Inl e \<Rightarrow> Inl e
           | Inr (priv, signer) \<Rightarrow>
               Inr \<lparr>KeyTag = dk_tag dk, IsKSK = odd (Flags dk), Public = dk, Private = priv,
                    is_signer = signer\<rparr>))"

fun loadKeys :: "sign_lib \<Rightarrow> string list \<Rightarrow> string + signingKey list" where
  "loadKeys L [] = Inr []"
| "loadKeys L (base # bases) =
     (case loadKey L base of
        Inl e \<Rightarrow> Inl (''nsec3sign: loading '' @ base @ '': '' @ e)
      | Inr k \<Rightarrow> (case loadKeys L bases of Inl e \<Rightarrow> Inl e | Inr ks \<Rightarrow> Inr (k # ks)))"

definition ZSKs :: "signingKey list \<Rightarrow> signingKey list" where
  "ZSKs ks = filter (\<lambda>k. \<not> IsKSK k) ks"

definition KSKs :: "signingKey list \<Rightarrow> signingKey list" where
  "KSKs ks = filter IsKSK ks"

definition signingKeysFor :: "signingKey list \<Rightarrow> nat \<Rightarrow> signingKey list" where
  "signingKeysFor ks rrtype =
     (if rrtype = TypeDNSKEY then (if KSKs ks \<noteq> [] then KSKs ks else ZSKs ks)
      else if ZSKs ks \<noteq> [] then ZSKs ks else KSKs ks)"

section \<open>Signatures\<close>

definition sigInceptionOffset :: int where "sigInceptionOffset = 60 * 60"
definition sigValidity :: int where "sigValidity = 8 * 24 * 60 * 60"
definition sigCacheRefreshThreshold :: int where "sigCacheRefreshThreshold = 2 * 24 * 60 * 60"
definition sigCacheCleanInterval :: int where "sigCacheCleanInterval = 8 * 60 * 60"

lemmas sig_times = sigInceptionOffset_def sigValidity_def sigCacheRefreshThreshold_def
  sigCacheCleanInterval_def

text \<open>\<^verbatim>\<open>uint32(t.Unix())\<close>.\<close>

definition uint32 :: "int \<Rightarrow> nat" where
  "uint32 t = nat (t mod 2 ^ 32)"

definition signOne ::
    "sign_lib \<Rightarrow> rr list \<Rightarrow> signingKey \<Rightarrow> string \<Rightarrow> nat \<Rightarrow> nat \<Rightarrow> string + rr" where
  "signOne L rrs k signerName incep expir =
     (let rh = hd rrs;
          tmpl = \<lparr>rr_name = rr_name rh, Rrtype = TypeRRSIG, Class = Class rh, Ttl = Ttl rh,
            rr_data = RRSIG \<lparr>TypeCovered = Rrtype rh, Algorithm = dk_algorithm (Public k), Labels = 0,
              OrigTtl = Ttl rh, Expiration = expir, Inception = incep, SigKeyTag = KeyTag k,
              SignerName = signerName, Signature = []\<rparr>\<rparr>
      in if \<not> is_signer k then Inl ''private key does not implement crypto.Signer''
         else case Sign L k tmpl rrs of Inl e \<Rightarrow> Inl (''RRSIG.Sign: '' @ e) | Inr s \<Rightarrow> Inr s)"

definition wildcardOwnerClone :: "rr list \<Rightarrow> string \<Rightarrow> rr list" where
  "wildcardOwnerClone rrs wildcardOwner = map (\<lambda>r. r\<lparr>rr_name := wildcardOwner\<rparr>) rrs"

text \<open>\<^verbatim>\<open>fnv.New64a\<close>.\<close>

definition fnv64a :: "string \<Rightarrow> 64 word" where
  "fnv64a s = fold (\<lambda>ch h. (h XOR word_of_nat (of_char ch)) * 1099511628211) s 14695981039346656037"

definition rrsetCacheKey :: "sign_lib \<Rightarrow> rr list \<Rightarrow> 64 word" where
  "rrsetCacheKey L rrs = fnv64a (concat (map (rr_text L) rrs))"

definition cache_add :: "sign_lib \<Rightarrow> sig_cache \<Rightarrow> 64 word \<Rightarrow> rr list \<Rightarrow> sig_cache" where
  "cache_add L cache key sigs = (\<lambda>k. if k = key then Some sigs else if k \<in> evicts L cache key then None else cache k)"

definition cleanSigCache :: "sign_lib \<Rightarrow> sig_cache \<Rightarrow> int \<Rightarrow> sig_cache" where
  "cleanSigCache L cache t =
     (\<lambda>k. case cache k of
        None \<Rightarrow> None
      | Some sigs \<Rightarrow>
          if list_ex (\<lambda>s. (case rr_data s of RRSIG _ \<Rightarrow> True | _ \<Rightarrow> False)
               \<and> \<not> ValidityPeriod L s (t + sigCacheRefreshThreshold)) sigs
          then None else Some sigs)"

section \<open>Plugin\<close>

record nsec3sign =
  Zones :: "string list"
  KeyFiles :: "string list"
  ZoneFile :: string
  Keys :: "signingKey list"
  Chain :: "chain option"
  salt :: string
  iterations :: nat
  optOut :: bool
  CacheCapacity :: nat

text \<open>Signing one set; the cache is absent only when no plugin was set up.\<close>

definition signRRset ::
    "dns_lib \<Rightarrow> sign_lib \<Rightarrow> nsec3sign \<Rightarrow> string \<Rightarrow> nat \<Rightarrow> nat \<Rightarrow> rr list \<Rightarrow> sig_cache option
     \<Rightarrow> rr list \<times> sig_cache option" where
  "signRRset D L n signerName incep expir rrs cache =
     (if rrs = [] then ([], cache)
      else let key = rrsetCacheKey L rrs in
        case Option.bind cache (\<lambda>c. c key) of
          Some v \<Rightarrow> (v, cache)
        | None \<Rightarrow>
            let keys = signingKeysFor (Keys n) (Rrtype (hd rrs)) in
            if keys = [] then ([], cache)
            else let owner = rr_name (hd rrs);
                   wc = (case Chain n of None \<Rightarrow> [] | Some c \<Rightarrow> wildcardSource D c owner);
                   signRRs = (if wc \<noteq> [] then wildcardOwnerClone rrs wc else rrs);
                   sigs = concat (map (\<lambda>k. case signOne L signRRs k signerName incep expir of
                       Inl _ \<Rightarrow> [] | Inr s \<Rightarrow> [if wc \<noteq> [] \<and> owner \<noteq> [] then s\<lparr>rr_name := owner\<rparr> else s]) keys)
                 in (sigs, case cache of
                       None \<Rightarrow> None
                     | Some c \<Rightarrow> Some (if sigs \<noteq> [] then cache_add L c key sigs else c)))"

type_synonym rrset_key = "string \<times> nat \<times> nat"

definition signable :: "rr \<Rightarrow> bool" where
  "signable r \<longleftrightarrow> Rrtype r \<noteq> TypeRRSIG \<and> Rrtype r \<noteq> TypeOPT"

definition rrset_key :: "rr \<Rightarrow> rrset_key" where
  "rrset_key r = (to_lower (rr_name r), Rrtype r, Class r)"

definition groupByRRset :: "rr list \<Rightarrow> (rrset_key \<times> rr list) list" where
  "groupByRRset rrs =
     map (\<lambda>k. (k, filter (\<lambda>r. signable r \<and> rrset_key r = k) rrs))
       (remdups (map rrset_key (filter signable rrs)))"

text \<open>\<open>walk\<close> orders the map of sets.\<close>

definition appendRRSIGs ::
    "dns_lib \<Rightarrow> sign_lib \<Rightarrow> nsec3sign \<Rightarrow> ((rrset_key \<times> rr list) list \<Rightarrow> (rrset_key \<times> rr list) list)
     \<Rightarrow> string \<Rightarrow> nat \<Rightarrow> nat \<Rightarrow> rr list \<Rightarrow> sig_cache option \<Rightarrow> rr list \<times> sig_cache option" where
  "appendRRSIGs D L n walk signerName incep expir rrs cache =
     fold (\<lambda>(k, rrset) (out, c).
        case signRRset D L n signerName incep expir rrset c of (sigs, c') \<Rightarrow> (out @ sigs, c'))
       (walk (groupByRRset rrs)) (rrs, cache)"

definition signMessage ::
    "dns_lib \<Rightarrow> sign_lib \<Rightarrow> nsec3sign \<Rightarrow> ((rrset_key \<times> rr list) list \<Rightarrow> (rrset_key \<times> rr list) list)
     \<Rightarrow> string \<Rightarrow> int \<Rightarrow> msg \<Rightarrow> sig_cache option \<Rightarrow> msg \<times> sig_cache option" where
  "signMessage D L n walk signerName t m cache =
     (if Keys n = [] then (m, cache)
      else let incep = uint32 (t - sigInceptionOffset); expir = uint32 (t + sigValidity) in
        case appendRRSIGs D L n walk signerName incep expir (Answer m) cache of
          (answer, c1) \<Rightarrow>
            (case appendRRSIGs D L n walk signerName incep expir (Ns m) c1 of
               (ns, c2) \<Rightarrow> (m\<lparr>Answer := answer, Ns := ns\<rparr>, c2)))"

text \<open>What the rest of the server does with a query: the zone it matches, the DO bit, and the return
  code, error and message of the next plugin.\<close>

record query_run =
  q_name :: string
  zone_match :: string
  do_bit :: bool
  next_code :: nat
  next_error :: "string option"
  next_msg :: "msg option"
  Typify :: "msg \<Rightarrow> int \<Rightarrow> response_type"
  walk_sets :: "(rrset_key \<times> rr list) list \<Rightarrow> (rrset_key \<times> rr list) list"

text \<open>The code and error returned, and the message written to the client.\<close>

definition ServeDNS ::
    "dns_lib \<Rightarrow> sign_lib \<Rightarrow> nsec3sign \<Rightarrow> query_run \<Rightarrow> int \<Rightarrow> sig_cache option
     \<Rightarrow> (nat \<times> string option \<times> msg option) \<times> sig_cache option" where
  "ServeDNS D L n q t cache =
     (if zone_match q = [] \<or> \<not> do_bit q \<or> Keys n = []
      then ((next_code q, next_error q, next_msg q), cache)
      else case next_error q of
             Some e \<Rightarrow> ((next_code q, Some e, None), cache)
           | None \<Rightarrow>
               (case next_msg q of
                  None \<Rightarrow> ((next_code q, None, None), cache)
                | Some m \<Rightarrow>
                    (case signMessage D L n (walk_sets q) (zone_match q) t
                        (attachWildcardProof D (Chain n) (attachDenialProof D (Typify q) (Chain n) (q_name q) t m))
                        cache of
                       (m', cache') \<Rightarrow> ((next_code q, None, Some m'), cache'))))"

section \<open>Configuration\<close>

definition is_hex_digit :: "char \<Rightarrow> bool" where
  "is_hex_digit ch \<longleftrightarrow> is_digit ch \<or> (CHR ''a'' \<le> ch \<and> ch \<le> CHR ''f'') \<or> (CHR ''A'' \<le> ch \<and> ch \<le> CHR ''F'')"

text \<open>The length of what \<^verbatim>\<open>hex.DecodeString\<close> decodes.\<close>

definition hex_decoded :: "string \<Rightarrow> nat option" where
  "hex_decoded s = (if even (length s) \<and> list_all is_hex_digit s then Some (length s div 2) else None)"

definition nsec3MaxSaltBytes :: nat where
  "nsec3MaxSaltBytes = 32"

definition parseKey :: "string list \<Rightarrow> nsec3sign \<Rightarrow> string + nsec3sign" where
  "parseKey args n =
     (case args of
        [kind, base] \<Rightarrow> if kind = ''file'' then Inr (n\<lparr>KeyFiles := KeyFiles n @ [base]\<rparr>) else Inl ''ArgErr''
      | _ \<Rightarrow> Inl ''ArgErr'')"

definition parseZone :: "string list \<Rightarrow> nsec3sign \<Rightarrow> string + nsec3sign" where
  "parseZone args n =
     (case args of
        [kind, path] \<Rightarrow>
          if kind \<noteq> ''file'' then Inl ''ArgErr''
          else if ZoneFile n \<noteq> [] then Inl ''zone file already set; one zone file per nsec3sign block''
          else Inr (n\<lparr>ZoneFile := path\<rparr>)
      | _ \<Rightarrow> Inl ''ArgErr'')"

definition parseSalt :: "string list \<Rightarrow> nsec3sign \<Rightarrow> string + nsec3sign" where
  "parseSalt args n =
     (case args of
        [arg] \<Rightarrow>
          let s = (if arg = [CHR 0x22, CHR 0x22] \<or> arg = ''-'' then [] else arg) in
          (case hex_decoded s of
             None \<Rightarrow> Inl ''salt must be hex''
           | Some bytes \<Rightarrow>
               if nsec3MaxSaltBytes < bytes then Inl ''salt exceeds the configured maximum''
               else Inr (n\<lparr>salt := s\<rparr>))
      | _ \<Rightarrow> Inl ''ArgErr'')"

text \<open>The parsed number is stored as \<^verbatim>\<open>uint16\<close>.\<close>

definition parseIterations :: "string list \<Rightarrow> nsec3sign \<Rightarrow> string + nsec3sign" where
  "parseIterations args n =
     (case args of
        [arg] \<Rightarrow>
          (case atoi arg of
             None \<Rightarrow> Inl ''iterations must be a non-negative integer''
           | Some it \<Rightarrow>
               if it < 0 then Inl ''iterations must be a non-negative integer''
               else if 150 < it then Inl ''iterations exceeds the maximum of 150''
               else Inr (n\<lparr>iterations := nat (it mod 2 ^ 16)\<rparr>))
      | _ \<Rightarrow> Inl ''ArgErr'')"

definition parseOptOut :: "string list \<Rightarrow> nsec3sign \<Rightarrow> string + nsec3sign" where
  "parseOptOut args n = (if args \<noteq> [] then Inl ''ArgErr'' else Inr (n\<lparr>optOut := True\<rparr>))"

definition parseCacheCapacity :: "string list \<Rightarrow> nsec3sign \<Rightarrow> string + nsec3sign" where
  "parseCacheCapacity args n =
     (case args of
        [arg] \<Rightarrow>
          (case atoi arg of
             None \<Rightarrow> Inl ''cache_capacity must be a positive integer''
           | Some k \<Rightarrow> if k \<le> 0 then Inl ''cache_capacity must be a positive integer''
                       else Inr (n\<lparr>CacheCapacity := nat k\<rparr>))
      | _ \<Rightarrow> Inl ''ArgErr'')"

definition parseDirective :: "string \<times> string list \<Rightarrow> nsec3sign \<Rightarrow> string + nsec3sign" where
  "parseDirective d n =
     (let (kw, args) = d in
      if kw = ''key'' then parseKey args n
      else if kw = ''zone'' then parseZone args n
      else if kw = ''salt'' then parseSalt args n
      else if kw = ''iterations'' then parseIterations args n
      else if kw = ''opt_out'' then parseOptOut args n
      else if kw = ''cache_capacity'' then parseCacheCapacity args n
      else Inl (''unknown nsec3sign directive '' @ kw))"

fun parseDirectives :: "(string \<times> string list) list \<Rightarrow> nsec3sign \<Rightarrow> string + nsec3sign" where
  "parseDirectives [] n = Inr n"
| "parseDirectives (d # ds) n =
     (case parseDirective d n of Inl e \<Rightarrow> Inl e | Inr n' \<Rightarrow> parseDirectives ds n')"

text \<open>The blocks of a Corefile, each with its zones (\<^verbatim>\<open>plugin.OriginsFromArgsOrServerBlock\<close>) and
  directives.\<close>

fun parse_blocks :: "(string list \<times> (string \<times> string list) list) list \<Rightarrow> nsec3sign \<Rightarrow> string + nsec3sign" where
  "parse_blocks [] n = Inr n"
| "parse_blocks ((zones, ds) # bs) n =
     (case parseDirectives ds (n\<lparr>Zones := zones\<rparr>) of Inl e \<Rightarrow> Inl e | Inr n' \<Rightarrow> parse_blocks bs n')"

definition parse :: "(string list \<times> (string \<times> string list) list) list \<Rightarrow> string + nsec3sign" where
  "parse blocks = parse_blocks blocks
     \<lparr>Zones = [], KeyFiles = [], ZoneFile = [], Keys = [], Chain = None, salt = [], iterations = 0,
      optOut = False, CacheCapacity = 10000\<rparr>"

definition setup_plugin ::
    "dns_lib \<Rightarrow> sign_lib \<Rightarrow> (owner_map \<Rightarrow> string list) \<Rightarrow> (owner_map \<Rightarrow> string list)
     \<Rightarrow> (string \<Rightarrow> string + rr list \<times> string option)
     \<Rightarrow> (string list \<times> (string \<times> string list) list) list \<Rightarrow> string + nsec3sign \<times> sig_cache" where
  "setup_plugin D L ord ord' zone_files blocks =
     (case parse blocks of
        Inl e \<Rightarrow> Inl e
      | Inr n \<Rightarrow>
          (case loadKeys L (KeyFiles n) of
             Inl e \<Rightarrow> Inl e
           | Inr ks \<Rightarrow>
               (case loadChain D ord ord' zone_files (ZoneFile n) (salt n) (iterations n) (optOut n) of
                  Inl e \<Rightarrow> Inl e
                | Inr c \<Rightarrow> Inr (n\<lparr>Keys := ks, Chain := c\<rparr>, \<lambda>_. None))))"

end
