(* ===== verification/Nsec3Proofs.thy ===== *)
theory Nsec3Proofs
  imports Nsec3Denial
begin

text \<open>
  Which names a zone denies.  The library's handling of names and its hash are
  assumed to behave as documented (\<open>dns_ok\<close>, \<open>no_collisions\<close>); an executable validator
  follows RFC 5155, section 8, and the records of the plugin are compared with it.
\<close>

section \<open>Assumptions on the library\<close>

text \<open>\<open>label\<close> tells the labels whose text form needs no escapes.\<close>

definition dns_ok :: "dns_lib \<Rightarrow> (string \<Rightarrow> bool) \<Rightarrow> bool" where
  "dns_ok D label \<longleftrightarrow>
     (\<forall>ls. list_all label ls \<longrightarrow>
        SplitDomainName D (joinDomainLabels ls) = ls
        \<and> CanonicalName D (joinDomainLabels ls) = joinDomainLabels (map to_lower ls))
     \<and> (\<forall>l. label l \<longrightarrow> l \<noteq> [] \<and> label (to_lower l)) \<and> label ''*''
     \<and> (\<forall>nm it salt. CHR ''.'' \<notin> set (HashName D nm it salt))"

text \<open>RFC 5155, 7.1: names of the zone whose hashes collide make the signer choose another salt;
  its appendix C.2.1 on collisions with a name that is asked for.  Both are of given, finitely many
  names, the set \<open>N\<close>.\<close>

definition no_collisions :: "dns_lib \<Rightarrow> string list set \<Rightarrow> string \<Rightarrow> nat \<Rightarrow> bool" where
  "no_collisions D N salt it \<longleftrightarrow> inj_on (\<lambda>ls. nsec3Hash D (joinDomainLabels ls) salt it) N"

lemma to_lower_char_idem [simp]: "to_lower_char (to_lower_char c) = to_lower_char c"
proof -
  have "CHR ''A'' \<le> c \<and> c \<le> CHR ''Z'' \<Longrightarrow> \<not> (CHR ''A'' \<le> to_lower_char c \<and> to_lower_char c \<le> CHR ''Z'')"
    by (auto simp: to_lower_char_def less_eq_char_def)
  then show ?thesis by (auto simp: to_lower_char_def)
qed

lemma to_lower_idem [simp]: "to_lower (to_lower s) = to_lower s"
  by (simp add: to_lower_def)

lemma to_lower_star [simp]: "to_lower ''*'' = ''*''"
  by (simp add: to_lower_def to_lower_char_def)

text \<open>A lower-case name, as its labels.\<close>

definition wf_labels :: "(string \<Rightarrow> bool) \<Rightarrow> string list \<Rightarrow> bool" where
  "wf_labels label ls \<longleftrightarrow> list_all label ls \<and> map to_lower ls = ls"

lemma wf_labels_simps [simp]:
  "wf_labels label []" "wf_labels label (l # ls) \<longleftrightarrow> label l \<and> to_lower l = l \<and> wf_labels label ls"
  "wf_labels label (ls @ ls') \<longleftrightarrow> wf_labels label ls \<and> wf_labels label ls'"
  by (auto simp: wf_labels_def)

lemma wf_labels_drop: "wf_labels label ls \<Longrightarrow> wf_labels label (drop i ls)"
  by (metis append_take_drop_id wf_labels_simps(3))

lemma dns_okD:
  assumes "dns_ok D label" "wf_labels label ls"
  shows "SplitDomainName D (joinDomainLabels ls) = ls"
    "CanonicalName D (joinDomainLabels ls) = joinDomainLabels ls"
  using assms by (auto simp: dns_ok_def wf_labels_def)

lemma join_inj:
  "dns_ok D label \<Longrightarrow> wf_labels label ls \<Longrightarrow> wf_labels label ls' \<Longrightarrow>
   joinDomainLabels ls = joinDomainLabels ls' \<longleftrightarrow> ls = ls'"
  by (metis dns_okD(1))

lemma join_hash_inj:
  "no_collisions D N salt it \<Longrightarrow> ls \<in> N \<Longrightarrow> ls' \<in> N \<Longrightarrow>
   nsec3Hash D (joinDomainLabels ls) salt it = nsec3Hash D (joinDomainLabels ls') salt it \<longleftrightarrow> ls = ls'"
  by (auto simp: no_collisions_def inj_on_def)

lemma no_collisions_subset: "no_collisions D N salt it \<Longrightarrow> M \<subseteq> N \<Longrightarrow> no_collisions D M salt it"
  by (auto simp: no_collisions_def intro: inj_on_subset)

text \<open>A name and its ancestors are among the names of \<open>N\<close>.\<close>

fun tails_in :: "string list set \<Rightarrow> string list \<Rightarrow> bool" where
  "tails_in N [] \<longleftrightarrow> [] \<in> N"
| "tails_in N (l # ls) \<longleftrightarrow> l # ls \<in> N \<and> tails_in N ls"

lemma tails_in_self: "tails_in N ls \<Longrightarrow> ls \<in> N"
  by (cases ls) simp_all

lemma tails_in_drop: "tails_in N ls \<Longrightarrow> tails_in N (drop i ls)"
proof (induction ls arbitrary: i)
  case (Cons l ls)
  then show ?case by (cases i) simp_all
qed simp

lemma tails_inI: "\<forall>i. drop i ls \<in> N \<Longrightarrow> tails_in N ls"
proof (induction ls)
  case (Cons l ls)
  have "drop i ls \<in> N" for i using spec[OF Cons.prems, of "Suc i"] by simp
  then show ?case using Cons.IH spec[OF Cons.prems, of 0] by simp
qed auto

lemma star_join: "ls \<noteq> [] \<Longrightarrow> ''*.'' @ joinDomainLabels ls = joinDomainLabels (''*'' # ls)"
  by (cases ls) (auto simp: joinDomainLabels_def)

section \<open>The names of a zone\<close>

definition is_suffix :: "'a list \<Rightarrow> 'a list \<Rightarrow> bool" where
  "is_suffix ls xs \<longleftrightarrow> length ls \<le> length xs \<and> drop (length xs - length ls) xs = ls"

lemma is_suffix_iff: "is_suffix ls xs \<longleftrightarrow> (\<exists>i\<le>length xs. ls = drop i xs)"
proof
  assume "is_suffix ls xs"
  then show "\<exists>i\<le>length xs. ls = drop i xs" by (intro exI[of _ "length xs - length ls"]) (auto simp: is_suffix_def)
qed (auto simp: is_suffix_def)

lemma is_suffix_append: "is_suffix ls xs \<longleftrightarrow> (\<exists>ys. xs = ys @ ls)"
  by (metis append_take_drop_id is_suffix_def append_eq_conv_conj diff_add_inverse2 le_add2 length_append)

definition owner_labels :: "dns_lib \<Rightarrow> rr \<Rightarrow> string list" where
  "owner_labels D r = SplitDomainName D (CanonicalName D (rr_name r))"

text \<open>A name exists when it owns a record or lies above an owner.\<close>

definition name_exists :: "dns_lib \<Rightarrow> rr list \<Rightarrow> string list \<Rightarrow> bool" where
  "name_exists D rrs ls \<longleftrightarrow> (\<exists>r\<in>set rrs. is_suffix ls (owner_labels D r))"

definition types_at :: "dns_lib \<Rightarrow> rr list \<Rightarrow> string list \<Rightarrow> nat set" where
  "types_at D rrs ls = Rrtype ` {r \<in> set rrs. owner_labels D r = ls}"

text \<open>The records of one zone: all at or below the apex, which owns the SOA.\<close>

definition zone_ok :: "dns_lib \<Rightarrow> (string \<Rightarrow> bool) \<Rightarrow> string list \<Rightarrow> rr list \<Rightarrow> bool" where
  "zone_ok D label apex rrs \<longleftrightarrow>
     wf_labels label apex \<and> apex \<noteq> []
     \<and> (\<forall>r\<in>set rrs. wf_labels label (owner_labels D r) \<and> is_suffix apex (owner_labels D r)
          \<and> CanonicalName D (rr_name r) = joinDomainLabels (owner_labels D r)
          \<and> (Rrtype r = TypeSOA \<longrightarrow> owner_labels D r = apex))
     \<and> (\<exists>r\<in>set rrs. Rrtype r = TypeSOA)"

definition walks :: "(owner_map \<Rightarrow> string list) \<Rightarrow> bool" where
  "walks ord \<longleftrightarrow> (\<forall>owners. finite (dom owners) \<longrightarrow> distinct (ord owners) \<and> set (ord owners) = dom owners)"

lemma collect_rr_dom: "dom (fst (collect_rr D r st)) = insert (CanonicalName D (rr_name r)) (dom (fst st))"
  by (cases st) (simp add: collect_rr_def Let_def)

lemma collectOwners_dom: "dom (fst (collectOwners D rrs)) = (\<lambda>r. CanonicalName D (rr_name r)) ` set rrs"
  by (induction rrs rule: rev_induct) (simp_all add: collectOwners_def collect_rr_dom del: dom_eq_empty_conv)

text \<open>What has been collected about one owner.\<close>

definition types_of :: "dns_lib \<Rightarrow> rr list \<Rightarrow> string \<Rightarrow> nat set" where
  "types_of D rrs owner = Rrtype ` {r \<in> set rrs. CanonicalName D (rr_name r) = owner}"

lemma types_of_snoc:
  "types_of D (rrs @ [r]) owner =
     (if CanonicalName D (rr_name r) = owner then insert (Rrtype r) (types_of D rrs owner) else types_of D rrs owner)"
  by (auto simp: types_of_def)

definition summary :: "dns_lib \<Rightarrow> rr list \<Rightarrow> string \<Rightarrow> ownerState \<Rightarrow> bool" where
  "summary D rrs owner os \<longleftrightarrow>
     set (os_types os) = types_of D rrs owner
     \<and> (hasNS os \<longleftrightarrow> TypeNS \<in> types_of D rrs owner) \<and> (hasDS os \<longleftrightarrow> TypeDS \<in> types_of D rrs owner)"

lemma collectOwners_summary:
  "(case fst (collectOwners D rrs) owner of
      Some os \<Rightarrow> summary D rrs owner os | None \<Rightarrow> types_of D rrs owner = {})"
proof (induction rrs rule: rev_induct)
  case (snoc r rrs)
  obtain owners apex where c: "collectOwners D rrs = (owners, apex)" by (cases "collectOwners D rrs")
  have "collectOwners D (rrs @ [r]) = collect_rr D r (owners, apex)"
    using c by (simp add: collectOwners_def)
  moreover have "TypeNS \<noteq> TypeDS" "TypeDS \<noteq> TypeNS" by (simp_all add: rr_types)
  ultimately show ?case using snoc.IH c
    by (cases "owner = CanonicalName D (rr_name r)"; cases "owners owner")
       (simp_all add: summary_def types_of_snoc collect_rr_def Let_def)
qed (simp add: collectOwners_def types_of_def)

lemma collectOwners_apex:
  assumes "zone_ok D label apex rrs"
  shows "snd (collectOwners D rrs) = joinDomainLabels apex"
proof -
  have "apex \<noteq> []" using assms by (simp add: zone_ok_def)
  then have ne: "joinDomainLabels apex \<noteq> []" by (simp add: joinDomainLabels_def)
  have "\<forall>r\<in>set xs. Rrtype r = TypeSOA \<longrightarrow> CanonicalName D (rr_name r) = joinDomainLabels apex \<Longrightarrow>
    snd (collectOwners D xs) = (if \<exists>r\<in>set xs. Rrtype r = TypeSOA then joinDomainLabels apex else [])" for xs
  proof (induction xs rule: rev_induct)
    case (snoc x xs)
    then show ?case using ne
      by (cases "collectOwners D xs") (auto simp: collectOwners_def collect_rr_def Let_def)
  qed (simp add: collectOwners_def)
  moreover have "\<forall>r\<in>set rrs. Rrtype r = TypeSOA \<longrightarrow> CanonicalName D (rr_name r) = joinDomainLabels apex"
    using assms by (auto simp: zone_ok_def)
  ultimately show ?thesis using assms by (auto simp: zone_ok_def)
qed


lemma fold_ent_step:
  "fold ent_step ps (seen, ents) = (seen', ents') \<Longrightarrow>
   seen' = seen \<union> set ps \<and> set ents' = set ents \<union> (set ps - seen)
   \<and> (distinct ents \<and> set ents \<subseteq> seen \<longrightarrow> distinct ents')"
proof (induction ps arbitrary: seen ents)
  case (Cons p ps)
  then show ?case
  proof (cases "p \<in> seen")
    case True
    then show ?thesis using Cons.IH[of seen ents] Cons.prems by (auto simp: ent_step_def[of p "(seen, ents)"])
  next
    case False
    then have f: "fold ent_step ps (insert p seen, ents @ [p]) = (seen', ents')"
      using Cons.prems by (simp add: ent_step_def[of p "(seen, ents)"])
    have "distinct (ents @ [p]) \<and> set (ents @ [p]) \<subseteq> insert p seen" if "distinct ents \<and> set ents \<subseteq> seen"
      using that False by auto
    with Cons.IH[OF f] False show ?thesis by auto
  qed
qed simp

lemma fold_concat_map: "fold (\<lambda>x. fold f (g x)) xs a = fold f (concat (map g xs)) a"
  by (induction xs arbitrary: a) simp_all

lemma synthesizeENTs_set:
  "set (synthesizeENTs D ord apex seen) = (\<Union>o'\<in>set ord. set (ent_parents D apex o')) - seen"
  "distinct (synthesizeENTs D ord apex seen)"
proof -
  obtain seen' ents' where f: "fold ent_step (concat (map (ent_parents D apex) ord)) (seen, []) = (seen', ents')"
    by (cases "fold ent_step (concat (map (ent_parents D apex) ord)) (seen, [])")
  from fold_ent_step[OF f]
  show "set (synthesizeENTs D ord apex seen) = (\<Union>o'\<in>set ord. set (ent_parents D apex o')) - seen"
    "distinct (synthesizeENTs D ord apex seen)"
    by (simp_all add: synthesizeENTs_def fold_concat_map f)
qed

lemma ent_parents_labels:
  assumes "dns_ok D label" "wf_labels label apex" "wf_labels label ls"
  shows "ent_parents D (joinDomainLabels apex) (joinDomainLabels ls)
    = map (\<lambda>i. joinDomainLabels (drop i ls)) [1..<length ls - length apex]"
  unfolding ent_parents_def Let_def dns_okD(1)[OF assms(1,2)] dns_okD(1)[OF assms(1,3)]
  by (auto simp: joinDomainLabels_def)

text \<open>The names the chain is made of.\<close>

definition zone_names :: "dns_lib \<Rightarrow> string list \<Rightarrow> rr list \<Rightarrow> string list set" where
  "zone_names D apex rrs = {ls. name_exists D rrs ls \<and> length apex \<le> length ls}"

lemma zone_names_wf: "zone_ok D label apex rrs \<Longrightarrow> ls \<in> zone_names D apex rrs \<Longrightarrow> wf_labels label ls"
  by (auto simp: zone_names_def name_exists_def zone_ok_def is_suffix_def) (metis wf_labels_drop)

lemma zone_names_step:
  assumes "zone_ok D label apex rrs"
  shows "ls \<in> zone_names D apex rrs \<longleftrightarrow>
    (\<exists>r\<in>set rrs. ls = owner_labels D r
       \<or> (\<exists>i\<in>{1..<length (owner_labels D r) - length apex}. ls = drop i (owner_labels D r)))"
    (is "_ \<longleftrightarrow> (\<exists>r\<in>set rrs. ?Q r)")
proof
  assume "ls \<in> zone_names D apex rrs"
  then obtain r where r: "r \<in> set rrs" "is_suffix ls (owner_labels D r)" "length apex \<le> length ls"
    by (auto simp: zone_names_def name_exists_def)
  then obtain i where i: "i \<le> length (owner_labels D r)" "ls = drop i (owner_labels D r)"
    by (auto simp: is_suffix_iff)
  have apex: "is_suffix apex (owner_labels D r)" using assms r(1) by (auto simp: zone_ok_def)
  consider "i = 0" | "1 \<le> i" "i < length (owner_labels D r) - length apex"
    | "i = length (owner_labels D r) - length apex"
    using i r(3) by fastforce
  then show "\<exists>r\<in>set rrs. ?Q r"
  proof cases
    case 2
    then have "?Q r" using i(2) by auto
    with r(1) show ?thesis by blast
  next
    case 3
    then have "ls = apex" using i apex by (simp add: is_suffix_def)
    moreover obtain s where "s \<in> set rrs" "owner_labels D s = apex" using assms by (auto simp: zone_ok_def)
    ultimately show ?thesis by blast
  qed (use r i in auto)
next
  assume "\<exists>r\<in>set rrs. ?Q r"
  then obtain r where r: "r \<in> set rrs" "?Q r" by blast
  have apex: "is_suffix apex (owner_labels D r)" using assms r(1) by (auto simp: zone_ok_def)
  from r(2) obtain i where "i \<le> length (owner_labels D r) - length apex" "ls = drop i (owner_labels D r)"
    by (metis atLeastLessThan_iff drop0 less_imp_le_nat zero_le)
  then show "ls \<in> zone_names D apex rrs"
    using r(1) apex by (auto simp: zone_names_def name_exists_def is_suffix_iff) (metis diff_le_self le_trans)
qed


definition insecure :: "dns_lib \<Rightarrow> string list \<Rightarrow> rr list \<Rightarrow> string list \<Rightarrow> bool" where
  "insecure D apex rrs ls \<longleftrightarrow>
     TypeNS \<in> types_at D rrs ls \<and> TypeDS \<notin> types_at D rrs ls \<and> ls \<noteq> apex"

definition info_ok :: "dns_lib \<Rightarrow> string list \<Rightarrow> rr list \<Rightarrow> nameInfo \<Rightarrow> bool" where
  "info_ok D apex rrs n \<longleftrightarrow>
     (\<exists>ls\<in>zone_names D apex rrs. Name n = joinDomainLabels ls
        \<and> set (name_types n) = types_at D rrs ls \<union> (if types_at D rrs ls = {} then {} else {TypeRRSIG})
        \<and> (name_opted_out n \<longleftrightarrow> insecure D apex rrs ls))"

lemma types_of_join:
  assumes "dns_ok D label" "zone_ok D label apex rrs" "wf_labels label ls"
  shows "types_of D rrs (joinDomainLabels ls) = types_at D rrs ls"
proof -
  have "CanonicalName D (rr_name r) = joinDomainLabels ls \<longleftrightarrow> owner_labels D r = ls" if "r \<in> set rrs" for r
    using assms that join_inj[OF assms(1)] by (auto simp: zone_ok_def)
  then have "{r \<in> set rrs. CanonicalName D (rr_name r) = joinDomainLabels ls} = {r \<in> set rrs. owner_labels D r = ls}"
    by auto
  then show ?thesis by (simp add: types_of_def types_at_def)
qed

lemma parse_names:
  assumes dns: "dns_ok D label" and zone: "zone_ok D label apex rrs" and w: "walks ord" "walks ord'"
    and parse: "parseZoneFile D ord ord' (rrs, None) = Inr (names, a)"
  shows "a = joinDomainLabels apex" "distinct (map Name names)"
    "Name ` set names = joinDomainLabels ` zone_names D apex rrs"
    "\<forall>n\<in>set names. info_ok D apex rrs n"
proof -
  obtain owners where c: "collectOwners D rrs = (owners, joinDomainLabels apex)"
    using collectOwners_apex[OF zone] by (metis prod.collapse)
  let ?a = "joinDomainLabels apex" and ?own = "(\<lambda>r. joinDomainLabels (owner_labels D r)) ` set rrs"
  have wa: "wf_labels label apex" and ra: "wf_labels label (owner_labels D r)" if "r \<in> set rrs" for r
    using zone that by (auto simp: zone_ok_def)
  have canon: "CanonicalName D (rr_name r) = joinDomainLabels (owner_labels D r)" if "r \<in> set rrs" for r
    using zone that by (auto simp: zone_ok_def)
  have dom: "dom owners = ?own"
    using collectOwners_dom[of D rrs] c canon by (simp cong: image_cong)
  then have ord: "distinct (ord owners)" "set (ord owners) = ?own" "set (ord' owners) = ?own"
    using w by (simp_all add: walks_def)
  have names: "names = ownersToNameInfo D (ord owners) (ord' owners) owners ?a" and "a = ?a"
    using parse by (auto simp: parseZoneFile_def c split: if_splits)
  then show "a = ?a" by simp
  let ?ents = "synthesizeENTs D (ord' owners) ?a (set (ord owners))"
  have name: "map Name names = ord owners @ ?ents"
    unfolding names ownersToNameInfo_def by (simp add: o_def) (rule map_idI, simp split: option.split)
  have "wf_labels label apex" using zone by (simp add: zone_ok_def)
  then have ents: "set ?ents = (\<Union>r\<in>set rrs. (\<lambda>i. joinDomainLabels (drop i (owner_labels D r)))
      ` {1..<length (owner_labels D r) - length apex}) - ?own"
    using ra unfolding synthesizeENTs_set(1) ord by (simp add: ent_parents_labels[OF dns])
  show "distinct (map Name names)"
    using ord synthesizeENTs_set unfolding name by auto
  have "Name ` set names = ?own \<union> set ?ents"
    using name ord(2) by (metis set_append set_map)
  moreover have "zone_names D apex rrs = owner_labels D ` set rrs \<union> (\<Union>r\<in>set rrs.
      (\<lambda>i. drop i (owner_labels D r)) ` {1..<length (owner_labels D r) - length apex})"
    using zone_names_step[OF zone] by (intro set_eqI) (simp add: image_iff, blast)
  ultimately have all: "Name ` set names = joinDomainLabels ` zone_names D apex rrs"
    unfolding ents by (simp add: image_Un image_UN image_image)
  then show "Name ` set names = joinDomainLabels ` zone_names D apex rrs" .
  show "\<forall>n\<in>set names. info_ok D apex rrs n"
  proof
    fix n assume n: "n \<in> set names"
    then have "Name n \<in> joinDomainLabels ` zone_names D apex rrs"
      using all by blast
    then obtain ls where ls: "ls \<in> zone_names D apex rrs" "Name n = joinDomainLabels ls" by blast
    have wl: "wf_labels label ls" using zone_names_wf[OF zone ls(1)] .
    note types = types_of_join[OF dns zone wl]
    have eq: "joinDomainLabels ls = ?a \<longleftrightarrow> ls = apex"
      using join_inj[OF dns wl] zone by (simp add: zone_ok_def)
    consider (owner) "Name n \<in> set (ord owners)" "n = (case owners (Name n) of
            Some os \<Rightarrow> \<lparr>Name = Name n, name_types = os_types os @ [TypeRRSIG],
              name_opted_out = hasNS os \<and> \<not> hasDS os \<and> Name n \<noteq> ?a\<rparr>
          | None \<Rightarrow> \<lparr>Name = Name n, name_types = [], name_opted_out = False\<rparr>)"
      | (ent) "Name n \<in> set ?ents" "n = \<lparr>Name = Name n, name_types = [], name_opted_out = False\<rparr>"
      using n unfolding names ownersToNameInfo_def by (auto split: option.splits)
    then show "info_ok D apex rrs n"
    proof cases
      case owner
      then have "Name n \<in> dom owners" using ord(2) dom by simp
      then obtain os where os: "owners (Name n) = Some os" by blast
      then have "summary D rrs (Name n) os" using collectOwners_summary[of D rrs "Name n"] c by simp
      moreover have "types_of D rrs (Name n) \<noteq> {}"
        using owner(1) ord(2) canon by (auto simp: types_of_def)
      moreover have "name_types n = os_types os @ [TypeRRSIG]"
        "name_opted_out n = (hasNS os \<and> \<not> hasDS os \<and> Name n \<noteq> ?a)"
        by (subst owner(2), simp add: os)+
      ultimately show ?thesis using ls types eq
        unfolding info_ok_def insecure_def summary_def
        by (intro bexI[OF _ ls(1)]) simp
    next
      case ent
      then have "Name n \<notin> dom owners" using synthesizeENTs_set(1) ord dom by auto
      then have "types_of D rrs (Name n) = {}"
        using collectOwners_summary[of D rrs "Name n"] c by (simp add: domIff)
      moreover have "name_types n = []" "\<not> name_opted_out n"
        by (subst ent(2), simp)+
      ultimately show ?thesis using ls types
        unfolding info_ok_def insecure_def
        by (intro bexI[OF _ ls(1)]) simp
    qed
  qed
qed


section \<open>The chain of a zone\<close>

definition kept_names :: "dns_lib \<Rightarrow> string list \<Rightarrow> bool \<Rightarrow> rr list \<Rightarrow> string list set" where
  "kept_names D apex optOut rrs = {ls \<in> zone_names D apex rrs. \<not> (optOut \<and> insecure D apex rrs ls)}"

definition node_ok :: "dns_lib \<Rightarrow> string \<Rightarrow> nat \<Rightarrow> rr list \<Rightarrow> string list \<Rightarrow> nsec3Node \<Rightarrow> bool" where
  "node_ok D salt it rrs ls n \<longleftrightarrow>
     Hash n = nsec3Hash D (joinDomainLabels ls) salt it
     \<and> set (Types n) = types_at D rrs ls \<union> (if types_at D rrs ls = {} then {} else {TypeRRSIG})"

text \<open>\<open>c\<close> is the chain the plugin has loaded for the zone.\<close>

definition serves ::
    "dns_lib \<Rightarrow> (string \<Rightarrow> bool) \<Rightarrow> string list \<Rightarrow> bool \<Rightarrow> rr list \<Rightarrow> chain \<Rightarrow> bool" where
  "serves D label apex optOut rrs c \<longleftrightarrow>
     ring c \<and> nodes c \<noteq> [] \<and> Apex c = joinDomainLabels apex \<and> OptOut c = optOut
     \<and> (\<forall>n\<in>set (nodes c). \<exists>ls\<in>kept_names D apex optOut rrs. node_ok D (Salt c) (Iterations c) rrs ls n)
     \<and> (\<forall>ls\<in>kept_names D apex optOut rrs. \<exists>n\<in>set (nodes c). node_ok D (Salt c) (Iterations c) rrs ls n)"

lemma zone_apex: "zone_ok D label apex rrs \<Longrightarrow> apex \<in> zone_names D apex rrs"
  by (auto simp: zone_ok_def zone_names_def name_exists_def)

lemma loadChain_serves:
  assumes dns: "dns_ok D label" and zone: "zone_ok D label apex rrs" and w: "walks ord" "walks ord'"
    and nc: "no_collisions D (zone_names D apex rrs) salt it" and fs: "zone_files ZoneFile = Inr (rrs, None)"
    and load: "loadChain D ord ord' zone_files ZoneFile salt it optOut = Inr (Some c)"
  shows "serves D label apex optOut rrs c \<and> Salt c = salt \<and> Iterations c = it"
proof -
  obtain names a where p: "parseZoneFile D ord ord' (rrs, None) = Inr (names, a)"
    and c: "c = buildChain D a salt it optOut names"
    using load fs by (auto simp: loadChain_def split: if_splits sum.splits)
  note names = parse_names[OF dns zone w p]
  let ?kept = "filter (\<lambda>n. \<not> (optOut \<and> name_opted_out n)) names"
  let ?h = "\<lambda>nm. nsec3Hash D nm salt it"
  have nodes: "set (nodes c) = chain_node D salt it ` set ?kept"
    by (simp add: c buildChain_def)
  have info: "\<exists>ls\<in>kept_names D apex optOut rrs. Name n = joinDomainLabels ls \<and> node_ok D salt it rrs ls (chain_node D salt it n)"
    if "n \<in> set ?kept" for n
    using names(4) that
    by (fastforce simp: info_ok_def kept_names_def node_ok_def chain_node_def sortedTypes_def)
  have "distinct (map (\<lambda>n. ?h (Name n)) names)"
  proof -
    have "inj_on ?h (Name ` set names)"
      unfolding names(3) by (rule inj_onI) (auto simp: join_hash_inj[OF nc])
    then show ?thesis using names(2) comp_inj_on[of Name "set names" ?h] by (simp add: distinct_map o_def)
  qed
  then have "distinct (map Hash (map (chain_node D salt it) ?kept))"
    by (simp add: o_def chain_node_def distinct_map_filter)
  then have "distinct (map Hash (nodes c))"
    unfolding distinct_map[of Hash] by (simp add: c buildChain_def del: map_map)
  then have "ring c"
    unfolding ring_def by (intro strict_sorted) (simp_all add: c buildChain_def)
  moreover have every: "\<exists>n\<in>set (nodes c). node_ok D salt it rrs ls n" if ls: "ls \<in> kept_names D apex optOut rrs" for ls
  proof -
    have "joinDomainLabels ls \<in> Name ` set names"
      unfolding names(3) using ls by (simp add: kept_names_def)
    then obtain n where n: "n \<in> set names" "Name n = joinDomainLabels ls" by auto
    obtain ls' where ls': "ls' \<in> zone_names D apex rrs" "Name n = joinDomainLabels ls'"
        "set (name_types n) = types_at D rrs ls' \<union> (if types_at D rrs ls' = {} then {} else {TypeRRSIG})"
        "name_opted_out n \<longleftrightarrow> insecure D apex rrs ls'"
      using names(4) n(1) unfolding info_ok_def by blast
    have "ls' = ls"
      using n(2) ls'(1,2) ls join_inj[OF dns zone_names_wf[OF zone] zone_names_wf[OF zone]]
      by (auto simp: kept_names_def)
    then have "n \<in> set ?kept" using n ls ls' by (auto simp: kept_names_def)
    moreover have "node_ok D salt it rrs ls (chain_node D salt it n)"
      using ls' \<open>ls' = ls\<close> by (simp add: node_ok_def chain_node_def sortedTypes_def)
    ultimately show ?thesis unfolding nodes by blast
  qed
  moreover have forth: "\<exists>ls\<in>kept_names D apex optOut rrs. node_ok D salt it rrs ls n" if "n \<in> set (nodes c)" for n
    using that info unfolding nodes by blast
  moreover have "apex \<in> kept_names D apex optOut rrs"
    using zone_apex[OF zone] by (simp add: kept_names_def insecure_def)
  then have "nodes c \<noteq> []" using every by fastforce
  moreover have "Apex c = joinDomainLabels apex" "Salt c = salt" "Iterations c = it" "OptOut c = optOut"
    using dns_okD(2)[OF dns, of apex] zone names(1) by (simp_all add: c buildChain_def zone_ok_def)
  ultimately show ?thesis unfolding serves_def by simp
qed


lemma kept_wf: "zone_ok D label apex rrs \<Longrightarrow> ls \<in> kept_names D apex oo rrs \<Longrightarrow> wf_labels label ls"
  by (auto simp: kept_names_def intro: zone_names_wf)

text \<open>A zone, its library and the chain the plugin serves it with.\<close>

definition served ::
    "dns_lib \<Rightarrow> (string \<Rightarrow> bool) \<Rightarrow> string list set \<Rightarrow> string list \<Rightarrow> bool \<Rightarrow> rr list \<Rightarrow> chain \<Rightarrow> bool" where
  "served D label N apex oo rrs c \<longleftrightarrow>
     dns_ok D label \<and> zone_ok D label apex rrs
     \<and> zone_names D apex rrs \<subseteq> N \<and> (\<forall>ls\<in>N. wf_labels label ls) \<and> no_collisions D N (Salt c) (Iterations c)
     \<and> serves D label apex oo rrs c"

lemma served_wf: "served D label N apex oo rrs c \<Longrightarrow> ls \<in> N \<Longrightarrow> wf_labels label ls"
  by (simp add: served_def)

lemma served_zone_names: "served D label N apex oo rrs c \<Longrightarrow> ls \<in> zone_names D apex rrs \<Longrightarrow> ls \<in> N"
  by (auto simp: served_def)

lemma served_kept: "served D label N apex oo rrs c \<Longrightarrow> ls \<in> kept_names D apex oo rrs \<Longrightarrow> ls \<in> N"
  by (auto simp: served_def kept_names_def)

lemma served_ring: "served D label N apex oo rrs c \<Longrightarrow> ring c \<and> nodes c \<noteq> []"
  by (simp add: served_def serves_def)

lemma served_node:
  assumes "served D label N apex oo rrs c" "ls \<in> N" "n \<in> set (nodes c)"
    "Hash n = hashName D c (joinDomainLabels ls)"
  shows "ls \<in> kept_names D apex oo rrs \<and> node_ok D (Salt c) (Iterations c) rrs ls n"
proof -
  obtain ls' where "ls' \<in> kept_names D apex oo rrs" "node_ok D (Salt c) (Iterations c) rrs ls' n"
    using assms(1,3) by (auto simp: served_def serves_def)
  moreover have "ls' = ls"
    using calculation assms join_hash_inj[of D N "Salt c" "Iterations c" ls' ls] served_kept[OF assms(1), of ls']
    by (auto simp: served_def node_ok_def hashName_def)
  ultimately show ?thesis by simp
qed

lemma served_hash:
  assumes "served D label N apex oo rrs c" "ls \<in> N"
  shows "hashName D c (joinDomainLabels ls) \<in> Hash ` set (nodes c) \<longleftrightarrow> ls \<in> kept_names D apex oo rrs"
proof
  assume "ls \<in> kept_names D apex oo rrs"
  then obtain n where "n \<in> set (nodes c)" "node_ok D (Salt c) (Iterations c) rrs ls n"
    using assms(1) by (auto simp: served_def serves_def)
  then show "hashName D c (joinDomainLabels ls) \<in> Hash ` set (nodes c)"
    by (auto simp: node_ok_def hashName_def image_iff intro!: bexI[of _ n])
qed (use served_node[OF assms] in \<open>auto simp: image_iff\<close>)

lemma served_matching:
  assumes "served D label N apex oo rrs c" "ls \<in> N"
  shows "matchingNSEC3 D c (joinDomainLabels ls) = None \<longleftrightarrow> ls \<notin> kept_names D apex oo rrs"
  using matchingNSEC3_None[of c] served_ring[OF assms(1)] served_hash[OF assms] by simp

lemma served_matchingE:
  assumes "served D label N apex oo rrs c" "ls \<in> N" "ls \<in> kept_names D apex oo rrs"
  obtains n where "matchingNSEC3 D c (joinDomainLabels ls) = Some n" "n \<in> set (nodes c)"
    "node_ok D (Salt c) (Iterations c) rrs ls n"
proof -
  obtain n where n: "matchingNSEC3 D c (joinDomainLabels ls) = Some n"
    using served_matching[OF assms(1,2)] assms(3) by auto
  then have "n \<in> set (nodes c) \<and> Hash n = hashName D c (joinDomainLabels ls)"
    using matchingNSEC3_iff served_ring[OF assms(1)] by blast
  then show thesis using that[OF n] served_node[OF assms(1,2)] by blast
qed

lemma hash_no_dot: "dns_ok D label \<Longrightarrow> CHR ''.'' \<notin> set (nsec3Hash D nm salt it)"
proof
  assume D: "dns_ok D label" and "CHR ''.'' \<in> set (nsec3Hash D nm salt it)"
  then obtain ch where "ch \<in> set (HashName D nm it salt)" "to_lower_char ch = CHR ''.''"
    by (auto simp: nsec3Hash_def to_lower_def)
  moreover have "to_lower_char ch = CHR ''.'' \<Longrightarrow> ch = CHR ''.''" for ch
  proof (rule ccontr)
    assume dot: "to_lower_char ch = CHR ''.''" "ch \<noteq> CHR ''.''"
    then have up: "CHR ''A'' \<le> ch" "ch \<le> CHR ''Z''" by (auto simp: to_lower_char_def split: if_splits)
    then have "of_char (to_lower_char ch) = (of_char ch + 32 :: nat)"
      by (simp add: to_lower_char_def less_eq_char_def)
    then show False using dot(1) up by (simp add: less_eq_char_def)
  qed
  ultimately have "CHR ''.'' \<in> set (HashName D nm it salt)" by metis
  then show False using D by (simp add: dns_ok_def)
qed


section \<open>A validator\<close>

text \<open>What a resolver reads off an NSEC3 record: its hash, the next one and the types.\<close>

definition nsec3_match :: "(nat list \<Rightarrow> bool) \<Rightarrow> rr list \<Rightarrow> string \<Rightarrow> bool" where
  "nsec3_match P R x \<longleftrightarrow>
     list_ex (\<lambda>r. case rr_data r of
                NSEC3 d \<Rightarrow> takeWhile (\<lambda>ch. ch \<noteq> CHR ''.'') (rr_name r) = x \<and> P (TypeBitMap d)
              | _ \<Rightarrow> False) R"

definition nsec3_cover :: "rr list \<Rightarrow> string \<Rightarrow> bool" where
  "nsec3_cover R x \<longleftrightarrow>
     list_ex (\<lambda>r. case rr_data r of
                NSEC3 d \<Rightarrow> gap (takeWhile (\<lambda>ch. ch \<noteq> CHR ''.'') (rr_name r)) x (NextDomain d)
              | _ \<Rightarrow> False) R"

abbreviation any_types :: "nat list \<Rightarrow> bool" where
  "any_types \<equiv> \<lambda>_. True"

text \<open>RFC 5155, 8.3: the closest encloser is the first ancestor with a matching record, and the name
  below it must be covered.\<close>

fun closest_encloser :: "(string list \<Rightarrow> string) \<Rightarrow> rr list \<Rightarrow> string list \<Rightarrow> bool \<Rightarrow> string list option" where
  "closest_encloser H R [] flag = (if nsec3_match any_types R (H []) \<and> flag then Some [] else None)"
| "closest_encloser H R (l # ls) flag =
     (if nsec3_match any_types R (H (l # ls)) then (if flag then Some (l # ls) else None)
      else closest_encloser H R ls (nsec3_cover R (H (l # ls))))"

text \<open>8.3 and 8.4: the encloser is no delegation and no \<^verbatim>\<open>DNAME\<close> (39), and the wildcard below it is
  covered.\<close>

definition encloser_types :: "nat list \<Rightarrow> bool" where
  "encloser_types ts \<longleftrightarrow> 39 \<notin> set ts \<and> (TypeNS \<in> set ts \<longrightarrow> TypeSOA \<in> set ts)"

definition nxdomain_valid :: "(string list \<Rightarrow> string) \<Rightarrow> rr list \<Rightarrow> string list \<Rightarrow> bool" where
  "nxdomain_valid H R q \<longleftrightarrow>
     (case closest_encloser H R q False of
        None \<Rightarrow> False
      | Some ce \<Rightarrow> nsec3_match encloser_types R (H ce) \<and> nsec3_cover R (H (''*'' # ce)))"

text \<open>The closest encloser by what exists, and the name one label below it.\<close>

fun closest :: "(string list \<Rightarrow> bool) \<Rightarrow> string list \<Rightarrow> string list" where
  "closest ex [] = []"
| "closest ex (l # ls) = (if ex (l # ls) then l # ls else closest ex ls)"

fun next_closer :: "(string list \<Rightarrow> bool) \<Rightarrow> string list \<Rightarrow> string list" where
  "next_closer ex [] = []"
| "next_closer ex (l # ls) = (if ex ls then l # ls else next_closer ex ls)"

definition name_hash :: "dns_lib \<Rightarrow> chain \<Rightarrow> string list \<Rightarrow> string" where
  "name_hash D c ls = hashName D c (joinDomainLabels ls)"

text \<open>Records taken from the chain, at any TTL.\<close>

definition chain_records :: "chain \<Rightarrow> rr list \<Rightarrow> bool" where
  "chain_records c R \<longleftrightarrow> (\<forall>r\<in>set R. \<exists>n\<in>set (nodes c). \<exists>ttl. r = renderNSEC3 c ttl n)"

lemma rendered:
  assumes "served D label N apex oo rrs c" "n \<in> set (nodes c)"
  shows "takeWhile (\<lambda>ch. ch \<noteq> CHR ''.'') (rr_name (renderNSEC3 c ttl n)) = Hash n"
proof -
  have "CHR ''.'' \<notin> set (Hash n)"
    using assms hash_no_dot[of D label] by (fastforce simp: served_def serves_def node_ok_def)
  then show ?thesis by (simp add: renderNSEC3_def ownerForNode_def takeWhile_sep)
qed

lemma nsec3_match_iff:
  "nsec3_match P R x \<longleftrightarrow> (\<exists>r\<in>set R. \<exists>d. rr_data r = NSEC3 d
     \<and> takeWhile (\<lambda>ch. ch \<noteq> CHR ''.'') (rr_name r) = x \<and> P (TypeBitMap d))"
  unfolding nsec3_match_def list_ex_iff by (intro bex_cong refl) (simp split: rdata.split)

lemma nsec3_cover_iff:
  "nsec3_cover R x \<longleftrightarrow> (\<exists>r\<in>set R. \<exists>d. rr_data r = NSEC3 d
     \<and> gap (takeWhile (\<lambda>ch. ch \<noteq> CHR ''.'') (rr_name r)) x (NextDomain d))"
  unfolding nsec3_cover_def list_ex_iff by (intro bex_cong refl) (simp split: rdata.split)

lemma rendered_data:
  "rr_data (renderNSEC3 c ttl n) = NSEC3 d \<Longrightarrow> NextDomain d = nextHashedOwner c n \<and> TypeBitMap d = Types n"
  by (auto simp: renderNSEC3_def)

lemma match_records:
  assumes "served D label N apex oo rrs c" "chain_records c R"
  shows "nsec3_match P R x \<longleftrightarrow> (\<exists>n\<in>set (nodes c). \<exists>ttl. renderNSEC3 c ttl n \<in> set R \<and> Hash n = x \<and> P (Types n))"
proof
  assume "nsec3_match P R x"
  then obtain r d where r: "r \<in> set R" "rr_data r = NSEC3 d"
      "takeWhile (\<lambda>ch. ch \<noteq> CHR ''.'') (rr_name r) = x" "P (TypeBitMap d)"
    unfolding nsec3_match_iff by blast
  moreover obtain n ttl where "n \<in> set (nodes c)" "r = renderNSEC3 c ttl n"
    using assms(2) r(1) unfolding chain_records_def by blast
  ultimately show "\<exists>n\<in>set (nodes c). \<exists>ttl. renderNSEC3 c ttl n \<in> set R \<and> Hash n = x \<and> P (Types n)"
    using rendered[OF assms(1)] rendered_data by metis
next
  assume "\<exists>n\<in>set (nodes c). \<exists>ttl. renderNSEC3 c ttl n \<in> set R \<and> Hash n = x \<and> P (Types n)"
  then obtain n ttl where n: "n \<in> set (nodes c)" "renderNSEC3 c ttl n \<in> set R" "Hash n = x" "P (Types n)"
    by blast
  moreover obtain d where "rr_data (renderNSEC3 c ttl n) = NSEC3 d" by (simp add: renderNSEC3_def)
  ultimately show "nsec3_match P R x"
    unfolding nsec3_match_iff using rendered[OF assms(1) n(1)] rendered_data by metis
qed

lemma cover_records:
  assumes "served D label N apex oo rrs c" "chain_records c R" "nsec3_cover R x"
  shows "\<exists>n\<in>set (nodes c). gap (Hash n) x (nextHashedOwner c n)"
proof -
  obtain r d where r: "r \<in> set R" "rr_data r = NSEC3 d"
      "gap (takeWhile (\<lambda>ch. ch \<noteq> CHR ''.'') (rr_name r)) x (NextDomain d)"
    using assms(3) unfolding nsec3_cover_iff by blast
  moreover obtain n ttl where "n \<in> set (nodes c)" "r = renderNSEC3 c ttl n"
    using assms(2) r(1) unfolding chain_records_def by blast
  ultimately show ?thesis using rendered[OF assms(1)] rendered_data by metis
qed

lemma covers_record:
  assumes "served D label N apex oo rrs c" "n \<in> set (nodes c)" "renderNSEC3 c ttl n \<in> set R"
    "gap (Hash n) x (nextHashedOwner c n)"
  shows "nsec3_cover R x"
proof -
  obtain d where "rr_data (renderNSEC3 c ttl n) = NSEC3 d" by (simp add: renderNSEC3_def)
  then show ?thesis
    unfolding nsec3_cover_iff using assms rendered[OF assms(1,2)] rendered_data by metis
qed


section \<open>No denial of what exists\<close>

lemma kept_all [simp]: "kept_names D apex False rrs = zone_names D apex rrs"
  by (simp add: kept_names_def)

lemma not_covered:
  assumes "served D label N apex oo rrs c" "chain_records c R" "ls \<in> kept_names D apex oo rrs"
  shows "\<not> nsec3_cover R (name_hash D c ls)"
proof
  assume "nsec3_cover R (name_hash D c ls)"
  then obtain n where n: "n \<in> set (nodes c)" "gap (Hash n) (name_hash D c ls) (nextHashedOwner c n)"
    using cover_records[OF assms(1,2)] by blast
  obtain m where m: "m \<in> set (nodes c)" "Hash m = name_hash D c ls"
    using served_hash[OF assms(1) served_kept[OF assms(1,3)]] assms(3) unfolding name_hash_def by (metis imageE)
  have "\<not> gap (Hash n) (Hash m) (nextHashedOwner c n)"
    using gap_excludes_nodes n(1) m(1) served_ring[OF assms(1)] by blast
  then show False using n(2) m(2) by simp
qed

lemma not_matched:
  assumes "served D label N apex oo rrs c" "chain_records c R" "ls \<in> N" "ls \<notin> kept_names D apex oo rrs"
  shows "\<not> nsec3_match P R (name_hash D c ls)"
  using served_hash[OF assms(1,3)] assms(4) unfolding match_records[OF assms(1,2)] name_hash_def
  by (metis imageI)

lemma above_apex: "length ls < length apex \<Longrightarrow> ls \<notin> kept_names D apex oo rrs"
  by (simp add: kept_names_def zone_names_def)

lemma search_above:
  assumes "served D label N apex oo rrs c" "chain_records c R"
  shows "tails_in N ls \<Longrightarrow> length ls < length apex \<Longrightarrow>
    closest_encloser (name_hash D c) R ls flag = None"
proof (induction ls arbitrary: flag)
  case Nil
  then show ?case using not_matched[OF assms, of "[]" any_types] above_apex[of "[]" apex D oo rrs] by simp
next
  case (Cons l ls)
  then show ?case using not_matched[OF assms, of "l # ls" any_types] above_apex[of "l # ls" apex D oo rrs] by simp
qed

lemma zone_names_parent:
  assumes "l # ls \<in> zone_names D apex rrs" "length apex \<le> length ls"
  shows "ls \<in> zone_names D apex rrs"
proof -
  obtain r where "r \<in> set rrs" "is_suffix (l # ls) (owner_labels D r)"
    using assms(1) by (auto simp: zone_names_def name_exists_def)
  then have "is_suffix ls (owner_labels D r)"
    unfolding is_suffix_append by (metis append.assoc append_Cons append_Nil)
  then show ?thesis using \<open>r \<in> set rrs\<close> assms(2) by (auto simp: zone_names_def name_exists_def)
qed

lemma search_existing:
  assumes "served D label N apex False rrs c" "chain_records c R"
  shows "ls \<in> zone_names D apex rrs \<Longrightarrow> tails_in N ls \<Longrightarrow>
    closest_encloser (name_hash D c) R ls False = None"
proof (induction ls)
  case (Cons l ls)
  have tl: "tails_in N ls" using Cons.prems(2) by simp
  have nc: "\<not> nsec3_cover R (name_hash D c (l # ls))"
    using not_covered[OF assms, of "l # ls"] Cons.prems(1) by simp
  have "closest_encloser (name_hash D c) R ls False = None"
  proof (cases "length ls < length apex")
    case True
    then show ?thesis using search_above[OF assms, of ls] tl by simp
  next
    case False
    then show ?thesis using Cons.IH zone_names_parent[OF Cons.prems(1)] tl by simp
  qed
  then show ?case using nc by simp
qed simp

lemma search_Some:
  assumes "served D label N apex False rrs c" "chain_records c R"
  shows "tails_in N ls \<Longrightarrow> closest_encloser (name_hash D c) R ls flag = Some ce \<Longrightarrow>
    ce \<in> zone_names D apex rrs \<and> ce = closest (\<lambda>n. n \<in> zone_names D apex rrs) ls"
proof (induction ls arbitrary: flag)
  case Nil
  then have "[] \<in> zone_names D apex rrs"
    using not_matched[OF assms, of "[]" any_types] by (auto split: if_splits)
  then show ?case using Nil by (simp split: if_splits)
next
  case (Cons l ls)
  show ?case
  proof (cases "l # ls \<in> zone_names D apex rrs")
    case True
    have nc: "\<not> nsec3_cover R (name_hash D c (l # ls))"
      using not_covered[OF assms, of "l # ls"] True by simp
    have "nsec3_match any_types R (name_hash D c (l # ls))"
    proof (rule ccontr)
      assume "\<not> nsec3_match any_types R (name_hash D c (l # ls))"
      then have "closest_encloser (name_hash D c) R (l # ls) False = Some ce"
        using Cons.prems(2) by simp
      then show False using search_existing[OF assms True Cons.prems(1)] by simp
    qed
    then show ?thesis using Cons.prems True by (auto split: if_splits)
  next
    case False
    then have "\<not> nsec3_match any_types R (name_hash D c (l # ls))"
      using not_matched[OF assms, of "l # ls" any_types] Cons.prems(1) by simp
    then show ?thesis using Cons.IH Cons.prems False by simp
  qed
qed

lemma valid_only_if_absent:
  assumes "served D label N apex False rrs c" "chain_records c R" "tails_in N q"
    and "nxdomain_valid (name_hash D c) R q"
  shows "q \<notin> zone_names D apex rrs
    \<and> ''*'' # closest (\<lambda>n. n \<in> zone_names D apex rrs) q \<notin> zone_names D apex rrs"
proof -
  obtain ce where ce: "closest_encloser (name_hash D c) R q False = Some ce"
      "nsec3_cover R (name_hash D c (''*'' # ce))"
    using assms(4) by (auto simp: nxdomain_valid_def split: option.splits)
  then have "q \<notin> zone_names D apex rrs"
    using search_existing[OF assms(1,2), of q] assms(3) by auto
  then show ?thesis
    using search_Some[OF assms(1-3) ce(1)] not_covered[OF assms(1,2), of "''*'' # ce"] ce(2) by auto
qed

section \<open>Denial of what does not\<close>

lemma dedup_nodes_set:
  assumes "ring c"
  shows "\<forall>n. Some n \<in> set ns \<longrightarrow> n \<in> set (nodes c) \<Longrightarrow>
    set (dedup_nodes seen ns) = {n. Some n \<in> set ns \<and> Hash n \<notin> seen}"
proof (induction seen ns rule: dedup_nodes.induct)
  case (3 seen n ns)
  have same: "m = n" if "Some m \<in> set ns" "Hash m = Hash n" for m
  proof -
    have "m \<in> set (nodes c)" "n \<in> set (nodes c)" using 3(3) that by auto
    then show ?thesis using that(2) node_index ring_eq_iff[OF assms] by metis
  qed
  have ns: "\<forall>n. Some n \<in> set ns \<longrightarrow> n \<in> set (nodes c)" using 3(3) by simp
  show ?case
  proof (cases "Hash n \<in> seen")
    case True
    then show ?thesis using 3(1)[OF True ns] by auto
  next
    case False
    then show ?thesis using 3(2)[OF False ns] same by auto
  qed
qed auto

lemma deduped_records:
  assumes "ring c" "\<forall>n. Some n \<in> set ns \<longrightarrow> n \<in> set (nodes c)"
  shows "set (dedupedNSEC3 c ns ttl) = renderNSEC3 c ttl ` {n. Some n \<in> set ns}"
    "chain_records c (dedupedNSEC3 c ns ttl)"
  using dedup_nodes_set[OF assms, of "{}"] assms(2)
  by (auto simp: dedupedNSEC3_def chain_records_def)

lemma coveringNSEC3_node:
  assumes "ring c" "coveringNSEC3 D c q = Some n"
  shows "n \<in> set (nodes c)"
proof -
  have "sorted (map Hash (nodes c))" using assms(1) by (simp add: ring_def strict_sorted_imp_sorted)
  then have "hash_index c h \<le> length (nodes c)" for h
    using hash_index_splits[of c h] by (simp add: splits_at_def)
  then have "hash_index c h - 1 < length (nodes c)" if "nodes c \<noteq> []" for h
    using that by (metis diff_less_mono2 diff_le_self le_less_trans length_greater_0_conv less_imp_diff_less linorder_neqE_nat not_less order_less_le zero_less_one diff_is_0_eq Suc_diff_1 Suc_le_eq le_trans)
  then show ?thesis
    using assms(2) by (auto simp: coveringNSEC3_def Let_def split: if_splits intro!: nth_mem)
qed

lemma served_covering:
  assumes "served D label N apex oo rrs c" "ls \<in> N" "ls \<notin> kept_names D apex oo rrs"
  obtains n where "coveringNSEC3 D c (joinDomainLabels ls) = Some n" "n \<in> set (nodes c)"
    "gap (Hash n) (name_hash D c ls) (nextHashedOwner c n)"
  using coveringNSEC3_gap[of c D "joinDomainLabels ls"] served_ring[OF assms(1)] served_hash[OF assms(1,2)] assms(3)
  unfolding name_hash_def by blast

lemma closest_drop:
  "\<lbrakk>i \<le> length q; ex (drop i q); \<forall>j<i. \<not> ex (drop j q)\<rbrakk> \<Longrightarrow>
   closest ex q = drop i q \<and> (0 < i \<longrightarrow> next_closer ex q = drop (i - 1) q)"
proof (induction q arbitrary: i)
  case (Cons l ls)
  show ?case
  proof (cases i)
    case (Suc k)
    then have ne: "\<not> ex (l # ls)" using Cons.prems(3) by (metis drop0 zero_less_Suc)
    have IH: "closest ex ls = drop k ls \<and> (0 < k \<longrightarrow> next_closer ex ls = drop (k - 1) ls)"
    proof (rule Cons.IH)
      show "\<forall>j<k. \<not> ex (drop j ls)" using Cons.prems(3) Suc by (metis Suc_mono drop_Suc_Cons)
    qed (use Cons.prems Suc in auto)
    show ?thesis
    proof (cases k)
      case 0
      then show ?thesis using Cons.prems(2) Suc ne IH by simp
    next
      case (Suc m)
      then have "\<not> ex ls" using Cons.prems(3) \<open>i = Suc k\<close> by (metis Suc_mono drop0 drop_Suc_Cons zero_less_Suc)
      then show ?thesis using Suc \<open>i = Suc k\<close> ne IH by simp
    qed
  qed (use Cons.prems in simp)
qed simp

lemma drop_apex: "q = pre @ apex \<Longrightarrow> i \<le> length pre \<Longrightarrow> \<exists>p. drop i q = p @ apex"
  by auto

lemma find_first_upt: "List.find P [0..<n] = Some i \<Longrightarrow> i < n \<and> P i \<and> (\<forall>j<i. \<not> P j)"
  by (auto simp: find_Some_iff)

lemma findClosestEncloser_spec:
  assumes "served D label N apex oo rrs c" "tails_in N q" "q = pre @ apex"
    and "q \<notin> kept_names D apex oo rrs"
  defines "ex \<equiv> \<lambda>n. n \<in> kept_names D apex oo rrs"
  shows "findClosestEncloser D c (joinDomainLabels q) = (joinDomainLabels (closest ex q), joinDomainLabels (next_closer ex q))"
    "closest ex q \<in> kept_names D apex oo rrs" "next_closer ex q \<notin> kept_names D apex oo rrs"
    "\<exists>p. closest ex q = p @ apex" "\<exists>p. next_closer ex q = p @ apex" "next_closer ex q \<in> N"
proof -
  have dns: "dns_ok D label" and zone: "zone_ok D label apex rrs" and ap: "Apex c = joinDomainLabels apex"
    using assms(1) by (simp_all add: served_def serves_def)
  have apex: "wf_labels label apex" "apex \<in> kept_names D apex oo rrs" "Apex c = joinDomainLabels apex"
    using zone zone_apex[OF zone] ap by (simp_all add: zone_ok_def kept_names_def insecure_def)
  let ?P = "\<lambda>i. matchingNSEC3 D c (joinDomainLabels (drop i q)) \<noteq> None"
  have P: "?P i \<longleftrightarrow> ex (drop i q)" for i
    using served_matching[OF assms(1) tails_in_self[OF tails_in_drop[OF assms(2)]]] by (simp add: ex_def)
  let ?is = "[0..<Suc (length q) - length apex]"
  have len: "length pre \<in> set ?is" "?P (length pre)"
    using assms(3) P[of "length pre"] apex(2) by (simp_all add: ex_def)
  then have "List.find ?P ?is \<noteq> None" unfolding find_None_iff by blast
  then obtain i where find: "List.find ?P ?is = Some i" by blast
  have "length q = length pre + length apex" using assms(3) by simp
  moreover from find_first_upt[OF find] have "i < Suc (length q) - length apex" and i2: "?P i" "\<forall>j<i. \<not> ?P j"
    by blast+
  ultimately have i1: "i \<le> length pre" by linarith
  note i = i1 i2
  have "i \<noteq> 0"
  proof
    assume "i = 0"
    then show False using i(2) P[of 0] assms(4) by (simp add: ex_def)
  qed
  then have cl: "closest ex q = drop i q" "next_closer ex q = drop (i - 1) q"
  proof -
    have "i \<le> length q" using i1 assms(3) by simp
    moreover have "ex (drop i q)" "\<forall>j<i. \<not> ex (drop j q)" using i2 unfolding P by blast+
    ultimately show "closest ex q = drop i q" "next_closer ex q = drop (i - 1) q"
      using closest_drop[of i q ex] \<open>i \<noteq> 0\<close> by simp_all
  qed
  show "findClosestEncloser D c (joinDomainLabels q) = (joinDomainLabels (closest ex q), joinDomainLabels (next_closer ex q))"
    using find \<open>i \<noteq> 0\<close> cl
    by (simp add: findClosestEncloser_def Let_def dns_okD[OF dns served_wf[OF assms(1) tails_in_self[OF assms(2)]]] dns_okD(1)[OF dns apex(1)] apex(3))
  show "closest ex q \<in> kept_names D apex oo rrs" using P[of i] i(2) cl by (simp add: ex_def)
  show "next_closer ex q \<notin> kept_names D apex oo rrs" using P[of "i - 1"] i(3) \<open>i \<noteq> 0\<close> cl by (simp add: ex_def)
  show "\<exists>p. closest ex q = p @ apex" "\<exists>p. next_closer ex q = p @ apex"
    unfolding cl using drop_apex[OF assms(3)] i(1) by auto
  show "next_closer ex q \<in> N" unfolding cl by (rule tails_in_self[OF tails_in_drop[OF assms(2)]])
qed


lemma served_apex:
  assumes "served D label N apex oo rrs c"
  shows "apex \<in> zone_names D apex rrs" "apex \<noteq> []" "wf_labels label apex"
  using assms zone_apex[of D label apex rrs] by (simp_all add: served_def zone_ok_def)

lemma search_complete:
  assumes S: "served D label N apex False rrs c" and R: "chain_records c R"
  defines "ex \<equiv> \<lambda>n. n \<in> zone_names D apex rrs"
  shows "\<lbrakk>tails_in N ls; ls = pre @ apex; ls \<notin> zone_names D apex rrs;
     nsec3_match any_types R (name_hash D c (closest ex ls)); nsec3_cover R (name_hash D c (next_closer ex ls))\<rbrakk>
   \<Longrightarrow> closest_encloser (name_hash D c) R ls flag = Some (closest ex ls)"
proof (induction ls arbitrary: pre flag)
  case Nil
  then show ?case using S by (simp add: served_def zone_ok_def)
next
  case (Cons l ls)
  have ne: "apex \<noteq> []" by (rule served_apex(2)[OF S])
  from served_apex(1)[OF S] Cons.prems(2,3) obtain pre' where pre: "ls = pre' @ apex" by (cases pre) auto
  then have ls: "ls \<noteq> []" using ne by simp
  have nm: "\<not> nsec3_match any_types R (name_hash D c (l # ls))"
    using not_matched[OF S R, of "l # ls" any_types] Cons.prems(1,3) by simp
  show ?case
  proof (cases "ls \<in> zone_names D apex rrs")
    case True
    then have "closest ex (l # ls) = ls" "next_closer ex (l # ls) = l # ls"
      using Cons.prems(3) ls by (cases ls; simp add: ex_def)+
    then show ?thesis using Cons.prems(4,5) nm ls by (cases ls) simp_all
  next
    case False
    have "tails_in N ls" using Cons.prems(1) by simp
    from Cons.IH[OF this pre False] show ?thesis
      using Cons.prems(3-5) nm False by (simp add: ex_def)
  qed
qed

lemma proofForNXDOMAIN_valid:
  assumes S: "served D label N apex False rrs c" and q: "tails_in N q" "q = pre @ apex"
    and absent: "q \<notin> zone_names D apex rrs"
  defines "ce \<equiv> closest (\<lambda>n. n \<in> zone_names D apex rrs) q"
  assumes wild: "''*'' # ce \<notin> zone_names D apex rrs" and star: "''*'' # ce \<in> N"
    and types: "39 \<notin> types_at D rrs ce" "TypeNS \<in> types_at D rrs ce \<longrightarrow> TypeSOA \<in> types_at D rrs ce"
  shows "nxdomain_valid (name_hash D c) (proofForNXDOMAIN D c (joinDomainLabels q) ttl) q"
proof -
  let ?ex = "\<lambda>n. n \<in> zone_names D apex rrs" and ?R = "proofForNXDOMAIN D c (joinDomainLabels q) ttl"
  let ?nc = "next_closer ?ex q"
  note spec = findClosestEncloser_spec[OF S q, unfolded kept_all, OF absent, folded ce_def]
  have wce: "ce \<in> N" using served_zone_names[OF S spec(2)] .
  have ce: "ce \<noteq> []" using spec(4) served_apex(2)[OF S] by auto
  obtain m where m: "matchingNSEC3 D c (joinDomainLabels ce) = Some m" "m \<in> set (nodes c)"
      "node_ok D (Salt c) (Iterations c) rrs ce m"
    using served_matchingE[OF S wce] spec(2) by (metis kept_all)
  obtain n where n: "coveringNSEC3 D c (joinDomainLabels ?nc) = Some n" "n \<in> set (nodes c)"
      "gap (Hash n) (name_hash D c ?nc) (nextHashedOwner c n)"
    using served_covering[OF S spec(6)] spec(3) by (metis kept_all)
  obtain w where w: "coveringNSEC3 D c (joinDomainLabels (''*'' # ce)) = Some w" "w \<in> set (nodes c)"
      "gap (Hash w) (name_hash D c (''*'' # ce)) (nextHashedOwner c w)"
    using served_covering[OF S star] wild by (metis kept_all)
  have R: "?R = dedupedNSEC3 c [Some m, Some n, Some w] ttl"
    using served_ring[OF S] spec(1) m(1) n(1) w(1)[folded star_join[OF ce]]
    by (simp add: proofForNXDOMAIN_def)
  have "set ?R = renderNSEC3 c ttl ` {m, n, w}" and rec: "chain_records c ?R"
    using deduped_records[of c "[Some m, Some n, Some w]" ttl] served_ring[OF S] m(2) n(2) w(2)
    unfolding R by auto
  then have in_R: "renderNSEC3 c ttl m \<in> set ?R" "renderNSEC3 c ttl n \<in> set ?R" "renderNSEC3 c ttl w \<in> set ?R"
    by auto
  have "Hash m = name_hash D c ce" using m(3) by (simp add: node_ok_def name_hash_def hashName_def)
  moreover have "encloser_types (Types m)"
    using m(3) types by (auto simp: node_ok_def encloser_types_def rr_types split: if_splits)
  ultimately have match: "nsec3_match any_types ?R (name_hash D c ce)" "nsec3_match encloser_types ?R (name_hash D c ce)"
    unfolding match_records[OF S rec] using m(2) in_R(1) by blast+
  have "nsec3_cover ?R (name_hash D c ?nc)" "nsec3_cover ?R (name_hash D c (''*'' # ce))"
    using covers_record[OF S n(2) in_R(2) n(3)] covers_record[OF S w(2) in_R(3) w(3)] .
  moreover from this(1) match(1) have "closest_encloser (name_hash D c) ?R q False = Some ce"
    unfolding ce_def by (intro search_complete[OF S rec q absent])
  ultimately show ?thesis using match(2) by (simp add: nxdomain_valid_def)
qed


section \<open>Wildcard answers\<close>

definition wild_inv :: "dns_lib \<Rightarrow> chain \<Rightarrow> nat \<Rightarrow> rr list \<Rightarrow> string set \<times> string set \<times> rr list \<Rightarrow> bool" where
  "wild_inv D c ttl done st \<longleftrightarrow>
     (let (seen, covered, out) = st in
      (\<forall>r\<in>set done. Rrtype r \<noteq> TypeRRSIG \<longrightarrow> CanonicalName D (rr_name r) \<in> seen)
      \<and> (\<forall>h\<in>covered. \<exists>n\<in>set (nodes c). Hash n = h \<and> renderNSEC3 c ttl n \<in> set out)
      \<and> (\<forall>o'\<in>seen. wildcardSource D c o' \<noteq> [] \<longrightarrow>
           (\<forall>n. coveringNSEC3 D c (snd (findClosestEncloser D c o')) = Some n \<longrightarrow> renderNSEC3 c ttl n \<in> set out)))"

lemma wildcard_step_inv:
  assumes "ring c" "wild_inv D c ttl done st"
  shows "wild_inv D c ttl (done @ [r]) (wildcard_step D c ttl r st)"
proof -
  obtain seen covered out where st: "st = (seen, covered, out)" by (cases st)
  let ?o = "CanonicalName D (rr_name r)"
  let ?cover = "coveringNSEC3 D c (snd (findClosestEncloser D c ?o))"
  have inv: "\<forall>r\<in>set done. Rrtype r \<noteq> TypeRRSIG \<longrightarrow> CanonicalName D (rr_name r) \<in> seen"
    "\<forall>h\<in>covered. \<exists>n\<in>set (nodes c). Hash n = h \<and> renderNSEC3 c ttl n \<in> set out"
    "\<forall>o'\<in>seen. wildcardSource D c o' \<noteq> [] \<longrightarrow>
       (\<forall>n. coveringNSEC3 D c (snd (findClosestEncloser D c o')) = Some n \<longrightarrow> renderNSEC3 c ttl n \<in> set out)"
    using assms(2) by (auto simp: wild_inv_def st)
  have same: "m = n" if "m \<in> set (nodes c)" "n \<in> set (nodes c)" "Hash m = Hash n" for m n
    using that node_index ring_eq_iff[OF assms(1)] by metis
  consider "Rrtype r = TypeRRSIG \<or> ?o \<in> seen"
    | "Rrtype r \<noteq> TypeRRSIG" "?o \<notin> seen" "wildcardSource D c ?o = []"
    | "Rrtype r \<noteq> TypeRRSIG" "?o \<notin> seen" "wildcardSource D c ?o \<noteq> []" "?cover = None"
    | n where "Rrtype r \<noteq> TypeRRSIG" "?o \<notin> seen" "wildcardSource D c ?o \<noteq> []" "?cover = Some n"
    by (cases ?cover) auto
  then show ?thesis
  proof cases
    case (4 n)
    have n: "n \<in> set (nodes c)" using coveringNSEC3_node[OF assms(1) 4(4)] .
    show ?thesis
    proof (cases "Hash n \<in> covered")
      case True
      then obtain m where "m \<in> set (nodes c)" "Hash m = Hash n" "renderNSEC3 c ttl m \<in> set out"
        using inv(2) by blast
      then have "renderNSEC3 c ttl n \<in> set out" using same n by blast
      then show ?thesis using inv 4 True by (auto simp: wild_inv_def wildcard_step_def st)
    next
      case False
      then show ?thesis using inv 4 n by (auto simp: wild_inv_def wildcard_step_def st)
    qed
  qed (use inv in \<open>auto simp: wild_inv_def wildcard_step_def st\<close>)
qed

lemma fold_wildcard_inv: "ring c \<Longrightarrow> wild_inv D c ttl rs (fold (wildcard_step D c ttl) rs ({}, {}, []))"
proof (induction rs rule: rev_induct)
  case Nil
  then show ?case by (simp add: wild_inv_def)
next
  case (snoc r rs)
  then show ?case by (simp add: wildcard_step_inv)
qed

lemma wildcardSource_spec:
  assumes S: "served D label N apex False rrs c" and q: "tails_in N q" "q = pre @ apex"
  defines "ex \<equiv> \<lambda>n. n \<in> zone_names D apex rrs"
  assumes star: "''*'' # closest ex q \<in> N"
  shows "wildcardSource D c (joinDomainLabels q) =
    (if \<not> ex q \<and> ex (''*'' # closest ex q) then joinDomainLabels (''*'' # closest ex q) else [])"
proof (cases "ex q")
  case True
  then show ?thesis using served_matching[OF S tails_in_self[OF q(1)]] by (simp add: wildcardSource_def ex_def)
next
  case False
  note spec = findClosestEncloser_spec[OF S q, unfolded kept_all, OF False[unfolded ex_def], folded ex_def]
  have ce: "closest ex q \<noteq> []" using spec(4) served_apex(2)[OF S] by auto
  note star = served_matching[OF S star]
  have "''*.'' @ fst (findClosestEncloser D c (joinDomainLabels q)) = joinDomainLabels (''*'' # closest ex q)"
    using spec(1) star_join[OF ce] by simp
  then show ?thesis
    unfolding wildcardSource_def Let_def using False star served_matching[OF S tails_in_self[OF q(1)]]
    by (simp only: ex_def kept_all not_False_eq_True if_True simp_thms if_cancel split: if_split)
qed

lemma joinDomainLabels_ne [simp]: "joinDomainLabels ls \<noteq> []"
  by (simp add: joinDomainLabels_def)

lemma attachWildcardProof_covers:
  assumes S: "served D label N apex False rrs c" and q: "tails_in N q" "q = pre @ apex"
    and r: "r \<in> set (Answer m)" "Rrtype r \<noteq> TypeRRSIG" "CanonicalName D (rr_name r) = joinDomainLabels q"
  defines "ex \<equiv> \<lambda>n. n \<in> zone_names D apex rrs"
  assumes wild: "\<not> ex q" "ex (''*'' # closest ex q)"
  shows "nsec3_cover (Ns (attachWildcardProof D (Some c) m)) (name_hash D c (next_closer ex q))"
proof -
  let ?ttl = "readDenialTTL m"
  obtain seen covered out where f: "fold (wildcard_step D c ?ttl) (Answer m) ({}, {}, []) = (seen, covered, out)"
    by (metis prod_cases3)
  have inv: "wild_inv D c ?ttl (Answer m) (seen, covered, out)"
    using fold_wildcard_inv[of c D ?ttl "Answer m"] served_ring[OF S] f by simp
  note spec = findClosestEncloser_spec[OF S q, unfolded kept_all, OF wild(1)[unfolded ex_def], folded ex_def]
  obtain n where n: "coveringNSEC3 D c (joinDomainLabels (next_closer ex q)) = Some n" "n \<in> set (nodes c)"
      "gap (Hash n) (name_hash D c (next_closer ex q)) (nextHashedOwner c n)"
    using served_covering[OF S spec(6)] spec(3) unfolding ex_def by (metis kept_all)
  have "wildcardSource D c (joinDomainLabels q) \<noteq> []"
    using wildcardSource_spec[OF S q] wild served_zone_names[OF S] unfolding ex_def by simp
  moreover have "joinDomainLabels q \<in> seen" using inv r by (auto simp: wild_inv_def)
  ultimately have "renderNSEC3 c ?ttl n \<in> set out"
    using inv n(1) spec(1) by (simp add: wild_inv_def)
  moreover have "Ns (attachWildcardProof D (Some c) m) = Ns m @ out"
    using f r(1) served_ring[OF S] by (auto simp: attachWildcardProof_def)
  ultimately show ?thesis using covers_record[OF S n(2) _ n(3), of ?ttl "Ns m @ out"] by simp
qed


section \<open>An example library and zone\<close>

definition plain_dns :: dns_lib where
  "plain_dns =
     \<lparr>CanonicalName = (\<lambda>nm. to_lower (if has_suffix nm ''.'' then nm else nm @ ''.'')),
      SplitDomainName = (\<lambda>nm. filter (\<lambda>l. l \<noteq> []) (split_on CHR ''.'' nm)),
      HashName = (\<lambda>nm it salt. map (\<lambda>ch. if ch = CHR ''.'' then CHR ''_'' else ch) (to_lower nm))\<rparr>"

definition plain_label :: "string \<Rightarrow> bool" where
  "plain_label l \<longleftrightarrow> l \<noteq> [] \<and> CHR ''.'' \<notin> set l \<and> CHR ''_'' \<notin> set l"

lemma to_lower_char_cases:
  "to_lower_char ch = ch
   \<or> 65 \<le> (of_char ch :: nat) \<and> (of_char ch :: nat) \<le> 90 \<and> of_char (to_lower_char ch) = (of_char ch + 32 :: nat)"
  by (cases "CHR ''A'' \<le> ch \<and> ch \<le> CHR ''Z''") (simp_all add: to_lower_char_def less_eq_char_def)

lemma to_lower_char_sep:
  assumes "x \<in> {CHR ''.'', CHR ''_''}"
  shows "to_lower_char ch = x \<longleftrightarrow> ch = x"
proof -
  have x: "(of_char x :: nat) \<in> {46, 95}" using assms by auto
  show ?thesis
    using to_lower_char_cases[of ch]
  proof
    assume up: "65 \<le> (of_char ch :: nat) \<and> (of_char ch :: nat) \<le> 90 \<and> of_char (to_lower_char ch) = (of_char ch + 32 :: nat)"
    then have "(of_char ch :: nat) \<noteq> of_char x" "(of_char (to_lower_char ch) :: nat) \<noteq> of_char x"
      using x by auto
    then show ?thesis by metis
  qed simp
qed

lemma to_lower_join: "to_lower (join_with CHR ''.'' ls) = join_with CHR ''.'' (map to_lower ls)"
  by (induction "CHR ''.''" ls rule: join_with.induct) (simp_all add: to_lower_def to_lower_char_sep)

lemma to_lower_joinDomainLabels: "to_lower (joinDomainLabels ls) = joinDomainLabels (map to_lower ls)"
  using to_lower_join[of ls] by (simp add: joinDomainLabels_def) (simp add: to_lower_def to_lower_char_def)

lemma plain_split:
  assumes "list_all plain_label ls"
  shows "SplitDomainName plain_dns (joinDomainLabels ls) = ls"
proof (cases "ls = []")
  case False
  have "join_with CHR ''.'' (ls @ [[]]) = join_with CHR ''.'' ls @ ''.''"
    using False by (induction ls rule: join_with.induct) auto
  moreover have "split_on CHR ''.'' (join_with CHR ''.'' (ls @ [[]])) = ls @ [[]]"
    using assms by (intro split_on_join) (auto simp: list_all_iff plain_label_def)
  moreover have "filter (\<lambda>l. l \<noteq> []) ls = ls"
    using assms by (simp add: list_all_iff plain_label_def filter_id_conv)
  ultimately show ?thesis using False by (simp add: plain_dns_def joinDomainLabels_def)
qed (simp add: plain_dns_def joinDomainLabels_def)

lemma set_to_lower_sep:
  assumes "x \<in> {CHR ''.'', CHR ''_''}"
  shows "x \<in> set (to_lower l) \<longleftrightarrow> x \<in> set l"
proof (induction l)
  case (Cons ch l)
  have "x = to_lower_char ch \<longleftrightarrow> x = ch" using to_lower_char_sep[OF assms] by metis
  then show ?case using Cons unfolding to_lower_def by simp
qed (simp add: to_lower_def)

lemma plain_label_lower: "plain_label l \<Longrightarrow> plain_label (to_lower l)"
  by (simp add: plain_label_def set_to_lower_sep) (simp add: to_lower_def)

lemma plain_dns_ok: "dns_ok plain_dns plain_label"
proof -
  have "has_suffix (joinDomainLabels ls) ''.''" for ls
    by (simp add: has_suffix_def has_prefix_def joinDomainLabels_def)
  then have "CanonicalName plain_dns (joinDomainLabels ls) = joinDomainLabels (map to_lower ls)" for ls
    by (simp add: plain_dns_def to_lower_joinDomainLabels)
  moreover have "CHR ''.'' \<notin> set (HashName plain_dns nm it salt)" for nm it salt
    by (auto simp: plain_dns_def split: if_splits)
  moreover have "plain_label ''*''" by (simp add: plain_label_def)
  ultimately show ?thesis
    using plain_split plain_label_lower by (auto simp: dns_ok_def plain_label_def)
qed

lemma plain_no_collisions: "\<forall>ls\<in>N. wf_labels plain_label ls \<Longrightarrow> no_collisions plain_dns N salt it"
  unfolding no_collisions_def
proof (rule inj_onI)
  let ?f = "\<lambda>ch. if ch = CHR ''.'' then CHR ''_'' else ch"
  have hash: "nsec3Hash plain_dns (joinDomainLabels ls) salt it = map ?f (joinDomainLabels (map to_lower ls))" for ls
    by (simp add: nsec3Hash_def plain_dns_def to_lower_joinDomainLabels[symmetric])
       (simp add: to_lower_def o_def, auto simp: to_lower_char_def)
  have chars: "set (joinDomainLabels ls) \<subseteq> - {CHR ''_''}" if "wf_labels plain_label ls" for ls
  proof -
    have "set (join_with CHR ''.'' ks) \<subseteq> {CHR ''.''} \<union> \<Union> (set ` set ks)" for ks
      by (induction ks rule: join_with.induct) auto
    then have "CHR ''_'' \<notin> set (join_with CHR ''.'' ls)"
      using that unfolding wf_labels_def list_all_iff plain_label_def by fastforce
    then show ?thesis by (simp add: joinDomainLabels_def)
  qed
  fix ls ls'
  assume all: "\<forall>ls\<in>N. wf_labels plain_label ls" and N: "ls \<in> N" "ls' \<in> N"
    and eq: "nsec3Hash plain_dns (joinDomainLabels ls) salt it = nsec3Hash plain_dns (joinDomainLabels ls') salt it"
  have wf: "wf_labels plain_label ls" "wf_labels plain_label ls'" using all N by blast+
  then have "map ?f (joinDomainLabels ls) = map ?f (joinDomainLabels ls')"
    using eq unfolding hash by (simp add: wf_labels_def)
  moreover have "inj_on ?f (- {CHR ''_''})" by (auto simp: inj_on_def)
  ultimately have "joinDomainLabels ls = joinDomainLabels ls'"
    using chars wf by (meson map_inj_on inj_on_subset Un_least)
  then show "ls = ls'" using wf unfolding wf_labels_def by (metis plain_split)
qed

definition example_rr :: "string \<Rightarrow> nat \<Rightarrow> rr" where
  "example_rr nm ty = \<lparr>rr_name = nm, Rrtype = ty, Class = 1, Ttl = 300, rr_data = Rdata []\<rparr>"

definition example_zone :: "rr list" where
  "example_zone =
     [example_rr ''Example.test.'' 6, example_rr ''www.example.test.'' 1,
      example_rr ''*.dev.example.test.'' 1, example_rr ''sub.example.test.'' 2]"

definition example_apex :: "string list" where
  "example_apex = [''example'', ''test'']"

lemma example_zone_ok: "zone_ok plain_dns plain_label example_apex example_zone"
  by code_simp

section \<open>Properties\<close>

text \<open>The plugin has loaded the chain \<open>c\<close> from a file with the records of a well-formed zone.\<close>

definition loaded ::
    "dns_lib \<Rightarrow> (string \<Rightarrow> bool) \<Rightarrow> string list \<Rightarrow> bool \<Rightarrow> rr list \<Rightarrow> chain \<Rightarrow> bool" where
  "loaded D label apex optOut rrs c \<longleftrightarrow>
     dns_ok D label \<and> zone_ok D label apex rrs \<and> no_collisions D (zone_names D apex rrs) (Salt c) (Iterations c)
     \<and> (\<exists>ord ord' zone_files ZoneFile. walks ord \<and> walks ord' \<and> zone_files ZoneFile = Inr (rrs, None)
          \<and> loadChain D ord ord' zone_files ZoneFile (Salt c) (Iterations c) optOut = Inr (Some c))"

lemma loaded_served:
  assumes "loaded D label apex oo rrs c" "zone_names D apex rrs \<subseteq> N" "\<forall>ls\<in>N. wf_labels label ls"
    "no_collisions D N (Salt c) (Iterations c)"
  shows "served D label N apex oo rrs c"
  using assms loadChain_serves unfolding loaded_def served_def by blast

lemma loaded_zone_names:
  "loaded D label apex oo rrs c \<Longrightarrow> served D label (zone_names D apex rrs) apex oo rrs c"
  by (rule loaded_served) (auto simp: loaded_def intro: zone_names_wf)

text \<open>The names whose hashes matter when \<open>q\<close> is asked for: those of the zone, \<open>q\<close> and its ancestors,
  and the wildcards below these.\<close>

definition names_asked :: "dns_lib \<Rightarrow> string list \<Rightarrow> rr list \<Rightarrow> string list \<Rightarrow> string list set" where
  "names_asked D apex rrs q =
     zone_names D apex rrs \<union> set (map (\<lambda>i. drop i q) [0..<Suc (length q)])
     \<union> set (map (\<lambda>i. ''*'' # drop i q) [0..<Suc (length q)])"

lemma names_asked_mem:
  "drop i q \<in> names_asked D apex rrs q" "''*'' # drop i q \<in> names_asked D apex rrs q"
proof -
  have d: "drop i q = drop (min i (length q)) q" and m: "min i (length q) \<in> set [0..<Suc (length q)]"
    by (auto simp: min_def)
  show "drop i q \<in> names_asked D apex rrs q" "''*'' # drop i q \<in> names_asked D apex rrs q"
    unfolding names_asked_def d set_map using m by blast+
qed

lemma loaded_asked:
  assumes "loaded D label apex oo rrs c" "wf_labels label q"
    "no_collisions D (names_asked D apex rrs q) (Salt c) (Iterations c)"
  shows "served D label (names_asked D apex rrs q) apex oo rrs c" "tails_in (names_asked D apex rrs q) q"
proof -
  have "label ''*''" and zone: "zone_ok D label apex rrs" using assms(1) by (simp_all add: loaded_def dns_ok_def)
  then have "\<forall>ls\<in>names_asked D apex rrs q. wf_labels label ls"
    using wf_labels_drop[OF assms(2)] zone_names_wf[OF zone] by (auto simp: names_asked_def simp del: upt_Suc)
  then show "served D label (names_asked D apex rrs q) apex oo rrs c"
    using assms by (intro loaded_served) (auto simp: names_asked_def)
  show "tails_in (names_asked D apex rrs q) q"
    using names_asked_mem(1) by (blast intro: tails_inI)
qed

lemma closest_tail: "\<exists>i. closest ex q = drop i q"
proof (induction q)
  case (Cons l ls)
  then obtain i where "closest ex ls = drop i ls" by blast
  then show ?case by (cases "ex (l # ls)") (auto intro: exI[of _ 0] exI[of _ "Suc i"])
qed simp

lemma star_asked: "''*'' # closest ex q \<in> names_asked D apex rrs q"
  using closest_tail[of ex q] names_asked_mem(2)[where q = q] by metis

lemma closest_cong:
  "\<lbrakk>q = pre @ apex; \<And>p. ex (p @ apex) = ex' (p @ apex); ex apex\<rbrakk> \<Longrightarrow> closest ex q = closest ex' q"
proof (induction q arbitrary: pre)
  case (Cons l ls)
  have same: "ex (l # ls) = ex' (l # ls)" using Cons.prems(2)[of pre] Cons.prems(1) by simp
  show ?case
  proof (cases pre)
    case Nil
    then have "ex (l # ls)" using Cons.prems(1,3) by simp
    then show ?thesis using same by simp
  next
    case (Cons l' pre')
    then have "ls = pre' @ apex" using Cons.prems(1) by simp
    then show ?thesis using Cons.IH Cons.prems(2,3) same by simp
  qed
qed simp

lemma zone_below: "p @ apex \<in> zone_names D apex rrs \<longleftrightarrow> name_exists D rrs (p @ apex)"
  by (simp add: zone_names_def)

lemma closest_zone:
  assumes "served D label N apex oo rrs c" "q = pre @ apex"
  shows "closest (\<lambda>n. n \<in> zone_names D apex rrs) q = closest (name_exists D rrs) q"
    "\<exists>p. closest (name_exists D rrs) q = p @ apex"
proof -
  show cl: "closest (\<lambda>n. n \<in> zone_names D apex rrs) q = closest (name_exists D rrs) q"
    by (rule closest_cong[OF assms(2)]) (use zone_below served_apex(1)[OF assms(1)] in auto)
  have "\<exists>p. closest ex (pre @ apex) = p @ apex" if "ex apex" for ex :: "string list \<Rightarrow> bool"
    using that by (induction pre) (cases apex; auto)+
  then show "\<exists>p. closest (name_exists D rrs) q = p @ apex"
    using served_apex(1)[OF assms(1)] zone_below[of "[]" apex D rrs] assms(2) by auto
qed

lemma loaded_exists:
  assumes "dns_ok D label" "\<forall>salt it. no_collisions D (zone_names D apex rrs) salt it" "zone_ok D label apex rrs"
  shows "\<exists>c. loaded D label apex oo rrs c"
proof -
  let ?ord = "\<lambda>owners :: owner_map. sorted_list_of_set (dom owners)"
  let ?names = "ownersToNameInfo D (?ord (fst (collectOwners D rrs))) (?ord (fst (collectOwners D rrs)))
      (fst (collectOwners D rrs)) (joinDomainLabels apex)"
  let ?c = "buildChain D (joinDomainLabels apex) [] 0 oo ?names"
  have "walks ?ord" by (simp add: walks_def)
  moreover have "loadChain D ?ord ?ord (\<lambda>_. Inr (rrs, None)) ''z'' [] 0 oo = Inr (Some ?c)"
    using collectOwners_apex[OF assms(3)]
    by (cases "collectOwners D rrs") (simp add: loadChain_def parseZoneFile_def)
  moreover have "Salt ?c = []" "Iterations ?c = 0" by (simp_all add: buildChain_def)
  ultimately have "loaded D label apex oo rrs ?c"
    unfolding loaded_def using assms
    by (intro conjI exI[of _ ?ord] exI[of _ "\<lambda>_. Inr (rrs, None)"] exI[of _ "''z''"]) simp_all
  then show ?thesis by blast
qed

lemma example_loaded: "\<exists>c. loaded plain_dns plain_label example_apex oo example_zone c"
  using zone_names_wf[OF example_zone_ok]
  by (intro loaded_exists plain_dns_ok example_zone_ok allI plain_no_collisions) blast

lemma example_asked:
  assumes "wf_labels plain_label q"
  shows "no_collisions plain_dns (names_asked plain_dns example_apex example_zone q) salt it"
proof (intro plain_no_collisions ballI)
  fix ls assume "ls \<in> names_asked plain_dns example_apex example_zone q"
  then show "wf_labels plain_label ls"
    using wf_labels_drop[OF assms] zone_names_wf[OF example_zone_ok]
    by (auto simp: names_asked_def simp del: upt_Suc) (simp_all add: plain_label_def)
qed

text \<open>C13. The answer to a name that does not exist convinces a resolver, and only then.  In a zone
  served without opt-out, take a query below the apex whose closest encloser is no delegation and owns
  no \<^verbatim>\<open>DNAME\<close>, and suppose that no two of the names concerned (those of the zone, the name asked for
  and its ancestors, the wildcards below these) collide under the hash.  With the records the plugin
  attaches, RFC 5155's verification succeeds exactly when neither the name nor a wildcard at its
  closest encloser exists in the zone file.\<close>

theorem nxdomain_proof_iff_absent:
  assumes "loaded D label apex False rrs c" "wf_labels label q" "q = pre @ apex"
    and "no_collisions D (names_asked D apex rrs q) (Salt c) (Iterations c)"
    and "39 \<notin> types_at D rrs (closest (name_exists D rrs) q)"
    and "TypeNS \<in> types_at D rrs (closest (name_exists D rrs) q)
         \<longrightarrow> TypeSOA \<in> types_at D rrs (closest (name_exists D rrs) q)"
  shows "nxdomain_valid (name_hash D c) (proofForNXDOMAIN D c (joinDomainLabels q) ttl) q
    \<longleftrightarrow> \<not> name_exists D rrs q \<and> \<not> name_exists D rrs (''*'' # closest (name_exists D rrs) q)"
proof -
  note S = loaded_asked(1)[OF assms(1,2,4)] and tails = loaded_asked(2)[OF assms(1,2,4)]
  note cl = closest_zone[OF S assms(3)]
  have q: "name_exists D rrs q \<longleftrightarrow> q \<in> zone_names D apex rrs"
    using zone_below assms(3) by metis
  have w: "name_exists D rrs (''*'' # closest (name_exists D rrs) q)
      \<longleftrightarrow> ''*'' # closest (name_exists D rrs) q \<in> zone_names D apex rrs"
    using cl(2) zone_below by (metis append_Cons)
  let ?R = "proofForNXDOMAIN D c (joinDomainLabels q) ttl"
  have in_chain: "n \<in> set (nodes c)" if "matchingNSEC3 D c x = Some n \<or> coveringNSEC3 D c x = Some n" for n x
    using that matchingNSEC3_iff coveringNSEC3_node served_ring[OF S] by blast
  have "chain_records c (dedupedNSEC3 c [matchingNSEC3 D c x, coveringNSEC3 D c y, coveringNSEC3 D c z] ttl)"
    for x y z
  proof (rule deduped_records(2))
    show "\<forall>n. Some n \<in> set [matchingNSEC3 D c x, coveringNSEC3 D c y, coveringNSEC3 D c z] \<longrightarrow> n \<in> set (nodes c)"
      using in_chain by (metis empty_iff empty_set set_ConsD)
  qed (use served_ring[OF S] in simp)
  then have "chain_records c ?R"
    using served_ring[OF S] by (simp add: proofForNXDOMAIN_def split: prod.split)
  then show ?thesis
    using valid_only_if_absent[OF S _ tails] proofForNXDOMAIN_valid[OF S tails assms(3)] star_asked assms(5,6)
    unfolding q w cl(1) by blast
qed

lemma nxdomain_proof_iff_absent_witness:
  "\<exists>c. nxdomain_valid (name_hash plain_dns c)
      (proofForNXDOMAIN plain_dns c ''mail.dept.example.test.'' 60) [''mail'', ''dept'', ''example'', ''test'']
    \<and> \<not> nxdomain_valid (name_hash plain_dns c)
      (proofForNXDOMAIN plain_dns c ''mail.dev.example.test.'' 60) [''mail'', ''dev'', ''example'', ''test'']"
proof -
  obtain c where c: "loaded plain_dns plain_label example_apex False example_zone c"
    using example_loaded by blast
  let ?q = "[''mail'', ''dept'', ''example'', ''test'']" and ?q' = "[''mail'', ''dev'', ''example'', ''test'']"
  have "wf_labels plain_label ?q" "?q = [''mail'', ''dept''] @ example_apex"
    "39 \<notin> types_at plain_dns example_zone (closest (name_exists plain_dns example_zone) ?q)"
    "TypeNS \<in> types_at plain_dns example_zone (closest (name_exists plain_dns example_zone) ?q)
       \<longrightarrow> TypeSOA \<in> types_at plain_dns example_zone (closest (name_exists plain_dns example_zone) ?q)"
    "wf_labels plain_label ?q'" "?q' = [''mail'', ''dev''] @ example_apex"
    "39 \<notin> types_at plain_dns example_zone (closest (name_exists plain_dns example_zone) ?q')"
    "TypeNS \<in> types_at plain_dns example_zone (closest (name_exists plain_dns example_zone) ?q')
       \<longrightarrow> TypeSOA \<in> types_at plain_dns example_zone (closest (name_exists plain_dns example_zone) ?q')"
    by code_simp+
  note iff = nxdomain_proof_iff_absent[OF c this(1,2) example_asked[OF this(1)] this(3,4), of 60]
    nxdomain_proof_iff_absent[OF c this(5,6) example_asked[OF this(5)] this(7,8), of 60]
  have "joinDomainLabels ?q = ''mail.dept.example.test.''" "joinDomainLabels ?q' = ''mail.dev.example.test.''"
    "\<not> name_exists plain_dns example_zone ?q \<and> \<not> name_exists plain_dns example_zone
        (''*'' # closest (name_exists plain_dns example_zone) ?q)"
    "name_exists plain_dns example_zone (''*'' # closest (name_exists plain_dns example_zone) ?q')"
    by code_simp+
  with iff show ?thesis by (intro exI[of _ c]) (simp only: simp_thms)
qed

text \<open>C14. In a zone served without opt-out, no combination of the chain's records, taken from whatever
  responses and at any TTL, lets a resolver conclude that a name at or below the apex does not exist
  when it does or a wildcard would answer it, provided the hashes of the names concerned (those of the
  zone, the name and its ancestors, the wildcards below these) do not collide.\<close>

theorem existing_names_undeniable:
  assumes "loaded D label apex False rrs c" "wf_labels label q" "q = pre @ apex"
    and "no_collisions D (names_asked D apex rrs q) (Salt c) (Iterations c)"
    and "\<forall>r\<in>set R. \<exists>n\<in>set (nodes c). \<exists>ttl. r = renderNSEC3 c ttl n"
    and "name_exists D rrs q \<or> name_exists D rrs (''*'' # closest (name_exists D rrs) q)"
  shows "\<not> nxdomain_valid (name_hash D c) R q"
proof
  note S = loaded_asked(1)[OF assms(1,2,4)] and tails = loaded_asked(2)[OF assms(1,2,4)]
  note cl = closest_zone[OF S assms(3)]
  assume "nxdomain_valid (name_hash D c) R q"
  with valid_only_if_absent[OF S _ tails] assms(5)
  have "q \<notin> zone_names D apex rrs \<and> ''*'' # closest (name_exists D rrs) q \<notin> zone_names D apex rrs"
    unfolding chain_records_def cl(1) by blast
  moreover obtain p where "closest (name_exists D rrs) q = p @ apex" using cl(2) by blast
  ultimately show False using assms(3,6) zone_below[of pre apex] zone_below[of "''*'' # p" apex] by simp
qed

lemma existing_names_undeniable_witness:
  "\<exists>c. \<not> nxdomain_valid (name_hash plain_dns c) (map (renderNSEC3 c 60) (nodes c)) [''www'', ''example'', ''test'']"
proof -
  obtain c where c: "loaded plain_dns plain_label example_apex False example_zone c"
    using example_loaded by blast
  have "wf_labels plain_label [''www'', ''example'', ''test'']"
    "[''www'', ''example'', ''test''] = [''www''] @ example_apex"
    "name_exists plain_dns example_zone [''www'', ''example'', ''test'']"
    by code_simp+
  with existing_names_undeniable[OF c this(1,2) example_asked[OF this(1)], of "map (renderNSEC3 c 60) (nodes c)"] show ?thesis by auto
qed

text \<open>C15. The answer to a missing type names the truth.  For a name of the zone that is not an
  insecure delegation left out by opt-out, and a zone whose own names do not collide under the hash,
  one record is attached; its hash is that of the name, and its bitmap lists the types the zone file
  has there, and \<^verbatim>\<open>RRSIG\<close> besides when there is any (nothing at an empty non-terminal).\<close>

theorem nodata_proof_exact:
  assumes "loaded D label apex optOut rrs c" "wf_labels label q" "q = pre @ apex" "name_exists D rrs q"
    and "\<not> (optOut \<and> insecure D apex rrs q)"
  shows "\<exists>r d. proofForNODATA D c (joinDomainLabels q) ttl = [r] \<and> rr_data r = NSEC3 d
     \<and> rr_name r = name_hash D c q @ ''.'' @ joinDomainLabels apex
     \<and> set (TypeBitMap d) = types_at D rrs q \<union> (if types_at D rrs q = {} then {} else {TypeRRSIG})"
proof -
  note S = loaded_zone_names[OF assms(1)]
  have zq: "q \<in> zone_names D apex rrs" using assms(3,4) zone_below[of pre apex] by simp
  then have "q \<in> kept_names D apex optOut rrs" using assms(5) by (simp add: kept_names_def)
  then obtain n where n: "matchingNSEC3 D c (joinDomainLabels q) = Some n"
      "node_ok D (Salt c) (Iterations c) rrs q n"
    using served_matchingE[OF S zq] by metis
  have "proofForNODATA D c (joinDomainLabels q) ttl = [renderNSEC3 c ttl n]"
    using n(1) served_ring[OF S] by (simp add: proofForNODATA_def dedupedNSEC3_def)
  then show ?thesis
    using n(2) S by (auto simp: renderNSEC3_def node_ok_def ownerForNode_def name_hash_def hashName_def
        served_def serves_def)
qed

lemma nodata_proof_exact_witness:
  "\<exists>c r d. proofForNODATA plain_dns c ''dev.example.test.'' 60 = [r] \<and> rr_data r = NSEC3 d \<and> TypeBitMap d = []"
proof -
  obtain c where c: "loaded plain_dns plain_label example_apex True example_zone c"
    using example_loaded by blast
  have "wf_labels plain_label [''dev'', ''example'', ''test'']"
    "[''dev'', ''example'', ''test''] = [''dev''] @ example_apex"
    "name_exists plain_dns example_zone [''dev'', ''example'', ''test'']"
    "\<not> (True \<and> insecure plain_dns example_apex example_zone [''dev'', ''example'', ''test''])"
    "joinDomainLabels [''dev'', ''example'', ''test''] = ''dev.example.test.''"
    "types_at plain_dns example_zone [''dev'', ''example'', ''test''] = {}"
    by code_simp+
  with nodata_proof_exact[OF c this(1-4), of 60] show ?thesis by auto
qed



text \<open>A referral tells whether the child is signed: the record attached for a delegation has the
  hash of its name and shows the delegation and whether a \<^verbatim>\<open>DS\<close> is there; with opt-out, an insecure
  delegation is left out of the chain and the record has the opt-out flag and covers its hash.\<close>

theorem referral_attests_ds:
  assumes "loaded D label apex optOut rrs c" "wf_labels label q" "q = pre @ apex" "q \<noteq> apex"
    and "TypeNS \<in> types_at D rrs q"
  shows "\<exists>r d. proofForDelegation D c (joinDomainLabels q) ttl = [r] \<and> rr_data r = NSEC3 d
     \<and> (if optOut \<and> TypeDS \<notin> types_at D rrs q
        then n3_flags d = 1 \<and> nsec3_cover [r] (name_hash D c q)
        else nsec3_match any_types [r] (name_hash D c q) \<and> TypeNS \<in> set (TypeBitMap d)
             \<and> (TypeDS \<in> set (TypeBitMap d) \<longleftrightarrow> TypeDS \<in> types_at D rrs q))"
proof -
  note S = loaded_zone_names[OF assms(1)]
  have oo: "OptOut c = optOut" using S by (simp add: served_def serves_def)
  obtain r' where "r' \<in> set rrs" "owner_labels D r' = q" using assms(5) by (auto simp: types_at_def)
  then have "name_exists D rrs q" by (auto simp: name_exists_def is_suffix_def)
  then have q: "q \<in> zone_names D apex rrs" using assms(3) zone_below[of pre apex] by simp
  have insec: "insecure D apex rrs q \<longleftrightarrow> TypeDS \<notin> types_at D rrs q"
    using assms(4,5) by (simp add: insecure_def)
  have rec: "chain_records c [renderNSEC3 c ttl n]" if "n \<in> set (nodes c)" for n
    using that by (auto simp: chain_records_def)
  show ?thesis
  proof (cases "optOut \<and> TypeDS \<notin> types_at D rrs q")
    case True
    then have out: "q \<notin> kept_names D apex optOut rrs" using insec by (simp add: kept_names_def)
    obtain n where n: "coveringNSEC3 D c (joinDomainLabels q) = Some n" "n \<in> set (nodes c)"
        "gap (Hash n) (name_hash D c q) (nextHashedOwner c n)"
      using served_covering[OF S q out] .
    have "proofForDelegation D c (joinDomainLabels q) ttl = [renderNSEC3 c ttl n]"
      using n(1) out served_matching[OF S q] served_ring[OF S] True oo
      by (simp add: proofForDelegation_def dedupedNSEC3_def)
    moreover have "nsec3_cover [renderNSEC3 c ttl n] (name_hash D c q)"
      using covers_record[OF S n(2) _ n(3), of ttl] by simp
    moreover obtain d where "rr_data (renderNSEC3 c ttl n) = NSEC3 d" "n3_flags d = 1"
      using True oo by (simp add: renderNSEC3_def)
    ultimately show ?thesis using True by auto
  next
    case False
    then have "q \<in> kept_names D apex optOut rrs" using q insec by (simp add: kept_names_def)
    then obtain n where n: "matchingNSEC3 D c (joinDomainLabels q) = Some n" "n \<in> set (nodes c)"
        "node_ok D (Salt c) (Iterations c) rrs q n"
      using served_matchingE[OF S q] by blast
    have "proofForDelegation D c (joinDomainLabels q) ttl = [renderNSEC3 c ttl n]"
      using n(1) served_ring[OF S] by (simp add: proofForDelegation_def dedupedNSEC3_def)
    moreover have "Hash n = name_hash D c q" using n(3) by (simp add: node_ok_def name_hash_def hashName_def)
    then have "nsec3_match any_types [renderNSEC3 c ttl n] (name_hash D c q)"
      unfolding match_records[OF S rec[OF n(2)]] using n(2) by auto
    moreover obtain d where "rr_data (renderNSEC3 c ttl n) = NSEC3 d" "TypeBitMap d = Types n"
      by (simp add: renderNSEC3_def)
    moreover have "TypeNS \<in> set (Types n)" "TypeDS \<in> set (Types n) \<longleftrightarrow> TypeDS \<in> types_at D rrs q"
      using n(3) assms(5) by (auto simp: node_ok_def rr_types split: if_splits)
    ultimately show ?thesis using False by auto
  qed
qed

lemma referral_attests_ds_witness:
  "\<exists>c r d. proofForDelegation plain_dns c ''sub.example.test.'' 60 = [r] \<and> rr_data r = NSEC3 d \<and> n3_flags d = 1"
proof -
  obtain c where c: "loaded plain_dns plain_label example_apex True example_zone c"
    using example_loaded by blast
  have "wf_labels plain_label [''sub'', ''example'', ''test'']"
    "[''sub'', ''example'', ''test''] = [''sub''] @ example_apex" "[''sub'', ''example'', ''test''] \<noteq> example_apex"
    "TypeNS \<in> types_at plain_dns example_zone [''sub'', ''example'', ''test'']"
    "joinDomainLabels [''sub'', ''example'', ''test''] = ''sub.example.test.''"
    "TypeDS \<notin> types_at plain_dns example_zone [''sub'', ''example'', ''test'']"
    by code_simp+
  with referral_attests_ds[OF c this(1-4), of 60] show ?thesis by auto
qed

lemma next_closer_drop:
  "\<not> ex q \<Longrightarrow> ex (closest ex q) \<Longrightarrow> \<exists>i<length q. closest ex q = drop (Suc i) q \<and> next_closer ex q = drop i q"
proof (induction q)
  case (Cons l ls)
  show ?case
  proof (cases "ex ls")
    case True
    then have "closest ex (l # ls) = ls" "next_closer ex (l # ls) = l # ls"
      using Cons.prems(1) by (cases ls; simp)+
    then show ?thesis by (intro exI[of _ 0]) simp
  next
    case False
    then obtain i where "i < length ls" "closest ex ls = drop (Suc i) ls" "next_closer ex ls = drop i ls"
      using Cons by auto
    then show ?thesis using Cons.prems(1) False by (intro exI[of _ "Suc i"]) simp
  qed
qed simp

text \<open>A wildcard answer carries its proof: for every record of the answer whose owner is not in the
  zone but is matched by a wildcard, the authority section gets a record covering the next closer
  name, so that a resolver can tell that nothing closer than the wildcard exists.\<close>

theorem wildcard_answer_proved:
  assumes "loaded D label apex False rrs c" "wf_labels label q" "q = pre @ apex"
    and "no_collisions D (names_asked D apex rrs q) (Salt c) (Iterations c)"
    and "r \<in> set (Answer m)" "Rrtype r \<noteq> TypeRRSIG" "CanonicalName D (rr_name r) = joinDomainLabels q"
    and "\<not> name_exists D rrs q" "name_exists D rrs (''*'' # closest (name_exists D rrs) q)"
  shows "wildcardSource D c (joinDomainLabels q) = joinDomainLabels (''*'' # closest (name_exists D rrs) q)
     \<and> (\<exists>i<length q. closest (name_exists D rrs) q = drop (Suc i) q
          \<and> nsec3_cover (Ns (attachWildcardProof D (Some c) m)) (name_hash D c (drop i q)))"
proof -
  note S = loaded_asked(1)[OF assms(1,2,4)] and tails = loaded_asked(2)[OF assms(1,2,4)]
  note cl = closest_zone[OF S assms(3)]
  let ?ex = "\<lambda>n. n \<in> zone_names D apex rrs"
  obtain p where p: "closest (name_exists D rrs) q = p @ apex" using cl(2) by blast
  have ex: "\<not> ?ex q" "?ex (''*'' # closest ?ex q)"
    using assms(3,8,9) zone_below[of pre apex] zone_below[of "''*'' # p" apex] p unfolding cl(1) by simp_all
  have next': "\<exists>i<length q. closest ?ex q = drop (Suc i) q \<and> next_closer ?ex q = drop i q"
  proof -
    have "?ex (closest ?ex q)"
      using findClosestEncloser_spec(2)[OF S tails assms(3)] ex(1) by simp
    then show ?thesis using ex(1) by (intro next_closer_drop)
  qed
  have "wildcardSource D c (joinDomainLabels q) = joinDomainLabels (''*'' # closest ?ex q)"
    using wildcardSource_spec[OF S tails assms(3) star_asked] ex by simp
  moreover have "nsec3_cover (Ns (attachWildcardProof D (Some c) m)) (name_hash D c (next_closer ?ex q))"
    by (rule attachWildcardProof_covers[OF S tails assms(3,5-7) ex])
  ultimately show ?thesis using next' unfolding cl(1) by metis
qed

lemma wildcard_answer_proved_witness:
  "\<exists>c. wildcardSource plain_dns c ''a.b.dev.example.test.'' = ''*.dev.example.test.''
     \<and> Ns (attachWildcardProof plain_dns (Some c)
          \<lparr>Answer = [example_rr ''A.b.dev.example.test.'' 1], Ns = [], Extra = [], Rcode = 0\<rparr>) \<noteq> []"
proof -
  obtain c where c: "loaded plain_dns plain_label example_apex False example_zone c"
    using example_loaded by blast
  let ?q = "[''a'', ''b'', ''dev'', ''example'', ''test'']" and ?r = "example_rr ''A.b.dev.example.test.'' 1"
  let ?m = "\<lparr>Answer = [?r], Ns = [], Extra = [], Rcode = 0\<rparr>"
  have "wf_labels plain_label ?q" "?q = [''a'', ''b'', ''dev''] @ example_apex"
    "?r \<in> set (Answer ?m)" "Rrtype ?r \<noteq> TypeRRSIG" "CanonicalName plain_dns (rr_name ?r) = joinDomainLabels ?q"
    "\<not> name_exists plain_dns example_zone ?q"
    "name_exists plain_dns example_zone (''*'' # closest (name_exists plain_dns example_zone) ?q)"
    by code_simp+
  note w = wildcard_answer_proved[OF c this(1,2) example_asked[OF this(1)] this(3-)]
  have "joinDomainLabels ?q = ''a.b.dev.example.test.''"
    "joinDomainLabels (''*'' # closest (name_exists plain_dns example_zone) ?q) = ''*.dev.example.test.''"
    by code_simp+
  with w have "wildcardSource plain_dns c ''a.b.dev.example.test.'' = ''*.dev.example.test.''"
    by (simp only: simp_thms)
  moreover obtain x where "nsec3_cover (Ns (attachWildcardProof plain_dns (Some c) ?m)) x" using w by blast
  then have "Ns (attachWildcardProof plain_dns (Some c) ?m) \<noteq> []"
    unfolding nsec3_cover_def list_ex_iff by (metis empty_iff empty_set)
  ultimately show ?thesis by blast
qed

end
