(* ===== verification/Nsec3Serve.thy ===== *)
theory Nsec3Serve
  imports Nsec3Sign Nsec3Proofs
begin

text \<open>
  What the plugin serves over time: queries and the janitor as steps over the clock and the
  signature cache.  Signatures sent are never near expiry, every record set is signed by every key
  for it, and a configuration that was accepted is in bounds.
\<close>

section \<open>Assumptions on the library\<close>

text \<open>Of \<^verbatim>\<open>RRSIG.Sign\<close> the library documents that inception, expiration, key tag, signer and algorithm
  are taken from the template, and the rest from the (non-empty) record set; \<^verbatim>\<open>ValidityPeriod\<close> compares by
  serial numbers, which near the time asked for is the plain order.\<close>

definition sign_ok :: "sign_lib \<Rightarrow> bool" where
  "sign_ok L \<longleftrightarrow>
     (\<forall>k tmpl rrs s td. rrs \<noteq> [] \<and> Sign L k tmpl rrs = Inr s \<and> rr_data tmpl = RRSIG td \<longrightarrow>
        (\<exists>d. rr_data s = RRSIG d \<and> Inception d = Inception td \<and> Expiration d = Expiration td
            \<and> SigKeyTag d = SigKeyTag td \<and> SignerName d = SignerName td \<and> Algorithm d = Algorithm td
            \<and> TypeCovered d = Rrtype (hd rrs))
        \<and> rr_name s = rr_name (hd rrs) \<and> Rrtype s = TypeRRSIG)
     \<and> (\<forall>s d t. rr_data s = RRSIG d \<and> 0 \<le> t \<and> t < 2 ^ 32
          \<and> \<bar>int (Inception d) - t\<bar> < 2 ^ 31 \<and> \<bar>int (Expiration d) - t\<bar> < 2 ^ 31 \<longrightarrow>
          (ValidityPeriod L s t \<longleftrightarrow> int (Inception d) \<le> t \<and> t \<le> int (Expiration d)))"

section \<open>Steps\<close>

text \<open>The clock, the time of the janitor's last pass and the cache.  The janitor runs at least every
  eight hours; the clock fits 32 bits.\<close>

type_synonym plugin_state = "int \<times> int \<times> sig_cache"

definition clock_ok :: "int \<Rightarrow> int \<Rightarrow> int \<Rightarrow> bool" where
  "clock_ok t swept t' \<longleftrightarrow>
     t \<le> t' \<and> t' \<le> swept + sigCacheCleanInterval \<and> sigInceptionOffset \<le> t' \<and> t' + sigValidity < 2 ^ 32"

inductive plugin_step :: "dns_lib \<Rightarrow> sign_lib \<Rightarrow> nsec3sign \<Rightarrow> plugin_state \<Rightarrow> plugin_state \<Rightarrow> bool"
  for D L n where
  query: "\<lbrakk>clock_ok t swept t'; ServeDNS D L n q t' (Some c) = (r, Some c')\<rbrakk>
    \<Longrightarrow> plugin_step D L n (t, swept, c) (t', swept, c')"
| janitor: "clock_ok t swept t' \<Longrightarrow> plugin_step D L n (t, swept, c) (t', t', cleanSigCache L c t')"

inductive_cases plugin_stepE: "plugin_step D L n (t, swept, c) s"

text \<open>A signature made at \<open>t0\<close>.\<close>

definition made_at :: "int \<Rightarrow> rr \<Rightarrow> bool" where
  "made_at t0 s \<longleftrightarrow>
     (\<exists>d. rr_data s = RRSIG d \<and> Inception d = uint32 (t0 - sigInceptionOffset)
        \<and> Expiration d = uint32 (t0 + sigValidity))
     \<and> sigInceptionOffset \<le> t0 \<and> t0 + sigValidity < 2 ^ 32"

lemma uint32_small: "0 \<le> t \<Longrightarrow> t < 2 ^ 32 \<Longrightarrow> int (uint32 t) = t"
  by (simp add: uint32_def)

lemma made_at_times:
  "made_at t0 s \<Longrightarrow> \<exists>d. rr_data s = RRSIG d \<and> int (Inception d) = t0 - sigInceptionOffset
     \<and> int (Expiration d) = t0 + sigValidity"
  by (auto simp: made_at_def sig_times intro!: uint32_small)

lemma signOne_made:
  assumes "sign_ok L" "signOne L rrs k sn (uint32 (t - sigInceptionOffset)) (uint32 (t + sigValidity)) = Inr s"
    and "sigInceptionOffset \<le> t" "t + sigValidity < 2 ^ 32" "rrs \<noteq> []"
  shows "made_at t s" "made_at t (s\<lparr>rr_name := nm\<rparr>)"
    "rr_name s = rr_name (hd rrs)"
    "\<exists>d. rr_data s = RRSIG d \<and> TypeCovered d = Rrtype (hd rrs) \<and> SigKeyTag d = KeyTag k \<and> SignerName d = sn"
    "Rrtype s = TypeRRSIG"
proof -
  let ?td = "\<lparr>TypeCovered = Rrtype (hd rrs), Algorithm = dk_algorithm (Public k), Labels = 0,
     OrigTtl = Ttl (hd rrs), Expiration = uint32 (t + sigValidity),
     Inception = uint32 (t - sigInceptionOffset), SigKeyTag = KeyTag k, SignerName = sn, Signature = []\<rparr>"
  let ?tmpl = "\<lparr>rr_name = rr_name (hd rrs), Rrtype = TypeRRSIG, Class = Class (hd rrs), Ttl = Ttl (hd rrs),
     rr_data = RRSIG ?td\<rparr>"
  have "Sign L k ?tmpl rrs = Inr s"
    using assms(2) by (simp add: signOne_def Let_def split: if_splits sum.splits)
  moreover have "rr_data ?tmpl = RRSIG ?td" by simp
  ultimately obtain d where "rr_data s = RRSIG d" "Inception d = Inception ?td" "Expiration d = Expiration ?td"
      "SigKeyTag d = SigKeyTag ?td" "SignerName d = SignerName ?td" "TypeCovered d = Rrtype (hd rrs)"
      "rr_name s = rr_name (hd rrs)" "Rrtype s = TypeRRSIG"
    using assms(1,5) unfolding sign_ok_def by blast
  then show "made_at t s" "made_at t (s\<lparr>rr_name := nm\<rparr>)" "rr_name s = rr_name (hd rrs)"
    "\<exists>d. rr_data s = RRSIG d \<and> TypeCovered d = Rrtype (hd rrs) \<and> SigKeyTag d = KeyTag k \<and> SignerName d = sn"
    "Rrtype s = TypeRRSIG"
    using assms(3,4) by (simp_all add: made_at_def)
qed

text \<open>What the signatures of one set look like.\<close>

lemma signRRset_cases:
  obtains (none) "signRRset D L n sn i e rrs cache = ([], cache)"
      "rrs = [] \<or> signingKeysFor (Keys n) (Rrtype (hd rrs)) = []"
  | (hit) v c where "cache = Some c" "c (rrsetCacheKey L rrs) = Some v" "rrs \<noteq> []"
      "signRRset D L n sn i e rrs cache = (v, cache)"
  | (miss) sigs where "rrs \<noteq> []" "Option.bind cache (\<lambda>c. c (rrsetCacheKey L rrs)) = None"
      "sigs = fst (signRRset D L n sn i e rrs None)"
      "signRRset D L n sn i e rrs cache = (sigs, map_option (\<lambda>c.
         if sigs \<noteq> [] then cache_add L c (rrsetCacheKey L rrs) sigs else c) cache)"
proof (cases "rrs = []")
  case True
  then show thesis using none by (simp add: signRRset_def)
next
  case ne: False
  show thesis
  proof (cases "Option.bind cache (\<lambda>c. c (rrsetCacheKey L rrs))")
    case (Some v)
    then show thesis using hit ne by (cases cache) (auto simp: signRRset_def Let_def)
  next
    case None
    show thesis
    proof (cases "signingKeysFor (Keys n) (Rrtype (hd rrs)) = []")
      case True
      then show thesis using none ne None by (simp add: signRRset_def Let_def)
    next
      case False
      show thesis
        by (rule miss[OF ne None refl]) (use ne None False in \<open>auto simp: signRRset_def Let_def split: option.split\<close>)
    qed
  qed
qed

lemma signRRset_fresh_sigs:
  assumes "sign_ok L" "sigInceptionOffset \<le> t" "t + sigValidity < 2 ^ 32"
    and "s \<in> set (fst (signRRset D L n sn (uint32 (t - sigInceptionOffset)) (uint32 (t + sigValidity)) rrs None))"
  shows "made_at t s"
  using assms(4) signOne_made(1,2)[OF assms(1) _ assms(2,3)]
  by (auto simp: wildcardOwnerClone_def signRRset_def Let_def split: if_splits option.splits sum.splits)

text \<open>A cache whose entries are at most as old as the janitor allows; what is answered then is too.\<close>

definition good_sig :: "int \<Rightarrow> int \<Rightarrow> rr \<Rightarrow> bool" where
  "good_sig swept t s \<longleftrightarrow> (\<exists>t0\<le>t. made_at t0 s \<and> swept + sigCacheRefreshThreshold \<le> t0 + sigValidity)"

definition good_cache :: "int \<Rightarrow> int \<Rightarrow> sig_cache option \<Rightarrow> bool" where
  "good_cache swept t cache \<longleftrightarrow>
     (case cache of None \<Rightarrow> True | Some c \<Rightarrow> \<forall>k v. c k = Some v \<longrightarrow> (\<forall>s\<in>set v. good_sig swept t s))"

lemma signRRset_good:
  assumes "sign_ok L" "clock_ok t0 swept t" "swept \<le> t" "good_cache swept t cache"
    and "signRRset D L n sn (uint32 (t - sigInceptionOffset)) (uint32 (t + sigValidity)) rrs cache = (sigs, cache')"
  shows "(\<forall>s\<in>set sigs. good_sig swept t s) \<and> good_cache swept t cache'"
proof -
  let ?i = "uint32 (t - sigInceptionOffset)" and ?e = "uint32 (t + sigValidity)"
  have clk: "sigInceptionOffset \<le> t" "t + sigValidity < 2 ^ 32" "t \<le> swept + sigCacheCleanInterval"
    using assms(2) by (auto simp: clock_ok_def)
  have new: "good_sig swept t s" if "s \<in> set (fst (signRRset D L n sn ?i ?e rrs None))" for s
    using signRRset_fresh_sigs[OF assms(1) clk(1,2) that] clk(3)
    assms(3) unfolding good_sig_def by (intro exI[of _ t]) (simp add: sig_times)
  show ?thesis
  proof (cases rule: signRRset_cases[of D L n sn ?i ?e rrs cache])
    case none
    then show ?thesis using assms(4,5) by simp
  next
    case (hit v c)
    then show ?thesis using assms(4,5) by (auto simp: good_cache_def)
  next
    case (miss sg)
    then have "sigs = sg" "cache' = map_option (\<lambda>c. if sg \<noteq> [] then cache_add L c (rrsetCacheKey L rrs) sg else c) cache"
      using assms(5) by simp_all
    moreover have "\<forall>s\<in>set sg. good_sig swept t s" using new miss(3) by simp
    ultimately show ?thesis using assms(4)
      by (cases cache) (auto simp: good_cache_def cache_add_def split: if_splits)
  qed
qed


lemma appendRRSIGs_good:
  assumes "sign_ok L" "clock_ok t0 swept t" "swept \<le> t" "good_cache swept t cache"
    and "appendRRSIGs D L n walk sn (uint32 (t - sigInceptionOffset)) (uint32 (t + sigValidity)) rrs cache = (out, cache')"
  shows "good_cache swept t cache' \<and> (\<exists>sigs. out = rrs @ sigs \<and> (\<forall>s\<in>set sigs. good_sig swept t s))"
proof -
  let ?f = "\<lambda>(k, rrset) (out, c).
      case signRRset D L n sn (uint32 (t - sigInceptionOffset)) (uint32 (t + sigValidity)) rrset c of
        (sigs, c') \<Rightarrow> (out @ sigs, c')"
  have "fold ?f groups (out0, c0) = (out, c1) \<Longrightarrow> good_cache swept t c0 \<Longrightarrow>
     good_cache swept t c1 \<and> (\<exists>sigs. out = out0 @ sigs \<and> (\<forall>s\<in>set sigs. good_sig swept t s))"
    for groups out0 c0 out c1
  proof (induction groups arbitrary: out0 c0)
    case (Cons g groups)
    obtain k rrset where g: "g = (k, rrset)" by (cases g)
    obtain sigs c' where sg: "signRRset D L n sn (uint32 (t - sigInceptionOffset)) (uint32 (t + sigValidity)) rrset c0 = (sigs, c')"
      by fastforce
    from signRRset_good[OF assms(1-3) Cons.prems(2) sg] have good: "\<forall>s\<in>set sigs. good_sig swept t s" "good_cache swept t c'"
      by auto
    have "fold ?f groups (out0 @ sigs, c') = (out, c1)" using Cons.prems(1) by (simp add: g sg)
    from Cons.IH[OF this good(2)] good(1) show ?case by auto
  qed simp
  from this[OF assms(5)[unfolded appendRRSIGs_def] assms(4)] show ?thesis .
qed

lemma signMessage_good:
  assumes "sign_ok L" "clock_ok t0 swept t" "swept \<le> t" "good_cache swept t cache"
    and "signMessage D L n walk sn t m cache = (m', cache')"
  shows "good_cache swept t cache'
    \<and> (\<exists>sa sn'. Answer m' = Answer m @ sa \<and> Ns m' = Ns m @ sn' \<and> (\<forall>s\<in>set sa \<union> set sn'. good_sig swept t s))"
proof (cases "Keys n = []")
  case True
  then show ?thesis using assms(4,5) by (simp add: signMessage_def)
next
  case False
  let ?sign = "\<lambda>rrs c. appendRRSIGs D L n walk sn (uint32 (t - sigInceptionOffset)) (uint32 (t + sigValidity)) rrs c"
  obtain a c1 where a: "?sign (Answer m) cache = (a, c1)" by fastforce
  obtain b c2 where b: "?sign (Ns m) c1 = (b, c2)" by fastforce
  note ga = appendRRSIGs_good[OF assms(1-4) a]
  note gb = appendRRSIGs_good[OF assms(1-3) _ b]
  have "m' = m\<lparr>Answer := a, Ns := b\<rparr>" "cache' = c2"
    using assms(5) False a b by (simp_all add: signMessage_def Let_def)
  then show ?thesis using ga gb by auto
qed

lemma good_cache_later:
  "good_cache swept t cache \<Longrightarrow> t \<le> t' \<Longrightarrow> good_cache swept t' cache"
  unfolding good_cache_def good_sig_def by (auto split: option.splits) (meson order_trans)

lemma attach_Answer [simp]:
  "Answer (attachDenialProof D ty chn q t m) = Answer m" "Answer (attachWildcardProof D chn m) = Answer m"
  by (auto simp: attachDenialProof_def attachWildcardProof_def Let_def split: option.split response_type.split)

lemma ServeDNS_good:
  assumes "sign_ok L" "clock_ok t0 swept t" "swept \<le> t" "good_cache swept t cache"
    and "ServeDNS D L n q t cache = ((code, err, Some m'), cache')"
  shows "good_cache swept t cache' \<and> (next_msg q = Some m' \<or>
    (\<exists>m sa sn'. next_msg q = Some m \<and> Answer m' = Answer m @ sa
       \<and> Ns m' = Ns (attachWildcardProof D (Chain n) (attachDenialProof D (Typify q) (Chain n) (q_name q) t m)) @ sn'
       \<and> (\<forall>s\<in>set sa \<union> set sn'. good_sig swept t s)))"
  using assms(4,5) signMessage_good[OF assms(1-4)]
  by (fastforce simp: ServeDNS_def split: if_splits option.splits prod.splits)

lemma ServeDNS_cache:
  assumes "sign_ok L" "clock_ok t0 swept t" "swept \<le> t" "good_cache swept t cache"
    and "ServeDNS D L n q t cache = (r, cache')"
  shows "good_cache swept t cache'"
  using assms(4,5) signMessage_good[OF assms(1-4)]
  by (fastforce simp: ServeDNS_def split: if_splits option.splits prod.splits)


definition plugin_inv :: "sign_lib \<Rightarrow> plugin_state \<Rightarrow> bool" where
  "plugin_inv L st \<longleftrightarrow> (sign_ok L \<longrightarrow> (case st of (t, swept, c) \<Rightarrow> swept \<le> t \<and> good_cache swept t (Some c)))"

lemma janitor_good:
  assumes L: "sign_ok L" and clk: "clock_ok t swept t'" and le: "swept \<le> t" and good: "good_cache swept t (Some c)"
  shows "good_cache t' t' (Some (cleanSigCache L c t'))"
  unfolding good_cache_def option.case
proof (intro allI impI ballI)
  fix k v s assume v: "cleanSigCache L c t' k = Some v" "s \<in> set v"
  then have ck: "c k = Some v" and keep: "\<not> ((case rr_data s of RRSIG _ \<Rightarrow> True | _ \<Rightarrow> False)
      \<and> \<not> ValidityPeriod L s (t' + sigCacheRefreshThreshold))"
    by (auto simp: cleanSigCache_def list_ex_iff split: option.splits if_splits)
  obtain t0 where t0: "t0 \<le> t" "made_at t0 s" "swept + sigCacheRefreshThreshold \<le> t0 + sigValidity"
  proof -
    have "good_sig swept t s" using good ck v(2) by (simp add: good_cache_def)
    then show thesis using that unfolding good_sig_def by blast
  qed
  obtain d where d: "rr_data s = RRSIG d" "int (Inception d) = t0 - sigInceptionOffset"
      "int (Expiration d) = t0 + sigValidity"
    using made_at_times[OF t0(2)] by blast
  have "ValidityPeriod L s (t' + sigCacheRefreshThreshold)" using keep d(1) by simp
  moreover have "0 \<le> t' + sigCacheRefreshThreshold \<and> t' + sigCacheRefreshThreshold < 2 ^ 32
      \<and> \<bar>int (Inception d) - (t' + sigCacheRefreshThreshold)\<bar> < 2 ^ 31
      \<and> \<bar>int (Expiration d) - (t' + sigCacheRefreshThreshold)\<bar> < 2 ^ 31"
    using d t0 clk by (auto simp: clock_ok_def sig_times)
  ultimately have "t' + sigCacheRefreshThreshold \<le> int (Expiration d)"
    using L d(1) unfolding sign_ok_def by blast
  then show "good_sig t' t' s"
    using t0 d clk unfolding good_sig_def clock_ok_def by (intro exI[of _ t0]) simp
qed

interpretation plugin: kept_by_steps "plugin_step D L n" "plugin_inv L" for D L n
proof
  fix s s' assume step: "plugin_step D L n s s'" and inv: "plugin_inv L s"
  obtain t swept c where s: "s = (t, swept, c)" by (cases s)
  show "plugin_inv L s'"
    unfolding plugin_inv_def
  proof
    assume L: "sign_ok L"
    then have good: "swept \<le> t" "good_cache swept t (Some c)" using inv by (auto simp: plugin_inv_def s)
    show "case s' of (t, swept, c) \<Rightarrow> swept \<le> t \<and> good_cache swept t (Some c)"
      using step unfolding s
    proof (rule plugin_stepE)
      fix t' q r c'
      assume s': "s' = (t', swept, c')" and clk: "clock_ok t swept t'"
        and serve: "ServeDNS D L n q t' (Some c) = (r, Some c')"
      have "t \<le> t'" using clk by (simp add: clock_ok_def)
      then show ?thesis
        using ServeDNS_cache[OF L clk _ good_cache_later[OF good(2)] serve] good(1) s' by simp
    next
      fix t' assume "s' = (t', t', cleanSigCache L c t')" "clock_ok t swept t'"
      then show ?thesis using janitor_good[OF L _ good] by simp
    qed
  qed
qed

lemma rendered_not_sig: "r \<in> set (dedupedNSEC3 c ns ttl) \<Longrightarrow> \<exists>d. rr_data r = NSEC3 d"
  by (auto simp: dedupedNSEC3_def renderNSEC3_def)

lemma proofs_not_sigs:
  "r \<in> set (proofForNXDOMAIN D c q ttl) \<or> r \<in> set (proofForNODATA D c q ttl) \<or> r \<in> set (proofForDelegation D c q ttl)
   \<Longrightarrow> \<exists>d. rr_data r = NSEC3 d"
  by (auto simp: proofForNXDOMAIN_def proofForNODATA_def proofForDelegation_def rendered_not_sig
      split: if_splits option.splits prod.splits)

lemma wildcard_step_not_sigs:
  "r' \<in> set (snd (snd (wildcard_step D c ttl r st))) \<Longrightarrow> r' \<in> set (snd (snd st)) \<or> (\<exists>d. rr_data r' = NSEC3 d)"
  by (cases st) (auto simp: wildcard_step_def renderNSEC3_def Let_def split: option.splits if_splits)

lemma fold_wildcard_not_sigs:
  "r \<in> set (snd (snd (fold (wildcard_step D c ttl) rs ({}, {}, [])))) \<Longrightarrow> \<exists>d. rr_data r = NSEC3 d"
  by (induction rs rule: rev_induct) (auto dest: wildcard_step_not_sigs)

lemma attached_not_sigs:
  assumes "r \<in> set (Ns (attachWildcardProof D chn (attachDenialProof D ty chn q t m)))" "rr_data r = RRSIG d"
  shows "r \<in> set (Ns m)"
proof -
  have "r \<in> set (Ns m')" if "r \<in> set (Ns (attachWildcardProof D chn m'))" for m'
    using that fold_wildcard_not_sigs assms(2)
    by (auto simp: attachWildcardProof_def split: option.splits if_splits) (metis rdata.distinct(7))
  then have "r \<in> set (Ns (attachDenialProof D ty chn q t m))" using assms(1) .
  then show ?thesis using proofs_not_sigs assms(2)
    by (auto simp: attachDenialProof_def Let_def split: option.splits if_splits response_type.splits)
       (metis rdata.distinct(7))+
qed


section \<open>Every set is signed\<close>

definition sigs_of ::
    "dns_lib \<Rightarrow> sign_lib \<Rightarrow> nsec3sign \<Rightarrow> string \<Rightarrow> nat \<Rightarrow> nat \<Rightarrow> rr list \<Rightarrow> rr list" where
  "sigs_of D L n sn i e rrs = fst (signRRset D L n sn i e rrs None)"

text \<open>The cache answers the sets of \<open>U\<close> with signatures made for them.\<close>

definition own_cache ::
    "dns_lib \<Rightarrow> sign_lib \<Rightarrow> nsec3sign \<Rightarrow> string \<Rightarrow> rr list set \<Rightarrow> sig_cache option \<Rightarrow> bool" where
  "own_cache D L n sn U cache \<longleftrightarrow>
     (\<forall>c. cache = Some c \<longrightarrow>
        (\<forall>rrs\<in>U. \<forall>v. c (rrsetCacheKey L rrs) = Some v \<longrightarrow> (\<exists>i e. v = sigs_of D L n sn i e rrs)))"

lemma signRRset_own:
  assumes "own_cache D L n sn U cache" "inj_on (rrsetCacheKey L) U" "rrs \<in> U"
    and "signRRset D L n sn i e rrs cache = (sigs, cache')"
  shows "own_cache D L n sn U cache' \<and> (\<exists>i e. sigs = sigs_of D L n sn i e rrs)"
proof (cases rule: signRRset_cases[of D L n sn i e rrs cache])
  case none
  then show ?thesis using assms(1,4)
    by (auto simp: sigs_of_def signRRset_def Let_def intro!: exI[of _ i] exI[of _ e])
next
  case (hit v c)
  then show ?thesis using assms(1,3,4) by (auto simp: own_cache_def)
next
  case (miss sg)
  then have sg: "sigs = sg" "sg = sigs_of D L n sn i e rrs"
    and cache': "cache' = map_option (\<lambda>c. if sg \<noteq> [] then cache_add L c (rrsetCacheKey L rrs) sg else c) cache"
    using assms(4) by (simp_all add: sigs_of_def)
  have "own_cache D L n sn U cache'"
    unfolding own_cache_def
  proof (intro allI impI ballI)
    fix c' rrs' v assume c': "cache' = Some c'" "rrs' \<in> U" "c' (rrsetCacheKey L rrs') = Some v"
    then obtain c where c: "cache = Some c" "c' = (if sg \<noteq> [] then cache_add L c (rrsetCacheKey L rrs) sg else c)"
      using cache' by auto
    have same: "rrs' = rrs" if "rrsetCacheKey L rrs' = rrsetCacheKey L rrs"
      using inj_onD[OF assms(2) that c'(2) assms(3)] .
    show "\<exists>i e. v = sigs_of D L n sn i e rrs'"
      using c' c same sg assms(1) unfolding own_cache_def cache_add_def
      by (cases "rrsetCacheKey L rrs' = rrsetCacheKey L rrs") (auto split: if_splits)
  qed
  then show ?thesis using sg by blast
qed

lemma appendRRSIGs_own:
  assumes "own_cache D L n sn U cache" "inj_on (rrsetCacheKey L) U"
    and "snd ` set (walk (groupByRRset rrs)) \<subseteq> U"
    and "appendRRSIGs D L n walk sn i e rrs cache = (out, cache')"
  shows "own_cache D L n sn U cache' \<and> (\<exists>sigs. out = rrs @ sigs)
    \<and> (\<forall>g\<in>set (walk (groupByRRset rrs)). \<exists>i e. set (sigs_of D L n sn i e (snd g)) \<subseteq> set out)"
proof -
  let ?f = "\<lambda>(k, rrset) (out, c). case signRRset D L n sn i e rrset c of (sigs, c') \<Rightarrow> (out @ sigs, c')"
  have "fold ?f groups (out0, c0) = (out, c1) \<Longrightarrow> own_cache D L n sn U c0 \<Longrightarrow> snd ` set groups \<subseteq> U \<Longrightarrow>
     own_cache D L n sn U c1 \<and> (\<exists>sigs. out = out0 @ sigs)
     \<and> (\<forall>g\<in>set groups. \<exists>i e. set (sigs_of D L n sn i e (snd g)) \<subseteq> set out)"
    for groups out0 c0 out c1
  proof (induction groups arbitrary: out0 c0)
    case (Cons g groups)
    obtain k rrset where g: "g = (k, rrset)" by (cases g)
    obtain sigs c' where sg: "signRRset D L n sn i e rrset c0 = (sigs, c')" by fastforce
    have "rrset \<in> U" using Cons.prems(3) g by simp
    from signRRset_own[OF Cons.prems(2) assms(2) this sg]
    have own: "own_cache D L n sn U c'" "\<exists>i e. sigs = sigs_of D L n sn i e rrset" by auto
    have "fold ?f groups (out0 @ sigs, c') = (out, c1)" using Cons.prems(1) by (simp add: g sg)
    from Cons.IH[OF this own(1)] Cons.prems(3) obtain rest where
      "own_cache D L n sn U c1" "out = out0 @ sigs @ rest"
      "\<forall>g\<in>set groups. \<exists>i e. set (sigs_of D L n sn i e (snd g)) \<subseteq> set out" by auto
    then show ?case using own(2) g by auto
  qed simp
  from this[OF assms(4)[unfolded appendRRSIGs_def] assms(1,3)] show ?thesis .
qed

text \<open>One signature by \<open>k\<close> for the set of \<open>r\<close>.\<close>

definition signs :: "signingKey \<Rightarrow> string \<Rightarrow> rr \<Rightarrow> rr \<Rightarrow> bool" where
  "signs k sn r s \<longleftrightarrow>
     (\<exists>d. rr_data s = RRSIG d \<and> TypeCovered d = Rrtype r \<and> SigKeyTag d = KeyTag k \<and> SignerName d = sn)
     \<and> to_lower (rr_name s) = to_lower (rr_name r)"

lemma signOne_data:
  assumes "sign_ok L" "is_signer k" "\<forall>tmpl rrs. \<exists>s. Sign L k tmpl rrs = Inr s" "rrs \<noteq> []"
  obtains s d where "signOne L rrs k sn i e = Inr s" "rr_data s = RRSIG d" "TypeCovered d = Rrtype (hd rrs)"
    "SigKeyTag d = KeyTag k" "SignerName d = sn" "rr_name s = rr_name (hd rrs)"
proof -
  let ?td = "\<lparr>TypeCovered = Rrtype (hd rrs), Algorithm = dk_algorithm (Public k), Labels = 0,
     OrigTtl = Ttl (hd rrs), Expiration = e, Inception = i, SigKeyTag = KeyTag k, SignerName = sn, Signature = []\<rparr>"
  let ?tmpl = "\<lparr>rr_name = rr_name (hd rrs), Rrtype = TypeRRSIG, Class = Class (hd rrs), Ttl = Ttl (hd rrs),
     rr_data = RRSIG ?td\<rparr>"
  obtain s where s: "Sign L k ?tmpl rrs = Inr s" using assms(3) by blast
  moreover have "rr_data ?tmpl = RRSIG ?td" by simp
  ultimately obtain d where "rr_data s = RRSIG d" "SigKeyTag d = SigKeyTag ?td" "SignerName d = SignerName ?td"
      "TypeCovered d = Rrtype (hd rrs)" "rr_name s = rr_name (hd rrs)"
    using assms(1,4) unfolding sign_ok_def by blast
  moreover have "signOne L rrs k sn i e = Inr s" using s assms(2) by (simp add: signOne_def Let_def)
  ultimately show thesis by (intro that[of s d]) simp_all
qed

lemma concat_map_Inr:
  "k \<in> set ks \<Longrightarrow> f k = Inr s \<Longrightarrow>
   g s \<in> set (concat (map (\<lambda>k. case f k of Inl _ \<Rightarrow> [] | Inr s \<Rightarrow> [g s]) ks))"
  by (auto intro!: bexI[of _ k])

lemma sigs_of_signs:
  assumes "sign_ok L" "rrs \<noteq> []" "k \<in> set (signingKeysFor (Keys n) (Rrtype (hd rrs)))"
    and "is_signer k" "\<forall>tmpl rrs. \<exists>s. Sign L k tmpl rrs = Inr s" "rr_name (hd rrs) \<noteq> []"
  shows "\<exists>s\<in>set (sigs_of D L n sn i e rrs). signs k sn (hd rrs) s"
proof -
  let ?owner = "rr_name (hd rrs)"
  let ?wc = "case Chain n of None \<Rightarrow> [] | Some c \<Rightarrow> wildcardSource D c ?owner"
  let ?rrs = "if ?wc \<noteq> [] then wildcardOwnerClone rrs ?wc else rrs"
  have ne: "?rrs \<noteq> []" using assms(2) by (simp add: wildcardOwnerClone_def)
  obtain s d where s: "signOne L ?rrs k sn i e = Inr s" "rr_data s = RRSIG d" "TypeCovered d = Rrtype (hd ?rrs)"
      "SigKeyTag d = KeyTag k" "SignerName d = sn" "rr_name s = rr_name (hd ?rrs)"
    using signOne_data[OF assms(1,4,5) ne] .
  let ?s = "if ?wc \<noteq> [] \<and> ?owner \<noteq> [] then s\<lparr>rr_name := ?owner\<rparr> else s"
  have "Rrtype (hd ?rrs) = Rrtype (hd rrs)"
    using assms(2) by (cases rrs) (auto simp: wildcardOwnerClone_def)
  then have "signs k sn (hd rrs) ?s"
    using s assms(6) by (auto simp: signs_def wildcardOwnerClone_def)
  moreover have "sigs_of D L n sn i e rrs = concat (map (\<lambda>k. case signOne L ?rrs k sn i e of
      Inl _ \<Rightarrow> [] | Inr s \<Rightarrow> [if ?wc \<noteq> [] \<and> ?owner \<noteq> [] then s\<lparr>rr_name := ?owner\<rparr> else s])
      (signingKeysFor (Keys n) (Rrtype (hd rrs))))"
  proof -
    have "signingKeysFor (Keys n) (Rrtype (hd rrs)) \<noteq> []" using assms(3) by auto
    then show ?thesis using assms(2) unfolding sigs_of_def signRRset_def Let_def by simp
  qed
  then have "?s \<in> set (sigs_of D L n sn i e rrs)"
    using concat_map_Inr[where f = "\<lambda>k. signOne L ?rrs k sn i e", OF assms(3) s(1),
        where g = "\<lambda>s. if ?wc \<noteq> [] \<and> ?owner \<noteq> [] then s\<lparr>rr_name := ?owner\<rparr> else s"]
    by (simp only:)
  ultimately show ?thesis by blast
qed

lemma groupByRRset_mem:
  assumes "r \<in> set rrs" "signable r"
  shows "\<exists>g\<in>set (groupByRRset rrs). r \<in> set (snd g) \<and> (\<forall>x\<in>set (snd g). rrset_key x = rrset_key r \<and> x \<in> set rrs)"
proof (intro bexI conjI)
  let ?g = "(rrset_key r, filter (\<lambda>x. signable x \<and> rrset_key x = rrset_key r) rrs)"
  have "rrset_key r \<in> set (remdups (map rrset_key (filter signable rrs)))" using assms by simp
  then show "?g \<in> set (groupByRRset rrs)" 
    unfolding groupByRRset_def set_map by (intro image_eqI[where x = "rrset_key r"] refl)
  show "r \<in> set (snd ?g)" "\<forall>x\<in>set (snd ?g). rrset_key x = rrset_key r \<and> x \<in> set rrs" using assms by simp_all
qed

lemma section_signed:
  assumes L: "sign_ok L" "own_cache D L n sn U cache" "inj_on (rrsetCacheKey L) U"
    and walk: "set (walk (groupByRRset rrs)) = set (groupByRRset rrs)" "snd ` set (groupByRRset rrs) \<subseteq> U"
    and out: "appendRRSIGs D L n walk sn i e rrs cache = (out, cache')"
    and r: "r \<in> set rrs" "signable r" "\<forall>x\<in>set rrs. rr_name x \<noteq> []"
    and k: "k \<in> set (signingKeysFor (Keys n) (Rrtype r))" "is_signer k" "\<forall>tmpl rrs. \<exists>s. Sign L k tmpl rrs = Inr s"
  shows "\<exists>s\<in>set out. signs k sn r s"
proof -
  obtain g where g: "g \<in> set (groupByRRset rrs)" "r \<in> set (snd g)"
      "\<forall>x\<in>set (snd g). rrset_key x = rrset_key r \<and> x \<in> set rrs"
    using groupByRRset_mem[OF r(1,2)] by blast
  from g(2) have hd: "hd (snd g) \<in> set (snd g)" "snd g \<noteq> []" by (cases "snd g"; simp)+
  then have key: "rrset_key (hd (snd g)) = rrset_key r" "rr_name (hd (snd g)) \<noteq> []" using g(3) r(3) by blast+
  obtain i' e' where "set (sigs_of D L n sn i' e' (snd g)) \<subseteq> set out"
    using appendRRSIGs_own[OF L(2,3) _ out] walk g(1) by blast
  moreover have "\<exists>s\<in>set (sigs_of D L n sn i' e' (snd g)). signs k sn (hd (snd g)) s"
    using key k by (intro sigs_of_signs[OF L(1) hd(2)]) (simp_all add: rrset_key_def)
  moreover have "signs k sn (hd (snd g)) s \<Longrightarrow> signs k sn r s" for s
    using key(1) by (auto simp: signs_def rrset_key_def)
  ultimately show ?thesis by blast
qed


section \<open>An example library\<close>

definition plain_sign :: sign_lib where
  "plain_sign =
     \<lparr>read_dnskey = (\<lambda>p. Inr \<lparr>Flags = (if p = ''ksk.key'' then 257 else 256), dk_algorithm = 13, dk_tag = length p\<rparr>),
      read_private = (\<lambda>dk p. Inr (p, True)),
      Sign = (\<lambda>k tmpl rrs. case rr_data tmpl of
                RRSIG d \<Rightarrow> Inr (tmpl\<lparr>rr_name := rr_name (hd rrs), Rrtype := TypeRRSIG, Class := Class (hd rrs),
                  rr_data := RRSIG (d\<lparr>TypeCovered := Rrtype (hd rrs), Labels := 3,
                    OrigTtl := (if OrigTtl d = 0 then Ttl (hd rrs) else OrigTtl d), Signature := ''sig''\<rparr>)\<rparr>)
              | _ \<Rightarrow> Inr tmpl),
      ValidityPeriod = (\<lambda>s t. case rr_data s of
                RRSIG d \<Rightarrow> int (Inception d) \<le> t \<and> t \<le> int (Expiration d) | _ \<Rightarrow> False),
      rr_text = rr_name, evicts = (\<lambda>c k. {})\<rparr>"

lemma plain_sign_ok: "sign_ok plain_sign"
  by (auto simp: sign_ok_def plain_sign_def split: rdata.splits)

definition example_plugin :: nsec3sign where
  "example_plugin =
     \<lparr>Zones = [''example.test.''], KeyFiles = [''ksk'', ''zsk''], ZoneFile = [],
      Keys = (case loadKeys plain_sign [''ksk'', ''zsk''] of Inr ks \<Rightarrow> ks | Inl _ \<Rightarrow> []), Chain = None,
      salt = [], iterations = 0, optOut = False, CacheCapacity = 10\<rparr>"

definition example_answer :: msg where
  "example_answer = \<lparr>Answer = [example_rr ''www.example.test.'' 1], Ns = [], Extra = [], Rcode = 0\<rparr>"

definition example_query :: query_run where
  "example_query =
     \<lparr>q_name = ''www.example.test.'', zone_match = ''example.test.'', do_bit = True, next_code = 0,
      next_error = None, next_msg = Some example_answer, Typify = (\<lambda>m t. OtherResponse), walk_sets = (\<lambda>gs. gs)\<rparr>"

section \<open>Properties\<close>

text \<open>C16. No signature goes out near its expiry.  Take any run of queries and janitor passes from an
  empty cache, in which the clock never goes back, is never more than eight hours past the janitor's
  last pass, and stays in the 32 bits of the wire format (from an hour after the epoch to eight days
  before its end).  Then every signature the plugin adds to the answer or authority section
  of a response, fresh or cached, is valid at that time and for another forty hours.\<close>

theorem served_signatures_fresh:
  assumes "sign_ok L" "(plugin_step D L n)\<^sup>*\<^sup>* (t0, t0, \<lambda>_. None) (t, swept, c)" "clock_ok t swept t'"
    and "ServeDNS D L n q t' (Some c) = ((code, err, Some m'), cache')" "next_msg q = Some m"
    and "s \<in> set (Answer m' @ Ns m') - set (Answer m @ Ns m)" "rr_data s = RRSIG d"
  shows "int (Inception d) \<le> t' \<and> t' + 40 * 60 * 60 \<le> int (Expiration d)"
proof -
  have "plugin_inv L (t0, t0, \<lambda>_. None)" by (simp add: plugin_inv_def good_cache_def)
  then have "plugin_inv L (t, swept, c)" by (rule plugin.run_keeps[OF assms(2)])
  then have inv: "swept \<le> t" "good_cache swept t (Some c)" using assms(1) by (simp_all add: plugin_inv_def)
  have "t \<le> t'" using assms(3) by (simp add: clock_ok_def)
  then have le: "swept \<le> t'" and good: "good_cache swept t' (Some c)"
    using inv good_cache_later by (simp, blast)
  have "good_sig swept t' s"
    using ServeDNS_good[OF assms(1,3) le good assms(4)] assms(5-7) attached_not_sigs by fastforce
  then obtain t1 where t1: "t1 \<le> t'" "made_at t1 s" "swept + sigCacheRefreshThreshold \<le> t1 + sigValidity"
    unfolding good_sig_def by blast
  then show ?thesis using made_at_times[OF t1(2)] assms(3,7) by (auto simp: clock_ok_def sig_times)
qed

lemma served_signatures_fresh_witness:
  "\<exists>m' s d. snd (snd (fst (ServeDNS plain_dns plain_sign example_plugin example_query 100000 (Some (\<lambda>_. None))))) = Some m'
     \<and> s \<in> set (Answer m') \<and> rr_data s = RRSIG d \<and> int (Inception d) \<le> 100000 \<and> 100000 + 40 * 60 * 60 \<le> int (Expiration d)"
proof -
  let ?r = "ServeDNS plain_dns plain_sign example_plugin example_query 100000 (Some (\<lambda>_. None))"
  have "case ?r of ((code, err, Some m'), _) \<Rightarrow> (case Answer m' of [a, s] \<Rightarrow>
        s \<notin> set (Answer example_answer @ Ns example_answer) \<and> (case rr_data s of RRSIG d \<Rightarrow> True | _ \<Rightarrow> False)
      | _ \<Rightarrow> False) | _ \<Rightarrow> False"
    by code_simp
  then obtain code err m' cache' a s d where r: "?r = ((code, err, Some m'), cache')" "Answer m' = [a, s]"
      "s \<notin> set (Answer example_answer @ Ns example_answer)" "rr_data s = RRSIG d"
    by (auto split: prod.splits option.splits list.splits rdata.splits)
  have "clock_ok 100000 100000 100000" by (simp add: clock_ok_def sig_times)
  moreover have "next_msg example_query = Some example_answer" by (simp add: example_query_def)
  moreover have "s \<in> set (Answer m' @ Ns m') - set (Answer example_answer @ Ns example_answer)"
    using r(2,3) by simp
  ultimately have "int (Inception d) \<le> 100000 \<and> 100000 + 40 * 60 * 60 \<le> int (Expiration d)"
    using served_signatures_fresh[OF plain_sign_ok rtranclp.rtrancl_refl _ r(1) _ _ r(4)] by blast
  then show ?thesis using r(1,2,4) by (intro exI[of _ m'] exI[of _ s] exI[of _ d]) simp
qed

text \<open>Every record set of a response is signed: whatever order the sets are taken in and whatever
  the cache holds of them, each record of the answer and authority sections is covered by a signature
  of its name and type by every key that signs its type.\<close>

theorem every_set_signed:
  assumes "sign_ok L" "own_cache D L n sn U cache" "inj_on (rrsetCacheKey L) U"
    and "signMessage D L n walk sn t m cache = (m', cache')" "\<forall>gs. set (walk gs) = set gs"
    and "snd ` set (groupByRRset (Answer m)) \<union> snd ` set (groupByRRset (Ns m)) \<subseteq> U"
    and "\<forall>r\<in>set (Answer m) \<union> set (Ns m). rr_name r \<noteq> []"
    and keys: "\<forall>k\<in>set (Keys n). is_signer k \<and> (\<forall>tmpl rrs. \<exists>s. Sign L k tmpl rrs = Inr s)"
    and "signable r" "k \<in> set (signingKeysFor (Keys n) (Rrtype r))"
  shows "own_cache D L n sn U cache'
     \<and> (r \<in> set (Answer m) \<longrightarrow> (\<exists>s\<in>set (Answer m'). signs k sn r s))
     \<and> (r \<in> set (Ns m) \<longrightarrow> (\<exists>s\<in>set (Ns m'). signs k sn r s))"
proof -
  let ?sign = "\<lambda>rrs c. appendRRSIGs D L n walk sn (uint32 (t - sigInceptionOffset)) (uint32 (t + sigValidity)) rrs c"
  have k: "k \<in> set (Keys n)"
    using assms(10) by (auto simp: signingKeysFor_def KSKs_def ZSKs_def split: if_splits)
  then have kk: "is_signer k" "\<forall>tmpl rrs. \<exists>s. Sign L k tmpl rrs = Inr s" using keys by blast+
  obtain a c1 where a: "?sign (Answer m) cache = (a, c1)" by fastforce
  obtain b c2 where b: "?sign (Ns m) c1 = (b, c2)" by fastforce
  have "Keys n \<noteq> []" using k by auto
  then have m': "m' = m\<lparr>Answer := a, Ns := b\<rparr>" "cache' = c2"
    using assms(4) a b by (simp_all add: signMessage_def Let_def)
  have w: "set (walk (groupByRRset rrs)) = set (groupByRRset rrs)" for rrs using assms(5) by blast
  have U: "snd ` set (groupByRRset (Answer m)) \<subseteq> U" "snd ` set (groupByRRset (Ns m)) \<subseteq> U"
    using assms(6) by simp_all
  have own1: "own_cache D L n sn U c1" using appendRRSIGs_own[OF assms(2,3) _ a] w U(1) by simp
  moreover have "own_cache D L n sn U c2" using appendRRSIGs_own[OF own1 assms(3) _ b] w U(2) by simp
  moreover have "r \<in> set (Answer m) \<longrightarrow> (\<exists>s\<in>set a. signs k sn r s)"
    using section_signed[OF assms(1-3) w U(1) a _ assms(9) _ assms(10) kk] assms(7) by blast
  moreover have "r \<in> set (Ns m) \<longrightarrow> (\<exists>s\<in>set b. signs k sn r s)"
    using section_signed[OF assms(1) own1 assms(3) w U(2) b _ assms(9) _ assms(10) kk] assms(7) by blast
  ultimately show ?thesis by (simp add: m')
qed

lemma every_set_signed_witness:
  "\<exists>s\<in>set (Answer (fst (signMessage plain_dns plain_sign example_plugin (\<lambda>gs. gs) ''example.test.'' 100000
       example_answer (Some (\<lambda>_. None))))).
     signs \<lparr>KeyTag = 7, IsKSK = False, Public = \<lparr>Flags = 256, dk_algorithm = 13, dk_tag = 7\<rparr>,
       Private = ''zsk.private'', is_signer = True\<rparr> ''example.test.'' (example_rr ''www.example.test.'' 1) s"
proof -
  let ?k = "\<lparr>KeyTag = 7, IsKSK = False, Public = \<lparr>Flags = 256, dk_algorithm = 13, dk_tag = 7\<rparr>,
       Private = ''zsk.private'', is_signer = True\<rparr>" and ?r = "example_rr ''www.example.test.'' 1"
  let ?m = "signMessage plain_dns plain_sign example_plugin (\<lambda>gs. gs) ''example.test.'' 100000
       example_answer (Some (\<lambda>_. None))"
  have 1: "?m = (fst ?m, snd ?m)" by simp
  have 2: "own_cache plain_dns plain_sign example_plugin ''example.test.'' {[?r]} (Some (\<lambda>_. None))"
    by (simp add: own_cache_def)
  have "snd ` set (groupByRRset (Answer example_answer)) \<union> snd ` set (groupByRRset (Ns example_answer)) \<subseteq> {[?r]}"
    "\<forall>r\<in>set (Answer example_answer) \<union> set (Ns example_answer). rr_name r \<noteq> []"
    "\<forall>k\<in>set (Keys example_plugin). is_signer k" "signable ?r"
    "?k \<in> set (signingKeysFor (Keys example_plugin) (Rrtype ?r))" "?r \<in> set (Answer example_answer)"
    by code_simp+
  moreover have "\<exists>s. Sign plain_sign k tmpl rrs = Inr s" for k tmpl rrs
    by (simp add: plain_sign_def split: rdata.split)
  ultimately show ?thesis
    using every_set_signed[OF plain_sign_ok 2 _ 1, of ?r ?k] by simp
qed

lemma parseDirective_bounds:
  assumes "parseDirective d n = Inr n'"
    and "iterations n \<le> 150 \<and> even (length (salt n)) \<and> length (salt n) \<le> 64 \<and> 0 < CacheCapacity n"
  shows "iterations n' \<le> 150 \<and> even (length (salt n')) \<and> length (salt n') \<le> 64 \<and> 0 < CacheCapacity n'"
  using assms
  by (auto simp: parseDirective_def parseKey_def parseZone_def parseSalt_def parseIterations_def parseOptOut_def
      parseCacheCapacity_def hex_decoded_def nsec3MaxSaltBytes_def Let_def
      split: list.splits if_splits option.splits prod.splits)

lemma parseDirectives_bounds:
  "parseDirectives ds n = Inr n' \<Longrightarrow>
   iterations n \<le> 150 \<and> even (length (salt n)) \<and> length (salt n) \<le> 64 \<and> 0 < CacheCapacity n \<Longrightarrow>
   iterations n' \<le> 150 \<and> even (length (salt n')) \<and> length (salt n') \<le> 64 \<and> 0 < CacheCapacity n'"
proof (induction ds arbitrary: n)
  case (Cons d ds)
  then obtain n1 where "parseDirective d n = Inr n1" "parseDirectives ds n1 = Inr n'"
    by (auto split: sum.splits)
  then show ?case using Cons.IH parseDirective_bounds Cons.prems(2) by blast
qed simp

lemma parse_blocks_bounds:
  "parse_blocks bs n = Inr n' \<Longrightarrow>
   iterations n \<le> 150 \<and> even (length (salt n)) \<and> length (salt n) \<le> 64 \<and> 0 < CacheCapacity n \<Longrightarrow>
   iterations n' \<le> 150 \<and> even (length (salt n')) \<and> length (salt n') \<le> 64 \<and> 0 < CacheCapacity n'"
proof (induction bs arbitrary: n)
  case (Cons b bs)
  obtain zones ds where b: "b = (zones, ds)" by (cases b)
  then obtain n1 where "parseDirectives ds (n\<lparr>Zones := zones\<rparr>) = Inr n1" "parse_blocks bs n1 = Inr n'"
    using Cons.prems(1) by (auto split: sum.splits)
  then show ?case using Cons.IH parseDirectives_bounds[of ds "n\<lparr>Zones := zones\<rparr>" n1] Cons.prems(2) by simp
qed simp

text \<open>A configuration that is accepted is in bounds: the NSEC3 records of its chain announce the
  true length of the salt, which never wraps around the byte of the wire format, and at most 150
  iterations.\<close>

theorem accepted_config_bounds:
  assumes "setup_plugin D L ord ord' zone_files blocks = Inr (n, cache)" "Chain n = Some c"
    and "rr_data (renderNSEC3 c ttl node) = NSEC3 d"
  shows "n3_salt d = salt n \<and> 2 * n3_salt_length d = length (salt n) \<and> n3_salt_length d \<le> 32
     \<and> n3_iterations d = iterations n \<and> iterations n \<le> 150 \<and> 0 < CacheCapacity n"
proof -
  obtain n0 ks c0 where n0: "parse blocks = Inr n0"
      "loadChain D ord ord' zone_files (ZoneFile n0) (salt n0) (iterations n0) (optOut n0) = Inr c0"
      "n = n0\<lparr>Keys := ks, Chain := c0\<rparr>"
    using assms(1) by (auto simp: setup_plugin_def split: sum.splits)
  have b: "iterations n0 \<le> 150 \<and> even (length (salt n0)) \<and> length (salt n0) \<le> 64 \<and> 0 < CacheCapacity n0"
    using parse_blocks_bounds[OF n0(1)[unfolded parse_def]] by simp
  have "Salt c = salt n0 \<and> Iterations c = iterations n0"
    using n0(2,3) assms(2) by (auto simp: loadChain_def buildChain_def split: if_splits sum.splits prod.splits)
  moreover obtain j where "length (salt n0) = 2 * j" using b by (auto elim: evenE)
  ultimately show ?thesis using n0(3) b assms(3) by (auto simp: renderNSEC3_def)
qed


lemma accepted_config_bounds_witness:
  "\<exists>c d. rr_data (renderNSEC3 c 60 \<lparr>Hash = ''h'', OwnerName = [], Types = [], OptedOut = False\<rparr>) = NSEC3 d
     \<and> n3_salt d = ''aabb'' \<and> n3_salt_length d = 2"
proof -
  let ?blocks = "[([''example.test.''], [(''zone'', [''file'', ''z'']), (''salt'', [''aabb'']), (''iterations'', [''3''])])]"
  let ?s = "setup_plugin plain_dns plain_sign (\<lambda>_. []) (\<lambda>_. []) (\<lambda>_. Inr (example_zone, None)) ?blocks"
  let ?node = "\<lparr>Hash = ''h'', OwnerName = [], Types = [], OptedOut = False\<rparr>"
  have "case ?s of Inr (n, _) \<Rightarrow> salt n = ''aabb'' \<and> (case Chain n of Some c \<Rightarrow> True | None \<Rightarrow> False) | Inl _ \<Rightarrow> False"
    by code_simp
  then obtain n cache c where s: "?s = Inr (n, cache)" "salt n = ''aabb''" "Chain n = Some c"
    by (auto split: sum.splits prod.splits option.splits)
  obtain d where d: "rr_data (renderNSEC3 c 60 ?node) = NSEC3 d" by (simp add: renderNSEC3_def)
  from accepted_config_bounds[OF s(1,3) d] s(2) d show ?thesis by (intro exI[of _ c] exI[of _ d]) simp
qed

end
