(* ===== verification/Json.thy ===== *)
theory Json
  imports Prelude Complex_Main
begin

text \<open>
  JSON values as \<^verbatim>\<open>encoding/json\<close> hands them to the program.  An object is its list
  of members in text order, where a later member replaces an earlier one of the same
  key; a number literal with neither fraction nor exponent is \<open>JInt\<close>.  The decoders
  into a pointer are those of \<^verbatim>\<open>json.Unmarshal\<close> with its error dropped, which is how
  every partial update calls it: \<^verbatim>\<open>null\<close> leaves the pointer nil, and a value of another
  type leaves it pointing to the zero value.
\<close>

datatype json =
    JNull
  | JBool bool
  | JInt int
  | JReal rat
  | JStr string
  | JArr "json list"
  | JObj "(string \<times> json) list"

type_synonym json_object = "(string \<times> json) list"

definition member :: "json_object \<Rightarrow> string \<Rightarrow> json option" where
  "member kvs k = map_of (rev kvs) k"

text \<open>\<^verbatim>\<open>json.Unmarshal\<close> into \<^verbatim>\<open>map[string]json.RawMessage\<close>.\<close>

definition raw_map :: "json \<Rightarrow> json_object option" where
  "raw_map j = (case j of JObj kvs \<Rightarrow> Some kvs | JNull \<Rightarrow> Some [] | _ \<Rightarrow> None)"

definition into_string :: "json \<Rightarrow> string option" where
  "into_string j = (case j of JNull \<Rightarrow> None | JStr s \<Rightarrow> Some s | _ \<Rightarrow> Some [])"

definition into_bool :: "json \<Rightarrow> bool option" where
  "into_bool j = (case j of JNull \<Rightarrow> None | JBool b \<Rightarrow> Some b | _ \<Rightarrow> Some False)"

definition into_int32 :: "json \<Rightarrow> int option" where
  "into_int32 j =
     (case j of
        JNull \<Rightarrow> None
      | JInt n \<Rightarrow> Some (if - (2 ^ 31) \<le> n \<and> n < 2 ^ 31 then n else 0)
      | _ \<Rightarrow> Some 0)"

definition into_uuid :: "(string \<Rightarrow> uuid option) \<Rightarrow> json \<Rightarrow> uuid option" where
  "into_uuid parse j =
     (case j of
        JNull \<Rightarrow> None
      | JStr s \<Rightarrow> Some (case parse s of None \<Rightarrow> uuid_nil | Some i \<Rightarrow> i)
      | _ \<Rightarrow> Some uuid_nil)"

text \<open>A key of a partial update, decoded: nothing when it is absent.\<close>

definition field :: "json_object \<Rightarrow> string \<Rightarrow> (json \<Rightarrow> 'a option) \<Rightarrow> 'a option" where
  "field kvs k into = Option.bind (member kvs k) into"

definition has :: "json_object \<Rightarrow> string \<Rightarrow> bool" where
  "has kvs k \<longleftrightarrow> member kvs k \<noteq> None"

text \<open>A nullable column: the flag says that the key was present.\<close>

definition patched :: "json_object \<Rightarrow> string \<Rightarrow> (json \<Rightarrow> 'a option) \<Rightarrow> 'a option \<Rightarrow> 'a option" where
  "patched kvs k into old = (if has kvs k then field kvs k into else old)"

text \<open>A column that is not nullable: \<^verbatim>\<open>COALESCE\<close>.\<close>

definition coalesced :: "json_object \<Rightarrow> string \<Rightarrow> (json \<Rightarrow> 'a option) \<Rightarrow> 'a \<Rightarrow> 'a" where
  "coalesced kvs k into old = (case field kvs k into of None \<Rightarrow> old | Some x \<Rightarrow> x)"

lemma member_absent [simp]: "member [] k = None"
  by (simp add: member_def)

lemma patched_absent: "member kvs k = None \<Longrightarrow> patched kvs k into old = old"
  by (simp add: patched_def has_def)

lemma coalesced_absent: "member kvs k = None \<Longrightarrow> coalesced kvs k into old = old"
  by (simp add: coalesced_def field_def)

text \<open>\<^verbatim>\<open>json.Unmarshal\<close> into \<^verbatim>\<open>[]map[string]any\<close>; a null element is a nil map.\<close>

fun object_elems :: "json list \<Rightarrow> json_object list option" where
  "object_elems [] = Some []"
| "object_elems (j # js) =
     (case raw_map j of
        None \<Rightarrow> None
      | Some kvs \<Rightarrow> map_option (\<lambda>xs. kvs # xs) (object_elems js))"

definition object_list :: "json \<Rightarrow> json_object list option" where
  "object_list j = (case j of JArr js \<Rightarrow> object_elems js | JNull \<Rightarrow> Some [] | _ \<Rightarrow> None)"

text \<open>The \<^verbatim>\<open>stringField\<close> of the packages that read JSON maps: empty unless a string.\<close>

definition stringField :: "json_object \<Rightarrow> string \<Rightarrow> string" where
  "stringField m key = (case member m key of Some (JStr s) \<Rightarrow> s | _ \<Rightarrow> [])"

end
