(* ===== verification/IpamStore.thy ===== *)
theory IpamStore
  imports Handler NetText Validators Json
begin

text \<open>
  The tables of the address plan (migrations \<^verbatim>\<open>00007_ipam.sql\<close>, \<^verbatim>\<open>00008_overlays.sql\<close>,
  \<^verbatim>\<open>00010\<close>, \<^verbatim>\<open>00052\<close>, \<^verbatim>\<open>00061\<close>, \<^verbatim>\<open>00064\<close>) and the queries of
  \<^verbatim>\<open>db/queries/mutations_ipam.sql\<close>, \<^verbatim>\<open>ipam*.sql\<close> and \<^verbatim>\<open>abac.sql\<close> on them.  A table is
  the list of its rows; a query is a function of the database that returns an error or
  a result and the database after it.  Primary keys, \<^verbatim>\<open>UNIQUE\<close> constraints, enum casts
  and the foreign keys between these tables are written out; references that lead to
  other tables (sites, assets, peers, DNS) fail through the \<open>db_fault\<close> of the
  environment, as do lost connections.  The columns \<^verbatim>\<open>created_at\<close> and \<^verbatim>\<open>updated_at\<close>
  are left out.
\<close>

section \<open>Rows\<close>

text \<open>\<^verbatim>\<open>inet\<close>: an address and a mask length; two values are equal only when both are.\<close>

type_synonym inet = "addr \<times> nat"

record fabric =
  fb_id :: uuid
  fb_name :: string
  fb_slug :: string
  fb_description :: "string option"
  fb_enclave :: "string option"
  fb_classification :: "string option"
  fb_upstreams :: "json option"
  fb_deny_networks :: "json option"
  fb_transfer_acl :: "json option"
  fb_engine :: string
  fb_is_system :: bool

record vrf =
  vrf_id :: uuid
  vrf_fabric :: uuid
  vrf_name :: string
  vrf_route_target :: "string option"
  vrf_description :: "string option"
  vrf_is_default :: bool

record vrf_bgp_peer =
  vbp_id :: uuid
  vbp_vrf :: uuid
  vbp_peer :: uuid
  vbp_family :: string
  vbp_rd :: "string option"
  vbp_enabled :: bool

record supernet_rec =
  nt_id :: uuid
  nt_fabric :: uuid
  nt_vrf :: uuid
  nt_parent :: "uuid option"
  nt_site :: "uuid option"
  nt_prefix :: prefix
  nt_name :: "string option"
  nt_description :: "string option"
  nt_purpose :: "string option"
  nt_owner :: "uuid option"

record subnet_rec =
  sb_id :: uuid
  sb_supernet :: uuid
  sb_fabric :: uuid
  sb_vrf :: uuid
  sb_site :: "uuid option"
  sb_vni :: "uuid option"
  sb_prefix :: prefix
  sb_name :: "string option"
  sb_description :: "string option"
  sb_purpose :: "string option"
  sb_vlan :: "int option"
  sb_gateway :: "inet option"

record ip_address =
  ad_id :: uuid
  ad_subnet :: uuid
  ad_asset :: "uuid option"
  ad_address :: inet
  ad_role :: string
  ad_status :: string
  ad_source :: string
  ad_dns_name :: "string option"
  ad_description :: "string option"
  ad_lease_expires :: "int option"
  ad_mac :: "string option"
  ad_duid :: "string option"

record overlay =
  ov_id :: uuid
  ov_fabric :: uuid
  ov_name :: string
  ov_kind :: string
  ov_udp_port :: int
  ov_mtu :: "int option"
  ov_underlay :: "uuid option"
  ov_description :: "string option"

record vni_rec =
  vn_id :: uuid
  vn_overlay :: uuid
  vn_vni :: int
  vn_kind :: string
  vn_name :: "string option"
  vn_description :: "string option"
  vn_vlan :: "int option"
  vn_route_target :: "string option"
  vn_vrf :: "uuid option"

record vtep_rec =
  vt_id :: uuid
  vt_overlay :: uuid
  vt_asset :: uuid
  vt_loopback :: "inet option"
  vt_role :: string
  vt_description :: "string option"

record vtep_membership =
  vm_id :: uuid
  vm_vtep :: uuid
  vm_vni :: uuid

record dhcp_server =
  ds_id :: uuid
  ds_name :: string
  ds_fabric :: uuid
  ds_kea_url :: string
  ds_username :: "string option"
  ds_password :: "string option"
  ds_enabled :: bool
  last_sync_at :: "int option"
  last_sync_status :: "string option"
  last_sync_error :: "string option"
  last_sync_lease_count :: "int option"

text \<open>Of a DHCP scope, what the reconciliation and the retention job read.\<close>

record dhcp_scope =
  sc_id :: uuid
  sc_server :: uuid
  sc_subnet :: "uuid option"
  sc_reservations :: json
  sc_deleted :: "int option"

record ipam_db =
  fabrics :: "fabric list"
  vrfs :: "vrf list"
  vrf_bgp_peers :: "vrf_bgp_peer list"
  nets :: "supernet_rec list"
  subnets :: "subnet_rec list"
  addresses :: "ip_address list"
  overlays :: "overlay list"
  vnis :: "vni_rec list"
  vteps :: "vtep_rec list"
  vtep_vnis :: "vtep_membership list"
  dhcp_servers :: "dhcp_server list"
  dhcp_scopes :: "dhcp_scope list"
  ipam_log :: "(string \<times> uuid) list"

section \<open>Environment\<close>

text \<open>A query goes by its name in \<^verbatim>\<open>db/queries\<close>.\<close>

type_synonym iquery = string

text \<open>
  What every handler needs of the outside, over the tables \<open>'s\<close> it works on: \<open>gen_id\<close> is
  \<^verbatim>\<open>gen_random_uuid()\<close> as a function of the database, \<open>parse_uuid\<close> is \<^verbatim>\<open>uuid.Parse\<close>,
  \<open>db_fault\<close> is what a query fails with for a reason outside these tables and \<open>others\<close>
  what other transactions commit before it.
\<close>

record 's db_env =
  gen_id :: "'s \<Rightarrow> uuid"
  parse_uuid :: "string \<Rightarrow> uuid option"
  db_fault :: "iquery \<Rightarrow> 's \<Rightarrow> dberr option"
  others :: "iquery \<Rightarrow> 's \<Rightarrow> 's"

text \<open>
  For the address plan, Postgres' conversions of \<^verbatim>\<open>cidr\<close> and \<^verbatim>\<open>inet\<close>
  (\<open>cidr_show\<close> is \<^verbatim>\<open>host(p) || '/' || masklen(p)\<close>, \<open>inet_host\<close> is \<^verbatim>\<open>host(a)\<close> and
  \<open>inet_show\<close> is \<^verbatim>\<open>a::text\<close>) and \<^verbatim>\<open>Error()\<close> of what the validators return.
\<close>

record ipam_env = "ipam_db db_env" +
  cidr_read :: "string \<Rightarrow> prefix option"
  cidr_show :: "prefix \<Rightarrow> string"
  inet_read :: "string \<Rightarrow> inet option"
  inet_host :: "inet \<Rightarrow> string"
  inet_show :: "inet \<Rightarrow> string"
  err_text :: "verror \<Rightarrow> string"

text \<open>A statement over tables \<open>'s\<close>.\<close>

type_synonym ('s, 'a) statement = "'s \<Rightarrow> (dberr + 'a) \<times> 's"
type_synonym 'a squery = "(ipam_db, 'a) statement"
type_synonym ('r, 'a) ihandler = "(ipam_db, 'r, 'a) web"

definition iexec :: "('s, 'z) db_env_scheme \<Rightarrow> iquery \<Rightarrow> ('s, 'a) statement \<Rightarrow> ('s, 'a) statement" where
  "iexec E Q f db =
     (let db' = others E Q db
      in case db_fault E Q db' of Some e \<Rightarrow> (Inl e, db') | None \<Rightarrow> f db')"

definition ask ::
    "('s, 'z) db_env_scheme \<Rightarrow> iquery \<Rightarrow> ('s, 'a) statement \<Rightarrow> (dberr \<Rightarrow> 'r resp) \<Rightarrow> ('s, 'r, 'a) web" where
  "ask E Q f onerr db =
     (case iexec E Q f db of (Inl e, db') \<Rightarrow> (Inl (onerr e), db') | (Inr a, db') \<Rightarrow> (Inr a, db'))"

text \<open>The next query runs when this one succeeded.\<close>

definition qbind :: "('s, 'a) statement \<Rightarrow> ('a \<Rightarrow> ('s, 'b) statement) \<Rightarrow> ('s, 'b) statement" where
  "qbind m f db = (case m db of (Inl e, db') \<Rightarrow> (Inl e, db') | (Inr a, db') \<Rightarrow> f a db')"

text \<open>\<^verbatim>\<open>:exec\<close>: no row is no error.\<close>

definition exec_only :: "('s, 'a) statement \<Rightarrow> ('s, unit) statement" where
  "exec_only f db =
     (case f db of (Inl e, db') \<Rightarrow> ((if e = NoRows then Inr () else Inl e), db') | (Inr _, db') \<Rightarrow> (Inr (), db'))"

section \<open>Rows by key\<close>

definition find_row :: "('r \<Rightarrow> uuid) \<Rightarrow> uuid \<Rightarrow> 'r list \<Rightarrow> 'r option" where
  "find_row key i rows = List.find (\<lambda>r. key r = i) rows"

definition change_row :: "('r \<Rightarrow> uuid) \<Rightarrow> uuid \<Rightarrow> ('r \<Rightarrow> 'r) \<Rightarrow> 'r list \<Rightarrow> 'r list" where
  "change_row key i f rows = map (\<lambda>r. if key r = i then f r else r) rows"

definition drop_row :: "('r \<Rightarrow> uuid) \<Rightarrow> uuid \<Rightarrow> 'r list \<Rightarrow> 'r list" where
  "drop_row key i rows = filter (\<lambda>r. key r \<noteq> i) rows"

definition fk_violation :: dberr where "fk_violation = FKViolation ''resource has dependent rows''"
definition unique_violation :: dberr where "unique_violation = UniqueViolation ''duplicate key''"
definition bad_input :: dberr where "bad_input = DbOther ''invalid input syntax''"

text \<open>An \<^verbatim>\<open>INSERT\<close> (which the primary key may refuse), an \<^verbatim>\<open>UPDATE ... WHERE id = $1 RETURNING\<close> and a \<^verbatim>\<open>DELETE ... WHERE id = $1\<close>,
  with the first constraint that is violated; \<open>put\<close> replaces the rows of the table.\<close>

definition insert_row ::
    "('s \<Rightarrow> 'r list) \<Rightarrow> ('r list \<Rightarrow> 's \<Rightarrow> 's) \<Rightarrow> ('r \<Rightarrow> uuid)
     \<Rightarrow> ('r \<Rightarrow> 's \<Rightarrow> dberr option) \<Rightarrow> 'r \<Rightarrow> ('s, 'r) statement" where
  "insert_row rows put key check r db =
     (if key r \<in> key ` set (rows db) then (Inl unique_violation, db)
      else case check r db of
        Some e \<Rightarrow> (Inl e, db)
      | None \<Rightarrow> (Inr r, put (rows db @ [r]) db))"

definition update_row ::
    "('s \<Rightarrow> 'r list) \<Rightarrow> ('r list \<Rightarrow> 's \<Rightarrow> 's) \<Rightarrow> ('r \<Rightarrow> uuid)
     \<Rightarrow> ('r \<Rightarrow> 's \<Rightarrow> dberr option) \<Rightarrow> uuid \<Rightarrow> ('r \<Rightarrow> 'r) \<Rightarrow> ('s, 'r) statement" where
  "update_row rows put key check i f db =
     (case find_row key i (rows db) of
        None \<Rightarrow> (Inl NoRows, db)
      | Some r \<Rightarrow>
          (case check (f r) (put (drop_row key i (rows db)) db) of
             Some e \<Rightarrow> (Inl e, db)
           | None \<Rightarrow> (Inr (f r), put (change_row key i f (rows db)) db)))"

definition delete_row ::
    "('s \<Rightarrow> 'r list) \<Rightarrow> ('r list \<Rightarrow> 's \<Rightarrow> 's) \<Rightarrow> ('r \<Rightarrow> uuid)
     \<Rightarrow> ('s \<Rightarrow> bool) \<Rightarrow> uuid \<Rightarrow> ('s, unit) statement" where
  "delete_row rows put key referenced i db =
     (if find_row key i (rows db) \<noteq> None \<and> referenced db then (Inl fk_violation, db)
      else (Inr (), put (drop_row key i (rows db)) db))"

definition get_row :: "('s \<Rightarrow> 'r list) \<Rightarrow> ('r \<Rightarrow> uuid) \<Rightarrow> uuid \<Rightarrow> ('s, 'r) statement" where
  "get_row rows key i = reading (\<lambda>db. one_row (find_row key i (rows db)))"

definition exists_row :: "('r \<Rightarrow> uuid) \<Rightarrow> uuid \<Rightarrow> 'r list \<Rightarrow> bool" where
  "exists_row key i rows \<longleftrightarrow> i \<in> key ` set rows"

definition exists_opt :: "('r \<Rightarrow> uuid) \<Rightarrow> uuid option \<Rightarrow> 'r list \<Rightarrow> bool" where
  "exists_opt key i rows \<longleftrightarrow> (case i of None \<Rightarrow> True | Some j \<Rightarrow> exists_row key j rows)"

text \<open>The first violated constraint of a list of (violated, error) pairs.\<close>

fun first_error :: "(bool \<times> dberr) list \<Rightarrow> dberr option" where
  "first_error [] = None"
| "first_error ((b, e) # cs) = (if b then Some e else first_error cs)"

definition enum_text :: "string list \<Rightarrow> string \<Rightarrow> bool \<times> dberr" where
  "enum_text values s = (s \<notin> set values, bad_input)"

definition some_text :: "string list \<Rightarrow> string option \<Rightarrow> bool \<times> dberr" where
  "some_text values s = (case s of None \<Rightarrow> (False, bad_input) | Some t \<Rightarrow> enum_text values t)"

definition too_long :: "nat \<Rightarrow> string option \<Rightarrow> bool \<times> dberr" where
  "too_long n s = (case s of None \<Rightarrow> False | Some t \<Rightarrow> n < length t, DbOther ''value too long'')"

end
