(* ===== verification/IpamQueries.thy ===== *)
theory IpamQueries
  imports IpamStore "HOL-Library.Char_ord" "HOL-Library.List_Lexorder"
begin

text \<open>
  The statements of \<^verbatim>\<open>db/queries/mutations_ipam.sql\<close>, \<^verbatim>\<open>ipam_move.sql\<close> and the
  lookups of \<^verbatim>\<open>abac.sql\<close> and \<^verbatim>\<open>ipam.sql\<close> that the handlers of the address plan run, one
  definition each, with the constraints of the tables.  A partial update is the
  function of a row its \<^verbatim>\<open>SET\<close> clause describes; the handlers build it from the body.
\<close>

section \<open>Fabrics\<close>

definition fabric_check :: "fabric \<Rightarrow> ipam_db \<Rightarrow> dberr option" where
  "fabric_check r db = first_error
     [enum_text [''coredns'', ''hickory''] (fb_engine r),
      (fb_name r \<in> fb_name ` set (fabrics db) \<or> fb_slug r \<in> fb_slug ` set (fabrics db), unique_violation)]"

definition put_fabrics :: "fabric list \<Rightarrow> ipam_db \<Rightarrow> ipam_db" where
  "put_fabrics rs db = db\<lparr>fabrics := rs\<rparr>"

definition GetFabric :: "uuid \<Rightarrow> fabric squery" where
  "GetFabric = get_row fabrics fb_id"

definition CreateFabric :: "fabric \<Rightarrow> fabric squery" where
  "CreateFabric = insert_row fabrics put_fabrics fb_id fabric_check"

definition UpdateFabric :: "uuid \<Rightarrow> (fabric \<Rightarrow> fabric) \<Rightarrow> fabric squery" where
  "UpdateFabric = update_row fabrics put_fabrics fb_id fabric_check"

definition CountVrfsInFabric :: "uuid \<Rightarrow> nat squery" where
  "CountVrfsInFabric i = reading (\<lambda>db. Inr (length (filter (\<lambda>v. vrf_fabric v = i) (vrfs db))))"

definition DeleteFabric :: "uuid \<Rightarrow> unit squery" where
  "DeleteFabric i = delete_row fabrics put_fabrics fb_id
     (\<lambda>db. i \<in> vrf_fabric ` set (vrfs db) \<or> i \<in> nt_fabric ` set (nets db)
        \<or> i \<in> sb_fabric ` set (subnets db) \<or> i \<in> ov_fabric ` set (overlays db)
        \<or> i \<in> ds_fabric ` set (dhcp_servers db)) i"

section \<open>VRFs\<close>

definition vrf_check :: "vrf \<Rightarrow> ipam_db \<Rightarrow> dberr option" where
  "vrf_check r db = first_error
     [(\<not> exists_row fb_id (vrf_fabric r) (fabrics db), fk_violation),
      (\<exists>v\<in>set (vrfs db). vrf_fabric v = vrf_fabric r \<and> vrf_name v = vrf_name r, unique_violation)]"

definition put_vrfs :: "vrf list \<Rightarrow> ipam_db \<Rightarrow> ipam_db" where
  "put_vrfs rs db = db\<lparr>vrfs := rs\<rparr>"

definition GetVrf :: "uuid \<Rightarrow> vrf squery" where
  "GetVrf = get_row vrfs vrf_id"

definition GetVrfFabricID :: "uuid \<Rightarrow> uuid squery" where
  "GetVrfFabricID i = reading (\<lambda>db. one_row (map_option vrf_fabric (find_row vrf_id i (vrfs db))))"

definition CreateVrf :: "vrf \<Rightarrow> vrf squery" where
  "CreateVrf = insert_row vrfs put_vrfs vrf_id vrf_check"

definition UpdateVrf :: "uuid \<Rightarrow> (vrf \<Rightarrow> vrf) \<Rightarrow> vrf squery" where
  "UpdateVrf = update_row vrfs put_vrfs vrf_id vrf_check"

definition CountSupernetsInVrf :: "uuid \<Rightarrow> nat squery" where
  "CountSupernetsInVrf i = reading (\<lambda>db. Inr (length (filter (\<lambda>n. nt_vrf n = i) (nets db))))"

definition DeleteVrf :: "uuid \<Rightarrow> unit squery" where
  "DeleteVrf i = delete_row vrfs put_vrfs vrf_id
     (\<lambda>db. i \<in> nt_vrf ` set (nets db) \<or> i \<in> sb_vrf ` set (subnets db)
        \<or> Some i \<in> ov_underlay ` set (overlays db) \<or> Some i \<in> vn_vrf ` set (vnis db)
        \<or> i \<in> vbp_vrf ` set (vrf_bgp_peers db)) i"

definition vbp_check :: "vrf_bgp_peer \<Rightarrow> ipam_db \<Rightarrow> dberr option" where
  "vbp_check r db = first_error
     [enum_text [''vpnv4'', ''vpnv6'', ''evpn''] (vbp_family r),
      (\<not> exists_row vrf_id (vbp_vrf r) (vrfs db), fk_violation),
      (\<exists>b\<in>set (vrf_bgp_peers db). vbp_vrf b = vbp_vrf r \<and> vbp_peer b = vbp_peer r
          \<and> vbp_family b = vbp_family r, unique_violation)]"

definition put_vrf_bgp_peers :: "vrf_bgp_peer list \<Rightarrow> ipam_db \<Rightarrow> ipam_db" where
  "put_vrf_bgp_peers rs db = db\<lparr>vrf_bgp_peers := rs\<rparr>"

definition CreateVrfBgpPeer :: "vrf_bgp_peer \<Rightarrow> vrf_bgp_peer squery" where
  "CreateVrfBgpPeer = insert_row vrf_bgp_peers put_vrf_bgp_peers vbp_id vbp_check"

definition UpdateVrfBgpPeer :: "uuid \<Rightarrow> (vrf_bgp_peer \<Rightarrow> vrf_bgp_peer) \<Rightarrow> vrf_bgp_peer squery" where
  "UpdateVrfBgpPeer = update_row vrf_bgp_peers put_vrf_bgp_peers vbp_id vbp_check"

definition DeleteVrfBgpPeer :: "uuid \<Rightarrow> unit squery" where
  "DeleteVrfBgpPeer = delete_row vrf_bgp_peers put_vrf_bgp_peers vbp_id (\<lambda>db. False)"

section \<open>Supernets\<close>

definition supernet_check :: "supernet_rec \<Rightarrow> ipam_db \<Rightarrow> dberr option" where
  "supernet_check r db = first_error
     [(\<not> exists_row fb_id (nt_fabric r) (fabrics db), fk_violation),
      (\<not> exists_row vrf_id (nt_vrf r) (vrfs db), fk_violation),
      (nt_parent r \<noteq> Some (nt_id r) \<and> \<not> exists_opt nt_id (nt_parent r) (nets db), fk_violation)]"

definition put_nets :: "supernet_rec list \<Rightarrow> ipam_db \<Rightarrow> ipam_db" where
  "put_nets rs db = db\<lparr>nets := rs\<rparr>"

definition GetSupernet :: "uuid \<Rightarrow> supernet_rec squery" where
  "GetSupernet = get_row nets nt_id"

definition GetSupernetVrfAndFabric :: "uuid \<Rightarrow> (uuid \<times> uuid) squery" where
  "GetSupernetVrfAndFabric i =
     reading (\<lambda>db. one_row (map_option (\<lambda>n. (nt_vrf n, nt_fabric n)) (find_row nt_id i (nets db))))"

definition CreateSupernet :: "supernet_rec \<Rightarrow> supernet_rec squery" where
  "CreateSupernet = insert_row nets put_nets nt_id supernet_check"

definition UpdateSupernet :: "uuid \<Rightarrow> (supernet_rec \<Rightarrow> supernet_rec) \<Rightarrow> supernet_rec squery" where
  "UpdateSupernet = update_row nets put_nets nt_id supernet_check"

definition CountSubnetsInSupernet :: "uuid \<Rightarrow> nat squery" where
  "CountSubnetsInSupernet i = reading (\<lambda>db. Inr (length (filter (\<lambda>s. sb_supernet s = i) (subnets db))))"

definition DeleteSupernet :: "uuid \<Rightarrow> unit squery" where
  "DeleteSupernet i = delete_row nets put_nets nt_id
     (\<lambda>db. i \<in> sb_supernet ` set (subnets db)
        \<or> (\<exists>n\<in>set (nets db). nt_parent n = Some i \<and> nt_id n \<noteq> i)) i"

text \<open>The move of a granted supernet: the projection it checks, and the guarded update.\<close>

record move_row =
  CurrentFabricID :: uuid
  CurrentVrfID :: uuid
  OwnerOrganizationID :: "uuid option"
  CurrentFabricIsSystem :: bool

definition GetSupernetForMove :: "uuid \<Rightarrow> move_row squery" where
  "GetSupernetForMove i = reading (\<lambda>db.
     case find_row nt_id i (nets db) of
       None \<Rightarrow> Inl NoRows
     | Some n \<Rightarrow>
         one_row (map_option (\<lambda>f. \<lparr>CurrentFabricID = nt_fabric n, CurrentVrfID = nt_vrf n,
             OwnerOrganizationID = nt_owner n, CurrentFabricIsSystem = fb_is_system f\<rparr>)
           (find_row fb_id (nt_fabric n) (fabrics db))))"

definition GetVrfForMove :: "uuid \<Rightarrow> (uuid \<times> uuid) squery" where
  "GetVrfForMove i =
     reading (\<lambda>db. one_row (map_option (\<lambda>v. (vrf_id v, vrf_fabric v)) (find_row vrf_id i (vrfs db))))"

definition MoveSupernet :: "uuid \<Rightarrow> uuid \<Rightarrow> uuid \<Rightarrow> uuid \<Rightarrow> supernet_rec squery" where
  "MoveSupernet i target_fabric target_vrf expected db =
     (case find_row nt_id i (nets db) of
        None \<Rightarrow> (Inl NoRows, db)
      | Some n \<Rightarrow>
          if nt_fabric n \<noteq> expected \<or> i \<in> sb_supernet ` set (subnets db) then (Inl NoRows, db)
          else UpdateSupernet i (\<lambda>r. r\<lparr>nt_fabric := target_fabric, nt_vrf := target_vrf\<rparr>) db)"

section \<open>Subnets\<close>

definition subnet_check :: "subnet_rec \<Rightarrow> ipam_db \<Rightarrow> dberr option" where
  "subnet_check r db = first_error
     [(\<not> exists_row nt_id (sb_supernet r) (nets db), fk_violation),
      (\<not> exists_row fb_id (sb_fabric r) (fabrics db), fk_violation),
      (\<not> exists_row vrf_id (sb_vrf r) (vrfs db), fk_violation),
      (\<not> exists_opt vn_id (sb_vni r) (vnis db), fk_violation)]"

definition put_subnets :: "subnet_rec list \<Rightarrow> ipam_db \<Rightarrow> ipam_db" where
  "put_subnets rs db = db\<lparr>subnets := rs\<rparr>"

definition GetSubnet :: "uuid \<Rightarrow> subnet_rec squery" where
  "GetSubnet = get_row subnets sb_id"

definition GetSubnetFabricID :: "uuid \<Rightarrow> uuid squery" where
  "GetSubnetFabricID i = reading (\<lambda>db. one_row (map_option sb_fabric (find_row sb_id i (subnets db))))"

definition CreateSubnet :: "subnet_rec \<Rightarrow> subnet_rec squery" where
  "CreateSubnet = insert_row subnets put_subnets sb_id subnet_check"

definition UpdateSubnet :: "uuid \<Rightarrow> (subnet_rec \<Rightarrow> subnet_rec) \<Rightarrow> subnet_rec squery" where
  "UpdateSubnet = update_row subnets put_subnets sb_id subnet_check"

definition CountAddressesInSubnet :: "uuid \<Rightarrow> nat squery" where
  "CountAddressesInSubnet i = reading (\<lambda>db. Inr (length (filter (\<lambda>a. ad_subnet a = i) (addresses db))))"

text \<open>\<^verbatim>\<open>dhcp_scopes.subnet_id\<close> is \<^verbatim>\<open>ON DELETE SET NULL\<close>.\<close>

definition DeleteSubnet :: "uuid \<Rightarrow> unit squery" where
  "DeleteSubnet i = delete_row subnets
     (\<lambda>rs db. db\<lparr>subnets := rs, dhcp_scopes :=
        map (\<lambda>c. if sc_subnet c = Some i then c\<lparr>sc_subnet := None\<rparr> else c) (dhcp_scopes db)\<rparr>)
     sb_id (\<lambda>db. i \<in> ad_subnet ` set (addresses db)) i"

section \<open>Addresses\<close>

definition address_check :: "ip_address \<Rightarrow> ipam_db \<Rightarrow> dberr option" where
  "address_check r db = first_error
     [enum_text [''mgmt'', ''data'', ''ipmi'', ''vip'', ''storage'', ''other''] (ad_role r),
      enum_text [''active'', ''reserved'', ''deprecated''] (ad_status r),
      enum_text [''static'', ''dhcp'', ''reservation''] (ad_source r),
      too_long 255 (ad_dns_name r), too_long 32 (ad_mac r), too_long 254 (ad_duid r),
      (\<not> exists_row sb_id (ad_subnet r) (subnets db), fk_violation),
      (\<exists>a\<in>set (addresses db). ad_subnet a = ad_subnet r \<and> ad_address a = ad_address r, unique_violation)]"

definition put_addresses :: "ip_address list \<Rightarrow> ipam_db \<Rightarrow> ipam_db" where
  "put_addresses rs db = db\<lparr>addresses := rs\<rparr>"

definition GetIPAddress :: "uuid \<Rightarrow> ip_address squery" where
  "GetIPAddress = get_row addresses ad_id"

definition GetIPAddressFabricID :: "uuid \<Rightarrow> uuid squery" where
  "GetIPAddressFabricID i = reading (\<lambda>db. one_row (map_option sb_fabric
     (Option.bind (find_row ad_id i (addresses db)) (\<lambda>a. find_row sb_id (ad_subnet a) (subnets db)))))"

definition CreateIPAddress :: "ip_address \<Rightarrow> ip_address squery" where
  "CreateIPAddress = insert_row addresses put_addresses ad_id address_check"

definition UpdateIPAddress :: "uuid \<Rightarrow> (ip_address \<Rightarrow> ip_address) \<Rightarrow> ip_address squery" where
  "UpdateIPAddress = update_row addresses put_addresses ad_id address_check"

definition DeleteIPAddress :: "uuid \<Rightarrow> unit squery" where
  "DeleteIPAddress = delete_row addresses put_addresses ad_id (\<lambda>db. False)"

section \<open>Overlays\<close>

definition overlay_check :: "overlay \<Rightarrow> ipam_db \<Rightarrow> dberr option" where
  "overlay_check r db = first_error
     [enum_text [''vxlan'', ''geneve''] (ov_kind r),
      (\<not> exists_row fb_id (ov_fabric r) (fabrics db), fk_violation),
      (\<not> exists_opt vrf_id (ov_underlay r) (vrfs db), fk_violation),
      (\<exists>x\<in>set (overlays db). ov_fabric x = ov_fabric r \<and> ov_name x = ov_name r, unique_violation)]"

definition put_overlays :: "overlay list \<Rightarrow> ipam_db \<Rightarrow> ipam_db" where
  "put_overlays rs db = db\<lparr>overlays := rs\<rparr>"

definition overlay_fabric :: "uuid \<Rightarrow> ipam_db \<Rightarrow> uuid option" where
  "overlay_fabric i db = map_option ov_fabric (find_row ov_id i (overlays db))"

definition GetOverlayFabricID :: "uuid \<Rightarrow> uuid squery" where
  "GetOverlayFabricID i = reading (\<lambda>db. one_row (overlay_fabric i db))"

definition CreateOverlay :: "overlay \<Rightarrow> overlay squery" where
  "CreateOverlay = insert_row overlays put_overlays ov_id overlay_check"

definition UpdateOverlay :: "uuid \<Rightarrow> (overlay \<Rightarrow> overlay) \<Rightarrow> overlay squery" where
  "UpdateOverlay = update_row overlays put_overlays ov_id overlay_check"

definition CountVnisInOverlay :: "uuid \<Rightarrow> nat squery" where
  "CountVnisInOverlay i = reading (\<lambda>db. Inr (length (filter (\<lambda>v. vn_overlay v = i) (vnis db))))"

definition DeleteOverlay :: "uuid \<Rightarrow> unit squery" where
  "DeleteOverlay i = delete_row overlays put_overlays ov_id
     (\<lambda>db. i \<in> vn_overlay ` set (vnis db) \<or> i \<in> vt_overlay ` set (vteps db)) i"

definition vni_check :: "vni_rec \<Rightarrow> ipam_db \<Rightarrow> dberr option" where
  "vni_check r db = first_error
     [enum_text [''l2'', ''l3''] (vn_kind r),
      (\<not> exists_row ov_id (vn_overlay r) (overlays db), fk_violation),
      (\<not> exists_opt vrf_id (vn_vrf r) (vrfs db), fk_violation),
      (\<exists>x\<in>set (vnis db). vn_overlay x = vn_overlay r \<and> vn_vni x = vn_vni r, unique_violation)]"

definition put_vnis :: "vni_rec list \<Rightarrow> ipam_db \<Rightarrow> ipam_db" where
  "put_vnis rs db = db\<lparr>vnis := rs\<rparr>"

definition vni_fabric :: "uuid \<Rightarrow> ipam_db \<Rightarrow> uuid option" where
  "vni_fabric i db = Option.bind (find_row vn_id i (vnis db)) (\<lambda>v. overlay_fabric (vn_overlay v) db)"

definition GetVniFabricID :: "uuid \<Rightarrow> uuid squery" where
  "GetVniFabricID i = reading (\<lambda>db. one_row (vni_fabric i db))"

definition CreateVni :: "vni_rec \<Rightarrow> vni_rec squery" where
  "CreateVni = insert_row vnis put_vnis vn_id vni_check"

definition UpdateVni :: "uuid \<Rightarrow> (vni_rec \<Rightarrow> vni_rec) \<Rightarrow> vni_rec squery" where
  "UpdateVni = update_row vnis put_vnis vn_id vni_check"

definition DeleteVni :: "uuid \<Rightarrow> unit squery" where
  "DeleteVni i = delete_row vnis put_vnis vn_id
     (\<lambda>db. Some i \<in> sb_vni ` set (subnets db) \<or> i \<in> vm_vni ` set (vtep_vnis db)) i"

definition vtep_check :: "vtep_rec \<Rightarrow> ipam_db \<Rightarrow> dberr option" where
  "vtep_check r db = first_error
     [enum_text [''leaf'', ''spine'', ''border'', ''other''] (vt_role r),
      (\<not> exists_row ov_id (vt_overlay r) (overlays db), fk_violation),
      (\<exists>x\<in>set (vteps db). vt_overlay x = vt_overlay r \<and> vt_asset x = vt_asset r, unique_violation)]"

definition put_vteps :: "vtep_rec list \<Rightarrow> ipam_db \<Rightarrow> ipam_db" where
  "put_vteps rs db = db\<lparr>vteps := rs\<rparr>"

definition vtep_fabric :: "uuid \<Rightarrow> ipam_db \<Rightarrow> uuid option" where
  "vtep_fabric i db = Option.bind (find_row vt_id i (vteps db)) (\<lambda>v. overlay_fabric (vt_overlay v) db)"

definition GetVtepFabricID :: "uuid \<Rightarrow> uuid squery" where
  "GetVtepFabricID i = reading (\<lambda>db. one_row (vtep_fabric i db))"

definition CreateVtep :: "vtep_rec \<Rightarrow> vtep_rec squery" where
  "CreateVtep = insert_row vteps put_vteps vt_id vtep_check"

definition UpdateVtep :: "uuid \<Rightarrow> (vtep_rec \<Rightarrow> vtep_rec) \<Rightarrow> vtep_rec squery" where
  "UpdateVtep = update_row vteps put_vteps vt_id vtep_check"

definition DeleteVtep :: "uuid \<Rightarrow> unit squery" where
  "DeleteVtep i = delete_row vteps put_vteps vt_id (\<lambda>db. i \<in> vm_vtep ` set (vtep_vnis db)) i"

definition membership_check :: "vtep_membership \<Rightarrow> ipam_db \<Rightarrow> dberr option" where
  "membership_check r db = first_error
     [(\<not> exists_row vt_id (vm_vtep r) (vteps db), fk_violation),
      (\<not> exists_row vn_id (vm_vni r) (vnis db), fk_violation),
      (\<exists>x\<in>set (vtep_vnis db). vm_vtep x = vm_vtep r \<and> vm_vni x = vm_vni r, unique_violation)]"

definition put_vtep_vnis :: "vtep_membership list \<Rightarrow> ipam_db \<Rightarrow> ipam_db" where
  "put_vtep_vnis rs db = db\<lparr>vtep_vnis := rs\<rparr>"

definition GetVtepMembershipFabricID :: "uuid \<Rightarrow> uuid squery" where
  "GetVtepMembershipFabricID i = reading (\<lambda>db. one_row
     (Option.bind (find_row vm_id i (vtep_vnis db)) (\<lambda>m. vtep_fabric (vm_vtep m) db)))"

definition CreateVtepMembership :: "vtep_membership \<Rightarrow> vtep_membership squery" where
  "CreateVtepMembership = insert_row vtep_vnis put_vtep_vnis vm_id membership_check"

definition DeleteVtepMembership :: "uuid \<Rightarrow> unit squery" where
  "DeleteVtepMembership = delete_row vtep_vnis put_vtep_vnis vm_id (\<lambda>db. False)"

section \<open>DHCP servers\<close>

definition server_check :: "dhcp_server \<Rightarrow> ipam_db \<Rightarrow> dberr option" where
  "server_check r db = first_error
     [(\<not> exists_row fb_id (ds_fabric r) (fabrics db), fk_violation),
      (ds_name r \<in> ds_name ` set (dhcp_servers db), unique_violation)]"

definition put_dhcp_servers :: "dhcp_server list \<Rightarrow> ipam_db \<Rightarrow> ipam_db" where
  "put_dhcp_servers rs db = db\<lparr>dhcp_servers := rs\<rparr>"

definition GetDhcpServerFabricID :: "uuid \<Rightarrow> uuid squery" where
  "GetDhcpServerFabricID i =
     reading (\<lambda>db. one_row (map_option ds_fabric (find_row ds_id i (dhcp_servers db))))"

definition CreateDhcpServer :: "dhcp_server \<Rightarrow> dhcp_server squery" where
  "CreateDhcpServer = insert_row dhcp_servers put_dhcp_servers ds_id server_check"

definition UpdateDhcpServer :: "uuid \<Rightarrow> (dhcp_server \<Rightarrow> dhcp_server) \<Rightarrow> dhcp_server squery" where
  "UpdateDhcpServer = update_row dhcp_servers put_dhcp_servers ds_id server_check"

text \<open>\<^verbatim>\<open>dhcp_scopes.dhcp_server_id\<close> is \<^verbatim>\<open>ON DELETE CASCADE\<close>.\<close>

definition DeleteDhcpServer :: "uuid \<Rightarrow> unit squery" where
  "DeleteDhcpServer i = delete_row dhcp_servers
     (\<lambda>rs db. db\<lparr>dhcp_servers := rs, dhcp_scopes := filter (\<lambda>c. sc_server c \<noteq> i) (dhcp_scopes db)\<rparr>)
     ds_id (\<lambda>db. False) i"

definition GetDhcpScope :: "uuid \<Rightarrow> dhcp_scope squery" where
  "GetDhcpScope = get_row dhcp_scopes sc_id"

definition GetDhcpScopeFabricID :: "uuid \<Rightarrow> uuid squery" where
  "GetDhcpScopeFabricID i = reading (\<lambda>db. one_row (map_option ds_fabric
     (Option.bind (find_row sc_id i (dhcp_scopes db)) (\<lambda>c. find_row ds_id (sc_server c) (dhcp_servers db)))))"

section \<open>Lists\<close>

text \<open>\<^verbatim>\<open>(sqlc.narg(x) IS NULL OR col = x)\<close> and the scope filter
  \<^verbatim>\<open>(scope_fabric_ids IS NULL OR fabric_id = ANY(...))\<close>.\<close>

definition opt_eq :: "'a option \<Rightarrow> 'a \<Rightarrow> bool" where
  "opt_eq f x \<longleftrightarrow> (case f of None \<Rightarrow> True | Some y \<Rightarrow> x = y)"

definition opt_in :: "uuid set option \<Rightarrow> uuid \<Rightarrow> bool" where
  "opt_in ids f \<longleftrightarrow> (case ids of None \<Rightarrow> True | Some s \<Rightarrow> f \<in> s)"

definition page_of :: "('r \<Rightarrow> 'k :: linorder) \<Rightarrow> int \<Rightarrow> int \<Rightarrow> 'r list \<Rightarrow> 'r list" where
  "page_of key limit offset rs = take (nat limit) (drop (nat offset) (sort_key key rs))"

definition by_name :: "string \<Rightarrow> nat list" where
  "by_name s = map of_char s"

definition by_prefix :: "prefix \<Rightarrow> nat list" where
  "by_prefix p = [if pfam p = V4 then 0 else 1, pval p, plen p]"

definition by_inet :: "inet \<Rightarrow> nat list" where
  "by_inet a = [if fam (fst a) = V4 then 0 else 1, val (fst a), snd a]"

text \<open>A list query and its count run the same \<^verbatim>\<open>WHERE\<close>.\<close>

definition list_where ::
    "('s \<Rightarrow> 'r list) \<Rightarrow> ('r \<Rightarrow> nat list) \<Rightarrow> ('s \<Rightarrow> 'r \<Rightarrow> bool) \<Rightarrow> int \<Rightarrow> int \<Rightarrow> ('s, 'r list) statement" where
  "list_where rows key wh limit offset =
     reading (\<lambda>db. Inr (page_of key limit offset (filter (wh db) (rows db))))"

definition count_where :: "('s \<Rightarrow> 'r list) \<Rightarrow> ('s \<Rightarrow> 'r \<Rightarrow> bool) \<Rightarrow> ('s, nat) statement" where
  "count_where rows wh = reading (\<lambda>db. Inr (length (filter (wh db) (rows db))))"

definition vrfs_where :: "uuid option \<Rightarrow> uuid set option \<Rightarrow> ipam_db \<Rightarrow> vrf \<Rightarrow> bool" where
  "vrfs_where fab ids db v \<longleftrightarrow> opt_eq fab (vrf_fabric v) \<and> opt_in ids (vrf_fabric v)"

definition ListVrfs :: "uuid option \<Rightarrow> uuid set option \<Rightarrow> int \<Rightarrow> int \<Rightarrow> vrf list squery" where
  "ListVrfs fab ids = list_where vrfs (\<lambda>v. by_name (vrf_name v)) (vrfs_where fab ids)"

definition CountVrfs :: "uuid option \<Rightarrow> uuid set option \<Rightarrow> nat squery" where
  "CountVrfs fab ids = count_where vrfs (vrfs_where fab ids)"

definition fabrics_where :: "string option \<Rightarrow> uuid set option \<Rightarrow> ipam_db \<Rightarrow> fabric \<Rightarrow> bool" where
  "fabrics_where enclave ids db f \<longleftrightarrow>
     (case enclave of None \<Rightarrow> True | Some e \<Rightarrow> fb_enclave f = Some e) \<and> opt_in ids (fb_id f)"

definition ListFabrics :: "string option \<Rightarrow> uuid set option \<Rightarrow> int \<Rightarrow> int \<Rightarrow> fabric list squery" where
  "ListFabrics enclave ids = list_where fabrics (\<lambda>f. by_name (fb_name f)) (fabrics_where enclave ids)"

definition CountFabrics :: "string option \<Rightarrow> uuid set option \<Rightarrow> nat squery" where
  "CountFabrics enclave ids = count_where fabrics (fabrics_where enclave ids)"

datatype parent_mode = AnyParent | NullParent | EqParent uuid

definition supernets_where ::
    "uuid option \<Rightarrow> uuid option \<Rightarrow> parent_mode \<Rightarrow> uuid set option \<Rightarrow> ipam_db \<Rightarrow> supernet_rec \<Rightarrow> bool" where
  "supernets_where fab vrf mode ids db n \<longleftrightarrow>
     opt_eq fab (nt_fabric n) \<and> opt_eq vrf (nt_vrf n)
     \<and> (case mode of AnyParent \<Rightarrow> True | NullParent \<Rightarrow> nt_parent n = None | EqParent i \<Rightarrow> nt_parent n = Some i)
     \<and> opt_in ids (nt_fabric n)"

definition ListSupernets ::
    "uuid option \<Rightarrow> uuid option \<Rightarrow> parent_mode \<Rightarrow> uuid set option \<Rightarrow> int \<Rightarrow> int \<Rightarrow> supernet_rec list squery" where
  "ListSupernets fab vrf mode ids =
     list_where nets (\<lambda>n. by_prefix (nt_prefix n)) (supernets_where fab vrf mode ids)"

definition CountSupernets ::
    "uuid option \<Rightarrow> uuid option \<Rightarrow> parent_mode \<Rightarrow> uuid set option \<Rightarrow> nat squery" where
  "CountSupernets fab vrf mode ids = count_where nets (supernets_where fab vrf mode ids)"

definition subnets_where ::
    "uuid option \<Rightarrow> uuid option \<Rightarrow> uuid option \<Rightarrow> string option \<Rightarrow> uuid set option \<Rightarrow> ipam_db \<Rightarrow> subnet_rec \<Rightarrow> bool" where
  "subnets_where fab vrf site purpose ids db s \<longleftrightarrow>
     opt_eq fab (sb_fabric s) \<and> opt_eq vrf (sb_vrf s)
     \<and> (case site of None \<Rightarrow> True | Some i \<Rightarrow> sb_site s = Some i)
     \<and> (case purpose of None \<Rightarrow> True | Some t \<Rightarrow> sb_purpose s = Some t) \<and> opt_in ids (sb_fabric s)"

definition ListSubnets ::
    "uuid option \<Rightarrow> uuid option \<Rightarrow> uuid option \<Rightarrow> string option \<Rightarrow> uuid set option \<Rightarrow> int \<Rightarrow> int \<Rightarrow> subnet_rec list squery" where
  "ListSubnets fab vrf site purpose ids =
     list_where subnets (\<lambda>s. by_prefix (sb_prefix s)) (subnets_where fab vrf site purpose ids)"

definition CountSubnets ::
    "uuid option \<Rightarrow> uuid option \<Rightarrow> uuid option \<Rightarrow> string option \<Rightarrow> uuid set option \<Rightarrow> nat squery" where
  "CountSubnets fab vrf site purpose ids = count_where subnets (subnets_where fab vrf site purpose ids)"

definition addresses_where ::
    "uuid option \<Rightarrow> uuid option \<Rightarrow> string option \<Rightarrow> string option \<Rightarrow> uuid set option \<Rightarrow> ipam_db \<Rightarrow> ip_address \<Rightarrow> bool" where
  "addresses_where subnet asset role status ids db a \<longleftrightarrow>
     opt_eq subnet (ad_subnet a) \<and> (case asset of None \<Rightarrow> True | Some i \<Rightarrow> ad_asset a = Some i)
     \<and> opt_eq role (ad_role a) \<and> opt_eq status (ad_status a)
     \<and> (case ids of None \<Rightarrow> True
        | Some fs \<Rightarrow> \<exists>s\<in>set (subnets db). sb_id s = ad_subnet a \<and> sb_fabric s \<in> fs)"

definition ListIPAddresses ::
    "uuid option \<Rightarrow> uuid option \<Rightarrow> string option \<Rightarrow> string option \<Rightarrow> uuid set option \<Rightarrow> int \<Rightarrow> int \<Rightarrow> ip_address list squery" where
  "ListIPAddresses subnet asset role status ids =
     list_where addresses (\<lambda>a. by_inet (ad_address a)) (addresses_where subnet asset role status ids)"

definition CountIPAddresses ::
    "uuid option \<Rightarrow> uuid option \<Rightarrow> string option \<Rightarrow> string option \<Rightarrow> uuid set option \<Rightarrow> nat squery" where
  "CountIPAddresses subnet asset role status ids = count_where addresses (addresses_where subnet asset role status ids)"

end
