(* ===== verification/IpamHandlers.thy ===== *)
theory IpamHandlers
  imports IpamQueries Scope
begin

text \<open>
  The mutations of \<^verbatim>\<open>internal/ipam/mutations.go\<close> on fabrics, VRFs and their BGP
  bindings, supernets, subnets and addresses.  Each handler is a state transformer over
  the tables of \<^verbatim>\<open>IpamStore\<close> with the guards in the order of the source.  The body of a
  create is the decoded record, that of a partial update the decoded JSON value;
  \<open>None\<close> when it does not decode.
\<close>

section \<open>Shared helpers\<close>

definition mapIpamErr :: "string \<Rightarrow> dberr \<Rightarrow> 'r resp" where
  "mapIpamErr notFoundMsg e =
     (case e of NoRows \<Rightarrow> HttpError 404 notFoundMsg | _ \<Rightarrow> HttpError (fst (Mapped e)) (snd (Mapped e)))"

definition idFromURL :: "('s, 'z) db_env_scheme \<Rightarrow> string \<Rightarrow> ('s, 'r, uuid) web" where
  "idFromURL E raw =
     (case parse_uuid E raw of
        None \<Rightarrow> hanswer (HttpError 400 ''id is not a uuid'')
      | Some i \<Rightarrow> hreturn i)"

definition forbid :: "dberr option \<Rightarrow> ('s, 'r, unit) web" where
  "forbid refused =
     (case refused of None \<Rightarrow> hreturn ()
      | Some e \<Rightarrow> hanswer (HttpError 403 (snd (Mapped e))))"

definition enforceFabric :: "principal \<Rightarrow> uuid \<Rightarrow> string \<Rightarrow> ('s, 'r, unit) web" where
  "enforceFabric p fabricID capCode = forbid (EnforceFabricScope p fabricID capCode)"

definition lookupFabricID ::
    "('s, 'z) db_env_scheme \<Rightarrow> iquery \<Rightarrow> ('s, uuid) statement \<Rightarrow> string \<Rightarrow> ('s, 'r, uuid) web" where
  "lookupFabricID E Q f notFoundMsg = ask E Q f (mapIpamErr notFoundMsg)"

text \<open>An audit row that cannot be written is dropped (\<^verbatim>\<open>audit.Record\<close> only logs).\<close>

definition auditMut :: "ipam_env \<Rightarrow> string \<Rightarrow> uuid \<Rightarrow> ('r, unit) ihandler" where
  "auditMut E action i db =
     (let db' = others E ''InsertAuditLog'' db
      in case db_fault E ''InsertAuditLog'' db' of
           Some _ \<Rightarrow> (Inr (), db')
         | None \<Rightarrow> (Inr (), db'\<lparr>ipam_log := ipam_log db' @ [(action, i)]\<rparr>))"

text \<open>A validator's error is a 400 with its text.\<close>

definition invalid_if :: "ipam_env \<Rightarrow> verror option \<Rightarrow> ('r, unit) ihandler" where
  "invalid_if E err =
     (case err of None \<Rightarrow> hreturn () | Some e \<Rightarrow> hanswer (HttpError 400 (err_text E e)))"

definition validated :: "ipam_env \<Rightarrow> verror + 'a \<Rightarrow> ('r, 'a) ihandler" where
  "validated E r =
     (case r of Inl e \<Rightarrow> hanswer (HttpError 400 (err_text E e)) | Inr a \<Rightarrow> hreturn a)"

definition required :: "'b option \<Rightarrow> ('b \<Rightarrow> bool) \<Rightarrow> string \<Rightarrow> ('s, 'r, 'b) web" where
  "required body ok msg =
     (case body of
        None \<Rightarrow> hanswer (HttpError 400 msg)
      | Some b \<Rightarrow> if ok b then hreturn b else hanswer (HttpError 400 msg))"

text \<open>The decoder of a partial update is \<^verbatim>\<open>UnmarshalJSON\<close> of its request type.\<close>

definition patch_body :: "json option \<Rightarrow> ('s, 'r, json_object) web" where
  "patch_body body =
     (case Option.bind body raw_map of
        None \<Rightarrow> hanswer (HttpError 400 ''bad request body'')
      | Some kvs \<Rightarrow> hreturn kvs)"

text \<open>The casts \<^verbatim>\<open>$n::cidr\<close> and \<^verbatim>\<open>$n::inet\<close> of a statement fail before it touches a row.\<close>

definition with_cidr :: "ipam_env \<Rightarrow> string \<Rightarrow> (prefix \<Rightarrow> 'a squery) \<Rightarrow> 'a squery" where
  "with_cidr E s q = (case cidr_read E s of None \<Rightarrow> reading (\<lambda>db. Inl bad_input) | Some p \<Rightarrow> q p)"

definition with_inet :: "ipam_env \<Rightarrow> string option \<Rightarrow> (inet option \<Rightarrow> 'a squery) \<Rightarrow> 'a squery" where
  "with_inet E s q =
     (case s of
        None \<Rightarrow> q None
      | Some t \<Rightarrow>
          (case inet_read E t of None \<Rightarrow> reading (\<lambda>db. Inl bad_input) | Some a \<Rightarrow> q (Some a)))"

section \<open>Fabrics\<close>

record fabric_req =
  fr_name :: string
  fr_slug :: string
  fr_description :: "string option"
  fr_enclave :: "string option"
  fr_classification :: "string option"
  fr_upstreams :: "json option"
  fr_deny_networks :: "json option"
  fr_transfer_acl :: "json option"
  fr_engine :: string

definition or_default :: "string \<Rightarrow> string \<Rightarrow> string" where
  "or_default d s = (if s = [] then d else s)"

definition createFabric :: "ipam_env \<Rightarrow> principal \<Rightarrow> fabric_req option \<Rightarrow> (fabric, fabric resp) ihandler" where
  "createFabric E p body =
     hbind (required body (\<lambda>q. fr_name q \<noteq> [] \<and> fr_slug q \<noteq> []) ''name and slug required'') (\<lambda>req.
     hbind (forbid (EnforceEnclave p (fr_enclave req) ''ipam:fabrics:create'')) (\<lambda>_.
     hbind (forbid (EnforceClassification p (fr_classification req) ''ipam:fabrics:create'')) (\<lambda>_.
     hbind (invalid_if E (validateSlug (fr_slug req))) (\<lambda>_.
     hbind (ask E ''CreateFabric''
              (\<lambda>db. CreateFabric
                 \<lparr>fb_id = gen_id E db, fb_name = fr_name req, fb_slug = fr_slug req,
                  fb_description = fr_description req, fb_enclave = fr_enclave req,
                  fb_classification = fr_classification req, fb_upstreams = fr_upstreams req,
                  fb_deny_networks = fr_deny_networks req, fb_transfer_acl = fr_transfer_acl req,
                  fb_engine = or_default ''coredns'' (fr_engine req), fb_is_system = False\<rparr> db)
              (mapIpamErr ''fabric not found'')) (\<lambda>out.
     hbind (auditMut E ''fabric.create'' (fb_id out)) (\<lambda>_.
     hreturn (HttpJSON 201 out)))))))"

definition fabric_patch :: "json_object \<Rightarrow> fabric \<Rightarrow> fabric" where
  "fabric_patch kvs f = f
     \<lparr>fb_name := coalesced kvs ''name'' into_string (fb_name f),
      fb_slug := coalesced kvs ''slug'' into_string (fb_slug f),
      fb_description := patched kvs ''description'' into_string (fb_description f),
      fb_enclave := patched kvs ''enclave'' into_string (fb_enclave f),
      fb_classification := patched kvs ''classification'' into_string (fb_classification f),
      fb_upstreams := patched kvs ''dns_recursive_upstreams'' Some (fb_upstreams f),
      fb_deny_networks := patched kvs ''dns_deny_networks'' Some (fb_deny_networks f),
      fb_transfer_acl := patched kvs ''catalog_transfer_acl'' Some (fb_transfer_acl f),
      fb_engine := coalesced kvs ''recursive_engine'' into_string (fb_engine f)\<rparr>"

text \<open>The row's current enclave and classification, which the caller must own.\<close>

definition own_fabric :: "ipam_env \<Rightarrow> principal \<Rightarrow> uuid \<Rightarrow> string \<Rightarrow> ('r, fabric) ihandler" where
  "own_fabric E p i cap =
     hbind (enforceFabric p i cap) (\<lambda>_.
     hbind (ask E ''GetFabric'' (GetFabric i) (mapIpamErr ''fabric not found'')) (\<lambda>current.
     hbind (forbid (EnforceEnclave p (fb_enclave current) cap)) (\<lambda>_.
     hbind (forbid (EnforceClassification p (fb_classification current) cap)) (\<lambda>_.
     hreturn current))))"

definition updateFabric :: "ipam_env \<Rightarrow> principal \<Rightarrow> string \<Rightarrow> json option \<Rightarrow> (fabric, fabric resp) ihandler" where
  "updateFabric E p url body =
     hbind (idFromURL E url) (\<lambda>i.
     hbind (own_fabric E p i ''ipam:fabrics:update'') (\<lambda>_.
     hbind (patch_body body) (\<lambda>kvs.
     hbind (forbid (if has kvs ''enclave''
              then EnforceEnclave p (field kvs ''enclave'' into_string) ''ipam:fabrics:update'' else None)) (\<lambda>_.
     hbind (forbid (if has kvs ''classification''
              then EnforceClassification p (field kvs ''classification'' into_string) ''ipam:fabrics:update''
              else None)) (\<lambda>_.
     hbind (invalid_if E (Option.bind (field kvs ''slug'' into_string) validateSlug)) (\<lambda>_.
     hbind (ask E ''UpdateFabric'' (UpdateFabric i (fabric_patch kvs)) (mapIpamErr ''fabric not found'')) (\<lambda>out.
     hbind (auditMut E ''fabric.update'' i) (\<lambda>_.
     hreturn (HttpJSON 200 out)))))))))"

text \<open>The tail of every delete.\<close>

definition delete_and_audit ::
    "ipam_env \<Rightarrow> iquery \<Rightarrow> (uuid \<Rightarrow> unit squery) \<Rightarrow> string \<Rightarrow> string \<Rightarrow> uuid \<Rightarrow> ('r, 'r resp) ihandler" where
  "delete_and_audit E Q del notFoundMsg action i =
     hbind (ask E Q (del i) (mapIpamErr notFoundMsg)) (\<lambda>_.
     hbind (auditMut E action i) (\<lambda>_.
     hreturn HttpNoContent))"

definition refuse_dependents ::
    "ipam_env \<Rightarrow> iquery \<Rightarrow> nat squery \<Rightarrow> string \<Rightarrow> string \<Rightarrow> ('r, unit) ihandler" where
  "refuse_dependents E Q counting notFoundMsg msg =
     hbind (ask E Q counting (mapIpamErr notFoundMsg)) (\<lambda>n. reject_if (0 < n) 409 msg)"

definition deleteFabric :: "ipam_env \<Rightarrow> principal \<Rightarrow> string \<Rightarrow> (fabric, fabric resp) ihandler" where
  "deleteFabric E p url =
     hbind (idFromURL E url) (\<lambda>i.
     hbind (own_fabric E p i ''ipam:fabrics:delete'') (\<lambda>_.
     hbind (refuse_dependents E ''CountVrfsInFabric'' (CountVrfsInFabric i) ''fabric not found''
              ''fabric still has VRFs; remove them first'') (\<lambda>_.
     delete_and_audit E ''DeleteFabric'' DeleteFabric ''fabric not found'' ''fabric.delete'' i)))"

section \<open>VRFs\<close>

record vrf_req =
  vr_fabric :: uuid
  vr_name :: string
  vr_route_target :: "string option"
  vr_description :: "string option"
  vr_is_default :: bool

definition createVrf :: "ipam_env \<Rightarrow> principal \<Rightarrow> vrf_req option \<Rightarrow> (vrf, vrf resp) ihandler" where
  "createVrf E p body =
     hbind (required body (\<lambda>q. vr_name q \<noteq> [] \<and> vr_fabric q \<noteq> uuid_nil) ''fabric_id and name required'') (\<lambda>req.
     hbind (enforceFabric p (vr_fabric req) ''ipam:vrfs:create'') (\<lambda>_.
     hbind (ask E ''CreateVrf''
              (\<lambda>db. CreateVrf
                 \<lparr>vrf_id = gen_id E db, vrf_fabric = vr_fabric req, vrf_name = vr_name req,
                  vrf_route_target = vr_route_target req, vrf_description = vr_description req,
                  vrf_is_default = vr_is_default req\<rparr> db)
              (mapIpamErr ''vrf not found'')) (\<lambda>out.
     hbind (auditMut E ''vrf.create'' (vrf_id out)) (\<lambda>_.
     hreturn (HttpJSON 201 out)))))"

definition vrf_patch :: "json_object \<Rightarrow> vrf \<Rightarrow> vrf" where
  "vrf_patch kvs v = v
     \<lparr>vrf_name := coalesced kvs ''name'' into_string (vrf_name v),
      vrf_route_target := patched kvs ''route_target'' into_string (vrf_route_target v),
      vrf_description := patched kvs ''description'' into_string (vrf_description v),
      vrf_is_default := coalesced kvs ''is_default'' into_bool (vrf_is_default v)\<rparr>"

text \<open>\<^verbatim>\<open>{id}\<close>, the fabric it belongs to, and the caller's scope over that fabric.\<close>

definition scoped_target ::
    "('s, 'z) db_env_scheme \<Rightarrow> principal \<Rightarrow> string \<Rightarrow> iquery \<Rightarrow> (uuid \<Rightarrow> ('s, uuid) statement) \<Rightarrow> string \<Rightarrow> string \<Rightarrow> ('s, 'r, uuid) web" where
  "scoped_target E p url Q getFabric notFoundMsg cap =
     hbind (idFromURL E url) (\<lambda>i.
     hbind (lookupFabricID E Q (getFabric i) notFoundMsg) (\<lambda>fid.
     hbind (enforceFabric p fid cap) (\<lambda>_.
     hreturn i)))"

text \<open>The tail of every partial update: decode, update, audit.\<close>

definition patch_and_audit ::
    "ipam_env \<Rightarrow> json option \<Rightarrow> iquery \<Rightarrow> (json_object \<Rightarrow> 'r squery) \<Rightarrow> string \<Rightarrow> string \<Rightarrow> uuid \<Rightarrow> ('r, 'r resp) ihandler" where
  "patch_and_audit E body Q upd notFoundMsg action i =
     hbind (patch_body body) (\<lambda>kvs.
     hbind (ask E Q (upd kvs) (mapIpamErr notFoundMsg)) (\<lambda>out.
     hbind (auditMut E action i) (\<lambda>_.
     hreturn (HttpJSON 200 out))))"

definition updateVrf :: "ipam_env \<Rightarrow> principal \<Rightarrow> string \<Rightarrow> json option \<Rightarrow> (vrf, vrf resp) ihandler" where
  "updateVrf E p url body =
     hbind (scoped_target E p url ''GetVrfFabricID'' GetVrfFabricID ''vrf not found'' ''ipam:vrfs:update'') (\<lambda>i.
     patch_and_audit E body ''UpdateVrf'' (\<lambda>kvs. UpdateVrf i (vrf_patch kvs)) ''vrf not found'' ''vrf.update'' i)"

definition deleteVrf :: "ipam_env \<Rightarrow> principal \<Rightarrow> string \<Rightarrow> (vrf, vrf resp) ihandler" where
  "deleteVrf E p url =
     hbind (scoped_target E p url ''GetVrfFabricID'' GetVrfFabricID ''vrf not found'' ''ipam:vrfs:delete'') (\<lambda>i.
     hbind (ask E ''GetVrf'' (GetVrf i) (mapIpamErr ''vrf not found'')) (\<lambda>current.
     hbind (reject_if (vrf_is_default current) 400 ''cannot delete a fabric's default VRF'') (\<lambda>_.
     hbind (refuse_dependents E ''CountSupernetsInVrf'' (CountSupernetsInVrf i) ''vrf not found''
              ''vrf still has supernets; remove them first'') (\<lambda>_.
     delete_and_audit E ''DeleteVrf'' DeleteVrf ''vrf not found'' ''vrf.delete'' i))))"


section \<open>BGP bindings of VRFs\<close>

text \<open>These three have no scope check at all.\<close>

record vbp_req =
  br_vrf :: uuid
  br_peer :: uuid
  br_family :: string
  br_rd :: "string option"
  br_enabled :: "bool option"

definition or_true :: "bool option \<Rightarrow> bool" where
  "or_true b = (case b of None \<Rightarrow> True | Some v \<Rightarrow> v)"

definition createVrfBgpPeer :: "ipam_env \<Rightarrow> vbp_req option \<Rightarrow> (vrf_bgp_peer, vrf_bgp_peer resp) ihandler" where
  "createVrfBgpPeer E body =
     hbind (required body (\<lambda>q. br_vrf q \<noteq> uuid_nil \<and> br_peer q \<noteq> uuid_nil \<and> br_family q \<noteq> [])
              ''vrf_id, bgp_peer_id, address_family required'') (\<lambda>req.
     hbind (ask E ''CreateVrfBgpPeer''
              (\<lambda>db. CreateVrfBgpPeer
                 \<lparr>vbp_id = gen_id E db, vbp_vrf = br_vrf req, vbp_peer = br_peer req,
                  vbp_family = br_family req, vbp_rd = br_rd req, vbp_enabled = or_true (br_enabled req)\<rparr> db)
              (mapIpamErr ''binding not found'')) (\<lambda>out.
     hbind (auditMut E ''vrf_bgp_peer.create'' (vbp_id out)) (\<lambda>_.
     hreturn (HttpJSON 201 out))))"

definition vbp_patch :: "json_object \<Rightarrow> vrf_bgp_peer \<Rightarrow> vrf_bgp_peer" where
  "vbp_patch kvs b = b
     \<lparr>vbp_rd := patched kvs ''rd'' into_string (vbp_rd b),
      vbp_enabled := coalesced kvs ''enabled'' into_bool (vbp_enabled b)\<rparr>"

definition updateVrfBgpPeer ::
    "ipam_env \<Rightarrow> string \<Rightarrow> json option \<Rightarrow> (vrf_bgp_peer, vrf_bgp_peer resp) ihandler" where
  "updateVrfBgpPeer E url body =
     hbind (idFromURL E url) (\<lambda>i.
     patch_and_audit E body ''UpdateVrfBgpPeer'' (\<lambda>kvs. UpdateVrfBgpPeer i (vbp_patch kvs))
       ''binding not found'' ''vrf_bgp_peer.update'' i)"

definition deleteVrfBgpPeer :: "ipam_env \<Rightarrow> string \<Rightarrow> (vrf_bgp_peer, vrf_bgp_peer resp) ihandler" where
  "deleteVrfBgpPeer E url =
     hbind (idFromURL E url) (\<lambda>i.
     delete_and_audit E ''DeleteVrfBgpPeer'' DeleteVrfBgpPeer ''binding not found'' ''vrf_bgp_peer.delete'' i)"

section \<open>Supernets\<close>

text \<open>The row the validators read: \<^verbatim>\<open>GetSupernet\<close> renders the prefix as text.\<close>

definition supernet_view :: "ipam_env \<Rightarrow> supernet_rec \<Rightarrow> supernet_row" where
  "supernet_view E n =
     \<lparr>sp_id = nt_id n, sp_fabric = nt_fabric n, sp_vrf = nt_vrf n,
      sp_prefix = cidr_show E (nt_prefix n), sp_purpose = nt_purpose n\<rparr>"

definition view_result :: "ipam_env \<Rightarrow> dberr + supernet_rec \<Rightarrow> dberr + supernet_row" where
  "view_result E r = (case r of Inl e \<Rightarrow> Inl e | Inr n \<Rightarrow> Inr (supernet_view E n))"

text \<open>The parent's purpose, when there is a parent.\<close>

definition parent_purpose ::
    "ipam_env \<Rightarrow> uuid option \<Rightarrow> prefix \<Rightarrow> uuid \<Rightarrow> uuid \<Rightarrow> ('r, string option) ihandler" where
  "parent_purpose E parent p fabricID vrfID =
     (case parent of
        None \<Rightarrow> hreturn None
      | Some i \<Rightarrow> (\<lambda>db.
          case iexec E ''GetSupernet'' (GetSupernet i) db of (r, db') \<Rightarrow>
            validated E
              (case assertSupernetInsideParent (\<lambda>_. view_result E r) i p fabricID vrfID of
                 Inl e \<Rightarrow> Inl e | Inr row \<Rightarrow> Inr (sp_purpose row)) db'))"

record supernet_req =
  nr_fabric :: uuid
  nr_vrf :: uuid
  nr_parent :: "uuid option"
  nr_site :: "uuid option"
  nr_prefix :: string
  nr_name :: "string option"
  nr_description :: "string option"
  nr_purpose :: "string option"

definition createSupernet ::
    "ipam_env \<Rightarrow> principal \<Rightarrow> supernet_req option \<Rightarrow> (supernet_rec, supernet_rec resp) ihandler" where
  "createSupernet E p body =
     hbind (required body (\<lambda>q. nr_fabric q \<noteq> uuid_nil \<and> nr_vrf q \<noteq> uuid_nil \<and> nr_prefix q \<noteq> [])
              ''fabric_id, vrf_id, prefix required'') (\<lambda>req.
     hbind (enforceFabric p (nr_fabric req) ''ipam:supernets:create'') (\<lambda>_.
     hbind (validated E (parseCIDR (nr_prefix req))) (\<lambda>pfx.
     hbind (parent_purpose E (nr_parent req) pfx (nr_fabric req) (nr_vrf req)) (\<lambda>parentPurpose.
     hbind (invalid_if E (validatePurposeCompatible parentPurpose (nr_purpose req))) (\<lambda>_.
     hbind (ask E ''CreateSupernet''
              (with_cidr E (nr_prefix req) (\<lambda>cidr db. CreateSupernet
                 \<lparr>nt_id = gen_id E db, nt_fabric = nr_fabric req, nt_vrf = nr_vrf req,
                  nt_parent = nr_parent req, nt_site = nr_site req, nt_prefix = cidr,
                  nt_name = nr_name req, nt_description = nr_description req,
                  nt_purpose = nr_purpose req, nt_owner = None\<rparr> db))
              (mapIpamErr ''supernet not found'')) (\<lambda>out.
     hbind (auditMut E ''supernet.create'' (nt_id out)) (\<lambda>_.
     hreturn (HttpJSON 201 out))))))))"

definition supernet_patch :: "ipam_env \<Rightarrow> json_object \<Rightarrow> supernet_rec \<Rightarrow> supernet_rec" where
  "supernet_patch E kvs n = n
     \<lparr>nt_parent := patched kvs ''parent_supernet_id'' (into_uuid (parse_uuid E)) (nt_parent n),
      nt_site := patched kvs ''site_id'' (into_uuid (parse_uuid E)) (nt_site n),
      nt_name := patched kvs ''name'' into_string (nt_name n),
      nt_description := patched kvs ''description'' into_string (nt_description n),
      nt_purpose := patched kvs ''purpose'' into_string (nt_purpose n)\<rparr>"

definition scoped_supernet :: "ipam_env \<Rightarrow> principal \<Rightarrow> string \<Rightarrow> string \<Rightarrow> ('r, uuid) ihandler" where
  "scoped_supernet E p url cap =
     hbind (idFromURL E url) (\<lambda>i.
     hbind (ask E ''GetSupernetVrfAndFabric'' (GetSupernetVrfAndFabric i) (mapIpamErr ''supernet not found'')) (\<lambda>parent.
     hbind (enforceFabric p (snd parent) cap) (\<lambda>_.
     hreturn i)))"

definition updateSupernet ::
    "ipam_env \<Rightarrow> principal \<Rightarrow> string \<Rightarrow> json option \<Rightarrow> (supernet_rec, supernet_rec resp) ihandler" where
  "updateSupernet E p url body =
     hbind (scoped_supernet E p url ''ipam:supernets:update'') (\<lambda>i.
     patch_and_audit E body ''UpdateSupernet'' (\<lambda>kvs. UpdateSupernet i (supernet_patch E kvs))
       ''supernet not found'' ''supernet.update'' i)"

definition deleteSupernet :: "ipam_env \<Rightarrow> principal \<Rightarrow> string \<Rightarrow> (supernet_rec, supernet_rec resp) ihandler" where
  "deleteSupernet E p url =
     hbind (scoped_supernet E p url ''ipam:supernets:delete'') (\<lambda>i.
     hbind (refuse_dependents E ''CountSubnetsInSupernet'' (CountSubnetsInSupernet i) ''supernet not found''
              ''supernet still has subnets; remove them first'') (\<lambda>_.
     delete_and_audit E ''DeleteSupernet'' DeleteSupernet ''supernet not found'' ''supernet.delete'' i))"

section \<open>The move out of the landing fabric\<close>

definition loadMoveable :: "ipam_env \<Rightarrow> uuid \<Rightarrow> principal \<Rightarrow> ('r, move_row) ihandler" where
  "loadMoveable E i p =
     hbind (ask E ''GetSupernetForMove'' (GetSupernetForMove i) (mapIpamErr ''supernet not found'')) (\<lambda>src.
     hbind (reject_if (\<not> CurrentFabricIsSystem src) 409
              ''supernet is not in the LIR landing fabric; nothing to move'') (\<lambda>_.
     case OwnerOrganizationID src of
       None \<Rightarrow> hanswer (HttpError 409
                 ''only tenant-owned supernets (with owner_organization_id) can be moved'')
     | Some org \<Rightarrow>
         hbind (reject_if
                  (case FindScope p ''ipam:supernets:update'' of
                     None \<Rightarrow> False | Some s \<Rightarrow> \<not> OrganizationMatches s org) 403
                  ''supernet's owner organization is outside your scope for ipam:supernets:update'') (\<lambda>_.
         hreturn src)))"

definition parse_field :: "ipam_env \<Rightarrow> string \<Rightarrow> string \<Rightarrow> ('r, uuid) ihandler" where
  "parse_field E raw msg =
     (case parse_uuid E raw of None \<Rightarrow> hanswer (HttpError 400 msg) | Some i \<Rightarrow> hreturn i)"

definition parseAndValidateMoveTarget ::
    "ipam_env \<Rightarrow> (string \<times> string) option \<Rightarrow> principal \<Rightarrow> ('r, uuid \<times> uuid) ihandler" where
  "parseAndValidateMoveTarget E body p =
     hbind (required body (\<lambda>_. True) ''bad request body'') (\<lambda>req.
     hbind (reject_if (fst req = [] \<or> snd req = []) 400 ''fabric_id and vrf_id are required'') (\<lambda>_.
     hbind (parse_field E (fst req) ''fabric_id is not a uuid'') (\<lambda>fabricID.
     hbind (parse_field E (snd req) ''vrf_id is not a uuid'') (\<lambda>vrfID.
     hbind (ask E ''GetVrfForMove'' (GetVrfForMove vrfID) (mapIpamErr ''target vrf not found'')) (\<lambda>v.
     hbind (reject_if (snd v \<noteq> fabricID) 422 ''target vrf does not belong to target fabric'') (\<lambda>_.
     hbind (enforceFabric p fabricID ''ipam:supernets:update'') (\<lambda>_.
     hreturn (fabricID, vrfID))))))))"

definition moveErr :: "dberr \<Rightarrow> 'r resp" where
  "moveErr e =
     (case e of
        NoRows \<Rightarrow> HttpError 409
          ''supernet raced: it left the landing fabric or gained a child subnet; re-fetch and retry''
      | _ \<Rightarrow> mapIpamErr ''supernet not found'' e)"

definition moveSupernet ::
    "ipam_env \<Rightarrow> principal \<Rightarrow> string \<Rightarrow> (string \<times> string) option \<Rightarrow> (supernet_rec, supernet_rec resp) ihandler" where
  "moveSupernet E p url body =
     hbind (idFromURL E url) (\<lambda>i.
     hbind (loadMoveable E i p) (\<lambda>src.
     hbind (parseAndValidateMoveTarget E body p) (\<lambda>tgt.
     hbind (ask E ''MoveSupernet'' (MoveSupernet i (fst tgt) (snd tgt) (CurrentFabricID src)) moveErr) (\<lambda>out.
     hbind (auditMut E ''ipam.supernet.move'' i) (\<lambda>_.
     hreturn (HttpJSON 200 out))))))"

section \<open>Subnets\<close>

record subnet_req =
  sr_supernet :: uuid
  sr_site :: "uuid option"
  sr_vni :: "uuid option"
  sr_prefix :: string
  sr_name :: "string option"
  sr_description :: "string option"
  sr_purpose :: "string option"
  sr_vlan :: "int option"
  sr_gateway :: "string option"

text \<open>\<^verbatim>\<open>assertSubnetInsideSupernet\<close> with the query it makes.\<close>

definition parent_supernet ::
    "ipam_env \<Rightarrow> uuid \<Rightarrow> prefix \<Rightarrow> ipam_db \<Rightarrow> (verror + supernet_row) \<times> ipam_db" where
  "parent_supernet E i p db =
     (case iexec E ''GetSupernet'' (GetSupernet i) db of (r, db') \<Rightarrow>
        (assertSubnetInsideSupernet (\<lambda>_. view_result E r) i p, db'))"

definition insert_subnet :: "ipam_env \<Rightarrow> subnet_req \<Rightarrow> supernet_row \<Rightarrow> subnet_rec squery" where
  "insert_subnet E req parent =
     with_cidr E (sr_prefix req) (\<lambda>cidr. with_inet E (sr_gateway req) (\<lambda>gw db. CreateSubnet
       \<lparr>sb_id = gen_id E db, sb_supernet = sr_supernet req, sb_fabric = sp_fabric parent,
        sb_vrf = sp_vrf parent, sb_site = sr_site req, sb_vni = sr_vni req, sb_prefix = cidr,
        sb_name = sr_name req, sb_description = sr_description req, sb_purpose = sr_purpose req,
        sb_vlan = sr_vlan req, sb_gateway = gw\<rparr> db))"

definition createSubnet ::
    "ipam_env \<Rightarrow> principal \<Rightarrow> subnet_req option \<Rightarrow> (subnet_rec, subnet_rec resp) ihandler" where
  "createSubnet E p body =
     hbind (required body (\<lambda>q. sr_supernet q \<noteq> uuid_nil \<and> sr_prefix q \<noteq> []) ''supernet_id and prefix required'') (\<lambda>req.
     hbind (validated E (parseCIDR (sr_prefix req))) (\<lambda>pfx.
     hbind (\<lambda>db. case parent_supernet E (sr_supernet req) pfx db of (r, db') \<Rightarrow> validated E r db') (\<lambda>parent.
     hbind (enforceFabric p (sp_fabric parent) ''ipam:subnets:create'') (\<lambda>_.
     hbind (invalid_if E (validatePurposeCompatible (sp_purpose parent) (sr_purpose req))) (\<lambda>_.
     hbind (ask E ''CreateSubnet'' (insert_subnet E req parent) (mapIpamErr ''subnet not found'')) (\<lambda>out.
     hbind (auditMut E ''subnet.create'' (sb_id out)) (\<lambda>_.
     hreturn (HttpJSON 201 out))))))))"

definition subnet_patch :: "ipam_env \<Rightarrow> json_object \<Rightarrow> inet option \<Rightarrow> subnet_rec \<Rightarrow> subnet_rec" where
  "subnet_patch E kvs gw s = s
     \<lparr>sb_supernet := coalesced kvs ''supernet_id'' (into_uuid (parse_uuid E)) (sb_supernet s),
      sb_site := patched kvs ''site_id'' (into_uuid (parse_uuid E)) (sb_site s),
      sb_vni := patched kvs ''vni_id'' (into_uuid (parse_uuid E)) (sb_vni s),
      sb_name := patched kvs ''name'' into_string (sb_name s),
      sb_description := patched kvs ''description'' into_string (sb_description s),
      sb_purpose := patched kvs ''purpose'' into_string (sb_purpose s),
      sb_vlan := patched kvs ''vlan_id'' into_int32 (sb_vlan s),
      sb_gateway := (if has kvs ''gateway'' then gw else sb_gateway s)\<rparr>"

definition updateSubnet ::
    "ipam_env \<Rightarrow> principal \<Rightarrow> string \<Rightarrow> json option \<Rightarrow> (subnet_rec, subnet_rec resp) ihandler" where
  "updateSubnet E p url body =
     hbind (scoped_target E p url ''GetSubnetFabricID'' GetSubnetFabricID ''subnet not found'' ''ipam:subnets:update'') (\<lambda>i.
     patch_and_audit E body ''UpdateSubnet''
       (\<lambda>kvs. with_inet E (field kvs ''gateway'' into_string) (\<lambda>gw. UpdateSubnet i (subnet_patch E kvs gw)))
       ''subnet not found'' ''subnet.update'' i)"

definition deleteSubnet :: "ipam_env \<Rightarrow> principal \<Rightarrow> string \<Rightarrow> (subnet_rec, subnet_rec resp) ihandler" where
  "deleteSubnet E p url =
     hbind (scoped_target E p url ''GetSubnetFabricID'' GetSubnetFabricID ''subnet not found'' ''ipam:subnets:delete'') (\<lambda>i.
     hbind (refuse_dependents E ''CountAddressesInSubnet'' (CountAddressesInSubnet i) ''subnet not found''
              ''subnet still has addresses; remove them first'') (\<lambda>_.
     delete_and_audit E ''DeleteSubnet'' DeleteSubnet ''subnet not found'' ''subnet.delete'' i))"

section \<open>Addresses\<close>

record address_req =
  ar_subnet :: uuid
  ar_asset :: "uuid option"
  ar_address :: string
  ar_role :: string
  ar_status :: string
  ar_source :: string
  ar_dns_name :: "string option"
  ar_description :: "string option"

text \<open>\<^verbatim>\<open>assertAddressInSubnet\<close> with the query it makes.\<close>

definition subnet_of_address ::
    "ipam_env \<Rightarrow> uuid \<Rightarrow> addr \<Rightarrow> ipam_db \<Rightarrow> (verror + subnet_rec) \<times> ipam_db" where
  "subnet_of_address E i a db =
     (case iexec E ''GetSubnet'' (GetSubnet i) db of
        (Inl e, db') \<Rightarrow> (Inl (ParentNotFound i), db')
      | (Inr s, db') \<Rightarrow>
          (case assertAddressInSubnet (\<lambda>_. Inr (cidr_show E (sb_prefix s))) i a of
             Inl e \<Rightarrow> (Inl e, db') | Inr _ \<Rightarrow> (Inr s, db')))"

definition insert_address :: "ipam_env \<Rightarrow> address_req \<Rightarrow> ip_address squery" where
  "insert_address E req =
     (case inet_read E (ar_address req) of
        None \<Rightarrow> reading (\<lambda>db. Inl bad_input)
      | Some a \<Rightarrow> (\<lambda>db. CreateIPAddress
          \<lparr>ad_id = gen_id E db, ad_subnet = ar_subnet req, ad_asset = ar_asset req, ad_address = a,
           ad_role = or_default ''data'' (ar_role req), ad_status = or_default ''active'' (ar_status req),
           ad_source = or_default ''static'' (ar_source req), ad_dns_name = ar_dns_name req,
           ad_description = ar_description req, ad_lease_expires = None, ad_mac = None, ad_duid = None\<rparr> db))"

definition createAddress ::
    "ipam_env \<Rightarrow> principal \<Rightarrow> address_req option \<Rightarrow> (ip_address, ip_address resp) ihandler" where
  "createAddress E p body =
     hbind (required body (\<lambda>q. ar_subnet q \<noteq> uuid_nil \<and> ar_address q \<noteq> []) ''subnet_id and address required'') (\<lambda>req.
     hbind (validated E (parseAddr (ar_address req))) (\<lambda>a.
     hbind (\<lambda>db. case subnet_of_address E (ar_subnet req) a db of (r, db') \<Rightarrow> validated E r db') (\<lambda>sub.
     hbind (enforceFabric p (sb_fabric sub) ''ipam:addresses:create'') (\<lambda>_.
     hbind (ask E ''CreateIPAddress'' (insert_address E req) (mapIpamErr ''address not found'')) (\<lambda>out.
     hbind (auditMut E ''ip_address.create'' (ad_id out)) (\<lambda>_.
     hreturn (HttpJSON 201 out)))))))"

definition address_patch :: "ipam_env \<Rightarrow> json_object \<Rightarrow> ip_address \<Rightarrow> ip_address" where
  "address_patch E kvs a = a
     \<lparr>ad_asset := patched kvs ''asset_id'' (into_uuid (parse_uuid E)) (ad_asset a),
      ad_role := coalesced kvs ''role'' into_string (ad_role a),
      ad_status := coalesced kvs ''status'' into_string (ad_status a),
      ad_dns_name := patched kvs ''dns_name'' into_string (ad_dns_name a),
      ad_description := patched kvs ''description'' into_string (ad_description a)\<rparr>"

definition updateAddress ::
    "ipam_env \<Rightarrow> principal \<Rightarrow> string \<Rightarrow> json option \<Rightarrow> (ip_address, ip_address resp) ihandler" where
  "updateAddress E p url body =
     hbind (scoped_target E p url ''GetIPAddressFabricID'' GetIPAddressFabricID ''address not found'' ''ipam:addresses:update'') (\<lambda>i.
     patch_and_audit E body ''UpdateIPAddress'' (\<lambda>kvs. UpdateIPAddress i (address_patch E kvs))
       ''address not found'' ''ip_address.update'' i)"

definition deleteAddress :: "ipam_env \<Rightarrow> principal \<Rightarrow> string \<Rightarrow> (ip_address, ip_address resp) ihandler" where
  "deleteAddress E p url =
     hbind (scoped_target E p url ''GetIPAddressFabricID'' GetIPAddressFabricID ''address not found'' ''ipam:addresses:delete'') (\<lambda>i.
     delete_and_audit E ''DeleteIPAddress'' DeleteIPAddress ''address not found'' ''ip_address.delete'' i)"

end
