(* ===== verification/IpamOverlays.thy ===== *)
theory IpamOverlays
  imports IpamHandlers
begin

text \<open>
  The mutations of \<^verbatim>\<open>internal/ipam/mutations.go\<close> on overlays, VNIs, VTEPs, their
  memberships and DHCP servers, and the batch inserts of \<^verbatim>\<open>bulk_subnets.go\<close> and
  \<^verbatim>\<open>bulk_addresses.go\<close>.
\<close>

section \<open>Overlays\<close>

record overlay_req =
  or_fabric :: uuid
  or_name :: string
  or_kind :: string
  or_udp_port :: "int option"
  or_mtu :: "int option"
  or_underlay :: "uuid option"
  or_description :: "string option"

definition createOverlay :: "ipam_env \<Rightarrow> principal \<Rightarrow> overlay_req option \<Rightarrow> (overlay, overlay resp) ihandler" where
  "createOverlay E p body =
     hbind (required body (\<lambda>q. or_fabric q \<noteq> uuid_nil \<and> or_name q \<noteq> []) ''fabric_id and name required'') (\<lambda>req.
     hbind (enforceFabric p (or_fabric req) ''ipam:overlays:create'') (\<lambda>_.
     hbind (ask E ''CreateOverlay''
              (\<lambda>db. CreateOverlay
                 \<lparr>ov_id = gen_id E db, ov_fabric = or_fabric req, ov_name = or_name req,
                  ov_kind = or_default ''vxlan'' (or_kind req),
                  ov_udp_port = (case or_udp_port req of None \<Rightarrow> 4789 | Some u \<Rightarrow> u), ov_mtu = or_mtu req,
                  ov_underlay = or_underlay req, ov_description = or_description req\<rparr> db)
              (mapIpamErr ''overlay not found'')) (\<lambda>out.
     hbind (auditMut E ''overlay.create'' (ov_id out)) (\<lambda>_.
     hreturn (HttpJSON 201 out)))))"

definition overlay_patch :: "ipam_env \<Rightarrow> json_object \<Rightarrow> overlay \<Rightarrow> overlay" where
  "overlay_patch E kvs x = x
     \<lparr>ov_name := coalesced kvs ''name'' into_string (ov_name x),
      ov_kind := coalesced kvs ''kind'' into_string (ov_kind x),
      ov_udp_port := coalesced kvs ''udp_port'' into_int32 (ov_udp_port x),
      ov_mtu := patched kvs ''mtu'' into_int32 (ov_mtu x),
      ov_underlay := patched kvs ''underlay_vrf_id'' (into_uuid (parse_uuid E)) (ov_underlay x),
      ov_description := patched kvs ''description'' into_string (ov_description x)\<rparr>"

definition updateOverlay ::
    "ipam_env \<Rightarrow> principal \<Rightarrow> string \<Rightarrow> json option \<Rightarrow> (overlay, overlay resp) ihandler" where
  "updateOverlay E p url body =
     hbind (scoped_target E p url ''GetOverlayFabricID'' GetOverlayFabricID ''overlay not found'' ''ipam:overlays:update'') (\<lambda>i.
     patch_and_audit E body ''UpdateOverlay'' (\<lambda>kvs. UpdateOverlay i (overlay_patch E kvs))
       ''overlay not found'' ''overlay.update'' i)"

definition deleteOverlay :: "ipam_env \<Rightarrow> principal \<Rightarrow> string \<Rightarrow> (overlay, overlay resp) ihandler" where
  "deleteOverlay E p url =
     hbind (scoped_target E p url ''GetOverlayFabricID'' GetOverlayFabricID ''overlay not found'' ''ipam:overlays:delete'') (\<lambda>i.
     hbind (refuse_dependents E ''CountVnisInOverlay'' (CountVnisInOverlay i) ''overlay not found''
              ''overlay still has VNIs; remove them first'') (\<lambda>_.
     delete_and_audit E ''DeleteOverlay'' DeleteOverlay ''overlay not found'' ''overlay.delete'' i))"

section \<open>VNIs\<close>

record vni_req =
  ir_overlay :: uuid
  ir_vni :: int
  ir_kind :: string
  ir_name :: "string option"
  ir_description :: "string option"
  ir_vlan :: "int option"
  ir_route_target :: "string option"
  ir_vrf :: "uuid option"

definition createVni :: "ipam_env \<Rightarrow> principal \<Rightarrow> vni_req option \<Rightarrow> (vni_rec, vni_rec resp) ihandler" where
  "createVni E p body =
     hbind (required body (\<lambda>q. ir_overlay q \<noteq> uuid_nil \<and> ir_vni q \<noteq> 0) ''overlay_id and vni required'') (\<lambda>req.
     hbind (lookupFabricID E ''GetOverlayFabricID'' (GetOverlayFabricID (ir_overlay req)) ''overlay not found'') (\<lambda>fid.
     hbind (enforceFabric p fid ''ipam:vnis:create'') (\<lambda>_.
     hbind (invalid_if E (validateVni (ir_vni req))) (\<lambda>_.
     hbind (invalid_if E (validateVniKind (or_default ''l2'' (ir_kind req)) (ir_vlan req) (ir_vrf req))) (\<lambda>_.
     hbind (ask E ''CreateVni''
              (\<lambda>db. CreateVni
                 \<lparr>vn_id = gen_id E db, vn_overlay = ir_overlay req, vn_vni = ir_vni req,
                  vn_kind = or_default ''l2'' (ir_kind req), vn_name = ir_name req,
                  vn_description = ir_description req, vn_vlan = ir_vlan req,
                  vn_route_target = ir_route_target req, vn_vrf = ir_vrf req\<rparr> db)
              (mapIpamErr ''vni not found'')) (\<lambda>out.
     hbind (auditMut E ''vni.create'' (vn_id out)) (\<lambda>_.
     hreturn (HttpJSON 201 out))))))))"

definition vni_patch :: "ipam_env \<Rightarrow> json_object \<Rightarrow> vni_rec \<Rightarrow> vni_rec" where
  "vni_patch E kvs v = v
     \<lparr>vn_name := patched kvs ''name'' into_string (vn_name v),
      vn_description := patched kvs ''description'' into_string (vn_description v),
      vn_vlan := patched kvs ''vlan_id'' into_int32 (vn_vlan v),
      vn_route_target := patched kvs ''evpn_route_target'' into_string (vn_route_target v),
      vn_kind := coalesced kvs ''kind'' into_string (vn_kind v),
      vn_vrf := patched kvs ''vrf_id'' (into_uuid (parse_uuid E)) (vn_vrf v)\<rparr>"

definition updateVni :: "ipam_env \<Rightarrow> principal \<Rightarrow> string \<Rightarrow> json option \<Rightarrow> (vni_rec, vni_rec resp) ihandler" where
  "updateVni E p url body =
     hbind (scoped_target E p url ''GetVniFabricID'' GetVniFabricID ''vni not found'' ''ipam:vnis:update'') (\<lambda>i.
     patch_and_audit E body ''UpdateVni'' (\<lambda>kvs. UpdateVni i (vni_patch E kvs)) ''vni not found'' ''vni.update'' i)"

definition deleteVni :: "ipam_env \<Rightarrow> principal \<Rightarrow> string \<Rightarrow> (vni_rec, vni_rec resp) ihandler" where
  "deleteVni E p url =
     hbind (scoped_target E p url ''GetVniFabricID'' GetVniFabricID ''vni not found'' ''ipam:vnis:delete'') (\<lambda>i.
     delete_and_audit E ''DeleteVni'' DeleteVni ''vni not found'' ''vni.delete'' i)"

section \<open>VTEPs and memberships\<close>

record vtep_req =
  tr_overlay :: uuid
  tr_asset :: uuid
  tr_loopback :: "string option"
  tr_role :: string
  tr_description :: "string option"

definition createVtep :: "ipam_env \<Rightarrow> principal \<Rightarrow> vtep_req option \<Rightarrow> (vtep_rec, vtep_rec resp) ihandler" where
  "createVtep E p body =
     hbind (required body (\<lambda>q. tr_overlay q \<noteq> uuid_nil \<and> tr_asset q \<noteq> uuid_nil) ''overlay_id and asset_id required'') (\<lambda>req.
     hbind (lookupFabricID E ''GetOverlayFabricID'' (GetOverlayFabricID (tr_overlay req)) ''overlay not found'') (\<lambda>fid.
     hbind (enforceFabric p fid ''ipam:vteps:create'') (\<lambda>_.
     hbind (ask E ''CreateVtep''
              (with_inet E (tr_loopback req) (\<lambda>ip db. CreateVtep
                 \<lparr>vt_id = gen_id E db, vt_overlay = tr_overlay req, vt_asset = tr_asset req,
                  vt_loopback = ip, vt_role = or_default ''leaf'' (tr_role req),
                  vt_description = tr_description req\<rparr> db))
              (mapIpamErr ''vtep not found'')) (\<lambda>out.
     hbind (auditMut E ''vtep.create'' (vt_id out)) (\<lambda>_.
     hreturn (HttpJSON 201 out))))))"

definition vtep_patch :: "json_object \<Rightarrow> inet option \<Rightarrow> vtep_rec \<Rightarrow> vtep_rec" where
  "vtep_patch kvs ip v = v
     \<lparr>vt_loopback := (if has kvs ''loopback_ip'' then ip else vt_loopback v),
      vt_role := coalesced kvs ''role'' into_string (vt_role v),
      vt_description := patched kvs ''description'' into_string (vt_description v)\<rparr>"

definition updateVtep :: "ipam_env \<Rightarrow> principal \<Rightarrow> string \<Rightarrow> json option \<Rightarrow> (vtep_rec, vtep_rec resp) ihandler" where
  "updateVtep E p url body =
     hbind (scoped_target E p url ''GetVtepFabricID'' GetVtepFabricID ''vtep not found'' ''ipam:vteps:update'') (\<lambda>i.
     patch_and_audit E body ''UpdateVtep''
       (\<lambda>kvs. with_inet E (field kvs ''loopback_ip'' into_string) (\<lambda>ip. UpdateVtep i (vtep_patch kvs ip)))
       ''vtep not found'' ''vtep.update'' i)"

definition deleteVtep :: "ipam_env \<Rightarrow> principal \<Rightarrow> string \<Rightarrow> (vtep_rec, vtep_rec resp) ihandler" where
  "deleteVtep E p url =
     hbind (scoped_target E p url ''GetVtepFabricID'' GetVtepFabricID ''vtep not found'' ''ipam:vteps:delete'') (\<lambda>i.
     delete_and_audit E ''DeleteVtep'' DeleteVtep ''vtep not found'' ''vtep.delete'' i)"

text \<open>The body is the pair of the VTEP and the VNI; only the VTEP's fabric is checked.\<close>

definition createVtepMembership ::
    "ipam_env \<Rightarrow> principal \<Rightarrow> (uuid \<times> uuid) option \<Rightarrow> (vtep_membership, vtep_membership resp) ihandler" where
  "createVtepMembership E p body =
     hbind (required body (\<lambda>q. fst q \<noteq> uuid_nil \<and> snd q \<noteq> uuid_nil) ''vtep_id and vni_id required'') (\<lambda>req.
     hbind (lookupFabricID E ''GetVtepFabricID'' (GetVtepFabricID (fst req)) ''vtep not found'') (\<lambda>fid.
     hbind (enforceFabric p fid ''ipam:vtep-memberships:create'') (\<lambda>_.
     hbind (ask E ''CreateVtepMembership''
              (\<lambda>db. CreateVtepMembership \<lparr>vm_id = gen_id E db, vm_vtep = fst req, vm_vni = snd req\<rparr> db)
              (mapIpamErr ''membership not found'')) (\<lambda>out.
     hbind (auditMut E ''vtep_membership.create'' (vm_id out)) (\<lambda>_.
     hreturn (HttpJSON 201 out))))))"

definition deleteVtepMembership ::
    "ipam_env \<Rightarrow> principal \<Rightarrow> string \<Rightarrow> (vtep_membership, vtep_membership resp) ihandler" where
  "deleteVtepMembership E p url =
     hbind (scoped_target E p url ''GetVtepMembershipFabricID'' GetVtepMembershipFabricID
              ''membership not found'' ''ipam:vtep-memberships:delete'') (\<lambda>i.
     delete_and_audit E ''DeleteVtepMembership'' DeleteVtepMembership ''membership not found''
       ''vtep_membership.delete'' i)"

section \<open>DHCP servers\<close>

record server_req =
  dr_name :: string
  dr_fabric :: uuid
  dr_kea_url :: string
  dr_username :: "string option"
  dr_password :: "string option"
  dr_enabled :: "bool option"

text \<open>The \<^verbatim>\<open>RETURNING\<close> list of both statements leaves the password out.\<close>

definition server_view :: "dhcp_server \<Rightarrow> dhcp_server" where
  "server_view s = s\<lparr>ds_password := None\<rparr>"

definition createDhcpServer ::
    "ipam_env \<Rightarrow> principal \<Rightarrow> server_req option \<Rightarrow> (dhcp_server, dhcp_server resp) ihandler" where
  "createDhcpServer E p body =
     hbind (required body (\<lambda>q. dr_name q \<noteq> [] \<and> dr_fabric q \<noteq> uuid_nil \<and> dr_kea_url q \<noteq> [])
              ''name, fabric_id, kea_url required'') (\<lambda>req.
     hbind (enforceFabric p (dr_fabric req) ''ipam:dhcp-servers:create'') (\<lambda>_.
     hbind (ask E ''CreateDhcpServer''
              (\<lambda>db. CreateDhcpServer
                 \<lparr>ds_id = gen_id E db, ds_name = dr_name req, ds_fabric = dr_fabric req,
                  ds_kea_url = dr_kea_url req, ds_username = dr_username req,
                  ds_password = dr_password req, ds_enabled = or_true (dr_enabled req),
                  last_sync_at = None, last_sync_status = None, last_sync_error = None,
                  last_sync_lease_count = None\<rparr> db)
              (mapIpamErr ''dhcp server not found'')) (\<lambda>out.
     hbind (auditMut E ''dhcp_server.create'' (ds_id out)) (\<lambda>_.
     hreturn (HttpJSON 201 (server_view out))))))"

definition server_patch :: "json_object \<Rightarrow> dhcp_server \<Rightarrow> dhcp_server" where
  "server_patch kvs s = s
     \<lparr>ds_name := coalesced kvs ''name'' into_string (ds_name s),
      ds_kea_url := coalesced kvs ''kea_url'' into_string (ds_kea_url s),
      ds_username := patched kvs ''auth_username'' into_string (ds_username s),
      ds_password := patched kvs ''auth_password'' into_string (ds_password s),
      ds_enabled := coalesced kvs ''enabled'' into_bool (ds_enabled s)\<rparr>"

definition updateDhcpServer ::
    "ipam_env \<Rightarrow> principal \<Rightarrow> string \<Rightarrow> json option \<Rightarrow> (dhcp_server, dhcp_server resp) ihandler" where
  "updateDhcpServer E p url body =
     hbind (scoped_target E p url ''GetDhcpServerFabricID'' GetDhcpServerFabricID
              ''dhcp server not found'' ''ipam:dhcp-servers:update'') (\<lambda>i.
     hbind (patch_body body) (\<lambda>kvs.
     hbind (ask E ''UpdateDhcpServer'' (UpdateDhcpServer i (server_patch kvs)) (mapIpamErr ''dhcp server not found'')) (\<lambda>out.
     hbind (auditMut E ''dhcp_server.update'' i) (\<lambda>_.
     hreturn (HttpJSON 200 (server_view out))))))"

definition deleteDhcpServer :: "ipam_env \<Rightarrow> principal \<Rightarrow> string \<Rightarrow> (dhcp_server, dhcp_server resp) ihandler" where
  "deleteDhcpServer E p url =
     hbind (scoped_target E p url ''GetDhcpServerFabricID'' GetDhcpServerFabricID
              ''dhcp server not found'' ''ipam:dhcp-servers:delete'') (\<lambda>i.
     delete_and_audit E ''DeleteDhcpServer'' DeleteDhcpServer ''dhcp server not found'' ''dhcp_server.delete'' i)"

section \<open>Batches\<close>

text \<open>\<^verbatim>\<open>bulkResult\<close>; of an error the row number and the reason are kept.\<close>

datatype row_error = RowRequired | RowInvalid verror | RowForbidden | RowFailed dberr

record bulk_result =
  Inserted :: nat
  Updated :: nat
  Skipped :: nat
  Failed :: nat
  Errors :: "(nat \<times> row_error) list"

definition add_err :: "nat \<Rightarrow> row_error \<Rightarrow> bulk_result \<Rightarrow> bulk_result" where
  "add_err i e r = r\<lparr>Failed := Failed r + 1, Errors := Errors r @ [(i, e)]\<rparr>"

definition isUniqueViolation :: "dberr \<Rightarrow> bool" where
  "isUniqueViolation e = (case e of UniqueViolation _ \<Rightarrow> True | _ \<Rightarrow> False)"

text \<open>What the outcome of the insert does to the tally.\<close>

definition tally :: "nat \<Rightarrow> dberr + 'a \<Rightarrow> bulk_result \<Rightarrow> bulk_result" where
  "tally i r out =
     (case r of
        Inl e \<Rightarrow> if isUniqueViolation e then out\<lparr>Skipped := Skipped out + 1\<rparr> else add_err i (RowFailed e) out
      | Inr _ \<Rightarrow> out\<lparr>Inserted := Inserted out + 1\<rparr>)"

definition bulkAddressRow ::
    "ipam_env \<Rightarrow> principal \<Rightarrow> nat \<Rightarrow> address_req \<Rightarrow> bulk_result \<Rightarrow> ipam_db \<Rightarrow> bulk_result \<times> ipam_db" where
  "bulkAddressRow E p i row out db =
     (if ar_subnet row = uuid_nil \<or> ar_address row = [] then (add_err i RowRequired out, db)
      else case parseAddr (ar_address row) of
        Inl e \<Rightarrow> (add_err i (RowInvalid e) out, db)
      | Inr a \<Rightarrow>
         (case subnet_of_address E (ar_subnet row) a db of
            (Inl e, db1) \<Rightarrow> (add_err i (RowInvalid e) out, db1)
          | (Inr sub, db1) \<Rightarrow>
              if EnforceFabricScope p (sb_fabric sub) ''ipam:bulk:execute'' \<noteq> None
              then (add_err i RowForbidden out, db1)
              else case iexec E ''CreateIPAddress'' (insert_address E row) db1 of
                     (r, db2) \<Rightarrow> (tally i r out, db2)))"

definition bulkSubnetRow ::
    "ipam_env \<Rightarrow> principal \<Rightarrow> nat \<Rightarrow> subnet_req \<Rightarrow> bulk_result \<Rightarrow> ipam_db \<Rightarrow> bulk_result \<times> ipam_db" where
  "bulkSubnetRow E p i row out db =
     (if sr_supernet row = uuid_nil \<or> sr_prefix row = [] then (add_err i RowRequired out, db)
      else case parseCIDR (sr_prefix row) of
        Inl e \<Rightarrow> (add_err i (RowInvalid e) out, db)
      | Inr pfx \<Rightarrow>
         (case parent_supernet E (sr_supernet row) pfx db of
            (Inl e, db1) \<Rightarrow> (add_err i (RowInvalid e) out, db1)
          | (Inr parent, db1) \<Rightarrow>
              if EnforceFabricScope p (sp_fabric parent) ''ipam:bulk:execute'' \<noteq> None
              then (add_err i RowForbidden out, db1)
              else case validatePurposeCompatible (sp_purpose parent) (sr_purpose row) of
                Some e \<Rightarrow> (add_err i (RowInvalid e) out, db1)
              | None \<Rightarrow>
                 (case iexec E ''CreateSubnet'' (insert_subnet E row parent) db1 of
                    (r, db2) \<Rightarrow> (tally i r out, db2))))"

fun bulk_rows ::
    "(nat \<Rightarrow> 'b \<Rightarrow> bulk_result \<Rightarrow> ipam_db \<Rightarrow> bulk_result \<times> ipam_db) \<Rightarrow> nat \<Rightarrow> 'b list \<Rightarrow> bulk_result
     \<Rightarrow> ipam_db \<Rightarrow> bulk_result \<times> ipam_db" where
  "bulk_rows f i [] out db = (out, db)"
| "bulk_rows f i (row # rows) out db = (case f i row out db of (out', db') \<Rightarrow> bulk_rows f (i + 1) rows out' db')"

definition no_rows :: bulk_result where
  "no_rows = \<lparr>Inserted = 0, Updated = 0, Skipped = 0, Failed = 0, Errors = []\<rparr>"

definition bulkCreateAddresses ::
    "ipam_env \<Rightarrow> principal \<Rightarrow> address_req list option \<Rightarrow> (bulk_result, bulk_result resp) ihandler" where
  "bulkCreateAddresses E p body =
     hbind (required body (\<lambda>_. True) ''payload must be a JSON array'') (\<lambda>rows db.
     case bulk_rows (bulkAddressRow E p) 0 rows no_rows db of (out, db') \<Rightarrow> (Inr (HttpJSON 200 out), db'))"

definition bulkCreateSubnets ::
    "ipam_env \<Rightarrow> principal \<Rightarrow> subnet_req list option \<Rightarrow> (bulk_result, bulk_result resp) ihandler" where
  "bulkCreateSubnets E p body =
     hbind (required body (\<lambda>_. True) ''payload must be a JSON array'') (\<lambda>rows db.
     case bulk_rows (bulkSubnetRow E p) 0 rows no_rows db of (out, db') \<Rightarrow> (Inr (HttpJSON 200 out), db'))"

end
