(* ===== verification/IpamRoutes.thy ===== *)
theory IpamRoutes
  imports IpamOverlays Authn
begin

text \<open>
  The mutating routes of \<^verbatim>\<open>Mount\<close> in \<^verbatim>\<open>internal/ipam/handler.go\<close>: the requests, the
  capability each route requires, and the dispatch to the handlers.  Of an answer the
  status is kept.
\<close>

datatype ipam_call =
    CreateFabricC "fabric_req option"
  | UpdateFabricC string "json option"
  | DeleteFabricC string
  | CreateVrfC "vrf_req option"
  | UpdateVrfC string "json option"
  | DeleteVrfC string
  | CreateBindingC "vbp_req option"
  | UpdateBindingC string "json option"
  | DeleteBindingC string
  | CreateSupernetC "supernet_req option"
  | UpdateSupernetC string "json option"
  | DeleteSupernetC string
  | MoveSupernetC string "(string \<times> string) option"
  | CreateSubnetC "subnet_req option"
  | BulkSubnetsC "subnet_req list option"
  | UpdateSubnetC string "json option"
  | DeleteSubnetC string
  | CreateAddressC "address_req option"
  | BulkAddressesC "address_req list option"
  | UpdateAddressC string "json option"
  | DeleteAddressC string
  | CreateOverlayC "overlay_req option"
  | UpdateOverlayC string "json option"
  | DeleteOverlayC string
  | CreateVniC "vni_req option"
  | UpdateVniC string "json option"
  | DeleteVniC string
  | CreateVtepC "vtep_req option"
  | UpdateVtepC string "json option"
  | DeleteVtepC string
  | CreateMembershipC "(uuid \<times> uuid) option"
  | DeleteMembershipC string
  | CreateServerC "server_req option"
  | UpdateServerC string "json option"
  | DeleteServerC string

definition ipam_capability :: "ipam_call \<Rightarrow> string" where
  "ipam_capability c =
     (case c of
        CreateFabricC _ \<Rightarrow> ''ipam:fabrics:create''
      | UpdateFabricC _ _ \<Rightarrow> ''ipam:fabrics:update''
      | DeleteFabricC _ \<Rightarrow> ''ipam:fabrics:delete''
      | CreateVrfC _ \<Rightarrow> ''ipam:vrfs:create''
      | UpdateVrfC _ _ \<Rightarrow> ''ipam:vrfs:update''
      | DeleteVrfC _ \<Rightarrow> ''ipam:vrfs:delete''
      | CreateBindingC _ \<Rightarrow> ''ipam:vrf-bgp-peers:create''
      | UpdateBindingC _ _ \<Rightarrow> ''ipam:vrf-bgp-peers:update''
      | DeleteBindingC _ \<Rightarrow> ''ipam:vrf-bgp-peers:delete''
      | CreateSupernetC _ \<Rightarrow> ''ipam:supernets:create''
      | UpdateSupernetC _ _ \<Rightarrow> ''ipam:supernets:update''
      | DeleteSupernetC _ \<Rightarrow> ''ipam:supernets:delete''
      | MoveSupernetC _ _ \<Rightarrow> ''ipam:supernets:update''
      | CreateSubnetC _ \<Rightarrow> ''ipam:subnets:create''
      | BulkSubnetsC _ \<Rightarrow> ''ipam:bulk:execute''
      | UpdateSubnetC _ _ \<Rightarrow> ''ipam:subnets:update''
      | DeleteSubnetC _ \<Rightarrow> ''ipam:subnets:delete''
      | CreateAddressC _ \<Rightarrow> ''ipam:addresses:create''
      | BulkAddressesC _ \<Rightarrow> ''ipam:bulk:execute''
      | UpdateAddressC _ _ \<Rightarrow> ''ipam:addresses:update''
      | DeleteAddressC _ \<Rightarrow> ''ipam:addresses:delete''
      | CreateOverlayC _ \<Rightarrow> ''ipam:overlays:create''
      | UpdateOverlayC _ _ \<Rightarrow> ''ipam:overlays:update''
      | DeleteOverlayC _ \<Rightarrow> ''ipam:overlays:delete''
      | CreateVniC _ \<Rightarrow> ''ipam:vnis:create''
      | UpdateVniC _ _ \<Rightarrow> ''ipam:vnis:update''
      | DeleteVniC _ \<Rightarrow> ''ipam:vnis:delete''
      | CreateVtepC _ \<Rightarrow> ''ipam:vteps:create''
      | UpdateVtepC _ _ \<Rightarrow> ''ipam:vteps:update''
      | DeleteVtepC _ \<Rightarrow> ''ipam:vteps:delete''
      | CreateMembershipC _ \<Rightarrow> ''ipam:vtep-memberships:create''
      | DeleteMembershipC _ \<Rightarrow> ''ipam:vtep-memberships:delete''
      | CreateServerC _ \<Rightarrow> ''ipam:dhcp-servers:create''
      | UpdateServerC _ _ \<Rightarrow> ''ipam:dhcp-servers:update''
      | DeleteServerC _ \<Rightarrow> ''ipam:dhcp-servers:delete'')"

definition to_status :: "('s, 'r, 'r resp) web \<Rightarrow> 's \<Rightarrow> nat \<times> 's" where
  "to_status m db = (case run m db of (r, db') \<Rightarrow> (status_of r, db'))"

definition ipam_handle :: "ipam_env \<Rightarrow> principal \<Rightarrow> ipam_call \<Rightarrow> ipam_db \<Rightarrow> nat \<times> ipam_db" where
  "ipam_handle E p c =
     (case c of
        CreateFabricC b \<Rightarrow> to_status (createFabric E p b)
      | UpdateFabricC i b \<Rightarrow> to_status (updateFabric E p i b)
      | DeleteFabricC i \<Rightarrow> to_status (deleteFabric E p i)
      | CreateVrfC b \<Rightarrow> to_status (createVrf E p b)
      | UpdateVrfC i b \<Rightarrow> to_status (updateVrf E p i b)
      | DeleteVrfC i \<Rightarrow> to_status (deleteVrf E p i)
      | CreateBindingC b \<Rightarrow> to_status (createVrfBgpPeer E b)
      | UpdateBindingC i b \<Rightarrow> to_status (updateVrfBgpPeer E i b)
      | DeleteBindingC i \<Rightarrow> to_status (deleteVrfBgpPeer E i)
      | CreateSupernetC b \<Rightarrow> to_status (createSupernet E p b)
      | UpdateSupernetC i b \<Rightarrow> to_status (updateSupernet E p i b)
      | DeleteSupernetC i \<Rightarrow> to_status (deleteSupernet E p i)
      | MoveSupernetC i b \<Rightarrow> to_status (moveSupernet E p i b)
      | CreateSubnetC b \<Rightarrow> to_status (createSubnet E p b)
      | BulkSubnetsC b \<Rightarrow> to_status (bulkCreateSubnets E p b)
      | UpdateSubnetC i b \<Rightarrow> to_status (updateSubnet E p i b)
      | DeleteSubnetC i \<Rightarrow> to_status (deleteSubnet E p i)
      | CreateAddressC b \<Rightarrow> to_status (createAddress E p b)
      | BulkAddressesC b \<Rightarrow> to_status (bulkCreateAddresses E p b)
      | UpdateAddressC i b \<Rightarrow> to_status (updateAddress E p i b)
      | DeleteAddressC i \<Rightarrow> to_status (deleteAddress E p i)
      | CreateOverlayC b \<Rightarrow> to_status (createOverlay E p b)
      | UpdateOverlayC i b \<Rightarrow> to_status (updateOverlay E p i b)
      | DeleteOverlayC i \<Rightarrow> to_status (deleteOverlay E p i)
      | CreateVniC b \<Rightarrow> to_status (createVni E p b)
      | UpdateVniC i b \<Rightarrow> to_status (updateVni E p i b)
      | DeleteVniC i \<Rightarrow> to_status (deleteVni E p i)
      | CreateVtepC b \<Rightarrow> to_status (createVtep E p b)
      | UpdateVtepC i b \<Rightarrow> to_status (updateVtep E p i b)
      | DeleteVtepC i \<Rightarrow> to_status (deleteVtep E p i)
      | CreateMembershipC b \<Rightarrow> to_status (createVtepMembership E p b)
      | DeleteMembershipC i \<Rightarrow> to_status (deleteVtepMembership E p i)
      | CreateServerC b \<Rightarrow> to_status (createDhcpServer E p b)
      | UpdateServerC i b \<Rightarrow> to_status (updateDhcpServer E p i b)
      | DeleteServerC i \<Rightarrow> to_status (deleteDhcpServer E p i))"

text \<open>\<^verbatim>\<open>r.With(auth.RequireCapability(cap))\<close> before the handler.\<close>

definition ipam_serve :: "ipam_env \<Rightarrow> principal option \<Rightarrow> ipam_call \<Rightarrow> ipam_db \<Rightarrow> nat \<times> ipam_db" where
  "ipam_serve E caller c db =
     (case RequireCapability (ipam_capability c) caller of
        Refuse code msg \<Rightarrow> (code, db)
      | Pass _ \<Rightarrow> (case caller of None \<Rightarrow> (500, db) | Some p \<Rightarrow> ipam_handle E p c db))"

section \<open>An example\<close>

text \<open>A database whose conversions are those of the text forms of \<^verbatim>\<open>NetText\<close>, which never fails
  and where nobody else writes; ids are read as decimal numbers.\<close>

definition plain_env :: ipam_env where
  "plain_env =
     \<lparr>gen_id = (\<lambda>db. 1000 + length (nets db) + length (subnets db) + length (addresses db) + length (vnis db)),
      parse_uuid = (\<lambda>s. map_option nat (atoi s)),
      db_fault = (\<lambda>Q db. None),
      others = (\<lambda>Q db. db),
      cidr_read = (\<lambda>s. case ParsePrefix s of None \<Rightarrow> None | Some q \<Rightarrow> if canonical q then Some q else None),
      cidr_show = prefix_string,
      inet_read = (\<lambda>s. case ParsePrefix s of
          Some q \<Rightarrow> Some (paddr q, plen q)
        | None \<Rightarrow> (case ParseAddr s of None \<Rightarrow> None
            | Some a \<Rightarrow> if zone a = [] then Some (a, BitLen a) else None)),
      inet_host = (\<lambda>a. addr_string (fst a)),
      inet_show = (\<lambda>a. addr_string (fst a) @ ''/'' @ dec (snd a)),
      err_text = (\<lambda>e. ''invalid'')\<rparr>"

definition example_fabric :: "uuid \<Rightarrow> fabric" where
  "example_fabric i =
     \<lparr>fb_id = i, fb_name = dec i, fb_slug = dec i, fb_description = None, fb_enclave = None,
      fb_classification = None, fb_upstreams = None, fb_deny_networks = None, fb_transfer_acl = None,
      fb_engine = ''coredns'', fb_is_system = False\<rparr>"

definition example_net :: "uuid \<Rightarrow> uuid \<Rightarrow> uuid \<Rightarrow> nat \<Rightarrow> supernet_rec" where
  "example_net i f v lo =
     \<lparr>nt_id = i, nt_fabric = f, nt_vrf = v, nt_parent = None, nt_site = None,
      nt_prefix = PrefixFrom (mk_addr V4 lo) 16, nt_name = None, nt_description = None,
      nt_purpose = None, nt_owner = None\<rparr>"

definition example_subnet :: "uuid \<Rightarrow> uuid \<Rightarrow> uuid \<Rightarrow> uuid \<Rightarrow> nat \<Rightarrow> subnet_rec" where
  "example_subnet i n f v lo =
     \<lparr>sb_id = i, sb_supernet = n, sb_fabric = f, sb_vrf = v, sb_site = None, sb_vni = None,
      sb_prefix = PrefixFrom (mk_addr V4 lo) 24, sb_name = None, sb_description = None,
      sb_purpose = None, sb_vlan = None, sb_gateway = None\<rparr>"

definition example_address :: "uuid \<Rightarrow> uuid \<Rightarrow> nat \<Rightarrow> ip_address" where
  "example_address i s v =
     \<lparr>ad_id = i, ad_subnet = s, ad_asset = None, ad_address = (mk_addr V4 v, 32), ad_role = ''data'',
      ad_status = ''active'', ad_source = ''static'', ad_dns_name = None, ad_description = None,
      ad_lease_expires = None, ad_mac = None, ad_duid = None\<rparr>"

text \<open>Two fabrics with one VRF, one /16, one /24 (\<^verbatim>\<open>10.1.0.0\<close> and \<^verbatim>\<open>10.2.0.0\<close>) and one address each.\<close>

definition example_plan :: ipam_db where
  "example_plan =
     \<lparr>fabrics = [example_fabric 1, example_fabric 2],
      vrfs = map (\<lambda>(i, f). \<lparr>vrf_id = i, vrf_fabric = f, vrf_name = ''main'', vrf_route_target = None,
        vrf_description = None, vrf_is_default = True\<rparr>) [(11, 1), (12, 2)],
      vrf_bgp_peers = [],
      nets = [example_net 21 1 11 167837696, example_net 22 2 12 167903232],
      subnets = [example_subnet 31 21 1 11 167837696, example_subnet 32 22 2 12 167903232],
      addresses = [example_address 41 31 167837701, example_address 42 32 167903237],
      overlays = [], vnis = [], vteps = [], vtep_vnis = [], dhcp_servers = [], dhcp_scopes = [],
      ipam_log = []\<rparr>"

text \<open>A caller with every capability, over one fabric.\<close>

definition fabric_user :: "uuid \<Rightarrow> principal" where
  "fabric_user f = \<lparr>Subject = 7, Capabilities = [''*''], Scopes = Some [(''*'', zero_scope\<lparr>FabricIDs := {f}\<rparr>)],
     MFA = False, Label = []\<rparr>"

end
