(* ===== verification/IpamFrame.thy ===== *)
theory IpamFrame
  imports IpamRoutes
begin

text \<open>
  What a mutation of the address plan can touch: the part of the plan that belongs to
  one fabric, and the statements of \<^verbatim>\<open>IpamQueries\<close> that leave it alone.
\<close>

named_theorems framing "statements and steps that leave the part of a fabric alone"

section \<open>The part of a fabric\<close>

definition fabric_of :: "uuid \<Rightarrow> ipam_db \<Rightarrow> fabric list" where
  "fabric_of f db = filter (\<lambda>x. fb_id x = f) (fabrics db)"

definition vrfs_of :: "uuid \<Rightarrow> ipam_db \<Rightarrow> vrf list" where
  "vrfs_of f db = filter (\<lambda>v. vrf_fabric v = f) (vrfs db)"

definition nets_of :: "uuid \<Rightarrow> ipam_db \<Rightarrow> supernet_rec list" where
  "nets_of f db = filter (\<lambda>n. nt_fabric n = f) (nets db)"

definition subnets_of :: "uuid \<Rightarrow> ipam_db \<Rightarrow> subnet_rec list" where
  "subnets_of f db = filter (\<lambda>s. sb_fabric s = f) (subnets db)"

definition addresses_of :: "uuid \<Rightarrow> ipam_db \<Rightarrow> ip_address list" where
  "addresses_of f db = filter (\<lambda>a. ad_subnet a \<in> sb_id ` set (subnets_of f db)) (addresses db)"

definition overlays_of :: "uuid \<Rightarrow> ipam_db \<Rightarrow> overlay list" where
  "overlays_of f db = filter (\<lambda>x. ov_fabric x = f) (overlays db)"

definition vnis_of :: "uuid \<Rightarrow> ipam_db \<Rightarrow> vni_rec list" where
  "vnis_of f db = filter (\<lambda>v. vn_overlay v \<in> ov_id ` set (overlays_of f db)) (vnis db)"

definition vteps_of :: "uuid \<Rightarrow> ipam_db \<Rightarrow> vtep_rec list" where
  "vteps_of f db = filter (\<lambda>v. vt_overlay v \<in> ov_id ` set (overlays_of f db)) (vteps db)"

definition memberships_of :: "uuid \<Rightarrow> ipam_db \<Rightarrow> vtep_membership list" where
  "memberships_of f db = filter (\<lambda>m. vm_vtep m \<in> vt_id ` set (vteps_of f db)) (vtep_vnis db)"

definition servers_of :: "uuid \<Rightarrow> ipam_db \<Rightarrow> dhcp_server list" where
  "servers_of f db = filter (\<lambda>s. ds_fabric s = f) (dhcp_servers db)"

lemmas part_defs = fabric_of_def vrfs_of_def nets_of_def subnets_of_def addresses_of_def
  overlays_of_def vnis_of_def vteps_of_def memberships_of_def servers_of_def

definition same_part :: "uuid \<Rightarrow> ipam_db \<Rightarrow> ipam_db \<Rightarrow> bool" where
  "same_part f db db' \<longleftrightarrow>
     fabric_of f db' = fabric_of f db \<and> vrfs_of f db' = vrfs_of f db \<and> nets_of f db' = nets_of f db
     \<and> subnets_of f db' = subnets_of f db \<and> addresses_of f db' = addresses_of f db
     \<and> overlays_of f db' = overlays_of f db \<and> vnis_of f db' = vnis_of f db
     \<and> vteps_of f db' = vteps_of f db \<and> memberships_of f db' = memberships_of f db
     \<and> servers_of f db' = servers_of f db"

text \<open>The primary keys, which Postgres keeps.\<close>

definition keyed :: "ipam_db \<Rightarrow> bool" where
  "keyed db \<longleftrightarrow>
     distinct (map fb_id (fabrics db)) \<and> distinct (map vrf_id (vrfs db)) \<and> distinct (map nt_id (nets db))
     \<and> distinct (map sb_id (subnets db)) \<and> distinct (map ad_id (addresses db))
     \<and> distinct (map ov_id (overlays db)) \<and> distinct (map vn_id (vnis db))
     \<and> distinct (map vt_id (vteps db)) \<and> distinct (map vm_id (vtep_vnis db))
     \<and> distinct (map ds_id (dhcp_servers db))"

definition framed :: "uuid \<Rightarrow> ipam_db \<Rightarrow> ipam_db \<Rightarrow> bool" where
  "framed f db0 db \<longleftrightarrow> keyed db \<and> same_part f db0 db"

text \<open>Other transactions leave the part of the fabric alone too.\<close>

definition others_avoid :: "ipam_env \<Rightarrow> uuid \<Rightarrow> bool" where
  "others_avoid E f \<longleftrightarrow> (\<forall>Q db. keyed db \<longrightarrow> framed f db (others E Q db))"

lemma same_part_refl [simp]: "same_part f db db"
  by (simp add: same_part_def)

lemma same_part_trans: "same_part f a b \<Longrightarrow> same_part f b c \<Longrightarrow> same_part f a c"
  by (simp add: same_part_def)

lemma others_framed: "\<lbrakk>others_avoid E f; framed f db0 db\<rbrakk> \<Longrightarrow> framed f db0 (others E Q db)"
  unfolding others_avoid_def framed_def using same_part_trans by blast

section \<open>Rows by key\<close>

lemma find_row_SomeD: "find_row key i rows = Some r \<Longrightarrow> r \<in> set rows \<and> key r = i"
  by (auto simp: find_row_def find_Some_iff)

lemma find_row_unique:
  "\<lbrakk>distinct (map key rows); find_row key i rows = Some r; r' \<in> set rows; key r' = i\<rbrakk> \<Longrightarrow> r' = r"
  by (drule find_row_SomeD) (metis distinct_map inj_on_def)

lemma not_in_filtered:
  "\<lbrakk>distinct (map key rows); find_row key i rows = Some r; \<not> W r\<rbrakk> \<Longrightarrow> i \<notin> key ` set (filter W rows)"
  using find_row_unique[of key rows i r] by auto

lemma find_row_None: "find_row key i rows = None \<longleftrightarrow> i \<notin> key ` set rows"
  by (auto simp: find_row_def find_None_iff)

lemma map_change_row [simp]:
  "(\<And>r. key (g r) = key r) \<Longrightarrow> map key (change_row key i g rows) = map key rows"
  by (simp add: change_row_def)

lemma filter_change_row:
  "\<lbrakk>i \<notin> key ` set (filter W rows); \<And>r. key r = i \<Longrightarrow> \<not> W r \<Longrightarrow> \<not> W (g r)\<rbrakk>
   \<Longrightarrow> filter W (change_row key i g rows) = filter W rows"
  unfolding change_row_def by (induction rows) (auto split: if_splits)

lemma filter_drop_row:
  "i \<notin> key ` set (filter W rows) \<Longrightarrow> filter W (drop_row key i rows) = filter W rows"
  unfolding drop_row_def filter_filter by (rule filter_cong) auto

lemma distinct_drop_row: "distinct (map key rows) \<Longrightarrow> distinct (map key (drop_row key i rows))"
  unfolding drop_row_def by (rule distinct_map_filter)

lemma keeps_insert:
  assumes "\<And>db. P db \<Longrightarrow> key r \<notin> key ` set (rows db) \<Longrightarrow> check r db = None \<Longrightarrow> P (put (rows db @ [r]) db)"
  shows "keeps P (insert_row rows put key check r) (\<lambda>_. True)"
  using assms by (auto simp: keeps_def insert_row_def split: option.split)

lemma keeps_update:
  assumes "\<And>db r. P db \<Longrightarrow> find_row key i (rows db) = Some r \<Longrightarrow>
     check (g r) (put (drop_row key i (rows db)) db) = None \<Longrightarrow> P (put (change_row key i g (rows db)) db)"
  shows "keeps P (update_row rows put key check i g) (\<lambda>_. True)"
  using assms by (auto simp: keeps_def update_row_def split: option.split)

lemma keeps_delete:
  assumes "\<And>db. P db \<Longrightarrow> (i \<in> key ` set (rows db) \<Longrightarrow> \<not> referenced db) \<Longrightarrow>
     P (put (drop_row key i (rows db)) db)"
  shows "keeps P (delete_row rows put key referenced i) (\<lambda>_. True)"
  using assms by (auto simp: keeps_def delete_row_def find_row_None)

section \<open>Steps\<close>

lemma keeps_ask:
  assumes "\<And>db. P db \<Longrightarrow> P (others E Q db)" "keeps P f q"
  shows "keeps P (ask E Q f onerr) q"
  unfolding keeps_def
proof (intro allI impI)
  fix db assume "P db"
  then have P: "P (others E Q db)" using assms(1) by simp
  show "P (snd (ask E Q f onerr db)) \<and> (\<forall>a. fst (ask E Q f onerr db) = Inr a \<longrightarrow> q a)"
  proof (cases "db_fault E Q (others E Q db)")
    case None
    then show ?thesis
      using P assms(2) by (cases "f (others E Q db)"; cases "fst (f (others E Q db))")
        (auto simp: ask_def iexec_def keeps_def Let_def dest!: spec[of _ "others E Q db"])
  qed (simp add: ask_def iexec_def Let_def P)
qed

lemma keeps_iexec:
  assumes "\<And>db. P db \<Longrightarrow> P (others E Q db)" "keeps P f q"
  shows "keeps P (iexec E Q f) q"
  using assms by (auto simp: keeps_def iexec_def Let_def split: option.split)

lemma keeps_dest: "\<lbrakk>keeps P m q; P db; m db = (v, db')\<rbrakk> \<Longrightarrow> P db' \<and> (\<forall>a. v = Inr a \<longrightarrow> q a)"
proof -
  assume "keeps P m q" "P db" "m db = (v, db')"
  then have "P (snd (m db)) \<and> (\<forall>a. fst (m db) = Inr a \<longrightarrow> q a)" unfolding keeps_def by blast
  then show ?thesis using \<open>m db = (v, db')\<close> by simp
qed

lemma keepsI: "(\<And>db v db'. P db \<Longrightarrow> m db = (v, db') \<Longrightarrow> P db' \<and> (\<forall>a. v = Inr a \<longrightarrow> q a)) \<Longrightarrow> keeps P m q"
proof (unfold keeps_def, intro allI impI)
  fix db assume "P db" and all: "\<And>db v db'. P db \<Longrightarrow> m db = (v, db') \<Longrightarrow> P db' \<and> (\<forall>a. v = Inr a \<longrightarrow> q a)"
  then show "P (snd (m db)) \<and> (\<forall>a. fst (m db) = Inr a \<longrightarrow> q a)"
    using all[of db "fst (m db)" "snd (m db)"] by simp
qed

lemma keeps_qbind:
  assumes "keeps P m q" "\<And>a. q a \<Longrightarrow> keeps P (f a) q'" shows "keeps P (qbind m f) q'"
proof (rule keepsI)
  fix db v db' assume "P db" and r: "qbind m f db = (v, db')"
  obtain w db1 where m: "m db = (w, db1)" by fastforce
  note k = keeps_dest[OF assms(1) \<open>P db\<close> m]
  show "P db' \<and> (\<forall>a. v = Inr a \<longrightarrow> q' a)"
  proof (cases w)
    case (Inr a)
    then show ?thesis using k keeps_dest[OF assms(2), of a db1 v db'] r m by (simp add: qbind_def)
  qed (use k r m in \<open>auto simp: qbind_def\<close>)
qed

lemma keeps_value: "keeps P (reading (\<lambda>_. Inr x)) (\<lambda>_. True)"
  by (simp add: keeps_def reading_def)

lemma keeps_exec_only: "keeps P f (\<lambda>_. True) \<Longrightarrow> keeps P (exec_only f) (\<lambda>_. True)"
  by (rule keepsI) (auto simp: exec_only_def dest: keeps_dest split: prod.splits sum.splits)

text \<open>Other transactions keep the property.\<close>

definition others_keep :: "('s, 'z) db_env_scheme \<Rightarrow> ('s \<Rightarrow> bool) \<Rightarrow> bool" where
  "others_keep E P \<longleftrightarrow> (\<forall>Q db. P db \<longrightarrow> P (others E Q db))"

lemma keeps_query: "\<lbrakk>others_keep E P; keeps P f q\<rbrakk> \<Longrightarrow> keeps P (iexec E Q f) q"
  by (rule keeps_iexec) (auto simp: others_keep_def)

lemma keeps_idFromURL: "keeps P (idFromURL E raw) (\<lambda>_. True)"
  by (auto simp: idFromURL_def keeps_done keeps_answer split: option.split)

lemma keeps_forbid: "keeps P (forbid refused) (\<lambda>_. refused = None)"
  by (auto simp: forbid_def keeps_def hreturn_def hanswer_def split: option.split)

lemma keeps_required: "keeps P (required body ok msg) ok"
  by (auto simp: required_def keeps_def hreturn_def hanswer_def split: option.split)

lemma keeps_validated: "keeps P (validated E r) (\<lambda>a. r = Inr a)"
  by (auto simp: validated_def keeps_def hreturn_def hanswer_def split: sum.split)

lemma keeps_invalid_if: "keeps P (invalid_if E err) (\<lambda>_. err = None)"
  by (auto simp: invalid_if_def keeps_def hreturn_def hanswer_def split: option.split)

lemma keeps_patch_body: "keeps P (patch_body body) (\<lambda>kvs. Option.bind body raw_map = Some kvs)"
  by (auto simp: patch_body_def keeps_def hreturn_def hanswer_def split: option.split)

lemma keeps_with_cidr: "(\<And>c. cidr_read E s = Some c \<Longrightarrow> keeps P (q c) r) \<Longrightarrow> keeps P (with_cidr E s q) r"
  by (auto simp: with_cidr_def keeps_def reading_def split: option.split)

lemma keeps_with_inet: "(\<And>a. keeps P (q a) r) \<Longrightarrow> keeps P (with_inet E s q) r"
  by (auto simp: with_inet_def keeps_def reading_def split: option.split)

lemma keeps_auditMut:
  assumes "\<And>db. P db \<Longrightarrow> P (others E ''InsertAuditLog'' db)" "\<And>db l. P db \<Longrightarrow> P (db\<lparr>ipam_log := l\<rparr>)"
  shows "keeps P (auditMut E action i) (\<lambda>_. True)"
  using assms by (auto simp: keeps_def auditMut_def Let_def split: option.split)

lemmas keeps_steps = keeps_idFromURL keeps_forbid keeps_required keeps_validated keeps_invalid_if
  keeps_patch_body keeps_reject_if keeps_done keeps_answer

section \<open>The tails the handlers share\<close>

text \<open>Neither other transactions nor the audit log touch \<open>P\<close>.\<close>

definition steady :: "ipam_env \<Rightarrow> (ipam_db \<Rightarrow> bool) \<Rightarrow> bool" where
  "steady E P \<longleftrightarrow> (\<forall>Q db. P db \<longrightarrow> P (others E Q db)) \<and> (\<forall>db l. P db \<longrightarrow> P (db\<lparr>ipam_log := l\<rparr>))"

lemma tail_ask: "\<lbrakk>steady E P; keeps P s q\<rbrakk> \<Longrightarrow> keeps P (ask E Q s onerr) q"
  by (rule keeps_ask) (auto simp: steady_def)

lemma tail_audit: "steady E P \<Longrightarrow> keeps P (hbind (auditMut E action i) (\<lambda>_. hreturn r)) (\<lambda>_. True)"
  by (rule keeps_bind[OF keeps_auditMut]) (auto simp: steady_def keeps_done)

lemma tail_patch:
  assumes "steady E P" "\<And>kvs. Option.bind body raw_map = Some kvs \<Longrightarrow> keeps P (upd kvs) (\<lambda>_. True)"
  shows "keeps P (patch_and_audit E body Q upd msg action i) (\<lambda>_. True)"
  unfolding patch_and_audit_def
  by (rule keeps_bind[OF keeps_patch_body], rule keeps_bind[OF tail_ask[OF assms]], assumption,
      rule tail_audit[OF assms(1)])

lemma tail_delete:
  assumes "steady E P" "keeps P (del i) (\<lambda>_. True)"
  shows "keeps P (delete_and_audit E Q del msg action i) (\<lambda>_. True)"
  unfolding delete_and_audit_def
  by (rule keeps_bind[OF tail_ask[OF assms]], rule tail_audit[OF assms(1)])

lemma keeps_any_reading: "keeps P (reading g) (\<lambda>_. True)"
  by (simp add: keeps_def reading_def)

lemma tail_refuse:
  assumes "steady E P"
  shows "keeps P (refuse_dependents E Q (reading g) m1 m2) (\<lambda>_. True)"
  unfolding refuse_dependents_def
  by (rule keeps_bind[OF tail_ask[OF assms keeps_any_reading]], rule keeps_weaken[OF keeps_reject_if]) simp

lemma tail_create:
  assumes "steady E P" "keeps P (ins :: 'r squery) (\<lambda>_. True)"
  shows "keeps P (hbind (ask E Q ins onerr) (\<lambda>out.
           hbind (auditMut E action (key out)) (\<lambda>_. hreturn (r out)))) (\<lambda>_. True)"
  by (rule keeps_bind[OF tail_ask[OF assms]], rule tail_audit[OF assms(1)])

lemma keeps_by_state: "(\<And>db. keeps P (f db) q) \<Longrightarrow> keeps P (\<lambda>db. f db db) q"
  by (auto simp: keeps_def)

lemma tail_target:
  assumes "steady E P" "\<And>i. keeps P (getter i) (\<lambda>_. True)"
  shows "keeps P (scoped_target E p url Q getter msg cap) (\<lambda>_. True)"
  unfolding scoped_target_def lookupFabricID_def enforceFabric_def
  by (rule keeps_bind[OF keeps_idFromURL], rule keeps_bind[OF tail_ask[OF assms]],
      rule keeps_bind[OF keeps_forbid], rule keeps_done)

lemma from_to_iexec:
  assumes "\<And>db. A db \<Longrightarrow> A' (others E Q db)" "\<And>db. A' db \<Longrightarrow> P db" "from_to A' P f q"
  shows "from_to A P (iexec E Q f) q"
  using assms by (auto simp: from_to_def iexec_def Let_def split: option.split)

lemma from_to_ask: "from_to A P (iexec E Q f) q \<Longrightarrow> from_to A P (ask E Q f onerr) q"
  by (auto simp: from_to_def ask_def split: prod.split sum.split)

end
