(* ===== verification/IpamScope.thy ===== *)
theory IpamScope
  imports IpamFrame
begin

text \<open>
  No route writes outside the caller's fabrics.  The locale states what a table owes the
  argument: which of its rows belong to a fabric, and that replacing the table by one
  with the same rows of that fabric leaves the part of the fabric as it was.  It is
  interpreted on every table; the lemmas on inserts, updates and deletes then hold for
  each of them, and the handlers are put together from those.
\<close>

section \<open>Tables of the plan\<close>

locale part_table =
  fixes rows :: "ipam_db \<Rightarrow> 'r list"
    and put :: "'r list \<Rightarrow> ipam_db \<Rightarrow> ipam_db"
    and key :: "'r \<Rightarrow> uuid"
    and belongs :: "uuid \<Rightarrow> ipam_db \<Rightarrow> 'r \<Rightarrow> bool"
  assumes keys: "keyed db \<Longrightarrow> distinct (map key (rows db))"
    and same_belongs: "same_part f db db' \<Longrightarrow> belongs f db' r = belongs f db r"
    and same_rows: "same_part f db db' \<Longrightarrow> filter (belongs f db') (rows db') = filter (belongs f db) (rows db)"
    and put_framed: "\<lbrakk>keyed db; distinct (map key rs); filter (belongs f db) rs = filter (belongs f db) (rows db)\<rbrakk>
        \<Longrightarrow> framed f db (put rs db)"
begin

lemma rows_framed:
  assumes "framed f db0 db"
  shows "filter (belongs f db) (rows db) = filter (belongs f db0) (rows db0)" "belongs f db r = belongs f db0 r"
  using assms by (simp_all add: framed_def same_rows same_belongs)

lemma framed_put:
  assumes "framed f db0 db" "distinct (map key rs)"
    and "filter (belongs f db0) rs = filter (belongs f db0) (rows db0)"
  shows "framed f db0 (put rs db)"
proof -
  have w: "belongs f db = belongs f db0" using rows_framed(2)[OF assms(1)] by blast
  have "framed f db (put rs db)"
    using assms rows_framed(1)[OF assms(1)] by (intro put_framed) (simp_all add: framed_def w)
  then show ?thesis using assms(1) unfolding framed_def using same_part_trans by blast
qed

lemma framed_filter:
  assumes "framed f db0 db"
  shows "filter (belongs f db0) (rows db) = filter (belongs f db0) (rows db0)"
proof -
  have "belongs f db = belongs f db0" using rows_framed(2)[OF assms] by blast
  then show ?thesis using rows_framed(1)[OF assms] by simp
qed

lemma insert_framed:
  assumes "\<not> belongs f db0 r"
  shows "keeps (framed f db0) (insert_row rows put key check r) (\<lambda>_. True)"
proof (rule keeps_insert)
  fix db
  assume fr: "framed f db0 db" and fresh: "key r \<notin> key ` set (rows db)"
  show "framed f db0 (put (rows db @ [r]) db)"
  proof (rule framed_put[OF fr])
    show "distinct (map key (rows db @ [r]))"
      using fresh keys[of db] fr by (auto simp: framed_def)
    show "filter (belongs f db0) (rows db @ [r]) = filter (belongs f db0) (rows db0)"
      using assms framed_filter[OF fr] by simp
  qed
qed

lemma update_framed:
  assumes "i \<notin> key ` set (filter (belongs f db0) (rows db0))"
    and "\<And>r. key (g r) = key r" "\<And>r. \<not> belongs f db0 r \<Longrightarrow> \<not> belongs f db0 (g r)"
  shows "keeps (framed f db0) (update_row rows put key check i g) (\<lambda>_. True)"
proof (rule keeps_update)
  fix db assume fr: "framed f db0 db"
  show "framed f db0 (put (change_row key i g (rows db)) db)"
  proof (rule framed_put[OF fr])
    show "distinct (map key (change_row key i g (rows db)))"
      using keys[of db] fr assms(2) by (simp add: framed_def)
    have "filter (belongs f db0) (change_row key i g (rows db)) = filter (belongs f db0) (rows db)"
      using assms(1,3) framed_filter[OF fr] by (intro filter_change_row) simp_all
    then show "filter (belongs f db0) (change_row key i g (rows db)) = filter (belongs f db0) (rows db0)"
      using framed_filter[OF fr] by simp
  qed
qed

lemma delete_framed:
  assumes "i \<notin> key ` set (filter (belongs f db0) (rows db0))"
  shows "keeps (framed f db0) (delete_row rows put key referenced i) (\<lambda>_. True)"
proof (rule keeps_delete)
  fix db assume fr: "framed f db0 db"
  show "framed f db0 (put (drop_row key i (rows db)) db)"
  proof (rule framed_put[OF fr])
    show "distinct (map key (drop_row key i (rows db)))"
      using keys[of db] fr by (simp add: framed_def distinct_drop_row)
    have "filter (belongs f db0) (drop_row key i (rows db)) = filter (belongs f db0) (rows db)"
      using assms framed_filter[OF fr] by (intro filter_drop_row) simp
    then show "filter (belongs f db0) (drop_row key i (rows db)) = filter (belongs f db0) (rows db0)"
      using framed_filter[OF fr] by simp
  qed
qed

text \<open>A row that is found and is not of the fabric: its id is none of the fabric's.\<close>

lemma found_elsewhere:
  assumes "framed f db0 db" "find_row key i (rows db) = Some r" "\<not> belongs f db0 r"
  shows "i \<notin> key ` set (filter (belongs f db0) (rows db0))"
  using not_in_filtered[of key "rows db" i r "belongs f db0"] assms keys[of db] framed_filter[OF assms(1)]
  by (simp add: framed_def)

end

section \<open>The tables\<close>

lemmas frame_simps = framed_def keyed_def same_part_def part_defs

interpretation pfabrics: part_table fabrics put_fabrics fb_id "\<lambda>f db x. fb_id x = f"
  by unfold_locales (simp_all add: frame_simps put_fabrics_def)

interpretation pvrfs: part_table vrfs put_vrfs vrf_id "\<lambda>f db v. vrf_fabric v = f"
  by unfold_locales (simp_all add: frame_simps put_vrfs_def)

interpretation pnets: part_table nets put_nets nt_id "\<lambda>f db n. nt_fabric n = f"
  by unfold_locales (simp_all add: frame_simps put_nets_def)

interpretation psubnets: part_table subnets put_subnets sb_id "\<lambda>f db s. sb_fabric s = f"
  by unfold_locales (simp_all add: frame_simps put_subnets_def del: set_filter)

text \<open>A deleted subnet also clears the references of DHCP scopes, which are of no fabric here.\<close>

interpretation psubnets_gone: part_table subnets
  "\<lambda>rs db. db\<lparr>subnets := rs, dhcp_scopes :=
     map (\<lambda>c. if sc_subnet c = Some i then c\<lparr>sc_subnet := None\<rparr> else c) (dhcp_scopes db)\<rparr>"
  sb_id "\<lambda>f db s. sb_fabric s = f" for i
  by unfold_locales (simp_all add: frame_simps del: set_filter)

interpretation paddresses: part_table addresses put_addresses ad_id
  "\<lambda>f db a. ad_subnet a \<in> sb_id ` set (subnets_of f db)"
proof unfold_locales
  fix f db db' assume "same_part f db db'"
  then show "filter (\<lambda>a. ad_subnet a \<in> sb_id ` set (subnets_of f db')) (addresses db') = filter (\<lambda>a. ad_subnet a \<in> sb_id ` set (subnets_of f db)) (addresses db)"
    unfolding same_part_def addresses_of_def by (elim conjE) simp
qed (simp_all add: frame_simps put_addresses_def del: set_filter)

interpretation poverlays: part_table overlays put_overlays ov_id "\<lambda>f db x. ov_fabric x = f"
  by unfold_locales (simp_all add: frame_simps put_overlays_def del: set_filter)

interpretation pvnis: part_table vnis put_vnis vn_id "\<lambda>f db v. vn_overlay v \<in> ov_id ` set (overlays_of f db)"
proof unfold_locales
  fix f db db' assume "same_part f db db'"
  then show "filter (\<lambda>v. vn_overlay v \<in> ov_id ` set (overlays_of f db')) (vnis db') = filter (\<lambda>v. vn_overlay v \<in> ov_id ` set (overlays_of f db)) (vnis db)"
    unfolding same_part_def vnis_of_def by (elim conjE) simp
qed (simp_all add: frame_simps put_vnis_def del: set_filter)

interpretation pvteps: part_table vteps put_vteps vt_id "\<lambda>f db v. vt_overlay v \<in> ov_id ` set (overlays_of f db)"
proof unfold_locales
  fix f db db' assume "same_part f db db'"
  then show "filter (\<lambda>v. vt_overlay v \<in> ov_id ` set (overlays_of f db')) (vteps db') = filter (\<lambda>v. vt_overlay v \<in> ov_id ` set (overlays_of f db)) (vteps db)"
    unfolding same_part_def vteps_of_def by (elim conjE) simp
qed (simp_all add: frame_simps put_vteps_def del: set_filter)

interpretation pmemberships: part_table vtep_vnis put_vtep_vnis vm_id
  "\<lambda>f db m. vm_vtep m \<in> vt_id ` set (vteps_of f db)"
proof unfold_locales
  fix f db db' assume "same_part f db db'"
  then show "filter (\<lambda>m. vm_vtep m \<in> vt_id ` set (vteps_of f db')) (vtep_vnis db') = filter (\<lambda>m. vm_vtep m \<in> vt_id ` set (vteps_of f db)) (vtep_vnis db)"
    unfolding same_part_def memberships_of_def by (elim conjE) simp
next
  fix f db db' and r :: vtep_membership assume "same_part f db db'"
  then show "(vm_vtep r \<in> vt_id ` set (vteps_of f db')) = (vm_vtep r \<in> vt_id ` set (vteps_of f db))"
    by (simp add: same_part_def)
qed (simp_all add: frame_simps put_vtep_vnis_def del: set_filter)

interpretation pservers: part_table dhcp_servers put_dhcp_servers ds_id "\<lambda>f db s. ds_fabric s = f"
  by unfold_locales (simp_all add: frame_simps put_dhcp_servers_def)

interpretation pservers_gone: part_table dhcp_servers
  "\<lambda>rs db. db\<lparr>dhcp_servers := rs, dhcp_scopes := filter (\<lambda>c. sc_server c \<noteq> i) (dhcp_scopes db)\<rparr>"
  ds_id "\<lambda>f db s. ds_fabric s = f" for i
  by unfold_locales (simp_all add: frame_simps)

section \<open>Statements\<close>

lemma framed_create [framing]:
  "fb_id x \<noteq> f \<Longrightarrow> keeps (framed f db0) (CreateFabric x) (\<lambda>_. True)"
  "vrf_fabric v \<noteq> f \<Longrightarrow> keeps (framed f db0) (CreateVrf v) (\<lambda>_. True)"
  "nt_fabric n \<noteq> f \<Longrightarrow> keeps (framed f db0) (CreateSupernet n) (\<lambda>_. True)"
  "sb_fabric s \<noteq> f \<Longrightarrow> keeps (framed f db0) (CreateSubnet s) (\<lambda>_. True)"
  "ad_subnet a \<notin> sb_id ` set (subnets_of f db0) \<Longrightarrow> keeps (framed f db0) (CreateIPAddress a) (\<lambda>_. True)"
  "ov_fabric y \<noteq> f \<Longrightarrow> keeps (framed f db0) (CreateOverlay y) (\<lambda>_. True)"
  "vn_overlay w \<notin> ov_id ` set (overlays_of f db0) \<Longrightarrow> keeps (framed f db0) (CreateVni w) (\<lambda>_. True)"
  "vt_overlay t \<notin> ov_id ` set (overlays_of f db0) \<Longrightarrow> keeps (framed f db0) (CreateVtep t) (\<lambda>_. True)"
  "vm_vtep m \<notin> vt_id ` set (vteps_of f db0) \<Longrightarrow> keeps (framed f db0) (CreateVtepMembership m) (\<lambda>_. True)"
  "ds_fabric d \<noteq> f \<Longrightarrow> keeps (framed f db0) (CreateDhcpServer d) (\<lambda>_. True)"
  unfolding CreateFabric_def CreateVrf_def CreateSupernet_def CreateSubnet_def CreateIPAddress_def
    CreateOverlay_def CreateVni_def CreateVtep_def CreateVtepMembership_def CreateDhcpServer_def
  by (erule pfabrics.insert_framed pvrfs.insert_framed pnets.insert_framed psubnets.insert_framed
      paddresses.insert_framed poverlays.insert_framed pvnis.insert_framed pvteps.insert_framed
      pmemberships.insert_framed pservers.insert_framed)+

lemma framed_delete [framing]:
  "i \<noteq> f \<Longrightarrow> keeps (framed f db0) (DeleteFabric i) (\<lambda>_. True)"
  "i \<notin> vrf_id ` set (vrfs_of f db0) \<Longrightarrow> keeps (framed f db0) (DeleteVrf i) (\<lambda>_. True)"
  "i \<notin> nt_id ` set (nets_of f db0) \<Longrightarrow> keeps (framed f db0) (DeleteSupernet i) (\<lambda>_. True)"
  "i \<notin> sb_id ` set (subnets_of f db0) \<Longrightarrow> keeps (framed f db0) (DeleteSubnet i) (\<lambda>_. True)"
  "i \<notin> ad_id ` set (addresses_of f db0) \<Longrightarrow> keeps (framed f db0) (DeleteIPAddress i) (\<lambda>_. True)"
  "i \<notin> ov_id ` set (overlays_of f db0) \<Longrightarrow> keeps (framed f db0) (DeleteOverlay i) (\<lambda>_. True)"
  "i \<notin> vn_id ` set (vnis_of f db0) \<Longrightarrow> keeps (framed f db0) (DeleteVni i) (\<lambda>_. True)"
  "i \<notin> vt_id ` set (vteps_of f db0) \<Longrightarrow> keeps (framed f db0) (DeleteVtep i) (\<lambda>_. True)"
  "i \<notin> vm_id ` set (memberships_of f db0) \<Longrightarrow> keeps (framed f db0) (DeleteVtepMembership i) (\<lambda>_. True)"
  "i \<notin> ds_id ` set (servers_of f db0) \<Longrightarrow> keeps (framed f db0) (DeleteDhcpServer i) (\<lambda>_. True)"
  unfolding DeleteFabric_def DeleteVrf_def DeleteSupernet_def DeleteSubnet_def DeleteIPAddress_def
    DeleteOverlay_def DeleteVni_def DeleteVtep_def DeleteVtepMembership_def DeleteDhcpServer_def
    vrfs_of_def nets_of_def addresses_of_def vnis_of_def memberships_of_def servers_of_def
  subgoal by (rule pfabrics.delete_framed) auto
  subgoal by (erule pvrfs.delete_framed)
  subgoal by (erule pnets.delete_framed)
  subgoal by (rule psubnets_gone.delete_framed) (simp add: subnets_of_def)
  subgoal by (erule paddresses.delete_framed)
  subgoal by (rule poverlays.delete_framed) (simp add: overlays_of_def)
  subgoal by (erule pvnis.delete_framed)
  subgoal by (rule pvteps.delete_framed) (simp add: vteps_of_def)
  subgoal by (erule pmemberships.delete_framed)
  subgoal by (erule pservers_gone.delete_framed)
  done

text \<open>A partial update changes neither the key of a row nor what makes it belong to a fabric.\<close>

lemma framed_update [framing]:
  "i \<noteq> f \<Longrightarrow> keeps (framed f db0) (UpdateFabric i (fabric_patch kvs)) (\<lambda>_. True)"
  "i \<notin> vrf_id ` set (vrfs_of f db0) \<Longrightarrow> keeps (framed f db0) (UpdateVrf i (vrf_patch kvs)) (\<lambda>_. True)"
  "i \<notin> nt_id ` set (nets_of f db0) \<Longrightarrow> keeps (framed f db0) (UpdateSupernet i (supernet_patch E kvs)) (\<lambda>_. True)"
  "i \<notin> sb_id ` set (subnets_of f db0) \<Longrightarrow> keeps (framed f db0) (UpdateSubnet i (subnet_patch E kvs gw)) (\<lambda>_. True)"
  "i \<notin> ad_id ` set (addresses_of f db0) \<Longrightarrow> keeps (framed f db0) (UpdateIPAddress i (address_patch E kvs)) (\<lambda>_. True)"
  "i \<notin> ov_id ` set (overlays_of f db0) \<Longrightarrow> keeps (framed f db0) (UpdateOverlay i (overlay_patch E kvs)) (\<lambda>_. True)"
  "i \<notin> vn_id ` set (vnis_of f db0) \<Longrightarrow> keeps (framed f db0) (UpdateVni i (vni_patch E kvs)) (\<lambda>_. True)"
  "i \<notin> vt_id ` set (vteps_of f db0) \<Longrightarrow> keeps (framed f db0) (UpdateVtep i (vtep_patch kvs gw)) (\<lambda>_. True)"
  "i \<notin> ds_id ` set (servers_of f db0) \<Longrightarrow> keeps (framed f db0) (UpdateDhcpServer i (server_patch kvs)) (\<lambda>_. True)"
  unfolding UpdateFabric_def UpdateVrf_def UpdateSupernet_def UpdateSubnet_def UpdateIPAddress_def
    UpdateOverlay_def UpdateVni_def UpdateVtep_def UpdateDhcpServer_def
    vrfs_of_def nets_of_def addresses_of_def vnis_of_def servers_of_def
  subgoal by (rule pfabrics.update_framed) (auto simp: fabric_patch_def)
  subgoal by (erule pvrfs.update_framed) (simp_all add: vrf_patch_def)
  subgoal by (erule pnets.update_framed) (simp_all add: supernet_patch_def)
  subgoal by (rule psubnets.update_framed) (simp_all add: subnet_patch_def subnets_of_def)
  subgoal by (erule paddresses.update_framed) (simp_all add: address_patch_def)
  subgoal by (rule poverlays.update_framed) (simp_all add: overlay_patch_def overlays_of_def)
  subgoal by (erule pvnis.update_framed) (simp_all add: vni_patch_def)
  subgoal by (rule pvteps.update_framed) (simp_all add: vtep_patch_def vteps_of_def)
  subgoal by (erule pservers.update_framed) (simp_all add: server_patch_def)
  done

text \<open>The lookups of the fabric of a row: when it is another one, the row is none of the fabric's.\<close>

lemma keeps_one_row:
  assumes "\<And>db x. P db \<Longrightarrow> g db = Some x \<Longrightarrow> q x"
  shows "keeps P (reading (\<lambda>db. one_row (g db))) q"
  by (rule keeps_reading) (auto simp: one_row_def assms split: option.splits)

lemma framed_lookup [framing]:
  "keeps (framed f db0) (GetVrfFabricID i) (\<lambda>fid. fid \<noteq> f \<longrightarrow> i \<notin> vrf_id ` set (vrfs_of f db0))"
  "keeps (framed f db0) (GetSupernetVrfAndFabric i) (\<lambda>r. snd r \<noteq> f \<longrightarrow> i \<notin> nt_id ` set (nets_of f db0))"
  "keeps (framed f db0) (GetSubnetFabricID i) (\<lambda>fid. fid \<noteq> f \<longrightarrow> i \<notin> sb_id ` set (subnets_of f db0))"
  "keeps (framed f db0) (GetSubnet i) (\<lambda>s. sb_fabric s \<noteq> f \<longrightarrow> i \<notin> sb_id ` set (subnets_of f db0))"
  "keeps (framed f db0) (GetOverlayFabricID i) (\<lambda>fid. fid \<noteq> f \<longrightarrow> i \<notin> ov_id ` set (overlays_of f db0))"
  "keeps (framed f db0) (GetDhcpServerFabricID i) (\<lambda>fid. fid \<noteq> f \<longrightarrow> i \<notin> ds_id ` set (servers_of f db0))"
  unfolding GetVrfFabricID_def GetSupernetVrfAndFabric_def GetSubnetFabricID_def GetSubnet_def get_row_def
    GetOverlayFabricID_def overlay_fabric_def GetDhcpServerFabricID_def
  subgoal by (rule keeps_one_row) (auto simp: vrfs_of_def dest!: pvrfs.found_elsewhere)
  subgoal by (rule keeps_one_row) (auto simp: nets_of_def dest!: pnets.found_elsewhere)
  subgoal by (rule keeps_one_row) (auto simp: subnets_of_def dest!: psubnets.found_elsewhere)
  subgoal by (rule keeps_one_row) (auto simp: subnets_of_def dest!: psubnets.found_elsewhere)
  subgoal by (rule keeps_one_row) (auto simp: overlays_of_def dest!: poverlays.found_elsewhere)
  subgoal by (rule keeps_one_row) (auto simp: servers_of_def dest!: pservers.found_elsewhere)
  done

text \<open>The lookups through a second table.\<close>

lemma subnet_elsewhere:
  "\<lbrakk>framed f db0 db; find_row sb_id i (subnets db) = Some s; sb_fabric s \<noteq> f\<rbrakk>
   \<Longrightarrow> i \<notin> sb_id ` set (subnets_of f db0)"
  unfolding subnets_of_def by (rule psubnets.found_elsewhere)

lemma overlay_elsewhere:
  "\<lbrakk>framed f db0 db; overlay_fabric i db = Some g; g \<noteq> f\<rbrakk> \<Longrightarrow> i \<notin> ov_id ` set (overlays_of f db0)"
  unfolding overlays_of_def overlay_fabric_def by (auto dest!: poverlays.found_elsewhere)

lemma vtep_elsewhere:
  assumes "framed f db0 db" "vtep_fabric i db = Some g" "g \<noteq> f"
  shows "i \<notin> vt_id ` set (vteps_of f db0)"
proof -
  obtain v where v: "find_row vt_id i (vteps db) = Some v" "overlay_fabric (vt_overlay v) db = Some g"
    using assms(2) by (auto simp: vtep_fabric_def split: bind_splits)
  have "vt_overlay v \<notin> ov_id ` set (overlays_of f db0)"
    using overlay_elsewhere[OF assms(1) v(2) assms(3)] .
  then show ?thesis unfolding vteps_of_def using pvteps.found_elsewhere[OF assms(1) v(1)] by blast
qed

lemma framed_lookup2 [framing]:
  "keeps (framed f db0) (GetIPAddressFabricID i) (\<lambda>fid. fid \<noteq> f \<longrightarrow> i \<notin> ad_id ` set (addresses_of f db0))"
  "keeps (framed f db0) (GetVniFabricID i) (\<lambda>fid. fid \<noteq> f \<longrightarrow> i \<notin> vn_id ` set (vnis_of f db0))"
  "keeps (framed f db0) (GetVtepFabricID i) (\<lambda>fid. fid \<noteq> f \<longrightarrow> i \<notin> vt_id ` set (vteps_of f db0))"
  "keeps (framed f db0) (GetVtepMembershipFabricID i)
     (\<lambda>fid. fid \<noteq> f \<longrightarrow> i \<notin> vm_id ` set (memberships_of f db0))"
  unfolding GetIPAddressFabricID_def GetVniFabricID_def GetVtepFabricID_def GetVtepMembershipFabricID_def
  subgoal
  proof (rule keeps_one_row)
    fix db x
    assume fr: "framed f db0 db"
      and x: "map_option sb_fabric (Option.bind (find_row ad_id i (addresses db))
                (\<lambda>a. find_row sb_id (ad_subnet a) (subnets db))) = Some x"
    then obtain a s where a: "find_row ad_id i (addresses db) = Some a"
      and s: "find_row sb_id (ad_subnet a) (subnets db) = Some s" "sb_fabric s = x"
      by (auto split: bind_splits)
    show "x \<noteq> f \<longrightarrow> i \<notin> ad_id ` set (addresses_of f db0)"
      unfolding addresses_of_def
      using paddresses.found_elsewhere[OF fr a] subnet_elsewhere[OF fr s(1)] s(2) by blast
  qed
  subgoal
  proof (rule keeps_one_row)
    fix db x
    assume fr: "framed f db0 db" and x: "vni_fabric i db = Some x"
    then obtain v where v: "find_row vn_id i (vnis db) = Some v" "overlay_fabric (vn_overlay v) db = Some x"
      by (auto simp: vni_fabric_def split: bind_splits)
    show "x \<noteq> f \<longrightarrow> i \<notin> vn_id ` set (vnis_of f db0)"
      unfolding vnis_of_def using pvnis.found_elsewhere[OF fr v(1)] overlay_elsewhere[OF fr v(2)] by blast
  qed
  subgoal by (rule keeps_one_row) (use vtep_elsewhere in blast)
  subgoal
  proof (rule keeps_one_row)
    fix db x
    assume fr: "framed f db0 db"
      and x: "Option.bind (find_row vm_id i (vtep_vnis db)) (\<lambda>m. vtep_fabric (vm_vtep m) db) = Some x"
    then obtain m where m: "find_row vm_id i (vtep_vnis db) = Some m" "vtep_fabric (vm_vtep m) db = Some x"
      by (auto split: bind_splits)
    show "x \<noteq> f \<longrightarrow> i \<notin> vm_id ` set (memberships_of f db0)"
      unfolding memberships_of_def using pmemberships.found_elsewhere[OF fr m(1)] vtep_elsewhere[OF fr m(2)] by blast
  qed
  done

section \<open>What the handlers share\<close>

lemma framed_log: "framed f db0 (db\<lparr>ipam_log := l\<rparr>) = framed f db0 db"
  by (simp add: frame_simps del: set_filter)

lemma framed_steady: "others_avoid E f \<Longrightarrow> steady E (framed f db0)"
  by (auto simp: steady_def framed_log intro: others_framed)

lemmas framed_ask = tail_ask[OF framed_steady]
lemmas framed_audit_then = tail_audit[OF framed_steady]
lemmas framed_patch = tail_patch[OF framed_steady]
lemmas framed_delete_audit = tail_delete[OF framed_steady]
lemmas framed_refuse = tail_refuse[OF framed_steady]
lemmas framed_create_audit = tail_create[OF framed_steady]

lemma keeps_enforce:
  "EnforceFabricScope p f cap \<noteq> None \<Longrightarrow> keeps P (enforceFabric p fid cap) (\<lambda>_. fid \<noteq> f)"
  unfolding enforceFabric_def by (rule keeps_weaken[OF keeps_forbid]) auto

lemma framed_target:
  assumes "others_avoid E f" "EnforceFabricScope p f cap \<noteq> None"
    and "\<And>i. keeps (framed f db0) (getter i) (\<lambda>fid. fid \<noteq> f \<longrightarrow> i \<notin> S)"
  shows "keeps (framed f db0) (scoped_target E p url Q getter msg cap) (\<lambda>i. i \<notin> S)"
  unfolding scoped_target_def lookupFabricID_def
  by (rule keeps_bind[OF keeps_idFromURL], rule keeps_bind[OF framed_ask[OF assms(1,3)]],
      rule keeps_bind[OF keeps_enforce[OF assms(2)]], rule keeps_return) blast

lemma framed_supernet:
  assumes "others_avoid E f" "EnforceFabricScope p f cap \<noteq> None"
  shows "keeps (framed f db0) (scoped_supernet E p url cap) (\<lambda>i. i \<notin> nt_id ` set (nets_of f db0))"
  unfolding scoped_supernet_def
  by (rule keeps_bind[OF keeps_idFromURL], rule keeps_bind[OF framed_ask[OF assms(1) framed_lookup(2)]],
      rule keeps_bind[OF keeps_enforce[OF assms(2)]], rule keeps_return) blast

end
