(* ===== verification/IpamSafety.thy ===== *)
theory IpamSafety
  imports IpamScope
begin

text \<open>
  Every handler keeps the part of a fabric that the caller has no scope over, and so does
  every route of the address plan but the three on BGP bindings.
\<close>

section \<open>Handlers\<close>

lemmas framed_lookups = framed_lookup framed_lookup2

lemma framed_own:
  assumes "others_avoid E f" "EnforceFabricScope p f cap \<noteq> None"
  shows "keeps (framed f db0) (own_fabric E p i cap) (\<lambda>_. i \<noteq> f)"
proof -
  have get: "keeps (framed f db0) (GetFabric i) (\<lambda>_. True)"
    by (simp add: keeps_def GetFabric_def get_row_def reading_def)
  show ?thesis
    unfolding own_fabric_def
    by (rule keeps_bind[OF keeps_enforce[OF assms(2)]], rule keeps_bind[OF framed_ask[OF assms(1) get]],
        rule keeps_bind[OF keeps_forbid], rule keeps_bind[OF keeps_forbid], rule keeps_return) blast
qed

text \<open>The handlers on fabrics, VRFs and supernets.\<close>

lemma framed_create_fabric:
  assumes "fabric_of f db0 \<noteq> []"
  shows "keeps (framed f db0) (CreateFabric x) (\<lambda>_. True)"
proof (cases "fb_id x = f")
  case True
  have "fb_id x \<in> fb_id ` set (fabrics db)" if "framed f db0 db" for db
  proof -
    have "fabric_of f db \<noteq> []" using assms that by (simp add: framed_def same_part_def)
    then obtain y where "y \<in> set (fabrics db)" "fb_id y = fb_id x"
      using True by (auto simp: fabric_of_def filter_empty_conv)
    then show ?thesis by (metis image_eqI)
  qed
  then show ?thesis by (simp add: keeps_def CreateFabric_def insert_row_def)
qed (rule framed_create)

lemma createFabric_framed:
  assumes "others_avoid E f" "fabric_of f db0 \<noteq> []"
  shows "keeps (framed f db0) (createFabric E p body) (\<lambda>_. True)"
  unfolding createFabric_def
  by (rule keeps_bind[OF keeps_required], rule keeps_bind[OF keeps_forbid], rule keeps_bind[OF keeps_forbid],
      rule keeps_bind[OF keeps_invalid_if], rule framed_create_audit[OF assms(1)], rule keeps_by_state,
      rule framed_create_fabric[OF assms(2)])

lemma updateFabric_framed:
  assumes "others_avoid E f" "EnforceFabricScope p f ''ipam:fabrics:update'' \<noteq> None"
  shows "keeps (framed f db0) (updateFabric E p url body) (\<lambda>_. True)"
  unfolding updateFabric_def
  by (rule keeps_bind[OF keeps_idFromURL], rule keeps_bind[OF framed_own[OF assms]],
      rule keeps_bind[OF keeps_patch_body], rule keeps_bind[OF keeps_forbid], rule keeps_bind[OF keeps_forbid],
      rule keeps_bind[OF keeps_invalid_if], rule framed_create_audit[OF assms(1) framed_update(1)])

lemma deleteFabric_framed:
  assumes "others_avoid E f" "EnforceFabricScope p f ''ipam:fabrics:delete'' \<noteq> None"
  shows "keeps (framed f db0) (deleteFabric E p url) (\<lambda>_. True)"
  unfolding deleteFabric_def CountVrfsInFabric_def
  by (rule keeps_bind[OF keeps_idFromURL], rule keeps_bind[OF framed_own[OF assms]],
      rule keeps_bind[OF framed_refuse[OF assms(1)]], rule framed_delete_audit[OF assms(1) framed_delete(1)])

lemma createVrf_framed:
  assumes "others_avoid E f" "EnforceFabricScope p f ''ipam:vrfs:create'' \<noteq> None"
  shows "keeps (framed f db0) (createVrf E p body) (\<lambda>_. True)"
  unfolding createVrf_def
  by (rule keeps_bind[OF keeps_required], rule keeps_bind[OF keeps_enforce[OF assms(2)]],
      rule framed_create_audit[OF assms(1)], rule keeps_by_state, rule framed_create) simp

lemma updateVrf_framed:
  assumes "others_avoid E f" "EnforceFabricScope p f ''ipam:vrfs:update'' \<noteq> None"
  shows "keeps (framed f db0) (updateVrf E p url body) (\<lambda>_. True)"
  unfolding updateVrf_def
  by (rule keeps_bind[OF framed_target[OF assms framed_lookup(1)]], rule framed_patch[OF assms(1)],
      erule framed_update)

lemma deleteVrf_framed:
  assumes "others_avoid E f" "EnforceFabricScope p f ''ipam:vrfs:delete'' \<noteq> None"
  shows "keeps (framed f db0) (deleteVrf E p url) (\<lambda>_. True)"
proof -
  have get: "keeps (framed f db0) (GetVrf i) (\<lambda>_. True)" for i
    by (simp add: keeps_def GetVrf_def get_row_def reading_def)
  show ?thesis
    unfolding deleteVrf_def CountSupernetsInVrf_def
    by (rule keeps_bind[OF framed_target[OF assms framed_lookup(1)]],
        rule keeps_bind[OF framed_ask[OF assms(1) get]], rule keeps_bind[OF keeps_reject_if],
        rule keeps_bind[OF framed_refuse[OF assms(1)]], rule framed_delete_audit[OF assms(1)],
        erule framed_delete)
qed

lemma framed_iexec:
  assumes "others_avoid E f" "framed f db0 db"
  shows "framed f db0 (snd (iexec E Q (reading g) db))"
  using assms by (auto simp: iexec_def Let_def reading_def others_framed split: option.split)

lemma validated_state [simp]: "snd (validated E x db) = db"
  by (simp add: validated_def hanswer_def hreturn_def split: sum.split)

lemma parent_purpose_state:
  "snd (parent_purpose E parent pfx fab v db) =
     (case parent of None \<Rightarrow> db | Some i \<Rightarrow> snd (iexec E ''GetSupernet'' (GetSupernet i) db))"
  by (simp add: parent_purpose_def hreturn_def split: option.split prod.split)

lemma parent_purpose_framed:
  "others_avoid E f \<Longrightarrow> keeps (framed f db0) (parent_purpose E parent pfx fab v) (\<lambda>_. True)"
  by (simp add: keeps_def parent_purpose_state GetSupernet_def get_row_def framed_iexec split: option.split)

lemma createSupernet_framed:
  assumes "others_avoid E f" "EnforceFabricScope p f ''ipam:supernets:create'' \<noteq> None"
  shows "keeps (framed f db0) (createSupernet E p body) (\<lambda>_. True)"
  unfolding createSupernet_def
  by (rule keeps_bind[OF keeps_required], rule keeps_bind[OF keeps_enforce[OF assms(2)]],
      rule keeps_bind[OF keeps_validated], rule keeps_bind[OF parent_purpose_framed[OF assms(1)]],
      rule keeps_bind[OF keeps_invalid_if], rule framed_create_audit[OF assms(1)], rule keeps_with_cidr,
      rule keeps_by_state, rule framed_create) simp

lemma updateSupernet_framed:
  assumes "others_avoid E f" "EnforceFabricScope p f ''ipam:supernets:update'' \<noteq> None"
  shows "keeps (framed f db0) (updateSupernet E p url body) (\<lambda>_. True)"
  unfolding updateSupernet_def
  by (rule keeps_bind[OF framed_supernet[OF assms]], rule framed_patch[OF assms(1)], erule framed_update)

lemma deleteSupernet_framed:
  assumes "others_avoid E f" "EnforceFabricScope p f ''ipam:supernets:delete'' \<noteq> None"
  shows "keeps (framed f db0) (deleteSupernet E p url) (\<lambda>_. True)"
  unfolding deleteSupernet_def CountSubnetsInSupernet_def
  by (rule keeps_bind[OF framed_supernet[OF assms]], rule keeps_bind[OF framed_refuse[OF assms(1)]],
      rule framed_delete_audit[OF assms(1)], erule framed_delete)

text \<open>The move: its source is a system fabric, its target one the caller has scope over.\<close>

lemma framed_for_move:
  assumes "\<forall>x\<in>set (fabric_of f db0). \<not> fb_is_system x"
  shows "keeps (framed f db0) (GetSupernetForMove i)
     (\<lambda>src. CurrentFabricIsSystem src \<longrightarrow> i \<notin> nt_id ` set (nets_of f db0))"
  unfolding GetSupernetForMove_def
proof (rule keeps_reading)
  fix db src
  assume fr: "framed f db0 db"
    and src: "(case find_row nt_id i (nets db) of None \<Rightarrow> Inl NoRows
      | Some n \<Rightarrow> one_row (map_option (\<lambda>x. \<lparr>CurrentFabricID = nt_fabric n, CurrentVrfID = nt_vrf n,
             OwnerOrganizationID = nt_owner n, CurrentFabricIsSystem = fb_is_system x\<rparr>)
           (find_row fb_id (nt_fabric n) (fabrics db)))) = Inr src"
  then obtain n x where n: "find_row nt_id i (nets db) = Some n"
      and x: "find_row fb_id (nt_fabric n) (fabrics db) = Some x" and "CurrentFabricIsSystem src = fb_is_system x"
    by (auto simp: one_row_def split: option.splits)
  show "CurrentFabricIsSystem src \<longrightarrow> i \<notin> nt_id ` set (nets_of f db0)"
  proof
    assume "CurrentFabricIsSystem src"
    then have "x \<notin> set (fabric_of f db)"
      using assms fr \<open>CurrentFabricIsSystem src = fb_is_system x\<close> by (auto simp: framed_def same_part_def)
    then have "nt_fabric n \<noteq> f" using find_row_SomeD[OF x] by (auto simp: fabric_of_def)
    then show "i \<notin> nt_id ` set (nets_of f db0)"
      unfolding nets_of_def using pnets.found_elsewhere[OF fr n] by blast
  qed
qed

lemma framed_move:
  assumes "i \<notin> nt_id ` set (nets_of f db0)" "g \<noteq> f"
  shows "keeps (framed f db0) (MoveSupernet i g v expected) (\<lambda>_. True)"
proof -
  have "keeps (framed f db0) (UpdateSupernet i (\<lambda>r. r\<lparr>nt_fabric := g, nt_vrf := v\<rparr>)) (\<lambda>_. True)"
    unfolding UpdateSupernet_def
    by (rule pnets.update_framed) (use assms in \<open>simp_all add: nets_of_def\<close>)
  then show ?thesis by (auto simp: keeps_def MoveSupernet_def split: option.split)
qed

lemma moveSupernet_framed:
  assumes "others_avoid E f" "EnforceFabricScope p f ''ipam:supernets:update'' \<noteq> None"
    and "\<forall>x\<in>set (fabric_of f db0). \<not> fb_is_system x"
  shows "keeps (framed f db0) (moveSupernet E p url body) (\<lambda>_. True)"
proof -
  have load: "keeps (framed f db0) (loadMoveable E i p) (\<lambda>_. i \<notin> nt_id ` set (nets_of f db0))" for i
    unfolding loadMoveable_def
    by (rule keeps_bind[OF framed_ask[OF assms(1) framed_for_move[OF assms(3)]]],
        rule keeps_bind[OF keeps_reject_if])
      (auto split: option.split intro: keeps_answer keeps_bind[OF keeps_reject_if] keeps_return)
  have parse: "keeps (framed f db0) (parse_field E raw msg) (\<lambda>_. True)" for raw msg
    by (auto simp: parse_field_def keeps_answer keeps_done split: option.split)
  have target: "keeps (framed f db0) (parseAndValidateMoveTarget E body p) (\<lambda>tgt. fst tgt \<noteq> f)"
    unfolding parseAndValidateMoveTarget_def GetVrfForMove_def
    by (rule keeps_bind[OF keeps_required], rule keeps_bind[OF keeps_reject_if], rule keeps_bind[OF parse],
        rule keeps_bind[OF parse], rule keeps_bind[OF framed_ask[OF assms(1) keeps_any_reading]],
        rule keeps_bind[OF keeps_reject_if], rule keeps_bind[OF keeps_enforce[OF assms(2)]], rule keeps_return)
      simp
  show ?thesis
    unfolding moveSupernet_def
    by (rule keeps_bind[OF keeps_idFromURL], rule keeps_bind[OF load], rule keeps_bind[OF target],
        rule framed_create_audit[OF assms(1)], rule framed_move)
qed

section \<open>Subnets and addresses\<close>

lemma keeps_then_validated:
  "keeps P m q \<Longrightarrow> keeps P (\<lambda>db. case m db of (r, db') \<Rightarrow> validated E r db') q"
  by (auto simp: keeps_def validated_def hanswer_def hreturn_def split: prod.split sum.split)

lemma parent_supernet_state:
  "snd (parent_supernet E i pfx db) = snd (iexec E ''GetSupernet'' (GetSupernet i) db)"
  by (simp add: parent_supernet_def split: prod.split)

lemma framed_parent:
  "others_avoid E f \<Longrightarrow> keeps (framed f db0) (parent_supernet E i pfx) (\<lambda>_. True)"
  by (simp add: keeps_def parent_supernet_state GetSupernet_def get_row_def framed_iexec)

lemma framed_insert_subnet:
  "sp_fabric parent \<noteq> f \<Longrightarrow> keeps (framed f db0) (insert_subnet E req parent) (\<lambda>_. True)"
  unfolding insert_subnet_def
  by (rule keeps_with_cidr, rule keeps_with_inet, rule keeps_by_state, rule framed_create) simp

lemma createSubnet_framed:
  assumes "others_avoid E f" "EnforceFabricScope p f ''ipam:subnets:create'' \<noteq> None"
  shows "keeps (framed f db0) (createSubnet E p body) (\<lambda>_. True)"
  unfolding createSubnet_def
  by (rule keeps_bind[OF keeps_required], rule keeps_bind[OF keeps_validated],
      rule keeps_bind[OF keeps_then_validated[OF framed_parent[OF assms(1)]]],
      rule keeps_bind[OF keeps_enforce[OF assms(2)]], rule keeps_bind[OF keeps_invalid_if],
      rule framed_create_audit[OF assms(1)], erule framed_insert_subnet)

lemma updateSubnet_framed:
  assumes "others_avoid E f" "EnforceFabricScope p f ''ipam:subnets:update'' \<noteq> None"
  shows "keeps (framed f db0) (updateSubnet E p url body) (\<lambda>_. True)"
  unfolding updateSubnet_def
  by (rule keeps_bind[OF framed_target[OF assms framed_lookup(3)]], rule framed_patch[OF assms(1)],
      rule keeps_with_inet, erule framed_update)

lemma deleteSubnet_framed:
  assumes "others_avoid E f" "EnforceFabricScope p f ''ipam:subnets:delete'' \<noteq> None"
  shows "keeps (framed f db0) (deleteSubnet E p url) (\<lambda>_. True)"
  unfolding deleteSubnet_def CountAddressesInSubnet_def
  by (rule keeps_bind[OF framed_target[OF assms framed_lookup(3)]], rule keeps_bind[OF framed_refuse[OF assms(1)]],
      rule framed_delete_audit[OF assms(1)], erule framed_delete)

lemma framed_subnet_of_address:
  assumes "others_avoid E f"
  shows "keeps (framed f db0) (subnet_of_address E i a) (\<lambda>s. sb_fabric s \<noteq> f \<longrightarrow> i \<notin> sb_id ` set (subnets_of f db0))"
proof -
  have "keeps (framed f db0) (iexec E ''GetSubnet'' (GetSubnet i))
          (\<lambda>s. sb_fabric s \<noteq> f \<longrightarrow> i \<notin> sb_id ` set (subnets_of f db0))"
    using assms by (intro keeps_iexec framed_lookup) (auto intro: others_framed)
  then show ?thesis
    unfolding keeps_def subnet_of_address_def
    by (auto split: prod.split sum.split)
qed

lemma framed_insert_address:
  assumes "ar_subnet req \<notin> sb_id ` set (subnets_of f db0)"
  shows "keeps (framed f db0) (insert_address E req) (\<lambda>_. True)"
proof (cases "inet_read E (ar_address req)")
  case (Some a)
  show ?thesis
    unfolding insert_address_def Some option.case
    by (rule keeps_by_state, rule framed_create) (simp add: assms)
qed (simp add: insert_address_def keeps_any_reading)

lemma createAddress_framed:
  assumes "others_avoid E f" "EnforceFabricScope p f ''ipam:addresses:create'' \<noteq> None"
  shows "keeps (framed f db0) (createAddress E p body) (\<lambda>_. True)"
  unfolding createAddress_def
  by (rule keeps_bind[OF keeps_required], rule keeps_bind[OF keeps_validated],
      rule keeps_bind[OF keeps_then_validated[OF framed_subnet_of_address[OF assms(1)]]],
      rule keeps_bind[OF keeps_enforce[OF assms(2)]], rule framed_create_audit[OF assms(1)],
      rule framed_insert_address) blast

lemma updateAddress_framed:
  assumes "others_avoid E f" "EnforceFabricScope p f ''ipam:addresses:update'' \<noteq> None"
  shows "keeps (framed f db0) (updateAddress E p url body) (\<lambda>_. True)"
  unfolding updateAddress_def
  by (rule keeps_bind[OF framed_target[OF assms framed_lookup2(1)]], rule framed_patch[OF assms(1)],
      erule framed_update)

lemma deleteAddress_framed:
  assumes "others_avoid E f" "EnforceFabricScope p f ''ipam:addresses:delete'' \<noteq> None"
  shows "keeps (framed f db0) (deleteAddress E p url) (\<lambda>_. True)"
  unfolding deleteAddress_def
  by (rule keeps_bind[OF framed_target[OF assms framed_lookup2(1)]],
      rule framed_delete_audit[OF assms(1)], erule framed_delete)

section \<open>Overlays and DHCP servers\<close>

lemma createOverlay_framed:
  assumes "others_avoid E f" "EnforceFabricScope p f ''ipam:overlays:create'' \<noteq> None"
  shows "keeps (framed f db0) (createOverlay E p body) (\<lambda>_. True)"
  unfolding createOverlay_def
  by (rule keeps_bind[OF keeps_required], rule keeps_bind[OF keeps_enforce[OF assms(2)]],
      rule framed_create_audit[OF assms(1)], rule keeps_by_state, rule framed_create) simp

lemma updateOverlay_framed:
  assumes "others_avoid E f" "EnforceFabricScope p f ''ipam:overlays:update'' \<noteq> None"
  shows "keeps (framed f db0) (updateOverlay E p url body) (\<lambda>_. True)"
  unfolding updateOverlay_def
  by (rule keeps_bind[OF framed_target[OF assms framed_lookup(5)]], rule framed_patch[OF assms(1)],
      erule framed_update)

lemma deleteOverlay_framed:
  assumes "others_avoid E f" "EnforceFabricScope p f ''ipam:overlays:delete'' \<noteq> None"
  shows "keeps (framed f db0) (deleteOverlay E p url) (\<lambda>_. True)"
  unfolding deleteOverlay_def CountVnisInOverlay_def
  by (rule keeps_bind[OF framed_target[OF assms framed_lookup(5)]], rule keeps_bind[OF framed_refuse[OF assms(1)]], 
      rule framed_delete_audit[OF assms(1)], erule framed_delete)

lemma createVni_framed:
  assumes "others_avoid E f" "EnforceFabricScope p f ''ipam:vnis:create'' \<noteq> None"
  shows "keeps (framed f db0) (createVni E p body) (\<lambda>_. True)"
  unfolding createVni_def lookupFabricID_def
  by (rule keeps_bind[OF keeps_required], rule keeps_bind[OF framed_ask[OF assms(1) framed_lookup(5)]],
      rule keeps_bind[OF keeps_enforce[OF assms(2)]], rule keeps_bind[OF keeps_invalid_if],
      rule keeps_bind[OF keeps_invalid_if], rule framed_create_audit[OF assms(1)], rule keeps_by_state,
      rule framed_create) simp

lemma updateVni_framed:
  assumes "others_avoid E f" "EnforceFabricScope p f ''ipam:vnis:update'' \<noteq> None"
  shows "keeps (framed f db0) (updateVni E p url body) (\<lambda>_. True)"
  unfolding updateVni_def
  by (rule keeps_bind[OF framed_target[OF assms framed_lookup2(2)]], rule framed_patch[OF assms(1)],
      erule framed_update)

lemma deleteVni_framed:
  assumes "others_avoid E f" "EnforceFabricScope p f ''ipam:vnis:delete'' \<noteq> None"
  shows "keeps (framed f db0) (deleteVni E p url) (\<lambda>_. True)"
  unfolding deleteVni_def
  by (rule keeps_bind[OF framed_target[OF assms framed_lookup2(2)]], 
      rule framed_delete_audit[OF assms(1)], erule framed_delete)

lemma createVtep_framed:
  assumes "others_avoid E f" "EnforceFabricScope p f ''ipam:vteps:create'' \<noteq> None"
  shows "keeps (framed f db0) (createVtep E p body) (\<lambda>_. True)"
  unfolding createVtep_def lookupFabricID_def
  by (rule keeps_bind[OF keeps_required], rule keeps_bind[OF framed_ask[OF assms(1) framed_lookup(5)]],
      rule keeps_bind[OF keeps_enforce[OF assms(2)]], rule framed_create_audit[OF assms(1)],
      rule keeps_with_inet, rule keeps_by_state, rule framed_create) simp

lemma updateVtep_framed:
  assumes "others_avoid E f" "EnforceFabricScope p f ''ipam:vteps:update'' \<noteq> None"
  shows "keeps (framed f db0) (updateVtep E p url body) (\<lambda>_. True)"
  unfolding updateVtep_def
  by (rule keeps_bind[OF framed_target[OF assms framed_lookup2(3)]], rule framed_patch[OF assms(1)],
      rule keeps_with_inet, erule framed_update)

lemma deleteVtep_framed:
  assumes "others_avoid E f" "EnforceFabricScope p f ''ipam:vteps:delete'' \<noteq> None"
  shows "keeps (framed f db0) (deleteVtep E p url) (\<lambda>_. True)"
  unfolding deleteVtep_def
  by (rule keeps_bind[OF framed_target[OF assms framed_lookup2(3)]], 
      rule framed_delete_audit[OF assms(1)], erule framed_delete)

lemma createVtepMembership_framed:
  assumes "others_avoid E f" "EnforceFabricScope p f ''ipam:vtep-memberships:create'' \<noteq> None"
  shows "keeps (framed f db0) (createVtepMembership E p body) (\<lambda>_. True)"
  unfolding createVtepMembership_def lookupFabricID_def
  by (rule keeps_bind[OF keeps_required], rule keeps_bind[OF framed_ask[OF assms(1) framed_lookup2(3)]],
      rule keeps_bind[OF keeps_enforce[OF assms(2)]], rule framed_create_audit[OF assms(1)],
      rule keeps_by_state, rule framed_create) simp

lemma deleteVtepMembership_framed:
  assumes "others_avoid E f" "EnforceFabricScope p f ''ipam:vtep-memberships:delete'' \<noteq> None"
  shows "keeps (framed f db0) (deleteVtepMembership E p url) (\<lambda>_. True)"
  unfolding deleteVtepMembership_def
  by (rule keeps_bind[OF framed_target[OF assms framed_lookup2(4)]], 
      rule framed_delete_audit[OF assms(1)], erule framed_delete)

lemma createDhcpServer_framed:
  assumes "others_avoid E f" "EnforceFabricScope p f ''ipam:dhcp-servers:create'' \<noteq> None"
  shows "keeps (framed f db0) (createDhcpServer E p body) (\<lambda>_. True)"
  unfolding createDhcpServer_def
  by (rule keeps_bind[OF keeps_required], rule keeps_bind[OF keeps_enforce[OF assms(2)]],
      rule framed_create_audit[OF assms(1)], rule keeps_by_state, rule framed_create) simp

lemma updateDhcpServer_framed:
  assumes "others_avoid E f" "EnforceFabricScope p f ''ipam:dhcp-servers:update'' \<noteq> None"
  shows "keeps (framed f db0) (updateDhcpServer E p url body) (\<lambda>_. True)"
  unfolding updateDhcpServer_def
  by (rule keeps_bind[OF framed_target[OF assms framed_lookup(6)]], rule keeps_bind[OF keeps_patch_body],
      rule framed_create_audit[OF assms(1)], erule framed_update)

lemma deleteDhcpServer_framed:
  assumes "others_avoid E f" "EnforceFabricScope p f ''ipam:dhcp-servers:delete'' \<noteq> None"
  shows "keeps (framed f db0) (deleteDhcpServer E p url) (\<lambda>_. True)"
  unfolding deleteDhcpServer_def
  by (rule keeps_bind[OF framed_target[OF assms framed_lookup(6)]], 
      rule framed_delete_audit[OF assms(1)], erule framed_delete)

section \<open>Batches\<close>

lemma bulk_rows_keep:
  assumes "\<And>i row out db. P db \<Longrightarrow> P (snd (g i row out db))"
  shows "P db \<Longrightarrow> P (snd (bulk_rows g i rows out db))"
  by (induction rows arbitrary: i out db) (auto split: prod.split dest: assms, metis assms snd_conv)

lemma keepsD: "\<lbrakk>keeps P m q; P db; m db = (r, db')\<rbrakk> \<Longrightarrow> P db'"
  "\<lbrakk>keeps P m q; P db; m db = (Inr a, db')\<rbrakk> \<Longrightarrow> q a"
  unfolding keeps_def by (metis snd_conv, metis fst_conv)

lemma bulkAddressRow_framed:
  assumes "others_avoid E f" "EnforceFabricScope p f ''ipam:bulk:execute'' \<noteq> None" "framed f db0 db"
  shows "framed f db0 (snd (bulkAddressRow E p i row out db))"
proof -
  note sub = framed_subnet_of_address[OF assms(1), of db0 "ar_subnet row"]
  have ins: "framed f db0 db2"
    if "subnet_of_address E (ar_subnet row) a db = (Inr s, db1)" "EnforceFabricScope p (sb_fabric s) ''ipam:bulk:execute'' = None"
      "iexec E ''CreateIPAddress'' (insert_address E row) db1 = (r, db2)" for a s db1 db2 r
  proof -
    have "ar_subnet row \<notin> sb_id ` set (subnets_of f db0)"
      using keepsD(2)[OF sub assms(3) that(1)] that(2) assms(2) by auto
    then have "keeps (framed f db0) (iexec E ''CreateIPAddress'' (insert_address E row)) (\<lambda>_. True)"
      using assms(1) by (intro keeps_iexec framed_insert_address) (auto intro: others_framed)
    from keepsD(1)[OF this keepsD(1)[OF sub assms(3) that(1)] that(3)] show ?thesis .
  qed
  show ?thesis
  proof (cases "parseAddr (ar_address row)")
    case (Inr a)
    obtain v db1 where sub': "subnet_of_address E (ar_subnet row) a db = (v, db1)" by fastforce
    have db1: "framed f db0 db1" by (rule keepsD(1)[OF sub assms(3) sub'])
    obtain r db2 where "iexec E ''CreateIPAddress'' (insert_address E row) db1 = (r, db2)" by fastforce
    then show ?thesis
      using Inr sub' db1 assms(3) ins by (cases v) (simp_all add: bulkAddressRow_def)
  qed (simp add: bulkAddressRow_def assms(3))
qed

lemma bulkSubnetRow_framed:
  assumes "others_avoid E f" "EnforceFabricScope p f ''ipam:bulk:execute'' \<noteq> None" "framed f db0 db"
  shows "framed f db0 (snd (bulkSubnetRow E p i row out db))"
proof -
  note par = framed_parent[OF assms(1), of db0 "sr_supernet row"]
  have ins: "framed f db0 db2"
    if "parent_supernet E (sr_supernet row) pfx db = (Inr s, db1)" "EnforceFabricScope p (sp_fabric s) ''ipam:bulk:execute'' = None"
      "iexec E ''CreateSubnet'' (insert_subnet E row s) db1 = (r, db2)" for pfx s db1 db2 r
  proof -
    have "sp_fabric s \<noteq> f" using that(2) assms(2) by auto
    then have "keeps (framed f db0) (iexec E ''CreateSubnet'' (insert_subnet E row s)) (\<lambda>_. True)"
      using assms(1) by (intro keeps_iexec framed_insert_subnet) (auto intro: others_framed)
    from keepsD(1)[OF this keepsD(1)[OF par assms(3) that(1)] that(3)] show ?thesis .
  qed
  show ?thesis
  proof (cases "parseCIDR (sr_prefix row)")
    case (Inr pfx)
    obtain v db1 where par': "parent_supernet E (sr_supernet row) pfx db = (v, db1)" by fastforce
    have db1: "framed f db0 db1" by (rule keepsD(1)[OF par assms(3) par'])
    have "framed f db0 db2"
      if "v = Inr s" "EnforceFabricScope p (sp_fabric s) ''ipam:bulk:execute'' = None"
        "iexec E ''CreateSubnet'' (insert_subnet E row s) db1 = (r, db2)" for s r db2
      using ins par' that by blast
    then show ?thesis
      using Inr par' db1 assms(3) by (cases v) (simp_all add: bulkSubnetRow_def split: option.split prod.split)
  qed (simp add: bulkSubnetRow_def assms(3))
qed

lemma bulk_framed:
  assumes "others_avoid E f" "EnforceFabricScope p f ''ipam:bulk:execute'' \<noteq> None"
  shows "keeps (framed f db0) (bulkCreateAddresses E p rows) (\<lambda>_. True)"
    and "keeps (framed f db0) (bulkCreateSubnets E p rows') (\<lambda>_. True)"
proof -
  have "keeps (framed f db0) (\<lambda>db. case bulk_rows g 0 rs no_rows db of (out, db') \<Rightarrow> (Inr (HttpJSON 200 out), db')) (\<lambda>_. True)"
    if "\<And>i row out db. framed f db0 db \<Longrightarrow> framed f db0 (snd (g i row out db))" for g rs
    using bulk_rows_keep[of "framed f db0" g, OF that] by (auto simp: keeps_def split: prod.split) (metis snd_conv)
  note rows = this
  show "keeps (framed f db0) (bulkCreateAddresses E p rows) (\<lambda>_. True)"
    unfolding bulkCreateAddresses_def
    by (rule keeps_bind[OF keeps_required], rule rows, rule bulkAddressRow_framed[OF assms])
  show "keeps (framed f db0) (bulkCreateSubnets E p rows') (\<lambda>_. True)"
    unfolding bulkCreateSubnets_def
    by (rule keeps_bind[OF keeps_required], rule rows, rule bulkSubnetRow_framed[OF assms])
qed

section \<open>Routes\<close>

lemma framed_binding: "framed f db0 (put_vrf_bgp_peers rs db) = framed f db0 db"
  by (simp add: frame_simps put_vrf_bgp_peers_def del: set_filter)

lemma binding_framed:
  assumes "others_avoid E f"
  shows "keeps (framed f db0) (createVrfBgpPeer E b) (\<lambda>_. True)"
    and "keeps (framed f db0) (updateVrfBgpPeer E url body) (\<lambda>_. True)"
    and "keeps (framed f db0) (deleteVrfBgpPeer E url) (\<lambda>_. True)"
proof -
  have c: "keeps (framed f db0) (CreateVrfBgpPeer r) (\<lambda>_. True)"
    and u: "keeps (framed f db0) (UpdateVrfBgpPeer i g) (\<lambda>_. True)"
    and d: "keeps (framed f db0) (DeleteVrfBgpPeer i) (\<lambda>_. True)" for r i g
    unfolding CreateVrfBgpPeer_def UpdateVrfBgpPeer_def DeleteVrfBgpPeer_def
    by (rule keeps_insert keeps_update keeps_delete, simp add: framed_binding)+
  show "keeps (framed f db0) (createVrfBgpPeer E b) (\<lambda>_. True)"
    unfolding createVrfBgpPeer_def
    by (rule keeps_bind[OF keeps_required], rule framed_create_audit[OF assms], rule keeps_by_state, rule c)
  show "keeps (framed f db0) (updateVrfBgpPeer E url body) (\<lambda>_. True)"
    unfolding updateVrfBgpPeer_def by (rule keeps_bind[OF keeps_idFromURL], rule framed_patch[OF assms u])
  show "keeps (framed f db0) (deleteVrfBgpPeer E url) (\<lambda>_. True)"
    unfolding deleteVrfBgpPeer_def by (rule keeps_bind[OF keeps_idFromURL], rule framed_delete_audit[OF assms d])
qed

lemma to_status_keeps: "\<lbrakk>keeps P m q; P db\<rbrakk> \<Longrightarrow> P (snd (to_status m db))"
  using keeps_run[of P m q db] by (cases "run m db") (simp add: to_status_def)

lemmas handlers_framed = createFabric_framed updateFabric_framed deleteFabric_framed createVrf_framed
  updateVrf_framed deleteVrf_framed binding_framed createSupernet_framed updateSupernet_framed
  deleteSupernet_framed moveSupernet_framed createSubnet_framed bulk_framed updateSubnet_framed
  deleteSubnet_framed createAddress_framed updateAddress_framed deleteAddress_framed createOverlay_framed
  updateOverlay_framed deleteOverlay_framed createVni_framed updateVni_framed deleteVni_framed
  createVtep_framed updateVtep_framed deleteVtep_framed createVtepMembership_framed
  deleteVtepMembership_framed createDhcpServer_framed updateDhcpServer_framed deleteDhcpServer_framed

lemma ipam_handle_framed:
  assumes "others_avoid E f" "framed f db0 db0" "fabric_of f db0 \<noteq> []"
    and "\<forall>x\<in>set (fabric_of f db0). \<not> fb_is_system x"
    and "EnforceFabricScope p f (ipam_capability c) \<noteq> None"
  shows "framed f db0 (snd (ipam_handle E p c db0))"
  using assms
  by (cases c; simp only: ipam_handle_def ipam_capability_def ipam_call.case)
    (rule to_status_keeps, (rule handlers_framed; assumption), assumption)+

text \<open>C17. A caller whose scope for a route does not hold a fabric changes nothing of that fabric
  through the route: not the fabric, its VRFs, supernets, subnets and addresses, nor its
  overlays, VNIs, VTEPs and their memberships, nor its DHCP servers, whatever the request says
  and as long as concurrent transactions leave that fabric alone too.  The routes are those of
  \<open>ipam_call\<close>; the reconciliation of DHCP scopes is not among them.  The landing (system) fabric is
  excepted by design, since a granted supernet is moved out of it, and the bindings of VRFs to
  BGP peers are not part of what is kept: their routes check no scope.\<close>

theorem foreign_fabrics_untouched:
  assumes "others_avoid E f" "keyed db" "fabric_of f db \<noteq> []"
    and "\<forall>x\<in>set (fabric_of f db). \<not> fb_is_system x"
    and "EnforceFabricScope p f (ipam_capability c) \<noteq> None"
  shows "same_part f db (snd (ipam_serve E (Some p) c db))"
proof -
  have "framed f db db" using assms(2) by (simp add: framed_def)
  then show ?thesis
    using ipam_handle_framed[OF assms(1) _ assms(3-5)]
    by (simp add: ipam_serve_def framed_def split: gate.split)
qed

lemma foreign_fabrics_untouched_witness:
  "same_part 2 example_plan (snd (ipam_serve plain_env (Some (fabric_user 1)) (DeleteAddressC ''41'') example_plan))
   \<and> same_part 2 example_plan (snd (ipam_serve plain_env (Some (fabric_user 1)) (DeleteAddressC ''42'') example_plan))
   \<and> fst (ipam_serve plain_env (Some (fabric_user 1)) (DeleteAddressC ''41'') example_plan) = 204
   \<and> fst (ipam_serve plain_env (Some (fabric_user 1)) (DeleteAddressC ''42'') example_plan) = 403"
proof -
  have quiet: "others_avoid plain_env f" for f
    by (simp add: others_avoid_def framed_def plain_env_def)
  have db: "keyed example_plan" "fabric_of 2 example_plan \<noteq> []"
    "\<forall>x\<in>set (fabric_of 2 example_plan). \<not> fb_is_system x"
    "EnforceFabricScope (fabric_user 1) 2 ''ipam:addresses:delete'' \<noteq> None"
    by code_simp+
  have "fst (ipam_serve plain_env (Some (fabric_user 1)) (DeleteAddressC ''41'') example_plan) = 204"
    "fst (ipam_serve plain_env (Some (fabric_user 1)) (DeleteAddressC ''42'') example_plan) = 403"
    by code_simp+
  moreover have "same_part 2 example_plan (snd (ipam_serve plain_env (Some (fabric_user 1)) (DeleteAddressC s) example_plan))" for s
    using foreign_fabrics_untouched[OF quiet db(1-3), of "fabric_user 1" "DeleteAddressC s"] db(4)
    by (simp add: ipam_capability_def)
  ultimately show ?thesis by blast
qed

end
