(* ===== verification/IpamPlan.thy ===== *)
theory IpamPlan
  imports IpamSafety
begin

text \<open>
  The nesting of the address plan.  Every address lies in its subnet and every subnet in
  its supernet, with the supernet's fabric and VRF; VNIs are 24-bit; keys are unique.
  What the handlers rely on of Postgres' text conversions is the locale \<open>pg_text\<close>,
  interpreted on the conversions of \<^verbatim>\<open>NetText\<close>; what they rely on of concurrent
  transactions is \<open>others_stable\<close>.
\<close>

section \<open>The conversions of Postgres\<close>

text \<open>\<^verbatim>\<open>cidr\<close> takes prefixes without host bits only and agrees with \<^verbatim>\<open>parseCIDR\<close> where both
  accept a text; its text form reads back; the address of an \<^verbatim>\<open>inet\<close> is that of \<^verbatim>\<open>parseAddr\<close>.\<close>

locale pg_text =
  fixes E :: ipam_env
  assumes read_canonical: "cidr_read E s = Some q \<Longrightarrow> canonical q"
    and read_agrees: "\<lbrakk>cidr_read E s = Some q; parseCIDR s = Inr r\<rbrakk> \<Longrightarrow> r = q"
    and show_reads: "canonical q \<Longrightarrow> parseCIDR (cidr_show E q) = Inr q"
    and inet_agrees: "\<lbrakk>inet_read E s = Some b; parseAddr s = Inr a\<rbrakk> \<Longrightarrow> a = fst b"

interpretation plain: pg_text plain_env
proof unfold_locales
  fix s q r assume "cidr_read plain_env s = Some q"
  then have q: "ParsePrefix s = Some q" "canonical q"
    by (auto simp: plain_env_def split: option.splits if_splits)
  then show "canonical q" by simp
  assume "parseCIDR s = Inr r"
  then show "r = q" using q by (simp add: parseCIDR_def canonical_def)
next
  fix q assume "canonical q"
  then show "parseCIDR (cidr_show plain_env q) = Inr q"
    by (simp add: plain_env_def parseCIDR_def canonical_def ParsePrefix_prefix_string)
next
  fix s b a assume "inet_read plain_env s = Some b" "parseAddr s = Inr a"
  then show "a = fst b"
    by (auto simp: plain_env_def parseAddr_def split: option.splits if_splits)
qed

section \<open>The invariant\<close>

definition vnis_in_range :: "ipam_db \<Rightarrow> bool" where
  "vnis_in_range db \<longleftrightarrow> (\<forall>v\<in>set (vnis db). vniMin \<le> vn_vni v \<and> vn_vni v \<le> vniMax)"

definition address_fits :: "ipam_db \<Rightarrow> ip_address \<Rightarrow> bool" where
  "address_fits db a \<longleftrightarrow>
     (\<exists>s\<in>set (subnets db). sb_id s = ad_subnet a \<and> Contains (sb_prefix s) (fst (ad_address a)))"

definition subnet_fits :: "ipam_db \<Rightarrow> subnet_rec \<Rightarrow> bool" where
  "subnet_fits db s \<longleftrightarrow>
     (\<exists>n\<in>set (nets db). nt_id n = sb_supernet s \<and> sb_fabric s = nt_fabric n \<and> sb_vrf s = nt_vrf n
        \<and> cidrContains (nt_prefix n) (sb_prefix s))"

definition plan_sound :: "ipam_db \<Rightarrow> bool" where
  "plan_sound db \<longleftrightarrow>
     keyed db \<and> vnis_in_range db
     \<and> (\<forall>n\<in>set (nets db). canonical (nt_prefix n)) \<and> (\<forall>s\<in>set (subnets db). canonical (sb_prefix s))
     \<and> (\<forall>a\<in>set (addresses db). address_fits db a) \<and> (\<forall>s\<in>set (subnets db). subnet_fits db s)"

text \<open>Rows that stay keep their prefix, and supernets their fabric and VRF: what no statement but the
  move of a supernet changes.\<close>

definition stable :: "ipam_db \<Rightarrow> ipam_db \<Rightarrow> bool" where
  "stable db db' \<longleftrightarrow>
     (\<forall>s\<in>set (subnets db). \<forall>s'\<in>set (subnets db'). sb_id s' = sb_id s \<longrightarrow> sb_prefix s' = sb_prefix s)
     \<and> (\<forall>n\<in>set (nets db). \<forall>n'\<in>set (nets db'). nt_id n' = nt_id n \<longrightarrow>
          nt_prefix n' = nt_prefix n \<and> nt_fabric n' = nt_fabric n \<and> nt_vrf n' = nt_vrf n)"

definition others_stable :: "ipam_env \<Rightarrow> bool" where
  "others_stable E \<longleftrightarrow> (\<forall>Q db. plan_sound db \<longrightarrow> plan_sound (others E Q db) \<and> stable db (others E Q db))"

lemma stableD:
  "\<lbrakk>stable db db'; s \<in> set (subnets db); s' \<in> set (subnets db'); sb_id s' = sb_id s\<rbrakk> \<Longrightarrow> sb_prefix s' = sb_prefix s"
  "\<lbrakk>stable db db'; n \<in> set (nets db); n' \<in> set (nets db'); nt_id n' = nt_id n\<rbrakk>
   \<Longrightarrow> nt_prefix n' = nt_prefix n \<and> nt_fabric n' = nt_fabric n \<and> nt_vrf n' = nt_vrf n"
  by (simp_all add: stable_def)

lemma others_sound: "\<lbrakk>others_stable E; plan_sound db\<rbrakk> \<Longrightarrow> plan_sound (others E Q db)"
  by (simp add: others_stable_def)

section \<open>Statements\<close>

text \<open>The tables whose rows are not part of the nesting: any rows with unique keys will do.\<close>

locale side_table =
  fixes rows :: "ipam_db \<Rightarrow> 'r list"
    and put :: "'r list \<Rightarrow> ipam_db \<Rightarrow> ipam_db"
    and key :: "'r \<Rightarrow> uuid"
  assumes keys: "keyed db \<Longrightarrow> distinct (map key (rows db))"
    and put_sound: "\<lbrakk>plan_sound db; distinct (map key rs)\<rbrakk> \<Longrightarrow> plan_sound (put rs db)"
begin

lemma rows_distinct: "plan_sound db \<Longrightarrow> distinct (map key (rows db))"
  by (simp add: plan_sound_def keys)

lemma insert_sound: "keeps plan_sound (insert_row rows put key check r) (\<lambda>_. True)"
  by (rule keeps_insert, rule put_sound) (auto dest: rows_distinct)

lemma update_sound: "(\<And>r. key (g r) = key r) \<Longrightarrow> keeps plan_sound (update_row rows put key check i g) (\<lambda>_. True)"
  by (rule keeps_update, rule put_sound) (auto dest: rows_distinct)

lemma delete_sound: "keeps plan_sound (delete_row rows put key referenced i) (\<lambda>_. True)"
  by (rule keeps_delete, rule put_sound) (auto dest: rows_distinct intro: distinct_drop_row)

end

lemmas sound_simps = plan_sound_def keyed_def vnis_in_range_def address_fits_def subnet_fits_def

interpretation sfabrics: side_table fabrics put_fabrics fb_id
  by unfold_locales (simp_all add: sound_simps put_fabrics_def)

interpretation svrfs: side_table vrfs put_vrfs vrf_id
  by unfold_locales (simp_all add: sound_simps put_vrfs_def)

interpretation soverlays: side_table overlays put_overlays ov_id
  by unfold_locales (simp_all add: sound_simps put_overlays_def)

interpretation svteps: side_table vteps put_vteps vt_id
  by unfold_locales (simp_all add: sound_simps put_vteps_def)

interpretation smemberships: side_table vtep_vnis put_vtep_vnis vm_id
  by unfold_locales (simp_all add: sound_simps put_vtep_vnis_def)

interpretation sservers: side_table dhcp_servers put_dhcp_servers ds_id
  by unfold_locales (simp_all add: sound_simps put_dhcp_servers_def)

interpretation sservers_gone: side_table dhcp_servers
  "\<lambda>rs db. db\<lparr>dhcp_servers := rs, dhcp_scopes := filter (\<lambda>c. sc_server c \<noteq> i) (dhcp_scopes db)\<rparr>" ds_id for i
  by unfold_locales (simp_all add: sound_simps)

lemma sound_side:
  "keeps plan_sound (CreateFabric x) (\<lambda>_. True)" "keeps plan_sound (DeleteFabric i) (\<lambda>_. True)"
  "keeps plan_sound (UpdateFabric i (fabric_patch kvs)) (\<lambda>_. True)"
  "keeps plan_sound (CreateVrf v) (\<lambda>_. True)" "keeps plan_sound (DeleteVrf i) (\<lambda>_. True)"
  "keeps plan_sound (UpdateVrf i (vrf_patch kvs)) (\<lambda>_. True)"
  "keeps plan_sound (CreateOverlay y) (\<lambda>_. True)" "keeps plan_sound (DeleteOverlay i) (\<lambda>_. True)"
  "keeps plan_sound (UpdateOverlay i (overlay_patch E kvs)) (\<lambda>_. True)"
  "keeps plan_sound (CreateVtep t) (\<lambda>_. True)" "keeps plan_sound (DeleteVtep i) (\<lambda>_. True)"
  "keeps plan_sound (UpdateVtep i (vtep_patch kvs gw)) (\<lambda>_. True)"
  "keeps plan_sound (CreateVtepMembership m) (\<lambda>_. True)" "keeps plan_sound (DeleteVtepMembership i) (\<lambda>_. True)"
  "keeps plan_sound (CreateDhcpServer d) (\<lambda>_. True)" "keeps plan_sound (DeleteDhcpServer i) (\<lambda>_. True)"
  "keeps plan_sound (UpdateDhcpServer i (server_patch kvs)) (\<lambda>_. True)"
  unfolding CreateFabric_def DeleteFabric_def UpdateFabric_def CreateVrf_def DeleteVrf_def UpdateVrf_def
    CreateOverlay_def DeleteOverlay_def UpdateOverlay_def CreateVtep_def DeleteVtep_def UpdateVtep_def
    CreateVtepMembership_def DeleteVtepMembership_def CreateDhcpServer_def DeleteDhcpServer_def
    UpdateDhcpServer_def
  by (rule sfabrics.insert_sound sfabrics.delete_sound sfabrics.update_sound svrfs.insert_sound
      svrfs.delete_sound svrfs.update_sound soverlays.insert_sound soverlays.delete_sound
      soverlays.update_sound svteps.insert_sound svteps.delete_sound svteps.update_sound
      smemberships.insert_sound smemberships.delete_sound sservers.insert_sound
      sservers_gone.delete_sound sservers.update_sound,
      (simp add: fabric_patch_def vrf_patch_def overlay_patch_def vtep_patch_def server_patch_def)?)+

lemma change_row_set: "r' \<in> set (change_row key i g rows) \<longleftrightarrow>
    (\<exists>r\<in>set rows. r' = (if key r = i then g r else r))"
  by (simp only: change_row_def set_map image_iff)

lemma change_row_mem: "r \<in> set rows \<Longrightarrow> (if key r = i then g r else r) \<in> set (change_row key i g rows)"
  by (simp add: change_row_def)

lemma first_error_None: "first_error cs = None \<longleftrightarrow> (\<forall>c\<in>set cs. \<not> fst c)"
  by (induction cs rule: first_error.induct) auto

lemma drop_row_set: "set (drop_row key i rows) = {r \<in> set rows. key r \<noteq> i}"
  by (auto simp: drop_row_def)

text \<open>Supernets: a new one may come, a deleted one has no subnets, and an update that keeps prefix,
  fabric and VRF, or that finds no subnets, leaves every subnet where it fits.\<close>

lemma sound_CreateSupernet:
  assumes "canonical (nt_prefix n)"
  shows "keeps plan_sound (CreateSupernet n) (\<lambda>_. True)"
  unfolding CreateSupernet_def
  by (rule keeps_insert) (use assms in \<open>auto simp: sound_simps put_nets_def\<close>)

lemma sound_update_net:
  assumes "plan_sound db"
    and "\<And>n. nt_id (g n) = nt_id n" "\<And>n. nt_prefix (g n) = nt_prefix n"
    and "\<And>n. nt_fabric (g n) = nt_fabric n \<and> nt_vrf (g n) = nt_vrf n \<or> i \<notin> sb_supernet ` set (subnets db)"
  shows "plan_sound (put_nets (change_row nt_id i g (nets db)) db)"
proof -
  let ?db = "put_nets (change_row nt_id i g (nets db)) db"
  have "subnet_fits ?db s" if s: "s \<in> set (subnets db)" for s
  proof -
    obtain n where n: "n \<in> set (nets db)" "nt_id n = sb_supernet s" "sb_fabric s = nt_fabric n"
        "sb_vrf s = nt_vrf n" "cidrContains (nt_prefix n) (sb_prefix s)"
      using assms(1) s by (auto simp: plan_sound_def subnet_fits_def)
    let ?n = "if nt_id n = i then g n else n"
    have "?n \<in> set (nets ?db)" using n(1) by (auto simp: put_nets_def change_row_set)
    moreover have "nt_id ?n = sb_supernet s \<and> sb_fabric s = nt_fabric ?n \<and> sb_vrf s = nt_vrf ?n
        \<and> cidrContains (nt_prefix ?n) (sb_prefix s)"
      using n s assms(2,3) assms(4)[of n] by auto
    ultimately show ?thesis unfolding subnet_fits_def by blast
  qed
  then show ?thesis
    using assms(1-3) by (auto simp: plan_sound_def keyed_def vnis_in_range_def address_fits_def
        put_nets_def change_row_set)
qed

lemma sound_UpdateSupernet: "keeps plan_sound (UpdateSupernet i (supernet_patch E kvs)) (\<lambda>_. True)"
  unfolding UpdateSupernet_def
  by (rule keeps_update, rule sound_update_net) (simp_all add: supernet_patch_def)

lemma sound_MoveSupernet: "keeps plan_sound (MoveSupernet i f v expected) (\<lambda>_. True)"
proof -
  have "plan_sound (snd (update_row nets put_nets nt_id supernet_check i (\<lambda>r. r\<lparr>nt_fabric := f, nt_vrf := v\<rparr>) db))"
    if "plan_sound db" "i \<notin> sb_supernet ` set (subnets db)" for db
    using that sound_update_net[of db "\<lambda>r. r\<lparr>nt_fabric := f, nt_vrf := v\<rparr>" i]
    by (simp add: update_row_def split: option.split)
  then show ?thesis
    by (simp add: keeps_def MoveSupernet_def UpdateSupernet_def split: option.split)
qed

lemma sound_DeleteSupernet: "keeps plan_sound (DeleteSupernet i) (\<lambda>_. True)"
  unfolding DeleteSupernet_def
proof (rule keeps_delete)
  fix db
  assume P: "plan_sound db"
    and fk: "i \<in> nt_id ` set (nets db) \<Longrightarrow> \<not> (i \<in> sb_supernet ` set (subnets db)
        \<or> (\<exists>n\<in>set (nets db). nt_parent n = Some i \<and> nt_id n \<noteq> i))"
  have "subnet_fits (put_nets (drop_row nt_id i (nets db)) db) s" if s: "s \<in> set (subnets db)" for s
    using P s fk by (fastforce simp: plan_sound_def subnet_fits_def put_nets_def drop_row_set)
  then show "plan_sound (put_nets (drop_row nt_id i (nets db)) db)"
    using P by (auto simp: plan_sound_def keyed_def vnis_in_range_def address_fits_def put_nets_def
        drop_row_set distinct_drop_row)
qed

text \<open>Subnets.\<close>

lemma sound_CreateSubnet:
  assumes "canonical (sb_prefix s)"
    and "\<And>n. n \<in> set (nets db) \<Longrightarrow> nt_id n = sb_supernet s \<Longrightarrow> sb_fabric s = nt_fabric n
          \<and> sb_vrf s = nt_vrf n \<and> cidrContains (nt_prefix n) (sb_prefix s)"
    and "plan_sound db"
  shows "plan_sound (snd (CreateSubnet s db))"
proof -
  have "subnet_fits db s" if "exists_row nt_id (sb_supernet s) (nets db)"
    using that assms(2) unfolding exists_row_def subnet_fits_def by auto
  then show ?thesis
    using assms(1,3)
    by (auto simp: CreateSubnet_def insert_row_def subnet_check_def put_subnets_def sound_simps
        split: option.split if_splits)
qed

lemma sound_UpdateSubnet:
  assumes "member kvs ''supernet_id'' = None"
  shows "keeps plan_sound (UpdateSubnet i (subnet_patch E kvs gw)) (\<lambda>_. True)"
  unfolding UpdateSubnet_def
proof (rule keeps_update)
  fix db assume P: "plan_sound db"
  let ?g = "subnet_patch E kvs gw" and ?db = "put_subnets (change_row sb_id i (subnet_patch E kvs gw) (subnets db)) db"
  have g: "sb_id (?g s) = sb_id s" "sb_prefix (?g s) = sb_prefix s" "sb_supernet (?g s) = sb_supernet s"
    "sb_fabric (?g s) = sb_fabric s" "sb_vrf (?g s) = sb_vrf s" for s
    using assms by (simp_all add: subnet_patch_def coalesced_absent)
  have "address_fits ?db a" if a: "a \<in> set (addresses db)" for a
  proof -
    obtain s where "s \<in> set (subnets db)" "sb_id s = ad_subnet a" "Contains (sb_prefix s) (fst (ad_address a))"
      using P a by (auto simp: plan_sound_def address_fits_def)
    then show ?thesis
      using change_row_mem[of s "subnets db" sb_id i ?g] unfolding address_fits_def put_subnets_def
      by (intro bexI[of _ "if sb_id s = i then ?g s else s"]) (auto simp: g)
  qed
  moreover have "subnet_fits ?db s" if "s \<in> set (subnets ?db)" for s
    using that P by (fastforce simp: plan_sound_def subnet_fits_def put_subnets_def change_row_set g)
  moreover have "canonical (sb_prefix s)" if "s \<in> set (subnets ?db)" for s
    using that P by (auto simp: plan_sound_def put_subnets_def change_row_set g)
  ultimately show "plan_sound ?db"
    using P by (simp add: plan_sound_def keyed_def vnis_in_range_def put_subnets_def g)
qed

lemma sound_DeleteSubnet: "keeps plan_sound (DeleteSubnet i) (\<lambda>_. True)"
  unfolding DeleteSubnet_def
proof (rule keeps_delete)
  fix db
  assume P: "plan_sound db" and fk: "i \<in> sb_id ` set (subnets db) \<Longrightarrow> \<not> i \<in> ad_subnet ` set (addresses db)"
  let ?db = "db\<lparr>subnets := drop_row sb_id i (subnets db), dhcp_scopes :=
    map (\<lambda>c. if sc_subnet c = Some i then c\<lparr>sc_subnet := None\<rparr> else c) (dhcp_scopes db)\<rparr>"
  have "address_fits ?db a" if "a \<in> set (addresses db)" for a
    using P that fk by (fastforce simp: plan_sound_def address_fits_def drop_row_set)
  then show "plan_sound ?db"
    using P by (auto simp: plan_sound_def keyed_def vnis_in_range_def subnet_fits_def drop_row_set distinct_drop_row)
qed

text \<open>Addresses and VNIs.\<close>

lemma sound_CreateIPAddress:
  assumes "\<And>s. s \<in> set (subnets db) \<Longrightarrow> sb_id s = ad_subnet a \<Longrightarrow> Contains (sb_prefix s) (fst (ad_address a))"
    and "plan_sound db"
  shows "plan_sound (snd (CreateIPAddress a db))"
proof -
  have "address_fits db a" if "exists_row sb_id (ad_subnet a) (subnets db)"
    using that assms(1) unfolding exists_row_def address_fits_def by auto
  then show ?thesis
    using assms(2)
    by (auto simp: CreateIPAddress_def insert_row_def address_check_def put_addresses_def sound_simps
        first_error_None split: option.split if_splits)
qed

lemma sound_UpdateIPAddress: "keeps plan_sound (UpdateIPAddress i (address_patch E kvs)) (\<lambda>_. True)"
  unfolding UpdateIPAddress_def
  by (rule keeps_update) (auto simp: sound_simps put_addresses_def change_row_set address_patch_def)

lemma sound_DeleteIPAddress: "keeps plan_sound (DeleteIPAddress i) (\<lambda>_. True)"
  unfolding DeleteIPAddress_def
  by (rule keeps_delete) (auto simp: sound_simps put_addresses_def drop_row_set distinct_drop_row)

lemma sound_CreateVni:
  assumes "validateVni (vn_vni v) = None"
  shows "keeps plan_sound (CreateVni v) (\<lambda>_. True)"
  unfolding CreateVni_def
  by (rule keeps_insert) (use assms in \<open>auto simp: sound_simps put_vnis_def validateVni_def split: if_splits\<close>)

lemma sound_UpdateVni: "keeps plan_sound (UpdateVni i (vni_patch E kvs)) (\<lambda>_. True)"
  unfolding UpdateVni_def
  by (rule keeps_update) (auto simp: sound_simps put_vnis_def change_row_set vni_patch_def)

lemma sound_DeleteVni: "keeps plan_sound (DeleteVni i) (\<lambda>_. True)"
  unfolding DeleteVni_def
  by (rule keeps_delete) (auto simp: sound_simps put_vnis_def drop_row_set distinct_drop_row)

lemmas sound_main = sound_UpdateSupernet sound_MoveSupernet sound_DeleteSupernet sound_DeleteSubnet
  sound_UpdateIPAddress sound_DeleteIPAddress sound_UpdateVni sound_DeleteVni

end
