(* ===== verification/IpamNesting.thy ===== *)
theory IpamNesting
  imports IpamPlan
begin

text \<open>
  The handlers keep the nesting of the plan, concurrent transactions included; the one
  exception is the partial update of a subnet that names another supernet, for which the
  code checks nothing.
\<close>

section \<open>What is known between the check and the insert\<close>

definition net_known :: "uuid \<Rightarrow> uuid \<Rightarrow> uuid \<Rightarrow> prefix \<Rightarrow> supernet_rec \<Rightarrow> bool" where
  "net_known i fab v q n \<longleftrightarrow> nt_id n = i \<and> nt_fabric n = fab \<and> nt_vrf n = v \<and> cidrContains (nt_prefix n) q"

definition parent_seen :: "uuid \<Rightarrow> prefix \<Rightarrow> supernet_row \<Rightarrow> ipam_db \<Rightarrow> bool" where
  "parent_seen i q parent db \<longleftrightarrow>
     plan_sound db \<and> (\<exists>n\<in>set (nets db). net_known i (sp_fabric parent) (sp_vrf parent) q n)"

definition parent_kept :: "uuid \<Rightarrow> prefix \<Rightarrow> supernet_row \<Rightarrow> ipam_db \<Rightarrow> bool" where
  "parent_kept i q parent db \<longleftrightarrow>
     plan_sound db \<and> (\<forall>n\<in>set (nets db). nt_id n = i \<longrightarrow> net_known i (sp_fabric parent) (sp_vrf parent) q n)"

definition subnet_seen :: "uuid \<Rightarrow> addr \<Rightarrow> ipam_db \<Rightarrow> bool" where
  "subnet_seen i a db \<longleftrightarrow> plan_sound db \<and> (\<exists>s\<in>set (subnets db). sb_id s = i \<and> Contains (sb_prefix s) a)"

definition subnet_kept :: "uuid \<Rightarrow> addr \<Rightarrow> ipam_db \<Rightarrow> bool" where
  "subnet_kept i a db \<longleftrightarrow> plan_sound db \<and> (\<forall>s\<in>set (subnets db). sb_id s = i \<longrightarrow> Contains (sb_prefix s) a)"

lemma seen_then_kept:
  assumes "others_stable E"
  shows "parent_seen i q parent db \<Longrightarrow> parent_kept i q parent (others E Q db)"
    and "subnet_seen j a db \<Longrightarrow> subnet_kept j a (others E Q db)"
proof -
  assume seen: "parent_seen i q parent db"
  then have P: "plan_sound (others E Q db)" and st: "stable db (others E Q db)"
    using assms by (simp_all add: others_stable_def parent_seen_def)
  obtain n where n: "n \<in> set (nets db)" "net_known i (sp_fabric parent) (sp_vrf parent) q n"
    using seen by (auto simp: parent_seen_def)
  have "net_known i (sp_fabric parent) (sp_vrf parent) q n'"
    if "n' \<in> set (nets (others E Q db))" "nt_id n' = i" for n'
    using stableD(2)[OF st n(1) that(1)] n(2) that(2) by (simp add: net_known_def)
  then show "parent_kept i q parent (others E Q db)" using P by (simp add: parent_kept_def)
next
  assume seen: "subnet_seen j a db"
  then have P: "plan_sound (others E Q db)" and st: "stable db (others E Q db)"
    using assms by (simp_all add: others_stable_def subnet_seen_def)
  obtain s where s: "s \<in> set (subnets db)" "sb_id s = j" "Contains (sb_prefix s) a"
    using seen by (auto simp: subnet_seen_def)
  have "Contains (sb_prefix s') a" if "s' \<in> set (subnets (others E Q db))" "sb_id s' = j" for s'
    using stableD(1)[OF st s(1) that(1)] s that(2) by simp
  then show "subnet_kept j a (others E Q db)" using P by (simp add: subnet_kept_def)
qed

lemma sound_log: "plan_sound (db\<lparr>ipam_log := l\<rparr>) = plan_sound db"
  by (simp add: sound_simps)

lemma sound_steady: "others_stable E \<Longrightarrow> steady E plan_sound"
  by (simp add: steady_def others_sound sound_log)

lemmas nt_ask = tail_ask[OF sound_steady]
lemmas nt_patch = tail_patch[OF sound_steady]
lemmas nt_delete = tail_delete[OF sound_steady]
lemmas nt_refuse = tail_refuse[OF sound_steady]
lemmas nt_create = tail_create[OF sound_steady]
lemmas nt_audit = tail_audit[OF sound_steady]
lemmas nt_target = tail_target[OF sound_steady]

section \<open>The checks\<close>

lemma parent_supernet_sees:
  assumes "pg_text E" "others_stable E" "plan_sound db" "parent_supernet E i q db = (r, db')"
  shows "plan_sound db' \<and> (\<forall>parent. r = Inr parent \<longrightarrow> parent_seen i q parent db')"
proof -
  let ?db = "others E ''GetSupernet'' db"
  have P: "plan_sound ?db" using assms(2,3) by (rule others_sound)
  have db': "db' = ?db"
    using assms(4) by (auto simp: parent_supernet_def iexec_def GetSupernet_def get_row_def reading_def Let_def
        split: option.splits)
  have "parent_seen i q parent ?db" if r: "r = Inr parent" for parent
  proof -
    obtain n where n: "find_row nt_id i (nets ?db) = Some n"
        "assertSubnetInsideSupernet (\<lambda>_. Inr (supernet_view E n)) i q = Inr parent"
      using assms(4) r
      by (auto simp: parent_supernet_def iexec_def GetSupernet_def get_row_def reading_def Let_def one_row_def
          view_result_def assertSubnetInsideSupernet_def split: option.splits)
    note mem = find_row_SomeD[OF n(1)]
    then have "canonical (nt_prefix n)" using P by (simp add: plan_sound_def)
    then have "parseCIDR (cidr_show E (nt_prefix n)) = Inr (nt_prefix n)"
      using assms(1) by (simp add: pg_text.show_reads)
    then have "net_known i (sp_fabric parent) (sp_vrf parent) q n"
      using n(2) mem by (auto simp: assertSubnetInsideSupernet_def supernet_view_def net_known_def split: if_splits)
    then show ?thesis using P mem by (auto simp: parent_seen_def)
  qed
  then show ?thesis using P db' by simp
qed

lemma subnet_of_address_sees:
  assumes "pg_text E" "others_stable E" "plan_sound db" "subnet_of_address E i a db = (r, db')"
  shows "plan_sound db' \<and> (\<forall>s. r = Inr s \<longrightarrow> subnet_seen i a db')"
proof -
  let ?db = "others E ''GetSubnet'' db"
  have P: "plan_sound ?db" using assms(2,3) by (rule others_sound)
  have db': "db' = ?db"
    using assms(4) by (auto simp: subnet_of_address_def iexec_def GetSubnet_def get_row_def reading_def Let_def
        split: option.splits sum.splits prod.splits)
  have "subnet_seen i a ?db" if r: "r = Inr s" for s
  proof -
    have n: "find_row sb_id i (subnets ?db) = Some s"
        "\<exists>t. assertAddressInSubnet (\<lambda>_. Inr (cidr_show E (sb_prefix s))) i a = Inr t"
      using assms(4) r
      by (auto simp: subnet_of_address_def iexec_def GetSubnet_def get_row_def reading_def Let_def one_row_def
          split: option.splits sum.splits prod.splits)
    note mem = find_row_SomeD[OF n(1)]
    then have "canonical (sb_prefix s)" using P by (simp add: plan_sound_def)
    then have "parseCIDR (cidr_show E (sb_prefix s)) = Inr (sb_prefix s)"
      using assms(1) by (simp add: pg_text.show_reads)
    then have "Contains (sb_prefix s) a"
      using n(2) by (auto simp: assertAddressInSubnet_def addressInNetwork_def split: if_splits)
    then show ?thesis using P mem by (auto simp: subnet_seen_def)
  qed
  then show ?thesis using P db' by simp
qed

section \<open>The inserts\<close>

lemma insert_subnet_sound:
  assumes "pg_text E" "others_stable E" "parseCIDR (sr_prefix req) = Inr q"
  shows "from_to (parent_seen (sr_supernet req) q parent) plan_sound
           (iexec E Q (insert_subnet E req parent)) (\<lambda>_. True)"
proof (rule from_to_iexec[where A' = "parent_kept (sr_supernet req) q parent"])
  show "from_to (parent_kept (sr_supernet req) q parent) plan_sound (insert_subnet E req parent) (\<lambda>_. True)"
    unfolding from_to_def
  proof (intro allI impI conjI)
    fix db assume kept: "parent_kept (sr_supernet req) q parent db"
    then have P: "plan_sound db" by (simp add: parent_kept_def)
    show "plan_sound (snd (insert_subnet E req parent db))"
    proof (cases "cidr_read E (sr_prefix req)")
      case (Some c)
      then have c: "canonical c" "c = q"
        using assms(1,3) by (auto dest: pg_text.read_canonical pg_text.read_agrees)
      have "plan_sound (snd (CreateSubnet s db))"
        if "sb_prefix s = c" "sb_supernet s = sr_supernet req" "sb_fabric s = sp_fabric parent"
          "sb_vrf s = sp_vrf parent" for s
        using kept c that P by (intro sound_CreateSubnet) (auto simp: parent_kept_def net_known_def)
      then show ?thesis
        using P Some by (simp add: insert_subnet_def with_cidr_def with_inet_def reading_def split: option.split)
    qed (use P in \<open>simp add: insert_subnet_def with_cidr_def reading_def\<close>)
  qed simp
qed (use seen_then_kept(1)[OF assms(2)] in \<open>auto simp: parent_kept_def\<close>)

lemma insert_address_sound:
  assumes "pg_text E" "others_stable E" "parseAddr (ar_address req) = Inr a"
  shows "from_to (subnet_seen (ar_subnet req) a) plan_sound (iexec E Q (insert_address E req)) (\<lambda>_. True)"
proof (rule from_to_iexec[where A' = "subnet_kept (ar_subnet req) a"])
  show "from_to (subnet_kept (ar_subnet req) a) plan_sound (insert_address E req) (\<lambda>_. True)"
    unfolding from_to_def
  proof (intro allI impI conjI)
    fix db assume kept: "subnet_kept (ar_subnet req) a db"
    then have P: "plan_sound db" by (simp add: subnet_kept_def)
    show "plan_sound (snd (insert_address E req db))"
    proof (cases "inet_read E (ar_address req)")
      case (Some b)
      then have b: "fst b = a" using assms(1,3) by (auto dest: pg_text.inet_agrees)
      have "plan_sound (snd (CreateIPAddress x db))"
        if "ad_address x = b" "ad_subnet x = ar_subnet req" for x
        using kept b that P by (intro sound_CreateIPAddress) (auto simp: subnet_kept_def)
      then show ?thesis using Some by (simp add: insert_address_def)
    qed (use P in \<open>simp add: insert_address_def reading_def\<close>)
  qed simp
qed (use seen_then_kept(2)[OF assms(2)] in \<open>auto simp: subnet_kept_def\<close>)

section \<open>The handlers\<close>

lemma sound_lookups:
  "keeps plan_sound (GetVrfFabricID i) (\<lambda>_. True)" "keeps plan_sound (GetSubnetFabricID i) (\<lambda>_. True)"
  "keeps plan_sound (GetIPAddressFabricID i) (\<lambda>_. True)" "keeps plan_sound (GetOverlayFabricID i) (\<lambda>_. True)"
  "keeps plan_sound (GetVniFabricID i) (\<lambda>_. True)" "keeps plan_sound (GetVtepFabricID i) (\<lambda>_. True)"
  "keeps plan_sound (GetVtepMembershipFabricID i) (\<lambda>_. True)" "keeps plan_sound (GetDhcpServerFabricID i) (\<lambda>_. True)"
  "keeps plan_sound (GetSupernetVrfAndFabric i) (\<lambda>_. True)" "keeps plan_sound (GetFabric i) (\<lambda>_. True)"
  "keeps plan_sound (GetVrf i) (\<lambda>_. True)" "keeps plan_sound (GetVrfForMove i) (\<lambda>_. True)"
  "keeps plan_sound (GetSupernetForMove i) (\<lambda>_. True)"
  unfolding GetVrfFabricID_def GetSubnetFabricID_def GetIPAddressFabricID_def GetOverlayFabricID_def
    GetVniFabricID_def GetVtepFabricID_def GetVtepMembershipFabricID_def GetDhcpServerFabricID_def
    GetSupernetVrfAndFabric_def GetFabric_def GetVrf_def GetVrfForMove_def GetSupernetForMove_def get_row_def
  by (rule keeps_any_reading)+

lemmas enforce_any = keeps_forbid[folded enforceFabric_def]

lemma keeps_enforce_any: "keeps P (enforceFabric p fid cap) (\<lambda>_. True)"
  unfolding enforceFabric_def by (rule keeps_weaken[OF keeps_forbid]) simp

lemma own_sound: "others_stable E \<Longrightarrow> keeps plan_sound (own_fabric E p i cap) (\<lambda>_. True)"
  unfolding own_fabric_def
  by (rule keeps_bind[OF keeps_enforce_any], rule keeps_bind[OF nt_ask], assumption, rule sound_lookups,
      rule keeps_bind[OF keeps_forbid], rule keeps_bind[OF keeps_forbid], rule keeps_done)

lemma target_sound:
  assumes "others_stable E"
  shows "keeps plan_sound (scoped_supernet E p url cap) (\<lambda>_. True)"
  unfolding scoped_supernet_def
  by (rule keeps_bind[OF keeps_idFromURL], rule keeps_bind[OF nt_ask[OF assms sound_lookups(9)]],
      rule keeps_bind[OF keeps_enforce_any], rule keeps_done)

lemma fabrics_sound:
  assumes "others_stable E"
  shows "keeps plan_sound (createFabric E p body) (\<lambda>_. True)"
    and "keeps plan_sound (updateFabric E p url patch) (\<lambda>_. True)"
    and "keeps plan_sound (deleteFabric E p url) (\<lambda>_. True)"
  unfolding createFabric_def updateFabric_def deleteFabric_def CountVrfsInFabric_def
  subgoal by (rule keeps_bind[OF keeps_required], rule keeps_bind[OF keeps_forbid], rule keeps_bind[OF keeps_forbid],
      rule keeps_bind[OF keeps_invalid_if], rule nt_create[OF assms], rule keeps_by_state, rule sound_side)
  subgoal by (rule keeps_bind[OF keeps_idFromURL], rule keeps_bind[OF own_sound[OF assms]],
      rule keeps_bind[OF keeps_patch_body], rule keeps_bind[OF keeps_forbid], rule keeps_bind[OF keeps_forbid],
      rule keeps_bind[OF keeps_invalid_if], rule nt_create[OF assms], rule sound_side)
  subgoal by (rule keeps_bind[OF keeps_idFromURL], rule keeps_bind[OF own_sound[OF assms]],
      rule keeps_bind[OF nt_refuse[OF assms]], rule nt_delete[OF assms], rule sound_side)
  done

lemma vrfs_sound:
  assumes "others_stable E"
  shows "keeps plan_sound (createVrf E p body) (\<lambda>_. True)"
    and "keeps plan_sound (updateVrf E p url patch) (\<lambda>_. True)"
    and "keeps plan_sound (deleteVrf E p url) (\<lambda>_. True)"
  unfolding createVrf_def updateVrf_def deleteVrf_def CountSupernetsInVrf_def
  subgoal by (rule keeps_bind[OF keeps_required], rule keeps_bind[OF keeps_enforce_any],
      rule nt_create[OF assms], rule keeps_by_state, rule sound_side)
  subgoal by (rule keeps_bind[OF nt_target[OF assms sound_lookups(1)]], rule nt_patch[OF assms], rule sound_side)
  subgoal by (rule keeps_bind[OF nt_target[OF assms sound_lookups(1)]],
      rule keeps_bind[OF nt_ask[OF assms sound_lookups(11)]], rule keeps_bind[OF keeps_reject_if],
      rule keeps_bind[OF nt_refuse[OF assms]], rule nt_delete[OF assms], rule sound_side)
  done

lemma sound_binding: "plan_sound (put_vrf_bgp_peers rs db) = plan_sound db"
  by (simp add: sound_simps put_vrf_bgp_peers_def)

lemma bindings_sound:
  assumes "others_stable E"
  shows "keeps plan_sound (createVrfBgpPeer E b) (\<lambda>_. True)"
    and "keeps plan_sound (updateVrfBgpPeer E url body) (\<lambda>_. True)"
    and "keeps plan_sound (deleteVrfBgpPeer E url) (\<lambda>_. True)"
proof -
  have c: "keeps plan_sound (CreateVrfBgpPeer r) (\<lambda>_. True)"
    and u: "keeps plan_sound (UpdateVrfBgpPeer i g) (\<lambda>_. True)"
    and d: "keeps plan_sound (DeleteVrfBgpPeer i) (\<lambda>_. True)" for r i g
    unfolding CreateVrfBgpPeer_def UpdateVrfBgpPeer_def DeleteVrfBgpPeer_def
    by (rule keeps_insert keeps_update keeps_delete, simp add: sound_binding)+
  show "keeps plan_sound (createVrfBgpPeer E b) (\<lambda>_. True)"
    unfolding createVrfBgpPeer_def
    by (rule keeps_bind[OF keeps_required], rule nt_create[OF assms], rule keeps_by_state, rule c)
  show "keeps plan_sound (updateVrfBgpPeer E url body) (\<lambda>_. True)"
    unfolding updateVrfBgpPeer_def by (rule keeps_bind[OF keeps_idFromURL], rule nt_patch[OF assms u])
  show "keeps plan_sound (deleteVrfBgpPeer E url) (\<lambda>_. True)"
    unfolding deleteVrfBgpPeer_def by (rule keeps_bind[OF keeps_idFromURL], rule nt_delete[OF assms d])
qed

lemma parent_purpose_sound: "others_stable E \<Longrightarrow> keeps plan_sound (parent_purpose E parent q fab v) (\<lambda>_. True)"
  by (auto simp: keeps_def parent_purpose_state GetSupernet_def get_row_def iexec_def Let_def reading_def others_sound
      split: option.split)

lemma supernets_sound:
  assumes "pg_text E" "others_stable E"
  shows "keeps plan_sound (createSupernet E p body) (\<lambda>_. True)"
    and "keeps plan_sound (updateSupernet E p url patch) (\<lambda>_. True)"
    and "keeps plan_sound (deleteSupernet E p url) (\<lambda>_. True)"
  unfolding createSupernet_def updateSupernet_def deleteSupernet_def CountSubnetsInSupernet_def
  subgoal by (rule keeps_bind[OF keeps_required], rule keeps_bind[OF keeps_enforce_any],
      rule keeps_bind[OF keeps_validated], rule keeps_bind[OF parent_purpose_sound[OF assms(2)]],
      rule keeps_bind[OF keeps_invalid_if], rule nt_create[OF assms(2)], rule keeps_with_cidr,
      rule keeps_by_state, rule sound_CreateSupernet) (simp add: pg_text.read_canonical[OF assms(1)])
  subgoal by (rule keeps_bind[OF target_sound[OF assms(2)]], rule nt_patch[OF assms(2)], rule sound_main)
  subgoal by (rule keeps_bind[OF target_sound[OF assms(2)]], rule keeps_bind[OF nt_refuse[OF assms(2)]],
      rule nt_delete[OF assms(2)], rule sound_main)
  done

lemma moveSupernet_sound:
  assumes "others_stable E"
  shows "keeps plan_sound (moveSupernet E p url body) (\<lambda>_. True)"
proof -
  have load: "keeps plan_sound (loadMoveable E i p) (\<lambda>_. True)" for i
    unfolding loadMoveable_def
    by (rule keeps_bind[OF nt_ask[OF assms sound_lookups(13)]], rule keeps_bind[OF keeps_reject_if])
      (auto split: option.split intro: keeps_answer keeps_bind[OF keeps_reject_if] keeps_done)
  have parse: "keeps plan_sound (parse_field E raw msg) (\<lambda>_. True)" for raw msg
    by (auto simp: parse_field_def keeps_answer keeps_done split: option.split)
  have target: "keeps plan_sound (parseAndValidateMoveTarget E body p) (\<lambda>_. True)"
    unfolding parseAndValidateMoveTarget_def
    by (rule keeps_bind[OF keeps_required], rule keeps_bind[OF keeps_reject_if], rule keeps_bind[OF parse],
        rule keeps_bind[OF parse], rule keeps_bind[OF nt_ask[OF assms sound_lookups(12)]],
        rule keeps_bind[OF keeps_reject_if], rule keeps_bind[OF keeps_enforce_any], rule keeps_done)
  show ?thesis
    unfolding moveSupernet_def
    by (rule keeps_bind[OF keeps_idFromURL], rule keeps_bind[OF load], rule keeps_bind[OF target],
        rule nt_create[OF assms], rule sound_main)
qed

lemma createSubnet_sound:
  assumes "pg_text E" "others_stable E"
  shows "keeps plan_sound (createSubnet E p body) (\<lambda>_. True)"
proof -
  have check: "plan_sound (snd (case parent_supernet E i q db of (r, db') \<Rightarrow> validated E r db')) \<and>
      (\<forall>parent. fst (case parent_supernet E i q db of (r, db') \<Rightarrow> validated E r db') = Inr parent \<longrightarrow>
         True \<and> parent_seen i q parent (snd (case parent_supernet E i q db of (r, db') \<Rightarrow> validated E r db')))"
    if "plan_sound db" for i q db
    using parent_supernet_sees[OF assms that, of i q]
    by (cases "parent_supernet E i q db") (auto simp: validated_def hanswer_def hreturn_def split: sum.splits)
  have ins: "from_to (parent_seen (sr_supernet req) q parent) plan_sound
      (hbind (ask E Q (insert_subnet E req parent) onerr) (\<lambda>out. hbind (auditMut E action (key out)) (\<lambda>_. hreturn (r out))))
      (\<lambda>_. True)" if "parseCIDR (sr_prefix req) = Inr q" for req q parent Q onerr action r and key :: "subnet_rec \<Rightarrow> uuid"
    by (rule from_to_then[OF from_to_ask[OF insert_subnet_sound[OF assms that]]], rule nt_audit[OF assms(2)])
  show ?thesis
    unfolding createSubnet_def
    apply (rule keeps_bind[OF keeps_required], rule keeps_bind[OF keeps_validated])
    unfolding keeps_from_to
    apply (rule from_to_bind, erule check)
    apply (rule from_to_look[where q = "\<lambda>_. True"])
       apply (simp_all add: enforceFabric_def forbid_def hreturn_def hanswer_def parent_seen_def split: option.split)[3]
    apply (rule from_to_look[where q = "\<lambda>_. True"])
       apply (simp_all add: invalid_if_def hreturn_def hanswer_def parent_seen_def split: option.split)[3]
    apply (rule ins)
    apply simp
    done
qed

lemma createAddress_sound:
  assumes "pg_text E" "others_stable E"
  shows "keeps plan_sound (createAddress E p body) (\<lambda>_. True)"
proof -
  have check: "plan_sound (snd (case subnet_of_address E i a db of (r, db') \<Rightarrow> validated E r db')) \<and>
      (\<forall>s. fst (case subnet_of_address E i a db of (r, db') \<Rightarrow> validated E r db') = Inr s \<longrightarrow>
         True \<and> subnet_seen i a (snd (case subnet_of_address E i a db of (r, db') \<Rightarrow> validated E r db')))"
    if "plan_sound db" for i a db
    using subnet_of_address_sees[OF assms that, of i a]
    by (cases "subnet_of_address E i a db") (auto simp: validated_def hanswer_def hreturn_def split: sum.splits)
  have ins: "from_to (subnet_seen (ar_subnet req) a) plan_sound
      (hbind (ask E Q (insert_address E req) onerr) (\<lambda>out. hbind (auditMut E action (key out)) (\<lambda>_. hreturn (r out))))
      (\<lambda>_. True)" if "parseAddr (ar_address req) = Inr a" for req a Q onerr action r and key :: "ip_address \<Rightarrow> uuid"
    by (rule from_to_then[OF from_to_ask[OF insert_address_sound[OF assms that]]], rule nt_audit[OF assms(2)])
  show ?thesis
    unfolding createAddress_def
    apply (rule keeps_bind[OF keeps_required], rule keeps_bind[OF keeps_validated])
    unfolding keeps_from_to
    apply (rule from_to_bind, erule check)
    apply (rule from_to_look[where q = "\<lambda>_. True"])
       apply (simp_all add: enforceFabric_def forbid_def hreturn_def hanswer_def subnet_seen_def split: option.split)[3]
    apply (rule ins)
    apply simp
    done
qed

lemma updateSubnet_sound:
  assumes "others_stable E"
    and "\<And>kvs. Option.bind body raw_map = Some kvs \<Longrightarrow> member kvs ''supernet_id'' = None"
  shows "keeps plan_sound (updateSubnet E p url body) (\<lambda>_. True)"
  unfolding updateSubnet_def
  by (rule keeps_bind[OF nt_target[OF assms(1) sound_lookups(2)]], rule nt_patch[OF assms(1)],
      rule keeps_with_inet, rule sound_UpdateSubnet, erule assms(2))

lemma subnets_addresses_sound:
  assumes "others_stable E"
  shows "keeps plan_sound (deleteSubnet E p url) (\<lambda>_. True)"
    and "keeps plan_sound (updateAddress E p url body) (\<lambda>_. True)"
    and "keeps plan_sound (deleteAddress E p url) (\<lambda>_. True)"
  unfolding deleteSubnet_def updateAddress_def deleteAddress_def CountAddressesInSubnet_def
  subgoal by (rule keeps_bind[OF nt_target[OF assms sound_lookups(2)]], rule keeps_bind[OF nt_refuse[OF assms]],
      rule nt_delete[OF assms], rule sound_main)
  subgoal by (rule keeps_bind[OF nt_target[OF assms sound_lookups(3)]], rule nt_patch[OF assms], rule sound_main)
  subgoal by (rule keeps_bind[OF nt_target[OF assms sound_lookups(3)]], rule nt_delete[OF assms], rule sound_main)
  done

lemma overlays_sound:
  assumes "others_stable E"
  shows "keeps plan_sound (createOverlay E p body) (\<lambda>_. True)"
    and "keeps plan_sound (updateOverlay E p url patch) (\<lambda>_. True)"
    and "keeps plan_sound (deleteOverlay E p url) (\<lambda>_. True)"
  unfolding createOverlay_def updateOverlay_def deleteOverlay_def CountVnisInOverlay_def
  subgoal by (rule keeps_bind[OF keeps_required], rule keeps_bind[OF keeps_enforce_any],
      rule nt_create[OF assms], rule keeps_by_state, rule sound_side)
  subgoal by (rule keeps_bind[OF nt_target[OF assms sound_lookups(4)]], rule nt_patch[OF assms], rule sound_side)
  subgoal by (rule keeps_bind[OF nt_target[OF assms sound_lookups(4)]], rule keeps_bind[OF nt_refuse[OF assms]],
      rule nt_delete[OF assms], rule sound_side)
  done

lemma vnis_sound:
  assumes "others_stable E"
  shows "keeps plan_sound (createVni E p body) (\<lambda>_. True)"
    and "keeps plan_sound (updateVni E p url patch) (\<lambda>_. True)"
    and "keeps plan_sound (deleteVni E p url) (\<lambda>_. True)"
  unfolding createVni_def updateVni_def deleteVni_def lookupFabricID_def
  subgoal by (rule keeps_bind[OF keeps_required], rule keeps_bind[OF nt_ask[OF assms sound_lookups(4)]],
      rule keeps_bind[OF keeps_enforce_any], rule keeps_bind[OF keeps_invalid_if], rule keeps_bind[OF keeps_invalid_if],
      rule nt_create[OF assms], rule keeps_by_state, rule sound_CreateVni) simp
  subgoal by (rule keeps_bind[OF nt_target[OF assms sound_lookups(5)]], rule nt_patch[OF assms], rule sound_main)
  subgoal by (rule keeps_bind[OF nt_target[OF assms sound_lookups(5)]], rule nt_delete[OF assms], rule sound_main)
  done

lemma vteps_sound:
  assumes "others_stable E"
  shows "keeps plan_sound (createVtep E p body) (\<lambda>_. True)"
    and "keeps plan_sound (updateVtep E p url patch) (\<lambda>_. True)"
    and "keeps plan_sound (deleteVtep E p url) (\<lambda>_. True)"
    and "keeps plan_sound (createVtepMembership E p pair) (\<lambda>_. True)"
    and "keeps plan_sound (deleteVtepMembership E p url) (\<lambda>_. True)"
  unfolding createVtep_def updateVtep_def deleteVtep_def createVtepMembership_def deleteVtepMembership_def
    lookupFabricID_def
  subgoal by (rule keeps_bind[OF keeps_required], rule keeps_bind[OF nt_ask[OF assms sound_lookups(4)]],
      rule keeps_bind[OF keeps_enforce_any], rule nt_create[OF assms], rule keeps_with_inet,
      rule keeps_by_state, rule sound_side)
  subgoal by (rule keeps_bind[OF nt_target[OF assms sound_lookups(6)]], rule nt_patch[OF assms],
      rule keeps_with_inet, rule sound_side)
  subgoal by (rule keeps_bind[OF nt_target[OF assms sound_lookups(6)]], rule nt_delete[OF assms], rule sound_side)
  subgoal by (rule keeps_bind[OF keeps_required], rule keeps_bind[OF nt_ask[OF assms sound_lookups(6)]],
      rule keeps_bind[OF keeps_enforce_any], rule nt_create[OF assms], rule keeps_by_state, rule sound_side)
  subgoal by (rule keeps_bind[OF nt_target[OF assms sound_lookups(7)]], rule nt_delete[OF assms], rule sound_side)
  done

lemma servers_sound:
  assumes "others_stable E"
  shows "keeps plan_sound (createDhcpServer E p body) (\<lambda>_. True)"
    and "keeps plan_sound (updateDhcpServer E p url patch) (\<lambda>_. True)"
    and "keeps plan_sound (deleteDhcpServer E p url) (\<lambda>_. True)"
  unfolding createDhcpServer_def updateDhcpServer_def deleteDhcpServer_def
  subgoal by (rule keeps_bind[OF keeps_required], rule keeps_bind[OF keeps_enforce_any],
      rule nt_create[OF assms], rule keeps_by_state, rule sound_side)
  subgoal by (rule keeps_bind[OF nt_target[OF assms sound_lookups(8)]], rule keeps_bind[OF keeps_patch_body],
      rule nt_create[OF assms], rule sound_side)
  subgoal by (rule keeps_bind[OF nt_target[OF assms sound_lookups(8)]], rule nt_delete[OF assms], rule sound_side)
  done

section \<open>Batches\<close>

lemma bulkAddressRow_sound:
  assumes "pg_text E" "others_stable E" "plan_sound db"
  shows "plan_sound (snd (bulkAddressRow E p i row out db))"
proof (cases "parseAddr (ar_address row)")
  case (Inr a)
  obtain v db1 where sub: "subnet_of_address E (ar_subnet row) a db = (v, db1)" by fastforce
  note sees = subnet_of_address_sees[OF assms sub]
  obtain r db2 where ins: "iexec E ''CreateIPAddress'' (insert_address E row) db1 = (r, db2)" by fastforce
  have "plan_sound db2" if "v = Inr s" for s
    using insert_address_sound[OF assms(1,2) Inr, of "''CreateIPAddress''"] sees ins that
    by (simp add: from_to_def) (metis snd_conv)
  then show ?thesis
    using Inr sub ins sees assms(3) by (cases v) (simp_all add: bulkAddressRow_def)
qed (simp add: bulkAddressRow_def assms(3))

lemma bulkSubnetRow_sound:
  assumes "pg_text E" "others_stable E" "plan_sound db"
  shows "plan_sound (snd (bulkSubnetRow E p i row out db))"
proof (cases "parseCIDR (sr_prefix row)")
  case (Inr q)
  obtain v db1 where par: "parent_supernet E (sr_supernet row) q db = (v, db1)" by fastforce
  note sees = parent_supernet_sees[OF assms par]
  have "plan_sound db2" if "v = Inr s" "iexec E ''CreateSubnet'' (insert_subnet E row s) db1 = (r, db2)" for s r db2
    using insert_subnet_sound[OF assms(1,2) Inr, of s "''CreateSubnet''"] sees that
    by (simp add: from_to_def) (metis snd_conv)
  then show ?thesis
    using Inr par sees assms(3) by (cases v) (simp_all add: bulkSubnetRow_def split: option.split prod.split)
qed (simp add: bulkSubnetRow_def assms(3))

lemma batches_sound:
  assumes "pg_text E" "others_stable E"
  shows "keeps plan_sound (bulkCreateAddresses E p rows) (\<lambda>_. True)"
    and "keeps plan_sound (bulkCreateSubnets E p rows') (\<lambda>_. True)"
proof -
  have rows: "keeps plan_sound (\<lambda>db. case bulk_rows g 0 rs no_rows db of (out, db') \<Rightarrow> (Inr (HttpJSON 200 out), db')) (\<lambda>_. True)"
    if "\<And>i row out db. plan_sound db \<Longrightarrow> plan_sound (snd (g i row out db))" for g rs
    using bulk_rows_keep[of plan_sound g, OF that] by (auto simp: keeps_def split: prod.split) (metis snd_conv)
  show "keeps plan_sound (bulkCreateAddresses E p rows) (\<lambda>_. True)"
    unfolding bulkCreateAddresses_def
    by (rule keeps_bind[OF keeps_required], rule rows, rule bulkAddressRow_sound[OF assms])
  show "keeps plan_sound (bulkCreateSubnets E p rows') (\<lambda>_. True)"
    unfolding bulkCreateSubnets_def
    by (rule keeps_bind[OF keeps_required], rule rows, rule bulkSubnetRow_sound[OF assms])
qed

section \<open>Routes\<close>

text \<open>A partial update of a subnet that names a supernet.\<close>

definition reparents :: "ipam_call \<Rightarrow> bool" where
  "reparents c =
     (case c of
        UpdateSubnetC _ body \<Rightarrow>
          (case Option.bind body raw_map of None \<Rightarrow> False | Some kvs \<Rightarrow> has kvs ''supernet_id'')
      | _ \<Rightarrow> False)"

lemma others_handled:
  assumes "pg_text E" "others_stable E" "plan_sound db" "\<And>url body. c \<noteq> UpdateSubnetC url body"
  shows "plan_sound (snd (ipam_handle E p c db))"
  using assms
  by (cases c; simp only: ipam_handle_def ipam_call.case)
    ((rule to_status_keeps, (rule fabrics_sound vrfs_sound bindings_sound supernets_sound moveSupernet_sound
      createSubnet_sound batches_sound subnets_addresses_sound createAddress_sound overlays_sound vnis_sound
      vteps_sound servers_sound; assumption), assumption) | simp)+

lemma ipam_handle_sound:
  assumes "pg_text E" "others_stable E" "\<not> reparents c" "plan_sound db"
  shows "plan_sound (snd (ipam_handle E p c db))"
proof (cases "\<exists>url body. c = UpdateSubnetC url body")
  case True
  then obtain url body where c: "c = UpdateSubnetC url body" by blast
  have "keeps plan_sound (updateSubnet E p url body) (\<lambda>_. True)"
    using assms(3) by (intro updateSubnet_sound assms(2)) (simp add: c reparents_def has_def)
  then show ?thesis using c assms(4) by (simp add: ipam_handle_def to_status_keeps)
qed (use others_handled assms in blast)

text \<open>C18. Every route of \<open>ipam_call\<close> but a partial update of a subnet that names another supernet,
  served alone or with concurrent transactions that keep the plan and do not move supernets, keeps the
  plan sound: keys are unique, VNIs are in the 24-bit range, every address lies inside its subnet, and
  every subnet inside its supernet and in the supernet's fabric and VRF.  The reconciliation of DHCP
  scopes is no such route: it can insert an address outside its subnet.\<close>

theorem plan_stays_sound:
  assumes "pg_text E" "others_stable E" "plan_sound db" "\<not> reparents c"
  shows "plan_sound (snd (ipam_serve E caller c db))"
  using assms by (simp add: ipam_serve_def ipam_handle_sound split: gate.split option.split)

definition new_subnet :: "uuid \<Rightarrow> string \<Rightarrow> subnet_req" where
  "new_subnet n pfx = \<lparr>sr_supernet = n, sr_site = None, sr_vni = None, sr_prefix = pfx, sr_name = None,
     sr_description = None, sr_purpose = None, sr_vlan = None, sr_gateway = None\<rparr>"

lemma example_sound: "plan_sound example_plan"
  by code_simp

lemma stable_refl: "plan_sound db \<Longrightarrow> stable db db"
  unfolding stable_def plan_sound_def keyed_def distinct_map by (auto dest: inj_onD)

lemma plan_stays_sound_witness:
  "plan_sound (snd (ipam_serve plain_env (Some (fabric_user 1)) (CreateSubnetC (Some (new_subnet 21 ''10.1.9.0/24''))) example_plan))
   \<and> fst (ipam_serve plain_env (Some (fabric_user 1)) (CreateSubnetC (Some (new_subnet 21 ''10.1.9.0/24''))) example_plan) = 201
   \<and> fst (ipam_serve plain_env (Some (fabric_user 1)) (CreateSubnetC (Some (new_subnet 21 ''10.2.9.0/24''))) example_plan) = 400"
proof -
  have quiet: "others_stable plain_env"
    using stable_refl by (simp add: others_stable_def plain_env_def)
  have "fst (ipam_serve plain_env (Some (fabric_user 1)) (CreateSubnetC (Some (new_subnet 21 ''10.1.9.0/24''))) example_plan) = 201"
    "fst (ipam_serve plain_env (Some (fabric_user 1)) (CreateSubnetC (Some (new_subnet 21 ''10.2.9.0/24''))) example_plan) = 400"
    by code_simp+
  moreover have "\<not> reparents (CreateSubnetC b)" for b by (simp add: reparents_def)
  ultimately show ?thesis
    using plan_stays_sound[OF plain.pg_text_axioms quiet example_sound] by blast
qed

end
