(* ===== verification/IpamFindings.thy ===== *)
theory IpamFindings
  imports IpamNesting
begin

text \<open>
  Where the handlers of the address plan fall short of what they mean to do, on the
  example plan: each theorem runs the handler on a request it accepts.
\<close>

definition handled :: "ipam_call \<Rightarrow> ipam_db \<Rightarrow> nat \<times> ipam_db" where
  "handled c db = ipam_serve plain_env (Some (fabric_user 1)) c db"

text \<open>A caller scoped to fabric 1 can hang its subnet under a supernet of fabric 2: the partial
  update answers 200 and checks neither the fabric, the VRF nor the prefix of the new supernet, so
  the subnet ends up under a supernet that does not contain it.  The same request on a supernet
  can make it its own parent.\<close>

theorem reparenting_unchecked:
  "fst (handled (UpdateSubnetC ''31'' (Some (JObj [(''supernet_id'', JStr ''22'')]))) example_plan) = 200
   \<and> \<not> plan_sound (snd (handled (UpdateSubnetC ''31'' (Some (JObj [(''supernet_id'', JStr ''22'')]))) example_plan))
   \<and> fst (handled (UpdateSupernetC ''21'' (Some (JObj [(''parent_supernet_id'', JStr ''21'')]))) example_plan) = 200
   \<and> map nt_parent (nets (snd (handled (UpdateSupernetC ''21''
       (Some (JObj [(''parent_supernet_id'', JStr ''21'')]))) example_plan))) = [Some 21, None]"
  by code_simp

text \<open>The move as another transaction runs it between the check and the insert of a new subnet.\<close>

definition racing_env :: ipam_env where
  "racing_env = plain_env\<lparr>others := (\<lambda>Q db. if Q = ''CreateSubnet'' then snd (MoveSupernet 21 2 12 1 db) else db)\<rparr>"

definition empty_supernet_plan :: ipam_db where
  "empty_supernet_plan = example_plan\<lparr>subnets := [], addresses := []\<rparr>"

text \<open>A supernet that is moved while a subnet is being created in it: both succeed, and the
  subnet stays in the fabric and VRF that the supernet has left.\<close>

theorem move_races_new_subnet:
  "let r = ipam_serve racing_env (Some (fabric_user 1)) (CreateSubnetC (Some (new_subnet 21 ''10.1.9.0/24''))) empty_supernet_plan
   in fst r = 201 \<and> map (\<lambda>n. (nt_id n, nt_fabric n)) (nets (snd r)) = [(21, 2), (22, 2)]
      \<and> map (\<lambda>s. (sb_supernet s, sb_fabric s, sb_vrf s)) (subnets (snd r)) = [(21, 1, 11)]"
  by code_simp

text \<open>A field of the wrong JSON type is not refused: it is stored as the zero value.\<close>

theorem ill_typed_fields_zeroed:
  "let r = handled (UpdateVrfC ''11'' (Some (JObj [(''name'', JInt 5), (''is_default'', JStr ''yes'')]))) example_plan
   in fst r = 200 \<and> map (\<lambda>v. (vrf_id v, vrf_name v, vrf_is_default v)) (vrfs (snd r)) = [(11, [], False), (12, ''main'', True)]"
  by code_simp

definition new_net :: "uuid \<Rightarrow> uuid \<Rightarrow> string \<Rightarrow> supernet_req" where
  "new_net f v pfx = \<lparr>nr_fabric = f, nr_vrf = v, nr_parent = None, nr_site = None, nr_prefix = pfx,
     nr_name = None, nr_description = None, nr_purpose = None\<rparr>"

text \<open>A supernet can be created in a VRF of a fabric that is not its own (and that the caller has no
  scope over), and over another supernet of the same VRF.\<close>

theorem supernet_in_foreign_vrf:
  "let r = handled (CreateSupernetC (Some (new_net 1 12 ''10.2.0.0/16''))) example_plan
   in fst r = 201 \<and> map (\<lambda>n. (nt_fabric n, nt_vrf n)) (nets (snd r)) = [(1, 11), (2, 12), (1, 12)]
      \<and> map nt_prefix (filter (\<lambda>n. nt_vrf n = 12) (nets (snd r)))
          = [PrefixFrom (mk_addr V4 167903232) 16, PrefixFrom (mk_addr V4 167903232) 16]"
  by code_simp

definition overlay_plan :: ipam_db where
  "overlay_plan = example_plan
     \<lparr>overlays := map (\<lambda>(i, f). \<lparr>ov_id = i, ov_fabric = f, ov_name = ''x'', ov_kind = ''vxlan'',
        ov_udp_port = 4789, ov_mtu = None, ov_underlay = None, ov_description = None\<rparr>) [(51, 1), (52, 2)],
      vnis := map (\<lambda>(i, x). \<lparr>vn_id = i, vn_overlay = x, vn_vni = 100, vn_kind = ''l2'', vn_name = None,
        vn_description = None, vn_vlan = None, vn_route_target = None, vn_vrf = None\<rparr>) [(61, 51), (62, 52)],
      vteps := [\<lparr>vt_id = 71, vt_overlay = 51, vt_asset = 9, vt_loopback = None, vt_role = ''leaf'',
        vt_description = None\<rparr>]\<rparr>"

text \<open>A VTEP can be made a member of a VNI of another overlay in another fabric.\<close>

theorem membership_across_fabrics:
  "let r = handled (CreateMembershipC (Some (71, 62))) overlay_plan
   in fst r = 201 \<and> map (\<lambda>m. (vtep_fabric (vm_vtep m) (snd r), vni_fabric (vm_vni m) (snd r))) (vtep_vnis (snd r))
        = [(Some 1, Some 2)]"
  by code_simp

text \<open>An update turns a layer-2 VNI into a layer-3 one without a VRF, which a create refuses.\<close>

theorem vni_kind_unchecked_on_update:
  "let r = handled (UpdateVniC ''61'' (Some (JObj [(''kind'', JStr ''l3'')]))) overlay_plan
   in fst r = 200
      \<and> map (\<lambda>v. validateVniKind (vn_kind v) (vn_vlan v) (vn_vrf v)) (vnis (snd r)) = [Some L3WithoutVrf, None]"
  by code_simp

text \<open>The bindings of VRFs to BGP peers check no scope: a caller scoped to fabric 1 binds a VRF of
  fabric 2.\<close>

theorem bindings_ignore_scope:
  "let r = handled (CreateBindingC (Some \<lparr>br_vrf = 12, br_peer = 5, br_family = ''evpn'', br_rd = None,
              br_enabled = None\<rparr>)) example_plan
   in fst r = 201 \<and> map vbp_vrf (vrf_bgp_peers (snd r)) = [12]"
  by code_simp

end
