(* ===== verification/IpamReads.thy ===== *)
theory IpamReads
  imports IpamOverlays
begin

text \<open>
  The list and get handlers of \<^verbatim>\<open>internal/ipam/handler.go\<close> and the rest of the queries
  they run (\<^verbatim>\<open>ipam_overlay_dhcp.sql\<close>, \<^verbatim>\<open>vrf_bgp_peers.sql\<close>).  A list handler reads the
  page bounds and the filters of the query string, narrows the list to the fabrics of
  the caller's scope, and answers the page with the count of all the rows it selects.
\<close>

section \<open>Queries\<close>

text \<open>\<^verbatim>\<open>ORDER BY created_at DESC\<close>: a table keeps its rows in the order they were inserted.\<close>

definition newest_where ::
    "('s \<Rightarrow> 'r list) \<Rightarrow> ('s \<Rightarrow> 'r \<Rightarrow> bool) \<Rightarrow> int \<Rightarrow> int \<Rightarrow> ('s, 'r list) statement" where
  "newest_where rows wh limit offset =
     reading (\<lambda>db. Inr (take (nat limit) (drop (nat offset) (rev (filter (wh db) (rows db))))))"

text \<open>\<^verbatim>\<open>overlay_id IN (SELECT id FROM overlays WHERE fabric_id = ...)\<close>\<close>

definition overlay_in :: "uuid set option \<Rightarrow> ipam_db \<Rightarrow> uuid \<Rightarrow> bool" where
  "overlay_in ids db i \<longleftrightarrow>
     (case ids of None \<Rightarrow> True | Some fs \<Rightarrow> \<exists>x\<in>set (overlays db). ov_id x = i \<and> ov_fabric x \<in> fs)"

definition one_of :: "uuid option \<Rightarrow> uuid set option" where
  "one_of f = (case f of None \<Rightarrow> None | Some i \<Rightarrow> Some {i})"

definition overlays_where :: "uuid option \<Rightarrow> uuid set option \<Rightarrow> ipam_db \<Rightarrow> overlay \<Rightarrow> bool" where
  "overlays_where fab ids db x \<longleftrightarrow> opt_eq fab (ov_fabric x) \<and> opt_in ids (ov_fabric x)"

definition ListOverlays :: "uuid option \<Rightarrow> uuid set option \<Rightarrow> int \<Rightarrow> int \<Rightarrow> overlay list squery" where
  "ListOverlays fab ids = list_where overlays (\<lambda>x. by_name (ov_name x)) (overlays_where fab ids)"

definition CountOverlays :: "uuid option \<Rightarrow> uuid set option \<Rightarrow> nat squery" where
  "CountOverlays fab ids = count_where overlays (overlays_where fab ids)"

definition vnis_where ::
    "uuid option \<Rightarrow> uuid option \<Rightarrow> string option \<Rightarrow> uuid set option \<Rightarrow> ipam_db \<Rightarrow> vni_rec \<Rightarrow> bool" where
  "vnis_where ovl fab kind ids db v \<longleftrightarrow>
     opt_eq ovl (vn_overlay v) \<and> overlay_in (one_of fab) db (vn_overlay v)
     \<and> overlay_in ids db (vn_overlay v) \<and> opt_eq kind (vn_kind v)"

definition ListVnis ::
    "uuid option \<Rightarrow> uuid option \<Rightarrow> string option \<Rightarrow> uuid set option \<Rightarrow> int \<Rightarrow> int \<Rightarrow> vni_rec list squery" where
  "ListVnis ovl fab kind ids = list_where vnis (\<lambda>v. [nat (vn_vni v)]) (vnis_where ovl fab kind ids)"

definition CountVnis :: "uuid option \<Rightarrow> uuid option \<Rightarrow> string option \<Rightarrow> uuid set option \<Rightarrow> nat squery" where
  "CountVnis ovl fab kind ids = count_where vnis (vnis_where ovl fab kind ids)"

definition vteps_where ::
    "uuid option \<Rightarrow> uuid option \<Rightarrow> uuid set option \<Rightarrow> ipam_db \<Rightarrow> vtep_rec \<Rightarrow> bool" where
  "vteps_where ovl asset ids db v \<longleftrightarrow>
     opt_eq ovl (vt_overlay v) \<and> opt_eq asset (vt_asset v) \<and> overlay_in ids db (vt_overlay v)"

definition ListVteps ::
    "uuid option \<Rightarrow> uuid option \<Rightarrow> uuid set option \<Rightarrow> int \<Rightarrow> int \<Rightarrow> vtep_rec list squery" where
  "ListVteps ovl asset ids = newest_where vteps (vteps_where ovl asset ids)"

definition CountVteps :: "uuid option \<Rightarrow> uuid option \<Rightarrow> uuid set option \<Rightarrow> nat squery" where
  "CountVteps ovl asset ids = count_where vteps (vteps_where ovl asset ids)"

text \<open>The overlay of a membership through the \<^verbatim>\<open>LEFT JOIN\<close> with its VTEP.\<close>

definition memberships_where ::
    "uuid option \<Rightarrow> uuid option \<Rightarrow> uuid option \<Rightarrow> uuid set option \<Rightarrow> ipam_db \<Rightarrow> vtep_membership \<Rightarrow> bool" where
  "memberships_where vtep vni ovl ids db m \<longleftrightarrow>
     opt_eq vtep (vm_vtep m) \<and> opt_eq vni (vm_vni m)
     \<and> (case find_row vt_id (vm_vtep m) (vteps db) of
          None \<Rightarrow> ovl = None \<and> ids = None
        | Some v \<Rightarrow> opt_eq ovl (vt_overlay v) \<and> overlay_in ids db (vt_overlay v))"

definition ListVtepMemberships ::
    "uuid option \<Rightarrow> uuid option \<Rightarrow> uuid option \<Rightarrow> uuid set option \<Rightarrow> int \<Rightarrow> int \<Rightarrow> vtep_membership list squery" where
  "ListVtepMemberships vtep vni ovl ids = newest_where vtep_vnis (memberships_where vtep vni ovl ids)"

definition CountVtepMemberships ::
    "uuid option \<Rightarrow> uuid option \<Rightarrow> uuid option \<Rightarrow> uuid set option \<Rightarrow> nat squery" where
  "CountVtepMemberships vtep vni ovl ids = count_where vtep_vnis (memberships_where vtep vni ovl ids)"

definition servers_where :: "uuid option \<Rightarrow> uuid set option \<Rightarrow> ipam_db \<Rightarrow> dhcp_server \<Rightarrow> bool" where
  "servers_where fab ids db s \<longleftrightarrow> opt_eq fab (ds_fabric s) \<and> opt_in ids (ds_fabric s)"

definition ListDhcpServers :: "uuid option \<Rightarrow> uuid set option \<Rightarrow> int \<Rightarrow> int \<Rightarrow> dhcp_server list squery" where
  "ListDhcpServers fab ids limit offset = reading (\<lambda>db.
     Inr (map server_view (page_of (\<lambda>s. by_name (ds_name s)) limit offset
       (filter (servers_where fab ids db) (dhcp_servers db)))))"

definition CountDhcpServers :: "uuid option \<Rightarrow> uuid set option \<Rightarrow> nat squery" where
  "CountDhcpServers fab ids = count_where dhcp_servers (servers_where fab ids)"

definition vbps_where ::
    "uuid option \<Rightarrow> uuid option \<Rightarrow> string option \<Rightarrow> uuid set option \<Rightarrow> ipam_db \<Rightarrow> vrf_bgp_peer \<Rightarrow> bool" where
  "vbps_where vrf peer family ids db b \<longleftrightarrow>
     opt_eq vrf (vbp_vrf b) \<and> opt_eq peer (vbp_peer b) \<and> opt_eq family (vbp_family b)
     \<and> (case ids of None \<Rightarrow> True
        | Some fs \<Rightarrow> \<exists>v\<in>set (vrfs db). vrf_id v = vbp_vrf b \<and> vrf_fabric v \<in> fs)"

definition ListVrfBgpPeers ::
    "uuid option \<Rightarrow> uuid option \<Rightarrow> string option \<Rightarrow> uuid set option \<Rightarrow> int \<Rightarrow> int \<Rightarrow> vrf_bgp_peer list squery" where
  "ListVrfBgpPeers vrf peer family ids = newest_where vrf_bgp_peers (vbps_where vrf peer family ids)"

definition CountVrfBgpPeers ::
    "uuid option \<Rightarrow> uuid option \<Rightarrow> string option \<Rightarrow> uuid set option \<Rightarrow> nat squery" where
  "CountVrfBgpPeers vrf peer family ids = count_where vrf_bgp_peers (vbps_where vrf peer family ids)"

section \<open>What the list handlers share\<close>

text \<open>\<open>None\<close>: the caller is scoped to fabrics and holds none.\<close>

definition scopedListFilter :: "principal \<Rightarrow> string \<Rightarrow> uuid set option option" where
  "scopedListFilter p cap =
     (case ScopedFabricFilter p cap of
        Some ids \<Rightarrow> if ids = {} then None else Some (Some ids)
      | None \<Rightarrow> Some None)"

definition strPtr :: "string \<Rightarrow> string option" where
  "strPtr s = (if s = [] then None else Some s)"

definition uuid_param :: "('s, 'z) db_env_scheme \<Rightarrow> query_values \<Rightarrow> string \<Rightarrow> ('s, 'r, uuid option) web" where
  "uuid_param E q key =
     (if q key = [] then hreturn None
      else case parse_uuid E (q key) of
             None \<Rightarrow> hanswer (HttpError 400 (key @ '' is not a uuid''))
           | Some i \<Rightarrow> hreturn (Some i))"

text \<open>An error of a read is mapped without a message of its own.\<close>

definition readErr :: "dberr \<Rightarrow> 'r resp" where
  "readErr e = HttpError (fst (Mapped e)) (snd (Mapped e))"

text \<open>The rows and then their count, as one page.\<close>

definition answer_page ::
    "('s, 'z) db_env_scheme \<Rightarrow> iquery \<Rightarrow> (int \<Rightarrow> int \<Rightarrow> ('s, 'r list) statement) \<Rightarrow> iquery \<Rightarrow> ('s, nat) statement \<Rightarrow> int \<times> int
     \<Rightarrow> ('s, 'r Page, 'r Page resp) web" where
  "answer_page E LQ rows_q CQ count_q b =
     hbind (ask E LQ (rows_q (fst b) (snd b)) readErr) (\<lambda>rows.
     hbind (ask E CQ count_q readErr) (\<lambda>n.
     hreturn (HttpJSON 200 \<lparr>Items = rows, Total = int n, Limit = fst b, Offset = snd b\<rparr>)))"

text \<open>The scope filter, and the empty page of a caller that is scoped to nothing.\<close>

definition in_scope ::
    "principal \<Rightarrow> string \<Rightarrow> int \<times> int \<Rightarrow> (uuid set option \<Rightarrow> ('s, 'r Page, 'r Page resp) web)
     \<Rightarrow> ('s, 'r Page, 'r Page resp) web" where
  "in_scope p cap b k =
     (case scopedListFilter p cap of
        None \<Rightarrow> hreturn (HttpJSON 200 (EmptyPage (fst b) (snd b)))
      | Some ids \<Rightarrow> k ids)"

section \<open>Lists\<close>

definition listVrfBgpPeers ::
    "ipam_env \<Rightarrow> principal \<Rightarrow> query_values \<Rightarrow> (vrf_bgp_peer Page, vrf_bgp_peer Page resp) ihandler" where
  "listVrfBgpPeers E p q =
     in_scope p ''ipam:vrf-bgp-peers:read'' (PageBounds q) (\<lambda>ids.
     hbind (uuid_param E q ''vrf_id'') (\<lambda>v.
     hbind (uuid_param E q ''bgp_peer_id'') (\<lambda>peer.
     answer_page E ''ListVrfBgpPeers'' (ListVrfBgpPeers v peer (strPtr (q ''address_family'')) ids)
       ''CountVrfBgpPeers'' (CountVrfBgpPeers v peer (strPtr (q ''address_family'')) ids) (PageBounds q))))"

definition listVrfs :: "ipam_env \<Rightarrow> principal \<Rightarrow> query_values \<Rightarrow> (vrf Page, vrf Page resp) ihandler" where
  "listVrfs E p q =
     in_scope p ''ipam:vrfs:read'' (PageBounds q) (\<lambda>ids.
     hbind (uuid_param E q ''fabric_id'') (\<lambda>fab.
     answer_page E ''ListVrfs'' (ListVrfs fab ids) ''CountVrfs'' (CountVrfs fab ids) (PageBounds q)))"

definition listSubnets ::
    "ipam_env \<Rightarrow> principal \<Rightarrow> query_values \<Rightarrow> (subnet_rec Page, subnet_rec Page resp) ihandler" where
  "listSubnets E p q =
     in_scope p ''ipam:subnets:read'' (PageBounds q) (\<lambda>ids.
     hbind (uuid_param E q ''fabric_id'') (\<lambda>fab.
     hbind (uuid_param E q ''vrf_id'') (\<lambda>v.
     hbind (uuid_param E q ''site_id'') (\<lambda>site.
     answer_page E ''ListSubnets'' (ListSubnets fab v site (strPtr (q ''purpose'')) ids)
       ''CountSubnets'' (CountSubnets fab v site (strPtr (q ''purpose'')) ids) (PageBounds q)))))"

definition listAddresses ::
    "ipam_env \<Rightarrow> principal \<Rightarrow> query_values \<Rightarrow> (ip_address Page, ip_address Page resp) ihandler" where
  "listAddresses E p q =
     in_scope p ''ipam:addresses:read'' (PageBounds q) (\<lambda>ids.
     hbind (uuid_param E q ''subnet_id'') (\<lambda>sub.
     hbind (uuid_param E q ''asset_id'') (\<lambda>asset.
     answer_page E ''ListIPAddresses''
       (ListIPAddresses sub asset (strPtr (q ''role'')) (strPtr (q ''status'')) ids)
       ''CountIPAddresses'' (CountIPAddresses sub asset (strPtr (q ''role'')) (strPtr (q ''status'')) ids)
       (PageBounds q))))"

definition listFabrics :: "ipam_env \<Rightarrow> principal \<Rightarrow> query_values \<Rightarrow> (fabric Page, fabric Page resp) ihandler" where
  "listFabrics E p q =
     in_scope p ''ipam:fabrics:read'' (PageBounds q) (\<lambda>ids.
     answer_page E ''ListFabrics'' (ListFabrics (strPtr (q ''enclave'')) ids)
       ''CountFabrics'' (CountFabrics (strPtr (q ''enclave'')) ids) (PageBounds q))"

definition parentFilter :: "ipam_env \<Rightarrow> query_values \<Rightarrow> parent_mode option" where
  "parentFilter E q =
     (if q ''top_level'' = ''true'' \<or> q ''top_level'' = ''1'' then Some NullParent
      else let raw = q ''parent_supernet_id''
        in if raw = [] then Some AnyParent
           else if raw = ''null'' then Some NullParent
           else map_option EqParent (parse_uuid E raw))"

definition listSupernets ::
    "ipam_env \<Rightarrow> principal \<Rightarrow> query_values \<Rightarrow> (supernet_rec Page, supernet_rec Page resp) ihandler" where
  "listSupernets E p q =
     (case parentFilter E q of
        None \<Rightarrow> hanswer (HttpError 400 (''parent_supernet_id is not a uuid or 'null'' @ [CHR 0x27]))
      | Some mode \<Rightarrow>
         in_scope p ''ipam:supernets:read'' (PageBounds q) (\<lambda>ids.
         hbind (uuid_param E q ''fabric_id'') (\<lambda>fab.
         hbind (uuid_param E q ''vrf_id'') (\<lambda>v.
         answer_page E ''ListSupernets'' (ListSupernets fab v mode ids)
           ''CountSupernets'' (CountSupernets fab v mode ids) (PageBounds q)))))"

definition listOverlays :: "ipam_env \<Rightarrow> principal \<Rightarrow> query_values \<Rightarrow> (overlay Page, overlay Page resp) ihandler" where
  "listOverlays E p q =
     in_scope p ''ipam:overlays:read'' (PageBounds q) (\<lambda>ids.
     hbind (uuid_param E q ''fabric_id'') (\<lambda>fab.
     answer_page E ''ListOverlays'' (ListOverlays fab ids) ''CountOverlays'' (CountOverlays fab ids) (PageBounds q)))"

definition listVnis :: "ipam_env \<Rightarrow> principal \<Rightarrow> query_values \<Rightarrow> (vni_rec Page, vni_rec Page resp) ihandler" where
  "listVnis E p q =
     in_scope p ''ipam:vnis:read'' (PageBounds q) (\<lambda>ids.
     hbind (uuid_param E q ''overlay_id'') (\<lambda>ovl.
     hbind (uuid_param E q ''fabric_id'') (\<lambda>fab.
     answer_page E ''ListVnis'' (ListVnis ovl fab (strPtr (q ''kind'')) ids)
       ''CountVnis'' (CountVnis ovl fab (strPtr (q ''kind'')) ids) (PageBounds q))))"

definition listVteps :: "ipam_env \<Rightarrow> principal \<Rightarrow> query_values \<Rightarrow> (vtep_rec Page, vtep_rec Page resp) ihandler" where
  "listVteps E p q =
     in_scope p ''ipam:vteps:read'' (PageBounds q) (\<lambda>ids.
     hbind (uuid_param E q ''overlay_id'') (\<lambda>ovl.
     hbind (uuid_param E q ''asset_id'') (\<lambda>asset.
     answer_page E ''ListVteps'' (ListVteps ovl asset ids) ''CountVteps'' (CountVteps ovl asset ids) (PageBounds q))))"

definition listVtepMemberships ::
    "ipam_env \<Rightarrow> principal \<Rightarrow> query_values \<Rightarrow> (vtep_membership Page, vtep_membership Page resp) ihandler" where
  "listVtepMemberships E p q =
     in_scope p ''ipam:vtep-memberships:read'' (PageBounds q) (\<lambda>ids.
     hbind (uuid_param E q ''vtep_id'') (\<lambda>vtep.
     hbind (uuid_param E q ''vni_id'') (\<lambda>vni.
     hbind (uuid_param E q ''overlay_id'') (\<lambda>ovl.
     answer_page E ''ListVtepMemberships'' (ListVtepMemberships vtep vni ovl ids)
       ''CountVtepMemberships'' (CountVtepMemberships vtep vni ovl ids) (PageBounds q)))))"

definition listDhcpServers ::
    "ipam_env \<Rightarrow> principal \<Rightarrow> query_values \<Rightarrow> (dhcp_server Page, dhcp_server Page resp) ihandler" where
  "listDhcpServers E p q =
     in_scope p ''ipam:dhcp-servers:read'' (PageBounds q) (\<lambda>ids.
     hbind (uuid_param E q ''fabric_id'') (\<lambda>fab.
     answer_page E ''ListDhcpServers'' (ListDhcpServers fab ids)
       ''CountDhcpServers'' (CountDhcpServers fab ids) (PageBounds q)))"

section \<open>Single rows\<close>

text \<open>No scope is checked for a row that is addressed by its id.\<close>

definition get_one ::
    "ipam_env \<Rightarrow> string \<Rightarrow> iquery \<Rightarrow> (uuid \<Rightarrow> 'r squery) \<Rightarrow> string \<Rightarrow> ('r, 'r resp) ihandler" where
  "get_one E url Q getter notFoundMsg =
     hbind (idFromURL E url) (\<lambda>i.
     hbind (ask E Q (getter i) (mapIpamErr notFoundMsg)) (\<lambda>row.
     hreturn (HttpJSON 200 row)))"

definition getVrf :: "ipam_env \<Rightarrow> string \<Rightarrow> (vrf, vrf resp) ihandler" where
  "getVrf E url = get_one E url ''GetVrf'' GetVrf ''vrf not found''"

definition getSubnet :: "ipam_env \<Rightarrow> string \<Rightarrow> (subnet_rec, subnet_rec resp) ihandler" where
  "getSubnet E url = get_one E url ''GetSubnet'' GetSubnet ''subnet not found''"

definition getAddress :: "ipam_env \<Rightarrow> string \<Rightarrow> (ip_address, ip_address resp) ihandler" where
  "getAddress E url = get_one E url ''GetIPAddress'' GetIPAddress ''ip address not found''"

definition getFabric :: "ipam_env \<Rightarrow> string \<Rightarrow> (fabric, fabric resp) ihandler" where
  "getFabric E url = get_one E url ''GetFabric'' GetFabric ''fabric not found''"

definition getSupernet :: "ipam_env \<Rightarrow> string \<Rightarrow> (supernet_rec, supernet_rec resp) ihandler" where
  "getSupernet E url = get_one E url ''GetSupernet'' GetSupernet ''supernet not found''"

end
