(* ===== verification/IpamReadProps.thy ===== *)
theory IpamReadProps
  imports IpamReads IpamSafety
begin

text \<open>
  What the lists of the address plan show: the rows in the fabrics of a scoped caller,
  and, because no list route requires its read capability, everything to a caller that
  does not hold it.
\<close>

definition page_rows :: "(('r Page) resp + ('r Page) resp) \<times> 's \<Rightarrow> 'r list" where
  "page_rows r = (case fst r of Inr (HttpJSON c pg) \<Rightarrow> Items pg | _ \<Rightarrow> [])"

definition quiet :: "('s, 'z) db_env_scheme \<Rightarrow> bool" where
  "quiet E \<longleftrightarrow> (\<forall>Q db. others E Q db = db)"

lemma page_rows_answer:
  assumes "quiet E" "\<And>rows. L (fst b) (snd b) db = (Inr rows, db) \<Longrightarrow> set rows \<subseteq> S"
    and "\<And>r db'. L (fst b) (snd b) db = (r, db') \<Longrightarrow> db' = db"
  shows "set (page_rows (answer_page E LQ L CQ C b db)) \<subseteq> S"
proof (cases "L (fst b) (snd b) db")
  case (Pair r db')
  then have "db' = db" by (rule assms(3))
  then show ?thesis
    using assms(1,2) Pair
    by (cases r; cases "C db"; cases "fst (C db)")
      (auto simp: answer_page_def hbind_def ask_def iexec_def quiet_def page_rows_def hreturn_def readErr_def
        Let_def split: option.split)
qed

lemma page_of_subset: "set (page_of key l o' rs) \<subseteq> set rs"
  unfolding page_of_def by (auto dest!: in_set_takeD in_set_dropD)

lemma page_rows_list_where:
  "quiet E \<Longrightarrow> set (page_rows (answer_page E LQ (list_where rows key wh) CQ C b db)) \<subseteq> {x \<in> set (rows db). wh db x}"
  using page_of_subset by (intro page_rows_answer) (fastforce simp: list_where_def reading_def)+

lemma page_rows_newest_where:
  "quiet E \<Longrightarrow> set (page_rows (answer_page E LQ (newest_where rows wh) CQ C b db)) \<subseteq> {x \<in> set (rows db). wh db x}"
  by (intro page_rows_answer) (auto simp: newest_where_def reading_def dest!: in_set_takeD in_set_dropD)

lemma page_rows_uuid_param:
  assumes "\<And>v. set (page_rows (k v db)) \<subseteq> S"
  shows "set (page_rows (hbind (uuid_param E q key) k db)) \<subseteq> S"
  using assms by (auto simp: hbind_def uuid_param_def hreturn_def hanswer_def page_rows_def split: option.split)

lemma page_rows_in_scope:
  assumes "FindScope p cap = Some sc" "\<not> IsGlobal sc"
    and "set (page_rows (k (Some (FabricIDs sc)) db)) \<subseteq> S"
  shows "set (page_rows (in_scope p cap b k db)) \<subseteq> S"
  using assms by (auto simp: in_scope_def scopedListFilter_def ScopedFabricFilter_def page_rows_def hreturn_def
      EmptyPage_def)

definition overlay_visible :: "ipam_db \<Rightarrow> uuid set \<Rightarrow> uuid \<Rightarrow> bool" where
  "overlay_visible db fs i \<longleftrightarrow> (\<exists>x\<in>set (overlays db). ov_id x = i \<and> ov_fabric x \<in> fs)"

lemma membership_visible:
  "memberships_where vtep vni ovl (Some fs) db m \<Longrightarrow>
     \<exists>v\<in>set (vteps db). vt_id v = vm_vtep m \<and> overlay_visible db fs (vt_overlay v)"
  by (cases "find_row vt_id (vm_vtep m) (vteps db)")
    (auto simp: memberships_where_def overlay_in_def overlay_visible_def dest: find_row_SomeD)

definition list_caps :: "string list" where
  "list_caps = [''ipam:fabrics:read'', ''ipam:vrfs:read'', ''ipam:vrf-bgp-peers:read'', ''ipam:supernets:read'',
     ''ipam:subnets:read'', ''ipam:addresses:read'', ''ipam:overlays:read'', ''ipam:vnis:read'', ''ipam:vteps:read'',
     ''ipam:vtep-memberships:read'', ''ipam:dhcp-servers:read'']"

text \<open>C19. The lists show a caller that is scoped to fabrics only rows of those fabrics: its own
  fabrics, VRFs, supernets, subnets, overlays and DHCP servers, the addresses of its subnets, the
  bindings of its VRFs, and the VNIs, VTEPs and memberships of its overlays, whatever the filters
  of the query string.\<close>

theorem lists_stay_in_scope:
  assumes "quiet E" "\<forall>cap\<in>set list_caps. FindScope p cap = Some sc" "\<not> IsGlobal sc"
  shows "set (page_rows (listFabrics E p q db)) \<subseteq> {x \<in> set (fabrics db). fb_id x \<in> FabricIDs sc}
    \<and> set (page_rows (listVrfs E p q db)) \<subseteq> {v \<in> set (vrfs db). vrf_fabric v \<in> FabricIDs sc}
    \<and> set (page_rows (listVrfBgpPeers E p q db)) \<subseteq>
        {b \<in> set (vrf_bgp_peers db). \<exists>v\<in>set (vrfs db). vrf_id v = vbp_vrf b \<and> vrf_fabric v \<in> FabricIDs sc}
    \<and> set (page_rows (listSupernets E p q db)) \<subseteq> {n \<in> set (nets db). nt_fabric n \<in> FabricIDs sc}
    \<and> set (page_rows (listSubnets E p q db)) \<subseteq> {s \<in> set (subnets db). sb_fabric s \<in> FabricIDs sc}
    \<and> set (page_rows (listAddresses E p q db)) \<subseteq>
        {a \<in> set (addresses db). \<exists>s\<in>set (subnets db). sb_id s = ad_subnet a \<and> sb_fabric s \<in> FabricIDs sc}
    \<and> set (page_rows (listOverlays E p q db)) \<subseteq> {x \<in> set (overlays db). ov_fabric x \<in> FabricIDs sc}
    \<and> set (page_rows (listVnis E p q db)) \<subseteq> {v \<in> set (vnis db). overlay_visible db (FabricIDs sc) (vn_overlay v)}
    \<and> set (page_rows (listVteps E p q db)) \<subseteq> {v \<in> set (vteps db). overlay_visible db (FabricIDs sc) (vt_overlay v)}
    \<and> set (page_rows (listVtepMemberships E p q db)) \<subseteq>
        {m \<in> set (vtep_vnis db). \<exists>v\<in>set (vteps db). vt_id v = vm_vtep m \<and> overlay_visible db (FabricIDs sc) (vt_overlay v)}
    \<and> set (page_rows (listDhcpServers E p q db)) \<subseteq> server_view ` {s \<in> set (dhcp_servers db). ds_fabric s \<in> FabricIDs sc}"
proof -
  have sc: "FindScope p cap = Some sc" if "cap \<in> set list_caps" for cap using assms(2) that by blast
  note scope = page_rows_in_scope[OF sc assms(3)]
  note by_key = order_trans[OF page_rows_list_where[OF assms(1)]]
  note newest = order_trans[OF page_rows_newest_where[OF assms(1)]]
  have fabrics: "set (page_rows (listFabrics E p q db)) \<subseteq> {x \<in> set (fabrics db). fb_id x \<in> FabricIDs sc}"
    unfolding listFabrics_def ListFabrics_def
    by (rule scope, simp add: list_caps_def, rule by_key) (auto simp: fabrics_where_def opt_in_def)
  have vrfs: "set (page_rows (listVrfs E p q db)) \<subseteq> {v \<in> set (vrfs db). vrf_fabric v \<in> FabricIDs sc}"
    unfolding listVrfs_def ListVrfs_def
    by (rule scope, simp add: list_caps_def, rule page_rows_uuid_param, rule by_key)
      (auto simp: vrfs_where_def opt_in_def)
  have bindings: "set (page_rows (listVrfBgpPeers E p q db)) \<subseteq>
      {b \<in> set (vrf_bgp_peers db). \<exists>v\<in>set (vrfs db). vrf_id v = vbp_vrf b \<and> vrf_fabric v \<in> FabricIDs sc}"
    unfolding listVrfBgpPeers_def ListVrfBgpPeers_def
    by (rule scope, simp add: list_caps_def, rule page_rows_uuid_param, rule page_rows_uuid_param, rule newest)
      (auto simp: vbps_where_def)
  have nets: "set (page_rows (listSupernets E p q db)) \<subseteq> {n \<in> set (nets db). nt_fabric n \<in> FabricIDs sc}"
  proof (cases "parentFilter E q")
    case (Some mode)
    show ?thesis
      unfolding listSupernets_def Some option.case ListSupernets_def
      by (rule scope, simp add: list_caps_def, rule page_rows_uuid_param, rule page_rows_uuid_param, rule by_key)
        (auto simp: supernets_where_def opt_in_def)
  qed (simp add: listSupernets_def page_rows_def hanswer_def)
  have subnets: "set (page_rows (listSubnets E p q db)) \<subseteq> {s \<in> set (subnets db). sb_fabric s \<in> FabricIDs sc}"
    unfolding listSubnets_def ListSubnets_def
    by (rule scope, simp add: list_caps_def, rule page_rows_uuid_param, rule page_rows_uuid_param,
        rule page_rows_uuid_param, rule by_key) (auto simp: subnets_where_def opt_in_def)
  have addresses: "set (page_rows (listAddresses E p q db)) \<subseteq>
      {a \<in> set (addresses db). \<exists>s\<in>set (subnets db). sb_id s = ad_subnet a \<and> sb_fabric s \<in> FabricIDs sc}"
    unfolding listAddresses_def ListIPAddresses_def
    by (rule scope, simp add: list_caps_def, rule page_rows_uuid_param, rule page_rows_uuid_param, rule by_key)
      (auto simp: addresses_where_def)
  have overlays: "set (page_rows (listOverlays E p q db)) \<subseteq> {x \<in> set (overlays db). ov_fabric x \<in> FabricIDs sc}"
    unfolding listOverlays_def ListOverlays_def
    by (rule scope, simp add: list_caps_def, rule page_rows_uuid_param, rule by_key)
      (auto simp: overlays_where_def opt_in_def)
  have vnis: "set (page_rows (listVnis E p q db)) \<subseteq> {v \<in> set (vnis db). overlay_visible db (FabricIDs sc) (vn_overlay v)}"
    unfolding listVnis_def ListVnis_def
    by (rule scope, simp add: list_caps_def, rule page_rows_uuid_param, rule page_rows_uuid_param, rule by_key)
      (auto simp: vnis_where_def overlay_in_def overlay_visible_def)
  have vteps: "set (page_rows (listVteps E p q db)) \<subseteq> {v \<in> set (vteps db). overlay_visible db (FabricIDs sc) (vt_overlay v)}"
    unfolding listVteps_def ListVteps_def
    by (rule scope, simp add: list_caps_def, rule page_rows_uuid_param, rule page_rows_uuid_param, rule newest)
      (auto simp: vteps_where_def overlay_in_def overlay_visible_def)
  have members: "set (page_rows (listVtepMemberships E p q db)) \<subseteq>
      {m \<in> set (vtep_vnis db). \<exists>v\<in>set (vteps db). vt_id v = vm_vtep m \<and> overlay_visible db (FabricIDs sc) (vt_overlay v)}"
    unfolding listVtepMemberships_def ListVtepMemberships_def
    by (rule scope, simp add: list_caps_def, rule page_rows_uuid_param, rule page_rows_uuid_param,
        rule page_rows_uuid_param, rule newest)
      (auto dest: membership_visible)
  have servers: "set (page_rows (listDhcpServers E p q db)) \<subseteq> server_view ` {s \<in> set (dhcp_servers db). ds_fabric s \<in> FabricIDs sc}"
    unfolding listDhcpServers_def
    by (rule scope, simp add: list_caps_def, rule page_rows_uuid_param, rule page_rows_answer[OF assms(1)])
      (auto simp: ListDhcpServers_def reading_def servers_where_def opt_in_def dest!: subsetD[OF page_of_subset])
  show ?thesis using fabrics vrfs bindings nets subnets addresses overlays vnis vteps members servers by blast
qed

lemma lists_stay_in_scope_witness:
  "set (page_rows (listAddresses plain_env (fabric_user 1) (\<lambda>_. []) example_plan)) \<subseteq>
     {a \<in> set (addresses example_plan). \<exists>s\<in>set (subnets example_plan). sb_id s = ad_subnet a \<and> sb_fabric s \<in> {1}}
   \<and> map ad_id (page_rows (listAddresses plain_env (fabric_user 1) (\<lambda>_. []) example_plan)) = [41]"
proof -
  have q: "quiet plain_env" by (simp add: quiet_def plain_env_def)
  have s: "\<forall>cap\<in>set list_caps. FindScope (fabric_user 1) cap = Some (zero_scope\<lparr>FabricIDs := {1}\<rparr>)"
    by code_simp
  have g: "\<not> IsGlobal (zero_scope\<lparr>FabricIDs := {1}\<rparr>)" by (simp add: zero_scope_def)
  have "map ad_id (page_rows (listAddresses plain_env (fabric_user 1) (\<lambda>_. []) example_plan)) = [41]"
    by code_simp
  with lists_stay_in_scope[OF q s g, of "\<lambda>_. []" example_plan] show ?thesis by simp
qed

text \<open>A caller who holds none of the read capabilities gets from every list what a caller with the
  unrestricted \<^verbatim>\<open>*\<close> gets: the scope of a capability that is not held is no filter, and the
  list routes do not require it.\<close>

theorem lists_without_capability_are_unfiltered:
  assumes "\<forall>cap\<in>set list_caps. \<not> HasCapability (Capabilities p) cap"
    and "Capabilities admin = [''*'']" "Scopes admin = None"
  shows "listFabrics E p = listFabrics E admin \<and> listVrfs E p = listVrfs E admin
    \<and> listVrfBgpPeers E p = listVrfBgpPeers E admin \<and> listSupernets E p = listSupernets E admin
    \<and> listSubnets E p = listSubnets E admin \<and> listAddresses E p = listAddresses E admin
    \<and> listOverlays E p = listOverlays E admin \<and> listVnis E p = listVnis E admin
    \<and> listVteps E p = listVteps E admin \<and> listVtepMemberships E p = listVtepMemberships E admin
    \<and> listDhcpServers E p = listDhcpServers E admin"
proof -
  have "scopedListFilter p cap = Some None" if "cap \<in> set list_caps" for cap
    using assms(1) that by (simp add: scopedListFilter_def ScopedFabricFilter_def FindScope_def)
  moreover have "scopedListFilter admin cap = Some None" for cap
    using assms(2,3) by (simp add: scopedListFilter_def ScopedFabricFilter_def FindScope_def HasCapability_def
        GlobalScope_def)
  ultimately have "\<forall>cap\<in>set list_caps. scopedListFilter p cap = scopedListFilter admin cap"
    by simp
  then have same: "scopedListFilter p ''ipam:fabrics:read'' = scopedListFilter admin ''ipam:fabrics:read''"
    "scopedListFilter p ''ipam:vrfs:read'' = scopedListFilter admin ''ipam:vrfs:read''"
    "scopedListFilter p ''ipam:vrf-bgp-peers:read'' = scopedListFilter admin ''ipam:vrf-bgp-peers:read''"
    "scopedListFilter p ''ipam:supernets:read'' = scopedListFilter admin ''ipam:supernets:read''"
    "scopedListFilter p ''ipam:subnets:read'' = scopedListFilter admin ''ipam:subnets:read''"
    "scopedListFilter p ''ipam:addresses:read'' = scopedListFilter admin ''ipam:addresses:read''"
    "scopedListFilter p ''ipam:overlays:read'' = scopedListFilter admin ''ipam:overlays:read''"
    "scopedListFilter p ''ipam:vnis:read'' = scopedListFilter admin ''ipam:vnis:read''"
    "scopedListFilter p ''ipam:vteps:read'' = scopedListFilter admin ''ipam:vteps:read''"
    "scopedListFilter p ''ipam:vtep-memberships:read'' = scopedListFilter admin ''ipam:vtep-memberships:read''"
    "scopedListFilter p ''ipam:dhcp-servers:read'' = scopedListFilter admin ''ipam:dhcp-servers:read''"
    by (simp_all add: list_caps_def)
  show ?thesis
    unfolding fun_eq_iff listFabrics_def listVrfs_def listVrfBgpPeers_def listSupernets_def
      listSubnets_def listAddresses_def listOverlays_def listVnis_def listVteps_def listVtepMemberships_def
      listDhcpServers_def in_scope_def same by blast
qed

lemma lists_without_capability_are_unfiltered_witness:
  "map sb_id (page_rows (listSubnets plain_env \<lparr>Subject = 9, Capabilities = [], Scopes = None, MFA = False, Label = []\<rparr>
     (\<lambda>_. []) example_plan)) = [31, 32]"
proof -
  let ?p = "\<lparr>Subject = 9, Capabilities = [], Scopes = None, MFA = False, Label = []\<rparr>"
  let ?admin = "\<lparr>Subject = 1, Capabilities = [''*''], Scopes = None, MFA = False, Label = []\<rparr>"
  have "listSubnets plain_env ?p = listSubnets plain_env ?admin"
    using lists_without_capability_are_unfiltered[of ?p ?admin plain_env] by (simp add: HasCapability_def)
  moreover have "map sb_id (page_rows (listSubnets plain_env ?admin (\<lambda>_. []) example_plan)) = [31, 32]"
    by code_simp
  ultimately show ?thesis by simp
qed

end
