(* ===== verification/IpamBatch.thy ===== *)
theory IpamBatch
  imports IpamNesting
begin

text \<open>
  Running a batch again.  A batch of addresses of which no row failed is a batch that can
  be sent again: every row is skipped and nothing changes.  A batch of subnets is not:
  no constraint excludes a second row of the same prefix.
\<close>

text \<open>A database that does not fail, where nobody else writes and generated ids are new.\<close>

definition calm :: "ipam_env \<Rightarrow> bool" where
  "calm E \<longleftrightarrow> (\<forall>Q db. others E Q db = db \<and> db_fault E Q db = None)
     \<and> (\<forall>db. gen_id E db \<notin> ad_id ` set (addresses db))"

definition address_row :: "ipam_env \<Rightarrow> address_req \<Rightarrow> inet \<Rightarrow> uuid \<Rightarrow> ip_address" where
  "address_row E req a i =
     \<lparr>ad_id = i, ad_subnet = ar_subnet req, ad_asset = ar_asset req, ad_address = a,
      ad_role = or_default ''data'' (ar_role req), ad_status = or_default ''active'' (ar_status req),
      ad_source = or_default ''static'' (ar_source req), ad_dns_name = ar_dns_name req,
      ad_description = ar_description req, ad_lease_expires = None, ad_mac = None, ad_duid = None\<rparr>"

lemma insert_address_row:
  "insert_address E req db =
     (case inet_read E (ar_address req) of None \<Rightarrow> (Inl bad_input, db)
      | Some a \<Rightarrow> CreateIPAddress (address_row E req a (gen_id E db)) db)"
  by (simp add: insert_address_def address_row_def reading_def split: option.split)

lemma check_ignores_id: "address_check (address_row E req a i) db = address_check (address_row E req a j) db"
  by (simp add: address_check_def address_row_def)

lemma first_error_all: "list_all (\<lambda>c. Q (snd c)) cs \<Longrightarrow> first_error cs = Some e \<Longrightarrow> Q e"
  by (induction cs rule: first_error.induct) (auto split: if_splits)

definition plain_error :: "dberr \<Rightarrow> bool" where
  "plain_error e \<longleftrightarrow> (isUniqueViolation e \<longrightarrow> e = unique_violation)"

lemma plain_errors:
  "plain_error (snd (enum_text vs t))" "plain_error (snd (too_long n o'))" "plain_error fk_violation"
  "plain_error unique_violation"
  by (simp_all add: plain_error_def enum_text_def too_long_def bad_input_def fk_violation_def isUniqueViolation_def
      split: option.split)

lemma check_errors: "address_check r db = Some e \<Longrightarrow> isUniqueViolation e \<Longrightarrow> e = unique_violation"
proof -
  assume "address_check r db = Some e" "isUniqueViolation e"
  moreover have "plain_error e"
    using \<open>address_check r db = Some e\<close> unfolding address_check_def
    by (rule first_error_all[rotated]) (simp only: list.pred_inject snd_conv plain_errors simp_thms)
  ultimately show ?thesis by (simp add: plain_error_def)
qed

text \<open>The constraints of an address that do not look at the other addresses, and the one that does.\<close>

definition own_constraints :: "ip_address \<Rightarrow> ipam_db \<Rightarrow> (bool \<times> dberr) list" where
  "own_constraints r db =
     [enum_text [''mgmt'', ''data'', ''ipmi'', ''vip'', ''storage'', ''other''] (ad_role r),
      enum_text [''active'', ''reserved'', ''deprecated''] (ad_status r),
      enum_text [''static'', ''dhcp'', ''reservation''] (ad_source r),
      too_long 255 (ad_dns_name r), too_long 32 (ad_mac r), too_long 254 (ad_duid r),
      (\<not> exists_row sb_id (ad_subnet r) (subnets db), fk_violation)]"

definition address_there :: "ip_address \<Rightarrow> ipam_db \<Rightarrow> bool" where
  "address_there r db \<longleftrightarrow> (\<exists>a\<in>set (addresses db). ad_subnet a = ad_subnet r \<and> ad_address a = ad_address r)"

lemma address_check_split:
  "address_check r db = first_error (own_constraints r db @ [(address_there r db, unique_violation)])"
  unfolding address_check_def own_constraints_def address_there_def append.simps ..

lemma first_error_last:
  "first_error (cs @ [(b, e)]) = None \<or> first_error (cs @ [(b, e)]) = Some e \<and> b \<Longrightarrow>
   b' \<Longrightarrow> first_error (cs @ [(b', e)]) = Some e"
  by (induction cs rule: first_error.induct) (auto split: if_splits)

lemma first_error_not: "list_all (\<lambda>c. fst c \<longrightarrow> snd c \<noteq> e) cs \<Longrightarrow> first_error cs \<noteq> Some e"
  by (induction cs rule: first_error.induct) auto

lemma unique_is_there:
  assumes "address_check r db = Some unique_violation"
  shows "address_there r db"
proof (rule ccontr)
  assume "\<not> address_there r db"
  moreover have "list_all (\<lambda>c. snd c \<noteq> unique_violation) (own_constraints r db)"
    by (simp add: own_constraints_def enum_text_def too_long_def bad_input_def fk_violation_def unique_violation_def
        split: option.split)
  ultimately have "first_error (own_constraints r db @ [(address_there r db, unique_violation)]) \<noteq> Some unique_violation"
    by (intro first_error_not) (simp add: list_all_iff)
  then show False using assms by (simp add: address_check_split)
qed

text \<open>A row that is already there stays there when addresses are added.\<close>

lemma taken_mono:
  assumes "address_check r db = Some unique_violation"
    and "set (addresses db) \<subseteq> set (addresses db')" "subnets db' = subnets db"
  shows "address_check r db' = Some unique_violation"
proof -
  have "own_constraints r db' = own_constraints r db" using assms(3) by (simp add: own_constraints_def)
  moreover have "address_there r db'" using unique_is_there[OF assms(1)] assms(2) by (auto simp: address_there_def)
  ultimately show ?thesis
    using first_error_last[of "own_constraints r db" "address_there r db" unique_violation] assms(1) unique_is_there[OF assms(1)]
    by (simp add: address_check_split)
qed

lemma check_after_insert:
  assumes "address_check r db = None" "addresses db' = addresses db @ [r']" "subnets db' = subnets db"
    and "ad_subnet r' = ad_subnet r" "ad_address r' = ad_address r"
  shows "address_check r db' = Some unique_violation"
proof -
  have "own_constraints r db' = own_constraints r db" using assms(3) by (simp add: own_constraints_def)
  moreover have "address_there r db'" using assms(2,4,5) by (simp add: address_there_def)
  ultimately show ?thesis
    using first_error_last[of "own_constraints r db" "address_there r db" unique_violation] assms(1)
    by (simp add: address_check_split)
qed

section \<open>One row\<close>

definition taken :: "ipam_env \<Rightarrow> principal \<Rightarrow> ipam_db \<Rightarrow> address_req \<Rightarrow> bool" where
  "taken E p db row \<longleftrightarrow>
     ar_subnet row \<noteq> uuid_nil \<and> ar_address row \<noteq> []
     \<and> (\<exists>a sub b. parseAddr (ar_address row) = Inr a \<and> subnet_of_address E (ar_subnet row) a db = (Inr sub, db)
          \<and> EnforceFabricScope p (sb_fabric sub) ''ipam:bulk:execute'' = None
          \<and> inet_read E (ar_address row) = Some b
          \<and> address_check (address_row E row b 0) db = Some unique_violation)"

lemma calm_iexec: "calm E \<Longrightarrow> iexec E Q f db = f db"
  by (simp add: calm_def iexec_def Let_def)

lemma calm_subnet_of_address:
  assumes "calm E"
  shows "snd (subnet_of_address E i a db) = db"
    and "subnets db' = subnets db \<Longrightarrow> fst (subnet_of_address E i a db') = fst (subnet_of_address E i a db)"
  by (auto simp: subnet_of_address_def calm_iexec[OF assms] GetSubnet_def get_row_def reading_def
      split: sum.split)

lemma same_subnet:
  assumes "calm E" "subnets db' = subnets db" "subnet_of_address E i a db = (Inr sub, db)"
  shows "subnet_of_address E i a db' = (Inr sub, db')"
  by (rule prod_eqI) (simp_all add: calm_subnet_of_address[OF assms(1)] calm_subnet_of_address(2)[OF assms(1,2)] assms(3))

lemma taken_is_skipped:
  assumes "calm E" "taken E p db row"
  shows "bulkAddressRow E p i row out db = (out\<lparr>Skipped := Skipped out + 1\<rparr>, db)"
proof -
  obtain a sub b where row: "parseAddr (ar_address row) = Inr a"
      "subnet_of_address E (ar_subnet row) a db = (Inr sub, db)"
      "EnforceFabricScope p (sb_fabric sub) ''ipam:bulk:execute'' = None" "inet_read E (ar_address row) = Some b"
      "address_check (address_row E row b 0) db = Some unique_violation"
    and ne: "ar_subnet row \<noteq> uuid_nil" "ar_address row \<noteq> []"
    using assms(2) unfolding taken_def by blast
  have "insert_address E row db = (Inl unique_violation, db)"
    using row(4,5) by (simp add: insert_address_row CreateIPAddress_def insert_row_def
        check_ignores_id[of E row b "gen_id E db" _ 0])
  then show ?thesis
    using row ne by (simp add: bulkAddressRow_def calm_iexec[OF assms(1)] tally_def isUniqueViolation_def
        unique_violation_def)
qed

lemma row_taken_after:
  assumes "calm E" "bulkAddressRow E p i row out db = (out', db')" "Failed out' = Failed out"
  shows "taken E p db' row"
proof -
  have ne: "ar_subnet row \<noteq> uuid_nil" "ar_address row \<noteq> []"
    using assms(2,3) by (auto simp: bulkAddressRow_def add_err_def split: if_splits)
  obtain a where a: "parseAddr (ar_address row) = Inr a"
    using assms(2,3) ne by (auto simp: bulkAddressRow_def add_err_def split: sum.splits)
  obtain sub where sub: "subnet_of_address E (ar_subnet row) a db = (Inr sub, db)"
    using assms(2,3) ne a calm_subnet_of_address(1)[OF assms(1), of "ar_subnet row" a db]
    by (cases "subnet_of_address E (ar_subnet row) a db"; cases "fst (subnet_of_address E (ar_subnet row) a db)")
      (auto simp: bulkAddressRow_def add_err_def)
  have scope: "EnforceFabricScope p (sb_fabric sub) ''ipam:bulk:execute'' = None"
    using assms(2,3) ne a sub by (auto simp: bulkAddressRow_def add_err_def split: if_splits)
  obtain r where ins: "insert_address E row db = (r, db')" "out' = tally i r out"
    using assms(2) ne a sub scope by (auto simp: bulkAddressRow_def calm_iexec[OF assms(1)] split: prod.splits)
  obtain b where b: "inet_read E (ar_address row) = Some b"
    using ins assms(3) by (cases "inet_read E (ar_address row)")
      (auto simp: insert_address_row tally_def add_err_def bad_input_def isUniqueViolation_def)
  let ?r = "address_row E row b"
  have fresh: "ad_id (?r (gen_id E db)) \<notin> ad_id ` set (addresses db)"
    using assms(1) by (simp add: calm_def address_row_def)
  have "subnets db' = subnets db \<and> address_check (?r 0) db' = Some unique_violation"
  proof (cases "address_check (?r (gen_id E db)) db")
    case None
    then have "db' = put_addresses (addresses db @ [?r (gen_id E db)]) db"
      using ins(1) b fresh by (simp add: insert_address_row CreateIPAddress_def insert_row_def)
    then show ?thesis
      using check_after_insert[of "?r 0" db db' "?r (gen_id E db)"] None check_ignores_id[of E row b "gen_id E db" db 0]
      by (simp add: put_addresses_def address_row_def)
  next
    case (Some e)
    then have "db' = db" "r = Inl e"
      using ins(1) b fresh by (simp_all add: insert_address_row CreateIPAddress_def insert_row_def)
    moreover have "isUniqueViolation e"
      using ins(2) \<open>r = Inl e\<close> assms(3) by (auto simp: tally_def add_err_def split: if_splits)
    ultimately show ?thesis
      using Some check_errors check_ignores_id[of E row b "gen_id E db" db 0] by auto
  qed
  then show ?thesis
    unfolding taken_def
    using ne a scope b same_subnet[OF assms(1) _ sub] by blast
qed

text \<open>A row only adds an address.\<close>

lemma row_adds:
  assumes "calm E" "bulkAddressRow E p i row out db = (out', db')"
  shows "subnets db' = subnets db \<and> set (addresses db) \<subseteq> set (addresses db')"
proof -
  have ins: "subnets (snd (insert_address E row db)) = subnets db
      \<and> set (addresses db) \<subseteq> set (addresses (snd (insert_address E row db)))"
    by (auto simp: insert_address_row CreateIPAddress_def insert_row_def put_addresses_def split: option.split)
  have "db' = db \<or> db' = snd (insert_address E row db)"
  proof (cases "parseAddr (ar_address row)")
    case (Inr a)
    obtain v where v: "subnet_of_address E (ar_subnet row) a db = (v, db)"
      using calm_subnet_of_address(1)[OF assms(1), of "ar_subnet row" a db] by (metis prod.collapse)
    show ?thesis
      using assms(2) Inr v by (cases v; cases "insert_address E row db")
        (auto simp: bulkAddressRow_def calm_iexec[OF assms(1)] split: if_splits)
  qed (use assms(2) in \<open>auto simp: bulkAddressRow_def split: if_splits\<close>)
  then show ?thesis using ins by auto
qed

lemma taken_stays:
  assumes "calm E" "taken E p db row'" "bulkAddressRow E p i row out db = (out', db')"
  shows "taken E p db' row'"
proof -
  have add: "subnets db' = subnets db" "set (addresses db) \<subseteq> set (addresses db')"
    using row_adds[OF assms(1,3)] by simp_all
  obtain a sub b where row: "parseAddr (ar_address row') = Inr a"
      "subnet_of_address E (ar_subnet row') a db = (Inr sub, db)"
      "EnforceFabricScope p (sb_fabric sub) ''ipam:bulk:execute'' = None" "inet_read E (ar_address row') = Some b"
      "address_check (address_row E row' b 0) db = Some unique_violation"
    and ne: "ar_subnet row' \<noteq> uuid_nil" "ar_address row' \<noteq> []"
    using assms(2) unfolding taken_def by blast
  show ?thesis
    unfolding taken_def
    using ne row same_subnet[OF assms(1) add(1) row(2)] taken_mono[OF row(5) add(2,1)] by blast
qed

section \<open>Whole batches\<close>

lemma row_failures: "Failed out \<le> Failed (fst (bulkAddressRow E p i row out db))"
  by (auto simp: bulkAddressRow_def add_err_def tally_def split: sum.split prod.split)

lemma batch_failures: "Failed out \<le> Failed (fst (bulk_rows (bulkAddressRow E p) i rows out db))"
proof (induction rows arbitrary: i out db)
  case (Cons row rows)
  obtain out1 db1 where row: "bulkAddressRow E p i row out db = (out1, db1)" by fastforce
  show ?case using Cons.IH[of out1 "i + 1" db1] row_failures[of out E p i row db] by (simp add: row)
qed simp

lemma batch_keeps_taken:
  assumes "calm E"
  shows "taken E p db row \<Longrightarrow> bulk_rows (bulkAddressRow E p) i rows out db = (out', db') \<Longrightarrow> taken E p db' row"
proof (induction rows arbitrary: i out db)
  case (Cons r rows)
  obtain out1 db1 where r: "bulkAddressRow E p i r out db = (out1, db1)" by fastforce
  then show ?case using Cons.IH taken_stays[OF assms Cons.prems(1) r] Cons.prems(2) by simp
qed simp

lemma batch_takes:
  assumes "calm E"
  shows "bulk_rows (bulkAddressRow E p) i rows out db = (out', db') \<Longrightarrow> Failed out' = Failed out \<Longrightarrow>
    list_all (taken E p db') rows"
proof (induction rows arbitrary: i out db)
  case (Cons r rows)
  obtain out1 db1 where r: "bulkAddressRow E p i r out db = (out1, db1)" by fastforce
  then have rest: "bulk_rows (bulkAddressRow E p) (i + 1) rows out1 db1 = (out', db')" using Cons.prems(1) by simp
  have "Failed out1 = Failed out" "Failed out' = Failed out1"
    using row_failures[of out E p i r db] batch_failures[of out1 E p "i + 1" rows db1] Cons.prems(2) r rest by simp_all
  then show ?case
    using Cons.IH[OF rest] row_taken_after[OF assms r] batch_keeps_taken[OF assms _ rest] by simp
qed simp

lemma batch_skips:
  assumes "calm E"
  shows "list_all (taken E p db) rows \<Longrightarrow>
    bulk_rows (bulkAddressRow E p) i rows out db = (out\<lparr>Skipped := Skipped out + length rows\<rparr>, db)"
proof (induction rows arbitrary: i out)
  case (Cons r rows)
  then show ?case using taken_is_skipped[OF assms, of p db r i out] by simp
qed simp

text \<open>C20. A batch of addresses of which no row failed can be sent again: the second answer
  counts every row as skipped, none as inserted or failed, and the plan stays as the first
  run left it.  It holds for every batch, also one that names the same address twice, when
  the database does not fail and nobody writes between the rows.\<close>

theorem address_batch_idempotent:
  assumes "calm E"
    and "bulkCreateAddresses E p (Some rows) db = (Inr (HttpJSON 200 out), db')" "Failed out = 0"
  shows "bulkCreateAddresses E p (Some rows) db' = (Inr (HttpJSON 200 (no_rows\<lparr>Skipped := length rows\<rparr>)), db')"
proof -
  have "bulk_rows (bulkAddressRow E p) 0 rows no_rows db = (out, db')"
    using assms(2) by (simp add: bulkCreateAddresses_def required_def hbind_def hreturn_def split: prod.splits)
  then have "list_all (taken E p db') rows" using batch_takes[OF assms(1)] assms(3) by (simp add: no_rows_def)
  then show ?thesis
    using batch_skips[OF assms(1), of p db' rows 0 no_rows] 
      by (simp add: bulkCreateAddresses_def no_rows_def required_def hbind_def hreturn_def)
qed

definition calm_env :: ipam_env where
  "calm_env = plain_env\<lparr>gen_id := (\<lambda>db. Suc (sum_list (map ad_id (addresses db)) + length (subnets db)))\<rparr>"

lemma calm_env_calm: "calm calm_env"
proof -
  have fresh: "Suc (sum_list (map ad_id xs) + k) \<notin> ad_id ` set xs" for xs k
    using member_le_sum_list[of _ "map ad_id xs"] by (fastforce simp: image_iff)
  show ?thesis by (simp add: calm_def calm_env_def plain_env_def fresh del: add_Suc image_iff)
qed

definition new_address :: "uuid \<Rightarrow> string \<Rightarrow> address_req" where
  "new_address s a = \<lparr>ar_subnet = s, ar_asset = None, ar_address = a, ar_role = [], ar_status = [],
     ar_source = [], ar_dns_name = None, ar_description = None\<rparr>"

definition batch_of_three :: "address_req list" where
  "batch_of_three = map (new_address 31) [''10.1.0.5'', ''10.1.0.9'', ''10.1.0.9'']"

definition batch_answer :: bulk_result where
  "batch_answer = no_rows\<lparr>Inserted := 1, Skipped := 2\<rparr>"

lemma first_batch:
  "fst (bulkCreateAddresses calm_env (fabric_user 1) (Some batch_of_three) example_plan) = Inr (HttpJSON 200 batch_answer)"
  by code_simp

theorem address_batch_idempotent_witness:
  "let db' = snd (bulkCreateAddresses calm_env (fabric_user 1) (Some batch_of_three) example_plan)
   in bulkCreateAddresses calm_env (fabric_user 1) (Some batch_of_three) db'
        = (Inr (HttpJSON 200 (no_rows\<lparr>Skipped := 3\<rparr>)), db')"
  using address_batch_idempotent[OF calm_env_calm, of "fabric_user 1" batch_of_three example_plan batch_answer]
    first_batch
  by (cases "bulkCreateAddresses calm_env (fabric_user 1) (Some batch_of_three) example_plan")
    (simp add: batch_of_three_def batch_answer_def no_rows_def)

text \<open>A batch of subnets sent twice inserts its rows twice: no constraint excludes a second subnet
  of the same prefix in the same supernet.\<close>

theorem subnet_batch_duplicates:
  "let first = bulkCreateSubnets calm_env (fabric_user 1) (Some [new_subnet 21 ''10.1.9.0/24'']) example_plan;
       second = bulkCreateSubnets calm_env (fabric_user 1) (Some [new_subnet 21 ''10.1.9.0/24'']) (snd first)
   in fst first = Inr (HttpJSON 200 (no_rows\<lparr>Inserted := 1\<rparr>))
      \<and> map sb_prefix (subnets (snd second)) = map sb_prefix (subnets example_plan)
          @ replicate 2 (PrefixFrom (mk_addr V4 167840000) 24)"
  by code_simp

end
