(* ===== verification/DhcpLeases.thy ===== *)
theory DhcpLeases
  imports IpamQueries
begin

text \<open>
  The ingest of DHCP leases: \<^verbatim>\<open>internal/dhcp/kea/leases.go\<close> (Kea's answer to lease
  records), \<^verbatim>\<open>internal/dhcp/leasesync\<close> (the subnet of a lease, and the sync of one server),
  the queries of \<^verbatim>\<open>dhcp_lease_sync.sql\<close> and the scheduler jobs \<^verbatim>\<open>dhcpsync\<close>,
  \<^verbatim>\<open>dhcpageout\<close> and \<^verbatim>\<open>dhcptombstone\<close>.  Kea itself is a parameter: what its control
  agent answers, decoded.  Times are nanoseconds since the epoch.
\<close>

section \<open>Numbers of a decoded answer\<close>

text \<open>\<^verbatim>\<open>encoding/json\<close> reads a number into a \<^verbatim>\<open>float64\<close>: the nearest number with a 53-bit
  significand, ties to even (numbers outside the range of \<^verbatim>\<open>float64\<close> are left out).\<close>

fun bit_size :: "nat \<Rightarrow> nat" where
  "bit_size n = (if n = 0 then 0 else Suc (bit_size (n div 2)))"

declare bit_size.simps [simp del]

definition scaled :: "rat \<Rightarrow> int \<Rightarrow> rat" where
  "scaled x e = (if 0 \<le> e then x * 2 ^ nat e else x / 2 ^ nat (- e))"

definition round_even :: "rat \<Rightarrow> int" where
  "round_even x =
     (let f = \<lfloor>x\<rfloor>; d = x - of_int f
      in if d < 1 / 2 then f else if 1 / 2 < d then f + 1 else if even f then f else f + 1)"

definition float64 :: "rat \<Rightarrow> rat" where
  "float64 q =
     (if q = 0 then 0
      else let a = fst (quotient_of \<bar>q\<bar>); b = snd (quotient_of \<bar>q\<bar>);
               e0 = int (bit_size (nat a)) - int (bit_size (nat b)) - 53;
               e = (if 2 ^ 53 \<le> scaled \<bar>q\<bar> (- e0) then e0 + 1 else e0)
           in (if q < 0 then - 1 else 1) * scaled (of_int (round_even (scaled \<bar>q\<bar> (- e)))) e)"

definition json_float :: "json \<Rightarrow> rat option" where
  "json_float j =
     (case j of JInt n \<Rightarrow> Some (float64 (of_int n)) | JReal q \<Rightarrow> Some (float64 q) | _ \<Rightarrow> None)"

text \<open>\<^verbatim>\<open>int64(f)\<close> truncates; a value out of range becomes the least one (amd64).\<close>

definition int64_of :: "rat \<Rightarrow> int" where
  "int64_of q =
     (let n = (if q < 0 then - \<lfloor>- q\<rfloor> else \<lfloor>q\<rfloor>)
      in if - (2 ^ 63) \<le> n \<and> n < 2 ^ 63 then n else - (2 ^ 63))"

definition intField :: "json_object \<Rightarrow> string \<Rightarrow> int" where
  "intField m key = (case Option.bind (member m key) json_float of None \<Rightarrow> 0 | Some f \<Rightarrow> int64_of f)"

definition optInt64 :: "json_object \<Rightarrow> string \<Rightarrow> int option" where
  "optInt64 m key = map_option int64_of (Option.bind (member m key) json_float)"

text \<open>\<^verbatim>\<open>time.Duration\<close> products wrap at 64 bits.\<close>

definition int64 :: "int \<Rightarrow> int" where
  "int64 n = signed_take_bit 63 n"

definition second :: int where "second = 1000000000"

section \<open>Leases\<close>

record parsed_lease =
  Address :: string
  MAC :: string
  Hostname :: string
  ValidUntil :: "int option"
  LeaseState :: int

definition LeaseValidUntil :: "int option \<Rightarrow> int option \<Rightarrow> int option" where
  "LeaseValidUntil cltt validLft =
     (case (cltt, validLft) of
        (Some c, Some l) \<Rightarrow> if c < 0 \<or> l < 0 then None else Some (c * second + int64 (l * second))
      | _ \<Rightarrow> None)"

definition leaseStateDeclined :: int where "leaseStateDeclined = 1"
definition leaseStateExpiredReclaimed :: int where "leaseStateExpiredReclaimed = 2"

definition ParseLease :: "json_object \<Rightarrow> parsed_lease option" where
  "ParseLease raw =
     (let a = stringField raw ''ip-address''
      in if a = [] then None
         else let state = intField raw ''state''
         in if state = leaseStateDeclined \<or> state = leaseStateExpiredReclaimed then None
         else Some
           \<lparr>Address = trim_space a,
            MAC = (if stringField raw ''hw-address'' = [] then stringField raw ''duid''
                   else stringField raw ''hw-address''),
            Hostname = trim_space (stringField raw ''hostname''),
            ValidUntil = LeaseValidUntil (optInt64 raw ''cltt'') (optInt64 raw ''valid-lft''),
            LeaseState = state\<rparr>)"

text \<open>The lists of \<^verbatim>\<open>arguments.leases\<close> of the services that answered 0 or 3; \<open>None\<close> is a body
  that does not decode.\<close>

definition entry_leases :: "json_object \<Rightarrow> json_object list" where
  "entry_leases entry =
     (if intField entry ''result'' \<noteq> 0 \<and> intField entry ''result'' \<noteq> 3 then []
      else case member entry ''arguments'' of
        Some (JObj args) \<Rightarrow>
          (case member args ''leases'' of
             Some (JArr items) \<Rightarrow> List.map_filter (\<lambda>j. case j of JObj m \<Rightarrow> Some m | _ \<Rightarrow> None) items
           | _ \<Rightarrow> [])
      | _ \<Rightarrow> [])"

definition ExtractLeases :: "json option \<Rightarrow> json_object list" where
  "ExtractLeases raw =
     (case Option.bind raw object_list of None \<Rightarrow> [] | Some envelope \<Rightarrow> concat (map entry_leases envelope))"

section \<open>The subnet of a lease\<close>

type_synonym lease_subnet = "uuid \<times> string"

definition match_step :: "addr \<Rightarrow> (lease_subnet \<times> nat) option \<Rightarrow> lease_subnet \<Rightarrow> (lease_subnet \<times> nat) option" where
  "match_step a best s =
     (case ParsePrefix (snd s) of
        None \<Rightarrow> best
      | Some p \<Rightarrow>
          if \<not> Contains p a then best
          else case best of
            None \<Rightarrow> Some (s, plen p)
          | Some (s0, n) \<Rightarrow> if n < plen p then Some (s, plen p) else best)"

definition MatchLeaseToSubnet :: "string \<Rightarrow> lease_subnet list \<Rightarrow> lease_subnet option" where
  "MatchLeaseToSubnet address subs =
     (case ParseAddr address of
        None \<Rightarrow> None
      | Some a \<Rightarrow> map_option fst (foldl (match_step a) None subs))"

section \<open>Queries\<close>

definition ListSubnetsForFabricLeaseSync :: "ipam_env \<Rightarrow> uuid \<Rightarrow> lease_subnet list squery" where
  "ListSubnetsForFabricLeaseSync E fabricID =
     reading (\<lambda>db. Inr (map (\<lambda>s. (sb_id s, cidr_show E (sb_prefix s)))
       (filter (\<lambda>s. sb_fabric s = fabricID) (subnets db))))"

definition FindDhcpLeaseIPAddress :: "ipam_env \<Rightarrow> uuid \<Rightarrow> string \<Rightarrow> (uuid \<times> string) squery" where
  "FindDhcpLeaseIPAddress E subnetID address =
     reading (\<lambda>db. case inet_read E address of
        None \<Rightarrow> Inl bad_input
      | Some a \<Rightarrow> one_row (map_option (\<lambda>r. (ad_id r, ad_source r))
          (List.find (\<lambda>r. ad_subnet r = subnetID \<and> ad_address r = a) (addresses db))))"

definition InsertDhcpLease ::
    "ipam_env \<Rightarrow> uuid \<Rightarrow> string \<Rightarrow> string option \<Rightarrow> string option \<Rightarrow> int option \<Rightarrow> ip_address squery" where
  "InsertDhcpLease E subnetID address dns mac expires db =
     (case inet_read E address of
        None \<Rightarrow> (Inl bad_input, db)
      | Some a \<Rightarrow> CreateIPAddress
          \<lparr>ad_id = gen_id E db, ad_subnet = subnetID, ad_asset = None, ad_address = a, ad_role = ''data'',
           ad_status = ''active'', ad_source = ''dhcp'', ad_dns_name = dns, ad_description = None,
           ad_lease_expires = expires, ad_mac = mac, ad_duid = None\<rparr> db)"

definition leased :: "string option \<Rightarrow> string option \<Rightarrow> int option \<Rightarrow> ip_address \<Rightarrow> ip_address" where
  "leased mac dns expires r = r
     \<lparr>ad_mac := mac, ad_dns_name := (if dns = None then ad_dns_name r else dns),
      ad_lease_expires := expires, ad_status := ''active''\<rparr>"

definition UpdateDhcpLease :: "uuid \<Rightarrow> string option \<Rightarrow> string option \<Rightarrow> int option \<Rightarrow> unit squery" where
  "UpdateDhcpLease i mac dns expires = exec_only (UpdateIPAddress i (leased mac dns expires))"

definition server_synced ::
    "int \<Rightarrow> string \<Rightarrow> string option \<Rightarrow> int option \<Rightarrow> dhcp_server \<Rightarrow> dhcp_server" where
  "server_synced t status err n s = s
     \<lparr>last_sync_at := Some t, last_sync_status := Some status, last_sync_error := err, last_sync_lease_count := n\<rparr>"

definition UpdateDhcpServerSyncState ::
    "uuid \<Rightarrow> int \<Rightarrow> string \<Rightarrow> string option \<Rightarrow> int option \<Rightarrow> unit squery" where
  "UpdateDhcpServerSyncState i t status err n =
     exec_only (update_row dhcp_servers put_dhcp_servers ds_id
       (\<lambda>r db. first_error [too_long 32 (last_sync_status r), too_long 2048 (last_sync_error r)])
       i (server_synced t status err n))"

record lease_server =
  sv_id :: uuid
  sv_fabric :: uuid
  sv_url :: string
  sv_username :: string
  sv_password :: string

text \<open>The rows of the enabled servers, by name.\<close>

definition ListEnabledDhcpServersForLeaseSync :: "dhcp_server list squery" where
  "ListEnabledDhcpServersForLeaseSync = reading (\<lambda>db. Inr (sort_key ds_name (filter ds_enabled (dhcp_servers db))))"

text \<open>The two passes of the age-out; the results are the numbers of rows.\<close>

definition expired_before :: "int \<Rightarrow> ip_address \<Rightarrow> bool" where
  "expired_before cutoff r \<longleftrightarrow> (case ad_lease_expires r of None \<Rightarrow> False | Some t \<Rightarrow> t < cutoff)"

definition DeprecateExpiredDhcpLeases :: "int \<Rightarrow> nat squery" where
  "DeprecateExpiredDhcpLeases cutoff db =
     (let hit = (\<lambda>r. ad_source r = ''dhcp'' \<and> ad_status r = ''active'' \<and> expired_before cutoff r)
      in (Inr (length (filter hit (addresses db))),
          put_addresses (map (\<lambda>r. if hit r then r\<lparr>ad_status := ''deprecated''\<rparr> else r) (addresses db)) db))"

definition DeleteDeprecatedDhcpLeases :: "int \<Rightarrow> nat squery" where
  "DeleteDeprecatedDhcpLeases cutoff db =
     (let hit = (\<lambda>r. ad_source r = ''dhcp'' \<and> ad_status r = ''deprecated'' \<and> expired_before cutoff r)
      in (Inr (length (filter hit (addresses db))), put_addresses (filter (\<lambda>r. \<not> hit r) (addresses db)) db))"

definition PurgeExpiredDhcpScopeTombstones :: "int \<Rightarrow> nat squery" where
  "PurgeExpiredDhcpScopeTombstones cutoff db =
     (let hit = (\<lambda>c. case sc_deleted c of None \<Rightarrow> False | Some t \<Rightarrow> t < cutoff)
      in (Inr (length (filter hit (dhcp_scopes db))),
          db\<lparr>dhcp_scopes := filter (\<lambda>c. \<not> hit c) (dhcp_scopes db)\<rparr>))"

section \<open>The sync of one server\<close>

text \<open>What the control agent of a server answers to \<^verbatim>\<open>lease4-get-all\<close> and \<^verbatim>\<open>lease6-get-all\<close>: the
  text of a transport error, or the body.  The v6 error is dropped.\<close>

record kea =
  ListLeases4 :: "lease_server \<Rightarrow> string + json option"
  ListLeases6 :: "lease_server \<Rightarrow> json option"

record sync_result =
  ServerID :: uuid
  Upserted :: nat
  SkippedNoSubnet :: nat
  LeasesSeen :: nat
  SyncError :: string

definition nilIfEmpty :: "string \<Rightarrow> string option" where
  "nilIfEmpty s = (if s = [] then None else Some s)"

definition upsertLease :: "ipam_env \<Rightarrow> lease_subnet \<Rightarrow> parsed_lease \<Rightarrow> bool squery" where
  "upsertLease E sub lease db =
     (let mac = nilIfEmpty (MAC lease); hostname = nilIfEmpty (Hostname lease)
      in case iexec E ''FindDhcpLeaseIPAddress'' (FindDhcpLeaseIPAddress E (fst sub) (Address lease)) db of
           (Inl e, db1) \<Rightarrow>
             if e \<noteq> NoRows then (Inl e, db1)
             else qbind (iexec E ''InsertDhcpLease''
                    (InsertDhcpLease E (fst sub) (Address lease) hostname mac (ValidUntil lease)))
                    (\<lambda>_. reading (\<lambda>_. Inr True)) db1
         | (Inr (i, source), db1) \<Rightarrow>
             if source \<noteq> ''dhcp'' then (Inr False, db1)
             else qbind (iexec E ''UpdateDhcpLease'' (UpdateDhcpLease i mac hostname (ValidUntil lease)))
                    (\<lambda>_. reading (\<lambda>_. Inr True)) db1)"

text \<open>The loop of \<^verbatim>\<open>SyncServer\<close>: the counters are upserted, skipped and seen.\<close>

fun sync_leases ::
    "ipam_env \<Rightarrow> lease_subnet list \<Rightarrow> json_object list \<Rightarrow> nat \<times> nat \<times> nat \<Rightarrow> (nat \<times> nat \<times> nat) squery" where
  "sync_leases E subs [] counts = reading (\<lambda>_. Inr counts)"
| "sync_leases E subs (raw # raws) (up, skip, seen) =
     (case ParseLease raw of
        None \<Rightarrow> sync_leases E subs raws (up, skip, seen + 1)
      | Some lease \<Rightarrow>
          (case MatchLeaseToSubnet (Address lease) subs of
             None \<Rightarrow> sync_leases E subs raws (up, skip + 1, seen + 1)
           | Some sub \<Rightarrow>
               qbind (upsertLease E sub lease) (\<lambda>wrote.
               sync_leases E subs raws (if wrote then up + 1 else up, skip, seen + 1))))"

text \<open>\<^verbatim>\<open>truncateRuneSafe\<close>: \<open>rune_cut\<close> walks back over the continuation bytes of UTF-8.\<close>

definition continuation :: "char \<Rightarrow> bool" where
  "continuation c \<longleftrightarrow> and (of_char c :: nat) 192 = 128"

fun rune_cut :: "string \<Rightarrow> nat \<Rightarrow> nat" where
  "rune_cut s 0 = 0"
| "rune_cut s (Suc n) = (if continuation (s ! Suc n) then rune_cut s n else Suc n)"

definition truncateRuneSafe :: "string \<Rightarrow> nat \<Rightarrow> string" where
  "truncateRuneSafe s mx = (if length s \<le> mx then s else take (rune_cut s mx) s)"

definition errMaxLen :: nat where "errMaxLen = 2000"

definition recordSyncFailure :: "ipam_env \<Rightarrow> uuid \<Rightarrow> int \<Rightarrow> string \<Rightarrow> sync_result squery" where
  "recordSyncFailure E i t message =
     qbind (iexec E ''UpdateDhcpServerSyncState''
              (UpdateDhcpServerSyncState i t ''error'' (Some (truncateRuneSafe message errMaxLen)) None))
       (\<lambda>_. reading (\<lambda>_. Inr
          \<lparr>ServerID = i, Upserted = 0, SkippedNoSubnet = 0, LeasesSeen = 0, SyncError = message\<rparr>))"

definition SyncServer :: "ipam_env \<Rightarrow> kea \<Rightarrow> lease_server \<Rightarrow> int \<Rightarrow> sync_result squery" where
  "SyncServer E K s t =
     (case ListLeases4 K s of
        Inl err \<Rightarrow> recordSyncFailure E (sv_id s) t (''lease4-get-all: '' @ err)
      | Inr raw4 \<Rightarrow>
          qbind (iexec E ''ListSubnetsForFabricLeaseSync'' (ListSubnetsForFabricLeaseSync E (sv_fabric s))) (\<lambda>subs.
          qbind (sync_leases E subs (ExtractLeases raw4 @ ExtractLeases (ListLeases6 K s)) (0, 0, 0))
            (\<lambda>(up, skip, seen).
          qbind (iexec E ''UpdateDhcpServerSyncState''
                   (UpdateDhcpServerSyncState (sv_id s) t ''ok'' None (Some (int32 (int up))))) (\<lambda>_.
          reading (\<lambda>_. Inr \<lparr>ServerID = sv_id s, Upserted = up, SkippedNoSubnet = skip, LeasesSeen = seen,
                            SyncError = []\<rparr>)))))"

section \<open>The jobs\<close>

definition toServer :: "dhcp_server \<Rightarrow> lease_server" where
  "toServer row =
     \<lparr>sv_id = ds_id row, sv_fabric = ds_fabric row, sv_url = ds_kea_url row,
      sv_username = (case ds_username row of None \<Rightarrow> [] | Some u \<Rightarrow> u),
      sv_password = (case ds_password row of None \<Rightarrow> [] | Some p \<Rightarrow> p)\<rparr>"

record sync_summary =
  servers_walked :: nat
  sync_errors :: nat
  total_upserted :: nat
  total_skipped :: nat
  total_seen :: nat

definition no_syncs :: sync_summary where
  "no_syncs = \<lparr>servers_walked = 0, sync_errors = 0, total_upserted = 0, total_skipped = 0, total_seen = 0\<rparr>"

text \<open>The loop of \<^verbatim>\<open>dhcpsync.Job.Run\<close>: \<open>stopped n\<close> says that the context is cancelled before the
  n-th server and \<open>clock n\<close> is the time at which it is synced.\<close>

fun run_servers ::
    "ipam_env \<Rightarrow> kea \<Rightarrow> (nat \<Rightarrow> bool) \<Rightarrow> (nat \<Rightarrow> int) \<Rightarrow> dhcp_server list \<Rightarrow> sync_summary \<Rightarrow> ipam_db
     \<Rightarrow> sync_summary \<times> ipam_db" where
  "run_servers E K stopped clock [] out db = (out, db)"
| "run_servers E K stopped clock (row # rows) out db =
     (if stopped (servers_walked out) then (out, db)
      else let out1 = out\<lparr>servers_walked := servers_walked out + 1\<rparr>
      in case SyncServer E K (toServer row) (clock (servers_walked out)) db of
           (Inl _, db1) \<Rightarrow> run_servers E K stopped clock rows (out1\<lparr>sync_errors := sync_errors out + 1\<rparr>) db1
         | (Inr r, db1) \<Rightarrow>
             run_servers E K stopped clock rows
               (if SyncError r \<noteq> [] then out1\<lparr>sync_errors := sync_errors out + 1\<rparr>
                else out1\<lparr>total_upserted := total_upserted out + Upserted r,
                  total_skipped := total_skipped out + SkippedNoSubnet r,
                  total_seen := total_seen out + LeasesSeen r\<rparr>) db1)"

definition dhcp_sync :: "ipam_env \<Rightarrow> kea \<Rightarrow> (nat \<Rightarrow> bool) \<Rightarrow> (nat \<Rightarrow> int) \<Rightarrow> sync_summary squery" where
  "dhcp_sync E K stopped clock =
     qbind (iexec E ''ListEnabledDhcpServersForLeaseSync'' ListEnabledDhcpServersForLeaseSync) (\<lambda>rows db.
       case run_servers E K stopped clock rows no_syncs db of (out, db') \<Rightarrow> (Inr out, db'))"

definition defaultGraceSeconds :: int where "defaultGraceSeconds = 3600"
definition defaultDeleteAfterDays :: int where "defaultDeleteAfterDays = 1"

definition dhcp_age_out :: "ipam_env \<Rightarrow> int \<Rightarrow> int \<Rightarrow> int \<Rightarrow> (nat \<times> nat) squery" where
  "dhcp_age_out E graceSeconds deleteAfterDays t =
     (let grace = (if graceSeconds \<le> 0 then defaultGraceSeconds else graceSeconds);
          delAfter = (if deleteAfterDays \<le> 0 then defaultDeleteAfterDays else deleteAfterDays)
      in qbind (iexec E ''DeprecateExpiredDhcpLeases''
                  (DeprecateExpiredDhcpLeases (t + int64 (- grace * second)))) (\<lambda>deprecated.
         qbind (iexec E ''DeleteDeprecatedDhcpLeases''
                  (DeleteDeprecatedDhcpLeases (t + int64 (- delAfter * 24 * 3600 * second)))) (\<lambda>deleted.
         reading (\<lambda>_. Inr (deprecated, deleted)))))"

text \<open>\<open>None\<close>: the retention is not positive and the job refuses to run.\<close>

definition dhcp_scope_tombstone_purge :: "ipam_env \<Rightarrow> int \<Rightarrow> int \<Rightarrow> nat squery option" where
  "dhcp_scope_tombstone_purge E retentionDays t =
     (if retentionDays \<le> 0 then None
      else Some (iexec E ''PurgeExpiredDhcpScopeTombstones''
        (PurgeExpiredDhcpScopeTombstones (t + int64 (- retentionDays * 24 * 3600 * second)))))"

end
