(* ===== verification/DhcpReconcile.thy ===== *)
theory DhcpReconcile
  imports DhcpLeases IpamOverlays
begin

text \<open>
  The reconciliation of a DHCP scope's reservations with the address plan:
  \<^verbatim>\<open>internal/dhcp/reconcile\<close> (the read-only report of \<^verbatim>\<open>aggregate.go\<close>, the
  materializing sync of \<^verbatim>\<open>sync.go\<close>), the queries of \<^verbatim>\<open>dhcp_reconcile.sql\<close> and the handlers
  of \<^verbatim>\<open>ipam/dhcp_reconcile.go\<close> and \<^verbatim>\<open>ipam/dhcp_server_sync.go\<close>.  A reservation is the
  decoded JSON object; the texts of notes are left out.
\<close>

section \<open>Normal forms\<close>

definition stripPrefix :: "string \<Rightarrow> string" where
  "stripPrefix s = takeWhile (\<lambda>c. c \<noteq> CHR ''/'') s"

definition normalizeIP :: "string \<Rightarrow> string option" where
  "normalizeIP s = map_option addr_string (ParseAddr (trim_space s))"

definition keepHex :: "string \<Rightarrow> string" where
  "keepHex s = filter (\<lambda>c. (CHR ''0'' \<le> c \<and> c \<le> CHR ''9'') \<or> (CHR ''a'' \<le> c \<and> c \<le> CHR ''f'')) s"

text \<open>The loop that writes pairs of digits with colons between them.\<close>

fun pairs :: "string \<Rightarrow> string" where
  "pairs (a # b # c # s) = a # b # CHR '':'' # pairs (c # s)"
| "pairs s = s"

definition normalizeMac :: "string \<Rightarrow> string" where
  "normalizeMac mac =
     (let cleaned = keepHex (to_lower mac) in if length cleaned \<noteq> 12 then [] else pairs cleaned)"

definition normalizeDuid :: "string \<Rightarrow> string" where
  "normalizeDuid duid =
     (let cleaned = keepHex (to_lower duid)
      in if length cleaned < 2 \<or> 256 < length cleaned \<or> length cleaned mod 2 \<noteq> 0 then [] else pairs cleaned)"

definition deref :: "string option \<Rightarrow> string" where
  "deref p = (case p of None \<Rightarrow> [] | Some s \<Rightarrow> s)"

section \<open>Queries\<close>

record reconcile_row =
  rr_id :: uuid
  rr_address :: string
  rr_source :: string
  rr_mac :: "string option"
  rr_duid :: "string option"

definition reconcile_view :: "ipam_env \<Rightarrow> ip_address \<Rightarrow> reconcile_row" where
  "reconcile_view E a =
     \<lparr>rr_id = ad_id a, rr_address = inet_show E (ad_address a), rr_source = ad_source a,
      rr_mac = ad_mac a, rr_duid = ad_duid a\<rparr>"

definition ListIPAddressesInSubnetForReconcile :: "ipam_env \<Rightarrow> uuid \<Rightarrow> reconcile_row list squery" where
  "ListIPAddressesInSubnetForReconcile E i =
     reading (\<lambda>db. Inr (map (reconcile_view E) (filter (\<lambda>a. ad_subnet a = i) (addresses db))))"

definition reserved_row ::
    "uuid \<Rightarrow> inet \<Rightarrow> string option \<Rightarrow> string option \<Rightarrow> string option \<Rightarrow> uuid \<Rightarrow> ip_address" where
  "reserved_row subnetID a mac duid dns i =
     \<lparr>ad_id = i, ad_subnet = subnetID, ad_asset = None, ad_address = a, ad_role = ''data'',
      ad_status = ''reserved'', ad_source = ''reservation'', ad_dns_name = dns, ad_description = None,
      ad_lease_expires = None, ad_mac = mac, ad_duid = duid\<rparr>"

definition InsertReservationIPAddress ::
    "ipam_env \<Rightarrow> uuid \<Rightarrow> string \<Rightarrow> string option \<Rightarrow> string option \<Rightarrow> string option \<Rightarrow> uuid squery" where
  "InsertReservationIPAddress E subnetID address mac duid dns db =
     (case inet_read E address of
        None \<Rightarrow> (Inl bad_input, db)
      | Some a \<Rightarrow>
          (case CreateIPAddress (reserved_row subnetID a mac duid dns (gen_id E db)) db of
             (Inl e, db') \<Rightarrow> (Inl e, db') | (Inr r, db') \<Rightarrow> (Inr (ad_id r), db')))"

definition coalesce :: "'a option \<Rightarrow> 'a option \<Rightarrow> 'a option" where
  "coalesce old new = (if old = None then new else old)"

definition promoted :: "string option \<Rightarrow> string option \<Rightarrow> string option \<Rightarrow> ip_address \<Rightarrow> ip_address" where
  "promoted mac duid dns r = r
     \<lparr>ad_source := ''reservation'', ad_status := ''reserved'', ad_mac := coalesce (ad_mac r) mac,
      ad_duid := coalesce (ad_duid r) duid, ad_dns_name := coalesce (ad_dns_name r) dns\<rparr>"

definition PromoteDhcpLeaseToReservation ::
    "uuid \<Rightarrow> string option \<Rightarrow> string option \<Rightarrow> string option \<Rightarrow> unit squery" where
  "PromoteDhcpLeaseToReservation i mac duid dns = exec_only (UpdateIPAddress i (promoted mac duid dns))"

section \<open>The report\<close>

datatype status = Clean | Collision | Unbacked | MacMismatch | DuidMismatch

record reconcile_entry =
  ReservationIP :: string
  Identifier :: string
  EntryStatus :: status
  IPAddressID :: "uuid option"
  IPSource :: "string option"

record reconcile_report =
  ScopeID :: uuid
  SubnetID :: "uuid option"
  ReportTotal :: nat
  Counts :: "status \<Rightarrow> nat"
  Entries :: "reconcile_entry list"

text \<open>The address column in normal form; of two rows with one address the later one counts.\<close>

definition index_step :: "(string \<Rightarrow> reconcile_row option) \<Rightarrow> reconcile_row \<Rightarrow> string \<Rightarrow> reconcile_row option" where
  "index_step m row =
     (case normalizeIP (stripPrefix (rr_address row)) of None \<Rightarrow> m | Some key \<Rightarrow> m(key \<mapsto> row))"

definition indexIPRowsByAddress :: "reconcile_row list \<Rightarrow> string \<Rightarrow> reconcile_row option" where
  "indexIPRowsByAddress rows = foldl index_step (\<lambda>_. None) rows"

definition decodeReservations :: "json \<Rightarrow> json_object list" where
  "decodeReservations raw = (case object_list raw of None \<Rightarrow> [] | Some rs \<Rightarrow> rs)"

datatype mismatch = WrongMac | WrongDuid

definition checkBindingMismatch :: "json_object \<Rightarrow> reconcile_row \<Rightarrow> mismatch option" where
  "checkBindingMismatch r row =
     (let resMac = normalizeMac (stringField r ''mac''); rowMac = normalizeMac (deref (rr_mac row));
          resDuid = normalizeDuid (stringField r ''duid''); rowDuid = normalizeDuid (deref (rr_duid row))
      in if resMac \<noteq> [] \<and> rowMac \<noteq> [] \<and> resMac \<noteq> rowMac then Some WrongMac
         else if resDuid \<noteq> [] \<and> rowDuid \<noteq> [] \<and> resDuid \<noteq> rowDuid then Some WrongDuid
         else None)"

definition classifyOne :: "json_object \<Rightarrow> (string \<Rightarrow> reconcile_row option) \<Rightarrow> reconcile_entry" where
  "classifyOne r ipIndex =
     (let identifier = firstNonEmpty (stringField r ''mac'') (stringField r ''duid'');
          entry = (\<lambda>a st row. \<lparr>ReservationIP = a, Identifier = identifier, EntryStatus = st,
            IPAddressID = map_option rr_id row, IPSource = map_option rr_source row\<rparr>)
      in case normalizeIP (stringField r ''ip'') of
           None \<Rightarrow> entry (stringField r ''ip'') Unbacked None
         | Some ip \<Rightarrow>
             (case ipIndex ip of
                None \<Rightarrow> entry ip Unbacked None
              | Some row \<Rightarrow>
                  if rr_source row = ''static'' then entry ip Collision (Some row)
                  else if checkBindingMismatch r row \<noteq> None
                  then entry ip (if has r ''duid'' then DuidMismatch else MacMismatch) (Some row)
                  else entry ip Clean (Some row)))"

definition Reconcile :: "uuid \<Rightarrow> uuid option \<Rightarrow> json \<Rightarrow> reconcile_row list \<Rightarrow> reconcile_report" where
  "Reconcile scopeID subnetID reservations ipRows =
     (let es = map (\<lambda>r. classifyOne r (indexIPRowsByAddress ipRows)) (decodeReservations reservations)
      in \<lparr>ScopeID = scopeID, SubnetID = subnetID, ReportTotal = length es,
          Counts = (\<lambda>st. length (filter (\<lambda>e. EntryStatus e = st) es)), Entries = es\<rparr>)"

section \<open>The sync\<close>

datatype decision =
    SkippedUnparseable | UpsertedRow | SkippedCollision | SkippedMacMismatch | SkippedDuidMismatch
  | Promoted | SkippedClean | SkippedNoSubnetDecision

text \<open>The address, what was decided and the row concerned.\<close>

type_synonym sync_entry = "string \<times> decision \<times> uuid option"

record sync_report =
  SyncScopeID :: uuid
  SyncSubnetID :: "uuid option"
  Upserts :: nat
  Promotions :: nat
  Collisions :: nat
  CleanRows :: nat
  MacMismatches :: nat
  DuidMismatches :: nat
  NoSubnet :: nat
  SyncEntries :: "sync_entry list"

definition bump :: "decision \<Rightarrow> sync_report \<Rightarrow> sync_report" where
  "bump d r =
     (case d of
        UpsertedRow \<Rightarrow> r\<lparr>Upserts := Upserts r + 1\<rparr>
      | Promoted \<Rightarrow> r\<lparr>Promotions := Promotions r + 1\<rparr>
      | SkippedCollision \<Rightarrow> r\<lparr>Collisions := Collisions r + 1\<rparr>
      | SkippedClean \<Rightarrow> r\<lparr>CleanRows := CleanRows r + 1\<rparr>
      | SkippedMacMismatch \<Rightarrow> r\<lparr>MacMismatches := MacMismatches r + 1\<rparr>
      | SkippedDuidMismatch \<Rightarrow> r\<lparr>DuidMismatches := DuidMismatches r + 1\<rparr>
      | _ \<Rightarrow> r)"

definition syncOne ::
    "ipam_env \<Rightarrow> uuid \<Rightarrow> json_object \<Rightarrow> (string \<Rightarrow> reconcile_row option) \<Rightarrow> sync_entry squery" where
  "syncOne E subnetID r ipIndex =
     (case normalizeIP (stringField r ''ip'') of
        None \<Rightarrow> reading (\<lambda>_. Inr (stringField r ''ip'', SkippedUnparseable, None))
      | Some ip \<Rightarrow>
          let mac = nilIfEmpty (normalizeMac (stringField r ''mac''));
              duid = nilIfEmpty (normalizeDuid (stringField r ''duid''));
              hostname = nilIfEmpty (trim_space (stringField r ''hostname''))
          in case ipIndex ip of
               None \<Rightarrow>
                 qbind (iexec E ''InsertReservationIPAddress''
                          (InsertReservationIPAddress E subnetID ip mac duid hostname))
                   (\<lambda>i. reading (\<lambda>_. Inr (ip, UpsertedRow, Some i)))
             | Some row \<Rightarrow>
                 if rr_source row = ''static'' then reading (\<lambda>_. Inr (ip, SkippedCollision, Some (rr_id row)))
                 else case checkBindingMismatch r row of
                   Some WrongMac \<Rightarrow> reading (\<lambda>_. Inr (ip, SkippedMacMismatch, Some (rr_id row)))
                 | Some WrongDuid \<Rightarrow> reading (\<lambda>_. Inr (ip, SkippedDuidMismatch, Some (rr_id row)))
                 | None \<Rightarrow>
                     if rr_source row = ''dhcp''
                     then qbind (iexec E ''PromoteDhcpLeaseToReservation''
                            (PromoteDhcpLeaseToReservation (rr_id row) mac duid hostname))
                            (\<lambda>_. reading (\<lambda>_. Inr (ip, Promoted, Some (rr_id row))))
                     else reading (\<lambda>_. Inr (ip, SkippedClean, Some (rr_id row))))"

fun sync_all ::
    "ipam_env \<Rightarrow> uuid \<Rightarrow> (string \<Rightarrow> reconcile_row option) \<Rightarrow> json_object list \<Rightarrow> sync_report \<Rightarrow> sync_report squery" where
  "sync_all E subnetID ipIndex [] report = reading (\<lambda>_. Inr report)"
| "sync_all E subnetID ipIndex (r # rs) report =
     qbind (syncOne E subnetID r ipIndex) (\<lambda>entry.
     sync_all E subnetID ipIndex rs
       ((bump (fst (snd entry)) report)\<lparr>SyncEntries := SyncEntries report @ [entry]\<rparr>))"

definition empty_sync :: "uuid \<Rightarrow> uuid option \<Rightarrow> sync_report" where
  "empty_sync scopeID subnetID =
     \<lparr>SyncScopeID = scopeID, SyncSubnetID = subnetID, Upserts = 0, Promotions = 0, Collisions = 0,
      CleanRows = 0, MacMismatches = 0, DuidMismatches = 0, NoSubnet = 0, SyncEntries = []\<rparr>"

definition Sync ::
    "ipam_env \<Rightarrow> uuid \<Rightarrow> uuid option \<Rightarrow> json \<Rightarrow> reconcile_row list \<Rightarrow> sync_report squery" where
  "Sync E scopeID subnetID reservations ipRows =
     (let rs = decodeReservations reservations; report = empty_sync scopeID subnetID
      in case subnetID of
           None \<Rightarrow> reading (\<lambda>_. Inr (report\<lparr>NoSubnet := length rs,
             SyncEntries := map (\<lambda>r. (stringField r ''ip'', SkippedNoSubnetDecision, None)) rs\<rparr>))
         | Some i \<Rightarrow> sync_all E i (indexIPRowsByAddress ipRows) rs report)"

section \<open>Handlers\<close>

definition enforceDhcpScopeFabric :: "ipam_env \<Rightarrow> principal \<Rightarrow> uuid \<Rightarrow> string \<Rightarrow> ('r, unit) ihandler" where
  "enforceDhcpScopeFabric E p i capCode =
     hbind (lookupFabricID E ''GetDhcpScopeFabricID'' (GetDhcpScopeFabricID i) ''dhcp scope not found'') (\<lambda>fid.
     enforceFabric p fid capCode)"

definition enforceDhcpServerFabric :: "ipam_env \<Rightarrow> principal \<Rightarrow> uuid \<Rightarrow> string \<Rightarrow> ('r, unit) ihandler" where
  "enforceDhcpServerFabric E p i capCode =
     hbind (lookupFabricID E ''GetDhcpServerFabricID'' (GetDhcpServerFabricID i) ''dhcp server not found'') (\<lambda>fid.
     enforceFabric p fid capCode)"

text \<open>The rows of the scope's subnet, when it has one.\<close>

definition scope_rows :: "ipam_env \<Rightarrow> uuid option \<Rightarrow> ('r, reconcile_row list) ihandler" where
  "scope_rows E subnetID =
     (case subnetID of
        None \<Rightarrow> hreturn []
      | Some i \<Rightarrow> ask E ''ListIPAddressesInSubnetForReconcile'' (ListIPAddressesInSubnetForReconcile E i) WriteMapped)"

definition reconcileDhcpScope ::
    "ipam_env \<Rightarrow> principal \<Rightarrow> string \<Rightarrow> (reconcile_report, reconcile_report resp) ihandler" where
  "reconcileDhcpScope E p url =
     hbind (idFromURL E url) (\<lambda>i.
     hbind (enforceDhcpScopeFabric E p i ''ipam:dhcp-scopes:reconcile'') (\<lambda>_.
     hbind (ask E ''GetDhcpScope'' (GetDhcpScope i) (mapIpamErr ''dhcp scope not found'')) (\<lambda>sc.
     hbind (scope_rows E (sc_subnet sc)) (\<lambda>ipRows.
     hreturn (HttpJSON 200 (Reconcile (sc_id sc) (sc_subnet sc) (sc_reservations sc) ipRows))))))"

definition reconcileSyncDhcpScope ::
    "ipam_env \<Rightarrow> principal \<Rightarrow> string \<Rightarrow> (sync_report, sync_report resp) ihandler" where
  "reconcileSyncDhcpScope E p url =
     hbind (idFromURL E url) (\<lambda>i.
     hbind (enforceDhcpScopeFabric E p i ''ipam:dhcp-scopes:reconcile-sync'') (\<lambda>_.
     hbind (ask E ''GetDhcpScope'' (GetDhcpScope i) (mapIpamErr ''dhcp scope not found'')) (\<lambda>sc.
     hbind (scope_rows E (sc_subnet sc)) (\<lambda>ipRows.
     hbind (\<lambda>db. case Sync E (sc_id sc) (sc_subnet sc) (sc_reservations sc) ipRows db of
                    (Inl e, db') \<Rightarrow> hanswer (WriteMapped e) db' | (Inr r, db') \<Rightarrow> hreturn r db') (\<lambda>report.
     hbind (auditMut E ''dhcp_scope.reconcile_sync'' i) (\<lambda>_.
     hreturn (HttpJSON 200 report)))))))"

text \<open>A server that is not among the enabled ones answers without being synced.\<close>

definition syncDhcpServer ::
    "ipam_env \<Rightarrow> principal \<Rightarrow> kea \<Rightarrow> int \<Rightarrow> string \<Rightarrow> (sync_result, sync_result resp) ihandler" where
  "syncDhcpServer E p K t url =
     hbind (idFromURL E url) (\<lambda>i.
     hbind (enforceDhcpServerFabric E p i ''ipam:dhcp-servers:update'') (\<lambda>_.
     hbind (ask E ''ListEnabledDhcpServersForLeaseSync'' ListEnabledDhcpServersForLeaseSync WriteMapped) (\<lambda>servers.
     case List.find (\<lambda>s. ds_id s = i) servers of
       None \<Rightarrow> hanswer (HttpJSON 200 \<lparr>ServerID = i, Upserted = 0, SkippedNoSubnet = 0, LeasesSeen = 0,
                                     SyncError = ''server is disabled''\<rparr>)
     | Some s \<Rightarrow>
         hbind (\<lambda>db. case SyncServer E K (toServer s) t db of
                        (Inl e, db') \<Rightarrow> hanswer (WriteMapped e) db' | (Inr r, db') \<Rightarrow> hreturn r db') (\<lambda>out.
         hbind (auditMut E ''dhcp_server.sync'' i) (\<lambda>_.
         hreturn (HttpJSON 200 out))))))"

end
