(* ===== verification/NetParse.thy ===== *)
theory NetParse
  imports NetText
begin

text \<open>
  What the address parser of \<^verbatim>\<open>net/netip\<close> accepts: only hexadecimal digits, dots and
  colons outside a zone, and only values in the range of the family.
\<close>

definition addr_char :: "char \<Rightarrow> bool" where
  "addr_char c \<longleftrightarrow> is_hex c \<or> c = CHR ''.'' \<or> c = CHR '':''"

section \<open>Dotted quads\<close>

lemma parse_octet_chars: "parse_octet t = Some n \<Longrightarrow> (\<forall>c\<in>set t. is_hex c) \<and> n < 256"
  by (auto simp: parse_octet_def list_all_iff is_hex_def split: if_splits)

lemma join_with_letters: "set (join_with c ts) \<subseteq> insert c (\<Union>t\<in>set ts. set t)"
  by (induction c ts rule: join_with.induct) auto

lemma parse_quad_parts:
  assumes "parse_quad s = Some os"
  shows "os = map (\<lambda>t. the (parse_octet t)) (split_on CHR ''.'' s)" "length os = 4"
    "\<And>t. t \<in> set (split_on CHR ''.'' s) \<Longrightarrow> parse_octet t \<noteq> None"
  using assms by (force simp: parse_quad_def Let_def comp_def split: if_splits)+

lemma parse_quad_chars:
  assumes "parse_quad s = Some os" "c \<in> set s" shows "addr_char c"
proof -
  have "c \<in> set (join_with CHR ''.'' (split_on CHR ''.'' s))" using assms(2) by simp
  then consider "c = CHR ''.''" | t where "t \<in> set (split_on CHR ''.'' s)" "c \<in> set t"
    using join_with_letters[of "CHR ''.''" "split_on CHR ''.'' s"] by auto
  then show ?thesis
    using parse_quad_parts(3)[OF assms(1)] parse_octet_chars by cases (auto simp: addr_char_def)
qed

lemma parse_quad_bytes:
  assumes "parse_quad s = Some os" "n \<in> set os" shows "n < 256"
proof -
  obtain t where "t \<in> set (split_on CHR ''.'' s)" "n = the (parse_octet t)"
    using parse_quad_parts(1)[OF assms(1)] assms(2) by auto
  then show ?thesis using parse_quad_parts(3)[OF assms(1)] parse_octet_chars by fastforce
qed

lemma foldl_digits: "\<forall>x\<in>set xs. x < b \<Longrightarrow> foldl (\<lambda>acc x. acc * b + x) a xs < (a + 1) * (b :: nat) ^ length xs"
proof (induction xs arbitrary: a)
  case (Cons x xs)
  have "a * b + x + 1 \<le> (a + 1) * b" using Cons.prems by simp
  then have "(a * b + x + 1) * b ^ length xs \<le> (a + 1) * b ^ length (x # xs)"
    using mult_le_mono1[of "a * b + x + 1" "(a + 1) * b" "b ^ length xs"] by (simp add: algebra_simps)
  moreover have "foldl (\<lambda>acc x. acc * b + x) (a * b + x) xs < (a * b + x + 1) * b ^ length xs"
    using Cons by simp
  ultimately show ?case by simp
qed simp

lemma quad_val_less: "parse_quad s = Some os \<Longrightarrow> quad_val os < 2 ^ 32"
  using foldl_digits[of os 256 0] parse_quad_bytes[of s os] parse_quad_parts(2)[of s os]
  by (simp add: quad_val_def)

section \<open>Groups\<close>

lemma hex_digit_less: "is_hex c \<Longrightarrow> hex_digit_val c < 16"
  by (auto simp: is_hex_def hex_digit_val_def is_digit_def digit_val_def less_eq_char_def)

lemma hex_val_less:
  assumes "\<forall>c\<in>set h. is_hex c" "length h \<le> 4" shows "hex_val h < 65536"
proof -
  have "hex_val h = foldl (\<lambda>acc x. acc * 16 + x) 0 (map hex_digit_val h)"
    by (simp add: hex_val_def foldl_map)
  also have "\<dots> < 16 ^ length h"
    using foldl_digits[of "map hex_digit_val h" 16 0] assms(1) hex_digit_less by simp
  also have "(16::nat) ^ length h \<le> 16 ^ 4" by (rule power_increasing) (use assms(2) in auto)
  finally show ?thesis by simp
qed

lemma takeWhile_hex: "c \<in> set (takeWhile is_hex s) \<Longrightarrow> is_hex c"
  by (auto dest: set_takeWhileD)

lemma hex_split: "c \<in> set s \<Longrightarrow> is_hex c \<or> c \<in> set (dropWhile is_hex s)"
  by (metis UnE set_append takeWhile_dropWhile_id takeWhile_hex)

lemma parse_groups_chars: "parse_groups s acc ell = Some r \<Longrightarrow> c \<in> set s \<Longrightarrow> addr_char c"
proof (induction s acc ell rule: parse_groups.induct)
  case (1 s acc ell)
  show ?case
  proof (cases "dropWhile is_hex s")
    case Nil
    then have "c \<notin> set (dropWhile is_hex s)" by (simp only: list.set empty_iff not_False_eq_True)
    then show ?thesis using hex_split[OF "1.prems"(2)] unfolding addr_char_def by blast
  next
    case (Cons d r')
    have c: "is_hex c \<or> c = d \<or> c \<in> set r'" using hex_split[OF "1.prems"(2)] Cons by auto
    show ?thesis
      using "1.prems"(1) "1.IH" c Cons parse_quad_chars[of s _ c] "1.prems"(2)
      apply (subst (asm) parse_groups.simps)
      apply (cases r')
       apply (auto split: if_splits option.splits simp: Let_def addr_char_def)
      done
  qed
qed

lemma parse_groups_range:
  "\<lbrakk>parse_groups s acc ell = Some (gs, e); length acc \<le> 8; \<forall>g\<in>set acc. g < 65536\<rbrakk> \<Longrightarrow>
   length gs \<le> 8 \<and> (\<forall>g\<in>set gs. g < 65536)"
proof (induction s acc ell rule: parse_groups.induct)
  case (1 s acc ell)
  have hex: "length (takeWhile is_hex s) \<le> 4 \<Longrightarrow> hex_val (takeWhile is_hex s) < 65536"
    by (rule hex_val_less) (auto dest: takeWhile_hex)
  have quad: "q ! i * 256 + q ! j < 65536" if "parse_quad s = Some q" "i < 4" "j < 4" for q i j
  proof -
    have "q ! i < 256" "q ! j < 256"
      using parse_quad_bytes[OF that(1)] parse_quad_parts(2)[OF that(1)] that(2,3) by (auto intro: nth_mem)
    then show ?thesis by simp
  qed
  show ?case
    using "1.prems" "1.IH" hex quad
    apply (subst (asm) parse_groups.simps)
    apply (auto split: if_splits option.splits list.splits simp: Let_def)
    done
qed


lemma expand_groups_range:
  assumes "expand_groups r = Some gs" "length (fst r) \<le> 8" "\<forall>g\<in>set (fst r). g < 65536"
  shows "length gs = 8 \<and> (\<forall>g\<in>set gs. g < 65536)"
proof (cases "snd r")
  case (Some e)
  then have "gs = take e (fst r) @ replicate (8 - length (fst r)) 0 @ drop e (fst r)" "length (fst r) < 8"
    using assms(1) by (cases r; simp add: expand_groups_def split: if_splits)+
  moreover have "length (take e (fst r)) + length (drop e (fst r)) = length (fst r)"
    by (metis append_take_drop_id length_append)
  ultimately show ?thesis using assms(3) by (auto dest: in_set_takeD in_set_dropD)
qed (use assms in \<open>cases r; auto simp: expand_groups_def split: if_splits\<close>)

lemma parse_v6_groups_range:
  assumes "parse_v6_groups s = Some gs" shows "length gs = 8 \<and> (\<forall>g\<in>set gs. g < 65536)"
proof (cases "has_prefix s ''::'' \<and> drop 2 s = []")
  case True
  then show ?thesis using assms by (auto simp: parse_v6_groups_def)
next
  case False
  then obtain t ell r where "parse_groups t [] ell = Some r" "expand_groups r = Some gs"
    using assms by (auto simp: parse_v6_groups_def bind_eq_Some_conv split: if_splits)
  then show ?thesis using parse_groups_range[of t "[]" ell "fst r" "snd r"] expand_groups_range[of r gs] by simp
qed

lemma parse_v6_groups_chars:
  assumes "parse_v6_groups s = Some gs" "c \<in> set s" shows "addr_char c"
proof (cases "has_prefix s ''::''")
  case True
  have "drop 2 s = [] \<or> parse_groups (drop 2 s) [] (Some 0) \<noteq> None"
    using assms(1) True by (cases "parse_groups (drop 2 s) [] (Some 0)") (simp_all add: parse_v6_groups_def split: if_splits)
  then have "\<forall>d\<in>set (drop 2 s). addr_char d" using parse_groups_chars[of "drop 2 s" "[]" "Some 0"] by auto
  moreover have "c \<in> set (take 2 s) \<or> c \<in> set (drop 2 s)" using assms(2) by (metis UnE append_take_drop_id set_append)
  moreover have "take 2 s = ''::''" using True by (simp add: has_prefix_def numeral_2_eq_2)
  ultimately show ?thesis by (auto simp: addr_char_def)
next
  case False
  then have "parse_groups s [] None \<noteq> None"
    using assms(1) by (cases "parse_groups s [] None") (simp_all add: parse_v6_groups_def)
  then show ?thesis using parse_groups_chars[of s "[]" None] assms(2) by auto
qed

section \<open>Addresses\<close>

lemma ParseAddr_cases:
  assumes "ParseAddr s = Some a"
  obtains (v4) q where "parse_quad s = Some q" "a = mk_addr V4 (quad_val q)" | (v6) "parse_v6 s = Some a"
proof (cases "dropWhile (\<lambda>c. c \<noteq> CHR ''.'' \<and> c \<noteq> CHR '':'' \<and> c \<noteq> CHR ''%'') s")
  case (Cons c t)
  then show thesis using assms v4 v6 unfolding ParseAddr_def Cons list.case by (auto split: if_splits)
next
  case Nil
  then have False using assms unfolding ParseAddr_def by (simp only: list.case option.distinct)
  then show thesis ..
qed

lemma parse_v6_Some:
  assumes "parse_v6 s = Some a"
  obtains gs where "parse_v6_groups (takeWhile (\<lambda>c. c \<noteq> CHR ''%'') s) = Some gs" "fam a = V6" "val a = groups_val gs"
    "zone a = [] \<Longrightarrow> takeWhile (\<lambda>c. c \<noteq> CHR ''%'') s = s"
proof -
  let ?body = "takeWhile (\<lambda>c. c \<noteq> CHR ''%'') s" and ?z = "tl (dropWhile (\<lambda>c. c \<noteq> CHR ''%'') s)"
  have ok: "\<not> (CHR ''%'' \<in> set s \<and> ?z = [])"
    using assms unfolding parse_v6_def Let_def by (rule contrapos_pn) simp
  then have "map_option (\<lambda>gs. \<lparr>fam = V6, val = groups_val gs, zone = ?z\<rparr>) (parse_v6_groups ?body) = Some a"
    using assms unfolding parse_v6_def Let_def by (simp only: if_False)
  then obtain gs where gs: "parse_v6_groups ?body = Some gs" "a = \<lparr>fam = V6, val = groups_val gs, zone = ?z\<rparr>" by blast
  have "?body = s" if "zone a = []"
  proof -
    have "CHR ''%'' \<notin> set s" using that gs(2) ok by (cases "?z") auto
    then show ?thesis using takeWhile_eq_all_conv by blast
  qed
  moreover have "fam a = V6" "val a = groups_val gs" using gs(2) by (simp_all only: addr.simps)
  ultimately show thesis using that[OF gs(1)] by blast
qed

lemma ParseAddr_chars: "\<lbrakk>ParseAddr s = Some a; zone a = []; c \<in> set s\<rbrakk> \<Longrightarrow> addr_char c"
  by (erule ParseAddr_cases)
    (blast dest: parse_quad_chars, erule parse_v6_Some, metis parse_v6_groups_chars)

lemma ParseAddr_no_slash: "\<lbrakk>ParseAddr s = Some a; zone a = []\<rbrakk> \<Longrightarrow> CHR ''/'' \<notin> set s"
  using ParseAddr_chars[of s a "CHR ''/''"] by (auto simp: addr_char_def is_hex_def is_digit_def)

lemma ParseAddr_no_space: "\<lbrakk>ParseAddr s = Some a; zone a = []\<rbrakk> \<Longrightarrow> trim_space s = s"
proof -
  assume "ParseAddr s = Some a" "zone a = []"
  then have "\<not> is_space c" if "c \<in> set s" for c
    using ParseAddr_chars[of s a c] that by (auto simp: addr_char_def is_hex_def is_digit_def is_space_def)
  then have no: "\<forall>c\<in>set s. \<not> is_space c" by blast
  have "dropWhile is_space t = t" if "\<forall>c\<in>set t. \<not> is_space c" for t using that by (cases t) simp_all
  from this[of s] this[of "rev s"] no show ?thesis by (simp add: trim_space_def)
qed

lemma ParseAddr_valid: "ParseAddr s = Some a \<Longrightarrow> valid_addr a"
proof (erule ParseAddr_cases)
  fix q assume "parse_quad s = Some q" "a = mk_addr V4 (quad_val q)"
  then show "valid_addr a" using quad_val_less[of s q] by (simp add: valid_addr_def mk_addr_def BitLen_def bit_len_def)
next
  assume "parse_v6 s = Some a"
  then show "valid_addr a"
  proof (rule parse_v6_Some)
    fix gs assume gs: "parse_v6_groups (takeWhile (\<lambda>c. c \<noteq> CHR ''%'') s) = Some gs" "fam a = V6" "val a = groups_val gs"
    have "groups_val gs < 65536 ^ 8"
      using foldl_digits[of gs 65536 0] parse_v6_groups_range[OF gs(1)] by (simp add: groups_val_def)
    then show ?thesis using gs by (simp add: valid_addr_def BitLen_def bit_len_def)
  qed
qed

end
