(* ===== verification/DhcpLeaseProps.thy ===== *)
theory DhcpLeaseProps
  imports DhcpLeases IpamNesting NetParse
begin

text \<open>
  What the ingest of DHCP leases promises: the subnet of a lease is the most specific one,
  error messages are cut between characters, rows of operators stay as they are, and the
  nesting of the address plan is kept.
\<close>

section \<open>The subnet of a lease\<close>

lemma ParseAddr_not_prefix: "\<lbrakk>ParseAddr s = Some a; zone a = []\<rbrakk> \<Longrightarrow> parseAddr s = Inr a"
  using ParseAddr_no_slash[of s a] by (simp add: parseAddr_def ParsePrefix_def)

definition covers :: "addr \<Rightarrow> lease_subnet \<Rightarrow> bool" where
  "covers a s \<longleftrightarrow> (case ParsePrefix (snd s) of None \<Rightarrow> False | Some p \<Rightarrow> Contains p a)"

definition width :: "lease_subnet \<Rightarrow> nat" where
  "width s = (case ParsePrefix (snd s) of None \<Rightarrow> 0 | Some p \<Rightarrow> plen p)"

text \<open>The scan holds the first of the most specific subnets seen so far.\<close>

definition scanned :: "addr \<Rightarrow> lease_subnet list \<Rightarrow> (lease_subnet \<times> nat) option \<Rightarrow> bool" where
  "scanned a subs best \<longleftrightarrow>
     (case best of
        None \<Rightarrow> \<forall>s\<in>set subs. \<not> covers a s
      | Some (s0, n) \<Rightarrow> \<exists>xs ys. subs = xs @ s0 # ys \<and> covers a s0 \<and> n = width s0
          \<and> (\<forall>s\<in>set xs. covers a s \<longrightarrow> width s < n) \<and> (\<forall>s\<in>set ys. covers a s \<longrightarrow> width s \<le> n))"

lemma scannedI:
  "\<lbrakk>subs = xs @ s0 # ys; covers a s0; \<forall>s\<in>set xs. covers a s \<longrightarrow> width s < width s0;
    \<forall>s\<in>set ys. covers a s \<longrightarrow> width s \<le> width s0\<rbrakk> \<Longrightarrow> scanned a subs (Some (s0, width s0))"
  unfolding scanned_def option.case prod.case by blast

lemma scannedE:
  assumes "scanned a subs (Some (s0, n))"
  obtains xs ys where "subs = xs @ s0 # ys" "covers a s0" "n = width s0"
    "\<forall>s\<in>set xs. covers a s \<longrightarrow> width s < width s0" "\<forall>s\<in>set ys. covers a s \<longrightarrow> width s \<le> width s0"
  using assms unfolding scanned_def option.case prod.case by blast

lemma scanned_skip:
  assumes "\<not> covers a s" "scanned a subs best" shows "scanned a (subs @ [s]) best"
proof (cases best)
  case None
  then show ?thesis using assms by (auto simp: scanned_def)
next
  case (Some b)
  then obtain xs ys s0 where b: "best = Some (s0, width s0)" and *: "subs = xs @ s0 # ys" "covers a s0"
      "\<forall>s\<in>set xs. covers a s \<longrightarrow> width s < width s0" "\<forall>s\<in>set ys. covers a s \<longrightarrow> width s \<le> width s0"
    using assms(2) by (cases b) (auto elim: scannedE)
  show ?thesis unfolding b by (rule scannedI[of _ xs _ "ys @ [s]"]) (use * assms(1) in auto)
qed

lemma scanned_first: "covers a s \<Longrightarrow> scanned a subs None \<Longrightarrow> scanned a (subs @ [s]) (Some (s, width s))"
  by (rule scannedI[of _ subs _ "[]"]) (auto simp: scanned_def)

lemma scanned_keep:
  assumes "scanned a subs (Some (s0, n))" "width s \<le> n" shows "scanned a (subs @ [s]) (Some (s0, n))"
  using assms(1)
proof (rule scannedE)
  fix xs ys assume *: "subs = xs @ s0 # ys" "covers a s0" "n = width s0"
    "\<forall>s\<in>set xs. covers a s \<longrightarrow> width s < width s0" "\<forall>s\<in>set ys. covers a s \<longrightarrow> width s \<le> width s0"
  show ?thesis unfolding *(3) by (rule scannedI[of _ xs _ "ys @ [s]"]) (use * assms(2) in auto)
qed

lemma scanned_better:
  assumes "scanned a subs (Some (s0, n))" "covers a s" "n < width s"
  shows "scanned a (subs @ [s]) (Some (s, width s))"
  using assms(1)
proof (rule scannedE)
  fix xs ys assume *: "subs = xs @ s0 # ys" "covers a s0" "n = width s0"
    "\<forall>s\<in>set xs. covers a s \<longrightarrow> width s < width s0" "\<forall>s\<in>set ys. covers a s \<longrightarrow> width s \<le> width s0"
  have "\<forall>t\<in>set subs. covers a t \<longrightarrow> width t < width s" using * assms(3) by fastforce
  then show ?thesis by (intro scannedI[of _ subs _ "[]"]) (use assms(2) in auto)
qed

lemma match_step_scanned: "scanned a subs best \<Longrightarrow> scanned a (subs @ [s]) (match_step a best s)"
  using scanned_skip[of a s subs best] scanned_first[of a s subs] scanned_keep[of a subs _ _ s] scanned_better[of a subs _ _ s]
  by (auto simp: match_step_def covers_def width_def not_less split: option.splits prod.splits if_splits)

lemma match_fold_scanned: "scanned a subs (foldl (match_step a) None subs)"
  by (induction subs rule: rev_induct) (auto simp: scanned_def[of _ "[]"] match_step_scanned)

definition most_specific :: "addr \<Rightarrow> lease_subnet list \<Rightarrow> lease_subnet \<Rightarrow> bool" where
  "most_specific a subs s \<longleftrightarrow> covers a s \<and> (\<forall>t\<in>set subs. covers a t \<longrightarrow> width t \<le> width s)"

lemma scanned_find: "scanned a subs best \<Longrightarrow> map_option fst best = List.find (most_specific a subs) subs"
proof (cases best)
  case None
  moreover assume "scanned a subs best"
  ultimately have "List.find (most_specific a subs) subs = None"
    by (auto simp: scanned_def find_None_iff most_specific_def)
  then show ?thesis using None by simp
next
  case (Some b)
  moreover assume "scanned a subs best"
  ultimately obtain xs ys s0 where b: "best = Some (s0, width s0)" "subs = xs @ s0 # ys" "covers a s0"
      "\<forall>s\<in>set xs. covers a s \<longrightarrow> width s < width s0" "\<forall>s\<in>set ys. covers a s \<longrightarrow> width s \<le> width s0"
    by (cases b) (auto simp: scanned_def)
  have "most_specific a subs s0" using b(2-5) by (auto simp: most_specific_def intro: less_imp_le)
  moreover have "\<not> most_specific a subs s" if "s \<in> set xs" for s
    using b that by (fastforce simp: most_specific_def)
  ultimately have "List.find (most_specific a subs) (xs @ s0 # ys) = Some s0"
    by (induction xs) auto
  then show ?thesis using b(1,2) by simp
qed

text \<open>C23. A lease is put into the most specific subnet of the list that contains its address, the
  first one among equals; into none when the address does not parse or no subnet contains it.
  Subnets whose text is no prefix are passed over.\<close>

theorem MatchLeaseToSubnet_most_specific:
  "MatchLeaseToSubnet address subs =
     Option.bind (ParseAddr address) (\<lambda>a. List.find (most_specific a subs) subs)"
  using scanned_find[OF match_fold_scanned] by (auto simp: MatchLeaseToSubnet_def split: option.split)

section \<open>Error messages\<close>

text \<open>UTF-8 (RFC 3629): the length of a character by its first byte, and the bounds on the second.\<close>

definition rune_len :: "char \<Rightarrow> nat" where
  "rune_len c =
     (let n = of_char c :: nat
      in if n < 128 then 1 else if 194 \<le> n \<and> n \<le> 223 then 2 else if 224 \<le> n \<and> n \<le> 239 then 3
         else if 240 \<le> n \<and> n \<le> 244 then 4 else 0)"

definition second_byte :: "char \<Rightarrow> char \<Rightarrow> bool" where
  "second_byte c d \<longleftrightarrow>
     (let n = of_char c; m = of_char d :: nat
      in (n = (224::nat) \<longrightarrow> 160 \<le> m) \<and> (n = 237 \<longrightarrow> m \<le> 159) \<and> (n = 240 \<longrightarrow> 144 \<le> m) \<and> (n = 244 \<longrightarrow> m \<le> 143))"

function utf8 :: "string \<Rightarrow> bool" where
  "utf8 s =
     (if s = [] then True
      else let k = rune_len (hd s)
        in if 0 < k \<and> k \<le> length s \<and> list_all continuation (take (k - 1) (tl s))
              \<and> (1 < k \<longrightarrow> second_byte (hd s) (hd (tl s)))
           then utf8 (drop k s) else False)"
  by pat_completeness auto
termination by (relation "measure length") auto

declare utf8.simps [simp del]

lemma utf8_Nil [simp]: "utf8 []"
  by (subst utf8.simps) simp

lemma rune_len_first: "0 < rune_len c \<Longrightarrow> \<not> continuation c"
proof -
  assume "0 < rune_len c"
  moreover have "and n 192 = 128 \<longrightarrow> 128 \<le> n \<and> n < 192" if "n < 256" for n :: nat
  proof -
    have "\<forall>n<256. and n 192 = 128 \<longrightarrow> 128 \<le> n \<and> n < (192::nat)" by code_simp
    then show ?thesis using that by blast
  qed
  ultimately show ?thesis
    using of_char_mod_256[of c] mod_less_divisor[of 256 "of_char c"] by (fastforce simp: rune_len_def continuation_def Let_def split: if_splits)
qed


lemma rune_split:
  assumes "utf8 s" "s \<noteq> []"
  shows "0 < rune_len (hd s)" "rune_len (hd s) \<le> length s" "utf8 (drop (rune_len (hd s)) s)"
    "list_all continuation (take (rune_len (hd s) - 1) (tl s))"
    "1 < rune_len (hd s) \<longrightarrow> second_byte (hd s) (hd (tl s))"
  using assms by (simp_all add: utf8.simps[of s] Let_def split: if_splits)

text \<open>A place between two characters.\<close>

definition boundary :: "string \<Rightarrow> nat \<Rightarrow> bool" where
  "boundary s m \<longleftrightarrow> m \<le> length s \<and> (m < length s \<longrightarrow> \<not> continuation (s ! m))"

lemma boundary_not_inside:
  assumes "utf8 s" "s \<noteq> []" "boundary s m" "0 < m" shows "rune_len (hd s) \<le> m"
proof (rule ccontr)
  assume less: "\<not> rune_len (hd s) \<le> m"
  obtain n where m: "m = Suc n" using assms(4) by (cases m) auto
  have "n < rune_len (hd s) - 1" "n < length (tl s)" using less m rune_split(2)[OF assms(1,2)] by simp_all
  then have "continuation (tl s ! n)"
    using rune_split(4)[OF assms(1,2)] by (auto simp: list_all_length)
  then show False
    using assms(2,3) m less rune_split(2)[OF assms(1,2)] by (auto simp: boundary_def nth_tl)
qed

lemma take_boundary: "utf8 s \<Longrightarrow> boundary s m \<Longrightarrow> utf8 (take m s)"
proof (induction s arbitrary: m rule: utf8.induct)
  case (1 s)
  show ?case
  proof (cases "s = [] \<or> m = 0")
    case False
    let ?k = "rune_len (hd s)"
    have s: "s \<noteq> []" and m: "0 < m" using False by auto
    note rune = rune_split[OF "1.prems"(1) s]
    have k: "?k \<le> m" by (rule boundary_not_inside[OF "1.prems"(1) s "1.prems"(2) m])
    have "boundary (drop ?k s) (m - ?k)" using "1.prems"(2) k by (auto simp: boundary_def)
    then have rest: "utf8 (drop ?k (take m s))"
      using "1.IH"[OF s refl _ rune(3), of "m - ?k"] rune by (simp add: drop_take)
    have "hd (take m s) = hd s" "tl (take m s) = take (m - 1) (tl s)" using s m by (cases s; cases m; simp)+
    then show ?thesis
      using s m rune k rest "1.prems"(2)
      by (subst utf8.simps) (auto simp: Let_def boundary_def min_def hd_take)
  qed auto
qed

lemma rune_cut_boundary:
  assumes "utf8 s" "s \<noteq> []" shows "m < length s \<Longrightarrow> boundary s (rune_cut s m)"
proof (induction m)
  case 0
  have "\<not> continuation (s ! 0)"
    using rune_len_first rune_split(1)[OF assms] assms(2) by (simp add: hd_conv_nth)
  then show ?case by (simp add: boundary_def)
qed (auto simp: boundary_def)

lemma rune_cut_le: "rune_cut s m \<le> m"
  by (induction m) (simp_all add: le_SucI)

text \<open>The error message stored on the server is the message itself when it is short enough and
  otherwise a prefix within the limit; cutting valid UTF-8 leaves valid UTF-8.\<close>

theorem truncateRuneSafe_utf8:
  assumes "utf8 s"
  shows "utf8 (truncateRuneSafe s mx) \<and> length (truncateRuneSafe s mx) \<le> mx
    \<and> take (length (truncateRuneSafe s mx)) s = truncateRuneSafe s mx"
proof (cases "length s \<le> mx")
  case False
  then have "s \<noteq> []" "mx < length s" by auto
  then show ?thesis
    using take_boundary[OF assms rune_cut_boundary[OF assms]] rune_cut_le[of s mx]
    by (simp add: truncateRuneSafe_def)
qed (simp add: truncateRuneSafe_def assms)

theorem truncateRuneSafe_utf8_witness:
  "let s = ''abc'' @ [CHR 0xC3, CHR 0xA9] in truncateRuneSafe s 4 = ''abc'' \<and> utf8 (truncateRuneSafe s 4)"
proof -
  have u: "utf8 (''abc'' @ [CHR 0xC3, CHR 0xA9])" by code_simp
  have "truncateRuneSafe (''abc'' @ [CHR 0xC3, CHR 0xA9]) 4 = ''abc''" by code_simp
  then show ?thesis using truncateRuneSafe_utf8[OF u, of 4] by (simp only: Let_def simp_thms)
qed

section \<open>What the ingest keeps\<close>

text \<open>A property of the database that the statements of the ingest keep: \<open>seen\<close> is what is known of a
  listed subnet, \<open>mine\<close> which rows an update may touch.\<close>

locale lease_frame =
  fixes E :: ipam_env
    and P :: "ipam_db \<Rightarrow> bool"
    and seen :: "lease_subnet \<Rightarrow> bool"
    and mine :: "uuid \<Rightarrow> bool"
  assumes listed: "\<lbrakk>P db; s \<in> set (subnets db)\<rbrakk> \<Longrightarrow> seen (sb_id s, cidr_show E (sb_prefix s))"
    and leased_rows: "\<lbrakk>P db; r \<in> set (addresses db); ad_source r = ''dhcp''\<rbrakk> \<Longrightarrow> mine (ad_id r)"
    and insert: "\<lbrakk>seen sub; ParseAddr address = Some a; covers a sub\<rbrakk> \<Longrightarrow>
        keeps P (InsertDhcpLease E (fst sub) address dns mac expires) (\<lambda>_. True)"
    and update: "mine i \<Longrightarrow> keeps P (UpdateDhcpLease i mac dns expires) (\<lambda>_. True)"
    and state: "keeps P (UpdateDhcpServerSyncState i t status err n) (\<lambda>_. True)"
    and deprecate: "keeps P (DeprecateExpiredDhcpLeases cutoff) (\<lambda>_. True)"
    and delete: "keeps P (DeleteDeprecatedDhcpLeases cutoff) (\<lambda>_. True)"

context lease_frame
begin

lemma upsert:
  assumes "others_keep E P"
    and "seen sub" "ParseAddr (Address lease) = Some a" "covers a sub"
  shows "keeps P (upsertLease E sub lease) (\<lambda>_. True)"
proof -
  let ?find = "iexec E ''FindDhcpLeaseIPAddress'' (FindDhcpLeaseIPAddress E (fst sub) (Address lease))"
  have found: "keeps P ?find (\<lambda>(i, source). source = ''dhcp'' \<longrightarrow> mine i)"
    by (rule keeps_query[OF assms(1)])
      (auto simp: keeps_def FindDhcpLeaseIPAddress_def reading_def one_row_def find_Some_iff
        intro: leased_rows split: option.splits)
  have ins: "keeps P (qbind (iexec E ''InsertDhcpLease'' (InsertDhcpLease E (fst sub) (Address lease) dns mac x))
      (\<lambda>_. reading (\<lambda>_. Inr True))) (\<lambda>_. True)" for dns mac x
    by (rule keeps_qbind[OF keeps_query[OF assms(1) insert[OF assms(2-4)]] keeps_value])
  have upd: "keeps P (qbind (iexec E ''UpdateDhcpLease'' (UpdateDhcpLease i mac dns x))
      (\<lambda>_. reading (\<lambda>_. Inr True))) (\<lambda>_. True)" if "mine i" for i dns mac x
    by (rule keeps_qbind[OF keeps_query[OF assms(1) update[OF that]] keeps_value])
  show ?thesis
  proof (rule keepsI)
    fix db w db' assume "P db" and r: "upsertLease E sub lease db = (w, db')"
    obtain v db1 where f: "?find db = (v, db1)" by fastforce
    note k = keeps_dest[OF found \<open>P db\<close> f]
    show "P db' \<and> (\<forall>a. w = Inr a \<longrightarrow> True)"
    proof (cases v)
      case (Inl e)
      then show ?thesis using r k keeps_dest[OF ins] by (auto simp: upsertLease_def f Let_def split: if_splits)
    next
      case (Inr x)
      then show ?thesis
        using r k keeps_dest[OF upd] by (cases x) (auto simp: upsertLease_def f Let_def split: if_splits)
    qed
  qed
qed

lemma leases:
  assumes "others_keep E P" "\<forall>s\<in>set subs. seen s"
  shows "keeps P (sync_leases E subs raws counts) (\<lambda>_. True)"
proof (induction raws arbitrary: counts)
  case (Cons raw raws)
  obtain up skip n where c: "counts = (up, skip, n)" by (cases counts) auto
  show ?case
  proof (cases "ParseLease raw")
    case (Some lease)
    show ?thesis
    proof (cases "MatchLeaseToSubnet (Address lease) subs")
      case (Some sub)
      then obtain a where "ParseAddr (Address lease) = Some a" "sub \<in> set subs" "covers a sub"
        unfolding MatchLeaseToSubnet_most_specific
        by (auto simp: find_Some_iff most_specific_def bind_eq_Some_conv)
      then have "keeps P (upsertLease E sub lease) (\<lambda>_. True)" using upsert[OF assms(1)] assms(2) by blast
      then have "keeps P (qbind (upsertLease E sub lease) (\<lambda>wrote.
          sync_leases E subs raws (if wrote then up + 1 else up, skip, n + 1))) (\<lambda>_. True)"
        by (rule keeps_qbind) (rule Cons)
      then show ?thesis using Some \<open>ParseLease raw = Some lease\<close> c by simp
    qed (use Cons Some c in simp)
  qed (use Cons c in simp)
qed (simp add: keeps_value)

lemma sync:
  assumes "others_keep E P"
  shows "keeps P (SyncServer E K s t) (\<lambda>_. True)"
proof -
  have "keeps P (iexec E Q (UpdateDhcpServerSyncState i t' st err n)) (\<lambda>_. True)" for Q i t' st err n
    by (rule keeps_query[OF assms state])
  note tail = keeps_qbind[OF this keeps_value]
  have rows: "keeps P (iexec E ''ListSubnetsForFabricLeaseSync'' (ListSubnetsForFabricLeaseSync E f))
      (\<lambda>subs. \<forall>s\<in>set subs. seen s)" for f
    by (rule keeps_query[OF assms]) (auto simp: keeps_def ListSubnetsForFabricLeaseSync_def reading_def intro: listed)
  show ?thesis
    unfolding SyncServer_def recordSyncFailure_def
    by (auto split: sum.split prod.split intro!: tail keeps_qbind[OF rows] keeps_qbind[OF leases[OF assms]])
qed

lemma servers:
  assumes "others_keep E P"
  shows "P db \<Longrightarrow> P (snd (run_servers E K stopped clock rows out db))"
proof (induction rows arbitrary: out db)
  case (Cons row rows)
  obtain v db1 where s: "SyncServer E K (toServer row) (clock (servers_walked out)) db = (v, db1)" by fastforce
  then have "P db1" using keeps_dest[OF sync[OF assms] Cons.prems] by simp
  then show ?case using Cons by (cases v) (simp_all add: Let_def s)
qed simp

lemma sweep:
  assumes "others_keep E P"
  shows "keeps P (dhcp_sync E K stopped clock) (\<lambda>_. True)"
  unfolding dhcp_sync_def
proof (rule keeps_qbind[OF keeps_query[OF assms, where q = "\<lambda>_. True"]])
  show "keeps P ListEnabledDhcpServersForLeaseSync (\<lambda>_. True)"
    by (simp add: keeps_def ListEnabledDhcpServersForLeaseSync_def reading_def)
  show "keeps P (\<lambda>db. case run_servers E K stopped clock rows no_syncs db of (out, db') \<Rightarrow> (Inr out, db'))
      (\<lambda>_. True)" for rows
  proof (rule keepsI)
    fix db v db' assume "P db" "(case run_servers E K stopped clock rows no_syncs db of (out, db') \<Rightarrow> (Inr out, db')) = (v, db')"
    then show "P db' \<and> (\<forall>a. v = Inr a \<longrightarrow> True)"
      using servers[OF assms \<open>P db\<close>, of K stopped clock rows no_syncs] by (simp split: prod.splits)
  qed
qed

lemma age_out:
  assumes "others_keep E P"
  shows "keeps P (dhcp_age_out E g d t) (\<lambda>_. True)"
  unfolding dhcp_age_out_def Let_def
  by (rule keeps_qbind[OF keeps_query[OF assms deprecate]],
      rule keeps_qbind[OF keeps_query[OF assms delete]], rule keeps_value)

end


section \<open>The rows of operators\<close>

definition operator_rows :: "ip_address set \<Rightarrow> ip_address set" where
  "operator_rows R = {r \<in> R. ad_source r \<noteq> ''dhcp''}"

text \<open>The rows of operators among \<open>R\<close> are in the table, and its keys are unique.\<close>

definition spares :: "ip_address set \<Rightarrow> ipam_db \<Rightarrow> bool" where
  "spares R db \<longleftrightarrow> distinct (map ad_id (addresses db)) \<and> operator_rows R \<subseteq> set (addresses db)"

lemma spares_update:
  assumes "\<And>r. ad_id (g r) = ad_id r" "i \<notin> ad_id ` operator_rows R" "spares R db"
  shows "spares R (put_addresses (change_row ad_id i g (addresses db)) db)"
proof -
  have "r \<in> set (change_row ad_id i g (addresses db))" if r: "r \<in> operator_rows R" for r
  proof -
    have "r \<in> set (addresses db)" "ad_id r \<noteq> i" using r assms(2,3) by (auto simp: spares_def)
    then show ?thesis using change_row_mem[of r "addresses db" ad_id i g] by simp
  qed
  then show ?thesis using assms(1,3) by (auto simp: spares_def put_addresses_def)
qed

lemma distinct_same_row:
  "\<lbrakk>distinct (map ad_id rows); r \<in> set rows; r' \<in> set rows; ad_id r = ad_id r'\<rbrakk> \<Longrightarrow> r = r'"
  by (metis distinct_map inj_on_def)

interpretation operators: lease_frame E "spares R" "\<lambda>_. True" "\<lambda>i. i \<notin> ad_id ` operator_rows R" for E R
proof unfold_locales
  fix db r assume "spares R db" "r \<in> set (addresses db)" "ad_source r = ''dhcp''"
  then show "ad_id r \<notin> ad_id ` operator_rows R"
    by (auto simp: spares_def operator_rows_def dest: distinct_same_row)
next
  fix sub address mac dns expires
  show "keeps (spares R) (InsertDhcpLease E (fst sub) address dns mac expires) (\<lambda>_. True)"
    by (rule keepsI) (auto simp: InsertDhcpLease_def CreateIPAddress_def insert_row_def spares_def put_addresses_def
      split: option.splits if_splits)
next
  fix i mac dns expires assume i: "i \<notin> ad_id ` operator_rows R"
  have "keeps (spares R) (UpdateIPAddress i (leased mac dns expires)) (\<lambda>_. True)"
    unfolding UpdateIPAddress_def
    by (rule keeps_update, rule spares_update[OF _ i]) (simp_all add: leased_def)
  then show "keeps (spares R) (UpdateDhcpLease i mac dns expires) (\<lambda>_. True)"
    unfolding UpdateDhcpLease_def by (rule keeps_exec_only)
next
  fix i t status err n
  have "keeps (spares R) (update_row dhcp_servers put_dhcp_servers ds_id c i g) (\<lambda>_. True)" for c g
    by (rule keeps_update) (simp add: spares_def put_dhcp_servers_def)
  then show "keeps (spares R) (UpdateDhcpServerSyncState i t status err n) (\<lambda>_. True)"
    unfolding UpdateDhcpServerSyncState_def by (rule keeps_exec_only)
next
  fix cutoff
  have ids: "map ad_id (map (\<lambda>r. if h r then r\<lparr>ad_status := v\<rparr> else r) rows) = map ad_id rows" for h v rows
    by simp
  show "keeps (spares R) (DeprecateExpiredDhcpLeases cutoff) (\<lambda>_. True)"
    by (rule keepsI) (fastforce simp: DeprecateExpiredDhcpLeases_def Let_def spares_def put_addresses_def operator_rows_def
      ids simp del: map_map)
  show "keeps (spares R) (DeleteDeprecatedDhcpLeases cutoff) (\<lambda>_. True)"
    by (rule keepsI) (auto simp: DeleteDeprecatedDhcpLeases_def Let_def spares_def put_addresses_def operator_rows_def
      distinct_map_filter)
qed auto

text \<open>C22. Neither a sync of a server, nor a sweep over all servers, nor the age-out touches an address
  that an operator owns (its source is static or reservation): the row is still there,
  unchanged, whatever Kea answers and whichever statement fails, as long as other
  transactions leave it alone.\<close>

theorem ingest_spares_operators:
  assumes "others_keep E (spares (set (addresses db)))" "distinct (map ad_id (addresses db))"
    and "r \<in> set (addresses db)" "ad_source r \<noteq> ''dhcp''"
  shows "r \<in> set (addresses (snd (SyncServer E K s t db)))
    \<and> r \<in> set (addresses (snd (dhcp_sync E K stopped clock db)))
    \<and> r \<in> set (addresses (snd (dhcp_age_out E grace days t db)))"
proof -
  have P: "spares (set (addresses db)) db" using assms(2) by (auto simp: spares_def operator_rows_def)
  have kept: "r \<in> set (addresses (snd (m db)))" if "keeps (spares (set (addresses db))) m (\<lambda>_. True)" for m :: "'b squery"
    using keeps_dest[OF that P prod.collapse[symmetric]] assms(3,4) by (auto simp: spares_def operator_rows_def)
  show ?thesis
    using P assms(3,4) keeps_dest[OF operators.sync[OF assms(1)] P prod.collapse[symmetric], of K s t]
      keeps_dest[OF operators.sweep[OF assms(1)] P prod.collapse[symmetric], of K stopped clock]
      keeps_dest[OF operators.age_out[OF assms(1)] P prod.collapse[symmetric], of grace days t]
    by (auto simp: spares_def operator_rows_def)
qed

section \<open>The nesting of the plan\<close>

text \<open>The address plan is sound, and an id of a subnet stands for one prefix for ever.\<close>

definition planned :: "ipam_env \<Rightarrow> (uuid \<Rightarrow> prefix) \<Rightarrow> ipam_db \<Rightarrow> bool" where
  "planned E f db \<longleftrightarrow> pg_text E \<and> plan_sound db \<and> (\<forall>s\<in>set (subnets db). sb_prefix s = f (sb_id s))"

lemma plan_addresses:
  assumes "plan_sound db" "distinct (map ad_id rows)" "\<forall>r\<in>set rows. address_fits db r"
  shows "plan_sound (put_addresses rows db)"
  using assms by (auto simp: sound_simps put_addresses_def)

lemma planned_addresses:
  assumes "planned E f db" "distinct (map ad_id rows)" "\<forall>r\<in>set rows. address_fits db r"
  shows "planned E f (put_addresses rows db)"
  using assms plan_addresses[of db rows] by (simp add: planned_def put_addresses_def)

lemma fits_same: "\<lbrakk>ad_subnet r' = ad_subnet r; ad_address r' = ad_address r\<rbrakk> \<Longrightarrow> address_fits db r' = address_fits db r"
  by (simp add: address_fits_def)

lemma planned_rows: "planned E f db \<Longrightarrow> distinct (map ad_id (addresses db)) \<and> (\<forall>r\<in>set (addresses db). address_fits db r)"
  by (simp add: planned_def plan_sound_def keyed_def)

lemma planned_change:
  assumes "planned E f db" "\<And>r. ad_id (g r) = ad_id r" "\<And>r. ad_subnet (g r) = ad_subnet r"
    "\<And>r. ad_address (g r) = ad_address r"
  shows "planned E f (put_addresses (change_row ad_id i g (addresses db)) db)"
proof (rule planned_addresses[OF assms(1)])
  show "distinct (map ad_id (change_row ad_id i g (addresses db)))"
    using planned_rows[OF assms(1)] assms(2) by simp
  have "address_fits db (if ad_id r = i then g r else r)" if "r \<in> set (addresses db)" for r
    using planned_rows[OF assms(1)] that fits_same[of "g r" r db] assms(3,4) by simp
  then show "\<forall>r\<in>set (change_row ad_id i g (addresses db)). address_fits db r"
    by (auto simp: change_row_set)
qed

definition seen_as :: "(uuid \<Rightarrow> prefix) \<Rightarrow> lease_subnet \<Rightarrow> bool" where
  "seen_as f s \<longleftrightarrow> map_option Masked (ParsePrefix (snd s)) = Some (f (fst s))"

lemma Contains_Masked: "Contains (Masked p) a = Contains p a"
  by (simp add: Contains_def Masked_def PrefixFrom_def pfam_def pval_def host_bits_def)

lemma cidr_text_reads:
  assumes "pg_text E" "canonical q" shows "map_option Masked (ParsePrefix (cidr_show E q)) = Some q"
  using pg_text.show_reads[OF assms] unfolding parseCIDR_def by (cases "ParsePrefix (cidr_show E q)") simp_all

lemma covers_contains: "seen_as f s \<Longrightarrow> covers a s \<Longrightarrow> Contains (f (fst s)) a"
  by (auto simp: seen_as_def covers_def split: option.splits) (metis Contains_Masked)

lemma plan_servers: "plan_sound (put_dhcp_servers rs db)"
  if "plan_sound db" "distinct (map ds_id rs)"
  using that by (auto simp: sound_simps put_dhcp_servers_def)

interpretation plan: lease_frame E "planned E f" "seen_as f" "\<lambda>_. True" for E f
proof unfold_locales
  fix db s assume "planned E f db" "s \<in> set (subnets db)"
  then show "seen_as f (sb_id s, cidr_show E (sb_prefix s))"
    using cidr_text_reads[of E "sb_prefix s"] unfolding planned_def plan_sound_def seen_as_def fst_conv snd_conv by metis
next
  fix sub address a mac dns expires
  assume seen: "seen_as f sub" and a: "ParseAddr address = Some a" and cov: "covers a sub"
  have c: "Contains (f (fst sub)) a" by (rule covers_contains[OF seen cov])
  then have addr: "parseAddr address = Inr a" using a by (intro ParseAddr_not_prefix) (simp_all add: Contains_def)
  show "keeps (planned E f) (InsertDhcpLease E (fst sub) address dns mac expires) (\<lambda>_. True)"
  proof (rule keepsI)
    fix db v db' assume P: "planned E f db" and r: "InsertDhcpLease E (fst sub) address dns mac expires db = (v, db')"
    show "planned E f db' \<and> (\<forall>a. v = Inr a \<longrightarrow> True)"
    proof (cases "inet_read E address")
      case (Some b)
      have b: "a = fst b" using P Some addr pg_text.inet_agrees[of E address b a] by (simp add: planned_def)
      let ?row = "\<lparr>ad_id = gen_id E db, ad_subnet = fst sub, ad_asset = None, ad_address = b, ad_role = ''data'',
           ad_status = ''active'', ad_source = ''dhcp'', ad_dns_name = dns, ad_description = None,
           ad_lease_expires = expires, ad_mac = mac, ad_duid = None\<rparr>"
      have "CreateIPAddress ?row db = (v, db')" using r Some by (simp add: InsertDhcpLease_def)
      moreover have "plan_sound (snd (CreateIPAddress ?row db))"
        using P c b by (intro sound_CreateIPAddress) (auto simp: planned_def)
      moreover have "subnets (snd (CreateIPAddress ?row db)) = subnets db"
        by (simp add: CreateIPAddress_def insert_row_def put_addresses_def split: option.split)
      ultimately show ?thesis using P by (simp add: planned_def)
    qed (use P r in \<open>simp add: InsertDhcpLease_def\<close>)
  qed
next
  fix i mac dns expires
  have "keeps (planned E f) (UpdateIPAddress i (leased mac dns expires)) (\<lambda>_. True)"
    unfolding UpdateIPAddress_def by (rule keeps_update, rule planned_change) (simp_all add: leased_def)
  then show "keeps (planned E f) (UpdateDhcpLease i mac dns expires) (\<lambda>_. True)"
    unfolding UpdateDhcpLease_def by (rule keeps_exec_only)
next
  fix i t status err n
  have "keeps (planned E f) (update_row dhcp_servers put_dhcp_servers ds_id c i (server_synced t status err n)) (\<lambda>_. True)" for c
  proof (rule keeps_update)
    fix db r assume P: "planned E f db"
    have "distinct (map ds_id (change_row ds_id i (server_synced t status err n) (dhcp_servers db)))"
      using P by (simp add: server_synced_def planned_def plan_sound_def keyed_def)
    then show "planned E f (put_dhcp_servers (change_row ds_id i (server_synced t status err n) (dhcp_servers db)) db)"
      using P plan_servers[of db] by (simp add: planned_def) (simp add: put_dhcp_servers_def)
  qed
  then show "keeps (planned E f) (UpdateDhcpServerSyncState i t status err n) (\<lambda>_. True)"
    unfolding UpdateDhcpServerSyncState_def by (rule keeps_exec_only)
next
  fix cutoff
  show "keeps (planned E f) (DeprecateExpiredDhcpLeases cutoff) (\<lambda>_. True)"
  proof (rule keepsI)
    fix db v db' assume P: "planned E f db" and r: "DeprecateExpiredDhcpLeases cutoff db = (v, db')"
    let ?g = "\<lambda>r. if ad_source r = ''dhcp'' \<and> ad_status r = ''active'' \<and> expired_before cutoff r
        then r\<lparr>ad_status := ''deprecated''\<rparr> else r"
    have "map ad_id (map ?g (addresses db)) = map ad_id (addresses db)" by simp
    then have "distinct (map ad_id (map ?g (addresses db)))" using planned_rows[OF P] by (simp only:)
    moreover have "\<forall>r\<in>set (map ?g (addresses db)). address_fits db r"
      using planned_rows[OF P] by (auto simp: address_fits_def)
    moreover have "db' = put_addresses (map ?g (addresses db)) db"
      using r by (simp add: DeprecateExpiredDhcpLeases_def Let_def)
    ultimately show "planned E f db' \<and> (\<forall>a. v = Inr a \<longrightarrow> True)"
      by (simp only: planned_addresses[OF P] simp_thms)
  qed
  show "keeps (planned E f) (DeleteDeprecatedDhcpLeases cutoff) (\<lambda>_. True)"
  proof (rule keepsI)
    fix db v db' assume P: "planned E f db" and r: "DeleteDeprecatedDhcpLeases cutoff db = (v, db')"
    let ?kept = "filter (\<lambda>r. \<not> (ad_source r = ''dhcp'' \<and> ad_status r = ''deprecated'' \<and> expired_before cutoff r)) (addresses db)"
    have "distinct (map ad_id ?kept)" "\<forall>r\<in>set ?kept. address_fits db r"
      using planned_rows[OF P] by (simp_all add: distinct_map_filter)
    moreover have "db' = put_addresses ?kept db" using r by (simp add: DeleteDeprecatedDhcpLeases_def Let_def)
    ultimately show "planned E f db' \<and> (\<forall>a. v = Inr a \<longrightarrow> True)"
      by (simp only: planned_addresses[OF P] simp_thms)
  qed
qed auto

text \<open>C21. The ingest keeps the address plan sound: what a sync, a sweep or the age-out adds or changes
  leaves every address inside its subnet and every key unique, whatever Kea answers and
  whichever statement fails, provided that ids of subnets are not reused and other
  transactions keep the plan.\<close>

theorem ingest_keeps_plan:
  assumes "others_keep E (planned E f)" "planned E f db"
  shows "plan_sound (snd (SyncServer E K s t db)) \<and> plan_sound (snd (dhcp_sync E K stopped clock db))
    \<and> plan_sound (snd (dhcp_age_out E grace days t db))"
  using keeps_dest[OF plan.sync[OF assms(1)] assms(2) prod.collapse[symmetric], of K s t]
    keeps_dest[OF plan.sweep[OF assms(1)] assms(2) prod.collapse[symmetric], of K stopped clock]
    keeps_dest[OF plan.age_out[OF assms(1)] assms(2) prod.collapse[symmetric], of grace days t]
  by (simp add: planned_def)


section \<open>An example\<close>

definition example_server :: dhcp_server where
  "example_server =
     \<lparr>ds_id = 91, ds_name = ''kea-1'', ds_fabric = 1, ds_kea_url = ''http://kea-1:8000'', ds_username = None,
      ds_password = None, ds_enabled = True, last_sync_at = None, last_sync_status = None,
      last_sync_error = None, last_sync_lease_count = None\<rparr>"

definition leased_plan :: ipam_db where
  "leased_plan = example_plan\<lparr>dhcp_servers := [example_server]\<rparr>"

definition example_lease :: "string \<Rightarrow> string \<Rightarrow> string \<Rightarrow> json" where
  "example_lease a key hw =
     JObj [(''ip-address'', JStr a), (key, JStr hw), (''cltt'', JInt 1000), (''valid-lft'', JInt 3600), (''state'', JInt 0)]"

definition answered :: "json list \<Rightarrow> json" where
  "answered ls = JArr [JObj [(''result'', JInt 0), (''arguments'', JObj [(''leases'', JArr ls)])]]"

text \<open>A lease on the static address of the plan, one that is new, one outside the plan.\<close>

definition example_kea :: kea where
  "example_kea = \<lparr>ListLeases4 = (\<lambda>s. Inr (Some (answered
       [example_lease ''10.1.0.5'' ''hw-address'' ''aa:bb:cc:00:00:01'',
        example_lease ''10.1.0.77'' ''hw-address'' ''aa:bb:cc:00:00:02'',
        example_lease ''192.0.2.1'' ''hw-address'' ''aa:bb:cc:00:00:03'']))),
     ListLeases6 = (\<lambda>s. None)\<rparr>"

lemma example_ingest:
  "case SyncServer plain_env example_kea (toServer example_server) 5000 leased_plan of
     (Inr r, db) \<Rightarrow> Upserted r = 1 \<and> SkippedNoSubnet r = 1 \<and> LeasesSeen r = 3
        \<and> map (\<lambda>a. (addr_string (fst (ad_address a)), ad_source a)) (addresses db)
            = [(''10.1.0.5'', ''static''), (''10.2.0.5'', ''static''), (''10.1.0.77'', ''dhcp'')]
        \<and> map last_sync_status (dhcp_servers db) = [Some ''ok'']
   | _ \<Rightarrow> False"
  by code_simp

lemma plain_others: "others_keep plain_env P"
  by (simp add: others_keep_def plain_env_def)

theorem ingest_spares_operators_witness:
  "hd (addresses leased_plan) \<in> set (addresses (snd (SyncServer plain_env example_kea (toServer example_server) 5000 leased_plan)))"
proof -
  have "distinct (map ad_id (addresses leased_plan))" "ad_source (hd (addresses leased_plan)) \<noteq> ''dhcp''"
    "hd (addresses leased_plan) \<in> set (addresses leased_plan)" by code_simp+
  then show ?thesis using ingest_spares_operators[OF plain_others] by blast
qed

theorem ingest_keeps_plan_witness:
  "plan_sound (snd (SyncServer plain_env example_kea (toServer example_server) 5000 leased_plan))"
proof -
  let ?f = "\<lambda>i. the (map_of (map (\<lambda>s. (sb_id s, sb_prefix s)) (subnets leased_plan)) i)"
  have "list_all (\<lambda>s. sb_prefix s = the (map_of (map (\<lambda>s. (sb_id s, sb_prefix s)) (subnets leased_plan)) (sb_id s)))
      (subnets leased_plan)" by code_simp
  then have f: "\<forall>s\<in>set (subnets leased_plan). sb_prefix s = ?f (sb_id s)" by (simp only: list_all_iff)
  have "plan_sound leased_plan" by code_simp
  then have "planned plain_env ?f leased_plan" unfolding planned_def using plain.pg_text_axioms f by blast
  then show ?thesis using ingest_keeps_plan[OF plain_others] by blast
qed

section \<open>Where the ingest falls short\<close>

text \<open>One IPv6 lease whose client identifier is a usual 14-byte DUID aborts the sync of its server: the
  column for the hardware address takes 32 characters.  The query fails, the leases after it
  are not read, and neither the failure nor the time of the sync is recorded on the server.\<close>

theorem long_duid_aborts_sync:
  "let K = example_kea\<lparr>ListLeases6 := (\<lambda>s. Some (answered
         [example_lease ''fd00::7'' ''duid'' ''00:01:00:01:2a:2b:2c:2d:00:50:56:00:00:07'']))\<rparr>;
       db0 = leased_plan\<lparr>subnets := (hd (subnets leased_plan))\<lparr>sb_id := 39, sb_prefix := PrefixFrom (mk_addr V6 (253 * 2 ^ 120)) 64\<rparr>
               # subnets leased_plan\<rparr>
   in case SyncServer plain_env K (toServer example_server) 5000 db0 of
        (Inl e, db) \<Rightarrow> e = DbOther ''value too long'' \<and> length (addresses db) = 3
          \<and> map last_sync_at (dhcp_servers db) = [None] \<and> map last_sync_status (dhcp_servers db) = [None]
      | _ \<Rightarrow> False"
  by code_simp

text \<open>A lease that lapsed 25 hours ago is deprecated and deleted in one run of the age-out, not after
  a day as a deprecated row.\<close>

theorem age_out_skips_the_day:
  "let lease = (hd (addresses example_plan))\<lparr>ad_source := ''dhcp'', ad_lease_expires := Some 0\<rparr>
   in case dhcp_age_out plain_env 0 0 (25 * 3600 * second) (example_plan\<lparr>addresses := [lease]\<rparr>) of
        (Inr n, db) \<Rightarrow> n = (1, 1) \<and> ad_status lease = ''active'' \<and> addresses db = []
      | _ \<Rightarrow> False"
  by code_simp

end
