(* ===== verification/DhcpReconcileProps.thy ===== *)
theory DhcpReconcileProps
  imports DhcpReconcile DhcpLeaseProps
begin

text \<open>
  What the reconciliation of reservations promises: the read-only report says what the
  sync will do, the sync backs every reservation it can read and changes nothing but
  leases, which it promotes without overwriting a column; and where it falls short.
\<close>

section \<open>The index\<close>

definition row_key :: "reconcile_row \<Rightarrow> string option" where
  "row_key row = normalizeIP (stripPrefix (rr_address row))"

lemma index_step_at: "index_step m x k = (if row_key x = Some k then Some x else m k)"
  by (simp add: index_step_def row_key_def split: option.split)

lemma index_fold:
  "foldl index_step m rows k = Some row \<Longrightarrow> m k = Some row \<or> row \<in> set rows \<and> row_key row = Some k"
proof (induction rows arbitrary: m)
  case (Cons x rows)
  have "foldl index_step (index_step m x) rows k = Some row" using Cons.prems by simp
  then have "index_step m x k = Some row \<or> row \<in> set rows \<and> row_key row = Some k" by (rule Cons.IH)
  then show ?case by (auto simp: index_step_at split: if_splits)
qed simp

lemma index_mono: "m k \<noteq> None \<Longrightarrow> foldl index_step m rows k \<noteq> None"
proof (induction rows arbitrary: m)
  case (Cons x rows)
  then show ?case by (simp only: foldl.simps) (rule Cons.IH, simp add: index_step_at)
qed simp

lemma index_hit: "row \<in> set rows \<Longrightarrow> row_key row = Some k \<Longrightarrow> foldl index_step m rows k \<noteq> None"
proof (induction rows arbitrary: m)
  case (Cons x rows)
  show ?case
  proof (cases "row = x")
    case True
    then have "index_step m x k \<noteq> None" using Cons.prems(2) by (simp add: index_step_at)
    then show ?thesis using index_mono[of "index_step m x" k rows] by (simp only: foldl.simps not_False_eq_True)
  next
    case False
    then have "row \<in> set rows" using Cons.prems(1) by simp
    then show ?thesis using Cons.IH[OF _ Cons.prems(2)] by (simp only: foldl.simps not_False_eq_True)
  qed
qed simp

lemma index_Some: "indexIPRowsByAddress rows k = Some row \<Longrightarrow> row \<in> set rows \<and> row_key row = Some k"
  using index_fold[of "\<lambda>_. None"] by (simp add: indexIPRowsByAddress_def)

lemma index_None: "indexIPRowsByAddress rows k = None \<Longrightarrow> row \<in> set rows \<Longrightarrow> row_key row \<noteq> Some k"
  using index_hit[of row rows k "\<lambda>_. None"] by (auto simp: indexIPRowsByAddress_def)

section \<open>The report says what the sync does\<close>

text \<open>What an entry of the report announces for the reservation \<open>r\<close>.\<close>

definition announced :: "json_object \<Rightarrow> reconcile_entry \<Rightarrow> decision" where
  "announced r e =
     (case EntryStatus e of
        Clean \<Rightarrow> if IPSource e = Some ''dhcp'' then Promoted else SkippedClean
      | Collision \<Rightarrow> SkippedCollision
      | MacMismatch \<Rightarrow> SkippedMacMismatch
      | DuidMismatch \<Rightarrow> SkippedDuidMismatch
      | Unbacked \<Rightarrow> if normalizeIP (stringField r ''ip'') = None then SkippedUnparseable else UpsertedRow)"

text \<open>A reservation names its client by a hardware address or by a DUID, not by both.\<close>

definition one_binding :: "json_object \<Rightarrow> bool" where
  "one_binding r \<longleftrightarrow> \<not> has r ''duid'' \<or> normalizeMac (stringField r ''mac'') = []"

lemma no_duid: "\<not> has r ''duid'' \<Longrightarrow> normalizeDuid (stringField r ''duid'') = []"
  by (simp add: has_def stringField_def normalizeDuid_def keepHex_def to_lower_def)

lemma syncOne_announced:
  assumes "syncOne E i r idx db = (Inr entry, db')" "one_binding r"
  shows "fst (snd entry) = announced r (classifyOne r idx)"
proof (cases "normalizeIP (stringField r ''ip'')")
  case (Some ip)
  show ?thesis
  proof (cases "idx ip")
    case None
    then show ?thesis
      using assms(1) Some
      by (auto simp: syncOne_def announced_def classifyOne_def Let_def qbind_def reading_def split: prod.splits sum.splits)
  next
    case (Some row)
    have "checkBindingMismatch r row = Some WrongMac \<Longrightarrow> \<not> has r ''duid''"
      "checkBindingMismatch r row = Some WrongDuid \<Longrightarrow> has r ''duid''"
      using assms(2) no_duid[of r] by (auto simp: one_binding_def checkBindingMismatch_def Let_def split: if_splits)
    then show ?thesis
      using assms(1) Some \<open>normalizeIP (stringField r ''ip'') = Some ip\<close>
      by (cases "checkBindingMismatch r row"; cases "the (checkBindingMismatch r row)")
        (auto simp: syncOne_def announced_def classifyOne_def Let_def qbind_def reading_def split: prod.splits sum.splits if_splits)
  qed
qed (use assms(1) in \<open>auto simp: syncOne_def announced_def classifyOne_def Let_def reading_def\<close>)

lemma entries_bump: "SyncEntries ((bump d rep)\<lparr>SyncEntries := es\<rparr>) = es"
  by simp

lemma sync_all_announced:
  "\<lbrakk>sync_all E i idx rs report db = (Inr out, db'); list_all one_binding rs\<rbrakk> \<Longrightarrow>
   map (\<lambda>e. fst (snd e)) (SyncEntries out) = map (\<lambda>e. fst (snd e)) (SyncEntries report)
     @ map2 announced rs (map (\<lambda>r. classifyOne r idx) rs)"
proof (induction rs arbitrary: report db)
  case (Cons r rs)
  obtain v db1 where o: "syncOne E i r idx db = (v, db1)" by fastforce
  then obtain entry where v: "v = Inr entry" using Cons.prems(1) by (cases v) (auto simp: qbind_def)
  have "sync_all E i idx rs ((bump (fst (snd entry)) report)\<lparr>SyncEntries := SyncEntries report @ [entry]\<rparr>) db1 = (Inr out, db')"
    using Cons.prems(1) o v by (simp add: qbind_def)
  from Cons.IH[OF this] show ?case using syncOne_announced[of E i r idx db entry db1] o v Cons.prems(2) by simp
qed (auto simp: reading_def)

text \<open>The report on a scope announces what the sync of the same scope on the same rows does, entry by
  entry, when the sync completes: unbacked reservations are inserted, clean leases promoted,
  clean reservations kept, collisions and mismatches skipped.  It holds when no reservation
  carries both a hardware address and a DUID.\<close>

theorem sync_follows_report:
  assumes "Sync E scope (Some i) js rows db = (Inr out, db')" "list_all one_binding (decodeReservations js)"
  shows "map (\<lambda>e. fst (snd e)) (SyncEntries out)
    = map2 announced (decodeReservations js) (Entries (Reconcile scope (Some i) js rows))"
  using sync_all_announced[of E i "indexIPRowsByAddress rows" "decodeReservations js" "empty_sync scope (Some i)" db out db'] assms
  by (simp add: Sync_def Reconcile_def Let_def empty_sync_def)

section \<open>What the sync changes\<close>

text \<open>A row as it was, or a lease made a reservation: the columns that were set are kept, and only the
  source, the status and unset columns change.\<close>

definition only_promoted :: "ip_address \<Rightarrow> ip_address \<Rightarrow> bool" where
  "only_promoted r r' \<longleftrightarrow>
     r' = r
     \<or> ad_source r = ''dhcp'' \<and> ad_source r' = ''reservation'' \<and> ad_status r' = ''reserved''
       \<and> (ad_mac r = None \<or> ad_mac r' = ad_mac r) \<and> (ad_duid r = None \<or> ad_duid r' = ad_duid r)
       \<and> (ad_dns_name r = None \<or> ad_dns_name r' = ad_dns_name r)
       \<and> ad_id r' = ad_id r \<and> ad_subnet r' = ad_subnet r \<and> ad_asset r' = ad_asset r \<and> ad_address r' = ad_address r
       \<and> ad_role r' = ad_role r \<and> ad_description r' = ad_description r \<and> ad_lease_expires r' = ad_lease_expires r"

text \<open>The rows \<open>R\<close> are still there, as they were or, if leases, promoted.\<close>

definition grown :: "ip_address set \<Rightarrow> ipam_db \<Rightarrow> bool" where
  "grown R db \<longleftrightarrow> distinct (map ad_id (addresses db)) \<and> (\<forall>r\<in>R. \<exists>r'\<in>set (addresses db). only_promoted r r')"

lemma only_promoted_id: "only_promoted r r' \<Longrightarrow> ad_id r' = ad_id r"
  by (auto simp: only_promoted_def)

lemma promotes_again: "\<lbrakk>only_promoted r r'; ad_source r = ''dhcp''\<rbrakk> \<Longrightarrow> only_promoted r (promoted m d n r')"
  by (auto simp: only_promoted_def promoted_def coalesce_def)

lemma promoted_same [simp]:
  "ad_id (promoted m d n r) = ad_id r" "ad_subnet (promoted m d n r) = ad_subnet r"
  "ad_address (promoted m d n r) = ad_address r"
  by (simp_all add: promoted_def)

text \<open>The ids of the rows that are not leases.\<close>

definition fixed_ids :: "ip_address set \<Rightarrow> uuid set" where
  "fixed_ids R = ad_id ` operator_rows R"

lemma grown_promote:
  assumes "grown R db" "i \<notin> fixed_ids R"
  shows "grown R (put_addresses (change_row ad_id i (promoted m d n) (addresses db)) db)"
proof -
  have "\<exists>r'\<in>set (change_row ad_id i (promoted m d n) (addresses db)). only_promoted r r'" if r: "r \<in> R" for r
  proof -
    obtain r' where r': "r' \<in> set (addresses db)" "only_promoted r r'"
      using assms(1) r unfolding grown_def by blast
    have mem: "(if ad_id r' = i then promoted m d n r' else r') \<in> set (change_row ad_id i (promoted m d n) (addresses db))"
      using change_row_mem[OF r'(1)] .
    show ?thesis
    proof (cases "ad_id r' = i")
      case True
      then have "ad_source r = ''dhcp''"
        using assms(2) r only_promoted_id[OF r'(2)] by (force simp: fixed_ids_def operator_rows_def)
      then show ?thesis using mem True promotes_again[OF r'(2)] by auto
    qed (use mem r'(2) in auto)
  qed
  then show ?thesis using assms(1) by (simp add: grown_def put_addresses_def)
qed

lemma grown_insert:
  "grown R db \<Longrightarrow> ad_id r \<notin> ad_id ` set (addresses db) \<Longrightarrow> grown R (put_addresses (addresses db @ [r]) db)"
  unfolding grown_def by (auto simp: put_addresses_def)

text \<open>A property that the two statements of the sync keep; \<open>mine\<close> are the ids it may promote.\<close>

locale promotion_frame =
  fixes E :: ipam_env and P :: "ipam_db \<Rightarrow> bool" and mine :: "uuid \<Rightarrow> bool"
  assumes insert: "keeps P (InsertReservationIPAddress E i ip m d n) (\<lambda>_. True)"
    and promote: "mine j \<Longrightarrow> keeps P (PromoteDhcpLeaseToReservation j m d n) (\<lambda>_. True)"
begin

lemma one:
  assumes "others_keep E P"
    and "\<And>row ip. idx ip = Some row \<Longrightarrow> rr_source row = ''dhcp'' \<Longrightarrow> mine (rr_id row)"
  shows "keeps P (syncOne E i r idx) (\<lambda>_. True)"
proof -
  have ins: "keeps P (qbind (iexec E Q (InsertReservationIPAddress E i ip m d n))
      (\<lambda>j. reading (\<lambda>_. Inr (f j)))) (\<lambda>_. True)" for Q ip m d n and f :: "uuid \<Rightarrow> sync_entry"
    by (rule keeps_qbind[OF keeps_query[OF assms(1) insert] keeps_value])
  have upd: "keeps P (qbind (iexec E Q (PromoteDhcpLeaseToReservation j m d n))
      (\<lambda>_. reading (\<lambda>_. Inr e))) (\<lambda>_. True)" if "mine j" for Q j m d n and e :: sync_entry
    by (rule keeps_qbind[OF keeps_query[OF assms(1) promote[OF that]] keeps_value])
  show ?thesis
    unfolding syncOne_def Let_def
    by (auto split: option.split mismatch.split intro!: keeps_value ins upd dest: assms(2))
qed

lemma all:
  assumes "others_keep E P"
    and "\<And>row ip. idx ip = Some row \<Longrightarrow> rr_source row = ''dhcp'' \<Longrightarrow> mine (rr_id row)"
  shows "keeps P (sync_all E i idx rs report) (\<lambda>_. True)"
proof (induction rs arbitrary: report)
  case (Cons r rs)
  show ?case unfolding sync_all.simps
    by (rule keeps_qbind[OF one[OF assms(1)]]) (use assms(2) Cons in auto)
qed (simp add: keeps_value)

end

interpretation growth: promotion_frame E "grown R" "\<lambda>j. j \<notin> fixed_ids R" for E R
proof unfold_locales
  fix i ip m d n
  show "keeps (grown R) (InsertReservationIPAddress E i ip m d n) (\<lambda>_. True)"
    by (rule keepsI) (auto simp: InsertReservationIPAddress_def CreateIPAddress_def insert_row_def
      intro: grown_insert split: option.splits if_splits)
next
  fix j m d n assume j: "j \<notin> fixed_ids R"
  have "keeps (grown R) (UpdateIPAddress j (promoted m d n)) (\<lambda>_. True)"
    unfolding UpdateIPAddress_def by (rule keeps_update) (rule grown_promote[OF _ j])
  then show "keeps (grown R) (PromoteDhcpLeaseToReservation j m d n) (\<lambda>_. True)"
    unfolding PromoteDhcpLeaseToReservation_def by (rule keeps_exec_only)
qed

section \<open>The handler\<close>

lemma keeps_wrapped:
  "keeps P f q \<Longrightarrow> keeps P (\<lambda>db. case f db of (Inl e, db') \<Rightarrow> hanswer (onerr e) db' | (Inr r, db') \<Rightarrow> hreturn r db') q"
  by (rule keepsI) (auto simp: hanswer_def hreturn_def dest: keeps_dest split: prod.splits sum.splits)

lemma keeps_enforce_scope: "steady E P \<Longrightarrow> keeps P (enforceDhcpScopeFabric E p i cap) (\<lambda>_. True)"
  unfolding enforceDhcpScopeFabric_def lookupFabricID_def enforceFabric_def GetDhcpScopeFabricID_def
  by (rule keeps_bind[OF tail_ask[OF _ keeps_any_reading]]) (auto intro: keeps_weaken[OF keeps_forbid])

lemma grown_fixed: "\<lbrakk>grown R db; a \<in> set (addresses db); ad_source a = ''dhcp''\<rbrakk> \<Longrightarrow> ad_id a \<notin> fixed_ids R"
  unfolding grown_def fixed_ids_def operator_rows_def only_promoted_def by (auto dest: distinct_same_row)

definition fresh_rows :: "ip_address set \<Rightarrow> reconcile_row list \<Rightarrow> bool" where
  "fresh_rows R rows \<longleftrightarrow> (\<forall>row\<in>set rows. rr_source row = ''dhcp'' \<longrightarrow> rr_id row \<notin> fixed_ids R)"

lemma grown_scope_rows:
  assumes "steady E (grown R)" shows "keeps (grown R) (scope_rows E sub) (fresh_rows R)"
proof (cases sub)
  case (Some i)
  have "keeps (grown R) (ListIPAddressesInSubnetForReconcile E i) (fresh_rows R)"
    unfolding ListIPAddressesInSubnetForReconcile_def
    by (rule keeps_reading) (fastforce simp: fresh_rows_def reconcile_view_def dest: grown_fixed)
  then show ?thesis using Some tail_ask[OF assms] by (simp add: scope_rows_def)
qed (simp add: scope_rows_def keeps_def hreturn_def fresh_rows_def)

lemma steady_others: "steady E P \<Longrightarrow> others_keep E P"
  by (simp add: steady_def others_keep_def)

lemma grown_handler:
  assumes "steady E (grown R)" shows "keeps (grown R) (reconcileSyncDhcpScope E p url) (\<lambda>_. True)"
proof -
  have sync: "keeps (grown R) (Sync E sid sub js rows) (\<lambda>_. True)" if "fresh_rows R rows" for sid sub js rows
  proof (cases sub)
    case (Some i)
    have "rr_id row \<notin> fixed_ids R" if "indexIPRowsByAddress rows ip = Some row" "rr_source row = ''dhcp''" for row ip
      using index_Some[OF that(1)] that(2) \<open>fresh_rows R rows\<close> by (simp add: fresh_rows_def)
    then show ?thesis using Some growth.all[OF steady_others[OF assms]] by (simp add: Sync_def Let_def)
  qed (simp add: Sync_def Let_def keeps_value)
  show ?thesis
    unfolding reconcileSyncDhcpScope_def GetDhcpScope_def get_row_def
    by (rule keeps_bind[OF keeps_idFromURL], rule keeps_bind[OF keeps_enforce_scope[OF assms]],
        rule keeps_bind[OF tail_ask[OF assms keeps_any_reading]], rule keeps_bind[OF grown_scope_rows[OF assms]],
        rule keeps_bind[OF keeps_wrapped[OF sync]], assumption, rule tail_audit[OF assms])
qed

text \<open>C25. Materializing the reservations of a scope removes no address and changes only leases: every
  row is still there, and either unchanged or, if its source was dhcp, a reserved reservation in
  which a hardware address, DUID or name that was set is the same, and so is every other column.
  It holds whatever the scope says and whichever statement of the sync fails, as long as the other
  transactions that run meanwhile do the rows nothing worse.\<close>

theorem reconcile_sync_only_promotes:
  assumes "steady E (grown (set (addresses db)))" "distinct (map ad_id (addresses db))" "r \<in> set (addresses db)"
  shows "\<exists>r'\<in>set (addresses (snd (run (reconcileSyncDhcpScope E p url) db))).
    r' = r
    \<or> ad_source r = ''dhcp'' \<and> ad_source r' = ''reservation'' \<and> ad_status r' = ''reserved''
      \<and> (ad_mac r = None \<or> ad_mac r' = ad_mac r) \<and> (ad_duid r = None \<or> ad_duid r' = ad_duid r)
      \<and> (ad_dns_name r = None \<or> ad_dns_name r' = ad_dns_name r)
      \<and> ad_id r' = ad_id r \<and> ad_subnet r' = ad_subnet r \<and> ad_asset r' = ad_asset r \<and> ad_address r' = ad_address r
      \<and> ad_role r' = ad_role r \<and> ad_description r' = ad_description r \<and> ad_lease_expires r' = ad_lease_expires r"
proof -
  have "grown (set (addresses db)) db" using assms(2) by (auto simp: grown_def only_promoted_def)
  then have "grown (set (addresses db)) (snd (run (reconcileSyncDhcpScope E p url) db))"
    by (rule keeps_run[OF grown_handler[OF assms(1)]])
  then show ?thesis using assms(3) unfolding grown_def only_promoted_def by blast
qed

section \<open>Every reservation is backed\<close>

text \<open>An address of the subnet that reads as \<open>k\<close>.\<close>

definition backed :: "ipam_env \<Rightarrow> uuid \<Rightarrow> string \<Rightarrow> ipam_db \<Rightarrow> bool" where
  "backed E i k db \<longleftrightarrow>
     (\<exists>a\<in>set (addresses db). ad_subnet a = i \<and> normalizeIP (stripPrefix (inet_show E (ad_address a))) = Some k)"

definition subnet_rows :: "ipam_env \<Rightarrow> uuid \<Rightarrow> ipam_db \<Rightarrow> reconcile_row list" where
  "subnet_rows E i db = map (reconcile_view E) (filter (\<lambda>a. ad_subnet a = i) (addresses db))"

lemma backed_index: "backed E i k db \<longleftrightarrow> indexIPRowsByAddress (subnet_rows E i db) k \<noteq> None"
proof
  assume "backed E i k db"
  then obtain a where "a \<in> set (addresses db)" "ad_subnet a = i"
      "normalizeIP (stripPrefix (inet_show E (ad_address a))) = Some k" by (auto simp: backed_def)
  then have "reconcile_view E a \<in> set (subnet_rows E i db)" "row_key (reconcile_view E a) = Some k"
    by (auto simp: subnet_rows_def row_key_def reconcile_view_def)
  then show "indexIPRowsByAddress (subnet_rows E i db) k \<noteq> None" using index_None by blast
next
  assume "indexIPRowsByAddress (subnet_rows E i db) k \<noteq> None"
  then obtain row where "row \<in> set (subnet_rows E i db)" "row_key row = Some k" using index_Some by blast
  then show "backed E i k db" by (auto simp: backed_def subnet_rows_def row_key_def reconcile_view_def)
qed

text \<open>What Postgres stores for the text of an address shows as that address, and zones are refused.\<close>

locale pg_inet = pg_text E for E :: ipam_env +
  assumes no_zone: "inet_read E s = Some b \<Longrightarrow> CHR ''%'' \<notin> set s"
    and shows_host: "inet_read E s = Some b \<Longrightarrow> normalizeIP (stripPrefix (inet_show E b)) = Some (addr_string (fst b))"
begin

lemma stored_reads:
  assumes "normalizeIP s = Some ip" "inet_read E ip = Some b"
  shows "normalizeIP (stripPrefix (inet_show E b)) = Some ip"
proof -
  obtain a where a: "ParseAddr (trim_space s) = Some a" "ip = addr_string a"
    using assms(1) by (auto simp: normalizeIP_def)
  have z: "zone a = []"
    using a(1)
  proof (rule ParseAddr_cases)
    assume "parse_v6 (trim_space s) = Some a"
    then have v6: "fam a = V6" by (rule parse_v6_Some)
    show ?thesis
    proof (rule ccontr)
      assume "zone a \<noteq> []"
      then have "CHR ''%'' \<in> set (addr_string a)" using v6 by (simp add: addr_string_def)
      then show False using no_zone[OF assms(2)] a(2) by simp
    qed
  qed (simp add: mk_addr_def)
  have "ParseAddr ip = Some a" using ParseAddr_addr_string ParseAddr_valid z a by blast
  then have "a = fst b" using inet_agrees[OF assms(2)] ParseAddr_not_prefix z by blast
  then show ?thesis using shows_host[OF assms(2)] a(2) by simp
qed

end

lemma percent_not_addr: "\<lbrakk>ParseAddr s = Some a; zone a = []\<rbrakk> \<Longrightarrow> CHR ''%'' \<notin> set s"
  using ParseAddr_chars[of s a "CHR ''%''"] by (auto simp: addr_char_def is_hex_def is_digit_def)

lemma ParsePrefix_parts:
  assumes "ParsePrefix s = Some p"
  obtains t b ip n where "s = t @ CHR ''/'' # b" "ParseAddr t = Some ip" "zone ip = []" "p = PrefixFrom ip n"
    "list_all is_digit b"
proof -
  have slash: "CHR ''/'' \<in> set s" using assms by (auto simp: ParsePrefix_def split: if_splits)
  then have "dropWhile (\<lambda>c. c \<noteq> CHR ''/'') (rev s) \<noteq> []" by (simp add: dropWhile_eq_Nil_conv)
  then obtain c rest where d: "dropWhile (\<lambda>c. c \<noteq> CHR ''/'') (rev s) = c # rest" by (cases "dropWhile (\<lambda>c. c \<noteq> CHR ''/'') (rev s)") auto
  then have c: "c = CHR ''/''" using hd_dropWhile[of "\<lambda>c. c \<noteq> CHR ''/''" "rev s"] by (simp add: slash dropWhile_eq_Nil_conv)
  obtain w where w: "w = takeWhile (\<lambda>c. c \<noteq> CHR ''/'') (rev s)" by blast
  have rs: "rev s = w @ c # rest" unfolding w using takeWhile_dropWhile_id[of "\<lambda>c. c \<noteq> CHR ''/''" "rev s"] d by simp
  have "rev (w @ c # rest) = rev rest @ CHR ''/'' # rev w" by (simp add: c)
  then have s: "s = rev rest @ CHR ''/'' # rev w" using rs by (metis rev_rev_ident)
  have t: "take (length s - Suc (length (rev w))) s = rev rest" by (subst (1 2) s) simp
  have "(case (ParseAddr (rev rest), parse_bits (rev w)) of
        (Some ip, Some n) \<Rightarrow> if zone ip \<noteq> [] \<or> BitLen ip < n then None else Some (PrefixFrom ip n)
      | _ \<Rightarrow> None) = Some p"
    using assms slash unfolding ParsePrefix_def Let_def w[symmetric] t by simp
  then obtain ip n where "ParseAddr (rev rest) = Some ip" "parse_bits (rev w) = Some n" "zone ip = []" "p = PrefixFrom ip n"
    by (auto split: if_splits option.splits)
  moreover have "list_all is_digit (rev w)"
    using \<open>parse_bits (rev w) = Some n\<close> by (auto simp: parse_bits_def split: if_splits)
  ultimately show thesis using that s by blast
qed

lemma plain_inet:
  assumes "inet_read plain_env s = Some b"
  shows "CHR ''%'' \<notin> set s \<and> valid_addr (fst b) \<and> zone (fst b) = []"
proof (cases "ParsePrefix s")
  case (Some p)
  then obtain t bs ip n where p: "s = t @ CHR ''/'' # bs" "ParseAddr t = Some ip" "zone ip = []" "p = PrefixFrom ip n"
      "list_all is_digit bs" by (rule ParsePrefix_parts)
  have "fst b = ip" using assms Some p(3,4) by (auto simp: plain_env_def PrefixFrom_def)
  moreover have "CHR ''%'' \<notin> set bs" using p(5) by (auto simp: list_all_iff is_digit_def)
  ultimately show ?thesis using p percent_not_addr[OF p(2,3)] ParseAddr_valid[OF p(2)] by simp
next
  case None
  then obtain a where "ParseAddr s = Some a" "zone a = []" "fst b = a"
    using assms by (auto simp: plain_env_def split: option.splits if_splits)
  then show ?thesis using percent_not_addr[of s a] ParseAddr_valid[of s a] by simp
qed

lemma host_text:
  assumes "valid_addr a" "zone a = []"
  shows "normalizeIP (stripPrefix (addr_string a @ CHR ''/'' # r)) = Some (addr_string a)"
proof -
  have p: "ParseAddr (addr_string a) = Some a" by (rule ParseAddr_addr_string[OF assms])
  have "stripPrefix (addr_string a @ CHR ''/'' # r) = addr_string a"
    using ParseAddr_no_slash[OF p assms(2)] unfolding stripPrefix_def by (subst takeWhile_append2) auto
  then show ?thesis using p ParseAddr_no_space[OF p assms(2)] by (simp add: normalizeIP_def)
qed

interpretation plain_inet: pg_inet plain_env
proof unfold_locales
  fix s b assume r: "inet_read plain_env s = Some b"
  then show "CHR ''%'' \<notin> set s" using plain_inet by blast
  show "normalizeIP (stripPrefix (inet_show plain_env b)) = Some (addr_string (fst b))"
    using host_text plain_inet[OF r] by (simp add: plain_env_def)
qed

interpretation backing: promotion_frame E "backed E i k" "\<lambda>_. True" for E i k
proof unfold_locales
  fix j ip m d n
  show "keeps (backed E i k) (InsertReservationIPAddress E j ip m d n) (\<lambda>_. True)"
    by (rule keepsI) (auto simp: InsertReservationIPAddress_def CreateIPAddress_def insert_row_def put_addresses_def
      backed_def split: option.splits if_splits)
next
  fix j m d n
  have "backed E i k (put_addresses (change_row ad_id j (promoted m d n) (addresses db)) db)" if b: "backed E i k db" for db
  proof -
    obtain a where a: "a \<in> set (addresses db)" "ad_subnet a = i"
        "normalizeIP (stripPrefix (inet_show E (ad_address a))) = Some k" using b by (auto simp: backed_def)
    show ?thesis
      unfolding backed_def put_addresses_def
      by (rule bexI[of _ "if ad_id a = j then promoted m d n a else a"])
        (use a change_row_mem[OF a(1), of ad_id j "promoted m d n"] in simp_all)
  qed
  then have "keeps (backed E i k) (UpdateIPAddress j (promoted m d n)) (\<lambda>_. True)"
    unfolding UpdateIPAddress_def by (rule keeps_update)
  then show "keeps (backed E i k) (PromoteDhcpLeaseToReservation j m d n) (\<lambda>_. True)"
    unfolding PromoteDhcpLeaseToReservation_def by (rule keeps_exec_only)
qed

lemma inserted_backed:
  assumes "pg_inet E" "normalizeIP s = Some ip" "InsertReservationIPAddress E i ip m d n db = (Inr j, db')"
  shows "backed E i ip db'"
proof -
  obtain b row rest where "inet_read E ip = Some b" "addresses db' = rest @ [row]" "ad_subnet row = i" "ad_address row = b"
    using assms(3) by (auto simp: InsertReservationIPAddress_def CreateIPAddress_def insert_row_def put_addresses_def
      reserved_row_def split: option.splits if_splits prod.splits sum.splits)
  then show ?thesis using pg_inet.stored_reads[OF assms(1,2)] by (auto simp: backed_def)
qed

lemma backed_syncOne:
  assumes "pg_inet E" "\<And>k. others_keep E (backed E i k)" "\<And>ip. idx ip \<noteq> None \<Longrightarrow> backed E i ip db"
    and "syncOne E i r idx db = (Inr e, db')" "normalizeIP (stringField r ''ip'') = Some ip"
  shows "backed E i ip db'"
proof (cases "idx ip")
  case None
  let ?ins = "InsertReservationIPAddress E i ip (nilIfEmpty (normalizeMac (stringField r ''mac'')))
    (nilIfEmpty (normalizeDuid (stringField r ''duid''))) (nilIfEmpty (trim_space (stringField r ''hostname'')))"
  have "syncOne E i r idx = qbind (iexec E ''InsertReservationIPAddress'' ?ins) (\<lambda>j. reading (\<lambda>_. Inr (ip, UpsertedRow, Some j)))"
    using assms(5) None by (simp add: syncOne_def Let_def)
  then obtain j where "iexec E ''InsertReservationIPAddress'' ?ins db = (Inr j, db')"
    using assms(4) by (auto simp: qbind_def reading_def split: prod.splits sum.splits)
  then have "?ins (others E ''InsertReservationIPAddress'' db) = (Inr j, db')"
    by (auto simp: iexec_def Let_def split: option.splits)
  then show ?thesis by (rule inserted_backed[OF assms(1,5)])
next
  case (Some row)
  then have "backed E i ip db" using assms(3)[of ip] by simp
  then show ?thesis using keeps_dest[OF backing.one[OF assms(2)] _ assms(4)] by blast
qed

lemma backed_sync_all:
  assumes "pg_inet E" "\<And>k. others_keep E (backed E i k)"
  shows "\<lbrakk>\<And>ip. idx ip \<noteq> None \<Longrightarrow> backed E i ip db; sync_all E i idx rs report db = (Inr out, db')\<rbrakk> \<Longrightarrow>
    list_all (\<lambda>r. \<forall>ip. normalizeIP (stringField r ''ip'') = Some ip \<longrightarrow> backed E i ip db') rs"
proof (induction rs arbitrary: report db)
  case (Cons r rs)
  obtain v db1 where o: "syncOne E i r idx db = (v, db1)" by fastforce
  then obtain e where v: "v = Inr e" using Cons.prems(2) by (cases v) (auto simp: qbind_def)
  have rest: "sync_all E i idx rs ((bump (fst (snd e)) report)\<lparr>SyncEntries := SyncEntries report @ [e]\<rparr>) db1 = (Inr out, db')"
    using Cons.prems(2) o v by (simp add: qbind_def)
  have kept: "backed E i ip db1" if "backed E i ip db" for ip
    using keeps_dest[OF backing.one[OF assms(2)] that o] by blast
  have later: "backed E i ip db'" if "backed E i ip db1" for ip
    using keeps_dest[OF backing.all[OF assms(2)] that rest] by blast
  have "\<forall>ip. normalizeIP (stringField r ''ip'') = Some ip \<longrightarrow> backed E i ip db'"
    using backed_syncOne[OF assms Cons.prems(1)] o v later by blast
  then show ?case using Cons.IH[OF _ rest] kept Cons.prems(1) by simp
qed simp

lemma classify_unbacked:
  "EntryStatus (classifyOne r idx) = Unbacked \<longleftrightarrow>
     (case normalizeIP (stringField r ''ip'') of None \<Rightarrow> True | Some ip \<Rightarrow> idx ip = None)"
  "normalizeIP (stringField r ''ip'') = None \<Longrightarrow> classifyOne r idx = classifyOne r (\<lambda>_. None)"
  by (simp_all add: classifyOne_def Let_def split: option.split)

lemma unbacked_entries:
  "list_all (\<lambda>r. \<forall>ip. normalizeIP (stringField r ''ip'') = Some ip \<longrightarrow> idx ip \<noteq> None) rs \<Longrightarrow>
   filter (\<lambda>e. EntryStatus e = Unbacked) (map (\<lambda>r. classifyOne r idx) rs)
     = map (\<lambda>r. classifyOne r (\<lambda>_. None)) (filter (\<lambda>r. normalizeIP (stringField r ''ip'') = None) rs)"
  by (induction rs) (auto simp: classify_unbacked(1) classify_unbacked(2)[of _ idx] split: option.split)

text \<open>C24. After a sync of a scope that is linked to a subnet and that completed, the report on the same
  reservations and the rows of the subnet calls none of them unbacked but those whose address does not
  parse, also when other transactions run between the statements, as long as they remove no address
  of the subnet.\<close>

theorem synced_reservations_are_backed:
  assumes "pg_inet E" "\<And>k. others_keep E (backed E i k)"
    and "Sync E scope (Some i) js (subnet_rows E i db) db = (Inr out, db')"
  shows "filter (\<lambda>e. EntryStatus e = Unbacked) (Entries (Reconcile scope (Some i) js (subnet_rows E i db')))
    = map (\<lambda>r. classifyOne r (\<lambda>_. None)) (filter (\<lambda>r. normalizeIP (stringField r ''ip'') = None) (decodeReservations js))"
proof -
  have "list_all (\<lambda>r. \<forall>ip. normalizeIP (stringField r ''ip'') = Some ip \<longrightarrow> backed E i ip db') (decodeReservations js)"
    using backed_sync_all[OF assms(1,2) _ assms(3)[unfolded Sync_def Let_def option.case]] backed_index by blast
  then show ?thesis
    using unbacked_entries[of "indexIPRowsByAddress (subnet_rows E i db')" "decodeReservations js"]
    by (simp add: Reconcile_def Let_def backed_index)
qed

section \<open>An example\<close>

definition reservation :: "string \<Rightarrow> string \<Rightarrow> json" where
  "reservation ip mac = JObj [(''ip'', JStr ip), (''mac'', JStr mac)]"

definition example_scope :: "json list \<Rightarrow> dhcp_scope" where
  "example_scope rs = \<lparr>sc_id = 95, sc_server = 91, sc_subnet = Some 31, sc_reservations = JArr rs, sc_deleted = None\<rparr>"

definition leased_row :: ip_address where
  "leased_row = (example_address 43 31 167837770)\<lparr>ad_source := ''dhcp'', ad_mac := Some ''aa:bb:cc:00:00:02''\<rparr>"

definition scoped_plan :: "json list \<Rightarrow> ipam_db" where
  "scoped_plan rs = leased_plan\<lparr>addresses := addresses leased_plan @ [leased_row], dhcp_scopes := [example_scope rs]\<rparr>"

text \<open>Reservations of an address that is static, leased, free, and of no address.\<close>

definition example_reservations :: "json list" where
  "example_reservations =
     [reservation ''10.1.0.5'' [], reservation '' 10.1.0.74 '' ''AA-BB-CC-00-00-02'', reservation ''10.1.0.80'' [],
      reservation ''10.1.0.'' []]"

definition example_sync :: "(dberr + sync_report) \<times> ipam_db" where
  "example_sync = Sync plain_env 95 (Some 31) (JArr example_reservations)
     (subnet_rows plain_env 31 (scoped_plan example_reservations)) (scoped_plan example_reservations)"

lemma example_decisions:
  "case example_sync of
     (Inr out, db) \<Rightarrow> map (\<lambda>e. fst (snd e)) (SyncEntries out)
         = [SkippedCollision, Promoted, UpsertedRow, SkippedUnparseable]
       \<and> map (\<lambda>a. (ad_source a, ad_mac a)) (addresses db)
         = [(''static'', None), (''static'', None), (''reservation'', Some ''aa:bb:cc:00:00:02''),
            (''reservation'', None)]
   | _ \<Rightarrow> False"
  by code_simp

lemma example_sync_ok: "\<exists>out db. example_sync = (Inr out, db)"
proof -
  obtain v db where s: "example_sync = (v, db)" by fastforce
  then show ?thesis using example_decisions by (cases v) (simp_all add: s)
qed

theorem sync_follows_report_witness:
  "map2 announced (decodeReservations (JArr example_reservations))
     (Entries (Reconcile 95 (Some 31) (JArr example_reservations) (subnet_rows plain_env 31 (scoped_plan example_reservations))))
   = [SkippedCollision, Promoted, UpsertedRow, SkippedUnparseable]"
proof -
  obtain out db where out: "example_sync = (Inr out, db)" using example_sync_ok by blast
  have one: "list_all one_binding (decodeReservations (JArr example_reservations))" by code_simp
  have "map (\<lambda>e. fst (snd e)) (SyncEntries out) = [SkippedCollision, Promoted, UpsertedRow, SkippedUnparseable]"
    using example_decisions unfolding out by simp
  then show ?thesis using sync_follows_report[OF out[unfolded example_sync_def] one] by simp
qed

theorem synced_reservations_are_backed_witness:
  "map EntryStatus (filter (\<lambda>e. EntryStatus e = Unbacked)
     (Entries (Reconcile 95 (Some 31) (JArr example_reservations) (subnet_rows plain_env 31 (snd example_sync))))) = [Unbacked]"
proof -
  obtain out db where out: "example_sync = (Inr out, db)" using example_sync_ok by blast
  have "map EntryStatus (map (\<lambda>r. classifyOne r (\<lambda>_. None))
      (filter (\<lambda>r. normalizeIP (stringField r ''ip'') = None) (decodeReservations (JArr example_reservations)))) = [Unbacked]"
    by code_simp
  then show ?thesis
    using synced_reservations_are_backed[OF plain_inet.pg_inet_axioms plain_others out[unfolded example_sync_def]]
    by (simp add: out)
qed

theorem reconcile_sync_only_promotes_witness:
  "\<exists>r'\<in>set (addresses (snd (run (reconcileSyncDhcpScope plain_env (fabric_user 1) ''95'') (scoped_plan example_reservations)))).
     ad_address r' = ad_address leased_row \<and> ad_mac r' = Some ''aa:bb:cc:00:00:02''"
proof -
  have st: "steady plain_env (grown R)" for R by (simp add: steady_def plain_env_def grown_def)
  have d: "distinct (map ad_id (addresses (scoped_plan example_reservations)))" by code_simp
  have l: "leased_row \<in> set (addresses (scoped_plan example_reservations))" by (simp add: scoped_plan_def)
  have "ad_mac leased_row = Some ''aa:bb:cc:00:00:02''" by (simp add: leased_row_def)
  then show ?thesis using reconcile_sync_only_promotes[OF st d l, of "fabric_user 1" "''95''"] by (fastforce intro: rev_bexI)
qed

section \<open>Where the reconciliation falls short\<close>

text \<open>A reservation outside the linked subnet is inserted into it, which the address endpoints refuse.\<close>

theorem reservation_outside_subnet:
  "let plan = scoped_plan [reservation ''192.0.2.7'' ''aabbcc000003'']; r = run (reconcileSyncDhcpScope plain_env (fabric_user 1) ''95'') plan
   in plan_sound plan \<and> status_of (fst r) = 200 \<and> \<not> plan_sound (snd r)"
  by code_simp

text \<open>Two spellings of one free address: the second insert violates the unique constraint, the answer is
  409, and the first row stays although no audit event was written.\<close>

theorem duplicate_reservations_fail_halfway:
  "let plan = scoped_plan [reservation ''10.1.0.80'' ''aabbcc000003'', reservation '' 10.1.0.80'' ''aabbcc000003''];
       r = run (reconcileSyncDhcpScope plain_env (fabric_user 1) ''95'') plan
   in status_of (fst r) = 409 \<and> length (addresses (snd r)) = length (addresses plan) + 1 \<and> ipam_log (snd r) = []"
  by code_simp

text \<open>A reservation with a wrong hardware address and the right DUID: the report calls it a DUID mismatch,
  the sync a hardware address mismatch.\<close>

theorem report_blames_the_duid:
  "let r = [(''ip'', JStr ''10.1.0.74''), (''mac'', JStr ''aa:bb:cc:00:00:09''), (''duid'', JStr ''00:01'')];
       rows = subnet_rows plain_env 31 (scoped_plan [])
   in map EntryStatus (Entries (Reconcile 95 (Some 31) (JArr [JObj r]) rows)) = [DuidMismatch]
      \<and> (case Sync plain_env 95 (Some 31) (JArr [JObj r]) rows (scoped_plan []) of
           (Inr out, _) \<Rightarrow> map (\<lambda>e. fst (snd e)) (SyncEntries out) = [SkippedMacMismatch] | _ \<Rightarrow> False)"
  by code_simp

end
