(* ===== verification/DnsText.thy ===== *)
theory DnsText
  imports NetParse IpamReads "HOL-Library.Product_Lexorder" "HOL-Library.Word"
begin

text \<open>
  The pure functions of \<^verbatim>\<open>internal/dns\<close>: the check of a record's data (\<^verbatim>\<open>validators.go\<close>),
  the text of a zone (\<^verbatim>\<open>renderer.go\<close>), the DS, CDNSKEY and CDS records of its keys
  (\<^verbatim>\<open>dnssec.go\<close>, \<^verbatim>\<open>cdnskey.go\<close>, \<^verbatim>\<open>dnssec_keygen.go\<close>) and the labels of imported records
  (\<^verbatim>\<open>bind_parser.go\<close>).  Base64 and SHA-256 are parameters.
\<close>

section \<open>Decoding a document into a struct\<close>

text \<open>
  \<^verbatim>\<open>encoding/json\<close> matches the keys of an object to the fields of a struct up to Unicode
  case folding, where the long s and the Kelvin sign fold to ASCII letters; \<^verbatim>\<open>null\<close> leaves
  a field that is no pointer as it is.
\<close>

fun fold_name :: "string \<Rightarrow> string" where
  "fold_name [] = []"
| "fold_name (c # cs) =
     (if c = CHR 0xC5 \<and> cs \<noteq> [] \<and> hd cs = CHR 0xBF then CHR ''s'' # fold_name (tl cs)
      else if c = CHR 0xE2 \<and> take 2 cs = [CHR 0x84, CHR 0xAA] then CHR ''k'' # fold_name (drop 2 cs)
      else to_lower_char c # fold_name cs)"

definition field_values :: "json_object \<Rightarrow> string \<Rightarrow> json list" where
  "field_values kvs key = map snd (filter (\<lambda>kv. fold_name (fst kv) = fold_name key) kvs)"

fun is_string :: "json \<Rightarrow> bool" where
  "is_string (JStr s) = True"
| "is_string _ = False"

definition is_int :: "json \<Rightarrow> bool" where
  "is_int j = (case j of JInt n \<Rightarrow> - (2 ^ 63) \<le> n \<and> n < 2 ^ 63 | _ \<Rightarrow> False)"

text \<open>\<open>None\<close>: a value of another type, which makes the whole decoding fail.\<close>

definition string_field :: "json_object \<Rightarrow> string \<Rightarrow> string option" where
  "string_field kvs key =
     (let vs = filter (\<lambda>v. v \<noteq> JNull) (field_values kvs key)
      in if list_all is_string vs
         then Some (if vs = [] then [] else (case last vs of JStr s \<Rightarrow> s | _ \<Rightarrow> []))
         else None)"

definition int_field :: "json_object \<Rightarrow> string \<Rightarrow> int option" where
  "int_field kvs key =
     (let vs = filter (\<lambda>v. v \<noteq> JNull) (field_values kvs key)
      in if list_all is_int vs
         then Some (if vs = [] then 0 else (case last vs of JInt n \<Rightarrow> n | _ \<Rightarrow> 0))
         else None)"

text \<open>A pointer: \<^verbatim>\<open>null\<close> resets it.\<close>

definition int_pointer :: "json_object \<Rightarrow> string \<Rightarrow> int option option" where
  "int_pointer kvs key =
     (let vs = field_values kvs key
      in if list_all (\<lambda>v. v = JNull \<or> is_int v) vs
         then Some (if vs = [] then None else (case last vs of JInt n \<Rightarrow> Some n | _ \<Rightarrow> None))
         else None)"

section \<open>The data of a record\<close>

datatype record_error =
    DataRequired
  | Malformed string
  | NotAnAddress string string
  | OutOfRange string int
  | UnknownTag string

definition check_target :: "string \<Rightarrow> (string \<Rightarrow> record_error option) \<Rightarrow> json_object \<Rightarrow> record_error option" where
  "check_target t ok kvs =
     (case string_field kvs ''target'' of
        None \<Rightarrow> Some (Malformed t)
      | Some s \<Rightarrow> if s = [] then Some (Malformed t) else ok s)"

definition check_range :: "string \<Rightarrow> int \<Rightarrow> int \<Rightarrow> int \<Rightarrow> record_error option" where
  "check_range what lo hi n = (if n < lo \<or> hi < n then Some (OutOfRange what n) else None)"

definition check_mx :: "json_object \<Rightarrow> record_error option" where
  "check_mx kvs =
     (case (int_pointer kvs ''priority'', string_field kvs ''target'') of
        (Some (Some n), Some s) \<Rightarrow>
          if s = [] then Some (Malformed ''MX'') else check_range ''MX priority'' 0 65535 n
      | _ \<Rightarrow> Some (Malformed ''MX''))"

definition check_txt :: "json_object \<Rightarrow> record_error option" where
  "check_txt kvs = (if string_field kvs ''text'' = None then Some (Malformed ''TXT'') else None)"

text \<open>The first check that fails.\<close>

fun first_of :: "record_error option list \<Rightarrow> record_error option" where
  "first_of [] = None"
| "first_of (e # es) = (case e of None \<Rightarrow> first_of es | Some x \<Rightarrow> Some x)"

definition check_srv :: "json_object \<Rightarrow> record_error option" where
  "check_srv kvs =
     (case (int_pointer kvs ''priority'', int_pointer kvs ''weight'', int_pointer kvs ''port'',
            string_field kvs ''target'') of
        (Some (Some a), Some (Some b), Some (Some c), Some s) \<Rightarrow>
          if s = [] then Some (Malformed ''SRV'')
          else first_of [check_range ''SRV priority'' 0 65535 a, check_range ''SRV weight'' 0 65535 b,
                         check_range ''SRV port'' 1 65535 c]
      | _ \<Rightarrow> Some (Malformed ''SRV''))"

definition check_caa :: "json_object \<Rightarrow> record_error option" where
  "check_caa kvs =
     (case (int_pointer kvs ''flags'', string_field kvs ''tag'', string_field kvs ''value'') of
        (Some (Some n), Some t, Some v) \<Rightarrow>
          if t = [] \<or> v = [] then Some (Malformed ''CAA'')
          else first_of [check_range ''CAA flags'' 0 255 n,
                 if t \<in> {''issue'', ''issuewild'', ''iodef''} then None else Some (UnknownTag t)]
      | _ \<Rightarrow> Some (Malformed ''CAA''))"

definition is_v4_text :: "string \<Rightarrow> bool" where
  "is_v4_text s = (case ParseAddr s of None \<Rightarrow> False | Some a \<Rightarrow> Is4 a)"

definition is_v6_text :: "string \<Rightarrow> bool" where
  "is_v6_text s = (case ParseAddr s of None \<Rightarrow> False | Some a \<Rightarrow> \<not> Is4 a)"

definition validateRecordData :: "string \<Rightarrow> json option \<Rightarrow> record_error option" where
  "validateRecordData t data =
     (case data of
        None \<Rightarrow> Some DataRequired
      | Some j \<Rightarrow>
          if t \<notin> {''A'', ''AAAA'', ''CNAME'', ''NS'', ''PTR'', ''MX'', ''TXT'', ''SRV'', ''CAA''} then None
          else case raw_map j of
            None \<Rightarrow> Some (Malformed t)
          | Some kvs \<Rightarrow>
              if t = ''A'' then check_target t (\<lambda>s. if is_v4_text s then None else Some (NotAnAddress t s)) kvs
              else if t = ''AAAA'' then check_target t (\<lambda>s. if is_v6_text s then None else Some (NotAnAddress t s)) kvs
              else if t \<in> {''CNAME'', ''NS'', ''PTR''} then check_target t (\<lambda>_. None) kvs
              else if t = ''MX'' then check_mx kvs
              else if t = ''TXT'' then check_txt kvs
              else if t = ''SRV'' then check_srv kvs
              else check_caa kvs)"

section \<open>Zone text\<close>

definition dec_int :: "int \<Rightarrow> string" where
  "dec_int n = (if n < 0 then CHR ''-'' # dec (nat (- n)) else dec (nat n))"

definition backslash :: char where "backslash = CHR 0x5C"
definition quote_mark :: char where "quote_mark = CHR 0x22"

text \<open>\<^verbatim>\<open>strings.ReplaceAll(s, c, bs)\<close> for a single character.\<close>

definition replace_char :: "char \<Rightarrow> string \<Rightarrow> string \<Rightarrow> string" where
  "replace_char c bs s = concat (map (\<lambda>d. if d = c then bs else [d]) s)"

definition quoted_text :: "string \<Rightarrow> string" where
  "quoted_text s =
     quote_mark # replace_char quote_mark [backslash, quote_mark] (replace_char backslash [backslash, backslash] s)
     @ [quote_mark]"

definition quoted_value :: "string \<Rightarrow> string" where
  "quoted_value s = quote_mark # replace_char quote_mark [backslash, quote_mark] s @ [quote_mark]"

definition words_line :: "string list \<Rightarrow> string" where
  "words_line = join_with CHR '' ''"

definition formatRdata :: "string \<Rightarrow> json \<Rightarrow> string option" where
  "formatRdata t data =
     (if t \<notin> {''A'', ''AAAA'', ''CNAME'', ''NS'', ''PTR'', ''MX'', ''TXT'', ''SRV'', ''CAA''} then None
      else case raw_map data of
        None \<Rightarrow> None
      | Some kvs \<Rightarrow>
          if t \<in> {''A'', ''AAAA'', ''CNAME'', ''NS'', ''PTR''} then string_field kvs ''target''
          else if t = ''MX'' then
            (case (int_field kvs ''priority'', string_field kvs ''target'') of
               (Some n, Some s) \<Rightarrow> Some (words_line [dec_int n, s]) | _ \<Rightarrow> None)
          else if t = ''TXT'' then map_option quoted_text (string_field kvs ''text'')
          else if t = ''SRV'' then
            (case (int_field kvs ''priority'', int_field kvs ''weight'', int_field kvs ''port'',
                   string_field kvs ''target'') of
               (Some a, Some b, Some c, Some s) \<Rightarrow> Some (words_line [dec_int a, dec_int b, dec_int c, s])
             | _ \<Rightarrow> None)
          else
            (case (int_field kvs ''flags'', string_field kvs ''tag'', string_field kvs ''value'') of
               (Some n, Some tg, Some v) \<Rightarrow> Some (words_line [dec_int n, tg, quoted_value v]) | _ \<Rightarrow> None))"

definition formatTTL :: "int option \<Rightarrow> int \<Rightarrow> string" where
  "formatTTL ttl dflt = dec_int (case ttl of None \<Rightarrow> dflt | Some n \<Rightarrow> n)"

definition tab :: char where "tab = CHR 0x09"
definition newline :: char where "newline = CHR 0x0A"

text \<open>What the renderer reads of a zone and of a record.\<close>

record zone_view =
  zv_name :: string
  zv_mname :: string
  zv_rname :: string
  zv_refresh :: int
  zv_retry :: int
  zv_expire :: int
  zv_minimum :: int
  zv_default_ttl :: int
  zv_updated :: int

record record_view =
  rv_name :: string
  rv_type :: string
  rv_ttl :: "int option"
  rv_data :: json

definition zoneSerial :: "zone_view \<Rightarrow> int" where
  "zoneSerial z = zv_updated z"

definition formatRecordLine :: "record_view \<Rightarrow> int \<Rightarrow> string option" where
  "formatRecordLine r dflt =
     (case formatRdata (rv_type r) (rv_data r) of
        None \<Rightarrow> None
      | Some rdata \<Rightarrow>
          Some (join_with tab [if rv_name r = [] then ''@'' else rv_name r, formatTTL (rv_ttl r) dflt, ''IN'',
                  rv_type r, rdata]))"

fun format_lines :: "record_view list \<Rightarrow> int \<Rightarrow> string option" where
  "format_lines [] dflt = Some []"
| "format_lines (r # rs) dflt =
     (case formatRecordLine r dflt of
        None \<Rightarrow> None
      | Some line \<Rightarrow> map_option (\<lambda>rest. line @ newline # rest) (format_lines rs dflt))"

definition soa_line :: "int \<Rightarrow> string \<Rightarrow> string" where
  "soa_line n what = [tab, tab, tab] @ dec_int n @ what @ [newline]"

definition zone_head :: "zone_view \<Rightarrow> string" where
  "zone_head z =
     ''$ORIGIN '' @ zv_name z @ ''.'' @ [newline] @ ''$TTL '' @ dec_int (zv_default_ttl z) @ [newline]
     @ join_with tab [''@'', ''IN'', ''SOA'',
         zv_mname z @ ''.'' @ zv_name z @ ''. '' @ zv_rname z @ ''.'' @ zv_name z @ ''. (''] @ [newline]
     @ soa_line (zoneSerial z) (tab # ''; serial'') @ soa_line (zv_refresh z) (tab # ''; refresh'')
     @ soa_line (zv_retry z) (tab # ''; retry'') @ soa_line (zv_expire z) (tab # ''; expire'')
     @ soa_line (zv_minimum z) ('')'' @ tab # ''; minimum'') @ [newline]"

definition renderZoneFile :: "zone_view \<Rightarrow> record_view list \<Rightarrow> string option" where
  "renderZoneFile z rs =
     map_option (\<lambda>body. zone_head z @ body)
       (format_lines (sort_key (\<lambda>r. (by_name (rv_name r), by_name (rv_type r))) rs) (zv_default_ttl z))"

section \<open>Keys\<close>

definition dnssecAlgNumber :: "string \<Rightarrow> nat" where
  "dnssecAlgNumber a =
     (if a = ''rsasha256'' then 8 else if a = ''ecdsap256sha256'' then 13 else if a = ''ed25519'' then 15 else 0)"

definition keyFlags :: "string \<Rightarrow> nat" where
  "keyFlags role = (if role = ''ksk'' then 257 else 256)"

definition defaultDnssecAlgorithm :: string where
  "defaultDnssecAlgorithm = ''ecdsap256sha256''"

text \<open>The label lengths are cut to a byte.\<close>

definition wire_label :: "string \<Rightarrow> nat list" where
  "wire_label l = (length l mod 256) # map of_char (to_lower l)"

definition dnsWireName :: "string \<Rightarrow> nat list" where
  "dnsWireName fqdn =
     (let t = trim_suffix fqdn ''.'' in if t = [] then [0] else concat (map wire_label (split_on CHR ''.'' t)) @ [0])"

definition dnskey_rdata :: "nat \<Rightarrow> nat \<Rightarrow> nat list \<Rightarrow> nat list" where
  "dnskey_rdata flags alg public = [flags div 256, flags mod 256, 3, alg] @ public"

text \<open>The 16-bit words of the rdata are summed in a \<^verbatim>\<open>uint32\<close>.\<close>

fun tag_sum :: "nat list \<Rightarrow> 32 word \<Rightarrow> 32 word" where
  "tag_sum [] acc = acc"
| "tag_sum [b] acc = acc + push_bit 8 (of_nat b)"
| "tag_sum (b # c # bs) acc = tag_sum bs (acc + push_bit 8 (of_nat b) + of_nat c)"

definition keyTagFromDnskey :: "nat \<Rightarrow> nat \<Rightarrow> nat list \<Rightarrow> int" where
  "keyTagFromDnskey flags alg public =
     (let acc = tag_sum (dnskey_rdata flags alg public) 0;
          acc' = acc + take_bit 16 (drop_bit 16 acc)
      in uint (take_bit 16 acc'))"

record codec =
  base64_text :: "nat list \<Rightarrow> string"
  base64_bytes :: "string \<Rightarrow> nat list option"
  sha256 :: "nat list \<Rightarrow> nat list"

definition upper_hex :: "nat list \<Rightarrow> string" where
  "upper_hex bs = concat (map (\<lambda>b. map (\<lambda>d. if d < 10 then digit_char d else char_of (55 + d)) [b div 16, b mod 16]) bs)"

record key_view =
  kv_role :: string
  kv_algorithm :: string
  kv_public :: string
  kv_tag :: int
  kv_retired :: "int option"

record ds_record =
  ds_tag :: int
  ds_algorithm :: nat
  ds_digest_type :: nat
  ds_digest :: string
  ds_rr :: string

definition computeDSRecord :: "codec \<Rightarrow> string \<Rightarrow> key_view \<Rightarrow> ds_record option" where
  "computeDSRecord C zoneName k =
     (let alg = dnssecAlgNumber (kv_algorithm k)
      in if alg = 0 then None
         else case base64_bytes C (kv_public k) of
           None \<Rightarrow> None
         | Some public \<Rightarrow>
             let fqdn = trim_suffix zoneName ''.'' @ ''.'';
                 digest = upper_hex (sha256 C (dnsWireName fqdn @ dnskey_rdata (keyFlags (kv_role k)) alg public))
             in Some \<lparr>ds_tag = kv_tag k, ds_algorithm = alg, ds_digest_type = 2, ds_digest = digest,
                  ds_rr = words_line [fqdn, ''IN'', ''DS'', dec_int (kv_tag k), dec alg, ''2'', digest]\<rparr>)"

definition signing_ksk :: "key_view \<Rightarrow> bool" where
  "signing_ksk k \<longleftrightarrow> kv_role k = ''ksk'' \<and> kv_retired k = None"

definition ds_records :: "codec \<Rightarrow> string \<Rightarrow> key_view list \<Rightarrow> ds_record list" where
  "ds_records C zoneName ks = List.map_filter (computeDSRecord C zoneName) (filter signing_ksk ks)"

text \<open>\<^verbatim>\<open>strings.TrimRight\<close> with a dot.\<close>

definition trim_dots :: "string \<Rightarrow> string" where
  "trim_dots s = rev (dropWhile (\<lambda>c. c = CHR ''.'') (rev s))"

text \<open>The lines of one key, and of all of them.\<close>

definition cdnskey_pair :: "codec \<Rightarrow> string \<Rightarrow> key_view \<Rightarrow> string list" where
  "cdnskey_pair C zoneName k =
     (let alg = dnssecAlgNumber (kv_algorithm k); flags = keyFlags (kv_role k);
          wire = dnsWireName (trim_dots zoneName @ ''.'')
      in if \<not> signing_ksk k \<or> alg = 0 then []
         else case base64_bytes C (kv_public k) of
           None \<Rightarrow> []
         | Some public \<Rightarrow>
             [join_with tab [''@'', ''IN'', ''CDNSKEY'', words_line [dec flags, ''3'', dec alg, kv_public k]],
              join_with tab [''@'', ''IN'', ''CDS'', words_line [dec_int (kv_tag k), dec alg, ''2'',
                upper_hex (sha256 C (wire @ dnskey_rdata flags alg public))]]])"

definition RenderCdnskeyCdsLines :: "codec \<Rightarrow> string \<Rightarrow> key_view list \<Rightarrow> string list" where
  "RenderCdnskeyCdsLines C zoneName ks = concat (map (cdnskey_pair C zoneName) ks)"

section \<open>Imported records\<close>

text \<open>What \<^verbatim>\<open>miekg/dns\<close> reads of a line of a zone file.\<close>

datatype rdata =
    RR_A string
  | RR_AAAA string
  | RR_CNAME string
  | RR_NS string
  | RR_PTR string
  | RR_MX nat string
  | RR_TXT "string list"
  | RR_SRV nat nat nat string
  | RR_CAA nat string string
  | RR_SOA string string nat nat nat nat
  | RR_Other string

record rr =
  rr_name :: string
  rr_ttl :: nat
  rr_data :: rdata

definition labelFor :: "string \<Rightarrow> string \<Rightarrow> string" where
  "labelFor name0 origin0 =
     (let name = trim_suffix name0 ''.''; origin = trim_suffix origin0 ''.''
      in if origin \<noteq> [] \<and> (name = origin \<or> name = []) then ''@''
         else if origin \<noteq> [] \<and> has_suffix name (CHR ''.'' # origin) then trim_suffix name (CHR ''.'' # origin)
         else name)"

definition stripFinalDot :: "string \<Rightarrow> string" where
  "stripFinalDot s = trim_suffix s ''.''"

definition target_data :: "string \<Rightarrow> json" where
  "target_data s = JObj [(''target'', JStr s)]"

definition rdataToRecordData :: "rdata \<Rightarrow> json option" where
  "rdataToRecordData d =
     (case d of
        RR_A a \<Rightarrow> Some (target_data a)
      | RR_AAAA a \<Rightarrow> Some (target_data a)
      | RR_CNAME t \<Rightarrow> Some (target_data (stripFinalDot t))
      | RR_NS t \<Rightarrow> Some (target_data (stripFinalDot t))
      | RR_PTR t \<Rightarrow> Some (target_data (stripFinalDot t))
      | RR_MX n t \<Rightarrow> Some (JObj [(''priority'', JInt (int n)), (''target'', JStr (stripFinalDot t))])
      | RR_TXT ts \<Rightarrow> Some (JObj [(''text'', JStr (concat ts))])
      | RR_SRV a b c t \<Rightarrow> Some (JObj [(''priority'', JInt (int a)), (''weight'', JInt (int b)),
            (''port'', JInt (int c)), (''target'', JStr (stripFinalDot t))])
      | RR_CAA n t v \<Rightarrow> Some (JObj [(''flags'', JInt (int n)), (''tag'', JStr t), (''value'', JStr v)])
      | _ \<Rightarrow> None)"

definition rr_type :: "rdata \<Rightarrow> string" where
  "rr_type d =
     (case d of RR_A _ \<Rightarrow> ''A'' | RR_AAAA _ \<Rightarrow> ''AAAA'' | RR_CNAME _ \<Rightarrow> ''CNAME'' | RR_NS _ \<Rightarrow> ''NS''
      | RR_PTR _ \<Rightarrow> ''PTR'' | RR_MX _ _ \<Rightarrow> ''MX'' | RR_TXT _ \<Rightarrow> ''TXT'' | RR_SRV _ _ _ _ \<Rightarrow> ''SRV''
      | RR_CAA _ _ _ \<Rightarrow> ''CAA'' | RR_SOA _ _ _ _ _ _ \<Rightarrow> ''SOA'' | RR_Other t \<Rightarrow> t)"

definition supportedImportTypes :: "string list" where
  "supportedImportTypes = [''A'', ''AAAA'', ''CNAME'', ''MX'', ''TXT'', ''SRV'', ''NS'', ''CAA'', ''PTR'']"

record bind_soa =
  so_mname :: string
  so_rname :: string
  so_refresh :: int
  so_retry :: int
  so_expire :: int
  so_minimum :: int

record bind_parsed =
  bz_soa :: "bind_soa option"
  bz_ttl :: int
  bz_records :: "record_view list"
  bz_warnings :: nat

text \<open>\<^verbatim>\<open>int32(r.Refresh)\<close> of a \<^verbatim>\<open>uint32\<close>.\<close>

definition soaFromRR :: "string \<Rightarrow> string \<Rightarrow> nat \<Rightarrow> nat \<Rightarrow> nat \<Rightarrow> nat \<Rightarrow> bind_soa" where
  "soaFromRR ns mbox refresh retry expire minttl =
     \<lparr>so_mname = stripFinalDot ns, so_rname = stripFinalDot mbox, so_refresh = int32 (int refresh),
      so_retry = int32 (int retry), so_expire = int32 (int expire), so_minimum = int32 (int minttl)\<rparr>"

definition bind_step :: "string \<Rightarrow> bind_parsed \<Rightarrow> rr \<Rightarrow> bind_parsed" where
  "bind_step origin out x =
     (case rr_data x of
        RR_SOA ns mbox refresh retry expire minttl \<Rightarrow>
          out\<lparr>bz_soa := Some (soaFromRR ns mbox refresh retry expire minttl),
              bz_ttl := (if bz_ttl out = 0 then int32 (int minttl) else bz_ttl out)\<rparr>
      | d \<Rightarrow>
          (case (if rr_type d \<in> set supportedImportTypes then rdataToRecordData d else None) of
             None \<Rightarrow> out\<lparr>bz_warnings := Suc (bz_warnings out)\<rparr>
           | Some data \<Rightarrow>
               out\<lparr>bz_records := bz_records out @
                 [\<lparr>rv_name = labelFor (rr_name x) origin, rv_type = rr_type d,
                   rv_ttl = (if rr_ttl x = 0 then None else Some (int32 (int (rr_ttl x)))), rv_data = data\<rparr>]\<rparr>))"

text \<open>The lines up to the first that cannot be read, and whether there is one.\<close>

type_synonym zone_parser = "string \<Rightarrow> string \<Rightarrow> rr list \<times> bool"

definition parseBindZone :: "zone_parser \<Rightarrow> string \<Rightarrow> string \<Rightarrow> (string + bind_parsed)" where
  "parseBindZone parser txt defaultZone =
     (let (rrs, broken) = parser txt defaultZone;
          out = foldl (bind_step defaultZone) \<lparr>bz_soa = None, bz_ttl = 0, bz_records = [], bz_warnings = 0\<rparr> rrs
      in if broken then Inl ''bind import error''
         else if bz_soa out = None then Inl ''bind import error: zone has no SOA record''
         else Inr (if bz_ttl out = 0 then out\<lparr>bz_ttl := 60\<rparr> else out))"

definition firstLabel :: "string \<Rightarrow> string" where
  "firstLabel s = takeWhile (\<lambda>c. c \<noteq> CHR ''.'') s"

end
