(* ===== verification/DnsStore.thy ===== *)
theory DnsStore
  imports DnsText
begin

text \<open>
  The DNS tables (migrations \<^verbatim>\<open>00009_dns.sql\<close>, \<^verbatim>\<open>00013\<close>, \<^verbatim>\<open>00015\<close> to \<^verbatim>\<open>00020\<close>,
  \<^verbatim>\<open>00022\<close> to \<^verbatim>\<open>00025\<close>, \<^verbatim>\<open>00028\<close>, \<^verbatim>\<open>00039\<close>, \<^verbatim>\<open>00041\<close>, \<^verbatim>\<open>00044\<close>, \<^verbatim>\<open>00045\<close>) as lists of
  rows, over the address plan that the projection of host names reads and that owns the
  fabrics.  \<open>dns_clock\<close> is what \<^verbatim>\<open>NOW()\<close> reads; other transactions may move it.  Of the
  time stamps, those the program reads are kept: when a zone was last written (its SOA
  serial), and when a key became active and was retired.  References into tables outside
  this model (sites, ASNs, key chains) fail through the \<open>db_fault\<close> of the environment.
\<close>

section \<open>Rows\<close>

record dns_zone =
  z_id :: uuid
  z_name :: string
  z_kind :: string
  z_fabric :: uuid
  z_site :: "uuid option"
  z_description :: "string option"
  z_mname :: string
  z_rname :: string
  z_refresh :: int
  z_retry :: int
  z_expire :: int
  z_minimum :: int
  z_default_ttl :: int
  z_signed :: bool
  z_zsk_days :: int
  z_salt :: "string option"
  z_iterations :: int
  z_opt_out :: bool
  z_publish_cds :: bool
  z_frozen :: bool
  z_updated :: int

record dns_record =
  r_id :: uuid
  r_zone :: uuid
  r_name :: string
  r_type :: string
  r_ttl :: "int option"
  r_data :: json
  r_source :: string
  r_ipam :: "uuid option"
  r_view :: "uuid option"
  r_health :: "uuid option"
  r_description :: "string option"

text \<open>A key signs a zone or a catalog, never both (\<^verbatim>\<open>ck_dns_keys_scope\<close>).\<close>

record dns_key =
  k_id :: uuid
  k_zone :: "uuid option"
  k_catalog :: "uuid option"
  k_role :: string
  k_algorithm :: string
  k_private :: string
  k_public :: string
  k_tag :: int
  k_active_from :: int
  k_retired :: "int option"

record dns_server =
  dv_id :: uuid
  dv_name :: string
  dv_site :: uuid
  dv_fabric :: uuid
  dv_role :: string
  dv_ip :: inet
  dv_enabled :: bool
  dv_group :: "uuid option"
  last_render_at :: "int option"
  last_render_status :: "string option"
  last_render_error :: "string option"
  last_render_etag :: "string option"
  dv_version :: "string option"

record anycast_group =
  ag_id :: uuid
  ag_name :: string
  ag_fabric :: uuid
  ag_service :: string
  ag_v4 :: "inet option"
  ag_v6 :: "inet option"
  ag_description :: "string option"

record dns_forwarder =
  fw_id :: uuid
  fw_name :: string
  fw_fabric :: uuid
  fw_pattern :: string
  fw_upstreams :: json
  fw_description :: "string option"

record catalog_zone =
  cz_id :: uuid
  cz_fabric :: uuid
  cz_name :: string
  cz_enabled :: bool
  cz_signed :: bool

record blocklist =
  bl_id :: uuid
  bl_name :: string
  bl_fabric :: uuid
  bl_action :: string
  bl_v4 :: "inet option"
  bl_v6 :: "inet option"
  bl_enabled :: bool
  bl_description :: "string option"

record blocklist_entry =
  be_id :: uuid
  be_list :: uuid
  be_pattern :: string
  be_description :: "string option"

record dns_view =
  vw_id :: uuid
  vw_name :: string
  vw_fabric :: uuid
  vw_cidrs :: json
  vw_priority :: int
  vw_description :: "string option"

record health_check =
  hc_id :: uuid
  hc_name :: string
  hc_fabric :: uuid
  hc_ip :: inet
  hc_protocol :: string
  hc_port :: "int option"
  hc_path :: string
  hc_interval :: int
  hc_timeout :: int
  hc_enabled :: bool
  hc_status :: string
  last_checked_at :: "int option"
  hc_error :: "string option"

record bgp_peer =
  bp_id :: uuid
  bp_name :: string
  bp_site :: uuid
  bp_local_asn :: uuid
  bp_peer_asn :: uuid
  bp_ip :: inet
  bp_description :: "string option"
  bp_key_chain :: "uuid option"
  bp_enabled :: bool

record anycast_binding =
  ab_id :: uuid
  ab_server :: uuid
  ab_peer :: uuid

record dns_db =
  zones :: "dns_zone list"
  zone_records :: "dns_record list"
  dns_keys :: "dns_key list"
  dns_servers :: "dns_server list"
  anycast_groups :: "anycast_group list"
  forwarders :: "dns_forwarder list"
  catalogs :: "catalog_zone list"
  blocklists :: "blocklist list"
  blocklist_entries :: "blocklist_entry list"
  views :: "dns_view list"
  health_checks :: "health_check list"
  bgp_peers :: "bgp_peer list"
  bindings :: "anycast_binding list"
  plan :: ipam_db
  dns_clock :: int
  dns_log :: "(string \<times> uuid) list"

section \<open>Environment\<close>

text \<open>
  \<open>to_inet\<close> is the cast \<^verbatim>\<open>::inet\<close> and \<open>host_text\<close> is \<^verbatim>\<open>host(a)\<close>; \<open>to_jsonb\<close> is the cast of a document to \<^verbatim>\<open>jsonb\<close> and back
  to the \<^verbatim>\<open>json\<close> column; \<open>keypair\<close> is the key generation of Go's \<^verbatim>\<open>crypto\<close> packages for an
  algorithm (the PEM text of the private key and the bytes of the public key), \<open>coding\<close>
  base64 and SHA-256; \<open>read_zone\<close> is the zone parser of \<^verbatim>\<open>miekg/dns\<close>; \<open>site_scope\<close> looks sites
  up for \<^verbatim>\<open>EnforceSiteScope\<close>; \<open>data_err_text\<close> is \<^verbatim>\<open>Error()\<close> of a record check.
\<close>

record dns_env = "dns_db db_env" +
  to_inet :: "string \<Rightarrow> inet option"
  host_text :: "inet \<Rightarrow> string"
  to_jsonb :: "json \<Rightarrow> json option"
  keypair :: "string \<Rightarrow> dns_db \<Rightarrow> (string \<times> nat list) option"
  coding :: codec
  read_zone :: zone_parser
  site_scope :: "dns_db \<Rightarrow> scope_querier"
  data_err_text :: "record_error \<Rightarrow> string"

type_synonym 'a dquery = "(dns_db, 'a) statement"
type_synonym ('r, 'a) dhandler = "(dns_db, 'r, 'a) web"

section \<open>Zones\<close>

definition put_zones :: "dns_zone list \<Rightarrow> dns_db \<Rightarrow> dns_db" where
  "put_zones rs db = db\<lparr>zones := rs\<rparr>"

definition zone_lengths :: "dns_zone \<Rightarrow> (bool \<times> dberr) list" where
  "zone_lengths r =
     [too_long 253 (Some (z_mname r)), too_long 253 (Some (z_rname r)), too_long 512 (z_description r),
      too_long 64 (z_salt r)]"

definition zone_check :: "dns_zone \<Rightarrow> dns_db \<Rightarrow> dberr option" where
  "zone_check r db = first_error
     ([enum_text [''apex'', ''site'', ''reverse''] (z_kind r), too_long 253 (Some (z_name r))] @ zone_lengths r
      @ [(\<not> exists_row fb_id (z_fabric r) (fabrics (plan db)), fk_violation),
         (z_name r \<in> z_name ` set (zones db), unique_violation)])"

definition GetDnsZone :: "uuid \<Rightarrow> dns_zone dquery" where
  "GetDnsZone = get_row zones z_id"

definition GetDnsZoneFabricID :: "uuid \<Rightarrow> uuid dquery" where
  "GetDnsZoneFabricID i = reading (\<lambda>db. one_row (map_option z_fabric (find_row z_id i (zones db))))"

definition CreateDnsZone :: "dns_zone \<Rightarrow> dns_zone dquery" where
  "CreateDnsZone = insert_row zones put_zones z_id zone_check"

text \<open>Every update of a zone sets \<^verbatim>\<open>updated_at = NOW()\<close>; none touches its name, kind or fabric.\<close>

definition stamp_zone :: "uuid \<Rightarrow> (dns_zone \<Rightarrow> dns_zone) \<Rightarrow> dns_zone dquery" where
  "stamp_zone i f db =
     update_row zones put_zones z_id (\<lambda>z _. first_error (zone_lengths z)) i (\<lambda>z. (f z)\<lparr>z_updated := dns_clock db\<rparr>) db"

definition UpdateDnsZone :: "uuid \<Rightarrow> (dns_zone \<Rightarrow> dns_zone) \<Rightarrow> dns_zone dquery" where
  "UpdateDnsZone = stamp_zone"

definition SetDnsZoneFrozen :: "uuid \<Rightarrow> bool \<Rightarrow> dns_zone dquery" where
  "SetDnsZoneFrozen i b = stamp_zone i (\<lambda>z. z\<lparr>z_frozen := b\<rparr>)"

definition SetDnsZoneNsec3 :: "uuid \<Rightarrow> string option \<Rightarrow> int \<Rightarrow> bool \<Rightarrow> dns_zone dquery" where
  "SetDnsZoneNsec3 i salt iterations opt_out =
     stamp_zone i (\<lambda>z. z\<lparr>z_salt := salt, z_iterations := iterations, z_opt_out := opt_out\<rparr>)"

definition SetDnsZoneSigned :: "uuid \<Rightarrow> bool \<Rightarrow> unit dquery" where
  "SetDnsZoneSigned i b = exec_only (stamp_zone i (\<lambda>z. z\<lparr>z_signed := b\<rparr>))"

definition TouchDnsZone :: "uuid \<Rightarrow> unit dquery" where
  "TouchDnsZone i = exec_only (stamp_zone i (\<lambda>z. z))"

definition UpdateDnsZoneSoa ::
    "uuid \<Rightarrow> string \<Rightarrow> string \<Rightarrow> int \<Rightarrow> int \<Rightarrow> int \<Rightarrow> int \<Rightarrow> int \<Rightarrow> unit dquery" where
  "UpdateDnsZoneSoa i mname rname refresh retry expire minimum ttl =
     exec_only (stamp_zone i (\<lambda>z. z\<lparr>z_mname := mname, z_rname := rname, z_refresh := refresh,
       z_retry := retry, z_expire := expire, z_minimum := minimum, z_default_ttl := ttl\<rparr>))"

text \<open>The records of a zone block its deletion; its keys go with it.\<close>

definition DeleteDnsZone :: "uuid \<Rightarrow> unit dquery" where
  "DeleteDnsZone i = delete_row zones
     (\<lambda>rs db. db\<lparr>zones := rs, dns_keys := filter (\<lambda>k. k_zone k \<noteq> Some i) (dns_keys db)\<rparr>)
     z_id (\<lambda>db. i \<in> r_zone ` set (zone_records db)) i"

section \<open>Records\<close>

definition put_records :: "dns_record list \<Rightarrow> dns_db \<Rightarrow> dns_db" where
  "put_records rs db = db\<lparr>zone_records := rs\<rparr>"

definition record_types :: "string list" where
  "record_types = [''A'', ''AAAA'', ''CNAME'', ''MX'', ''TXT'', ''SRV'', ''NS'', ''CAA'', ''PTR'']"

text \<open>The columns an update of a record can set, and those only its creation sets.\<close>

definition record_columns :: "dns_record \<Rightarrow> dns_db \<Rightarrow> (bool \<times> dberr) list" where
  "record_columns r db =
     [too_long 253 (Some (r_name r)), too_long 512 (r_description r),
      (\<not> exists_opt vw_id (r_view r) (views db), fk_violation),
      (\<not> exists_opt hc_id (r_health r) (health_checks db), fk_violation)]"

definition record_check :: "dns_record \<Rightarrow> dns_db \<Rightarrow> dberr option" where
  "record_check r db = first_error
     ([enum_text record_types (r_type r), enum_text [''ipam'', ''manual'', ''ddns''] (r_source r)]
      @ record_columns r db
      @ [(\<not> exists_row z_id (r_zone r) (zones db), fk_violation),
         (\<not> exists_opt ad_id (r_ipam r) (addresses (plan db)), fk_violation)])"

definition GetDnsRecordFabricID :: "uuid \<Rightarrow> uuid dquery" where
  "GetDnsRecordFabricID i = reading (\<lambda>db. one_row (Option.bind (find_row r_id i (zone_records db))
     (\<lambda>r. map_option z_fabric (find_row z_id (r_zone r) (zones db)))))"

definition GetZoneFrozenByRecord :: "uuid \<Rightarrow> (uuid \<times> bool) dquery" where
  "GetZoneFrozenByRecord i = reading (\<lambda>db. one_row (Option.bind (find_row r_id i (zone_records db))
     (\<lambda>r. map_option (\<lambda>z. (z_id z, z_frozen z)) (find_row z_id (r_zone r) (zones db)))))"

text \<open>\<^verbatim>\<open>$n::jsonb\<close> before the row is made.\<close>

definition with_jsonb :: "dns_env \<Rightarrow> json \<Rightarrow> (json \<Rightarrow> 'a dquery) \<Rightarrow> 'a dquery" where
  "with_jsonb E j q = (case to_jsonb E j of None \<Rightarrow> reading (\<lambda>db. Inl bad_input) | Some k \<Rightarrow> q k)"

definition CreateDnsRecord :: "dns_env \<Rightarrow> dns_record \<Rightarrow> dns_record dquery" where
  "CreateDnsRecord E r = with_jsonb E (r_data r)
     (\<lambda>j. insert_row zone_records put_records r_id record_check (r\<lparr>r_data := j, r_source := ''manual''\<rparr>))"

definition UpdateDnsRecord :: "uuid \<Rightarrow> (dns_record \<Rightarrow> dns_record) \<Rightarrow> dns_record dquery" where
  "UpdateDnsRecord = update_row zone_records put_records r_id (\<lambda>r db. first_error (record_columns r db))"

definition DeleteDnsRecord :: "uuid \<Rightarrow> unit dquery" where
  "DeleteDnsRecord = delete_row zone_records put_records r_id (\<lambda>db. False)"

definition CreateProjectedDnsRecord :: "dns_env \<Rightarrow> dns_record \<Rightarrow> uuid dquery" where
  "CreateProjectedDnsRecord E r = qbind (with_jsonb E (r_data r)
     (\<lambda>j. insert_row zone_records put_records r_id record_check (r\<lparr>r_data := j\<rparr>))) (\<lambda>r. reading (\<lambda>_. Inr (r_id r)))"

definition DeleteManualRecordsInZone :: "uuid \<Rightarrow> uuid list dquery" where
  "DeleteManualRecordsInZone i db =
     (Inr (map r_id (filter (\<lambda>r. r_zone r = i \<and> r_source r = ''manual'') (zone_records db))),
      put_records (filter (\<lambda>r. \<not> (r_zone r = i \<and> r_source r = ''manual'')) (zone_records db)) db)"

definition projected :: "dns_record \<Rightarrow> bool" where
  "projected r \<longleftrightarrow> r_source r \<in> {''ipam'', ''ddns''}"

definition CountIPAMRecordsInZones :: "uuid list \<Rightarrow> nat dquery" where
  "CountIPAMRecordsInZones ids = reading (\<lambda>db.
     Inr (length (filter (\<lambda>r. r_zone r \<in> set ids \<and> projected r) (zone_records db))))"

definition DeleteIPAMRecordsInZones :: "uuid list \<Rightarrow> unit dquery" where
  "DeleteIPAMRecordsInZones ids db =
     (Inr (), put_records (filter (\<lambda>r. \<not> (r_zone r \<in> set ids \<and> projected r)) (zone_records db)) db)"

text \<open>\<^verbatim>\<open>ORDER BY name, type\<close>: the enum orders the types as \<open>record_types\<close> lists them.\<close>

definition type_rank :: "string \<Rightarrow> nat" where
  "type_rank t = length (takeWhile (\<lambda>u. u \<noteq> t) record_types)"

definition ListAllRecordsInZone :: "uuid \<Rightarrow> dns_record list dquery" where
  "ListAllRecordsInZone i = reading (\<lambda>db. Inr (sort_key (\<lambda>r. (by_name (r_name r), type_rank (r_type r)))
     (filter (\<lambda>r. r_zone r = i) (zone_records db))))"

section \<open>Keys\<close>

definition put_keys :: "dns_key list \<Rightarrow> dns_db \<Rightarrow> dns_db" where
  "put_keys rs db = db\<lparr>dns_keys := rs\<rparr>"

definition key_check :: "dns_key \<Rightarrow> dns_db \<Rightarrow> dberr option" where
  "key_check r db = first_error
     [enum_text [''ksk'', ''zsk''] (k_role r),
      enum_text [''ecdsap256sha256'', ''ed25519'', ''rsasha256''] (k_algorithm r),
      ((k_zone r \<noteq> None) = (k_catalog r \<noteq> None), DbOther ''ck_dns_keys_scope''),
      (\<not> exists_opt z_id (k_zone r) (zones db), fk_violation),
      (\<not> exists_opt cz_id (k_catalog r) (catalogs db), fk_violation)]"

definition CreateDnsKey :: "dns_key \<Rightarrow> dns_key dquery" where
  "CreateDnsKey = insert_row dns_keys put_keys k_id key_check"

definition GetDnsKey :: "uuid \<Rightarrow> dns_key dquery" where
  "GetDnsKey = get_row dns_keys k_id"

definition active_key :: "uuid \<Rightarrow> string \<Rightarrow> dns_key \<Rightarrow> bool" where
  "active_key zid role k \<longleftrightarrow> k_zone k = Some zid \<and> k_role k = role \<and> k_retired k = None"

text \<open>\<^verbatim>\<open>ORDER BY active_from DESC\<close>\<close>

definition ListActiveDnsKeysForZoneAndRole :: "uuid \<Rightarrow> string \<Rightarrow> dns_key list dquery" where
  "ListActiveDnsKeysForZoneAndRole zid role = reading (\<lambda>db.
     if role \<notin> {''ksk'', ''zsk''} then Inl bad_input
     else Inr (sort_key (\<lambda>k. - k_active_from k) (filter (active_key zid role) (dns_keys db))))"

definition ListDnsKeysByZone :: "uuid \<Rightarrow> dns_key list dquery" where
  "ListDnsKeysByZone zid = reading (\<lambda>db.
     Inr (sort_key (\<lambda>k. (by_name (k_role k), - k_active_from k)) (filter (\<lambda>k. k_zone k = Some zid) (dns_keys db))))"

definition RetireDnsKey :: "uuid \<Rightarrow> unit dquery" where
  "RetireDnsKey i db =
     exec_only (update_row dns_keys put_keys k_id (\<lambda>_ _. None) i (\<lambda>k. k\<lparr>k_retired := Some (dns_clock db)\<rparr>)) db"

definition DeleteDnsKey :: "uuid \<Rightarrow> unit dquery" where
  "DeleteDnsKey = delete_row dns_keys put_keys k_id (\<lambda>db. False)"

definition DeleteAllDnsKeysForZone :: "uuid \<Rightarrow> dns_key list dquery" where
  "DeleteAllDnsKeysForZone i db =
     (Inr (filter (\<lambda>k. k_zone k = Some i) (dns_keys db)),
      put_keys (filter (\<lambda>k. k_zone k \<noteq> Some i) (dns_keys db)) db)"

definition ListDnsKeyTagsByCatalog :: "uuid \<Rightarrow> int list dquery" where
  "ListDnsKeyTagsByCatalog i = reading (\<lambda>db. Inr (map k_tag (filter (\<lambda>k. k_catalog k = Some i) (dns_keys db))))"

definition DeleteDnsKeysByCatalog :: "uuid \<Rightarrow> unit dquery" where
  "DeleteDnsKeysByCatalog i db = (Inr (), put_keys (filter (\<lambda>k. k_catalog k \<noteq> Some i) (dns_keys db)) db)"

end
