(* ===== verification/DnsZones.thy ===== *)
theory DnsZones
  imports DnsStore
begin

text \<open>
  The handlers on zones, their records and their keys: \<^verbatim>\<open>internal/dns/mutations.go\<close> (zones and
  records), \<^verbatim>\<open>zone_state.go\<close>, \<^verbatim>\<open>dnssec.go\<close>, \<^verbatim>\<open>dnssec_keygen.go\<close>, \<^verbatim>\<open>dnssec_lifecycle.go\<close>,
  \<^verbatim>\<open>zone_import.go\<close>, and the job \<^verbatim>\<open>dnssecrotate\<close>.  Every statement commits by itself, so a
  handler that stops half way leaves what its earlier statements have written.
\<close>

section \<open>Shared helpers\<close>

abbreviation mapErr :: "string \<Rightarrow> dberr \<Rightarrow> 'r resp" where
  "mapErr \<equiv> mapIpamErr"

text \<open>An audit row that cannot be written is dropped.\<close>

definition dns_audit :: "dns_env \<Rightarrow> string \<Rightarrow> uuid \<Rightarrow> ('r, unit) dhandler" where
  "dns_audit E action i db =
     (let db' = others E ''InsertAuditLog'' db
      in case db_fault E ''InsertAuditLog'' db' of
           Some _ \<Rightarrow> (Inr (), db')
         | None \<Rightarrow> (Inr (), db'\<lparr>dns_log := dns_log db' @ [(action, i)]\<rparr>))"

definition dns_patch ::
    "dns_env \<Rightarrow> json option \<Rightarrow> iquery \<Rightarrow> (json_object \<Rightarrow> 'r dquery) \<Rightarrow> string \<Rightarrow> string \<Rightarrow> uuid \<Rightarrow> ('r, 'r resp) dhandler" where
  "dns_patch E body Q upd notFoundMsg action i =
     hbind (patch_body body) (\<lambda>kvs.
     hbind (ask E Q (upd kvs) (mapErr notFoundMsg)) (\<lambda>out.
     hbind (dns_audit E action i) (\<lambda>_.
     hreturn (HttpJSON 200 out))))"

definition dns_delete ::
    "dns_env \<Rightarrow> iquery \<Rightarrow> (uuid \<Rightarrow> unit dquery) \<Rightarrow> string \<Rightarrow> string \<Rightarrow> uuid \<Rightarrow> ('r, 'r resp) dhandler" where
  "dns_delete E Q del notFoundMsg action i =
     hbind (ask E Q (del i) (mapErr notFoundMsg)) (\<lambda>_.
     hbind (dns_audit E action i) (\<lambda>_.
     hreturn HttpNoContent))"

text \<open>The zone of the URL, and the scope of the caller over its fabric.\<close>

definition own_zone :: "dns_env \<Rightarrow> principal \<Rightarrow> string \<Rightarrow> string \<Rightarrow> ('r, dns_zone) dhandler" where
  "own_zone E p url cap =
     hbind (idFromURL E url) (\<lambda>i.
     hbind (ask E ''GetDnsZone'' (GetDnsZone i) (mapErr ''zone not found'')) (\<lambda>z.
     hbind (enforceFabric p (z_fabric z) cap) (\<lambda>_.
     hreturn z)))"

definition zone_view_of :: "dns_zone \<Rightarrow> zone_view" where
  "zone_view_of z = \<lparr>zv_name = z_name z, zv_mname = z_mname z, zv_rname = z_rname z, zv_refresh = z_refresh z,
     zv_retry = z_retry z, zv_expire = z_expire z, zv_minimum = z_minimum z, zv_default_ttl = z_default_ttl z,
     zv_updated = z_updated z\<rparr>"

definition record_view_of :: "dns_record \<Rightarrow> record_view" where
  "record_view_of r = \<lparr>rv_name = r_name r, rv_type = r_type r, rv_ttl = r_ttl r, rv_data = r_data r\<rparr>"

definition key_view_of :: "dns_key \<Rightarrow> key_view" where
  "key_view_of k = \<lparr>kv_role = k_role k, kv_algorithm = k_algorithm k, kv_public = k_public k, kv_tag = k_tag k,
     kv_retired = k_retired k\<rparr>"

section \<open>Zones\<close>

record zone_req =
  zq_name :: string
  zq_kind :: string
  zq_fabric :: uuid
  zq_site :: "uuid option"
  zq_description :: "string option"
  zq_mname :: string
  zq_rname :: string
  zq_refresh :: "int option"
  zq_retry :: "int option"
  zq_expire :: "int option"
  zq_minimum :: "int option"
  zq_default_ttl :: "int option"
  zq_zsk_days :: "int option"
  zq_publish_cds :: "bool option"

definition or_else :: "'a option \<Rightarrow> 'a \<Rightarrow> 'a" where
  "or_else v d = (case v of None \<Rightarrow> d | Some x \<Rightarrow> x)"

definition createZone :: "dns_env \<Rightarrow> principal \<Rightarrow> zone_req option \<Rightarrow> (dns_zone, dns_zone resp) dhandler" where
  "createZone E p body =
     hbind (required body (\<lambda>q. zq_name q \<noteq> [] \<and> zq_kind q \<noteq> [] \<and> zq_fabric q \<noteq> uuid_nil)
              ''name, kind, fabric_id required'') (\<lambda>req.
     hbind (enforceFabric p (zq_fabric req) ''dns:zones:create'') (\<lambda>_.
     hbind (ask E ''CreateDnsZone''
              (\<lambda>db. CreateDnsZone
                 \<lparr>z_id = gen_id E db, z_name = zq_name req, z_kind = zq_kind req, z_fabric = zq_fabric req,
                  z_site = zq_site req, z_description = zq_description req,
                  z_mname = or_default ''ns1'' (zq_mname req), z_rname = or_default ''hostmaster'' (zq_rname req),
                  z_refresh = or_else (zq_refresh req) 900, z_retry = or_else (zq_retry req) 900,
                  z_expire = or_else (zq_expire req) 1800, z_minimum = or_else (zq_minimum req) 60,
                  z_default_ttl = or_else (zq_default_ttl req) 60, z_signed = False,
                  z_zsk_days = or_else (zq_zsk_days req) 0, z_salt = None, z_iterations = 0, z_opt_out = False,
                  z_publish_cds = or_else (zq_publish_cds req) True, z_frozen = False,
                  z_updated = dns_clock db\<rparr> db)
              (mapErr ''zone not found'')) (\<lambda>out.
     hbind (dns_audit E ''dns_zone.create'' (z_id out)) (\<lambda>_.
     hreturn (HttpJSON 201 out)))))"

definition zone_patch :: "json_object \<Rightarrow> dns_zone \<Rightarrow> dns_zone" where
  "zone_patch kvs z = z
     \<lparr>z_description := patched kvs ''description'' into_string (z_description z),
      z_zsk_days := coalesced kvs ''zsk_rotation_days'' into_int32 (z_zsk_days z),
      z_mname := coalesced kvs ''soa_mname'' into_string (z_mname z),
      z_rname := coalesced kvs ''soa_rname'' into_string (z_rname z),
      z_refresh := coalesced kvs ''soa_refresh'' into_int32 (z_refresh z),
      z_retry := coalesced kvs ''soa_retry'' into_int32 (z_retry z),
      z_expire := coalesced kvs ''soa_expire'' into_int32 (z_expire z),
      z_minimum := coalesced kvs ''soa_minimum'' into_int32 (z_minimum z),
      z_default_ttl := coalesced kvs ''default_ttl'' into_int32 (z_default_ttl z),
      z_publish_cds := coalesced kvs ''publish_cds'' into_bool (z_publish_cds z)\<rparr>"

definition updateZone :: "dns_env \<Rightarrow> principal \<Rightarrow> string \<Rightarrow> json option \<Rightarrow> (dns_zone, dns_zone resp) dhandler" where
  "updateZone E p url body =
     hbind (scoped_target E p url ''GetDnsZoneFabricID'' GetDnsZoneFabricID ''zone not found'' ''dns:zones:update'') (\<lambda>i.
     dns_patch E body ''UpdateDnsZone'' (\<lambda>kvs. UpdateDnsZone i (zone_patch kvs)) ''zone not found'' ''dns_zone.update'' i)"

definition deleteZone :: "dns_env \<Rightarrow> principal \<Rightarrow> string \<Rightarrow> (dns_zone, dns_zone resp) dhandler" where
  "deleteZone E p url =
     hbind (scoped_target E p url ''GetDnsZoneFabricID'' GetDnsZoneFabricID ''zone not found'' ''dns:zones:delete'') (\<lambda>i.
     dns_delete E ''DeleteDnsZone'' DeleteDnsZone ''zone not found'' ''dns_zone.delete'' i)"

definition setFrozen :: "dns_env \<Rightarrow> principal \<Rightarrow> string \<Rightarrow> bool \<Rightarrow> string \<Rightarrow> (dns_zone, dns_zone resp) dhandler" where
  "setFrozen E p url frozen action =
     hbind (scoped_target E p url ''GetDnsZoneFabricID'' GetDnsZoneFabricID ''zone not found'' ''dns:zones:update'') (\<lambda>i.
     hbind (ask E ''SetDnsZoneFrozen'' (SetDnsZoneFrozen i frozen) (mapErr ''zone not found'')) (\<lambda>out.
     hbind (dns_audit E action i) (\<lambda>_.
     hreturn (HttpJSON 200 out))))"

definition freezeZone :: "dns_env \<Rightarrow> principal \<Rightarrow> string \<Rightarrow> (dns_zone, dns_zone resp) dhandler" where
  "freezeZone E p url = setFrozen E p url True ''dns_zone.freeze''"

definition unfreezeZone :: "dns_env \<Rightarrow> principal \<Rightarrow> string \<Rightarrow> (dns_zone, dns_zone resp) dhandler" where
  "unfreezeZone E p url = setFrozen E p url False ''dns_zone.unfreeze''"

text \<open>An even number of hex digits, at most 64.\<close>

definition nsec3SaltPattern :: "string \<Rightarrow> bool" where
  "nsec3SaltPattern s \<longleftrightarrow> even (length s) \<and> 2 \<le> length s \<and> length s \<le> 64 \<and> list_all is_hex s"

definition setZoneNsec3 ::
    "dns_env \<Rightarrow> principal \<Rightarrow> string \<Rightarrow> (string option \<times> int \<times> bool) option \<Rightarrow> (dns_zone, dns_zone resp) dhandler" where
  "setZoneNsec3 E p url body =
     hbind (idFromURL E url) (\<lambda>_.
     hbind (required body (\<lambda>_. True) ''bad request body'') (\<lambda>(salt, iterations, opt_out).
     hbind (reject_if (iterations < 0 \<or> 150 < iterations) 400 ''iterations must be between 0 and 150'') (\<lambda>_.
     hbind (reject_if (case salt of None \<Rightarrow> False | Some s \<Rightarrow> s \<noteq> [] \<and> \<not> nsec3SaltPattern s) 400
              ''salt must be even-length hex up to 64 chars'') (\<lambda>_.
     hbind (own_zone E p url ''dns:zones:update'') (\<lambda>z.
     hbind (reject_if (z_frozen z) 422 ''zone is frozen'') (\<lambda>_.
     hbind (reject_if (\<not> z_signed z) 422 ''zone is not signed'') (\<lambda>_.
     hbind (ask E ''SetDnsZoneNsec3''
              (SetDnsZoneNsec3 (z_id z) (if salt = Some [] then None else salt) iterations opt_out)
              (mapErr ''zone not found'')) (\<lambda>out.
     hbind (dns_audit E ''dns_zone.set_nsec3'' (z_id z)) (\<lambda>_.
     hreturn (HttpJSON 200 out))))))))))"

definition clearZoneNsec3 :: "dns_env \<Rightarrow> principal \<Rightarrow> string \<Rightarrow> (dns_zone, dns_zone resp) dhandler" where
  "clearZoneNsec3 E p url =
     hbind (own_zone E p url ''dns:zones:update'') (\<lambda>z.
     hbind (reject_if (z_frozen z) 422 ''zone is frozen'') (\<lambda>_.
     hbind (ask E ''SetDnsZoneNsec3'' (SetDnsZoneNsec3 (z_id z) None 0 False) (mapErr ''zone not found'')) (\<lambda>out.
     hbind (dns_audit E ''dns_zone.clear_nsec3'' (z_id z)) (\<lambda>_.
     hreturn (HttpJSON 200 out)))))"

text \<open>The answer's text and its number of records.\<close>

definition previewZone :: "dns_env \<Rightarrow> principal \<Rightarrow> string \<Rightarrow> (string \<times> nat, (string \<times> nat) resp) dhandler" where
  "previewZone E p url =
     hbind (own_zone E p url ''dns:zones:read'') (\<lambda>z.
     hbind (ask E ''ListAllRecordsInZone'' (ListAllRecordsInZone (z_id z)) readErr) (\<lambda>rs.
     case renderZoneFile (zone_view_of z) (map record_view_of rs) of
       None \<Rightarrow> hanswer (HttpError 422 ''malformed record data'')
     | Some t \<Rightarrow> hreturn (HttpJSON 200 (t, length rs))))"

section \<open>Records\<close>

record record_req =
  rq_zone :: uuid
  rq_name :: string
  rq_type :: string
  rq_ttl :: "int option"
  rq_data :: "json option"
  rq_view :: "uuid option"
  rq_health :: "uuid option"
  rq_description :: "string option"

definition errZoneFrozen :: string where
  "errZoneFrozen = ''zone is frozen''"

definition new_record :: "dns_env \<Rightarrow> record_req \<Rightarrow> dns_db \<Rightarrow> dns_record" where
  "new_record E req db =
     \<lparr>r_id = gen_id E db, r_zone = rq_zone req, r_name = rq_name req, r_type = rq_type req, r_ttl = rq_ttl req,
      r_data = or_else (rq_data req) JNull, r_source = ''manual'', r_ipam = None, r_view = rq_view req,
      r_health = rq_health req, r_description = rq_description req\<rparr>"

definition createRecord :: "dns_env \<Rightarrow> principal \<Rightarrow> record_req option \<Rightarrow> (dns_record, dns_record resp) dhandler" where
  "createRecord E p body =
     hbind (required body (\<lambda>q. rq_zone q \<noteq> uuid_nil \<and> rq_name q \<noteq> [] \<and> rq_type q \<noteq> [] \<and> rq_data q \<noteq> None)
              ''zone_id, name, type, data required'') (\<lambda>req.
     hbind (ask E ''GetDnsZone'' (GetDnsZone (rq_zone req)) (mapErr ''zone not found'')) (\<lambda>z.
     hbind (enforceFabric p (z_fabric z) ''dns:records:create'') (\<lambda>_.
     hbind (reject_if (z_frozen z) 422 errZoneFrozen) (\<lambda>_.
     hbind (case validateRecordData (rq_type req) (rq_data req) of
              None \<Rightarrow> hreturn () | Some e \<Rightarrow> hanswer (HttpError 400 (data_err_text E e))) (\<lambda>_.
     hbind (ask E ''CreateDnsRecord'' (\<lambda>db. CreateDnsRecord E (new_record E req db) db)
              (mapErr ''record not found'')) (\<lambda>out.
     hbind (dns_audit E ''dns_record.create'' (r_id out)) (\<lambda>_.
     hreturn (HttpJSON 201 out))))))))"

definition record_patch :: "dns_env \<Rightarrow> json_object \<Rightarrow> dns_record \<Rightarrow> dns_record" where
  "record_patch E kvs r = r
     \<lparr>r_name := coalesced kvs ''name'' into_string (r_name r),
      r_ttl := patched kvs ''ttl'' into_int32 (r_ttl r),
      r_data := or_else (member kvs ''data'') (r_data r),
      r_view := patched kvs ''view_id'' (into_uuid (parse_uuid E)) (r_view r),
      r_health := patched kvs ''health_check_id'' (into_uuid (parse_uuid E)) (r_health r),
      r_description := patched kvs ''description'' into_string (r_description r)\<rparr>"

text \<open>The frozen flag of the zone of a record.\<close>

definition refuse_frozen_by_record :: "dns_env \<Rightarrow> uuid \<Rightarrow> ('r, unit) dhandler" where
  "refuse_frozen_by_record E i =
     hbind (ask E ''GetZoneFrozenByRecord'' (GetZoneFrozenByRecord i) (mapErr ''record not found'')) (\<lambda>zf.
     reject_if (snd zf) 422 errZoneFrozen)"

definition updateRecord :: "dns_env \<Rightarrow> principal \<Rightarrow> string \<Rightarrow> json option \<Rightarrow> (dns_record, dns_record resp) dhandler" where
  "updateRecord E p url body =
     hbind (scoped_target E p url ''GetDnsRecordFabricID'' GetDnsRecordFabricID ''record not found''
              ''dns:records:update'') (\<lambda>i.
     hbind (patch_body body) (\<lambda>kvs.
     hbind (refuse_frozen_by_record E i) (\<lambda>_.
     hbind (ask E ''UpdateDnsRecord'' (UpdateDnsRecord i (record_patch E kvs)) (mapErr ''record not found'')) (\<lambda>out.
     hbind (dns_audit E ''dns_record.update'' i) (\<lambda>_.
     hreturn (HttpJSON 200 out))))))"

definition deleteRecord :: "dns_env \<Rightarrow> principal \<Rightarrow> string \<Rightarrow> (dns_record, dns_record resp) dhandler" where
  "deleteRecord E p url =
     hbind (scoped_target E p url ''GetDnsRecordFabricID'' GetDnsRecordFabricID ''record not found''
              ''dns:records:delete'') (\<lambda>i.
     hbind (refuse_frozen_by_record E i) (\<lambda>_.
     dns_delete E ''DeleteDnsRecord'' DeleteDnsRecord ''record not found'' ''dns_record.delete'' i))"

section \<open>Import of a zone file\<close>

record import_payload =
  ip_text :: string
  ip_dry_run :: bool
  ip_update_soa :: bool

text \<open>How many records were or would be added, and how many were removed.\<close>

datatype import_answer = DryRun nat | Applied nat nat

definition imported_record :: "dns_env \<Rightarrow> uuid \<Rightarrow> record_view \<Rightarrow> dns_db \<Rightarrow> dns_record" where
  "imported_record E i v db =
     \<lparr>r_id = gen_id E db, r_zone = i, r_name = rv_name v, r_type = rv_type v, r_ttl = rv_ttl v,
      r_data = rv_data v, r_source = ''manual'', r_ipam = None, r_view = None, r_health = None,
      r_description = None\<rparr>"

text \<open>A record that cannot be inserted becomes a warning.\<close>

fun import_records :: "dns_env \<Rightarrow> uuid \<Rightarrow> record_view list \<Rightarrow> nat \<Rightarrow> ('r, nat) dhandler" where
  "import_records E i [] added = hreturn added"
| "import_records E i (v # vs) added =
     (\<lambda>db. case iexec E ''CreateDnsRecord'' (\<lambda>db. CreateDnsRecord E (imported_record E i v db) db) db of
        (Inl _, db') \<Rightarrow> import_records E i vs added db'
      | (Inr _, db') \<Rightarrow> import_records E i vs (Suc added) db')"

definition import_stamp :: "dns_env \<Rightarrow> uuid \<Rightarrow> bind_parsed \<Rightarrow> bool \<Rightarrow> ('r, unit) dhandler" where
  "import_stamp E i parsed update_soa =
     (case (update_soa, bz_soa parsed) of
        (True, Some soa) \<Rightarrow>
          ask E ''UpdateDnsZoneSoa''
            (UpdateDnsZoneSoa i (firstLabel (so_mname soa)) (firstLabel (so_rname soa)) (so_refresh soa)
               (so_retry soa) (so_expire soa) (so_minimum soa) (bz_ttl parsed)) readErr
      | _ \<Rightarrow> ask E ''TouchDnsZone'' (TouchDnsZone i) readErr)"

definition importZone ::
    "dns_env \<Rightarrow> principal \<Rightarrow> string \<Rightarrow> import_payload option \<Rightarrow> (import_answer, import_answer resp) dhandler" where
  "importZone E p url body =
     hbind (idFromURL E url) (\<lambda>_.
     hbind (required body (\<lambda>_. True) ''bad request body'') (\<lambda>payload.
     hbind (reject_if (ip_text payload = []) 400 ''text is required'') (\<lambda>_.
     hbind (own_zone E p url ''dns:zones:update'') (\<lambda>z.
     hbind (reject_if (z_frozen z) 422 ''zone is frozen'') (\<lambda>_.
     case parseBindZone (read_zone E) (ip_text payload) (z_name z @ ''.'') of
       Inl e \<Rightarrow> hanswer (HttpError 422 e)
     | Inr parsed \<Rightarrow>
         if ip_dry_run payload then hreturn (HttpJSON 200 (DryRun (length (bz_records parsed))))
         else
           hbind (ask E ''DeleteManualRecordsInZone'' (DeleteManualRecordsInZone (z_id z)) readErr) (\<lambda>removed.
           hbind (import_records E (z_id z) (bz_records parsed) 0) (\<lambda>added.
           hbind (import_stamp E (z_id z) parsed (ip_update_soa payload)) (\<lambda>_.
           hbind (dns_audit E ''dns_zone.import_bind'' (z_id z)) (\<lambda>_.
           hreturn (HttpJSON 200 (Applied added (length removed))))))))))))"

section \<open>Keys\<close>

record generated_key =
  gk_role :: string
  gk_algorithm :: string
  gk_private :: string
  gk_public :: string
  gk_tag :: int

definition generateDnssecKeypair :: "dns_env \<Rightarrow> string \<Rightarrow> string \<Rightarrow> dns_db \<Rightarrow> generated_key option" where
  "generateDnssecKeypair E role alg db =
     (let n = dnssecAlgNumber alg
      in if n = 0 then None
         else case keypair E alg db of
           None \<Rightarrow> None
         | Some (pem, public) \<Rightarrow>
             Some \<lparr>gk_role = role, gk_algorithm = alg, gk_private = pem,
               gk_public = base64_text (coding E) public, gk_tag = keyTagFromDnskey (keyFlags role) n public\<rparr>)"

definition new_key :: "dns_env \<Rightarrow> uuid \<Rightarrow> generated_key \<Rightarrow> dns_db \<Rightarrow> dns_key" where
  "new_key E i g db =
     \<lparr>k_id = gen_id E db, k_zone = Some i, k_catalog = None, k_role = gk_role g, k_algorithm = gk_algorithm g,
      k_private = gk_private g, k_public = gk_public g, k_tag = gk_tag g, k_active_from = dns_clock db,
      k_retired = None\<rparr>"

text \<open>The key material and its row.\<close>

definition mint_key :: "dns_env \<Rightarrow> uuid \<Rightarrow> string \<Rightarrow> string \<Rightarrow> dns_key dquery" where
  "mint_key E i role alg db =
     (case generateDnssecKeypair E role alg db of
        None \<Rightarrow> (Inl (DbOther ''key generation failed''), db)
      | Some g \<Rightarrow> iexec E ''CreateDnsKey'' (\<lambda>db. CreateDnsKey (new_key E i g db) db) db)"

fun retire_keys :: "dns_env \<Rightarrow> dns_key list \<Rightarrow> nat \<Rightarrow> nat dquery" where
  "retire_keys E [] n = reading (\<lambda>_. Inr n)"
| "retire_keys E (k # ks) n =
     qbind (iexec E ''RetireDnsKey'' (RetireDnsKey (k_id k))) (\<lambda>_. retire_keys E ks (Suc n))"

definition ErrZoneNotSigned :: dberr where "ErrZoneNotSigned = DbOther ''zone is not signed''"
definition ErrZoneFrozen :: dberr where "ErrZoneFrozen = DbOther ''zone is frozen''"

definition RotateZoneKey :: "dns_env \<Rightarrow> dns_zone \<Rightarrow> string \<Rightarrow> nat dquery" where
  "RotateZoneKey E z role =
     (if \<not> z_signed z then reading (\<lambda>_. Inl ErrZoneNotSigned)
      else if z_frozen z then reading (\<lambda>_. Inl ErrZoneFrozen)
      else
        qbind (iexec E ''ListActiveDnsKeysForZoneAndRole'' (ListActiveDnsKeysForZoneAndRole (z_id z) role)) (\<lambda>active.
        qbind (mint_key E (z_id z) role
                 (case active of [] \<Rightarrow> defaultDnssecAlgorithm | k # _ \<Rightarrow> k_algorithm k)) (\<lambda>_.
        qbind (retire_keys E active 0) (\<lambda>retired.
        qbind (iexec E ''TouchDnsZone'' (TouchDnsZone (z_id z))) (\<lambda>_.
        reading (\<lambda>_. Inr retired))))))"

text \<open>A step of a service function whose error is mapped without a message of its own.\<close>

definition serve_query :: "'a dquery \<Rightarrow> ('r, 'a) dhandler" where
  "serve_query q db = (case q db of (Inl e, db') \<Rightarrow> (Inl (readErr e), db') | (Inr a, db') \<Rightarrow> (Inr a, db'))"

definition rotateZoneKey ::
    "dns_env \<Rightarrow> principal \<Rightarrow> string \<Rightarrow> string \<Rightarrow> (dns_key list, dns_key list resp) dhandler" where
  "rotateZoneKey E p url role =
     hbind (idFromURL E url) (\<lambda>_.
     hbind (reject_if (role \<noteq> ''ksk'' \<and> role \<noteq> ''zsk'') 400 ''role must be ksk or zsk'') (\<lambda>_.
     hbind (own_zone E p url ''dns:keys:rotate'') (\<lambda>z.
     hbind (reject_if (z_frozen z) 422 ''zone is frozen'') (\<lambda>_.
     hbind (reject_if (\<not> z_signed z) 422 ''zone is not signed'') (\<lambda>_.
     hbind (serve_query (RotateZoneKey E z role)) (\<lambda>_.
     hbind (dns_audit E (''dns_zone.rotate_'' @ role) (z_id z)) (\<lambda>_.
     hbind (ask E ''ListDnsKeysByZone'' (ListDnsKeysByZone (z_id z)) readErr) (\<lambda>ks.
     hreturn (HttpJSON 200 ks)))))))))"

definition enableDnssec :: "dns_env \<Rightarrow> principal \<Rightarrow> string \<Rightarrow> (dns_key list, dns_key list resp) dhandler" where
  "enableDnssec E p url =
     hbind (own_zone E p url ''dns:keys:rotate'') (\<lambda>z.
     hbind (reject_if (z_frozen z) 422 ''zone is frozen'') (\<lambda>_.
     hbind (ask E ''ListDnsKeysByZone'' (ListDnsKeysByZone (z_id z)) readErr) (\<lambda>existing.
     if existing \<noteq> [] then
       hbind (if z_signed z then hreturn ()
              else ask E ''SetDnsZoneSigned'' (SetDnsZoneSigned (z_id z) True) readErr) (\<lambda>_.
       hreturn (HttpJSON 200 existing))
     else
       hbind (serve_query (mint_key E (z_id z) ''ksk'' defaultDnssecAlgorithm)) (\<lambda>ksk.
       hbind (serve_query (mint_key E (z_id z) ''zsk'' defaultDnssecAlgorithm)) (\<lambda>zsk.
       hbind (ask E ''SetDnsZoneSigned'' (SetDnsZoneSigned (z_id z) True) readErr) (\<lambda>_.
       hbind (dns_audit E ''dns_zone.enable_dnssec'' (z_id z)) (\<lambda>_.
       hreturn (HttpJSON 200 [ksk, zsk]))))))))"

definition disableDnssec :: "dns_env \<Rightarrow> principal \<Rightarrow> string \<Rightarrow> (unit, unit resp) dhandler" where
  "disableDnssec E p url =
     hbind (own_zone E p url ''dns:keys:rotate'') (\<lambda>z.
     hbind (reject_if (z_frozen z) 422 ''zone is frozen'') (\<lambda>_.
     if \<not> z_signed z then hreturn HttpNoContent
     else
       hbind (ask E ''DeleteAllDnsKeysForZone'' (DeleteAllDnsKeysForZone (z_id z)) readErr) (\<lambda>_.
       hbind (ask E ''SetDnsZoneSigned'' (SetDnsZoneSigned (z_id z) False) readErr) (\<lambda>_.
       hbind (ask E ''TouchDnsZone'' (TouchDnsZone (z_id z)) readErr) (\<lambda>_.
       hbind (dns_audit E ''dns_zone.disable_dnssec'' (z_id z)) (\<lambda>_.
       hreturn HttpNoContent))))))"

text \<open>The scope check goes through the zone of the key, if there is one and it can be read.\<close>

definition key_scope :: "dns_env \<Rightarrow> principal \<Rightarrow> dns_key \<Rightarrow> (unit, unit) dhandler" where
  "key_scope E p k =
     (case k_zone k of
        None \<Rightarrow> hreturn ()
      | Some i \<Rightarrow>
          (\<lambda>db. case iexec E ''GetDnsZone'' (GetDnsZone i) db of
             (Inl _, db') \<Rightarrow> (Inr (), db')
           | (Inr z, db') \<Rightarrow>
               hbind (enforceFabric p (z_fabric z) ''dns:keys:delete'') (\<lambda>_.
               reject_if (z_frozen z) 422 ''zone is frozen'') db'))"

definition deleteDnsKey :: "dns_env \<Rightarrow> principal \<Rightarrow> string \<Rightarrow> (unit, unit resp) dhandler" where
  "deleteDnsKey E p url =
     hbind (idFromURL E url) (\<lambda>i.
     hbind (ask E ''GetDnsKey'' (GetDnsKey i) (mapErr ''dns key not found'')) (\<lambda>k.
     hbind (reject_if (k_retired k = None) 422 ''active key cannot be deleted'') (\<lambda>_.
     hbind (key_scope E p k) (\<lambda>_.
     hbind (ask E ''DeleteDnsKey'' (DeleteDnsKey i) readErr) (\<lambda>_.
     hbind (dns_audit E ''dns_key.delete'' i) (\<lambda>_.
     hreturn HttpNoContent))))))"

definition listZoneKeys :: "dns_env \<Rightarrow> principal \<Rightarrow> string \<Rightarrow> (dns_key list, dns_key list resp) dhandler" where
  "listZoneKeys E p url =
     hbind (own_zone E p url ''dns:keys:read'') (\<lambda>z.
     hbind (ask E ''ListDnsKeysByZone'' (ListDnsKeysByZone (z_id z)) readErr) (\<lambda>ks.
     hreturn (HttpJSON 200 ks)))"

definition listZoneDsRecords :: "dns_env \<Rightarrow> principal \<Rightarrow> string \<Rightarrow> (ds_record list, ds_record list resp) dhandler" where
  "listZoneDsRecords E p url =
     hbind (own_zone E p url ''dns:keys:read'') (\<lambda>z.
     hbind (ask E ''ListDnsKeysByZone'' (ListDnsKeysByZone (z_id z)) readErr) (\<lambda>ks.
     hreturn (HttpJSON 200 (ds_records (coding E) (z_name z) (map key_view_of ks)))))"

section \<open>The rotation job\<close>

definition ListSignedZonesWithZskRotation :: "dns_zone list dquery" where
  "ListSignedZonesWithZskRotation = reading (\<lambda>db.
     Inr (sort_key z_id (filter (\<lambda>z. z_signed z \<and> 0 < z_zsk_days z) (zones db))))"

text \<open>Whether the newest active key is older than the policy allows; time in seconds.\<close>

definition zsk_due :: "int \<Rightarrow> dns_zone \<Rightarrow> dns_key list \<Rightarrow> bool" where
  "zsk_due t z active =
     (case active of [] \<Rightarrow> False | k # _ \<Rightarrow> z_zsk_days z * 86400 \<le> t - k_active_from k)"

text \<open>A zone that fails is logged and skipped.\<close>

fun rotate_due :: "dns_env \<Rightarrow> int \<Rightarrow> dns_zone list \<Rightarrow> nat \<Rightarrow> nat dquery" where
  "rotate_due E t [] n = reading (\<lambda>_. Inr n)"
| "rotate_due E t (z # zs) n =
     (if z_frozen z then rotate_due E t zs n
      else (\<lambda>db.
        case iexec E ''ListActiveDnsKeysForZoneAndRole'' (ListActiveDnsKeysForZoneAndRole (z_id z) ''zsk'') db of
          (Inl _, db') \<Rightarrow> rotate_due E t zs n db'
        | (Inr active, db') \<Rightarrow>
            if zsk_due t z active
            then (case RotateZoneKey E z ''zsk'' db' of
                    (Inl _, db2) \<Rightarrow> rotate_due E t zs n db2
                  | (Inr _, db2) \<Rightarrow> rotate_due E t zs (Suc n) db2)
            else rotate_due E t zs n db'))"

definition dns_rotate_zsks :: "dns_env \<Rightarrow> int \<Rightarrow> (nat \<times> nat) dquery" where
  "dns_rotate_zsks E t =
     qbind (iexec E ''ListSignedZonesWithZskRotation'' ListSignedZonesWithZskRotation) (\<lambda>zs.
     qbind (rotate_due E t zs 0) (\<lambda>n. reading (\<lambda>_. Inr (length zs, n))))"

end
