(* ===== verification/DnsSync.thy ===== *)
theory DnsSync
  imports DnsZones
begin

text \<open>
  The projection of host names into DNS: \<^verbatim>\<open>internal/dns/sync_ipam.go\<close> and the job
  \<^verbatim>\<open>dns_sync_from_ipam\<close>.  A sync drops every projected record of a site zone and of the
  reverse zones of its site and inserts one forward and one reverse record per address of
  the site that has a name.  Each statement commits by itself.
\<close>

section \<open>Names\<close>

definition byte_at :: "nat \<Rightarrow> nat \<Rightarrow> nat" where
  "byte_at v i = v div 256 ^ i mod 256"

definition hex_labels :: "nat list \<Rightarrow> string" where
  "hex_labels bytes =
     join_with CHR ''.'' (map (\<lambda>c. [c]) (rev (concat (map (\<lambda>b. [hex_char (b div 16), hex_char (b mod 16)]) bytes))))"

definition As16 :: "addr \<Rightarrow> nat list" where
  "As16 a = map (\<lambda>i. byte_at (val a) (15 - i)) [0..<16]"

definition reverseZoneName :: "string \<Rightarrow> string option" where
  "reverseZoneName s =
     (case ParseAddr s of
        None \<Rightarrow> None
      | Some a \<Rightarrow>
          if Is4 a
          then Some (join_with CHR ''.'' (map (\<lambda>i. dec (byte_at (val a) i)) [1, 2, 3]) @ ''.in-addr.arpa'')
          else Some (hex_labels (take 8 (As16 a)) @ ''.ip6.arpa''))"

definition ptrOwner :: "string \<Rightarrow> string option" where
  "ptrOwner s =
     (case ParseAddr s of
        None \<Rightarrow> None
      | Some a \<Rightarrow>
          if Is4 a
          then Some (join_with CHR ''.'' (map (\<lambda>i. dec (byte_at (val a) i)) [0, 1, 2, 3]) @ ''.in-addr.arpa.'')
          else Some (hex_labels (As16 a) @ ''.ip6.arpa.''))"

definition ptrLabelIn :: "string \<Rightarrow> string \<Rightarrow> string" where
  "ptrLabelIn owner zoneOrigin =
     (let suffix = CHR ''.'' # zoneOrigin
      in if has_suffix owner suffix then take (length owner - length suffix) owner else owner)"

definition forwardLabelFor :: "string \<Rightarrow> string \<Rightarrow> string" where
  "forwardLabelFor dnsName zoneName =
     (let suffix = CHR ''.'' # zoneName
      in if has_suffix dnsName suffix then take (length dnsName - length suffix) dnsName
         else if dnsName = zoneName then ''@''
         else dnsName)"

definition ptrTargetFor :: "string \<Rightarrow> string \<Rightarrow> string" where
  "ptrTargetFor dnsName zoneName =
     (if has_suffix dnsName ''.'' then dnsName else dnsName @ ''.'' @ zoneName @ ''.'')"

definition recordTypeForAddr :: "string \<Rightarrow> string option" where
  "recordTypeForAddr s = map_option (\<lambda>a. if Is4 a then ''A'' else ''AAAA'') (ParseAddr s)"

section \<open>Queries\<close>

record site_address =
  sa_id :: uuid
  sa_address :: string
  sa_source :: string
  sa_name :: "string option"

definition ListIPAddressesForSiteWithDnsName :: "dns_env \<Rightarrow> uuid \<Rightarrow> site_address list dquery" where
  "ListIPAddressesForSiteWithDnsName E site = reading (\<lambda>db.
     Inr (map (\<lambda>a. \<lparr>sa_id = ad_id a, sa_address = host_text E (ad_address a), sa_source = ad_source a,
                    sa_name = ad_dns_name a\<rparr>)
       (filter (\<lambda>a. ad_dns_name a \<noteq> None
            \<and> (\<exists>s\<in>set (subnets (plan db)). sb_id s = ad_subnet a \<and> sb_site s = Some site)) (addresses (plan db)))))"

definition reverse_of_site :: "uuid \<Rightarrow> uuid \<Rightarrow> dns_zone \<Rightarrow> bool" where
  "reverse_of_site fabricID site z \<longleftrightarrow> z_kind z = ''reverse'' \<and> z_fabric z = fabricID \<and> z_site z = Some site"

definition ListReverseZonesForSite :: "uuid \<Rightarrow> uuid \<Rightarrow> dns_zone list dquery" where
  "ListReverseZonesForSite fabricID site =
     reading (\<lambda>db. Inr (filter (reverse_of_site fabricID site) (zones db)))"

definition GetReverseZoneByName :: "uuid \<Rightarrow> uuid \<Rightarrow> string \<Rightarrow> dns_zone dquery" where
  "GetReverseZoneByName fabricID site name = reading (\<lambda>db.
     one_row (List.find (\<lambda>z. reverse_of_site fabricID site z \<and> z_name z = name) (zones db)))"

definition CreateReverseZone :: "dns_env \<Rightarrow> string \<Rightarrow> uuid \<Rightarrow> uuid \<Rightarrow> dns_zone dquery" where
  "CreateReverseZone E name fabricID site db = insert_row zones put_zones z_id zone_check
     \<lparr>z_id = gen_id E db, z_name = name, z_kind = ''reverse'', z_fabric = fabricID, z_site = Some site,
      z_description = None, z_mname = ''ns1'', z_rname = ''hostmaster'', z_refresh = 900, z_retry = 900,
      z_expire = 1800, z_minimum = 60, z_default_ttl = 60, z_signed = False, z_zsk_days = 0, z_salt = None,
      z_iterations = 0, z_opt_out = False, z_publish_cds = True, z_frozen = False, z_updated = dns_clock db\<rparr> db"

definition ListAllSiteDnsZones :: "dns_zone list dquery" where
  "ListAllSiteDnsZones = reading (\<lambda>db. Inr (sort_key z_id (filter (\<lambda>z. z_kind z = ''site'') (zones db))))"

section \<open>The sync of a zone\<close>

definition projection_row ::
    "dns_env \<Rightarrow> uuid \<Rightarrow> string \<Rightarrow> string \<Rightarrow> json \<Rightarrow> site_address \<Rightarrow> dns_db \<Rightarrow> dns_record" where
  "projection_row E zid name t data ip db =
     \<lparr>r_id = gen_id E db, r_zone = zid, r_name = name, r_type = t, r_ttl = None, r_data = data,
      r_source = (if sa_source ip = ''dhcp'' then ''ddns'' else ''ipam''), r_ipam = Some (sa_id ip),
      r_view = None, r_health = None, r_description = None\<rparr>"

definition project ::
    "dns_env \<Rightarrow> uuid \<Rightarrow> string \<Rightarrow> string \<Rightarrow> json \<Rightarrow> site_address \<Rightarrow> uuid dquery" where
  "project E zid name t data ip =
     iexec E ''CreateProjectedDnsRecord''
       (\<lambda>db. CreateProjectedDnsRecord E (projection_row E zid name t data ip db) db)"

text \<open>The reverse zone from the cache, else from the table, else created.\<close>

type_synonym zone_cache = "string \<Rightarrow> dns_zone option"

definition reverse_zone ::
    "dns_env \<Rightarrow> dns_zone \<Rightarrow> uuid \<Rightarrow> zone_cache \<Rightarrow> string \<Rightarrow> dns_zone dquery" where
  "reverse_zone E forward site cache origin =
     (case cache origin of
        Some z \<Rightarrow> reading (\<lambda>_. Inr z)
      | None \<Rightarrow>
          (\<lambda>db. case iexec E ''GetReverseZoneByName'' (GetReverseZoneByName (z_fabric forward) site origin) db of
             (Inl NoRows, db') \<Rightarrow>
               iexec E ''CreateReverseZone'' (CreateReverseZone E origin (z_fabric forward) site) db'
           | r \<Rightarrow> r))"

text \<open>How many records, and the reverse zone that received one.\<close>

definition emitForwardAndReverse ::
    "dns_env \<Rightarrow> dns_zone \<Rightarrow> uuid \<Rightarrow> site_address \<Rightarrow> string \<Rightarrow> zone_cache \<Rightarrow> (nat \<times> uuid option \<times> zone_cache) dquery" where
  "emitForwardAndReverse E forward site ip name cache =
     (case recordTypeForAddr (sa_address ip) of
        None \<Rightarrow> reading (\<lambda>_. Inr (0, None, cache))
      | Some t \<Rightarrow>
          qbind (project E (z_id forward) (forwardLabelFor name (z_name forward)) t (target_data (sa_address ip)) ip) (\<lambda>_.
          case reverseZoneName (sa_address ip) of
            None \<Rightarrow> reading (\<lambda>_. Inr (1, None, cache))
          | Some origin \<Rightarrow>
              qbind (reverse_zone E forward site cache origin) (\<lambda>rev.
              qbind (project E (z_id rev)
                       (ptrLabelIn (trim_suffix (or_else (ptrOwner (sa_address ip)) []) ''.'') origin) ''PTR''
                       (target_data (ptrTargetFor name (z_name forward))) ip) (\<lambda>_.
              reading (\<lambda>_. Inr (2, Some (z_id rev), cache(origin \<mapsto> rev)))))))"

text \<open>\<open>touched\<close> is the set of reverse zones that received a record; Go does not fix the order in
  which they are stamped, and the stamps do not depend on it.\<close>

fun emit_rows ::
    "dns_env \<Rightarrow> dns_zone \<Rightarrow> uuid \<Rightarrow> site_address list \<Rightarrow> zone_cache \<Rightarrow> nat \<Rightarrow> uuid list \<Rightarrow> (nat \<times> uuid list) dquery" where
  "emit_rows E forward site [] cache added touched = reading (\<lambda>_. Inr (added, touched))"
| "emit_rows E forward site (ip # ips) cache added touched =
     (case sa_name ip of
        None \<Rightarrow> emit_rows E forward site ips cache added touched
      | Some name \<Rightarrow>
          if name = [] then emit_rows E forward site ips cache added touched
          else qbind (emitForwardAndReverse E forward site ip name cache) (\<lambda>(n, rev, cache').
            emit_rows E forward site ips cache' (added + n)
              (case rev of None \<Rightarrow> touched | Some i \<Rightarrow> List.insert i touched)))"

fun touch_zones :: "dns_env \<Rightarrow> uuid list \<Rightarrow> unit dquery" where
  "touch_zones E [] = reading (\<lambda>_. Inr ())"
| "touch_zones E (i # is) = qbind (iexec E ''TouchDnsZone'' (TouchDnsZone i)) (\<lambda>_. touch_zones E is)"

definition cache_of :: "dns_zone list \<Rightarrow> zone_cache" where
  "cache_of zs = map_of (rev (map (\<lambda>z. (z_name z, z)) zs))"

definition SyncIPAMRecordsForZone :: "dns_env \<Rightarrow> dns_zone \<Rightarrow> (nat \<times> nat) dquery" where
  "SyncIPAMRecordsForZone E z =
     (case (if z_kind z = ''site'' then z_site z else None) of
        None \<Rightarrow> reading (\<lambda>_. Inr (0, 0))
      | Some site \<Rightarrow>
          qbind (iexec E ''ListReverseZonesForSite'' (ListReverseZonesForSite (z_fabric z) site)) (\<lambda>revs.
          qbind (iexec E ''CountIPAMRecordsInZones'' (CountIPAMRecordsInZones (z_id z # map z_id revs))) (\<lambda>dropped.
          qbind (iexec E ''DeleteIPAMRecordsInZones'' (DeleteIPAMRecordsInZones (z_id z # map z_id revs))) (\<lambda>_.
          qbind (iexec E ''ListIPAddressesForSiteWithDnsName'' (ListIPAddressesForSiteWithDnsName E site)) (\<lambda>rows.
          qbind (emit_rows E z site rows (cache_of revs) 0 []) (\<lambda>(added, touched).
          qbind (if 0 < added \<or> 0 < dropped then iexec E ''TouchDnsZone'' (TouchDnsZone (z_id z))
                 else reading (\<lambda>_. Inr ())) (\<lambda>_.
          qbind (touch_zones E touched) (\<lambda>_.
          reading (\<lambda>_. Inr (added, dropped))))))))))"

section \<open>The endpoint and the job\<close>

definition syncFromIPAM :: "dns_env \<Rightarrow> principal \<Rightarrow> string \<Rightarrow> (nat \<times> nat, (nat \<times> nat) resp) dhandler" where
  "syncFromIPAM E p url =
     hbind (own_zone E p url ''dns:zones:update'') (\<lambda>z.
     hbind (reject_if (z_frozen z) 422 ''zone is frozen'') (\<lambda>_.
     hbind (serve_query (SyncIPAMRecordsForZone E z)) (\<lambda>n.
     hbind (dns_audit E ''dns_zone.sync_ipam'' (z_id z)) (\<lambda>_.
     hreturn (HttpJSON 200 n)))))"

fun sync_zones :: "dns_env \<Rightarrow> dns_zone list \<Rightarrow> nat \<times> nat \<Rightarrow> (nat \<times> nat) dquery" where
  "sync_zones E [] t = reading (\<lambda>_. Inr t)"
| "sync_zones E (z # zs) t =
     qbind (SyncIPAMRecordsForZone E z) (\<lambda>n. sync_zones E zs (fst t + fst n, snd t + snd n))"

definition dns_sync_from_ipam :: "dns_env \<Rightarrow> (nat \<times> nat) dquery" where
  "dns_sync_from_ipam E =
     qbind (iexec E ''ListAllSiteDnsZones'' ListAllSiteDnsZones) (\<lambda>zs. sync_zones E zs (0, 0))"

end
