(* ===== verification/DnsResources.thy ===== *)
theory DnsResources
  imports DnsSync
begin

text \<open>
  The rest of \<^verbatim>\<open>internal/dns/mutations.go\<close> with its queries: servers, anycast groups,
  forwarders and catalog zones; and the callback of a collector on a server
  (\<^verbatim>\<open>server_status.go\<close>).
\<close>

section \<open>Helpers\<close>

definition cast_inet :: "dns_env \<Rightarrow> string option \<Rightarrow> (inet option \<Rightarrow> 'a dquery) \<Rightarrow> 'a dquery" where
  "cast_inet E s q =
     (case s of
        None \<Rightarrow> q None
      | Some t \<Rightarrow> (case to_inet E t of None \<Rightarrow> reading (\<lambda>db. Inl bad_input) | Some a \<Rightarrow> q (Some a)))"

text \<open>The tail of a create.\<close>

definition dns_create ::
    "dns_env \<Rightarrow> iquery \<Rightarrow> 'r dquery \<Rightarrow> ('r \<Rightarrow> uuid) \<Rightarrow> string \<Rightarrow> string \<Rightarrow> ('r, 'r resp) dhandler" where
  "dns_create E Q ins key notFoundMsg action =
     hbind (ask E Q ins (mapErr notFoundMsg)) (\<lambda>out.
     hbind (dns_audit E action (key out)) (\<lambda>_.
     hreturn (HttpJSON 201 out)))"

text \<open>A nullable address column of a partial update, once its value is cast.\<close>

definition patched_inet :: "json_object \<Rightarrow> string \<Rightarrow> inet option \<Rightarrow> inet option \<Rightarrow> inet option" where
  "patched_inet kvs key new old = (if has kvs key then new else old)"

definition fabric_exists :: "uuid \<Rightarrow> dns_db \<Rightarrow> bool \<times> dberr" where
  "fabric_exists i db = (\<not> exists_row fb_id i (fabrics (plan db)), fk_violation)"

section \<open>Servers\<close>

definition server_check :: "dns_server \<Rightarrow> dns_db \<Rightarrow> dberr option" where
  "server_check r db = first_error
     [enum_text [''auth'', ''recursive''] (dv_role r), too_long 128 (Some (dv_name r)), fabric_exists (dv_fabric r) db,
      (\<not> exists_opt ag_id (dv_group r) (anycast_groups db), fk_violation),
      (dv_name r \<in> dv_name ` set (dns_servers db), unique_violation),
      (\<exists>s\<in>set (dns_servers db). dv_site s = dv_site r \<and> dv_role s = dv_role r, unique_violation)]"

definition put_servers :: "dns_server list \<Rightarrow> dns_db \<Rightarrow> dns_db" where
  "put_servers rs db = db\<lparr>dns_servers := rs\<rparr>"

definition GetDnsServer :: "uuid \<Rightarrow> dns_server dquery" where
  "GetDnsServer = get_row dns_servers dv_id"

definition GetDnsServerFabricID :: "uuid \<Rightarrow> uuid dquery" where
  "GetDnsServerFabricID i = reading (\<lambda>db. one_row (map_option dv_fabric (find_row dv_id i (dns_servers db))))"

definition CreateDnsServerRow :: "dns_server \<Rightarrow> dns_server dquery" where
  "CreateDnsServerRow = insert_row dns_servers put_servers dv_id server_check"

definition UpdateDnsServerRow :: "uuid \<Rightarrow> (dns_server \<Rightarrow> dns_server) \<Rightarrow> dns_server dquery" where
  "UpdateDnsServerRow = update_row dns_servers put_servers dv_id server_check"

definition DeleteDnsServerRow :: "uuid \<Rightarrow> unit dquery" where
  "DeleteDnsServerRow i = delete_row dns_servers put_servers dv_id (\<lambda>db. i \<in> ab_server ` set (bindings db)) i"

record dserver_req =
  dq_name :: string
  dq_site :: uuid
  dq_fabric :: uuid
  dq_role :: string
  dq_ip :: string
  dq_enabled :: "bool option"
  dq_group :: "uuid option"

definition createServer :: "dns_env \<Rightarrow> principal \<Rightarrow> dserver_req option \<Rightarrow> (dns_server, dns_server resp) dhandler" where
  "createServer E p body =
     hbind (required body (\<lambda>q. dq_name q \<noteq> [] \<and> dq_site q \<noteq> uuid_nil \<and> dq_fabric q \<noteq> uuid_nil
              \<and> dq_role q \<noteq> [] \<and> dq_ip q \<noteq> []) ''name, site_id, fabric_id, role, unicast_ip required'') (\<lambda>req.
     hbind (enforceFabric p (dq_fabric req) ''dns:servers:create'') (\<lambda>_.
     dns_create E ''CreateDnsServerRow''
       (cast_inet E (Some (dq_ip req)) (\<lambda>ip db. CreateDnsServerRow
          \<lparr>dv_id = gen_id E db, dv_name = dq_name req, dv_site = dq_site req, dv_fabric = dq_fabric req,
           dv_role = dq_role req, dv_ip = the ip, dv_enabled = or_else (dq_enabled req) True,
           dv_group = dq_group req, last_render_at = None, last_render_status = None, last_render_error = None,
           last_render_etag = None, dv_version = None\<rparr> db))
       dv_id ''server not found'' ''dns_server.create''))"

definition server_patch :: "dns_env \<Rightarrow> json_object \<Rightarrow> inet option \<Rightarrow> dns_server \<Rightarrow> dns_server" where
  "server_patch E kvs ip s = s
     \<lparr>dv_name := coalesced kvs ''name'' into_string (dv_name s),
      dv_enabled := coalesced kvs ''enabled'' into_bool (dv_enabled s),
      dv_ip := or_else ip (dv_ip s),
      dv_group := patched kvs ''anycast_group_id'' (into_uuid (parse_uuid E)) (dv_group s)\<rparr>"

definition updateServer :: "dns_env \<Rightarrow> principal \<Rightarrow> string \<Rightarrow> json option \<Rightarrow> (dns_server, dns_server resp) dhandler" where
  "updateServer E p url body =
     hbind (scoped_target E p url ''GetDnsServerFabricID'' GetDnsServerFabricID ''server not found'' ''dns:servers:update'') (\<lambda>i.
     dns_patch E body ''UpdateDnsServerRow''
       (\<lambda>kvs. cast_inet E (field kvs ''unicast_ip'' into_string) (\<lambda>ip. UpdateDnsServerRow i (server_patch E kvs ip)))
       ''server not found'' ''dns_server.update'' i)"

definition deleteServer :: "dns_env \<Rightarrow> principal \<Rightarrow> string \<Rightarrow> (dns_server, dns_server resp) dhandler" where
  "deleteServer E p url =
     hbind (scoped_target E p url ''GetDnsServerFabricID'' GetDnsServerFabricID ''server not found'' ''dns:servers:delete'') (\<lambda>i.
     dns_delete E ''DeleteDnsServerRow'' DeleteDnsServerRow ''server not found'' ''dns_server.delete'' i)"

text \<open>The callback of a collector; no scope is enforced.\<close>

definition validRenderStatuses :: "string list" where
  "validRenderStatuses = [''unknown'', ''ok'', ''error'']"

record render_status =
  rs_status :: string
  rs_error :: "string option"
  rs_etag :: "string option"
  rs_version :: "string option"

text \<open>\<^verbatim>\<open>:execrows\<close>: the number of rows.\<close>

definition rows_affected :: "'a dquery \<Rightarrow> nat dquery" where
  "rows_affected f db =
     (case f db of (Inl e, db') \<Rightarrow> ((if e = NoRows then Inr 0 else Inl e), db') | (Inr _, db') \<Rightarrow> (Inr 1, db'))"

definition SetDnsServerRenderStatus :: "uuid \<Rightarrow> render_status \<Rightarrow> nat dquery" where
  "SetDnsServerRenderStatus i q db = rows_affected (update_row dns_servers put_servers dv_id
     (\<lambda>s _. first_error [too_long 32 (last_render_status s), too_long 2048 (last_render_error s),
              too_long 64 (last_render_etag s), too_long 32 (dv_version s)]) i
     (\<lambda>s. s\<lparr>last_render_at := Some (dns_clock db), last_render_status := Some (rs_status q),
            last_render_error := rs_error q, last_render_etag := rs_etag q,
            dv_version := (case rs_version q of None \<Rightarrow> dv_version s | Some v \<Rightarrow> Some v)\<rparr>)) db"

definition postServerRenderStatus :: "dns_env \<Rightarrow> string \<Rightarrow> render_status option \<Rightarrow> (string, string resp) dhandler" where
  "postServerRenderStatus E url body =
     hbind (idFromURL E url) (\<lambda>i.
     hbind (required body (\<lambda>_. True) ''bad request body'') (\<lambda>q.
     hbind (reject_if (rs_status q \<notin> set validRenderStatuses) 400 ''status must be one of: unknown, ok, error'') (\<lambda>_.
     hbind (ask E ''SetDnsServerRenderStatus'' (SetDnsServerRenderStatus i q) readErr) (\<lambda>n.
     hbind (reject_if (n = 0) 404 ''server not found'') (\<lambda>_.
     hreturn (HttpJSON 200 (rs_status q)))))))"

section \<open>Anycast groups\<close>

definition group_check :: "anycast_group \<Rightarrow> dns_db \<Rightarrow> dberr option" where
  "group_check r db = first_error
     [enum_text [''dns_recursive'', ''ntp'', ''log''] (ag_service r), too_long 128 (Some (ag_name r)),
      too_long 512 (ag_description r), fabric_exists (ag_fabric r) db,
      (\<exists>g\<in>set (anycast_groups db). ag_fabric g = ag_fabric r \<and> ag_service g = ag_service r, unique_violation)]"

definition put_groups :: "anycast_group list \<Rightarrow> dns_db \<Rightarrow> dns_db" where
  "put_groups rs db = db\<lparr>anycast_groups := rs\<rparr>"

definition GetAnycastGroupFabricID :: "uuid \<Rightarrow> uuid dquery" where
  "GetAnycastGroupFabricID i = reading (\<lambda>db. one_row (map_option ag_fabric (find_row ag_id i (anycast_groups db))))"

definition CreateAnycastGroup :: "anycast_group \<Rightarrow> anycast_group dquery" where
  "CreateAnycastGroup = insert_row anycast_groups put_groups ag_id group_check"

definition UpdateAnycastGroup :: "uuid \<Rightarrow> (anycast_group \<Rightarrow> anycast_group) \<Rightarrow> anycast_group dquery" where
  "UpdateAnycastGroup = update_row anycast_groups put_groups ag_id group_check"

definition DeleteAnycastGroup :: "uuid \<Rightarrow> unit dquery" where
  "DeleteAnycastGroup i = delete_row anycast_groups put_groups ag_id (\<lambda>db. Some i \<in> dv_group ` set (dns_servers db)) i"

record group_req =
  gq_name :: string
  gq_fabric :: uuid
  gq_service :: string
  gq_v4 :: "string option"
  gq_v6 :: "string option"
  gq_description :: "string option"

definition createAnycastGroup :: "dns_env \<Rightarrow> principal \<Rightarrow> group_req option \<Rightarrow> (anycast_group, anycast_group resp) dhandler" where
  "createAnycastGroup E p body =
     hbind (required body (\<lambda>q. gq_name q \<noteq> [] \<and> gq_fabric q \<noteq> uuid_nil \<and> gq_service q \<noteq> [])
              ''name, fabric_id, service required'') (\<lambda>req.
     hbind (enforceFabric p (gq_fabric req) ''dns:anycast-groups:create'') (\<lambda>_.
     dns_create E ''CreateAnycastGroup''
       (cast_inet E (gq_v4 req) (\<lambda>v4. cast_inet E (gq_v6 req) (\<lambda>v6 db. CreateAnycastGroup
          \<lparr>ag_id = gen_id E db, ag_name = gq_name req, ag_fabric = gq_fabric req, ag_service = gq_service req,
           ag_v4 = v4, ag_v6 = v6, ag_description = gq_description req\<rparr> db)))
       ag_id ''anycast group not found'' ''anycast_group.create''))"

definition group_patch :: "json_object \<Rightarrow> inet option \<Rightarrow> inet option \<Rightarrow> anycast_group \<Rightarrow> anycast_group" where
  "group_patch kvs v4 v6 g = g
     \<lparr>ag_name := coalesced kvs ''name'' into_string (ag_name g),
      ag_v4 := patched_inet kvs ''anycast_ipv4'' v4 (ag_v4 g),
      ag_v6 := patched_inet kvs ''anycast_ipv6'' v6 (ag_v6 g),
      ag_description := patched kvs ''description'' into_string (ag_description g)\<rparr>"

definition updateAnycastGroup ::
    "dns_env \<Rightarrow> principal \<Rightarrow> string \<Rightarrow> json option \<Rightarrow> (anycast_group, anycast_group resp) dhandler" where
  "updateAnycastGroup E p url body =
     hbind (scoped_target E p url ''GetAnycastGroupFabricID'' GetAnycastGroupFabricID ''anycast group not found''
              ''dns:anycast-groups:update'') (\<lambda>i.
     dns_patch E body ''UpdateAnycastGroup''
       (\<lambda>kvs. cast_inet E (field kvs ''anycast_ipv4'' into_string) (\<lambda>v4.
              cast_inet E (field kvs ''anycast_ipv6'' into_string) (\<lambda>v6. UpdateAnycastGroup i (group_patch kvs v4 v6))))
       ''anycast group not found'' ''anycast_group.update'' i)"

definition deleteAnycastGroup :: "dns_env \<Rightarrow> principal \<Rightarrow> string \<Rightarrow> (anycast_group, anycast_group resp) dhandler" where
  "deleteAnycastGroup E p url =
     hbind (scoped_target E p url ''GetAnycastGroupFabricID'' GetAnycastGroupFabricID ''anycast group not found''
              ''dns:anycast-groups:delete'') (\<lambda>i.
     dns_delete E ''DeleteAnycastGroup'' DeleteAnycastGroup ''anycast group not found'' ''anycast_group.delete'' i)"

section \<open>Forwarders\<close>

definition forwarder_check :: "dns_forwarder \<Rightarrow> dns_db \<Rightarrow> dberr option" where
  "forwarder_check r db = first_error
     [too_long 128 (Some (fw_name r)), too_long 253 (Some (fw_pattern r)), too_long 512 (fw_description r),
      fabric_exists (fw_fabric r) db,
      (\<exists>f\<in>set (forwarders db). fw_fabric f = fw_fabric r \<and> fw_pattern f = fw_pattern r, unique_violation)]"

definition put_forwarders :: "dns_forwarder list \<Rightarrow> dns_db \<Rightarrow> dns_db" where
  "put_forwarders rs db = db\<lparr>forwarders := rs\<rparr>"

definition GetDnsForwarderFabricID :: "uuid \<Rightarrow> uuid dquery" where
  "GetDnsForwarderFabricID i = reading (\<lambda>db. one_row (map_option fw_fabric (find_row fw_id i (forwarders db))))"

definition CreateDnsForwarder :: "dns_env \<Rightarrow> dns_forwarder \<Rightarrow> dns_forwarder dquery" where
  "CreateDnsForwarder E r = with_jsonb E (fw_upstreams r)
     (\<lambda>j. insert_row forwarders put_forwarders fw_id forwarder_check (r\<lparr>fw_upstreams := j\<rparr>))"

definition UpdateDnsForwarder :: "uuid \<Rightarrow> (dns_forwarder \<Rightarrow> dns_forwarder) \<Rightarrow> dns_forwarder dquery" where
  "UpdateDnsForwarder = update_row forwarders put_forwarders fw_id forwarder_check"

definition DeleteDnsForwarder :: "uuid \<Rightarrow> unit dquery" where
  "DeleteDnsForwarder = delete_row forwarders put_forwarders fw_id (\<lambda>db. False)"

record forwarder_req =
  wq_name :: string
  wq_fabric :: uuid
  wq_pattern :: string
  wq_upstreams :: "json option"
  wq_description :: "string option"

definition createForwarder :: "dns_env \<Rightarrow> principal \<Rightarrow> forwarder_req option \<Rightarrow> (dns_forwarder, dns_forwarder resp) dhandler" where
  "createForwarder E p body =
     hbind (required body (\<lambda>q. wq_name q \<noteq> [] \<and> wq_fabric q \<noteq> uuid_nil \<and> wq_pattern q \<noteq> [])
              ''name, fabric_id, zone_pattern required'') (\<lambda>req.
     hbind (enforceFabric p (wq_fabric req) ''dns:forwarders:create'') (\<lambda>_.
     dns_create E ''CreateDnsForwarder''
       (\<lambda>db. CreateDnsForwarder E
          \<lparr>fw_id = gen_id E db, fw_name = wq_name req, fw_fabric = wq_fabric req, fw_pattern = wq_pattern req,
           fw_upstreams = or_else (wq_upstreams req) (JArr []), fw_description = wq_description req\<rparr> db)
       fw_id ''forwarder not found'' ''dns_forwarder.create''))"

definition forwarder_patch :: "json_object \<Rightarrow> dns_forwarder \<Rightarrow> dns_forwarder" where
  "forwarder_patch kvs f = f
     \<lparr>fw_name := coalesced kvs ''name'' into_string (fw_name f),
      fw_pattern := coalesced kvs ''zone_pattern'' into_string (fw_pattern f),
      fw_upstreams := or_else (member kvs ''upstreams'') (fw_upstreams f),
      fw_description := patched kvs ''description'' into_string (fw_description f)\<rparr>"

definition updateForwarder :: "dns_env \<Rightarrow> principal \<Rightarrow> string \<Rightarrow> json option \<Rightarrow> (dns_forwarder, dns_forwarder resp) dhandler" where
  "updateForwarder E p url body =
     hbind (scoped_target E p url ''GetDnsForwarderFabricID'' GetDnsForwarderFabricID ''forwarder not found''
              ''dns:forwarders:update'') (\<lambda>i.
     dns_patch E body ''UpdateDnsForwarder'' (\<lambda>kvs. UpdateDnsForwarder i (forwarder_patch kvs))
       ''forwarder not found'' ''dns_forwarder.update'' i)"

definition deleteForwarder :: "dns_env \<Rightarrow> principal \<Rightarrow> string \<Rightarrow> (dns_forwarder, dns_forwarder resp) dhandler" where
  "deleteForwarder E p url =
     hbind (scoped_target E p url ''GetDnsForwarderFabricID'' GetDnsForwarderFabricID ''forwarder not found''
              ''dns:forwarders:delete'') (\<lambda>i.
     dns_delete E ''DeleteDnsForwarder'' DeleteDnsForwarder ''forwarder not found'' ''dns_forwarder.delete'' i)"

section \<open>Catalog zones\<close>

definition catalog_check :: "catalog_zone \<Rightarrow> dns_db \<Rightarrow> dberr option" where
  "catalog_check r db = first_error
     [too_long 253 (Some (cz_name r)), fabric_exists (cz_fabric r) db,
      (cz_fabric r \<in> cz_fabric ` set (catalogs db), unique_violation),
      (cz_name r \<in> cz_name ` set (catalogs db), unique_violation)]"

definition put_catalogs :: "catalog_zone list \<Rightarrow> dns_db \<Rightarrow> dns_db" where
  "put_catalogs rs db = db\<lparr>catalogs := rs\<rparr>"

definition GetDnsCatalogZone :: "uuid \<Rightarrow> catalog_zone dquery" where
  "GetDnsCatalogZone = get_row catalogs cz_id"

definition GetDnsCatalogZoneFabricID :: "uuid \<Rightarrow> uuid dquery" where
  "GetDnsCatalogZoneFabricID i = reading (\<lambda>db. one_row (map_option cz_fabric (find_row cz_id i (catalogs db))))"

definition CreateDnsCatalogZone :: "catalog_zone \<Rightarrow> catalog_zone dquery" where
  "CreateDnsCatalogZone = insert_row catalogs put_catalogs cz_id catalog_check"

definition UpdateDnsCatalogZone :: "uuid \<Rightarrow> (catalog_zone \<Rightarrow> catalog_zone) \<Rightarrow> catalog_zone dquery" where
  "UpdateDnsCatalogZone = update_row catalogs put_catalogs cz_id catalog_check"

definition SetDnsCatalogZoneSigned :: "uuid \<Rightarrow> bool \<Rightarrow> unit dquery" where
  "SetDnsCatalogZoneSigned i b =
     exec_only (update_row catalogs put_catalogs cz_id (\<lambda>_ _. None) i (\<lambda>c. c\<lparr>cz_signed := b\<rparr>))"

text \<open>The keys of a catalog go with it.\<close>

definition DeleteDnsCatalogZone :: "uuid \<Rightarrow> unit dquery" where
  "DeleteDnsCatalogZone i = delete_row catalogs
     (\<lambda>rs db. db\<lparr>catalogs := rs, dns_keys := filter (\<lambda>k. k_catalog k \<noteq> Some i) (dns_keys db)\<rparr>)
     cz_id (\<lambda>db. False) i"

text \<open>The body is the fabric, the name and the flag.\<close>

definition createCatalogZone ::
    "dns_env \<Rightarrow> principal \<Rightarrow> (uuid \<times> string \<times> bool option) option \<Rightarrow> (catalog_zone, catalog_zone resp) dhandler" where
  "createCatalogZone E p body =
     hbind (required body (\<lambda>(f, n, _). f \<noteq> uuid_nil \<and> n \<noteq> []) ''fabric_id and name required'') (\<lambda>(f, n, en).
     hbind (enforceFabric p f ''dns:catalog-zones:create'') (\<lambda>_.
     dns_create E ''CreateDnsCatalogZone''
       (\<lambda>db. CreateDnsCatalogZone
          \<lparr>cz_id = gen_id E db, cz_fabric = f, cz_name = n, cz_enabled = or_else en True, cz_signed = False\<rparr> db)
       cz_id ''dns catalog zone not found'' ''dns_catalog_zone.create''))"

definition catalog_patch :: "string option \<Rightarrow> bool option \<Rightarrow> catalog_zone \<Rightarrow> catalog_zone" where
  "catalog_patch n en c = c\<lparr>cz_name := or_else n (cz_name c), cz_enabled := or_else en (cz_enabled c)\<rparr>"

text \<open>The body is decoded into a struct, so a value of the wrong type is refused.\<close>

definition updateCatalogZone ::
    "dns_env \<Rightarrow> principal \<Rightarrow> string \<Rightarrow> (string option \<times> bool option) option \<Rightarrow> (catalog_zone, catalog_zone resp) dhandler" where
  "updateCatalogZone E p url body =
     hbind (scoped_target E p url ''GetDnsCatalogZoneFabricID'' GetDnsCatalogZoneFabricID ''dns catalog zone not found''
              ''dns:catalog-zones:update'') (\<lambda>i.
     hbind (required body (\<lambda>_. True) ''bad request body'') (\<lambda>(n, en).
     hbind (ask E ''UpdateDnsCatalogZone'' (UpdateDnsCatalogZone i (catalog_patch n en))
              (mapErr ''dns catalog zone not found'')) (\<lambda>out.
     hbind (dns_audit E ''dns_catalog_zone.update'' i) (\<lambda>_.
     hreturn (HttpJSON 200 out)))))"

definition deleteCatalogZone :: "dns_env \<Rightarrow> principal \<Rightarrow> string \<Rightarrow> (catalog_zone, catalog_zone resp) dhandler" where
  "deleteCatalogZone E p url =
     hbind (scoped_target E p url ''GetDnsCatalogZoneFabricID'' GetDnsCatalogZoneFabricID ''dns catalog zone not found''
              ''dns:catalog-zones:delete'') (\<lambda>i.
     dns_delete E ''DeleteDnsCatalogZone'' DeleteDnsCatalogZone ''dns catalog zone not found''
       ''dns_catalog_zone.delete'' i)"

definition disableCatalogDnssec :: "dns_env \<Rightarrow> principal \<Rightarrow> string \<Rightarrow> (unit, unit resp) dhandler" where
  "disableCatalogDnssec E p url =
     hbind (idFromURL E url) (\<lambda>i.
     hbind (ask E ''GetDnsCatalogZone'' (GetDnsCatalogZone i) (mapErr ''dns catalog zone not found'')) (\<lambda>c.
     hbind (enforceFabric p (cz_fabric c) ''dns:keys:rotate'') (\<lambda>_.
     if \<not> cz_signed c then hreturn HttpNoContent
     else
       hbind (ask E ''ListDnsKeyTagsByCatalog'' (ListDnsKeyTagsByCatalog i) readErr) (\<lambda>_.
       hbind (ask E ''DeleteDnsKeysByCatalog'' (DeleteDnsKeysByCatalog i) readErr) (\<lambda>_.
       hbind (ask E ''SetDnsCatalogZoneSigned'' (SetDnsCatalogZoneSigned i False) readErr) (\<lambda>_.
       hbind (dns_audit E ''dns_catalog_zone.disable_dnssec'' i) (\<lambda>_.
       hreturn HttpNoContent)))))))"

end
