(* ===== verification/DnsPolicies.thy ===== *)
theory DnsPolicies
  imports DnsResources
begin

text \<open>
  Blocklists and their entries, views, health checks, BGP peers and their bindings of
  \<^verbatim>\<open>internal/dns/mutations.go\<close> with their queries, and the callback of a collector on a
  health check (\<^verbatim>\<open>healthcheck_result.go\<close>).
\<close>

section \<open>Blocklists\<close>

definition blocklist_check :: "blocklist \<Rightarrow> dns_db \<Rightarrow> dberr option" where
  "blocklist_check r db = first_error
     [enum_text [''block'', ''sinkhole''] (bl_action r), too_long 128 (Some (bl_name r)), too_long 512 (bl_description r),
      fabric_exists (bl_fabric r) db,
      (\<exists>b\<in>set (blocklists db). bl_fabric b = bl_fabric r \<and> bl_name b = bl_name r, unique_violation)]"

definition put_blocklists :: "blocklist list \<Rightarrow> dns_db \<Rightarrow> dns_db" where
  "put_blocklists rs db = db\<lparr>blocklists := rs\<rparr>"

definition GetDnsBlocklist :: "uuid \<Rightarrow> blocklist dquery" where
  "GetDnsBlocklist = get_row blocklists bl_id"

definition GetDnsBlocklistFabricID :: "uuid \<Rightarrow> uuid dquery" where
  "GetDnsBlocklistFabricID i = reading (\<lambda>db. one_row (map_option bl_fabric (find_row bl_id i (blocklists db))))"

definition CreateDnsBlocklist :: "blocklist \<Rightarrow> blocklist dquery" where
  "CreateDnsBlocklist = insert_row blocklists put_blocklists bl_id blocklist_check"

definition UpdateDnsBlocklist :: "uuid \<Rightarrow> (blocklist \<Rightarrow> blocklist) \<Rightarrow> blocklist dquery" where
  "UpdateDnsBlocklist = update_row blocklists put_blocklists bl_id blocklist_check"

text \<open>The entries go with their list.\<close>

definition DeleteDnsBlocklist :: "uuid \<Rightarrow> unit dquery" where
  "DeleteDnsBlocklist i = delete_row blocklists
     (\<lambda>rs db. db\<lparr>blocklists := rs, blocklist_entries := filter (\<lambda>e. be_list e \<noteq> i) (blocklist_entries db)\<rparr>)
     bl_id (\<lambda>db. False) i"

record blocklist_req =
  bq_name :: string
  bq_fabric :: uuid
  bq_action :: string
  bq_v4 :: "string option"
  bq_v6 :: "string option"
  bq_enabled :: "bool option"
  bq_description :: "string option"

definition createBlocklist :: "dns_env \<Rightarrow> principal \<Rightarrow> blocklist_req option \<Rightarrow> (blocklist, blocklist resp) dhandler" where
  "createBlocklist E p body =
     hbind (required body (\<lambda>q. bq_name q \<noteq> [] \<and> bq_fabric q \<noteq> uuid_nil \<and> bq_action q \<noteq> [])
              ''name, fabric_id, action required'') (\<lambda>req.
     hbind (enforceFabric p (bq_fabric req) ''dns:blocklists:create'') (\<lambda>_.
     dns_create E ''CreateDnsBlocklist''
       (cast_inet E (bq_v4 req) (\<lambda>v4. cast_inet E (bq_v6 req) (\<lambda>v6 db. CreateDnsBlocklist
          \<lparr>bl_id = gen_id E db, bl_name = bq_name req, bl_fabric = bq_fabric req, bl_action = bq_action req,
           bl_v4 = v4, bl_v6 = v6, bl_enabled = or_else (bq_enabled req) True, bl_description = bq_description req\<rparr> db)))
       bl_id ''dns blocklist not found'' ''dns_blocklist.create''))"

definition blocklist_patch :: "json_object \<Rightarrow> inet option \<Rightarrow> inet option \<Rightarrow> blocklist \<Rightarrow> blocklist" where
  "blocklist_patch kvs v4 v6 b = b
     \<lparr>bl_name := coalesced kvs ''name'' into_string (bl_name b),
      bl_action := coalesced kvs ''action'' into_string (bl_action b),
      bl_v4 := patched_inet kvs ''sink_ipv4'' v4 (bl_v4 b),
      bl_v6 := patched_inet kvs ''sink_ipv6'' v6 (bl_v6 b),
      bl_enabled := coalesced kvs ''enabled'' into_bool (bl_enabled b),
      bl_description := patched kvs ''description'' into_string (bl_description b)\<rparr>"

definition updateBlocklist :: "dns_env \<Rightarrow> principal \<Rightarrow> string \<Rightarrow> json option \<Rightarrow> (blocklist, blocklist resp) dhandler" where
  "updateBlocklist E p url body =
     hbind (scoped_target E p url ''GetDnsBlocklistFabricID'' GetDnsBlocklistFabricID ''dns blocklist not found''
              ''dns:blocklists:update'') (\<lambda>i.
     dns_patch E body ''UpdateDnsBlocklist''
       (\<lambda>kvs. cast_inet E (field kvs ''sink_ipv4'' into_string) (\<lambda>v4.
              cast_inet E (field kvs ''sink_ipv6'' into_string) (\<lambda>v6. UpdateDnsBlocklist i (blocklist_patch kvs v4 v6))))
       ''dns blocklist not found'' ''dns_blocklist.update'' i)"

definition deleteBlocklist :: "dns_env \<Rightarrow> principal \<Rightarrow> string \<Rightarrow> (blocklist, blocklist resp) dhandler" where
  "deleteBlocklist E p url =
     hbind (scoped_target E p url ''GetDnsBlocklistFabricID'' GetDnsBlocklistFabricID ''dns blocklist not found''
              ''dns:blocklists:delete'') (\<lambda>i.
     dns_delete E ''DeleteDnsBlocklist'' DeleteDnsBlocklist ''dns blocklist not found'' ''dns_blocklist.delete'' i)"

section \<open>Blocklist entries\<close>

definition entry_check :: "blocklist_entry \<Rightarrow> dns_db \<Rightarrow> dberr option" where
  "entry_check r db = first_error
     [too_long 253 (Some (be_pattern r)), (\<not> exists_row bl_id (be_list r) (blocklists db), fk_violation),
      (\<exists>e\<in>set (blocklist_entries db). be_list e = be_list r \<and> be_pattern e = be_pattern r, unique_violation)]"

definition put_entries :: "blocklist_entry list \<Rightarrow> dns_db \<Rightarrow> dns_db" where
  "put_entries rs db = db\<lparr>blocklist_entries := rs\<rparr>"

definition GetDnsBlocklistEntryFabricID :: "uuid \<Rightarrow> uuid dquery" where
  "GetDnsBlocklistEntryFabricID i = reading (\<lambda>db. one_row (Option.bind (find_row be_id i (blocklist_entries db))
     (\<lambda>e. map_option bl_fabric (find_row bl_id (be_list e) (blocklists db)))))"

definition CreateDnsBlocklistEntry :: "blocklist_entry \<Rightarrow> blocklist_entry dquery" where
  "CreateDnsBlocklistEntry = insert_row blocklist_entries put_entries be_id entry_check"

definition DeleteDnsBlocklistEntry :: "uuid \<Rightarrow> unit dquery" where
  "DeleteDnsBlocklistEntry = delete_row blocklist_entries put_entries be_id (\<lambda>db. False)"

definition ListDnsBlocklistPatternsByID :: "uuid \<Rightarrow> string list dquery" where
  "ListDnsBlocklistPatternsByID i =
     reading (\<lambda>db. Inr (map be_pattern (filter (\<lambda>e. be_list e = i) (blocklist_entries db))))"

definition new_entry :: "dns_env \<Rightarrow> uuid \<Rightarrow> string \<Rightarrow> string option \<Rightarrow> dns_db \<Rightarrow> blocklist_entry" where
  "new_entry E i pattern description db =
     \<lparr>be_id = gen_id E db, be_list = i, be_pattern = pattern, be_description = description\<rparr>"

text \<open>The body is the pattern and the description.\<close>

definition createBlocklistEntry ::
    "dns_env \<Rightarrow> principal \<Rightarrow> string \<Rightarrow> (string \<times> string option) option \<Rightarrow> (blocklist_entry, blocklist_entry resp) dhandler" where
  "createBlocklistEntry E p url body =
     hbind (scoped_target E p url ''GetDnsBlocklistFabricID'' GetDnsBlocklistFabricID ''dns blocklist not found''
              ''dns:blocklists:update'') (\<lambda>i.
     hbind (required body (\<lambda>q. fst q \<noteq> []) ''pattern required'') (\<lambda>req.
     dns_create E ''CreateDnsBlocklistEntry''
       (\<lambda>db. CreateDnsBlocklistEntry (new_entry E i (fst req) (snd req) db) db)
       be_id ''entry not found'' ''dns_blocklist_entry.create''))"

definition deleteBlocklistEntry :: "dns_env \<Rightarrow> principal \<Rightarrow> string \<Rightarrow> (blocklist_entry, blocklist_entry resp) dhandler" where
  "deleteBlocklistEntry E p url =
     hbind (case parse_uuid E url of
              None \<Rightarrow> hanswer (HttpError 400 ''entry_id is not a uuid'') | Some i \<Rightarrow> hreturn i) (\<lambda>i.
     hbind (lookupFabricID E ''GetDnsBlocklistEntryFabricID'' (GetDnsBlocklistEntryFabricID i) ''entry not found'') (\<lambda>fid.
     hbind (enforceFabric p fid ''dns:blocklists:update'') (\<lambda>_.
     dns_delete E ''DeleteDnsBlocklistEntry'' DeleteDnsBlocklistEntry ''entry not found''
       ''dns_blocklist_entry.delete'' i)))"

text \<open>The keys of the map, in the order of their first occurrence.\<close>

definition normalizePatterns :: "string list \<Rightarrow> string list" where
  "normalizePatterns ps = remdups (filter (\<lambda>s. s \<noteq> []) (map (\<lambda>s. to_lower (trim_space s)) ps))"

text \<open>\<^verbatim>\<open>sort.Strings\<close> orders by bytes.\<close>

definition diffPatterns :: "string list \<Rightarrow> string list \<Rightarrow> string list" where
  "diffPatterns incoming existing = sort_key by_name (filter (\<lambda>s. s \<notin> set existing) incoming)"

fun add_patterns :: "dns_env \<Rightarrow> uuid \<Rightarrow> string list \<Rightarrow> ('r, unit) dhandler" where
  "add_patterns E i [] = hreturn ()"
| "add_patterns E i (s # ss) =
     hbind (ask E ''CreateDnsBlocklistEntry'' (\<lambda>db. CreateDnsBlocklistEntry (new_entry E i s None db) db) readErr)
       (\<lambda>_. add_patterns E i ss)"

text \<open>How many patterns were added and how many were skipped.\<close>

definition bulkAddBlocklistEntries ::
    "dns_env \<Rightarrow> principal \<Rightarrow> string \<Rightarrow> string list option \<Rightarrow> (nat \<times> nat, (nat \<times> nat) resp) dhandler" where
  "bulkAddBlocklistEntries E p url body =
     hbind (scoped_target E p url ''GetDnsBlocklistFabricID'' GetDnsBlocklistFabricID ''dns blocklist not found''
              ''dns:blocklists:update'') (\<lambda>i.
     hbind (required body (\<lambda>_. True) ''bad request body'') (\<lambda>patterns.
     hbind (reject_if (patterns = []) 400 ''patterns must not be empty'') (\<lambda>_.
     let incoming = normalizePatterns patterns
     in if incoming = [] then hreturn (HttpJSON 200 (0, 0))
        else
          hbind (ask E ''ListDnsBlocklistPatternsByID'' (ListDnsBlocklistPatternsByID i)
                   (mapErr ''dns blocklist not found'')) (\<lambda>existing.
          let toAdd = diffPatterns incoming existing
          in hbind (add_patterns E i toAdd) (\<lambda>_.
             hbind (dns_audit E ''dns_blocklist_entry.bulk_add'' i) (\<lambda>_.
             hreturn (HttpJSON 200 (length toAdd, length incoming - length toAdd))))))))"

section \<open>Views\<close>

definition view_check :: "dns_view \<Rightarrow> dns_db \<Rightarrow> dberr option" where
  "view_check r db = first_error
     [too_long 64 (Some (vw_name r)), too_long 512 (vw_description r), fabric_exists (vw_fabric r) db,
      (\<exists>v\<in>set (views db). vw_fabric v = vw_fabric r \<and> vw_name v = vw_name r, unique_violation)]"

definition put_views :: "dns_view list \<Rightarrow> dns_db \<Rightarrow> dns_db" where
  "put_views rs db = db\<lparr>views := rs\<rparr>"

definition GetDnsViewFabricID :: "uuid \<Rightarrow> uuid dquery" where
  "GetDnsViewFabricID i = reading (\<lambda>db. one_row (map_option vw_fabric (find_row vw_id i (views db))))"

definition CreateDnsView :: "dns_env \<Rightarrow> dns_view \<Rightarrow> dns_view dquery" where
  "CreateDnsView E r = with_jsonb E (vw_cidrs r)
     (\<lambda>j. insert_row views put_views vw_id view_check (r\<lparr>vw_cidrs := j\<rparr>))"

definition UpdateDnsView :: "uuid \<Rightarrow> (dns_view \<Rightarrow> dns_view) \<Rightarrow> dns_view dquery" where
  "UpdateDnsView = update_row views put_views vw_id view_check"

text \<open>\<^verbatim>\<open>dns_records.view_id\<close> is \<^verbatim>\<open>ON DELETE SET NULL\<close>.\<close>

definition DeleteDnsView :: "uuid \<Rightarrow> unit dquery" where
  "DeleteDnsView i = delete_row views
     (\<lambda>rs db. db\<lparr>views := rs, zone_records :=
        map (\<lambda>r. if r_view r = Some i then r\<lparr>r_view := None\<rparr> else r) (zone_records db)\<rparr>)
     vw_id (\<lambda>db. False) i"

record view_req =
  xq_name :: string
  xq_fabric :: uuid
  xq_cidrs :: "json option"
  xq_priority :: "int option"
  xq_description :: "string option"

definition createView :: "dns_env \<Rightarrow> principal \<Rightarrow> view_req option \<Rightarrow> (dns_view, dns_view resp) dhandler" where
  "createView E p body =
     hbind (required body (\<lambda>q. xq_name q \<noteq> [] \<and> xq_fabric q \<noteq> uuid_nil) ''name and fabric_id required'') (\<lambda>req.
     hbind (enforceFabric p (xq_fabric req) ''dns:views:create'') (\<lambda>_.
     dns_create E ''CreateDnsView''
       (\<lambda>db. CreateDnsView E
          \<lparr>vw_id = gen_id E db, vw_name = xq_name req, vw_fabric = xq_fabric req,
           vw_cidrs = or_else (xq_cidrs req) (JArr []), vw_priority = or_else (xq_priority req) 100,
           vw_description = xq_description req\<rparr> db)
       vw_id ''view not found'' ''dns_view.create''))"

definition view_patch :: "json_object \<Rightarrow> dns_view \<Rightarrow> dns_view" where
  "view_patch kvs v = v
     \<lparr>vw_name := coalesced kvs ''name'' into_string (vw_name v),
      vw_cidrs := or_else (member kvs ''match_cidrs'') (vw_cidrs v),
      vw_priority := coalesced kvs ''priority'' into_int32 (vw_priority v),
      vw_description := patched kvs ''description'' into_string (vw_description v)\<rparr>"

definition updateView :: "dns_env \<Rightarrow> principal \<Rightarrow> string \<Rightarrow> json option \<Rightarrow> (dns_view, dns_view resp) dhandler" where
  "updateView E p url body =
     hbind (scoped_target E p url ''GetDnsViewFabricID'' GetDnsViewFabricID ''view not found'' ''dns:views:update'') (\<lambda>i.
     dns_patch E body ''UpdateDnsView'' (\<lambda>kvs. UpdateDnsView i (view_patch kvs)) ''view not found'' ''dns_view.update'' i)"

definition deleteView :: "dns_env \<Rightarrow> principal \<Rightarrow> string \<Rightarrow> (dns_view, dns_view resp) dhandler" where
  "deleteView E p url =
     hbind (scoped_target E p url ''GetDnsViewFabricID'' GetDnsViewFabricID ''view not found'' ''dns:views:delete'') (\<lambda>i.
     dns_delete E ''DeleteDnsView'' DeleteDnsView ''view not found'' ''dns_view.delete'' i)"

section \<open>Health checks\<close>

definition health_check_check :: "health_check \<Rightarrow> dns_db \<Rightarrow> dberr option" where
  "health_check_check r db = first_error
     [enum_text [''tcp'', ''http'', ''https'', ''icmp''] (hc_protocol r), too_long 128 (Some (hc_name r)),
      too_long 255 (Some (hc_path r)), fabric_exists (hc_fabric r) db]"

definition put_health_checks :: "health_check list \<Rightarrow> dns_db \<Rightarrow> dns_db" where
  "put_health_checks rs db = db\<lparr>health_checks := rs\<rparr>"

definition GetDnsHealthCheckFabricID :: "uuid \<Rightarrow> uuid dquery" where
  "GetDnsHealthCheckFabricID i = reading (\<lambda>db. one_row (map_option hc_fabric (find_row hc_id i (health_checks db))))"

definition CreateDnsHealthCheck :: "health_check \<Rightarrow> health_check dquery" where
  "CreateDnsHealthCheck = insert_row health_checks put_health_checks hc_id health_check_check"

definition UpdateDnsHealthCheck :: "uuid \<Rightarrow> (health_check \<Rightarrow> health_check) \<Rightarrow> health_check dquery" where
  "UpdateDnsHealthCheck = update_row health_checks put_health_checks hc_id health_check_check"

definition DeleteDnsHealthCheck :: "uuid \<Rightarrow> unit dquery" where
  "DeleteDnsHealthCheck i = delete_row health_checks
     (\<lambda>rs db. db\<lparr>health_checks := rs, zone_records :=
        map (\<lambda>r. if r_health r = Some i then r\<lparr>r_health := None\<rparr> else r) (zone_records db)\<rparr>)
     hc_id (\<lambda>db. False) i"

record health_req =
  hq_name :: string
  hq_fabric :: uuid
  hq_ip :: string
  hq_protocol :: string
  hq_port :: "int option"
  hq_path :: string
  hq_interval :: "int option"
  hq_timeout :: "int option"
  hq_enabled :: "bool option"

definition createHealthCheck :: "dns_env \<Rightarrow> principal \<Rightarrow> health_req option \<Rightarrow> (health_check, health_check resp) dhandler" where
  "createHealthCheck E p body =
     hbind (required body (\<lambda>q. hq_name q \<noteq> [] \<and> hq_fabric q \<noteq> uuid_nil \<and> hq_ip q \<noteq> [] \<and> hq_protocol q \<noteq> [])
              ''name, fabric_id, target_ip, protocol required'') (\<lambda>req.
     hbind (enforceFabric p (hq_fabric req) ''dns:health-checks:create'') (\<lambda>_.
     dns_create E ''CreateDnsHealthCheck''
       (cast_inet E (Some (hq_ip req)) (\<lambda>ip db. CreateDnsHealthCheck
          \<lparr>hc_id = gen_id E db, hc_name = hq_name req, hc_fabric = hq_fabric req, hc_ip = the ip,
           hc_protocol = hq_protocol req, hc_port = hq_port req, hc_path = or_default ''/'' (hq_path req),
           hc_interval = or_else (hq_interval req) 30, hc_timeout = or_else (hq_timeout req) 5,
           hc_enabled = or_else (hq_enabled req) True, hc_status = ''unknown'', last_checked_at = None,
           hc_error = None\<rparr> db))
       hc_id ''health check not found'' ''dns_health_check.create''))"

definition health_patch :: "json_object \<Rightarrow> inet option \<Rightarrow> health_check \<Rightarrow> health_check" where
  "health_patch kvs ip c = c
     \<lparr>hc_name := coalesced kvs ''name'' into_string (hc_name c),
      hc_ip := or_else ip (hc_ip c),
      hc_protocol := coalesced kvs ''protocol'' into_string (hc_protocol c),
      hc_port := patched kvs ''port'' into_int32 (hc_port c),
      hc_path := coalesced kvs ''path'' into_string (hc_path c),
      hc_interval := coalesced kvs ''interval_seconds'' into_int32 (hc_interval c),
      hc_timeout := coalesced kvs ''timeout_seconds'' into_int32 (hc_timeout c),
      hc_enabled := coalesced kvs ''enabled'' into_bool (hc_enabled c)\<rparr>"

definition updateHealthCheck :: "dns_env \<Rightarrow> principal \<Rightarrow> string \<Rightarrow> json option \<Rightarrow> (health_check, health_check resp) dhandler" where
  "updateHealthCheck E p url body =
     hbind (scoped_target E p url ''GetDnsHealthCheckFabricID'' GetDnsHealthCheckFabricID ''health check not found''
              ''dns:health-checks:update'') (\<lambda>i.
     dns_patch E body ''UpdateDnsHealthCheck''
       (\<lambda>kvs. cast_inet E (field kvs ''target_ip'' into_string) (\<lambda>ip. UpdateDnsHealthCheck i (health_patch kvs ip)))
       ''health check not found'' ''dns_health_check.update'' i)"

definition deleteHealthCheck :: "dns_env \<Rightarrow> principal \<Rightarrow> string \<Rightarrow> (health_check, health_check resp) dhandler" where
  "deleteHealthCheck E p url =
     hbind (scoped_target E p url ''GetDnsHealthCheckFabricID'' GetDnsHealthCheckFabricID ''health check not found''
              ''dns:health-checks:delete'') (\<lambda>i.
     dns_delete E ''DeleteDnsHealthCheck'' DeleteDnsHealthCheck ''health check not found'' ''dns_health_check.delete'' i)"

definition validHealthCheckStatuses :: "string list" where
  "validHealthCheckStatuses = [''unknown'', ''healthy'', ''unhealthy'']"

definition SetDnsHealthCheckResult :: "uuid \<Rightarrow> string \<Rightarrow> string option \<Rightarrow> nat dquery" where
  "SetDnsHealthCheckResult i status err db = rows_affected (update_row health_checks put_health_checks hc_id
     (\<lambda>_ _. None) i
     (\<lambda>c. c\<lparr>hc_status := status, last_checked_at := Some (dns_clock db), hc_error := err\<rparr>)) db"

text \<open>The error is cut to 512 bytes; no scope is enforced.\<close>

definition postHealthCheckResult ::
    "dns_env \<Rightarrow> string \<Rightarrow> (string \<times> string option) option \<Rightarrow> (unit, unit resp) dhandler" where
  "postHealthCheckResult E url body =
     hbind (idFromURL E url) (\<lambda>i.
     hbind (required body (\<lambda>_. True) ''bad request body'') (\<lambda>(status, err).
     hbind (reject_if (status \<notin> set validHealthCheckStatuses) 400
              ''status must be one of: unknown, healthy, unhealthy'') (\<lambda>_.
     hbind (ask E ''SetDnsHealthCheckResult'' (SetDnsHealthCheckResult i status (map_option (take 512) err)) readErr) (\<lambda>n.
     hbind (reject_if (n = 0) 404 ''health check not found'') (\<lambda>_.
     hreturn HttpNoContent)))))"

section \<open>BGP peers\<close>

definition peer_check :: "bgp_peer \<Rightarrow> dns_db \<Rightarrow> dberr option" where
  "peer_check r db = first_error
     [too_long 128 (Some (bp_name r)), too_long 512 (bp_description r),
      (\<exists>q\<in>set (bgp_peers db). bp_site q = bp_site r \<and> bp_ip q = bp_ip r, unique_violation)]"

definition put_peers :: "bgp_peer list \<Rightarrow> dns_db \<Rightarrow> dns_db" where
  "put_peers rs db = db\<lparr>bgp_peers := rs\<rparr>"

definition GetBgpPeerSiteID :: "uuid \<Rightarrow> uuid dquery" where
  "GetBgpPeerSiteID i = reading (\<lambda>db. one_row (map_option bp_site (find_row bp_id i (bgp_peers db))))"

definition CreateBgpPeer :: "bgp_peer \<Rightarrow> bgp_peer dquery" where
  "CreateBgpPeer = insert_row bgp_peers put_peers bp_id peer_check"

definition UpdateBgpPeer :: "uuid \<Rightarrow> (bgp_peer \<Rightarrow> bgp_peer) \<Rightarrow> bgp_peer dquery" where
  "UpdateBgpPeer = update_row bgp_peers put_peers bp_id peer_check"

definition DeleteBgpPeer :: "uuid \<Rightarrow> unit dquery" where
  "DeleteBgpPeer i = delete_row bgp_peers put_peers bp_id
     (\<lambda>db. i \<in> ab_peer ` set (bindings db) \<or> i \<in> vbp_peer ` set (vrf_bgp_peers (plan db))) i"

text \<open>The site lookups of the check run on the state the handler has reached.\<close>

definition enforceSite :: "dns_env \<Rightarrow> principal \<Rightarrow> uuid \<Rightarrow> string \<Rightarrow> ('r, unit) dhandler" where
  "enforceSite E p siteID capCode db = forbid (EnforceSiteScope (site_scope E db) p siteID capCode) db"

record peer_req =
  pq_name :: string
  pq_site :: uuid
  pq_local_asn :: uuid
  pq_peer_asn :: uuid
  pq_ip :: string
  pq_description :: "string option"
  pq_key_chain :: "uuid option"
  pq_enabled :: "bool option"

definition createBgpPeer :: "dns_env \<Rightarrow> principal \<Rightarrow> peer_req option \<Rightarrow> (bgp_peer, bgp_peer resp) dhandler" where
  "createBgpPeer E p body =
     hbind (required body (\<lambda>q. pq_name q \<noteq> [] \<and> pq_site q \<noteq> uuid_nil \<and> pq_local_asn q \<noteq> uuid_nil
              \<and> pq_peer_asn q \<noteq> uuid_nil \<and> pq_ip q \<noteq> [])
              ''name, site_id, local_asn_id, peer_asn_id, peer_ip required'') (\<lambda>req.
     hbind (enforceSite E p (pq_site req) ''dns:bgp-peers:create'') (\<lambda>_.
     dns_create E ''CreateBgpPeer''
       (cast_inet E (Some (pq_ip req)) (\<lambda>ip db. CreateBgpPeer
          \<lparr>bp_id = gen_id E db, bp_name = pq_name req, bp_site = pq_site req, bp_local_asn = pq_local_asn req,
           bp_peer_asn = pq_peer_asn req, bp_ip = the ip, bp_description = pq_description req,
           bp_key_chain = pq_key_chain req, bp_enabled = or_else (pq_enabled req) True\<rparr> db))
       bp_id ''bgp peer not found'' ''bgp_peer.create''))"

definition own_peer :: "dns_env \<Rightarrow> principal \<Rightarrow> string \<Rightarrow> string \<Rightarrow> ('r, uuid) dhandler" where
  "own_peer E p url cap =
     hbind (idFromURL E url) (\<lambda>i.
     hbind (lookupFabricID E ''GetBgpPeerSiteID'' (GetBgpPeerSiteID i) ''bgp peer not found'') (\<lambda>sid.
     hbind (enforceSite E p sid cap) (\<lambda>_.
     hreturn i)))"

definition peer_patch :: "dns_env \<Rightarrow> json_object \<Rightarrow> inet option \<Rightarrow> bgp_peer \<Rightarrow> bgp_peer" where
  "peer_patch E kvs ip b = b
     \<lparr>bp_name := coalesced kvs ''name'' into_string (bp_name b),
      bp_local_asn := coalesced kvs ''local_asn_id'' (into_uuid (parse_uuid E)) (bp_local_asn b),
      bp_peer_asn := coalesced kvs ''peer_asn_id'' (into_uuid (parse_uuid E)) (bp_peer_asn b),
      bp_ip := or_else ip (bp_ip b),
      bp_description := patched kvs ''peer_description'' into_string (bp_description b),
      bp_key_chain := patched kvs ''tcp_ao_key_chain_id'' (into_uuid (parse_uuid E)) (bp_key_chain b),
      bp_enabled := coalesced kvs ''enabled'' into_bool (bp_enabled b)\<rparr>"

definition updateBgpPeer :: "dns_env \<Rightarrow> principal \<Rightarrow> string \<Rightarrow> json option \<Rightarrow> (bgp_peer, bgp_peer resp) dhandler" where
  "updateBgpPeer E p url body =
     hbind (own_peer E p url ''dns:bgp-peers:update'') (\<lambda>i.
     dns_patch E body ''UpdateBgpPeer''
       (\<lambda>kvs. cast_inet E (field kvs ''peer_ip'' into_string) (\<lambda>ip. UpdateBgpPeer i (peer_patch E kvs ip)))
       ''bgp peer not found'' ''bgp_peer.update'' i)"

definition deleteBgpPeer :: "dns_env \<Rightarrow> principal \<Rightarrow> string \<Rightarrow> (bgp_peer, bgp_peer resp) dhandler" where
  "deleteBgpPeer E p url =
     hbind (own_peer E p url ''dns:bgp-peers:delete'') (\<lambda>i.
     hbind (ask E ''CountAnycastBindings''
              (reading (\<lambda>db. Inr (length (filter (\<lambda>b. ab_peer b = i) (bindings db)))))
              (mapErr ''bgp peer not found'')) (\<lambda>n.
     hbind (reject_if (0 < n) 409 ''bgp peer still bound to one or more DNS servers; unbind first'') (\<lambda>_.
     dns_delete E ''DeleteBgpPeer'' DeleteBgpPeer ''bgp peer not found'' ''bgp_peer.delete'' i)))"

section \<open>Anycast bindings\<close>

definition binding_check :: "anycast_binding \<Rightarrow> dns_db \<Rightarrow> dberr option" where
  "binding_check r db = first_error
     [(\<not> exists_row dv_id (ab_server r) (dns_servers db), fk_violation),
      (\<not> exists_row bp_id (ab_peer r) (bgp_peers db), fk_violation),
      (\<exists>b\<in>set (bindings db). ab_server b = ab_server r \<and> ab_peer b = ab_peer r, unique_violation)]"

definition put_bindings :: "anycast_binding list \<Rightarrow> dns_db \<Rightarrow> dns_db" where
  "put_bindings rs db = db\<lparr>bindings := rs\<rparr>"

definition GetAnycastBindingDnsServerFabricID :: "uuid \<Rightarrow> uuid dquery" where
  "GetAnycastBindingDnsServerFabricID i = reading (\<lambda>db. one_row (Option.bind (find_row ab_id i (bindings db))
     (\<lambda>b. map_option dv_fabric (find_row dv_id (ab_server b) (dns_servers db)))))"

definition CreateAnycastBinding :: "anycast_binding \<Rightarrow> anycast_binding dquery" where
  "CreateAnycastBinding = insert_row bindings put_bindings ab_id binding_check"

definition DeleteAnycastBinding :: "uuid \<Rightarrow> unit dquery" where
  "DeleteAnycastBinding = delete_row bindings put_bindings ab_id (\<lambda>db. False)"

text \<open>The body is the pair of the server and the peer.\<close>

definition createAnycastBinding ::
    "dns_env \<Rightarrow> principal \<Rightarrow> (uuid \<times> uuid) option \<Rightarrow> (anycast_binding, anycast_binding resp) dhandler" where
  "createAnycastBinding E p body =
     hbind (required body (\<lambda>q. fst q \<noteq> uuid_nil \<and> snd q \<noteq> uuid_nil) ''dns_server_id and bgp_peer_id required'') (\<lambda>req.
     hbind (lookupFabricID E ''GetDnsServerFabricID'' (GetDnsServerFabricID (fst req)) ''dns server not found'') (\<lambda>fid.
     hbind (enforceFabric p fid ''dns:anycast-bindings:create'') (\<lambda>_.
     dns_create E ''CreateAnycastBinding''
       (\<lambda>db. CreateAnycastBinding \<lparr>ab_id = gen_id E db, ab_server = fst req, ab_peer = snd req\<rparr> db)
       ab_id ''binding not found'' ''anycast_binding.create'')))"

definition deleteAnycastBinding :: "dns_env \<Rightarrow> principal \<Rightarrow> string \<Rightarrow> (anycast_binding, anycast_binding resp) dhandler" where
  "deleteAnycastBinding E p url =
     hbind (scoped_target E p url ''GetAnycastBindingDnsServerFabricID'' GetAnycastBindingDnsServerFabricID
              ''binding not found'' ''dns:anycast-bindings:delete'') (\<lambda>i.
     dns_delete E ''DeleteAnycastBinding'' DeleteAnycastBinding ''binding not found'' ''anycast_binding.delete'' i)"

end
