(* ===== verification/DnsRoutes.thy ===== *)
theory DnsRoutes
  imports DnsPolicies IpamRoutes
begin

text \<open>
  The mutating routes of \<^verbatim>\<open>Mount\<close> in \<^verbatim>\<open>internal/dns/handler.go\<close>: those on zones, records and
  keys, and those on the other resources, each with the capability it requires and its
  handler.  Of an answer the status is kept.  \<^verbatim>\<open>POST /servers/{id}/metrics\<close>, which stores
  floating-point samples, is left out.
\<close>

datatype zone_call =
    CreateZoneC "zone_req option"
  | UpdateZoneC string "json option"
  | DeleteZoneC string
  | FreezeC string
  | UnfreezeC string
  | SetNsec3C string "(string option \<times> int \<times> bool) option"
  | ClearNsec3C string
  | EnableDnssecC string
  | DisableDnssecC string
  | RotateKeyC string string
  | DeleteKeyC string
  | ImportC string "import_payload option"
  | SyncC string
  | CreateRecordC "record_req option"
  | UpdateRecordC string "json option"
  | DeleteRecordC string

datatype resource_call =
    CreateDnsServerC "dserver_req option"
  | UpdateDnsServerC string "json option"
  | DeleteDnsServerC string
  | RenderStatusC string "render_status option"
  | CreateGroupC "group_req option"
  | UpdateGroupC string "json option"
  | DeleteGroupC string
  | CreateForwarderC "forwarder_req option"
  | UpdateForwarderC string "json option"
  | DeleteForwarderC string
  | CreateCatalogC "(uuid \<times> string \<times> bool option) option"
  | UpdateCatalogC string "(string option \<times> bool option) option"
  | DeleteCatalogC string
  | DisableCatalogC string
  | CreateBlocklistC "blocklist_req option"
  | UpdateBlocklistC string "json option"
  | DeleteBlocklistC string
  | CreateEntryC string "(string \<times> string option) option"
  | BulkEntriesC string "string list option"
  | DeleteEntryC string
  | CreateViewC "view_req option"
  | UpdateViewC string "json option"
  | DeleteViewC string
  | CreateHealthC "health_req option"
  | UpdateHealthC string "json option"
  | DeleteHealthC string
  | HealthResultC string "(string \<times> string option) option"
  | CreatePeerC "peer_req option"
  | UpdatePeerC string "json option"
  | DeletePeerC string
  | BindC "(uuid \<times> uuid) option"
  | UnbindC string

datatype dns_call = ZoneCall zone_call | ResourceCall resource_call

definition dns_capability :: "dns_call \<Rightarrow> string" where
  "dns_capability c =
     (case c of
        ZoneCall z \<Rightarrow> (case z of
        CreateZoneC _ \<Rightarrow> ''dns:zones:create''
        | UpdateZoneC _ _ \<Rightarrow> ''dns:zones:update''
        | DeleteZoneC _ \<Rightarrow> ''dns:zones:delete''
        | FreezeC _ \<Rightarrow> ''dns:zones:update''
        | UnfreezeC _ \<Rightarrow> ''dns:zones:update''
        | SetNsec3C _ _ \<Rightarrow> ''dns:zones:update''
        | ClearNsec3C _ \<Rightarrow> ''dns:zones:update''
        | EnableDnssecC _ \<Rightarrow> ''dns:keys:rotate''
        | DisableDnssecC _ \<Rightarrow> ''dns:keys:rotate''
        | RotateKeyC _ _ \<Rightarrow> ''dns:keys:rotate''
        | DeleteKeyC _ \<Rightarrow> ''dns:keys:delete''
        | ImportC _ _ \<Rightarrow> ''dns:zones:update''
        | SyncC _ \<Rightarrow> ''dns:zones:update''
        | CreateRecordC _ \<Rightarrow> ''dns:records:create''
        | UpdateRecordC _ _ \<Rightarrow> ''dns:records:update''
        | DeleteRecordC _ \<Rightarrow> ''dns:records:delete'')
      | ResourceCall r \<Rightarrow> (case r of
        CreateDnsServerC _ \<Rightarrow> ''dns:servers:create''
        | UpdateDnsServerC _ _ \<Rightarrow> ''dns:servers:update''
        | DeleteDnsServerC _ \<Rightarrow> ''dns:servers:delete''
        | RenderStatusC _ _ \<Rightarrow> ''dns:servers:update''
        | CreateGroupC _ \<Rightarrow> ''dns:anycast-groups:create''
        | UpdateGroupC _ _ \<Rightarrow> ''dns:anycast-groups:update''
        | DeleteGroupC _ \<Rightarrow> ''dns:anycast-groups:delete''
        | CreateForwarderC _ \<Rightarrow> ''dns:forwarders:create''
        | UpdateForwarderC _ _ \<Rightarrow> ''dns:forwarders:update''
        | DeleteForwarderC _ \<Rightarrow> ''dns:forwarders:delete''
        | CreateCatalogC _ \<Rightarrow> ''dns:catalog-zones:create''
        | UpdateCatalogC _ _ \<Rightarrow> ''dns:catalog-zones:update''
        | DeleteCatalogC _ \<Rightarrow> ''dns:catalog-zones:delete''
        | DisableCatalogC _ \<Rightarrow> ''dns:keys:rotate''
        | CreateBlocklistC _ \<Rightarrow> ''dns:blocklists:create''
        | UpdateBlocklistC _ _ \<Rightarrow> ''dns:blocklists:update''
        | DeleteBlocklistC _ \<Rightarrow> ''dns:blocklists:delete''
        | CreateEntryC _ _ \<Rightarrow> ''dns:blocklists:update''
        | BulkEntriesC _ _ \<Rightarrow> ''dns:blocklists:update''
        | DeleteEntryC _ \<Rightarrow> ''dns:blocklists:update''
        | CreateViewC _ \<Rightarrow> ''dns:views:create''
        | UpdateViewC _ _ \<Rightarrow> ''dns:views:update''
        | DeleteViewC _ \<Rightarrow> ''dns:views:delete''
        | CreateHealthC _ \<Rightarrow> ''dns:health-checks:create''
        | UpdateHealthC _ _ \<Rightarrow> ''dns:health-checks:update''
        | DeleteHealthC _ \<Rightarrow> ''dns:health-checks:delete''
        | HealthResultC _ _ \<Rightarrow> ''dns:health-checks:update''
        | CreatePeerC _ \<Rightarrow> ''dns:bgp-peers:create''
        | UpdatePeerC _ _ \<Rightarrow> ''dns:bgp-peers:update''
        | DeletePeerC _ \<Rightarrow> ''dns:bgp-peers:delete''
        | BindC _ \<Rightarrow> ''dns:anycast-bindings:create''
        | UnbindC _ \<Rightarrow> ''dns:anycast-bindings:delete''))"

definition zone_handle :: "dns_env \<Rightarrow> principal \<Rightarrow> zone_call \<Rightarrow> dns_db \<Rightarrow> nat \<times> dns_db" where
  "zone_handle E p c =
     (case c of
        CreateZoneC b \<Rightarrow> to_status (createZone E p b)
      | UpdateZoneC i b \<Rightarrow> to_status (updateZone E p i b)
      | DeleteZoneC i \<Rightarrow> to_status (deleteZone E p i)
      | FreezeC i \<Rightarrow> to_status (freezeZone E p i)
      | UnfreezeC i \<Rightarrow> to_status (unfreezeZone E p i)
      | SetNsec3C i b \<Rightarrow> to_status (setZoneNsec3 E p i b)
      | ClearNsec3C i \<Rightarrow> to_status (clearZoneNsec3 E p i)
      | EnableDnssecC i \<Rightarrow> to_status (enableDnssec E p i)
      | DisableDnssecC i \<Rightarrow> to_status (disableDnssec E p i)
      | RotateKeyC i b \<Rightarrow> to_status (rotateZoneKey E p i b)
      | DeleteKeyC i \<Rightarrow> to_status (deleteDnsKey E p i)
      | ImportC i b \<Rightarrow> to_status (importZone E p i b)
      | SyncC i \<Rightarrow> to_status (syncFromIPAM E p i)
      | CreateRecordC b \<Rightarrow> to_status (createRecord E p b)
      | UpdateRecordC i b \<Rightarrow> to_status (updateRecord E p i b)
      | DeleteRecordC i \<Rightarrow> to_status (deleteRecord E p i))"

definition resource_handle :: "dns_env \<Rightarrow> principal \<Rightarrow> resource_call \<Rightarrow> dns_db \<Rightarrow> nat \<times> dns_db" where
  "resource_handle E p c =
     (case c of
        CreateDnsServerC b \<Rightarrow> to_status (createServer E p b)
      | UpdateDnsServerC i b \<Rightarrow> to_status (updateServer E p i b)
      | DeleteDnsServerC i \<Rightarrow> to_status (deleteServer E p i)
      | RenderStatusC i b \<Rightarrow> to_status (postServerRenderStatus E i b)
      | CreateGroupC b \<Rightarrow> to_status (createAnycastGroup E p b)
      | UpdateGroupC i b \<Rightarrow> to_status (updateAnycastGroup E p i b)
      | DeleteGroupC i \<Rightarrow> to_status (deleteAnycastGroup E p i)
      | CreateForwarderC b \<Rightarrow> to_status (createForwarder E p b)
      | UpdateForwarderC i b \<Rightarrow> to_status (updateForwarder E p i b)
      | DeleteForwarderC i \<Rightarrow> to_status (deleteForwarder E p i)
      | CreateCatalogC b \<Rightarrow> to_status (createCatalogZone E p b)
      | UpdateCatalogC i b \<Rightarrow> to_status (updateCatalogZone E p i b)
      | DeleteCatalogC i \<Rightarrow> to_status (deleteCatalogZone E p i)
      | DisableCatalogC i \<Rightarrow> to_status (disableCatalogDnssec E p i)
      | CreateBlocklistC b \<Rightarrow> to_status (createBlocklist E p b)
      | UpdateBlocklistC i b \<Rightarrow> to_status (updateBlocklist E p i b)
      | DeleteBlocklistC i \<Rightarrow> to_status (deleteBlocklist E p i)
      | CreateEntryC i b \<Rightarrow> to_status (createBlocklistEntry E p i b)
      | BulkEntriesC i b \<Rightarrow> to_status (bulkAddBlocklistEntries E p i b)
      | DeleteEntryC i \<Rightarrow> to_status (deleteBlocklistEntry E p i)
      | CreateViewC b \<Rightarrow> to_status (createView E p b)
      | UpdateViewC i b \<Rightarrow> to_status (updateView E p i b)
      | DeleteViewC i \<Rightarrow> to_status (deleteView E p i)
      | CreateHealthC b \<Rightarrow> to_status (createHealthCheck E p b)
      | UpdateHealthC i b \<Rightarrow> to_status (updateHealthCheck E p i b)
      | DeleteHealthC i \<Rightarrow> to_status (deleteHealthCheck E p i)
      | HealthResultC i b \<Rightarrow> to_status (postHealthCheckResult E i b)
      | CreatePeerC b \<Rightarrow> to_status (createBgpPeer E p b)
      | UpdatePeerC i b \<Rightarrow> to_status (updateBgpPeer E p i b)
      | DeletePeerC i \<Rightarrow> to_status (deleteBgpPeer E p i)
      | BindC b \<Rightarrow> to_status (createAnycastBinding E p b)
      | UnbindC i \<Rightarrow> to_status (deleteAnycastBinding E p i))"

definition dns_handle :: "dns_env \<Rightarrow> principal \<Rightarrow> dns_call \<Rightarrow> dns_db \<Rightarrow> nat \<times> dns_db" where
  "dns_handle E p c = (case c of ZoneCall z \<Rightarrow> zone_handle E p z | ResourceCall r \<Rightarrow> resource_handle E p r)"

text \<open>\<^verbatim>\<open>r.With(auth.RequireCapability(cap))\<close> before the handler.\<close>

definition dns_serve :: "dns_env \<Rightarrow> principal option \<Rightarrow> dns_call \<Rightarrow> dns_db \<Rightarrow> nat \<times> dns_db" where
  "dns_serve E caller c db =
     (case RequireCapability (dns_capability c) caller of
        Refuse code msg \<Rightarrow> (code, db)
      | Pass _ \<Rightarrow> (case caller of None \<Rightarrow> (500, db) | Some p \<Rightarrow> dns_handle E p c db))"

section \<open>An example\<close>

text \<open>An environment that never fails and where nobody else writes: ids are decimal numbers, the
  text of an address is that of \<^verbatim>\<open>netip\<close>, a document is its own \<^verbatim>\<open>jsonb\<close>, and key pairs, base64 and
  SHA-256 are stand-ins.\<close>

definition calm_env :: dns_env where
  "calm_env =
     \<lparr>gen_id = (\<lambda>db. 1000 + length (zones db) + length (zone_records db) + length (dns_keys db)
        + length (blocklist_entries db) + length (dns_servers db)),
      parse_uuid = (\<lambda>s. map_option nat (atoi s)),
      db_fault = (\<lambda>Q db. None),
      others = (\<lambda>Q db. db),
      to_inet = (\<lambda>s. map_option (\<lambda>a. (a, BitLen a)) (ParseAddr s)),
      host_text = (\<lambda>a. addr_string (fst a)),
      to_jsonb = Some,
      keypair = (\<lambda>alg db. Some (''PEM'', [1, 2, length (dns_keys db)])),
      coding = \<lparr>base64_text = map char_of, base64_bytes = (\<lambda>s. Some (map of_char s)), sha256 = (\<lambda>bs. [sum_list bs mod 256])\<rparr>,
      read_zone = (\<lambda>t origin. ([], True)),
      site_scope = (\<lambda>db. \<lparr>GetSiteRegionID = (\<lambda>i. Inl NoRows), ListSiteGroupIDsForSite = (\<lambda>i. Inr []),
        GetSiteOrganizationID = (\<lambda>i. Inl NoRows), ListSiteIDsForExpansion = (\<lambda>d. Inr []),
        ListRegionIDsForSiteIDs = (\<lambda>s. Inr [])\<rparr>),
      data_err_text = (\<lambda>e. ''invalid'')\<rparr>"

text \<open>A signed site zone of fabric 1 and one of fabric 2, each with an address record and two keys,
  over the plan of two fabrics.\<close>

definition example_zone :: "uuid \<Rightarrow> string \<Rightarrow> bool \<Rightarrow> dns_zone" where
  "example_zone i name frozen =
     \<lparr>z_id = i, z_name = name, z_kind = ''site'', z_fabric = i, z_site = Some (90 + i), z_description = None,
      z_mname = ''ns1'', z_rname = ''hostmaster'', z_refresh = 900, z_retry = 900, z_expire = 1800, z_minimum = 60,
      z_default_ttl = 60, z_signed = True, z_zsk_days = 30, z_salt = None, z_iterations = 0, z_opt_out = False,
      z_publish_cds = True, z_frozen = frozen, z_updated = 100\<rparr>"

definition example_record :: "uuid \<Rightarrow> uuid \<Rightarrow> string \<Rightarrow> dns_record" where
  "example_record i z source =
     \<lparr>r_id = i, r_zone = z, r_name = ''www'', r_type = ''A'', r_ttl = None, r_data = target_data ''10.1.0.5'',
      r_source = source, r_ipam = None, r_view = None, r_health = None, r_description = None\<rparr>"

definition example_key :: "uuid \<Rightarrow> uuid \<Rightarrow> string \<Rightarrow> dns_key" where
  "example_key i z role =
     \<lparr>k_id = i, k_zone = Some z, k_catalog = None, k_role = role, k_algorithm = ''ecdsap256sha256'',
      k_private = ''PEM'', k_public = ''AQID'', k_tag = 7, k_active_from = 10, k_retired = None\<rparr>"

definition example_dns :: "bool \<Rightarrow> dns_db" where
  "example_dns frozen =
     \<lparr>zones = [example_zone 1 ''a.test'' frozen, example_zone 2 ''b.test'' False],
      zone_records = [example_record 51 1 ''manual'', example_record 52 2 ''manual''],
      dns_keys = [example_key 61 1 ''ksk'', example_key 62 1 ''zsk'', example_key 63 2 ''ksk'', example_key 64 2 ''zsk''],
      dns_servers = [], anycast_groups = [], forwarders = [], catalogs = [], blocklists = [], blocklist_entries = [],
      views = [], health_checks = [], bgp_peers = [], bindings = [], plan = example_plan,
      dns_clock = 5000000, dns_log = []\<rparr>"

end
