(* ===== verification/DnsFrame.thy ===== *)
theory DnsFrame
  imports DnsRoutes IpamReadProps IpamPlan
begin

text \<open>
  The part of the DNS tables that belongs to one zone (its row, its records, its keys), and
  the statements and steps that leave it alone.
\<close>

section \<open>The part of a zone\<close>

definition zone_rows :: "uuid \<Rightarrow> dns_db \<Rightarrow> dns_zone list" where
  "zone_rows i db = filter (\<lambda>z. z_id z = i) (zones db)"

definition records_of :: "uuid \<Rightarrow> dns_db \<Rightarrow> dns_record list" where
  "records_of i db = filter (\<lambda>r. r_zone r = i) (zone_records db)"

definition keys_of :: "uuid \<Rightarrow> dns_db \<Rightarrow> dns_key list" where
  "keys_of i db = filter (\<lambda>k. k_zone k = Some i) (dns_keys db)"

definition zone_part :: "uuid \<Rightarrow> dns_db \<Rightarrow> dns_zone list \<times> dns_record list \<times> dns_key list" where
  "zone_part i db = (zone_rows i db, records_of i db, keys_of i db)"

text \<open>What Postgres keeps: the primary keys, and that a key of a zone is of no catalog.\<close>

definition dns_keyed :: "dns_db \<Rightarrow> bool" where
  "dns_keyed db \<longleftrightarrow> distinct (map z_id (zones db)) \<and> distinct (map r_id (zone_records db))
     \<and> distinct (map k_id (dns_keys db)) \<and> (\<forall>k\<in>set (dns_keys db). k_zone k = None \<or> k_catalog k = None)"

definition held :: "uuid \<Rightarrow> dns_db \<Rightarrow> dns_db \<Rightarrow> bool" where
  "held i db0 db \<longleftrightarrow> dns_keyed db \<and> zone_part i db = zone_part i db0"

text \<open>Other transactions leave the zone alone, which is there.\<close>

definition fence :: "('z) dns_env_scheme \<Rightarrow> uuid \<Rightarrow> dns_zone \<Rightarrow> dns_db \<Rightarrow> bool" where
  "fence E i z0 db0 \<longleftrightarrow>
     (\<forall>Q db. dns_keyed db \<longrightarrow> held i db (others E Q db)) \<and> zone_rows i db0 = [z0]"

lemmas part_simps = held_def zone_part_def zone_rows_def records_of_def keys_of_def dns_keyed_def

lemma held_others: "\<lbrakk>fence E i z0 db0; held i db0 db\<rbrakk> \<Longrightarrow> held i db0 (others E Q db)"
  unfolding fence_def held_def by simp

lemma held_ask: "\<lbrakk>fence E i z0 db0; keeps (held i db0) f q\<rbrakk> \<Longrightarrow> keeps (held i db0) (ask E Q f onerr) q"
  by (rule keeps_ask) (simp_all add: held_others)

lemma held_iexec: "\<lbrakk>fence E i z0 db0; keeps (held i db0) f q\<rbrakk> \<Longrightarrow> keeps (held i db0) (iexec E Q f) q"
  by (rule keeps_iexec) (simp_all add: held_others)

lemma held_log [simp]: "held i db0 (db\<lparr>dns_log := l\<rparr>) = held i db0 db"
  by (simp add: part_simps)

lemma held_audit: "fence E i z0 db0 \<Longrightarrow> keeps (held i db0) (dns_audit E action j) (\<lambda>_. True)"
  by (auto simp: keeps_def dns_audit_def Let_def held_others split: option.split)

lemma held_tail: "fence E i z0 db0 \<Longrightarrow> keeps (held i db0) (hbind (dns_audit E action j) (\<lambda>_. hreturn r)) (\<lambda>_. True)"
  by (rule keeps_bind[OF held_audit keeps_done])

section \<open>Statements\<close>

lemma held_read: "keeps (held i db0) (reading g) (\<lambda>_. True)"
  by (rule keeps_any_reading)

lemma zone_row_found:
  assumes "held i db0 db" "zone_rows i db0 = [z0]" "z \<in> set (zones db)" "z_id z = i"
  shows "z = z0"
proof -
  have "z \<in> set (zone_rows i db)" using assms(3,4) by (simp add: zone_rows_def)
  then show ?thesis using assms(1,2) by (simp add: held_def zone_part_def)
qed

lemma held_GetDnsZone:
  assumes "fence E i z0 db0"
  shows "keeps (held i db0) (GetDnsZone j) (\<lambda>z. z_id z = j \<and> (j = i \<longrightarrow> z = z0))"
  unfolding GetDnsZone_def get_row_def
proof (rule keeps_reading)
  fix db x assume "held i db0 db" "one_row (find_row z_id j (zones db)) = Inr x"
  then show "z_id x = j \<and> (j = i \<longrightarrow> x = z0)"
    using assms zone_row_found[of i db0 db z0 x] find_row_SomeD[of z_id j "zones db" x]
    by (auto simp: one_row_def fence_def split: option.splits)
qed

lemma held_GetDnsZoneFabricID:
  assumes "fence E i z0 db0"
  shows "keeps (held i db0) (GetDnsZoneFabricID j) (\<lambda>f. j = i \<longrightarrow> f = z_fabric z0)"
  unfolding GetDnsZoneFabricID_def
proof (rule keeps_reading)
  fix db x assume "held i db0 db" "one_row (map_option z_fabric (find_row z_id j (zones db))) = Inr x"
  then show "j = i \<longrightarrow> x = z_fabric z0"
    using assms zone_row_found[of i db0 db z0] find_row_SomeD[of z_id j "zones db"]
    by (auto simp: one_row_def fence_def split: option.splits)
qed

lemma held_put_zones:
  assumes "held i db0 db" "distinct (map z_id rs)" "filter (\<lambda>z. z_id z = i) rs = zone_rows i db"
  shows "held i db0 (put_zones rs db)"
  using assms by (simp add: part_simps put_zones_def)

lemma held_stamp:
  assumes "j \<noteq> i" "\<And>z. z_id (f z) = z_id z"
  shows "keeps (held i db0) (stamp_zone j f) (\<lambda>_. True)"
  unfolding stamp_zone_def
proof (rule keeps_by_state, rule keeps_update)
  fix t db assume h: "held i db0 db"
  let ?g = "\<lambda>z. (f z)\<lparr>z_updated := t\<rparr>"
  have "filter (\<lambda>z. z_id z = i) (change_row z_id j ?g (zones db)) = zone_rows i db"
    unfolding zone_rows_def using assms by (intro filter_change_row) auto
  then show "held i db0 (put_zones (change_row z_id j ?g (zones db)) db)"
    using h assms(2) by (intro held_put_zones) (simp_all add: part_simps)
qed

lemma held_insert_zone:
  assumes "zone_rows i db0 = [z0]"
  shows "keeps (held i db0) (insert_row zones put_zones z_id check r) (\<lambda>_. True)"
proof (rule keeps_insert)
  fix db assume h: "held i db0 db" and fresh: "z_id r \<notin> z_id ` set (zones db)"
  have "zone_rows i db = [z0]" using h assms by (simp add: held_def zone_part_def)
  then have "z0 \<in> set (zones db)" "z_id z0 = i" unfolding zone_rows_def by (auto dest: filter_eq_ConsD)
  then have "z_id r \<noteq> i" using fresh by auto
  then show "held i db0 (put_zones (zones db @ [r]) db)"
    using h fresh by (intro held_put_zones) (auto simp: part_simps)
qed

lemma held_put_records:
  assumes "held i db0 db" "distinct (map r_id rs)" "filter (\<lambda>r. r_zone r = i) rs = records_of i db"
  shows "held i db0 (put_records rs db)"
  using assms by (simp add: part_simps put_records_def)

lemma held_put_keys:
  assumes "held i db0 db" "distinct (map k_id rs)" "filter (\<lambda>k. k_zone k = Some i) rs = keys_of i db"
    and "\<forall>k\<in>set rs. k_zone k = None \<or> k_catalog k = None"
  shows "held i db0 (put_keys rs db)"
  using assms by (simp add: part_simps put_keys_def)

lemma held_insert_record:
  assumes "r_zone r \<noteq> i"
  shows "keeps (held i db0) (insert_row zone_records put_records r_id check r) (\<lambda>_. True)"
proof (rule keeps_insert)
  fix db assume "held i db0 db" "r_id r \<notin> r_id ` set (zone_records db)"
  then show "held i db0 (put_records (zone_records db @ [r]) db)"
    using assms by (intro held_put_records) (auto simp: part_simps)
qed

lemma held_CreateDnsRecord: "r_zone r \<noteq> i \<Longrightarrow> keeps (held i db0) (CreateDnsRecord E r) (\<lambda>_. True)"
  by (auto simp: CreateDnsRecord_def with_jsonb_def intro!: held_read held_insert_record split: option.split)

lemma held_update_record:
  assumes "j \<notin> r_id ` set (records_of i db0)" "\<And>r. r_id (g r) = r_id r" "\<And>r. r_zone (g r) = r_zone r"
  shows "keeps (held i db0) (UpdateDnsRecord j g) (\<lambda>_. True)"
  unfolding UpdateDnsRecord_def
proof (rule keeps_update)
  fix db assume h: "held i db0 db"
  have "filter (\<lambda>r. r_zone r = i) (change_row r_id j g (zone_records db)) = records_of i db"
    unfolding records_of_def
    using assms(1) h by (intro filter_change_row) (auto simp: assms(3) held_def zone_part_def records_of_def)
  then show "held i db0 (put_records (change_row r_id j g (zone_records db)) db)"
    using h assms(2) by (intro held_put_records) (simp_all add: part_simps)
qed

lemma held_delete_record:
  assumes "j \<notin> r_id ` set (records_of i db0)"
  shows "keeps (held i db0) (DeleteDnsRecord j) (\<lambda>_. True)"
  unfolding DeleteDnsRecord_def
proof (rule keeps_delete)
  fix db assume h: "held i db0 db"
  have "filter (\<lambda>r. r_zone r = i) (drop_row r_id j (zone_records db)) = records_of i db"
    unfolding records_of_def
    using assms h by (intro filter_drop_row) (auto simp: held_def zone_part_def records_of_def)
  then show "held i db0 (put_records (drop_row r_id j (zone_records db)) db)"
    using h by (intro held_put_records) (simp_all add: part_simps distinct_drop_row)
qed

lemma held_drop_records:
  assumes "\<And>r. r_zone r = i \<Longrightarrow> Q r" "held i db0 db"
  shows "held i db0 (put_records (filter Q (zone_records db)) db)"
proof (rule held_put_records[OF assms(2)])
  show "distinct (map r_id (filter Q (zone_records db)))"
    using assms(2) by (simp add: part_simps distinct_map_filter)
  have "\<And>r. (Q r \<and> r_zone r = i) = (r_zone r = i)" using assms(1) by blast
  then show "filter (\<lambda>r. r_zone r = i) (filter Q (zone_records db)) = records_of i db"
    by (simp add: records_of_def conj_commute)
qed

lemma held_DeleteManual: "j \<noteq> i \<Longrightarrow> keeps (held i db0) (DeleteManualRecordsInZone j) (\<lambda>_. True)"
  by (auto simp: keeps_def DeleteManualRecordsInZone_def intro: held_drop_records)

lemma held_DeleteIPAM: "i \<notin> set is \<Longrightarrow> keeps (held i db0) (DeleteIPAMRecordsInZones is) (\<lambda>_. True)"
  by (auto simp: keeps_def DeleteIPAMRecordsInZones_def intro: held_drop_records)

lemma held_CreateDnsKey:
  assumes "k_zone k \<noteq> Some i"
  shows "keeps (held i db0) (CreateDnsKey k) (\<lambda>_. True)"
  unfolding CreateDnsKey_def
proof (rule keeps_insert)
  fix db assume h: "held i db0 db" and f: "k_id k \<notin> k_id ` set (dns_keys db)" and "key_check k db = None"
  then have "k_zone k = None \<or> k_catalog k = None" by (auto simp: key_check_def first_error_None)
  then show "held i db0 (put_keys (dns_keys db @ [k]) db)"
    using h f assms by (intro held_put_keys) (auto simp: part_simps)
qed

lemma held_RetireDnsKey:
  assumes "j \<notin> k_id ` set (keys_of i db0)"
  shows "keeps (held i db0) (RetireDnsKey j) (\<lambda>_. True)"
  unfolding RetireDnsKey_def
proof (rule keeps_by_state, rule keeps_exec_only, rule keeps_update)
  fix t db assume h: "held i db0 db"
  let ?g = "\<lambda>k. k\<lparr>k_retired := Some t\<rparr>"
  have "filter (\<lambda>k. k_zone k = Some i) (change_row k_id j ?g (dns_keys db)) = keys_of i db"
    unfolding keys_of_def
    using assms h by (intro filter_change_row) (auto simp: held_def zone_part_def keys_of_def)
  then show "held i db0 (put_keys (change_row k_id j ?g (dns_keys db)) db)"
    using h by (intro held_put_keys) (simp_all add: part_simps, auto simp: change_row_def)
qed

lemma held_drop_keys:
  assumes "\<And>k. \<lbrakk>k \<in> set (dns_keys db); k_zone k = Some i\<rbrakk> \<Longrightarrow> Q k" "held i db0 db"
  shows "held i db0 (put_keys (filter Q (dns_keys db)) db)"
proof (rule held_put_keys[OF assms(2)])
  show "distinct (map k_id (filter Q (dns_keys db)))"
    using assms(2) by (simp add: part_simps distinct_map_filter)
  show "filter (\<lambda>k. k_zone k = Some i) (filter Q (dns_keys db)) = keys_of i db"
    unfolding keys_of_def filter_filter using assms(1) by (intro filter_cong) auto
  show "\<forall>k\<in>set (filter Q (dns_keys db)). k_zone k = None \<or> k_catalog k = None"
    using assms(2) by (auto simp: part_simps)
qed

lemma held_DeleteDnsKey:
  assumes "j \<notin> k_id ` set (keys_of i db0)"
  shows "keeps (held i db0) (DeleteDnsKey j) (\<lambda>_. True)"
  unfolding DeleteDnsKey_def
proof (rule keeps_delete)
  fix db assume h: "held i db0 db"
  then have "keys_of i db = keys_of i db0" by (simp add: held_def zone_part_def)
  then have "j \<notin> k_id ` set (keys_of i db)" using assms by simp
  then have "\<And>k. \<lbrakk>k \<in> set (dns_keys db); k_zone k = Some i\<rbrakk> \<Longrightarrow> k_id k \<noteq> j"
    by (auto simp: keys_of_def)
  then show "held i db0 (put_keys (drop_row k_id j (dns_keys db)) db)"
    unfolding drop_row_def using h by (intro held_drop_keys) auto
qed

lemma held_DeleteAllDnsKeys: "j \<noteq> i \<Longrightarrow> keeps (held i db0) (DeleteAllDnsKeysForZone j) (\<lambda>_. True)"
  by (auto simp: keeps_def DeleteAllDnsKeysForZone_def intro: held_drop_keys)

lemma held_DeleteDnsKeysByCatalog: "keeps (held i db0) (DeleteDnsKeysByCatalog c) (\<lambda>_. True)"
  unfolding keeps_def DeleteDnsKeysByCatalog_def
proof (clarsimp, rule held_drop_keys)
  fix db k assume "held i db0 db" "k \<in> set (dns_keys db)" "k_zone k = Some i"
  then show "k_catalog k \<noteq> Some c" by (auto simp: held_def dns_keyed_def)
qed

lemma held_DeleteDnsZone:
  assumes "j \<noteq> i"
  shows "keeps (held i db0) (DeleteDnsZone j) (\<lambda>_. True)"
  unfolding DeleteDnsZone_def
proof (rule keeps_delete)
  fix db assume h: "held i db0 db"
  have "held i db0 (put_zones (drop_row z_id j (zones db)) db)"
  proof (rule held_put_zones[OF h])
    show "distinct (map z_id (drop_row z_id j (zones db)))" using h by (simp add: part_simps distinct_drop_row)
    show "filter (\<lambda>z. z_id z = i) (drop_row z_id j (zones db)) = zone_rows i db"
      unfolding zone_rows_def using assms by (intro filter_drop_row) auto
  qed
  then have "held i db0 (put_keys (filter (\<lambda>k. k_zone k \<noteq> Some j) (dns_keys db)) (put_zones (drop_row z_id j (zones db)) db))"
    using assms held_drop_keys[of "put_zones (drop_row z_id j (zones db)) db" i "\<lambda>k. k_zone k \<noteq> Some j" db0]
    by (simp add: put_zones_def)
  then show "held i db0 (db\<lparr>zones := drop_row z_id j (zones db),
      dns_keys := filter (\<lambda>k. k_zone k \<noteq> Some j) (dns_keys db)\<rparr>)"
    by (simp add: put_zones_def put_keys_def)
qed

text \<open>A table that is none of the three.\<close>

definition aside :: "('r list \<Rightarrow> dns_db \<Rightarrow> dns_db) \<Rightarrow> bool" where
  "aside put \<longleftrightarrow> (\<forall>rs db. zones (put rs db) = zones db \<and> zone_records (put rs db) = zone_records db
     \<and> dns_keys (put rs db) = dns_keys db)"

lemma held_aside:
  assumes "aside put"
  shows "keeps (held i db0) (insert_row rows put key check r) (\<lambda>_. True)"
    "keeps (held i db0) (update_row rows put key check j g) (\<lambda>_. True)"
    "keeps (held i db0) (delete_row rows put key referenced j) (\<lambda>_. True)"
proof -
  have p: "held i db0 db \<Longrightarrow> held i db0 (put rs db)" for rs db
    using assms by (simp add: aside_def part_simps)
  show "keeps (held i db0) (insert_row rows put key check r) (\<lambda>_. True)"
    "keeps (held i db0) (update_row rows put key check j g) (\<lambda>_. True)"
    "keeps (held i db0) (delete_row rows put key referenced j) (\<lambda>_. True)"
    by (rule keeps_insert keeps_update keeps_delete, erule p)+
qed

end
