(* ===== verification/DnsFence.thy ===== *)
theory DnsFence
  imports DnsFrame
begin

text \<open>
  What no DNS route reaches: a frozen zone, and a zone of a fabric outside the caller's
  scope.  Each handler is shown to leave the zone alone when one of the two bars it.
\<close>

section \<open>Finding the zone\<close>

definition foreign :: "principal \<Rightarrow> string \<Rightarrow> dns_zone \<Rightarrow> bool" where
  "foreign p cap z \<longleftrightarrow> EnforceFabricScope p (z_fabric z) cap \<noteq> None"

definition barred :: "principal \<Rightarrow> string \<Rightarrow> dns_zone \<Rightarrow> bool" where
  "barred p cap z \<longleftrightarrow> z_frozen z \<or> foreign p cap z"

lemma keeps_enforced: "keeps P (enforceFabric p f cap) (\<lambda>_. EnforceFabricScope p f cap = None)"
  unfolding enforceFabric_def by (rule keeps_forbid)

lemma held_scoped_zone:
  assumes "fence E i z0 db0"
  shows "keeps (held i db0) (own_zone E p url cap) (\<lambda>z. (z_id z = i \<longrightarrow> z = z0) \<and> \<not> foreign p cap z)"
  unfolding own_zone_def
proof (rule keeps_bind[OF keeps_idFromURL], rule keeps_bind[OF held_ask[OF assms held_GetDnsZone[OF assms]]],
    rule keeps_bind[OF keeps_enforced], rule keeps_return)
  fix j z assume "z_id z = j \<and> (j = i \<longrightarrow> z = z0)" "EnforceFabricScope p (z_fabric z) cap = None"
  then show "(z_id z = i \<longrightarrow> z = z0) \<and> \<not> foreign p cap z" by (auto simp: foreign_def)
qed

lemma held_own_zone:
  assumes "fence E i z0 db0"
  shows "keeps (held i db0) (own_zone E p url cap) (\<lambda>z. z_id z = i \<longrightarrow> z = z0 \<and> \<not> foreign p cap z0)"
  by (rule keeps_weaken[OF held_scoped_zone[OF assms]]) auto

lemma held_open_zone:
  assumes "fence E i z0 db0" "barred p cap z0" "\<And>z. z_id z \<noteq> i \<Longrightarrow> keeps (held i db0) (k z) q"
  shows "keeps (held i db0) (hbind (own_zone E p url cap) (\<lambda>z. hbind (reject_if (z_frozen z) c m) (\<lambda>_. k z))) q"
proof (rule keeps_bind[OF held_own_zone[OF assms(1)]], rule keeps_bind[OF keeps_reject_if])
  fix z assume "z_id z = i \<longrightarrow> z = z0 \<and> \<not> foreign p cap z0" "\<not> z_frozen z"
  then show "keeps (held i db0) (k z) q" using assms(2) by (intro assms(3)) (auto simp: barred_def)
qed

lemma held_own_foreign:
  assumes "fence E i z0 db0" "foreign p cap z0" "\<And>z. z_id z \<noteq> i \<Longrightarrow> keeps (held i db0) (k z) q"
  shows "keeps (held i db0) (hbind (own_zone E p url cap) k) q"
  by (rule keeps_bind[OF held_own_zone[OF assms(1)]], rule assms(3)) (use assms(2) in blast)

lemma held_target:
  assumes "fence E i z0 db0" "keeps (held i db0) (getter j) (\<lambda>f. W j \<longrightarrow> f = z_fabric z0)"
  shows "keeps (held i db0) (hbind (lookupFabricID E Q (getter j) m) (\<lambda>fid. hbind (enforceFabric p fid cap) (\<lambda>_. hreturn j)))
     (\<lambda>j'. j' = j \<and> (W j \<longrightarrow> \<not> foreign p cap z0))"
  unfolding lookupFabricID_def
  by (rule keeps_bind[OF held_ask[OF assms]], rule keeps_bind[OF keeps_enforced], rule keeps_return)
    (auto simp: foreign_def)

lemma held_scoped:
  assumes "fence E i z0 db0" "\<And>j. keeps (held i db0) (getter j) (\<lambda>f. W j \<longrightarrow> f = z_fabric z0)"
  shows "keeps (held i db0) (scoped_target E p url Q getter m cap) (\<lambda>j. W j \<longrightarrow> \<not> foreign p cap z0)"
  unfolding scoped_target_def
  by (rule keeps_bind[OF keeps_idFromURL], rule keeps_weaken[OF held_target[where W = W, OF assms]]) auto

lemma held_scoped_any:
  assumes "fence E i z0 db0" "\<And>j. keeps (held i db0) (getter j) (\<lambda>_. True)"
  shows "keeps (held i db0) (scoped_target E p url Q getter m cap) (\<lambda>_. True)"
proof (rule keeps_weaken[OF held_scoped[where W = "\<lambda>_. False", OF assms(1)]])
  show "keeps (held i db0) (getter j) (\<lambda>f. False \<longrightarrow> f = z_fabric z0)" for j
    using keeps_weaken[OF assms(2), of "\<lambda>f. False \<longrightarrow> f = z_fabric z0" j] by simp
qed simp

text \<open>The records of the zone and their zone's fabric and flag.\<close>

lemma record_of_zone:
  assumes "fence E i z0 db0" "held i db0 db" "j \<in> r_id ` set (records_of i db0)"
  shows "Option.bind (find_row r_id j (zone_records db)) (\<lambda>r. map_option h (find_row z_id (r_zone r) (zones db)))
     = Some (h z0)"
proof -
  have "records_of i db = records_of i db0" using assms(2) by (simp add: held_def zone_part_def)
  then obtain r where "r \<in> set (records_of i db)" and j: "r_id r = j" using assms(3) by auto
  then have r: "r \<in> set (zone_records db)" "r_id r = j" "r_zone r = i" by (auto simp: records_of_def)
  obtain r' where r': "find_row r_id j (zone_records db) = Some r'"
    using r by (cases "find_row r_id j (zone_records db)") (auto simp: find_row_None)
  then have "r' = r"
    using r assms(2) find_row_unique[of r_id "zone_records db" j r' r] by (simp add: held_def dns_keyed_def)
  moreover have "zone_rows i db = [z0]" using assms(1,2) by (simp add: fence_def held_def zone_part_def)
  then have "z0 \<in> set (zones db)" "z_id z0 = i" unfolding zone_rows_def by (auto dest: filter_eq_ConsD)
  then obtain z' where "find_row z_id i (zones db) = Some z'"
    by (cases "find_row z_id i (zones db)") (auto simp: find_row_None)
  moreover from this have "z' = z0"
    using find_row_SomeD[of z_id i "zones db" z'] zone_row_found[OF assms(2)] assms(1) by (auto simp: fence_def)
  ultimately show ?thesis using r r' by simp
qed

lemma held_GetDnsRecordFabricID:
  assumes "fence E i z0 db0"
  shows "keeps (held i db0) (GetDnsRecordFabricID j) (\<lambda>f. j \<in> r_id ` set (records_of i db0) \<longrightarrow> f = z_fabric z0)"
  unfolding GetDnsRecordFabricID_def
  by (rule keeps_reading) (auto simp: one_row_def record_of_zone[OF assms] split: option.splits)

lemma held_refuse_frozen:
  assumes "fence E i z0 db0"
  shows "keeps (held i db0) (refuse_frozen_by_record E j) (\<lambda>_. j \<in> r_id ` set (records_of i db0) \<longrightarrow> \<not> z_frozen z0)"
proof -
  have "keeps (held i db0) (GetZoneFrozenByRecord j)
      (\<lambda>zf. j \<in> r_id ` set (records_of i db0) \<longrightarrow> snd zf = z_frozen z0)"
    unfolding GetZoneFrozenByRecord_def
    by (rule keeps_reading) (auto simp: one_row_def record_of_zone[OF assms] split: option.splits)
  then show ?thesis
    unfolding refuse_frozen_by_record_def
    by (rule keeps_bind[OF held_ask[OF assms]]) (rule keeps_weaken[OF keeps_reject_if], simp)
qed

section \<open>Tails\<close>

lemma keeps_if: "\<lbrakk>keeps P f q; keeps P g q\<rbrakk> \<Longrightarrow> keeps P (if b then f else g) q"
  by simp

lemma keeps_snd: "\<lbrakk>keeps P f q; P db\<rbrakk> \<Longrightarrow> P (snd (f db))"
  by (simp add: keeps_def)

lemma held_dns_patch:
  assumes "fence E i z0 db0" "\<And>kvs. keeps (held i db0) (upd kvs) (\<lambda>_. True)"
  shows "keeps (held i db0) (dns_patch E body Q upd m a j) (\<lambda>_. True)"
  unfolding dns_patch_def
  by (rule keeps_bind[OF keeps_patch_body], rule keeps_bind[OF held_ask[OF assms]], rule held_tail[OF assms(1)])

lemma held_dns_delete:
  assumes "fence E i z0 db0" "keeps (held i db0) (del j) (\<lambda>_. True)"
  shows "keeps (held i db0) (dns_delete E Q del m a j) (\<lambda>_. True)"
  unfolding dns_delete_def by (rule keeps_bind[OF held_ask[OF assms]], rule held_tail[OF assms(1)])

lemma held_dns_create:
  assumes "fence E i z0 db0" "keeps (held i db0) ins (\<lambda>_. True)"
  shows "keeps (held i db0) (dns_create E Q ins key m a) (\<lambda>_. True)"
  unfolding dns_create_def by (rule keeps_bind[OF held_ask[OF assms]], rule held_tail[OF assms(1)])

lemma held_answer:
  assumes "fence E i z0 db0" "keeps (held i db0) s (\<lambda>_. True)"
  shows "keeps (held i db0) (hbind (ask E Q s onerr) (\<lambda>out. hbind (dns_audit E a (j out)) (\<lambda>_. hreturn (r out)))) (\<lambda>_. True)"
  by (rule keeps_bind[OF held_ask[OF assms]], rule held_tail[OF assms(1)])

lemma keeps_serve_query: "keeps P q r \<Longrightarrow> keeps P (serve_query q) r"
  by (auto simp: keeps_def serve_query_def split: prod.splits sum.splits)

lemma keeps_cast: "(\<And>a. keeps P (q a) r) \<Longrightarrow> keeps P (cast_inet E s q) r"
  by (auto simp: cast_inet_def keeps_def reading_def split: option.split)

lemma held_jsonb: "(\<And>j. keeps P (q j) (\<lambda>_. True)) \<Longrightarrow> keeps P (with_jsonb E d q) (\<lambda>_. True)"
  by (auto simp: with_jsonb_def keeps_any_reading split: option.split)

section \<open>Zones and records\<close>

lemma createZone_held:
  assumes "fence E i z0 db0"
  shows "keeps (held i db0) (createZone E p body) (\<lambda>_. True)"
proof -
  have "zone_rows i db0 = [z0]" using assms by (simp add: fence_def)
  note ins = held_insert_zone[OF this]
  show ?thesis
    unfolding createZone_def CreateDnsZone_def
    by (rule keeps_bind[OF keeps_required], rule keeps_bind[OF keeps_enforced], rule held_answer[OF assms],
        rule keeps_by_state, rule ins)
qed

lemma zone_target_held:
  assumes "fence E i z0 db0" "foreign p cap z0"
  shows "keeps (held i db0) (scoped_target E p url Q GetDnsZoneFabricID m cap) (\<lambda>j. j \<noteq> i)"
  by (rule keeps_weaken[OF held_scoped[where W = "\<lambda>j. j = i", OF assms(1) held_GetDnsZoneFabricID[OF assms(1)]]])
    (use assms(2) in auto)

lemma updateZone_held:
  assumes "fence E i z0 db0" "foreign p ''dns:zones:update'' z0"
  shows "keeps (held i db0) (updateZone E p url body) (\<lambda>_. True)"
  unfolding updateZone_def UpdateDnsZone_def
  by (rule keeps_bind[OF zone_target_held[OF assms]], rule held_dns_patch[OF assms(1)], erule held_stamp)
    (simp add: zone_patch_def)

lemma deleteZone_held:
  assumes "fence E i z0 db0" "foreign p ''dns:zones:delete'' z0"
  shows "keeps (held i db0) (deleteZone E p url) (\<lambda>_. True)"
  unfolding deleteZone_def
  by (rule keeps_bind[OF zone_target_held[OF assms]], rule held_dns_delete[OF assms(1)], erule held_DeleteDnsZone)

lemma setFrozen_held:
  assumes "fence E i z0 db0" "foreign p ''dns:zones:update'' z0"
  shows "keeps (held i db0) (setFrozen E p url b a) (\<lambda>_. True)"
  unfolding setFrozen_def SetDnsZoneFrozen_def
  by (rule keeps_bind[OF zone_target_held[OF assms]], rule held_answer[OF assms(1)], erule held_stamp) simp

lemma setZoneNsec3_held:
  assumes "fence E i z0 db0" "barred p ''dns:zones:update'' z0"
  shows "keeps (held i db0) (setZoneNsec3 E p url body) (\<lambda>_. True)"
  unfolding setZoneNsec3_def SetDnsZoneNsec3_def
  by (rule keeps_bind[OF keeps_idFromURL], rule keeps_bind[OF keeps_required], split prod.split, intro allI impI,
      split prod.split, intro allI impI, rule keeps_bind[OF keeps_reject_if], rule keeps_bind[OF keeps_reject_if],
      rule held_open_zone[OF assms], rule keeps_bind[OF keeps_reject_if], rule held_answer[OF assms(1)],
      erule held_stamp) simp

lemma clearZoneNsec3_held:
  assumes "fence E i z0 db0" "barred p ''dns:zones:update'' z0"
  shows "keeps (held i db0) (clearZoneNsec3 E p url) (\<lambda>_. True)"
  unfolding clearZoneNsec3_def SetDnsZoneNsec3_def
  by (rule held_open_zone[OF assms], rule held_answer[OF assms(1)], erule held_stamp) simp

lemma createRecord_held:
  assumes "fence E i z0 db0" "barred p ''dns:records:create'' z0"
  shows "keeps (held i db0) (createRecord E p body) (\<lambda>_. True)"
  unfolding createRecord_def
proof (rule keeps_bind[OF keeps_required], rule keeps_bind[OF held_ask[OF assms(1) held_GetDnsZone[OF assms(1)]]],
    rule keeps_bind[OF keeps_enforced], rule keeps_bind[OF keeps_reject_if])
  fix req :: record_req and z u v
  assume z: "z_id z = rq_zone req \<and> (rq_zone req = i \<longrightarrow> z = z0)" "\<not> z_frozen z"
    "EnforceFabricScope p (z_fabric z) ''dns:records:create'' = None"
  then have "rq_zone req \<noteq> i" using assms(2) by (auto simp: barred_def foreign_def)
  then have "keeps (held i db0) (\<lambda>db. CreateDnsRecord E (new_record E req db) db) (\<lambda>_. True)"
    by (intro keeps_by_state[where f = "\<lambda>db. CreateDnsRecord E (new_record E req db)"] held_CreateDnsRecord)
      (simp add: new_record_def)
  note tail = held_answer[OF assms(1) this]
  show "keeps (held i db0) (hbind (case validateRecordData (rq_type req) (rq_data req) of
        None \<Rightarrow> hreturn () | Some e \<Rightarrow> hanswer (HttpError 400 (data_err_text E e))) (\<lambda>_.
      hbind (ask E ''CreateDnsRecord'' (\<lambda>db. CreateDnsRecord E (new_record E req db) db)
              (mapErr ''record not found'')) (\<lambda>out.
      hbind (dns_audit E ''dns_record.create'' (r_id out)) (\<lambda>_. hreturn (HttpJSON 201 out))))) (\<lambda>_. True)"
    by (rule keeps_bind[where q = "\<lambda>_. True"], auto simp: keeps_done keeps_answer split: option.split)
      (rule tail)
qed

lemma record_target_held:
  assumes "fence E i z0 db0"
  shows "keeps (held i db0) (scoped_target E p url Q GetDnsRecordFabricID m cap)
     (\<lambda>j. j \<in> r_id ` set (records_of i db0) \<longrightarrow> \<not> foreign p cap z0)"
  by (rule held_scoped[OF assms held_GetDnsRecordFabricID[OF assms]])

lemma updateRecord_held:
  assumes "fence E i z0 db0" "barred p ''dns:records:update'' z0"
  shows "keeps (held i db0) (updateRecord E p url body) (\<lambda>_. True)"
  unfolding updateRecord_def
  by (rule keeps_bind[OF record_target_held[OF assms(1)]], rule keeps_bind[OF keeps_patch_body],
      rule keeps_bind[OF held_refuse_frozen[OF assms(1)]], rule held_answer[OF assms(1)], rule held_update_record)
    (use assms(2) in \<open>auto simp: barred_def record_patch_def\<close>)

lemma deleteRecord_held:
  assumes "fence E i z0 db0" "barred p ''dns:records:delete'' z0"
  shows "keeps (held i db0) (deleteRecord E p url) (\<lambda>_. True)"
  unfolding deleteRecord_def
  by (rule keeps_bind[OF record_target_held[OF assms(1)]], rule keeps_bind[OF held_refuse_frozen[OF assms(1)]],
      rule held_dns_delete[OF assms(1)], rule held_delete_record) (use assms(2) in \<open>auto simp: barred_def\<close>)

lemma import_records_held:
  assumes "fence E i z0 db0" "j \<noteq> i"
  shows "keeps (held i db0) (import_records E j vs n :: ('r, nat) dhandler) (\<lambda>_. True)"
proof (induction vs arbitrary: n)
  case (Cons v vs)
  have ins: "keeps (held i db0) (iexec E ''CreateDnsRecord'' (\<lambda>db. CreateDnsRecord E (imported_record E j v db) db)) (\<lambda>_. True)"
    using assms(2)
    by (intro held_iexec[OF assms(1)] keeps_by_state[where f = "\<lambda>db. CreateDnsRecord E (imported_record E j v db)"]
        held_CreateDnsRecord) (simp add: imported_record_def)
  show ?case
  proof (rule keepsI)
    fix db db' and w :: "'r resp + nat"
    assume P: "held i db0 db" and r: "import_records E j (v # vs) n db = (w, db')"
    obtain x db1 where x: "iexec E ''CreateDnsRecord'' (\<lambda>db. CreateDnsRecord E (imported_record E j v db) db) db = (x, db1)"
      by fastforce
    then have h: "held i db0 db1" using keeps_dest[OF ins P] by blast
    obtain m where "import_records E j vs m db1 = (w, db')" using r x by (cases x) auto
    from keeps_dest[OF Cons h this] show "held i db0 db' \<and> (\<forall>a. w = Inr a \<longrightarrow> True)" by simp
  qed
qed (simp add: keeps_done)

lemma held_TouchDnsZone: "j \<noteq> i \<Longrightarrow> keeps (held i db0) (TouchDnsZone j) (\<lambda>_. True)"
  unfolding TouchDnsZone_def by (rule keeps_exec_only, rule held_stamp) auto

lemma held_SetDnsZoneSigned: "j \<noteq> i \<Longrightarrow> keeps (held i db0) (SetDnsZoneSigned j b) (\<lambda>_. True)"
  unfolding SetDnsZoneSigned_def by (rule keeps_exec_only, rule held_stamp) auto

lemma import_stamp_held:
  assumes "fence E i z0 db0" "j \<noteq> i"
  shows "keeps (held i db0) (import_stamp E j parsed b) (\<lambda>_. True)"
proof -
  have soa: "keeps (held i db0) (UpdateDnsZoneSoa j a b c d e f g) (\<lambda>_. True)" for a b c d e f g
    unfolding UpdateDnsZoneSoa_def by (rule keeps_exec_only, rule held_stamp[OF assms(2)]) simp
  show ?thesis
    using held_ask[OF assms(1) soa] held_ask[OF assms(1) held_TouchDnsZone[OF assms(2)]]
    by (auto simp: import_stamp_def split: option.split bool.split)
qed

lemma importZone_held:
  assumes "fence E i z0 db0" "barred p ''dns:zones:update'' z0"
  shows "keeps (held i db0) (importZone E p url body) (\<lambda>_. True)"
  unfolding importZone_def
proof (rule keeps_bind[OF keeps_idFromURL], rule keeps_bind[OF keeps_required], rule keeps_bind[OF keeps_reject_if],
    rule held_open_zone[OF assms])
  fix payload z assume z: "z_id z \<noteq> i"
  note steps = keeps_bind[OF held_ask[OF assms(1) held_DeleteManual[OF z]]]
    keeps_bind[OF import_records_held[OF assms(1) z]] keeps_bind[OF import_stamp_held[OF assms(1) z]]
  show "keeps (held i db0) (case parseBindZone (read_zone E) (ip_text payload) (z_name z @ ''.'') of
      Inl e \<Rightarrow> hanswer (HttpError 422 e)
    | Inr parsed \<Rightarrow>
        if ip_dry_run payload then hreturn (HttpJSON 200 (DryRun (length (bz_records parsed))))
        else hbind (ask E ''DeleteManualRecordsInZone'' (DeleteManualRecordsInZone (z_id z)) readErr) (\<lambda>removed.
          hbind (import_records E (z_id z) (bz_records parsed) 0) (\<lambda>added.
          hbind (import_stamp E (z_id z) parsed (ip_update_soa payload)) (\<lambda>_.
          hbind (dns_audit E ''dns_zone.import_bind'' (z_id z)) (\<lambda>_.
          hreturn (HttpJSON 200 (Applied added (length removed)))))))) (\<lambda>_. True)"
    by (cases "parseBindZone (read_zone E) (ip_text payload) (z_name z @ ''.'')")
      (auto simp: keeps_answer keeps_done
        intro!: keeps_bind[OF held_ask[OF assms(1)]] held_DeleteManual[OF z] keeps_bind[OF import_records_held[OF assms(1) z]]
          keeps_bind[OF import_stamp_held[OF assms(1) z]] held_tail[OF assms(1)])
qed

section \<open>Keys\<close>

lemma other_key:
  assumes "held i db0 db" "k \<in> set (dns_keys db)" "k_zone k \<noteq> Some i"
  shows "k_id k \<notin> k_id ` set (keys_of i db0)"
proof
  assume "k_id k \<in> k_id ` set (keys_of i db0)"
  moreover have "keys_of i db = keys_of i db0" using assms(1) by (simp add: held_def zone_part_def)
  ultimately obtain k' where "k' \<in> set (keys_of i db)" "k_id k' = k_id k" by auto
  then have k': "k' \<in> set (dns_keys db)" "k_id k' = k_id k" "k_zone k' = Some i" by (auto simp: keys_of_def)
  have "distinct (map k_id (dns_keys db))" using assms(1) by (simp add: held_def dns_keyed_def)
  then have "k' = k" using k' assms(2) by (auto simp: distinct_map inj_on_def)
  then show False using k' assms(3) by simp
qed

lemma held_mint_key:
  assumes "fence E i z0 db0" "j \<noteq> i"
  shows "keeps (held i db0) (mint_key E j role alg) (\<lambda>_. True)"
proof -
  have ins: "keeps (held i db0) (iexec E ''CreateDnsKey'' (\<lambda>db. CreateDnsKey (new_key E j g db) db)) (\<lambda>_. True)" for g
    using assms(2)
    by (intro held_iexec[OF assms(1)] keeps_by_state[where f = "\<lambda>db. CreateDnsKey (new_key E j g db)"] held_CreateDnsKey)
      (simp add: new_key_def)
  have "held i db0 (snd (mint_key E j role alg db))" if "held i db0 db" for db
    using keeps_snd[OF ins that] that by (simp add: mint_key_def split: option.split)
  then show ?thesis by (simp add: keeps_def)
qed

lemma held_retire_keys:
  assumes "fence E i z0 db0" "\<forall>k\<in>set ks. k_id k \<notin> k_id ` set (keys_of i db0)"
  shows "keeps (held i db0) (retire_keys E ks n) (\<lambda>_. True)"
  using assms(2)
proof (induction ks arbitrary: n)
  case (Cons k ks)
  have "keeps (held i db0) (iexec E ''RetireDnsKey'' (RetireDnsKey (k_id k))) (\<lambda>_. True)"
    using Cons.prems by (intro held_iexec[OF assms(1)] held_RetireDnsKey) simp
  moreover have "keeps (held i db0) (retire_keys E ks (Suc n)) (\<lambda>_. True)" by (rule Cons.IH) (use Cons.prems in simp)
  ultimately show ?case by (simp add: keeps_qbind)
qed (simp add: keeps_any_reading)

lemma held_active:
  assumes "j \<noteq> i"
  shows "keeps (held i db0) (ListActiveDnsKeysForZoneAndRole j role)
     (\<lambda>ks. \<forall>k\<in>set ks. k_id k \<notin> k_id ` set (keys_of i db0))"
  unfolding ListActiveDnsKeysForZoneAndRole_def
proof (rule keeps_reading)
  fix db ks assume h: "held i db0 db"
    and "(if role \<notin> {''ksk'', ''zsk''} then Inl bad_input
      else Inr (sort_key (\<lambda>k. - k_active_from k) (filter (active_key j role) (dns_keys db)))) = Inr ks"
  then have "ks = sort_key (\<lambda>k. - k_active_from k) (filter (active_key j role) (dns_keys db))"
    by (simp split: if_splits)
  then have ks: "\<forall>k\<in>set ks. k \<in> set (dns_keys db) \<and> k_zone k = Some j" by (simp add: active_key_def)
  show "\<forall>k\<in>set ks. k_id k \<notin> k_id ` set (keys_of i db0)"
  proof
    fix k assume "k \<in> set ks"
    with ks have "k \<in> set (dns_keys db)" "k_zone k \<noteq> Some i" using assms by simp_all
    then show "k_id k \<notin> k_id ` set (keys_of i db0)" by (rule other_key[OF h])
  qed
qed

lemma held_RotateZoneKey:
  assumes "fence E i z0 db0" "z_id z \<noteq> i"
  shows "keeps (held i db0) (RotateZoneKey E z role) (\<lambda>_. True)"
proof -
  have "keeps (held i db0)
      (qbind (iexec E ''ListActiveDnsKeysForZoneAndRole'' (ListActiveDnsKeysForZoneAndRole (z_id z) role)) (\<lambda>active.
        qbind (mint_key E (z_id z) role (case active of [] \<Rightarrow> defaultDnssecAlgorithm | k # _ \<Rightarrow> k_algorithm k)) (\<lambda>_.
        qbind (retire_keys E active 0) (\<lambda>retired.
        qbind (iexec E ''TouchDnsZone'' (TouchDnsZone (z_id z))) (\<lambda>_.
        reading (\<lambda>_. Inr retired)))))) (\<lambda>_. True)"
    by (rule keeps_qbind[OF held_iexec[OF assms(1) held_active[OF assms(2)]]],
        rule keeps_qbind[OF held_mint_key[OF assms]], rule keeps_qbind[OF held_retire_keys[OF assms(1)]], assumption,
        rule keeps_qbind[OF held_iexec[OF assms(1) held_TouchDnsZone[OF assms(2)]]], rule keeps_any_reading)
  then show ?thesis by (simp add: RotateZoneKey_def keeps_any_reading)
qed

lemma held_listing: "fence E i z0 db0 \<Longrightarrow> keeps (held i db0) (ask E Q (reading g) onerr) (\<lambda>_. True)"
  by (rule held_ask[OF _ held_read])

lemma rotateZoneKey_held:
  assumes "fence E i z0 db0" "barred p ''dns:keys:rotate'' z0"
  shows "keeps (held i db0) (rotateZoneKey E p url role) (\<lambda>_. True)"
  unfolding rotateZoneKey_def ListDnsKeysByZone_def
  by (rule keeps_bind[OF keeps_idFromURL], rule keeps_bind[OF keeps_reject_if], rule held_open_zone[OF assms],
      rule keeps_bind[OF keeps_reject_if], rule keeps_bind[OF keeps_serve_query[OF held_RotateZoneKey[OF assms(1)]]],
      assumption, rule keeps_bind[OF held_audit[OF assms(1)]], rule keeps_bind[OF held_listing[OF assms(1)]],
      rule keeps_done)

lemma enableDnssec_held:
  assumes "fence E i z0 db0" "barred p ''dns:keys:rotate'' z0"
  shows "keeps (held i db0) (enableDnssec E p url) (\<lambda>_. True)"
  unfolding enableDnssec_def ListDnsKeysByZone_def
proof (rule held_open_zone[OF assms], rule keeps_bind[OF held_listing[OF assms(1)]], rule keeps_if)
  fix z and existing :: "dns_key list" assume z: "z_id z \<noteq> i"
  note sign = held_ask[OF assms(1) held_SetDnsZoneSigned[OF z]]
  note mint = keeps_serve_query[OF held_mint_key[OF assms(1) z]]
  show "keeps (held i db0) (hbind (if z_signed z then hreturn ()
        else ask E ''SetDnsZoneSigned'' (SetDnsZoneSigned (z_id z) True) readErr)
        (\<lambda>_. hreturn (HttpJSON 200 existing))) (\<lambda>_. True)"
    by (rule keeps_bind[OF keeps_if[OF keeps_done sign] keeps_done])
  show "keeps (held i db0)
     (hbind (serve_query (mint_key E (z_id z) ''ksk'' defaultDnssecAlgorithm)) (\<lambda>ksk.
      hbind (serve_query (mint_key E (z_id z) ''zsk'' defaultDnssecAlgorithm)) (\<lambda>zsk.
      hbind (ask E ''SetDnsZoneSigned'' (SetDnsZoneSigned (z_id z) True) readErr) (\<lambda>_.
      hbind (dns_audit E ''dns_zone.enable_dnssec'' (z_id z)) (\<lambda>_.
      hreturn (HttpJSON 200 [ksk, zsk])))))) (\<lambda>_. True)"
    by (rule keeps_bind[OF mint], rule keeps_bind[OF mint], rule keeps_bind[OF sign], rule held_tail[OF assms(1)])
qed

lemma disableDnssec_held:
  assumes "fence E i z0 db0" "barred p ''dns:keys:rotate'' z0"
  shows "keeps (held i db0) (disableDnssec E p url) (\<lambda>_. True)"
  unfolding disableDnssec_def
  by (rule held_open_zone[OF assms], rule keeps_if[OF keeps_done],
      rule keeps_bind[OF held_ask[OF assms(1) held_DeleteAllDnsKeys]], assumption,
      rule keeps_bind[OF held_ask[OF assms(1) held_SetDnsZoneSigned]], assumption,
      rule keeps_bind[OF held_ask[OF assms(1) held_TouchDnsZone]], assumption, rule held_tail[OF assms(1)])

text \<open>A key of the zone passes the check only if the zone cannot be read.\<close>

lemma held_key_scope:
  assumes "fence E i z0 db0" "barred p ''dns:keys:delete'' z0" "\<And>db. db_fault E ''GetDnsZone'' db = None"
  shows "keeps (held i db0) (key_scope E p k :: (unit, unit) dhandler) (\<lambda>_. k_zone k \<noteq> Some i)"
proof (cases "k_zone k")
  case (Some j)
  have found: "\<exists>z. GetDnsZone i (others E ''GetDnsZone'' db) = (Inr z, others E ''GetDnsZone'' db)"
    if "held i db0 db" for db
  proof -
    have "held i db0 (others E ''GetDnsZone'' db)" by (rule held_others[OF assms(1) that])
    then have "zone_rows i (others E ''GetDnsZone'' db) = [z0]"
      using assms(1) by (simp add: fence_def held_def zone_part_def)
    then have "z0 \<in> set (zones (others E ''GetDnsZone'' db))" "z_id z0 = i"
      unfolding zone_rows_def by (auto dest: filter_eq_ConsD)
    then show ?thesis
      by (cases "find_row z_id i (zones (others E ''GetDnsZone'' db))")
        (auto simp: GetDnsZone_def get_row_def reading_def one_row_def find_row_None)
  qed
  have g: "keeps (held i db0) (iexec E ''GetDnsZone'' (GetDnsZone j)) (\<lambda>z. z_id z = j \<and> (j = i \<longrightarrow> z = z0))"
    by (rule held_iexec[OF assms(1) held_GetDnsZone[OF assms(1)]])
  show ?thesis
  proof (rule keepsI)
    fix db db' and v :: "unit resp + unit"
    assume h: "held i db0 db" and r: "key_scope E p k db = (v, db')"
    obtain x db1 where x: "iexec E ''GetDnsZone'' (GetDnsZone j) db = (x, db1)" by fastforce
    have h1: "held i db0 db1" using keeps_dest[OF g h x] by simp
    have stop: "j = i \<Longrightarrow> \<exists>z. x = Inr z" using found[OF h] x assms(3) by (auto simp: iexec_def Let_def)
    show "held i db0 db' \<and> (\<forall>a. v = Inr a \<longrightarrow> k_zone k \<noteq> Some i)"
    proof (cases x)
      case (Inl e)
      then show ?thesis using r x h1 stop Some by (auto simp: key_scope_def)
    next
      case (Inr z)
      then have z: "j = i \<Longrightarrow> z = z0" using keeps_dest[OF g h x] by simp
      have "keeps (held i db0) (hbind (enforceFabric p (z_fabric z) ''dns:keys:delete'')
          (\<lambda>_. reject_if (z_frozen z) 422 ''zone is frozen'') :: (unit, unit) dhandler) (\<lambda>_. k_zone k \<noteq> Some i)"
      proof (rule keeps_bind[OF keeps_enforced], rule keeps_weaken[OF keeps_reject_if])
        assume "EnforceFabricScope p (z_fabric z) ''dns:keys:delete'' = None" "\<not> z_frozen z"
        then show "k_zone k \<noteq> Some i" using z assms(2) Some by (auto simp: barred_def foreign_def)
      qed
      from keeps_dest[OF this h1] show ?thesis using r x Inr Some by (simp add: key_scope_def)
    qed
  qed
qed (simp add: key_scope_def keeps_done)

end
