(* ===== verification/DnsResidue.thy ===== *)
theory DnsResidue
  imports DnsFence
begin

text \<open>
  What the routes leave of a zone that do not stop at its flag or its fabric: an update or
  a change of the flag sets only the row, a deletion of the zone takes no record, the
  deletion of a view or of a health check clears only the pointers to it, and the
  projection writes projected records only.
\<close>

section \<open>Part of a zone\<close>

text \<open>\<open>g\<close> of the zone's row, records and keys is as it was.\<close>

definition kept_of ::
    "(dns_zone list \<times> dns_record list \<times> dns_key list \<Rightarrow> 'a) \<Rightarrow> uuid \<Rightarrow> dns_db \<Rightarrow> dns_db \<Rightarrow> bool" where
  "kept_of g i db0 db \<longleftrightarrow> dns_keyed db \<and> g (zone_part i db) = g (zone_part i db0)"

lemma held_kept_of: "held i db0 db \<Longrightarrow> kept_of g i db0 db"
  by (simp add: held_def kept_of_def)

lemma kept_others: "\<lbrakk>fence E i z0 db0; kept_of g i db0 db\<rbrakk> \<Longrightarrow> kept_of g i db0 (others E Q db)"
  by (simp add: fence_def kept_of_def held_def)

lemma kept_log [simp]: "kept_of g i db0 (db\<lparr>dns_log := l\<rparr>) = kept_of g i db0 db"
  by (simp add: kept_of_def part_simps)

lemma kept_ask: "\<lbrakk>fence E i z0 db0; keeps (kept_of g i db0) f q\<rbrakk> \<Longrightarrow> keeps (kept_of g i db0) (ask E Q f onerr) q"
  by (rule keeps_ask) (simp_all add: kept_others)

lemma kept_iexec: "\<lbrakk>fence E i z0 db0; keeps (kept_of g i db0) f q\<rbrakk> \<Longrightarrow> keeps (kept_of g i db0) (iexec E Q f) q"
  by (rule keeps_iexec) (simp_all add: kept_others)

lemma kept_audit: "fence E i z0 db0 \<Longrightarrow> keeps (kept_of g i db0) (dns_audit E action j) (\<lambda>_. True)"
  by (auto simp: keeps_def dns_audit_def Let_def kept_others split: option.split)

lemma kept_tail: "fence E i z0 db0 \<Longrightarrow> keeps (kept_of g i db0) (hbind (dns_audit E action j) (\<lambda>_. hreturn r)) (\<lambda>_. True)"
  by (rule keeps_bind[OF kept_audit keeps_done])

lemma kept_target:
  assumes "fence E i z0 db0"
  shows "keeps (kept_of g i db0) (scoped_target E p url Q (\<lambda>j. reading (h j)) m cap) (\<lambda>_. True)"
  unfolding scoped_target_def lookupFabricID_def
  by (rule keeps_bind[OF keeps_idFromURL], rule keeps_bind[OF kept_ask[OF assms keeps_any_reading]],
      rule keeps_bind[OF keeps_enforced], rule keeps_done)

lemma kept_dns_delete:
  assumes "fence E i z0 db0" "keeps (kept_of g i db0) (del j) (\<lambda>_. True)"
  shows "keeps (kept_of g i db0) (dns_delete E Q del m a j) (\<lambda>_. True)"
  unfolding dns_delete_def by (rule keeps_bind[OF kept_ask[OF assms]], rule kept_tail[OF assms(1)])

section \<open>The row, and the zone itself\<close>

abbreviation beside_row :: "dns_zone list \<times> dns_record list \<times> dns_key list \<Rightarrow> dns_record list \<times> dns_key list" where
  "beside_row \<equiv> snd"

abbreviation records_part :: "dns_zone list \<times> dns_record list \<times> dns_key list \<Rightarrow> dns_record list" where
  "records_part \<equiv> \<lambda>part. fst (snd part)"

lemma kept_stamp:
  assumes "\<And>z. z_id (f z) = z_id z"
  shows "keeps (kept_of (\<lambda>part. h (snd part)) i db0) (stamp_zone j f) (\<lambda>_. True)"
  unfolding stamp_zone_def
  by (rule keeps_by_state, rule keeps_update) (simp add: kept_of_def part_simps put_zones_def assms)

lemma updateZone_kept:
  assumes "fence E i z0 db0"
  shows "keeps (kept_of beside_row i db0) (updateZone E p url body) (\<lambda>_. True)"
  unfolding updateZone_def GetDnsZoneFabricID_def dns_patch_def UpdateDnsZone_def
proof (rule keeps_bind[OF kept_target[OF assms]], rule keeps_bind[OF keeps_patch_body],
    rule keeps_bind[OF kept_ask[OF assms]])
  fix j kvs
  show "keeps (kept_of beside_row i db0) (stamp_zone j (zone_patch kvs)) (\<lambda>_. True)"
    by (rule kept_stamp) (simp add: zone_patch_def)
qed (rule kept_tail[OF assms])

lemma setFrozen_kept:
  assumes "fence E i z0 db0"
  shows "keeps (kept_of beside_row i db0) (setFrozen E p url b a) (\<lambda>_. True)"
  unfolding setFrozen_def GetDnsZoneFabricID_def SetDnsZoneFrozen_def
  by (rule keeps_bind[OF kept_target[OF assms]], rule keeps_bind[OF kept_ask[OF assms kept_stamp]], simp,
      rule kept_tail[OF assms])

lemma deleteZone_kept:
  assumes "fence E i z0 db0"
  shows "keeps (kept_of records_part i db0) (deleteZone E p url) (\<lambda>_. True)"
proof -
  have del: "keeps (kept_of records_part i db0) (DeleteDnsZone j) (\<lambda>_. True)" for j
    unfolding DeleteDnsZone_def
    by (rule keeps_delete)
      (simp add: kept_of_def part_simps distinct_drop_row distinct_map_filter)
  show ?thesis
    unfolding deleteZone_def GetDnsZoneFabricID_def
    by (rule keeps_bind[OF kept_target[OF assms]], rule kept_dns_delete[OF assms del])
qed

section \<open>Pointers of records\<close>

definition unpointed :: "dns_record \<Rightarrow> dns_record" where
  "unpointed r = r\<lparr>r_view := None, r_health := None\<rparr>"

definition but_pointers ::
    "dns_zone list \<times> dns_record list \<times> dns_key list \<Rightarrow> dns_zone list \<times> dns_record list \<times> dns_key list" where
  "but_pointers part = (fst part, map unpointed (fst (snd part)), snd (snd part))"

lemma kept_repoint:
  assumes "kept_of but_pointers i db0 db" "\<And>r. unpointed (f r) = unpointed r"
    "zones db' = zones db" "dns_keys db' = dns_keys db" "zone_records db' = map f (zone_records db)"
  shows "kept_of but_pointers i db0 db'"
proof -
  have same: "r_id (f r) = r_id r" "r_zone (f r) = r_zone r" for r
    using arg_cong[OF assms(2), of r_id r] arg_cong[OF assms(2), of r_zone r] by (simp_all add: unpointed_def)
  have "map unpointed (filter (\<lambda>r. r_zone r = i) (map f rs)) = map unpointed (filter (\<lambda>r. r_zone r = i) rs)" for rs
    by (induction rs) (simp_all add: same assms(2))
  then show ?thesis
    using assms(1,3-5) by (simp add: kept_of_def but_pointers_def part_simps o_def same)
qed

lemma deleteView_kept:
  assumes "fence E i z0 db0"
  shows "keeps (kept_of but_pointers i db0) (deleteView E p url) (\<lambda>_. True)"
    "keeps (kept_of but_pointers i db0) (deleteHealthCheck E p url) (\<lambda>_. True)"
proof -
  have "keeps (kept_of but_pointers i db0) (DeleteDnsView j) (\<lambda>_. True)" for j
    unfolding DeleteDnsView_def
    by (rule keeps_delete, erule kept_repoint[where f = "\<lambda>r. if r_view r = Some j then r\<lparr>r_view := None\<rparr> else r"])
      (simp_all add: unpointed_def)
  then show "keeps (kept_of but_pointers i db0) (deleteView E p url) (\<lambda>_. True)"
    unfolding deleteView_def GetDnsViewFabricID_def
    by (rule keeps_bind[OF kept_target[OF assms] kept_dns_delete[OF assms]])
  have "keeps (kept_of but_pointers i db0) (DeleteDnsHealthCheck j) (\<lambda>_. True)" for j
    unfolding DeleteDnsHealthCheck_def
    by (rule keeps_delete, erule kept_repoint[where f = "\<lambda>r. if r_health r = Some j then r\<lparr>r_health := None\<rparr> else r"])
      (simp_all add: unpointed_def)
  then show "keeps (kept_of but_pointers i db0) (deleteHealthCheck E p url) (\<lambda>_. True)"
    unfolding deleteHealthCheck_def GetDnsHealthCheckFabricID_def
    by (rule keeps_bind[OF kept_target[OF assms] kept_dns_delete[OF assms]])
qed

section \<open>The projection\<close>

text \<open>The records that no projection made, and the keys.\<close>

definition unprojected :: "dns_zone list \<times> dns_record list \<times> dns_key list \<Rightarrow> dns_record list \<times> dns_key list" where
  "unprojected part = (filter (\<lambda>r. \<not> projected r) (fst (snd part)), snd (snd part))"

lemma unprojected_snd: "unprojected = (\<lambda>part. (\<lambda>(rs, ks). (filter (\<lambda>r. \<not> projected r) rs, ks)) (snd part))"
  by (auto simp: unprojected_def split: prod.split)

lemma kept_project:
  assumes "fence E i z0 db0" shows "keeps (kept_of unprojected i db0) (project E j name t data ip) (\<lambda>_. True)"
proof -
  have "keeps (kept_of unprojected i db0) (CreateProjectedDnsRecord E (projection_row E j name t data ip d)) (\<lambda>_. True)" for d
    unfolding CreateProjectedDnsRecord_def
  proof (rule keeps_qbind[OF _ keeps_any_reading])
    have "keeps (kept_of unprojected i db0) (insert_row zone_records put_records r_id record_check
        ((projection_row E j name t data ip d)\<lparr>r_data := x\<rparr>)) (\<lambda>_. True)" for x
      by (rule keeps_insert)
        (auto simp: kept_of_def unprojected_def part_simps put_records_def projection_row_def projected_def)
    then show "keeps (kept_of unprojected i db0) (with_jsonb E (r_data (projection_row E j name t data ip d))
        (\<lambda>x. insert_row zone_records put_records r_id record_check
          ((projection_row E j name t data ip d)\<lparr>r_data := x\<rparr>))) (\<lambda>_. True)"
      by (auto simp: with_jsonb_def keeps_def reading_def split: option.split)
  qed
  then show ?thesis
    unfolding project_def
    by (intro kept_iexec[OF assms keeps_by_state[where f = "\<lambda>db. CreateProjectedDnsRecord E (projection_row E j name t data ip db)"]])
qed

lemma kept_reverse_zone:
  assumes "fence E i z0 db0"
  shows "keeps (kept_of unprojected i db0) (reverse_zone E forward site cache origin) (\<lambda>_. True)"
proof -
  have ins: "keeps (kept_of unprojected i db0) (insert_row zones put_zones z_id zone_check r) (\<lambda>_. True)" for r
    by (rule keeps_insert) (auto simp: kept_of_def unprojected_def part_simps put_zones_def)
  have "keeps (kept_of unprojected i db0) (CreateReverseZone E origin (z_fabric forward) site) (\<lambda>_. True)"
    unfolding CreateReverseZone_def by (rule keeps_by_state, rule ins)
  note ask2 = kept_iexec[OF assms this, where Q = "''CreateReverseZone''"]
  have ask1: "keeps (kept_of unprojected i db0)
      (iexec E ''GetReverseZoneByName'' (GetReverseZoneByName (z_fabric forward) site origin)) (\<lambda>_. True)"
    unfolding GetReverseZoneByName_def by (rule kept_iexec[OF assms keeps_any_reading])
  show ?thesis
  proof (cases "cache origin")
    case None
    show ?thesis
    proof (rule keepsI)
      fix db v db' assume h: "kept_of unprojected i db0 db" and r: "reverse_zone E forward site cache origin db = (v, db')"
      obtain x db1 where x: "iexec E ''GetReverseZoneByName'' (GetReverseZoneByName (z_fabric forward) site origin) db = (x, db1)"
        by fastforce
      have h1: "kept_of unprojected i db0 db1" using keeps_dest[OF ask1 h x] by simp
      show "kept_of unprojected i db0 db' \<and> (\<forall>a. v = Inr a \<longrightarrow> True)"
      proof (cases "x = Inl NoRows")
        case True
        then have "iexec E ''CreateReverseZone'' (CreateReverseZone E origin (z_fabric forward) site) db1 = (v, db')"
          using r x None by (simp add: reverse_zone_def)
        then show ?thesis using keeps_dest[OF ask2 h1] by blast
      next
        case False
        then have "(v, db') = (x, db1)"
          using r x None by (auto simp: reverse_zone_def split: sum.splits dberr.splits)
        then show ?thesis using h1 by simp
      qed
    qed
  qed (simp add: reverse_zone_def keeps_value)
qed

lemma kept_touch:
  assumes "fence E i z0 db0" shows "keeps (kept_of unprojected i db0) (iexec E Q (TouchDnsZone j)) (\<lambda>_. True)"
  unfolding TouchDnsZone_def unprojected_snd
  by (rule kept_iexec[OF assms], rule keeps_exec_only, rule kept_stamp) simp

lemma kept_touch_zones:
  "fence E i z0 db0 \<Longrightarrow> keeps (kept_of unprojected i db0) (touch_zones E js) (\<lambda>_. True)"
  by (induction js) (simp_all add: keeps_value keeps_qbind[OF kept_touch])

lemma kept_emit:
  assumes "fence E i z0 db0"
  shows "keeps (kept_of unprojected i db0) (emitForwardAndReverse E forward site ip name cache) (\<lambda>_. True)"
  unfolding emitForwardAndReverse_def
  by (split option.split, intro conjI allI impI keeps_value, rule keeps_qbind[OF kept_project[OF assms]],
      split option.split, intro conjI allI impI keeps_value, rule keeps_qbind[OF kept_reverse_zone[OF assms]],
      rule keeps_qbind[OF kept_project[OF assms] keeps_value])

lemma kept_emit_rows:
  assumes "fence E i z0 db0"
  shows "keeps (kept_of unprojected i db0) (emit_rows E forward site ips cache added touched) (\<lambda>_. True)"
proof (induction ips arbitrary: cache added touched)
  case (Cons ip ips)
  show ?case
    unfolding emit_rows.simps
    by (auto split: option.split intro!: Cons keeps_qbind[OF kept_emit[OF assms]])
qed (simp add: keeps_value)

lemma syncFromIPAM_kept:
  assumes "fence E i z0 db0"
  shows "keeps (kept_of unprojected i db0) (syncFromIPAM E p url) (\<lambda>_. True)"
proof -
  have del: "keeps (kept_of unprojected i db0) (DeleteIPAMRecordsInZones js) (\<lambda>_. True)" for js
  proof -
    have "filter (\<lambda>r. \<not> projected r) (filter (\<lambda>r. r_zone r = i) (filter (\<lambda>r. \<not> (r_zone r \<in> set js \<and> projected r)) rs))
        = filter (\<lambda>r. \<not> projected r) (filter (\<lambda>r. r_zone r = i) rs)" for rs
      by (induction rs) auto
    then show ?thesis
      by (simp add: keeps_def DeleteIPAMRecordsInZones_def kept_of_def unprojected_def part_simps put_records_def
          distinct_map_filter)
  qed
  have stamp: "keeps (kept_of unprojected i db0) (if b then iexec E ''TouchDnsZone'' (TouchDnsZone j)
      else reading (\<lambda>_. Inr ())) (\<lambda>_. True)" for b j
    by (rule keeps_if[OF kept_touch[OF assms] keeps_value])
  have sync: "keeps (kept_of unprojected i db0) (SyncIPAMRecordsForZone E z) (\<lambda>_. True)" for z
    unfolding SyncIPAMRecordsForZone_def ListReverseZonesForSite_def CountIPAMRecordsInZones_def
      ListIPAddressesForSiteWithDnsName_def
    by (split option.split, intro conjI allI impI keeps_value,
        rule keeps_qbind[OF kept_iexec[OF assms keeps_any_reading]],
        rule keeps_qbind[OF kept_iexec[OF assms keeps_any_reading]], rule keeps_qbind[OF kept_iexec[OF assms del]],
        rule keeps_qbind[OF kept_iexec[OF assms keeps_any_reading]], rule keeps_qbind[OF kept_emit_rows[OF assms]],
        unfold case_prod_beta, rule keeps_qbind[OF stamp], rule keeps_qbind[OF kept_touch_zones[OF assms] keeps_value])
  show ?thesis
    unfolding syncFromIPAM_def own_zone_def GetDnsZone_def get_row_def
    by (rule keeps_bind[where q = "\<lambda>_. True"], rule keeps_bind[OF keeps_idFromURL],
        rule keeps_bind[OF kept_ask[OF assms keeps_any_reading]], rule keeps_bind[OF keeps_enforced], rule keeps_done,
        rule keeps_bind[OF keeps_reject_if], rule keeps_bind[OF keeps_serve_query[OF sync]], rule kept_tail[OF assms])
qed

end
