(* ===== verification/DnsSafety.thy ===== *)
theory DnsSafety
  imports DnsResidue
begin

text \<open>
  The remaining steps of the fence around a zone (keys by id, the projection, the resources
  beside the zones), and the two properties: which routes reach a frozen zone and how far, and
  that a zone out of the caller's scope is left alone but for the pointers of its records.
\<close>

section \<open>A key by its id\<close>

lemma held_GetDnsKey:
  "keeps (held i db0) (GetDnsKey j) (\<lambda>k. k_zone k \<noteq> Some i \<longrightarrow> j \<notin> k_id ` set (keys_of i db0))"
  unfolding GetDnsKey_def get_row_def
proof (rule keeps_reading, rule impI)
  fix db k assume h: "held i db0 db" and f: "one_row (find_row k_id j (dns_keys db)) = Inr k"
    and z: "k_zone k \<noteq> Some i"
  have "find_row k_id j (dns_keys db) = Some k" using f by (simp add: one_row_def split: option.splits)
  then have "k \<in> set (dns_keys db)" "k_id k = j" using find_row_SomeD by fastforce+
  then show "j \<notin> k_id ` set (keys_of i db0)" using other_key[OF h _ z] by blast
qed

lemma deleteDnsKey_held:
  assumes "fence E i z0 db0" "barred p ''dns:keys:delete'' z0" "\<And>db. db_fault E ''GetDnsZone'' db = None"
  shows "keeps (held i db0) (deleteDnsKey E p url) (\<lambda>_. True)"
  unfolding deleteDnsKey_def
proof (rule keeps_bind[OF keeps_idFromURL], rule keeps_bind[OF held_ask[OF assms(1) held_GetDnsKey]],
    rule keeps_bind[OF keeps_reject_if], rule keeps_bind[OF held_key_scope[OF assms]])
  fix j and k :: dns_key
  assume "k_zone k \<noteq> Some i \<longrightarrow> j \<notin> k_id ` set (keys_of i db0)" "k_zone k \<noteq> Some i"
  then have "keeps (held i db0) (DeleteDnsKey j) (\<lambda>_. True)" by (intro held_DeleteDnsKey) simp
  note del = held_ask[OF assms(1) this]
  show "keeps (held i db0) (hbind (ask E ''DeleteDnsKey'' (DeleteDnsKey j) readErr) (\<lambda>_.
      hbind (dns_audit E ''dns_key.delete'' j) (\<lambda>_. hreturn HttpNoContent))) (\<lambda>_. True)"
    by (rule keeps_bind[OF del], rule held_tail[OF assms(1)])
qed

section \<open>The projection stays in its fabric and in reverse zones\<close>

text \<open>The zone is no reverse zone of the fabric that is synced.\<close>

definition apart :: "dns_zone \<Rightarrow> dns_zone \<Rightarrow> bool" where
  "apart forward z0 \<longleftrightarrow> z_fabric forward \<noteq> z_fabric z0 \<or> z_kind z0 \<noteq> ''reverse''"

lemma other_reverse:
  assumes "fence E i z0 db0" "held i db0 db" "z \<in> set (zones db)" "reverse_of_site (z_fabric forward) site z"
    "apart forward z0"
  shows "z_id z \<noteq> i"
  using zone_row_found[OF assms(2) _ assms(3)] assms(1,4,5) by (auto simp: fence_def apart_def reverse_of_site_def)

lemma held_CreateReverseZone:
  assumes "fence E i z0 db0"
  shows "keeps (held i db0) (CreateReverseZone E name f site) (\<lambda>z. z_id z \<noteq> i)"
proof (rule keepsI)
  fix db v db' assume h: "held i db0 db" and r: "CreateReverseZone E name f site db = (v, db')"
  have z0: "zone_rows i db0 = [z0]" using assms by (simp add: fence_def)
  have "keeps (held i db0) (CreateReverseZone E name f site) (\<lambda>_. True)"
    unfolding CreateReverseZone_def by (rule keeps_by_state, rule held_insert_zone[OF z0])
  from keeps_dest[OF this h r] have "held i db0 db'" by simp
  moreover have "z_id a \<noteq> i" if "v = Inr a" for a
  proof -
    have "z_id a \<notin> z_id ` set (zones db)"
      using r that by (auto simp: CreateReverseZone_def insert_row_def split: if_splits option.splits)
    moreover have "zone_rows i db = [z0]" using h z0 by (simp add: held_def zone_part_def)
    then have "i \<in> z_id ` set (zones db)" unfolding zone_rows_def by (auto dest: filter_eq_ConsD)
    ultimately show ?thesis by auto
  qed
  ultimately show "held i db0 db' \<and> (\<forall>a. v = Inr a \<longrightarrow> z_id a \<noteq> i)" by simp
qed

lemma held_project: "\<lbrakk>fence E i z0 db0; j \<noteq> i\<rbrakk> \<Longrightarrow> keeps (held i db0) (project E j name t data ip) (\<lambda>_. True)"
proof -
  assume f: "fence E i z0 db0" and j: "j \<noteq> i"
  have ins: "keeps (held i db0) (CreateProjectedDnsRecord E (projection_row E j name t data ip d)) (\<lambda>_. True)" for d
    unfolding CreateProjectedDnsRecord_def
    by (rule keeps_qbind[OF held_jsonb[OF held_insert_record] keeps_any_reading])
      (simp add: projection_row_def j)
  show ?thesis
    unfolding project_def
    by (rule held_iexec[OF f keeps_by_state[where f = "\<lambda>db. CreateProjectedDnsRecord E (projection_row E j name t data ip db)"]],
        rule ins)
qed

definition clear_of :: "uuid \<Rightarrow> zone_cache \<Rightarrow> bool" where
  "clear_of i cache \<longleftrightarrow> (\<forall>origin z. cache origin = Some z \<longrightarrow> z_id z \<noteq> i)"

lemma held_reverse_zone:
  assumes "fence E i z0 db0" "clear_of i cache" "apart forward z0"
  shows "keeps (held i db0) (reverse_zone E forward site cache origin) (\<lambda>z. z_id z \<noteq> i)"
proof (cases "cache origin")
  case None
  have get: "keeps (held i db0) (GetReverseZoneByName (z_fabric forward) site origin) (\<lambda>z. z_id z \<noteq> i)"
    unfolding GetReverseZoneByName_def
  proof (rule keeps_reading)
    fix db z assume h: "held i db0 db"
      and "one_row (List.find (\<lambda>z. reverse_of_site (z_fabric forward) site z \<and> z_name z = origin) (zones db)) = Inr z"
    then have "z \<in> set (zones db) \<and> reverse_of_site (z_fabric forward) site z"
      by (auto simp: one_row_def find_Some_iff split: option.splits)
    then show "z_id z \<noteq> i" using other_reverse[OF assms(1) h] assms(3) by blast
  qed
  note ask1 = held_iexec[OF assms(1) get]
  note ask2 = held_iexec[OF assms(1) held_CreateReverseZone[OF assms(1)]]
  show ?thesis
  proof (rule keepsI)
    fix db v db' assume h: "held i db0 db" and r: "reverse_zone E forward site cache origin db = (v, db')"
    obtain x db1 where x: "iexec E ''GetReverseZoneByName'' (GetReverseZoneByName (z_fabric forward) site origin) db = (x, db1)"
      by fastforce
    have h1: "held i db0 db1 \<and> (\<forall>a. x = Inr a \<longrightarrow> z_id a \<noteq> i)" by (rule keeps_dest[OF ask1 h x])
    show "held i db0 db' \<and> (\<forall>a. v = Inr a \<longrightarrow> z_id a \<noteq> i)"
    proof (cases "x = Inl NoRows")
      case True
      then have "iexec E ''CreateReverseZone'' (CreateReverseZone E origin (z_fabric forward) site) db1 = (v, db')"
        using r x None by (simp add: reverse_zone_def)
      then show ?thesis using keeps_dest[OF ask2] h1 by blast
    next
      case False
      then have "(v, db') = (x, db1)"
        using r x None by (auto simp: reverse_zone_def split: sum.splits dberr.splits)
      then show ?thesis using h1 by simp
    qed
  qed
qed (use assms(2) in \<open>simp add: reverse_zone_def keeps_def reading_def clear_of_def\<close>)

lemma clear_of_upd: "\<lbrakk>clear_of i cache; z_id z \<noteq> i\<rbrakk> \<Longrightarrow> clear_of i (cache(origin \<mapsto> z))"
  by (simp add: clear_of_def)

definition emitted_clear :: "uuid \<Rightarrow> nat \<times> uuid option \<times> zone_cache \<Rightarrow> bool" where
  "emitted_clear i r \<longleftrightarrow> fst (snd r) \<noteq> Some i \<and> clear_of i (snd (snd r))"

lemma keeps_given: "q x \<Longrightarrow> keeps P (reading (\<lambda>_. Inr x)) q"
  by (simp add: keeps_def reading_def)

lemma held_emit:
  assumes "fence E i z0 db0" "clear_of i cache" "apart forward z0" "z_id forward \<noteq> i"
  shows "keeps (held i db0) (emitForwardAndReverse E forward site ip name cache) (emitted_clear i)"
proof (cases "recordTypeForAddr (sa_address ip)")
  case None
  then show ?thesis
    using assms(2) by (simp add: emitForwardAndReverse_def emitted_clear_def keeps_given)
next
  case (Some t)
  note fwd = held_project[OF assms(1,4)]
  show ?thesis
  proof (cases "reverseZoneName (sa_address ip)")
    case None
    then show ?thesis
      using Some assms(2)
      by (simp add: emitForwardAndReverse_def) (rule keeps_qbind[OF fwd keeps_given], simp add: emitted_clear_def)
  next
    case (Some origin)
    show ?thesis
      unfolding emitForwardAndReverse_def \<open>recordTypeForAddr (sa_address ip) = Some t\<close> Some option.case
    proof (rule keeps_qbind[OF fwd], rule keeps_qbind[OF held_reverse_zone[OF assms(1-3)]])
      fix rev :: dns_zone assume rev: "z_id rev \<noteq> i"
      have "emitted_clear i (2, Some (z_id rev), cache(origin \<mapsto> rev))"
        using rev assms(2) by (simp add: emitted_clear_def clear_of_upd)
      then show "keeps (held i db0) (qbind (project E (z_id rev)
            (ptrLabelIn (trim_suffix (or_else (ptrOwner (sa_address ip)) []) ''.'') origin) ''PTR''
            (target_data (ptrTargetFor name (z_name forward))) ip)
          (\<lambda>_. reading (\<lambda>_. Inr (2, Some (z_id rev), cache(origin \<mapsto> rev))))) (emitted_clear i)"
        by (intro keeps_qbind[OF held_project[OF assms(1) rev]] keeps_given)
    qed
  qed
qed

lemma held_emit_rows:
  assumes "fence E i z0 db0" "apart forward z0" "z_id forward \<noteq> i"
  shows "\<lbrakk>clear_of i cache; i \<notin> set touched\<rbrakk> \<Longrightarrow>
    keeps (held i db0) (emit_rows E forward site ips cache added touched) (\<lambda>r. i \<notin> set (snd r))"
proof (induction ips arbitrary: cache added touched)
  case Nil
  then show ?case by (simp add: keeps_given)
next
  case (Cons ip ips)
  show ?case
  proof (cases "sa_name ip = None \<or> sa_name ip = Some []")
    case True
    then show ?thesis using Cons by auto
  next
    case False
    then obtain name where name: "sa_name ip = Some name" "name \<noteq> []" by auto
    show ?thesis
      unfolding emit_rows.simps name option.case if_False
    proof (simp add: name(2), rule keeps_qbind[OF held_emit[OF assms(1) Cons.prems(1) assms(2,3)]])
      fix r :: "nat \<times> uuid option \<times> zone_cache" assume r: "emitted_clear i r"
      obtain n rv c where [simp]: "r = (n, rv, c)" by (cases r) auto
      show "keeps (held i db0) ((\<lambda>(n, rv, cache'). emit_rows E forward site ips cache' (added + n)
              (case rv of None \<Rightarrow> touched | Some j \<Rightarrow> List.insert j touched)) r) (\<lambda>r. i \<notin> set (snd r))"
        using r Cons.prems(2)
        by (simp, intro Cons.IH) (auto simp: emitted_clear_def split: option.splits)
    qed
  qed
qed

lemma held_touch_zones:
  assumes "fence E i z0 db0"
  shows "i \<notin> set js \<Longrightarrow> keeps (held i db0) (touch_zones E js) (\<lambda>_. True)"
proof (induction js)
  case (Cons j js)
  then have "j \<noteq> i" "keeps (held i db0) (touch_zones E js) (\<lambda>_. True)" by auto
  then show ?case by (simp add: keeps_qbind[OF held_iexec[OF assms held_TouchDnsZone]])
qed (simp add: keeps_given)

lemma held_sync:
  assumes "fence E i z0 db0" "apart z z0" "z_id z \<noteq> i"
  shows "keeps (held i db0) (SyncIPAMRecordsForZone E z) (\<lambda>_. True)"
proof (cases "if z_kind z = ''site'' then z_site z else None")
  case (Some site)
  have revs: "keeps (held i db0) (ListReverseZonesForSite (z_fabric z) site)
      (\<lambda>zs. i \<notin> z_id ` set zs \<and> clear_of i (cache_of zs))"
    unfolding ListReverseZonesForSite_def
  proof (rule keeps_reading)
    fix db zs assume h: "held i db0 db" and "Inr (filter (reverse_of_site (z_fabric z) site) (zones db)) = Inr zs"
    then have ys: "\<forall>y\<in>set zs. y \<in> set (zones db) \<and> reverse_of_site (z_fabric z) site y" by auto
    then have "\<forall>y\<in>set zs. z_id y \<noteq> i" using other_reverse[OF assms(1) h] assms(2) by blast
    moreover have "cache_of zs origin = Some y \<Longrightarrow> y \<in> set zs" for origin y
      unfolding cache_of_def by (auto dest!: map_of_SomeD)
    ultimately show "i \<notin> z_id ` set zs \<and> clear_of i (cache_of zs)" by (auto simp: clear_of_def)
  qed
  show ?thesis
    unfolding SyncIPAMRecordsForZone_def Some option.case CountIPAMRecordsInZones_def
      ListIPAddressesForSiteWithDnsName_def
  proof (rule keeps_qbind[OF held_iexec[OF assms(1) revs]], rule keeps_qbind[OF held_iexec[OF assms(1) held_read]],
      rule keeps_qbind[OF held_iexec[OF assms(1) held_DeleteIPAM]])
    fix zs dropped assume zs: "i \<notin> z_id ` set zs \<and> clear_of i (cache_of zs)"
    then show "i \<notin> set (z_id z # map z_id zs)" using assms(3) by simp
    show "keeps (held i db0) (qbind (iexec E ''ListIPAddressesForSiteWithDnsName'' (reading g)) (\<lambda>rows.
        qbind (emit_rows E z site rows (cache_of zs) 0 []) (\<lambda>(added, touched).
        qbind (if 0 < added \<or> 0 < dropped then iexec E ''TouchDnsZone'' (TouchDnsZone (z_id z))
               else reading (\<lambda>_. Inr ())) (\<lambda>_.
        qbind (touch_zones E touched) (\<lambda>_. reading (\<lambda>_. Inr (added, dropped))))))) (\<lambda>_. True)" for g
    proof (rule keeps_qbind[OF held_iexec[OF assms(1) held_read]],
        rule keeps_qbind[OF held_emit_rows[OF assms(1,2,3)]], use zs in simp, simp)
      fix r :: "nat \<times> uuid list" assume r: "i \<notin> set (snd r)"
      have stamp: "keeps (held i db0) (if b then iexec E ''TouchDnsZone'' (TouchDnsZone (z_id z))
               else reading (\<lambda>_. Inr ())) (\<lambda>_. True)" for b
        by (rule keeps_if[OF held_iexec[OF assms(1) held_TouchDnsZone[OF assms(3)]] held_read])
      show "keeps (held i db0) (case r of (added, touched) \<Rightarrow>
        qbind (if 0 < added \<or> 0 < dropped then iexec E ''TouchDnsZone'' (TouchDnsZone (z_id z))
               else reading (\<lambda>_. Inr ())) (\<lambda>_.
        qbind (touch_zones E touched) (\<lambda>_. reading (\<lambda>_. Inr (added, dropped))))) (\<lambda>_. True)"
        unfolding case_prod_beta
        by (rule keeps_qbind[OF stamp], rule keeps_qbind[OF held_touch_zones[OF assms(1) r]], rule held_read)
    qed
  qed
qed (simp add: SyncIPAMRecordsForZone_def held_read)

lemma syncFromIPAM_held:
  assumes "fence E i z0 db0" "foreign p ''dns:zones:update'' z0 \<or> z_frozen z0 \<and> z_kind z0 \<noteq> ''reverse''"
  shows "keeps (held i db0) (syncFromIPAM E p url) (\<lambda>_. True)"
  unfolding syncFromIPAM_def
proof (rule keeps_bind[OF held_scoped_zone[OF assms(1)]], rule keeps_bind[OF keeps_reject_if])
  fix z assume "(z_id z = i \<longrightarrow> z = z0) \<and> \<not> foreign p ''dns:zones:update'' z" "\<not> z_frozen z"
  then have "apart z z0" "z_id z \<noteq> i" using assms(2) by (auto simp: foreign_def apart_def)
  note sync = keeps_serve_query[OF held_sync[OF assms(1) this]]
  show "keeps (held i db0) (hbind (serve_query (SyncIPAMRecordsForZone E z)) (\<lambda>n.
      hbind (dns_audit E ''dns_zone.sync_ipam'' (z_id z)) (\<lambda>_. hreturn (HttpJSON 200 n)))) (\<lambda>_. True)"
    by (rule keeps_bind[OF sync], rule held_tail[OF assms(1)])
qed

section \<open>The resources beside the zones\<close>

lemma aside_puts:
  "aside put_servers" "aside put_groups" "aside put_forwarders" "aside put_catalogs" "aside put_blocklists"
  "aside put_entries" "aside put_views" "aside put_health_checks" "aside put_peers" "aside put_bindings"
  by (simp_all add: aside_def put_servers_def put_groups_def put_forwarders_def put_catalogs_def put_blocklists_def
      put_entries_def put_views_def put_health_checks_def put_peers_def put_bindings_def)

lemma keeps_peek: "keeps P (\<lambda>db. reading (g db) db) (\<lambda>_. True)"
  by (simp add: keeps_def reading_def)

lemmas fabric_getters =
  GetDnsServerFabricID_def GetAnycastGroupFabricID_def GetDnsForwarderFabricID_def GetDnsCatalogZoneFabricID_def
  GetDnsBlocklistFabricID_def GetDnsBlocklistEntryFabricID_def GetDnsViewFabricID_def GetDnsHealthCheckFabricID_def
  GetBgpPeerSiteID_def GetAnycastBindingDnsServerFabricID_def

lemma held_any_target:
  assumes "fence E i z0 db0"
  shows "keeps (held i db0) (scoped_target E p url Q (\<lambda>j. reading (g j)) m cap) (\<lambda>_. True)"
  by (rule held_scoped_any[OF assms held_read])

lemma keeps_rows_affected: "keeps P f (\<lambda>_. True) \<Longrightarrow> keeps P (rows_affected f) (\<lambda>_. True)"
  by (auto simp: keeps_def rows_affected_def split: prod.splits sum.splits)

lemma keeps_enforceSite: "keeps P (enforceSite E p j cap) (\<lambda>_. True)"
  by (auto simp: enforceSite_def forbid_def keeps_def hreturn_def hanswer_def split: option.split)

text \<open>A create whose row carries a fresh id, an update and a deletion beside the zones.\<close>

lemma held_fresh:
  assumes "aside put"
  shows "keeps (held i db0) (\<lambda>db. insert_row rows put key check (r db) db) (\<lambda>_. True)"
  by (rule keeps_by_state[where f = "\<lambda>db. insert_row rows put key check (r db)"], rule held_aside(1)[OF assms])

lemma held_fresh_json:
  assumes "aside put"
  shows "keeps (held i db0) (\<lambda>db. with_jsonb E (d db) (\<lambda>j. insert_row rows put key check (r j db)) db) (\<lambda>_. True)"
  by (rule keeps_by_state[where f = "\<lambda>db. with_jsonb E (d db) (\<lambda>j. insert_row rows put key check (r j db))"],
      rule held_jsonb, rule held_aside(1)[OF assms])

lemma servers_held:
  assumes f: "fence E i z0 db0"
  shows "keeps (held i db0) (createServer E p b) (\<lambda>_. True)" "keeps (held i db0) (updateServer E p u v) (\<lambda>_. True)"
    "keeps (held i db0) (deleteServer E p u) (\<lambda>_. True)" "keeps (held i db0) (postServerRenderStatus E u s) (\<lambda>_. True)"
proof -
  show "keeps (held i db0) (createServer E p b) (\<lambda>_. True)"
    unfolding createServer_def CreateDnsServerRow_def
    by (rule keeps_bind[OF keeps_required], rule keeps_bind[OF keeps_enforced], rule held_dns_create[OF f],
        rule keeps_cast, rule held_fresh, rule aside_puts)
  show "keeps (held i db0) (updateServer E p u v) (\<lambda>_. True)"
    unfolding updateServer_def UpdateDnsServerRow_def fabric_getters
    by (rule keeps_bind[OF held_any_target[OF f]], rule held_dns_patch[OF f], rule keeps_cast, rule held_aside,
        rule aside_puts)
  show "keeps (held i db0) (deleteServer E p u) (\<lambda>_. True)"
    unfolding deleteServer_def DeleteDnsServerRow_def fabric_getters
    by (rule keeps_bind[OF held_any_target[OF f]], rule held_dns_delete[OF f], rule held_aside, rule aside_puts)
  have set: "keeps (held i db0) (SetDnsServerRenderStatus j q) (\<lambda>_. True)" for j q
    unfolding SetDnsServerRenderStatus_def
    by (rule keeps_by_state, rule keeps_rows_affected, rule held_aside, rule aside_puts)
  show "keeps (held i db0) (postServerRenderStatus E u s) (\<lambda>_. True)"
    unfolding postServerRenderStatus_def
    by (rule keeps_bind[OF keeps_idFromURL], rule keeps_bind[OF keeps_required], rule keeps_bind[OF keeps_reject_if],
        rule keeps_bind[OF held_ask[OF f set]], rule keeps_bind[OF keeps_reject_if], rule keeps_done)
qed

lemma groups_held:
  assumes f: "fence E i z0 db0"
  shows "keeps (held i db0) (createAnycastGroup E p b) (\<lambda>_. True)"
    "keeps (held i db0) (updateAnycastGroup E p u v) (\<lambda>_. True)"
    "keeps (held i db0) (deleteAnycastGroup E p u) (\<lambda>_. True)"
proof -
  show "keeps (held i db0) (createAnycastGroup E p b) (\<lambda>_. True)"
    unfolding createAnycastGroup_def CreateAnycastGroup_def
    by (rule keeps_bind[OF keeps_required], rule keeps_bind[OF keeps_enforced], rule held_dns_create[OF f],
        rule keeps_cast, rule keeps_cast, rule held_fresh, rule aside_puts)
  show "keeps (held i db0) (updateAnycastGroup E p u v) (\<lambda>_. True)"
    unfolding updateAnycastGroup_def UpdateAnycastGroup_def fabric_getters
    by (rule keeps_bind[OF held_any_target[OF f]], rule held_dns_patch[OF f], rule keeps_cast, rule keeps_cast,
        rule held_aside, rule aside_puts)
  show "keeps (held i db0) (deleteAnycastGroup E p u) (\<lambda>_. True)"
    unfolding deleteAnycastGroup_def DeleteAnycastGroup_def fabric_getters
    by (rule keeps_bind[OF held_any_target[OF f]], rule held_dns_delete[OF f], rule held_aside, rule aside_puts)
qed

lemma forwarders_held:
  assumes f: "fence E i z0 db0"
  shows "keeps (held i db0) (createForwarder E p b) (\<lambda>_. True)" "keeps (held i db0) (updateForwarder E p u v) (\<lambda>_. True)"
    "keeps (held i db0) (deleteForwarder E p u) (\<lambda>_. True)"
proof -
  show "keeps (held i db0) (createForwarder E p b) (\<lambda>_. True)"
    unfolding createForwarder_def CreateDnsForwarder_def
    by (rule keeps_bind[OF keeps_required], rule keeps_bind[OF keeps_enforced], rule held_dns_create[OF f],
        rule held_fresh_json, rule aside_puts)
  show "keeps (held i db0) (updateForwarder E p u v) (\<lambda>_. True)"
    unfolding updateForwarder_def UpdateDnsForwarder_def fabric_getters
    by (rule keeps_bind[OF held_any_target[OF f]], rule held_dns_patch[OF f], rule held_aside, rule aside_puts)
  show "keeps (held i db0) (deleteForwarder E p u) (\<lambda>_. True)"
    unfolding deleteForwarder_def DeleteDnsForwarder_def fabric_getters
    by (rule keeps_bind[OF held_any_target[OF f]], rule held_dns_delete[OF f], rule held_aside, rule aside_puts)
qed

lemma held_DeleteDnsCatalogZone: "keeps (held i db0) (DeleteDnsCatalogZone j) (\<lambda>_. True)"
  unfolding DeleteDnsCatalogZone_def
proof (rule keeps_delete)
  fix db assume h: "held i db0 db"
  have "held i db0 (put_keys (filter (\<lambda>k. k_catalog k \<noteq> Some j) (dns_keys db)) db)"
    using keeps_snd[OF held_DeleteDnsKeysByCatalog h] by (simp add: DeleteDnsKeysByCatalog_def)
  then show "held i db0 (db\<lparr>catalogs := drop_row cz_id j (catalogs db),
      dns_keys := filter (\<lambda>k. k_catalog k \<noteq> Some j) (dns_keys db)\<rparr>)"
    by (simp add: part_simps put_keys_def)
qed

lemma catalogs_held:
  assumes f: "fence E i z0 db0"
  shows "keeps (held i db0) (createCatalogZone E p b) (\<lambda>_. True)" "keeps (held i db0) (updateCatalogZone E p u v) (\<lambda>_. True)"
    "keeps (held i db0) (deleteCatalogZone E p u) (\<lambda>_. True)" "keeps (held i db0) (disableCatalogDnssec E p u) (\<lambda>_. True)"
proof -
  show "keeps (held i db0) (createCatalogZone E p b) (\<lambda>_. True)"
    unfolding createCatalogZone_def CreateDnsCatalogZone_def
    by (rule keeps_bind[OF keeps_required], (split prod.split, intro allI impI)+, rule keeps_bind[OF keeps_enforced],
        rule held_dns_create[OF f], rule held_fresh, rule aside_puts)
  show "keeps (held i db0) (updateCatalogZone E p u v) (\<lambda>_. True)"
    unfolding updateCatalogZone_def UpdateDnsCatalogZone_def fabric_getters
    by (rule keeps_bind[OF held_any_target[OF f]], rule keeps_bind[OF keeps_required], split prod.split, intro allI impI,
        rule held_answer[OF f], rule held_aside, rule aside_puts)
  show "keeps (held i db0) (deleteCatalogZone E p u) (\<lambda>_. True)"
    unfolding deleteCatalogZone_def fabric_getters
    by (rule keeps_bind[OF held_any_target[OF f]], rule held_dns_delete[OF f], rule held_DeleteDnsCatalogZone)
  have get: "keeps (held i db0) (GetDnsCatalogZone j) (\<lambda>_. True)" for j
    unfolding GetDnsCatalogZone_def get_row_def by (rule held_read)
  have sign: "keeps (held i db0) (SetDnsCatalogZoneSigned j c) (\<lambda>_. True)" for j c
    unfolding SetDnsCatalogZoneSigned_def by (rule keeps_exec_only, rule held_aside, rule aside_puts)
  show "keeps (held i db0) (disableCatalogDnssec E p u) (\<lambda>_. True)"
    unfolding disableCatalogDnssec_def ListDnsKeyTagsByCatalog_def
    by (rule keeps_bind[OF keeps_idFromURL], rule keeps_bind[OF held_ask[OF f get]], rule keeps_bind[OF keeps_enforced],
        rule keeps_if[OF keeps_done], rule keeps_bind[OF held_listing[OF f]],
        rule keeps_bind[OF held_ask[OF f held_DeleteDnsKeysByCatalog]], rule keeps_bind[OF held_ask[OF f sign]],
        rule held_tail[OF f])
qed

lemma held_DeleteDnsBlocklist: "keeps (held i db0) (DeleteDnsBlocklist j) (\<lambda>_. True)"
  unfolding DeleteDnsBlocklist_def by (rule keeps_delete) (simp add: part_simps)

lemma blocklists_held:
  assumes f: "fence E i z0 db0"
  shows "keeps (held i db0) (createBlocklist E p b) (\<lambda>_. True)" "keeps (held i db0) (updateBlocklist E p u v) (\<lambda>_. True)"
    "keeps (held i db0) (deleteBlocklist E p u) (\<lambda>_. True)"
proof -
  show "keeps (held i db0) (createBlocklist E p b) (\<lambda>_. True)"
    unfolding createBlocklist_def CreateDnsBlocklist_def
    by (rule keeps_bind[OF keeps_required], rule keeps_bind[OF keeps_enforced], rule held_dns_create[OF f],
        rule keeps_cast, rule keeps_cast, rule held_fresh, rule aside_puts)
  show "keeps (held i db0) (updateBlocklist E p u v) (\<lambda>_. True)"
    unfolding updateBlocklist_def UpdateDnsBlocklist_def fabric_getters
    by (rule keeps_bind[OF held_any_target[OF f]], rule held_dns_patch[OF f], rule keeps_cast, rule keeps_cast, rule held_aside,
        rule aside_puts)
  show "keeps (held i db0) (deleteBlocklist E p u) (\<lambda>_. True)"
    unfolding deleteBlocklist_def fabric_getters
    by (rule keeps_bind[OF held_any_target[OF f]], rule held_dns_delete[OF f], rule held_DeleteDnsBlocklist)
qed

lemma held_new_entry:
  assumes f: "fence E i z0 db0"
  shows "keeps (held i db0) (\<lambda>db. CreateDnsBlocklistEntry (new_entry E j s d db) db) (\<lambda>_. True)"
  unfolding CreateDnsBlocklistEntry_def by (rule held_fresh, rule aside_puts)

lemma held_add_patterns:
  assumes f: "fence E i z0 db0"
  shows "keeps (held i db0) (add_patterns E j ss) (\<lambda>_. True)"
proof (induction ss)
  case (Cons s ss)
  then show ?case by (simp add: keeps_bind[OF held_ask[OF f held_new_entry[OF f]]])
qed (simp add: keeps_done)

lemma entries_held:
  assumes f: "fence E i z0 db0"
  shows "keeps (held i db0) (createBlocklistEntry E p u b) (\<lambda>_. True)"
    "keeps (held i db0) (bulkAddBlocklistEntries E p u ps) (\<lambda>_. True)"
    "keeps (held i db0) (deleteBlocklistEntry E p u) (\<lambda>_. True)"
proof -
  show "keeps (held i db0) (createBlocklistEntry E p u b) (\<lambda>_. True)"
    unfolding createBlocklistEntry_def fabric_getters
    by (rule keeps_bind[OF held_any_target[OF f]], rule keeps_bind[OF keeps_required], rule held_dns_create[OF f],
        rule held_new_entry[OF f])
  show "keeps (held i db0) (bulkAddBlocklistEntries E p u ps) (\<lambda>_. True)"
    unfolding bulkAddBlocklistEntries_def fabric_getters Let_def ListDnsBlocklistPatternsByID_def
    by (rule keeps_bind[OF held_any_target[OF f]], rule keeps_bind[OF keeps_required], rule keeps_bind[OF keeps_reject_if],
        rule keeps_if[OF keeps_done], rule keeps_bind[OF held_listing[OF f]],
        rule keeps_bind[OF held_add_patterns[OF f]], rule held_tail[OF f])
  show "keeps (held i db0) (deleteBlocklistEntry E p u) (\<lambda>_. True)"
    unfolding deleteBlocklistEntry_def fabric_getters DeleteDnsBlocklistEntry_def
    by (rule keeps_bind[where q = "\<lambda>_. True"], simp add: keeps_answer keeps_done split: option.split,
        unfold lookupFabricID_def, rule keeps_bind[OF held_listing[OF f]], rule keeps_bind[OF keeps_enforced],
        rule held_dns_delete[OF f], rule held_aside, rule aside_puts)
qed

lemma views_held:
  assumes f: "fence E i z0 db0"
  shows "keeps (held i db0) (createView E p b) (\<lambda>_. True)" "keeps (held i db0) (updateView E p u v) (\<lambda>_. True)"
proof -
  show "keeps (held i db0) (createView E p b) (\<lambda>_. True)"
    unfolding createView_def CreateDnsView_def
    by (rule keeps_bind[OF keeps_required], rule keeps_bind[OF keeps_enforced], rule held_dns_create[OF f],
        rule held_fresh_json, rule aside_puts)
  show "keeps (held i db0) (updateView E p u v) (\<lambda>_. True)"
    unfolding updateView_def UpdateDnsView_def fabric_getters
    by (rule keeps_bind[OF held_any_target[OF f]], rule held_dns_patch[OF f], rule held_aside,
        rule aside_puts)
qed

lemma healths_held:
  assumes f: "fence E i z0 db0"
  shows "keeps (held i db0) (createHealthCheck E p b) (\<lambda>_. True)" "keeps (held i db0) (updateHealthCheck E p u v) (\<lambda>_. True)"
proof -
  show "keeps (held i db0) (createHealthCheck E p b) (\<lambda>_. True)"
    unfolding createHealthCheck_def CreateDnsHealthCheck_def
    by (rule keeps_bind[OF keeps_required], rule keeps_bind[OF keeps_enforced], rule held_dns_create[OF f],
        rule keeps_cast, rule held_fresh, rule aside_puts)
  show "keeps (held i db0) (updateHealthCheck E p u v) (\<lambda>_. True)"
    unfolding updateHealthCheck_def UpdateDnsHealthCheck_def fabric_getters
    by (rule keeps_bind[OF held_any_target[OF f]], rule held_dns_patch[OF f], rule keeps_cast, rule held_aside,
        rule aside_puts)
qed

lemma health_result_held:
  assumes f: "fence E i z0 db0"
  shows "keeps (held i db0) (postHealthCheckResult E u b) (\<lambda>_. True)"
proof -
  have set: "keeps (held i db0) (SetDnsHealthCheckResult j st e) (\<lambda>_. True)" for j st e
    unfolding SetDnsHealthCheckResult_def
    by (rule keeps_by_state, rule keeps_rows_affected, rule held_aside, rule aside_puts)
  show ?thesis
    unfolding postHealthCheckResult_def
    by (rule keeps_bind[OF keeps_idFromURL], rule keeps_bind[OF keeps_required], split prod.split, intro allI impI,
        rule keeps_bind[OF keeps_reject_if], rule keeps_bind[OF held_ask[OF f set]], rule keeps_bind[OF keeps_reject_if],
        rule keeps_done)
qed

lemma held_own_peer: "fence E i z0 db0 \<Longrightarrow> keeps (held i db0) (own_peer E p u cap) (\<lambda>_. True)"
  unfolding own_peer_def lookupFabricID_def fabric_getters
  by (rule keeps_bind[OF keeps_idFromURL], rule keeps_bind[OF held_listing], assumption,
      rule keeps_bind[OF keeps_enforceSite], rule keeps_done)

lemma peers_held:
  assumes f: "fence E i z0 db0"
  shows "keeps (held i db0) (createBgpPeer E p b) (\<lambda>_. True)" "keeps (held i db0) (updateBgpPeer E p u v) (\<lambda>_. True)"
    "keeps (held i db0) (deleteBgpPeer E p u) (\<lambda>_. True)"
proof -
  show "keeps (held i db0) (createBgpPeer E p b) (\<lambda>_. True)"
    unfolding createBgpPeer_def CreateBgpPeer_def
    by (rule keeps_bind[OF keeps_required], rule keeps_bind[OF keeps_enforceSite], rule held_dns_create[OF f],
        rule keeps_cast, rule held_fresh, rule aside_puts)
  show "keeps (held i db0) (updateBgpPeer E p u v) (\<lambda>_. True)"
    unfolding updateBgpPeer_def UpdateBgpPeer_def
    by (rule keeps_bind[OF held_own_peer[OF f]], rule held_dns_patch[OF f], rule keeps_cast, rule held_aside,
        rule aside_puts)
  show "keeps (held i db0) (deleteBgpPeer E p u) (\<lambda>_. True)"
    unfolding deleteBgpPeer_def DeleteBgpPeer_def
    by (rule keeps_bind[OF held_own_peer[OF f]], rule keeps_bind[OF held_listing[OF f]], rule keeps_bind[OF keeps_reject_if],
        rule held_dns_delete[OF f], rule held_aside, rule aside_puts)
qed

lemma bindings_held:
  assumes f: "fence E i z0 db0"
  shows "keeps (held i db0) (createAnycastBinding E p b) (\<lambda>_. True)"
    "keeps (held i db0) (deleteAnycastBinding E p u) (\<lambda>_. True)"
proof -
  show "keeps (held i db0) (createAnycastBinding E p b) (\<lambda>_. True)"
    unfolding createAnycastBinding_def CreateAnycastBinding_def lookupFabricID_def fabric_getters
    by (rule keeps_bind[OF keeps_required], rule keeps_bind[OF held_listing[OF f]], rule keeps_bind[OF keeps_enforced],
        rule held_dns_create[OF f], rule held_fresh, rule aside_puts)
  show "keeps (held i db0) (deleteAnycastBinding E p u) (\<lambda>_. True)"
    unfolding deleteAnycastBinding_def DeleteAnycastBinding_def fabric_getters
    by (rule keeps_bind[OF held_any_target[OF f]], rule held_dns_delete[OF f], rule held_aside, rule aside_puts)
qed

section \<open>The routes\<close>

text \<open>The handlers that never ask for the flag, the sync, which asks for that of the forward zone only,
  and the two deletions that clear a column of records wherever they are.\<close>

fun ignores_flag :: "zone_call \<Rightarrow> bool" where
  "ignores_flag (UpdateZoneC _ _) = True"
| "ignores_flag (DeleteZoneC _) = True"
| "ignores_flag (FreezeC _) = True"
| "ignores_flag (UnfreezeC _) = True"
| "ignores_flag _ = False"

fun is_sync :: "zone_call \<Rightarrow> bool" where
  "is_sync (SyncC _) = True"
| "is_sync _ = False"

fun clears_pointers :: "resource_call \<Rightarrow> bool" where
  "clears_pointers (DeleteViewC _) = True"
| "clears_pointers (DeleteHealthC _) = True"
| "clears_pointers _ = False"

lemma held_status: "\<lbrakk>keeps (held i db0) h (\<lambda>_. True); held i db0 db\<rbrakk> \<Longrightarrow> held i db0 (snd (to_status h db))"
  by (auto simp: to_status_def dest: keeps_run split: prod.splits)

lemma kept_status: "\<lbrakk>keeps (kept_of g i db0) h (\<lambda>_. True); kept_of g i db0 db\<rbrakk> \<Longrightarrow> kept_of g i db0 (snd (to_status h db))"
  by (auto simp: to_status_def dest: keeps_run split: prod.splits)

lemma zone_handle_held:
  assumes f: "fence E i z0 db0" and b: "barred p (dns_capability (ZoneCall c)) z0"
    and s: "ignores_flag c \<Longrightarrow> foreign p (dns_capability (ZoneCall c)) z0"
    and y: "is_sync c \<Longrightarrow> foreign p (dns_capability (ZoneCall c)) z0 \<or> z_kind z0 \<noteq> ''reverse''"
    and g: "\<And>u db. c = DeleteKeyC u \<Longrightarrow> db_fault E ''GetDnsZone'' db = None" and h: "held i db0 db"
  shows "held i db0 (snd (zone_handle E p c db))"
proof (cases "is_sync c")
  case True
  then obtain u where c: "c = SyncC u" by (cases c) simp_all
  have "keeps (held i db0) (syncFromIPAM E p u) (\<lambda>_. True)"
    using b y[OF True] by (intro syncFromIPAM_held[OF f]) (auto simp: c dns_capability_def barred_def)
  then show ?thesis by (simp add: c zone_handle_def held_status[OF _ h])
next
  case False
  then show ?thesis
    using b s g
    by (cases c)
      (simp_all add: zone_handle_def dns_capability_def freezeZone_def unfreezeZone_def held_status[OF _ h]
        createZone_held[OF f] updateZone_held[OF f] deleteZone_held[OF f] setFrozen_held[OF f] setZoneNsec3_held[OF f]
        clearZoneNsec3_held[OF f] enableDnssec_held[OF f] disableDnssec_held[OF f] rotateZoneKey_held[OF f]
        deleteDnsKey_held[OF f] importZone_held[OF f] createRecord_held[OF f]
        updateRecord_held[OF f] deleteRecord_held[OF f])
qed

lemma resource_handle_held:
  assumes f: "fence E i z0 db0" and c: "\<not> clears_pointers c" and h: "held i db0 db"
  shows "held i db0 (snd (resource_handle E p c db))"
  using c
  by (cases c)
    (simp_all add: resource_handle_def held_status[OF _ h] servers_held[OF f] groups_held[OF f] forwarders_held[OF f]
      catalogs_held[OF f] blocklists_held[OF f] entries_held[OF f] views_held[OF f] healths_held[OF f]
      health_result_held[OF f] peers_held[OF f] bindings_held[OF f])

text \<open>A property of the database that the handler keeps is kept by the route.\<close>

lemma serve_by_handle:
  assumes "I db" "\<And>p. caller = Some p \<Longrightarrow> I (snd (dns_handle E p c db))"
  shows "I (snd (dns_serve E caller c db))"
  using assms by (cases caller) (auto simp: dns_serve_def split: gate.splits)

lemma serve_held:
  assumes f: "fence E i z0 db0" and h: "held i db0 db"
    and g: "\<And>u db. c = ZoneCall (DeleteKeyC u) \<Longrightarrow> db_fault E ''GetDnsZone'' db = None"
    and b: "\<And>p. caller = Some p \<Longrightarrow> barred p (dns_capability c) z0"
    and r: "\<And>p d. \<lbrakk>caller = Some p; c = ZoneCall d; ignores_flag d\<rbrakk> \<Longrightarrow> foreign p (dns_capability c) z0"
    and y: "\<And>p d. \<lbrakk>caller = Some p; c = ZoneCall d; is_sync d\<rbrakk> \<Longrightarrow> foreign p (dns_capability c) z0 \<or> z_kind z0 \<noteq> ''reverse''"
    and v: "\<And>d. c = ResourceCall d \<Longrightarrow> \<not> clears_pointers d"
  shows "held i db0 (snd (dns_serve E caller c db))"
proof (rule serve_by_handle[where I = "held i db0", OF h])
  fix p assume p: "caller = Some p"
  show "held i db0 (snd (dns_handle E p c db))"
  proof (cases c)
    case (ZoneCall d)
    then show ?thesis
      using zone_handle_held[OF f _ _ _ _ h, of p d] b[OF p] r[OF p] y[OF p] g by (simp add: dns_handle_def)
  qed (use resource_handle_held[OF f _ h] v in \<open>simp add: dns_handle_def\<close>)
qed

text \<open>What the others leave.\<close>

lemma serve_row_only:
  assumes f: "fence E i z0 db0" and h: "held i db0 db" and c: "c = ZoneCall d" "ignores_flag d"
  shows "records_of i (snd (dns_serve E caller c db)) = records_of i db0
     \<and> ((\<forall>u. d \<noteq> DeleteZoneC u) \<longrightarrow> keys_of i (snd (dns_serve E caller c db)) = keys_of i db0)"
proof (cases "\<exists>u. d = DeleteZoneC u")
  case True
  then obtain u where d: "d = DeleteZoneC u" by blast
  note k = held_kept_of[OF h, of records_part]
  have "kept_of records_part i db0 (snd (dns_serve E caller c db))"
    by (rule serve_by_handle[where I = "kept_of records_part i db0", OF k]) (simp add: c d dns_handle_def zone_handle_def kept_status[OF deleteZone_kept[OF f] k])
  then show ?thesis using d by (simp add: kept_of_def zone_part_def)
next
  case False
  note k = held_kept_of[OF h, of beside_row]
  have "kept_of beside_row i db0 (snd (dns_serve E caller c db))"
    using c(2) False
    by (intro serve_by_handle[where I = "kept_of beside_row i db0", OF k], cases d)
      (simp_all add: c(1) dns_handle_def zone_handle_def freezeZone_def unfreezeZone_def
        kept_status[OF updateZone_kept[OF f] k] kept_status[OF setFrozen_kept[OF f] k])
  then show ?thesis by (simp add: kept_of_def zone_part_def)
qed

lemma serve_pointers:
  assumes f: "fence E i z0 db0" and h: "held i db0 db" and c: "c = ResourceCall d" "clears_pointers d"
  shows "zone_rows i (snd (dns_serve E caller c db)) = zone_rows i db0
     \<and> map unpointed (records_of i (snd (dns_serve E caller c db))) = map unpointed (records_of i db0)
     \<and> keys_of i (snd (dns_serve E caller c db)) = keys_of i db0"
proof -
  note k = held_kept_of[OF h, of but_pointers]
  have "kept_of but_pointers i db0 (snd (dns_serve E caller c db))"
    using c(2)
    by (intro serve_by_handle[where I = "kept_of but_pointers i db0", OF k], cases d)
      (simp_all add: c(1) dns_handle_def resource_handle_def kept_status[OF deleteView_kept(1)[OF f] k]
        kept_status[OF deleteView_kept(2)[OF f] k])
  then show ?thesis by (simp add: kept_of_def zone_part_def but_pointers_def)
qed

lemma serve_sync:
  assumes f: "fence E i z0 db0" and h: "held i db0 db" and c: "c = ZoneCall d" "is_sync d"
  shows "filter (\<lambda>r. \<not> projected r) (records_of i (snd (dns_serve E caller c db)))
       = filter (\<lambda>r. \<not> projected r) (records_of i db0)
     \<and> keys_of i (snd (dns_serve E caller c db)) = keys_of i db0"
proof -
  note k = held_kept_of[OF h, of unprojected]
  have "kept_of unprojected i db0 (snd (dns_serve E caller c db))"
    using c(2)
    by (intro serve_by_handle[where I = "kept_of unprojected i db0", OF k], cases d)
      (simp_all add: c(1) dns_handle_def zone_handle_def kept_status[OF syncFromIPAM_kept[OF f] k])
  then show ?thesis by (simp add: kept_of_def zone_part_def unprojected_def)
qed

lemma filter_unpointed: "map unpointed rs = map unpointed rs' \<Longrightarrow>
    map unpointed (filter (\<lambda>r. \<not> projected r) rs) = map unpointed (filter (\<lambda>r. \<not> projected r) rs')"
proof -
  have "map unpointed (filter (\<lambda>r. \<not> projected r) rs) = filter (\<lambda>r. \<not> projected r) (map unpointed rs)" for rs
    by (induction rs) (simp_all add: unpointed_def projected_def)
  then show "map unpointed rs = map unpointed rs' \<Longrightarrow> ?thesis" by simp
qed

text \<open>What an example needs to be a fence: nobody else writes.\<close>

lemma calm_fence:
  assumes "dns_keyed db" "zone_rows i db = [z]"
  shows "fence calm_env i z db" "held i db db"
  using assms by (simp_all add: fence_def held_def calm_env_def)

lemma example_keyed: "dns_keyed (example_dns b)" "zone_rows 1 (example_dns b) = [example_zone 1 ''a.test'' b]"
    "zone_rows 2 (example_dns b) = [example_zone 2 ''b.test'' False]"
  by (simp_all add: dns_keyed_def zone_rows_def example_dns_def example_zone_def example_record_def example_key_def)

text \<open>C26. How far a frozen zone can be reached.  Whoever the caller is, whatever the request says and
  wherever it fails, and whatever route is called: the records that the projection did not make stay
  as they are, but for their pointers to a view and a health check.  The keys go only with the zone
  itself, when it is deleted.  The row changes only through the update and the deletion of a zone,
  through freeze and unfreeze, and through the sync if the zone is a reverse zone; a record changes only
  through that sync and, in the two pointers, through the deletion of a view or health check.
  Other transactions are taken to leave the zone alone, and the deletion of a key is taken to read the
  key's zone without a fault, because the handler goes on without its check when that read fails.\<close>

theorem frozen_zone_is_fenced:
  assumes "dns_keyed db" "zone_rows i db = [z]" "z_frozen z"
    and "\<forall>Q d. dns_keyed d \<longrightarrow> held i d (others E Q d)"
    and "\<forall>u d. c = ZoneCall (DeleteKeyC u) \<longrightarrow> db_fault E ''GetDnsZone'' d = None"
    and after: "db' = snd (dns_serve E caller c db)"
  shows "(zone_rows i db' \<noteq> zone_rows i db \<longrightarrow>
       (\<exists>d. c = ZoneCall d \<and> (ignores_flag d \<or> is_sync d \<and> z_kind z = ''reverse'')))
     \<and> (keys_of i db' \<noteq> keys_of i db \<longrightarrow> (\<exists>u. c = ZoneCall (DeleteZoneC u)))
     \<and> (records_of i db' \<noteq> records_of i db \<longrightarrow>
       (\<exists>d. c = ZoneCall d \<and> is_sync d \<and> z_kind z = ''reverse'') \<or> (\<exists>d. c = ResourceCall d \<and> clears_pointers d))
     \<and> map unpointed (filter (\<lambda>r. \<not> projected r) (records_of i db'))
       = map unpointed (filter (\<lambda>r. \<not> projected r) (records_of i db))"
proof -
  have f: "fence E i z db" "held i db db" using assms by (simp_all add: fence_def held_def)
  consider (row) d where "c = ZoneCall d" "ignores_flag d" | (sync) d where "c = ZoneCall d" "is_sync d" "z_kind z = ''reverse''"
    | (pointer) d where "c = ResourceCall d" "clears_pointers d"
    | (fenced) "\<forall>d. c = ZoneCall d \<longrightarrow> \<not> ignores_flag d \<and> (is_sync d \<longrightarrow> z_kind z \<noteq> ''reverse'')"
        "\<forall>d. c = ResourceCall d \<longrightarrow> \<not> clears_pointers d"
    by blast
  then show ?thesis
  proof cases
    case row
    then show ?thesis using serve_row_only[OF f row] after by auto
  next
    case sync
    then show ?thesis using serve_sync[OF f sync(1,2)] after by simp
  next
    case pointer
    then show ?thesis using serve_pointers[OF f pointer] after filter_unpointed by blast
  next
    case fenced
    then have "held i db db'" unfolding after using assms(3,5)
      by (intro serve_held[OF f]) (auto simp: barred_def)
    then show ?thesis by (simp add: held_def zone_part_def)
  qed
qed

lemma frozen_zone_is_fenced_witness:
  "zone_part 1 (snd (dns_serve calm_env (Some (fabric_user 1)) (ZoneCall (DeleteRecordC ''51'')) (example_dns True)))
     = zone_part 1 (example_dns True)
   \<and> fst (dns_serve calm_env (Some (fabric_user 1)) (ZoneCall (DeleteRecordC ''51'')) (example_dns True)) = 422
   \<and> fst (dns_serve calm_env (Some (fabric_user 1)) (ZoneCall (DeleteRecordC ''51'')) (example_dns False)) = 204"
proof (intro conjI)
  show "zone_part 1 (snd (dns_serve calm_env (Some (fabric_user 1)) (ZoneCall (DeleteRecordC ''51'')) (example_dns True)))
     = zone_part 1 (example_dns True)"
    using frozen_zone_is_fenced[OF example_keyed(1,2) _ _ _ refl, of True calm_env "ZoneCall (DeleteRecordC ''51'')"
        "Some (fabric_user 1)"]
    by (auto simp: example_zone_def calm_env_def held_def zone_part_def)
qed code_simp+

text \<open>C27. A caller whose scope for a route does not hold the fabric of a zone changes nothing of the
  zone through the route: not its row, its records or its keys, whatever the request says and
  wherever it fails, the sync included.  The one exception is the deletion of a view or of a health
  check of a fabric within the scope, which clears the pointers to it in records wherever they are,
  and nothing else.  As above, other transactions are taken to leave the zone alone, and the deletion
  of a key to read the key's zone without a fault: when that read fails the handler skips its check.\<close>

theorem foreign_zone_untouched:
  assumes "dns_keyed db" "zone_rows i db = [z]"
    and "EnforceFabricScope p (z_fabric z) (dns_capability c) \<noteq> None"
    and "\<forall>Q d. dns_keyed d \<longrightarrow> held i d (others E Q d)"
    and "\<forall>u d. c = ZoneCall (DeleteKeyC u) \<longrightarrow> db_fault E ''GetDnsZone'' d = None"
    and after: "db' = snd (dns_serve E (Some p) c db)"
  shows "zone_rows i db' = zone_rows i db \<and> keys_of i db' = keys_of i db
     \<and> map unpointed (records_of i db') = map unpointed (records_of i db)
     \<and> (records_of i db' \<noteq> records_of i db \<longrightarrow> (\<exists>d. c = ResourceCall d \<and> clears_pointers d))"
proof -
  have f: "fence E i z db" "held i db db" using assms by (simp_all add: fence_def held_def)
  show ?thesis
  proof (cases "\<exists>d. c = ResourceCall d \<and> clears_pointers d")
    case True
    then show ?thesis using serve_pointers[OF f] after by blast
  next
    case False
    then have "held i db db'" unfolding after using assms(3,5)
      by (intro serve_held[OF f]) (auto simp: barred_def foreign_def)
    then show ?thesis by (simp add: held_def zone_part_def)
  qed
qed

lemma foreign_zone_untouched_witness:
  "zone_part 2 (snd (dns_serve calm_env (Some (fabric_user 1)) (ZoneCall (RotateKeyC ''2'' ''zsk'')) (example_dns False)))
     = zone_part 2 (example_dns False)
   \<and> fst (dns_serve calm_env (Some (fabric_user 1)) (ZoneCall (RotateKeyC ''2'' ''zsk'')) (example_dns False)) = 403
   \<and> fst (dns_serve calm_env (Some (fabric_user 1)) (ZoneCall (RotateKeyC ''1'' ''zsk'')) (example_dns False)) = 200"
proof (intro conjI)
  have "EnforceFabricScope (fabric_user 1) 2 ''dns:keys:rotate'' \<noteq> None" by code_simp
  then show "zone_part 2 (snd (dns_serve calm_env (Some (fabric_user 1)) (ZoneCall (RotateKeyC ''2'' ''zsk'')) (example_dns False)))
     = zone_part 2 (example_dns False)"
    using foreign_zone_untouched[OF example_keyed(1,3) _ _ _ refl, of "fabric_user 1" "ZoneCall (RotateKeyC ''2'' ''zsk'')"
        calm_env False]
    by (auto simp: example_zone_def dns_capability_def calm_env_def held_def zone_part_def)
qed code_simp+

end
