(* ===== verification/DnsRotation.thy ===== *)
theory DnsRotation
  imports DnsFrame
begin

text \<open>
  The rotation of the signing keys (\<open>RotateZoneKey\<close>, \<open>dns_rotate_zsks\<close>): what it does to the
  key table when every statement commits by itself and any of them may fail.
\<close>

section \<open>Retiring\<close>

definition retired_at :: "uuid set \<Rightarrow> dns_key \<Rightarrow> dns_key \<Rightarrow> bool" where
  "retired_at js k k' \<longleftrightarrow> (if k_id k \<in> js then \<exists>t. k' = k\<lparr>k_retired := Some t\<rparr> else k' = k)"

lemma retired_none: "list_all2 (retired_at {}) ks ks"
  by (simp add: list_all2_refl retired_at_def)

lemma retired_id: "retired_at js k k' \<Longrightarrow> k_id k' = k_id k"
  by (auto simp: retired_at_def split: if_splits)

lemma retired_trans:
  assumes "list_all2 (retired_at A) ks ls" "list_all2 (retired_at B) ls ms"
  shows "list_all2 (retired_at (A \<union> B)) ks ms"
proof (rule list_all2_trans[OF _ assms])
  fix k l m assume "retired_at A k l" "retired_at B l m"
  then show "retired_at (A \<union> B) k m" by (fastforce simp: retired_at_def split: if_splits)
qed

lemma retired_ids: "list_all2 (retired_at js) ks ls \<Longrightarrow> map k_id ls = map k_id ks"
  by (induction rule: list_all2_induct) (simp_all add: retired_id)

lemma retired_member:
  assumes "list_all2 (retired_at js) ks ls" "k \<in> set ks" "k_id k \<notin> js"
  shows "k \<in> set ls"
proof -
  obtain n where n: "n < length ks" "ks ! n = k" using assms(2) by (auto simp: in_set_conv_nth)
  then have "retired_at js (ks ! n) (ls ! n)" "n < length ls"
    using assms(1) by (auto simp: list_all2_conv_all_nth)
  then show ?thesis using n assms(3) by (auto simp: retired_at_def in_set_conv_nth)
qed

lemma RetireDnsKey_keys:
  assumes "RetireDnsKey j d = (v, d')"
  shows "v = Inr () \<and> list_all2 (retired_at {j}) (dns_keys d) (dns_keys d')"
proof (cases "find_row k_id j (dns_keys d)")
  case None
  then have "\<forall>k\<in>set (dns_keys d). k_id k \<noteq> j" by (auto simp: find_row_None)
  then have "list_all2 (retired_at {j}) (dns_keys d) (dns_keys d)"
    by (simp add: list.rel_refl_strong retired_at_def)
  then show ?thesis using assms None by (auto simp: RetireDnsKey_def exec_only_def update_row_def)
next
  case (Some k)
  let ?f = "\<lambda>k. if k_id k = j then k\<lparr>k_retired := Some (dns_clock d)\<rparr> else k"
  have "v = Inr ()" "dns_keys d' = map ?f (dns_keys d)"
    using assms Some by (auto simp: RetireDnsKey_def exec_only_def update_row_def put_keys_def change_row_def)
  moreover have "list_all2 (retired_at {j}) ks (map ?f ks)" for ks
    by (induction ks) (auto simp: retired_at_def)
  ultimately show ?thesis by simp
qed

text \<open>Other transactions leave the key table alone.\<close>

definition keys_alone :: "('z) dns_env_scheme \<Rightarrow> bool" where
  "keys_alone E \<longleftrightarrow> (\<forall>Q d. dns_keys (others E Q d) = dns_keys d)"

lemma iexec_keys:
  assumes "keys_alone E" "iexec E Q f d = (v, d')"
  obtains (failed) e where "v = Inl e" "dns_keys d' = dns_keys d"
    | (ran) "f (others E Q d) = (v, d')" "dns_keys (others E Q d) = dns_keys d"
  using assms by (auto simp: iexec_def keys_alone_def Let_def split: option.splits)

lemma retire_keys_spec:
  assumes "keys_alone E" "retire_keys E ks n d = (v, d')"
  shows "\<exists>js. js \<subseteq> k_id ` set ks \<and> list_all2 (retired_at js) (dns_keys d) (dns_keys d')
     \<and> (\<forall>m. v = Inr m \<longrightarrow> js = k_id ` set ks \<and> m = n + length ks)"
  using assms(2)
proof (induction ks arbitrary: n d)
  case Nil
  then show ?case using retired_none by (auto simp: reading_def)
next
  case (Cons k ks)
  obtain u d1 where u: "iexec E ''RetireDnsKey'' (RetireDnsKey (k_id k)) d = (u, d1)" by fastforce
  show ?case
  proof (cases u)
    case (Inl e)
    then have "v = Inl e" "d' = d1" using Cons.prems u by (simp_all add: qbind_def)
    moreover have "list_all2 (retired_at {}) (dns_keys d) (dns_keys d1)"
      using iexec_keys[OF assms(1) u] RetireDnsKey_keys Inl retired_none by (metis sum.distinct(1))
    ultimately show ?thesis by (intro exI[of _ "{}"]) simp
  next
    case (Inr x)
    then have next1: "retire_keys E ks (Suc n) d1 = (v, d')" using Cons.prems u by (simp add: qbind_def)
    have one: "list_all2 (retired_at {k_id k}) (dns_keys d) (dns_keys d1)"
      using iexec_keys[OF assms(1) u] RetireDnsKey_keys Inr by (metis sum.distinct(1))
    obtain js where js: "js \<subseteq> k_id ` set ks" "list_all2 (retired_at js) (dns_keys d1) (dns_keys d')"
      "\<forall>m. v = Inr m \<longrightarrow> js = k_id ` set ks \<and> m = Suc n + length ks"
      using Cons.IH[OF next1] by blast
    then show ?thesis
      using retired_trans[OF one js(2)] by (intro exI[of _ "{k_id k} \<union> js"]) auto
  qed
qed

section \<open>A new key\<close>

definition minted :: "uuid \<Rightarrow> string \<Rightarrow> string \<Rightarrow> dns_key list \<Rightarrow> dns_key \<Rightarrow> bool" where
  "minted i role alg ks k \<longleftrightarrow> active_key i role k \<and> k_algorithm k = alg \<and> k_id k \<notin> k_id ` set ks"

lemma mint_key_spec:
  assumes "keys_alone E" "mint_key E i role alg d = (v, d')"
  shows "(\<exists>e. v = Inl e \<and> dns_keys d' = dns_keys d)
     \<or> (\<exists>k. v = Inr k \<and> minted i role alg (dns_keys d) k \<and> dns_keys d' = dns_keys d @ [k])"
proof (cases "generateDnssecKeypair E role alg d")
  case (Some g)
  then have g: "gk_role g = role" "gk_algorithm g = alg"
    by (auto simp: generateDnssecKeypair_def Let_def split: if_splits option.splits prod.splits)
  have x: "iexec E ''CreateDnsKey'' (\<lambda>db. CreateDnsKey (new_key E i g db) db) d = (v, d')"
    using assms(2) Some by (simp add: mint_key_def)
  show ?thesis
  proof (cases rule: iexec_keys[OF assms(1) x])
    case 2
    then show ?thesis
      by (auto simp: CreateDnsKey_def insert_row_def put_keys_def minted_def active_key_def new_key_def g
          split: if_splits option.splits)
  qed blast
qed (use assms(2) in \<open>auto simp: mint_key_def\<close>)

section \<open>The rotation of a zone\<close>

definition active_ids :: "uuid \<Rightarrow> string \<Rightarrow> dns_db \<Rightarrow> uuid set" where
  "active_ids i role d = k_id ` set (filter (active_key i role) (dns_keys d))"

text \<open>The active keys, newest first, and the algorithm of a key that replaces them.\<close>

definition active_list :: "uuid \<Rightarrow> string \<Rightarrow> dns_db \<Rightarrow> dns_key list" where
  "active_list i role d = sort_key (\<lambda>k. - k_active_from k) (filter (active_key i role) (dns_keys d))"

definition newest_algorithm :: "dns_key list \<Rightarrow> string" where
  "newest_algorithm ks = (case ks of [] \<Rightarrow> defaultDnssecAlgorithm | k # _ \<Rightarrow> k_algorithm k)"

definition rotated :: "uuid \<Rightarrow> string \<Rightarrow> dns_db \<Rightarrow> uuid set \<Rightarrow> dns_key \<Rightarrow> dns_db \<Rightarrow> bool" where
  "rotated i role d js new d' \<longleftrightarrow>
     js \<subseteq> active_ids i role d \<and> active_key i role new
     \<and> k_algorithm new = newest_algorithm (active_list i role d) \<and> k_id new \<notin> k_id ` set (dns_keys d)
     \<and> (\<exists>ks. list_all2 (retired_at js) (dns_keys d) ks \<and> dns_keys d' = ks @ [new])"

lemma touch_keys: "TouchDnsZone i d = (v, d') \<Longrightarrow> dns_keys d' = dns_keys d"
  by (auto simp: TouchDnsZone_def exec_only_def stamp_zone_def update_row_def put_zones_def
      split: option.splits if_splits prod.splits sum.splits)

lemma RotateZoneKey_spec:
  assumes "keys_alone E" "RotateZoneKey E z role d = (v, d')"
  shows "(\<exists>e. v = Inl e \<and> dns_keys d' = dns_keys d)
     \<or> (\<exists>js new. rotated (z_id z) role d js new d' \<and> (\<forall>n. v = Inr n \<longrightarrow> js = active_ids (z_id z) role d))"
proof (cases "z_signed z \<and> \<not> z_frozen z")
  case False
  then show ?thesis
    using assms(2) by (auto simp: RotateZoneKey_def reading_def split: if_splits)
next
  case True
  let ?i = "z_id z"
  obtain u d1 where u: "iexec E ''ListActiveDnsKeysForZoneAndRole'' (ListActiveDnsKeysForZoneAndRole ?i role) d = (u, d1)"
    by fastforce
  have d1: "dns_keys d1 = dns_keys d" and al: "\<And>a. u = Inr a \<Longrightarrow> a = active_list ?i role d"
    by (cases rule: iexec_keys[OF assms(1) u];
        auto simp: ListActiveDnsKeysForZoneAndRole_def reading_def active_list_def split: if_splits)+
  have ua: "k_id ` set a = active_ids ?i role d" if "u = Inr a" for a
    unfolding al[OF that] by (simp add: active_list_def active_ids_def)
  show ?thesis
  proof (cases u)
    case (Inl e)
    then show ?thesis using assms(2) u True d1 by (auto simp: RotateZoneKey_def qbind_def)
  next
    case (Inr a)
    let ?alg = "case a of [] \<Rightarrow> defaultDnssecAlgorithm | k # _ \<Rightarrow> k_algorithm k"
    have alg: "?alg = newest_algorithm (active_list ?i role d)"
      using al[OF Inr] by (simp add: newest_algorithm_def)
    obtain w d2 where w: "mint_key E ?i role ?alg d1 = (w, d2)" by fastforce
    show ?thesis
    proof (cases w)
      case (Inl e)
      then show ?thesis
        using assms(2) u Inr w True d1 mint_key_spec[OF assms(1) w] by (auto simp: RotateZoneKey_def qbind_def)
    next
      case new: (Inr new)
      then have d2: "minted ?i role ?alg (dns_keys d) new" "dns_keys d2 = dns_keys d @ [new]"
        using mint_key_spec[OF assms(1) w] d1 by auto
      obtain r d3 where r: "retire_keys E a 0 d2 = (r, d3)" by fastforce
      obtain js where js: "js \<subseteq> k_id ` set a" "list_all2 (retired_at js) (dns_keys d2) (dns_keys d3)"
        "\<forall>m. r = Inr m \<longrightarrow> js = k_id ` set a"
        using retire_keys_spec[OF assms(1) r] by blast
      obtain ks k where ks: "dns_keys d3 = ks @ [k]" "list_all2 (retired_at js) (dns_keys d) ks" "retired_at js new k"
        using js(2) d2(2) by (auto simp: list_all2_append1 list_all2_Cons1)
      have "k_id new \<notin> js"
        using js(1) ua[OF Inr] d2(1) by (auto simp: minted_def active_ids_def)
      then have "k = new" using ks(3) by (simp add: retired_at_def)
      then have rot: "rotated ?i role d js new d3"
        using ks js(1) ua[OF Inr] d2(1) alg by (auto simp: rotated_def minted_def)
      have d': "dns_keys d' = dns_keys d3 \<and> (\<forall>n. v = Inr n \<longrightarrow> (\<exists>m. r = Inr m))"
      proof (cases r)
        case (Inl e)
        then show ?thesis
          using assms(2) u \<open>u = Inr a\<close> w new r True by (simp add: RotateZoneKey_def qbind_def)
      next
        case m: (Inr m)
        obtain t d4 where t: "iexec E ''TouchDnsZone'' (TouchDnsZone ?i) d3 = (t, d4)" by fastforce
        have "dns_keys d4 = dns_keys d3"
          by (cases rule: iexec_keys[OF assms(1) t]) (auto dest: touch_keys)
        moreover have "d' = d4"
          using assms(2) u \<open>u = Inr a\<close> w new r m t True
          by (auto simp: RotateZoneKey_def qbind_def reading_def split: sum.splits)
        ultimately show ?thesis using m by simp
      qed
      then have "rotated ?i role d js new d'" using rot by (simp add: rotated_def)
      moreover have "js = active_ids ?i role d" if "v = Inr n" for n
        using d' js(3) that unfolding ua[OF Inr] by simp
      ultimately show ?thesis by (intro disjI2 exI conjI allI impI)
    qed
  qed
qed

section \<open>No zone is left without a key\<close>

definition has_key :: "uuid \<Rightarrow> string \<Rightarrow> dns_db \<Rightarrow> bool" where
  "has_key i role d \<longleftrightarrow> (\<exists>k\<in>set (dns_keys d). active_key i role k)"

definition keys_distinct :: "dns_db \<Rightarrow> bool" where
  "keys_distinct d \<longleftrightarrow> distinct (map k_id (dns_keys d))"

lemma rotated_ok:
  assumes "rotated i role d js new d'" "keys_distinct d"
  shows "keys_distinct d'" "has_key j r d \<Longrightarrow> has_key j r d'"
proof -
  obtain ks where ks: "list_all2 (retired_at js) (dns_keys d) ks" "dns_keys d' = ks @ [new]"
    using assms(1) by (auto simp: rotated_def)
  note ids = retired_ids[OF ks(1)]
  then have "k_id ` set ks = k_id ` set (dns_keys d)" by (metis list.set_map)
  then show "keys_distinct d'"
    using assms ids ks(2) by (simp add: keys_distinct_def rotated_def)
  assume "has_key j r d"
  then obtain k where k: "k \<in> set (dns_keys d)" "active_key j r k" by (auto simp: has_key_def)
  show "has_key j r d'"
  proof (cases "k_id k \<in> js")
    case True
    then obtain k' where k': "k' \<in> set (dns_keys d)" "active_key i role k'" "k_id k' = k_id k"
      using assms(1) by (auto simp: rotated_def active_ids_def)
    have "inj_on k_id (set (dns_keys d))" using assms(2) by (simp add: keys_distinct_def distinct_map)
    then have "k' = k" using k'(3,1) k(1) by (rule inj_onD)
    then have "active_key j r new" using k' k(2) assms(1) by (auto simp: rotated_def active_key_def)
    then show ?thesis using ks(2) by (auto simp: has_key_def)
  next
    case False
    then show ?thesis using retired_member[OF ks(1) k(1)] k(2) ks(2) by (auto simp: has_key_def)
  qed
qed

lemma RotateZoneKey_ok:
  assumes "keys_alone E" "keys_distinct d" "RotateZoneKey E z role d = (v, d')"
  shows "keys_distinct d' \<and> (\<forall>j r. has_key j r d \<longrightarrow> has_key j r d')"
  using RotateZoneKey_spec[OF assms(1,3)]
proof
  assume "\<exists>e. v = Inl e \<and> dns_keys d' = dns_keys d"
  then show ?thesis using assms(2) by (auto simp: keys_distinct_def has_key_def)
next
  assume "\<exists>js new. rotated (z_id z) role d js new d' \<and> (\<forall>n. v = Inr n \<longrightarrow> js = active_ids (z_id z) role d)"
  then show ?thesis using rotated_ok[OF _ assms(2)] by blast
qed

definition still_signed :: "dns_db \<Rightarrow> dns_db \<Rightarrow> bool" where
  "still_signed d d' \<longleftrightarrow> keys_distinct d' \<and> (\<forall>j r. has_key j r d \<longrightarrow> has_key j r d')"

lemma still_signed_trans: "\<lbrakk>still_signed a b; still_signed b c\<rbrakk> \<Longrightarrow> still_signed a c"
  by (simp add: still_signed_def)

lemma still_signed_keys: "\<lbrakk>keys_distinct d; dns_keys d' = dns_keys d\<rbrakk> \<Longrightarrow> still_signed d d'"
  by (simp add: still_signed_def keys_distinct_def has_key_def)

lemma listing_keys:
  assumes "keys_alone E" "iexec E Q (reading g) d = (v, d')"
  shows "dns_keys d' = dns_keys d"
  by (cases rule: iexec_keys[OF assms]) (auto simp: reading_def)

lemma rotate_due_ok:
  assumes "keys_alone E"
  shows "keys_distinct d \<Longrightarrow> still_signed d (snd (rotate_due E t zs n d))"
proof (induction zs arbitrary: n d)
  case Nil
  then show ?case by (simp add: reading_def still_signed_keys)
next
  case (Cons z zs)
  obtain a d1 where a: "iexec E ''ListActiveDnsKeysForZoneAndRole'' (ListActiveDnsKeysForZoneAndRole (z_id z) ''zsk'') d = (a, d1)"
    by fastforce
  have d1: "still_signed d d1"
    using listing_keys[OF assms a[unfolded ListActiveDnsKeysForZoneAndRole_def]] Cons.prems
    by (rule still_signed_keys[rotated])
  then have distinct1: "keys_distinct d1" by (simp add: still_signed_def)
  obtain r d2 where r: "RotateZoneKey E z ''zsk'' d1 = (r, d2)" by fastforce
  have d2: "still_signed d1 d2" using RotateZoneKey_ok[OF assms distinct1 r] by (simp add: still_signed_def)
  have rest: "still_signed d (snd (rotate_due E t zs m d1))" "still_signed d (snd (rotate_due E t zs m d2))" for m
    using Cons.IH[OF distinct1] Cons.IH[of d2] d1 d2 still_signed_trans by (auto simp: still_signed_def)
  show ?case
    using Cons.IH[OF Cons.prems] rest a r by (auto split: sum.split)
qed

text \<open>C28. No rotation takes a zone its last key: when \<open>dns_rotate_zsks\<close> ends, every zone that had an
  active key of a role still has one, and no two keys have the same id; whichever statements
  fail on the way (each commits by itself, and a zone whose rotation stops half way is left with
  its new key and those of its old keys that were not retired yet), provided only that other
  transactions leave the key table alone.\<close>

theorem rotation_never_unsigns:
  assumes "keys_alone E" "keys_distinct d" "has_key j role d"
  shows "has_key j role (snd (dns_rotate_zsks E t d)) \<and> keys_distinct (snd (dns_rotate_zsks E t d))"
proof -
  obtain v d1 where v: "iexec E ''ListSignedZonesWithZskRotation'' ListSignedZonesWithZskRotation d = (v, d1)"
    by fastforce
  have d1: "still_signed d d1"
    using listing_keys[OF assms(1) v[unfolded ListSignedZonesWithZskRotation_def]] assms(2)
    by (rule still_signed_keys[rotated])
  have "still_signed d (snd (dns_rotate_zsks E t d))"
  proof (cases v)
    case (Inl e)
    then show ?thesis using v d1 by (simp add: dns_rotate_zsks_def qbind_def)
  next
    case (Inr zs)
    have "still_signed d1 (snd (rotate_due E t zs 0 d1))"
      using d1 by (intro rotate_due_ok[OF assms(1)]) (simp add: still_signed_def)
    then show ?thesis
      using v Inr d1 still_signed_trans
      by (auto simp: dns_rotate_zsks_def qbind_def reading_def split: prod.split sum.split)
  qed
  then show ?thesis using assms(3) by (simp add: still_signed_def)
qed

lemma rotation_never_unsigns_witness:
  "has_key 1 ''zsk'' (snd (dns_rotate_zsks (calm_env\<lparr>db_fault := \<lambda>Q d. if Q = ''RetireDnsKey'' then Some (DbOther ''down'') else None\<rparr>)
     5000000 (example_dns False)))
   \<and> length (dns_keys (snd (dns_rotate_zsks (calm_env\<lparr>db_fault := \<lambda>Q d. if Q = ''RetireDnsKey'' then Some (DbOther ''down'') else None\<rparr>)
     5000000 (example_dns False)))) = 6"
proof
  let ?E = "calm_env\<lparr>db_fault := \<lambda>Q d. if Q = ''RetireDnsKey'' then Some (DbOther ''down'') else None\<rparr>"
  have "keys_alone ?E" "keys_distinct (example_dns False)" "has_key 1 ''zsk'' (example_dns False)"
    by (simp_all add: keys_alone_def calm_env_def keys_distinct_def has_key_def active_key_def example_dns_def
        example_key_def)
  from rotation_never_unsigns[OF this, of 5000000]
  show "has_key 1 ''zsk'' (snd (dns_rotate_zsks ?E 5000000 (example_dns False)))" by simp
qed code_simp

section \<open>A rotation that runs through\<close>

definition unfailing :: "('z) dns_env_scheme \<Rightarrow> bool" where
  "unfailing E \<longleftrightarrow> quiet E \<and> (\<forall>Q d. db_fault E Q d = None)"

lemma unfailing_iexec: "unfailing E \<Longrightarrow> iexec E Q f d = f d"
  by (simp add: unfailing_def quiet_def iexec_def)

lemma unfailing_keys_alone: "unfailing E \<Longrightarrow> keys_alone E"
  by (simp add: unfailing_def quiet_def keys_alone_def)

lemma RetireDnsKey_done: "\<exists>d'. RetireDnsKey j d = (Inr (), d') \<and> zones d' = zones d"
  by (auto simp: RetireDnsKey_def exec_only_def update_row_def put_keys_def split: option.split)

lemma retire_keys_done:
  assumes "unfailing E"
  shows "\<exists>d'. retire_keys E ks n d = (Inr (n + length ks), d') \<and> zones d' = zones d"
proof (induction ks arbitrary: n d)
  case (Cons k ks)
  obtain d1 where "RetireDnsKey (k_id k) d = (Inr (), d1)" "zones d1 = zones d" using RetireDnsKey_done by blast
  then show ?case using Cons[of "Suc n" d1] by (auto simp: qbind_def unfailing_iexec[OF assms])
qed (simp add: reading_def)

text \<open>What a rotation needs to run through: the zone is there and may be stamped, and key generation
  and the id generator work.\<close>

definition rotatable :: "dns_env \<Rightarrow> dns_zone \<Rightarrow> dns_db \<Rightarrow> bool" where
  "rotatable E z d \<longleftrightarrow> unfailing E \<and> z_signed z \<and> \<not> z_frozen z \<and> find_row z_id (z_id z) (zones d) = Some z
     \<and> first_error (zone_lengths z) = None \<and> gen_id E d \<notin> k_id ` set (dns_keys d)
     \<and> (\<forall>a. dnssecAlgNumber a \<noteq> 0 \<longrightarrow> keypair E a d \<noteq> None)
     \<and> (\<forall>k\<in>set (dns_keys d). dnssecAlgNumber (k_algorithm k) \<noteq> 0)"

lemma known_algorithm: "dnssecAlgNumber a \<noteq> 0 \<Longrightarrow> a \<in> {''ecdsap256sha256'', ''ed25519'', ''rsasha256''}"
  by (auto simp: dnssecAlgNumber_def split: if_splits)

lemma mint_key_done:
  assumes "rotatable E z d" "dnssecAlgNumber alg \<noteq> 0" "role \<in> {''ksk'', ''zsk''}"
  shows "\<exists>k d'. mint_key E (z_id z) role alg d = (Inr k, d') \<and> zones d' = zones d \<and> k_algorithm k = alg"
proof -
  have "keypair E alg d \<noteq> None" using assms(1,2) unfolding rotatable_def by blast
  then obtain pem public where "keypair E alg d = Some (pem, public)" by (cases "keypair E alg d") auto
  then obtain g where g: "generateDnssecKeypair E role alg d = Some g" "gk_role g = role" "gk_algorithm g = alg"
    using assms(2) by (auto simp: generateDnssecKeypair_def Let_def)
  have "z \<in> set (zones d) \<and> z_id z = z_id z" using assms(1) find_row_SomeD by (fastforce simp: rotatable_def)
  then have "key_check (new_key E (z_id z) g d) d = None"
    using g known_algorithm[OF assms(2)] assms(3)
    by (auto simp: key_check_def first_error_None new_key_def enum_text_def exists_opt_def exists_row_def)
  moreover have "gen_id E d \<notin> k_id ` set (dns_keys d)" using assms(1) by (simp add: rotatable_def)
  ultimately have "CreateDnsKey (new_key E (z_id z) g d) d
      = (Inr (new_key E (z_id z) g d), put_keys (dns_keys d @ [new_key E (z_id z) g d]) d)"
    by (simp add: CreateDnsKey_def insert_row_def new_key_def)
  then show ?thesis
    using g assms(1) by (simp add: mint_key_def unfailing_iexec rotatable_def put_keys_def new_key_def)
qed

lemma TouchDnsZone_done:
  assumes "find_row z_id (z_id z) (zones d) = Some z" "first_error (zone_lengths z) = None"
  shows "\<exists>d'. TouchDnsZone (z_id z) d = (Inr (), d')"
  using assms by (simp add: TouchDnsZone_def exec_only_def stamp_zone_def update_row_def zone_lengths_def)

lemma RotateZoneKey_runs:
  assumes "rotatable E z d" "role \<in> {''ksk'', ''zsk''}"
  shows "\<exists>d'. RotateZoneKey E z role d = (Inr (length (filter (active_key (z_id z) role) (dns_keys d))), d')"
proof -
  let ?ks = "sort_key (\<lambda>k. - k_active_from k) (filter (active_key (z_id z) role) (dns_keys d))"
  have unfailing: "unfailing E" using assms(1) by (simp add: rotatable_def)
  have list: "ListActiveDnsKeysForZoneAndRole (z_id z) role d = (Inr ?ks, d)"
    using assms(2) by (simp add: ListActiveDnsKeysForZoneAndRole_def reading_def)
  have alg: "dnssecAlgNumber (newest_algorithm ?ks) \<noteq> 0"
  proof (cases ?ks)
    case (Cons k ks)
    then have "k \<in> set ?ks" by simp
    then have "k \<in> set (dns_keys d)" by simp
    then show ?thesis using assms(1) Cons by (simp add: newest_algorithm_def rotatable_def)
  qed (simp add: newest_algorithm_def defaultDnssecAlgorithm_def dnssecAlgNumber_def)
  obtain k d1 where k: "mint_key E (z_id z) role (newest_algorithm ?ks) d = (Inr k, d1)" "zones d1 = zones d"
    using mint_key_done[OF assms(1) alg assms(2)] by blast
  obtain d2 where d2: "retire_keys E ?ks 0 d1 = (Inr (length ?ks), d2)" "zones d2 = zones d1"
    using retire_keys_done[OF unfailing, of ?ks 0 d1] by auto
  have "find_row z_id (z_id z) (zones d2) = Some z" "first_error (zone_lengths z) = None"
    using d2 k assms(1) by (simp_all add: rotatable_def)
  then obtain d3 where "TouchDnsZone (z_id z) d2 = (Inr (), d3)" using TouchDnsZone_done by blast
  then show ?thesis
    using assms(1) list k d2
    by (simp add: RotateZoneKey_def qbind_def unfailing_iexec[OF unfailing] rotatable_def newest_algorithm_def reading_def)
qed

text \<open>C29. A rotation that meets no failure returns, and leaves exactly one active key of the role in
  the zone: a key of a fresh id with the algorithm of the newest key it replaces (ECDSA P-256 if
  there was none); all the keys that were active are retired, their number is the answer, and no
  other key of any zone or catalog is touched.\<close>

theorem rotation_leaves_one_active:
  assumes "rotatable E z d" "role \<in> {''ksk'', ''zsk''}" "keys_distinct d"
  shows "\<exists>new d'. RotateZoneKey E z role d = (Inr (length (filter (active_key (z_id z) role) (dns_keys d))), d')
     \<and> filter (active_key (z_id z) role) (dns_keys d') = [new] \<and> k_id new \<notin> k_id ` set (dns_keys d)
     \<and> k_algorithm new = newest_algorithm (active_list (z_id z) role d)
     \<and> map k_id (dns_keys d') = map k_id (dns_keys d) @ [k_id new]
     \<and> (\<forall>k\<in>set (dns_keys d). \<not> active_key (z_id z) role k \<longrightarrow> k \<in> set (dns_keys d'))"
proof -
  let ?i = "z_id z"
  obtain d' where run: "RotateZoneKey E z role d = (Inr (length (filter (active_key ?i role) (dns_keys d))), d')"
    using RotateZoneKey_runs[OF assms(1,2)] by blast
  have "keys_alone E" using assms(1) by (simp add: rotatable_def unfailing_keys_alone)
  from RotateZoneKey_spec[OF this run] obtain js new
    where rot: "rotated ?i role d js new d'" and js: "js = active_ids ?i role d" by blast
  obtain ks where ks: "list_all2 (retired_at js) (dns_keys d) ks" "dns_keys d' = ks @ [new]"
    using rot by (auto simp: rotated_def)
  have "\<not> active_key ?i role k'" if k': "k' \<in> set ks" for k'
  proof -
    obtain n where n: "n < length ks" "k' = ks ! n" using k' by (auto simp: in_set_conv_nth)
    then have r: "retired_at js (dns_keys d ! n) k'" "dns_keys d ! n \<in> set (dns_keys d)"
      using ks(1) by (auto simp: list_all2_conv_all_nth)
    show ?thesis
    proof (cases "k_id (dns_keys d ! n) \<in> js")
      case True
      then show ?thesis using r(1) by (auto simp: retired_at_def active_key_def)
    next
      case False
      then show ?thesis using r by (auto simp: retired_at_def js active_ids_def)
    qed
  qed
  then have "filter (active_key ?i role) ks = []" by (simp add: filter_empty_conv)
  then have one: "filter (active_key ?i role) (dns_keys d') = [new]" "k_id new \<notin> k_id ` set (dns_keys d)"
    "k_algorithm new = newest_algorithm (active_list ?i role d)"
    using ks(2) rot by (simp_all add: rotated_def)
  have ids: "map k_id (dns_keys d') = map k_id (dns_keys d) @ [k_id new]"
    using retired_ids[OF ks(1)] ks(2) by simp
  have "k \<in> set (dns_keys d')" if k: "k \<in> set (dns_keys d)" "\<not> active_key ?i role k" for k
  proof -
    have "inj_on k_id (set (dns_keys d))" using assms(3) by (simp add: keys_distinct_def distinct_map)
    then have "k_id k \<notin> js" using k by (auto simp: js active_ids_def dest: inj_onD)
    then show ?thesis using retired_member[OF ks(1) k(1)] ks(2) by simp
  qed
  then show ?thesis using run one ids by blast
qed

lemma rotation_leaves_one_active_witness:
  "\<exists>new d'. RotateZoneKey calm_env (example_zone 1 ''a.test'' False) ''zsk'' (example_dns False) = (Inr 1, d')
     \<and> filter (active_key 1 ''zsk'') (dns_keys d') = [new] \<and> k_id new \<notin> {61, 62, 63, 64}"
proof -
  let ?z = "example_zone 1 ''a.test'' False"
  have "rotatable calm_env ?z (example_dns False)"
    by (simp add: rotatable_def unfailing_def quiet_def calm_env_def find_row_def example_zone_def zone_lengths_def
        too_long_def example_key_def dnssecAlgNumber_def example_dns_def example_record_def)
  moreover have "keys_distinct (example_dns False)"
    by (simp add: keys_distinct_def example_dns_def example_key_def)
  ultimately show ?thesis
    using rotation_leaves_one_active[of calm_env ?z "example_dns False" "''zsk''"]
    by (auto simp: example_dns_def example_key_def example_zone_def active_key_def)
qed

end
