(* ===== verification/DnsReads.thy ===== *)
theory DnsReads
  imports DnsRoutes
begin

text \<open>
  The list and get handlers of \<^verbatim>\<open>internal/dns/handler.go\<close> with their queries (\<^verbatim>\<open>dns.sql\<close>,
  \<^verbatim>\<open>dns_extras.sql\<close>, \<^verbatim>\<open>dns_extras2.sql\<close>).  The answers show the address columns as they are
  stored; the queries print them with \<^verbatim>\<open>host()\<close>.
\<close>

section \<open>Queries\<close>

definition ordered_where ::
    "('s \<Rightarrow> 'r list) \<Rightarrow> ('r \<Rightarrow> 'k :: linorder) \<Rightarrow> ('s \<Rightarrow> 'r \<Rightarrow> bool) \<Rightarrow> int \<Rightarrow> int \<Rightarrow> ('s, 'r list) statement" where
  "ordered_where rows key wh limit offset =
     reading (\<lambda>db. Inr (page_of key limit offset (filter (wh db) (rows db))))"

definition zones_where :: "uuid option \<Rightarrow> uuid option \<Rightarrow> string option \<Rightarrow> uuid set option \<Rightarrow> dns_db \<Rightarrow> dns_zone \<Rightarrow> bool" where
  "zones_where fab site kind ids db r \<longleftrightarrow> opt_eq fab (z_fabric r) \<and> (site = None \<or> z_site r = site) \<and> opt_eq kind (z_kind r) \<and> opt_in ids (z_fabric r)"

definition ListDnsZones :: "uuid option \<Rightarrow> uuid option \<Rightarrow> string option \<Rightarrow> uuid set option \<Rightarrow> int \<Rightarrow> int \<Rightarrow> dns_zone list dquery" where
  "ListDnsZones fab site kind ids = ordered_where zones (\<lambda>r. by_name (z_name r)) (zones_where fab site kind ids)"

definition CountDnsZones :: "uuid option \<Rightarrow> uuid option \<Rightarrow> string option \<Rightarrow> uuid set option \<Rightarrow> nat dquery" where
  "CountDnsZones fab site kind ids = count_where zones (zones_where fab site kind ids)"

definition records_where :: "uuid option \<Rightarrow> string option \<Rightarrow> string option \<Rightarrow> uuid set option \<Rightarrow> dns_db \<Rightarrow> dns_record \<Rightarrow> bool" where
  "records_where zid type source ids db r \<longleftrightarrow> opt_eq zid (r_zone r) \<and> opt_eq type (r_type r) \<and> opt_eq source (r_source r)
     \<and> (case ids of None \<Rightarrow> True | Some fs \<Rightarrow> \<exists>z\<in>set (zones db). z_id z = r_zone r \<and> z_fabric z \<in> fs)"

definition ListDnsRecords :: "uuid option \<Rightarrow> string option \<Rightarrow> string option \<Rightarrow> uuid set option \<Rightarrow> int \<Rightarrow> int \<Rightarrow> dns_record list dquery" where
  "ListDnsRecords zid type source ids = ordered_where zone_records (\<lambda>r. (r_zone r, by_name (r_name r), type_rank (r_type r))) (records_where zid type source ids)"

definition CountDnsRecords :: "uuid option \<Rightarrow> string option \<Rightarrow> string option \<Rightarrow> uuid set option \<Rightarrow> nat dquery" where
  "CountDnsRecords zid type source ids = count_where zone_records (records_where zid type source ids)"

definition dns_servers_where :: "uuid option \<Rightarrow> uuid option \<Rightarrow> string option \<Rightarrow> uuid set option \<Rightarrow> dns_db \<Rightarrow> dns_server \<Rightarrow> bool" where
  "dns_servers_where site fab role ids db r \<longleftrightarrow> opt_eq site (dv_site r) \<and> opt_eq fab (dv_fabric r) \<and> opt_eq role (dv_role r) \<and> opt_in ids (dv_fabric r)"

definition ListDnsServers :: "uuid option \<Rightarrow> uuid option \<Rightarrow> string option \<Rightarrow> uuid set option \<Rightarrow> int \<Rightarrow> int \<Rightarrow> dns_server list dquery" where
  "ListDnsServers site fab role ids = ordered_where dns_servers (\<lambda>r. by_name (dv_name r)) (dns_servers_where site fab role ids)"

definition CountDnsServers :: "uuid option \<Rightarrow> uuid option \<Rightarrow> string option \<Rightarrow> uuid set option \<Rightarrow> nat dquery" where
  "CountDnsServers site fab role ids = count_where dns_servers (dns_servers_where site fab role ids)"

definition groups_where :: "uuid option \<Rightarrow> string option \<Rightarrow> uuid set option \<Rightarrow> dns_db \<Rightarrow> anycast_group \<Rightarrow> bool" where
  "groups_where fab service ids db r \<longleftrightarrow> opt_eq fab (ag_fabric r) \<and> opt_eq service (ag_service r) \<and> opt_in ids (ag_fabric r)"

definition ListAnycastGroups :: "uuid option \<Rightarrow> string option \<Rightarrow> uuid set option \<Rightarrow> int \<Rightarrow> int \<Rightarrow> anycast_group list dquery" where
  "ListAnycastGroups fab service ids = ordered_where anycast_groups (\<lambda>r. by_name (ag_name r)) (groups_where fab service ids)"

definition CountAnycastGroups :: "uuid option \<Rightarrow> string option \<Rightarrow> uuid set option \<Rightarrow> nat dquery" where
  "CountAnycastGroups fab service ids = count_where anycast_groups (groups_where fab service ids)"

definition forwarders_where :: "uuid option \<Rightarrow> uuid set option \<Rightarrow> dns_db \<Rightarrow> dns_forwarder \<Rightarrow> bool" where
  "forwarders_where fab ids db r \<longleftrightarrow> opt_eq fab (fw_fabric r) \<and> opt_in ids (fw_fabric r)"

definition ListDnsForwarders :: "uuid option \<Rightarrow> uuid set option \<Rightarrow> int \<Rightarrow> int \<Rightarrow> dns_forwarder list dquery" where
  "ListDnsForwarders fab ids = ordered_where forwarders (\<lambda>r. by_name (fw_pattern r)) (forwarders_where fab ids)"

definition CountDnsForwarders :: "uuid option \<Rightarrow> uuid set option \<Rightarrow> nat dquery" where
  "CountDnsForwarders fab ids = count_where forwarders (forwarders_where fab ids)"

definition catalogs_where :: "uuid option \<Rightarrow> uuid set option \<Rightarrow> dns_db \<Rightarrow> catalog_zone \<Rightarrow> bool" where
  "catalogs_where fab ids db r \<longleftrightarrow> opt_eq fab (cz_fabric r) \<and> opt_in ids (cz_fabric r)"

definition ListDnsCatalogZones :: "uuid option \<Rightarrow> uuid set option \<Rightarrow> int \<Rightarrow> int \<Rightarrow> catalog_zone list dquery" where
  "ListDnsCatalogZones fab ids = ordered_where catalogs (\<lambda>r. by_name (cz_name r)) (catalogs_where fab ids)"

definition CountDnsCatalogZones :: "uuid option \<Rightarrow> uuid set option \<Rightarrow> nat dquery" where
  "CountDnsCatalogZones fab ids = count_where catalogs (catalogs_where fab ids)"

definition blocklists_where :: "uuid option \<Rightarrow> uuid set option \<Rightarrow> dns_db \<Rightarrow> blocklist \<Rightarrow> bool" where
  "blocklists_where fab ids db r \<longleftrightarrow> opt_eq fab (bl_fabric r) \<and> opt_in ids (bl_fabric r)"

definition ListDnsBlocklists :: "uuid option \<Rightarrow> uuid set option \<Rightarrow> int \<Rightarrow> int \<Rightarrow> blocklist list dquery" where
  "ListDnsBlocklists fab ids = ordered_where blocklists (\<lambda>r. by_name (bl_name r)) (blocklists_where fab ids)"

definition CountDnsBlocklists :: "uuid option \<Rightarrow> uuid set option \<Rightarrow> nat dquery" where
  "CountDnsBlocklists fab ids = count_where blocklists (blocklists_where fab ids)"

definition views_where :: "uuid option \<Rightarrow> uuid set option \<Rightarrow> dns_db \<Rightarrow> dns_view \<Rightarrow> bool" where
  "views_where fab ids db r \<longleftrightarrow> opt_eq fab (vw_fabric r) \<and> opt_in ids (vw_fabric r)"

definition ListDnsViews :: "uuid option \<Rightarrow> uuid set option \<Rightarrow> int \<Rightarrow> int \<Rightarrow> dns_view list dquery" where
  "ListDnsViews fab ids = ordered_where views (\<lambda>r. (vw_priority r, by_name (vw_name r))) (views_where fab ids)"

definition CountDnsViews :: "uuid option \<Rightarrow> uuid set option \<Rightarrow> nat dquery" where
  "CountDnsViews fab ids = count_where views (views_where fab ids)"

definition checks_where :: "uuid option \<Rightarrow> uuid set option \<Rightarrow> dns_db \<Rightarrow> health_check \<Rightarrow> bool" where
  "checks_where fab ids db r \<longleftrightarrow> opt_eq fab (hc_fabric r) \<and> opt_in ids (hc_fabric r)"

definition ListDnsHealthChecks :: "uuid option \<Rightarrow> uuid set option \<Rightarrow> int \<Rightarrow> int \<Rightarrow> health_check list dquery" where
  "ListDnsHealthChecks fab ids = ordered_where health_checks (\<lambda>r. by_name (hc_name r)) (checks_where fab ids)"

definition CountDnsHealthChecks :: "uuid option \<Rightarrow> uuid set option \<Rightarrow> nat dquery" where
  "CountDnsHealthChecks fab ids = count_where health_checks (checks_where fab ids)"

definition peers_where :: "uuid option \<Rightarrow> uuid set option \<Rightarrow> dns_db \<Rightarrow> bgp_peer \<Rightarrow> bool" where
  "peers_where site ids db r \<longleftrightarrow> opt_eq site (bp_site r) \<and> opt_in ids (bp_site r)"

definition ListBgpPeers :: "uuid option \<Rightarrow> uuid set option \<Rightarrow> int \<Rightarrow> int \<Rightarrow> bgp_peer list dquery" where
  "ListBgpPeers site ids = ordered_where bgp_peers (\<lambda>r. by_name (bp_name r)) (peers_where site ids)"

definition CountBgpPeers :: "uuid option \<Rightarrow> uuid set option \<Rightarrow> nat dquery" where
  "CountBgpPeers site ids = count_where bgp_peers (peers_where site ids)"

definition bindings_where :: "uuid option \<Rightarrow> uuid option \<Rightarrow> uuid set option \<Rightarrow> dns_db \<Rightarrow> anycast_binding \<Rightarrow> bool" where
  "bindings_where server peer ids db r \<longleftrightarrow> opt_eq server (ab_server r) \<and> opt_eq peer (ab_peer r)
     \<and> (case ids of None \<Rightarrow> True
        | Some fs \<Rightarrow> \<exists>s\<in>set (dns_servers db). dv_id s = ab_server r \<and> dv_fabric s \<in> fs)"

definition ListAnycastBindings :: "uuid option \<Rightarrow> uuid option \<Rightarrow> uuid set option \<Rightarrow> int \<Rightarrow> int \<Rightarrow> anycast_binding list dquery" where
  "ListAnycastBindings server peer ids = newest_where bindings (bindings_where server peer ids)"

definition CountAnycastBindings :: "uuid option \<Rightarrow> uuid option \<Rightarrow> uuid set option \<Rightarrow> nat dquery" where
  "CountAnycastBindings server peer ids = count_where bindings (bindings_where server peer ids)"

definition ListDnsBlocklistEntries :: "uuid \<Rightarrow> int \<Rightarrow> int \<Rightarrow> blocklist_entry list dquery" where
  "ListDnsBlocklistEntries i = ordered_where blocklist_entries (\<lambda>r. by_name (be_pattern r)) (\<lambda>db r. be_list r = i)"

definition CountDnsBlocklistEntries :: "uuid \<Rightarrow> nat dquery" where
  "CountDnsBlocklistEntries i = count_where blocklist_entries (\<lambda>db r. be_list r = i)"

section \<open>Lists\<close>

text \<open>A UUID of the query string that is checked before the scope.\<close>

definition fabricIDFromQuery :: "dns_env \<Rightarrow> query_values \<Rightarrow> ('r, uuid option) dhandler" where
  "fabricIDFromQuery E q = uuid_param E q ''fabric_id''"

definition listZones :: "dns_env \<Rightarrow> principal \<Rightarrow> query_values \<Rightarrow> (dns_zone Page, dns_zone Page resp) dhandler" where
  "listZones E p q =
     in_scope p ''dns:zones:read'' (PageBounds q) (\<lambda>ids.
     hbind (uuid_param E q ''fabric_id'') (\<lambda>fab.
     hbind (uuid_param E q ''site_id'') (\<lambda>site.
     answer_page E ''ListDnsZones'' (ListDnsZones fab site (strPtr (q ''kind'')) ids)
       ''CountDnsZones'' (CountDnsZones fab site (strPtr (q ''kind'')) ids) (PageBounds q))))"

definition listRecords :: "dns_env \<Rightarrow> principal \<Rightarrow> query_values \<Rightarrow> (dns_record Page, dns_record Page resp) dhandler" where
  "listRecords E p q =
     in_scope p ''dns:records:read'' (PageBounds q) (\<lambda>ids.
     hbind (uuid_param E q ''zone_id'') (\<lambda>zid.
     answer_page E ''ListDnsRecords'' (ListDnsRecords zid (strPtr (q ''type'')) (strPtr (q ''source'')) ids)
       ''CountDnsRecords'' (CountDnsRecords zid (strPtr (q ''type'')) (strPtr (q ''source'')) ids) (PageBounds q)))"

definition listServers :: "dns_env \<Rightarrow> principal \<Rightarrow> query_values \<Rightarrow> (dns_server Page, dns_server Page resp) dhandler" where
  "listServers E p q =
     in_scope p ''dns:servers:read'' (PageBounds q) (\<lambda>ids.
     hbind (uuid_param E q ''site_id'') (\<lambda>site.
     hbind (uuid_param E q ''fabric_id'') (\<lambda>fab.
     answer_page E ''ListDnsServers'' (ListDnsServers site fab (strPtr (q ''role'')) ids)
       ''CountDnsServers'' (CountDnsServers site fab (strPtr (q ''role'')) ids) (PageBounds q))))"

definition listAnycastGroups :: "dns_env \<Rightarrow> principal \<Rightarrow> query_values \<Rightarrow> (anycast_group Page, anycast_group Page resp) dhandler" where
  "listAnycastGroups E p q =
     in_scope p ''dns:anycast-groups:read'' (PageBounds q) (\<lambda>ids.
     hbind (uuid_param E q ''fabric_id'') (\<lambda>fab.
     answer_page E ''ListAnycastGroups'' (ListAnycastGroups fab (strPtr (q ''service'')) ids)
       ''CountAnycastGroups'' (CountAnycastGroups fab (strPtr (q ''service'')) ids) (PageBounds q)))"

definition listForwarders :: "dns_env \<Rightarrow> principal \<Rightarrow> query_values \<Rightarrow> (dns_forwarder Page, dns_forwarder Page resp) dhandler" where
  "listForwarders E p q =
     in_scope p ''dns:forwarders:read'' (PageBounds q) (\<lambda>ids.
     hbind (uuid_param E q ''fabric_id'') (\<lambda>fab.
     answer_page E ''ListDnsForwarders'' (ListDnsForwarders fab ids)
       ''CountDnsForwarders'' (CountDnsForwarders fab ids) (PageBounds q)))"

definition listCatalogZones :: "dns_env \<Rightarrow> principal \<Rightarrow> query_values \<Rightarrow> (catalog_zone Page, catalog_zone Page resp) dhandler" where
  "listCatalogZones E p q =
     in_scope p ''dns:catalog-zones:read'' (PageBounds q) (\<lambda>ids.
     hbind (uuid_param E q ''fabric_id'') (\<lambda>fab.
     answer_page E ''ListDnsCatalogZones'' (ListDnsCatalogZones fab ids)
       ''CountDnsCatalogZones'' (CountDnsCatalogZones fab ids) (PageBounds q)))"

definition listBlocklists :: "dns_env \<Rightarrow> principal \<Rightarrow> query_values \<Rightarrow> (blocklist Page, blocklist Page resp) dhandler" where
  "listBlocklists E p q =
     hbind (fabricIDFromQuery E q) (\<lambda>fab.
     in_scope p ''dns:blocklists:read'' (PageBounds q) (\<lambda>ids.
     answer_page E ''ListDnsBlocklists'' (ListDnsBlocklists fab ids) ''CountDnsBlocklists'' (CountDnsBlocklists fab ids) (PageBounds q)))"

definition listViews :: "dns_env \<Rightarrow> principal \<Rightarrow> query_values \<Rightarrow> (dns_view Page, dns_view Page resp) dhandler" where
  "listViews E p q =
     hbind (fabricIDFromQuery E q) (\<lambda>fab.
     in_scope p ''dns:views:read'' (PageBounds q) (\<lambda>ids.
     answer_page E ''ListDnsViews'' (ListDnsViews fab ids) ''CountDnsViews'' (CountDnsViews fab ids) (PageBounds q)))"

definition listHealthChecks :: "dns_env \<Rightarrow> principal \<Rightarrow> query_values \<Rightarrow> (health_check Page, health_check Page resp) dhandler" where
  "listHealthChecks E p q =
     hbind (fabricIDFromQuery E q) (\<lambda>fab.
     in_scope p ''dns:health-checks:read'' (PageBounds q) (\<lambda>ids.
     answer_page E ''ListDnsHealthChecks'' (ListDnsHealthChecks fab ids) ''CountDnsHealthChecks'' (CountDnsHealthChecks fab ids) (PageBounds q)))"

definition listAnycastBindings :: "dns_env \<Rightarrow> principal \<Rightarrow> query_values \<Rightarrow> (anycast_binding Page, anycast_binding Page resp) dhandler" where
  "listAnycastBindings E p q =
     in_scope p ''dns:anycast-bindings:read'' (PageBounds q) (\<lambda>ids.
     hbind (uuid_param E q ''dns_server_id'') (\<lambda>server.
     hbind (uuid_param E q ''bgp_peer_id'') (\<lambda>peer.
     answer_page E ''ListAnycastBindings'' (ListAnycastBindings server peer ids)
       ''CountAnycastBindings'' (CountAnycastBindings server peer ids) (PageBounds q))))"

text \<open>Peers are listed by the sites of the scope, which are looked up first.\<close>

definition listBgpPeers :: "dns_env \<Rightarrow> principal \<Rightarrow> query_values \<Rightarrow> (bgp_peer Page, bgp_peer Page resp) dhandler" where
  "listBgpPeers E p q db =
     (case fst (ScopedSiteFilter (site_scope E db) (Some Map.empty) p ''dns:bgp-peers:read'') of
        Inl e \<Rightarrow> hanswer (readErr e) db
      | Inr ids \<Rightarrow>
          if ids = Some {} then hreturn (HttpJSON 200 (EmptyPage (fst (PageBounds q)) (snd (PageBounds q)))) db
          else hbind (uuid_param E q ''site_id'') (\<lambda>site.
               answer_page E ''ListBgpPeers'' (ListBgpPeers site ids) ''CountBgpPeers'' (CountBgpPeers site ids)
                 (PageBounds q)) db)"

text \<open>The entries of a list out of scope are an empty page.\<close>

definition listBlocklistEntries ::
    "dns_env \<Rightarrow> principal \<Rightarrow> string \<Rightarrow> query_values \<Rightarrow> (blocklist_entry Page, blocklist_entry Page resp) dhandler" where
  "listBlocklistEntries E p url q =
     hbind (idFromURL E url) (\<lambda>i.
     hbind (ask E ''GetDnsBlocklist'' (GetDnsBlocklist i) (mapErr ''blocklist not found'')) (\<lambda>bl.
     if ScopedFabricFilter p ''dns:blocklists:read'' \<noteq> None
        \<and> EnforceFabricScope p (bl_fabric bl) ''dns:blocklists:read'' \<noteq> None
     then hreturn (HttpJSON 200 (EmptyPage (fst (PageBounds q)) (snd (PageBounds q))))
     else answer_page E ''ListDnsBlocklistEntries'' (ListDnsBlocklistEntries i)
            ''CountDnsBlocklistEntries'' (CountDnsBlocklistEntries i) (PageBounds q)))"

section \<open>Single rows\<close>

text \<open>No scope is checked for a row that is addressed by its id.\<close>

definition getServer :: "dns_env \<Rightarrow> string \<Rightarrow> (dns_server, dns_server resp) dhandler" where
  "getServer E url =
     hbind (idFromURL E url) (\<lambda>i.
     hbind (ask E ''GetDnsServer'' (GetDnsServer i) (mapErr ''dns server not found'')) (\<lambda>row.
     hreturn (HttpJSON 200 row)))"

definition getZone :: "dns_env \<Rightarrow> string \<Rightarrow> (dns_zone, dns_zone resp) dhandler" where
  "getZone E url =
     hbind (idFromURL E url) (\<lambda>i.
     hbind (ask E ''GetDnsZone'' (GetDnsZone i) (mapErr ''zone not found'')) (\<lambda>row.
     hreturn (HttpJSON 200 row)))"

end
