(* ===== verification/DnsReadProps.thy ===== *)
theory DnsReadProps
  imports DnsReads IpamReadProps
begin

text \<open>
  What the DNS lists show: the rows in the fabrics of a scoped caller; and that a zone or
  a server addressed by its id is shown to everybody.
\<close>

lemma page_rows_ordered_where:
  "quiet E \<Longrightarrow> set (page_rows (answer_page E LQ (ordered_where rows key wh) CQ C b db)) \<subseteq> {x \<in> set (rows db). wh db x}"
  using page_of_subset by (intro page_rows_answer) (fastforce simp: ordered_where_def reading_def)+

definition dns_list_caps :: "string list" where
  "dns_list_caps = [''dns:zones:read'', ''dns:records:read'', ''dns:servers:read'', ''dns:anycast-groups:read'',
     ''dns:forwarders:read'', ''dns:catalog-zones:read'', ''dns:blocklists:read'', ''dns:views:read'',
     ''dns:health-checks:read'', ''dns:anycast-bindings:read'']"

lemma page_rows_ask:
  assumes "quiet E" "\<And>a db'. q db = (Inr a, db') \<Longrightarrow> set (page_rows (k a db')) \<subseteq> S"
  shows "set (page_rows (hbind (ask E Q q h) k db)) \<subseteq> S"
  using assms
  by (cases "q db"; cases "fst (q db)")
    (auto simp: hbind_def ask_def iexec_def quiet_def page_rows_def Let_def split: option.split)

lemma GetDnsBlocklist_row:
  "GetDnsBlocklist i db = (Inr bl, db') \<Longrightarrow> db' = db \<and> bl \<in> set (blocklists db) \<and> bl_id bl = i"
  by (auto simp: GetDnsBlocklist_def get_row_def one_row_def reading_def dest: find_row_SomeD split: option.splits)

text \<open>The entries of a list are read only when its fabric is in the scope.\<close>

lemma EnforceFabricScope_member:
  assumes "FindScope p cap = Some sc" "\<not> IsGlobal sc" "EnforceFabricScope p i cap = None"
  shows "i \<in> FabricIDs sc \<or> i = uuid_nil"
  using assms by (auto simp: EnforceFabricScope_def FabricMatches_def split: if_splits)

lemma entries_in_scope:
  assumes "quiet E" "FindScope p ''dns:blocklists:read'' = Some sc" "\<not> IsGlobal sc"
  shows "set (page_rows (listBlocklistEntries E p url q db)) \<subseteq>
    {x \<in> set (blocklist_entries db). \<exists>l\<in>set (blocklists db). bl_id l = be_list x \<and> (bl_fabric l \<in> FabricIDs sc \<or> bl_fabric l = uuid_nil)}"
    (is "_ \<subseteq> ?S")
proof (cases "fst (idFromURL E url db)")
  case (Inl r)
  then show ?thesis
    by (auto simp: listBlocklistEntries_def hbind_def page_rows_def idFromURL_def hanswer_def hreturn_def
        split: option.splits)
next
  case (Inr i)
  then have id: "idFromURL E url db = (Inr i, db)"
    by (auto simp: idFromURL_def hanswer_def hreturn_def split: option.splits)
  have sf: "ScopedFabricFilter p ''dns:blocklists:read'' \<noteq> None"
    using assms(2,3) by (simp add: ScopedFabricFilter_def)
  show ?thesis
    unfolding listBlocklistEntries_def hbind_def[of "idFromURL E url"] id prod.case sum.case
  proof (rule page_rows_ask[OF assms(1)])
    fix bl :: blocklist and db'
    assume "GetDnsBlocklist i db = (Inr bl, db')"
    then have bl: "db' = db" "bl \<in> set (blocklists db)" "bl_id bl = i" using GetDnsBlocklist_row by auto
    show "set (page_rows ((if ScopedFabricFilter p ''dns:blocklists:read'' \<noteq> None
        \<and> EnforceFabricScope p (bl_fabric bl) ''dns:blocklists:read'' \<noteq> None
        then hreturn (HttpJSON 200 (EmptyPage (fst (PageBounds q)) (snd (PageBounds q))))
        else answer_page E ''ListDnsBlocklistEntries'' (ListDnsBlocklistEntries i)
               ''CountDnsBlocklistEntries'' (CountDnsBlocklistEntries i) (PageBounds q)) db')) \<subseteq> ?S"
    proof (cases "EnforceFabricScope p (bl_fabric bl) ''dns:blocklists:read''")
      case None
      have "bl_fabric bl \<in> FabricIDs sc \<or> bl_fabric bl = uuid_nil"
        using EnforceFabricScope_member[OF assms(2,3) None] .
      then have "{x \<in> set (blocklist_entries db). be_list x = i} \<subseteq> ?S" using bl by blast
      with page_rows_ordered_where[OF assms(1)] show ?thesis
        unfolding bl(1) ListDnsBlocklistEntries_def
        by (simp only: None simp_thms if_False) (rule order_trans)
    next
      case (Some e)
      then show ?thesis using sf by (simp add: hreturn_def page_rows_def EmptyPage_def)
    qed
  qed
qed

text \<open>C30. The DNS lists show a caller that is scoped to fabrics only rows of those fabrics: its zones,
  servers, anycast groups, forwarders, catalogs, blocklists, views and health checks, the
  records of its zones, the bindings of its servers and the entries of its blocklists (the scope
  check lets the nil UUID through, which is no fabric's), whatever the filters of the query string.\<close>

theorem dns_lists_stay_in_scope:
  assumes "quiet E" "\<forall>cap\<in>set dns_list_caps. FindScope p cap = Some sc" "\<not> IsGlobal sc"
  shows "set (page_rows (listZones E p q db)) \<subseteq> {x \<in> set (zones db). z_fabric x \<in> FabricIDs sc}
    \<and> set (page_rows (listRecords E p q db)) \<subseteq>
        {x \<in> set (zone_records db). \<exists>z\<in>set (zones db). z_id z = r_zone x \<and> z_fabric z \<in> FabricIDs sc}
    \<and> set (page_rows (listServers E p q db)) \<subseteq> {x \<in> set (dns_servers db). dv_fabric x \<in> FabricIDs sc}
    \<and> set (page_rows (listAnycastGroups E p q db)) \<subseteq> {x \<in> set (anycast_groups db). ag_fabric x \<in> FabricIDs sc}
    \<and> set (page_rows (listForwarders E p q db)) \<subseteq> {x \<in> set (forwarders db). fw_fabric x \<in> FabricIDs sc}
    \<and> set (page_rows (listCatalogZones E p q db)) \<subseteq> {x \<in> set (catalogs db). cz_fabric x \<in> FabricIDs sc}
    \<and> set (page_rows (listBlocklists E p q db)) \<subseteq> {x \<in> set (blocklists db). bl_fabric x \<in> FabricIDs sc}
    \<and> set (page_rows (listViews E p q db)) \<subseteq> {x \<in> set (views db). vw_fabric x \<in> FabricIDs sc}
    \<and> set (page_rows (listHealthChecks E p q db)) \<subseteq> {x \<in> set (health_checks db). hc_fabric x \<in> FabricIDs sc}
    \<and> set (page_rows (listAnycastBindings E p q db)) \<subseteq>
        {x \<in> set (bindings db). \<exists>s\<in>set (dns_servers db). dv_id s = ab_server x \<and> dv_fabric s \<in> FabricIDs sc}
    \<and> set (page_rows (listBlocklistEntries E p url q db)) \<subseteq>
        {x \<in> set (blocklist_entries db). \<exists>l\<in>set (blocklists db). bl_id l = be_list x \<and> (bl_fabric l \<in> FabricIDs sc \<or> bl_fabric l = uuid_nil)}"
proof -
  have sc: "FindScope p cap = Some sc" if "cap \<in> set dns_list_caps" for cap using assms(2) that by blast
  note scope = page_rows_in_scope[OF sc assms(3)]
  note by_key = order_trans[OF page_rows_ordered_where[OF assms(1)]]
  note newest = order_trans[OF page_rows_newest_where[OF assms(1)]]
  have zones: "set (page_rows (listZones E p q db)) \<subseteq> {x \<in> set (zones db). z_fabric x \<in> FabricIDs sc}"
    unfolding listZones_def ListDnsZones_def
    by (rule scope, simp add: dns_list_caps_def, rule page_rows_uuid_param, rule page_rows_uuid_param, rule by_key)
      (auto simp: zones_where_def opt_in_def)
  have records: "set (page_rows (listRecords E p q db)) \<subseteq>
      {x \<in> set (zone_records db). \<exists>z\<in>set (zones db). z_id z = r_zone x \<and> z_fabric z \<in> FabricIDs sc}"
    unfolding listRecords_def ListDnsRecords_def
    by (rule scope, simp add: dns_list_caps_def, rule page_rows_uuid_param, rule by_key) (auto simp: records_where_def)
  have servers: "set (page_rows (listServers E p q db)) \<subseteq> {x \<in> set (dns_servers db). dv_fabric x \<in> FabricIDs sc}"
    unfolding listServers_def ListDnsServers_def
    by (rule scope, simp add: dns_list_caps_def, rule page_rows_uuid_param, rule page_rows_uuid_param, rule by_key)
      (auto simp: dns_servers_where_def opt_in_def)
  have groups: "set (page_rows (listAnycastGroups E p q db)) \<subseteq> {x \<in> set (anycast_groups db). ag_fabric x \<in> FabricIDs sc}"
    unfolding listAnycastGroups_def ListAnycastGroups_def
    by (rule scope, simp add: dns_list_caps_def, rule page_rows_uuid_param, rule by_key)
      (auto simp: groups_where_def opt_in_def)
  have fwds: "set (page_rows (listForwarders E p q db)) \<subseteq> {x \<in> set (forwarders db). fw_fabric x \<in> FabricIDs sc}"
    unfolding listForwarders_def ListDnsForwarders_def
    by (rule scope, simp add: dns_list_caps_def, rule page_rows_uuid_param, rule by_key)
      (auto simp: forwarders_where_def opt_in_def)
  have cats: "set (page_rows (listCatalogZones E p q db)) \<subseteq> {x \<in> set (catalogs db). cz_fabric x \<in> FabricIDs sc}"
    unfolding listCatalogZones_def ListDnsCatalogZones_def
    by (rule scope, simp add: dns_list_caps_def, rule page_rows_uuid_param, rule by_key)
      (auto simp: catalogs_where_def opt_in_def)
  have blks: "set (page_rows (listBlocklists E p q db)) \<subseteq> {x \<in> set (blocklists db). bl_fabric x \<in> FabricIDs sc}"
    unfolding listBlocklists_def ListDnsBlocklists_def fabricIDFromQuery_def
    by (rule page_rows_uuid_param, rule scope, simp add: dns_list_caps_def, rule by_key)
      (auto simp: blocklists_where_def opt_in_def)
  have vws: "set (page_rows (listViews E p q db)) \<subseteq> {x \<in> set (views db). vw_fabric x \<in> FabricIDs sc}"
    unfolding listViews_def ListDnsViews_def fabricIDFromQuery_def
    by (rule page_rows_uuid_param, rule scope, simp add: dns_list_caps_def, rule by_key)
      (auto simp: views_where_def opt_in_def)
  have chks: "set (page_rows (listHealthChecks E p q db)) \<subseteq> {x \<in> set (health_checks db). hc_fabric x \<in> FabricIDs sc}"
    unfolding listHealthChecks_def ListDnsHealthChecks_def fabricIDFromQuery_def
    by (rule page_rows_uuid_param, rule scope, simp add: dns_list_caps_def, rule by_key)
      (auto simp: checks_where_def opt_in_def)
  have binds: "set (page_rows (listAnycastBindings E p q db)) \<subseteq>
      {x \<in> set (bindings db). \<exists>s\<in>set (dns_servers db). dv_id s = ab_server x \<and> dv_fabric s \<in> FabricIDs sc}"
    unfolding listAnycastBindings_def ListAnycastBindings_def
    by (rule scope, simp add: dns_list_caps_def, rule page_rows_uuid_param, rule page_rows_uuid_param, rule newest)
      (auto simp: bindings_where_def)
  have "FindScope p ''dns:blocklists:read'' = Some sc" by (rule sc) (simp add: dns_list_caps_def)
  note entries = entries_in_scope[OF assms(1) this assms(3)]
  show ?thesis using zones records servers groups fwds cats blks vws chks binds entries by blast
qed

definition dns_user :: "uuid \<Rightarrow> principal" where
  "dns_user f = \<lparr>Subject = 9, Capabilities = [''dns:*:read''],
     Scopes = Some [(''dns:*:read'', zero_scope\<lparr>FabricIDs := {f}\<rparr>)], MFA = False, Label = ''user''\<rparr>"

lemma dns_lists_stay_in_scope_witness:
  "set (page_rows (listRecords calm_env (dns_user 1) (\<lambda>_. []) (example_dns False))) \<subseteq>
     {x \<in> set (zone_records (example_dns False)). \<exists>z\<in>set (zones (example_dns False)). z_id z = r_zone x \<and> z_fabric z \<in> {1}}
   \<and> map r_zone (page_rows (listRecords calm_env (dns_user 1) (\<lambda>_. []) (example_dns False))) = [1]"
proof -
  have q: "quiet calm_env" by (simp add: quiet_def calm_env_def)
  have s: "\<forall>cap\<in>set dns_list_caps. FindScope (dns_user 1) cap = Some (zero_scope\<lparr>FabricIDs := {1}\<rparr>)"
    by code_simp
  have g: "\<not> IsGlobal (zero_scope\<lparr>FabricIDs := {1}\<rparr>)" by (simp add: zero_scope_def)
  have "map r_zone (page_rows (listRecords calm_env (dns_user 1) (\<lambda>_. []) (example_dns False))) = [1]"
    by code_simp
  with dns_lists_stay_in_scope[OF q s g, of "\<lambda>_. []" "example_dns False"] show ?thesis by simp
qed

text \<open>A zone addressed by its id is shown to a caller of another fabric; the route has no gate.\<close>

lemma zone_read_ignores_scope:
  "(case fst (getZone calm_env ''2'' (example_dns False)) of
      Inr (HttpJSON c z) \<Rightarrow> c = 200 \<and> z_fabric z = 2 | _ \<Rightarrow> False)"
  by code_simp

end
