(* ===== verification/BadgerSpool.thy ===== *)
theory BadgerSpool
  imports DhcpLeases
begin

text \<open>
  The overflow queue of the collector, \<^verbatim>\<open>packages/badger/internal/buffer\<close>: the JSON a
  sample is stored as, the table \<^verbatim>\<open>samples\<close> with its \<^verbatim>\<open>AUTOINCREMENT\<close> counter, and the
  operations \<^verbatim>\<open>Enqueue\<close>, \<^verbatim>\<open>EnqueueBatch\<close>, \<^verbatim>\<open>Drain\<close>, \<^verbatim>\<open>Ack\<close> and \<^verbatim>\<open>Depth\<close>.

  A row holds the JSON document of its payload, or nothing when the text is no JSON.
  A reading is a rational, or nothing for the values of \<^verbatim>\<open>float64\<close> JSON has no number
  for; text is valid UTF-8; a map of tags is the list of its entries in key order, and
  a nil map is the empty one, since \<^verbatim>\<open>omitempty\<close> writes them alike.
\<close>

section \<open>Samples and their JSON\<close>

record sample =
  s_asset :: string
  s_metric :: string
  s_value :: "rat option"
  s_unit :: string
  s_ts :: string
  s_tags :: "(string \<times> string) list"

definition zero_sample :: sample where
  "zero_sample = \<lparr>s_asset = [], s_metric = [], s_value = Some 0, s_unit = [], s_ts = [], s_tags = []\<rparr>"

text \<open>How \<^verbatim>\<open>encoding/json\<close> prints a \<^verbatim>\<open>float64\<close>: without an exponent below \<open>10 ^ 21\<close>.\<close>

definition json_number :: "rat \<Rightarrow> json" where
  "json_number q = (if of_int \<lfloor>q\<rfloor> = q \<and> \<bar>q\<bar> < 10 ^ 21 then JInt \<lfloor>q\<rfloor> else JReal q)"

definition tags_json :: "(string \<times> string) list \<Rightarrow> json" where
  "tags_json tags = JObj (map (\<lambda>(k, v). (k, JStr v)) tags)"

text \<open>\<^verbatim>\<open>json.Marshal\<close> of a sample; it fails on a value that is no number.\<close>

definition marshal_sample :: "sample \<Rightarrow> json option" where
  "marshal_sample s =
     (case s_value s of
        None \<Rightarrow> None
      | Some q \<Rightarrow> Some (JObj
          ([(''asset_id'', JStr (s_asset s)), (''metric'', JStr (s_metric s)), (''value'', json_number q)]
           @ (if s_unit s = [] then [] else [(''unit'', JStr (s_unit s))])
           @ [(''ts'', JStr (s_ts s))]
           @ (if s_tags s = [] then [] else [(''tags'', tags_json (s_tags s))]))))"

text \<open>\<^verbatim>\<open>json.Unmarshal\<close> member by member: \<^verbatim>\<open>null\<close> leaves the field, a value of another type is
  an error.\<close>

definition put_string :: "json \<Rightarrow> string \<Rightarrow> string option" where
  "put_string j old = (case j of JNull \<Rightarrow> Some old | JStr t \<Rightarrow> Some t | _ \<Rightarrow> None)"

definition put_float :: "json \<Rightarrow> rat option \<Rightarrow> rat option option" where
  "put_float j old =
     (case j of JNull \<Rightarrow> Some old | _ \<Rightarrow> map_option Some (json_float j))"

definition put_tag :: "string \<Rightarrow> string \<Rightarrow> (string \<times> string) list \<Rightarrow> (string \<times> string) list" where
  "put_tag k v m = filter (\<lambda>p. fst p \<noteq> k) m @ [(k, v)]"

fun put_entries :: "json_object \<Rightarrow> (string \<times> string) list \<Rightarrow> (string \<times> string) list option" where
  "put_entries [] m = Some m"
| "put_entries ((k, j) # kvs) m =
     (case put_string j [] of None \<Rightarrow> None | Some v \<Rightarrow> put_entries kvs (put_tag k v m))"

definition put_tags :: "json \<Rightarrow> (string \<times> string) list \<Rightarrow> (string \<times> string) list option" where
  "put_tags j old = (case j of JNull \<Rightarrow> Some [] | JObj kvs \<Rightarrow> put_entries kvs old | _ \<Rightarrow> None)"

definition put_member :: "string \<Rightarrow> json \<Rightarrow> sample \<Rightarrow> sample option" where
  "put_member k j s =
     (if k = ''asset_id'' then map_option (\<lambda>t. s\<lparr>s_asset := t\<rparr>) (put_string j (s_asset s))
      else if k = ''metric'' then map_option (\<lambda>t. s\<lparr>s_metric := t\<rparr>) (put_string j (s_metric s))
      else if k = ''value'' then map_option (\<lambda>q. s\<lparr>s_value := q\<rparr>) (put_float j (s_value s))
      else if k = ''unit'' then map_option (\<lambda>t. s\<lparr>s_unit := t\<rparr>) (put_string j (s_unit s))
      else if k = ''ts'' then map_option (\<lambda>t. s\<lparr>s_ts := t\<rparr>) (put_string j (s_ts s))
      else if k = ''tags'' then map_option (\<lambda>m. s\<lparr>s_tags := m\<rparr>) (put_tags j (s_tags s))
      else Some s)"

fun put_members :: "json_object \<Rightarrow> sample \<Rightarrow> sample option" where
  "put_members [] s = Some s"
| "put_members ((k, j) # kvs) s =
     (case put_member k j s of None \<Rightarrow> None | Some s' \<Rightarrow> put_members kvs s')"

definition unmarshal_sample :: "json option \<Rightarrow> sample option" where
  "unmarshal_sample p =
     (case p of
        Some (JObj kvs) \<Rightarrow> put_members kvs zero_sample
      | Some JNull \<Rightarrow> Some zero_sample
      | _ \<Rightarrow> None)"

section \<open>The table\<close>

type_synonym spool_row = "int \<times> json option"

record spool =
  sp_rows :: "spool_row list"
  sp_seq :: int

datatype sql_op =
    BeginTx | PrepareStmt | ExecStmt nat | CommitTx | QueryRows | ScanRow nat | RowsErr

text \<open>Which statements of an operation SQLite fails.\<close>

type_synonym sql_faults = "sql_op \<Rightarrow> bool"

datatype spool_err = BadSample | SqlFault

text \<open>\<^verbatim>\<open>INTEGER PRIMARY KEY AUTOINCREMENT\<close>: above every id ever given out, and an error once
  the largest is used.\<close>

definition insert_row :: "json \<Rightarrow> spool \<Rightarrow> spool option" where
  "insert_row p sp =
     (if sp_seq sp < 2 ^ 63 - 1
      then Some (sp\<lparr>sp_rows := sp_rows sp @ [(sp_seq sp + 1, Some p)], sp_seq := sp_seq sp + 1\<rparr>)
      else None)"

definition exec_insert :: "sql_faults \<Rightarrow> nat \<Rightarrow> sample \<Rightarrow> spool \<Rightarrow> spool_err + spool" where
  "exec_insert F n s sp =
     (case marshal_sample s of
        None \<Rightarrow> Inl BadSample
      | Some p \<Rightarrow>
          (if F (ExecStmt n) then Inl SqlFault
           else case insert_row p sp of None \<Rightarrow> Inl SqlFault | Some sp' \<Rightarrow> Inr sp'))"

definition Enqueue :: "sql_faults \<Rightarrow> sample \<Rightarrow> spool \<Rightarrow> (spool_err + unit) \<times> spool" where
  "Enqueue F s sp =
     (case exec_insert F 0 s sp of Inl e \<Rightarrow> (Inl e, sp) | Inr sp' \<Rightarrow> (Inr (), sp'))"

fun insert_all :: "sql_faults \<Rightarrow> nat \<Rightarrow> sample list \<Rightarrow> spool \<Rightarrow> spool_err + spool" where
  "insert_all F n [] sp = Inr sp"
| "insert_all F n (s # ss) sp =
     (case exec_insert F n s sp of Inl e \<Rightarrow> Inl e | Inr sp' \<Rightarrow> insert_all F (Suc n) ss sp')"

text \<open>A transaction: its body sees the table, and an error or a failed \<^verbatim>\<open>COMMIT\<close> rolls back.\<close>

definition spool_txn :: "sql_faults \<Rightarrow> (spool \<Rightarrow> spool_err + spool) \<Rightarrow> spool \<Rightarrow> (spool_err + unit) \<times> spool" where
  "spool_txn F body sp =
     (if F BeginTx \<or> F PrepareStmt then (Inl SqlFault, sp)
      else case body sp of
             Inl e \<Rightarrow> (Inl e, sp)
           | Inr sp' \<Rightarrow> if F CommitTx then (Inl SqlFault, sp) else (Inr (), sp'))"

definition EnqueueBatch :: "sql_faults \<Rightarrow> sample list \<Rightarrow> spool \<Rightarrow> (spool_err + unit) \<times> spool" where
  "EnqueueBatch F ss sp = (if ss = [] then (Inr (), sp) else spool_txn F (insert_all F 0 ss) sp)"

type_synonym drained = "int \<times> sample"

definition scan_row :: "spool_row \<Rightarrow> drained" where
  "scan_row r = (fst r, case unmarshal_sample (snd r) of None \<Rightarrow> zero_sample | Some s \<Rightarrow> s)"

definition Drain :: "sql_faults \<Rightarrow> int \<Rightarrow> spool \<Rightarrow> spool_err + drained list" where
  "Drain F limit sp =
     (let n = (if limit \<le> 0 then 500 else limit);
          rows = take (nat n) (sort_key fst (sp_rows sp))
      in if F QueryRows \<or> (\<exists>i<length rows. F (ScanRow i)) \<or> F RowsErr then Inl SqlFault
         else Inr (map scan_row rows))"

definition delete_row :: "int \<Rightarrow> spool \<Rightarrow> spool" where
  "delete_row i sp = sp\<lparr>sp_rows := filter (\<lambda>r. fst r \<noteq> i) (sp_rows sp)\<rparr>"

fun delete_all :: "sql_faults \<Rightarrow> nat \<Rightarrow> int list \<Rightarrow> spool \<Rightarrow> spool_err + spool" where
  "delete_all F n [] sp = Inr sp"
| "delete_all F n (i # is) sp =
     (if F (ExecStmt n) then Inl SqlFault else delete_all F (Suc n) is (delete_row i sp))"

definition Ack :: "sql_faults \<Rightarrow> int list \<Rightarrow> spool \<Rightarrow> (spool_err + unit) \<times> spool" where
  "Ack F ids sp = (if ids = [] then (Inr (), sp) else spool_txn F (delete_all F 0 ids) sp)"

definition Depth :: "sql_faults \<Rightarrow> spool \<Rightarrow> spool_err + int" where
  "Depth F sp = (if F QueryRows then Inl SqlFault else Inr (int (length (sp_rows sp))))"

section \<open>The invariant\<close>

text \<open>Ids grow with age and none is above the counter.\<close>

definition spool_ok :: "spool \<Rightarrow> bool" where
  "spool_ok sp \<longleftrightarrow>
     sorted_wrt (<) (map fst (sp_rows sp)) \<and> (\<forall>r\<in>set (sp_rows sp). fst r \<le> sp_seq sp)
     \<and> sp_seq sp \<le> 2 ^ 63 - 1"

named_theorems spool_keeps "operations that keep the invariant of the spool"

lemma spool_ok_sorted: "spool_ok sp \<Longrightarrow> sorted (map fst (sp_rows sp))"
  unfolding spool_ok_def by (blast dest: strict_sorted_iff[THEN iffD1])

lemma spool_ok_distinct: "spool_ok sp \<Longrightarrow> distinct (map fst (sp_rows sp))"
  unfolding spool_ok_def by (blast dest: strict_sorted_iff[THEN iffD1])

lemma sort_rows [simp]: "spool_ok sp \<Longrightarrow> sort_key fst (sp_rows sp) = sp_rows sp"
  by (rule sort_key_id_if_sorted) (rule spool_ok_sorted)

lemma insert_row_ok: "insert_row p sp = Some sp' \<Longrightarrow> spool_ok sp \<Longrightarrow> spool_ok sp'"
  by (fastforce simp: insert_row_def spool_ok_def sorted_wrt_append split: if_splits)

lemma exec_insert_row:
  "exec_insert F n s sp = Inr sp' \<Longrightarrow> \<exists>p. marshal_sample s = Some p \<and> insert_row p sp = Some sp'"
  by (auto simp: exec_insert_def split: option.splits if_splits)

lemma insert_all_ok: "insert_all F n ss sp = Inr sp' \<Longrightarrow> spool_ok sp \<Longrightarrow> spool_ok sp'"
  by (induction F n ss sp rule: insert_all.induct)
    (auto split: sum.splits dest!: exec_insert_row intro: insert_row_ok)

lemma delete_row_ok: "spool_ok sp \<Longrightarrow> spool_ok (delete_row i sp)"
  unfolding spool_ok_def delete_row_def by (auto intro: sorted_wrt_filter simp: sorted_wrt_map)

lemma delete_all_ok: "delete_all F n is sp = Inr sp' \<Longrightarrow> spool_ok sp \<Longrightarrow> spool_ok sp'"
  by (induction F n "is" sp rule: delete_all.induct) (auto split: if_splits intro: delete_row_ok)

lemma spool_txn_cases:
  "spool_txn F body sp = (r, sp') \<Longrightarrow>
   (\<exists>e. r = Inl e \<and> sp' = sp) \<or> (r = Inr () \<and> body sp = Inr sp')"
  by (auto simp: spool_txn_def split: if_splits sum.splits)

text \<open>A failed operation changes nothing.\<close>

lemma Enqueue_cases:
  "Enqueue F s sp = (r, sp') \<Longrightarrow>
   (\<exists>e. r = Inl e \<and> sp' = sp) \<or> (r = Inr () \<and> exec_insert F 0 s sp = Inr sp')"
  by (auto simp: Enqueue_def split: sum.splits)

lemma EnqueueBatch_cases:
  "EnqueueBatch F ss sp = (r, sp') \<Longrightarrow>
   (\<exists>e. r = Inl e \<and> sp' = sp) \<or> (r = Inr () \<and> insert_all F 0 ss sp = Inr sp')"
  using spool_txn_cases[of F "insert_all F 0 ss" sp r sp']
  by (auto simp: EnqueueBatch_def split: if_splits)

lemma Ack_cases:
  "Ack F is sp = (r, sp') \<Longrightarrow>
   (\<exists>e. r = Inl e \<and> sp' = sp) \<or> (r = Inr () \<and> delete_all F 0 is sp = Inr sp')"
  using spool_txn_cases[of F "delete_all F 0 is" sp r sp']
  by (auto simp: Ack_def split: if_splits)

lemma Enqueue_ok [spool_keeps]: "spool_ok sp \<Longrightarrow> spool_ok (snd (Enqueue F s sp))"
  using Enqueue_cases[of F s sp "fst (Enqueue F s sp)" "snd (Enqueue F s sp)"]
  by (auto dest!: exec_insert_row intro: insert_row_ok)

lemma EnqueueBatch_ok [spool_keeps]: "spool_ok sp \<Longrightarrow> spool_ok (snd (EnqueueBatch F ss sp))"
  using EnqueueBatch_cases[of F ss sp "fst (EnqueueBatch F ss sp)" "snd (EnqueueBatch F ss sp)"]
  by (auto intro: insert_all_ok)

lemma Ack_ok [spool_keeps]: "spool_ok sp \<Longrightarrow> spool_ok (snd (Ack F is sp))"
  using Ack_cases[of F "is" sp "fst (Ack F is sp)" "snd (Ack F is sp)"]
  by (auto intro: delete_all_ok)

section \<open>What the operations do\<close>

lemma delete_all_rows:
  "delete_all F n is sp = Inr sp' \<Longrightarrow>
   sp_rows sp' = filter (\<lambda>r. fst r \<notin> set is) (sp_rows sp) \<and> sp_seq sp' = sp_seq sp"
proof (induction F n "is" sp rule: delete_all.induct)
  case (2 F n i "is" sp)
  then have "sp_rows sp' = filter (\<lambda>r. fst r \<notin> set is) (sp_rows (delete_row i sp))"
    and "sp_seq sp' = sp_seq (delete_row i sp)"
    by (auto split: if_splits)
  then show ?case by (simp add: delete_row_def conj_commute)
qed simp

text \<open>\<^verbatim>\<open>Ack\<close> deletes the rows it names and no other, or nothing at all.\<close>

lemma Ack_rows:
  "Ack F is sp = (Inr (), sp') \<Longrightarrow>
   sp_rows sp' = filter (\<lambda>r. fst r \<notin> set is) (sp_rows sp) \<and> sp_seq sp' = sp_seq sp"
  using delete_all_rows[of F 0 "is" sp sp'] by (auto simp: Ack_def dest: spool_txn_cases split: if_splits)

lemma delete_all_unfailing:
  "(\<And>n. \<not> F (ExecStmt n)) \<Longrightarrow> \<exists>sp'. delete_all F n is sp = Inr sp'"
  by (induction "is" arbitrary: n sp) auto

lemma Ack_unfailing:
  assumes "\<And>o'. \<not> F o'"
  shows "\<exists>sp'. Ack F is sp = (Inr (), sp')"
  using delete_all_unfailing[of F 0 "is" sp] assms by (auto simp: Ack_def spool_txn_def)

lemma insert_all_rows:
  "insert_all F n ss sp = Inr sp' \<Longrightarrow>
   \<exists>ps. map marshal_sample ss = map Some ps
     \<and> sp_rows sp' = sp_rows sp @ zip [sp_seq sp + 1..sp_seq sp + int (length ss)] (map Some ps)
     \<and> sp_seq sp' = sp_seq sp + int (length ss)"
proof (induction F n ss sp rule: insert_all.induct)
  case (2 F n s ss sp)
  then obtain sp1 where e: "exec_insert F n s sp = Inr sp1" and r: "insert_all F (Suc n) ss sp1 = Inr sp'"
    by (auto split: sum.splits)
  obtain p where p: "marshal_sample s = Some p" and i: "insert_row p sp = Some sp1"
    using exec_insert_row[OF e] by auto
  have sp1: "sp_rows sp1 = sp_rows sp @ [(sp_seq sp + 1, Some p)]" "sp_seq sp1 = sp_seq sp + 1"
    using i by (auto simp: insert_row_def split: if_splits)
  obtain ps where ps: "map marshal_sample ss = map Some ps"
    "sp_rows sp' = sp_rows sp1 @ zip [sp_seq sp1 + 1..sp_seq sp1 + int (length ss)] (map Some ps)"
    "sp_seq sp' = sp_seq sp1 + int (length ss)"
    using "2.IH"[OF e r] by auto
  have "[sp_seq sp + 1..sp_seq sp + int (length (s # ss))]
      = (sp_seq sp + 1) # [sp_seq sp1 + 1..sp_seq sp1 + int (length ss)]"
    using sp1 by (subst upto_rec1) (simp_all add: algebra_simps)
  then show ?case
    using ps sp1 p by (intro exI[of _ "p # ps"]) (simp add: algebra_simps)
qed simp

lemma length_Drain: "Drain F limit sp = Inr ds \<Longrightarrow>
  length ds = min (nat (if limit \<le> 0 then 500 else limit)) (length (sp_rows sp))"
  by (auto simp: Drain_def Let_def min_def split: if_splits)

lemma Drain_rows:
  "Drain F limit sp = Inr ds \<Longrightarrow> spool_ok sp \<Longrightarrow>
   ds = map scan_row (take (nat (if limit \<le> 0 then 500 else limit)) (sp_rows sp))"
  by (auto simp: Drain_def Let_def split: if_splits)

section \<open>What is stored is what is drained\<close>

lemma put_entries_new:
  "distinct (map fst (m @ kvs)) \<Longrightarrow>
   put_entries (map (\<lambda>(k, v). (k, JStr v)) kvs) m = Some (m @ kvs)"
proof (induction kvs arbitrary: m)
  case (Cons kv kvs)
  obtain k v where kv: "kv = (k, v)" by (cases kv)
  have k: "\<forall>p\<in>set m. fst p \<noteq> k" and d: "distinct (map fst ((m @ [(k, v)]) @ kvs))"
    using Cons.prems by (auto simp: kv)
  from k have "filter (\<lambda>p. fst p \<noteq> k) m = m" by (auto simp: filter_id_conv)
  with Cons.IH[OF d] show ?case
    by (simp add: kv put_string_def put_tag_def)
qed simp

lemma json_float_number: "float64 q = q \<Longrightarrow> json_float (json_number q) = Some q"
  by (auto simp: json_number_def json_float_def)

lemma put_float_number: "float64 q = q \<Longrightarrow> put_float (json_number q) old = Some (Some q)"
  using json_float_number[of q] by (auto simp: put_float_def json_number_def split: if_splits)

lemma put_string_str [simp]: "put_string (JStr t) old = Some t"
  by (simp add: put_string_def)

lemma unmarshal_marshal:
  assumes "marshal_sample s = Some p" "\<And>q. s_value s = Some q \<Longrightarrow> float64 q = q"
    "distinct (map fst (s_tags s))"
  shows "unmarshal_sample (Some p) = Some s"
proof -
  obtain q where q: "s_value s = Some q"
    using assms(1) by (auto simp: marshal_sample_def split: option.splits)
  have v: "put_float (json_number q) old = Some (Some q)" for old
    using put_float_number assms(2)[OF q] by auto
  have t: "put_tags (tags_json (s_tags s)) [] = Some (s_tags s)"
    using put_entries_new[of "[]" "s_tags s"] assms(3) by (simp add: put_tags_def tags_json_def)
  have p: "p = JObj
      ([(''asset_id'', JStr (s_asset s)), (''metric'', JStr (s_metric s)), (''value'', json_number q)]
       @ (if s_unit s = [] then [] else [(''unit'', JStr (s_unit s))])
       @ [(''ts'', JStr (s_ts s))]
       @ (if s_tags s = [] then [] else [(''tags'', tags_json (s_tags s))]))"
    using assms(1) q by (simp add: marshal_sample_def)
  show ?thesis
    unfolding p by (cases s) (use q v t in \<open>auto simp: unmarshal_sample_def put_member_def zero_sample_def\<close>)
qed

end
