(* ===== verification/BadgerForward.thy ===== *)
theory BadgerForward
  imports BadgerSpool
begin

text \<open>
  The forwarder of the collector, \<^verbatim>\<open>packages/badger/internal/forwarder\<close>, with the live
  intervals of \<^verbatim>\<open>internal/runtime\<close>: one iteration of \<^verbatim>\<open>Run\<close> (drain, post, acknowledge, wait),
  its backoff, and one heartbeat.  The central endpoint is a function from a posted
  document and its own state to a reply and its new state; what a turn draws (two
  UUIDs, a random number) and which statements fail in it is its record.  Times are
  nanoseconds.
\<close>

section \<open>One batch\<close>

record fwd_cfg =
  fc_site :: string
  fc_collector :: string

datatype reply = NoReply | Status int

record fturn =
  ft_faults :: sql_faults
  ft_request_ok :: bool
  ft_batch_uuid :: string
  ft_try_uuid :: string
  ft_rand :: "int \<Rightarrow> int"

type_synonym 'c endpoint = "json \<Rightarrow> 'c \<Rightarrow> reply \<times> 'c"

definition marshal_telemetry :: "sample \<Rightarrow> json option" where
  "marshal_telemetry s =
     map_option (\<lambda>q. JObj
       [(''asset_id'', JStr (s_asset s)), (''metric'', JStr (s_metric s)),
        (''tags'', if s_tags s = [] then JNull else tags_json (s_tags s)),
        (''ts'', JStr (s_ts s)), (''unit'', JStr (s_unit s)), (''value'', json_number q)])
       (s_value s)"

definition decoded :: "drained \<Rightarrow> bool" where
  "decoded d \<longleftrightarrow> s_asset (snd d) \<noteq> []"

definition batch_body :: "fwd_cfg \<Rightarrow> string \<Rightarrow> drained list \<Rightarrow> json option" where
  "batch_body cfg bid ds =
     map_option (\<lambda>js. JObj
       [(''batch_id'', JStr bid), (''collector_id'', JStr (fc_collector cfg)),
        (''samples'', JArr js), (''site_id'', JStr (fc_site cfg))])
       (those (map (marshal_telemetry \<circ> snd) (filter decoded ds)))"

datatype send_result = Sent "int list" | SendFailed bool

text \<open>The result, the identifier kept in the forwarder, the endpoint's state, and the documents
  answered with 2xx.\<close>

definition sendBatch ::
    "fwd_cfg \<Rightarrow> fturn \<Rightarrow> 'c endpoint \<Rightarrow> drained list \<Rightarrow> string \<Rightarrow> 'c
     \<Rightarrow> send_result \<times> string \<times> 'c \<times> json list" where
  "sendBatch cfg T post ds bid c =
     (let bid' = (if bid = [] then ft_batch_uuid T else bid);
          ids = map fst ds
      in if filter decoded ds = [] then (Sent ids, bid', c, [])
         else case batch_body cfg (bid' @ ''-'' @ take 8 (ft_try_uuid T)) ds of
                None \<Rightarrow> (SendFailed False, bid', c, [])
              | Some b \<Rightarrow>
                  (if \<not> ft_request_ok T then (SendFailed False, bid', c, [])
                   else case post b c of
                          (NoReply, c') \<Rightarrow> (SendFailed True, bid', c', [])
                        | (Status n, c') \<Rightarrow>
                            if 200 \<le> n \<and> n < 300 then (Sent ids, bid', c', [b])
                            else (SendFailed (500 \<le> n), bid', c', [])))"

section \<open>The loop\<close>

definition defaultBatchSize :: int where
  "defaultBatchSize = 500"

definition maxRetryWait :: int where
  "maxRetryWait = 30 * second"

text \<open>\<^verbatim>\<open>rand.Int63n\<close> panics unless its argument is positive.\<close>

definition nextBackoff :: "(int \<Rightarrow> int) \<Rightarrow> int \<Rightarrow> int option" where
  "nextBackoff rand cur =
     (let doubled = int64 (cur * 2);
          nxt = (if maxRetryWait < doubled then maxRetryWait else doubled);
          range = int64_of (float64 (float64 (of_int nxt) * float64 (4 / 10)))
      in if range \<le> 0 then None
         else Some (int64 (nxt - int64_of (float64 (float64 (of_int nxt) * float64 (2 / 10))) + rand range)))"

record fwd =
  fw_spool :: spool
  fw_backoff :: int
  fw_batch :: string

text \<open>One iteration of \<^verbatim>\<open>Run\<close>: the next state, what was accepted, and how long it sleeps;
  nothing when it panics.\<close>

definition forward_turn ::
    "fwd_cfg \<Rightarrow> fturn \<Rightarrow> 'c endpoint \<Rightarrow> fwd \<times> 'c \<Rightarrow> ((fwd \<times> 'c) \<times> json list \<times> int) option" where
  "forward_turn cfg T post st =
     (let fw = fst st; c = snd st
      in case Drain (ft_faults T) defaultBatchSize (fw_spool fw) of
           Inl e \<Rightarrow> Some ((fw, c), [], 5 * second)
         | Inr ds \<Rightarrow>
             if ds = [] then Some ((fw\<lparr>fw_backoff := second\<rparr>, c), [], second)
             else case sendBatch cfg T post ds (fw_batch fw) c of
                    (SendFailed retry, bid, c', acc) \<Rightarrow>
                      if retry then
                        map_option (\<lambda>w. ((fw\<lparr>fw_backoff := w, fw_batch := bid\<rparr>, c'), acc, fw_backoff fw))
                          (nextBackoff (ft_rand T) (fw_backoff fw))
                      else Some ((fw\<lparr>fw_batch := bid\<rparr>, c'), acc, 30 * second)
                  | (Sent ids, bid, c', acc) \<Rightarrow>
                      Some ((fw\<lparr>fw_spool := snd (Ack (ft_faults T) ids (fw_spool fw)),
                               fw_backoff := second, fw_batch := bid\<rparr>, c'), acc, 0))"

fun forward_turns ::
    "fwd_cfg \<Rightarrow> fturn list \<Rightarrow> 'c endpoint \<Rightarrow> fwd \<times> 'c \<Rightarrow> ((fwd \<times> 'c) \<times> json list) option" where
  "forward_turns cfg [] post st = Some (st, [])"
| "forward_turns cfg (T # Ts) post st =
     (case forward_turn cfg T post st of
        None \<Rightarrow> None
      | Some (st', acc, w) \<Rightarrow>
          map_option (\<lambda>(st'', acc'). (st'', acc @ acc')) (forward_turns cfg Ts post st'))"

definition new_forwarder :: "spool \<Rightarrow> fwd" where
  "new_forwarder sp = \<lparr>fw_spool = sp, fw_backoff = second, fw_batch = []\<rparr>"

section \<open>Heartbeats and live intervals\<close>

record runtime_cfg =
  dnsMetricsNS :: int
  devicePollNS :: int
  heartbeatNS :: int

definition Apply :: "int \<Rightarrow> int \<Rightarrow> int \<Rightarrow> runtime_cfg \<Rightarrow> runtime_cfg" where
  "Apply dns poll hb rt = rt\<lparr>dnsMetricsNS := dns, devicePollNS := poll, heartbeatNS := hb\<rparr>"

definition DNSMetricsInterval :: "runtime_cfg \<Rightarrow> int \<Rightarrow> int" where
  "DNSMetricsInterval rt fallback = (if 0 < dnsMetricsNS rt then dnsMetricsNS rt else fallback)"

definition DevicePollInterval :: "runtime_cfg \<Rightarrow> int \<Rightarrow> int" where
  "DevicePollInterval rt fallback = (if 0 < devicePollNS rt then devicePollNS rt else fallback)"

definition HeartbeatInterval :: "runtime_cfg \<Rightarrow> int \<Rightarrow> int" where
  "HeartbeatInterval rt fallback = (if 0 < heartbeatNS rt then heartbeatNS rt else fallback)"

record overrides =
  ov_dns :: "int option"
  ov_poll :: "int option"
  ov_heartbeat :: "int option"

definition put_int :: "json \<Rightarrow> int option option" where
  "put_int j =
     (case j of
        JNull \<Rightarrow> Some None
      | JInt n \<Rightarrow> if - (2 ^ 63) \<le> n \<and> n < 2 ^ 63 then Some (Some n) else None
      | _ \<Rightarrow> None)"

fun put_overrides :: "json_object \<Rightarrow> overrides \<Rightarrow> overrides option" where
  "put_overrides [] o1 = Some o1"
| "put_overrides ((k, j) # kvs) o1 =
     (if k = ''dns_metrics_interval_seconds'' then
        Option.bind (put_int j) (\<lambda>n. put_overrides kvs (o1\<lparr>ov_dns := n\<rparr>))
      else if k = ''device_poll_interval_seconds'' then
        Option.bind (put_int j) (\<lambda>n. put_overrides kvs (o1\<lparr>ov_poll := n\<rparr>))
      else if k = ''heartbeat_interval_seconds'' then
        Option.bind (put_int j) (\<lambda>n. put_overrides kvs (o1\<lparr>ov_heartbeat := n\<rparr>))
      else put_overrides kvs o1)"

definition no_overrides :: overrides where
  "no_overrides = \<lparr>ov_dns = None, ov_poll = None, ov_heartbeat = None\<rparr>"

text \<open>Decoding \<^verbatim>\<open>heartbeatResponse\<close>.\<close>

fun put_heartbeat :: "json_object \<Rightarrow> overrides \<Rightarrow> overrides option" where
  "put_heartbeat [] o1 = Some o1"
| "put_heartbeat ((k, j) # kvs) o1 =
     (if k = ''ok'' then
        (case j of JNull \<Rightarrow> put_heartbeat kvs o1 | JBool b \<Rightarrow> put_heartbeat kvs o1 | _ \<Rightarrow> None)
      else if k = ''received_at'' then
        (case j of JNull \<Rightarrow> put_heartbeat kvs o1 | JStr t \<Rightarrow> put_heartbeat kvs o1 | _ \<Rightarrow> None)
      else if k = ''config_overrides'' then
        (case j of
           JNull \<Rightarrow> put_heartbeat kvs o1
         | JObj ms \<Rightarrow> Option.bind (put_overrides ms o1) (put_heartbeat kvs)
         | _ \<Rightarrow> None)
      else put_heartbeat kvs o1)"

definition decode_heartbeat :: "json option \<Rightarrow> overrides option" where
  "decode_heartbeat b =
     (case b of
        Some (JObj kvs) \<Rightarrow> put_heartbeat kvs no_overrides
      | Some JNull \<Rightarrow> Some no_overrides
      | _ \<Rightarrow> None)"

definition override_dur :: "int option \<Rightarrow> int" where
  "override_dur secs =
     (case secs of None \<Rightarrow> 0 | Some n \<Rightarrow> if n \<le> 0 then 0 else int64 (n * second))"

definition applyOverrides :: "overrides \<Rightarrow> runtime_cfg \<Rightarrow> runtime_cfg" where
  "applyOverrides hr rt =
     Apply (override_dur (ov_dns hr)) (override_dur (ov_poll hr)) (override_dur (ov_heartbeat hr)) rt"

definition heartbeat_body :: "sql_faults \<Rightarrow> spool \<Rightarrow> json" where
  "heartbeat_body F sp =
     (let depth = (case Depth F sp of Inl e \<Rightarrow> 0 | Inr n \<Rightarrow> n)
      in JObj [(''buffered_samples'', JInt depth), (''queue_depth'', JInt depth),
               (''version'', JStr ''go-collector/phase-4'')])"

text \<open>\<open>answer\<close> is what \<^verbatim>\<open>Do\<close> returns: nothing on a transport error, else the status and the
  decoded body.  The runtime may be absent.\<close>

definition sendHeartbeat ::
    "sql_faults \<Rightarrow> bool \<Rightarrow> (json \<Rightarrow> (int \<times> json option) option) \<Rightarrow> spool
     \<Rightarrow> runtime_cfg option \<Rightarrow> runtime_cfg option" where
  "sendHeartbeat F request_ok post sp rt =
     (if \<not> request_ok then rt
      else case post (heartbeat_body F sp) of
             None \<Rightarrow> rt
           | Some (status, b) \<Rightarrow>
               if 400 \<le> status then rt
               else case rt of
                      None \<Rightarrow> None
                    | Some r \<Rightarrow>
                        (case decode_heartbeat b of
                           None \<Rightarrow> Some r
                         | Some hr \<Rightarrow> Some (applyOverrides hr r)))"

text \<open>One turn of \<^verbatim>\<open>RunHeartbeat\<close>: how long it sleeps first, and the runtime after the beat.\<close>

definition heartbeat_turn ::
    "int \<Rightarrow> sql_faults \<Rightarrow> bool \<Rightarrow> (json \<Rightarrow> (int \<times> json option) option) \<Rightarrow> spool
     \<Rightarrow> runtime_cfg option \<Rightarrow> int \<times> runtime_cfg option" where
  "heartbeat_turn yamlDefault F request_ok post sp rt =
     (case rt of None \<Rightarrow> yamlDefault | Some r \<Rightarrow> HeartbeatInterval r yamlDefault,
      sendHeartbeat F request_ok post sp rt)"

end
