(* ===== verification/BadgerProps.thy ===== *)
theory BadgerProps
  imports BadgerForward
begin

text \<open>
  What the collector's forwarder does over any sequence of iterations: its backoff stays
  bounded, so that it never panics; a backlog is sent oldest first, 500 rows an
  iteration; and no sample leaves the spool before a document that holds it was
  answered with 2xx.
\<close>

section \<open>How far \<open>float64\<close> is from the number it rounds\<close>

lemma bit_size_bounds: "0 < n \<Longrightarrow> 2 ^ bit_size n \<le> 2 * n \<and> n < 2 ^ bit_size n"
proof (induction n rule: bit_size.induct)
  case (1 n)
  show ?case
  proof (cases "n div 2 = 0")
    case True
    then have "n = 1" using 1(2) by simp
    then show ?thesis by (simp add: bit_size.simps)
  next
    case False
    then have "2 ^ bit_size (n div 2) \<le> 2 * (n div 2) \<and> n div 2 < 2 ^ bit_size (n div 2)"
      using 1 by simp
    moreover have "bit_size n = Suc (bit_size (n div 2))"
      using 1(2) by (subst bit_size.simps) simp
    ultimately show ?thesis by (simp; linarith)
  qed
qed

lemma scaled_powi: "scaled x e = x * 2 powi e"
  by (cases "0 \<le> e")
    (simp_all only: scaled_def power_int_def if_True if_False divide_inverse power_inverse)

lemma round_even_near: "\<bar>of_int (round_even x) - x\<bar> \<le> 1 / 2"
proof -
  have "of_int \<lfloor>x\<rfloor> \<le> x" "x < of_int \<lfloor>x\<rfloor> + 1" by linarith+
  then show ?thesis by (auto simp: round_even_def Let_def abs_le_iff)
qed

lemma scaled_significand:
  assumes "0 < q" "a = fst (quotient_of q)" "b = snd (quotient_of q)"
    "e0 = int (bit_size (nat a)) - int (bit_size (nat b)) - 53"
  shows "2 ^ 52 \<le> q * 2 powi (- e0)"
proof -
  have b: "0 < b" and q: "q = of_int a / of_int b"
    using assms(2,3) quotient_of_denom_pos' quotient_of_div by (auto simp: prod_eq_iff)
  have a: "0 < a" using assms(1) b q by (simp add: zero_less_divide_iff)
  have "(2::nat) ^ bit_size (nat a) \<le> 2 * nat a" "nat b < 2 ^ bit_size (nat b)"
    using conjunct1[OF bit_size_bounds[of "nat a"]] conjunct2[OF bit_size_bounds[of "nat b"]] a b
    by simp_all
  then have "rat_of_nat (2 ^ bit_size (nat a)) \<le> rat_of_nat (2 * nat a)"
    "rat_of_nat (nat b) \<le> rat_of_nat (2 ^ bit_size (nat b))"
    unfolding of_nat_le_iff by simp_all
  then have na: "2 ^ bit_size (nat a) \<le> 2 * rat_of_int a" and nb: "rat_of_int b \<le> 2 ^ bit_size (nat b)"
    using a b by (simp_all add: of_nat_nat)
  have "(2::rat) powi (- e0) = 2 ^ 53 * 2 ^ bit_size (nat b) / 2 ^ bit_size (nat a)"
    using power_int_add[of "2::rat" "int (bit_size (nat b)) + 53" "- int (bit_size (nat a))"]
      power_int_add[of "2::rat" "int (bit_size (nat b))" 53]
    by (simp add: assms(4) power_int_minus divide_inverse algebra_simps)
  moreover have "2 ^ 52 * 2 ^ bit_size (nat a) * rat_of_int b
      \<le> 2 ^ 52 * (2 * rat_of_int a) * 2 ^ bit_size (nat b)"
    using na nb a b by (intro mult_mono) auto
  then have "2 ^ 52 \<le> rat_of_int a / rat_of_int b * (2 ^ 53 * 2 ^ bit_size (nat b) / 2 ^ bit_size (nat a))"
    using b by (simp add: field_simps)
  ultimately show ?thesis by (simp add: q)
qed

lemma float64_near:
  assumes "0 < q"
  shows "\<bar>float64 q - q\<bar> * 2 ^ 53 \<le> q"
proof -
  define e0 where "e0 = int (bit_size (nat (fst (quotient_of q)))) - int (bit_size (nat (snd (quotient_of q)))) - 53"
  define e where "e = (if 2 ^ 53 \<le> scaled q (- e0) then e0 + 1 else e0)"
  define x where "x = scaled q (- e)"
  have s0: "2 ^ 52 \<le> q * 2 powi (- e0)"
    by (rule scaled_significand[OF assms]) (simp_all add: e0_def)
  have x: "2 ^ 52 \<le> x"
  proof (cases "2 ^ 53 \<le> scaled q (- e0)")
    case True
    then have "2 ^ 53 \<le> q * 2 powi (- e0)" and "e = e0 + 1" by (simp_all add: scaled_powi e_def)
    moreover have "(2::rat) powi (- (e0 + 1)) = 2 powi (- e0) / 2"
      using power_int_diff[of "2::rat" "- e0" 1] by simp
    ultimately show ?thesis by (simp only: x_def scaled_powi) simp
  next
    case False
    then show ?thesis using s0 by (simp add: x_def e_def scaled_powi)
  qed
  have p: "0 < (2::rat) powi e" by simp
  have qx: "q = x * 2 powi e"
    by (simp add: x_def scaled_powi power_int_minus)
  have fq: "float64 q = of_int (round_even x) * 2 powi e"
    by (simp only: float64_def Let_def abs_of_pos[OF assms] e0_def[symmetric] e_def[symmetric]
        x_def[symmetric]) (use assms in \<open>simp add: scaled_powi\<close>)
  have "\<bar>float64 q - q\<bar> = \<bar>of_int (round_even x) - x\<bar> * 2 powi e"
    unfolding fq by (subst qx) (simp add: left_diff_distrib[symmetric] abs_mult)
  also have "\<dots> \<le> 1 / 2 * 2 powi e"
    using round_even_near[of x] p by (intro mult_right_mono) auto
  finally have "\<bar>float64 q - q\<bar> * 2 ^ 53 \<le> 2 ^ 52 * 2 powi e" by simp
  also have "\<dots> \<le> x * 2 powi e"
    using x p by (intro mult_right_mono) auto
  finally show ?thesis using qx by simp
qed

lemma float64_bounds:
  "0 < q \<Longrightarrow> q * (1 - 1 / 10 ^ 13) \<le> float64 q \<and> float64 q \<le> q * (1 + 1 / 10 ^ 13)"
  using float64_near[of q] by (auto simp: abs_le_iff abs_if field_simps split: if_splits)

section \<open>The backoff\<close>

lemma float64_share:
  assumes "0 < n" "0 < k" "k \<le> 1"
  shows "k * of_int n * (1 - 1 / 1000000000000) \<le> float64 (float64 (of_int n) * float64 k)"
    and "float64 (float64 (of_int n) * float64 k) \<le> k * of_int n * (1 + 1 / 1000000000000)"
proof -
  let ?d = "1 / 10 ^ 13 :: rat"
  have n: "of_int n * (1 - ?d) \<le> float64 (of_int n)" "float64 (of_int n) \<le> of_int n * (1 + ?d)"
    using float64_bounds[of "of_int n"] assms(1) by auto
  have k: "k * (1 - ?d) \<le> float64 k" "float64 k \<le> k * (1 + ?d)"
    using float64_bounds[of k] assms(2) by auto
  have pos: "0 < of_int n * (1 - ?d)" "0 < k * (1 - ?d)" using assms by auto
  let ?p = "float64 (of_int n) * float64 k"
  have p1: "of_int n * (1 - ?d) * (k * (1 - ?d)) \<le> ?p"
    using n k pos by (intro mult_mono) auto
  have p2: "?p \<le> of_int n * (1 + ?d) * (k * (1 + ?d))"
    using n k pos by (intro mult_mono) auto
  have "0 < of_int n * (1 - ?d) * (k * (1 - ?d))" using pos by (rule mult_pos_pos)
  with p1 have "0 < ?p" by linarith
  then have r: "?p * (1 - ?d) \<le> float64 ?p" "float64 ?p \<le> ?p * (1 + ?d)"
    using float64_bounds by auto
  have kn: "0 < k * of_int n" using assms by simp
  have "k * of_int n * (1 - 1 / 1000000000000) \<le> k * of_int n * ((1 - ?d) * (1 - ?d) * (1 - ?d))"
    using kn by (intro mult_left_mono) auto
  also have "\<dots> = of_int n * (1 - ?d) * (k * (1 - ?d)) * (1 - ?d)" by simp
  also have "\<dots> \<le> ?p * (1 - ?d)" using p1 by (intro mult_right_mono) auto
  finally show "k * of_int n * (1 - 1 / 1000000000000) \<le> float64 ?p" using r(1) by linarith
  have "?p * (1 + ?d) \<le> of_int n * (1 + ?d) * (k * (1 + ?d)) * (1 + ?d)"
    using p2 by (intro mult_right_mono) auto
  also have "\<dots> = k * of_int n * ((1 + ?d) * (1 + ?d) * (1 + ?d))" by simp
  also have "\<dots> \<le> k * of_int n * (1 + 1 / 1000000000000)"
    using kn by (intro mult_left_mono) auto
  finally show "float64 ?p \<le> k * of_int n * (1 + 1 / 1000000000000)" using r(2) by linarith
qed

definition fair :: "(int \<Rightarrow> int) \<Rightarrow> bool" where
  "fair rand \<longleftrightarrow> (\<forall>n. 0 < n \<longrightarrow> 0 \<le> rand n \<and> rand n < n)"

lemma int64_small: "- (2 ^ 63) \<le> n \<Longrightarrow> n < 2 ^ 63 \<Longrightarrow> int64 n = n"
  unfolding int64_def by (rule signed_take_bit_int_eq_self) simp_all

lemma near_share_floor:
  assumes "0 < n" "n \<le> 30000000000" "k * rat_of_int n * (1 - 1 / 1000000000000) \<le> r"
    "r \<le> k * rat_of_int n * (1 + 1 / 1000000000000)" "k = of_int i / 5" "0 \<le> i" "i \<le> 2"
  shows "i * n - 6 \<le> 5 * \<lfloor>r\<rfloor> \<and> 5 * \<lfloor>r\<rfloor> \<le> i * n + 1"
proof -
  have i: "i \<in> {0, 1, 2}" using assms(6,7) by auto
  have n: "rat_of_int n \<le> 30000000000" "0 < rat_of_int n" using assms(1,2) by simp_all
  have r: "rat_of_int \<lfloor>r\<rfloor> \<le> r" "r < rat_of_int \<lfloor>r\<rfloor> + 1" by linarith+
  have "of_int i * rat_of_int n - 1 \<le> 5 * r" "5 * r \<le> of_int i * rat_of_int n + 1"
    using assms(3,4) n i unfolding assms(5) by (auto simp: field_simps)
  then have "of_int i * rat_of_int n - 6 < 5 * rat_of_int \<lfloor>r\<rfloor>" "5 * rat_of_int \<lfloor>r\<rfloor> \<le> of_int i * rat_of_int n + 1"
    using r by linarith+
  then have "rat_of_int (i * n - 6) < rat_of_int (5 * \<lfloor>r\<rfloor>)" "rat_of_int (5 * \<lfloor>r\<rfloor>) \<le> rat_of_int (i * n + 1)"
    by simp_all
  then show ?thesis unfolding of_int_less_iff of_int_le_iff by simp
qed

lemma int64_of_floor:
  assumes "0 \<le> \<lfloor>q\<rfloor>" "\<lfloor>q\<rfloor> < 100000000000"
  shows "int64_of q = \<lfloor>q\<rfloor>"
proof -
  have "\<not> q < 0" using assms(1) by simp
  then show ?thesis
    unfolding int64_of_def Let_def if_not_P[OF \<open>\<not> q < 0\<close>]
    using assms(1) less_trans[OF assms(2), of "2 ^ 63"] by (intro if_P conjI) auto
qed

lemma nextBackoff_value:
  assumes "second \<le> cur" "cur \<le> 36 * second" "fair rand" "n = min maxRetryWait (cur * 2)"
  shows "\<exists>a b. nextBackoff rand cur = Some (n - a + rand b)
      \<and> n - 6 \<le> 5 * a \<and> 5 * a \<le> n + 1 \<and> 2 * n - 6 \<le> 5 * b \<and> 5 * b \<le> 2 * n + 1"
proof -
  have pos: "0 < n" and small: "2000000000 \<le> n" "n \<le> 30000000000"
    using assms by (auto simp: maxRetryWait_def second_def)
  define r4 where "r4 = float64 (float64 (of_int n) * float64 (4 / 10))"
  define r2 where "r2 = float64 (float64 (of_int n) * float64 (2 / 10))"
  have f2: "n - 6 \<le> 5 * \<lfloor>r2\<rfloor>" "5 * \<lfloor>r2\<rfloor> \<le> n + 1"
    using near_share_floor[OF pos small(2) float64_share[OF pos, of "2 / 10"], of 1] by (simp_all add: r2_def)
  have f4: "2 * n - 6 \<le> 5 * \<lfloor>r4\<rfloor>" "5 * \<lfloor>r4\<rfloor> \<le> 2 * n + 1"
    using near_share_floor[OF pos small(2) float64_share[OF pos, of "4 / 10"], of 2] by (simp_all add: r4_def)
  have nn: "0 \<le> \<lfloor>r2\<rfloor>" "0 < \<lfloor>r4\<rfloor>" using f2(1) f4(1) small by linarith+
  have i4: "int64_of r4 = \<lfloor>r4\<rfloor>" and i2: "int64_of r2 = \<lfloor>r2\<rfloor>"
    by (intro int64_of_floor; use f4(2) f2(2) nn small in linarith)+
  have j: "0 \<le> rand \<lfloor>r4\<rfloor>" "rand \<lfloor>r4\<rfloor> < \<lfloor>r4\<rfloor>"
    using assms(3) nn(2) by (auto simp: fair_def)
  have iw: "int64 (n - \<lfloor>r2\<rfloor> + rand \<lfloor>r4\<rfloor>) = n - \<lfloor>r2\<rfloor> + rand \<lfloor>r4\<rfloor>"
    using f2 f4 j small by (intro int64_small) auto
  have "int64 (cur * 2) = cur * 2"
    using assms(1,2) by (intro int64_small) (auto simp: second_def)
  then have e: "(if maxRetryWait < int64 (cur * 2) then maxRetryWait else int64 (cur * 2)) = n"
    by (auto simp: assms(4) min_def)
  have "nextBackoff rand cur = Some (n - \<lfloor>r2\<rfloor> + rand \<lfloor>r4\<rfloor>)"
    by (simp only: nextBackoff_def Let_def e r4_def[symmetric] r2_def[symmetric] i4 i2)
      (use nn(2) iw in simp)
  then show ?thesis using f2 f4 by blast
qed

lemma nextBackoff_bounds:
  assumes "second \<le> cur" "cur \<le> 36 * second" "fair rand"
  shows "\<exists>w. nextBackoff rand cur = Some w \<and> second \<le> w \<and> w \<le> 36 * second"
proof -
  define n where "n = min maxRetryWait (cur * 2)"
  obtain a b where w: "nextBackoff rand cur = Some (n - a + rand b)"
    and ab: "n - 6 \<le> 5 * a" "5 * a \<le> n + 1" "2 * n - 6 \<le> 5 * b" "5 * b \<le> 2 * n + 1"
    using nextBackoff_value[OF assms n_def] by blast
  have n: "2000000000 \<le> n" "n \<le> 30000000000"
    using assms(1) by (auto simp: n_def maxRetryWait_def second_def)
  then have "0 < b" using ab by linarith
  then have "0 \<le> rand b" "rand b < b" using assms(3) by (auto simp: fair_def)
  then show ?thesis using w ab n by (simp add: second_def)
qed

section \<open>The forwarder runs on\<close>

definition backoff_ok :: "fwd \<Rightarrow> bool" where
  "backoff_ok fw \<longleftrightarrow> second \<le> fw_backoff fw \<and> fw_backoff fw \<le> 36 * second"

lemma backoff_ok_second [simp]: "backoff_ok (fw\<lparr>fw_backoff := second\<rparr>)"
  by (simp add: backoff_ok_def second_def)

lemma forward_turn_runs:
  assumes "fair (ft_rand T)" "backoff_ok (fst st)"
  shows "\<exists>st' acc w. forward_turn cfg T post st = Some (st', acc, w) \<and> backoff_ok (fst st')"
proof -
  obtain w where "nextBackoff (ft_rand T) (fw_backoff (fst st)) = Some w" "second \<le> w" "w \<le> 36 * second"
    using nextBackoff_bounds assms by (auto simp: backoff_ok_def)
  then show ?thesis
    using assms(2)
    by (cases st) (auto simp: forward_turn_def Let_def backoff_ok_def second_def split: sum.splits prod.splits send_result.splits)
qed

lemma forward_turns_run:
  assumes "\<forall>T\<in>set Ts. fair (ft_rand T)" "backoff_ok (fst st)"
  shows "\<exists>st' acc. forward_turns cfg Ts post st = Some (st', acc) \<and> backoff_ok (fst st')"
  using assms
proof (induction Ts arbitrary: st)
  case (Cons T Ts)
  then obtain st1 acc w where t: "forward_turn cfg T post st = Some (st1, acc, w)" "backoff_ok (fst st1)"
    using forward_turn_runs by (metis list.set_intros(1))
  then obtain st2 acc2 where "forward_turns cfg Ts post st1 = Some (st2, acc2)" "backoff_ok (fst st2)"
    using Cons by (metis list.set_intros(2))
  then show ?case using t by simp
qed simp

text \<open>C34. The forward loop never panics: whatever fails and however the endpoint answers, every
  sequence of iterations of \<^verbatim>\<open>Run\<close> from a start of the collector goes through (the
  argument of \<^verbatim>\<open>rand.Int63n\<close> stays positive in \<^verbatim>\<open>float64\<close> arithmetic), and its
  backoff stays between one second and 36 seconds.\<close>

theorem forwarder_never_panics:
  assumes "\<forall>T\<in>set Ts. fair (ft_rand T)"
  shows "\<exists>fw' c' acc. forward_turns cfg Ts post (new_forwarder sp, c) = Some ((fw', c'), acc)
      \<and> second \<le> fw_backoff fw' \<and> fw_backoff fw' \<le> 36 * second"
proof -
  have "backoff_ok (fst (new_forwarder sp, c))"
    by (simp add: backoff_ok_def new_forwarder_def second_def)
  from forward_turns_run[OF assms this, of cfg post] show ?thesis
    by (auto simp: backoff_ok_def)
qed

definition example_sample :: sample where
  "example_sample =
     \<lparr>s_asset = ''a1'', s_metric = ''temp'', s_value = Some (43 / 2), s_unit = ''C'',
      s_ts = ''2025-01-01T00:00:00Z'', s_tags = [(''probe'', ''2'')]\<rparr>"

definition example_turn :: fturn where
  "example_turn =
     \<lparr>ft_faults = (\<lambda>op. False), ft_request_ok = True, ft_batch_uuid = ''b'', ft_try_uuid = ''12345678-9'',
      ft_rand = (\<lambda>n. n - 1)\<rparr>"

definition example_cfg :: fwd_cfg where
  "example_cfg = \<lparr>fc_site = ''s'', fc_collector = ''c''\<rparr>"

lemma fair_example [simp]: "fair (ft_rand example_turn)"
  by (simp add: fair_def example_turn_def)

lemma forwarder_never_panics_witness:
  "\<exists>fw' c' acc. forward_turns example_cfg [example_turn, example_turn] (\<lambda>b c. (NoReply, c))
      (new_forwarder (snd (Enqueue (\<lambda>op. False) example_sample \<lparr>sp_rows = [], sp_seq = 0\<rparr>)), ())
        = Some ((fw', c'), acc)
    \<and> second \<le> fw_backoff fw' \<and> fw_backoff fw' \<le> 36 * second"
  using forwarder_never_panics[of "[example_turn, example_turn]" example_cfg "\<lambda>b c. (NoReply, c)"
      "snd (Enqueue (\<lambda>op. False) example_sample \<lparr>sp_rows = [], sp_seq = 0\<rparr>)" "()"]
  by simp

text \<open>The wait after an upper draw at the cap is above \<^verbatim>\<open>maxRetryWait\<close>.\<close>

lemma backoff_exceeds_cap:
  "\<exists>w. nextBackoff (\<lambda>n. n - 1) maxRetryWait = Some w \<and> maxRetryWait + 5 * second < w"
  using nextBackoff_value[of maxRetryWait "\<lambda>n. n - 1" maxRetryWait]
  by (auto simp: fair_def maxRetryWait_def second_def)

section \<open>A backlog is sent\<close>

definition calm :: "fturn \<Rightarrow> bool" where
  "calm T \<longleftrightarrow> (\<forall>op. \<not> ft_faults T op) \<and> ft_request_ok T"

definition accepting :: "'c endpoint \<Rightarrow> bool" where
  "accepting post \<longleftrightarrow> (\<forall>b c. \<exists>n c'. post b c = (Status n, c') \<and> 200 \<le> n \<and> n < 300)"

lemma put_member_value: "put_member k j s = Some s' \<Longrightarrow> s_value s \<noteq> None \<Longrightarrow> s_value s' \<noteq> None"
  by (auto simp: put_member_def put_float_def split: if_splits json.splits)

lemma put_members_value: "put_members kvs s = Some s' \<Longrightarrow> s_value s \<noteq> None \<Longrightarrow> s_value s' \<noteq> None"
  by (induction kvs s rule: put_members.induct) (auto split: option.splits dest: put_member_value)

text \<open>What is drained is a number, so the document of a batch always marshals.\<close>

lemma scan_row_value: "\<exists>q. s_value (snd (scan_row r)) = Some q"
proof -
  have "unmarshal_sample p = Some s \<Longrightarrow> s_value s \<noteq> None" for p s
    using put_members_value[of _ zero_sample s]
    by (auto simp: unmarshal_sample_def zero_sample_def split: option.splits json.splits)
  then show ?thesis
    by (auto simp: scan_row_def zero_sample_def split: option.splits)
qed

lemma those_map_Some: "(\<And>x. x \<in> set xs \<Longrightarrow> f x \<noteq> None) \<Longrightarrow> \<exists>ys. those (map f xs) = Some ys"
  by (induction xs) (auto split: option.splits)

lemma those_mem: "those (map f xs) = Some ys \<Longrightarrow> x \<in> set xs \<Longrightarrow> \<exists>y\<in>set ys. f x = Some y"
  by (induction xs arbitrary: ys) (auto split: option.splits)

lemma batch_body_marshals: "\<exists>b. batch_body cfg bid (map scan_row rs) = Some b"
proof -
  have "marshal_telemetry (snd d) \<noteq> None" if "d \<in> set (filter decoded (map scan_row rs))" for d
  proof -
    from that have "d \<in> scan_row ` set rs" by simp
    then obtain r where "d = scan_row r" by (rule imageE)
    then show ?thesis using scan_row_value[of r] by (auto simp: marshal_telemetry_def)
  qed
  then have "\<exists>js. those (map (marshal_telemetry \<circ> snd) (filter decoded (map scan_row rs))) = Some js"
    by (intro those_map_Some) simp
  then show ?thesis by (auto simp: batch_body_def)
qed

lemma sendBatch_accepted:
  assumes "calm T" "accepting post"
  shows "\<exists>bid' c' acc. sendBatch cfg T post (map scan_row rs) bid c
      = (Sent (map (fst \<circ> scan_row) rs), bid', c', acc)"
proof (cases "filter decoded (map scan_row rs) = []")
  case True
  then show ?thesis by (simp add: sendBatch_def Let_def)
next
  case False
  obtain b where b: "batch_body cfg ((if bid = [] then ft_batch_uuid T else bid) @ ''-'' @ take 8 (ft_try_uuid T))
      (map scan_row rs) = Some b"
    using batch_body_marshals by blast
  obtain n c' where "post b c = (Status n, c')" "200 \<le> n" "n < 300"
    using assms(2) unfolding accepting_def by meson
  then show ?thesis
    using False b assms(1) by (simp add: sendBatch_def Let_def calm_def del: filter_map)
qed

lemma filter_ids_take:
  assumes "distinct (map fst xs)"
  shows "filter (\<lambda>r. fst r \<notin> fst ` set (take n xs)) xs = drop n xs"
proof -
  have d: "fst r \<notin> fst ` set (take n xs)" if "r \<in> set (drop n xs)" for r
  proof -
    have "distinct (map fst (take n xs) @ map fst (drop n xs))"
      using assms by (simp flip: map_append)
    then show ?thesis using that by force
  qed
  have "filter (\<lambda>r. fst r \<notin> fst ` set (take n xs)) (take n xs @ drop n xs) = drop n xs"
    using d by (simp add: filter_empty_conv filter_id_conv del: append_take_drop_id)
  then show ?thesis by (simp only: append_take_drop_id)
qed

text \<open>A batch that was sent is acknowledged.\<close>

lemma forward_turn_sent:
  assumes ok: "spool_ok (fw_spool fw)" and T: "calm T" and ne: "sp_rows (fw_spool fw) \<noteq> []"
    and s: "sendBatch cfg T post (map scan_row (take 500 (sp_rows (fw_spool fw)))) (fw_batch fw) c = (Sent ids, bid, c', acc)"
    and ids: "ids = map fst (take 500 (sp_rows (fw_spool fw)))"
  shows "\<exists>fw'. forward_turn cfg T post (fw, c) = Some ((fw', c'), acc, 0)
      \<and> spool_ok (fw_spool fw') \<and> sp_rows (fw_spool fw') = drop 500 (sp_rows (fw_spool fw))"
proof -
  let ?sp = "fw_spool fw" and ?rs = "take 500 (sp_rows (fw_spool fw))"
  have F: "\<And>op. \<not> ft_faults T op" using T by (simp add: calm_def)
  have d: "Drain (ft_faults T) defaultBatchSize ?sp = Inr (map scan_row ?rs)"
    using ok F by (simp add: Drain_def Let_def defaultBatchSize_def)
  obtain sp' where a: "Ack (ft_faults T) ids ?sp = (Inr (), sp')"
    using Ack_unfailing F by blast
  have "sp_rows sp' = drop 500 (sp_rows ?sp)"
    using Ack_rows[OF a] filter_ids_take[OF spool_ok_distinct[OF ok]] by (simp add: ids)
  moreover have "spool_ok sp'" using Ack_ok[OF ok, of "ft_faults T" ids] a by simp
  ultimately show ?thesis using d s a ne by (simp add: forward_turn_def Let_def)
qed

lemma forward_turn_accepted:
  assumes ok: "spool_ok (fw_spool fw)" and T: "calm T" and post: "accepting post"
  shows "\<exists>fw' c' acc w. forward_turn cfg T post (fw, c) = Some ((fw', c'), acc, w)
      \<and> spool_ok (fw_spool fw') \<and> sp_rows (fw_spool fw') = drop 500 (sp_rows (fw_spool fw))"
proof (cases "sp_rows (fw_spool fw) = []")
  case True
  have "Drain (ft_faults T) defaultBatchSize (fw_spool fw) = Inr []"
    using True T by (simp add: Drain_def Let_def calm_def)
  then show ?thesis using True ok by (simp add: forward_turn_def Let_def)
next
  case False
  have "map (fst \<circ> scan_row) rs = map fst rs" for rs by (simp add: scan_row_def)
  then obtain bid c' acc where "sendBatch cfg T post (map scan_row (take 500 (sp_rows (fw_spool fw)))) (fw_batch fw) c
      = (Sent (map fst (take 500 (sp_rows (fw_spool fw)))), bid, c', acc)"
    using sendBatch_accepted[OF T post] by metis
  from forward_turn_sent[OF ok T False this refl] show ?thesis by blast
qed

text \<open>C33. A backlog is sent in a known number of iterations: while nothing fails and the endpoint
  answers 2xx, \<open>k\<close> iterations of \<^verbatim>\<open>Run\<close> remove exactly the \<open>500 * k\<close> oldest rows
  of the spool, rows that do not decode included, so a spool of \<open>n\<close> rows is empty after
  \<open>n / 500\<close> of them, rounded up.\<close>

theorem backlog_is_sent:
  assumes "spool_ok (fw_spool fw)" "\<forall>T\<in>set Ts. calm T" "accepting post"
  shows "\<exists>fw' c' acc. forward_turns cfg Ts post (fw, c) = Some ((fw', c'), acc)
      \<and> sp_rows (fw_spool fw') = drop (500 * length Ts) (sp_rows (fw_spool fw))"
  using assms
proof (induction Ts arbitrary: fw c)
  case (Cons T Ts)
  then obtain fw1 c1 acc1 w where t: "forward_turn cfg T post (fw, c) = Some ((fw1, c1), acc1, w)"
    "spool_ok (fw_spool fw1)" "sp_rows (fw_spool fw1) = drop 500 (sp_rows (fw_spool fw))"
    using forward_turn_accepted by (metis list.set_intros(1))
  then obtain fw2 c2 acc2 where "forward_turns cfg Ts post (fw1, c1) = Some ((fw2, c2), acc2)"
    "sp_rows (fw_spool fw2) = drop (500 * length Ts) (sp_rows (fw_spool fw1))"
    using Cons by (metis list.set_intros(2))
  then show ?case using t by (simp add: add.commute)
qed simp

lemma backlog_is_sent_witness:
  "\<exists>fw' c' acc. forward_turns example_cfg [example_turn] (\<lambda>b c. (Status 200, Suc c))
      (new_forwarder (snd (EnqueueBatch (\<lambda>op. False) [example_sample, example_sample] \<lparr>sp_rows = [], sp_seq = 7\<rparr>)), 0)
        = Some ((fw', c'), acc)
    \<and> sp_rows (fw_spool fw') = drop (500 * length [example_turn])
        (sp_rows (snd (EnqueueBatch (\<lambda>op. False) [example_sample, example_sample] \<lparr>sp_rows = [], sp_seq = 7\<rparr>)))"
proof -
  let ?sp = "snd (EnqueueBatch (\<lambda>op. False) [example_sample, example_sample] \<lparr>sp_rows = [], sp_seq = 7\<rparr>)"
  have "spool_ok ?sp" by (rule EnqueueBatch_ok) (simp add: spool_ok_def)
  moreover have "calm example_turn" by (simp add: calm_def example_turn_def)
  moreover have "accepting (\<lambda>b c. (Status 200, Suc c))" by (simp add: accepting_def)
  ultimately show ?thesis
    using backlog_is_sent[of "new_forwarder ?sp" "[example_turn]" "\<lambda>b c. (Status 200, Suc c)" example_cfg 0]
    by (simp add: new_forwarder_def)
qed

section \<open>No sample is lost\<close>

text \<open>\<open>carries b d\<close>: the posted document has the sample among its \<^verbatim>\<open>samples\<close>.\<close>

definition carries :: "json \<Rightarrow> drained \<Rightarrow> bool" where
  "carries b d \<longleftrightarrow>
     (case b of
        JObj kvs \<Rightarrow> (case member kvs ''samples'' of
                      Some (JArr js) \<Rightarrow> (case marshal_telemetry (snd d) of None \<Rightarrow> False | Some j \<Rightarrow> j \<in> set js)
                    | _ \<Rightarrow> False)
      | _ \<Rightarrow> False)"

text \<open>The collector: its forwarder, the endpoint, and two records of the run, the rows ever stored
  and the documents answered with 2xx.\<close>

record 'c collector =
  col_fwd :: fwd
  col_central :: 'c
  col_stored :: "spool_row list"
  col_accepted :: "json list"

definition stored_by :: "'c collector \<Rightarrow> spool \<Rightarrow> 'c collector" where
  "stored_by s sp =
     s\<lparr>col_fwd := (col_fwd s)\<lparr>fw_spool := sp\<rparr>,
       col_stored := col_stored s @ drop (length (sp_rows (fw_spool (col_fwd s)))) (sp_rows sp)\<rparr>"

text \<open>Drivers store samples, the loop turns, and the process is killed and restarted.\<close>

inductive collector_step :: "fwd_cfg \<Rightarrow> 'c endpoint \<Rightarrow> 'c collector \<Rightarrow> 'c collector \<Rightarrow> bool"
  for cfg post where
  polled: "collector_step cfg post s (stored_by s (snd (Enqueue F smp (fw_spool (col_fwd s)))))"
| polled_batch: "collector_step cfg post s (stored_by s (snd (EnqueueBatch F smps (fw_spool (col_fwd s)))))"
| turned: "forward_turn cfg T post (col_fwd s, col_central s) = Some ((fw, c), acc, w) \<Longrightarrow>
    collector_step cfg post s (s\<lparr>col_fwd := fw, col_central := c, col_accepted := col_accepted s @ acc\<rparr>)"
| restarted: "collector_step cfg post s (s\<lparr>col_fwd := new_forwarder (fw_spool (col_fwd s))\<rparr>)"

definition fresh_collector :: "'c \<Rightarrow> 'c collector" where
  "fresh_collector c =
     \<lparr>col_fwd = new_forwarder \<lparr>sp_rows = [], sp_seq = 0\<rparr>, col_central = c, col_stored = [], col_accepted = []\<rparr>"

definition accounted :: "'c collector \<Rightarrow> bool" where
  "accounted s \<longleftrightarrow>
     spool_ok (fw_spool (col_fwd s))
     \<and> (\<forall>r\<in>set (col_stored s). decoded (scan_row r) \<longrightarrow>
          r \<in> set (sp_rows (fw_spool (col_fwd s))) \<or> (\<exists>b\<in>set (col_accepted s). carries b (scan_row r)))"

text \<open>What the drivers store is appended.\<close>

lemma insert_all_appends: "insert_all F n ss sp = Inr sp' \<Longrightarrow> \<exists>rs. sp_rows sp' = sp_rows sp @ rs"
  using insert_all_rows by blast

lemma exec_insert_appends: "exec_insert F n s sp = Inr sp' \<Longrightarrow> \<exists>rs. sp_rows sp' = sp_rows sp @ rs"
  by (auto dest!: exec_insert_row simp: insert_row_def split: if_splits)

lemma Enqueue_appends: "\<exists>rs. sp_rows (snd (Enqueue F s sp)) = sp_rows sp @ rs"
  using Enqueue_cases[of F s sp "fst (Enqueue F s sp)" "snd (Enqueue F s sp)"]
  by (auto dest: exec_insert_appends)

lemma EnqueueBatch_appends: "\<exists>rs. sp_rows (snd (EnqueueBatch F ss sp)) = sp_rows sp @ rs"
  using EnqueueBatch_cases[of F ss sp "fst (EnqueueBatch F ss sp)" "snd (EnqueueBatch F ss sp)"]
  by (auto dest: insert_all_appends)

lemma stored_by_accounted:
  assumes "accounted s" "spool_ok sp" "\<exists>rs. sp_rows sp = sp_rows (fw_spool (col_fwd s)) @ rs"
  shows "accounted (stored_by s sp)"
  using assms by (auto simp: accounted_def stored_by_def)

lemma batch_body_carries:
  assumes "batch_body cfg bid ds = Some b" "d \<in> set ds" "decoded d"
  shows "carries b d"
proof -
  obtain js where js: "those (map (marshal_telemetry \<circ> snd) (filter decoded ds)) = Some js"
    and b: "b = JObj [(''batch_id'', JStr bid), (''collector_id'', JStr (fc_collector cfg)),
        (''samples'', JArr js), (''site_id'', JStr (fc_site cfg))]"
    using assms(1) by (auto simp: batch_body_def)
  have "d \<in> set (filter decoded ds)" using assms(2,3) by simp
  from those_mem[OF js this] show ?thesis
    by (auto simp: b carries_def member_def)
qed

lemma sendBatch_Sent:
  assumes "sendBatch cfg T post ds bid c = (Sent ids, bid', c', acc)"
  shows "ids = map fst ds \<and> (\<forall>d\<in>set ds. decoded d \<longrightarrow> (\<exists>b\<in>set acc. carries b d))"
  using assms batch_body_carries
  by (fastforce simp: sendBatch_def Let_def filter_empty_conv split: if_splits option.splits prod.splits reply.splits)

text \<open>A row that leaves the spool was drained and its batch was sent.\<close>

lemma forward_turn_removes:
  assumes t: "forward_turn cfg T post (fw, c) = Some ((fw', c'), acc, w)" and ok: "spool_ok (fw_spool fw)"
    and r: "r \<in> set (sp_rows (fw_spool fw))" "r \<notin> set (sp_rows (fw_spool fw'))"
  obtains ds ids bid where "ds = map scan_row (take 500 (sp_rows (fw_spool fw)))" "scan_row r \<in> set ds"
    "sendBatch cfg T post ds (fw_batch fw) c = (Sent ids, bid, c', acc)"
proof -
  let ?sp = "fw_spool fw"
  obtain ds ids bid where 2: "Drain (ft_faults T) defaultBatchSize ?sp = Inr ds"
    "sendBatch cfg T post ds (fw_batch fw) c = (Sent ids, bid, c', acc)"
    "fw_spool fw' = snd (Ack (ft_faults T) ids ?sp)"
    using t r by (auto simp: forward_turn_def Let_def split: sum.splits if_splits prod.splits send_result.splits)
  have ds: "ds = map scan_row (take 500 (sp_rows ?sp))"
    using Drain_rows[OF 2(1) ok] by (simp add: defaultBatchSize_def)
  have ids: "set ids = fst ` set (take 500 (sp_rows ?sp))"
    using sendBatch_Sent[OF 2(2)] by (simp add: ds scan_row_def image_image)
  obtain a sp' where ack: "Ack (ft_faults T) ids ?sp = (a, sp')" by (cases "Ack (ft_faults T) ids ?sp")
  then have "sp' = ?sp \<or> sp_rows sp' = filter (\<lambda>r. fst r \<notin> set ids) (sp_rows ?sp)"
    using Ack_cases[OF ack] Ack_rows by auto
  then have "r \<notin> set (filter (\<lambda>r. fst r \<notin> set ids) (sp_rows ?sp))" using r 2(3) ack by auto
  moreover have "filter (\<lambda>r. fst r \<notin> set ids) (sp_rows ?sp) = drop 500 (sp_rows ?sp)"
    unfolding ids by (rule filter_ids_take[OF spool_ok_distinct[OF ok]])
  ultimately have "r \<notin> set (drop 500 (sp_rows ?sp))" by metis
  then have "r \<in> set (take 500 (sp_rows ?sp))"
    using r(1) by (metis Un_iff append_take_drop_id set_append)
  then show thesis using that[OF ds] ds 2(2) by simp
qed

lemma forward_turn_accounted:
  assumes t: "forward_turn cfg T post (col_fwd s, col_central s) = Some ((fw, c), acc, w)" and s: "accounted s"
  shows "accounted (s\<lparr>col_fwd := fw, col_central := c, col_accepted := col_accepted s @ acc\<rparr>)"
proof -
  have ok: "spool_ok (fw_spool (col_fwd s))" using s by (simp add: accounted_def)
  have "r \<in> set (sp_rows (fw_spool fw)) \<or> (\<exists>b\<in>set (col_accepted s @ acc). carries b (scan_row r))"
    if r: "r \<in> set (col_stored s)" "decoded (scan_row r)" for r
  proof (cases "r \<in> set (sp_rows (fw_spool (col_fwd s))) \<and> r \<notin> set (sp_rows (fw_spool fw))")
    case True
    then show ?thesis
      using forward_turn_removes[OF t ok] sendBatch_Sent r(2) by (metis UnI2 set_append)
  next
    case False
    then show ?thesis using s r by (auto simp: accounted_def)
  qed
  moreover have "spool_ok (fw_spool fw)"
    using t ok by (auto simp: forward_turn_def Let_def
        split: sum.splits if_splits prod.splits send_result.splits intro: Ack_ok)
  ultimately show ?thesis by (simp add: accounted_def)
qed

interpretation collector: kept_by_steps "collector_step cfg post" accounted for cfg post
proof
  fix s t :: "'a collector"
  assume "collector_step cfg post s t" "accounted s"
  then show "accounted t"
  proof cases
    case polled
    show ?thesis unfolding polled
      by (rule stored_by_accounted[OF \<open>accounted s\<close> Enqueue_ok Enqueue_appends])
        (use \<open>accounted s\<close> in \<open>simp add: accounted_def\<close>)
  next
    case polled_batch
    show ?thesis unfolding polled_batch
      by (rule stored_by_accounted[OF \<open>accounted s\<close> EnqueueBatch_ok EnqueueBatch_appends])
        (use \<open>accounted s\<close> in \<open>simp add: accounted_def\<close>)
  next
    case turned
    show ?thesis unfolding turned(1) by (rule forward_turn_accounted[OF turned(2) \<open>accounted s\<close>])
  next
    case restarted
    then show ?thesis using \<open>accounted s\<close> by (simp add: accounted_def new_forwarder_def)
  qed
qed

text \<open>C31. No sample is lost on its way out of the collector: in every state it can reach, drivers
  storing samples, iterations of the loop with any statement failing and any answer of the
  endpoint, and kills of the process interleaved in any order, each row ever stored that
  decodes to a sample with an asset is still in the spool or was in a document the endpoint
  answered with 2xx.\<close>

theorem no_sample_is_lost:
  assumes "(collector_step cfg post)\<^sup>*\<^sup>* (fresh_collector c) s" "r \<in> set (col_stored s)" "decoded (scan_row r)"
  shows "r \<in> set (sp_rows (fw_spool (col_fwd s))) \<or> (\<exists>b\<in>set (col_accepted s). carries b (scan_row r))"
proof -
  have "accounted (fresh_collector c)"
    by (simp add: accounted_def fresh_collector_def new_forwarder_def spool_ok_def)
  with assms(1) have "accounted s" by (rule collector.run_keeps)
  then show ?thesis using assms(2,3) by (simp add: accounted_def)
qed

text \<open>One sample is stored, sent and acknowledged.\<close>

lemma no_sample_is_lost_witness:
  "\<exists>s r. (collector_step example_cfg (\<lambda>b c. (Status 200, Suc c)))\<^sup>*\<^sup>* (fresh_collector 0) s
     \<and> r \<in> set (col_stored s) \<and> decoded (scan_row r) \<and> sp_rows (fw_spool (col_fwd s)) = []
     \<and> (r \<in> set (sp_rows (fw_spool (col_fwd s))) \<or> (\<exists>b\<in>set (col_accepted s). carries b (scan_row r)))"
proof -
  let ?post = "\<lambda>b c. (Status 200, Suc c)"
  define s0 where "s0 = fresh_collector (0 :: nat)"
  define s1 where "s1 = stored_by s0 (snd (Enqueue (\<lambda>op. False) example_sample (fw_spool (col_fwd s0))))"
  have "spool_ok \<lparr>sp_rows = [], sp_seq = 0\<rparr>" by (simp add: spool_ok_def)
  from Enqueue_ok[OF this] have "spool_ok (fw_spool (col_fwd s1))"
    by (simp add: s1_def s0_def stored_by_def fresh_collector_def new_forwarder_def)
  moreover have "calm example_turn" by (simp add: calm_def example_turn_def)
  moreover have "accepting ?post" by (simp add: accepting_def)
  ultimately obtain fw c acc w where
    turn: "forward_turn example_cfg example_turn ?post (col_fwd s1, col_central s1) = Some ((fw, c), acc, w)"
    and rows: "sp_rows (fw_spool fw) = drop 500 (sp_rows (fw_spool (col_fwd s1)))"
    using forward_turn_accepted[of "col_fwd s1" example_turn ?post example_cfg "col_central s1"] by blast
  have "length (sp_rows (fw_spool (col_fwd s1))) = 1"
    unfolding s1_def s0_def by code_simp
  then have empty: "sp_rows (fw_spool fw) = []" using rows by simp
  define s2 where "s2 = s1\<lparr>col_fwd := fw, col_central := c, col_accepted := col_accepted s1 @ acc\<rparr>"
  have st: "\<exists>r\<in>set (col_stored s1). decoded (scan_row r)"
    unfolding s1_def s0_def by code_simp
  then obtain r where r: "r \<in> set (col_stored s1)" "decoded (scan_row r)" by blast
  have "collector_step example_cfg ?post s0 s1" unfolding s1_def by (rule polled)
  moreover have "collector_step example_cfg ?post s1 s2" unfolding s2_def by (rule turned[OF turn])
  ultimately have run: "(collector_step example_cfg ?post)\<^sup>*\<^sup>* (fresh_collector 0) s2"
    unfolding s0_def by (blast intro: rtranclp.intros)
  have "r \<in> set (col_stored s2)" and e2: "sp_rows (fw_spool (col_fwd s2)) = []"
    using r(1) empty by (simp_all add: s2_def)
  then show ?thesis using no_sample_is_lost[OF run _ r(2)] run r(2) by blast
qed

end
