(* ===== verification/TelemetryIngest.thy ===== *)
theory TelemetryIngest
  imports BadgerProps Authn
begin

text \<open>
  The telemetry endpoint \<^verbatim>\<open>internal/ingest/handler.go\<close> with its two tables, the statements
  on them, and the freshness sweep of the scheduler: decoding and validation of a batch,
  the freshness row of every asset and metric in it, and the samples, inserted one by
  one unless their key is taken.  The tables' foreign keys belong to other packages and
  enter as failures of the statements; times are nanoseconds, and those of a \<^verbatim>\<open>TIMESTAMPTZ\<close> column
  whole microseconds.
\<close>

section \<open>Batches\<close>

record tsample =
  t_asset :: uuid
  t_metric :: string
  t_value :: rat
  t_unit :: "string option"
  t_ts :: int
  t_tags :: "(string \<times> string) list"

record tbatch =
  b_id :: string
  b_site :: uuid
  b_collector :: uuid
  b_samples :: "tsample list"

text \<open>\<^verbatim>\<open>time.Time{}\<close>: year 1.\<close>

definition zero_time :: int where
  "zero_time = - 62135596800 * second"

definition zero_tsample :: tsample where
  "zero_tsample = \<lparr>t_asset = uuid_nil, t_metric = [], t_value = 0, t_unit = None, t_ts = zero_time, t_tags = []\<rparr>"

definition zero_batch :: tbatch where
  "zero_batch = \<lparr>b_id = [], b_site = uuid_nil, b_collector = uuid_nil, b_samples = []\<rparr>"

text \<open>What the handler runs on: how \<^verbatim>\<open>google/uuid\<close> and \<^verbatim>\<open>time.Time\<close> read a text, the
  clocks, the configuration, the order in which Go ranges over a map, and the
  statements that fail.\<close>

record ingest_env =
  in_uuid :: "string \<Rightarrow> uuid option"
  in_time :: "string \<Rightarrow> int option"
  in_received :: int
  in_now :: int
  in_gen :: "uuid list \<Rightarrow> uuid"
  in_hypertable :: bool
  in_order :: "((uuid \<times> string) \<times> tsample) list \<Rightarrow> ((uuid \<times> string) \<times> tsample) list"
  in_upsert_fault :: "uuid \<Rightarrow> string \<Rightarrow> dberr option"
  in_insert_fault :: "nat \<Rightarrow> dberr option"

definition put_text :: "(string \<Rightarrow> 'a option) \<Rightarrow> json \<Rightarrow> 'a \<Rightarrow> 'a option" where
  "put_text parse j old = (case j of JNull \<Rightarrow> Some old | JStr t \<Rightarrow> parse t | _ \<Rightarrow> None)"

definition put_number :: "json \<Rightarrow> rat \<Rightarrow> rat option" where
  "put_number j old = (case j of JNull \<Rightarrow> Some old | _ \<Rightarrow> json_float j)"

definition put_optional_string :: "json \<Rightarrow> string option option" where
  "put_optional_string j = (case j of JNull \<Rightarrow> Some None | JStr t \<Rightarrow> Some (Some t) | _ \<Rightarrow> None)"

definition put_sample_member :: "ingest_env \<Rightarrow> string \<Rightarrow> json \<Rightarrow> tsample \<Rightarrow> tsample option" where
  "put_sample_member E k j s =
     (if k = ''asset_id'' then map_option (\<lambda>x. s\<lparr>t_asset := x\<rparr>) (put_text (in_uuid E) j (t_asset s))
      else if k = ''metric'' then map_option (\<lambda>x. s\<lparr>t_metric := x\<rparr>) (put_string j (t_metric s))
      else if k = ''value'' then map_option (\<lambda>x. s\<lparr>t_value := x\<rparr>) (put_number j (t_value s))
      else if k = ''unit'' then map_option (\<lambda>x. s\<lparr>t_unit := x\<rparr>) (put_optional_string j)
      else if k = ''ts'' then map_option (\<lambda>x. s\<lparr>t_ts := x\<rparr>) (put_text (in_time E) j (t_ts s))
      else if k = ''tags'' then map_option (\<lambda>x. s\<lparr>t_tags := x\<rparr>) (put_tags j (t_tags s))
      else Some s)"

fun put_sample_members :: "ingest_env \<Rightarrow> json_object \<Rightarrow> tsample \<Rightarrow> tsample option" where
  "put_sample_members E [] s = Some s"
| "put_sample_members E ((k, j) # kvs) s =
     Option.bind (put_sample_member E k j s) (put_sample_members E kvs)"

definition decode_tsample :: "ingest_env \<Rightarrow> json \<Rightarrow> tsample option" where
  "decode_tsample E j =
     (case j of
        JNull \<Rightarrow> Some zero_tsample
      | JObj kvs \<Rightarrow> put_sample_members E kvs zero_tsample
      | _ \<Rightarrow> None)"

definition put_samples :: "ingest_env \<Rightarrow> json \<Rightarrow> tsample list option" where
  "put_samples E j =
     (case j of JNull \<Rightarrow> Some [] | JArr js \<Rightarrow> those (map (decode_tsample E) js) | _ \<Rightarrow> None)"

definition put_batch_member :: "ingest_env \<Rightarrow> string \<Rightarrow> json \<Rightarrow> tbatch \<Rightarrow> tbatch option" where
  "put_batch_member E k j b =
     (if k = ''batch_id'' then map_option (\<lambda>x. b\<lparr>b_id := x\<rparr>) (put_string j (b_id b))
      else if k = ''site_id'' then map_option (\<lambda>x. b\<lparr>b_site := x\<rparr>) (put_text (in_uuid E) j (b_site b))
      else if k = ''collector_id'' then map_option (\<lambda>x. b\<lparr>b_collector := x\<rparr>) (put_text (in_uuid E) j (b_collector b))
      else if k = ''samples'' then map_option (\<lambda>x. b\<lparr>b_samples := x\<rparr>) (put_samples E j)
      else Some b)"

fun put_batch_members :: "ingest_env \<Rightarrow> json_object \<Rightarrow> tbatch \<Rightarrow> tbatch option" where
  "put_batch_members E [] b = Some b"
| "put_batch_members E ((k, j) # kvs) b = Option.bind (put_batch_member E k j b) (put_batch_members E kvs)"

definition decode_batch :: "ingest_env \<Rightarrow> json option \<Rightarrow> tbatch option" where
  "decode_batch E body =
     (case body of
        Some (JObj kvs) \<Rightarrow> put_batch_members E kvs zero_batch
      | Some JNull \<Rightarrow> Some zero_batch
      | _ \<Rightarrow> None)"

definition batchIDMinLen :: nat where "batchIDMinLen = 8"
definition batchIDMaxLen :: nat where "batchIDMaxLen = 64"
definition samplesMaxLen :: nat where "samplesMaxLen = 5000"

fun check_samples :: "tsample list \<Rightarrow> string" where
  "check_samples [] = []"
| "check_samples (s # ss) =
     (if t_asset s = uuid_nil then ''samples[].asset_id required''
      else if t_metric s = [] then ''samples[].metric required''
      else if t_ts s = zero_time then ''samples[].ts required''
      else check_samples ss)"

text \<open>\<^verbatim>\<open>validateBatch\<close>: the empty text when nothing is wrong.\<close>

definition validateBatch :: "tbatch \<Rightarrow> string" where
  "validateBatch b =
     (if length (b_id b) < batchIDMinLen \<or> batchIDMaxLen < length (b_id b) then ''batch_id length must be 8..64''
      else if b_site b = uuid_nil \<or> b_collector b = uuid_nil then ''site_id and collector_id required''
      else if b_samples b = [] \<or> samplesMaxLen < length (b_samples b) then ''samples length must be 1..5000''
      else check_samples (b_samples b))"

section \<open>Tables\<close>

record telemetry_source =
  src_id :: uuid
  src_site :: uuid
  src_asset :: uuid
  src_collector :: "uuid option"
  src_metric :: string
  src_unit :: "string option"
  src_success :: "int option"
  src_reading :: "int option"
  src_value :: "rat option"
  src_freshness :: string
  src_poll :: int
  src_created :: int
  src_updated :: int

record telemetry_row =
  tr_ts :: int
  tr_site :: uuid
  tr_asset :: uuid
  tr_collector :: uuid
  tr_batch :: string
  tr_seq :: int
  tr_metric :: string
  tr_value :: rat
  tr_unit :: "string option"
  tr_received :: int
  tr_tags :: "(string \<times> string) list"

record telemetry_db =
  telemetry_sources :: "telemetry_source list"
  telemetry_rows :: "telemetry_row list"

text \<open>A time given to a statement: \<^verbatim>\<open>pgx\<close> sends \<^verbatim>\<open>t.Unix() * 1000000 + t.Nanosecond() / 1000\<close>,
  where the nanosecond within the second is not negative, so that the time is rounded down.\<close>

definition timestamptz :: "int \<Rightarrow> int" where
  "timestamptz t = t div 1000 * 1000"

text \<open>\<^verbatim>\<open>COALESCE(NULLIF(EXCLUDED.unit, ''), unit)\<close>.\<close>

definition unit_kept :: "string option \<Rightarrow> string option \<Rightarrow> string option" where
  "unit_kept incoming old = (if incoming = None \<or> incoming = Some [] then old else incoming)"

definition UpsertTelemetrySource ::
    "ingest_env \<Rightarrow> uuid \<Rightarrow> uuid \<Rightarrow> uuid \<Rightarrow> string \<Rightarrow> string option \<Rightarrow> int \<Rightarrow> int \<Rightarrow> rat
     \<Rightarrow> telemetry_db \<Rightarrow> (dberr + unit) \<times> telemetry_db" where
  "UpsertTelemetrySource E site asset collector metric unit succ_at read_at x db =
     (case in_upsert_fault E asset metric of
        Some e \<Rightarrow> (Inl e, db)
      | None \<Rightarrow>
          let hit = (\<lambda>r. src_asset r = asset \<and> src_metric r = metric)
          in if \<exists>r\<in>set (telemetry_sources db). hit r
             then (Inr (), db\<lparr>telemetry_sources := map (\<lambda>r.
                     if hit r
                     then r\<lparr>src_collector := Some collector, src_unit := unit_kept unit (src_unit r),
                            src_success := Some (timestamptz succ_at), src_reading := Some (timestamptz read_at), src_value := Some x,
                            src_freshness := ''current'', src_updated := in_now E\<rparr>
                     else r) (telemetry_sources db)\<rparr>)
             else (Inr (), db\<lparr>telemetry_sources := telemetry_sources db @
                     [\<lparr>src_id = in_gen E (map src_id (telemetry_sources db)), src_site = site, src_asset = asset,
                       src_collector = Some collector, src_metric = metric, src_unit = unit,
                       src_success = Some (timestamptz succ_at), src_reading = Some (timestamptz read_at),
                       src_value = Some x, src_freshness = ''current'', src_poll = 60, src_created = in_now E,
                       src_updated = in_now E\<rparr>]\<rparr>))"

text \<open>\<^verbatim>\<open>uq_telem_sample_dedup\<close>.\<close>

definition dedup_key :: "telemetry_row \<Rightarrow> uuid \<times> string \<times> int \<times> int" where
  "dedup_key r = (tr_collector r, tr_batch r, tr_seq r, tr_ts r)"

definition InsertTelemetrySample ::
    "dberr option \<Rightarrow> telemetry_row \<Rightarrow> telemetry_db \<Rightarrow> (dberr + unit) \<times> telemetry_db" where
  "InsertTelemetrySample f r db =
     (case f of
        Some e \<Rightarrow> (Inl e, db)
      | None \<Rightarrow>
          if dedup_key r \<in> dedup_key ` set (telemetry_rows db) then (Inr (), db)
          else (Inr (), db\<lparr>telemetry_rows := telemetry_rows db @ [r]\<rparr>))"

text \<open>The sweep, with the intervals in nanoseconds; it answers how many rows it changed.\<close>

definition is_stale :: "int \<Rightarrow> telemetry_source \<Rightarrow> bool" where
  "is_stale clk r \<longleftrightarrow>
     src_freshness r = ''current''
     \<and> (case src_success r of None \<Rightarrow> False | Some t \<Rightarrow> t < clk - max 60 (src_poll r * 3) * second)"

definition FlipStaleTelemetrySources :: "int \<Rightarrow> telemetry_db \<Rightarrow> nat \<times> telemetry_db" where
  "FlipStaleTelemetrySources clk db =
     (length (filter (is_stale clk) (telemetry_sources db)),
      db\<lparr>telemetry_sources := map (\<lambda>r. if is_stale clk r then r\<lparr>src_freshness := ''stale'', src_updated := clk\<rparr> else r)
           (telemetry_sources db)\<rparr>)"

definition GetTelemetrySeries ::
    "uuid \<Rightarrow> uuid \<Rightarrow> string \<Rightarrow> int \<Rightarrow> int \<Rightarrow> telemetry_db \<Rightarrow> (int \<times> rat) list" where
  "GetTelemetrySeries site asset metric start_ts end_ts db =
     take 10000 (sort_key fst (map (\<lambda>r. (tr_ts r, tr_value r))
       (filter (\<lambda>r. tr_site r = site \<and> tr_asset r = asset \<and> tr_metric r = metric
          \<and> timestamptz start_ts \<le> tr_ts r \<and> tr_ts r \<le> timestamptz end_ts) (telemetry_rows db))))"

section \<open>The handler\<close>

fun put_fresh :: "(uuid \<times> string) \<Rightarrow> tsample \<Rightarrow> ((uuid \<times> string) \<times> tsample) list \<Rightarrow> ((uuid \<times> string) \<times> tsample) list" where
  "put_fresh k s [] = [(k, s)]"
| "put_fresh k s ((k', s') # xs) = (if k = k' then (k, s) # xs else (k', s') # put_fresh k s xs)"

definition freshBy :: "tsample list \<Rightarrow> ((uuid \<times> string) \<times> tsample) list" where
  "freshBy ss = foldl (\<lambda>m s. put_fresh (t_asset s, t_metric s) s m) [] ss"

fun upsert_each ::
    "ingest_env \<Rightarrow> tbatch \<Rightarrow> ((uuid \<times> string) \<times> tsample) list \<Rightarrow> telemetry_db \<Rightarrow> dberr option \<times> telemetry_db" where
  "upsert_each E b [] db = (None, db)"
| "upsert_each E b ((k, s) # xs) db =
     (case UpsertTelemetrySource E (b_site b) (fst k) (b_collector b) (snd k) (t_unit s) (in_received E) (t_ts s)
            (t_value s) db of
        (Inl e, db') \<Rightarrow> (Some e, db')
      | (Inr _, db') \<Rightarrow> upsert_each E b xs db')"

definition upsertFreshness :: "ingest_env \<Rightarrow> tbatch \<Rightarrow> telemetry_db \<Rightarrow> dberr option \<times> telemetry_db" where
  "upsertFreshness E b db = upsert_each E b (in_order E (freshBy (b_samples b))) db"

definition sample_row :: "ingest_env \<Rightarrow> tbatch \<Rightarrow> nat \<Rightarrow> tsample \<Rightarrow> telemetry_row" where
  "sample_row E b i s =
     \<lparr>tr_ts = timestamptz (t_ts s), tr_site = b_site b, tr_asset = t_asset s, tr_collector = b_collector b, tr_batch = b_id b,
      tr_seq = int32 (int i), tr_metric = t_metric s, tr_value = t_value s, tr_unit = t_unit s,
      tr_received = timestamptz (in_received E), tr_tags = t_tags s\<rparr>"

fun insert_each :: "ingest_env \<Rightarrow> tbatch \<Rightarrow> nat \<Rightarrow> tsample list \<Rightarrow> telemetry_db \<Rightarrow> bool \<times> telemetry_db" where
  "insert_each E b i [] db = (True, db)"
| "insert_each E b i (s # ss) db =
     (case InsertTelemetrySample (in_insert_fault E i) (sample_row E b i s) db of
        (Inl e, db') \<Rightarrow> (False, db')
      | (Inr _, db') \<Rightarrow> insert_each E b (Suc i) ss db')"

definition insertSamples :: "ingest_env \<Rightarrow> tbatch \<Rightarrow> telemetry_db \<Rightarrow> bool \<times> telemetry_db" where
  "insertSamples E b db = (if \<not> in_hypertable E then (False, db) else insert_each E b 0 (b_samples b) db)"

record ingestOut =
  io_accepted :: nat
  io_errors :: bool
  io_received :: int

definition postTelemetry ::
    "ingest_env \<Rightarrow> json option \<Rightarrow> telemetry_db \<Rightarrow> ingestOut resp \<times> telemetry_db" where
  "postTelemetry E body db =
     (case decode_batch E body of
        None \<Rightarrow> (HttpError 400 ''bad request body'', db)
      | Some b \<Rightarrow>
          let msg = validateBatch b
          in if msg \<noteq> [] then (HttpError 400 msg, db)
             else case upsertFreshness E b db of
                    (Some e, db1) \<Rightarrow> (HttpError (fst (Mapped e)) (snd (Mapped e)), db1)
                  | (None, db1) \<Rightarrow>
                      let (written, db2) = insertSamples E b db1
                      in (HttpJSON 200 \<lparr>io_accepted = length (b_samples b), io_errors = \<not> written,
                            io_received = in_received E\<rparr>, db2))"

definition capIngestWrite :: string where
  "capIngestWrite = ''collectors:ingest:write''"

definition serve_telemetry ::
    "ingest_env \<Rightarrow> principal option \<Rightarrow> json option \<Rightarrow> telemetry_db \<Rightarrow> ingestOut resp \<times> telemetry_db" where
  "serve_telemetry E caller body db =
     (case RequireCapability capIngestWrite caller of
        Refuse code msg \<Rightarrow> (HttpError code msg, db)
      | Pass _ \<Rightarrow> postTelemetry E body db)"

text \<open>The endpoint as the forwarder sees it.\<close>

definition ingest_endpoint :: "ingest_env \<Rightarrow> principal option \<Rightarrow> telemetry_db endpoint" where
  "ingest_endpoint E caller b db =
     (case serve_telemetry E caller (Some b) db of (r, db') \<Rightarrow> (Status (int (status_of r)), db'))"

section \<open>Reading a series\<close>

text \<open>\<^verbatim>\<open>internal/telemetry/handler.go\<close>; points and identifiers are left unprinted.\<close>

record seriesResponse =
  sr_asset :: uuid
  sr_metric :: string
  sr_points :: "(int \<times> rat) list"
  sr_count :: nat

definition parseTimeOr :: "ingest_env \<Rightarrow> string \<Rightarrow> int \<Rightarrow> int option" where
  "parseTimeOr E s dflt = (if s = [] then Some dflt else in_time E s)"

definition getSeries ::
    "ingest_env \<Rightarrow> dberr option \<Rightarrow> query_values \<Rightarrow> telemetry_db \<Rightarrow> seriesResponse resp" where
  "getSeries E f q db =
     (case in_uuid E (q ''site_id'') of
        None \<Rightarrow> HttpError 400 ''site_id is required and must be a uuid''
      | Some site \<Rightarrow>
     (case in_uuid E (q ''asset_id'') of
        None \<Rightarrow> HttpError 400 ''asset_id is required and must be a uuid''
      | Some asset \<Rightarrow>
          if q ''metric'' = [] then HttpError 400 ''metric is required''
          else case parseTimeOr E (q ''end'') (in_now E) of
                 None \<Rightarrow> HttpError 400 ''end is not a valid timestamp''
               | Some end_ts \<Rightarrow>
          (case parseTimeOr E (q ''start'') (end_ts - 3600 * second) of
             None \<Rightarrow> HttpError 400 ''start is not a valid timestamp''
           | Some start_ts \<Rightarrow>
               (case f of
                  Some e \<Rightarrow> WriteMapped e
                | None \<Rightarrow>
                    let points = GetTelemetrySeries site asset (q ''metric'') start_ts end_ts db
                    in HttpJSON 200 \<lparr>sr_asset = asset, sr_metric = q ''metric'', sr_points = points,
                         sr_count = length points\<rparr>))))"

definition serve_series ::
    "ingest_env \<Rightarrow> dberr option \<Rightarrow> principal option \<Rightarrow> query_values \<Rightarrow> telemetry_db \<Rightarrow> seriesResponse resp" where
  "serve_series E f caller q db =
     (case RequireCapability ''telemetry:metrics:read'' caller of
        Refuse code msg \<Rightarrow> HttpError code msg
      | Pass _ \<Rightarrow> getSeries E f q db)"

text \<open>\<^verbatim>\<open>freshness.Job.Run\<close>: an error, or the rows flipped.\<close>

definition run_freshness :: "dberr option \<Rightarrow> int \<Rightarrow> telemetry_db \<Rightarrow> (dberr + nat) \<times> telemetry_db" where
  "run_freshness f clk db =
     (case f of
        Some e \<Rightarrow> (Inl e, db)
      | None \<Rightarrow> (case FlipStaleTelemetrySources clk db of (n, db') \<Rightarrow> (Inr n, db')))"

end
