(* ===== verification/TelemetryPath.thy ===== *)
theory TelemetryPath
  imports TelemetryIngest
begin

text \<open>
  A sample's way from the collector's spool to the table of samples: what the forwarder
  posts decodes and validates at the ingest endpoint, a batch that was written is in the
  table row by row, posting it again changes no row, and a row leaves the spool only with
  its sample in the table, when the statements do not fail and samples are written at all.
\<close>

section \<open>An example\<close>

text \<open>Texts that are not empty stand for UUIDs and times by their length, in steps of 1001 nanoseconds.\<close>

definition example_ingest :: "bool \<Rightarrow> ingest_env" where
  "example_ingest hypertable =
     \<lparr>in_uuid = (\<lambda>s. if s = [] then None else Some (length s)),
      in_time = (\<lambda>s. if s = [] then None else Some (int (length s) * 1001)),
      in_received = 5, in_now = 6, in_gen = length, in_hypertable = hypertable, in_order = (\<lambda>xs. xs),
      in_upsert_fault = (\<lambda>a m. None), in_insert_fault = (\<lambda>i. None)\<rparr>"

definition example_caller :: "principal option" where
  "example_caller =
     Some \<lparr>Subject = 1, Capabilities = [capIngestWrite], Scopes = None, MFA = False, Label = ''collector''\<rparr>"

definition example_spool :: spool where
  "example_spool = snd (Enqueue (\<lambda>op. False) example_sample \<lparr>sp_rows = [], sp_seq = 0\<rparr>)"

definition empty_tables :: telemetry_db where
  "empty_tables = \<lparr>telemetry_sources = [], telemetry_rows = []\<rparr>"

definition example_body :: "json option" where
  "example_body = batch_body example_cfg ''01234567-89'' [(1, example_sample)]"

definition example_post :: "ingestOut resp \<times> telemetry_db" where
  "example_post = postTelemetry (example_ingest True) example_body empty_tables"

lemma example_post_written:
  "\<exists>out. example_post = (HttpJSON 200 out, snd example_post) \<and> \<not> io_errors out"
proof -
  have "(case fst example_post of HttpJSON c out \<Rightarrow> c = 200 \<and> \<not> io_errors out | _ \<Rightarrow> False)" by code_simp
  from HttpJSON_obtain[OF this] show ?thesis by (metis prod.collapse)
qed

lemma example_spool_rows: "sp_rows example_spool = [(1, marshal_sample example_sample)]"
  by code_simp

lemma example_spool_ok: "spool_ok example_spool"
  unfolding example_spool_def by (rule Enqueue_ok) (simp add: spool_ok_def)

lemma example_scan: "scan_row (1, marshal_sample example_sample) = (1, example_sample)"
  by code_simp

lemma example_decoded [simp]: "decoded (n, example_sample)"
  by (simp add: decoded_def example_sample_def)

section \<open>Writing a batch\<close>

definition batch_unseen :: "tbatch \<Rightarrow> telemetry_db \<Rightarrow> bool" where
  "batch_unseen b db \<longleftrightarrow>
     (\<forall>r\<in>set (telemetry_rows db). \<not> (tr_collector r = b_collector b \<and> tr_batch r = b_id b))"

definition rows_of :: "ingest_env \<Rightarrow> tbatch \<Rightarrow> nat \<Rightarrow> tsample list \<Rightarrow> telemetry_row list" where
  "rows_of E b n ss = map2 (sample_row E b) [n..<n + length ss] ss"

lemma rows_of_Cons: "rows_of E b n (s # ss) = sample_row E b n s # rows_of E b (Suc n) ss"
  by (simp add: rows_of_def upt_rec)

lemma upsert_rows [simp]:
  "telemetry_rows (snd (UpsertTelemetrySource E site a c m u t1 t2 x db)) = telemetry_rows db"
  by (simp add: UpsertTelemetrySource_def Let_def split: option.split)

lemma upsert_each_rows: "upsert_each E b xs db = (r, db') \<Longrightarrow> telemetry_rows db' = telemetry_rows db"
proof (induction E b xs db rule: upsert_each.induct)
  case (2 E b k s xs db)
  obtain q db1 where u: "UpsertTelemetrySource E (b_site b) (fst k) (b_collector b) (snd k) (t_unit s)
      (in_received E) (t_ts s) (t_value s) db = (q, db1)" by (cases "UpsertTelemetrySource E (b_site b) (fst k)
      (b_collector b) (snd k) (t_unit s) (in_received E) (t_ts s) (t_value s) db")
  then have "telemetry_rows db1 = telemetry_rows db"
    by (metis snd_conv upsert_rows)
  then show ?case using 2 u by (auto split: sum.splits)
qed simp

lemma insert_each_writes:
  assumes "insert_each E b n ss db = (True, db')" "n + length ss \<le> samplesMaxLen"
    "\<forall>r\<in>set (telemetry_rows db). tr_collector r = b_collector b \<and> tr_batch r = b_id b \<longrightarrow> tr_seq r < int n"
  shows "telemetry_rows db' = telemetry_rows db @ rows_of E b n ss"
  using assms
proof (induction ss arbitrary: n db)
  case (Cons s ss)
  have n: "int32 (int n) = int n"
    using Cons.prems(2) by (intro int32_id) (simp_all add: samplesMaxLen_def)
  then have "dedup_key (sample_row E b n s) \<notin> dedup_key ` set (telemetry_rows db)"
    using Cons.prems(3) by (auto simp: dedup_key_def sample_row_def)
  moreover define db1 where "db1 = db\<lparr>telemetry_rows := telemetry_rows db @ [sample_row E b n s]\<rparr>"
  ultimately have r: "insert_each E b (Suc n) ss db1 = (True, db')"
    using Cons.prems(1) by (auto simp: InsertTelemetrySample_def split: option.splits)
  have db1: "telemetry_rows db1 = telemetry_rows db @ [sample_row E b n s]"
    by (simp add: db1_def)
  have "telemetry_rows db' = telemetry_rows db1 @ rows_of E b (Suc n) ss"
    using Cons.prems(2,3) n by (intro Cons.IH[OF r]) (auto simp: db1 sample_row_def)
  then show ?case by (simp add: db1 rows_of_Cons)
qed (simp add: rows_of_def)

text \<open>What a run of inserts leaves has the key of each of its rows, up to the one that failed.\<close>

lemma insert_each_keys:
  "insert_each E b n ss db = (True, db') \<Longrightarrow>
   dedup_key ` set (rows_of E b n ss) \<subseteq> dedup_key ` set (telemetry_rows db')
   \<and> dedup_key ` set (telemetry_rows db) \<subseteq> dedup_key ` set (telemetry_rows db')"
proof (induction ss arbitrary: n db)
  case (Cons s ss)
  define db1 where "db1 = snd (InsertTelemetrySample (in_insert_fault E n) (sample_row E b n s) db)"
  have db1: "insert_each E b (Suc n) ss db1 = (True, db')"
    "dedup_key (sample_row E b n s) \<in> dedup_key ` set (telemetry_rows db1)"
    "dedup_key ` set (telemetry_rows db) \<subseteq> dedup_key ` set (telemetry_rows db1)"
    using Cons.prems by (auto simp: db1_def InsertTelemetrySample_def split: option.splits if_splits)
  from Cons.IH[OF db1(1)] db1(2,3) show ?case
    unfolding rows_of_Cons list.set(2) image_insert insert_subset by (meson subsetD subset_trans)
qed (simp add: rows_of_def)

lemma insert_each_present:
  "dedup_key ` set (rows_of E' b n ss) \<subseteq> dedup_key ` set (telemetry_rows db) \<Longrightarrow>
   telemetry_rows (snd (insert_each E b n ss db)) = telemetry_rows db"
proof (induction ss arbitrary: n)
  case (Cons s ss)
  have k: "dedup_key (sample_row E b n s) = dedup_key (sample_row E' b n s)"
    by (simp add: dedup_key_def sample_row_def)
  have "dedup_key (sample_row E b n s) \<in> dedup_key ` set (telemetry_rows db)"
    using Cons.prems unfolding k rows_of_Cons by auto
  moreover have "telemetry_rows (snd (insert_each E b (Suc n) ss db)) = telemetry_rows db"
    using Cons.prems by (intro Cons.IH) (auto simp: rows_of_Cons)
  ultimately show ?case
    by (simp add: InsertTelemetrySample_def split: option.splits)
qed simp

text \<open>What an answer says of the run of the handler.\<close>

lemma postTelemetry_written:
  assumes "postTelemetry E body db = (HttpJSON 200 out, db')" "\<not> io_errors out"
  obtains b db1 where "decode_batch E body = Some b" "validateBatch b = []"
    "telemetry_rows db1 = telemetry_rows db" "insert_each E b 0 (b_samples b) db1 = (True, db')"
proof -
  have "\<exists>b db1. decode_batch E body = Some b \<and> validateBatch b = []
      \<and> upsert_each E b (in_order E (freshBy (b_samples b))) db = (None, db1)
      \<and> insert_each E b 0 (b_samples b) db1 = (True, db')"
    using assms
    by (auto simp: postTelemetry_def upsertFreshness_def insertSamples_def Let_def
        split: option.splits if_splits prod.splits)
  then show thesis using that upsert_each_rows by metis
qed

lemma postTelemetry_rows:
  assumes "decode_batch E body = Some b"
    "dedup_key ` set (rows_of E' b 0 (b_samples b)) \<subseteq> dedup_key ` set (telemetry_rows db)"
  shows "telemetry_rows (snd (postTelemetry E body db)) = telemetry_rows db"
proof -
  obtain r db1 where u: "upsertFreshness E b db = (r, db1)" by (cases "upsertFreshness E b db")
  then have db1: "telemetry_rows db1 = telemetry_rows db"
    using upsert_each_rows by (simp add: upsertFreshness_def)
  have "telemetry_rows (snd (insertSamples E b db1)) = telemetry_rows db"
    using insert_each_present[of E' b 0 "b_samples b" db1 E] assms(2) db1 by (simp add: insertSamples_def)
  then show ?thesis
    using assms(1) u db1 by (auto simp: postTelemetry_def Let_def split: option.splits prod.splits)
qed

lemma validateBatch_length: "validateBatch b = [] \<Longrightarrow> length (b_samples b) \<le> samplesMaxLen"
  by (auto simp: validateBatch_def split: if_splits)

text \<open>An answer 200 without the error flag means the batch is in the table: when no row of the
  collector bears its batch id yet, the handler has appended exactly one row per sample,
  in order, numbered from 0, with the sample's asset, metric, value, unit, tags and time, to the microsecond.\<close>

theorem ingest_writes_batch:
  assumes "postTelemetry E body db = (HttpJSON 200 out, db')" "\<not> io_errors out"
    "decode_batch E body = Some b" "batch_unseen b db"
  shows "telemetry_rows db' = telemetry_rows db @ rows_of E b 0 (b_samples b)"
proof -
  obtain db1 where v: "validateBatch b = []" and db1: "telemetry_rows db1 = telemetry_rows db"
    and i: "insert_each E b 0 (b_samples b) db1 = (True, db')"
    using postTelemetry_written[OF assms(1,2)] assms(3) by (metis option.inject)
  have "telemetry_rows db' = telemetry_rows db1 @ rows_of E b 0 (b_samples b)"
    using validateBatch_length[OF v] assms(4) db1
    by (intro insert_each_writes[OF i]) (auto simp: batch_unseen_def)
  then show ?thesis by (simp add: db1)
qed

lemma ingest_writes_batch_witness:
  "\<exists>b. decode_batch (example_ingest True) example_body = Some b
     \<and> telemetry_rows (snd example_post) = telemetry_rows empty_tables @ rows_of (example_ingest True) b 0 (b_samples b)"
proof -
  obtain out where out: "example_post = (HttpJSON 200 out, snd example_post)" "\<not> io_errors out"
    using example_post_written by blast
  have "decode_batch (example_ingest True) example_body \<noteq> None" by code_simp
  then obtain b where b: "decode_batch (example_ingest True) example_body = Some b" by blast
  have "batch_unseen b empty_tables" by (simp add: batch_unseen_def empty_tables_def)
  from ingest_writes_batch[OF out(1)[unfolded example_post_def] out(2) b this] b show ?thesis
    by (simp add: example_post_def)
qed

text \<open>C36. Resending a batch is harmless: once a batch was answered 200 without the error flag,
  posting the same document again, however often the statements fail then and whatever the
  clock says, changes no row of the table of samples.\<close>

theorem resent_batch_changes_no_row:
  assumes "postTelemetry E body db = (HttpJSON 200 out, db')" "\<not> io_errors out"
    "decode_batch E' body = decode_batch E body"
  shows "telemetry_rows (snd (postTelemetry E' body db')) = telemetry_rows db'"
proof -
  obtain b db1 where b: "decode_batch E body = Some b" and i: "insert_each E b 0 (b_samples b) db1 = (True, db')"
    using postTelemetry_written[OF assms(1,2)] by metis
  show ?thesis
    using insert_each_keys[OF i] assms(3) b by (intro postTelemetry_rows[of _ _ b E]) auto
qed

lemma resent_batch_changes_no_row_witness:
  "telemetry_rows (snd (postTelemetry ((example_ingest True)\<lparr>in_received := 9\<rparr>) example_body (snd example_post)))
     = telemetry_rows (snd example_post) \<and> length (telemetry_rows (snd example_post)) = 1"
proof -
  obtain out where out: "example_post = (HttpJSON 200 out, snd example_post)" "\<not> io_errors out"
    using example_post_written by blast
  have d: "decode_batch ((example_ingest True)\<lparr>in_received := 9\<rparr>) example_body = decode_batch (example_ingest True) example_body"
    by code_simp
  have "length (telemetry_rows (snd example_post)) = 1" by code_simp
  then show ?thesis
    using resent_batch_changes_no_row[OF out(1)[unfolded example_post_def] out(2) d] by (simp add: example_post_def)
qed

text \<open>A resend under the new identifier the forwarder draws for every attempt is not recognised: the
  sample is a row twice.\<close>

lemma new_batch_id_duplicates:
  "(case batch_body example_cfg ''01234567-90'' [(1, example_sample)] of
      None \<Rightarrow> False
    | Some body \<Rightarrow>
        map tr_ts (telemetry_rows (snd (postTelemetry (example_ingest True) (Some body) (snd example_post)))) = [20000, 20000])"
  by code_simp

text \<open>Without the table of samples the endpoint still answers 200, which the forwarder takes as
  written.\<close>

lemma unwritten_batch_is_acknowledged:
  "(case example_body of
      None \<Rightarrow> False
    | Some body \<Rightarrow>
        (case ingest_endpoint (example_ingest False) example_caller body empty_tables of
           (Status n, db) \<Rightarrow> n = 200 \<and> telemetry_rows db = []
         | _ \<Rightarrow> False))"
  by code_simp

section \<open>What the forwarder posts\<close>

text \<open>A sample the endpoint can store: its asset and its time are well-formed texts.\<close>

definition storable :: "ingest_env \<Rightarrow> sample \<Rightarrow> bool" where
  "storable E s \<longleftrightarrow>
     (case in_uuid E (s_asset s) of None \<Rightarrow> False | Some a \<Rightarrow> a \<noteq> uuid_nil)
     \<and> s_metric s \<noteq> []
     \<and> (case in_time E (s_ts s) of None \<Rightarrow> False | Some t \<Rightarrow> t \<noteq> zero_time)
     \<and> (case s_value s of None \<Rightarrow> False | Some q \<Rightarrow> float64 q = q)
     \<and> distinct (map fst (s_tags s))"

definition tsample_of :: "ingest_env \<Rightarrow> sample \<Rightarrow> tsample" where
  "tsample_of E s =
     \<lparr>t_asset = the (in_uuid E (s_asset s)), t_metric = s_metric s, t_value = the (s_value s),
      t_unit = Some (s_unit s), t_ts = the (in_time E (s_ts s)), t_tags = s_tags s\<rparr>"

lemma put_text_str [simp]: "put_text parse (JStr t) old = parse t"
  by (simp add: put_text_def)

lemma put_optional_string_str [simp]: "put_optional_string (JStr t) = Some (Some t)"
  by (simp add: put_optional_string_def)

lemma put_tags_telemetry:
  "distinct (map fst tags) \<Longrightarrow> put_tags (if tags = [] then JNull else tags_json tags) [] = Some tags"
  using put_entries_new[of "[]" tags] by (auto simp: put_tags_def tags_json_def)

lemma put_number_json: "float64 q = q \<Longrightarrow> put_number (json_number q) old = Some q"
  using json_float_number[of q] by (auto simp: put_number_def json_number_def split: if_splits)

lemma decode_telemetry:
  assumes "storable E s"
  shows "\<exists>j. marshal_telemetry s = Some j \<and> decode_tsample E j = Some (tsample_of E s)"
proof -
  obtain a t q where a: "in_uuid E (s_asset s) = Some a" and t: "in_time E (s_ts s) = Some t"
    and q: "s_value s = Some q" "float64 q = q" and d: "distinct (map fst (s_tags s))"
    using assms by (auto simp: storable_def split: option.splits)
  show ?thesis
    using put_tags_telemetry[OF d] put_number_json[OF q(2)] q(1) a t
    by (simp add: marshal_telemetry_def decode_tsample_def put_sample_member_def zero_tsample_def tsample_of_def)
qed

lemma those_storable:
  assumes "\<forall>d\<in>set ds. storable E (snd d)"
  shows "\<exists>js. those (map (marshal_telemetry \<circ> snd) ds) = Some js
      \<and> those (map (decode_tsample E) js) = Some (map (tsample_of E \<circ> snd) ds)"
  using assms
proof (induction ds)
  case (Cons d ds)
  moreover obtain j where "marshal_telemetry (snd d) = Some j" "decode_tsample E j = Some (tsample_of E (snd d))"
    using Cons.prems decode_telemetry by (metis list.set_intros(1))
  ultimately show ?case by auto
qed simp

lemma check_samples_storable:
  "\<forall>d\<in>set ds. storable E (snd d) \<Longrightarrow> check_samples (map (tsample_of E \<circ> snd) ds) = []"
  by (induction ds) (auto simp: storable_def tsample_of_def split: option.splits)

definition identified :: "ingest_env \<Rightarrow> fwd_cfg \<Rightarrow> bool" where
  "identified E cfg \<longleftrightarrow>
     (\<exists>site coll. in_uuid E (fc_site cfg) = Some site \<and> site \<noteq> uuid_nil
        \<and> in_uuid E (fc_collector cfg) = Some coll \<and> coll \<noteq> uuid_nil)"

lemma example_storable: "storable (example_ingest h) example_sample"
proof -
  have "float64 (43 / 2) = 43 / 2" by code_simp
  then show ?thesis by (simp add: storable_def example_ingest_def example_sample_def uuid_nil_def zero_time_def second_def)
qed

lemma example_identified: "identified (example_ingest h) example_cfg"
  by (simp add: identified_def example_ingest_def example_cfg_def uuid_nil_def)

definition batch_of :: "ingest_env \<Rightarrow> fwd_cfg \<Rightarrow> string \<Rightarrow> drained list \<Rightarrow> tbatch" where
  "batch_of E cfg bid ds =
     \<lparr>b_id = bid, b_site = the (in_uuid E (fc_site cfg)), b_collector = the (in_uuid E (fc_collector cfg)),
      b_samples = map (tsample_of E \<circ> snd) (filter decoded ds)\<rparr>"

lemma batch_body_decodes:
  assumes "\<forall>d\<in>set ds. decoded d \<longrightarrow> storable E (snd d)" "identified E cfg"
  shows "\<exists>body. batch_body cfg bid ds = Some body \<and> decode_batch E (Some body) = Some (batch_of E cfg bid ds)"
proof -
  obtain js where "those (map (marshal_telemetry \<circ> snd) (filter decoded ds)) = Some js"
    "those (map (decode_tsample E) js) = Some (map (tsample_of E \<circ> snd) (filter decoded ds))"
    using those_storable[of "filter decoded ds" E] assms(1) by auto
  then show ?thesis
    using assms(2)
    by (auto simp: batch_body_def decode_batch_def put_batch_member_def put_samples_def zero_batch_def
        batch_of_def identified_def)
qed

lemma batch_of_valid:
  assumes "\<forall>d\<in>set ds. decoded d \<longrightarrow> storable E (snd d)" "identified E cfg"
    "filter decoded ds \<noteq> []" "length ds \<le> samplesMaxLen" "8 \<le> length bid" "length bid \<le> 64"
  shows "validateBatch (batch_of E cfg bid ds) = []"
proof -
  have "length (filter decoded ds) \<le> samplesMaxLen"
    using length_filter_le[of decoded ds] assms(4) by linarith
  moreover have "check_samples (map (tsample_of E \<circ> snd) (filter decoded ds)) = []"
    using assms(1) by (intro check_samples_storable) simp
  ultimately show ?thesis
    using assms(2,3,5,6)
    by (auto simp: validateBatch_def batch_of_def identified_def batchIDMinLen_def batchIDMaxLen_def)
qed

text \<open>C35. The two sides agree on the wire format: for a batch as the forwarder drains it (at most 500
  rows, one of them decodable) whose decodable samples have well-formed assets, metrics and
  times, under identifiers that are UUIDs, the document it builds marshals, decodes at the
  endpoint to exactly those samples in order, and passes validation.\<close>

theorem forwarded_batch_is_valid:
  assumes "\<forall>d\<in>set ds. decoded d \<longrightarrow> storable E (snd d)" "identified E cfg"
    "filter decoded ds \<noteq> []" "int (length ds) \<le> defaultBatchSize" "length batch_uuid = 36" "length try_uuid = 36"
  shows "\<exists>body b. batch_body cfg (batch_uuid @ ''-'' @ take 8 try_uuid) ds = Some body
      \<and> decode_batch E (Some body) = Some b \<and> validateBatch b = []
      \<and> b_samples b = map (tsample_of E \<circ> snd) (filter decoded ds)"
proof -
  have "validateBatch (batch_of E cfg (batch_uuid @ ''-'' @ take 8 try_uuid) ds) = []"
    using assms by (intro batch_of_valid) (simp_all add: samplesMaxLen_def defaultBatchSize_def)
  then show ?thesis
    using batch_body_decodes[OF assms(1,2)] by (fastforce simp: batch_of_def)
qed

lemma forwarded_batch_is_valid_witness:
  "\<exists>body b. batch_body example_cfg (replicate 36 CHR ''a'' @ ''-'' @ take 8 (replicate 36 CHR ''b''))
        [(1, example_sample), (2, zero_sample)] = Some body
      \<and> decode_batch (example_ingest True) (Some body) = Some b \<and> validateBatch b = []
      \<and> b_samples b = map (tsample_of (example_ingest True) \<circ> snd) (filter decoded [(1, example_sample), (2, zero_sample)])"
proof (rule forwarded_batch_is_valid)
  show "\<forall>d\<in>set [(1, example_sample), (2, zero_sample)]. decoded d \<longrightarrow> storable (example_ingest True) (snd d)"
    using example_storable by (simp add: decoded_def zero_sample_def)
  show "filter decoded [(1, example_sample), (2, zero_sample)] \<noteq> []" by simp
qed (simp_all add: example_identified defaultBatchSize_def)

section \<open>From the spool to the table\<close>

text \<open>\<open>in_table E db d\<close>: the sample is a row, its time rounded down to the microsecond.\<close>

definition in_table :: "ingest_env \<Rightarrow> telemetry_db \<Rightarrow> drained \<Rightarrow> bool" where
  "in_table E db d \<longleftrightarrow>
     (\<exists>r\<in>set (telemetry_rows db). tr_asset r = t_asset (tsample_of E (snd d)) \<and> tr_metric r = s_metric (snd d)
        \<and> tr_value r = t_value (tsample_of E (snd d)) \<and> tr_ts r = t_ts (tsample_of E (snd d)) div 1000 * 1000
        \<and> tr_unit r = Some (s_unit (snd d)) \<and> tr_tags r = s_tags (snd d))"

lemma in_table_rows_of:
  assumes "d \<in> set ds" "decoded d" "set (rows_of E (batch_of E cfg bid ds) n (b_samples (batch_of E cfg bid ds))) \<subseteq> set (telemetry_rows db)"
  shows "in_table E db d"
proof -
  let ?b = "batch_of E cfg bid ds"
  have "tsample_of E (snd d) \<in> set (b_samples ?b)" using assms(1,2) by (auto simp: batch_of_def)
  then obtain i where i: "i < length (b_samples ?b)" "b_samples ?b ! i = tsample_of E (snd d)"
    by (auto simp: in_set_conv_nth)
  then have "sample_row E ?b (n + i) (tsample_of E (snd d)) \<in> set (rows_of E ?b n (b_samples ?b))"
    by (auto simp: rows_of_def set_zip intro!: image_eqI[of _ _ "(n + i, tsample_of E (snd d))"] exI[of _ i])
  then show ?thesis
    using assms(3) by (auto simp: in_table_def sample_row_def timestamptz_def tsample_of_def intro!: bexI)
qed

lemma insert_each_unfailing:
  "\<forall>i. in_insert_fault E i = None \<Longrightarrow> fst (insert_each E b n ss db)"
  by (induction ss arbitrary: n db) (auto simp: InsertTelemetrySample_def split: prod.splits)

lemma status_of_error: "status_of (HttpError c m) = c"
  by (simp add: status_of_def)

text \<open>An endpoint that answers 2xx has run the handler, and without failing inserts it has no error
  to flag.\<close>

lemma Mapped_not_2xx: "fst (Mapped e) \<ge> 400"
  by (cases e) (simp_all add: Mapped_def)

lemma ingest_endpoint_accepts:
  assumes "ingest_endpoint E caller body db = (Status n, db')" "200 \<le> n" "n < 300"
    "in_hypertable E" "\<forall>i. in_insert_fault E i = None"
  shows "\<exists>out. postTelemetry E (Some body) db = (HttpJSON 200 out, db') \<and> \<not> io_errors out"
proof -
  obtain r where r: "serve_telemetry E caller (Some body) db = (r, db')" "n = int (status_of r)"
    using assms(1) by (auto simp: ingest_endpoint_def split: prod.splits)
  have "\<not> (\<exists>code m. r = HttpError code m \<and> 400 \<le> code)"
    using r(2) assms(3) by (auto simp: status_of_def)
  moreover have "RequireCapability capIngestWrite caller = Refuse code msg \<Longrightarrow> 400 \<le> code" for code msg
    by (auto simp: RequireCapability_def split: option.splits if_splits)
  ultimately have p: "postTelemetry E (Some body) db = (r, db')" "\<not> (\<exists>code m. r = HttpError code m \<and> 400 \<le> code)"
    using r(1) by (auto simp: serve_telemetry_def split: gate.splits)
  show ?thesis
    using p assms(4) insert_each_unfailing[OF assms(5)] Mapped_not_2xx
    by (auto simp: postTelemetry_def insertSamples_def Let_def split: option.splits if_splits prod.splits)
      (metis fst_conv)+
qed

definition batch_id_of :: "fwd \<Rightarrow> fturn \<Rightarrow> string" where
  "batch_id_of fw T = (if fw_batch fw = [] then ft_batch_uuid T else fw_batch fw) @ ''-'' @ take 8 (ft_try_uuid T)"

lemma sendBatch_posts:
  assumes "sendBatch cfg T post ds (fw_batch fw) c = (Sent ids, bid, c', acc)" "filter decoded ds \<noteq> []"
  shows "\<exists>body n. batch_body cfg (batch_id_of fw T) ds = Some body \<and> post body c = (Status n, c')
      \<and> 200 \<le> n \<and> n < 300"
  using assms
  by (auto simp: sendBatch_def Let_def batch_id_of_def split: option.splits if_splits prod.splits reply.splits)

text \<open>C32. A sample leaves the collector only for the table.  Take one iteration of the forwarder
  against the ingest endpoint, which writes samples and none of whose sample inserts fails; let no
  row of the table bear the batch id of this attempt, the spool's decodable samples be such that the
  endpoint can store them, and the configured site and collector be identifiers.  Whatever else fails
  in the iteration, it removes a decodable row from the spool only if its asset, metric, value, unit
  and tags are now in a row of the table, whose time is the sample's, rounded down to the microsecond.\<close>

theorem acknowledged_samples_are_in_table:
  assumes "forward_turn cfg T (ingest_endpoint E caller) (fw, db) = Some ((fw', db'), acc, w)"
    "spool_ok (fw_spool fw)" "in_hypertable E" "\<forall>i. in_insert_fault E i = None"
    "\<forall>r\<in>set (sp_rows (fw_spool fw)). decoded (scan_row r) \<longrightarrow> storable E (snd (scan_row r))" "identified E cfg"
    "\<forall>x\<in>set (telemetry_rows db). tr_batch x \<noteq> batch_id_of fw T"
    "r \<in> set (sp_rows (fw_spool fw))" "r \<notin> set (sp_rows (fw_spool fw'))" "decoded (scan_row r)"
  shows "in_table E db' (scan_row r)"
proof -
  obtain ds ids bid where ds: "ds = map scan_row (take 500 (sp_rows (fw_spool fw)))" "scan_row r \<in> set ds"
    and s: "sendBatch cfg T (ingest_endpoint E caller) ds (fw_batch fw) db = (Sent ids, bid, db', acc)"
    using forward_turn_removes[OF assms(1,2,8,9)] by blast
  have "filter decoded ds \<noteq> []" using ds(2) assms(10) by (auto simp: filter_empty_conv)
  then obtain body n where body: "batch_body cfg (batch_id_of fw T) ds = Some body"
    and n: "ingest_endpoint E caller body db = (Status n, db')" "200 \<le> n" "n < 300"
    using sendBatch_posts[OF s] by blast
  have "\<forall>d\<in>set ds. decoded d \<longrightarrow> storable E (snd d)"
    using assms(5) ds(1) by (auto dest: in_set_takeD)
  then have dec: "decode_batch E (Some body) = Some (batch_of E cfg (batch_id_of fw T) ds)"
    using batch_body_decodes[OF _ assms(6), of ds "batch_id_of fw T"] body by auto
  let ?b = "batch_of E cfg (batch_id_of fw T) ds"
  obtain out where out: "postTelemetry E (Some body) db = (HttpJSON 200 out, db')" "\<not> io_errors out"
    using ingest_endpoint_accepts[OF n assms(3,4)] by blast
  obtain db1 where v: "validateBatch ?b = []" and db1: "telemetry_rows db1 = telemetry_rows db"
    and i: "insert_each E ?b 0 (b_samples ?b) db1 = (True, db')"
    using postTelemetry_written[OF out] dec by (metis option.inject)
  have "telemetry_rows db' = telemetry_rows db1 @ rows_of E ?b 0 (b_samples ?b)"
    using validateBatch_length[OF v] assms(7) db1
    by (intro insert_each_writes[OF i]) (auto simp: batch_of_def)
  then show ?thesis by (intro in_table_rows_of[OF ds(2) assms(10), where n = 0 and cfg = cfg and bid = "batch_id_of fw T"]) simp
qed

lemma acknowledged_samples_are_in_table_witness:
  "\<exists>fw' db' acc w. forward_turn example_cfg example_turn (ingest_endpoint (example_ingest True) example_caller)
        (new_forwarder example_spool, empty_tables) = Some ((fw', db'), acc, w)
      \<and> sp_rows (fw_spool fw') = [] \<and> in_table (example_ingest True) db' (1, example_sample)"
proof -
  let ?post = "ingest_endpoint (example_ingest True) example_caller"
  let ?fw = "new_forwarder example_spool" and ?r = "(1, marshal_sample example_sample)"
  have rows: "sp_rows (fw_spool ?fw) = [?r]" by (simp add: new_forwarder_def example_spool_rows)
  have ok: "spool_ok (fw_spool ?fw)" by (simp add: new_forwarder_def example_spool_ok)
  have calm: "calm example_turn" by (simp add: calm_def example_turn_def)
  have "(case sendBatch example_cfg example_turn ?post [(1, example_sample)] [] empty_tables of
      (Sent ids, bid, db, acc) \<Rightarrow> ids = [1] | _ \<Rightarrow> False)" by code_simp
  then obtain bid db' acc where "sendBatch example_cfg example_turn ?post [(1, example_sample)] [] empty_tables
      = (Sent [1], bid, db', acc)"
    by (auto split: prod.splits send_result.splits)
  then have "sendBatch example_cfg example_turn ?post (map scan_row (take 500 (sp_rows (fw_spool ?fw)))) (fw_batch ?fw)
      empty_tables = (Sent (map fst (take 500 (sp_rows (fw_spool ?fw)))), bid, db', acc)"
    by (simp add: rows example_scan) (simp add: new_forwarder_def)
  from forward_turn_sent[OF ok calm _ this refl] rows obtain fw' where
    t: "forward_turn example_cfg example_turn ?post (?fw, empty_tables) = Some ((fw', db'), acc, 0)"
    and empty: "sp_rows (fw_spool fw') = []" by auto
  have "in_table (example_ingest True) db' (scan_row ?r)"
    by (rule acknowledged_samples_are_in_table[OF t ok])
      (simp_all only: rows empty, simp_all add: example_scan example_storable example_identified empty_tables_def,
       simp_all add: example_ingest_def)
  then show ?thesis using t empty by (auto simp: example_scan)
qed

end
