(* ===== verification/Spec2Isabelle.thy ===== *)
theory Spec2Isabelle
  imports Carve Utilization FreeSpace Validators Scope Authn LirCarving ArinWorker Nsec3Serve IpamSafety IpamFindings
    IpamReadProps IpamBatch DhcpReconcileProps DnsSafety DnsRotation DnsReadProps TelemetryPath
begin

text \<open>
  A model of the core of usg-dcim: the Go service \<^verbatim>\<open>packages/otter-go\<close> that keeps the registry
  of address space, the address plan, the DHCP leases and the DNS zones of a network, the
  signing plugin \<^verbatim>\<open>packages/wolf/coredns-nsec3sign\<close>, and the way of a sample from the collector
  \<^verbatim>\<open>packages/badger\<close> to the service.

  \<^bold>\<open>The program.\<close>  An HTTP request passes the middleware of \<^verbatim>\<open>internal/auth\<close>, which finds out
  who the caller is and whether it holds the capability of the route, and reaches a handler.
  A handler reads and writes Postgres through the queries that sqlc generates from SQL
  (\<^verbatim>\<open>db/generated\<close>), enforces the caller's scope on the fabric, site or organization of the rows
  it touches, and answers.  Jobs (\<^verbatim>\<open>internal/scheduler/jobs\<close>, \<^verbatim>\<open>internal/lir/arin\<close>) run the same
  queries from a timer.  Except where the code opens a transaction, every statement commits by
  itself, so a handler that stops half way leaves what it has written, and statements of other
  requests run between its own.

  \<^bold>\<open>How it is modelled.\<close>  A table is the list of its rows, a database the record of its tables.
  A query is a function from the database to an error or its rows, and the next database, with
  the constraints of the migrations (primary keys, UNIQUE, CHECK, enum casts, most widths, foreign keys
  between modelled tables).  A handler is a function of the state that goes on with a value or has
  written its answer (\<open>Handler\<close>: \<open>hbind\<close>, \<open>hanswer\<close>).  What the program does not define is a
  parameter: the environment record (\<open>db_env\<close> and its extensions) says which statement fails
  (\<open>db_fault\<close>), what other transactions do before each statement (\<open>others\<close>), how ids are generated,
  and how Postgres reads \<^verbatim>\<open>inet\<close>, \<^verbatim>\<open>cidr\<close> and \<^verbatim>\<open>jsonb\<close>; further parameters stand for ARIN, Kea, JWT
  verification, key generation, base64 and hash functions.  A property that needs more of them
  than their type says so in its hypotheses.  Errors are the left summand or \<open>None\<close>; machine
  integers are words, or \<open>int\<close> and \<open>nat\<close> with the wrap written out.

  \<^bold>\<open>The theories.\<close>
  \<^item> Foundations: \<open>Prelude\<close> (lists, options, text), \<open>NetIP\<close>, \<open>NetText\<close> and \<open>NetParse\<close> (Go's
    \<^verbatim>\<open>net/netip\<close>: addresses, prefixes, their texts and that printing parses back), \<open>Json\<close> (documents
    and partial updates), \<open>Httpx\<close> (\<^verbatim>\<open>internal/httpx\<close>: answers, error mapping, page bounds), \<open>Handler\<close>
    (handlers, and the invariant rules \<open>keeps\<close> and \<open>from_to\<close> that every later invariant uses).
  \<^item> Access: \<open>Scope\<close> (capability matching and the scope of a role assignment, \<^verbatim>\<open>internal/auth\<close>),
    \<open>Authn\<close> (API tokens, session tokens, the middleware).
  \<^item> Carving: \<open>Carve\<close> (both CIDR carvers), \<open>Utilization\<close> and \<open>FreeSpace\<close> (the read endpoints over
    free space), \<open>Validators\<close> (\<^verbatim>\<open>internal/ipam/validators.go\<close>).
  \<^item> The registry (\<^verbatim>\<open>internal/lir\<close>): \<open>LirStore\<close> (tables and queries), \<open>LirHandlers\<close>, \<open>LirSystem\<close> (its
    transitions as a step relation), \<open>LirSafety\<close>, \<open>LirProps\<close> and \<open>LirCarving\<close> (invariants, histories,
    what is granted), \<open>ArinClient\<close> and \<open>ArinWorker\<close> (the client of ARIN's registration service and
    the worker that files reassignments).
  \<^item> The address plan (\<^verbatim>\<open>internal/ipam\<close>): \<open>IpamStore\<close> and \<open>IpamQueries\<close> (rows and statements),
    \<open>IpamHandlers\<close> and \<open>IpamOverlays\<close> (mutations and batches), \<open>IpamReads\<close> (lists), \<open>IpamRoutes\<close>
    (the gates in front of them), \<open>IpamFrame\<close>, \<open>IpamScope\<close> and \<open>IpamSafety\<close> (a fabric out of scope is
    untouched), \<open>IpamPlan\<close> and \<open>IpamNesting\<close> (the nesting of the plan), \<open>IpamReadProps\<close>, \<open>IpamBatch\<close>,
    \<open>IpamFindings\<close>.
  \<^item> DHCP (\<^verbatim>\<open>internal/dhcp\<close> and its jobs): \<open>DhcpLeases\<close> and \<open>DhcpLeaseProps\<close> (Kea's leases into the
    plan, their ageing), \<open>DhcpReconcile\<close> and \<open>DhcpReconcileProps\<close> (reservations).
  \<^item> DNS (\<^verbatim>\<open>internal/dns\<close> and its jobs): \<open>DnsText\<close> (record data, zone text, DS and CDS records, import),
    \<open>DnsStore\<close> (rows and statements), \<open>DnsZones\<close> (zones, records, keys), \<open>DnsSync\<close> (the projection of
    host names), \<open>DnsResources\<close> and \<open>DnsPolicies\<close> (servers, groups, forwarders, catalogs, blocklists,
    views, health checks, peers, bindings), \<open>DnsRoutes\<close> (the gates), \<open>DnsFrame\<close>, \<open>DnsFence\<close>,
    \<open>DnsResidue\<close> and \<open>DnsSafety\<close> (what a frozen or foreign zone is safe from, and what the routes that
    do not stop at it leave), \<open>DnsRotation\<close> (key rotation),
    \<open>DnsReads\<close> and \<open>DnsReadProps\<close> (the lists and the reads by id).
  \<^item> The signer (\<^verbatim>\<open>packages/wolf/coredns-nsec3sign\<close>): \<open>Nsec3Chain\<close>, \<open>Nsec3Denial\<close>, \<open>Nsec3Sign\<close> (the chain,
    the denials, signatures and their cache), \<open>Nsec3Proofs\<close> and \<open>Nsec3Serve\<close> (what a validating
    resolver can conclude, which signatures are fresh).
  \<^item> Telemetry: \<open>BadgerSpool\<close> and \<open>BadgerForward\<close> (the collector's queue on disk, its forward loop and
    heartbeat, \<^verbatim>\<open>packages/badger/internal\<close>), \<open>BadgerProps\<close> (nothing is lost, a backlog is sent, the
    backoff), \<open>TelemetryIngest\<close> (\<^verbatim>\<open>internal/ingest\<close>, \<^verbatim>\<open>internal/telemetry\<close> and the freshness sweep),
    \<open>TelemetryPath\<close> (both ends together).

  The functions keep the names of the source; a query has the name of its sqlc method.

  \<^bold>\<open>What is shown.\<close>  Of the carvers: first fit, and that \<^verbatim>\<open>none\<close> means full.  Of the registry: its
  invariants under every interleaving of statements, that an approval grants once and within one
  organization, what an error leaves behind, that a tick of the worker keeps and drains; that ranges
  granted from one source are disjoint when calls run one at a time.  Of the signer: without opt-out its
  denials are exactly those RFC 5155 asks for, as long as the names concerned do not collide under
  the hash, and nothing it serves is about to expire while the janitor runs every eight hours.
  Of the plan and of DNS: mutations and lists stay within the caller's scope, mutations keep the
  structure, with the exceptions that each property names; which routes reach a frozen zone and how far;
  no rotation unsigns a zone.  Of DHCP: leases never overwrite what an operator owns, and the
  reservation sync fills only columns that were unset.  Of telemetry: a sample leaves the collector only
  after an answer 2xx, and then is a row, to the microsecond, when rows are written at all.  Lemmas that end in \<open>_witness\<close> apply a property to a concrete state.

  \<^bold>\<open>Bounds.\<close>  No definition has fuel: loops are structural recursion, or \<open>function\<close> with a measure
  (the carvers count up to the number of candidates, which the code caps; the IPv6 parser counts
  groups).  The one bound of the source that could give up too early, the number of probes for a
  free address, is shown to be enough by the pigeonhole principle.

  \<^bold>\<open>Not modelled.\<close>  The bundles of configuration text for CoreDNS, Hickory and Kea and their tags, the
  read-only aggregations in floating point (dashboards, forecast), full-text search, the
  row editors of the inventory and of BGP, identity providers and password hashing, device drivers
  and the wiring of processes: I/O, generated text or arithmetic in \<^verbatim>\<open>float64\<close> with no state of their
  own.  Within the modelled parts: texts of parse errors, log lines, the metadata of audit events,
  time stamps the program never reads, and references into tables that are not modelled, which fail
  through \<open>db_fault\<close>.  Column widths are counted in bytes; a width that a statement does not check is,
  like every other refusal of Postgres that is not written out, one of the faults of that statement.
\<close>

end
